(* ===== verification/Go_Prelude.thy ===== *)
theory Go_Prelude
  imports Main "HOL-Library.List_Lexorder" "HOL-Library.Char_ord" "HOL-Library.Multiset" "HOL-Library.Product_Lexorder"
begin

text \<open>
  Prelude of the development: the parts of Go and of its standard library that every component
  of OpenClarion uses, and the generic facts about them.

  \<^item> errors: a Go error is its static text (the format string without the interpolated values)
    and the sentinels its \<open>%w\<close> chain wraps; \<open>errors_Is\<close> is \<open>errors.Is\<close>;
  \<^item> fallible calls: the value \<open>Inl e\<close> is the pair \<open>(zero, err)\<close> of the code, \<open>Inr x\<close> is
    \<open>(x, nil)\<close>;
  \<^item> strings are byte sequences, as in Go (\<open>len\<close> is \<open>length\<close>);
  \<^item> \<open>time.Time\<close> is the number of nanoseconds since Go's zero time, so the zero time is 0 and
    \<open>Equal\<close>, \<open>Before\<close> and \<open>After\<close> are the relations of \<open>int\<close>; the location of a time is
    never read by the code modelled here;
  \<^item> \<open>int\<close> and \<open>int64\<close> are integers, with the wrap-around of 64 bits written out where the code
    computes with unchecked values.
\<close>

section \<open>Errors and results\<close>

datatype sentinel =
    ErrNotFound
  | ErrAlreadyExists
  | ErrInvariantViolation
  | ErrPreconditionFailed
  | ErrDuplicateMessageID
  | ErrTurnInFlight
  | ErrIncompletePull
  | ErrUnauthenticated
  | ErrUnauthorized
  | ErrTicketConsumed
  | ErrTicketExpired
  | ErrAccessDenied
  | ErrTenantDisabled
  | ContextCanceled
  | ContextDeadlineExceeded

datatype go_error = GoErr (err_text: string) (err_chain: "sentinel list")

type_synonym 'a result = "go_error + 'a"

definition errors_Is :: "go_error \<Rightarrow> sentinel \<Rightarrow> bool" where
  "errors_Is e s \<longleftrightarrow> s \<in> set (err_chain e)"

definition invariant_error :: "string \<Rightarrow> go_error" where
  "invariant_error msg = GoErr msg [ErrInvariantViolation]"

definition wrap_error :: "string \<Rightarrow> go_error \<Rightarrow> go_error" where
  "wrap_error msg e = GoErr msg (err_chain e)"

fun bindE :: "'a result \<Rightarrow> ('a \<Rightarrow> 'b result) \<Rightarrow> 'b result" where
  "bindE (Inl e) f = Inl e"
| "bindE (Inr x) f = f x"

definition is_ok :: "'a result \<Rightarrow> bool" where
  "is_ok r \<longleftrightarrow> (\<exists>x. r = Inr x)"

lemma is_ok_code [code]: "is_ok (Inl e) \<longleftrightarrow> False" "is_ok (Inr x) \<longleftrightarrow> True"
  by (simp_all add: is_ok_def)

lemma errors_Is_invariant [simp]: "errors_Is (invariant_error msg) s \<longleftrightarrow> s = ErrInvariantViolation"
  by (auto simp: errors_Is_def invariant_error_def)

lemma errors_Is_wrap [simp]: "errors_Is (wrap_error msg e) s = errors_Is e s"
  by (simp add: errors_Is_def wrap_error_def)

lemma errors_Is_GoErr [simp]: "errors_Is (GoErr msg ch) s \<longleftrightarrow> s \<in> set ch"
  by (simp add: errors_Is_def)

lemma is_ok_simps [simp]: "is_ok (Inr x)" "\<not> is_ok (Inl e)"
  by (auto simp: is_ok_def)

lemma bindE_eq_Inr_iff: "bindE r f = Inr y \<longleftrightarrow> (\<exists>x. r = Inr x \<and> f x = Inr y)"
  by (cases r) auto

lemma bindE_eq_Inl_iff:
  "bindE r f = Inl e \<longleftrightarrow> r = Inl e \<or> (\<exists>x. r = Inr x \<and> f x = Inl e)"
  by (cases r) auto

lemma if_Inl_eq_Inr [simp]:
  "((if c then Inl e else r) = Inr x) \<longleftrightarrow> (\<not> c \<and> r = Inr x)"
  by auto

section \<open>Times and machine integers\<close>

type_synonym go_time = int
type_synonym go_duration = int

definition IsZero :: "go_time \<Rightarrow> bool" where
  "IsZero t \<longleftrightarrow> t = 0"

definition max_int64 :: int where
  "max_int64 = 9223372036854775807"

definition min_int64 :: int where
  "min_int64 = - 9223372036854775808"

text \<open>Two's complement reading of an integer modulo \<open>2 ^ 64\<close>.\<close>

definition wrap64 :: "int \<Rightarrow> int" where
  "wrap64 i = (i + 9223372036854775808) mod 18446744073709551616 - 9223372036854775808"

definition int64 :: "int \<Rightarrow> bool" where
  "int64 i \<longleftrightarrow> min_int64 \<le> i \<and> i \<le> max_int64"

text \<open>\<open>Time.Sub\<close> saturates at the bounds of \<open>time.Duration\<close>.\<close>

definition time_Sub :: "go_time \<Rightarrow> go_time \<Rightarrow> go_duration" where
  "time_Sub t u = max min_int64 (min max_int64 (t - u))"

text \<open>
  \<open>NormalizeUTCMicro\<close> of \<open>internal/domain/time.go\<close>. \<open>Truncate\<close> rounds down to a multiple of
  the microsecond since the zero time, also before it.
\<close>

definition NormalizeUTCMicro :: "go_time \<Rightarrow> go_time" where
  "NormalizeUTCMicro t = (if IsZero t then t else t - t mod 1000)"

definition micro_time :: "go_time \<Rightarrow> bool" where
  "micro_time t \<longleftrightarrow> t mod 1000 = 0"

lemma wrap64_id: "int64 i \<Longrightarrow> wrap64 i = i"
  by (simp add: wrap64_def int64_def min_int64_def max_int64_def)

lemma int64_wrap64 [simp]: "int64 (wrap64 i)"
  by (simp add: wrap64_def int64_def min_int64_def max_int64_def)

lemma micro_time_0 [simp]: "micro_time 0"
  by (simp add: micro_time_def)

lemma NormalizeUTCMicro_0 [simp]: "NormalizeUTCMicro 0 = 0"
  by (simp add: NormalizeUTCMicro_def IsZero_def)

lemma NormalizeUTCMicro_eq: "NormalizeUTCMicro t = t - t mod 1000"
  by (auto simp: NormalizeUTCMicro_def IsZero_def)

lemma micro_time_Normalize [simp]: "micro_time (NormalizeUTCMicro t)"
  by (simp add: NormalizeUTCMicro_eq micro_time_def minus_mod_eq_mult_div)

lemma Normalize_micro_time [simp]: "micro_time t \<Longrightarrow> NormalizeUTCMicro t = t"
  by (simp add: NormalizeUTCMicro_eq micro_time_def)

lemma Normalize_idem [simp]: "NormalizeUTCMicro (NormalizeUTCMicro t) = NormalizeUTCMicro t"
  by simp

lemma Normalize_mono: "t \<le> u \<Longrightarrow> NormalizeUTCMicro t \<le> NormalizeUTCMicro u"
  by (simp add: NormalizeUTCMicro_eq minus_mod_eq_mult_div zdiv_mono1)

lemma Normalize_bounds: "NormalizeUTCMicro t \<le> t \<and> t < NormalizeUTCMicro t + 1000"
proof -
  have "0 \<le> t mod 1000 \<and> t mod 1000 < 1000" by simp
  then show ?thesis unfolding NormalizeUTCMicro_eq by arith
qed

lemma time_Sub_less_iff:
  "\<lbrakk>0 < d; d \<le> max_int64\<rbrakk> \<Longrightarrow> time_Sub t u < d \<longleftrightarrow> t - u < d"
  by (auto simp: time_Sub_def max_int64_def min_int64_def)

section \<open>Strings\<close>

text \<open>
  \<open>strings.TrimSpace\<close> removes the runes of \<open>unicode.IsSpace\<close> from both ends. Over bytes these
  are the UTF-8 sequences below. A sequence at the end of a string is decoded by
  \<open>DecodeLastRune\<close> exactly when it is a suffix, because only its first byte starts a rune.
\<close>

definition byte :: "nat \<Rightarrow> char" where
  "byte n = char_of n"

definition ascii_space_runes :: "string list" where
  "ascii_space_runes = map (\<lambda>n. [byte n]) [32, 9, 10, 11, 12, 13]"

definition wide_space_runes :: "string list" where
  "wide_space_runes =
     map (map byte) ([[194, 133], [194, 160], [225, 154, 128]]
       @ map (\<lambda>n. [226, 128, n]) [128 ..< 139]
       @ [[226, 128, 168], [226, 128, 169], [226, 128, 175], [226, 129, 159], [227, 128, 128]])"

definition space_runes :: "string list" where
  "space_runes = ascii_space_runes @ wide_space_runes"

lemma space_runes_code [code]:
  "space_runes =
     [[CHR 0x20], [CHR 0x09], [CHR 0x0A], [CHR 0x0B], [CHR 0x0C], [CHR 0x0D],
      [CHR 0xC2, CHR 0x85], [CHR 0xC2, CHR 0xA0], [CHR 0xE1, CHR 0x9A, CHR 0x80],
      [CHR 0xE2, CHR 0x80, CHR 0x80], [CHR 0xE2, CHR 0x80, CHR 0x81],
      [CHR 0xE2, CHR 0x80, CHR 0x82], [CHR 0xE2, CHR 0x80, CHR 0x83],
      [CHR 0xE2, CHR 0x80, CHR 0x84], [CHR 0xE2, CHR 0x80, CHR 0x85],
      [CHR 0xE2, CHR 0x80, CHR 0x86], [CHR 0xE2, CHR 0x80, CHR 0x87],
      [CHR 0xE2, CHR 0x80, CHR 0x88], [CHR 0xE2, CHR 0x80, CHR 0x89],
      [CHR 0xE2, CHR 0x80, CHR 0x8A], [CHR 0xE2, CHR 0x80, CHR 0xA8],
      [CHR 0xE2, CHR 0x80, CHR 0xA9], [CHR 0xE2, CHR 0x80, CHR 0xAF],
      [CHR 0xE2, CHR 0x81, CHR 0x9F], [CHR 0xE3, CHR 0x80, CHR 0x80]]"
  by (simp add: space_runes_def ascii_space_runes_def wide_space_runes_def byte_def upt_rec char_of_eq_iff)

fun has_prefix :: "'a list \<Rightarrow> 'a list \<Rightarrow> bool" where
  "has_prefix [] ys = True"
| "has_prefix (x # xs) [] = False"
| "has_prefix (x # xs) (y # ys) = (x = y \<and> has_prefix xs ys)"

text \<open>Drop patterns from the front as long as one of them matches.\<close>

function ltrim :: "'a list list \<Rightarrow> 'a list \<Rightarrow> 'a list" where
  "ltrim pats s =
     (case find (\<lambda>p. p \<noteq> [] \<and> has_prefix p s) pats of
        None \<Rightarrow> s
      | Some p \<Rightarrow> ltrim pats (drop (length p) s))"
  by pat_completeness auto

lemma has_prefix_iff: "has_prefix p s \<longleftrightarrow> (\<exists>t. s = p @ t)"
  by (induction p s rule: has_prefix.induct) auto

lemma has_prefix_append [simp]: "has_prefix p (p @ t)"
  by (auto simp: has_prefix_iff)

termination ltrim
proof (relation "measure (\<lambda>(pats, s). length s)", simp)
  fix pats :: "'a list list" and s p :: "'a list"
  assume "find (\<lambda>p. p \<noteq> [] \<and> has_prefix p s) pats = Some p"
  then have "p \<noteq> []" "has_prefix p s"
    by (auto simp: find_Some_iff)
  then show "((pats, drop (length p) s), pats, s) \<in> measure (\<lambda>(pats, s). length s)"
    by (cases p; cases s) auto
qed

declare ltrim.simps [simp del]

definition TrimLeft :: "string \<Rightarrow> string" where
  "TrimLeft s = ltrim space_runes s"

definition TrimRight :: "string \<Rightarrow> string" where
  "TrimRight s = rev (ltrim (map rev space_runes) (rev s))"

definition TrimSpace :: "string \<Rightarrow> string" where
  "TrimSpace s = TrimRight (TrimLeft s)"

text \<open>
  \<open>strings.ToLower\<close>: on an ASCII string it lowers the letters A to Z; a string with a byte at or
  above 128 goes through the Unicode tables, which are the parameter \<open>unicode_lower\<close>.
\<close>

definition lower_byte :: "char \<Rightarrow> char" where
  "lower_byte c =
     (let n = (of_char c :: nat) in if 65 \<le> n \<and> n \<le> 90 then char_of (n + 32) else c)"

definition is_ascii :: "string \<Rightarrow> bool" where
  "is_ascii s \<longleftrightarrow> list_all (\<lambda>c. (of_char c :: nat) < 128) s"

definition ToLower :: "(string \<Rightarrow> string) \<Rightarrow> string \<Rightarrow> string" where
  "ToLower unicode_lower s = (if is_ascii s then map lower_byte s else unicode_lower s)"

fun Contains :: "'a list \<Rightarrow> 'a list \<Rightarrow> bool" where
  "Contains [] sub = (sub = [])"
| "Contains (x # xs) sub = (has_prefix sub (x # xs) \<or> Contains xs sub)"

lemma Contains_iff: "Contains s sub \<longleftrightarrow> (\<exists>u v. s = u @ sub @ v)"
proof (induction s sub rule: Contains.induct)
  case (1 sub)
  then show ?case by auto
next
  case (2 x xs sub)
  have "(\<exists>u v. x # xs = u @ sub @ v) \<longleftrightarrow>
      (\<exists>v. x # xs = sub @ v) \<or> (\<exists>u v. xs = u @ sub @ v)"
    by (metis append_Cons append_Nil neq_Nil_conv list.inject)
  with 2 show ?case by (auto simp: has_prefix_iff)
qed

subsection \<open>Facts about trimming\<close>

definition no_space_prefix :: "'a list list \<Rightarrow> 'a list \<Rightarrow> bool" where
  "no_space_prefix pats s \<longleftrightarrow> (\<forall>p \<in> set pats. p \<noteq> [] \<longrightarrow> \<not> has_prefix p s)"

definition trimmed :: "string \<Rightarrow> bool" where
  "trimmed s \<longleftrightarrow> no_space_prefix space_runes s \<and> no_space_prefix (map rev space_runes) (rev s)"

lemma ltrim_None:
  "find (\<lambda>p. p \<noteq> [] \<and> has_prefix p s) pats = None \<Longrightarrow> ltrim pats s = s"
  by (subst ltrim.simps) simp

lemma ltrim_Some:
  "find (\<lambda>p. p \<noteq> [] \<and> has_prefix p s) pats = Some p \<Longrightarrow>
   ltrim pats s = ltrim pats (drop (length p) s)"
  by (subst ltrim.simps) simp

lemma ltrim_no_prefix: "no_space_prefix pats (ltrim pats s)"
proof (induction pats s rule: ltrim.induct)
  case (1 pats s)
  show ?case
  proof (cases "find (\<lambda>p. p \<noteq> [] \<and> has_prefix p s) pats")
    case None
    then show ?thesis
      by (auto simp: ltrim_None no_space_prefix_def find_None_iff)
  next
    case (Some p)
    with 1 show ?thesis by (simp add: ltrim_Some)
  qed
qed

lemma ltrim_id: "no_space_prefix pats s \<Longrightarrow> ltrim pats s = s"
  by (rule ltrim_None) (auto simp: no_space_prefix_def find_None_iff)

lemma ltrim_suffix: "\<exists>u. s = u @ ltrim pats s"
proof (induction pats s rule: ltrim.induct)
  case (1 pats s)
  show ?case
  proof (cases "find (\<lambda>p. p \<noteq> [] \<and> has_prefix p s) pats")
    case None
    then show ?thesis by (simp add: ltrim_None)
  next
    case (Some p)
    with 1 obtain u where "drop (length p) s = u @ ltrim pats (drop (length p) s)" by blast
    then have "s = (take (length p) s @ u) @ ltrim pats (drop (length p) s)"
      by (metis append_assoc append_take_drop_id)
    then show ?thesis by (metis Some ltrim_Some)
  qed
qed

lemma no_space_prefix_take:
  assumes "no_space_prefix pats (a @ b)"
  shows "no_space_prefix pats a"
  using assms by (fastforce simp: no_space_prefix_def has_prefix_iff)

lemma TrimSpace_trimmed [simp]: "trimmed (TrimSpace s)"
proof -
  let ?l = "TrimLeft s"
  let ?r = "ltrim (map rev space_runes) (rev ?l)"
  obtain u where "rev ?l = u @ ?r" using ltrim_suffix by metis
  then have "?l = rev ?r @ rev u" by (metis rev_append rev_rev_ident)
  moreover have "no_space_prefix space_runes ?l"
    by (simp add: TrimLeft_def ltrim_no_prefix)
  ultimately have "no_space_prefix space_runes (rev ?r)"
    by (metis no_space_prefix_take)
  then show ?thesis
    by (simp add: trimmed_def TrimSpace_def TrimRight_def ltrim_no_prefix)
qed

lemma TrimSpace_id [simp]: "trimmed s \<Longrightarrow> TrimSpace s = s"
  by (simp add: trimmed_def TrimSpace_def TrimRight_def TrimLeft_def ltrim_id)

lemma TrimSpace_idem [simp]: "TrimSpace (TrimSpace s) = TrimSpace s"
  by simp

lemma trimmed_Nil [simp]: "trimmed []"
  by (auto simp: trimmed_def no_space_prefix_def has_prefix_iff)

lemma TrimSpace_Nil [simp]: "TrimSpace [] = []"
  by simp

lemma TrimSpace_sublist: "\<exists>u v. s = u @ TrimSpace s @ v"
proof -
  obtain u where u: "s = u @ TrimLeft s"
    using ltrim_suffix [of s space_runes] by (auto simp: TrimLeft_def)
  obtain v where "rev (TrimLeft s) = v @ ltrim (map rev space_runes) (rev (TrimLeft s))"
    using ltrim_suffix by metis
  then have "TrimLeft s = TrimSpace s @ rev v"
    unfolding TrimSpace_def TrimRight_def by (metis rev_append rev_rev_ident)
  with u show ?thesis by metis
qed

lemma length_TrimSpace: "length (TrimSpace s) \<le> length s"
proof -
  obtain u v where "s = u @ TrimSpace s @ v"
    using TrimSpace_sublist by metis
  then have "length s = length u + length (TrimSpace s) + length v"
    by (metis add.assoc length_append)
  then show ?thesis by simp
qed

text \<open>
  A string that begins and ends with a printable ASCII byte is trimmed: this is how closed
  terms are evaluated.
\<close>

definition printable_byte :: "char \<Rightarrow> bool" where
  "printable_byte c \<longleftrightarrow> 32 < (of_char c :: nat) \<and> (of_char c :: nat) < 128"

lemma printable_byte_byte:
  "printable_byte (byte n) \<longleftrightarrow> 32 < n mod 256 \<and> n mod 256 < 128"
  by (simp add: printable_byte_def byte_def)

lemma space_runes_ends:
  "list_all (\<lambda>p. p \<noteq> [] \<and> \<not> printable_byte (hd p) \<and> \<not> printable_byte (last p)) space_runes"
  by (simp add: space_runes_def ascii_space_runes_def wide_space_runes_def list.pred_map o_def
      printable_byte_byte upt_rec)

lemma space_rune_hd:
  "\<lbrakk>p \<in> set space_runes; has_prefix p s\<rbrakk> \<Longrightarrow> s \<noteq> [] \<and> \<not> printable_byte (hd s)"
  using space_runes_ends by (auto simp: list_all_iff has_prefix_iff)

lemma space_rune_last:
  "\<lbrakk>p \<in> set space_runes; has_prefix (rev p) s\<rbrakk> \<Longrightarrow> s \<noteq> [] \<and> \<not> printable_byte (hd s)"
  using space_runes_ends by (auto simp: list_all_iff has_prefix_iff hd_append hd_rev)

lemma trimmed_printable:
  assumes "s = [] \<or> printable_byte (hd s) \<and> printable_byte (last s)"
  shows "trimmed s"
proof (cases "s = []")
  case False
  with assms have "printable_byte (hd s)" "printable_byte (hd (rev s))"
    by (auto simp: hd_rev)
  then show ?thesis
    unfolding trimmed_def no_space_prefix_def
    using space_rune_hd space_rune_last by fastforce
qed simp

text \<open>The code equations with which closed terms are evaluated.\<close>

lemma printable_byte_code [code]:
  "printable_byte (Char b0 b1 b2 b3 b4 b5 b6 b7) \<longleftrightarrow>
     \<not> b7 \<and> (b6 \<or> b5 \<and> (b0 \<or> b1 \<or> b2 \<or> b3 \<or> b4))"
  by (cases b0; cases b1; cases b2; cases b3; cases b4; cases b5; cases b6; cases b7)
    (simp_all add: printable_byte_def)

lemma TrimSpace_code [code]:
  "TrimSpace s =
     (if s = [] \<or> printable_byte (hd s) \<and> printable_byte (last s) then s
      else TrimRight (TrimLeft s))"
  using TrimSpace_id [OF trimmed_printable, of s] by (simp add: TrimSpace_def)

lemma lower_byte_code [code]:
  "lower_byte (Char b0 b1 b2 b3 b4 b5 b6 b7) =
     (if \<not> b7 \<and> b6 \<and> \<not> b5 \<and> (b0 \<or> b1 \<or> b2 \<or> b3 \<or> b4) \<and> \<not> (b4 \<and> b3 \<and> (b2 \<or> b1 \<and> b0))
      then Char b0 b1 b2 b3 b4 True b6 b7 else Char b0 b1 b2 b3 b4 b5 b6 b7)"
  by (cases b0; cases b1; cases b2; cases b3; cases b4; cases b5; cases b6; cases b7)
    (simp_all add: lower_byte_def char_of_eq_iff)

lemma is_ascii_code [code]:
  "is_ascii s \<longleftrightarrow> list_all (\<lambda>c. case c of Char b0 b1 b2 b3 b4 b5 b6 b7 \<Rightarrow> \<not> b7) s"
proof -
  have "(of_char c :: nat) < 128 \<longleftrightarrow> (case c of Char b0 b1 b2 b3 b4 b5 b6 b7 \<Rightarrow> \<not> b7)" for c
  proof (cases c)
    case (Char b0 b1 b2 b3 b4 b5 b6 b7)
    then show ?thesis
      by (cases b0; cases b1; cases b2; cases b3; cases b4; cases b5; cases b6; cases b7) simp_all
  qed
  then show ?thesis by (simp add: is_ascii_def)
qed

lemma TrimSpace_eq_Nil_iff_trimmed: "trimmed s \<Longrightarrow> TrimSpace s = [] \<longleftrightarrow> s = []"
  by simp

section \<open>Maps of strings\<close>

text \<open>
  A Go \<open>map[string]string\<close> is the list of its entries in the order in which \<open>range\<close> visits
  them, with distinct keys (\<open>wf_smap\<close>); Go leaves that order open, so a result that depends on
  it would not be a function of the map. A \<open>nil\<close> map is \<open>None\<close>. Reading a missing key gives
  the empty string.
\<close>

type_synonym smap = "(string \<times> string) list"

definition wf_smap :: "smap \<Rightarrow> bool" where
  "wf_smap m \<longleftrightarrow> distinct (map fst m)"

definition smap_get :: "smap \<Rightarrow> string \<Rightarrow> string" where
  "smap_get m k = (case map_of m k of None \<Rightarrow> [] | Some v \<Rightarrow> v)"

fun smap_put :: "smap \<Rightarrow> string \<Rightarrow> string \<Rightarrow> smap" where
  "smap_put [] k v = [(k, v)]"
| "smap_put (e # m) k v = (if fst e = k then (k, v) # m else e # smap_put m k v)"

definition nil_to_empty :: "smap option \<Rightarrow> smap" where
  "nil_to_empty m = (case m of None \<Rightarrow> [] | Some x \<Rightarrow> x)"

lemma map_fst_smap_put:
  "map fst (smap_put m k v) = (if k \<in> fst ` set m then map fst m else map fst m @ [k])"
  by (induction m k v rule: smap_put.induct) auto

lemma wf_smap_put [simp]: "wf_smap m \<Longrightarrow> wf_smap (smap_put m k v)"
  by (auto simp: wf_smap_def map_fst_smap_put)

lemma map_of_smap_put: "map_of (smap_put m k v) = (map_of m)(k \<mapsto> v)"
  by (induction m k v rule: smap_put.induct) (auto simp: fun_eq_iff)

lemma smap_get_perm:
  assumes "wf_smap m" "mset m = mset m'"
  shows "smap_get m = smap_get m'"
proof -
  have "distinct (map fst m')" using assms
    by (metis mset_map mset_eq_imp_distinct_iff wf_smap_def)
  then have "map_of m = map_of m'"
    using assms by (intro map_of_inject_set [THEN iffD2]) (auto simp: wf_smap_def dest: mset_eq_setD)
  then show ?thesis by (simp add: smap_get_def fun_eq_iff)
qed

section \<open>Lists in step\<close>

lemma list_all2_in1: "list_all2 P xs ys \<Longrightarrow> x \<in> set xs \<Longrightarrow> \<exists>y \<in> set ys. P x y"
  by (induction rule: list_all2_induct) auto

lemma list_all2_in2: "list_all2 P xs ys \<Longrightarrow> y \<in> set ys \<Longrightarrow> \<exists>x \<in> set xs. P x y"
  by (induction rule: list_all2_induct) auto

end
