(* ===== verification/Json_Scan.thy ===== *)
theory Json_Scan
  imports Go_Prelude
begin

text \<open>
  \<open>internal/strictjson/strictjson.go\<close> and its copy in \<open>internal/domain/json.go\<close>: the walk over
  the token stream of \<open>json.Decoder\<close> that rejects duplicate object keys. A decoder is the list of
  tokens it still delivers and whether the input then ends (\<open>io.EOF\<close>) or is malformed. The
  tokenizer itself, which maps bytes to such a stream, is an argument (\<open>tokenize\<close>); nothing is assumed
  of it, not even that delimiters match. The main lemma characterises the accepted streams as the
  serialisations of one JSON value with distinct keys in every object.
\<close>

section \<open>Decoders\<close>

datatype json_token =
    TObjOpen | TObjClose | TArrOpen | TArrClose
  | TStr string | TNum string | TBool bool | TNull

record decoder =
  dec_tokens :: "json_token list"
  dec_clean :: bool

abbreviation dec_error :: "string \<Rightarrow> go_error" where
  "dec_error msg \<equiv> GoErr msg []"

definition dec_Token :: "decoder \<Rightarrow> (json_token \<times> decoder) result" where
  "dec_Token d =
     (case dec_tokens d of
        [] \<Rightarrow> Inl (dec_error (if dec_clean d then ''EOF'' else ''syntax error''))
      | t # ts \<Rightarrow> Inr (t, d\<lparr>dec_tokens := ts\<rparr>))"

text \<open>\<open>More\<close> is false at the end of the input and before a closing delimiter.\<close>

definition dec_More :: "decoder \<Rightarrow> bool" where
  "dec_More d =
     (case dec_tokens d of
        [] \<Rightarrow> \<not> dec_clean d
      | t # _ \<Rightarrow> t \<noteq> TObjClose \<and> t \<noteq> TArrClose)"

section \<open>The scanner\<close>

text \<open>
  The three mutually recursive functions of the code. Each call spends one unit of fuel and every
  loop iteration is a call; \<open>scan_fuel\<close> below is enough for every stream that is accepted.
\<close>

fun scanValue :: "nat \<Rightarrow> decoder \<Rightarrow> decoder result"
  and scanObject :: "nat \<Rightarrow> string list \<Rightarrow> decoder \<Rightarrow> decoder result"
  and scanArray :: "nat \<Rightarrow> decoder \<Rightarrow> decoder result" where
  "scanValue 0 d = Inl (dec_error ''fuel'')"
| "scanValue (Suc n) d =
     (case dec_Token d of
        Inl e \<Rightarrow> Inl (wrap_error ''decode JSON token'' e)
      | Inr (tok, d) \<Rightarrow>
          (case tok of
             TObjOpen \<Rightarrow> scanObject n [] d
           | TArrOpen \<Rightarrow> scanArray n d
           | TObjClose \<Rightarrow> Inl (dec_error ''unexpected JSON delimiter'')
           | TArrClose \<Rightarrow> Inl (dec_error ''unexpected JSON delimiter'')
           | _ \<Rightarrow> Inr d))"
| "scanObject 0 seen d = Inl (dec_error ''fuel'')"
| "scanObject (Suc n) seen d =
     (if dec_More d then
        (case dec_Token d of
           Inl e \<Rightarrow> Inl (wrap_error ''decode object key'' e)
         | Inr (tok, d) \<Rightarrow>
             (case tok of
                TStr key \<Rightarrow>
                  if key \<in> set seen then Inl (dec_error ''duplicate object key'')
                  else (case scanValue n d of
                          Inl e \<Rightarrow> Inl e
                        | Inr d \<Rightarrow> scanObject n (key # seen) d)
              | _ \<Rightarrow> Inl (dec_error ''object key token has type'')))
      else
        (case dec_Token d of
           Inl e \<Rightarrow> Inl (wrap_error ''close object'' e)
         | Inr (tok, d) \<Rightarrow>
             if tok = TObjClose then Inr d else Inl (dec_error ''object closed by'')))"
| "scanArray 0 d = Inl (dec_error ''fuel'')"
| "scanArray (Suc n) d =
     (if dec_More d then
        (case scanValue n d of Inl e \<Rightarrow> Inl e | Inr d \<Rightarrow> scanArray n d)
      else
        (case dec_Token d of
           Inl e \<Rightarrow> Inl (wrap_error ''close array'' e)
         | Inr (tok, d) \<Rightarrow>
             if tok = TArrClose then Inr d else Inl (dec_error ''array closed by'')))"

definition scan_fuel :: "decoder \<Rightarrow> nat" where
  "scan_fuel d = Suc (length (dec_tokens d))"

definition rejectDuplicateKeys :: "decoder \<Rightarrow> unit result" where
  "rejectDuplicateKeys d =
     (case scanValue (scan_fuel d) d of
        Inl e \<Rightarrow> Inl e
      | Inr d \<Rightarrow>
          (case dec_Token d of
             Inr _ \<Rightarrow> Inl (dec_error ''JSON contains trailing JSON values after token'')
           | Inl e \<Rightarrow>
               if err_text e = ''EOF'' then Inr ()
               else Inl (wrap_error ''decode trailing JSON'' e)))"

definition RejectDuplicateObjectKeys :: "(string \<Rightarrow> decoder) \<Rightarrow> string \<Rightarrow> unit result" where
  "RejectDuplicateObjectKeys tokenize raw = rejectDuplicateKeys (tokenize raw)"

text \<open>
  The domain package keeps a copy of the scanner of its own (\<open>json.go\<close>), line for line the same
  but for the error path; \<open>requireValidJSON\<close> and \<open>defaultJSONObject\<close> use it.
\<close>

definition scanJSONValue :: "nat \<Rightarrow> decoder \<Rightarrow> decoder result" where
  "scanJSONValue = scanValue"

definition scanJSONObject :: "nat \<Rightarrow> string list \<Rightarrow> decoder \<Rightarrow> decoder result" where
  "scanJSONObject = scanObject"

definition scanJSONArray :: "nat \<Rightarrow> decoder \<Rightarrow> decoder result" where
  "scanJSONArray = scanArray"

definition domain_rejectDuplicateObjectKeys ::
  "(string \<Rightarrow> decoder) \<Rightarrow> string \<Rightarrow> unit result" where
  "domain_rejectDuplicateObjectKeys tokenize raw = rejectDuplicateKeys (tokenize raw)"

definition requireValidJSON :: "(string \<Rightarrow> decoder) \<Rightarrow> string \<Rightarrow> string \<Rightarrow> unit result" where
  "requireValidJSON tokenize label raw =
     (if raw = [] then Inl (invariant_error (label @ '' must be non-empty JSON''))
      else (case domain_rejectDuplicateObjectKeys tokenize raw of
              Inl e \<Rightarrow> Inl (GoErr (label @ '' must be duplicate-key-free JSON'')
                            (err_chain e @ [ErrInvariantViolation]))
            | Inr _ \<Rightarrow> Inr ()))"

definition defaultJSONObject :: "string \<Rightarrow> string" where
  "defaultJSONObject raw = (if raw = [] then ''{}'' else raw)"

section \<open>JSON values and their serialisation\<close>

datatype json =
    JStr string | JNum string | JBool bool | JNull
  | JArr "json list"
  | JObj "(string \<times> json) list"

fun tokens_of :: "json \<Rightarrow> json_token list" where
  "tokens_of (JStr s) = [TStr s]"
| "tokens_of (JNum s) = [TNum s]"
| "tokens_of (JBool b) = [TBool b]"
| "tokens_of JNull = [TNull]"
| "tokens_of (JArr vs) = TArrOpen # concat (map tokens_of vs) @ [TArrClose]"
| "tokens_of (JObj kvs) = TObjOpen # concat (map (\<lambda>(k, v). TStr k # tokens_of v) kvs) @ [TObjClose]"

fun unique_keys :: "json \<Rightarrow> bool" where
  "unique_keys (JArr vs) = (\<forall>v \<in> set vs. unique_keys v)"
| "unique_keys (JObj kvs) = (distinct (map fst kvs) \<and> (\<forall>(k, v) \<in> set kvs. unique_keys v))"
| "unique_keys _ = True"

abbreviation members :: "(string \<times> json) list \<Rightarrow> json_token list" where
  "members kvs \<equiv> concat (map (\<lambda>(k, v). TStr k # tokens_of v) kvs)"

lemma tokens_of_starts:
  obtains t ts where "tokens_of v = t # ts" "t \<noteq> TObjClose" "t \<noteq> TArrClose"
  by (cases v) auto

lemma dec_More_value [simp]: "dec_More \<lparr>dec_tokens = tokens_of v @ r, dec_clean = c\<rparr>"
  by (rule tokens_of_starts [of v]) (auto simp: dec_More_def)

lemma dec_More_simps [simp]:
  "dec_More \<lparr>dec_tokens = TStr k # r, dec_clean = c\<rparr>"
  "\<not> dec_More \<lparr>dec_tokens = TObjClose # r, dec_clean = c\<rparr>"
  "\<not> dec_More \<lparr>dec_tokens = TArrClose # r, dec_clean = c\<rparr>"
  by (simp_all add: dec_More_def)

lemma dec_Token_Cons [simp]:
  "dec_Token \<lparr>dec_tokens = t # ts, dec_clean = c\<rparr> = Inr (t, \<lparr>dec_tokens = ts, dec_clean = c\<rparr>)"
  by (simp add: dec_Token_def)

subsection \<open>Every serialisation with distinct keys is accepted\<close>

lemma scanArray_complete:
  assumes "\<And>v n r. v \<in> set vs \<Longrightarrow> length (tokens_of v) \<le> n \<Longrightarrow>
      scanValue n \<lparr>dec_tokens = tokens_of v @ r, dec_clean = c\<rparr> = Inr \<lparr>dec_tokens = r, dec_clean = c\<rparr>"
    and "length (concat (map tokens_of vs)) < n"
  shows "scanArray n \<lparr>dec_tokens = concat (map tokens_of vs) @ TArrClose # r, dec_clean = c\<rparr>
    = Inr \<lparr>dec_tokens = r, dec_clean = c\<rparr>"
  using assms
proof (induction vs arbitrary: n)
  case Nil
  then show ?case by (cases n) auto
next
  case (Cons v vs)
  obtain m where n: "n = Suc m" using Cons.prems(2) by (cases n) auto
  have "0 < length (tokens_of v)" by (rule tokens_of_starts [of v]) auto
  moreover have "length (tokens_of v) + length (concat (map tokens_of vs)) < Suc m"
    using Cons.prems(2) n by simp
  ultimately have "length (concat (map tokens_of vs)) < m" "length (tokens_of v) \<le> m"
    by linarith+
  then show ?case
    using Cons n by (simp add: append_assoc)
qed

lemma scanObject_complete:
  assumes "\<And>k v n r. (k, v) \<in> set kvs \<Longrightarrow> length (tokens_of v) \<le> n \<Longrightarrow>
      scanValue n \<lparr>dec_tokens = tokens_of v @ r, dec_clean = c\<rparr> = Inr \<lparr>dec_tokens = r, dec_clean = c\<rparr>"
    and "length (members kvs) < n" and "distinct (map fst kvs)"
    and "set seen \<inter> set (map fst kvs) = {}"
  shows "scanObject n seen \<lparr>dec_tokens = members kvs @ TObjClose # r, dec_clean = c\<rparr>
    = Inr \<lparr>dec_tokens = r, dec_clean = c\<rparr>"
  using assms
proof (induction kvs arbitrary: n seen)
  case Nil
  then show ?case by (cases n) auto
next
  case (Cons kv kvs)
  obtain k v where kv: "kv = (k, v)" by (cases kv)
  obtain m where n: "n = Suc m" using Cons.prems(2) by (cases n) auto
  have val: "scanValue m \<lparr>dec_tokens = tokens_of v @ members kvs @ TObjClose # r, dec_clean = c\<rparr>
      = Inr \<lparr>dec_tokens = members kvs @ TObjClose # r, dec_clean = c\<rparr>"
    using Cons.prems(2) kv n by (intro Cons.prems(1)) auto
  have "scanObject m (k # seen) \<lparr>dec_tokens = members kvs @ TObjClose # r, dec_clean = c\<rparr>
      = Inr \<lparr>dec_tokens = r, dec_clean = c\<rparr>"
    using Cons.prems kv n by (intro Cons.IH) auto
  with val Cons.prems(4) kv n show ?case by simp
qed

lemma scanValue_complete:
  "\<lbrakk>unique_keys v; length (tokens_of v) \<le> n\<rbrakk> \<Longrightarrow>
   scanValue n \<lparr>dec_tokens = tokens_of v @ r, dec_clean = c\<rparr> = Inr \<lparr>dec_tokens = r, dec_clean = c\<rparr>"
proof (induction v arbitrary: n r)
  case (JArr vs)
  then obtain m where n: "n = Suc m" by (cases n) auto
  have "scanArray m \<lparr>dec_tokens = concat (map tokens_of vs) @ TArrClose # r, dec_clean = c\<rparr>
      = Inr \<lparr>dec_tokens = r, dec_clean = c\<rparr>"
    using JArr n by (intro scanArray_complete) auto
  with n show ?case by simp
next
  case (JObj kvs)
  then obtain m where n: "n = Suc m" by (cases n) auto
  have "scanObject m [] \<lparr>dec_tokens = members kvs @ TObjClose # r, dec_clean = c\<rparr>
      = Inr \<lparr>dec_tokens = r, dec_clean = c\<rparr>"
  proof (intro scanObject_complete)
    fix k v n r
    assume "(k, v) \<in> set kvs" "length (tokens_of v) \<le> n"
    with JObj.prems(1) show "scanValue n \<lparr>dec_tokens = tokens_of v @ r, dec_clean = c\<rparr>
        = Inr \<lparr>dec_tokens = r, dec_clean = c\<rparr>"
      by (intro JObj.IH [of "(k, v)" v]) auto
  qed (use JObj.prems n in auto)
  with n show ?case by simp
next
  case (JStr s)
  then show ?case by (cases n) auto
next
  case (JNum s)
  then show ?case by (cases n) auto
next
  case (JBool b)
  then show ?case by (cases n) auto
next
  case JNull
  then show ?case by (cases n) auto
qed

subsection \<open>Only such serialisations are accepted\<close>

definition consumes :: "json_token \<Rightarrow> decoder \<Rightarrow> decoder \<Rightarrow> bool" where
  "consumes t d d' \<longleftrightarrow> dec_tokens d = t # dec_tokens d' \<and> dec_clean d = dec_clean d'"

lemma dec_Token_consumes: "dec_Token d = Inr (t, d') \<Longrightarrow> consumes t d d'"
  by (auto simp: dec_Token_def consumes_def split: list.splits)

definition value_at :: "decoder \<Rightarrow> decoder \<Rightarrow> bool" where
  "value_at d d' \<longleftrightarrow>
     (\<exists>v. unique_keys v \<and> dec_tokens d = tokens_of v @ dec_tokens d' \<and> dec_clean d = dec_clean d')"

definition members_at :: "string list \<Rightarrow> decoder \<Rightarrow> decoder \<Rightarrow> bool" where
  "members_at seen d d' \<longleftrightarrow>
     (\<exists>kvs. distinct (map fst kvs) \<and> set seen \<inter> set (map fst kvs) = {} \<and>
        (\<forall>(k, v) \<in> set kvs. unique_keys v) \<and>
        dec_tokens d = members kvs @ TObjClose # dec_tokens d' \<and> dec_clean d = dec_clean d')"

definition elements_at :: "decoder \<Rightarrow> decoder \<Rightarrow> bool" where
  "elements_at d d' \<longleftrightarrow>
     (\<exists>vs. (\<forall>v \<in> set vs. unique_keys v) \<and>
        dec_tokens d = concat (map tokens_of vs) @ TArrClose # dec_tokens d' \<and>
        dec_clean d = dec_clean d')"

lemma value_at_object: "\<lbrakk>consumes TObjOpen d d1; members_at [] d1 d'\<rbrakk> \<Longrightarrow> value_at d d'"
  unfolding members_at_def value_at_def consumes_def
  by (elim exE, rule_tac x = "JObj kvs" in exI) auto

lemma value_at_array: "\<lbrakk>consumes TArrOpen d d1; elements_at d1 d'\<rbrakk> \<Longrightarrow> value_at d d'"
  unfolding elements_at_def value_at_def consumes_def
  by (elim exE, rule_tac x = "JArr vs" in exI) auto

lemma value_at_scalar:
  "consumes (TStr s) d d' \<Longrightarrow> value_at d d'"
  "consumes (TNum s) d d' \<Longrightarrow> value_at d d'"
  "consumes (TBool b) d d' \<Longrightarrow> value_at d d'"
  "consumes TNull d d' \<Longrightarrow> value_at d d'"
  unfolding value_at_def consumes_def
  by (rule exI [of _ "JStr s"], simp, rule exI [of _ "JNum s"], simp,
      rule exI [of _ "JBool b"], simp, rule exI [of _ "JNull"], simp)

lemma members_at_step:
  assumes "consumes (TStr k) d0 d" "k \<notin> set seen" "value_at d d'" "members_at (k # seen) d' d''"
  shows "members_at seen d0 d''"
proof -
  obtain v where v: "unique_keys v" "dec_tokens d = tokens_of v @ dec_tokens d'"
    "dec_clean d = dec_clean d'" using assms(3) by (auto simp: value_at_def)
  obtain kvs where kvs: "distinct (map fst kvs)" "set (k # seen) \<inter> set (map fst kvs) = {}"
    "\<forall>(k, v) \<in> set kvs. unique_keys v" "dec_tokens d' = members kvs @ TObjClose # dec_tokens d''"
    "dec_clean d' = dec_clean d''" using assms(4) unfolding members_at_def by blast
  show ?thesis unfolding members_at_def
    by (rule exI [of _ "(k, v) # kvs"]) (use v kvs assms(1,2) in \<open>auto simp: consumes_def\<close>)
qed

lemma elements_at_step:
  assumes "value_at d d'" "elements_at d' d''"
  shows "elements_at d d''"
proof -
  obtain v where v: "unique_keys v" "dec_tokens d = tokens_of v @ dec_tokens d'"
    "dec_clean d = dec_clean d'" using assms(1) by (auto simp: value_at_def)
  obtain vs where vs: "\<forall>v \<in> set vs. unique_keys v"
    "dec_tokens d' = concat (map tokens_of vs) @ TArrClose # dec_tokens d''"
    "dec_clean d' = dec_clean d''" using assms(2) unfolding elements_at_def by blast
  show ?thesis unfolding elements_at_def
    by (rule exI [of _ "v # vs"]) (use v vs in auto)
qed

lemma members_at_close: "consumes TObjClose d d' \<Longrightarrow> members_at seen d d'"
  unfolding members_at_def consumes_def by (rule exI [of _ "[]"]) simp

lemma elements_at_close: "consumes TArrClose d d' \<Longrightarrow> elements_at d d'"
  unfolding elements_at_def consumes_def by (rule exI [of _ "[]"]) simp

lemma scan_sound:
  "scanValue n d = Inr d' \<Longrightarrow> value_at d d'"
  "scanObject n seen d = Inr d' \<Longrightarrow> members_at seen d d'"
  "scanArray n d = Inr d' \<Longrightarrow> elements_at d d'"
proof (induction n d and n seen d and n d arbitrary: d' and d' and d'
    rule: scanValue_scanObject_scanArray.induct)
  case (2 n d)
  then obtain t d1 where tok: "dec_Token d = Inr (t, d1)"
    by (auto split: sum.splits)
  note consumed = dec_Token_consumes [OF tok]
  show ?case
  proof (cases t)
    case TObjOpen
    with 2 tok consumed show ?thesis by (auto intro: value_at_object)
  next
    case TArrOpen
    with 2 tok consumed show ?thesis by (auto intro: value_at_array)
  qed (use "2.prems" tok consumed in \<open>auto intro: value_at_scalar\<close>)
next
  case (4 n seen d)
  show ?case
  proof (cases "dec_More d")
    case True
    with "4.prems" obtain k d1 d2 where k: "dec_Token d = Inr (TStr k, d1)" "k \<notin> set seen"
      "scanValue n d1 = Inr d2" "scanObject n (k # seen) d2 = Inr d'"
      by (auto split: sum.splits json_token.splits if_splits)
    have "value_at d1 d2" "members_at (k # seen) d2 d'"
      using "4.IH" [OF True k(1)] k by simp_all
    with k show ?thesis
      by (auto intro: members_at_step dec_Token_consumes)
  next
    case False
    with "4.prems" show ?thesis
      by (auto split: sum.splits if_splits dest!: dec_Token_consumes intro: members_at_close)
  qed
next
  case (6 n d)
  then show ?case
    by (auto split: sum.splits if_splits dest!: dec_Token_consumes
        intro: elements_at_step elements_at_close)
qed auto

lemma rejectDuplicateKeys_ok_iff:
  "rejectDuplicateKeys d = Inr () \<longleftrightarrow>
     dec_clean d \<and> (\<exists>v. unique_keys v \<and> dec_tokens d = tokens_of v)"
proof
  assume ok: "rejectDuplicateKeys d = Inr ()"
  then obtain d' where "scanValue (scan_fuel d) d = Inr d'" "dec_tokens d' = []" "dec_clean d'"
    by (auto simp: rejectDuplicateKeys_def dec_Token_def split: sum.splits list.splits if_splits)
  then show "dec_clean d \<and> (\<exists>v. unique_keys v \<and> dec_tokens d = tokens_of v)"
    using scan_sound(1) unfolding value_at_def by fastforce
next
  assume "dec_clean d \<and> (\<exists>v. unique_keys v \<and> dec_tokens d = tokens_of v)"
  then obtain v where v: "unique_keys v" "d = \<lparr>dec_tokens = tokens_of v @ [], dec_clean = True\<rparr>"
    by (cases d) auto
  then have "scanValue (scan_fuel d) d = Inr \<lparr>dec_tokens = [], dec_clean = True\<rparr>"
    unfolding v(2) by (intro scanValue_complete) (auto simp: scan_fuel_def)
  then show "rejectDuplicateKeys d = Inr ()"
    by (simp add: rejectDuplicateKeys_def dec_Token_def)
qed

lemma requireValidJSON_error:
  "requireValidJSON tokenize label raw = Inl e \<Longrightarrow> errors_Is e ErrInvariantViolation"
  by (auto simp: requireValidJSON_def split: if_splits sum.splits)

lemma requireValidJSON_ok_iff:
  "requireValidJSON tokenize label raw = Inr () \<longleftrightarrow> raw \<noteq> [] \<and> rejectDuplicateKeys (tokenize raw) = Inr ()"
  by (auto simp: requireValidJSON_def domain_rejectDuplicateObjectKeys_def split: sum.splits)

end
