(* ===== verification/Json_Encode.thy ===== *)
theory Json_Encode
  imports Go_Prelude
begin

text \<open>
  What OpenClarion uses of \<open>encoding/json\<close>'s \<open>Marshal\<close>: strings and maps of strings. Strings are
  escaped as \<open>appendString\<close> does with HTML escaping on (the default of \<open>Marshal\<close>), so a byte that
  is not part of a valid UTF-8 sequence becomes \<open>\ufffd\<close>; map entries are sorted by key. The
  lemmas show that the text of a map does not depend on the order Go visits its entries, and that
  the encoding of a valid UTF-8 string determines the string.
\<close>

section \<open>UTF-8\<close>

definition byte_in :: "nat \<Rightarrow> nat \<Rightarrow> char \<Rightarrow> bool" where
  "byte_in lo hi c \<longleftrightarrow> lo \<le> (of_char c :: nat) \<and> (of_char c :: nat) \<le> hi"

abbreviation cont_byte :: "char \<Rightarrow> bool" where "cont_byte \<equiv> byte_in 128 191"

text \<open>The width of the valid UTF-8 sequence a string starts with, 0 when there is none.\<close>

fun utf8_width :: "string \<Rightarrow> nat" where
  "utf8_width [] = 0"
| "utf8_width (c # s) =
     (if byte_in 0 127 c then 1
      else if byte_in 194 223 c then
        (case s of d # _ \<Rightarrow> if cont_byte d then 2 else 0 | _ \<Rightarrow> 0)
      else if byte_in 224 239 c then
        (case s of
           d # e # _ \<Rightarrow>
             if byte_in (if byte_in 224 224 c then 160 else 128)
                  (if byte_in 237 237 c then 159 else 191) d \<and> cont_byte e
             then 3 else 0
         | _ \<Rightarrow> 0)
      else if byte_in 240 244 c then
        (case s of
           d # e # f # _ \<Rightarrow>
             if byte_in (if byte_in 240 240 c then 144 else 128)
                  (if byte_in 244 244 c then 143 else 191) d \<and> cont_byte e \<and> cont_byte f
             then 4 else 0
         | _ \<Rightarrow> 0)
      else 0)"

lemma utf8_width_le: "utf8_width s \<le> length s"
  by (cases s) (auto split: list.splits)

section \<open>Strings\<close>

definition hex_digit :: "nat \<Rightarrow> char" where
  "hex_digit n = (if n < 10 then char_of (48 + n) else char_of (87 + n))"

definition backslash :: char where "backslash = CHR 0x5C"
definition dquote :: char where "dquote = CHR 0x22"

text \<open>The escape of one ASCII byte.\<close>

definition json_ascii :: "char \<Rightarrow> string" where
  "json_ascii c =
     (let n = (of_char c :: nat) in
      if c = dquote \<or> c = backslash then [backslash, c]
      else if n = 8 then [backslash, CHR ''b'']
      else if n = 12 then [backslash, CHR ''f'']
      else if n = 10 then [backslash, CHR ''n'']
      else if n = 13 then [backslash, CHR ''r'']
      else if n = 9 then [backslash, CHR ''t'']
      else if n < 32 \<or> c \<in> {CHR ''<'', CHR ''>'', CHR ''&''} then
        [backslash, CHR ''u'', CHR ''0'', CHR ''0'', hex_digit (n div 16), hex_digit (n mod 16)]
      else [c])"

function json_body :: "string \<Rightarrow> string" where
  "json_body [] = []"
| "json_body (c # s) =
     (if byte_in 0 127 c then json_ascii c @ json_body s
      else if utf8_width (c # s) = 0 then (backslash # ''ufffd'') @ json_body s
      else if take 3 (c # s) = map byte [226, 128, 168] then
        (backslash # ''u2028'') @ json_body (drop 3 (c # s))
      else if take 3 (c # s) = map byte [226, 128, 169] then
        (backslash # ''u2029'') @ json_body (drop 3 (c # s))
      else take (utf8_width (c # s)) (c # s) @ json_body (drop (utf8_width (c # s)) (c # s)))"
  by pat_completeness auto
termination
  by (relation "measure length") (auto simp del: utf8_width.simps)

declare json_body.simps [simp del] utf8_width.simps [simp del]

definition json_string :: "string \<Rightarrow> string" where
  "json_string s = dquote # json_body s @ [dquote]"

section \<open>Maps of strings\<close>

fun join_comma :: "string list \<Rightarrow> string" where
  "join_comma [] = []"
| "join_comma [x] = x"
| "join_comma (x # xs) = x @ '','' @ join_comma xs"

definition json_member :: "string \<times> string \<Rightarrow> string" where
  "json_member kv = json_string (fst kv) @ '':'' @ json_string (snd kv)"

definition json_map :: "smap \<Rightarrow> string" where
  "json_map m = ''{'' @ join_comma (map json_member (sort_key fst m)) @ ''}''"

lemma sort_key_fst_perm:
  assumes "wf_smap m" "mset m = mset m'"
  shows "sort_key fst m = sort_key fst m'"
proof -
  have "mset m = mset (sort_key fst m')" using assms(2) by simp
  moreover have "inj_on fst (set m)" using assms(1) by (simp add: wf_smap_def distinct_map)
  ultimately show ?thesis
    by (intro sort_key_inj_key_eq) simp_all
qed

lemma json_map_perm: "wf_smap m \<Longrightarrow> mset m = mset m' \<Longrightarrow> json_map m = json_map m'"
  by (simp add: json_map_def sort_key_fst_perm)

section \<open>Encoded strings are self-delimiting\<close>

text \<open>What follows the closing quote of an encoded string.\<close>

fun after_string :: "string \<Rightarrow> string option" where
  "after_string [] = None"
| "after_string (c # s) =
     (if c = dquote then Some s
      else if c = backslash then (case s of [] \<Rightarrow> None | _ # s' \<Rightarrow> after_string s')
      else after_string s)"

definition plain_bytes :: "string \<Rightarrow> bool" where
  "plain_bytes s \<longleftrightarrow> dquote \<notin> set s \<and> backslash \<notin> set s"

lemma after_string_plain: "plain_bytes p \<Longrightarrow> after_string (p @ s) = after_string s"
  by (induction p) (auto simp: plain_bytes_def)

lemma after_string_escape: "plain_bytes p \<Longrightarrow> after_string (backslash # c # p @ s) = after_string s"
  by (simp add: after_string_plain dquote_def backslash_def)

lemma dquote_neq_backslash [simp]: "dquote \<noteq> backslash" "backslash \<noteq> dquote"
  by (simp_all add: dquote_def backslash_def)

lemma byte_in_special [simp]:
  "byte_in lo hi dquote \<longleftrightarrow> lo \<le> 34 \<and> 34 \<le> hi" "byte_in lo hi backslash \<longleftrightarrow> lo \<le> 92 \<and> 92 \<le> hi"
  by (simp_all add: byte_in_def dquote_def backslash_def)

lemma plain_wide: "(\<forall>c \<in> set s. \<not> byte_in 0 127 c) \<Longrightarrow> plain_bytes s"
  by (auto simp: plain_bytes_def)

lemma hex_digit_plain: "n < 16 \<Longrightarrow> hex_digit n \<noteq> dquote \<and> hex_digit n \<noteq> backslash"
proof -
  assume "n < 16"
  then have "of_char (hex_digit n) = (if n < 10 then 48 + n else 87 + n)"
    by (simp add: hex_digit_def)
  then have "of_char (hex_digit n) \<noteq> (34::nat)" "of_char (hex_digit n) \<noteq> (92::nat)"
    by (auto split: if_splits)
  then show ?thesis by (auto simp: dquote_def backslash_def)
qed

text \<open>The bytes of a valid sequence are all ASCII or none is.\<close>

lemma utf8_width_wide:
  assumes "\<not> byte_in 0 127 c" "x \<in> set (take (utf8_width (c # s)) (c # s))"
  shows "\<not> byte_in 0 127 x"
  using assms
  by (auto simp: utf8_width.simps byte_in_def split: if_splits list.splits)

lemma plain_hex:
  "plain_bytes [CHR ''0'', CHR ''0'', hex_digit ((of_char c :: nat) div 16), hex_digit (of_char c mod 16)]"
proof -
  have "(of_char c :: nat) div 16 < 16" "(of_char c :: nat) mod 16 < 16"
    using nat_of_char_less_256 [of c] by (auto simp: less_mult_imp_div_less)
  note h = this [THEN hex_digit_plain]
  show ?thesis
    using h by (auto simp: plain_bytes_def dquote_def backslash_def)
qed

lemma plain_Nil [simp]: "plain_bytes []"
  by (simp add: plain_bytes_def)

lemma json_ascii_escape:
  "json_ascii c \<noteq> [c] \<Longrightarrow> \<exists>d p. json_ascii c = backslash # d # p \<and> plain_bytes p"
  using plain_hex [of c]
  by (auto simp: json_ascii_def Let_def split: if_splits)

lemma json_ascii_plain: "json_ascii c = [c] \<Longrightarrow> plain_bytes [c]"
  by (auto simp: json_ascii_def plain_bytes_def Let_def split: if_splits)

lemma after_json_ascii: "after_string (json_ascii c @ s) = after_string s"
proof (cases "json_ascii c = [c]")
  case True
  then show ?thesis using after_string_plain [OF json_ascii_plain] by simp
next
  case False
  then show ?thesis using json_ascii_escape after_string_escape by fastforce
qed

lemma after_json_body: "after_string (json_body s @ dquote # r) = Some r"
proof (induction s rule: json_body.induct)
  case 1
  then show ?case by (simp add: json_body.simps)
next
  case (2 c s)
  show ?case
  proof (cases "byte_in 0 127 c")
    case True
    with 2(1) show ?thesis by (simp add: json_body.simps after_json_ascii)
  next
    case False
    have u: "plain_bytes ''fffd''" "plain_bytes ''2028''" "plain_bytes ''2029''"
      by (auto simp: plain_bytes_def dquote_def backslash_def)
    have w: "plain_bytes (take (utf8_width (c # s)) (c # s))"
      using utf8_width_wide [OF False] by (intro plain_wide) blast
    show ?thesis
      using False 2 u [THEN after_string_escape] after_string_plain [OF w]
      by (auto simp: json_body.simps)
  qed
qed

lemma json_string_cancel:
  assumes "json_string a @ r = json_string b @ r'"
  shows "json_body a = json_body b \<and> r = r'"
proof -
  have "json_body a @ dquote # r = json_body b @ dquote # r'"
    using assms by (simp add: json_string_def)
  moreover from this have "r = r'" by (metis after_json_body option.inject)
  ultimately show ?thesis by simp
qed

definition encoded :: "string \<times> string \<Rightarrow> string \<times> string" where
  "encoded kv = (json_body (fst kv), json_body (snd kv))"

lemma json_member_cancel:
  assumes "json_member kv @ r = json_member kv' @ r'"
  shows "encoded kv = encoded kv' \<and> r = r'"
proof -
  have "json_string (fst kv) @ '':'' @ json_string (snd kv) @ r
      = json_string (fst kv') @ '':'' @ json_string (snd kv') @ r'"
    using assms unfolding json_member_def append_assoc .
  note fst_eq = json_string_cancel [OF this]
  then have "json_string (snd kv) @ r = json_string (snd kv') @ r'" by simp
  from json_string_cancel [OF this] fst_eq show ?thesis by (simp add: encoded_def)
qed

lemma json_member_starts: "\<exists>s. json_member kv = dquote # s"
  by (simp add: json_member_def json_string_def)

definition members_tail :: "smap \<Rightarrow> string" where
  "members_tail m = (if m = [] then ''}'' else '','' @ join_comma (map json_member m) @ ''}'')"

lemma join_members_Cons:
  "join_comma (map json_member (z # zs)) @ ''}'' = json_member z @ members_tail zs"
  by (cases zs) (auto simp: members_tail_def)

lemma members_close: "''}'' \<noteq> json_member z @ r"
  using json_member_starts [of z] by (auto simp: dquote_def)

lemma join_members_cancel:
  assumes "join_comma (map json_member xs) @ ''}'' = join_comma (map json_member ys) @ ''}''"
  shows "map encoded xs = map encoded ys"
  using assms
proof (induction xs arbitrary: ys)
  case Nil
  show ?case
  proof (cases ys)
    case (Cons y ys')
    have "''}'' = json_member y @ members_tail ys'"
      using Nil.prems unfolding Cons join_members_Cons by simp
    with members_close [of y "members_tail ys'"] show ?thesis by simp
  qed simp
next
  case (Cons x xs)
  show ?case
  proof (cases ys)
    case Nil
    with Cons.prems have "json_member x @ members_tail xs = ''}''"
      unfolding join_members_Cons by simp
    with members_close [of x "members_tail xs"] show ?thesis by simp
  next
    case (Cons y ys')
    have "json_member x @ members_tail xs = json_member y @ members_tail ys'"
      using Cons.prems unfolding Cons join_members_Cons .
    from json_member_cancel [OF this]
    have "encoded x = encoded y" "members_tail xs = members_tail ys'" by auto
    moreover have "map encoded xs = map encoded ys'"
    proof (cases "xs = [] \<or> ys' = []")
      case True
      with calculation(2) show ?thesis by (simp add: members_tail_def split: if_splits)
    next
      case False
      with calculation(2) have
        "join_comma (map json_member xs) @ ''}'' = join_comma (map json_member ys') @ ''}''"
        by (simp add: members_tail_def)
      then show ?thesis by (rule Cons.IH)
    qed
    ultimately show ?thesis using Cons by simp
  qed
qed

text \<open>The text of a map determines its encoded entries.\<close>

lemma json_map_encoded:
  assumes "json_map m = json_map m'"
  shows "map encoded (sort_key fst m) = map encoded (sort_key fst m')"
  using assms by (intro join_members_cancel) (simp add: json_map_def)

section \<open>Valid UTF-8 survives the encoding\<close>

function valid_utf8 :: "string \<Rightarrow> bool" where
  "valid_utf8 s =
     (if s = [] then True else if utf8_width s = 0 then False
      else valid_utf8 (drop (utf8_width s) s))"
  by pat_completeness auto
termination
  by (relation "measure length") auto

declare valid_utf8.simps [simp del]

definition hex_value :: "char \<Rightarrow> nat" where
  "hex_value c = (if (of_char c :: nat) \<le> 57 then of_char c - 48 else of_char c - 87)"

definition unescape_char :: "char \<Rightarrow> char" where
  "unescape_char c =
     (if c = CHR ''b'' then byte 8 else if c = CHR ''f'' then byte 12
      else if c = CHR ''n'' then byte 10 else if c = CHR ''r'' then byte 13
      else if c = CHR ''t'' then byte 9 else c)"

text \<open>The reader of an encoded string, for the escapes \<open>Marshal\<close> writes.\<close>

fun json_unescape :: "string \<Rightarrow> string" where
  "json_unescape [] = []"
| "json_unescape [c] = [c]"
| "json_unescape (c # d # s) =
     (if c = backslash then
        if d = CHR ''u'' then
          if take 4 s = ''2028'' then map byte [226, 128, 168] @ json_unescape (drop 4 s)
          else if take 4 s = ''2029'' then map byte [226, 128, 169] @ json_unescape (drop 4 s)
          else byte (16 * hex_value (s ! 2) + hex_value (s ! 3)) # json_unescape (drop 4 s)
        else unescape_char d # json_unescape s
      else c # json_unescape (d # s))"

lemma json_unescape_plain:
  "backslash \<notin> set p \<Longrightarrow> json_unescape (p @ s) = p @ json_unescape s"
proof (induction p)
  case (Cons c p)
  have "json_unescape (c # q) = c # json_unescape q" for q
    using Cons.prems by (cases q) auto
  with Cons show ?case by simp
qed simp

lemma hex_value_digit: "n < 16 \<Longrightarrow> hex_value (hex_digit n) = n"
  by (auto simp: hex_value_def hex_digit_def)

lemma hex_byte:
  "byte (16 * hex_value (hex_digit ((of_char c :: nat) div 16)) + hex_value (hex_digit (of_char c mod 16))) = c"
proof -
  have "(of_char c :: nat) div 16 < 16" "(of_char c :: nat) mod 16 < 16"
    using nat_of_char_less_256 [of c] by (auto simp: less_mult_imp_div_less)
  then show ?thesis by (simp add: hex_value_digit byte_def)
qed

lemma json_unescape_ascii: "json_unescape (json_ascii c @ s) = c # json_unescape s"
proof -
  have eq: "byte n = c" if "of_char c = n" for n :: nat
    using that by (metis byte_def char_of_char)
  show ?thesis
  proof (cases "json_ascii c = [c]")
    case True
    then have "backslash \<noteq> c" using json_ascii_plain by (auto simp: plain_bytes_def)
    then show ?thesis using True json_unescape_plain [of "[c]" s] by simp
  next
    case False
    then show ?thesis
      using eq hex_byte [of c]
      by (auto simp: json_ascii_def Let_def unescape_char_def dquote_def backslash_def
          split: if_splits)
  qed
qed

lemma json_unescape_u2028:
  "json_unescape ((backslash # ''u2028'') @ x) = map byte [226, 128, 168] @ json_unescape x"
  "json_unescape ((backslash # ''u2029'') @ x) = map byte [226, 128, 169] @ json_unescape x"
  by simp_all

lemma take3_width:
  assumes "take 3 s = map byte [226, 128, n]" "128 \<le> n" "n \<le> 191"
  shows "utf8_width s = 3"
proof -
  obtain a b c r where s: "s = a # b # c # r" "a = byte 226" "b = byte 128" "c = byte n"
    using assms(1) by (cases s; cases "tl s"; cases "tl (tl s)") auto
  then show ?thesis using assms(2,3)
    by (simp add: utf8_width.simps byte_in_def byte_def)
qed

lemma json_unescape_body: "valid_utf8 s \<Longrightarrow> json_unescape (json_body s @ r) = s @ json_unescape r"
proof (induction s rule: json_body.induct)
  case 1
  then show ?case by (simp add: json_body.simps)
next
  case (2 c s)
  have w: "utf8_width (c # s) \<noteq> 0" "valid_utf8 (drop (utf8_width (c # s)) (c # s))"
    using 2(6) by (simp_all add: valid_utf8.simps [of "c # s"] split: if_splits)
  show ?case
  proof (cases "byte_in 0 127 c")
    case True
    then have "utf8_width (c # s) = 1" by (simp add: utf8_width.simps)
    with True 2(1) w show ?thesis by (simp add: json_body.simps json_unescape_ascii)
  next
    case False
    have bs: "backslash \<notin> set (take (utf8_width (c # s)) (c # s))"
      using utf8_width_wide [OF False] by fastforce
    consider (a) "take 3 (c # s) = map byte [226, 128, 168]"
      | (b) "take 3 (c # s) = map byte [226, 128, 169]"
      | (other) "take 3 (c # s) \<noteq> map byte [226, 128, 168]" "take 3 (c # s) \<noteq> map byte [226, 128, 169]"
      by blast
    then show ?thesis
    proof cases
      case a
      then have "json_body (c # s) = (backslash # ''u2028'') @ json_body (drop 3 (c # s))"
        using False w(1) by (subst json_body.simps) (simp only: refl simp_thms if_False if_True)
      moreover have "c # s = map byte [226, 128, 168] @ drop 3 (c # s)"
        using a by (metis append_take_drop_id)
      moreover have "json_unescape (json_body (drop 3 (c # s)) @ r) = drop 3 (c # s) @ json_unescape r"
        using 2(3) [OF False w(1) a] w(2) take3_width [OF a] by simp
      ultimately show ?thesis
        by (metis append_assoc json_unescape_u2028(1))
    next
      case b
      then have na: "take 3 (c # s) \<noteq> map byte [226, 128, 168]"
        by (auto simp: byte_def)
      have "json_body (c # s) = (backslash # ''u2029'') @ json_body (drop 3 (c # s))"
        using False w(1) b na by (subst json_body.simps) (simp only: refl simp_thms if_False if_True)
      moreover have "c # s = map byte [226, 128, 169] @ drop 3 (c # s)"
        using b by (metis append_take_drop_id)
      moreover have "json_unescape (json_body (drop 3 (c # s)) @ r) = drop 3 (c # s) @ json_unescape r"
        using 2(4) [OF False w(1) na b] w(2) take3_width [OF b] by simp
      ultimately show ?thesis
        by (metis append_assoc json_unescape_u2028(2))
    next
      case other
      let ?n = "utf8_width (c # s)"
      have "json_body (c # s) = take ?n (c # s) @ json_body (drop ?n (c # s))"
        using False w(1) other by (subst json_body.simps) (simp only: refl simp_thms if_False if_True)
      moreover have "json_unescape (json_body (drop ?n (c # s)) @ r) = drop ?n (c # s) @ json_unescape r"
        using 2(5) [OF False w(1) other] w(2) by simp
      ultimately have "json_unescape (json_body (c # s) @ r) = (take ?n (c # s) @ drop ?n (c # s)) @ json_unescape r"
        using json_unescape_plain [OF bs] by (metis append_assoc)
      then show ?thesis by (simp only: append_take_drop_id)
    qed
  qed
qed

lemma json_body_inj: "\<lbrakk>valid_utf8 s; valid_utf8 s'; json_body s = json_body s'\<rbrakk> \<Longrightarrow> s = s'"
  using json_unescape_body [of s "[]"] json_unescape_body [of s' "[]"] by simp

text \<open>On maps of valid UTF-8 strings the text is injective.\<close>

definition utf8_smap :: "smap \<Rightarrow> bool" where
  "utf8_smap m \<longleftrightarrow> (\<forall>(k, v) \<in> set m. valid_utf8 k \<and> valid_utf8 v)"

lemma json_map_inj:
  assumes "json_map m = json_map m'" "utf8_smap m" "utf8_smap m'"
  shows "mset m = mset m'"
proof -
  have "map encoded (sort_key fst m) = map encoded (sort_key fst m')"
    using assms(1) by (rule json_map_encoded)
  moreover have "inj_on encoded (set (sort_key fst m) \<union> set (sort_key fst m'))"
  proof (rule inj_onI)
    fix x y
    assume "x \<in> set (sort_key fst m) \<union> set (sort_key fst m')"
      "y \<in> set (sort_key fst m) \<union> set (sort_key fst m')" and eq: "encoded x = encoded y"
    then have "valid_utf8 (fst x)" "valid_utf8 (snd x)" "valid_utf8 (fst y)" "valid_utf8 (snd y)"
      using assms(2,3) by (auto simp: utf8_smap_def)
    with eq show "x = y" by (auto simp: encoded_def intro: prod_eqI json_body_inj)
  qed
  ultimately have "sort_key fst m = sort_key fst m'" by (rule map_inj_on)
  then show ?thesis by (metis mset_sort)
qed

section \<open>Decimal numbers\<close>

text \<open>\<open>strconv.FormatInt\<close> in base ten, on non-negative values.\<close>

definition digit_char :: "nat \<Rightarrow> char" where
  "digit_char d = byte (48 + d)"

fun decimal :: "nat \<Rightarrow> string" where
  "decimal n = (if n < 10 then [digit_char n] else decimal (n div 10) @ [digit_char (n mod 10)])"

declare decimal.simps [simp del]

text \<open>The sign of a negative number goes first.\<close>

definition int_decimal :: "int \<Rightarrow> string" where
  "int_decimal i = (if i < 0 then CHR ''-'' # decimal (nat (- i)) else decimal (nat i))"

fun decimal_value :: "nat \<Rightarrow> string \<Rightarrow> nat" where
  "decimal_value acc [] = acc"
| "decimal_value acc (c # s) = decimal_value (10 * acc + (of_char c - 48)) s"

lemma decimal_value_append: "decimal_value acc (s @ t) = decimal_value (decimal_value acc s) t"
  by (induction acc s rule: decimal_value.induct) simp_all

lemma of_char_digit: "d < 10 \<Longrightarrow> of_char (digit_char d) = 48 + d"
  by (simp add: digit_char_def byte_def)

lemma decimal_value_decimal: "decimal_value 0 (decimal n) = n"
proof (induction n rule: decimal.induct)
  case (1 n)
  then show ?case
    by (subst decimal.simps) (simp add: decimal_value_append of_char_digit)
qed

lemma decimal_inj: "decimal m = decimal n \<Longrightarrow> m = n"
  by (metis decimal_value_decimal)

lemma valid_utf8_ascii: "is_ascii s \<Longrightarrow> valid_utf8 s"
proof (induction s)
  case (Cons c s)
  then have "utf8_width (c # s) = 1"
    by (simp add: utf8_width.simps byte_in_def is_ascii_def)
  with Cons show ?case by (simp add: valid_utf8.simps [of "c # s"] is_ascii_def)
qed (simp add: valid_utf8.simps)

lemma ascii_decimal: "is_ascii (decimal n)"
proof (induction n rule: decimal.induct)
  case (1 n)
  then show ?case by (subst decimal.simps) (auto simp: is_ascii_def of_char_digit)
qed

end
