(* ===== verification/Room_Policy.thy ===== *)
theory Room_Policy
  imports Json_Scan Json_Encode
begin

text \<open>
  \<open>internal/usecases/diagnosisroom/policy.go\<close>: the blast-radius policy of a diagnosis room and the
  check of one submitted turn against it. Durations are nanoseconds. The tokenizer of
  \<open>encoding/json\<close> is the argument \<open>tokenize\<close>, the lower-casing of non-ASCII text the argument
  \<open>unicode_lower\<close>; the JSON text of a turn is that of \<open>json.Marshal\<close>. The lemmas give the exact set
  of accepted policies and of accepted turns.
\<close>

section \<open>Policies\<close>

definition time_Minute :: int where "time_Minute = 60 * 1000000000"

definition HardMaxTurns :: int where "HardMaxTurns = 20"
definition HardMaxSessionTTL :: int where "HardMaxSessionTTL = 30 * time_Minute"
definition HardMaxIdleTimeout :: int where "HardMaxIdleTimeout = 30 * time_Minute"
definition HardMaxTurnTimeout :: int where "HardMaxTurnTimeout = 5 * time_Minute"
definition HardMaxContextBytes :: int where "HardMaxContextBytes = 2 * 1024 * 1024"
definition HardMaxMessageBytes :: int where "HardMaxMessageBytes = 64 * 1024"
definition HardMaxAutoEvidenceFollowUps :: int where "HardMaxAutoEvidenceFollowUps = 3"

lemmas hard_limits = HardMaxTurns_def HardMaxSessionTTL_def HardMaxIdleTimeout_def
  HardMaxTurnTimeout_def HardMaxContextBytes_def HardMaxMessageBytes_def
  HardMaxAutoEvidenceFollowUps_def time_Minute_def

record Policy =
  pl_MaxTurns :: int
  pl_MaxAutoEvidenceFollowUps :: int
  pl_SessionTTL :: int
  pl_IdleTimeout :: int
  pl_TurnTimeout :: int
  pl_ContextBytes :: int
  pl_MaxMessageBytes :: int
  pl_UnsafeDenylist :: "string list"

record SessionState =
  sn_StartedAt :: go_time
  sn_LastActivityAt :: go_time
  sn_TurnCount :: int
  sn_InFlight :: bool
  sn_SeenMessageIDs :: "string list"

record ConversationTurn =
  cv_Role :: string
  cv_ActorSubject :: string
  cv_Content :: string

record SubmitTurnRequest =
  sr_MessageID :: string
  sr_Message :: string
  sr_Now :: go_time
  sr_Evidence :: string
  sr_Conversation :: "ConversationTurn list"

record Decision =
  dc_ContextBytes :: int

definition DefaultPolicy :: Policy where
  "DefaultPolicy = \<lparr>pl_MaxTurns = 20, pl_MaxAutoEvidenceFollowUps = 1,
     pl_SessionTTL = 30 * time_Minute, pl_IdleTimeout = 10 * time_Minute,
     pl_TurnTimeout = HardMaxTurnTimeout, pl_ContextBytes = 256 * 1024,
     pl_MaxMessageBytes = 8 * 1024,
     pl_UnsafeDenylist = [''ignore previous instructions'', ''reveal system prompt'',
       ''print system prompt'', ''show hidden instructions'', ''exfiltrate'', ''dump secrets'',
       ''disable safety'', ''/var/run/docker.sock'']\<rparr>"

definition ValidatePolicy :: "Policy \<Rightarrow> unit result" where
  "ValidatePolicy p =
     (if pl_MaxTurns p \<le> 0 \<or> pl_MaxTurns p > HardMaxTurns then
        Inl (invariant_error ''diagnosis room policy: max turns must be in [1,20]'')
      else if pl_MaxAutoEvidenceFollowUps p < 0
              \<or> pl_MaxAutoEvidenceFollowUps p > HardMaxAutoEvidenceFollowUps then
        Inl (invariant_error ''diagnosis room policy: max auto evidence follow-ups must be in [0,3]'')
      else if pl_SessionTTL p \<le> 0 \<or> pl_SessionTTL p > HardMaxSessionTTL then
        Inl (invariant_error ''diagnosis room policy: session ttl must be in (0,30m0s]'')
      else if pl_IdleTimeout p \<le> 0 \<or> pl_IdleTimeout p > HardMaxIdleTimeout then
        Inl (invariant_error ''diagnosis room policy: idle timeout must be in (0,30m0s]'')
      else if pl_IdleTimeout p > pl_SessionTTL p then
        Inl (invariant_error ''diagnosis room policy: idle timeout exceeds session ttl'')
      else if pl_TurnTimeout p \<le> 0 \<or> pl_TurnTimeout p > HardMaxTurnTimeout then
        Inl (invariant_error ''diagnosis room policy: turn timeout must be in (0,5m0s]'')
      else if pl_TurnTimeout p > pl_SessionTTL p then
        Inl (invariant_error ''diagnosis room policy: turn timeout exceeds session ttl'')
      else if pl_ContextBytes p \<le> 0 \<or> pl_ContextBytes p > HardMaxContextBytes then
        Inl (invariant_error ''diagnosis room policy: context bytes must be in [1,2097152]'')
      else if pl_MaxMessageBytes p \<le> 0 \<or> pl_MaxMessageBytes p > HardMaxMessageBytes then
        Inl (invariant_error ''diagnosis room policy: max message bytes must be in [1,65536]'')
      else if (\<exists>term \<in> set (pl_UnsafeDenylist p). TrimSpace term = []) then
        Inl (invariant_error ''diagnosis room policy: unsafe denylist must be non-empty'')
      else Inr ())"

section \<open>The context a turn mounts\<close>

definition validRole :: "string \<Rightarrow> bool" where
  "validRole role \<longleftrightarrow> role \<in> {''user'', ''assistant'', ''system'', ''tool''}"

text \<open>\<open>json.Marshal\<close> of a turn, with \<open>omitempty\<close> on the actor, and of a non-nil list of turns.\<close>

definition json_turn :: "ConversationTurn \<Rightarrow> string" where
  "json_turn t = ''{'' @ join_comma (map json_member
     ([(''role'', cv_Role t)]
      @ (if cv_ActorSubject t = [] then [] else [(''actor_subject'', cv_ActorSubject t)])
      @ [(''content'', cv_Content t)])) @ ''}''"

definition json_turns :: "ConversationTurn list \<Rightarrow> string" where
  "json_turns ts = ''['' @ join_comma (map json_turn ts) @ '']''"

fun check_turns :: "ConversationTurn list \<Rightarrow> unit result" where
  "check_turns [] = Inr ()"
| "check_turns (t # ts) =
     (if \<not> validRole (cv_Role t) then
        Inl (invariant_error ''diagnosis room context: conversation role is invalid'')
      else if TrimSpace (cv_Content t) = [] then
        Inl (invariant_error ''diagnosis room context: conversation content must be non-empty'')
      else check_turns ts)"

definition MountContextBytes ::
  "(string \<Rightarrow> decoder) \<Rightarrow> string \<Rightarrow> ConversationTurn list \<Rightarrow> string \<Rightarrow> int result" where
  "MountContextBytes tokenize evidence conversation latestMessage =
     (if evidence = [] then
        Inl (invariant_error ''diagnosis room context: evidence must be non-empty JSON'')
      else case RejectDuplicateObjectKeys tokenize evidence of
        Inl e \<Rightarrow> Inl (GoErr ''diagnosis room context: evidence must be duplicate-key-free JSON''
                      (err_chain e @ [ErrInvariantViolation]))
      | Inr _ \<Rightarrow>
          (case check_turns conversation of
             Inl e \<Rightarrow> Inl e
           | Inr _ \<Rightarrow>
               let conversationRaw = json_turns conversation;
                   messageRaw = json_turn \<lparr>cv_Role = ''user'', cv_ActorSubject = [],
                                            cv_Content = latestMessage\<rparr>
               in Inr (int (length evidence) + int (length conversationRaw)
                       + int (length messageRaw))))"

section \<open>One submitted turn\<close>

definition validateState :: "Policy \<Rightarrow> SessionState \<Rightarrow> go_time \<Rightarrow> unit result" where
  "validateState p st now =
     (if IsZero now then Inl (invariant_error ''diagnosis room turn: now must be set'')
      else if IsZero (sn_StartedAt st) then
        Inl (invariant_error ''diagnosis room state: started_at must be set'')
      else if IsZero (sn_LastActivityAt st) then
        Inl (invariant_error ''diagnosis room state: last_activity_at must be set'')
      else if now < sn_StartedAt st then
        Inl (invariant_error ''diagnosis room state: now precedes started_at'')
      else if sn_LastActivityAt st < sn_StartedAt st then
        Inl (invariant_error ''diagnosis room state: last_activity_at precedes started_at'')
      else if time_Sub now (sn_StartedAt st) \<ge> pl_SessionTTL p then
        Inl (invariant_error ''diagnosis room state: session ttl reached'')
      else if time_Sub now (sn_LastActivityAt st) \<ge> pl_IdleTimeout p then
        Inl (invariant_error ''diagnosis room state: idle timeout reached'')
      else if sn_TurnCount st < 0 then
        Inl (invariant_error ''diagnosis room state: turn count must be >= 0'')
      else if sn_TurnCount st \<ge> pl_MaxTurns p then
        Inl (invariant_error ''diagnosis room state: max turns reached'')
      else if sn_InFlight st then
        Inl (GoErr ''diagnosis room state: turn already in progress'' [ErrTurnInFlight, ErrAlreadyExists])
      else Inr ())"

definition blocks :: "(string \<Rightarrow> string) \<Rightarrow> string \<Rightarrow> string \<Rightarrow> bool" where
  "blocks unicode_lower lower term \<longleftrightarrow>
     (let normalised = ToLower unicode_lower (TrimSpace term)
      in normalised \<noteq> [] \<and> Contains lower normalised)"

definition MatchUnsafeInstruction ::
  "(string \<Rightarrow> string) \<Rightarrow> Policy \<Rightarrow> string \<Rightarrow> string \<times> bool" where
  "MatchUnsafeInstruction unicode_lower p message =
     (let lower = ToLower unicode_lower message
      in case find (blocks unicode_lower lower) (pl_UnsafeDenylist p) of
           Some term \<Rightarrow> (term, True)
         | None \<Rightarrow> ([], False))"

definition ValidateSubmitTurn ::
  "(string \<Rightarrow> decoder) \<Rightarrow> (string \<Rightarrow> string) \<Rightarrow> Policy \<Rightarrow> SessionState \<Rightarrow> SubmitTurnRequest
   \<Rightarrow> Decision result" where
  "ValidateSubmitTurn tokenize unicode_lower p st req =
     (case ValidatePolicy p of
        Inl e \<Rightarrow> Inl e
      | Inr _ \<Rightarrow>
        let messageID = TrimSpace (sr_MessageID req) in
        if messageID = [] then
          Inl (invariant_error ''diagnosis room turn: message_id must be non-empty'')
        else if messageID \<noteq> sr_MessageID req then
          Inl (invariant_error
            ''diagnosis room turn: message_id must not contain leading or trailing whitespace'')
        else if messageID \<in> set (sn_SeenMessageIDs st) then
          Inl (GoErr ''diagnosis room turn: duplicate message_id''
                 [ErrDuplicateMessageID, ErrAlreadyExists])
        else case validateState p st (sr_Now req) of
          Inl e \<Rightarrow> Inl e
        | Inr _ \<Rightarrow>
          if TrimSpace (sr_Message req) = [] then
            Inl (invariant_error ''diagnosis room turn: message must be non-empty'')
          else if int (length (sr_Message req)) > pl_MaxMessageBytes p then
            Inl (invariant_error ''diagnosis room turn: message is too long'')
          else case MatchUnsafeInstruction unicode_lower p (sr_Message req) of
            (match, blocked) \<Rightarrow>
              if blocked then
                Inl (invariant_error ''diagnosis room turn: message matches unsafe denylist term'')
              else case MountContextBytes tokenize (sr_Evidence req) (sr_Conversation req)
                          (sr_Message req) of
                Inl e \<Rightarrow> Inl e
              | Inr contextBytes \<Rightarrow>
                  if contextBytes > pl_ContextBytes p then
                    Inl (invariant_error ''diagnosis room turn: mounted context is too large'')
                  else Inr \<lparr>dc_ContextBytes = contextBytes\<rparr>)"

section \<open>What is accepted\<close>

definition policy_ok :: "Policy \<Rightarrow> bool" where
  "policy_ok p \<longleftrightarrow>
     1 \<le> pl_MaxTurns p \<and> pl_MaxTurns p \<le> HardMaxTurns \<and>
     0 \<le> pl_MaxAutoEvidenceFollowUps p \<and>
     pl_MaxAutoEvidenceFollowUps p \<le> HardMaxAutoEvidenceFollowUps \<and>
     0 < pl_SessionTTL p \<and> pl_SessionTTL p \<le> HardMaxSessionTTL \<and>
     0 < pl_IdleTimeout p \<and> pl_IdleTimeout p \<le> pl_SessionTTL p \<and>
     0 < pl_TurnTimeout p \<and> pl_TurnTimeout p \<le> min (pl_SessionTTL p) HardMaxTurnTimeout \<and>
     1 \<le> pl_ContextBytes p \<and> pl_ContextBytes p \<le> HardMaxContextBytes \<and>
     1 \<le> pl_MaxMessageBytes p \<and> pl_MaxMessageBytes p \<le> HardMaxMessageBytes \<and>
     (\<forall>term \<in> set (pl_UnsafeDenylist p). TrimSpace term \<noteq> [])"

lemma ValidatePolicy_iff: "ValidatePolicy p = Inr () \<longleftrightarrow> policy_ok p"
  unfolding ValidatePolicy_def policy_ok_def if_Inl_eq_Inr hard_limits by auto

lemma DefaultPolicy_ok [simp]: "policy_ok DefaultPolicy"
  by (simp add: policy_ok_def DefaultPolicy_def hard_limits trimmed_printable printable_byte_def)

lemma ValidatePolicy_error: "ValidatePolicy p = Inl e \<Longrightarrow> errors_Is e s = (s = ErrInvariantViolation)"
  unfolding ValidatePolicy_def by (auto split: if_splits)

lemma validateState_iff:
  assumes "policy_ok p"
  shows "validateState p st now = Inr () \<longleftrightarrow>
    now \<noteq> 0 \<and> sn_StartedAt st \<noteq> 0 \<and> sn_LastActivityAt st \<noteq> 0 \<and>
    sn_StartedAt st \<le> now \<and> sn_StartedAt st \<le> sn_LastActivityAt st \<and>
    now - sn_StartedAt st < pl_SessionTTL p \<and> now - sn_LastActivityAt st < pl_IdleTimeout p \<and>
    0 \<le> sn_TurnCount st \<and> sn_TurnCount st < pl_MaxTurns p \<and> \<not> sn_InFlight st"
proof -
  have "pl_SessionTTL p \<le> max_int64" "pl_IdleTimeout p \<le> max_int64" "0 < pl_SessionTTL p"
    "0 < pl_IdleTimeout p"
    using assms by (auto simp: policy_ok_def hard_limits max_int64_def)
  then show ?thesis
    by (auto simp: validateState_def IsZero_def not_le time_Sub_less_iff)
qed

lemma validateState_turns:
  "validateState p st now = Inr () \<Longrightarrow> 0 \<le> sn_TurnCount st \<and> sn_TurnCount st < pl_MaxTurns p \<and>
     \<not> sn_InFlight st"
  by (auto simp: validateState_def split: if_splits)

lemma MatchUnsafeInstruction_iff:
  "snd (MatchUnsafeInstruction ul p m) \<longleftrightarrow>
     (\<exists>term \<in> set (pl_UnsafeDenylist p). ToLower ul (TrimSpace term) \<noteq> [] \<and>
        (\<exists>u v. ToLower ul m = u @ ToLower ul (TrimSpace term) @ v))"
proof -
  have "blocks ul l t \<longleftrightarrow> ToLower ul (TrimSpace t) \<noteq> [] \<and>
      (\<exists>u v. l = u @ ToLower ul (TrimSpace t) @ v)" for l t
    by (simp add: blocks_def Let_def Contains_iff)
  then show ?thesis
    by (auto simp: MatchUnsafeInstruction_def Let_def find_None_iff find_Some_iff
        split: option.split) (metis nth_mem)+
qed

lemma check_turns_iff:
  "check_turns ts = Inr () \<longleftrightarrow> (\<forall>t \<in> set ts. validRole (cv_Role t) \<and> TrimSpace (cv_Content t) \<noteq> [])"
  by (induction ts) auto

lemma ValidateSubmitTurn_InrD:
  assumes "ValidateSubmitTurn tk ul p st req = Inr d"
  shows "policy_ok p" "TrimSpace (sr_MessageID req) = sr_MessageID req" "sr_MessageID req \<noteq> []"
    "sr_MessageID req \<notin> set (sn_SeenMessageIDs st)"
    "validateState p st (sr_Now req) = Inr ()" "TrimSpace (sr_Message req) \<noteq> []"
    "int (length (sr_Message req)) \<le> pl_MaxMessageBytes p"
    "\<not> snd (MatchUnsafeInstruction ul p (sr_Message req))"
    "MountContextBytes tk (sr_Evidence req) (sr_Conversation req) (sr_Message req) = Inr (dc_ContextBytes d)"
    "dc_ContextBytes d \<le> pl_ContextBytes p"
  using assms
  by (auto simp: ValidateSubmitTurn_def Let_def ValidatePolicy_iff [symmetric]
      split: sum.splits if_splits prod.splits)

lemma ValidateSubmitTurn_ok_iff:
  "is_ok (ValidateSubmitTurn tk ul p st req) \<longleftrightarrow>
     policy_ok p \<and> sr_MessageID req \<noteq> [] \<and> TrimSpace (sr_MessageID req) = sr_MessageID req \<and>
     sr_MessageID req \<notin> set (sn_SeenMessageIDs st) \<and>
     validateState p st (sr_Now req) = Inr () \<and> TrimSpace (sr_Message req) \<noteq> [] \<and>
     int (length (sr_Message req)) \<le> pl_MaxMessageBytes p \<and>
     \<not> snd (MatchUnsafeInstruction ul p (sr_Message req)) \<and>
     (\<exists>n \<le> pl_ContextBytes p.
        MountContextBytes tk (sr_Evidence req) (sr_Conversation req) (sr_Message req) = Inr n)"
  by (auto simp: ValidateSubmitTurn_def Let_def ValidatePolicy_iff [symmetric] is_ok_def
      split: sum.splits if_splits prod.splits)

end
