(* ===== verification/Alert_Model.thy ===== *)
theory Alert_Model
  imports Go_Prelude
begin

text \<open>
  \<open>internal/domain/alert.go\<close> and \<open>alert_window.go\<close>: alert events with their firing and resolved
  states, alert groups, and half-open alert windows. The lemmas give the constructor's accepted
  inputs, the invariant of an event and that every operation keeps it, and the immutability of
  a resolution.
\<close>

section \<open>Alert events\<close>

abbreviation AlertStatusFiring :: string where "AlertStatusFiring \<equiv> ''firing''"
abbreviation AlertStatusResolved :: string where "AlertStatusResolved \<equiv> ''resolved''"

definition AlertStatus_Valid :: "string \<Rightarrow> bool" where
  "AlertStatus_Valid s \<longleftrightarrow> s = AlertStatusFiring \<or> s = AlertStatusResolved"

record AlertEvent =
  ae_ID :: int
  ae_Source :: string
  ae_AlertSourceProfileID :: int
  ae_SourceFingerprint :: string
  ae_CanonicalFingerprint :: string
  ae_Labels :: smap
  ae_Annotations :: smap
  ae_RawPayload :: string
  ae_Status :: string
  ae_StartsAt :: go_time
  ae_EndsAt :: "go_time option"
  ae_CreatedAt :: go_time

definition NewAlertEvent ::
  "string \<Rightarrow> string \<Rightarrow> string \<Rightarrow> smap option \<Rightarrow> smap option \<Rightarrow> string \<Rightarrow> go_time
   \<Rightarrow> AlertEvent result" where
  "NewAlertEvent source sourceFP canonicalFP labels annotations rawPayload startsAt =
     (let source = TrimSpace source;
          sourceFP = TrimSpace sourceFP;
          canonicalFP = TrimSpace canonicalFP
      in if source = [] then Inl (invariant_error ''alert event: source must be non-empty'')
      else if sourceFP = [] then
        Inl (invariant_error ''alert event: source fingerprint must be non-empty'')
      else if canonicalFP = [] then
        Inl (invariant_error ''alert event: canonical fingerprint must be non-empty'')
      else if IsZero startsAt then Inl (invariant_error ''alert event: starts_at must be set'')
      else Inr \<lparr>ae_ID = 0, ae_Source = source, ae_AlertSourceProfileID = 0,
        ae_SourceFingerprint = sourceFP, ae_CanonicalFingerprint = canonicalFP,
        ae_Labels = nil_to_empty labels, ae_Annotations = nil_to_empty annotations,
        ae_RawPayload = rawPayload, ae_Status = AlertStatusFiring,
        ae_StartsAt = NormalizeUTCMicro startsAt, ae_EndsAt = None, ae_CreatedAt = 0\<rparr>)"

definition WithAlertSourceProfile :: "AlertEvent \<Rightarrow> int \<Rightarrow> AlertEvent result" where
  "WithAlertSourceProfile a profile =
     (if profile < 0 then
        Inl (invariant_error ''alert event: alert_source_profile_id must be >= 0'')
      else Inr (a\<lparr>ae_AlertSourceProfileID := profile\<rparr>))"

definition AlertEvent_Resolve :: "AlertEvent \<Rightarrow> go_time \<Rightarrow> AlertEvent result" where
  "AlertEvent_Resolve a endsAt =
     (if IsZero endsAt then
        Inl (invariant_error ''alert event: ends_at must be set on resolve'')
      else let normalised = NormalizeUTCMicro endsAt in
        if normalised < ae_StartsAt a then
          Inl (invariant_error ''alert event: ends_at precedes starts_at'')
        else if ae_Status a = AlertStatusFiring then
          Inr (a\<lparr>ae_Status := AlertStatusResolved, ae_EndsAt := Some normalised\<rparr>)
        else if ae_Status a = AlertStatusResolved then
          (case ae_EndsAt a of
             None \<Rightarrow> Inl (invariant_error ''alert event: resolved status requires ends_at'')
           | Some e \<Rightarrow>
               if e = normalised then Inr a
               else Inl (invariant_error ''alert event: ends_at is immutable once set''))
        else Inl (invariant_error ''alert event: cannot resolve from status''))"

definition AlertEvent_wf :: "AlertEvent \<Rightarrow> bool" where
  "AlertEvent_wf a \<longleftrightarrow>
     ae_Source a \<noteq> [] \<and> trimmed (ae_Source a) \<and>
     ae_SourceFingerprint a \<noteq> [] \<and> trimmed (ae_SourceFingerprint a) \<and>
     ae_CanonicalFingerprint a \<noteq> [] \<and> trimmed (ae_CanonicalFingerprint a) \<and>
     0 \<le> ae_AlertSourceProfileID a \<and> micro_time (ae_StartsAt a) \<and>
     (case ae_EndsAt a of
        None \<Rightarrow> ae_Status a = AlertStatusFiring
      | Some e \<Rightarrow> ae_Status a = AlertStatusResolved \<and> micro_time e \<and> ae_StartsAt a \<le> e)"

lemma NewAlertEvent_ok_iff:
  "is_ok (NewAlertEvent s sf cf ls as raw t) \<longleftrightarrow>
     TrimSpace s \<noteq> [] \<and> TrimSpace sf \<noteq> [] \<and> TrimSpace cf \<noteq> [] \<and> t \<noteq> 0"
  by (simp add: NewAlertEvent_def IsZero_def Let_def)

lemma NewAlertEvent_wf: "NewAlertEvent s sf cf ls as raw t = Inr a \<Longrightarrow> AlertEvent_wf a"
  by (auto simp: NewAlertEvent_def AlertEvent_wf_def Let_def)

lemma WithAlertSourceProfile_wf:
  "WithAlertSourceProfile a i = Inr a' \<Longrightarrow> AlertEvent_wf a \<Longrightarrow> AlertEvent_wf a'"
  by (auto simp: WithAlertSourceProfile_def AlertEvent_wf_def split: option.splits)

lemma AlertEvent_Resolve_wf:
  "AlertEvent_Resolve a t = Inr a' \<Longrightarrow> AlertEvent_wf a \<Longrightarrow> AlertEvent_wf a'"
  by (auto simp: AlertEvent_Resolve_def AlertEvent_wf_def Let_def split: if_splits option.splits)

lemma AlertEvent_Resolve_result:
  assumes "AlertEvent_Resolve a t = Inr a'"
  shows "ae_Status a' = AlertStatusResolved \<and> ae_EndsAt a' = Some (NormalizeUTCMicro t)"
  using assms by (auto simp: AlertEvent_Resolve_def Let_def split: if_splits option.splits)

lemma AlertEvent_Resolve_frozen:
  assumes "ae_Status a = AlertStatusResolved" "AlertEvent_Resolve a t = Inr a'"
  shows "a' = a"
  using assms by (auto simp: AlertEvent_Resolve_def Let_def split: if_splits option.splits)

text \<open>The life of one event: construction, then tagging and resolution in any order.\<close>

inductive alert_reachable :: "AlertEvent \<Rightarrow> bool" where
  alert_new: "NewAlertEvent s sf cf ls as raw t = Inr a \<Longrightarrow> alert_reachable a"
| alert_tag: "alert_reachable a \<Longrightarrow> WithAlertSourceProfile a i = Inr a' \<Longrightarrow> alert_reachable a'"
| alert_resolve: "alert_reachable a \<Longrightarrow> AlertEvent_Resolve a t = Inr a' \<Longrightarrow> alert_reachable a'"

lemma alert_reachable_wf: "alert_reachable a \<Longrightarrow> AlertEvent_wf a"
  by (induction rule: alert_reachable.induct)
    (auto intro: NewAlertEvent_wf WithAlertSourceProfile_wf AlertEvent_Resolve_wf)

section \<open>Alert groups\<close>

abbreviation AlertGroupStatusActive :: string where "AlertGroupStatusActive \<equiv> ''active''"
abbreviation AlertGroupStatusClosed :: string where "AlertGroupStatusClosed \<equiv> ''closed''"

definition AlertGroupStatus_Valid :: "string \<Rightarrow> bool" where
  "AlertGroupStatus_Valid s \<longleftrightarrow> s = AlertGroupStatusActive \<or> s = AlertGroupStatusClosed"

abbreviation GroupSeverityCritical :: string where "GroupSeverityCritical \<equiv> ''critical''"
abbreviation GroupSeverityWarning :: string where "GroupSeverityWarning \<equiv> ''warning''"
abbreviation GroupSeverityInfo :: string where "GroupSeverityInfo \<equiv> ''info''"
abbreviation GroupSeverityUnknown :: string where "GroupSeverityUnknown \<equiv> ''unknown''"

definition GroupSeverity_Valid :: "string \<Rightarrow> bool" where
  "GroupSeverity_Valid s \<longleftrightarrow>
     s \<in> {GroupSeverityCritical, GroupSeverityWarning, GroupSeverityInfo, GroupSeverityUnknown}"

record AlertGroup =
  ag_ID :: int
  ag_GroupKey :: string
  ag_Dimensions :: string
  ag_Severity :: string
  ag_EventCount :: int
  ag_Status :: string
  ag_FirstSeenAt :: go_time
  ag_LastSeenAt :: go_time
  ag_CreatedAt :: go_time
  ag_UpdatedAt :: go_time
  ag_EventIDs :: "int list"

definition NewAlertGroup ::
  "string \<Rightarrow> string \<Rightarrow> string \<Rightarrow> int \<Rightarrow> go_time \<Rightarrow> go_time \<Rightarrow> int list \<Rightarrow> AlertGroup result" where
  "NewAlertGroup groupKey dims severity eventCount firstSeenAt lastSeenAt eventIDs =
     (if groupKey = [] then Inl (invariant_error ''alert group: group_key must be non-empty'')
      else if IsZero firstSeenAt then
        Inl (invariant_error ''alert group: first_seen_at must be set'')
      else if IsZero lastSeenAt then
        Inl (invariant_error ''alert group: last_seen_at must be set'')
      else let first = NormalizeUTCMicro firstSeenAt; last = NormalizeUTCMicro lastSeenAt in
        if last < first then
          Inl (invariant_error ''alert group: last_seen_at precedes first_seen_at'')
        else if \<not> GroupSeverity_Valid severity then
          Inl (invariant_error ''alert group: severity is not a known value'')
        else if eventCount < 0 then
          Inl (invariant_error ''alert group: event_count must be >= 0'')
        else Inr \<lparr>ag_ID = 0, ag_GroupKey = groupKey, ag_Dimensions = dims,
          ag_Severity = severity, ag_EventCount = eventCount, ag_Status = AlertGroupStatusActive,
          ag_FirstSeenAt = first, ag_LastSeenAt = last, ag_CreatedAt = 0, ag_UpdatedAt = 0,
          ag_EventIDs = eventIDs\<rparr>)"

definition AlertGroup_Close :: "AlertGroup \<Rightarrow> AlertGroup" where
  "AlertGroup_Close g =
     (if ag_Status g = AlertGroupStatusClosed then g
      else g\<lparr>ag_Status := AlertGroupStatusClosed\<rparr>)"

lemma NewAlertGroup_ok_iff:
  "is_ok (NewAlertGroup k d sv n f l ids) \<longleftrightarrow>
     k \<noteq> [] \<and> f \<noteq> 0 \<and> l \<noteq> 0 \<and> NormalizeUTCMicro f \<le> NormalizeUTCMicro l \<and>
     GroupSeverity_Valid sv \<and> 0 \<le> n"
  by (auto simp: NewAlertGroup_def IsZero_def Let_def)

lemma AlertGroup_Close_idem [simp]: "AlertGroup_Close (AlertGroup_Close g) = AlertGroup_Close g"
  by (simp add: AlertGroup_Close_def)

section \<open>Alert windows\<close>

record AlertWindow =
  aw_startInclusive :: go_time
  aw_endExclusive :: go_time

definition NewAlertWindow :: "go_time \<Rightarrow> go_time \<Rightarrow> AlertWindow result" where
  "NewAlertWindow startInclusive endExclusive =
     (if IsZero startInclusive then Inl (invariant_error ''alert window: start must be set'')
      else if IsZero endExclusive then Inl (invariant_error ''alert window: end must be set'')
      else let start = NormalizeUTCMicro startInclusive; end' = NormalizeUTCMicro endExclusive in
        if \<not> end' > start then
          Inl (invariant_error
            ''alert window: end must be strictly after start after normalization'')
        else Inr \<lparr>aw_startInclusive = start, aw_endExclusive = end'\<rparr>)"

definition StartInclusive :: "AlertWindow \<Rightarrow> go_time" where
  "StartInclusive w = aw_startInclusive w"

definition EndExclusive :: "AlertWindow \<Rightarrow> go_time" where
  "EndExclusive w = aw_endExclusive w"

lemma NewAlertWindow_Inr_iff:
  "NewAlertWindow s e = Inr w \<longleftrightarrow>
     s \<noteq> 0 \<and> e \<noteq> 0 \<and> NormalizeUTCMicro s < NormalizeUTCMicro e \<and>
     w = \<lparr>aw_startInclusive = NormalizeUTCMicro s, aw_endExclusive = NormalizeUTCMicro e\<rparr>"
  by (auto simp: NewAlertWindow_def IsZero_def Let_def)

section \<open>Alerts as a provider returns them\<close>

text \<open>\<open>ports.ActiveAlert\<close>.\<close>

record ActiveAlert =
  aa_Source :: string
  aa_AlertSourceProfileID :: int
  aa_Labels :: "smap option"
  aa_Annotations :: "smap option"
  aa_StartsAt :: go_time
  aa_RawPayload :: string

end
