(* ===== verification/Chat_Session.thy ===== *)
theory Chat_Session
  imports Json_Scan
begin

text \<open>
  \<open>internal/domain/chat.go\<close>: the diagnosis-room chat session and its append-only rows (turns,
  summaries, approvals). The lemmas give the session invariant, its preservation by
  \<open>RecordTurn\<close> and \<open>Close\<close>, the turn count over a run, and what each constructor accepts.
  \<open>tokenize\<close> is the JSON tokenizer of \<open>Json_Scan\<close>; \<open>json_object\<close> says whether
  \<open>json.Unmarshal\<close> reads a text into a non-nil map.
\<close>

section \<open>Vocabularies\<close>

abbreviation ChatSessionStatusOpen :: string where "ChatSessionStatusOpen \<equiv> ''open''"
abbreviation ChatSessionStatusClosed :: string where "ChatSessionStatusClosed \<equiv> ''closed''"

definition ChatSessionStatus_Valid :: "string \<Rightarrow> bool" where
  "ChatSessionStatus_Valid s \<longleftrightarrow> s = ChatSessionStatusOpen \<or> s = ChatSessionStatusClosed"

definition ChatSessionStatus_IsTerminal :: "string \<Rightarrow> bool" where
  "ChatSessionStatus_IsTerminal s \<longleftrightarrow> s = ChatSessionStatusClosed"

abbreviation ApprovalModeSingle :: string where "ApprovalModeSingle \<equiv> ''single''"
abbreviation ApprovalModeOwnerAndLeader :: string where
  "ApprovalModeOwnerAndLeader \<equiv> ''owner_and_leader''"

definition DiagnosisApprovalMode_Valid :: "string \<Rightarrow> bool" where
  "DiagnosisApprovalMode_Valid m \<longleftrightarrow> m = ApprovalModeSingle \<or> m = ApprovalModeOwnerAndLeader"

abbreviation ApprovalAuthorityOwner :: string where "ApprovalAuthorityOwner \<equiv> ''owner''"
abbreviation ApprovalAuthorityLeader :: string where "ApprovalAuthorityLeader \<equiv> ''leader''"

definition DiagnosisApprovalAuthority_Valid :: "string \<Rightarrow> bool" where
  "DiagnosisApprovalAuthority_Valid a \<longleftrightarrow> a = ApprovalAuthorityOwner \<or> a = ApprovalAuthorityLeader"

abbreviation ChatRoleUser :: string where "ChatRoleUser \<equiv> ''user''"
abbreviation ChatRoleAssistant :: string where "ChatRoleAssistant \<equiv> ''assistant''"
abbreviation ChatRoleSystem :: string where "ChatRoleSystem \<equiv> ''system''"
abbreviation ChatRoleTool :: string where "ChatRoleTool \<equiv> ''tool''"

definition ChatRole_Valid :: "string \<Rightarrow> bool" where
  "ChatRole_Valid r \<longleftrightarrow> r \<in> {ChatRoleUser, ChatRoleAssistant, ChatRoleSystem, ChatRoleTool}"

section \<open>Sessions\<close>

record ChatSession =
  cs_ID :: int
  cs_DiagnosisTaskID :: int
  cs_SessionKey :: string
  cs_OwnerSubject :: string
  cs_Status :: string
  cs_TurnCount :: int
  cs_StartedAt :: go_time
  cs_LastActivityAt :: go_time
  cs_ClosedAt :: "go_time option"
  cs_CloseReason :: string
  cs_ApprovalMode :: string
  cs_CreatedAt :: go_time
  cs_UpdatedAt :: go_time

definition NewChatSession ::
  "int \<Rightarrow> string \<Rightarrow> string \<Rightarrow> go_time \<Rightarrow> string list \<Rightarrow> ChatSession result" where
  "NewChatSession taskID sessionKey ownerSubject startedAt approvalModes =
     (let sessionKey = TrimSpace sessionKey; ownerSubject = TrimSpace ownerSubject in
      if taskID = 0 then
        Inl (invariant_error ''chat session: diagnosis_task_id must be non-zero'')
      else if sessionKey = [] then
        Inl (invariant_error ''chat session: session_key must be non-empty'')
      else if ownerSubject = [] then
        Inl (invariant_error ''chat session: owner_subject must be non-empty'')
      else if IsZero startedAt then
        Inl (invariant_error ''chat session: started_at must be set'')
      else if length approvalModes > 1 then
        Inl (invariant_error ''chat session: at most one approval mode may be provided'')
      else let approvalMode = (case approvalModes of [m] \<Rightarrow> m | _ \<Rightarrow> ApprovalModeSingle) in
        if \<not> DiagnosisApprovalMode_Valid approvalMode then
          Inl (invariant_error ''chat session: approval_mode is unsupported'')
        else let normalised = NormalizeUTCMicro startedAt in
          Inr \<lparr>cs_ID = 0, cs_DiagnosisTaskID = taskID, cs_SessionKey = sessionKey,
            cs_OwnerSubject = ownerSubject, cs_Status = ChatSessionStatusOpen, cs_TurnCount = 0,
            cs_StartedAt = normalised, cs_LastActivityAt = normalised, cs_ClosedAt = None,
            cs_CloseReason = [], cs_ApprovalMode = approvalMode, cs_CreatedAt = 0,
            cs_UpdatedAt = 0\<rparr>)"

definition ChatSession_RecordTurn :: "ChatSession \<Rightarrow> go_time \<Rightarrow> ChatSession result" where
  "ChatSession_RecordTurn s occurredAt =
     (if ChatSessionStatus_IsTerminal (cs_Status s) then
        Inl (invariant_error ''chat session: cannot record turn on terminal status'')
      else if IsZero occurredAt then
        Inl (invariant_error ''chat session: turn occurred_at must be set'')
      else let normalised = NormalizeUTCMicro occurredAt in
        if IsZero (cs_StartedAt s) then
          Inl (invariant_error ''chat session: started_at must be set before recording turns'')
        else if normalised < cs_StartedAt s then
          Inl (invariant_error ''chat session: turn occurred_at precedes started_at'')
        else if cs_TurnCount s < 0 then
          Inl (invariant_error ''chat session: turn_count must be >= 0'')
        else Inr (s\<lparr>cs_TurnCount := wrap64 (cs_TurnCount s + 1),
          cs_LastActivityAt := normalised\<rparr>))"

definition ChatSession_Close :: "ChatSession \<Rightarrow> go_time \<Rightarrow> string \<Rightarrow> ChatSession result" where
  "ChatSession_Close s closedAt reason =
     (let reason = TrimSpace reason in
      if IsZero closedAt then Inl (invariant_error ''chat session: closed_at must be set'')
      else if reason = [] then
        Inl (invariant_error ''chat session: close_reason must be non-empty'')
      else let normalised = NormalizeUTCMicro closedAt in
        if IsZero (cs_StartedAt s) then
          Inl (invariant_error ''chat session: started_at must be set before close'')
        else if normalised < cs_StartedAt s then
          Inl (invariant_error ''chat session: closed_at precedes started_at'')
        else if ChatSessionStatus_IsTerminal (cs_Status s) then
          (if cs_ClosedAt s = Some normalised \<and> cs_CloseReason s = reason then Inr s
           else Inl (invariant_error ''chat session: terminal close metadata is immutable''))
        else Inr (s\<lparr>cs_Status := ChatSessionStatusClosed, cs_ClosedAt := Some normalised,
          cs_CloseReason := reason, cs_LastActivityAt := normalised\<rparr>))"

definition ChatSession_wf :: "ChatSession \<Rightarrow> bool" where
  "ChatSession_wf s \<longleftrightarrow>
     cs_DiagnosisTaskID s \<noteq> 0 \<and> cs_SessionKey s \<noteq> [] \<and> trimmed (cs_SessionKey s) \<and>
     cs_OwnerSubject s \<noteq> [] \<and> trimmed (cs_OwnerSubject s) \<and>
     DiagnosisApprovalMode_Valid (cs_ApprovalMode s) \<and>
     micro_time (cs_StartedAt s) \<and> micro_time (cs_LastActivityAt s) \<and>
     cs_StartedAt s \<le> cs_LastActivityAt s \<and>
     (case cs_ClosedAt s of
        None \<Rightarrow> cs_Status s = ChatSessionStatusOpen \<and> cs_CloseReason s = []
      | Some c \<Rightarrow> cs_Status s = ChatSessionStatusClosed \<and> cs_CloseReason s \<noteq> [] \<and>
          c = cs_LastActivityAt s)"

lemma NewChatSession_wf: "NewChatSession i k ow t ms = Inr s \<Longrightarrow> ChatSession_wf s"
  by (auto simp: NewChatSession_def ChatSession_wf_def Let_def)

lemma ChatSession_RecordTurn_cases:
  assumes "ChatSession_RecordTurn s t = Inr s'"
  shows "\<not> ChatSessionStatus_IsTerminal (cs_Status s)" "0 \<le> cs_TurnCount s"
    "cs_StartedAt s \<le> NormalizeUTCMicro t"
    "s' = s\<lparr>cs_TurnCount := wrap64 (cs_TurnCount s + 1), cs_LastActivityAt := NormalizeUTCMicro t\<rparr>"
  using assms by (auto simp: ChatSession_RecordTurn_def Let_def)

lemma ChatSession_Close_cases:
  assumes "ChatSession_Close s t r = Inr s'"
  obtains (unchanged) "s' = s" "ChatSessionStatus_IsTerminal (cs_Status s)"
      "cs_ClosedAt s = Some (NormalizeUTCMicro t)" "cs_CloseReason s = TrimSpace r"
    | (closed) "\<not> ChatSessionStatus_IsTerminal (cs_Status s)" "TrimSpace r \<noteq> []"
      "cs_StartedAt s \<le> NormalizeUTCMicro t"
      "s' = s\<lparr>cs_Status := ChatSessionStatusClosed, cs_ClosedAt := Some (NormalizeUTCMicro t),
         cs_CloseReason := TrimSpace r, cs_LastActivityAt := NormalizeUTCMicro t\<rparr>"
  using assms by (auto simp: ChatSession_Close_def Let_def split: if_splits)

lemma ChatSession_RecordTurn_wf:
  assumes "ChatSession_RecordTurn s t = Inr s'" "ChatSession_wf s"
  shows "ChatSession_wf s'"
  using ChatSession_RecordTurn_cases [OF assms(1)] assms(2)
  by (auto simp: ChatSession_wf_def ChatSessionStatus_IsTerminal_def split: option.splits)

lemma ChatSession_Close_wf:
  assumes "ChatSession_Close s t r = Inr s'" "ChatSession_wf s"
  shows "ChatSession_wf s'"
  using assms(1)
  by (cases rule: ChatSession_Close_cases) (use assms(2) in \<open>auto simp: ChatSession_wf_def\<close>)

text \<open>A session over its life: turns and closes in any order, refused ones leave it unchanged.\<close>

datatype session_op = OpTurn go_time | OpClose go_time string

fun session_step :: "ChatSession \<Rightarrow> session_op \<Rightarrow> ChatSession result" where
  "session_step s (OpTurn t) = ChatSession_RecordTurn s t"
| "session_step s (OpClose t r) = ChatSession_Close s t r"

fun session_run :: "ChatSession \<Rightarrow> session_op list \<Rightarrow> ChatSession \<times> nat" where
  "session_run s [] = (s, 0)"
| "session_run s (x # xs) =
     (case session_step s x of
        Inl e \<Rightarrow> session_run s xs
      | Inr s' \<Rightarrow>
          let (s'', n) = session_run s' xs
          in (s'', n + (case x of OpTurn t \<Rightarrow> 1 | OpClose t r \<Rightarrow> 0)))"

lemma fst_session_run_Cons:
  "fst (session_run s (x # xs)) =
     fst (session_run (case session_step s x of Inl e \<Rightarrow> s | Inr s' \<Rightarrow> s') xs)"
  by (auto split: sum.split prod.split)

lemma session_step_wf: "session_step s x = Inr s' \<Longrightarrow> ChatSession_wf s \<Longrightarrow> ChatSession_wf s'"
  by (cases x) (auto intro: ChatSession_RecordTurn_wf ChatSession_Close_wf)

lemma session_run_wf: "ChatSession_wf s \<Longrightarrow> ChatSession_wf (fst (session_run s xs))"
proof (induction xs arbitrary: s)
  case (Cons x xs)
  then show ?case
    unfolding fst_session_run_Cons by (auto split: sum.split intro!: Cons.IH dest: session_step_wf)
qed simp

lemma session_step_count:
  assumes "session_step s x = Inr s'" "0 \<le> cs_TurnCount s" "cs_TurnCount s < max_int64"
  shows "cs_TurnCount s' = cs_TurnCount s + (case x of OpTurn t \<Rightarrow> 1 | OpClose t r \<Rightarrow> 0)"
proof (cases x)
  case (OpTurn t)
  have "wrap64 (cs_TurnCount s + 1) = cs_TurnCount s + 1"
    using assms(2,3) by (intro wrap64_id) (simp add: int64_def min_int64_def)
  with OpTurn assms(1) show ?thesis
    by (auto dest: ChatSession_RecordTurn_cases)
next
  case (OpClose t r)
  with assms(1) show ?thesis by (auto elim!: ChatSession_Close_cases)
qed

lemma session_run_count:
  "\<lbrakk>0 \<le> cs_TurnCount s; cs_TurnCount s + int (length xs) \<le> max_int64\<rbrakk> \<Longrightarrow>
   cs_TurnCount (fst (session_run s xs)) = cs_TurnCount s + int (snd (session_run s xs))"
proof (induction xs arbitrary: s)
  case Nil
  then show ?case by simp
next
  case (Cons x xs)
  show ?case
  proof (cases "session_step s x")
    case (Inl e)
    with Cons show ?thesis by simp
  next
    case (Inr s')
    have "cs_TurnCount s' = cs_TurnCount s + (case x of OpTurn t \<Rightarrow> 1 | OpClose t r \<Rightarrow> 0)"
      using Inr Cons.prems by (intro session_step_count) auto
    moreover have "cs_TurnCount (fst (session_run s' xs))
        = cs_TurnCount s' + int (snd (session_run s' xs))"
      using Cons.prems calculation by (intro Cons.IH) (auto split: session_op.splits)
    ultimately show ?thesis
      using Inr by (auto split: prod.splits session_op.splits)
  qed
qed

lemma session_step_closed:
  "\<lbrakk>cs_Status s = ChatSessionStatusClosed; session_step s x = Inr s'\<rbrakk> \<Longrightarrow> s' = s"
  by (cases x)
    (auto simp: ChatSessionStatus_IsTerminal_def elim: ChatSession_Close_cases
      dest: ChatSession_RecordTurn_cases(1))

lemma session_run_closed:
  "cs_Status s = ChatSessionStatusClosed \<Longrightarrow> fst (session_run s xs) = s"
proof (induction xs)
  case (Cons x xs)
  then show ?case
    unfolding fst_session_run_Cons
    by (cases "session_step s x") (auto dest: session_step_closed)
qed simp

section \<open>Append-only rows\<close>

definition is_byte_in :: "nat \<Rightarrow> nat \<Rightarrow> char \<Rightarrow> bool" where
  "is_byte_in lo hi c \<longleftrightarrow> lo \<le> (of_char c :: nat) \<and> (of_char c :: nat) \<le> hi"

definition isLowerHex :: "string \<Rightarrow> bool" where
  "isLowerHex s \<longleftrightarrow> list_all (\<lambda>c. is_byte_in 48 57 c \<or> is_byte_in 97 102 c) s"

text \<open>
  \<open>strings.ContainsFunc\<close> with \<open>unicode.IsControl\<close>: the runes U+0000 to U+001F and U+007F to
  U+009F, the latter from U+0080 on as the bytes C2 80 to C2 9F.
\<close>

fun contains_control :: "string \<Rightarrow> bool" where
  "contains_control [] = False"
| "contains_control (c # s) =
     (is_byte_in 0 31 c \<or> is_byte_in 127 127 c \<or>
      (is_byte_in 194 194 c \<and> (case s of [] \<Rightarrow> False | d # _ \<Rightarrow> is_byte_in 128 159 d)) \<or>
      contains_control s)"

record ChatTurn =
  ct_ID :: int
  ct_SessionID :: int
  ct_MessageID :: string
  ct_Sequence :: int
  ct_Role :: string
  ct_ActorSubject :: string
  ct_Content :: string
  ct_Metadata :: string
  ct_OccurredAt :: go_time
  ct_CreatedAt :: go_time

definition NewChatTurn :: "(string \<Rightarrow> decoder) \<Rightarrow> ChatTurn \<Rightarrow> ChatTurn result" where
  "NewChatTurn tokenize i =
     (if ct_SessionID i = 0 then
        Inl (invariant_error ''chat turn: session_id must be non-zero'')
      else let i = i\<lparr>ct_MessageID := TrimSpace (ct_MessageID i)\<rparr> in
      if ct_MessageID i = [] then
        Inl (invariant_error ''chat turn: message_id must be non-empty'')
      else if ct_Sequence i \<le> 0 then Inl (invariant_error ''chat turn: sequence must be > 0'')
      else if \<not> ChatRole_Valid (ct_Role i) then
        Inl (invariant_error ''chat turn: role is invalid'')
      else let i = i\<lparr>ct_ActorSubject := TrimSpace (ct_ActorSubject i)\<rparr> in
      if ct_ActorSubject i = [] then
        Inl (invariant_error ''chat turn: actor_subject must be non-empty'')
      else let i = i\<lparr>ct_Content := TrimSpace (ct_Content i)\<rparr> in
      if ct_Content i = [] then Inl (invariant_error ''chat turn: content must be non-empty'')
      else if IsZero (ct_OccurredAt i) then
        Inl (invariant_error ''chat turn: occurred_at must be set'')
      else let i = i\<lparr>ct_OccurredAt := NormalizeUTCMicro (ct_OccurredAt i),
                    ct_Metadata := defaultJSONObject (ct_Metadata i)\<rparr> in
      (case requireValidJSON tokenize ''chat turn: metadata'' (ct_Metadata i) of
         Inl e \<Rightarrow> Inl e
       | Inr _ \<Rightarrow> Inr i))"

record ChatSessionSummary =
  ss_ID :: int
  ss_SessionID :: int
  ss_Version :: int
  ss_SchemaVersion :: string
  ss_SourceFirstSequence :: int
  ss_SourceLastSequence :: int
  ss_SourceTurnCount :: int
  ss_SourceDigest :: string
  ss_Content :: string
  ss_GeneratedAt :: go_time
  ss_CreatedAt :: go_time

definition summary_range_error :: "ChatSessionSummary \<Rightarrow> go_error option" where
  "summary_range_error i =
     (if ss_SourceTurnCount i = 0 then
        (if ss_SourceFirstSequence i \<noteq> 0 \<or> ss_SourceLastSequence i \<noteq> 0 then
           Some (invariant_error ''chat session summary: empty source must use zero sequence bounds'')
         else None)
      else if ss_SourceFirstSequence i \<le> 0 \<or> ss_SourceLastSequence i < ss_SourceFirstSequence i then
        Some (invariant_error ''chat session summary: invalid source sequence range'')
      else if wrap64 (ss_SourceLastSequence i - ss_SourceFirstSequence i + 1)
          \<noteq> ss_SourceTurnCount i then
        Some (invariant_error ''chat session summary: source sequence range does not contain turns'')
      else None)"

definition NewChatSessionSummary ::
  "(string \<Rightarrow> decoder) \<Rightarrow> (string \<Rightarrow> bool) \<Rightarrow> ChatSessionSummary \<Rightarrow> ChatSessionSummary result" where
  "NewChatSessionSummary tokenize json_object i =
     (if ss_SessionID i = 0 then
        Inl (invariant_error ''chat session summary: session_id must be non-zero'')
      else if ss_Version i \<le> 0 then
        Inl (invariant_error ''chat session summary: version must be > 0'')
      else let i = i\<lparr>ss_SchemaVersion := TrimSpace (ss_SchemaVersion i)\<rparr> in
      if ss_SchemaVersion i = [] \<or> length (ss_SchemaVersion i) > 64 then
        Inl (invariant_error ''chat session summary: schema_version must contain 1-64 bytes'')
      else if ss_SourceTurnCount i < 0 then
        Inl (invariant_error ''chat session summary: source_turn_count must be >= 0'')
      else (case summary_range_error i of Some e \<Rightarrow> Inl e | None \<Rightarrow>
      let i = i\<lparr>ss_SourceDigest := TrimSpace (ss_SourceDigest i)\<rparr> in
      if length (ss_SourceDigest i) \<noteq> 64 \<or> \<not> isLowerHex (ss_SourceDigest i) then
        Inl (invariant_error
          ''chat session summary: source_digest must be a lowercase SHA-256 hex digest'')
      else if ss_Content i = [] then
        Inl (invariant_error ''chat session summary: content must be set'')
      else (case requireValidJSON tokenize ''chat session summary: content'' (ss_Content i) of
         Inl e \<Rightarrow> Inl e
       | Inr _ \<Rightarrow>
           if \<not> json_object (ss_Content i) then
             Inl (invariant_error ''chat session summary: content must be a JSON object'')
           else if IsZero (ss_GeneratedAt i) then
             Inl (invariant_error ''chat session summary: generated_at must be set'')
           else Inr (i\<lparr>ss_GeneratedAt := NormalizeUTCMicro (ss_GeneratedAt i)\<rparr>))))"

record ChatSessionApproval =
  sa_ID :: int
  sa_SessionID :: int
  sa_ConclusionDigest :: string
  sa_ActorSubject :: string
  sa_Authority :: string
  sa_Reason :: string
  sa_ApprovedAt :: go_time
  sa_CreatedAt :: go_time

definition NewChatSessionApproval :: "ChatSessionApproval \<Rightarrow> ChatSessionApproval result" where
  "NewChatSessionApproval i =
     (if sa_SessionID i = 0 then
        Inl (invariant_error ''chat session approval: session_id must be non-zero'')
      else let i = i\<lparr>sa_ConclusionDigest := TrimSpace (sa_ConclusionDigest i)\<rparr> in
      if length (sa_ConclusionDigest i) \<noteq> 64 \<or> \<not> isLowerHex (sa_ConclusionDigest i) then
        Inl (invariant_error
          ''chat session approval: conclusion_digest must be a lowercase SHA-256 hex digest'')
      else let i = i\<lparr>sa_ActorSubject := TrimSpace (sa_ActorSubject i)\<rparr> in
      if sa_ActorSubject i = [] \<or> length (sa_ActorSubject i) > 256 then
        Inl (invariant_error ''chat session approval: actor_subject must contain 1-256 bytes'')
      else if \<not> DiagnosisApprovalAuthority_Valid (sa_Authority i) then
        Inl (invariant_error ''chat session approval: authority is unsupported'')
      else let i = i\<lparr>sa_Reason := TrimSpace (sa_Reason i)\<rparr> in
      if sa_Reason i = [] \<or> length (sa_Reason i) > 512 \<or> contains_control (sa_Reason i) then
        Inl (invariant_error
          ''chat session approval: reason must be a single-line value containing 1-512 bytes'')
      else if IsZero (sa_ApprovedAt i) then
        Inl (invariant_error ''chat session approval: approved_at must be set'')
      else Inr (i\<lparr>sa_ApprovedAt := NormalizeUTCMicro (sa_ApprovedAt i)\<rparr>))"

text \<open>The sequence range of an accepted summary is exactly the number of turns it claims.\<close>

lemma NewChatSessionSummary_range:
  assumes "NewChatSessionSummary tokenize json_object i = Inr s"
    and "int64 (ss_SourceLastSequence i)"
  shows "ss_SourceTurnCount s = int (card {ss_SourceFirstSequence s .. ss_SourceLastSequence s})
      \<or> ss_SourceTurnCount s = 0 \<and> ss_SourceFirstSequence s = 0 \<and> ss_SourceLastSequence s = 0"
proof -
  have s: "ss_SourceTurnCount s = ss_SourceTurnCount i"
    "ss_SourceFirstSequence s = ss_SourceFirstSequence i"
    "ss_SourceLastSequence s = ss_SourceLastSequence i" "summary_range_error i = None"
    using assms(1)
    by (auto simp: NewChatSessionSummary_def summary_range_error_def Let_def
        split: option.splits sum.splits if_splits)
  show ?thesis
  proof (cases "ss_SourceTurnCount i = 0")
    case True
    with s show ?thesis by (auto simp: summary_range_error_def split: if_splits)
  next
    case False
    with s(4) have r: "0 < ss_SourceFirstSequence i"
      "ss_SourceFirstSequence i \<le> ss_SourceLastSequence i"
      "wrap64 (ss_SourceLastSequence i - ss_SourceFirstSequence i + 1) = ss_SourceTurnCount i"
      by (auto simp: summary_range_error_def split: if_splits)
    have "wrap64 (ss_SourceLastSequence i - ss_SourceFirstSequence i + 1)
        = ss_SourceLastSequence i - ss_SourceFirstSequence i + 1"
      using r assms(2) by (intro wrap64_id) (auto simp: int64_def min_int64_def)
    with s r show ?thesis by simp
  qed
qed

lemma NewChatTurn_normalises:
  assumes "NewChatTurn tokenize i = Inr t"
  shows "trimmed (ct_MessageID t) \<and> ct_MessageID t \<noteq> [] \<and> trimmed (ct_Content t) \<and>
    ct_Content t \<noteq> [] \<and> trimmed (ct_ActorSubject t) \<and> ct_ActorSubject t \<noteq> [] \<and>
    0 < ct_Sequence t \<and> ChatRole_Valid (ct_Role t) \<and> micro_time (ct_OccurredAt t) \<and>
    ct_Metadata t \<noteq> []"
  using assms
  by (auto simp: NewChatTurn_def Let_def defaultJSONObject_def split: sum.splits if_splits)

end
