(* ===== verification/Diagnosis_Approval.thy ===== *)
theory Diagnosis_Approval
  imports Chat_Session Json_Encode
begin

text \<open>
  \<open>internal/usecases/diagnosisapproval/conclusion.go\<close>: the identity of a conclusion and the quorum of
  its human approvals. SHA-256 in hexadecimal is the argument \<open>sha256_hex\<close>. The lemmas show that
  an empty list of pending authorities is a full quorum of distinct people, that the digest
  determines the conclusion it was taken of, and which transcripts have a latest conclusion.
\<close>

section \<open>The identity of a conclusion\<close>

definition conclusion_json :: "string \<Rightarrow> int \<Rightarrow> string \<Rightarrow> string" where
  "conclusion_json assistantMessageID assistantSequence content =
     ''{'' @ json_string ''assistant_message_id'' @ '':'' @ json_string assistantMessageID
     @ '','' @ json_string ''assistant_sequence'' @ '':'' @ decimal (nat assistantSequence)
     @ '','' @ json_string ''content'' @ '':'' @ json_string content @ ''}''"

definition ConclusionDigest :: "(string \<Rightarrow> string) \<Rightarrow> string \<Rightarrow> int \<Rightarrow> string \<Rightarrow> string result" where
  "ConclusionDigest sha256_hex assistantMessageID assistantSequence content =
     (let assistantMessageID = TrimSpace assistantMessageID;
          content = TrimSpace content
      in if assistantMessageID = [] then
        Inl (invariant_error ''diagnosis approval: assistant_message_id must be non-empty'')
      else if assistantSequence \<le> 0 then
        Inl (invariant_error ''diagnosis approval: assistant_sequence must be positive'')
      else if content = [] then
        Inl (invariant_error ''diagnosis approval: content must be non-empty'')
      else Inr (sha256_hex (conclusion_json assistantMessageID assistantSequence content)))"

definition is_hex_digit :: "char \<Rightarrow> bool" where
  "is_hex_digit c \<longleftrightarrow> is_byte_in 48 57 c \<or> is_byte_in 97 102 c \<or> is_byte_in 65 70 c"

text \<open>
  \<open>hex.DecodeString\<close> succeeds on an even number of hexadecimal digits of either case and yields
  half as many bytes.
\<close>

definition ValidateConclusionDigest :: "(string \<Rightarrow> string) \<Rightarrow> string \<Rightarrow> unit result" where
  "ValidateConclusionDigest unicode_lower value =
     (if value \<noteq> TrimSpace value \<or> length value \<noteq> 64 then
        Inl (invariant_error
          ''diagnosis approval: conclusion_digest must be a lowercase SHA-256 hex digest'')
      else if \<not> (list_all is_hex_digit value \<and> even (length value)) \<or> length value div 2 \<noteq> 32
              \<or> ToLower unicode_lower value \<noteq> value then
        Inl (invariant_error
          ''diagnosis approval: conclusion_digest must be a lowercase SHA-256 hex digest'')
      else Inr ())"

section \<open>The latest persisted conclusion\<close>

fun check_transcript :: "int \<Rightarrow> nat \<Rightarrow> ChatTurn list \<Rightarrow> unit result" where
  "check_transcript sid index [] = Inr ()"
| "check_transcript sid index (turn # turns) =
     (let wantSequence = int index + 1;
          wantRole = (if wantSequence mod 2 = 0 then ''assistant'' else ''user'')
      in if ct_SessionID turn \<noteq> sid \<or> ct_Sequence turn \<noteq> wantSequence \<or> ct_Role turn \<noteq> wantRole
         then Inl (invariant_error
                ''diagnosis approval: persisted message is outside the canonical transcript'')
         else check_transcript sid (index + 1) turns)"

definition LatestPersistedConclusion ::
  "(string \<Rightarrow> string) \<Rightarrow> ChatSession \<Rightarrow> ChatTurn list \<Rightarrow> (ChatTurn \<times> string) result" where
  "LatestPersistedConclusion sha256_hex session turns =
     (if cs_ID session \<le> 0 \<or> cs_TurnCount session \<le> 0 then
        Inl (invariant_error
          ''diagnosis approval: chat session identity and turn_count must be positive'')
      else if length turns mod 2 \<noteq> 0 \<or> int (length turns div 2) \<noteq> cs_TurnCount session then
        Inl (invariant_error
          ''diagnosis approval: persisted transcript must have two messages per completed turn'')
      else case check_transcript (cs_ID session) 0 turns of
        Inl e \<Rightarrow> Inl e
      | Inr _ \<Rightarrow>
          let turn = last turns in
          (case ConclusionDigest sha256_hex (ct_MessageID turn) (ct_Sequence turn) (ct_Content turn) of
             Inl e \<Rightarrow> Inl e
           | Inr digest \<Rightarrow> Inr (turn, digest)))"

section \<open>The quorum\<close>

fun scan_approvals ::
  "string list \<Rightarrow> string list \<Rightarrow> ChatSessionApproval list \<Rightarrow> string list result" where
  "scan_approvals seen subjects [] = Inr seen"
| "scan_approvals seen subjects (a # as) =
     (if \<not> DiagnosisApprovalAuthority_Valid (sa_Authority a) \<or> TrimSpace (sa_ActorSubject a) = [] then
        Inl (invariant_error ''diagnosis approval: invalid approval state'')
      else if sa_ActorSubject a \<in> set subjects then
        Inl (invariant_error ''diagnosis approval: one subject cannot satisfy multiple authorities'')
      else if sa_Authority a \<in> set seen then
        Inl (invariant_error
          ''diagnosis approval: one authority cannot be satisfied by multiple subjects'')
      else scan_approvals (sa_Authority a # seen) (sa_ActorSubject a # subjects) as)"

definition PendingAuthorities :: "string \<Rightarrow> ChatSessionApproval list \<Rightarrow> string list result" where
  "PendingAuthorities mode approvals =
     (if \<not> DiagnosisApprovalMode_Valid mode then
        Inl (invariant_error ''diagnosis approval: mode is unsupported'')
      else case scan_approvals [] [] approvals of
        Inl e \<Rightarrow> Inl e
      | Inr seen \<Rightarrow>
          if mode = ApprovalModeSingle then
            (if length approvals > 1 then
               Inl (invariant_error ''diagnosis approval: single mode accepts exactly one approval'')
             else if length approvals > 0 then Inr []
             else Inr [ApprovalAuthorityOwner])
          else Inr (filter (\<lambda>authority. authority \<notin> set seen)
                      [ApprovalAuthorityOwner, ApprovalAuthorityLeader]))"

section \<open>Correctness of the quorum\<close>

definition distinct_approvals :: "ChatSessionApproval list \<Rightarrow> bool" where
  "distinct_approvals as \<longleftrightarrow>
     (\<forall>a \<in> set as. DiagnosisApprovalAuthority_Valid (sa_Authority a) \<and> TrimSpace (sa_ActorSubject a) \<noteq> []) \<and>
     distinct (map sa_ActorSubject as) \<and> distinct (map sa_Authority as)"

lemma scan_approvals_Inr:
  "scan_approvals seen subjects as = Inr r \<longleftrightarrow>
     (\<forall>a \<in> set as. DiagnosisApprovalAuthority_Valid (sa_Authority a) \<and> TrimSpace (sa_ActorSubject a) \<noteq> []) \<and>
     distinct (map sa_ActorSubject as) \<and> distinct (map sa_Authority as) \<and>
     sa_ActorSubject ` set as \<inter> set subjects = {} \<and> sa_Authority ` set as \<inter> set seen = {} \<and>
     r = rev (map sa_Authority as) @ seen"
  by (induction seen subjects as rule: scan_approvals.induct) auto

lemma scan_approvals_start:
  "scan_approvals [] [] as = Inr r \<longleftrightarrow> distinct_approvals as \<and> r = rev (map sa_Authority as)"
  by (simp add: scan_approvals_Inr distinct_approvals_def)

lemma distinct_approvals_length:
  assumes "distinct_approvals as"
  shows "length as \<le> 2"
proof -
  have "set (map sa_Authority as) \<subseteq> {ApprovalAuthorityOwner, ApprovalAuthorityLeader}"
    using assms by (auto simp: distinct_approvals_def DiagnosisApprovalAuthority_Valid_def)
  then have "card (set (map sa_Authority as)) \<le> card {ApprovalAuthorityOwner, ApprovalAuthorityLeader}"
    by (intro card_mono) simp_all
  then show ?thesis using assms distinct_card [of "map sa_Authority as"]
    by (simp add: distinct_approvals_def card_insert_if)
qed

lemma PendingAuthorities_Inr:
  "PendingAuthorities mode as = Inr p \<longleftrightarrow>
     distinct_approvals as \<and>
     (mode = ApprovalModeSingle \<and> length as \<le> 1 \<and> p = (if as = [] then [ApprovalAuthorityOwner] else [])
      \<or> mode = ApprovalModeOwnerAndLeader \<and>
        p = filter (\<lambda>a. a \<notin> sa_Authority ` set as) [ApprovalAuthorityOwner, ApprovalAuthorityLeader])"
proof (cases "scan_approvals [] [] as")
  case (Inl e)
  then have "\<not> distinct_approvals as"
    using scan_approvals_start [of as "rev (map sa_Authority as)"] by simp
  with Inl show ?thesis by (simp add: PendingAuthorities_def)
next
  case (Inr r)
  then have d: "distinct_approvals as" and r: "set r = sa_Authority ` set as"
    by (simp_all add: scan_approvals_start)
  have modes: "ApprovalModeSingle \<noteq> ApprovalModeOwnerAndLeader" by simp
  consider "mode = ApprovalModeSingle" | "mode = ApprovalModeOwnerAndLeader"
    | "\<not> DiagnosisApprovalMode_Valid mode" by (auto simp: DiagnosisApprovalMode_Valid_def)
  then show ?thesis
  proof cases
    case 1
    have "PendingAuthorities mode as = (if length as > 1
        then Inl (invariant_error ''diagnosis approval: single mode accepts exactly one approval'')
        else if length as > 0 then Inr [] else Inr [ApprovalAuthorityOwner])"
      using Inr 1 by (simp add: PendingAuthorities_def DiagnosisApprovalMode_Valid_def)
    with 1 modes d show ?thesis by (cases as) auto
  next
    case 2
    have "PendingAuthorities mode as = Inr (filter (\<lambda>authority. authority \<notin> set r)
        [ApprovalAuthorityOwner, ApprovalAuthorityLeader])"
      using Inr 2 by (simp add: PendingAuthorities_def DiagnosisApprovalMode_Valid_def)
    with 2 modes d r show ?thesis by (simp del: filter.simps) blast
  next
    case 3
    then show ?thesis by (auto simp: PendingAuthorities_def DiagnosisApprovalMode_Valid_def)
  qed
qed

lemma quorum_single:
  "PendingAuthorities ApprovalModeSingle as = Inr [] \<longleftrightarrow> distinct_approvals as \<and> length as = 1"
  by (cases as) (auto simp: PendingAuthorities_Inr)

lemma quorum_both:
  assumes "PendingAuthorities ApprovalModeOwnerAndLeader as = Inr []"
  obtains a b where "a \<in> set as" "b \<in> set as" "sa_Authority a = ApprovalAuthorityOwner"
    "sa_Authority b = ApprovalAuthorityLeader" "sa_ActorSubject a \<noteq> sa_ActorSubject b"
proof -
  have d: "distinct_approvals as" and
    s: "ApprovalAuthorityOwner \<in> sa_Authority ` set as" "ApprovalAuthorityLeader \<in> sa_Authority ` set as"
    using assms by (auto simp: PendingAuthorities_Inr split: if_splits)
  obtain a where a: "ApprovalAuthorityOwner = sa_Authority a" "a \<in> set as" using s(1) by (rule imageE)
  obtain b where b: "ApprovalAuthorityLeader = sa_Authority b" "b \<in> set as" using s(2) by (rule imageE)
  note ab = a(2) b(2) a(1) [symmetric] b(1) [symmetric]
  have "sa_ActorSubject a \<noteq> sa_ActorSubject b"
  proof
    assume "sa_ActorSubject a = sa_ActorSubject b"
    then have "a = b" using d ab(1,2) by (auto simp: distinct_approvals_def distinct_map dest: inj_onD)
    with ab(3,4) show False by simp
  qed
  with ab that show thesis by blast
qed

section \<open>Correctness of the identity\<close>

lemma decimal_digits: "c \<in> set (decimal n) \<Longrightarrow> 48 \<le> (of_char c :: nat) \<and> of_char c < (58 :: nat)"
proof (induction n rule: decimal.induct)
  case (1 n)
  then show ?case by (subst (asm) decimal.simps) (auto simp: of_char_digit split: if_splits)
qed

lemma decimal_comma_cancel:
  assumes "decimal m @ CHR '','' # x = decimal n @ CHR '','' # y"
  shows "m = n \<and> x = y"
proof -
  have nc: "c \<noteq> CHR '',''" if "c \<in> set (decimal k)" for c k
    using decimal_digits [OF that] by auto
  have "takeWhile (\<lambda>c. c \<noteq> CHR '','') (decimal k @ CHR '','' # z) = decimal k" for k z
    using nc [of _ k] by (simp add: takeWhile_append)
  then have "decimal m = decimal n" using assms by metis
  with assms have "decimal m = decimal n \<and> x = y" by simp
  then show ?thesis using decimal_inj by blast
qed

lemma conclusion_json_inj:
  assumes "conclusion_json a i c = conclusion_json b j d" "0 \<le> i" "0 \<le> j"
    "valid_utf8 a" "valid_utf8 b" "valid_utf8 c" "valid_utf8 d"
  shows "a = b \<and> i = j \<and> c = d"
proof -
  let ?t = "\<lambda>i c. '','' @ json_string ''assistant_sequence'' @ '':'' @ decimal (nat i)
     @ '','' @ json_string ''content'' @ '':'' @ json_string c @ ''}''"
  have "json_string a @ ?t i c = json_string b @ ?t j d"
    using assms(1) by (simp add: conclusion_json_def)
  then have "json_body a = json_body b \<and> ?t i c = ?t j d" by (rule json_string_cancel)
  moreover from this have "decimal (nat i) @ CHR '','' # json_string ''content'' @ '':'' @ json_string c @ ''}''
      = decimal (nat j) @ CHR '','' # json_string ''content'' @ '':'' @ json_string d @ ''}''"
    by (simp only: append_Cons append_Nil same_append_eq list.inject simp_thms)
  then have "nat i = nat j \<and> json_string ''content'' @ '':'' @ json_string c @ ''}''
      = json_string ''content'' @ '':'' @ json_string d @ ''}''"
    by (rule decimal_comma_cancel)
  then have "nat i = nat j" "json_string c @ ''}'' = json_string d @ ''}''"
    by (simp_all only: append_Cons append_Nil same_append_eq list.inject simp_thms)
  moreover from this have "json_body c = json_body d" using json_string_cancel by blast
  ultimately show ?thesis using assms by (auto intro: json_body_inj)
qed

text \<open>A digest identifies its conclusion, if the hash does not collide on the two texts.\<close>

lemma ConclusionDigest_inj:
  assumes "ConclusionDigest sha a i c = Inr h" "ConclusionDigest sha b j d = Inr h"
    and "\<And>x y. sha x = sha y \<Longrightarrow> x = y"
    and "valid_utf8 (TrimSpace a)" "valid_utf8 (TrimSpace b)" "valid_utf8 (TrimSpace c)"
      "valid_utf8 (TrimSpace d)"
  shows "TrimSpace a = TrimSpace b \<and> i = j \<and> TrimSpace c = TrimSpace d"
proof -
  have "conclusion_json (TrimSpace a) i (TrimSpace c) = conclusion_json (TrimSpace b) j (TrimSpace d)"
    "0 \<le> i" "0 \<le> j"
    using assms(1-3) by (auto simp: ConclusionDigest_def Let_def split: if_splits)
  then show ?thesis using assms(4-7) by (rule conclusion_json_inj)
qed

section \<open>Canonical transcripts\<close>

definition canonical_transcript :: "int \<Rightarrow> ChatTurn list \<Rightarrow> bool" where
  "canonical_transcript sid turns \<longleftrightarrow>
     (\<forall>i < length turns. ct_SessionID (turns ! i) = sid \<and> ct_Sequence (turns ! i) = int i + 1 \<and>
        ct_Role (turns ! i) = (if even i then ''user'' else ''assistant''))"

lemma check_transcript_Inr:
  "check_transcript sid k turns = Inr () \<longleftrightarrow>
     (\<forall>i < length turns. ct_SessionID (turns ! i) = sid \<and> ct_Sequence (turns ! i) = int (k + i) + 1 \<and>
        ct_Role (turns ! i) = (if even (k + i) then ''user'' else ''assistant''))"
proof (induction turns arbitrary: k)
  case (Cons t ts)
  have role: "(int k + 1) mod 2 = 0 \<longleftrightarrow> odd k" by presburger
  have "check_transcript sid k (t # ts) = Inr () \<longleftrightarrow>
      (ct_SessionID t = sid \<and> ct_Sequence t = int k + 1 \<and>
       ct_Role t = (if even k then ''user'' else ''assistant'')) \<and> check_transcript sid (k + 1) ts = Inr ()"
    by (auto simp: Let_def role)
  moreover have "check_transcript sid (k + 1) ts = Inr () \<longleftrightarrow> (\<forall>i < length ts.
      ct_SessionID (ts ! i) = sid \<and> ct_Sequence (ts ! i) = int (k + Suc i) + 1 \<and>
      ct_Role (ts ! i) = (if even (k + Suc i) then ''user'' else ''assistant''))"
    using Cons [of "k + 1"] by simp
  ultimately show ?case by (simp add: All_less_Suc2)
qed simp

lemma check_transcript_start: "check_transcript sid 0 turns = Inr () \<longleftrightarrow> canonical_transcript sid turns"
  by (simp add: check_transcript_Inr canonical_transcript_def)

lemma LatestPersistedConclusion_Inr:
  assumes "LatestPersistedConclusion sha s turns = Inr (t, h)"
  shows "canonical_transcript (cs_ID s) turns" "int (length turns) = 2 * cs_TurnCount s"
    "turns \<noteq> []" "t = last turns" "ct_Role t = ''assistant''" "ct_Sequence t = int (length turns)"
    "ConclusionDigest sha (ct_MessageID t) (ct_Sequence t) (ct_Content t) = Inr h"
proof -
  have c: "canonical_transcript (cs_ID s) turns" and ev: "even (length turns)"
    and len: "int (length turns div 2) = cs_TurnCount s" "0 < cs_TurnCount s" and t: "t = last turns"
    and h: "ConclusionDigest sha (ct_MessageID t) (ct_Sequence t) (ct_Content t) = Inr h"
    using assms by (auto simp: LatestPersistedConclusion_def Let_def check_transcript_start [symmetric]
        even_iff_mod_2_eq_zero split: if_splits sum.splits)
  show ne: "turns \<noteq> []" using len by auto
  then have "last turns = turns ! (length turns - 1)" "length turns - 1 < length turns"
    by (simp_all add: last_conv_nth)
  moreover have "odd (length turns - 1)" using ev ne by simp
  ultimately show "ct_Role t = ''assistant''" "ct_Sequence t = int (length turns)"
    using c ne t by (auto simp: canonical_transcript_def of_nat_diff Suc_le_eq)
  show "int (length turns) = 2 * cs_TurnCount s" using ev len by auto
qed (use assms in \<open>auto simp: LatestPersistedConclusion_def Let_def check_transcript_start [symmetric]
        split: if_splits sum.splits\<close>)

end
