(* ===== verification/Room_Evidence.thy ===== *)
theory Room_Evidence
  imports Alert_Model Chat_Session Diagnosis_Approval Json_Encode
begin

text \<open>
  The evidence of a diagnosis room: the requests an assistant or an operator makes, the items a
  collection returns, and the functions of \<open>diagnosis_room_workflow.go\<close> and
  \<open>diagnosis_room_evidence_context.go\<close> that decide which requests are pending, retryable or
  resolved. Go copies slices before it stores them (\<open>CloneItems\<close> and the like); values are
  immutable here, so the copies are the identity. The lemmas say when two requests are the same,
  which requests are pending, and what merging two collections keeps.
\<close>

section \<open>Requests and results\<close>

abbreviation ToolActiveAlerts :: string where "ToolActiveAlerts \<equiv> ''active_alerts''"
abbreviation ToolMetricQuery :: string where "ToolMetricQuery \<equiv> ''metric_query''"
abbreviation ToolMetricRangeQuery :: string where "ToolMetricRangeQuery \<equiv> ''metric_range_query''"

definition DiagnosisToolKind_Valid :: "string \<Rightarrow> bool" where
  "DiagnosisToolKind_Valid k \<longleftrightarrow> k \<in> {ToolActiveAlerts, ToolMetricQuery, ToolMetricRangeQuery}"

record EvidenceRequest =
  er_TemplateID :: int
  er_AlertSourceProfileID :: int
  er_Tool :: string
  er_Reason :: string
  er_Query :: string
  er_WindowSeconds :: int
  er_StepSeconds :: int
  er_Limit :: int

record ConsultationEvidenceRequest =
  cr_Label :: string
  cr_Detail :: string
  cr_Priority :: string

record ConsultationInsight =
  ci_ConfidenceRationale :: string
  ci_MissingEvidenceRequests :: "ConsultationEvidenceRequest list"
  ci_EvidenceCollectionSuggestions :: "ConsultationEvidenceRequest list"
  ci_ConclusionStatus :: string

record MetricPoint =
  mp_Timestamp :: go_time
  mp_Value :: string

record MetricSeries =
  ms_Metric :: "smap option"
  ms_Points :: "MetricPoint list"

record MetricQueryResult =
  mq_ResultType :: string
  mq_Series :: "MetricSeries list"
  mq_Scalar :: "MetricPoint option"
  mq_String :: "MetricPoint option"
  mq_Warnings :: "string list"

abbreviation StatusCollected :: string where "StatusCollected \<equiv> ''collected''"
abbreviation StatusSkipped :: string where "StatusSkipped \<equiv> ''skipped''"
abbreviation StatusFailed :: string where "StatusFailed \<equiv> ''failed''"
abbreviation StatusUnsupported :: string where "StatusUnsupported \<equiv> ''unsupported''"

record EvidenceItem =
  it_Request :: EvidenceRequest
  it_TemplateID :: int
  it_AlertSourceProfileID :: int
  it_AlertSourceKind :: string
  it_Tool :: string
  it_Status :: string
  it_ReasonCode :: string
  it_Message :: string
  it_Limit :: int
  it_ObservedAlerts :: int
  it_ActiveAlerts :: "ActiveAlert list"
  it_Query :: string
  it_WindowSeconds :: int
  it_StepSeconds :: int
  it_ObservedMetricSeries :: int
  it_MetricResult :: MetricQueryResult
  it_CollectedAt :: go_time

section \<open>Bounds on a request\<close>

definition EvidenceRequestLimitMaximum :: "string \<Rightarrow> int option" where
  "EvidenceRequestLimitMaximum tool =
     (if tool = ToolActiveAlerts then Some 10
      else if tool = ToolMetricQuery \<or> tool = ToolMetricRangeQuery then Some 20
      else None)"

definition EvidenceRequestRangeSecondsBounds :: "int \<times> int" where
  "EvidenceRequestRangeSecondsBounds = (15, 6 * 60 * 60)"

definition EvidenceRequestReasonBytesMaximum :: nat where "EvidenceRequestReasonBytesMaximum = 500"
definition EvidenceRequestQueryBytesMaximum :: nat where "EvidenceRequestQueryBytesMaximum = 500"

definition EvidenceRequestTextHasControlRune :: "string \<Rightarrow> bool" where
  "EvidenceRequestTextHasControlRune value = contains_control value"

definition plain_error :: "string \<Rightarrow> go_error" where
  "plain_error msg = GoErr msg []"

definition validateManualEvidenceLimit :: "EvidenceRequest \<Rightarrow> unit result" where
  "validateManualEvidenceLimit req =
     (if er_Limit req = 0 then Inr ()
      else case EvidenceRequestLimitMaximum (er_Tool req) of
        None \<Rightarrow> Inr ()
      | Some maximum \<Rightarrow>
          if er_Limit req > maximum then
            Inl (plain_error ''diagnosis room collect evidence: limit is above the maximum'')
          else Inr ())"

definition validateManualEvidenceRange :: "int \<Rightarrow> int \<Rightarrow> unit result" where
  "validateManualEvidenceRange windowSeconds stepSeconds =
     (case EvidenceRequestRangeSecondsBounds of (minimum, maximum) \<Rightarrow>
        if windowSeconds < minimum \<or> windowSeconds > maximum then
          Inl (plain_error ''diagnosis room collect evidence: window_seconds is out of range'')
        else if stepSeconds < minimum \<or> stepSeconds > maximum then
          Inl (plain_error ''diagnosis room collect evidence: step_seconds is out of range'')
        else if stepSeconds > windowSeconds then
          Inl (plain_error ''diagnosis room collect evidence: step_seconds must not exceed window_seconds'')
        else Inr ())"

definition validateManualEvidenceRequest :: "EvidenceRequest \<Rightarrow> unit result" where
  "validateManualEvidenceRequest req =
     (if er_TemplateID req < 0 \<or> er_AlertSourceProfileID req < 0 then
        Inl (plain_error ''diagnosis room collect evidence: identifiers must be non-negative'')
      else if \<not> DiagnosisToolKind_Valid (er_Tool req) then
        Inl (plain_error ''diagnosis room collect evidence: tool is unsupported'')
      else if TrimSpace (er_Reason req) = [] then
        Inl (plain_error ''diagnosis room collect evidence: reason must be non-empty'')
      else if TrimSpace (er_Reason req) \<noteq> er_Reason req then
        Inl (plain_error ''diagnosis room collect evidence: reason has surrounding whitespace'')
      else if length (er_Reason req) > EvidenceRequestReasonBytesMaximum then
        Inl (plain_error ''diagnosis room collect evidence: reason is too long'')
      else if EvidenceRequestTextHasControlRune (er_Reason req) then
        Inl (plain_error ''diagnosis room collect evidence: reason must be single-line'')
      else if TrimSpace (er_Query req) \<noteq> er_Query req then
        Inl (plain_error ''diagnosis room collect evidence: query has surrounding whitespace'')
      else if er_Query req \<noteq> [] \<and> length (er_Query req) > EvidenceRequestQueryBytesMaximum then
        Inl (plain_error ''diagnosis room collect evidence: query is too long'')
      else if er_Query req \<noteq> [] \<and> EvidenceRequestTextHasControlRune (er_Query req) then
        Inl (plain_error ''diagnosis room collect evidence: query must be single-line'')
      else if er_Limit req < 0 then
        Inl (plain_error ''diagnosis room collect evidence: limit must be non-negative'')
      else bindE (validateManualEvidenceLimit req) (\<lambda>_.
        if er_Tool req = ToolActiveAlerts then
          (if er_Query req \<noteq> [] \<or> er_WindowSeconds req \<noteq> 0 \<or> er_StepSeconds req \<noteq> 0 then
             Inl (plain_error ''diagnosis room collect evidence: active_alerts takes no query'')
           else Inr ())
        else if er_Tool req = ToolMetricQuery then
          (if er_TemplateID req = 0 \<and> TrimSpace (er_Query req) = [] then
             Inl (plain_error ''diagnosis room collect evidence: metric_query requires query or template_id'')
           else if er_WindowSeconds req \<noteq> 0 \<or> er_StepSeconds req \<noteq> 0 then
             Inl (plain_error ''diagnosis room collect evidence: metric_query takes no range'')
           else Inr ())
        else if er_Tool req = ToolMetricRangeQuery then
          (if er_TemplateID req = 0 \<and> TrimSpace (er_Query req) = [] then
             Inl (plain_error
               ''diagnosis room collect evidence: metric_range_query requires query or template_id'')
           else if er_TemplateID req = 0 \<and> (er_WindowSeconds req \<le> 0 \<or> er_StepSeconds req \<le> 0) then
             Inl (plain_error ''diagnosis room collect evidence: metric_range_query requires a range'')
           else if er_WindowSeconds req \<noteq> 0 \<or> er_StepSeconds req \<noteq> 0 then
             validateManualEvidenceRange (er_WindowSeconds req) (er_StepSeconds req)
           else Inr ())
        else Inl (plain_error ''diagnosis room collect evidence: tool is unsupported'')))"

section \<open>The identity of a request\<close>

definition nul :: char where "nul = byte 0"

fun strings_Join :: "string list \<Rightarrow> string \<Rightarrow> string" where
  "strings_Join [] sep = []"
| "strings_Join [s] sep = s"
| "strings_Join (s # t # ss) sep = s @ sep @ strings_Join (t # ss) sep"

definition request_fields :: "EvidenceRequest \<Rightarrow> string list" where
  "request_fields r =
     [int_decimal (er_TemplateID r), int_decimal (er_AlertSourceProfileID r), TrimSpace (er_Tool r),
      TrimSpace (er_Reason r), TrimSpace (er_Query r), int_decimal (er_WindowSeconds r),
      int_decimal (er_StepSeconds r), int_decimal (er_Limit r)]"

definition diagnosisRoomEvidenceRequestIdentity :: "EvidenceRequest \<Rightarrow> string" where
  "diagnosisRoomEvidenceRequestIdentity r = strings_Join (request_fields r) [nul]"

definition diagnosisRoomEvidenceRequestFromCollectionResult :: "EvidenceItem \<Rightarrow> EvidenceRequest" where
  "diagnosisRoomEvidenceRequestFromCollectionResult item =
     (let req = it_Request item;
          req = (if it_TemplateID item > 0 then req\<lparr>er_TemplateID := it_TemplateID item\<rparr> else req);
          req = (if it_AlertSourceProfileID item > 0
                 then req\<lparr>er_AlertSourceProfileID := it_AlertSourceProfileID item\<rparr> else req);
          req = (if it_Tool item \<noteq> [] then req\<lparr>er_Tool := it_Tool item\<rparr> else req);
          req = (if it_Query item \<noteq> [] then req\<lparr>er_Query := it_Query item\<rparr> else req);
          req = (if it_WindowSeconds item > 0 then req\<lparr>er_WindowSeconds := it_WindowSeconds item\<rparr> else req);
          req = (if it_StepSeconds item > 0 then req\<lparr>er_StepSeconds := it_StepSeconds item\<rparr> else req);
          req = (if it_Limit item > 0 then req\<lparr>er_Limit := it_Limit item\<rparr> else req)
      in req)"

definition diagnosisRoomEvidenceResultIdentities :: "EvidenceItem \<Rightarrow> string list" where
  "diagnosisRoomEvidenceResultIdentities item =
     (let requestKey = diagnosisRoomEvidenceRequestIdentity (it_Request item);
          resolvedKey = diagnosisRoomEvidenceRequestIdentity
            (diagnosisRoomEvidenceRequestFromCollectionResult item)
      in if resolvedKey = requestKey then [requestKey] else [requestKey, resolvedKey])"

section \<open>Pending and retryable requests\<close>

definition diagnosisRoomEvidenceResultRetryable :: "EvidenceItem \<Rightarrow> bool" where
  "diagnosisRoomEvidenceResultRetryable result =
     (if it_Status result = StatusFailed then True
      else if it_Status result = StatusSkipped then
        it_ReasonCode result \<in> {''collection_timed_out'', ''provider_failed'',
          ''provider_unavailable'', ''source_unavailable''}
      else False)"

definition diagnosisRoomEvidenceResultCompletesRequest :: "EvidenceItem \<Rightarrow> bool" where
  "diagnosisRoomEvidenceResultCompletesRequest result =
     (if diagnosisRoomEvidenceResultRetryable result then False
      else it_Status result \<in> {StatusCollected, StatusSkipped, StatusUnsupported})"

definition completed_keys :: "EvidenceItem list \<Rightarrow> string list" where
  "completed_keys results = concat (map (\<lambda>result.
     [diagnosisRoomEvidenceRequestIdentity (it_Request result),
      diagnosisRoomEvidenceRequestIdentity (diagnosisRoomEvidenceRequestFromCollectionResult result)])
     (filter diagnosisRoomEvidenceResultCompletesRequest results))"

definition pendingDiagnosisRoomEvidenceRequests ::
  "EvidenceRequest list \<Rightarrow> EvidenceItem list \<Rightarrow> EvidenceRequest list" where
  "pendingDiagnosisRoomEvidenceRequests requests results =
     filter (\<lambda>request. diagnosisRoomEvidenceRequestIdentity request \<notin> set (completed_keys results))
       requests"

fun append_unique :: "string list \<Rightarrow> EvidenceRequest list \<Rightarrow> EvidenceRequest list \<Rightarrow> EvidenceRequest list" where
  "append_unique seen out [] = out"
| "append_unique seen out (item # additions) =
     (let key = diagnosisRoomEvidenceRequestIdentity item in
      if key \<in> set seen then append_unique seen out additions
      else append_unique (key # seen) (out @ [item]) additions)"

definition appendUniqueDiagnosisRoomEvidenceRequests ::
  "EvidenceRequest list \<Rightarrow> EvidenceRequest list \<Rightarrow> EvidenceRequest list" where
  "appendUniqueDiagnosisRoomEvidenceRequests base additions =
     append_unique (map diagnosisRoomEvidenceRequestIdentity base) base additions"

definition mergeDiagnosisRoomCollectionResults ::
  "EvidenceItem list \<Rightarrow> EvidenceItem list \<Rightarrow> EvidenceItem list" where
  "mergeDiagnosisRoomCollectionResults existing updates =
     (if existing = [] then updates
      else if updates = [] then existing
      else let updateKeys = concat (map diagnosisRoomEvidenceResultIdentities updates) in
        filter (\<lambda>item. \<not> (\<exists>key \<in> set (diagnosisRoomEvidenceResultIdentities item). key \<in> set updateKeys))
          existing @ updates)"

section \<open>Topics\<close>

text \<open>\<open>strings.Fields\<close>: the maximal runs without a white-space rune.\<close>

definition space_len :: "string \<Rightarrow> nat" where
  "space_len s = (case find (\<lambda>p. has_prefix p s) space_runes of None \<Rightarrow> 0 | Some p \<Rightarrow> length p)"

function fields_loop :: "string \<Rightarrow> string \<Rightarrow> string list" where
  "fields_loop cur [] = (if cur = [] then [] else [cur])"
| "fields_loop cur (c # s) =
     (if space_len (c # s) = 0 then fields_loop (cur @ [c]) s
      else (if cur = [] then [] else [cur]) @ fields_loop [] (drop (space_len (c # s)) (c # s)))"
  by pat_completeness auto
termination by (relation "measure (\<lambda>(cur, s). length s)") auto

definition strings_Fields :: "string \<Rightarrow> string list" where
  "strings_Fields s = fields_loop [] s"

lemma space_len_code [code]:
  "space_len s =
     (if s \<noteq> [] \<and> printable_byte (hd s) then 0
      else case find (\<lambda>p. has_prefix p s) space_runes of None \<Rightarrow> 0 | Some p \<Rightarrow> length p)"
  using space_rune_hd by (fastforce simp: space_len_def find_Some_iff split: option.split dest: nth_mem)

definition diagnosisRoomConsultationEvidenceTopicKey :: "(string \<Rightarrow> string) \<Rightarrow> string \<Rightarrow> string" where
  "diagnosisRoomConsultationEvidenceTopicKey unicode_lower label =
     strings_Join (strings_Fields (ToLower unicode_lower (TrimSpace label))) '' ''"

definition diagnosisRoomConsultationEvidenceRequestKey ::
  "(string \<Rightarrow> string) \<Rightarrow> string \<Rightarrow> string \<Rightarrow> string" where
  "diagnosisRoomConsultationEvidenceRequestKey unicode_lower label detail =
     (let labelKey = diagnosisRoomConsultationEvidenceTopicKey unicode_lower label;
          detailKey = diagnosisRoomConsultationEvidenceTopicKey unicode_lower detail
      in if labelKey = [] then []
         else if detailKey = [] then labelKey
         else labelKey @ [nul] @ detailKey)"

fun topic_keys :: "(string \<Rightarrow> string) \<Rightarrow> string list \<Rightarrow> string list \<Rightarrow> string list" where
  "topic_keys unicode_lower keys [] = keys"
| "topic_keys unicode_lower keys (value # raw) =
     (let key = diagnosisRoomConsultationEvidenceTopicKey unicode_lower value in
      if key = [] \<or> key \<in> set keys then topic_keys unicode_lower keys raw
      else topic_keys unicode_lower (keys @ [key]) raw)"

definition diagnosisRoomCollectionEvidenceTopicKeys :: "(string \<Rightarrow> string) \<Rightarrow> EvidenceItem \<Rightarrow> string list" where
  "diagnosisRoomCollectionEvidenceTopicKeys unicode_lower item =
     (let tool = TrimSpace (it_Tool item);
          tool = (if tool = [] then TrimSpace (er_Tool (it_Request item)) else tool);
          raw = (if tool \<noteq> [] then [tool @ '' evidence collection''] else []);
          reason = TrimSpace (er_Reason (it_Request item));
          raw = (if reason \<noteq> [] then raw @ [reason] else raw);
          message = TrimSpace (it_Message item);
          raw = (if message \<noteq> [] then raw @ [message] else raw)
      in topic_keys unicode_lower [] raw)"

section \<open>The evidence context of the next turn\<close>

text \<open>
  \<open>diagnosis_room_evidence_context.go\<close>. A context item has the fields of an item, with the raw
  payloads of its alerts dropped and at most five of its warnings. What \<open>encoding/json\<close> does with
  the batches and with the base object are the arguments \<open>marshal_batches\<close>, \<open>json_object\<close> (the
  text decodes to an object) and \<open>put_member\<close> (decode, set one member, encode).
\<close>

definition tailStringSlice :: "string list \<Rightarrow> nat \<Rightarrow> string list" where
  "tailStringSlice xs limit =
     (if limit > 0 \<and> length xs > limit then drop (length xs - limit) xs else xs)"

definition diagnosisRoomEvidenceContextItemFromItem :: "EvidenceItem \<Rightarrow> EvidenceItem" where
  "diagnosisRoomEvidenceContextItemFromItem item =
     item\<lparr>it_ActiveAlerts := map (\<lambda>a. a\<lparr>aa_RawPayload := []\<rparr>) (it_ActiveAlerts item),
          it_MetricResult := (it_MetricResult item)
            \<lparr>mq_Warnings := tailStringSlice (mq_Warnings (it_MetricResult item)) 5\<rparr>\<rparr>"

record ContextSummary =
  xs_TotalRequests :: int
  xs_CollectedRequests :: int
  xs_UnresolvedRequests :: int
  xs_FailedRequests :: int
  xs_SkippedRequests :: int
  xs_UnsupportedRequests :: int
  xs_ObservedAlerts :: int
  xs_ObservedMetricSeries :: int

record ContextBatch =
  xb_TurnCount :: int
  xb_AssistantMessageID :: string
  xb_CollectedAt :: go_time
  xb_Summary :: ContextSummary
  xb_Items :: "EvidenceItem list"

definition count_status :: "ContextSummary \<Rightarrow> EvidenceItem \<Rightarrow> ContextSummary" where
  "count_status s item =
     (if it_Status item = StatusCollected then s\<lparr>xs_CollectedRequests := xs_CollectedRequests s + 1\<rparr>
      else if it_Status item = StatusFailed then
        s\<lparr>xs_FailedRequests := xs_FailedRequests s + 1,
          xs_UnresolvedRequests := xs_UnresolvedRequests s + 1\<rparr>
      else if it_Status item = StatusSkipped then
        s\<lparr>xs_SkippedRequests := xs_SkippedRequests s + 1,
          xs_UnresolvedRequests := xs_UnresolvedRequests s + 1\<rparr>
      else if it_Status item = StatusUnsupported then
        s\<lparr>xs_UnsupportedRequests := xs_UnsupportedRequests s + 1,
          xs_UnresolvedRequests := xs_UnresolvedRequests s + 1\<rparr>
      else s\<lparr>xs_UnresolvedRequests := xs_UnresolvedRequests s + 1\<rparr>)"

definition count_item :: "ContextSummary \<Rightarrow> EvidenceItem \<Rightarrow> ContextSummary" where
  "count_item s item =
     (let s = count_status s item
      in s\<lparr>xs_ObservedAlerts := wrap64 (xs_ObservedAlerts s + it_ObservedAlerts item),
           xs_ObservedMetricSeries := wrap64 (xs_ObservedMetricSeries s + it_ObservedMetricSeries item)\<rparr>)"

definition diagnosisRoomEvidenceContextSummaryFromItems :: "EvidenceItem list \<Rightarrow> ContextSummary" where
  "diagnosisRoomEvidenceContextSummaryFromItems items =
     foldl count_item \<lparr>xs_TotalRequests = int (length items), xs_CollectedRequests = 0,
       xs_UnresolvedRequests = 0, xs_FailedRequests = 0, xs_SkippedRequests = 0,
       xs_UnsupportedRequests = 0, xs_ObservedAlerts = 0, xs_ObservedMetricSeries = 0\<rparr> items"

definition diagnosisRoomEvidenceContextBatchFromItems ::
  "int \<Rightarrow> string \<Rightarrow> EvidenceItem list \<Rightarrow> ContextBatch option" where
  "diagnosisRoomEvidenceContextBatchFromItems turnCount assistantMessageID items =
     (if items = [] then None
      else Some \<lparr>xb_TurnCount = turnCount, xb_AssistantMessageID = assistantMessageID,
        xb_CollectedAt = foldl (\<lambda>t item. if it_CollectedAt item > t then it_CollectedAt item else t) 0 items,
        xb_Summary = diagnosisRoomEvidenceContextSummaryFromItems items,
        xb_Items = map diagnosisRoomEvidenceContextItemFromItem items\<rparr>)"

definition maxDiagnosisRoomEvidenceContextBatches :: nat where
  "maxDiagnosisRoomEvidenceContextBatches = 5"

definition tailEvidenceContextBatches :: "ContextBatch list \<Rightarrow> ContextBatch list" where
  "tailEvidenceContextBatches xs =
     (if length xs \<le> maxDiagnosisRoomEvidenceContextBatches then xs
      else drop (length xs - maxDiagnosisRoomEvidenceContextBatches) xs)"

definition appendDiagnosisRoomEvidenceContextBatch ::
  "ContextBatch list \<Rightarrow> ContextBatch \<Rightarrow> ContextBatch list" where
  "appendDiagnosisRoomEvidenceContextBatch xs batch = tailEvidenceContextBatches (xs @ [batch])"

definition validateDiagnosisRoomEvidenceJSON ::
  "(string \<Rightarrow> decoder) \<Rightarrow> (string \<Rightarrow> bool) \<Rightarrow> string \<Rightarrow> unit result" where
  "validateDiagnosisRoomEvidenceJSON tokenize json_object raw =
     (if raw = [] then Inl (plain_error ''evidence must be non-empty JSON object'')
      else case RejectDuplicateObjectKeys tokenize raw of
        Inl e \<Rightarrow> Inl (wrap_error ''evidence must be duplicate-key-free JSON object'' e)
      | Inr _ \<Rightarrow>
          if \<not> json_object raw then Inl (plain_error ''evidence must be a JSON object'')
          else Inr ())"

definition diagnosisRoomEvidenceContext ::
  "(string \<Rightarrow> decoder) \<Rightarrow> (string \<Rightarrow> bool) \<Rightarrow> (ContextBatch list \<Rightarrow> string)
   \<Rightarrow> (string \<Rightarrow> string \<Rightarrow> string \<Rightarrow> string result) \<Rightarrow> string \<Rightarrow> ContextBatch list \<Rightarrow> string result" where
  "diagnosisRoomEvidenceContext tokenize json_object marshal_batches put_member base batches =
     (if batches = [] then Inr base
      else case validateDiagnosisRoomEvidenceJSON tokenize json_object base of
        Inl e \<Rightarrow> Inl e
      | Inr _ \<Rightarrow>
          let trimmed = tailEvidenceContextBatches batches;
              collected = marshal_batches trimmed in
          (case put_member base ''openclarion_collected_evidence'' collected of
             Inl e \<Rightarrow> Inl (wrap_error ''diagnosis-room: marshal evidence context'' e)
           | Inr out \<Rightarrow>
               (case validateDiagnosisRoomEvidenceJSON tokenize json_object out of
                  Inl e \<Rightarrow> Inl e
                | Inr _ \<Rightarrow> Inr out)))"

section \<open>When two requests are the same\<close>

lemma int_decimal_inj [simp]: "int_decimal i = int_decimal j \<longleftrightarrow> i = j"
proof
  assume eq: "int_decimal i = int_decimal j"
  have minus: "CHR ''-'' \<notin> set (decimal n)" for n
    using decimal_digits [of "CHR ''-''" n] by auto
  have "i < 0 \<longleftrightarrow> j < 0"
    using eq minus by (metis int_decimal_def list.set_intros(1))
  with eq show "i = j" by (auto simp: int_decimal_def dest!: decimal_inj split: if_splits)
qed simp

lemma int_decimal_nul [simp]: "nul \<notin> set (int_decimal i)"
proof -
  have z: "of_char nul = (0 :: nat)" by (simp add: nul_def byte_def)
  have "nul \<noteq> CHR ''-''"
  proof
    assume "nul = CHR ''-''"
    then have "of_char nul = (of_char (CHR ''-'') :: nat)" by (rule arg_cong)
    then show False unfolding z by simp
  qed
  moreover have "nul \<notin> set (decimal n)" for n using decimal_digits [of nul n] z by auto
  ultimately show ?thesis by (simp add: int_decimal_def)
qed

lemma sep_cancel:
  assumes "c \<notin> set s" "c \<notin> set t" "s @ c # x = t @ c # y"
  shows "s = t \<and> x = y"
proof -
  have "takeWhile (\<lambda>d. d \<noteq> c) (s @ c # x) = s" using assms(1) by (auto simp: takeWhile_append)
  moreover have "takeWhile (\<lambda>d. d \<noteq> c) (t @ c # y) = t" using assms(2) by (auto simp: takeWhile_append)
  ultimately have "s = t" using assms(3) by simp
  with assms(3) show ?thesis by simp
qed

lemma strings_Join_Cons: "ss \<noteq> [] \<Longrightarrow> strings_Join (s # ss) sep = s @ sep @ strings_Join ss sep"
  by (cases ss) simp_all

lemma strings_Join_inj:
  "\<lbrakk>length ss = length ts; \<forall>s \<in> set ss. c \<notin> set s; \<forall>t \<in> set ts. c \<notin> set t;
    strings_Join ss [c] = strings_Join ts [c]\<rbrakk> \<Longrightarrow> ss = ts"
proof (induction ss arbitrary: ts)
  case (Cons s ss)
  then obtain t ts' where ts: "ts = t # ts'" "length ss = length ts'"
    by (metis length_Suc_conv)
  show ?case
  proof (cases "ss = []")
    case True
    with Cons.prems ts show ?thesis by simp
  next
    case False
    with ts(2) have "ts' \<noteq> []" by auto
    with False Cons.prems(4) ts have "s @ c # strings_Join ss [c] = t @ c # strings_Join ts' [c]"
      by (simp add: strings_Join_Cons)
    moreover have "c \<notin> set s" "c \<notin> set t" using Cons.prems(2,3) ts by simp_all
    ultimately have eqs: "s = t" "strings_Join ss [c] = strings_Join ts' [c]"
      using sep_cancel [of c s t] by blast+
    have "ss = ts'"
      by (rule Cons.IH [OF ts(2) _ _ eqs(2)]) (use Cons.prems(2,3) ts in simp_all)
    with eqs(1) show ?thesis using ts by simp
  qed
qed simp

definition nul_free :: "EvidenceRequest \<Rightarrow> bool" where
  "nul_free r \<longleftrightarrow> nul \<notin> set (TrimSpace (er_Tool r)) \<and> nul \<notin> set (TrimSpace (er_Reason r)) \<and>
     nul \<notin> set (TrimSpace (er_Query r))"

lemma request_identity_iff:
  assumes "nul_free r" "nul_free q"
  shows "diagnosisRoomEvidenceRequestIdentity r = diagnosisRoomEvidenceRequestIdentity q \<longleftrightarrow>
    er_TemplateID r = er_TemplateID q \<and> er_AlertSourceProfileID r = er_AlertSourceProfileID q \<and>
    TrimSpace (er_Tool r) = TrimSpace (er_Tool q) \<and> TrimSpace (er_Reason r) = TrimSpace (er_Reason q) \<and>
    TrimSpace (er_Query r) = TrimSpace (er_Query q) \<and> er_WindowSeconds r = er_WindowSeconds q \<and>
    er_StepSeconds r = er_StepSeconds q \<and> er_Limit r = er_Limit q"
proof -
  have "diagnosisRoomEvidenceRequestIdentity r = diagnosisRoomEvidenceRequestIdentity q \<longleftrightarrow>
      request_fields r = request_fields q"
  proof
    assume "diagnosisRoomEvidenceRequestIdentity r = diagnosisRoomEvidenceRequestIdentity q"
    then have j: "strings_Join (request_fields r) [nul] = strings_Join (request_fields q) [nul]"
      by (simp add: diagnosisRoomEvidenceRequestIdentity_def)
    show "request_fields r = request_fields q"
      by (rule strings_Join_inj [OF _ _ _ j]) (use assms in \<open>auto simp: request_fields_def nul_free_def\<close>)
  qed (simp add: diagnosisRoomEvidenceRequestIdentity_def)
  then show ?thesis by (auto simp: request_fields_def)
qed

text \<open>A request accepted from an operator has no NUL byte, and its range and limit are in bounds.\<close>

lemma validateManualEvidenceRequest_bounds:
  assumes "validateManualEvidenceRequest r = Inr ()"
  shows "DiagnosisToolKind_Valid (er_Tool r)" "0 \<le> er_TemplateID r" "0 \<le> er_AlertSourceProfileID r"
    "TrimSpace (er_Reason r) = er_Reason r" "er_Reason r \<noteq> []" "length (er_Reason r) \<le> 500"
    "\<not> contains_control (er_Reason r)" "TrimSpace (er_Query r) = er_Query r"
    "length (er_Query r) \<le> 500" "\<not> contains_control (er_Query r)" "0 \<le> er_Limit r"
    "er_Limit r \<le> 20"
  using assms
  by (auto simp: validateManualEvidenceRequest_def bindE_eq_Inr_iff validateManualEvidenceLimit_def
      EvidenceRequestReasonBytesMaximum_def EvidenceRequestQueryBytesMaximum_def
      EvidenceRequestTextHasControlRune_def EvidenceRequestLimitMaximum_def DiagnosisToolKind_Valid_def
      split: if_splits option.splits)

lemma validateManualEvidenceRequest_range:
  assumes "validateManualEvidenceRequest r = Inr ()"
  shows "er_WindowSeconds r = 0 \<and> er_StepSeconds r = 0 \<or>
    er_Tool r = ToolMetricRangeQuery \<and> 15 \<le> er_StepSeconds r \<and>
    er_StepSeconds r \<le> er_WindowSeconds r \<and> er_WindowSeconds r \<le> 21600"
  using assms
  by (auto simp: validateManualEvidenceRequest_def bindE_eq_Inr_iff validateManualEvidenceRange_def
      EvidenceRequestRangeSecondsBounds_def split: if_splits)

lemma no_control_no_nul: "\<not> contains_control s \<Longrightarrow> nul \<notin> set s"
  by (induction s) (auto simp: is_byte_in_def nul_def byte_def)

section \<open>Pending requests and merged results\<close>

lemma mem_completed_keys:
  "k \<in> set (completed_keys results) \<longleftrightarrow>
     (\<exists>res \<in> set results. diagnosisRoomEvidenceResultCompletesRequest res \<and>
        k \<in> set (diagnosisRoomEvidenceResultIdentities res))"
  by (auto simp: completed_keys_def diagnosisRoomEvidenceResultIdentities_def Let_def)

lemma mem_pending_iff:
  "r \<in> set (pendingDiagnosisRoomEvidenceRequests requests results) \<longleftrightarrow>
     r \<in> set requests \<and>
     (\<forall>res \<in> set results. diagnosisRoomEvidenceResultCompletesRequest res \<longrightarrow>
        diagnosisRoomEvidenceRequestIdentity r \<notin> set (diagnosisRoomEvidenceResultIdentities res))"
  by (auto simp: pendingDiagnosisRoomEvidenceRequests_def mem_completed_keys)

lemma completes_not_retryable:
  "diagnosisRoomEvidenceResultCompletesRequest i \<Longrightarrow> \<not> diagnosisRoomEvidenceResultRetryable i"
  by (simp add: diagnosisRoomEvidenceResultCompletesRequest_def split: if_splits)

lemma mem_merge_iff:
  "i \<in> set (mergeDiagnosisRoomCollectionResults existing updates) \<longleftrightarrow>
     i \<in> set updates \<or>
     i \<in> set existing \<and>
     (\<forall>u \<in> set updates. set (diagnosisRoomEvidenceResultIdentities i) \<inter>
        set (diagnosisRoomEvidenceResultIdentities u) = {})"
  by (auto simp: mergeDiagnosisRoomCollectionResults_def Let_def)

lemma append_unique_spec:
  assumes "set seen = diagnosisRoomEvidenceRequestIdentity ` set out"
  shows "\<exists>new. append_unique seen out additions = out @ new \<and> set new \<subseteq> set additions \<and>
    distinct (map diagnosisRoomEvidenceRequestIdentity new) \<and>
    diagnosisRoomEvidenceRequestIdentity ` set new
      = diagnosisRoomEvidenceRequestIdentity ` set additions - set seen"
  using assms
proof (induction seen out additions rule: append_unique.induct)
  case (2 seen out item additions)
  let ?k = "diagnosisRoomEvidenceRequestIdentity item"
  show ?case
  proof (cases "?k \<in> set seen")
    case True
    from 2(1) [OF refl True] 2(3) obtain new where
      "append_unique seen out additions = out @ new" "set new \<subseteq> set additions"
      "distinct (map diagnosisRoomEvidenceRequestIdentity new)"
      "diagnosisRoomEvidenceRequestIdentity ` set new
        = diagnosisRoomEvidenceRequestIdentity ` set additions - set seen" by blast
    with True show ?thesis by (intro exI [of _ new]) (auto simp: Let_def)
  next
    case False
    have "set (?k # seen) = diagnosisRoomEvidenceRequestIdentity ` set (out @ [item])"
      using 2(3) by simp
    from 2(2) [OF refl False this] obtain new where
      "append_unique (?k # seen) (out @ [item]) additions = (out @ [item]) @ new"
      "set new \<subseteq> set additions" "distinct (map diagnosisRoomEvidenceRequestIdentity new)"
      "diagnosisRoomEvidenceRequestIdentity ` set new
        = diagnosisRoomEvidenceRequestIdentity ` set additions - set (?k # seen)" by blast
    with False show ?thesis by (intro exI [of _ "item # new"]) (auto simp: Let_def)
  qed
qed (auto intro: exI [of _ "[]"])

lemma appendUnique_spec:
  "\<exists>new. appendUniqueDiagnosisRoomEvidenceRequests base additions = base @ new \<and>
     set new \<subseteq> set additions \<and> distinct (map diagnosisRoomEvidenceRequestIdentity new) \<and>
     diagnosisRoomEvidenceRequestIdentity ` set new
       = diagnosisRoomEvidenceRequestIdentity ` set additions
         - diagnosisRoomEvidenceRequestIdentity ` set base"
  using append_unique_spec [of "map diagnosisRoomEvidenceRequestIdentity base" base additions]
  by (simp add: appendUniqueDiagnosisRoomEvidenceRequests_def)

section \<open>The context batches\<close>

lemma summary_totals:
  "xs_CollectedRequests (diagnosisRoomEvidenceContextSummaryFromItems items) +
   xs_UnresolvedRequests (diagnosisRoomEvidenceContextSummaryFromItems items) =
   xs_TotalRequests (diagnosisRoomEvidenceContextSummaryFromItems items)"
proof -
  have "xs_CollectedRequests (foldl count_item s is) + xs_UnresolvedRequests (foldl count_item s is) =
      xs_CollectedRequests s + xs_UnresolvedRequests s + int (length is) \<and>
      xs_TotalRequests (foldl count_item s is) = xs_TotalRequests s" for s "is"
  proof (induction "is" arbitrary: s)
    case (Cons i "is")
    then show ?case by (simp add: count_item_def count_status_def Let_def)
  qed simp
  then show ?thesis by (simp add: diagnosisRoomEvidenceContextSummaryFromItems_def)
qed

lemma appended_batches:
  "length (appendDiagnosisRoomEvidenceContextBatch xs b) \<le> maxDiagnosisRoomEvidenceContextBatches"
  "last (appendDiagnosisRoomEvidenceContextBatch xs b) = b"
  by (auto simp: appendDiagnosisRoomEvidenceContextBatch_def tailEvidenceContextBatches_def
      maxDiagnosisRoomEvidenceContextBatches_def last_drop)

end
