(* ===== verification/Room_State.thy ===== *)
theory Room_State
  imports Room_Policy Room_Evidence Diagnosis_Approval
begin

text \<open>
  The state of \<open>DiagnosisRoomWorkflow\<close> (\<open>internal/orchestrator/temporal/diagnosis_room_workflow.go\<close>)
  and its checks: the input, the admission of a turn, of a confirmation and of a manual evidence
  collection, the reason that blocks a confirmation, the closing of a room and its timers. What
  the workflow takes from libraries is the record \<open>room_lib\<close>; the versions that
  \<open>workflow.GetVersion\<close> returned for this run are the record \<open>room_versions\<close>.
\<close>

section \<open>Data\<close>

text \<open>\<open>TurnOutput\<close> of \<open>internal/usecases/diagnosisroom/output.go\<close>.\<close>

record ToolRequestSuggestion =
  ts_Label :: string
  ts_Detail :: string
  ts_Priority :: string
  ts_TemplateID :: int
  ts_AlertSourceProfileID :: int
  ts_Tool :: string
  ts_Query :: string
  ts_WindowSeconds :: int
  ts_WindowMinutes :: int
  ts_StepSeconds :: int
  ts_Limit :: int

record TurnOutput =
  to_SchemaVersion :: string
  to_Message :: string
  to_Findings :: "string list"
  to_RecommendedActions :: "string list"
  to_EvidenceRequests :: "EvidenceRequest list"
  to_Confidence :: string
  to_RequiresHumanReview :: bool
  to_ConfidenceRationale :: string
  to_MissingEvidenceRequests :: "ConsultationEvidenceRequest list"
  to_EvidenceCollectionSuggestions :: "ConsultationEvidenceRequest list"
  to_ToolRequestSuggestions :: "ToolRequestSuggestion list"
  to_ConclusionStatus :: string

definition TurnOutput_Insight :: "TurnOutput \<Rightarrow> ConsultationInsight" where
  "TurnOutput_Insight out =
     \<lparr>ci_ConfidenceRationale = to_ConfidenceRationale out,
      ci_MissingEvidenceRequests = to_MissingEvidenceRequests out,
      ci_EvidenceCollectionSuggestions = to_EvidenceCollectionSuggestions out,
      ci_ConclusionStatus = to_ConclusionStatus out\<rparr>"

record room_lib =
  rl_tokenize :: "string \<Rightarrow> decoder"
  rl_json_object :: "string \<Rightarrow> bool"
  rl_unicode_lower :: "string \<Rightarrow> string"
  rl_sha256_hex :: "string \<Rightarrow> string"
  rl_marshal_batches :: "ContextBatch list \<Rightarrow> string"
  rl_put_member :: "string \<Rightarrow> string \<Rightarrow> string \<Rightarrow> string result"
  rl_marshal_output :: "TurnOutput \<Rightarrow> string"
  rl_snapshot_profiles :: "string \<Rightarrow> (int \<times> int list) option"

record room_versions =
  rv_evidenceContext :: int
  rv_finalConclusion :: int
  rv_autoEvidence :: int
  rv_evidenceCollected :: int
  rv_finalReadyNotification :: int
  rv_assistantTurnNotification :: int
  rv_confirmEvidenceGuard :: int
  rv_manualEvidence :: int
  rv_manualEvidenceCollected :: int
  rv_multiStakeholderApproval :: int
  rv_historicalRetrieval :: int
  rv_idleUpdateLifecycle :: int
  rv_evidenceCollection :: int
  rv_closeActorSemantics :: int
  rv_conversationSummary :: int
  rv_streaming :: int

record SupplementalEvidence =
  se_Label :: string
  se_Detail :: string
  se_Priority :: string
  se_Evidence :: string

record SubmitDiagnosisTurnRequest =
  tr_MessageID :: string
  tr_ActorSubject :: string
  tr_Message :: string
  tr_SupplementalEvidence :: "SupplementalEvidence option"

record CollectDiagnosisEvidenceRequest =
  cq_MessageID :: string
  cq_ActorSubject :: string
  cq_Message :: string
  cq_Requests :: "EvidenceRequest list"

record DiagnosisRoomWorkflowInput =
  wi_SessionID :: string
  wi_DiagnosisTaskID :: int
  wi_EvidenceSnapshotID :: int
  wi_OwnerSubject :: string
  wi_Evidence :: string
  wi_CloseNotificationChannelProfileID :: int
  wi_ApprovalMode :: string
  wi_Policy :: Policy
  wi_InitialTurn :: "SubmitDiagnosisTurnRequest option"

record SupplementalEvidenceRecord =
  sx_Label :: string
  sx_Detail :: string
  sx_Priority :: string
  sx_Evidence :: string
  sx_ActorSubject :: string
  sx_UserMessageID :: string
  sx_AssistantMessageID :: string
  sx_UserTurnID :: int
  sx_AssistantTurnID :: int
  sx_UserSequence :: int
  sx_AssistantSequence :: int
  sx_ProvidedAt :: go_time

record EvidenceTimelineEntry =
  tl_TurnCount :: int
  tl_MessageID :: string
  tl_AssistantMessageID :: string
  tl_ActorSubject :: string
  tl_Trigger :: string
  tl_EvidenceRequests :: "EvidenceRequest list"
  tl_CollectionResults :: "EvidenceItem list"

record ConfidenceTimelineEntry =
  cl_TurnCount :: int
  cl_MessageID :: string
  cl_AssistantMessageID :: string
  cl_AssistantTurnID :: int
  cl_AssistantSequence :: int
  cl_OccurredAt :: go_time
  cl_Trigger :: string
  cl_Confidence :: string
  cl_RequiresHumanReview :: bool
  cl_ConclusionStatus :: string
  cl_ConfidenceRationale :: string
  cl_ContextBytes :: int
  cl_RetrievalRefs :: "string list"
  cl_EvidenceRequests :: "EvidenceRequest list"
  cl_CollectionResults :: "EvidenceItem list"
  cl_MissingEvidenceRequests :: "ConsultationEvidenceRequest list"
  cl_EvidenceCollectionSuggestions :: "ConsultationEvidenceRequest list"

record DiagnosisRoomLatestError =
  le_Code :: string
  le_Message :: string
  le_MessageID :: string
  le_OccurredAt :: go_time

record DiagnosisRoomCloseRequest =
  cz_Reason :: string
  cz_ActorSubject :: string

record DiagnosisRoomFinalConclusion =
  fc_Status :: string
  fc_Source :: string
  fc_Reason :: string
  fc_EvidenceSnapshotID :: int
  fc_ConclusionVersion :: string
  fc_RecordedAt :: "go_time option"
  fc_ConfirmedBy :: string
  fc_SupplementalContextRefs :: "string list"
  fc_AssistantTurnID :: int
  fc_AssistantMessageID :: string
  fc_AssistantSequence :: int
  fc_AssistantOccurredAt :: "go_time option"
  fc_Content :: string
  fc_Confidence :: string
  fc_RequiresHumanReview :: "bool option"
  fc_ConfidenceRationale :: string
  fc_Findings :: "string list"
  fc_RecommendedActions :: "string list"
  fc_EvidenceRequests :: "EvidenceRequest list"
  fc_MissingEvidenceRequests :: "ConsultationEvidenceRequest list"
  fc_EvidenceCollectionSuggestions :: "ConsultationEvidenceRequest list"

record DiagnosisRoomConversationSummary =
  ys_ID :: int
  ys_Version :: int
  ys_SchemaVersion :: string
  ys_SourceFirstSequence :: int
  ys_SourceLastSequence :: int
  ys_SourceTurnCount :: int
  ys_SourceDigest :: string
  ys_Content :: string
  ys_GeneratedAt :: go_time

abbreviation RoomOpen :: string where "RoomOpen \<equiv> ''open''"
abbreviation RoomClosed :: string where "RoomClosed \<equiv> ''closed''"
abbreviation AutoActorSubject :: string where "AutoActorSubject \<equiv> ''openclarion:auto-diagnosis''"

text \<open>\<open>diagnosisRoomState\<close>; the key set of the map \<open>seen\<close> is a list.\<close>

record room =
  rs_input :: DiagnosisRoomWorkflowInput
  rs_policy :: Policy
  rs_status :: string
  rs_startedAt :: go_time
  rs_lastActivityAt :: go_time
  rs_closedAt :: "go_time option"
  rs_closeReason :: string
  rs_closeActorSubject :: string
  rs_conclusionConfirmed :: bool
  rs_finalConclusion :: "DiagnosisRoomFinalConclusion option"
  rs_conversationSummary :: "DiagnosisRoomConversationSummary option"
  rs_conclusionDigest :: string
  rs_approvals :: "ChatSessionApproval list"
  rs_approvalEnabled :: bool
  rs_approvalInFlight :: bool
  rs_latestInsight :: "ConsultationInsight option"
  rs_latestConfidence :: string
  rs_latestRequiresHumanReview :: "bool option"
  rs_latestEvidenceRequests :: "EvidenceRequest list"
  rs_latestCollectionResults :: "EvidenceItem list"
  rs_evidenceTimeline :: "EvidenceTimelineEntry list"
  rs_confidenceTimeline :: "ConfidenceTimelineEntry list"
  rs_supplementalEvidence :: "SupplementalEvidenceRecord list"
  rs_latestError :: "DiagnosisRoomLatestError option"
  rs_turnCount :: int
  rs_diagnosisTaskID :: int
  rs_chatSessionID :: int
  rs_inFlight :: bool
  rs_protectAcceptedUpdates :: bool
  rs_seen :: "string list"
  rs_conversation :: "ConversationTurn list"
  rs_evidenceBatches :: "ContextBatch list"

section \<open>The start of a room\<close>

definition reasonOrDefault :: "string \<Rightarrow> string \<Rightarrow> string" where
  "reasonOrDefault reason fallback = (let r = TrimSpace reason in if r = [] then fallback else r)"

definition diagnosisRoomPolicyOrDefault :: "Policy \<Rightarrow> Policy" where
  "diagnosisRoomPolicyOrDefault p =
     (if pl_MaxTurns p = 0 \<and> pl_MaxAutoEvidenceFollowUps p = 0 \<and> pl_SessionTTL p = 0 \<and>
         pl_IdleTimeout p = 0 \<and> pl_TurnTimeout p = 0 \<and> pl_ContextBytes p = 0 \<and>
         pl_MaxMessageBytes p = 0 \<and> length (pl_UnsafeDenylist p) = 0
      then DefaultPolicy else p)"

definition diagnosisApprovalModeOrDefault :: "string \<Rightarrow> string" where
  "diagnosisApprovalModeOrDefault mode = (if mode = [] then ApprovalModeSingle else mode)"

definition validateDiagnosisRoomWorkflowInput ::
  "room_lib \<Rightarrow> DiagnosisRoomWorkflowInput \<Rightarrow> Policy \<Rightarrow> unit result" where
  "validateDiagnosisRoomWorkflowInput lib i p =
     (if TrimSpace (wi_SessionID i) = [] then
        Inl (plain_error ''diagnosis-room: input.session_id must be non-empty'')
      else if wi_SessionID i \<noteq> TrimSpace (wi_SessionID i) then
        Inl (plain_error ''diagnosis-room: input.session_id has surrounding whitespace'')
      else if wi_DiagnosisTaskID i = 0 \<and> wi_EvidenceSnapshotID i = 0 then
        Inl (plain_error
          ''diagnosis-room: input.evidence_snapshot_id must be non-zero when diagnosis_task_id is absent'')
      else if wi_DiagnosisTaskID i \<noteq> 0 \<and> wi_EvidenceSnapshotID i < 0 then
        Inl (plain_error ''diagnosis-room: input.evidence_snapshot_id must be non-negative'')
      else if TrimSpace (wi_OwnerSubject i) = [] then
        Inl (plain_error ''diagnosis-room: input.owner_subject must be non-empty'')
      else if wi_CloseNotificationChannelProfileID i < 0 then
        Inl (plain_error
          ''diagnosis-room: input.close_notification_channel_profile_id must be non-negative'')
      else if \<not> DiagnosisApprovalMode_Valid (diagnosisApprovalModeOrDefault (wi_ApprovalMode i)) then
        Inl (plain_error ''diagnosis-room: input.approval_mode is unsupported'')
      else case validateDiagnosisRoomEvidenceJSON (rl_tokenize lib) (rl_json_object lib) (wi_Evidence i) of
        Inl e \<Rightarrow> Inl e
      | Inr _ \<Rightarrow> ValidatePolicy p)"

definition room_start ::
  "room_lib \<Rightarrow> room_versions \<Rightarrow> DiagnosisRoomWorkflowInput \<Rightarrow> go_time \<Rightarrow> room result" where
  "room_start lib v i now =
     (let p = diagnosisRoomPolicyOrDefault (wi_Policy i) in
      case validateDiagnosisRoomWorkflowInput lib i p of
        Inl e \<Rightarrow> Inl e
      | Inr _ \<Rightarrow>
          Inr \<lparr>rs_input = i\<lparr>wi_ApprovalMode := diagnosisApprovalModeOrDefault (wi_ApprovalMode i)\<rparr>,
            rs_policy = p, rs_status = RoomOpen, rs_startedAt = now, rs_lastActivityAt = now,
            rs_closedAt = None, rs_closeReason = [], rs_closeActorSubject = [],
            rs_conclusionConfirmed = False, rs_finalConclusion = None,
            rs_conversationSummary = None, rs_conclusionDigest = [],
            rs_approvals = [], rs_approvalEnabled = (rv_multiStakeholderApproval v \<ge> 1),
            rs_approvalInFlight = False, rs_latestInsight = None, rs_latestConfidence = [],
            rs_latestRequiresHumanReview = None, rs_latestEvidenceRequests = [],
            rs_latestCollectionResults = [], rs_evidenceTimeline = [], rs_confidenceTimeline = [],
            rs_supplementalEvidence = [], rs_latestError = None, rs_turnCount = 0,
            rs_diagnosisTaskID = wi_DiagnosisTaskID i, rs_chatSessionID = 0, rs_inFlight = False,
            rs_protectAcceptedUpdates = (rv_idleUpdateLifecycle v \<ge> 1), rs_seen = [],
            rs_conversation = [], rs_evidenceBatches = []\<rparr>)"

section \<open>Closing and timers\<close>

definition room_close :: "room \<Rightarrow> go_time \<Rightarrow> string \<Rightarrow> string \<Rightarrow> room" where
  "room_close s now reason actorSubject =
     (if rs_status s = RoomClosed then s
      else s\<lparr>rs_status := RoomClosed, rs_closedAt := Some now,
             rs_closeReason := reasonOrDefault reason ''user_requested'',
             rs_closeActorSubject := TrimSpace actorSubject, rs_lastActivityAt := now\<rparr>)"

definition closeIfExpired :: "room \<Rightarrow> go_time \<Rightarrow> room \<times> bool" where
  "closeIfExpired s now =
     (if \<not> now < rs_startedAt s + pl_SessionTTL (rs_policy s) then
        (room_close s now ''session_timeout'' [], True)
      else if rs_approvalInFlight s \<or> (rs_protectAcceptedUpdates s \<and> rs_inFlight s) then (s, False)
      else if \<not> now < rs_lastActivityAt s + pl_IdleTimeout (rs_policy s) then
        (room_close s now ''idle_timeout'' [], True)
      else (s, False))"

definition nextTimerDelay :: "room \<Rightarrow> go_time \<Rightarrow> int" where
  "nextTimerDelay s now =
     (let sessionDelay = time_Sub (rs_startedAt s + pl_SessionTTL (rs_policy s)) now in
      if sessionDelay \<le> 0 then 1
      else if rs_approvalInFlight s \<or> (rs_protectAcceptedUpdates s \<and> rs_inFlight s) then sessionDelay
      else let idleDelay = time_Sub (rs_lastActivityAt s + pl_IdleTimeout (rs_policy s)) now in
        if idleDelay \<le> 0 then 1
        else if sessionDelay < idleDelay then sessionDelay
        else idleDelay)"

definition closeActors :: "room \<Rightarrow> int \<Rightarrow> string \<times> string" where
  "closeActors s version =
     (if version < 1 then ([], rs_closeActorSubject s)
      else (rs_closeActorSubject s, if rs_conclusionConfirmed s then rs_closeActorSubject s else []))"

definition closeDiagnosisTaskStatus :: "room \<Rightarrow> string" where
  "closeDiagnosisTaskStatus s =
     (if rs_closeReason s \<noteq> ''initial_turn_failed'' then [] else ''failed'')"

definition closeDiagnosisTaskFailureReason :: "room \<Rightarrow> string" where
  "closeDiagnosisTaskFailureReason s =
     (if rs_closeReason s \<noteq> ''initial_turn_failed'' then []
      else case rs_latestError s of None \<Rightarrow> [] | Some e \<Rightarrow> TrimSpace (le_Message e))"

section \<open>Admission of a turn\<close>

definition turnEvidence :: "room_lib \<Rightarrow> room_versions \<Rightarrow> room \<Rightarrow> string result" where
  "turnEvidence lib v s =
     (if rv_evidenceContext v < 1 then Inr (wi_Evidence (rs_input s))
      else case diagnosisRoomEvidenceContext (rl_tokenize lib) (rl_json_object lib)
                  (rl_marshal_batches lib) (rl_put_member lib) (wi_Evidence (rs_input s))
                  (rs_evidenceBatches s) of
        Inl e \<Rightarrow> Inl (GoErr (err_text e) (ErrInvariantViolation # err_chain e))
      | Inr evidence \<Rightarrow> Inr evidence)"

definition session_state :: "room \<Rightarrow> bool \<Rightarrow> SessionState" where
  "session_state s inFlight =
     \<lparr>sn_StartedAt = rs_startedAt s, sn_LastActivityAt = rs_lastActivityAt s,
      sn_TurnCount = rs_turnCount s, sn_InFlight = inFlight, sn_SeenMessageIDs = rs_seen s\<rparr>"

definition policy_check ::
  "room_lib \<Rightarrow> room \<Rightarrow> bool \<Rightarrow> SubmitDiagnosisTurnRequest \<Rightarrow> go_time \<Rightarrow> string \<Rightarrow> Decision result" where
  "policy_check lib s inFlight req now evidence =
     ValidateSubmitTurn (rl_tokenize lib) (rl_unicode_lower lib) (rs_policy s)
       (session_state s inFlight)
       \<lparr>sr_MessageID = tr_MessageID req, sr_Message = tr_Message req, sr_Now = now,
        sr_Evidence = evidence, sr_Conversation = rs_conversation s\<rparr>"

definition validateSubmit ::
  "room_lib \<Rightarrow> room_versions \<Rightarrow> room \<Rightarrow> SubmitDiagnosisTurnRequest \<Rightarrow> go_time
   \<Rightarrow> (Decision \<times> string) result" where
  "validateSubmit lib v s req now =
     (if TrimSpace (tr_ActorSubject req) = [] then
        Inl (plain_error ''diagnosis room turn: actor_subject must be non-empty'')
      else case turnEvidence lib v s of
        Inl e \<Rightarrow> Inl e
      | Inr evidence \<Rightarrow>
          (case policy_check lib s (rs_inFlight s) req now evidence of
             Inl e \<Rightarrow> Inl e
           | Inr d \<Rightarrow> Inr (d, evidence)))"

definition validateSubmitForAutoFollowUp ::
  "room_lib \<Rightarrow> room_versions \<Rightarrow> room \<Rightarrow> SubmitDiagnosisTurnRequest \<Rightarrow> go_time
   \<Rightarrow> (Decision \<times> string) result" where
  "validateSubmitForAutoFollowUp lib v s req now =
     (case turnEvidence lib v s of
        Inl e \<Rightarrow> Inl e
      | Inr evidence \<Rightarrow>
          (case policy_check lib s False req now evidence of
             Inl e \<Rightarrow> Inl e
           | Inr d \<Rightarrow> Inr (d, evidence)))"

text \<open>The type of the application error a rejected update carries; \<open>None\<close> is an untyped error.\<close>

definition diagnosisRoomSubmitTurnValidatorError :: "go_error \<Rightarrow> string option" where
  "diagnosisRoomSubmitTurnValidatorError e =
     (if errors_Is e ErrDuplicateMessageID then Some ''DiagnosisRoomSubmitTurnDuplicateMessage''
      else if errors_Is e ErrTurnInFlight then Some ''DiagnosisRoomSubmitTurnInFlight''
      else if errors_Is e ErrInvariantViolation then Some ''InvariantViolation''
      else None)"

section \<open>Admission of a manual evidence collection\<close>

definition diagnosisRoomEvidenceSourceProfileIDs :: "room_lib \<Rightarrow> string \<Rightarrow> int list" where
  "diagnosisRoomEvidenceSourceProfileIDs lib raw =
     (case rl_snapshot_profiles lib raw of
        None \<Rightarrow> []
      | Some (own, events) \<Rightarrow> (if own > 0 then [own] else []) @ filter (\<lambda>i. i > 0) events)"

definition diagnosisRoomManualEvidenceRequestMatchesRoomScope :: "EvidenceRequest \<Rightarrow> int list \<Rightarrow> bool" where
  "diagnosisRoomManualEvidenceRequestMatchesRoomScope request sourceProfileIDs =
     (if er_AlertSourceProfileID request \<le> 0 then False
      else er_AlertSourceProfileID request \<in> set sourceProfileIDs)"

definition approved_requests :: "room \<Rightarrow> string list" where
  "approved_requests s =
     map diagnosisRoomEvidenceRequestIdentity
       (pendingDiagnosisRoomEvidenceRequests (rs_latestEvidenceRequests s) (rs_latestCollectionResults s))
     @ concat (map (\<lambda>item. [diagnosisRoomEvidenceRequestIdentity (it_Request item),
          diagnosisRoomEvidenceRequestIdentity (diagnosisRoomEvidenceRequestFromCollectionResult item)])
         (filter diagnosisRoomEvidenceResultRetryable (rs_latestCollectionResults s)))
     @ (case rs_finalConclusion s of
          None \<Rightarrow> []
        | Some c \<Rightarrow> map diagnosisRoomEvidenceRequestIdentity
            (pendingDiagnosisRoomEvidenceRequests (fc_EvidenceRequests c) (rs_latestCollectionResults s)))"

fun check_approved ::
  "string list \<Rightarrow> int list \<Rightarrow> string list \<Rightarrow> EvidenceRequest list \<Rightarrow> unit result" where
  "check_approved approved profiles seen [] = Inr ()"
| "check_approved approved profiles seen (request # requests) =
     (let key = diagnosisRoomEvidenceRequestIdentity request in
      if key \<in> set seen then
        Inl (plain_error ''diagnosis room collect evidence: request duplicates another request'')
      else if key \<in> set approved then
        check_approved (filter (\<lambda>k. k \<noteq> key) approved) profiles (key # seen) requests
      else if diagnosisRoomManualEvidenceRequestMatchesRoomScope request profiles then
        check_approved approved profiles (key # seen) requests
      else Inl (plain_error
        ''diagnosis room collect evidence: request must match a pending request or room source profile''))"

definition validateManualEvidenceRequestsApproved ::
  "room_lib \<Rightarrow> room \<Rightarrow> EvidenceRequest list \<Rightarrow> unit result" where
  "validateManualEvidenceRequestsApproved lib s requests =
     check_approved (approved_requests s)
       (diagnosisRoomEvidenceSourceProfileIDs lib (wi_Evidence (rs_input s))) [] requests"

fun validate_each :: "EvidenceRequest list \<Rightarrow> unit result" where
  "validate_each [] = Inr ()"
| "validate_each (r # rs) = bindE (validateManualEvidenceRequest r) (\<lambda>_. validate_each rs)"

definition maxDiagnosisRoomManualEvidenceRequests :: nat where
  "maxDiagnosisRoomManualEvidenceRequests = 5"

definition validateCollectEvidence ::
  "room_lib \<Rightarrow> room \<Rightarrow> CollectDiagnosisEvidenceRequest \<Rightarrow> unit result" where
  "validateCollectEvidence lib s req =
     (if TrimSpace (cq_MessageID req) = [] then
        Inl (plain_error ''diagnosis room collect evidence: message_id must be non-empty'')
      else if TrimSpace (cq_MessageID req) \<noteq> cq_MessageID req then
        Inl (plain_error ''diagnosis room collect evidence: message_id has surrounding whitespace'')
      else if TrimSpace (cq_ActorSubject req) = [] then
        Inl (plain_error ''diagnosis room collect evidence: actor_subject must be non-empty'')
      else if TrimSpace (cq_ActorSubject req) \<noteq> cq_ActorSubject req then
        Inl (plain_error ''diagnosis room collect evidence: actor_subject has surrounding whitespace'')
      else if TrimSpace (cq_Message req) = [] then
        Inl (plain_error ''diagnosis room collect evidence: message must be non-empty'')
      else if rs_status s \<noteq> RoomOpen then
        Inl (plain_error ''diagnosis room collect evidence: room is not open'')
      else if rs_inFlight s then
        Inl (plain_error ''diagnosis room collect evidence: turn is still in progress'')
      else if rs_turnCount s \<le> 0 then
        Inl (plain_error ''diagnosis room collect evidence: at least one diagnosis turn is required'')
      else if cq_MessageID req \<in> set (rs_seen s) then
        Inl (plain_error ''diagnosis room collect evidence: duplicate message_id'')
      else if cq_Requests req = [] \<or> length (cq_Requests req) > maxDiagnosisRoomManualEvidenceRequests then
        Inl (plain_error ''diagnosis room collect evidence: requests must contain between 1 and 5 items'')
      else bindE (validate_each (cq_Requests req))
             (\<lambda>_. validateManualEvidenceRequestsApproved lib s (cq_Requests req)))"

section \<open>Admission of a confirmation\<close>

fun find_assistant_sequence :: "ConfidenceTimelineEntry list \<Rightarrow> int" where
  "find_assistant_sequence [] = 0"
| "find_assistant_sequence (e # es) =
     (if cl_AssistantSequence e > 0 then cl_AssistantSequence e else find_assistant_sequence es)"

definition latestAssistantSequence :: "room \<Rightarrow> int" where
  "latestAssistantSequence s = find_assistant_sequence (rev (rs_confidenceTimeline s))"

definition confirmHasReviewedSupplementalEvidenceKey :: "room_lib \<Rightarrow> room \<Rightarrow> string \<Rightarrow> int \<Rightarrow> bool" where
  "confirmHasReviewedSupplementalEvidenceKey lib s requestKey assistantSequence =
     (requestKey \<noteq> [] \<and>
      list_ex (\<lambda>item.
        diagnosisRoomConsultationEvidenceRequestKey (rl_unicode_lower lib) (sx_Label item) (sx_Detail item)
          = requestKey \<and>
        \<not> (assistantSequence > 0 \<and> sx_AssistantSequence item \<noteq> assistantSequence))
        (rs_supplementalEvidence s))"

definition confirmHasReviewedSupplementalEvidence ::
  "room_lib \<Rightarrow> room \<Rightarrow> ConsultationEvidenceRequest \<Rightarrow> int \<Rightarrow> bool" where
  "confirmHasReviewedSupplementalEvidence lib s request assistantSequence =
     confirmHasReviewedSupplementalEvidenceKey lib s
       (diagnosisRoomConsultationEvidenceRequestKey (rl_unicode_lower lib) (cr_Label request)
          (cr_Detail request)) assistantSequence"

definition confirmAllowsReviewedMissingEvidence ::
  "room_lib \<Rightarrow> room \<Rightarrow> ConsultationEvidenceRequest list \<Rightarrow> string \<Rightarrow> int \<Rightarrow> bool" where
  "confirmAllowsReviewedMissingEvidence lib s requests conclusionStatus assistantSequence =
     (if requests = [] \<or> rs_supplementalEvidence s = [] then False
      else if TrimSpace conclusionStatus \<notin> {''final'', ''ready_for_review''} then False
      else list_all (\<lambda>request. confirmHasReviewedSupplementalEvidence lib s request assistantSequence)
             requests)"

definition confirmAllowsReviewedCollectionEvidence ::
  "room_lib \<Rightarrow> room \<Rightarrow> EvidenceItem \<Rightarrow> int \<Rightarrow> bool" where
  "confirmAllowsReviewedCollectionEvidence lib s item assistantSequence =
     (if rs_supplementalEvidence s = [] then False
      else list_ex (\<lambda>key. confirmHasReviewedSupplementalEvidenceKey lib s key assistantSequence)
             (diagnosisRoomCollectionEvidenceTopicKeys (rl_unicode_lower lib) item))"

definition unresolved_item :: "room_lib \<Rightarrow> room \<Rightarrow> EvidenceItem \<Rightarrow> bool" where
  "unresolved_item lib s item \<longleftrightarrow>
     TrimSpace (it_Status item) \<in> {StatusFailed, StatusSkipped, StatusUnsupported} \<and>
     \<not> confirmAllowsReviewedCollectionEvidence lib s item (latestAssistantSequence s)"

definition confirmEvidenceBlockReason :: "room_lib \<Rightarrow> room \<Rightarrow> string" where
  "confirmEvidenceBlockReason lib s =
     (case find (unresolved_item lib s) (rs_latestCollectionResults s) of
        Some item \<Rightarrow>
          let tool = TrimSpace (it_Tool item)
          in ''resolve '' @ (if tool = [] then ''planned'' else tool)
             @ '' evidence collection before confirming''
      | None \<Rightarrow>
        if (case rs_latestInsight s of
              None \<Rightarrow> False
            | Some i \<Rightarrow> ci_MissingEvidenceRequests i \<noteq> [] \<and>
                \<not> confirmAllowsReviewedMissingEvidence lib s (ci_MissingEvidenceRequests i)
                    (ci_ConclusionStatus i) (latestAssistantSequence s))
        then ''resolve missing evidence requests before confirming''
        else if pendingDiagnosisRoomEvidenceRequests (rs_latestEvidenceRequests s)
                  (rs_latestCollectionResults s) \<noteq> []
        then ''collect planned executable evidence before confirming''
        else case rs_finalConclusion s of
          None \<Rightarrow> []
        | Some c \<Rightarrow>
            if fc_MissingEvidenceRequests c \<noteq> [] \<and>
               \<not> confirmAllowsReviewedMissingEvidence lib s (fc_MissingEvidenceRequests c)
                   ''ready_for_review'' (fc_AssistantSequence c)
            then ''resolve missing evidence requests before confirming''
            else if pendingDiagnosisRoomEvidenceRequests (fc_EvidenceRequests c)
                      (rs_latestCollectionResults s) \<noteq> []
            then ''collect planned executable evidence before confirming''
            else [])"

definition confirm_ready :: "room \<Rightarrow> bool" where
  "confirm_ready s \<longleftrightarrow>
     (case rs_finalConclusion s of None \<Rightarrow> False | Some c \<Rightarrow> TrimSpace (fc_Status c) = ''available'') \<or>
     (case rs_latestInsight s of
        None \<Rightarrow> False
      | Some i \<Rightarrow> TrimSpace (ci_ConclusionStatus i) \<in> {''final'', ''ready_for_review''})"

definition validateConfirmConclusion ::
  "room_lib \<Rightarrow> room_versions \<Rightarrow> room \<Rightarrow> DiagnosisRoomCloseRequest \<Rightarrow> unit result" where
  "validateConfirmConclusion lib v s req =
     (if TrimSpace (cz_ActorSubject req) = [] then
        Inl (plain_error ''diagnosis room confirm conclusion: actor_subject must be non-empty'')
      else if TrimSpace (cz_ActorSubject req) \<noteq> cz_ActorSubject req then
        Inl (plain_error ''diagnosis room confirm conclusion: actor_subject has surrounding whitespace'')
      else if TrimSpace (cz_Reason req) \<noteq> cz_Reason req then
        Inl (plain_error ''diagnosis room confirm conclusion: reason has surrounding whitespace'')
      else if rs_status s \<noteq> RoomOpen then
        Inl (plain_error ''diagnosis room confirm conclusion: room is not open'')
      else if rs_inFlight s then
        Inl (plain_error ''diagnosis room confirm conclusion: turn is still in progress'')
      else if rs_approvalInFlight s then
        Inl (plain_error ''diagnosis room confirm conclusion: another approval is still in progress'')
      else if \<not> confirm_ready s then
        Inl (plain_error
          ''diagnosis room confirm conclusion: latest diagnosis is not final or ready_for_review'')
      else if rv_confirmEvidenceGuard v \<ge> 1 \<and> confirmEvidenceBlockReason lib s \<noteq> [] then
        Inl (plain_error (''diagnosis room confirm conclusion: '' @ confirmEvidenceBlockReason lib s))
      else Inr ())"

definition approvalsForConclusion :: "ChatSessionApproval list \<Rightarrow> string \<Rightarrow> ChatSessionApproval list" where
  "approvalsForConclusion as digest = filter (\<lambda>a. sa_ConclusionDigest a = digest) as"

definition appendApprovalIfMissing ::
  "ChatSessionApproval list \<Rightarrow> ChatSessionApproval \<Rightarrow> ChatSessionApproval list" where
  "appendApprovalIfMissing as a =
     (if list_ex (\<lambda>x. sa_ID x = sa_ID a \<or>
           (sa_ConclusionDigest x = sa_ConclusionDigest a \<and> sa_ActorSubject x = sa_ActorSubject a)) as
      then as else as @ [a])"

definition currentConclusionIdentity :: "room_lib \<Rightarrow> room \<Rightarrow> (string \<times> string \<times> int \<times> string) result" where
  "currentConclusionIdentity lib s =
     (case rs_finalConclusion s of
        None \<Rightarrow> Inl (plain_error
          ''diagnosis room confirm conclusion: retained final conclusion is unavailable'')
      | Some c \<Rightarrow>
        if TrimSpace (fc_Status c) \<noteq> ''available'' then
          Inl (plain_error ''diagnosis room confirm conclusion: retained final conclusion is unavailable'')
        else let messageID = TrimSpace (fc_AssistantMessageID c);
                 sequence = fc_AssistantSequence c in
          if messageID = [] \<or> sequence \<le> 0 \<or> sequence > int (length (rs_conversation s)) then
            Inl (plain_error
              ''diagnosis room confirm conclusion: retained conclusion source is incomplete'')
          else let turn = rs_conversation s ! nat (sequence - 1) in
            if cv_Role turn \<noteq> ''assistant'' \<or> TrimSpace (cv_Content turn) = [] then
              Inl (plain_error
                ''diagnosis room confirm conclusion: retained conclusion source turn is invalid'')
            else case ConclusionDigest (rl_sha256_hex lib) messageID sequence (cv_Content turn) of
              Inl e \<Rightarrow> Inl e
            | Inr digest \<Rightarrow> Inr (digest, messageID, sequence, cv_Content turn))"

section \<open>Facts about the checks\<close>

lemma room_close_open:
  "rs_status s = RoomOpen \<Longrightarrow> room_close s now reason actor =
     s\<lparr>rs_status := RoomClosed, rs_closedAt := Some now,
       rs_closeReason := reasonOrDefault reason ''user_requested'',
       rs_closeActorSubject := TrimSpace actor, rs_lastActivityAt := now\<rparr>"
  by (simp add: room_close_def)

lemma room_close_closed [simp]: "rs_status s = RoomClosed \<Longrightarrow> room_close s now reason actor = s"
  by (simp add: room_close_def)

lemma room_close_status [simp]: "rs_status (room_close s now reason actor) = RoomClosed"
  by (simp add: room_close_def)

lemma reasonOrDefault_nonempty: "fallback \<noteq> [] \<Longrightarrow> reasonOrDefault reason fallback \<noteq> []"
  by (simp add: reasonOrDefault_def Let_def)

lemma policy_check_InrD:
  assumes "policy_check lib s inFlight req now ev = Inr d"
  shows "policy_ok (rs_policy s)" "tr_MessageID req \<notin> set (rs_seen s)"
    "TrimSpace (tr_MessageID req) = tr_MessageID req" "tr_MessageID req \<noteq> []"
    "0 \<le> rs_turnCount s" "rs_turnCount s < pl_MaxTurns (rs_policy s)" "\<not> inFlight"
    "TrimSpace (tr_Message req) \<noteq> []" "dc_ContextBytes d \<le> pl_ContextBytes (rs_policy s)"
  using ValidateSubmitTurn_InrD [OF assms [unfolded policy_check_def]]
    validateState_turns [OF ValidateSubmitTurn_InrD(5) [OF assms [unfolded policy_check_def]]]
  by (simp_all add: session_state_def)

lemma validateSubmit_Inr:
  "validateSubmit lib v s req now = Inr (d, ev) \<longleftrightarrow>
     TrimSpace (tr_ActorSubject req) \<noteq> [] \<and> turnEvidence lib v s = Inr ev \<and>
     policy_check lib s (rs_inFlight s) req now ev = Inr d"
  by (auto simp: validateSubmit_def split: sum.splits)

lemma validateSubmitForAutoFollowUp_Inr:
  "validateSubmitForAutoFollowUp lib v s req now = Inr (d, ev) \<longleftrightarrow>
     turnEvidence lib v s = Inr ev \<and> policy_check lib s False req now ev = Inr d"
  by (auto simp: validateSubmitForAutoFollowUp_def split: sum.splits)

text \<open>The guard of a confirmation lets a room through only when nothing is left to resolve.\<close>

lemma confirmEvidenceBlockReason_clear:
  assumes "confirmEvidenceBlockReason lib s = []"
  shows "\<forall>item \<in> set (rs_latestCollectionResults s). \<not> unresolved_item lib s item"
    "pendingDiagnosisRoomEvidenceRequests (rs_latestEvidenceRequests s) (rs_latestCollectionResults s) = []"
    "rs_latestInsight s = Some i \<Longrightarrow> ci_MissingEvidenceRequests i \<noteq> [] \<Longrightarrow>
       confirmAllowsReviewedMissingEvidence lib s (ci_MissingEvidenceRequests i) (ci_ConclusionStatus i)
         (latestAssistantSequence s)"
    "rs_finalConclusion s = Some c \<Longrightarrow>
       pendingDiagnosisRoomEvidenceRequests (fc_EvidenceRequests c) (rs_latestCollectionResults s) = []"
  using assms
  by (auto simp: confirmEvidenceBlockReason_def Let_def find_None_iff
      split: option.splits if_splits)

lemma validateConfirmConclusion_InrD:
  assumes "validateConfirmConclusion lib v s req = Inr ()"
  shows "rs_status s = RoomOpen" "\<not> rs_inFlight s" "\<not> rs_approvalInFlight s" "confirm_ready s"
    "cz_ActorSubject req \<noteq> []" "TrimSpace (cz_ActorSubject req) = cz_ActorSubject req"
    "rv_confirmEvidenceGuard v \<ge> 1 \<Longrightarrow> confirmEvidenceBlockReason lib s = []"
  using assms by (auto simp: validateConfirmConclusion_def split: if_splits)

lemma validate_each_Inr:
  "validate_each rs = Inr () \<longleftrightarrow> (\<forall>r \<in> set rs. validateManualEvidenceRequest r = Inr ())"
  by (induction rs) (auto simp: bindE_eq_Inr_iff)

lemma check_approved_Inr:
  assumes "check_approved approved profiles seen requests = Inr ()"
  shows "distinct (map diagnosisRoomEvidenceRequestIdentity requests) \<and>
    (\<forall>r \<in> set requests. diagnosisRoomEvidenceRequestIdentity r \<notin> set seen \<and>
       (diagnosisRoomEvidenceRequestIdentity r \<in> set approved \<or>
        diagnosisRoomManualEvidenceRequestMatchesRoomScope r profiles))"
  using assms
proof (induction requests arbitrary: approved seen)
  case (Cons r rs)
  let ?k = "diagnosisRoomEvidenceRequestIdentity r"
  have new: "?k \<notin> set seen"
    and adm: "?k \<in> set approved \<or> diagnosisRoomManualEvidenceRequestMatchesRoomScope r profiles"
    using Cons.prems by (auto simp: Let_def split: if_splits)
  obtain approved' where "check_approved approved' profiles (?k # seen) rs = Inr ()"
    and sub: "set approved' \<subseteq> set approved"
  proof (cases "?k \<in> set approved")
    case True
    then show thesis using Cons.prems new that [of "filter (\<lambda>k. k \<noteq> ?k) approved"]
      by (simp add: Let_def)
  next
    case False
    then show thesis using Cons.prems new adm that [of approved] by (simp add: Let_def)
  qed
  from Cons.IH [OF this(1)] have "distinct (map diagnosisRoomEvidenceRequestIdentity rs)"
    and rest: "\<forall>q \<in> set rs. diagnosisRoomEvidenceRequestIdentity q \<notin> set (?k # seen) \<and>
       (diagnosisRoomEvidenceRequestIdentity q \<in> set approved' \<or>
        diagnosisRoomManualEvidenceRequestMatchesRoomScope q profiles)" by blast+
  moreover from rest have "?k \<notin> diagnosisRoomEvidenceRequestIdentity ` set rs" by auto
  ultimately show ?case using new adm sub by auto
qed simp

lemma validateCollectEvidence_InrD:
  assumes "validateCollectEvidence lib s req = Inr ()"
  shows "rs_status s = RoomOpen" "\<not> rs_inFlight s" "0 < rs_turnCount s"
    "cq_MessageID req \<notin> set (rs_seen s)" "TrimSpace (cq_MessageID req) = cq_MessageID req"
    "cq_MessageID req \<noteq> []"
    "cq_Requests req \<noteq> []" "length (cq_Requests req) \<le> 5"
    "\<forall>r \<in> set (cq_Requests req). validateManualEvidenceRequest r = Inr ()"
    "validateManualEvidenceRequestsApproved lib s (cq_Requests req) = Inr ()"
  using assms
  by (auto simp: validateCollectEvidence_def bindE_eq_Inr_iff validate_each_Inr
      maxDiagnosisRoomManualEvidenceRequests_def split: if_splits)

end
