(* ===== verification/Room_Turn.thy ===== *)
theory Room_Turn
  imports Room_State
begin

text \<open>
  One diagnosis turn of \<open>diagnosis_room_workflow.go\<close>: what \<open>runDiagnosisRoomTurn\<close> sends to its
  activities, how it normalises the assistant's output, and what it stores before and after the
  notification it awaits in between. The results of the activities are values of the model
  (\<open>turn_outcome\<close>); any of them may be an error. The lemmas say what the normalisation keeps of
  the unresolved evidence and which fields a turn changes.
\<close>

section \<open>What the activities return\<close>

record DiagnosisTurnActivityResult =
  ar_InvocationID :: string
  ar_AssistantMessageID :: string
  ar_AssistantSequence :: int
  ar_AssistantMessage :: string
  ar_Output :: TurnOutput
  ar_RawOutput :: string
  ar_RuntimeID :: string
  ar_StartedAt :: go_time
  ar_FinishedAt :: go_time
  ar_RequiresHumanReview :: bool
  ar_Confidence :: string
  ar_Insight :: ConsultationInsight
  ar_ContextBytes :: int
  ar_RetrievalRefs :: "string list"

record PersistDiagnosisTurnResult =
  pr_ChatSessionID :: int
  pr_LifecycleEventID :: int
  pr_UserTurnID :: int
  pr_AssistantTurnID :: int
  pr_AssistantMessageID :: string
  pr_AssistantSequence :: int
  pr_AssistantOccurredAt :: go_time
  pr_TurnCount :: int
  pr_LastActivityAt :: go_time
  pr_AssistantMessage :: string
  pr_Confidence :: string
  pr_RequiresHumanReview :: bool
  pr_Findings :: "string list"
  pr_RecommendedActions :: "string list"
  pr_EvidenceRequests :: "EvidenceRequest list"
  pr_Insight :: ConsultationInsight
  pr_FinalConclusion :: "DiagnosisRoomFinalConclusion option"

record turn_outcome =
  oc_Activity :: "DiagnosisTurnActivityResult result"
  oc_Persist :: "PersistDiagnosisTurnResult result"
  oc_Collect :: "EvidenceItem list result"
  oc_Record :: "unit result"

section \<open>What they are sent\<close>

text \<open>
  A running turn: the request, the accepted size of its context and evidence, the time it was
  accepted, the message that started the handler and the number of the follow-up (0 for the turn
  of the operator), whether follow-ups are run, and the version of the evidence collection.
\<close>

record turn_frame =
  tf_Req :: SubmitDiagnosisTurnRequest
  tf_ContextBytes :: int
  tf_Evidence :: string
  tf_UserOccurredAt :: go_time
  tf_Root :: string
  tf_Index :: nat
  tf_FollowUps :: bool
  tf_CollectionVersion :: int
  tf_Initial :: bool

record DiagnosisTurnActivityInput =
  ai_SessionID :: string
  ai_DiagnosisTaskID :: int
  ai_MessageID :: string
  ai_UserSequence :: int
  ai_AssistantSequence :: int
  ai_ActorSubject :: string
  ai_Evidence :: string
  ai_Conversation :: "ConversationTurn list"
  ai_Message :: string
  ai_SupplementalEvidence :: "SupplementalEvidence option"
  ai_Policy :: Policy
  ai_EnableHistoricalRetrieval :: bool
  ai_EvidenceSnapshotID :: int
  ai_EnableStreaming :: bool

definition user_sequence :: "room \<Rightarrow> int" where
  "user_sequence s = int (length (rs_conversation s)) + 1"

definition turn_activity_input :: "room_versions \<Rightarrow> room \<Rightarrow> turn_frame \<Rightarrow> DiagnosisTurnActivityInput" where
  "turn_activity_input v s f =
     \<lparr>ai_SessionID = wi_SessionID (rs_input s), ai_DiagnosisTaskID = rs_diagnosisTaskID s,
      ai_MessageID = TrimSpace (tr_MessageID (tf_Req f)), ai_UserSequence = user_sequence s,
      ai_AssistantSequence = user_sequence s + 1,
      ai_ActorSubject = TrimSpace (tr_ActorSubject (tf_Req f)), ai_Evidence = tf_Evidence f,
      ai_Conversation = rs_conversation s, ai_Message = tr_Message (tf_Req f),
      ai_SupplementalEvidence = tr_SupplementalEvidence (tf_Req f), ai_Policy = rs_policy s,
      ai_EnableHistoricalRetrieval = (rv_historicalRetrieval v \<ge> 1),
      ai_EvidenceSnapshotID =
        (if rv_historicalRetrieval v \<ge> 1 then wi_EvidenceSnapshotID (rs_input s) else 0),
      ai_EnableStreaming = (rv_streaming v \<ge> 1)\<rparr>"

record PersistDiagnosisTurnInput =
  pi_SessionID :: string
  pi_DiagnosisTaskID :: int
  pi_OwnerSubject :: string
  pi_UserMessageID :: string
  pi_AssistantMessageID :: string
  pi_UserSequence :: int
  pi_AssistantSequence :: int
  pi_TurnCount :: int
  pi_ActorSubject :: string
  pi_UserMessage :: string
  pi_AssistantMessage :: string
  pi_UserOccurredAt :: go_time
  pi_AssistantOccurredAt :: go_time
  pi_ContextBytes :: int
  pi_RetrievalRefs :: "string list"
  pi_InvocationID :: string
  pi_RuntimeID :: string
  pi_ContainerStartedAt :: go_time
  pi_ContainerFinishedAt :: go_time
  pi_RawOutput :: string
  pi_SupplementalEvidence :: "SupplementalEvidence option"

section \<open>Unresolved evidence stays listed\<close>

definition maxConsultationEvidenceRequests :: nat where
  "maxConsultationEvidenceRequests = 10"

definition request_key :: "room_lib \<Rightarrow> ConsultationEvidenceRequest \<Rightarrow> string" where
  "request_key lib r =
     diagnosisRoomConsultationEvidenceRequestKey (rl_unicode_lower lib) (cr_Label r) (cr_Detail r)"

definition resolvedSupplementalEvidenceTopicKeys ::
  "room_lib \<Rightarrow> room \<Rightarrow> SupplementalEvidence option \<Rightarrow> string list" where
  "resolvedSupplementalEvidenceTopicKeys lib s cur =
     filter (\<lambda>k. k \<noteq> [])
       (map (\<lambda>x. diagnosisRoomConsultationEvidenceRequestKey (rl_unicode_lower lib) (sx_Label x) (sx_Detail x))
          (rs_supplementalEvidence s)
        @ (case cur of None \<Rightarrow> []
           | Some e \<Rightarrow> [diagnosisRoomConsultationEvidenceRequestKey (rl_unicode_lower lib)
                          (se_Label e) (se_Detail e)]))"

fun merge_missing ::
  "room_lib \<Rightarrow> string list \<Rightarrow> ConsultationEvidenceRequest list \<times> string list
   \<Rightarrow> ConsultationEvidenceRequest list \<Rightarrow> ConsultationEvidenceRequest list \<times> string list" where
  "merge_missing lib resolved (merged, seen) [] = (merged, seen)"
| "merge_missing lib resolved (merged, seen) (item # items) =
     (if length merged \<ge> maxConsultationEvidenceRequests then (merged, seen)
      else let key = request_key lib item in
        if key = [] \<or> key \<in> set seen \<or> key \<in> set resolved
        then merge_missing lib resolved (merged, seen) items
        else merge_missing lib resolved (merged @ [item], key # seen) items)"

definition merged_missing ::
  "room_lib \<Rightarrow> room \<Rightarrow> SubmitDiagnosisTurnRequest \<Rightarrow> ConsultationEvidenceRequest list
   \<Rightarrow> ConsultationEvidenceRequest list" where
  "merged_missing lib s req cur =
     (if length cur < maxConsultationEvidenceRequests \<and> rs_confidenceTimeline s \<noteq> [] then
        fst (foldl (\<lambda>acc entry. merge_missing lib
               (resolvedSupplementalEvidenceTopicKeys lib s (tr_SupplementalEvidence req)) acc
               (cl_MissingEvidenceRequests entry))
             (cur, filter (\<lambda>k. k \<noteq> []) (map (request_key lib) cur))
             (rev (rs_confidenceTimeline s)))
      else cur)"

definition preserveUnresolvedMissingEvidenceRequests ::
  "room_lib \<Rightarrow> room \<Rightarrow> SubmitDiagnosisTurnRequest \<Rightarrow> TurnOutput \<Rightarrow> TurnOutput \<times> bool" where
  "preserveUnresolvedMissingEvidenceRequests lib s req out =
     (let cur = to_MissingEvidenceRequests out;
          merged = merged_missing lib s req cur;
          (out, changed) = (if cur \<noteq> merged
            then (out\<lparr>to_MissingEvidenceRequests := merged\<rparr>, True) else (out, False))
      in if to_MissingEvidenceRequests out = [] then (out, changed)
      else let
          (out, changed) = (if TrimSpace (to_ConclusionStatus out) = ''final''
            then (out\<lparr>to_ConclusionStatus := ''needs_evidence''\<rparr>, True) else (out, changed));
          (out, changed) = (if \<not> to_RequiresHumanReview out
            then (out\<lparr>to_RequiresHumanReview := True\<rparr>, True) else (out, changed));
          (out, changed) = (if TrimSpace (to_ConfidenceRationale out) = []
            then (out\<lparr>to_ConfidenceRationale :=
                ''Unresolved operator evidence remains before final confirmation.''\<rparr>, True)
            else (out, changed))
        in (out, changed))"

definition normalise_activity_result ::
  "room_lib \<Rightarrow> room \<Rightarrow> SubmitDiagnosisTurnRequest \<Rightarrow> DiagnosisTurnActivityResult
   \<Rightarrow> DiagnosisTurnActivityResult" where
  "normalise_activity_result lib s req ar =
     (case preserveUnresolvedMissingEvidenceRequests lib s req (ar_Output ar) of
        (normalized, changed) \<Rightarrow>
          if changed then ar\<lparr>ar_Output := normalized, ar_RawOutput := rl_marshal_output lib normalized,
            ar_RequiresHumanReview := to_RequiresHumanReview normalized,
            ar_Confidence := to_Confidence normalized, ar_Insight := TurnOutput_Insight normalized\<rparr>
          else ar)"

section \<open>The activities of a turn, in order\<close>

definition turn_context ::
  "room_versions \<Rightarrow> room \<Rightarrow> turn_frame \<Rightarrow> DiagnosisTurnActivityResult \<Rightarrow> (int \<times> string list) result" where
  "turn_context v s f ar =
     (if rv_historicalRetrieval v \<ge> 1 then
        (if ar_ContextBytes ar > pl_ContextBytes (rs_policy s) then
           Inl (invariant_error ''diagnosis turn activity context bytes exceed policy maximum'')
         else if ar_ContextBytes ar \<le> 0 \<and> ar_RetrievalRefs ar \<noteq> [] then
           Inl (invariant_error
             ''diagnosis turn activity returned retrieval refs without mounted context bytes'')
         else Inr (if ar_ContextBytes ar > 0 then ar_ContextBytes ar else tf_ContextBytes f,
                   ar_RetrievalRefs ar))
      else Inr (tf_ContextBytes f, []))"

definition persist_input ::
  "room \<Rightarrow> turn_frame \<Rightarrow> DiagnosisTurnActivityResult \<Rightarrow> int \<times> string list \<Rightarrow> go_time
   \<Rightarrow> PersistDiagnosisTurnInput" where
  "persist_input s f ar ctx now =
     \<lparr>pi_SessionID = wi_SessionID (rs_input s), pi_DiagnosisTaskID = rs_diagnosisTaskID s,
      pi_OwnerSubject = wi_OwnerSubject (rs_input s),
      pi_UserMessageID = TrimSpace (tr_MessageID (tf_Req f)),
      pi_AssistantMessageID = ar_AssistantMessageID ar, pi_UserSequence = user_sequence s,
      pi_AssistantSequence = ar_AssistantSequence ar, pi_TurnCount = rs_turnCount s + 1,
      pi_ActorSubject = TrimSpace (tr_ActorSubject (tf_Req f)), pi_UserMessage = tr_Message (tf_Req f),
      pi_AssistantMessage = ar_AssistantMessage ar, pi_UserOccurredAt = tf_UserOccurredAt f,
      pi_AssistantOccurredAt = now, pi_ContextBytes = fst ctx, pi_RetrievalRefs = snd ctx,
      pi_InvocationID = ar_InvocationID ar, pi_RuntimeID = ar_RuntimeID ar,
      pi_ContainerStartedAt = ar_StartedAt ar, pi_ContainerFinishedAt = ar_FinishedAt ar,
      pi_RawOutput = ar_RawOutput ar, pi_SupplementalEvidence = tr_SupplementalEvidence (tf_Req f)\<rparr>"

definition diagnosisRoomShouldAutoCollectEvidence :: "string \<Rightarrow> bool" where
  "diagnosisRoomShouldAutoCollectEvidence actorSubject =
     (let actor = TrimSpace actorSubject
      in actor = AutoActorSubject \<or> has_prefix ''openclarion.'' actor)"

definition collects :: "turn_frame \<Rightarrow> PersistDiagnosisTurnResult \<Rightarrow> bool" where
  "collects f pr \<longleftrightarrow> tf_CollectionVersion f \<ge> 1 \<and> pr_EvidenceRequests pr \<noteq> [] \<and>
     diagnosisRoomShouldAutoCollectEvidence (TrimSpace (tr_ActorSubject (tf_Req f)))"

record turn_done =
  td_Activity :: DiagnosisTurnActivityResult
  td_Persist :: PersistDiagnosisTurnResult
  td_Items :: "EvidenceItem list"
  td_ContextBytes :: int
  td_RetrievalRefs :: "string list"

definition turn_activities ::
  "room_lib \<Rightarrow> room_versions \<Rightarrow> room \<Rightarrow> turn_frame \<Rightarrow> turn_outcome \<Rightarrow> turn_done result" where
  "turn_activities lib v s f oc =
     bindE (oc_Activity oc) (\<lambda>ar0.
     let ar = normalise_activity_result lib s (tf_Req f) ar0 in
     bindE (turn_context v s f ar) (\<lambda>ctx.
     bindE (oc_Persist oc) (\<lambda>pr.
     bindE (if collects f pr then oc_Collect oc else Inr []) (\<lambda>items.
     bindE (if rv_evidenceCollected v \<ge> 1 \<and> items \<noteq> [] then oc_Record oc else Inr ()) (\<lambda>_.
     Inr \<lparr>td_Activity = ar, td_Persist = pr, td_Items = items, td_ContextBytes = fst ctx,
          td_RetrievalRefs = snd ctx\<rparr>)))))"

section \<open>What a turn stores\<close>

definition copyDiagnosisRoomFinalConclusion ::
  "DiagnosisRoomFinalConclusion \<Rightarrow> DiagnosisRoomFinalConclusion option" where
  "copyDiagnosisRoomFinalConclusion c = (if TrimSpace (fc_Status c) = [] then None else Some c)"

definition diagnosisRoomConsultationInsightHasValue :: "ConsultationInsight \<Rightarrow> bool" where
  "diagnosisRoomConsultationInsightHasValue i \<longleftrightarrow>
     TrimSpace (ci_ConfidenceRationale i) \<noteq> [] \<or> ci_MissingEvidenceRequests i \<noteq> [] \<or>
     ci_EvidenceCollectionSuggestions i \<noteq> [] \<or> TrimSpace (ci_ConclusionStatus i) \<noteq> []"

definition copyDiagnosisRoomConsultationInsight :: "ConsultationInsight \<Rightarrow> ConsultationInsight option" where
  "copyDiagnosisRoomConsultationInsight i =
     (if diagnosisRoomConsultationInsightHasValue i then Some i else None)"

definition add_batch :: "room_versions \<Rightarrow> room \<Rightarrow> int \<Rightarrow> string \<Rightarrow> EvidenceItem list \<Rightarrow> ContextBatch list" where
  "add_batch v s turnCount assistantMessageID items =
     (if rv_evidenceContext v \<ge> 1 then
        (case diagnosisRoomEvidenceContextBatchFromItems turnCount assistantMessageID items of
           None \<Rightarrow> rs_evidenceBatches s
         | Some batch \<Rightarrow> appendDiagnosisRoomEvidenceContextBatch (rs_evidenceBatches s) batch)
      else rs_evidenceBatches s)"

definition turn_store :: "room_versions \<Rightarrow> room \<Rightarrow> turn_done \<Rightarrow> room" where
  "turn_store v s d =
     (let pr = td_Persist d in
      s\<lparr>rs_evidenceBatches := add_batch v s (pr_TurnCount pr) (ar_AssistantMessageID (td_Activity d)) (td_Items d),
        rs_chatSessionID := pr_ChatSessionID pr,
        rs_turnCount := rs_turnCount s + 1,
        rs_lastActivityAt := pr_LastActivityAt pr,
        rs_conclusionDigest := [],
        rs_approvals := [],
        rs_finalConclusion :=
          (if rv_finalConclusion v \<ge> 1 then
             (case pr_FinalConclusion pr of None \<Rightarrow> None | Some c \<Rightarrow> copyDiagnosisRoomFinalConclusion c)
           else None)\<rparr>)"

definition notifies :: "room_versions \<Rightarrow> room \<Rightarrow> turn_done \<Rightarrow> bool" where
  "notifies v s d \<longleftrightarrow>
     wi_CloseNotificationChannelProfileID (rs_input s) > 0 \<and>
     (case pr_FinalConclusion (td_Persist d) of
        Some _ \<Rightarrow> rv_finalReadyNotification v \<ge> 1
      | None \<Rightarrow> rv_assistantTurnNotification v \<ge> 1)"

definition diagnosisRoomNotificationDeliveryFailed :: "(string \<Rightarrow> string) \<Rightarrow> string \<Rightarrow> bool" where
  "diagnosisRoomNotificationDeliveryFailed unicode_lower status \<longleftrightarrow>
     ToLower unicode_lower (TrimSpace status) \<in> {''failed'', ''error''}"

definition deadline_text :: "string \<Rightarrow> bool" where
  "deadline_text errText \<longleftrightarrow>
     Contains errText ''context deadline exceeded'' \<or> Contains errText ''deadline exceeded''"

definition diagnosisRoomLatestErrorFromTurnFailure ::
  "(string \<Rightarrow> string) \<Rightarrow> go_time \<Rightarrow> string \<Rightarrow> go_error \<Rightarrow> DiagnosisRoomLatestError" where
  "diagnosisRoomLatestErrorFromTurnFailure unicode_lower now messageID err =
     (let errText = ToLower unicode_lower (err_text err);
          (code, message) =
            (if deadline_text errText then (''llm_timeout'',
               ''Diagnosis turn failed before an assistant response; upstream LLM request timed out.'')
             else if Contains errText ''llm'' then (''llm_failed'',
               ''Diagnosis turn failed before an assistant response; upstream LLM request failed.'')
             else (''turn_failed'',
               ''Diagnosis turn failed before an assistant response; check workflow logs for runner details.''))
      in \<lparr>le_Code = code, le_Message = message, le_MessageID = TrimSpace messageID, le_OccurredAt = now\<rparr>)"

definition diagnosisRoomLatestErrorFromNotificationFailure ::
  "(string \<Rightarrow> string) \<Rightarrow> go_time \<Rightarrow> string \<Rightarrow> go_error \<Rightarrow> DiagnosisRoomLatestError" where
  "diagnosisRoomLatestErrorFromNotificationFailure unicode_lower now messageID err =
     (let message = (if deadline_text (ToLower unicode_lower (err_text err))
            then ''AI diagnosis was saved, but downstream diagnosis notification delivery timed out; review notification channel configuration.''
            else ''AI diagnosis was saved, but downstream diagnosis notification delivery failed; review notification channel configuration.'')
      in \<lparr>le_Code = ''notification_failed'', le_Message = message, le_MessageID = TrimSpace messageID,
          le_OccurredAt = now\<rparr>)"

definition after_notification ::
  "room_lib \<Rightarrow> room \<Rightarrow> turn_done \<Rightarrow> string result \<Rightarrow> go_time \<Rightarrow> room" where
  "after_notification lib s d status now =
     (let failed = (\<lambda>e. s\<lparr>rs_latestError := Some (diagnosisRoomLatestErrorFromNotificationFailure
            (rl_unicode_lower lib) now (pr_AssistantMessageID (td_Persist d)) e)\<rparr>)
      in case status of
        Inl e \<Rightarrow> failed e
      | Inr st \<Rightarrow>
          if diagnosisRoomNotificationDeliveryFailed (rl_unicode_lower lib) st
          then failed (plain_error ''diagnosis room notification delivery failed'')
          else s)"

definition recordLatestEvidenceCycle ::
  "room \<Rightarrow> string \<Rightarrow> EvidenceRequest list \<Rightarrow> EvidenceItem list \<Rightarrow> room" where
  "recordLatestEvidenceCycle s actorSubject requests results =
     (if TrimSpace actorSubject = AutoActorSubject \<and> requests = [] \<and> results = [] \<and>
         (rs_latestEvidenceRequests s \<noteq> [] \<or> rs_latestCollectionResults s \<noteq> [])
      then s
      else s\<lparr>rs_latestEvidenceRequests := requests, rs_latestCollectionResults := results\<rparr>)"

definition recordManualEvidenceCollection ::
  "room \<Rightarrow> EvidenceRequest list \<Rightarrow> EvidenceItem list \<Rightarrow> room" where
  "recordManualEvidenceCollection s requests results =
     (if rs_latestEvidenceRequests s = [] \<and> rs_latestCollectionResults s = []
      then s\<lparr>rs_latestEvidenceRequests := requests, rs_latestCollectionResults := results\<rparr>
      else s\<lparr>rs_latestEvidenceRequests :=
               appendUniqueDiagnosisRoomEvidenceRequests (rs_latestEvidenceRequests s) requests,
             rs_latestCollectionResults :=
               mergeDiagnosisRoomCollectionResults (rs_latestCollectionResults s) results\<rparr>)"

definition recordEvidenceTimelineEntry :: "room \<Rightarrow> EvidenceTimelineEntry \<Rightarrow> room" where
  "recordEvidenceTimelineEntry s entry =
     (if tl_EvidenceRequests entry = [] \<and> tl_CollectionResults entry = [] then s
      else s\<lparr>rs_evidenceTimeline := rs_evidenceTimeline s @
        [entry\<lparr>tl_MessageID := TrimSpace (tl_MessageID entry),
               tl_AssistantMessageID := TrimSpace (tl_AssistantMessageID entry),
               tl_ActorSubject := TrimSpace (tl_ActorSubject entry),
               tl_Trigger := TrimSpace (tl_Trigger entry)\<rparr>]\<rparr>)"

definition recordConfidenceTimelineEntry :: "room \<Rightarrow> ConfidenceTimelineEntry \<Rightarrow> room" where
  "recordConfidenceTimelineEntry s entry =
     (if TrimSpace (cl_Confidence entry) = [] then s
      else s\<lparr>rs_confidenceTimeline := rs_confidenceTimeline s @
        [entry\<lparr>cl_MessageID := TrimSpace (cl_MessageID entry),
               cl_AssistantMessageID := TrimSpace (cl_AssistantMessageID entry),
               cl_Trigger := TrimSpace (cl_Trigger entry),
               cl_Confidence := TrimSpace (cl_Confidence entry),
               cl_ConclusionStatus := TrimSpace (cl_ConclusionStatus entry),
               cl_ConfidenceRationale := TrimSpace (cl_ConfidenceRationale entry)\<rparr>]\<rparr>)"

definition diagnosisRoomEvidenceTrigger :: "string \<Rightarrow> string" where
  "diagnosisRoomEvidenceTrigger actorSubject =
     (if TrimSpace actorSubject = AutoActorSubject then ''collected_evidence'' else ''operator_turn'')"

definition diagnosisRoomSupplementalEvidenceRecord ::
  "SupplementalEvidence option \<Rightarrow> string \<Rightarrow> string \<Rightarrow> string \<Rightarrow> int \<Rightarrow> int \<Rightarrow> int \<Rightarrow> int \<Rightarrow> go_time
   \<Rightarrow> SupplementalEvidenceRecord" where
  "diagnosisRoomSupplementalEvidenceRecord e actorSubject userMessageID assistantMessageID userTurnID
     assistantTurnID userSequence assistantSequence providedAt =
     (case e of
        None \<Rightarrow> \<lparr>sx_Label = [], sx_Detail = [], sx_Priority = [], sx_Evidence = [], sx_ActorSubject = [],
          sx_UserMessageID = [], sx_AssistantMessageID = [], sx_UserTurnID = 0, sx_AssistantTurnID = 0,
          sx_UserSequence = 0, sx_AssistantSequence = 0, sx_ProvidedAt = 0\<rparr>
      | Some e \<Rightarrow> \<lparr>sx_Label = se_Label e, sx_Detail = se_Detail e, sx_Priority = se_Priority e,
          sx_Evidence = se_Evidence e, sx_ActorSubject = actorSubject,
          sx_UserMessageID = userMessageID, sx_AssistantMessageID = assistantMessageID,
          sx_UserTurnID = userTurnID, sx_AssistantTurnID = assistantTurnID,
          sx_UserSequence = userSequence, sx_AssistantSequence = assistantSequence,
          sx_ProvidedAt = providedAt\<rparr>)"

text \<open>
  The block after the notification: the latest insight and evidence, the timelines, the
  supplemental evidence, the message identifier and the two messages of the transcript.
\<close>

definition confidence_entry :: "room_versions \<Rightarrow> turn_frame \<Rightarrow> turn_done \<Rightarrow> ConfidenceTimelineEntry" where
  "confidence_entry v f d =
     (let pr = td_Persist d; ar = td_Activity d; actor = TrimSpace (tr_ActorSubject (tf_Req f)) in
      \<lparr>cl_TurnCount = pr_TurnCount pr, cl_MessageID = TrimSpace (tr_MessageID (tf_Req f)),
       cl_AssistantMessageID = ar_AssistantMessageID ar, cl_AssistantTurnID = pr_AssistantTurnID pr,
       cl_AssistantSequence = ar_AssistantSequence ar, cl_OccurredAt = pr_AssistantOccurredAt pr,
       cl_Trigger = diagnosisRoomEvidenceTrigger actor, cl_Confidence = ar_Confidence ar,
       cl_RequiresHumanReview = ar_RequiresHumanReview ar,
       cl_ConclusionStatus = ci_ConclusionStatus (pr_Insight pr),
       cl_ConfidenceRationale = ci_ConfidenceRationale (pr_Insight pr),
       cl_ContextBytes = (if rv_historicalRetrieval v \<ge> 1 then td_ContextBytes d else 0),
       cl_RetrievalRefs = (if rv_historicalRetrieval v \<ge> 1 then td_RetrievalRefs d else []),
       cl_EvidenceRequests = pr_EvidenceRequests pr, cl_CollectionResults = td_Items d,
       cl_MissingEvidenceRequests = ci_MissingEvidenceRequests (pr_Insight pr),
       cl_EvidenceCollectionSuggestions = ci_EvidenceCollectionSuggestions (pr_Insight pr)\<rparr>)"

definition turn_notes :: "room_versions \<Rightarrow> room \<Rightarrow> turn_frame \<Rightarrow> turn_done \<Rightarrow> room" where
  "turn_notes v s f d =
     (let pr = td_Persist d; ar = td_Activity d; req = tf_Req f;
          actor = TrimSpace (tr_ActorSubject req); messageID = TrimSpace (tr_MessageID req);
          userSequence = user_sequence s;
          s = s\<lparr>rs_latestInsight := copyDiagnosisRoomConsultationInsight (pr_Insight pr),
                rs_latestConfidence := ar_Confidence ar,
                rs_latestRequiresHumanReview := Some (ar_RequiresHumanReview ar)\<rparr>;
          s = recordLatestEvidenceCycle s actor (pr_EvidenceRequests pr) (td_Items d);
          s = recordEvidenceTimelineEntry s
                \<lparr>tl_TurnCount = pr_TurnCount pr, tl_MessageID = messageID,
                 tl_AssistantMessageID = ar_AssistantMessageID ar, tl_ActorSubject = actor,
                 tl_Trigger = diagnosisRoomEvidenceTrigger actor,
                 tl_EvidenceRequests = pr_EvidenceRequests pr, tl_CollectionResults = td_Items d\<rparr>;
          s = recordConfidenceTimelineEntry s (confidence_entry v f d);
          s = (if tr_SupplementalEvidence req = None then s
               else s\<lparr>rs_supplementalEvidence := rs_supplementalEvidence s @
                 [diagnosisRoomSupplementalEvidenceRecord (tr_SupplementalEvidence req) actor messageID
                    (ar_AssistantMessageID ar) (pr_UserTurnID pr) (pr_AssistantTurnID pr) userSequence
                    (ar_AssistantSequence ar) (tf_UserOccurredAt f)]\<rparr>)
      in s)"

definition turn_record :: "room_versions \<Rightarrow> room \<Rightarrow> turn_frame \<Rightarrow> turn_done \<Rightarrow> room" where
  "turn_record v s f d =
     (let req = tf_Req f; s = turn_notes v s f d
      in s\<lparr>rs_seen := TrimSpace (tr_MessageID req) # rs_seen s,
           rs_conversation := rs_conversation s @
             [\<lparr>cv_Role = ''user'', cv_ActorSubject = TrimSpace (tr_ActorSubject req),
               cv_Content = TrimSpace (tr_Message req)\<rparr>,
              \<lparr>cv_Role = ''assistant'', cv_ActorSubject = AutoActorSubject,
               cv_Content = ar_AssistantMessage (td_Activity d)\<rparr>]\<rparr>)"

record SubmitDiagnosisTurnResult =
  rr_SessionID :: string
  rr_ChatSessionID :: int
  rr_MessageID :: string
  rr_AssistantMessageID :: string
  rr_UserTurnID :: int
  rr_AssistantTurnID :: int
  rr_UserSequence :: int
  rr_AssistantSequence :: int
  rr_TurnCount :: int
  rr_ContextBytes :: int
  rr_Status :: string
  rr_AssistantMessage :: string
  rr_RequiresHumanReview :: bool
  rr_Confidence :: string
  rr_RetrievalRefs :: "string list"
  rr_EvidenceRequests :: "EvidenceRequest list"
  rr_CollectionResults :: "EvidenceItem list"
  rr_EvidenceTimeline :: "EvidenceTimelineEntry list"
  rr_ConfidenceTimeline :: "ConfidenceTimelineEntry list"
  rr_Insight :: ConsultationInsight
  rr_LatestError :: "DiagnosisRoomLatestError option"

text \<open>The result of a turn, built from the state after \<open>turn_record\<close>.\<close>

definition turn_result :: "room \<Rightarrow> turn_frame \<Rightarrow> turn_done \<Rightarrow> SubmitDiagnosisTurnResult" where
  "turn_result s f d =
     (let pr = td_Persist d; ar = td_Activity d in
      \<lparr>rr_SessionID = wi_SessionID (rs_input s), rr_ChatSessionID = pr_ChatSessionID pr,
       rr_MessageID = TrimSpace (tr_MessageID (tf_Req f)),
       rr_AssistantMessageID = ar_AssistantMessageID ar, rr_UserTurnID = pr_UserTurnID pr,
       rr_AssistantTurnID = pr_AssistantTurnID pr, rr_UserSequence = user_sequence s - 2,
       rr_AssistantSequence = ar_AssistantSequence ar, rr_TurnCount = rs_turnCount s,
       rr_ContextBytes = td_ContextBytes d, rr_Status = rs_status s,
       rr_AssistantMessage = ar_AssistantMessage ar,
       rr_RequiresHumanReview = ar_RequiresHumanReview ar, rr_Confidence = ar_Confidence ar,
       rr_RetrievalRefs = td_RetrievalRefs d, rr_EvidenceRequests = pr_EvidenceRequests pr,
       rr_CollectionResults = td_Items d, rr_EvidenceTimeline = rs_evidenceTimeline s,
       rr_ConfidenceTimeline = rs_confidenceTimeline s, rr_Insight = pr_Insight pr,
       rr_LatestError = rs_latestError s\<rparr>)"

section \<open>Follow-ups\<close>

definition shouldRunAutoEvidenceFollowUp :: "room \<Rightarrow> SubmitDiagnosisTurnResult \<Rightarrow> bool" where
  "shouldRunAutoEvidenceFollowUp s r =
     (if rs_status s \<noteq> RoomOpen \<or> pl_MaxAutoEvidenceFollowUps (rs_policy s) \<le> 0
         \<or> rs_turnCount s \<ge> pl_MaxTurns (rs_policy s) then False
      else if TrimSpace (ci_ConclusionStatus (rr_Insight r)) \<notin> {[], ''investigating'', ''needs_evidence''}
      then False
      else if rr_EvidenceRequests r = [] then False
      else list_ex (\<lambda>i. it_Status i \<in> {StatusCollected, StatusFailed, StatusSkipped, StatusUnsupported})
             (rr_CollectionResults r))"

definition autoEvidenceFollowUpMessageID :: "string \<Rightarrow> nat \<Rightarrow> string" where
  "autoEvidenceFollowUpMessageID rootMessageID index =
     TrimSpace rootMessageID @ ''/auto-evidence-'' @ decimal index"

definition autoEvidenceFollowUpMessage :: "SubmitDiagnosisTurnResult \<Rightarrow> string" where
  "autoEvidenceFollowUpMessage previous =
     ''OpenClarion automatic evidence follow-up for '' @ TrimSpace (rr_AssistantMessageID previous) @
     '': use the newly collected or attempted evidence in evidence.json to reassess confidence and update the diagnosis. Treat failed, skipped, or unsupported collection results as unresolved evidence gaps unless other verified evidence resolves them. Preserve any previous missing_evidence_requests unless matching operator supplemental evidence is present; executable evidence alone must not clear human or operator evidence gaps. If unresolved missing evidence remains, keep conclusion_status out of final and explain the remaining missing evidence. When the operator states that a non-executable artifact is unavailable and accepts the residual uncertainty, stop repeating that same request and use ready_for_review with requires_human_review=true if no additional executable evidence is needed.''"

section \<open>What the normalisation keeps\<close>

lemma merge_missing_keeps:
  "\<exists>new. merge_missing lib resolved (merged, seen) items =
     (merged @ new, rev (map (request_key lib) new) @ seen) \<and> set new \<subseteq> set items \<and>
     (\<forall>r \<in> set new. request_key lib r \<noteq> [] \<and> request_key lib r \<notin> set resolved \<and>
        request_key lib r \<notin> set seen) \<and>
     distinct (map (request_key lib) new) \<and>
     (length merged \<le> maxConsultationEvidenceRequests \<longrightarrow>
        length (merged @ new) \<le> maxConsultationEvidenceRequests) \<and>
     (length (merged @ new) < maxConsultationEvidenceRequests \<longrightarrow>
        (\<forall>r \<in> set items. request_key lib r = [] \<or> request_key lib r \<in> set resolved \<or>
           request_key lib r \<in> set seen \<union> request_key lib ` set new))"
proof (induction items arbitrary: merged seen)
  case (Cons item items)
  let ?k = "request_key lib item"
  consider (full) "maxConsultationEvidenceRequests \<le> length merged"
    | (skip) "length merged < maxConsultationEvidenceRequests"
        "?k = [] \<or> ?k \<in> set seen \<or> ?k \<in> set resolved"
    | (add) "length merged < maxConsultationEvidenceRequests"
        "\<not> (?k = [] \<or> ?k \<in> set seen \<or> ?k \<in> set resolved)" by linarith
  then show ?case
  proof cases
    case full
    then show ?thesis by (intro exI [of _ "[]"]) auto
  next
    case skip
    then have "merge_missing lib resolved (merged, seen) (item # items)
        = merge_missing lib resolved (merged, seen) items" by (simp add: Let_def)
    moreover note Cons.IH [of merged seen]
    ultimately show ?thesis using skip by (elim exE) (rule exI, auto)
  next
    case add
    then have eq: "merge_missing lib resolved (merged, seen) (item # items)
        = merge_missing lib resolved (merged @ [item], ?k # seen) items" by (simp add: Let_def)
    from Cons.IH [of "merged @ [item]" "?k # seen"] obtain new where
      IH: "merge_missing lib resolved (merged @ [item], ?k # seen) items =
        ((merged @ [item]) @ new, rev (map (request_key lib) new) @ ?k # seen)"
      "set new \<subseteq> set items"
      "\<forall>r \<in> set new. request_key lib r \<noteq> [] \<and> request_key lib r \<notin> set resolved \<and>
        request_key lib r \<notin> set (?k # seen)" "distinct (map (request_key lib) new)"
      "length (merged @ [item]) \<le> maxConsultationEvidenceRequests \<longrightarrow>
        length ((merged @ [item]) @ new) \<le> maxConsultationEvidenceRequests"
      "length ((merged @ [item]) @ new) < maxConsultationEvidenceRequests \<longrightarrow>
        (\<forall>r \<in> set items. request_key lib r = [] \<or> request_key lib r \<in> set resolved \<or>
           request_key lib r \<in> set (?k # seen) \<union> request_key lib ` set new)"
      by blast
    show ?thesis unfolding eq IH(1)
    proof (intro exI [of _ "item # new"] conjI)
      show "distinct (map (request_key lib) (item # new))" using IH(3,4) by auto
    qed (use IH add in auto)
  qed
qed auto

lemma merged_missing_fold:
  assumes "length cur \<le> maxConsultationEvidenceRequests"
  shows "\<exists>new seen'. foldl (\<lambda>acc entry. merge_missing lib resolved acc (cl_MissingEvidenceRequests entry))
      (cur, seen) es = (cur @ new, seen') \<and> length (cur @ new) \<le> maxConsultationEvidenceRequests \<and>
    set seen' = set seen \<union> request_key lib ` set new \<and>
    (\<forall>r \<in> set new. request_key lib r \<noteq> [] \<and> request_key lib r \<notin> set resolved \<and>
       request_key lib r \<notin> set seen) \<and>
    (length (cur @ new) < maxConsultationEvidenceRequests \<longrightarrow>
       (\<forall>e \<in> set es. \<forall>r \<in> set (cl_MissingEvidenceRequests e). request_key lib r = [] \<or>
          request_key lib r \<in> set resolved \<or> request_key lib r \<in> set seen'))"
  using assms
proof (induction es arbitrary: cur seen)
  case (Cons e es)
  from merge_missing_keeps [of lib resolved cur seen "cl_MissingEvidenceRequests e"] obtain new where
    new: "merge_missing lib resolved (cur, seen) (cl_MissingEvidenceRequests e) =
        (cur @ new, rev (map (request_key lib) new) @ seen)"
      "\<forall>r \<in> set new. request_key lib r \<noteq> [] \<and> request_key lib r \<notin> set resolved \<and>
        request_key lib r \<notin> set seen"
      "length (cur @ new) \<le> maxConsultationEvidenceRequests"
      "length (cur @ new) < maxConsultationEvidenceRequests \<longrightarrow>
        (\<forall>r \<in> set (cl_MissingEvidenceRequests e). request_key lib r = [] \<or>
           request_key lib r \<in> set resolved \<or>
           request_key lib r \<in> set seen \<union> request_key lib ` set new)"
    using Cons.prems by blast
  from Cons.IH [OF new(3), of "rev (map (request_key lib) new) @ seen"] obtain new' seen' where
    IH: "foldl (\<lambda>acc entry. merge_missing lib resolved acc (cl_MissingEvidenceRequests entry))
        (cur @ new, rev (map (request_key lib) new) @ seen) es = ((cur @ new) @ new', seen')"
      "length ((cur @ new) @ new') \<le> maxConsultationEvidenceRequests"
      "set seen' = set (rev (map (request_key lib) new) @ seen) \<union> request_key lib ` set new'"
      "\<forall>r \<in> set new'. request_key lib r \<noteq> [] \<and> request_key lib r \<notin> set resolved \<and>
       request_key lib r \<notin> set (rev (map (request_key lib) new) @ seen)"
      "length ((cur @ new) @ new') < maxConsultationEvidenceRequests \<longrightarrow>
       (\<forall>e \<in> set es. \<forall>r \<in> set (cl_MissingEvidenceRequests e). request_key lib r = [] \<or>
          request_key lib r \<in> set resolved \<or> request_key lib r \<in> set seen')"
    by blast
  show ?case
  proof (intro exI [of _ "new @ new'"] exI [of _ seen'] conjI)
    show "foldl (\<lambda>acc entry. merge_missing lib resolved acc (cl_MissingEvidenceRequests entry))
        (cur, seen) (e # es) = (cur @ new @ new', seen')" using new(1) IH(1) by simp
  qed (use new(2,4) IH(2-5) in auto)
qed auto

lemma merged_missing_prefix:
  "\<exists>new. merged_missing lib s req cur = cur @ new \<and>
     (length cur \<le> maxConsultationEvidenceRequests \<longrightarrow>
        length (cur @ new) \<le> maxConsultationEvidenceRequests)"
proof (cases "length cur < maxConsultationEvidenceRequests \<and> rs_confidenceTimeline s \<noteq> []")
  case True
  then show ?thesis
    using merged_missing_fold [of cur lib
        "resolvedSupplementalEvidenceTopicKeys lib s (tr_SupplementalEvidence req)"
        "filter (\<lambda>k. k \<noteq> []) (map (request_key lib) cur)" "rev (rs_confidenceTimeline s)"]
    by (auto simp: merged_missing_def)
qed (auto simp: merged_missing_def)

text \<open>
  While there is room for it, an evidence request the assistant once listed as missing stays
  listed unless an operator supplied it.
\<close>

lemma merged_missing_retains:
  assumes "length (merged_missing lib s req cur) < maxConsultationEvidenceRequests"
    and "e \<in> set (rs_confidenceTimeline s)" "r \<in> set (cl_MissingEvidenceRequests e)"
    and "request_key lib r \<noteq> []"
    and "request_key lib r \<notin> set (resolvedSupplementalEvidenceTopicKeys lib s (tr_SupplementalEvidence req))"
  shows "request_key lib r \<in> request_key lib ` set (merged_missing lib s req cur)"
proof -
  let ?seen = "filter (\<lambda>k. k \<noteq> []) (map (request_key lib) cur)"
  have ne: "rs_confidenceTimeline s \<noteq> []" using assms(2) by auto
  have short: "length cur < maxConsultationEvidenceRequests"
    using assms(1) merged_missing_prefix [of lib s req cur] by auto
  obtain new seen' where f: "foldl (\<lambda>acc entry. merge_missing lib
        (resolvedSupplementalEvidenceTopicKeys lib s (tr_SupplementalEvidence req)) acc
        (cl_MissingEvidenceRequests entry)) (cur, ?seen) (rev (rs_confidenceTimeline s)) = (cur @ new, seen')"
    "set seen' = set ?seen \<union> request_key lib ` set new"
    "length (cur @ new) < maxConsultationEvidenceRequests \<longrightarrow>
       (\<forall>e \<in> set (rev (rs_confidenceTimeline s)). \<forall>r \<in> set (cl_MissingEvidenceRequests e).
          request_key lib r = [] \<or>
          request_key lib r \<in> set (resolvedSupplementalEvidenceTopicKeys lib s (tr_SupplementalEvidence req)) \<or>
          request_key lib r \<in> set seen')"
    using merged_missing_fold [OF less_imp_le [OF short]] by metis
  then have m: "merged_missing lib s req cur = cur @ new"
    using short ne by (simp add: merged_missing_def)
  then have "request_key lib r \<in> set seen'" using f(3) assms by auto
  with f(2) show ?thesis unfolding m by auto
qed

text \<open>What is added comes from an earlier turn, was not supplied, and is not in the list yet.\<close>

lemma merge_missing_subset:
  "set (fst (merge_missing lib resolved acc items)) \<subseteq> set (fst acc) \<union> set items"
proof (induction lib resolved acc items rule: merge_missing.induct)
  case (2 lib resolved merged seen item items)
  then show ?case by (auto simp: Let_def split: if_splits)
qed simp

lemma merged_missing_sources:
  "set (fst (foldl (\<lambda>acc e. merge_missing lib resolved acc (cl_MissingEvidenceRequests e)) acc es))
     \<subseteq> set (fst acc) \<union> (\<Union>e \<in> set es. set (cl_MissingEvidenceRequests e))"
proof (induction es arbitrary: acc)
  case (Cons e es)
  from Cons.IH [of "merge_missing lib resolved acc (cl_MissingEvidenceRequests e)"]
    merge_missing_subset [of lib resolved acc "cl_MissingEvidenceRequests e"] show ?case by auto
qed simp

lemma merged_missing_new:
  assumes "merged_missing lib s req cur = cur @ new" "r \<in> set new"
  shows "\<exists>e \<in> set (rs_confidenceTimeline s). r \<in> set (cl_MissingEvidenceRequests e) \<and>
    request_key lib r \<notin> set (resolvedSupplementalEvidenceTopicKeys lib s (tr_SupplementalEvidence req)) \<and>
    request_key lib r \<notin> request_key lib ` set cur"
proof -
  let ?seen = "filter (\<lambda>k. k \<noteq> []) (map (request_key lib) cur)"
  let ?resolved = "resolvedSupplementalEvidenceTopicKeys lib s (tr_SupplementalEvidence req)"
  let ?fold = "foldl (\<lambda>acc e. merge_missing lib ?resolved acc (cl_MissingEvidenceRequests e)) (cur, ?seen) (rev (rs_confidenceTimeline s))"
  have short: "length cur < maxConsultationEvidenceRequests" and m: "cur @ new = fst ?fold"
    using assms by (auto simp: merged_missing_def split: if_splits)
  obtain new' seen' where f: "?fold = (cur @ new', seen')"
    "\<forall>r \<in> set new'. request_key lib r \<noteq> [] \<and> request_key lib r \<notin> set ?resolved \<and> request_key lib r \<notin> set ?seen"
    using merged_missing_fold [OF less_imp_le [OF short], of lib ?resolved ?seen "rev (rs_confidenceTimeline s)"] by blast
  have new: "new' = new" using m f(1) by simp
  have key: "request_key lib r \<notin> set ?resolved" "request_key lib r \<notin> request_key lib ` set cur"
    using f(2) assms(2) by (auto simp: new)
  then have "r \<notin> set cur" by blast
  with merged_missing_sources [of lib ?resolved "(cur, ?seen)" "rev (rs_confidenceTimeline s)"] assms(2) key
  show ?thesis by (auto simp flip: m)
qed

lemma preserve_missing:
  assumes "preserveUnresolvedMissingEvidenceRequests lib s req out = (out', ch)"
  shows "to_MissingEvidenceRequests out' = merged_missing lib s req (to_MissingEvidenceRequests out)"
  using assms by (auto simp: preserveUnresolvedMissingEvidenceRequests_def Let_def split: if_splits)

lemma preserve_not_final:
  assumes "preserveUnresolvedMissingEvidenceRequests lib s req out = (out', ch)"
    and "to_MissingEvidenceRequests out' \<noteq> []"
  shows "TrimSpace (to_ConclusionStatus out') \<noteq> ''final'' \<and> to_RequiresHumanReview out' \<and>
    TrimSpace (to_ConfidenceRationale out') \<noteq> []"
proof -
  have t: "TrimSpace ''needs_evidence'' = ''needs_evidence''"
    "TrimSpace ''Unresolved operator evidence remains before final confirmation.''
      = ''Unresolved operator evidence remains before final confirmation.''"
    by (simp_all add: trimmed_printable printable_byte_def)
  show ?thesis using assms
    by (auto simp: preserveUnresolvedMissingEvidenceRequests_def Let_def t split: if_splits)
qed

lemma preserve_unchanged:
  "preserveUnresolvedMissingEvidenceRequests lib s req out = (out', False) \<Longrightarrow> out' = out"
  by (auto simp: preserveUnresolvedMissingEvidenceRequests_def Let_def split: if_splits)

text \<open>The output that a turn goes on with is the normalised one.\<close>

lemma turn_activities_output:
  assumes "turn_activities lib v s f oc = Inr td" "oc_Activity oc = Inr ar"
  shows "ar_Output (td_Activity td) = fst (preserveUnresolvedMissingEvidenceRequests lib s (tf_Req f) (ar_Output ar))"
proof -
  have "td_Activity td = normalise_activity_result lib s (tf_Req f) ar"
    using assms by (auto simp: turn_activities_def bindE_eq_Inr_iff Let_def)
  then show ?thesis
    using preserve_unchanged
    by (auto simp: normalise_activity_result_def split: prod.splits) blast
qed

end
