(* ===== verification/Room_Workflow.thy ===== *)
theory Room_Workflow
  imports Room_Turn
begin

text \<open>
  The handlers of \<open>DiagnosisRoomWorkflow\<close> and how they interleave. Temporal runs the code of one
  workflow on one thread: a handler runs without interruption up to the next activity it awaits,
  and the step function \<open>room_step\<close> has one event for each such stretch. Between two stretches of
  one handler the other handlers, the signals and the timer may run. The invariants hold in every
  state reachable by any sequence of events and any results of the activities.
\<close>

section \<open>The machine\<close>

text \<open>What \<open>recordConclusionApproval\<close> holds while its activity runs.\<close>

record approval_frame =
  af_Digest :: string
  af_AssistantMessageID :: string
  af_AssistantSequence :: int
  af_Content :: string
  af_ActorSubject :: string
  af_Authority :: string
  af_Reason :: string
  af_RawReason :: string
  af_ApprovedAt :: go_time

datatype phase =
    Idle
  | Running turn_frame
  | Notifying turn_frame turn_done
  | Collecting CollectDiagnosisEvidenceRequest

datatype stage = Starting | Serving | Closing | Completed | Failed

record machine =
  mc_room :: room
  mc_stage :: stage
  mc_phase :: phase
  mc_approving :: "approval_frame option"
  mc_confirmCh :: "DiagnosisRoomCloseRequest list"
  mc_mainLoop :: bool

definition room_machine :: "room \<Rightarrow> machine" where
  "room_machine s = \<lparr>mc_room = s, mc_stage = Starting, mc_phase = Idle, mc_approving = None,
     mc_confirmCh = [], mc_mainLoop = False\<rparr>"

section \<open>Turns\<close>

definition beginAcceptedUpdate :: "room \<Rightarrow> go_time \<Rightarrow> room" where
  "beginAcceptedUpdate s now =
     (if rs_protectAcceptedUpdates s then s\<lparr>rs_lastActivityAt := now\<rparr> else s)"

text \<open>The end of the handler that holds \<open>inFlight\<close>; after the initial turn the main loop starts.\<close>

definition handler_done :: "machine \<Rightarrow> bool \<Rightarrow> machine" where
  "handler_done m initial =
     m\<lparr>mc_room := (mc_room m)\<lparr>rs_inFlight := False\<rparr>, mc_phase := Idle,
       mc_mainLoop := (mc_mainLoop m \<or> initial)\<rparr>"

definition turn_failed :: "room_lib \<Rightarrow> room \<Rightarrow> bool \<Rightarrow> string \<Rightarrow> go_error \<Rightarrow> go_time \<Rightarrow> room" where
  "turn_failed lib s initial messageID e now =
     (let s = s\<lparr>rs_latestError := Some (diagnosisRoomLatestErrorFromTurnFailure
                (rl_unicode_lower lib) now messageID e)\<rparr>
      in if initial then room_close s now ''initial_turn_failed'' AutoActorSubject else s)"

definition submitDiagnosisRoomTurn ::
  "room_lib \<Rightarrow> room_versions \<Rightarrow> machine \<Rightarrow> SubmitDiagnosisTurnRequest \<Rightarrow> bool \<Rightarrow> go_time \<Rightarrow> machine" where
  "submitDiagnosisRoomTurn lib v m req initial now =
     (let s = mc_room m in
      case validateSubmit lib v s req now of
        Inl e \<Rightarrow>
          (if initial
           then m\<lparr>mc_room := turn_failed lib s True (tr_MessageID req) e now, mc_mainLoop := True\<rparr>
           else m)
      | Inr (d, ev) \<Rightarrow>
          m\<lparr>mc_room := s\<lparr>rs_inFlight := True, rs_latestError := None\<rparr>,
            mc_phase := Running \<lparr>tf_Req = req, tf_ContextBytes = dc_ContextBytes d, tf_Evidence = ev,
              tf_UserOccurredAt = now, tf_Root = TrimSpace (tr_MessageID req), tf_Index = 0,
              tf_FollowUps = (rv_autoEvidence v \<ge> 1), tf_CollectionVersion = rv_evidenceCollection v,
              tf_Initial = initial\<rparr>\<rparr>)"

text \<open>One round of the loop of \<open>runAutoEvidenceFollowUps\<close>.\<close>

definition next_follow_up ::
  "room_lib \<Rightarrow> room_versions \<Rightarrow> machine \<Rightarrow> string \<Rightarrow> nat \<Rightarrow> int \<Rightarrow> bool \<Rightarrow> SubmitDiagnosisTurnResult
   \<Rightarrow> go_time \<Rightarrow> machine" where
  "next_follow_up lib v m root i collectionVersion initial previous now =
     (let s = mc_room m;
          req = \<lparr>tr_MessageID = autoEvidenceFollowUpMessageID root i, tr_ActorSubject = AutoActorSubject,
                 tr_Message = autoEvidenceFollowUpMessage previous, tr_SupplementalEvidence = None\<rparr>
      in if int i > pl_MaxAutoEvidenceFollowUps (rs_policy s) \<or> \<not> shouldRunAutoEvidenceFollowUp s previous
         then handler_done m initial
         else case validateSubmitForAutoFollowUp lib v s req now of
           Inl e \<Rightarrow> handler_done m initial
         | Inr (d, ev) \<Rightarrow>
             m\<lparr>mc_phase := Running \<lparr>tf_Req = req, tf_ContextBytes = dc_ContextBytes d, tf_Evidence = ev,
                 tf_UserOccurredAt = now, tf_Root = root, tf_Index = i, tf_FollowUps = True,
                 tf_CollectionVersion = collectionVersion, tf_Initial = initial\<rparr>\<rparr>)"

definition turn_finish ::
  "room_lib \<Rightarrow> room_versions \<Rightarrow> machine \<Rightarrow> turn_frame \<Rightarrow> turn_done \<Rightarrow> go_time \<Rightarrow> machine" where
  "turn_finish lib v m f d now =
     (let s = turn_record v (mc_room m) f d;
          m = m\<lparr>mc_room := s\<rparr>
      in if tf_FollowUps f
         then next_follow_up lib v m (tf_Root f) (tf_Index f + 1) (tf_CollectionVersion f) (tf_Initial f)
                (turn_result s f d) now
         else handler_done m (tf_Initial f))"

definition turn_step ::
  "room_lib \<Rightarrow> room_versions \<Rightarrow> machine \<Rightarrow> turn_frame \<Rightarrow> turn_outcome \<Rightarrow> go_time \<Rightarrow> machine" where
  "turn_step lib v m f oc now =
     (case turn_activities lib v (mc_room m) f oc of
        Inl e \<Rightarrow>
          handler_done (m\<lparr>mc_room := turn_failed lib (mc_room m) (tf_Initial f) (tf_Root f) e now\<rparr>)
            (tf_Initial f)
      | Inr d \<Rightarrow>
          let s = turn_store v (mc_room m) d;
              m = m\<lparr>mc_room := s\<rparr>
          in if notifies v s d then m\<lparr>mc_phase := Notifying f d\<rparr>
             else turn_finish lib v m f d now)"

definition notified_step ::
  "room_lib \<Rightarrow> room_versions \<Rightarrow> machine \<Rightarrow> turn_frame \<Rightarrow> turn_done \<Rightarrow> string result \<Rightarrow> go_time
   \<Rightarrow> machine" where
  "notified_step lib v m f d status now =
     turn_finish lib v (m\<lparr>mc_room := after_notification lib (mc_room m) d status now\<rparr>) f d now"

section \<open>Manual evidence collection\<close>

definition collectDiagnosisEvidence ::
  "room_lib \<Rightarrow> machine \<Rightarrow> CollectDiagnosisEvidenceRequest \<Rightarrow> machine" where
  "collectDiagnosisEvidence lib m req =
     (case validateCollectEvidence lib (mc_room m) req of
        Inl e \<Rightarrow> m
      | Inr _ \<Rightarrow> m\<lparr>mc_room := (mc_room m)\<lparr>rs_inFlight := True, rs_latestError := None\<rparr>,
                  mc_phase := Collecting req\<rparr>)"

definition collect_failed :: "room_lib \<Rightarrow> machine \<Rightarrow> string \<Rightarrow> go_error \<Rightarrow> go_time \<Rightarrow> machine" where
  "collect_failed lib m messageID e now =
     handler_done (m\<lparr>mc_room := turn_failed lib (mc_room m) False messageID e now\<rparr>) False"

definition collected_record ::
  "room \<Rightarrow> CollectDiagnosisEvidenceRequest \<Rightarrow> EvidenceItem list \<Rightarrow> go_time \<Rightarrow> room" where
  "collected_record s req items now =
     (let messageID = TrimSpace (cq_MessageID req);
          s = s\<lparr>rs_lastActivityAt := now\<rparr>;
          s = recordManualEvidenceCollection s (cq_Requests req) items;
          s = recordEvidenceTimelineEntry s
                \<lparr>tl_TurnCount = rs_turnCount s, tl_MessageID = messageID, tl_AssistantMessageID = [],
                 tl_ActorSubject = TrimSpace (cq_ActorSubject req),
                 tl_Trigger = ''manual_evidence_collection'', tl_EvidenceRequests = cq_Requests req,
                 tl_CollectionResults = items\<rparr>
      in s\<lparr>rs_seen := messageID # rs_seen s\<rparr>)"

definition collected_primary ::
  "room \<Rightarrow> CollectDiagnosisEvidenceRequest \<Rightarrow> EvidenceItem list \<Rightarrow> SubmitDiagnosisTurnResult" where
  "collected_primary s req items =
     (let messageID = TrimSpace (cq_MessageID req) in
      \<lparr>rr_SessionID = wi_SessionID (rs_input s), rr_ChatSessionID = rs_chatSessionID s,
       rr_MessageID = messageID, rr_AssistantMessageID = messageID, rr_UserTurnID = 0,
       rr_AssistantTurnID = 0, rr_UserSequence = 0, rr_AssistantSequence = 0,
       rr_TurnCount = rs_turnCount s, rr_ContextBytes = 0, rr_Status = rs_status s,
       rr_AssistantMessage = [], rr_RequiresHumanReview = False, rr_Confidence = [],
       rr_RetrievalRefs = [], rr_EvidenceRequests = cq_Requests req, rr_CollectionResults = items,
       rr_EvidenceTimeline = [], rr_ConfidenceTimeline = [],
       rr_Insight = \<lparr>ci_ConfidenceRationale = [], ci_MissingEvidenceRequests = [],
         ci_EvidenceCollectionSuggestions = [], ci_ConclusionStatus = ''needs_evidence''\<rparr>,
       rr_LatestError = None\<rparr>)"

definition collected_step ::
  "room_lib \<Rightarrow> room_versions \<Rightarrow> machine \<Rightarrow> CollectDiagnosisEvidenceRequest
   \<Rightarrow> EvidenceItem list result \<Rightarrow> unit result \<Rightarrow> go_time \<Rightarrow> machine" where
  "collected_step lib v m req collection recorded now =
     (case collection of
        Inl e \<Rightarrow> collect_failed lib m (cq_MessageID req) e now
      | Inr items \<Rightarrow>
        let s = mc_room m;
            s = s\<lparr>rs_evidenceBatches := add_batch v s (rs_turnCount s) [] items\<rparr>;
            m = m\<lparr>mc_room := s\<rparr>
        in case (if rv_manualEvidenceCollected v \<ge> 1 \<and> items \<noteq> [] then recorded else Inr ()) of
          Inl e \<Rightarrow> collect_failed lib m (cq_MessageID req) e now
        | Inr _ \<Rightarrow>
          let s = collected_record s req items now;
              m = m\<lparr>mc_room := s\<rparr>
          in if items \<noteq> []
             then next_follow_up lib v m (TrimSpace (cq_MessageID req)) 1 1 False
                    (collected_primary s req items) now
             else handler_done m False)"

section \<open>Confirmation\<close>

definition approval_authority :: "room \<Rightarrow> string \<Rightarrow> string" where
  "approval_authority s actor =
     (if actor = wi_OwnerSubject (rs_input s) then ApprovalAuthorityOwner else ApprovalAuthorityLeader)"

definition candidate_approval :: "string \<Rightarrow> string \<Rightarrow> ChatSessionApproval" where
  "candidate_approval actor authority =
     \<lparr>sa_ID = 0, sa_SessionID = 0, sa_ConclusionDigest = [], sa_ActorSubject = actor,
      sa_Authority = authority, sa_Reason = [], sa_ApprovedAt = 0, sa_CreatedAt = 0\<rparr>"

definition recordConclusionApproval ::
  "room_lib \<Rightarrow> machine \<Rightarrow> DiagnosisRoomCloseRequest \<Rightarrow> go_time \<Rightarrow> machine" where
  "recordConclusionApproval lib m req now =
     (let s = mc_room m; actor = cz_ActorSubject req;
          reason = reasonOrDefault (cz_Reason req) ''human_confirmed'' in
      case currentConclusionIdentity lib s of
        Inl e \<Rightarrow> m
      | Inr (digest, messageID, sequence, content) \<Rightarrow>
        if actor \<in> sa_ActorSubject ` set (approvalsForConclusion (rs_approvals s) digest) then m
        else case PendingAuthorities (wi_ApprovalMode (rs_input s))
                   (approvalsForConclusion (rs_approvals s) digest
                    @ [candidate_approval actor (approval_authority s actor)]) of
          Inl e \<Rightarrow> m
        | Inr _ \<Rightarrow>
            m\<lparr>mc_room := s\<lparr>rs_approvalInFlight := True\<rparr>,
              mc_approving := Some \<lparr>af_Digest = digest, af_AssistantMessageID = messageID,
                af_AssistantSequence = sequence, af_Content = content, af_ActorSubject = actor,
                af_Authority = approval_authority s actor, af_Reason = reason,
                af_RawReason = cz_Reason req, af_ApprovedAt = now\<rparr>\<rparr>)"

definition approved_step ::
  "machine \<Rightarrow> approval_frame \<Rightarrow> ChatSessionApproval result \<Rightarrow> go_time \<Rightarrow> machine" where
  "approved_step m f recorded now =
     (let s = mc_room m; m = m\<lparr>mc_approving := None\<rparr> in
      case recorded of
        Inl e \<Rightarrow> m\<lparr>mc_room := s\<lparr>rs_approvalInFlight := False\<rparr>\<rparr>
      | Inr a \<Rightarrow>
        let s = s\<lparr>rs_conclusionDigest := af_Digest f, rs_approvals := appendApprovalIfMissing (rs_approvals s) a\<rparr>;
            s = (case PendingAuthorities (wi_ApprovalMode (rs_input s))
                        (approvalsForConclusion (rs_approvals s) (af_Digest f)) of
                   Inl e \<Rightarrow> s
                 | Inr pending \<Rightarrow>
                     if pending = [] \<and> rs_status s = RoomOpen
                     then room_close (s\<lparr>rs_conclusionConfirmed := True\<rparr>) now
                            (reasonOrDefault (af_RawReason f) ''human_confirmed'') (af_ActorSubject f)
                     else s)
        in m\<lparr>mc_room := s\<lparr>rs_approvalInFlight := False\<rparr>\<rparr>)"

definition confirm_step ::
  "room_lib \<Rightarrow> room_versions \<Rightarrow> machine \<Rightarrow> DiagnosisRoomCloseRequest \<Rightarrow> go_time \<Rightarrow> machine" where
  "confirm_step lib v m req now =
     (let s = beginAcceptedUpdate (mc_room m) now in
      case validateConfirmConclusion lib v s req of
        Inl e \<Rightarrow> m\<lparr>mc_room := s\<rparr>
      | Inr _ \<Rightarrow>
          if rv_multiStakeholderApproval v \<ge> 1
          then recordConclusionApproval lib (m\<lparr>mc_room := s\<lparr>rs_lastActivityAt := now\<rparr>\<rparr>) req now
          else m\<lparr>mc_room := s, mc_confirmCh := mc_confirmCh m @ [req]\<rparr>)"

section \<open>The end of the room\<close>

record CloseDiagnosisChatSessionInput =
  xi_SessionID :: string
  xi_DiagnosisTaskID :: int
  xi_OwnerSubject :: string
  xi_ClosedBy :: string
  xi_ConfirmedBy :: string
  xi_TurnCount :: int
  xi_ClosedAt :: go_time
  xi_Reason :: string
  xi_CloseNotificationChannelProfileID :: int
  xi_DiagnosisTaskStatus :: string
  xi_DiagnosisTaskFailureReason :: string
  xi_GenerateConversationSummary :: bool
  xi_RequireConclusionApproval :: bool
  xi_ApprovalMode :: string
  xi_ConclusionDigest :: string

definition requireConclusionApproval :: "room_versions \<Rightarrow> room \<Rightarrow> bool" where
  "requireConclusionApproval v s \<longleftrightarrow> rv_multiStakeholderApproval v \<ge> 1 \<and> rs_conclusionConfirmed s"

text \<open>\<open>workflow.DefaultVersion\<close> of the Temporal library.\<close>

definition workflow_DefaultVersion :: int where
  "workflow_DefaultVersion = -1"

definition close_input :: "room_versions \<Rightarrow> room \<Rightarrow> CloseDiagnosisChatSessionInput" where
  "close_input v s =
     \<lparr>xi_SessionID = wi_SessionID (rs_input s), xi_DiagnosisTaskID = rs_diagnosisTaskID s,
      xi_OwnerSubject = wi_OwnerSubject (rs_input s), xi_ClosedBy = fst (closeActors s (rv_closeActorSemantics v)),
      xi_ConfirmedBy = snd (closeActors s (rv_closeActorSemantics v)), xi_TurnCount = rs_turnCount s,
      xi_ClosedAt = (case rs_closedAt s of None \<Rightarrow> rs_lastActivityAt s | Some t \<Rightarrow> t),
      xi_Reason = rs_closeReason s,
      xi_CloseNotificationChannelProfileID = wi_CloseNotificationChannelProfileID (rs_input s),
      xi_DiagnosisTaskStatus = closeDiagnosisTaskStatus s,
      xi_DiagnosisTaskFailureReason = closeDiagnosisTaskFailureReason s,
      xi_GenerateConversationSummary = (rv_conversationSummary v \<noteq> workflow_DefaultVersion),
      xi_RequireConclusionApproval = requireConclusionApproval v s,
      xi_ApprovalMode = (if requireConclusionApproval v s then wi_ApprovalMode (rs_input s) else []),
      xi_ConclusionDigest = (if requireConclusionApproval v s then rs_conclusionDigest s else [])\<rparr>"

record CloseDiagnosisChatSessionResult =
  xr_ChatSessionID :: int
  xr_LifecycleEventID :: int
  xr_Status :: string
  xr_TurnCount :: int
  xr_ClosedAt :: go_time
  xr_CloseReason :: string
  xr_LastActivityAt :: go_time
  xr_FinalConclusion :: DiagnosisRoomFinalConclusion
  xr_ConversationSummary :: "DiagnosisRoomConversationSummary option"
  xr_ApprovalMode :: string
  xr_ConclusionDigest :: string
  xr_Approvals :: "ChatSessionApproval list"

definition closed_step ::
  "room_lib \<Rightarrow> room_versions \<Rightarrow> machine \<Rightarrow> CloseDiagnosisChatSessionResult result \<Rightarrow> string result
   \<Rightarrow> go_time \<Rightarrow> machine" where
  "closed_step lib v m res notification now =
     (case res of
        Inl e \<Rightarrow> m\<lparr>mc_stage := Failed\<rparr>
      | Inr r \<Rightarrow>
        let s = mc_room m; require = requireConclusionApproval v s;
            failed = (\<lambda>s e. s\<lparr>rs_latestError := Some (diagnosisRoomLatestErrorFromNotificationFailure
                        (rl_unicode_lower lib) now ''close_notification'' e)\<rparr>);
            s = s\<lparr>rs_chatSessionID := xr_ChatSessionID r,
                  rs_finalConclusion := copyDiagnosisRoomFinalConclusion (xr_FinalConclusion r),
                  rs_conversationSummary := xr_ConversationSummary r\<rparr>;
            s = (if require
                 then s\<lparr>rs_conclusionDigest := xr_ConclusionDigest r, rs_approvals := xr_Approvals r\<rparr>
                 else s);
            s = (if wi_CloseNotificationChannelProfileID (rs_input s) > 0 then
                   (case notification of
                      Inl e \<Rightarrow> failed s e
                    | Inr st \<Rightarrow>
                        if diagnosisRoomNotificationDeliveryFailed (rl_unicode_lower lib) st
                        then failed s (plain_error ''diagnosis room close notification delivery failed'')
                        else s)
                 else s)
        in m\<lparr>mc_room := s, mc_stage := Completed\<rparr>)"

section \<open>Steps\<close>

datatype event =
    EvStarted "(int \<times> int) result" go_time
  | EvSubmit SubmitDiagnosisTurnRequest go_time
  | EvTurn turn_outcome go_time
  | EvNotified "string result" go_time
  | EvCollect CollectDiagnosisEvidenceRequest go_time
  | EvCollected "EvidenceItem list result" "unit result" go_time
  | EvConfirm DiagnosisRoomCloseRequest go_time
  | EvApproved "ChatSessionApproval result" go_time
  | EvConfirmReceived go_time
  | EvClose DiagnosisRoomCloseRequest go_time
  | EvCancel DiagnosisRoomCloseRequest go_time
  | EvTimer go_time
  | EvTimerCanceled go_time
  | EvAllHandlersFinished
  | EvSessionClosed "CloseDiagnosisChatSessionResult result" "string result" go_time

definition updates_accepted :: "machine \<Rightarrow> bool" where
  "updates_accepted m \<longleftrightarrow> mc_stage m = Serving \<or> mc_stage m = Closing"

definition selecting :: "machine \<Rightarrow> bool" where
  "selecting m \<longleftrightarrow> mc_stage m = Serving \<and> mc_mainLoop m \<and> rs_status (mc_room m) = RoomOpen"

definition set_room :: "machine \<Rightarrow> room \<Rightarrow> machine" where
  "set_room m s = m\<lparr>mc_room := s\<rparr>"

fun room_step :: "room_lib \<Rightarrow> room_versions \<Rightarrow> machine \<Rightarrow> event \<Rightarrow> machine option" where
  "room_step lib v m (EvStarted res now) =
     (if mc_stage m \<noteq> Starting then None
      else case res of
        Inl e \<Rightarrow> Some (m\<lparr>mc_stage := Failed\<rparr>)
      | Inr (taskID, chatID) \<Rightarrow>
        let s = mc_room m;
            s = (if rs_diagnosisTaskID s = 0 then s\<lparr>rs_diagnosisTaskID := taskID\<rparr> else s)
                  \<lparr>rs_chatSessionID := chatID\<rparr>;
            m = m\<lparr>mc_room := s, mc_stage := Serving\<rparr>
        in case wi_InitialTurn (rs_input s) of
             None \<Rightarrow> Some (m\<lparr>mc_mainLoop := True\<rparr>)
           | Some req \<Rightarrow> Some (submitDiagnosisRoomTurn lib v m req True now))"
| "room_step lib v m (EvSubmit req now) =
     (if \<not> updates_accepted m then None
      else Some (submitDiagnosisRoomTurn lib v
             (set_room m (beginAcceptedUpdate (mc_room m) now)) req False now))"
| "room_step lib v m (EvTurn oc now) =
     (if \<not> updates_accepted m then None
      else case mc_phase m of Running f \<Rightarrow> Some (turn_step lib v m f oc now) | _ \<Rightarrow> None)"
| "room_step lib v m (EvNotified status now) =
     (if \<not> updates_accepted m then None
      else case mc_phase m of
        Notifying f d \<Rightarrow> Some (notified_step lib v m f d status now) | _ \<Rightarrow> None)"
| "room_step lib v m (EvCollect req now) =
     (if \<not> updates_accepted m \<or> rv_manualEvidence v < 1 then None
      else Some (collectDiagnosisEvidence lib
             (set_room m (beginAcceptedUpdate (mc_room m) now)) req))"
| "room_step lib v m (EvCollected res recorded now) =
     (if \<not> updates_accepted m then None
      else case mc_phase m of
        Collecting req \<Rightarrow> Some (collected_step lib v m req res recorded now) | _ \<Rightarrow> None)"
| "room_step lib v m (EvConfirm req now) =
     (if \<not> updates_accepted m then None else Some (confirm_step lib v m req now))"
| "room_step lib v m (EvApproved res now) =
     (if \<not> updates_accepted m then None
      else case mc_approving m of Some f \<Rightarrow> Some (approved_step m f res now) | None \<Rightarrow> None)"
| "room_step lib v m (EvConfirmReceived now) =
     (if \<not> selecting m then None
      else case mc_confirmCh m of
        [] \<Rightarrow> None
      | req # rest \<Rightarrow> Some (m\<lparr>mc_confirmCh := rest,
          mc_room := room_close ((mc_room m)\<lparr>rs_conclusionConfirmed := True\<rparr>) now
            (reasonOrDefault (cz_Reason req) ''human_confirmed'') (cz_ActorSubject req)\<rparr>))"
| "room_step lib v m (EvClose req now) =
     (if \<not> selecting m then None
      else Some (set_room m (room_close (mc_room m) now
             (reasonOrDefault (cz_Reason req) ''user_requested'') (cz_ActorSubject req))))"
| "room_step lib v m (EvCancel req now) =
     (if \<not> selecting m then None
      else Some (set_room m (room_close (mc_room m) now
             (reasonOrDefault (cz_Reason req) ''cancelled'') (cz_ActorSubject req))))"
| "room_step lib v m (EvTimer now) =
     (if \<not> selecting m then None
      else Some (set_room m (fst (closeIfExpired (mc_room m) now))))"
| "room_step lib v m (EvTimerCanceled now) =
     (if \<not> selecting m then None
      else Some (set_room m (room_close (mc_room m) now ''context_cancelled'' [])))"
| "room_step lib v m EvAllHandlersFinished =
     (if mc_stage m = Serving \<and> mc_mainLoop m \<and> rs_status (mc_room m) = RoomClosed \<and>
         mc_phase m = Idle \<and> mc_approving m = None \<and> mc_confirmCh m = []
      then Some (m\<lparr>mc_stage := Closing\<rparr>) else None)"
| "room_step lib v m (EvSessionClosed res notification now) =
     (if mc_stage m = Closing then Some (closed_step lib v m res notification now) else None)"

fun room_run :: "room_lib \<Rightarrow> room_versions \<Rightarrow> machine \<Rightarrow> event list \<Rightarrow> machine option" where
  "room_run lib v m [] = Some m"
| "room_run lib v m (e # es) =
     (case room_step lib v m e of None \<Rightarrow> None | Some m' \<Rightarrow> room_run lib v m' es)"

inductive room_reachable :: "room_lib \<Rightarrow> room_versions \<Rightarrow> DiagnosisRoomWorkflowInput \<Rightarrow> machine \<Rightarrow> bool"
  for lib v i where
  reach_start: "room_start lib v i now = Inr s \<Longrightarrow> room_reachable lib v i (room_machine s)"
| reach_step: "room_reachable lib v i m \<Longrightarrow> room_step lib v m e = Some m' \<Longrightarrow> room_reachable lib v i m'"

end
