(* ===== verification/Room_Invariant.thy ===== *)
theory Room_Invariant
  imports Room_Workflow
begin

text \<open>
  The invariant of a diagnosis room: the flags agree with the running handlers, the transcript has
  one user and one assistant message per completed turn, the turn count stays within the policy,
  no message identifier is used twice, and a closed room has a time and a reason. There is one
  preservation lemma per operation, and \<open>room_step_inv\<close> puts them together.
\<close>

section \<open>The invariant\<close>

definition lifecycle_ok :: "room \<Rightarrow> bool" where
  "lifecycle_ok s \<longleftrightarrow>
     rs_status s = RoomOpen \<and> rs_closedAt s = None \<and> rs_closeReason s = [] \<and> \<not> rs_conclusionConfirmed s \<or>
     rs_status s = RoomClosed \<and> rs_closedAt s \<noteq> None \<and> rs_closeReason s \<noteq> []"

definition alternating :: "ConversationTurn list \<Rightarrow> bool" where
  "alternating ts \<longleftrightarrow>
     (\<forall>i < length ts. cv_Role (ts ! i) = (if even i then ''user'' else ''assistant''))"

definition room_ok :: "room \<Rightarrow> bool" where
  "room_ok s \<longleftrightarrow>
     policy_ok (rs_policy s) \<and> lifecycle_ok s \<and> 0 \<le> rs_turnCount s \<and>
     rs_turnCount s \<le> pl_MaxTurns (rs_policy s) \<and> alternating (rs_conversation s) \<and>
     even (length (rs_conversation s)) \<and> distinct (rs_seen s) \<and>
     length (rs_evidenceBatches s) \<le> maxDiagnosisRoomEvidenceContextBatches"

definition settled :: "room \<Rightarrow> bool" where
  "settled s \<longleftrightarrow> int (length (rs_conversation s)) = 2 * rs_turnCount s"

definition frame_ok :: "room \<Rightarrow> turn_frame \<Rightarrow> bool" where
  "frame_ok s f \<longleftrightarrow>
     int (tf_Index f) \<le> pl_MaxAutoEvidenceFollowUps (rs_policy s) \<and>
     TrimSpace (tr_MessageID (tf_Req f)) \<notin> set (rs_seen s)"

definition phase_ok :: "room \<Rightarrow> phase \<Rightarrow> bool" where
  "phase_ok s p \<longleftrightarrow>
     (case p of
        Idle \<Rightarrow> \<not> rs_inFlight s \<and> settled s
      | Running f \<Rightarrow> rs_inFlight s \<and> settled s \<and> rs_turnCount s < pl_MaxTurns (rs_policy s) \<and> frame_ok s f
      | Notifying f d \<Rightarrow> rs_inFlight s \<and>
          int (length (rs_conversation s)) = 2 * (rs_turnCount s - 1) \<and> frame_ok s f
      | Collecting req \<Rightarrow> rs_inFlight s \<and> settled s \<and>
          TrimSpace (cq_MessageID req) \<notin> set (rs_seen s))"

definition machine_inv :: "machine \<Rightarrow> bool" where
  "machine_inv m \<longleftrightarrow>
     room_ok (mc_room m) \<and> phase_ok (mc_room m) (mc_phase m) \<and>
     (rs_approvalInFlight (mc_room m) \<longleftrightarrow> mc_approving m \<noteq> None)"

text \<open>The fields the invariant reads.\<close>

definition core :: "room \<Rightarrow> Policy \<times> (string \<times> go_time option \<times> string \<times> bool)
    \<times> (bool \<times> bool) \<times> int \<times> ConversationTurn list \<times> string list \<times> ContextBatch list" where
  "core s = (rs_policy s, (rs_status s, rs_closedAt s, rs_closeReason s, rs_conclusionConfirmed s),
     (rs_inFlight s, rs_approvalInFlight s), rs_turnCount s, rs_conversation s, rs_seen s,
     rs_evidenceBatches s)"

lemmas inv_defs = room_ok_def phase_ok_def settled_def frame_ok_def lifecycle_ok_def

lemma core_room_ok: "core s = core s' \<Longrightarrow> room_ok s = room_ok s'"
  by (simp add: core_def room_ok_def lifecycle_ok_def)

lemma core_phase_ok: "core s = core s' \<Longrightarrow> phase_ok s p = phase_ok s' p"
  by (simp add: core_def phase_ok_def settled_def frame_ok_def split: phase.split)

lemma core_machine_inv:
  "core (mc_room m) = core s \<Longrightarrow> machine_inv (m\<lparr>mc_room := s\<rparr>) = machine_inv m"
  using core_room_ok [of "mc_room m" s] core_phase_ok [of "mc_room m" s "mc_phase m"]
  by (simp add: machine_inv_def core_def)

lemma core_recordLatest [simp]: "core (recordLatestEvidenceCycle s a rq rs) = core s"
  by (simp add: core_def recordLatestEvidenceCycle_def)

lemma core_recordManual [simp]: "core (recordManualEvidenceCollection s rq rs) = core s"
  by (simp add: core_def recordManualEvidenceCollection_def)

lemma core_recordEvidence [simp]: "core (recordEvidenceTimelineEntry s e) = core s"
  by (simp add: core_def recordEvidenceTimelineEntry_def)

lemma core_recordConfidence [simp]: "core (recordConfidenceTimelineEntry s e) = core s"
  by (simp add: core_def recordConfidenceTimelineEntry_def)

lemma core_after_notification [simp]: "core (after_notification lib s d st now) = core s"
  by (simp add: core_def after_notification_def Let_def split: sum.split)

lemma core_beginAcceptedUpdate [simp]: "core (beginAcceptedUpdate s now) = core s"
  by (simp add: core_def beginAcceptedUpdate_def)

lemma core_insight [simp]:
  "core (s\<lparr>rs_latestInsight := a, rs_latestConfidence := b, rs_latestRequiresHumanReview := c\<rparr>) = core s"
  "core (s\<lparr>rs_supplementalEvidence := d\<rparr>) = core s"
  "core (s\<lparr>rs_lastActivityAt := t\<rparr>) = core s" "core (s\<lparr>rs_latestError := e\<rparr>) = core s"
  "core (s\<lparr>rs_diagnosisTaskID := t\<rparr>) = core s" "core (s\<lparr>rs_chatSessionID := t\<rparr>) = core s"
  by (simp_all add: core_def)

section \<open>Closing\<close>

lemma room_close_lifecycle:
  "lifecycle_ok s \<or> rs_status s = RoomOpen \<Longrightarrow> lifecycle_ok (room_close s now r a)"
  by (auto simp: lifecycle_ok_def room_close_def reasonOrDefault_nonempty)

lemma room_close_fields [simp]:
  "rs_policy (room_close s now r a) = rs_policy s" "rs_inFlight (room_close s now r a) = rs_inFlight s"
  "rs_approvalInFlight (room_close s now r a) = rs_approvalInFlight s"
  "rs_turnCount (room_close s now r a) = rs_turnCount s"
  "rs_conversation (room_close s now r a) = rs_conversation s"
  "rs_seen (room_close s now r a) = rs_seen s"
  "rs_evidenceBatches (room_close s now r a) = rs_evidenceBatches s"
  "rs_approvals (room_close s now r a) = rs_approvals s"
  "rs_conclusionDigest (room_close s now r a) = rs_conclusionDigest s"
  "rs_conclusionConfirmed (room_close s now r a) = rs_conclusionConfirmed s"
  "rs_input (room_close s now r a) = rs_input s" "rs_startedAt (room_close s now r a) = rs_startedAt s"
  by (simp_all add: room_close_def)

lemma room_close_ok: "room_ok s \<Longrightarrow> room_ok (room_close s now r a)"
  by (simp add: room_ok_def room_close_lifecycle)

lemma room_close_phase [simp]: "phase_ok (room_close s now r a) p = phase_ok s p"
  by (simp add: phase_ok_def settled_def frame_ok_def split: phase.split)

lemma room_close_inv: "machine_inv m \<Longrightarrow> machine_inv (m\<lparr>mc_room := room_close (mc_room m) now r a\<rparr>)"
  by (simp add: machine_inv_def room_close_ok)

lemma closeIfExpired_cases:
  "fst (closeIfExpired s now) = s \<or> (\<exists>r. fst (closeIfExpired s now) = room_close s now r [])"
  by (auto simp: closeIfExpired_def)

lemma turn_failed_cases:
  "\<exists>e. turn_failed lib s initial mid er now =
     (if initial then room_close (s\<lparr>rs_latestError := e\<rparr>) now ''initial_turn_failed'' AutoActorSubject
      else s\<lparr>rs_latestError := e\<rparr>)"
  by (auto simp: turn_failed_def Let_def)

lemma turn_failed_ok:
  assumes "room_ok s"
  shows "room_ok (turn_failed lib s initial mid er now)"
    "phase_ok (turn_failed lib s initial mid er now) p = phase_ok s p"
    "rs_approvalInFlight (turn_failed lib s initial mid er now) = rs_approvalInFlight s"
proof -
  obtain e where e: "turn_failed lib s initial mid er now =
     (if initial then room_close (s\<lparr>rs_latestError := e\<rparr>) now ''initial_turn_failed'' AutoActorSubject
      else s\<lparr>rs_latestError := e\<rparr>)" using turn_failed_cases by blast
  have c: "core s = core (s\<lparr>rs_latestError := e\<rparr>)" by simp
  have ok: "room_ok (s\<lparr>rs_latestError := e\<rparr>)" using assms core_room_ok [OF c] by simp
  then show "room_ok (turn_failed lib s initial mid er now)" by (simp add: e room_close_ok)
  show "phase_ok (turn_failed lib s initial mid er now) p = phase_ok s p"
    using core_phase_ok [OF c, of p] by (simp add: e)
  show "rs_approvalInFlight (turn_failed lib s initial mid er now) = rs_approvalInFlight s"
    by (simp add: e)
qed

section \<open>Turns\<close>

lemma room_ok_inFlight [simp]: "room_ok (s\<lparr>rs_inFlight := b\<rparr>) = room_ok s"
  by (simp add: room_ok_def lifecycle_ok_def)

lemma room_ok_latestError [simp]: "room_ok (s\<lparr>rs_latestError := e\<rparr>) = room_ok s"
  by (simp add: room_ok_def lifecycle_ok_def)

lemma handler_done_inv:
  assumes "room_ok (mc_room m)" "settled (mc_room m)"
    "rs_approvalInFlight (mc_room m) \<longleftrightarrow> mc_approving m \<noteq> None"
  shows "machine_inv (handler_done m initial)"
  using assms by (simp add: machine_inv_def handler_done_def phase_ok_def settled_def)

lemma submit_inv:
  assumes "machine_inv m"
  shows "machine_inv (submitDiagnosisRoomTurn lib v m req initial now)"
proof (cases "validateSubmit lib v (mc_room m) req now")
  case (Inl e)
  have ok: "room_ok (mc_room m)" using assms by (simp add: machine_inv_def)
  with Inl assms show ?thesis
    by (simp add: submitDiagnosisRoomTurn_def machine_inv_def turn_failed_ok)
next
  case (Inr p)
  then obtain d ev where p: "validateSubmit lib v (mc_room m) req now = Inr (d, ev)" by (cases p) auto
  then have "policy_check lib (mc_room m) (rs_inFlight (mc_room m)) req now ev = Inr d"
    by (simp add: validateSubmit_Inr)
  note a = policy_check_InrD [OF this]
  have i: "phase_ok (mc_room m) (mc_phase m)" "room_ok (mc_room m)"
    "rs_approvalInFlight (mc_room m) \<longleftrightarrow> mc_approving m \<noteq> None"
    using assms by (simp_all add: machine_inv_def)
  have "mc_phase m = Idle" using i(1) a(7) by (simp add: phase_ok_def split: phase.splits)
  then have "settled (mc_room m)" using i(1) by (simp add: phase_ok_def)
  with p a i(2,3) show ?thesis
    by (simp add: submitDiagnosisRoomTurn_def machine_inv_def inv_defs policy_ok_def)
qed

lemma next_follow_up_inv:
  assumes "room_ok (mc_room m)" "settled (mc_room m)" "rs_inFlight (mc_room m)"
    "rs_approvalInFlight (mc_room m) \<longleftrightarrow> mc_approving m \<noteq> None"
  shows "machine_inv (next_follow_up lib v m root i cv initial prev now)"
proof -
  let ?req = "\<lparr>tr_MessageID = autoEvidenceFollowUpMessageID root i, tr_ActorSubject = AutoActorSubject,
      tr_Message = autoEvidenceFollowUpMessage prev, tr_SupplementalEvidence = None\<rparr>"
  note done' = handler_done_inv [OF assms(1,2,4)]
  show ?thesis
  proof (cases "int i > pl_MaxAutoEvidenceFollowUps (rs_policy (mc_room m)) \<or>
      \<not> shouldRunAutoEvidenceFollowUp (mc_room m) prev")
    case True
    then show ?thesis using done' by (simp add: next_follow_up_def Let_def)
  next
    case False
    show ?thesis
    proof (cases "validateSubmitForAutoFollowUp lib v (mc_room m) ?req now")
      case (Inl e)
      with False show ?thesis using done' by (simp add: next_follow_up_def Let_def)
    next
      case (Inr p)
      then obtain d ev where p: "validateSubmitForAutoFollowUp lib v (mc_room m) ?req now = Inr (d, ev)"
        by (cases p) auto
      then have "policy_check lib (mc_room m) False ?req now ev = Inr d"
        by (simp add: validateSubmitForAutoFollowUp_Inr)
      note a = policy_check_InrD [OF this]
      have f: "frame_ok (mc_room m) \<lparr>tf_Req = ?req, tf_ContextBytes = dc_ContextBytes d, tf_Evidence = ev,
          tf_UserOccurredAt = now, tf_Root = root, tf_Index = i, tf_FollowUps = True,
          tf_CollectionVersion = cv, tf_Initial = initial\<rparr>"
        using False a(2,3) by (simp add: frame_ok_def)
      show ?thesis using p False assms a(6) f
        by (simp add: next_follow_up_def Let_def machine_inv_def phase_ok_def)
    qed
  qed
qed

lemma alternating_append:
  assumes "alternating ts" "even (length ts)" "cv_Role a = ''user''" "cv_Role b = ''assistant''"
  shows "alternating (ts @ [a, b])"
  using assms by (auto simp: alternating_def nth_append less_Suc_eq nth_Cons')

lemma core_turn_notes [simp]: "core (turn_notes v s f d) = core s"
  by (simp add: turn_notes_def Let_def)

text \<open>The two messages a turn adds.\<close>

lemma core_turn_record:
  "\<exists>a b. core (turn_record v s f d) =
     core (s\<lparr>rs_seen := TrimSpace (tr_MessageID (tf_Req f)) # rs_seen s,
             rs_conversation := rs_conversation s @ [a, b]\<rparr>) \<and>
     cv_Role a = ''user'' \<and> cv_Role b = ''assistant''"
proof (intro exI conjI)
  let ?a = "\<lparr>cv_Role = ''user'', cv_ActorSubject = TrimSpace (tr_ActorSubject (tf_Req f)),
      cv_Content = TrimSpace (tr_Message (tf_Req f))\<rparr>"
  let ?b = "\<lparr>cv_Role = ''assistant'', cv_ActorSubject = AutoActorSubject,
      cv_Content = ar_AssistantMessage (td_Activity d)\<rparr>"
  have n: "core (turn_notes v s f d) = core s" by simp
  show "core (turn_record v s f d) = core (s\<lparr>rs_seen := TrimSpace (tr_MessageID (tf_Req f)) # rs_seen s,
      rs_conversation := rs_conversation s @ [?a, ?b]\<rparr>)"
    using n by (simp add: turn_record_def Let_def core_def)
  show "cv_Role ?a = ''user''" "cv_Role ?b = ''assistant''" by simp_all
qed

lemma turn_finish_inv:
  assumes ok: "room_ok (mc_room m)" and fl: "rs_inFlight (mc_room m)"
    and ap: "rs_approvalInFlight (mc_room m) \<longleftrightarrow> mc_approving m \<noteq> None"
    and len: "int (length (rs_conversation (mc_room m))) = 2 * (rs_turnCount (mc_room m) - 1)"
    and f: "frame_ok (mc_room m) f"
  shows "machine_inv (turn_finish lib v m f d now)"
proof -
  let ?s = "turn_record v (mc_room m) f d"
  obtain a b where c: "core ?s = core ((mc_room m)\<lparr>rs_seen := TrimSpace (tr_MessageID (tf_Req f)) # rs_seen (mc_room m),
             rs_conversation := rs_conversation (mc_room m) @ [a, b]\<rparr>)"
    and r: "cv_Role a = ''user''" "cv_Role b = ''assistant''"
    using core_turn_record by blast
  have "room_ok ?s" using ok f r alternating_append [of "rs_conversation (mc_room m)" a b]
    by (simp add: core_room_ok [OF c]) (simp add: room_ok_def lifecycle_ok_def frame_ok_def)
  moreover have "settled ?s" "rs_inFlight ?s" "rs_approvalInFlight ?s = rs_approvalInFlight (mc_room m)"
    using c len fl by (auto simp: core_def settled_def)
  ultimately show ?thesis using ap
    by (auto simp: turn_finish_def Let_def intro!: next_follow_up_inv handler_done_inv)
qed

lemma turn_store_fields [simp]:
  "rs_policy (turn_store v s d) = rs_policy s" "rs_inFlight (turn_store v s d) = rs_inFlight s"
  "rs_approvalInFlight (turn_store v s d) = rs_approvalInFlight s"
  "rs_turnCount (turn_store v s d) = rs_turnCount s + 1"
  "rs_conversation (turn_store v s d) = rs_conversation s" "rs_seen (turn_store v s d) = rs_seen s"
  "rs_status (turn_store v s d) = rs_status s" "rs_closedAt (turn_store v s d) = rs_closedAt s"
  "rs_closeReason (turn_store v s d) = rs_closeReason s"
  "rs_conclusionConfirmed (turn_store v s d) = rs_conclusionConfirmed s"
  "rs_input (turn_store v s d) = rs_input s"
  by (simp_all add: turn_store_def Let_def)

lemma add_batch_length:
  "length (rs_evidenceBatches s) \<le> maxDiagnosisRoomEvidenceContextBatches \<Longrightarrow>
     length (add_batch v s n i items) \<le> maxDiagnosisRoomEvidenceContextBatches"
  using appended_batches by (simp add: add_batch_def split: option.split)

lemma turn_store_batches:
  "length (rs_evidenceBatches s) \<le> maxDiagnosisRoomEvidenceContextBatches \<Longrightarrow>
     length (rs_evidenceBatches (turn_store v s d)) \<le> maxDiagnosisRoomEvidenceContextBatches"
  by (simp add: turn_store_def Let_def add_batch_length)

lemma turn_store_ok:
  assumes "room_ok s" "rs_turnCount s < pl_MaxTurns (rs_policy s)"
  shows "room_ok (turn_store v s d)"
  using assms by (simp add: room_ok_def lifecycle_ok_def turn_store_batches)

lemma turn_step_inv:
  assumes "machine_inv m" "mc_phase m = Running f"
  shows "machine_inv (turn_step lib v m f oc now)"
proof -
  have i: "room_ok (mc_room m)" "rs_inFlight (mc_room m)" "settled (mc_room m)"
    "rs_turnCount (mc_room m) < pl_MaxTurns (rs_policy (mc_room m))" "frame_ok (mc_room m) f"
    "rs_approvalInFlight (mc_room m) \<longleftrightarrow> mc_approving m \<noteq> None"
    using assms by (simp_all add: machine_inv_def phase_ok_def)
  show ?thesis
  proof (cases "turn_activities lib v (mc_room m) f oc")
    case (Inl e)
    let ?s = "turn_failed lib (mc_room m) (tf_Initial f) (tf_Root f) e now"
    have "phase_ok ?s (Running f)" using assms turn_failed_ok(2) [OF i(1)]
      by (simp add: machine_inv_def)
    then have "settled ?s" by (simp add: phase_ok_def)
    then have "machine_inv (handler_done (m\<lparr>mc_room := ?s\<rparr>) (tf_Initial f))"
      using i turn_failed_ok [OF i(1)] by (intro handler_done_inv) simp_all
    with Inl show ?thesis by (simp add: turn_step_def)
  next
    case (Inr d)
    let ?s = "turn_store v (mc_room m) d"
    have ok: "room_ok ?s" using i by (simp add: turn_store_ok)
    have len: "int (length (rs_conversation ?s)) = 2 * (rs_turnCount ?s - 1)"
      using i(3) by (simp add: settled_def)
    have f: "frame_ok ?s f" using i(5) by (simp add: frame_ok_def)
    show ?thesis
    proof (cases "notifies v ?s d")
      case True
      with Inr ok len f i(2,6) show ?thesis
        by (simp add: turn_step_def Let_def machine_inv_def phase_ok_def)
    next
      case False
      have "machine_inv (turn_finish lib v (m\<lparr>mc_room := ?s\<rparr>) f d now)"
        using ok len f i(2,6) by (intro turn_finish_inv) simp_all
      with Inr False show ?thesis by (simp add: turn_step_def Let_def)
    qed
  qed
qed

lemma notified_step_inv:
  assumes "machine_inv m" "mc_phase m = Notifying f d"
  shows "machine_inv (notified_step lib v m f d st now)"
proof -
  let ?s = "after_notification lib (mc_room m) d st now"
  have c: "core ?s = core (mc_room m)" by simp
  have i: "room_ok ?s" "phase_ok ?s (Notifying f d)"
    using assms core_room_ok [OF c] core_phase_ok [OF c] by (simp_all add: machine_inv_def)
  moreover have "rs_approvalInFlight ?s \<longleftrightarrow> mc_approving m \<noteq> None"
    using assms(1) c by (simp add: machine_inv_def core_def)
  ultimately show ?thesis unfolding notified_step_def
    by (intro turn_finish_inv) (simp_all add: phase_ok_def)
qed

section \<open>Evidence and confirmation\<close>

lemma collect_inv:
  assumes "machine_inv m"
  shows "machine_inv (collectDiagnosisEvidence lib m req)"
proof (cases "validateCollectEvidence lib (mc_room m) req")
  case (Inl e)
  with assms show ?thesis by (simp add: collectDiagnosisEvidence_def)
next
  case (Inr u)
  then have v: "validateCollectEvidence lib (mc_room m) req = Inr ()" by simp
  note a = validateCollectEvidence_InrD [OF v]
  have i: "phase_ok (mc_room m) (mc_phase m)" using assms by (simp add: machine_inv_def)
  with a(2) have "mc_phase m = Idle" by (simp add: phase_ok_def split: phase.splits)
  with i a assms Inr show ?thesis
    by (simp add: collectDiagnosisEvidence_def machine_inv_def phase_ok_def settled_def)
qed

lemma collect_failed_inv:
  assumes "room_ok (mc_room m)" "settled (mc_room m)" "rs_inFlight (mc_room m)"
    "rs_approvalInFlight (mc_room m) \<longleftrightarrow> mc_approving m \<noteq> None"
  shows "machine_inv (collect_failed lib m mid e now)"
proof -
  let ?s = "turn_failed lib (mc_room m) False mid e now"
  have "settled ?s" using assms(2) by (simp add: turn_failed_def Let_def settled_def)
  then show ?thesis using assms turn_failed_ok [OF assms(1)]
    by (simp add: collect_failed_def handler_done_inv)
qed

lemma collected_record_core:
  "\<exists>s2. core s2 = core s \<and>
     collected_record s req items now = s2\<lparr>rs_seen := TrimSpace (cq_MessageID req) # rs_seen s2\<rparr>"
  unfolding collected_record_def Let_def by (rule exI, rule conjI [rotated], rule refl) simp

lemma collected_step_inv:
  assumes "machine_inv m" "mc_phase m = Collecting req"
  shows "machine_inv (collected_step lib v m req res recorded now)"
proof -
  let ?s = "mc_room m"
  have i: "room_ok ?s" "rs_inFlight ?s" "settled ?s" "TrimSpace (cq_MessageID req) \<notin> set (rs_seen ?s)"
    "rs_approvalInFlight ?s \<longleftrightarrow> mc_approving m \<noteq> None"
    using assms by (simp_all add: machine_inv_def phase_ok_def)
  show ?thesis
  proof (cases res)
    case (Inl e)
    then show ?thesis using i by (simp add: collected_step_def collect_failed_inv)
  next
    case (Inr items)
    let ?s1 = "?s\<lparr>rs_evidenceBatches := add_batch v ?s (rs_turnCount ?s) [] items\<rparr>"
    have ok1: "room_ok ?s1" "settled ?s1"
      using i by (simp_all add: room_ok_def lifecycle_ok_def settled_def add_batch_length)
    define rec where
      "rec = (if rv_manualEvidenceCollected v \<ge> 1 \<and> items \<noteq> [] then recorded else Inr ())"
    show ?thesis
    proof (cases rec)
      case (Inl e)
      then have "collected_step lib v m req res recorded now
          = collect_failed lib (m\<lparr>mc_room := ?s1\<rparr>) (cq_MessageID req) e now"
        using \<open>res = Inr items\<close> by (simp add: collected_step_def Let_def rec_def)
      then show ?thesis using ok1 i by (simp add: collect_failed_inv)
    next
      case (Inr u)
      let ?s3 = "collected_record ?s1 req items now"
      obtain s2 where c: "core s2 = core ?s1"
        and s3: "?s3 = s2\<lparr>rs_seen := TrimSpace (cq_MessageID req) # rs_seen s2\<rparr>"
        using collected_record_core [of ?s1 req items now] by blast
      have r: "settled ?s3" "room_ok ?s3" "rs_inFlight ?s3"
        "rs_approvalInFlight ?s3 = rs_approvalInFlight ?s"
        using c ok1 i(2,4) unfolding s3 by (auto simp: core_def settled_def room_ok_def lifecycle_ok_def)
      have eq: "collected_step lib v m req res recorded now =
          (if items \<noteq> [] then next_follow_up lib v (m\<lparr>mc_room := ?s3\<rparr>) (TrimSpace (cq_MessageID req)) 1 1
             False (collected_primary ?s3 req items) now
           else handler_done (m\<lparr>mc_room := ?s3\<rparr>) False)"
        using \<open>res = Inr items\<close> Inr by (simp add: collected_step_def Let_def rec_def [symmetric])
      have "machine_inv (handler_done (m\<lparr>mc_room := ?s3\<rparr>) False)"
        "machine_inv (next_follow_up lib v (m\<lparr>mc_room := ?s3\<rparr>) (TrimSpace (cq_MessageID req)) 1 1
             False (collected_primary ?s3 req items) now)"
        using r i(5) by (simp_all add: next_follow_up_inv handler_done_inv)
      then show ?thesis unfolding eq if_split [of machine_inv] by blast
    qed
  qed
qed

lemma approval_inv:
  assumes "machine_inv m" "\<not> rs_approvalInFlight (mc_room m)"
  shows "machine_inv (recordConclusionApproval lib m req now)"
  using assms
  by (auto simp: recordConclusionApproval_def Let_def machine_inv_def phase_ok_def settled_def
      frame_ok_def room_ok_def lifecycle_ok_def split: sum.split phase.splits)

lemma confirm_step_inv:
  assumes "machine_inv m"
  shows "machine_inv (confirm_step lib v m req now)"
proof -
  let ?s = "beginAcceptedUpdate (mc_room m) now"
  have i: "machine_inv (m\<lparr>mc_room := ?s\<rparr>)" "machine_inv (m\<lparr>mc_room := ?s\<lparr>rs_lastActivityAt := now\<rparr>\<rparr>)"
    using assms by (simp_all add: core_machine_inv)
  show ?thesis
  proof (cases "validateConfirmConclusion lib v ?s req")
    case (Inl e)
    with i show ?thesis by (simp add: confirm_step_def Let_def)
  next
    case (Inr u)
    then have "\<not> rs_approvalInFlight (?s\<lparr>rs_lastActivityAt := now\<rparr>)"
      using validateConfirmConclusion_InrD(3) [of lib v ?s req] by simp
    then have "machine_inv (recordConclusionApproval lib (m\<lparr>mc_room := ?s\<lparr>rs_lastActivityAt := now\<rparr>\<rparr>) req now)"
      using i(2) by (intro approval_inv) simp_all
    moreover have "machine_inv (m\<lparr>mc_room := ?s, mc_confirmCh := mc_confirmCh m @ [req]\<rparr>)"
      using i(1) by (simp add: machine_inv_def)
    ultimately show ?thesis using Inr by (simp add: confirm_step_def Let_def)
  qed
qed

lemma approved_step_cases:
  obtains s where "approved_step m f res now = m\<lparr>mc_approving := None, mc_room := s\<lparr>rs_approvalInFlight := False\<rparr>\<rparr>"
    and "core s = core (mc_room m) \<or>
      rs_status (mc_room m) = RoomOpen \<and>
      (\<exists>s' r. s = room_close (s'\<lparr>rs_conclusionConfirmed := True\<rparr>) now r (af_ActorSubject f) \<and>
        core s' = core (mc_room m))"
proof (cases res)
  case (Inl e)
  then show thesis using that [of "mc_room m"] by (simp add: approved_step_def Let_def)
next
  case (Inr a)
  let ?s = "(mc_room m)\<lparr>rs_conclusionDigest := af_Digest f,
      rs_approvals := appendApprovalIfMissing (rs_approvals (mc_room m)) a\<rparr>"
  have c: "core ?s = core (mc_room m)" by (simp add: core_def)
  let ?p = "PendingAuthorities (wi_ApprovalMode (rs_input ?s)) (approvalsForConclusion (rs_approvals ?s) (af_Digest f))"
  let ?c = "room_close (?s\<lparr>rs_conclusionConfirmed := True\<rparr>) now
      (reasonOrDefault (af_RawReason f) ''human_confirmed'') (af_ActorSubject f)"
  show thesis
  proof (cases "?p = Inr [] \<and> rs_status (mc_room m) = RoomOpen")
    case True
    then have "approved_step m f res now = m\<lparr>mc_approving := None, mc_room := ?c\<lparr>rs_approvalInFlight := False\<rparr>\<rparr>"
      using Inr by (simp add: approved_step_def Let_def)
    with True c show thesis using that [of ?c] by blast
  next
    case False
    then have "approved_step m f res now = m\<lparr>mc_approving := None, mc_room := ?s\<lparr>rs_approvalInFlight := False\<rparr>\<rparr>"
      using Inr by (cases ?p) (auto simp: approved_step_def Let_def)
    with c show thesis using that [of ?s] by blast
  qed
qed

lemma approved_step_inv:
  assumes "machine_inv m"
  shows "machine_inv (approved_step m f res now)"
proof -
  obtain s where e: "approved_step m f res now = m\<lparr>mc_approving := None, mc_room := s\<lparr>rs_approvalInFlight := False\<rparr>\<rparr>"
    and c: "core s = core (mc_room m) \<or>
      rs_status (mc_room m) = RoomOpen \<and>
      (\<exists>s' r. s = room_close (s'\<lparr>rs_conclusionConfirmed := True\<rparr>) now r (af_ActorSubject f) \<and>
        core s' = core (mc_room m))"
    by (rule approved_step_cases)
  have "room_ok s \<and> phase_ok s (mc_phase m)"
    using c
  proof (elim disjE conjE exE)
    assume c': "core s = core (mc_room m)"
    show ?thesis using assms core_room_ok [OF c'] core_phase_ok [OF c'] by (simp add: machine_inv_def)
  next
    fix s' r
    assume o: "rs_status (mc_room m) = RoomOpen" and c': "core s' = core (mc_room m)"
      and s: "s = room_close (s'\<lparr>rs_conclusionConfirmed := True\<rparr>) now r (af_ActorSubject f)"
    have "room_ok s'" "phase_ok s' (mc_phase m)" "rs_status s' = RoomOpen"
      using assms o c' core_room_ok [OF c'] core_phase_ok [OF c'] by (auto simp: machine_inv_def core_def)
    then show ?thesis unfolding s
      by (auto simp: room_ok_def room_close_lifecycle phase_ok_def settled_def frame_ok_def split: phase.splits)
  qed
  then show ?thesis unfolding e
    by (auto simp: machine_inv_def phase_ok_def settled_def frame_ok_def room_ok_def lifecycle_ok_def
        split: phase.splits)
qed

lemma closed_step_inv:
  assumes "machine_inv m"
  shows "machine_inv (closed_step lib v m res st now)"
  using assms
  by (auto simp: closed_step_def Let_def machine_inv_def phase_ok_def settled_def frame_ok_def
      room_ok_def lifecycle_ok_def split: sum.split phase.splits)

section \<open>Every step\<close>

lemma set_room_inv: "machine_inv m \<Longrightarrow> core s = core (mc_room m) \<Longrightarrow> machine_inv (set_room m s)"
  by (simp add: set_room_def core_machine_inv)

lemma set_room_close_inv: "machine_inv m \<Longrightarrow> machine_inv (set_room m (room_close (mc_room m) now r a))"
  by (simp add: set_room_def room_close_inv)

lemma stage_inv [simp]: "machine_inv (m\<lparr>mc_stage := g\<rparr>) = machine_inv m"
  "machine_inv (m\<lparr>mc_mainLoop := b\<rparr>) = machine_inv m"
  "machine_inv (m\<lparr>mc_confirmCh := q\<rparr>) = machine_inv m"
  by (simp_all add: machine_inv_def)

lemma room_step_inv:
  assumes "machine_inv m" "room_step lib v m e = Some m'"
  shows "machine_inv m'"
proof (cases e)
  case (EvStarted res now)
  with assms show ?thesis
    by (auto simp: Let_def core_machine_inv intro!: submit_inv split: if_splits sum.splits option.splits)
next
  case (EvSubmit req now)
  with assms show ?thesis
    by (auto intro!: submit_inv set_room_inv split: if_splits)
next
  case (EvTurn oc now)
  with assms show ?thesis by (auto intro: turn_step_inv split: if_splits phase.splits)
next
  case (EvNotified st now)
  with assms show ?thesis by (auto intro: notified_step_inv split: if_splits phase.splits)
next
  case (EvCollect req now)
  with assms show ?thesis by (auto intro!: collect_inv set_room_inv split: if_splits)
next
  case (EvCollected res rec now)
  with assms show ?thesis by (auto intro: collected_step_inv split: if_splits phase.splits)
next
  case (EvConfirm req now)
  with assms show ?thesis by (auto intro: confirm_step_inv split: if_splits)
next
  case (EvApproved res now)
  with assms show ?thesis by (auto intro: approved_step_inv split: if_splits option.splits)
next
  case (EvConfirmReceived now)
  with assms(2) have "selecting m" by (auto split: if_splits)
  moreover from this EvConfirmReceived assms(2) obtain req rest where "mc_confirmCh m = req # rest"
    by (cases "mc_confirmCh m") auto
  ultimately have m': "m' = m\<lparr>mc_confirmCh := rest,
      mc_room := room_close ((mc_room m)\<lparr>rs_conclusionConfirmed := True\<rparr>) now
        (reasonOrDefault (cz_Reason req) ''human_confirmed'') (cz_ActorSubject req)\<rparr>"
    using EvConfirmReceived assms(2) by simp
  from \<open>selecting m\<close> have "rs_status (mc_room m) = RoomOpen" by (simp add: selecting_def)
  with assms(1) show ?thesis unfolding m'
    by (auto simp: machine_inv_def room_ok_def room_close_lifecycle phase_ok_def settled_def
        frame_ok_def split: phase.splits)
next
  case (EvTimer now)
  with assms closeIfExpired_cases [of "mc_room m" now] show ?thesis
    by (auto simp: set_room_close_inv set_room_inv split: if_splits)
next
  case (EvSessionClosed res st now)
  with assms show ?thesis by (auto intro: closed_step_inv split: if_splits)
qed (use assms in \<open>auto simp: set_room_close_inv split: if_splits\<close>)

lemma room_start_inv:
  assumes "room_start lib v i now = Inr s"
  shows "machine_inv (room_machine s)"
proof -
  let ?p = "diagnosisRoomPolicyOrDefault (wi_Policy i)"
  have "ValidatePolicy ?p = Inr ()"
    using assms by (auto simp: room_start_def Let_def validateDiagnosisRoomWorkflowInput_def
        split: sum.splits if_splits)
  then have "policy_ok ?p" by (simp add: ValidatePolicy_iff)
  with assms show ?thesis
    by (auto simp: room_start_def Let_def machine_inv_def room_machine_def room_ok_def phase_ok_def
        settled_def lifecycle_ok_def alternating_def policy_ok_def split: sum.splits)
qed

lemma room_reachable_inv: "room_reachable lib v i m \<Longrightarrow> machine_inv m"
  by (induction rule: room_reachable.induct) (auto intro: room_start_inv room_step_inv)

end
