(* ===== verification/Room_Lifecycle.thy ===== *)
theory Room_Lifecycle
  imports Room_Invariant "HOL-Library.Sublist"
begin

text \<open>
  How a diagnosis room ends: a closed room keeps its time, reason and actor whatever happens
  afterwards; a confirmation closes it only with a full quorum; the timer that the main loop sets
  suffices to close an abandoned room. The last section is about the order of handlers: an approval
  that is being recorded keeps its frame, and the transcript only grows, whatever the room does meanwhile.
\<close>

section \<open>A closed room stays closed\<close>

definition terminal :: "room \<Rightarrow> string \<times> go_time option \<times> string \<times> string \<times> bool" where
  "terminal s = (rs_status s, rs_closedAt s, rs_closeReason s, rs_closeActorSubject s,
     rs_conclusionConfirmed s)"

lemma terminal_status: "terminal s = terminal s' \<Longrightarrow> rs_status s = rs_status s'"
  by (simp add: terminal_def)

lemma terminal_fields [simp]:
  "terminal (s\<lparr>rs_inFlight := a\<rparr>) = terminal s" "terminal (s\<lparr>rs_latestError := b\<rparr>) = terminal s"
  "terminal (s\<lparr>rs_lastActivityAt := t\<rparr>) = terminal s" "terminal (s\<lparr>rs_seen := q\<rparr>) = terminal s"
  "terminal (s\<lparr>rs_conversation := c\<rparr>) = terminal s" "terminal (s\<lparr>rs_evidenceBatches := xb\<rparr>) = terminal s"
  "terminal (s\<lparr>rs_approvalInFlight := a\<rparr>) = terminal s" "terminal (s\<lparr>rs_diagnosisTaskID := i\<rparr>) = terminal s"
  "terminal (s\<lparr>rs_chatSessionID := i\<rparr>) = terminal s" "terminal (s\<lparr>rs_supplementalEvidence := se\<rparr>) = terminal s"
  by (simp_all add: terminal_def)

lemma terminal_ops [simp]:
  "terminal (turn_store v s d) = terminal s"
  "terminal (recordLatestEvidenceCycle s a rq rs) = terminal s"
  "terminal (recordManualEvidenceCollection s rq rs) = terminal s"
  "terminal (recordEvidenceTimelineEntry s e) = terminal s"
  "terminal (recordConfidenceTimelineEntry s ce) = terminal s"
  "terminal (beginAcceptedUpdate s now) = terminal s"
  by (simp_all add: terminal_def turn_store_def Let_def recordLatestEvidenceCycle_def
      recordManualEvidenceCollection_def recordEvidenceTimelineEntry_def
      recordConfidenceTimelineEntry_def beginAcceptedUpdate_def)

lemma terminal_insight [simp]:
  "terminal (s\<lparr>rs_latestInsight := a, rs_latestConfidence := b, rs_latestRequiresHumanReview := c\<rparr>) = terminal s"
  by (simp add: terminal_def)

lemma terminal_turn_record [simp]: "terminal (turn_record v s f d) = terminal s"
  by (simp add: turn_record_def turn_notes_def Let_def)

lemma terminal_after_notification [simp]: "terminal (after_notification lib s d st now) = terminal s"
  by (simp add: after_notification_def Let_def split: sum.split)

lemma terminal_collected_record [simp]: "terminal (collected_record s req items now) = terminal s"
  by (simp add: collected_record_def Let_def)

lemma terminal_handler_done [simp]: "terminal (mc_room (handler_done m i)) = terminal (mc_room m)"
  by (simp add: handler_done_def)

lemma terminal_next_follow_up [simp]:
  "terminal (mc_room (next_follow_up lib v m root i cv initial prev now)) = terminal (mc_room m)"
  by (simp add: next_follow_up_def Let_def split: sum.split prod.split)

lemma terminal_turn_finish [simp]:
  "terminal (mc_room (turn_finish lib v m f d now)) = terminal (mc_room m)"
  by (simp add: turn_finish_def Let_def)

lemma terminal_turn_failed:
  "rs_status s = RoomClosed \<Longrightarrow> terminal (turn_failed lib s initial mid e now) = terminal s"
  by (simp add: turn_failed_def Let_def)

lemma terminal_turn_failed_running [simp]:
  "terminal (turn_failed lib s False mid e now) = terminal s"
  by (simp add: turn_failed_def Let_def)

lemma terminal_submit:
  "rs_status (mc_room m) = RoomClosed \<Longrightarrow>
     terminal (mc_room (submitDiagnosisRoomTurn lib v m req initial now)) = terminal (mc_room m)"
  by (simp add: submitDiagnosisRoomTurn_def Let_def terminal_turn_failed split: sum.split prod.split)

lemma terminal_submit_update [simp]:
  "terminal (mc_room (submitDiagnosisRoomTurn lib v m req False now)) = terminal (mc_room m)"
  by (simp add: submitDiagnosisRoomTurn_def Let_def split: sum.split prod.split)

lemma terminal_turn_step:
  "rs_status (mc_room m) = RoomClosed \<Longrightarrow>
     terminal (mc_room (turn_step lib v m f oc now)) = terminal (mc_room m)"
  by (simp add: turn_step_def Let_def terminal_turn_failed split: sum.split)

lemma terminal_collect [simp]:
  "terminal (mc_room (collectDiagnosisEvidence lib m req)) = terminal (mc_room m)"
  by (simp add: collectDiagnosisEvidence_def split: sum.split)

lemma terminal_collected [simp]:
  "terminal (mc_room (collected_step lib v m req res rec now)) = terminal (mc_room m)"
  by (simp add: collected_step_def Let_def collect_failed_def split: sum.split)

lemma terminal_approval [simp]:
  "terminal (mc_room (recordConclusionApproval lib m req now)) = terminal (mc_room m)"
  by (simp add: recordConclusionApproval_def Let_def split: sum.split prod.split)

lemma terminal_confirm [simp]:
  "terminal (mc_room (confirm_step lib v m req now)) = terminal (mc_room m)"
  by (simp add: confirm_step_def Let_def split: sum.split)

lemma terminal_approved:
  "rs_status (mc_room m) = RoomClosed \<Longrightarrow>
     terminal (mc_room (approved_step m f res now)) = terminal (mc_room m)"
  by (simp add: approved_step_def Let_def terminal_def split: sum.split)

lemma terminal_closed_step [simp]:
  "terminal (mc_room (closed_step lib v m res st now)) = terminal (mc_room m)"
  by (simp add: closed_step_def Let_def terminal_def split: sum.split)

lemma room_step_closed:
  assumes "room_step lib v m e = Some m'" "rs_status (mc_room m) = RoomClosed"
  shows "terminal (mc_room m') = terminal (mc_room m)"
proof (cases e)
  case (EvStarted res now)
  let ?m = "\<lambda>t c. m\<lparr>mc_room := (if rs_diagnosisTaskID (mc_room m) = 0
      then (mc_room m)\<lparr>rs_diagnosisTaskID := t\<rparr> else mc_room m)\<lparr>rs_chatSessionID := c\<rparr>, mc_stage := Serving\<rparr>"
  have "terminal (mc_room (?m t c)) = terminal (mc_room m)" for t c by simp
  moreover from this have "rs_status (mc_room (?m t c)) = RoomClosed" for t c
    using assms(2) terminal_status by metis
  ultimately have "terminal (mc_room (submitDiagnosisRoomTurn lib v (?m t c) req True now)) = terminal (mc_room m)"
    for t c req
    using terminal_submit by metis
  with EvStarted assms(1) show ?thesis
    by (auto simp: Let_def split: if_splits sum.splits option.splits)
next
  case (EvTurn oc now)
  with assms show ?thesis by (auto simp: terminal_turn_step split: if_splits phase.splits)
next
  case (EvNotified st now)
  with assms show ?thesis by (auto simp: notified_step_def split: if_splits phase.splits)
next
  case (EvApproved res now)
  with assms show ?thesis by (auto simp: terminal_approved split: if_splits option.splits)
qed (use assms in \<open>auto simp: set_room_def selecting_def split: if_splits phase.splits\<close>)

lemma room_run_closed:
  assumes "room_run lib v m es = Some m'" "rs_status (mc_room m) = RoomClosed"
  shows "terminal (mc_room m') = terminal (mc_room m)"
  using assms
proof (induction es arbitrary: m)
  case (Cons e es)
  then obtain m1 where m1: "room_step lib v m e = Some m1" "room_run lib v m1 es = Some m'"
    by (auto split: option.splits)
  have t: "terminal (mc_room m1) = terminal (mc_room m)"
    using room_step_closed [OF m1(1) Cons.prems(2)] .
  then have "rs_status (mc_room m1) = RoomClosed" using Cons.prems(2) terminal_status by metis
  with Cons.IH [OF m1(2)] t show ?case by simp
qed simp

section \<open>A confirmation needs the quorum\<close>

lemma approved_step_confirms:
  assumes "\<not> rs_conclusionConfirmed (mc_room m)"
    "rs_conclusionConfirmed (mc_room (approved_step m f res now))"
  shows "rs_status (mc_room m) = RoomOpen \<and>
    rs_status (mc_room (approved_step m f res now)) = RoomClosed \<and>
    rs_conclusionDigest (mc_room (approved_step m f res now)) = af_Digest f \<and>
    PendingAuthorities (wi_ApprovalMode (rs_input (mc_room m)))
      (approvalsForConclusion (rs_approvals (mc_room (approved_step m f res now))) (af_Digest f)) = Inr []"
  using assms by (auto simp: approved_step_def Let_def split: sum.splits if_splits)

lemma terminal_confirmed: "terminal s = terminal s' \<Longrightarrow> rs_conclusionConfirmed s = rs_conclusionConfirmed s'"
  by (simp add: terminal_def)

lemma turn_failed_confirmed [simp]:
  "rs_conclusionConfirmed (turn_failed lib s initial mid e now) = rs_conclusionConfirmed s"
  by (simp add: turn_failed_def Let_def)

lemma handler_done_confirmed [simp]:
  "rs_conclusionConfirmed (mc_room (handler_done m i)) = rs_conclusionConfirmed (mc_room m)"
  by (simp add: handler_done_def)

lemma turn_finish_confirmed [simp]:
  "rs_conclusionConfirmed (mc_room (turn_finish lib v m f d now)) = rs_conclusionConfirmed (mc_room m)"
  using terminal_turn_finish by (rule terminal_confirmed)

lemma turn_step_confirmed [simp]:
  "rs_conclusionConfirmed (mc_room (turn_step lib v m f oc now)) = rs_conclusionConfirmed (mc_room m)"
  by (simp add: turn_step_def Let_def split: sum.split)

lemma submit_confirmed [simp]:
  "rs_conclusionConfirmed (mc_room (submitDiagnosisRoomTurn lib v m req i now))
     = rs_conclusionConfirmed (mc_room m)"
  by (simp add: submitDiagnosisRoomTurn_def Let_def split: sum.split prod.split)

lemma begin_confirmed [simp]:
  "rs_conclusionConfirmed (beginAcceptedUpdate s now) = rs_conclusionConfirmed s"
  by (simp add: beginAcceptedUpdate_def)

lemma closeIfExpired_confirmed [simp]:
  "rs_conclusionConfirmed (fst (closeIfExpired s now)) = rs_conclusionConfirmed s"
  by (simp add: closeIfExpired_def)

text \<open>Only the completion of an approval, or the legacy confirmation channel, confirms.\<close>

lemma room_step_confirms:
  assumes "room_step lib v m e = Some m'" "\<not> rs_conclusionConfirmed (mc_room m)"
    "rs_conclusionConfirmed (mc_room m')"
  shows "(\<exists>f res now. e = EvApproved res now \<and> mc_approving m = Some f \<and> m' = approved_step m f res now) \<or>
    (\<exists>now. e = EvConfirmReceived now \<and> mc_confirmCh m \<noteq> [])"
proof (cases e)
  case (EvStarted res now)
  with assms show ?thesis by (auto simp: Let_def split: if_splits sum.splits option.splits)
next
  case (EvSubmit req now)
  with assms show ?thesis by (auto simp: set_room_def split: if_splits)
next
  case (EvTurn oc now)
  with assms show ?thesis by (auto split: if_splits phase.splits)
next
  case (EvNotified st now)
  then obtain f d where "m' = notified_step lib v m f d st now"
    using assms(1) by (auto split: if_splits phase.splits)
  then have "terminal (mc_room m') = terminal (mc_room m)" by (simp add: notified_step_def)
  with assms(2,3) show ?thesis using terminal_confirmed by blast
next
  case (EvCollect req now)
  then have "terminal (mc_room m') = terminal (mc_room m)"
    using assms(1) by (auto simp: set_room_def split: if_splits)
  with assms(2,3) show ?thesis using terminal_confirmed by blast
next
  case (EvCollected res rec now)
  then have "terminal (mc_room m') = terminal (mc_room m)"
    using assms(1) by (auto split: if_splits phase.splits)
  with assms(2,3) show ?thesis using terminal_confirmed by blast
next
  case (EvConfirm req now)
  then have "terminal (mc_room m') = terminal (mc_room m)"
    using assms(1) by (auto split: if_splits)
  with assms(2,3) show ?thesis using terminal_confirmed by blast
next
  case (EvApproved res now)
  with assms show ?thesis by (auto split: if_splits option.splits)
next
  case (EvConfirmReceived now)
  with assms show ?thesis by (auto split: if_splits list.splits)
next
  case (EvSessionClosed res st now)
  then have "terminal (mc_room m') = terminal (mc_room m)"
    using assms(1) by (auto split: if_splits)
  with assms(2,3) show ?thesis using terminal_confirmed by blast
qed (use assms in \<open>auto simp: set_room_def split: if_splits\<close>)

text \<open>With the approval workflow on, the legacy channel stays empty.\<close>

lemma next_follow_up_ch [simp]:
  "mc_confirmCh (next_follow_up lib v m root i cv initial prev now) = mc_confirmCh m"
  by (simp add: next_follow_up_def Let_def handler_done_def split: sum.split prod.split)

lemma ops_ch [simp]:
  "mc_confirmCh (handler_done m b) = mc_confirmCh m"
  "mc_confirmCh (submitDiagnosisRoomTurn lib v m req b now) = mc_confirmCh m"
  "mc_confirmCh (turn_finish lib v m f d now) = mc_confirmCh m"
  "mc_confirmCh (collectDiagnosisEvidence lib m cq) = mc_confirmCh m"
  "mc_confirmCh (recordConclusionApproval lib m cz now) = mc_confirmCh m"
  "mc_confirmCh (approved_step m af ares now) = mc_confirmCh m"
  "mc_confirmCh (closed_step lib v m cres st now) = mc_confirmCh m"
  by (simp_all add: handler_done_def submitDiagnosisRoomTurn_def turn_finish_def collectDiagnosisEvidence_def
      recordConclusionApproval_def approved_step_def closed_step_def Let_def
      split: sum.split prod.split)

lemma steps_ch [simp]:
  "mc_confirmCh (turn_step lib v m f oc now) = mc_confirmCh m"
  "mc_confirmCh (notified_step lib v m f d st now) = mc_confirmCh m"
  "mc_confirmCh (collected_step lib v m cq res rec now) = mc_confirmCh m"
  by (simp_all add: turn_step_def notified_step_def collected_step_def collect_failed_def Let_def
      split: sum.split)

lemma room_step_ch:
  assumes "rv_multiStakeholderApproval v \<ge> 1" "mc_confirmCh m = []" "room_step lib v m e = Some m'"
  shows "mc_confirmCh m' = []"
proof (cases e)
  case (EvConfirm req now)
  with assms show ?thesis by (auto simp: confirm_step_def Let_def split: if_splits sum.splits)
qed (use assms in \<open>auto simp: set_room_def Let_def split: if_splits phase.splits option.splits sum.splits\<close>)

lemma room_reachable_ch:
  assumes "room_reachable lib v i m" "rv_multiStakeholderApproval v \<ge> 1"
  shows "mc_confirmCh m = []"
  using assms
  by (induction rule: room_reachable.induct) (auto simp: room_machine_def intro: room_step_ch)

section \<open>The timer closes an abandoned room\<close>

lemma nextTimerDelay_pos: "0 < nextTimerDelay s now"
  by (simp add: nextTimerDelay_def Let_def)

lemma time_Sub_pos: "0 < time_Sub t u \<Longrightarrow> t - u \<le> max_int64 \<Longrightarrow> time_Sub t u = t - u"
  by (auto simp: time_Sub_def max_int64_def min_int64_def split: if_splits)

lemma time_Sub_nonpos: "time_Sub t u \<le> 0 \<Longrightarrow> t \<le> u"
  by (auto simp: time_Sub_def max_int64_def min_int64_def split: if_splits)

lemma timer_closes:
  assumes "policy_ok (rs_policy s)" "rs_startedAt s \<le> now" "rs_lastActivityAt s \<le> now"
  shows "snd (closeIfExpired s (now + nextTimerDelay s now))"
proof -
  let ?p = "rs_policy s"
  let ?sd = "time_Sub (rs_startedAt s + pl_SessionTTL ?p) now"
  let ?id = "time_Sub (rs_lastActivityAt s + pl_IdleTimeout ?p) now"
  have b: "pl_SessionTTL ?p \<le> max_int64" "pl_IdleTimeout ?p \<le> max_int64"
    using assms(1) by (auto simp: policy_ok_def hard_limits max_int64_def)
  have sd: "?sd = rs_startedAt s + pl_SessionTTL ?p - now" if "0 < ?sd"
    using that b(1) assms(2) by (intro time_Sub_pos) simp_all
  have idl: "?id = rs_lastActivityAt s + pl_IdleTimeout ?p - now" if "0 < ?id"
    using that b(2) assms(3) by (intro time_Sub_pos) simp_all
  have sd0: "rs_startedAt s + pl_SessionTTL ?p \<le> now" if "?sd \<le> 0"
    using that by (rule time_Sub_nonpos)
  have id0: "rs_lastActivityAt s + pl_IdleTimeout ?p \<le> now" if "?id \<le> 0"
    using that by (rule time_Sub_nonpos)
  show ?thesis
    using sd idl sd0 id0 by (auto simp: closeIfExpired_def nextTimerDelay_def Let_def not_le)
qed

lemma closeIfExpired_closes:
  "snd (closeIfExpired s now) \<Longrightarrow> rs_status (fst (closeIfExpired s now)) = RoomClosed"
  by (auto simp: closeIfExpired_def split: if_splits)

section \<open>An approval while the room moves on\<close>

text \<open>Only the completion of its activity ends a running approval; its frame stays as it is until then.\<close>

lemma ops_approving [simp]:
  "mc_approving (handler_done m b) = mc_approving m"
  "mc_approving (submitDiagnosisRoomTurn lib v m req b now) = mc_approving m"
  "mc_approving (next_follow_up lib v m root i cv initial prev now) = mc_approving m"
  "mc_approving (collectDiagnosisEvidence lib m cq) = mc_approving m"
  "mc_approving (closed_step lib v m cres st now) = mc_approving m"
  by (simp_all add: handler_done_def submitDiagnosisRoomTurn_def next_follow_up_def collectDiagnosisEvidence_def
      closed_step_def Let_def split: sum.split prod.split)

lemma steps_approving [simp]:
  "mc_approving (turn_finish lib v m f d now) = mc_approving m"
  "mc_approving (turn_step lib v m f oc now) = mc_approving m"
  "mc_approving (notified_step lib v m f d status now) = mc_approving m"
  "mc_approving (collected_step lib v m cq res rec now) = mc_approving m"
  by (simp_all add: turn_finish_def turn_step_def notified_step_def collected_step_def collect_failed_def Let_def
      split: sum.split)

lemma begin_approval [simp]:
  "rs_approvalInFlight (beginAcceptedUpdate s now) = rs_approvalInFlight s"
  "rs_conversation (beginAcceptedUpdate s now) = rs_conversation s"
  "rs_finalConclusion (beginAcceptedUpdate s now) = rs_finalConclusion s"
  by (simp_all add: beginAcceptedUpdate_def)

lemma confirm_step_approving:
  assumes "rs_approvalInFlight (mc_room m)"
  shows "mc_approving (confirm_step lib v m req now) = mc_approving m"
proof -
  have "validateConfirmConclusion lib v (beginAcceptedUpdate (mc_room m) now) req \<noteq> Inr ()"
    using validateConfirmConclusion_InrD(3) assms by fastforce
  then show ?thesis by (auto simp: confirm_step_def Let_def split: sum.split)
qed

lemma room_step_approving:
  assumes "room_reachable lib v i m" "room_step lib v m e = Some m'" "mc_approving m = Some f"
    and "\<And>res now. e \<noteq> EvApproved res now"
  shows "mc_approving m' = Some f"
proof (cases e)
  case (EvConfirm req now)
  have "rs_approvalInFlight (mc_room m)"
    using room_reachable_inv [OF assms(1)] assms(3) by (simp add: machine_inv_def)
  with EvConfirm assms(2,3) show ?thesis by (auto simp: confirm_step_approving split: if_splits)
next
  case (EvApproved res now)
  with assms(4) show ?thesis by blast
qed (use assms(2,3) in \<open>auto simp: set_room_def Let_def split: if_splits phase.splits option.splits sum.splits list.splits\<close>)

lemma room_run_approving:
  assumes "room_reachable lib v i m" "room_run lib v m es = Some m'" "mc_approving m = Some f"
    and "\<forall>res now. EvApproved res now \<notin> set es"
  shows "mc_approving m' = Some f"
  using assms
proof (induction es arbitrary: m)
  case (Cons e es)
  then obtain m1 where m1: "room_step lib v m e = Some m1" "room_run lib v m1 es = Some m'"
    by (auto split: option.splits)
  have "e \<noteq> EvApproved res now" for res now using Cons.prems(4) by (metis list.set_intros(1))
  with room_step_approving [OF Cons.prems(1) m1(1) Cons.prems(3)] have "mc_approving m1 = Some f" by blast
  with Cons.IH [OF reach_step [OF Cons.prems(1) m1(1)] m1(2)] Cons.prems(4) show ?case by simp
qed simp

text \<open>The transcript only grows.\<close>

lemma conversation_turn_record: "prefix (rs_conversation s) (rs_conversation (turn_record v s f d))"
proof -
  have "rs_conversation (turn_notes v s f d) = rs_conversation s"
    using core_turn_notes [of v s f d] by (simp add: core_def)
  then show ?thesis by (simp add: turn_record_def Let_def)
qed

lemma ops_conversation [simp]:
  "rs_conversation (turn_failed lib s initial mid e now) = rs_conversation s"
  "rs_conversation (mc_room (handler_done m b)) = rs_conversation (mc_room m)"
  "rs_conversation (mc_room (next_follow_up lib v m root i cv initial prev now)) = rs_conversation (mc_room m)"
  "rs_conversation (after_notification lib s d status now) = rs_conversation s"
  "rs_conversation (collected_record s cq items now) = rs_conversation s"
  "rs_conversation (mc_room (collectDiagnosisEvidence lib m cq)) = rs_conversation (mc_room m)"
  "rs_conversation (mc_room (recordConclusionApproval lib m cz now)) = rs_conversation (mc_room m)"
  "rs_conversation (mc_room (approved_step m af ares now)) = rs_conversation (mc_room m)"
  "rs_conversation (mc_room (closed_step lib v m cres st now)) = rs_conversation (mc_room m)"
  "rs_conversation (fst (closeIfExpired s now)) = rs_conversation s"
  by (simp_all add: turn_failed_def handler_done_def next_follow_up_def after_notification_def collected_record_def
      recordManualEvidenceCollection_def recordEvidenceTimelineEntry_def collectDiagnosisEvidence_def
      recordConclusionApproval_def approved_step_def closed_step_def closeIfExpired_def Let_def
      split: sum.split prod.split)

lemma submit_conversation [simp]:
  "rs_conversation (mc_room (submitDiagnosisRoomTurn lib v m req b now)) = rs_conversation (mc_room m)"
  "rs_conversation (mc_room (confirm_step lib v m cz now)) = rs_conversation (mc_room m)"
  "rs_conversation (mc_room (collected_step lib v m cq res rec now)) = rs_conversation (mc_room m)"
  by (simp_all add: submitDiagnosisRoomTurn_def confirm_step_def collected_step_def collect_failed_def Let_def
      split: sum.split prod.split)

lemma turns_conversation:
  "prefix (rs_conversation (mc_room m)) (rs_conversation (mc_room (turn_finish lib v m f d now)))"
  "prefix (rs_conversation (mc_room m)) (rs_conversation (mc_room (turn_step lib v m f oc now)))"
  "prefix (rs_conversation (mc_room m)) (rs_conversation (mc_room (notified_step lib v m f d status now)))"
proof -
  have finish: "prefix (rs_conversation (mc_room m)) (rs_conversation (mc_room (turn_finish lib v m f d now)))" for m d
    using conversation_turn_record [of "mc_room m"] by (simp add: turn_finish_def Let_def)
  from finish [of m d] show "prefix (rs_conversation (mc_room m)) (rs_conversation (mc_room (turn_finish lib v m f d now)))" .
  show "prefix (rs_conversation (mc_room m)) (rs_conversation (mc_room (turn_step lib v m f oc now)))"
  proof (cases "turn_activities lib v (mc_room m) f oc")
    case (Inr d)
    with finish [of "m\<lparr>mc_room := turn_store v (mc_room m) d\<rparr>" d] show ?thesis
      by (simp add: turn_step_def Let_def)
  qed (simp add: turn_step_def)
  show "prefix (rs_conversation (mc_room m)) (rs_conversation (mc_room (notified_step lib v m f d status now)))"
    using finish [of "m\<lparr>mc_room := after_notification lib (mc_room m) d status now\<rparr>" d] by (simp add: notified_step_def)
qed

lemma room_step_conversation:
  assumes "room_step lib v m e = Some m'"
  shows "prefix (rs_conversation (mc_room m)) (rs_conversation (mc_room m'))"
  using assms
  by (cases e) (auto simp: set_room_def Let_def turns_conversation
      split: if_splits phase.splits option.splits sum.splits list.splits)

lemma room_run_conversation:
  assumes "room_run lib v m es = Some m'"
  shows "prefix (rs_conversation (mc_room m)) (rs_conversation (mc_room m'))"
  using assms
proof (induction es arbitrary: m)
  case (Cons e es)
  then obtain m1 where m1: "room_step lib v m e = Some m1" "room_run lib v m1 es = Some m'"
    by (auto split: option.splits)
  from room_step_conversation [OF m1(1)] Cons.IH [OF m1(2)] show ?case by (rule prefix_order.trans)
qed simp

text \<open>An approval starts from the conclusion of the moment, which is a message of the assistant.\<close>

lemma currentConclusionIdentity_cong:
  assumes "rs_finalConclusion s = rs_finalConclusion s'" "rs_conversation s = rs_conversation s'"
  shows "currentConclusionIdentity lib s = currentConclusionIdentity lib s'"
  unfolding currentConclusionIdentity_def assms by (rule HOL.refl)

lemma confirm_starts_approval:
  assumes "room_step lib v m (EvConfirm req now) = Some m'" "mc_approving m = None" "mc_approving m' = Some f"
  shows "currentConclusionIdentity lib (mc_room m) =
      Inr (af_Digest f, af_AssistantMessageID f, af_AssistantSequence f, af_Content f)"
    "af_ActorSubject f = cz_ActorSubject req"
proof -
  let ?s = "(beginAcceptedUpdate (mc_room m) now)\<lparr>rs_lastActivityAt := now\<rparr>"
  have same: "currentConclusionIdentity lib ?s = currentConclusionIdentity lib (mc_room m)"
    by (rule currentConclusionIdentity_cong) simp_all
  have "m' = confirm_step lib v m req now" using assms(1) by (simp split: if_splits)
  with assms(2,3) have "mc_approving (recordConclusionApproval lib (m\<lparr>mc_room := ?s\<rparr>) req now) = Some f"
    by (auto simp: confirm_step_def Let_def split: sum.splits if_splits)
  then show "currentConclusionIdentity lib (mc_room m) =
      Inr (af_Digest f, af_AssistantMessageID f, af_AssistantSequence f, af_Content f)"
    "af_ActorSubject f = cz_ActorSubject req"
    using assms(2) unfolding recordConclusionApproval_def Let_def
    by (auto simp: same split: sum.splits prod.splits if_splits)
qed

lemma currentConclusionIdentity_source:
  assumes "currentConclusionIdentity lib s = Inr (digest, messageID, sequence, content)"
  shows "0 < sequence" "sequence \<le> int (length (rs_conversation s))"
    "cv_Role (rs_conversation s ! nat (sequence - 1)) = ''assistant''"
    "cv_Content (rs_conversation s ! nat (sequence - 1)) = content"
    "ConclusionDigest (rl_sha256_hex lib) messageID sequence content = Inr digest"
  using assms
  by (auto simp: currentConclusionIdentity_def Let_def split: option.splits if_splits sum.splits)

lemma approved_step_closes:
  assumes "\<not> rs_conclusionConfirmed (mc_room m)" "rs_conclusionConfirmed (mc_room (approved_step m f res now))"
  shows "rs_closeActorSubject (mc_room (approved_step m f res now)) = TrimSpace (af_ActorSubject f)"
    "rs_finalConclusion (mc_room (approved_step m f res now)) = rs_finalConclusion (mc_room m)"
  using assms by (auto simp: approved_step_def room_close_def Let_def split: sum.splits if_splits)

end
