(* ===== verification/Room_Example.thy ===== *)
theory Room_Example
  imports Room_Lifecycle
begin

text \<open>
  A concrete diagnosis room: the library functions it is run with, its input, and a run of it from
  the start to a confirmed conclusion. The theorems about reachable rooms are applied to the
  states of this run.
\<close>

definition demo_lib :: room_lib where
  "demo_lib = \<lparr>rl_tokenize = (\<lambda>_. \<lparr>dec_tokens = [TObjOpen, TObjClose], dec_clean = True\<rparr>),
     rl_json_object = (\<lambda>_. True), rl_unicode_lower = (\<lambda>s. s), rl_sha256_hex = (\<lambda>s. s),
     rl_marshal_batches = (\<lambda>_. ''[]''), rl_put_member = (\<lambda>o' k x. Inr o'),
     rl_marshal_output = (\<lambda>_. ''{}''), rl_snapshot_profiles = (\<lambda>_. None)\<rparr>"

text \<open>The versions a workflow started by the current code records.\<close>

definition demo_versions :: room_versions where
  "demo_versions = \<lparr>rv_evidenceContext = 1, rv_finalConclusion = 1, rv_autoEvidence = 1,
     rv_evidenceCollected = 1, rv_finalReadyNotification = 1, rv_assistantTurnNotification = 1,
     rv_confirmEvidenceGuard = 1, rv_manualEvidence = 1, rv_manualEvidenceCollected = 1,
     rv_multiStakeholderApproval = 1, rv_historicalRetrieval = 1, rv_idleUpdateLifecycle = 1,
     rv_evidenceCollection = 1, rv_closeActorSemantics = 1, rv_conversationSummary = 1,
     rv_streaming = 1\<rparr>"

definition demo_input :: DiagnosisRoomWorkflowInput where
  "demo_input = \<lparr>wi_SessionID = ''s'', wi_DiagnosisTaskID = 7, wi_EvidenceSnapshotID = 3,
     wi_OwnerSubject = ''alice'', wi_Evidence = ''{}'', wi_CloseNotificationChannelProfileID = 0,
     wi_ApprovalMode = ''owner_and_leader'', wi_Policy = DefaultPolicy\<lparr>pl_UnsafeDenylist := []\<rparr>, wi_InitialTurn = None\<rparr>"

definition demo_run :: "event list \<Rightarrow> machine option" where
  "demo_run es =
     (case room_start demo_lib demo_versions demo_input 1000000 of
        Inl e \<Rightarrow> None
      | Inr s \<Rightarrow> room_run demo_lib demo_versions (room_machine s) es)"

lemma room_run_reachable:
  "room_reachable lib v i m \<Longrightarrow> room_run lib v m es = Some m' \<Longrightarrow> room_reachable lib v i m'"
  by (induction es arbitrary: m) (auto split: option.splits intro: reach_step)

lemma demo_run_reachable:
  "demo_run es = Some m \<Longrightarrow> room_reachable demo_lib demo_versions demo_input m"
  by (auto simp: demo_run_def split: sum.splits intro: room_run_reachable reach_start)

section \<open>The events of the run\<close>

definition demo_output :: TurnOutput where
  "demo_output = \<lparr>to_SchemaVersion = ''v1'', to_Message = ''disk full'', to_Findings = [],
     to_RecommendedActions = [], to_EvidenceRequests = [], to_Confidence = ''high'',
     to_RequiresHumanReview = False, to_ConfidenceRationale = [], to_MissingEvidenceRequests = [],
     to_EvidenceCollectionSuggestions = [], to_ToolRequestSuggestions = [],
     to_ConclusionStatus = ''final''\<rparr>"

definition demo_final :: DiagnosisRoomFinalConclusion where
  "demo_final = \<lparr>fc_Status = ''available'', fc_Source = ''turn'', fc_Reason = [],
     fc_EvidenceSnapshotID = 3, fc_ConclusionVersion = ''1'', fc_RecordedAt = None,
     fc_ConfirmedBy = [], fc_SupplementalContextRefs = [], fc_AssistantTurnID = 2,
     fc_AssistantMessageID = ''m1:assistant'', fc_AssistantSequence = 2,
     fc_AssistantOccurredAt = None, fc_Content = ''disk full'', fc_Confidence = ''high'',
     fc_RequiresHumanReview = None, fc_ConfidenceRationale = [], fc_Findings = [],
     fc_RecommendedActions = [], fc_EvidenceRequests = [], fc_MissingEvidenceRequests = [],
     fc_EvidenceCollectionSuggestions = []\<rparr>"

definition demo_activity :: DiagnosisTurnActivityResult where
  "demo_activity = \<lparr>ar_InvocationID = ''i1'', ar_AssistantMessageID = ''m1:assistant'',
     ar_AssistantSequence = 2, ar_AssistantMessage = ''disk full'', ar_Output = demo_output,
     ar_RawOutput = ''{}'', ar_RuntimeID = ''r1'', ar_StartedAt = 2000000, ar_FinishedAt = 3000000,
     ar_RequiresHumanReview = False, ar_Confidence = ''high'', ar_Insight = TurnOutput_Insight demo_output,
     ar_ContextBytes = 100, ar_RetrievalRefs = []\<rparr>"

definition demo_persist :: PersistDiagnosisTurnResult where
  "demo_persist = \<lparr>pr_ChatSessionID = 9, pr_LifecycleEventID = 1, pr_UserTurnID = 1,
     pr_AssistantTurnID = 2, pr_AssistantMessageID = ''m1:assistant'', pr_AssistantSequence = 2,
     pr_AssistantOccurredAt = 3000000, pr_TurnCount = 1, pr_LastActivityAt = 3000000,
     pr_AssistantMessage = ''disk full'', pr_Confidence = ''high'', pr_RequiresHumanReview = False,
     pr_Findings = [], pr_RecommendedActions = [], pr_EvidenceRequests = [],
     pr_Insight = TurnOutput_Insight demo_output, pr_FinalConclusion = Some demo_final\<rparr>"

definition demo_outcome :: turn_outcome where
  "demo_outcome = \<lparr>oc_Activity = Inr demo_activity, oc_Persist = Inr demo_persist,
     oc_Collect = Inr [], oc_Record = Inr ()\<rparr>"

definition demo_request :: SubmitDiagnosisTurnRequest where
  "demo_request = \<lparr>tr_MessageID = ''m1'', tr_ActorSubject = ''alice'', tr_Message = ''why?'',
     tr_SupplementalEvidence = None\<rparr>"

definition demo_digest :: string where
  "demo_digest = conclusion_json ''m1:assistant'' 2 ''disk full''"

definition demo_approval :: "int \<Rightarrow> string \<Rightarrow> string \<Rightarrow> ChatSessionApproval" where
  "demo_approval i actor authority =
     \<lparr>sa_ID = i, sa_SessionID = 9, sa_ConclusionDigest = demo_digest, sa_ActorSubject = actor,
      sa_Authority = authority, sa_Reason = ''human_confirmed'', sa_ApprovedAt = 4000000,
      sa_CreatedAt = 4000000\<rparr>"

text \<open>The room starts, Alice asks, and the answer is final.\<close>

definition demo_asked :: "event list" where
  "demo_asked = [EvStarted (Inr (7, 9)) 1000000, EvSubmit demo_request 2000000]"

definition demo_answered :: "event list" where
  "demo_answered = demo_asked @ [EvTurn demo_outcome 3000000]"

text \<open>Alice, who owns the room, and Bob, who leads the team, approve it.\<close>

definition demo_approving :: "event list" where
  "demo_approving = demo_answered @
     [EvConfirm \<lparr>cz_Reason = [], cz_ActorSubject = ''alice''\<rparr> 4000000,
      EvApproved (Inr (demo_approval 1 ''alice'' ''owner'')) 5000000,
      EvConfirm \<lparr>cz_Reason = [], cz_ActorSubject = ''bob''\<rparr> 6000000]"

definition demo_last :: event where
  "demo_last = EvApproved (Inr (demo_approval 2 ''bob'' ''leader'')) 7000000"

text \<open>The same with one approval required, and a second question while it is being recorded.\<close>

definition demo_input_single :: DiagnosisRoomWorkflowInput where
  "demo_input_single = demo_input\<lparr>wi_ApprovalMode := ''single''\<rparr>"

definition demo_run_single :: "event list \<Rightarrow> machine option" where
  "demo_run_single es =
     (case room_start demo_lib demo_versions demo_input_single 1000000 of
        Inl e \<Rightarrow> None
      | Inr s \<Rightarrow> room_run demo_lib demo_versions (room_machine s) es)"

lemma demo_run_single_reachable:
  "demo_run_single es = Some m \<Longrightarrow> room_reachable demo_lib demo_versions demo_input_single m"
  by (auto simp: demo_run_single_def split: sum.splits intro: room_run_reachable reach_start)

definition demo_request2 :: SubmitDiagnosisTurnRequest where
  "demo_request2 = demo_request\<lparr>tr_MessageID := ''m2''\<rparr>"

definition demo_final2 :: DiagnosisRoomFinalConclusion where
  "demo_final2 = demo_final\<lparr>fc_AssistantTurnID := 4, fc_AssistantMessageID := ''m2:assistant'',
     fc_AssistantSequence := 4, fc_Content := ''disk slow''\<rparr>"

definition demo_outcome2 :: turn_outcome where
  "demo_outcome2 = demo_outcome\<lparr>
     oc_Activity := Inr (demo_activity\<lparr>ar_AssistantMessageID := ''m2:assistant'',
       ar_AssistantSequence := 4, ar_AssistantMessage := ''disk slow''\<rparr>),
     oc_Persist := Inr (demo_persist\<lparr>pr_UserTurnID := 3, pr_AssistantTurnID := 4,
       pr_AssistantMessageID := ''m2:assistant'', pr_AssistantSequence := 4, pr_TurnCount := 2,
       pr_AssistantMessage := ''disk slow'', pr_FinalConclusion := Some demo_final2\<rparr>)\<rparr>"

definition demo_confirm :: event where
  "demo_confirm = EvConfirm \<lparr>cz_Reason = [], cz_ActorSubject = ''alice''\<rparr> 4000000"

definition demo_meanwhile :: "event list" where
  "demo_meanwhile = [EvSubmit demo_request2 5000000, EvTurn demo_outcome2 6000000]"

definition demo_approved :: event where
  "demo_approved = EvApproved (Inr (demo_approval 1 ''alice'' ''owner'')) 7000000"

definition demo_overtaken :: "event list" where
  "demo_overtaken = demo_answered @ demo_confirm # demo_meanwhile @ [demo_approved]"

text \<open>The room is cancelled, the close activity starts, and a question arrives.\<close>

definition demo_closing :: "event list" where
  "demo_closing = demo_answered @
     [EvCancel \<lparr>cz_Reason = [], cz_ActorSubject = ''alice''\<rparr> 4000000, EvAllHandlersFinished]"

text \<open>The room before anything happened, and one with evidence that was never provided.\<close>

definition demo_room :: room where
  "demo_room = projr (room_start demo_lib demo_versions demo_input 1000000)"

definition demo_missing :: ConsultationEvidenceRequest where
  "demo_missing = \<lparr>cr_Label = ''logs'', cr_Detail = ''node logs'', cr_Priority = ''high''\<rparr>"

definition demo_confidence :: ConfidenceTimelineEntry where
  "demo_confidence = \<lparr>cl_TurnCount = 1, cl_MessageID = ''m1'', cl_AssistantMessageID = ''m1:assistant'',
     cl_AssistantTurnID = 2, cl_AssistantSequence = 2, cl_OccurredAt = 3000000,
     cl_Trigger = ''operator_turn'', cl_Confidence = ''low'', cl_RequiresHumanReview = True,
     cl_ConclusionStatus = ''needs_evidence'', cl_ConfidenceRationale = [], cl_ContextBytes = 0,
     cl_RetrievalRefs = [], cl_EvidenceRequests = [], cl_CollectionResults = [],
     cl_MissingEvidenceRequests = [demo_missing], cl_EvidenceCollectionSuggestions = []\<rparr>"

definition demo_unresolved :: room where
  "demo_unresolved = demo_room\<lparr>rs_confidenceTimeline := [demo_confidence]\<rparr>"

text \<open>A manual collection in that room after its first turn.\<close>

definition demo_evidence_request :: EvidenceRequest where
  "demo_evidence_request = \<lparr>er_TemplateID = 0, er_AlertSourceProfileID = 0, er_Tool = ''active_alerts'',
     er_Reason = ''check'', er_Query = [], er_WindowSeconds = 0, er_StepSeconds = 0, er_Limit = 5\<rparr>"

definition demo_collecting :: room where
  "demo_collecting = demo_room\<lparr>rs_turnCount := 1, rs_latestEvidenceRequests := [demo_evidence_request]\<rparr>"

definition demo_collect_request :: CollectDiagnosisEvidenceRequest where
  "demo_collect_request = \<lparr>cq_MessageID = ''m2'', cq_ActorSubject = ''alice'', cq_Message = ''collect'',
     cq_Requests = [demo_evidence_request]\<rparr>"

section \<open>The states of the runs\<close>

lemma some_state: "case x of None \<Rightarrow> False | Some m \<Rightarrow> P m \<Longrightarrow> \<exists>m. x = Some m \<and> P m"
  by (cases x) auto

lemma room_run_append:
  "room_run lib v m (es @ fs) =
     (case room_run lib v m es of None \<Rightarrow> None | Some m' \<Rightarrow> room_run lib v m' fs)"
  by (induction es arbitrary: m) (auto split: option.split)

lemma demo_run_snoc:
  "demo_run (es @ [e]) =
     (case demo_run es of None \<Rightarrow> None | Some m \<Rightarrow> room_step demo_lib demo_versions m e)"
  by (auto simp: demo_run_def room_run_append split: sum.split option.split)

lemma demo_answered_state:
  "\<exists>m. demo_run demo_answered = Some m \<and> rs_turnCount (mc_room m) = 1 \<and>
     rs_status (mc_room m) = ''open'' \<and> mc_phase m = Idle \<and> selecting m"
proof -
  have "case demo_run demo_answered of None \<Rightarrow> False | Some m \<Rightarrow> rs_turnCount (mc_room m) = 1 \<and>
      rs_status (mc_room m) = ''open'' \<and> mc_phase m = Idle \<and> selecting m"
    by code_simp
  then show ?thesis by (rule some_state)
qed

lemma demo_approving_state:
  "\<exists>m m'. demo_run demo_approving = Some m \<and> \<not> rs_conclusionConfirmed (mc_room m) \<and>
     wi_ApprovalMode (rs_input (mc_room m)) = ''owner_and_leader'' \<and>
     room_step demo_lib demo_versions m demo_last = Some m' \<and> rs_conclusionConfirmed (mc_room m')"
proof -
  have "case demo_run demo_approving of None \<Rightarrow> False | Some m \<Rightarrow>
      \<not> rs_conclusionConfirmed (mc_room m) \<and> wi_ApprovalMode (rs_input (mc_room m)) = ''owner_and_leader''"
    by code_simp
  moreover have "case demo_run (demo_approving @ [demo_last]) of None \<Rightarrow> False
      | Some m \<Rightarrow> rs_conclusionConfirmed (mc_room m)"
    by code_simp
  ultimately show ?thesis
    by (auto simp: demo_run_snoc dest!: some_state simp del: room_step.simps split: option.splits)
qed

lemma demo_closing_state:
  "\<exists>m m'. demo_run demo_closing = Some m \<and> mc_stage m = Closing \<and> rs_status (mc_room m) = ''closed'' \<and>
     rs_turnCount (mc_room m) = 1 \<and> rs_closeReason (mc_room m) = ''cancelled'' \<and>
     rs_seen (mc_room m) = [''m1''] \<and> mc_phase m = Idle \<and>
     room_step demo_lib demo_versions m (EvSubmit demo_request2 5000000) = Some m' \<and>
     rs_inFlight (mc_room m')"
proof -
  have "case demo_run demo_closing of None \<Rightarrow> False | Some m \<Rightarrow>
      mc_stage m = Closing \<and> rs_status (mc_room m) = ''closed'' \<and>
      rs_turnCount (mc_room m) = 1 \<and> rs_closeReason (mc_room m) = ''cancelled'' \<and>
      rs_seen (mc_room m) = [''m1''] \<and> mc_phase m = Idle"
    by code_simp
  moreover have "case demo_run (demo_closing @ [EvSubmit demo_request2 5000000]) of None \<Rightarrow> False
      | Some m \<Rightarrow> rs_inFlight (mc_room m)"
    by code_simp
  ultimately show ?thesis
    by (auto simp: demo_run_snoc dest!: some_state simp del: room_step.simps split: option.splits)
qed

lemma demo_run_single_append:
  "demo_run_single (es @ fs) =
     (case demo_run_single es of None \<Rightarrow> None | Some m \<Rightarrow> room_run demo_lib demo_versions m fs)"
  by (auto simp: demo_run_single_def room_run_append split: sum.split option.split)

lemma demo_overtaken_states:
  "\<exists>m0 m1 m2 m3 x. demo_run_single demo_answered = Some m0 \<and> mc_approving m0 = None \<and>
     room_step demo_lib demo_versions m0 demo_confirm = Some m1 \<and> mc_approving m1 \<noteq> None \<and>
     room_run demo_lib demo_versions m1 demo_meanwhile = Some m2 \<and> \<not> rs_conclusionConfirmed (mc_room m2) \<and>
     room_step demo_lib demo_versions m2 demo_approved = Some m3 \<and> rs_conclusionConfirmed (mc_room m3) \<and>
     currentConclusionIdentity demo_lib (mc_room m3) = Inr x \<and> fst x \<noteq> rs_conclusionDigest (mc_room m3)"
proof -
  have "case demo_run_single demo_answered of None \<Rightarrow> False | Some m \<Rightarrow> mc_approving m = None" by code_simp
  then obtain m0 where m0: "demo_run_single demo_answered = Some m0" "mc_approving m0 = None" by (blast dest: some_state)
  have "case demo_run_single (demo_answered @ [demo_confirm]) of None \<Rightarrow> False | Some m \<Rightarrow> mc_approving m \<noteq> None"
    by code_simp
  then obtain m1 where m1: "room_step demo_lib demo_versions m0 demo_confirm = Some m1" "mc_approving m1 \<noteq> None"
    by (auto simp: demo_run_single_append m0 simp del: room_step.simps dest!: some_state split: option.splits)
  have "case demo_run_single (demo_answered @ demo_confirm # demo_meanwhile) of None \<Rightarrow> False
      | Some m \<Rightarrow> \<not> rs_conclusionConfirmed (mc_room m)"
    by code_simp
  then obtain m2 where m2: "room_run demo_lib demo_versions m1 demo_meanwhile = Some m2" "\<not> rs_conclusionConfirmed (mc_room m2)"
    by (auto simp: demo_run_single_append m0 m1 simp del: room_step.simps dest!: some_state)
  have "case demo_run_single demo_overtaken of None \<Rightarrow> False | Some m \<Rightarrow> rs_conclusionConfirmed (mc_room m) \<and>
      (case currentConclusionIdentity demo_lib (mc_room m) of Inl e \<Rightarrow> False | Inr x \<Rightarrow> fst x \<noteq> rs_conclusionDigest (mc_room m))"
    by code_simp
  then obtain m3 where m3: "room_step demo_lib demo_versions m2 demo_approved = Some m3" "rs_conclusionConfirmed (mc_room m3)"
    "case currentConclusionIdentity demo_lib (mc_room m3) of Inl e \<Rightarrow> False | Inr x \<Rightarrow> fst x \<noteq> rs_conclusionDigest (mc_room m3)"
    by (auto simp: demo_overtaken_def demo_run_single_append m0 m1 room_run_append m2 simp del: room_step.simps
        dest!: some_state split: option.splits)
  then obtain x where "currentConclusionIdentity demo_lib (mc_room m3) = Inr x" "fst x \<noteq> rs_conclusionDigest (mc_room m3)"
    by (auto split: sum.splits)
  with m0 m1 m2 m3 show ?thesis by blast
qed

end
