(* ===== verification/Room_Properties.thy ===== *)
theory Room_Properties
  imports Room_Example
begin

text \<open>
  The properties of the diagnosis room: its workflow, the admission of turns and evidence
  collections, the conclusions that may be confirmed and how a room ends. Each property rests on
  the lemmas of the theory of its component and is applied to a concrete room in its witness.
\<close>

section \<open>The room as a state machine\<close>

text \<open>
  C1: in every state a diagnosis room can reach, by whatever interleaving of questions, evidence
  collections, approvals, signals and timers and whatever the activities answer, the number of
  turns stays within the policy and within the hard limit of 20; roles alternate in the
  transcript; the transcript holds two messages per turn unless a turn is being notified; no
  message identifier is used twice; the in-flight flags are set exactly while a handler runs; a
  room is closed exactly when it has a closing time, and only a closed room is confirmed.
\<close>

theorem diagnosis_room_invariant:
  assumes "room_reachable lib v i m"
  shows "0 \<le> rs_turnCount (mc_room m) \<and> rs_turnCount (mc_room m) \<le> pl_MaxTurns (rs_policy (mc_room m)) \<and>
    pl_MaxTurns (rs_policy (mc_room m)) \<le> 20 \<and> alternating (rs_conversation (mc_room m)) \<and>
    int (length (rs_conversation (mc_room m))) =
      2 * (rs_turnCount (mc_room m) - (case mc_phase m of Notifying f d \<Rightarrow> 1 | _ \<Rightarrow> 0)) \<and>
    distinct (rs_seen (mc_room m)) \<and>
    (rs_inFlight (mc_room m) \<longleftrightarrow> mc_phase m \<noteq> Idle) \<and>
    (rs_approvalInFlight (mc_room m) \<longleftrightarrow> mc_approving m \<noteq> None) \<and>
    (rs_status (mc_room m) = RoomClosed \<longleftrightarrow> rs_closedAt (mc_room m) \<noteq> None) \<and>
    (rs_conclusionConfirmed (mc_room m) \<longrightarrow> rs_status (mc_room m) = RoomClosed)"
  using room_reachable_inv [OF assms]
  by (auto simp: machine_inv_def inv_defs policy_ok_def hard_limits split: phase.splits)

theorem diagnosis_room_invariant_witness:
  "\<exists>m. room_reachable demo_lib demo_versions demo_input m \<and> rs_turnCount (mc_room m) = 1 \<and>
     length (rs_conversation (mc_room m)) = 2 \<and> \<not> rs_inFlight (mc_room m)"
proof -
  obtain m where m: "demo_run demo_answered = Some m" "rs_turnCount (mc_room m) = 1" "mc_phase m = Idle"
    using demo_answered_state by blast
  from demo_run_reachable [OF m(1)] show ?thesis
    using diagnosis_room_invariant [OF demo_run_reachable [OF m(1)]] m(2,3) by auto
qed

text \<open>
  C2: once a room is closed, no further event changes its status, its closing time, the reason and
  the actor it was closed with, or whether its conclusion was confirmed.
\<close>

theorem closed_room_is_frozen:
  assumes "room_run lib v m es = Some m'" "rs_status (mc_room m) = RoomClosed"
  shows "rs_status (mc_room m') = RoomClosed \<and> rs_closedAt (mc_room m') = rs_closedAt (mc_room m) \<and>
    rs_closeReason (mc_room m') = rs_closeReason (mc_room m) \<and>
    rs_closeActorSubject (mc_room m') = rs_closeActorSubject (mc_room m) \<and>
    rs_conclusionConfirmed (mc_room m') = rs_conclusionConfirmed (mc_room m)"
  using room_run_closed [OF assms] assms(2) by (simp add: terminal_def)

theorem closed_room_is_frozen_witness:
  "\<exists>m m'. room_run demo_lib demo_versions m [EvSubmit demo_request2 5000000] = Some m' \<and>
     rs_closeReason (mc_room m) = ''cancelled'' \<and> rs_closeReason (mc_room m') = ''cancelled''"
proof -
  obtain m m' where m: "rs_status (mc_room m) = RoomClosed" "rs_closeReason (mc_room m) = ''cancelled''"
    "room_step demo_lib demo_versions m (EvSubmit demo_request2 5000000) = Some m'"
    using demo_closing_state by blast
  then have run: "room_run demo_lib demo_versions m [EvSubmit demo_request2 5000000] = Some m'"
    by (simp del: room_step.simps)
  have "rs_closeReason (mc_room m') = ''cancelled''"
    using closed_room_is_frozen [OF run m(1)] m(2) by simp
  with run m(2) show ?thesis by blast
qed

text \<open>
  C3: where the approval workflow is on, the step that confirms the conclusion closes the room,
  and the approvals recorded for the confirmed digest are a complete quorum for the room's
  approval mode: with both the owner's and a leader's approval required, two different people have
  approved exactly this digest, one as owner and one as leader.
\<close>

theorem confirmation_needs_quorum:
  assumes "room_reachable lib v i m" "rv_multiStakeholderApproval v \<ge> 1"
    and "room_step lib v m e = Some m'"
    and "\<not> rs_conclusionConfirmed (mc_room m)" "rs_conclusionConfirmed (mc_room m')"
  shows "rs_status (mc_room m') = RoomClosed \<and>
    PendingAuthorities (wi_ApprovalMode (rs_input (mc_room m)))
      (approvalsForConclusion (rs_approvals (mc_room m')) (rs_conclusionDigest (mc_room m'))) = Inr [] \<and>
    (wi_ApprovalMode (rs_input (mc_room m)) = ApprovalModeOwnerAndLeader \<longrightarrow>
      (\<exists>a \<in> set (rs_approvals (mc_room m')). \<exists>b \<in> set (rs_approvals (mc_room m')).
         sa_ConclusionDigest a = rs_conclusionDigest (mc_room m') \<and>
         sa_ConclusionDigest b = rs_conclusionDigest (mc_room m') \<and>
         sa_Authority a = ApprovalAuthorityOwner \<and> sa_Authority b = ApprovalAuthorityLeader \<and>
         sa_ActorSubject a \<noteq> sa_ActorSubject b))"
proof -
  obtain f res now where m': "m' = approved_step m f res now"
    using room_step_confirms [OF assms(3-5)] room_reachable_ch [OF assms(1,2)] by blast
  have quorum: "rs_status (mc_room m') = RoomClosed"
    "PendingAuthorities (wi_ApprovalMode (rs_input (mc_room m)))
      (approvalsForConclusion (rs_approvals (mc_room m')) (rs_conclusionDigest (mc_room m'))) = Inr []"
    using approved_step_confirms [OF assms(4) assms(5) [unfolded m']] m' by auto
  moreover have "\<exists>a \<in> set (rs_approvals (mc_room m')). \<exists>b \<in> set (rs_approvals (mc_room m')).
      sa_ConclusionDigest a = rs_conclusionDigest (mc_room m') \<and>
      sa_ConclusionDigest b = rs_conclusionDigest (mc_room m') \<and>
      sa_Authority a = ApprovalAuthorityOwner \<and> sa_Authority b = ApprovalAuthorityLeader \<and>
      sa_ActorSubject a \<noteq> sa_ActorSubject b"
    if "wi_ApprovalMode (rs_input (mc_room m)) = ApprovalModeOwnerAndLeader"
    by (rule quorum_both [OF quorum(2) [unfolded that]]) (auto simp: approvalsForConclusion_def)
  ultimately show ?thesis by blast
qed

theorem confirmation_needs_quorum_witness:
  "\<exists>m m'. room_step demo_lib demo_versions m demo_last = Some m' \<and>
     rs_status (mc_room m') = RoomClosed \<and>
     (\<exists>a \<in> set (rs_approvals (mc_room m')). \<exists>b \<in> set (rs_approvals (mc_room m')).
        sa_ActorSubject a \<noteq> sa_ActorSubject b)"
proof -
  obtain m m' where m: "demo_run demo_approving = Some m" "\<not> rs_conclusionConfirmed (mc_room m)"
    "wi_ApprovalMode (rs_input (mc_room m)) = ApprovalModeOwnerAndLeader"
    "room_step demo_lib demo_versions m demo_last = Some m'" "rs_conclusionConfirmed (mc_room m')"
    using demo_approving_state by blast
  have "rv_multiStakeholderApproval demo_versions \<ge> 1" by (simp add: demo_versions_def)
  from confirmation_needs_quorum [OF demo_run_reachable [OF m(1)] this m(4,2,5)] m(3,4)
  show ?thesis by blast
qed

text \<open>
  C4: a room that nobody touches is closed by its own timer: if the main loop of a reachable room
  waits at time \<open>now\<close> and nothing happens for the delay it has computed, the timer closes it.
\<close>

theorem abandoned_room_closes:
  assumes "room_reachable lib v i m" "selecting m"
    and "rs_startedAt (mc_room m) \<le> now" "rs_lastActivityAt (mc_room m) \<le> now"
  shows "0 < nextTimerDelay (mc_room m) now \<and>
    (\<exists>m'. room_step lib v m (EvTimer (now + nextTimerDelay (mc_room m) now)) = Some m' \<and>
       rs_status (mc_room m') = RoomClosed)"
proof -
  have "policy_ok (rs_policy (mc_room m))"
    using room_reachable_inv [OF assms(1)] by (simp add: machine_inv_def room_ok_def)
  from closeIfExpired_closes [OF timer_closes [OF this assms(3,4)]] assms(2)
  show ?thesis by (simp add: nextTimerDelay_pos set_room_def)
qed

theorem abandoned_room_closes_witness:
  "\<exists>m m' t. room_reachable demo_lib demo_versions demo_input m \<and> rs_status (mc_room m) = RoomOpen \<and>
     room_step demo_lib demo_versions m (EvTimer t) = Some m' \<and> rs_status (mc_room m') = RoomClosed"
proof -
  obtain m where m: "demo_run demo_answered = Some m" "rs_status (mc_room m) = RoomOpen" "selecting m"
    using demo_answered_state by blast
  define now where "now = max (rs_startedAt (mc_room m)) (rs_lastActivityAt (mc_room m))"
  have le: "rs_startedAt (mc_room m) \<le> now" "rs_lastActivityAt (mc_room m) \<le> now"
    by (simp_all add: now_def)
  from abandoned_room_closes [OF demo_run_reachable [OF m(1)] m(3) le] demo_run_reachable [OF m(1)] m(2)
  show ?thesis by blast
qed

section \<open>Evidence that is still missing\<close>

text \<open>
  C5: whatever the assistant answers, a turn goes on with the list of missing evidence of that
  answer, followed by requests of earlier turns that no operator has supplied and that the answer
  does not repeat, to at most ten unless the answer alone has more. An earlier request with a key
  that is still unresolved is in that list unless the list is full (the requests that find no place
  are dropped); and in either case the output of the turn is not final and asks for a human review.
\<close>

theorem missing_evidence_is_kept:
  assumes "turn_activities lib v s f oc = Inr td" "oc_Activity oc = Inr ar"
  shows "(\<exists>new. to_MissingEvidenceRequests (ar_Output (td_Activity td)) = to_MissingEvidenceRequests (ar_Output ar) @ new \<and>
      (length (to_MissingEvidenceRequests (ar_Output ar)) \<le> 10 \<longrightarrow>
         length (to_MissingEvidenceRequests (ar_Output (td_Activity td))) \<le> 10) \<and>
      (\<forall>r \<in> set new. request_key lib r \<notin> request_key lib ` set (to_MissingEvidenceRequests (ar_Output ar)) \<and>
         request_key lib r \<notin> set (resolvedSupplementalEvidenceTopicKeys lib s (tr_SupplementalEvidence (tf_Req f))) \<and>
         (\<exists>e \<in> set (rs_confidenceTimeline s). r \<in> set (cl_MissingEvidenceRequests e)))) \<and>
    (\<forall>e \<in> set (rs_confidenceTimeline s). \<forall>r \<in> set (cl_MissingEvidenceRequests e).
      request_key lib r \<noteq> [] \<and>
      request_key lib r \<notin> set (resolvedSupplementalEvidenceTopicKeys lib s (tr_SupplementalEvidence (tf_Req f))) \<longrightarrow>
      (request_key lib r \<in> request_key lib ` set (to_MissingEvidenceRequests (ar_Output (td_Activity td))) \<or>
         10 \<le> length (to_MissingEvidenceRequests (ar_Output (td_Activity td)))) \<and>
      TrimSpace (to_ConclusionStatus (ar_Output (td_Activity td))) \<noteq> ''final'' \<and>
      to_RequiresHumanReview (ar_Output (td_Activity td)))" (is "?added \<and> ?kept")
proof (intro conjI ballI impI)
  let ?was = "to_MissingEvidenceRequests (ar_Output ar)" and ?out = "ar_Output (td_Activity td)"
  obtain changed where out: "preserveUnresolvedMissingEvidenceRequests lib s (tf_Req f) (ar_Output ar) = (?out, changed)"
    using turn_activities_output [OF assms] by (metis surjective_pairing)
  note now = preserve_missing [OF out]
  obtain new where new: "merged_missing lib s (tf_Req f) ?was = ?was @ new"
    "length ?was \<le> 10 \<longrightarrow> length (?was @ new) \<le> 10"
    using merged_missing_prefix [of lib s "tf_Req f" ?was] by (auto simp: maxConsultationEvidenceRequests_def)
  show ?added
    by (rule exI [of _ new]) (use now new merged_missing_new [OF new(1)] in auto)
  fix e r
  assume r: "e \<in> set (rs_confidenceTimeline s)" "r \<in> set (cl_MissingEvidenceRequests e)"
    and k: "request_key lib r \<noteq> [] \<and>
      request_key lib r \<notin> set (resolvedSupplementalEvidenceTopicKeys lib s (tr_SupplementalEvidence (tf_Req f)))"
  show listed: "request_key lib r \<in> request_key lib ` set (to_MissingEvidenceRequests ?out) \<or>
      10 \<le> length (to_MissingEvidenceRequests ?out)"
    using merged_missing_retains [OF _ r] k now by (auto simp: maxConsultationEvidenceRequests_def not_less)
  then have "to_MissingEvidenceRequests ?out \<noteq> []" by auto
  with preserve_not_final [OF out] show "TrimSpace (to_ConclusionStatus ?out) \<noteq> ''final''" "to_RequiresHumanReview ?out"
    by blast+
qed

definition demo_frame :: turn_frame where
  "demo_frame = \<lparr>tf_Req = demo_request, tf_ContextBytes = 100, tf_Evidence = ''{}'', tf_UserOccurredAt = 2000000,
     tf_Root = ''m1'', tf_Index = 0, tf_FollowUps = True, tf_CollectionVersion = 1, tf_Initial = False\<rparr>"

text \<open>The assistant calls its answer final and asks for nothing; the logs of an earlier turn are still missing.\<close>

theorem missing_evidence_is_kept_witness:
  "\<exists>td. turn_activities demo_lib demo_versions demo_unresolved demo_frame demo_outcome = Inr td \<and>
     TrimSpace (to_ConclusionStatus demo_output) = ''final'' \<and> to_MissingEvidenceRequests demo_output = [] \<and>
     request_key demo_lib demo_missing \<in> request_key demo_lib ` set (to_MissingEvidenceRequests (ar_Output (td_Activity td))) \<and>
     TrimSpace (to_ConclusionStatus (ar_Output (td_Activity td))) \<noteq> ''final''"
proof -
  let ?run = "turn_activities demo_lib demo_versions demo_unresolved demo_frame demo_outcome"
  have "case ?run of Inl e \<Rightarrow> False | Inr td \<Rightarrow> length (to_MissingEvidenceRequests (ar_Output (td_Activity td))) = 1"
    by code_simp
  then obtain td where td: "?run = Inr td" "length (to_MissingEvidenceRequests (ar_Output (td_Activity td))) = 1"
    by (auto split: sum.splits)
  have ar: "oc_Activity demo_outcome = Inr demo_activity" by (simp add: demo_outcome_def)
  have "demo_confidence \<in> set (rs_confidenceTimeline demo_unresolved)"
    "demo_missing \<in> set (cl_MissingEvidenceRequests demo_confidence)"
    by (simp_all add: demo_unresolved_def demo_confidence_def)
  moreover have "request_key demo_lib demo_missing \<noteq> []" by code_simp
  moreover have "request_key demo_lib demo_missing \<notin> set (resolvedSupplementalEvidenceTopicKeys demo_lib
      demo_unresolved (tr_SupplementalEvidence (tf_Req demo_frame)))" by code_simp
  moreover have "TrimSpace (to_ConclusionStatus demo_output) = ''final''" by code_simp
  moreover have "to_MissingEvidenceRequests demo_output = []" by (simp add: demo_output_def)
  ultimately show ?thesis using missing_evidence_is_kept [OF td(1) ar] td by fastforce
qed

text \<open>
  With the evidence guard on, a conclusion can only be confirmed in an open room with no turn
  and no approval in flight, when every failed, skipped or unsupported collection of the latest
  cycle has been answered by reviewed operator evidence, no planned collection of the latest cycle
  or of the retained conclusion is pending, and any evidence the latest insight still misses has
  been reviewed.
\<close>

theorem confirmation_guard:
  assumes "validateConfirmConclusion lib v s req = Inr ()" "rv_confirmEvidenceGuard v \<ge> 1"
  shows "rs_status s = RoomOpen \<and> \<not> rs_inFlight s \<and> \<not> rs_approvalInFlight s \<and>
    (\<forall>item \<in> set (rs_latestCollectionResults s).
       TrimSpace (it_Status item) \<in> {StatusFailed, StatusSkipped, StatusUnsupported} \<longrightarrow>
       confirmAllowsReviewedCollectionEvidence lib s item (latestAssistantSequence s)) \<and>
    pendingDiagnosisRoomEvidenceRequests (rs_latestEvidenceRequests s) (rs_latestCollectionResults s) = [] \<and>
    (\<forall>c. rs_finalConclusion s = Some c \<longrightarrow>
       pendingDiagnosisRoomEvidenceRequests (fc_EvidenceRequests c) (rs_latestCollectionResults s) = []) \<and>
    (\<forall>i. rs_latestInsight s = Some i \<longrightarrow> ci_MissingEvidenceRequests i \<noteq> [] \<longrightarrow>
       confirmAllowsReviewedMissingEvidence lib s (ci_MissingEvidenceRequests i) (ci_ConclusionStatus i)
         (latestAssistantSequence s))"
  using validateConfirmConclusion_InrD [OF assms(1)]
    confirmEvidenceBlockReason_clear [OF validateConfirmConclusion_InrD(7) [OF assms]]
  by (auto simp: unresolved_item_def)

theorem confirmation_guard_witness:
  "\<exists>m. demo_run demo_answered = Some m \<and>
     validateConfirmConclusion demo_lib demo_versions (mc_room m)
       \<lparr>cz_Reason = [], cz_ActorSubject = ''alice''\<rparr> = Inr () \<and>
     pendingDiagnosisRoomEvidenceRequests (rs_latestEvidenceRequests (mc_room m))
       (rs_latestCollectionResults (mc_room m)) = []"
proof -
  have "case demo_run demo_answered of None \<Rightarrow> False | Some m \<Rightarrow>
      validateConfirmConclusion demo_lib demo_versions (mc_room m)
        \<lparr>cz_Reason = [], cz_ActorSubject = ''alice''\<rparr> = Inr ()"
    by code_simp
  then obtain m where m: "demo_run demo_answered = Some m"
    "validateConfirmConclusion demo_lib demo_versions (mc_room m)
       \<lparr>cz_Reason = [], cz_ActorSubject = ''alice''\<rparr> = Inr ()"
    by (blast dest: some_state)
  have "rv_confirmEvidenceGuard demo_versions \<ge> 1" by (simp add: demo_versions_def)
  from confirmation_guard [OF m(2) this] m show ?thesis by blast
qed

section \<open>Admission\<close>




text \<open>
  a manual evidence collection is only admitted to an open room that has had a turn and has
  none in flight, under a new identifier, with one to five requests that are pairwise different,
  each within the bounds of its tool, and each either planned by the assistant and still pending,
  or retryable, or limited to an alert source of the room's own evidence snapshot.
\<close>

theorem collection_admission:
  assumes "validateCollectEvidence lib s req = Inr ()"
  shows "rs_status s = RoomOpen \<and> \<not> rs_inFlight s \<and> 0 < rs_turnCount s \<and>
    cq_MessageID req \<notin> set (rs_seen s) \<and>
    1 \<le> length (cq_Requests req) \<and> length (cq_Requests req) \<le> 5 \<and>
    distinct (map diagnosisRoomEvidenceRequestIdentity (cq_Requests req)) \<and>
    (\<forall>r \<in> set (cq_Requests req).
       DiagnosisToolKind_Valid (er_Tool r) \<and> 0 \<le> er_Limit r \<and> er_Limit r \<le> 20 \<and>
       er_Reason r \<noteq> [] \<and> length (er_Reason r) \<le> 500 \<and> length (er_Query r) \<le> 500 \<and>
       er_WindowSeconds r \<le> 21600 \<and>
       (diagnosisRoomEvidenceRequestIdentity r \<in> set (approved_requests s) \<or>
        er_AlertSourceProfileID r > 0 \<and>
        er_AlertSourceProfileID r \<in> set (diagnosisRoomEvidenceSourceProfileIDs lib (wi_Evidence (rs_input s)))))"
proof -
  note admitted = validateCollectEvidence_InrD [OF assms]
  have approved: "distinct (map diagnosisRoomEvidenceRequestIdentity (cq_Requests req)) \<and>
      (\<forall>r \<in> set (cq_Requests req). diagnosisRoomEvidenceRequestIdentity r \<in> set (approved_requests s) \<or>
        er_AlertSourceProfileID r > 0 \<and>
        er_AlertSourceProfileID r \<in> set (diagnosisRoomEvidenceSourceProfileIDs lib (wi_Evidence (rs_input s))))"
    using check_approved_Inr [OF admitted(10) [unfolded validateManualEvidenceRequestsApproved_def]]
    by (auto simp: diagnosisRoomManualEvidenceRequestMatchesRoomScope_def split: if_splits)
  have "1 \<le> length (cq_Requests req)" using admitted(7) by (cases "cq_Requests req") auto
  moreover have "er_WindowSeconds r \<le> 21600" if "r \<in> set (cq_Requests req)" for r
    using validateManualEvidenceRequest_range admitted(9) that by fastforce
  ultimately show ?thesis
    using admitted approved validateManualEvidenceRequest_bounds by blast
qed

theorem collection_admission_witness:
  "validateCollectEvidence demo_lib demo_collecting demo_collect_request = Inr () \<and>
   length (cq_Requests demo_collect_request) \<le> 5"
proof -
  have ok: "validateCollectEvidence demo_lib demo_collecting demo_collect_request = Inr ()" by code_simp
  with collection_admission [OF ok] show ?thesis by blast
qed

section \<open>Approvals\<close>

text \<open>
  when a set of approvals is a complete quorum: no two are by the same person or in the same
  capacity, and there is exactly one of them in single mode, and one of the owner and one of a
  leader when both are required.
\<close>

theorem approval_quorum:
  "PendingAuthorities mode as = Inr [] \<longleftrightarrow>
     distinct_approvals as \<and>
     (mode = ApprovalModeSingle \<and> length as = 1 \<or>
      mode = ApprovalModeOwnerAndLeader \<and>
        sa_Authority ` set as = {ApprovalAuthorityOwner, ApprovalAuthorityLeader})"
proof (cases "distinct_approvals as")
  case False
  then show ?thesis by (simp add: PendingAuthorities_Inr)
next
  case True
  then have "sa_Authority ` set as \<subseteq> {ApprovalAuthorityOwner, ApprovalAuthorityLeader}"
    unfolding distinct_approvals_def DiagnosisApprovalAuthority_Valid_def by blast
  then have both: "filter (\<lambda>a. a \<notin> sa_Authority ` set as) [ApprovalAuthorityOwner, ApprovalAuthorityLeader] = [] \<longleftrightarrow>
      sa_Authority ` set as = {ApprovalAuthorityOwner, ApprovalAuthorityLeader}"
    unfolding filter_empty_conv by auto
  have one: "length as \<le> 1 \<and> [] = (if as = [] then [ApprovalAuthorityOwner] else []) \<longleftrightarrow> length as = 1"
    by (cases as) simp_all
  show ?thesis
    unfolding PendingAuthorities_Inr eq_commute [of "[]" "filter _ _"] both using True one by blast
qed

text \<open>
  an approval is bound to one conclusion: two conclusions with the same digest have the same
  message, the same place in the transcript and the same text, up to surrounding white space, for
  a digest function without collisions and texts in UTF-8.
\<close>

theorem digest_identifies_conclusion:
  assumes "ConclusionDigest sha a i c = Inr h" "ConclusionDigest sha b j d = Inr h" "inj sha"
    and "valid_utf8 (TrimSpace a)" "valid_utf8 (TrimSpace b)" "valid_utf8 (TrimSpace c)"
      "valid_utf8 (TrimSpace d)"
  shows "TrimSpace a = TrimSpace b \<and> i = j \<and> TrimSpace c = TrimSpace d"
  using assms(3) by (intro ConclusionDigest_inj [OF assms(1,2) _ assms(4-7)]) (rule injD)

theorem digest_identifies_conclusion_witness:
  "\<exists>h. ConclusionDigest (\<lambda>s. s) ''m1'' 2 ''disk full'' = Inr h \<and>
     ConclusionDigest (\<lambda>s. s) ''m1'' 2 '' disk full'' = Inr h \<and>
     TrimSpace ''disk full'' = TrimSpace '' disk full''"
proof -
  have trim: "TrimSpace ''m1'' = ''m1''" "TrimSpace ''disk full'' = ''disk full''"
    "TrimSpace '' disk full'' = ''disk full''" by code_simp+
  have "is_ascii ''m1''" "is_ascii ''disk full''" by code_simp+
  note utf8 = this [THEN valid_utf8_ascii]
  obtain h where h: "ConclusionDigest (\<lambda>s. s) ''m1'' 2 ''disk full'' = Inr h"
    "ConclusionDigest (\<lambda>s. s) ''m1'' 2 '' disk full'' = Inr h"
    by (simp add: ConclusionDigest_def trim)
  have "inj (\<lambda>s::string. s)" by (simp add: inj_def)
  then have "TrimSpace ''disk full'' = TrimSpace '' disk full''"
    using digest_identifies_conclusion [OF h] by (simp add: trim utf8)
  with h show ?thesis by blast
qed

text \<open>
  The conclusion taken from a stored transcript is its last message: the transcript has two
  messages per turn, numbered from one, alternating between user and assistant, and the digest is
  that of the last one, which is the assistant's.
\<close>

theorem persisted_conclusion_is_last:
  assumes "LatestPersistedConclusion sha s turns = Inr (t, h)"
  shows "canonical_transcript (cs_ID s) turns \<and> int (length turns) = 2 * cs_TurnCount s \<and>
    turns \<noteq> [] \<and> t = last turns \<and> ct_Role t = ChatRoleAssistant \<and>
    ct_Sequence t = int (length turns) \<and>
    ConclusionDigest sha (ct_MessageID t) (ct_Sequence t) (ct_Content t) = Inr h"
  using LatestPersistedConclusion_Inr [OF assms] by simp

definition demo_session :: ChatSession where
  "demo_session = \<lparr>cs_ID = 9, cs_DiagnosisTaskID = 7, cs_SessionKey = ''s'', cs_OwnerSubject = ''alice'',
     cs_Status = ''open'', cs_TurnCount = 1, cs_StartedAt = 1000, cs_LastActivityAt = 3000,
     cs_ClosedAt = None, cs_CloseReason = [], cs_ApprovalMode = ''single'', cs_CreatedAt = 0,
     cs_UpdatedAt = 0\<rparr>"

definition demo_turn :: "int \<Rightarrow> string \<Rightarrow> string \<Rightarrow> ChatTurn" where
  "demo_turn i role content = \<lparr>ct_ID = i, ct_SessionID = 9, ct_MessageID = ''m'', ct_Sequence = i,
     ct_Role = role, ct_ActorSubject = ''alice'', ct_Content = content, ct_Metadata = ''{}'',
     ct_OccurredAt = 3000, ct_CreatedAt = 0\<rparr>"

theorem persisted_conclusion_is_last_witness:
  "\<exists>t h. LatestPersistedConclusion (\<lambda>s. s) demo_session
       [demo_turn 1 ''user'' ''why?'', demo_turn 2 ''assistant'' ''disk full''] = Inr (t, h) \<and>
     ct_Content t = ''disk full''"
proof -
  let ?turns = "[demo_turn 1 ''user'' ''why?'', demo_turn 2 ''assistant'' ''disk full'']"
  have "is_ok (LatestPersistedConclusion (\<lambda>s. s) demo_session ?turns)" by code_simp
  then obtain t h where th: "LatestPersistedConclusion (\<lambda>s. s) demo_session ?turns = Inr (t, h)"
    by (auto simp: is_ok_def)
  have "t = demo_turn 2 ''assistant'' ''disk full''"
    using persisted_conclusion_is_last [OF th] by simp
  with th show ?thesis by (auto simp: demo_turn_def)
qed

section \<open>An approval while the room moves on\<close>

text \<open>
  C15: an approval confirms the conclusion it was given for, whatever the room does while it is being
  recorded: when the completion of an approval confirms the room, the digest recorded is that of the
  conclusion the room held when the approval was asked for. That conclusion is an answer of the
  assistant with the approved text at its place in the final transcript, which only grew, and the room
  is closed by the person who approved. A turn in between may replace the conclusion that the room
  holds; the confirmation leaves that one as it is, and its digest is then another one.
\<close>

theorem approval_confirms_what_was_shown:
  assumes "room_reachable lib v i m0" "mc_approving m0 = None"
    and "room_step lib v m0 (EvConfirm req asked) = Some m1" "mc_approving m1 \<noteq> None"
    and "room_run lib v m1 es = Some m2" "\<forall>res t. EvApproved res t \<notin> set es"
    and "room_step lib v m2 (EvApproved recorded now) = Some m3"
    and "\<not> rs_conclusionConfirmed (mc_room m2)" "rs_conclusionConfirmed (mc_room m3)"
  shows "\<exists>digest messageID sequence content.
    currentConclusionIdentity lib (mc_room m0) = Inr (digest, messageID, sequence, content) \<and>
    rs_conclusionDigest (mc_room m3) = digest \<and>
    ConclusionDigest (rl_sha256_hex lib) messageID sequence content = Inr digest \<and>
    0 < sequence \<and> sequence \<le> int (length (rs_conversation (mc_room m3))) \<and>
    cv_Role (rs_conversation (mc_room m3) ! nat (sequence - 1)) = ''assistant'' \<and>
    cv_Content (rs_conversation (mc_room m3) ! nat (sequence - 1)) = content \<and>
    rs_status (mc_room m3) = RoomClosed \<and> rs_closeActorSubject (mc_room m3) = TrimSpace (cz_ActorSubject req) \<and>
    rs_finalConclusion (mc_room m3) = rs_finalConclusion (mc_room m2)"
proof -
  obtain f where f: "mc_approving m1 = Some f" using assms(4) by blast
  note start = confirm_starts_approval [OF assms(3,2) f]
  have r1: "room_reachable lib v i m1" using assms(1,3) by (rule reach_step)
  have "mc_approving m2 = Some f" by (rule room_run_approving [OF r1 assms(5) f assms(6)])
  then have m3: "m3 = approved_step m2 f recorded now" using assms(7) by (simp split: if_splits)
  note confirmed = approved_step_confirms [OF assms(8) assms(9) [unfolded m3]]
    approved_step_closes [OF assms(8) assms(9) [unfolded m3]]
  note source = currentConclusionIdentity_source [OF start(1)]
  have "prefix (rs_conversation (mc_room m0)) (rs_conversation (mc_room m3))"
    using room_step_conversation [OF assms(3)] room_run_conversation [OF assms(5)] room_step_conversation [OF assms(7)]
    by (meson prefix_order.trans)
  then obtain ts where ts: "rs_conversation (mc_room m3) = rs_conversation (mc_room m0) @ ts" by (auto simp: prefix_def)
  have at: "rs_conversation (mc_room m3) ! nat (af_AssistantSequence f - 1) =
      rs_conversation (mc_room m0) ! nat (af_AssistantSequence f - 1)"
    unfolding ts using source(1,2) by (intro nth_append_left) linarith
  have "af_AssistantSequence f \<le> int (length (rs_conversation (mc_room m3)))" using source(2) by (simp add: ts)
  moreover have "cv_Role (rs_conversation (mc_room m3) ! nat (af_AssistantSequence f - 1)) = ''assistant''"
    "cv_Content (rs_conversation (mc_room m3) ! nat (af_AssistantSequence f - 1)) = af_Content f"
    unfolding at by (rule source(3), rule source(4))
  ultimately show ?thesis
    using start source(1,5) confirmed [folded m3] by auto
qed

text \<open>
  Alice approves; while that is recorded, her second question gets another final answer. The room is
  closed under the digest of the first one, and the conclusion it holds has another digest.
\<close>

theorem approval_confirms_what_was_shown_witness:
  "\<exists>m0 m3 shown x. demo_run_single demo_answered = Some m0 \<and> demo_run_single demo_overtaken = Some m3 \<and>
     currentConclusionIdentity demo_lib (mc_room m0) = Inr shown \<and> rs_conclusionDigest (mc_room m3) = fst shown \<and>
     currentConclusionIdentity demo_lib (mc_room m3) = Inr x \<and> fst x \<noteq> fst shown"
proof -
  obtain m0 m1 m2 m3 x where m: "demo_run_single demo_answered = Some m0" "mc_approving m0 = None"
    "room_step demo_lib demo_versions m0 demo_confirm = Some m1" "mc_approving m1 \<noteq> None"
    "room_run demo_lib demo_versions m1 demo_meanwhile = Some m2" "\<not> rs_conclusionConfirmed (mc_room m2)"
    "room_step demo_lib demo_versions m2 demo_approved = Some m3" "rs_conclusionConfirmed (mc_room m3)"
    "currentConclusionIdentity demo_lib (mc_room m3) = Inr x" "fst x \<noteq> rs_conclusionDigest (mc_room m3)"
    using demo_overtaken_states by blast
  have "\<forall>res t. EvApproved res t \<notin> set demo_meanwhile" by (simp add: demo_meanwhile_def)
  from approval_confirms_what_was_shown [OF demo_run_single_reachable [OF m(1)] m(2) m(3) [unfolded demo_confirm_def]
      m(4,5) this m(7) [unfolded demo_approved_def] m(6,8)]
  obtain shown where shown: "currentConclusionIdentity demo_lib (mc_room m0) = Inr shown"
    "rs_conclusionDigest (mc_room m3) = fst shown" by fastforce
  have "demo_run_single demo_overtaken = Some m3"
    using m(1,3,5,7) by (simp add: demo_overtaken_def demo_run_single_append room_run_append del: room_step.simps)
  with m shown show ?thesis by (metis (no_types, lifting))
qed

end
