(* ===== verification/Alert_Grouping.thy ===== *)
theory Alert_Grouping
  imports Alert_Model Json_Encode
begin

text \<open>
  \<open>internal/usecases/alertgrouping/grouping.go\<close>: the deterministic grouping of persisted alert
  events. Buckets are an association list from the canonical dimension text to the events in
  arrival order, with the keys in the order of \<open>bucketOrder\<close>. The hash of a text is the argument
  \<open>sha256_hex\<close>. \<open>sort.Slice\<close> is a stable sort by the same key: where Go leaves the order of equal
  elements open they carry the same identifier. The lemmas show that the groups partition the
  events, that the result does not depend on the order of the events, and when it is an error.
\<close>

section \<open>Configuration\<close>

definition alertSourceProfileDimensionKey :: string where
  "alertSourceProfileDimensionKey = ''openclarion_alert_source_profile_id''"

record grouping_config =
  gc_DimensionKeys :: "string list"
  gc_SeverityKey :: string

definition DefaultConfig :: grouping_config where
  "DefaultConfig = \<lparr>gc_DimensionKeys = [''alertname''], gc_SeverityKey = ''severity''\<rparr>"

record normalizedConfig =
  nc_dimensionKeys :: "string list"
  nc_severityKey :: string

fun trim_dimension_keys :: "string list \<Rightarrow> string list \<Rightarrow> string list result" where
  "trim_dimension_keys [] keys = Inr keys"
| "trim_dimension_keys (k # ks) keys =
     (let trimmed = TrimSpace k in
      if trimmed = [] then
        Inl (invariant_error ''alertgrouping: dimension key is blank after trim'')
      else if trimmed \<in> set keys then trim_dimension_keys ks keys
      else trim_dimension_keys ks (keys @ [trimmed]))"

definition validateConfig :: "grouping_config \<Rightarrow> normalizedConfig result" where
  "validateConfig cfg =
     (case trim_dimension_keys (gc_DimensionKeys cfg) [] of
        Inl e \<Rightarrow> Inl e
      | Inr keys \<Rightarrow>
          if keys = [] then
            Inl (invariant_error ''alertgrouping: DimensionKeys must be non-empty'')
          else let sevKey = TrimSpace (gc_SeverityKey cfg) in
            if sevKey = [] then
              Inl (invariant_error ''alertgrouping: SeverityKey is blank after trim'')
            else Inr \<lparr>nc_dimensionKeys = sort keys, nc_severityKey = sevKey\<rparr>)"

section \<open>Dimensions\<close>

definition dimensionSubset :: "smap \<Rightarrow> string list \<Rightarrow> smap" where
  "dimensionSubset labels keys = fold (\<lambda>k m. smap_put m k (smap_get labels k)) keys []"

definition addAlertSourceProfileDimension :: "smap \<Rightarrow> int \<Rightarrow> smap" where
  "addAlertSourceProfileDimension dims i =
     (if i \<le> 0 then dims else smap_put dims alertSourceProfileDimensionKey (decimal (nat i)))"

definition canonicalDimensionsJSON :: "smap option \<Rightarrow> string result" where
  "canonicalDimensionsJSON dims = Inr (json_map (nil_to_empty dims))"

section \<open>Severity\<close>

definition severityRank :: "string \<Rightarrow> nat" where
  "severityRank value =
     (if value = GroupSeverityCritical then 3
      else if value = GroupSeverityWarning then 2
      else if value = GroupSeverityInfo then 1 else 0)"

definition maxSeverity :: "string \<Rightarrow> string \<Rightarrow> string" where
  "maxSeverity a b = (if severityRank b > severityRank a then b else a)"

definition extractSeverity :: "(string \<Rightarrow> string) \<Rightarrow> smap \<Rightarrow> string \<Rightarrow> string" where
  "extractSeverity unicode_lower labels key =
     (case map_of labels key of
        None \<Rightarrow> GroupSeverityUnknown
      | Some raw \<Rightarrow>
          let v = TrimSpace (ToLower unicode_lower raw) in
          if v = ''critical'' then GroupSeverityCritical
          else if v = ''warning'' then GroupSeverityWarning
          else if v = ''info'' then GroupSeverityInfo
          else GroupSeverityUnknown)"

section \<open>Grouping\<close>

type_synonym buckets = "(string \<times> AlertEvent list) list"

fun bucket_add :: "buckets \<Rightarrow> string \<Rightarrow> AlertEvent \<Rightarrow> buckets" where
  "bucket_add [] key e = [(key, [e])]"
| "bucket_add (b # bs) key e =
     (if fst b = key then (key, snd b @ [e]) # bs else b # bucket_add bs key e)"

definition event_dimensions :: "normalizedConfig \<Rightarrow> AlertEvent \<Rightarrow> smap" where
  "event_dimensions ncfg e =
     addAlertSourceProfileDimension (dimensionSubset (ae_Labels e) (nc_dimensionKeys ncfg))
       (ae_AlertSourceProfileID e)"

fun bucket_events :: "normalizedConfig \<Rightarrow> AlertEvent list \<Rightarrow> buckets \<Rightarrow> buckets result" where
  "bucket_events ncfg [] bs = Inr bs"
| "bucket_events ncfg (e # es) bs =
     (case canonicalDimensionsJSON (Some (event_dimensions ncfg e)) of
        Inl er \<Rightarrow> Inl (wrap_error ''alertgrouping: canonical dimensions json'' er)
      | Inr key \<Rightarrow> bucket_events ncfg es (bucket_add bs key e))"

definition first_seen :: "AlertEvent list \<Rightarrow> go_time" where
  "first_seen es =
     foldl (\<lambda>t e. if ae_StartsAt e < t then ae_StartsAt e else t) (ae_StartsAt (hd es)) (tl es)"

definition last_seen :: "AlertEvent list \<Rightarrow> go_time" where
  "last_seen es =
     foldl (\<lambda>t e. if ae_StartsAt e > t then ae_StartsAt e else t) (ae_StartsAt (hd es)) (tl es)"

definition group_severity :: "(string \<Rightarrow> string) \<Rightarrow> string \<Rightarrow> AlertEvent list \<Rightarrow> string" where
  "group_severity unicode_lower key es =
     foldl (\<lambda>s e. maxSeverity s (extractSeverity unicode_lower (ae_Labels e) key))
       GroupSeverityUnknown es"

definition build_group ::
  "(string \<Rightarrow> string) \<Rightarrow> (string \<Rightarrow> string) \<Rightarrow> normalizedConfig \<Rightarrow> string \<times> AlertEvent list
   \<Rightarrow> AlertGroup result" where
  "build_group sha256_hex unicode_lower ncfg b =
     (case NewAlertGroup (sha256_hex (fst b)) (fst b)
         (group_severity unicode_lower (nc_severityKey ncfg) (snd b))
         (int (length (snd b))) (first_seen (snd b)) (last_seen (snd b))
         (map ae_ID (sort_key (\<lambda>e. (ae_StartsAt e, ae_ID e)) (snd b))) of
        Inl e \<Rightarrow> Inl (wrap_error ''alertgrouping: building group'' e)
      | Inr g \<Rightarrow> Inr g)"

fun build_groups ::
  "(string \<Rightarrow> string) \<Rightarrow> (string \<Rightarrow> string) \<Rightarrow> normalizedConfig \<Rightarrow> buckets \<Rightarrow> AlertGroup list result" where
  "build_groups sha256_hex unicode_lower ncfg [] = Inr []"
| "build_groups sha256_hex unicode_lower ncfg (b # bs) =
     (case build_group sha256_hex unicode_lower ncfg b of
        Inl e \<Rightarrow> Inl e
      | Inr g \<Rightarrow> bindE (build_groups sha256_hex unicode_lower ncfg bs) (\<lambda>gs. Inr (g # gs)))"

fun check_events :: "AlertEvent list \<Rightarrow> unit result" where
  "check_events [] = Inr ()"
| "check_events (e # es) =
     (if ae_ID e = 0 then
        Inl (invariant_error ''alertgrouping: event has zero ID (input must be persisted)'')
      else if IsZero (ae_StartsAt e) then
        Inl (invariant_error ''alertgrouping: event has zero StartsAt'')
      else check_events es)"

definition GroupEvents ::
  "(string \<Rightarrow> string) \<Rightarrow> (string \<Rightarrow> string) \<Rightarrow> AlertEvent list \<Rightarrow> grouping_config
   \<Rightarrow> AlertGroup list result" where
  "GroupEvents sha256_hex unicode_lower events cfg =
     (if events = [] then Inr []
      else case validateConfig cfg of
        Inl e \<Rightarrow> Inl e
      | Inr ncfg \<Rightarrow>
          (case check_events events of
             Inl e \<Rightarrow> Inl e
           | Inr _ \<Rightarrow>
               (case bucket_events ncfg events [] of
                  Inl e \<Rightarrow> Inl e
                | Inr bs \<Rightarrow>
                    (case build_groups sha256_hex unicode_lower ncfg bs of
                       Inl e \<Rightarrow> Inl e
                     | Inr groups \<Rightarrow>
                         Inr (sort_key (\<lambda>g. (ag_FirstSeenAt g, ag_GroupKey g)) groups)))))"

section \<open>Buckets\<close>

definition event_key :: "normalizedConfig \<Rightarrow> AlertEvent \<Rightarrow> string" where
  "event_key ncfg e = json_map (event_dimensions ncfg e)"

text \<open>The buckets of a list of events: one per key, each with the events of that key in order.\<close>

definition buckets_of :: "(AlertEvent \<Rightarrow> string) \<Rightarrow> AlertEvent list \<Rightarrow> buckets \<Rightarrow> bool" where
  "buckets_of key es bs \<longleftrightarrow> distinct (map fst bs) \<and>
     (\<forall>k. map_of bs k = (if k \<in> key ` set es then Some (filter (\<lambda>e. key e = k) es) else None))"

lemma map_of_bucket_add:
  "map_of (bucket_add bs k e) =
     (map_of bs)(k \<mapsto> (case map_of bs k of None \<Rightarrow> [e] | Some b \<Rightarrow> b @ [e]))"
  by (induction bs k e rule: bucket_add.induct) (auto simp: fun_eq_iff)

lemma fst_bucket_add:
  "map fst (bucket_add bs k e) = (if k \<in> fst ` set bs then map fst bs else map fst bs @ [k])"
  by (induction bs k e rule: bucket_add.induct) auto

lemma buckets_of_add: "buckets_of key es bs \<Longrightarrow> buckets_of key (es @ [e]) (bucket_add bs (key e) e)"
  by (auto simp: buckets_of_def fst_bucket_add map_of_bucket_add filter_empty_conv
      split: if_splits intro: rev_image_eqI)

lemma bucket_events_eq:
  "bucket_events ncfg (e # es) bs = bucket_events ncfg es (bucket_add bs (event_key ncfg e) e)"
  by (simp add: canonicalDimensionsJSON_def nil_to_empty_def event_key_def)

lemma bucket_events_spec:
  "buckets_of (event_key ncfg) done' bs \<Longrightarrow>
     \<exists>bs'. bucket_events ncfg es bs = Inr bs' \<and> buckets_of (event_key ncfg) (done' @ es) bs'"
proof (induction es arbitrary: done' bs)
  case (Cons e es)
  from Cons.IH [OF buckets_of_add [OF Cons.prems, of e]] show ?case
    by (simp only: bucket_events_eq append_assoc append_Cons append_Nil)
qed simp

lemma bucket_events_total:
  "\<exists>bs. bucket_events ncfg es [] = Inr bs \<and> buckets_of (event_key ncfg) es bs"
  using bucket_events_spec [of ncfg "[]" "[]" es] by (simp add: buckets_of_def)

lemma buckets_of_iff:
  assumes "buckets_of key es bs"
  shows "(k, b) \<in> set bs \<longleftrightarrow> k \<in> key ` set es \<and> b = filter (\<lambda>e. key e = k) es"
proof -
  have d: "distinct (map fst bs)"
    and m: "map_of bs k = (if k \<in> key ` set es then Some (filter (\<lambda>e. key e = k) es) else None)"
    using assms by (simp_all add: buckets_of_def)
  have "(k, b) \<in> set bs \<longleftrightarrow> map_of bs k = Some b" using d by (metis map_of_eq_Some_iff)
  then show ?thesis unfolding m by auto
qed

lemma buckets_of_keys: "buckets_of key es bs \<Longrightarrow> set (map fst bs) = key ` set es"
  using buckets_of_iff [of key es bs] by (auto intro!: image_eqI [where f = fst])

lemma mset_partition:
  "distinct ks \<Longrightarrow> key ` set es \<subseteq> set ks \<Longrightarrow>
     mset (concat (map (\<lambda>k. filter (\<lambda>e. key e = k) es) ks)) = mset es"
proof (induction ks arbitrary: es)
  case (Cons k ks)
  let ?es = "filter (\<lambda>e. key e \<noteq> k) es"
  have "map (\<lambda>k. filter (\<lambda>e. key e = k) es) ks = map (\<lambda>k. filter (\<lambda>e. key e = k) ?es) ks"
    using Cons.prems(1) by (intro map_cong refl) (auto intro: filter_cong)
  moreover have "mset (concat (map (\<lambda>k. filter (\<lambda>e. key e = k) ?es) ks)) = mset ?es"
    using Cons.prems by (intro Cons.IH) auto
  ultimately have "mset (concat (map (\<lambda>k. filter (\<lambda>e. key e = k) es) ks)) = mset ?es"
    by (simp only:)
  then show ?case by (simp add: multiset_partition [of "mset es" "\<lambda>e. key e = k", symmetric])
qed simp

lemma buckets_of_mset:
  assumes "buckets_of key es bs"
  shows "mset (concat (map snd bs)) = mset es"
proof -
  have "map snd bs = map (\<lambda>k. filter (\<lambda>e. key e = k) es) (map fst bs)"
    using buckets_of_iff [OF assms] by (simp add: map_eq_conv split_beta) (metis prod.collapse)
  moreover have "distinct (map fst bs)" using assms by (simp add: buckets_of_def)
  ultimately show ?thesis using mset_partition [of "map fst bs" key es] buckets_of_keys [OF assms]
    by (simp only: order_refl)
qed

section \<open>The fields of one group\<close>

lemma foldl_min: "foldl (\<lambda>t e. if f e < t then f e else t) a es = Min (insert a (f ` set es))"
  for f :: "'e \<Rightarrow> 'o :: linorder"
proof (induction es arbitrary: a)
  case (Cons e es)
  have "(if f e < a then f e else a) = min (f e) a" by (auto simp: min_def)
  then have "foldl (\<lambda>t e. if f e < t then f e else t) a (e # es) = Min (insert (min (f e) a) (f ` set es))"
    using Cons [of "min (f e) a"] by simp
  also have "\<dots> = Min (insert a (f ` set (e # es)))"
    by (cases "es = []") (simp_all add: min.commute min.left_commute min.assoc)
  finally show ?case .
qed simp

lemma foldl_max: "foldl (\<lambda>t e. if f e > t then f e else t) a es = Max (insert a (f ` set es))"
  for f :: "'e \<Rightarrow> 'o :: linorder"
proof (induction es arbitrary: a)
  case (Cons e es)
  have "(if f e > a then f e else a) = max (f e) a" by (auto simp: max_def)
  then have "foldl (\<lambda>t e. if f e > t then f e else t) a (e # es) = Max (insert (max (f e) a) (f ` set es))"
    using Cons [of "max (f e) a"] by simp
  also have "\<dots> = Max (insert a (f ` set (e # es)))"
    by (cases "es = []") (simp_all add: max.commute max.left_commute max.assoc)
  finally show ?case .
qed simp

lemma first_seen_Min: "es \<noteq> [] \<Longrightarrow> first_seen es = Min (ae_StartsAt ` set es)"
  by (cases es) (simp_all add: first_seen_def foldl_min)

lemma last_seen_Max: "es \<noteq> [] \<Longrightarrow> last_seen es = Max (ae_StartsAt ` set es)"
  by (cases es) (simp_all add: last_seen_def foldl_max)

definition severity_at :: "nat \<Rightarrow> string" where
  "severity_at r =
     (if r = 3 then GroupSeverityCritical else if r = 2 then GroupSeverityWarning
      else if r = 1 then GroupSeverityInfo else GroupSeverityUnknown)"

lemma severity_at_rank: "GroupSeverity_Valid s \<Longrightarrow> severity_at (severityRank s) = s"
  by (auto simp: severity_at_def severityRank_def GroupSeverity_Valid_def)

lemma severity_at_Valid [simp]: "GroupSeverity_Valid (severity_at r)"
  by (simp add: severity_at_def GroupSeverity_Valid_def)

lemma extractSeverity_Valid [simp]: "GroupSeverity_Valid (extractSeverity ul ls k)"
  by (simp add: extractSeverity_def GroupSeverity_Valid_def Let_def split: option.split)

lemma maxSeverity_rank [simp]: "severityRank (maxSeverity a b) = max (severityRank a) (severityRank b)"
  by (simp add: maxSeverity_def max_def)

lemma maxSeverity_Valid [simp]:
  "GroupSeverity_Valid a \<Longrightarrow> GroupSeverity_Valid b \<Longrightarrow> GroupSeverity_Valid (maxSeverity a b)"
  by (simp add: maxSeverity_def)

lemma foldl_maxSeverity:
  assumes "GroupSeverity_Valid s" "\<And>e. GroupSeverity_Valid (f e)"
  shows "foldl (\<lambda>s e. maxSeverity s (f e)) s es =
    severity_at (Max (insert (severityRank s) ((\<lambda>e. severityRank (f e)) ` set es)))"
  using assms(1)
proof (induction es arbitrary: s)
  case Nil
  then show ?case by (simp add: severity_at_rank)
next
  case (Cons e es)
  then show ?case using assms(2) Cons.IH [of "maxSeverity s (f e)"]
    by (cases "es = []") (simp_all add: max.assoc max.left_commute max.commute)
qed

lemma group_severity_Max:
  assumes "es \<noteq> []"
  shows "group_severity ul k es =
    severity_at (Max ((\<lambda>e. severityRank (extractSeverity ul (ae_Labels e) k)) ` set es))"
proof -
  have "severityRank GroupSeverityUnknown = 0" by (simp add: severityRank_def)
  moreover have "GroupSeverity_Valid GroupSeverityUnknown" by (simp add: GroupSeverity_Valid_def)
  ultimately show ?thesis using assms by (simp add: group_severity_def foldl_maxSeverity)
qed

lemma map_sort_key: "map f (sort_key f xs) = sort (map f xs)"
  by (rule properties_for_sort [symmetric]) simp_all

lemma sorted_ids_perm:
  fixes es es' :: "AlertEvent list"
  assumes "mset es = mset es'"
  shows "map ae_ID (sort_key (\<lambda>e. (ae_StartsAt e, ae_ID e)) es) =
    map ae_ID (sort_key (\<lambda>e. (ae_StartsAt e, ae_ID e)) es')"
proof -
  let ?f = "\<lambda>e :: AlertEvent. (ae_StartsAt e, ae_ID e)"
  have "mset (map ?f es) = mset (map ?f es')" using assms by simp
  then have "sort (map ?f es) = sort (map ?f es')" by (intro properties_for_sort) simp_all
  then have "map snd (map ?f (sort_key ?f es)) = map snd (map ?f (sort_key ?f es'))"
    by (simp only: map_sort_key)
  then show ?thesis by (simp add: comp_def)
qed

lemma build_group_perm:
  assumes "mset es = mset es'" "es \<noteq> []"
  shows "build_group sha ul n (k, es) = build_group sha ul n (k, es')"
proof -
  have ne: "es' \<noteq> []" and s: "set es = set es'" and "length es = length es'"
    using assms by (auto dest: mset_eq_setD mset_eq_length)
  have "group_severity ul (nc_severityKey n) es = group_severity ul (nc_severityKey n) es'"
    "first_seen es = first_seen es'" "last_seen es = last_seen es'"
    by (simp_all only: s group_severity_Max [OF ne] group_severity_Max [OF assms(2)]
        first_seen_Min [OF ne] first_seen_Min [OF assms(2)] last_seen_Max [OF ne] last_seen_Max [OF assms(2)])
  with \<open>length es = length es'\<close> show ?thesis
    by (simp only: build_group_def fst_conv snd_conv sorted_ids_perm [OF assms(1)])
qed

section \<open>The whole pass\<close>

lemma build_group_Inr:
  "build_group sha ul n b = Inr g \<Longrightarrow>
     ag_GroupKey g = sha (fst b) \<and> ag_Dimensions g = fst b \<and>
     ag_EventCount g = int (length (snd b)) \<and>
     ag_Severity g = group_severity ul (nc_severityKey n) (snd b) \<and>
     ag_FirstSeenAt g = NormalizeUTCMicro (first_seen (snd b)) \<and>
     ag_LastSeenAt g = NormalizeUTCMicro (last_seen (snd b)) \<and>
     ag_EventIDs g = map ae_ID (sort_key (\<lambda>e. (ae_StartsAt e, ae_ID e)) (snd b))"
  by (auto simp: build_group_def NewAlertGroup_def Let_def split: sum.splits if_splits)

lemma build_group_ok:
  assumes "snd b \<noteq> []" "\<forall>e \<in> set (snd b). ae_StartsAt e \<noteq> 0" "sha (fst b) \<noteq> []"
  shows "\<exists>g. build_group sha ul n b = Inr g"
proof -
  let ?es = "snd b"
  have "first_seen ?es \<in> ae_StartsAt ` set ?es" "last_seen ?es \<in> ae_StartsAt ` set ?es"
    using assms(1) by (simp_all add: first_seen_Min last_seen_Max)
  then have "first_seen ?es \<noteq> 0" "last_seen ?es \<noteq> 0" using assms(2) by auto
  moreover have "first_seen ?es \<le> last_seen ?es"
    using assms(1) by (simp add: first_seen_Min last_seen_Max)
  moreover have "GroupSeverity_Valid (group_severity ul k ?es)" for k
    using assms(1) by (simp add: group_severity_Max)
  ultimately have "is_ok (NewAlertGroup (sha (fst b)) (fst b) (group_severity ul (nc_severityKey n) ?es)
      (int (length ?es)) (first_seen ?es) (last_seen ?es)
      (map ae_ID (sort_key (\<lambda>e. (ae_StartsAt e, ae_ID e)) ?es)))"
    using assms(3) by (simp add: NewAlertGroup_ok_iff Normalize_mono)
  then show ?thesis by (auto simp: is_ok_def build_group_def)
qed

lemma build_groups_Inr:
  "build_groups sha ul n bs = Inr gs \<longleftrightarrow> list_all2 (\<lambda>b g. build_group sha ul n b = Inr g) bs gs"
proof (induction bs arbitrary: gs)
  case (Cons b bs)
  show ?case by (cases gs) (auto simp: Cons bindE_eq_Inr_iff split: sum.splits)
qed auto

lemma build_groups_ok:
  assumes "\<forall>b \<in> set bs. \<exists>g. build_group sha ul n b = Inr g"
  shows "\<exists>gs. build_groups sha ul n bs = Inr gs"
  using assms by (induction bs) (auto split: sum.splits)

lemma check_events_Inr:
  "check_events es = Inr () \<longleftrightarrow> (\<forall>e \<in> set es. ae_ID e \<noteq> 0 \<and> ae_StartsAt e \<noteq> 0)"
  by (induction es) (auto simp: IsZero_def)

text \<open>What a successful call computed.\<close>

lemma GroupEvents_InrE:
  assumes "GroupEvents sha ul es cfg = Inr gs" "es \<noteq> []"
  obtains n bs raw where "validateConfig cfg = Inr n" "buckets_of (event_key n) es bs"
    "list_all2 (\<lambda>b g. build_group sha ul n b = Inr g) bs raw"
    "gs = sort_key (\<lambda>g. (ag_FirstSeenAt g, ag_GroupKey g)) raw"
proof -
  from assms obtain n where n: "validateConfig cfg = Inr n"
    by (auto simp: GroupEvents_def split: sum.splits)
  obtain bs where bs: "bucket_events n es [] = Inr bs" "buckets_of (event_key n) es bs"
    using bucket_events_total by blast
  with assms n obtain raw where "build_groups sha ul n bs = Inr raw"
    "gs = sort_key (\<lambda>g. (ag_FirstSeenAt g, ag_GroupKey g)) raw"
    by (auto simp: GroupEvents_def split: sum.splits)
  with n bs that show thesis by (simp add: build_groups_Inr)
qed

lemma GroupEvents_total:
  assumes "validateConfig cfg = Inr n" "check_events es = Inr ()" "\<forall>x. sha x \<noteq> []"
  shows "\<exists>gs. GroupEvents sha ul es cfg = Inr gs"
proof -
  obtain bs where bs: "bucket_events n es [] = Inr bs" "buckets_of (event_key n) es bs"
    using bucket_events_total by blast
  have "\<exists>g. build_group sha ul n b = Inr g" if "b \<in> set bs" for b
  proof -
    have "fst b \<in> event_key n ` set es" "snd b = filter (\<lambda>e. event_key n e = fst b) es"
      using buckets_of_iff [OF bs(2), of "fst b" "snd b"] that by auto
    then show ?thesis using assms(2,3)
      by (intro build_group_ok) (auto simp: filter_empty_conv check_events_Inr)
  qed
  then obtain raw where "build_groups sha ul n bs = Inr raw" using build_groups_ok by blast
  with assms(1,2) bs(1) show ?thesis by (cases "es = []") (auto simp: GroupEvents_def)
qed

lemma GroupEvents_ids:
  assumes "GroupEvents sha ul es cfg = Inr gs"
  shows "mset (concat (map ag_EventIDs gs)) = mset (map ae_ID es)"
proof (cases "es = []")
  case True
  with assms show ?thesis by (simp add: GroupEvents_def)
next
  case False
  obtain n bs raw where bs: "buckets_of (event_key n) es bs"
    and raw: "list_all2 (\<lambda>b g. build_group sha ul n b = Inr g) bs raw"
    and gs: "gs = sort_key (\<lambda>g. (ag_FirstSeenAt g, ag_GroupKey g)) raw"
    by (rule GroupEvents_InrE [OF assms False])
  have "mset (concat (map ag_EventIDs raw)) = mset (map ae_ID (concat (map snd bs)))"
    using raw by induction (auto dest: build_group_Inr)
  also have "\<dots> = mset (map ae_ID es)" using buckets_of_mset [OF bs] by simp
  finally have raw_ids: "mset (concat (map ag_EventIDs raw)) = mset (map ae_ID es)" .
  have "mset gs = mset raw" by (simp add: gs)
  then have "mset (concat (map ag_EventIDs gs)) = mset (concat (map ag_EventIDs raw))"
    by (simp add: mset_concat sum_mset_sum_list [symmetric])
  with raw_ids show ?thesis by simp
qed

lemma GroupEvents_member:
  assumes "GroupEvents sha ul es cfg = Inr gs" "g \<in> set gs"
  obtains n b where "validateConfig cfg = Inr n" "fst b \<in> event_key n ` set es"
    "snd b = filter (\<lambda>e. event_key n e = fst b) es" "build_group sha ul n b = Inr g"
proof -
  from assms have "es \<noteq> []" by (auto simp: GroupEvents_def)
  with assms(1) obtain n bs raw where n: "validateConfig cfg = Inr n"
    and bs: "buckets_of (event_key n) es bs"
    and raw: "list_all2 (\<lambda>b g. build_group sha ul n b = Inr g) bs raw"
    and gs: "gs = sort_key (\<lambda>g. (ag_FirstSeenAt g, ag_GroupKey g)) raw"
    by (rule GroupEvents_InrE)
  from assms(2) gs have "g \<in> set raw" by simp
  with list_all2_in2 [OF raw] obtain b where "b \<in> set bs" "build_group sha ul n b = Inr g" by blast
  moreover from this(1) have "fst b \<in> event_key n ` set es"
    "snd b = filter (\<lambda>e. event_key n e = fst b) es"
    using buckets_of_iff [OF bs, of "fst b" "snd b"] by auto
  ultimately show thesis using n that by blast
qed

section \<open>Independence of the input order\<close>

lemma buckets_of_perm:
  assumes "buckets_of key es bs" "buckets_of key es' bs'" "mset es = mset es'"
  shows "mset (map fst bs) = mset (map fst bs')"
proof -
  have "set (map fst bs) = set (map fst bs')"
    using assms by (metis buckets_of_keys set_mset_mset)
  moreover have "distinct (map fst bs)" "distinct (map fst bs')"
    using assms(1,2) by (simp_all add: buckets_of_def)
  ultimately show ?thesis by (simp only: set_eq_iff_mset_eq_distinct)
qed

lemma buckets_of_map:
  assumes "buckets_of key es bs"
  shows "bs = map (\<lambda>k. (k, filter (\<lambda>e. key e = k) es)) (map fst bs)"
proof -
  have "b = (fst b, filter (\<lambda>e. key e = fst b) es)" if "b \<in> set bs" for b
    using buckets_of_iff [OF assms, of "fst b" "snd b"] that by (cases b) auto
  then show ?thesis by (simp add: map_idI)
qed

lemma GroupEvents_perm:
  assumes perm: "mset es = mset es'" and ok: "GroupEvents sha ul es cfg = Inr gs"
    and inj: "\<And>n. validateConfig cfg = Inr n \<Longrightarrow> inj_on sha (event_key n ` set es)"
  shows "GroupEvents sha ul es' cfg = Inr gs"
proof (cases "es = []")
  case True
  with perm ok show ?thesis by simp
next
  case False
  then have ne: "es' \<noteq> []" using perm by auto
  have set_eq: "set es = set es'" using perm by (rule mset_eq_setD)
  obtain n bs raw where n: "validateConfig cfg = Inr n" and bs: "buckets_of (event_key n) es bs"
    and raw: "list_all2 (\<lambda>b g. build_group sha ul n b = Inr g) bs raw"
    and gs: "gs = sort_key (\<lambda>g. (ag_FirstSeenAt g, ag_GroupKey g)) raw"
    by (rule GroupEvents_InrE [OF ok False])
  obtain bs' where bs': "bucket_events n es' [] = Inr bs'" "buckets_of (event_key n) es' bs'"
    using bucket_events_total by blast
  define grp where "grp k = projr (build_group sha ul n (k, filter (\<lambda>e. event_key n e = k) es))" for k
  have same: "build_group sha ul n (k, filter (\<lambda>e. event_key n e = k) es') = Inr (grp k)"
    and ok_k: "build_group sha ul n (k, filter (\<lambda>e. event_key n e = k) es) = Inr (grp k)"
    if "k \<in> event_key n ` set es" for k
  proof -
    let ?b = "filter (\<lambda>e. event_key n e = k) es" and ?b' = "filter (\<lambda>e. event_key n e = k) es'"
    have "(k, ?b) \<in> set bs" using buckets_of_iff [OF bs] that by simp
    with list_all2_in1 [OF raw] obtain g where g: "build_group sha ul n (k, ?b) = Inr g" by blast
    then show "build_group sha ul n (k, ?b) = Inr (grp k)" by (simp add: grp_def)
    moreover have "mset ?b = mset ?b'" "?b \<noteq> []"
      using perm that by (auto simp: filter_empty_conv)
    ultimately show "build_group sha ul n (k, ?b') = Inr (grp k)"
      using build_group_perm by metis
  qed
  have keys: "set (map fst bs) = event_key n ` set es" "set (map fst bs') = event_key n ` set es"
    using buckets_of_keys [OF bs] buckets_of_keys [OF bs'(2)] set_eq by simp_all
  have raw_eq: "raw = map grp (map fst bs)"
  proof -
    have "list_all2 (\<lambda>b g. build_group sha ul n b = Inr g)
        (map (\<lambda>k. (k, filter (\<lambda>e. event_key n e = k) es)) (map fst bs)) raw"
      using raw buckets_of_map [OF bs] by simp
    then have "list_all2 (\<lambda>k g. g = grp k) (map fst bs) raw"
      unfolding list_all2_map1 [of _ "\<lambda>k. (k, filter (\<lambda>e. event_key n e = k) es)"]
    proof (rule list.rel_mono_strong)
      fix k g
      assume "k \<in> set (map fst bs)"
        "build_group sha ul n (k, filter (\<lambda>e. event_key n e = k) es) = Inr g"
      then show "g = grp k" using ok_k [of k] keys(1) by simp
    qed
    then show ?thesis by (auto simp: list_all2_conv_all_nth intro: nth_equalityI)
  qed
  have "build_groups sha ul n bs' = Inr (map grp (map fst bs'))"
  proof -
    have "list_all2 (\<lambda>k g. build_group sha ul n (k, filter (\<lambda>e. event_key n e = k) es') = Inr g)
        (map fst bs') (map grp (map fst bs'))"
    proof (rule list_all2_all_nthI)
      fix i
      assume i: "i < length (map fst bs')"
      then have "map fst bs' ! i \<in> event_key n ` set es" using keys(2) by (metis nth_mem)
      from same [OF this] i
      show "build_group sha ul n (map fst bs' ! i, filter (\<lambda>e. event_key n e = map fst bs' ! i) es') =
          Inr (map grp (map fst bs') ! i)" by simp
    qed simp
    then show ?thesis unfolding build_groups_Inr
      by (subst buckets_of_map [OF bs'(2)]) (simp add: list_all2_map1 comp_def)
  qed
  moreover have "sort_key (\<lambda>g. (ag_FirstSeenAt g, ag_GroupKey g)) (map grp (map fst bs')) = gs"
  proof -
    have "mset (map grp (map fst bs')) = mset (map grp (map fst bs))"
      using buckets_of_perm [OF bs bs'(2) perm] by (simp del: map_map)
    moreover have "ag_GroupKey (grp k) = sha k" if "k \<in> event_key n ` set es" for k
      using build_group_Inr [OF ok_k [OF that]] by simp
    then have inj_key: "k = k'" if "k \<in> event_key n ` set es" "k' \<in> event_key n ` set es"
      "ag_GroupKey (grp k) = ag_GroupKey (grp k')" for k k'
      using inj [OF n] that by (metis inj_onD)
    have "inj_on (\<lambda>g. (ag_FirstSeenAt g, ag_GroupKey g)) (set (map grp (map fst bs')))"
      unfolding set_map [of grp] keys(2)
    proof (rule inj_onI)
      fix x y
      assume "x \<in> grp ` event_key n ` set es" "y \<in> grp ` event_key n ` set es"
        and eq: "(ag_FirstSeenAt x, ag_GroupKey x) = (ag_FirstSeenAt y, ag_GroupKey y)"
      then obtain k k' where x: "x = grp k" "k \<in> event_key n ` set es"
        and y: "y = grp k'" "k' \<in> event_key n ` set es" by (elim imageE [of _ grp])
      have "k = k'" using inj_key [OF x(2) y(2)] eq x(1) y(1) by simp
      with x(1) y(1) show "x = y" by simp
    qed
    ultimately show ?thesis unfolding gs raw_eq
      by (intro sort_key_inj_key_eq) (simp_all only: mset_sort sorted_sort_key)
  qed
  moreover have "check_events es' = Inr ()"
    using ok False n set_eq check_events_Inr [of es] check_events_Inr [of es']
    by (auto simp: GroupEvents_def split: sum.splits)
  ultimately show ?thesis using n bs'(1) ne by (simp add: GroupEvents_def)
qed

section \<open>When two events share a group\<close>

lemma map_of_dimensionSubset:
  "map_of (dimensionSubset labels keys) k = (if k \<in> set keys then Some (smap_get labels k) else None)"
proof -
  have "map_of (fold (\<lambda>k m. smap_put m k (smap_get labels k)) keys m) k =
      (if k \<in> set keys then Some (smap_get labels k) else map_of m k)" for m
    by (induction keys arbitrary: m) (auto simp: map_of_smap_put)
  then show ?thesis by (simp add: dimensionSubset_def)
qed

lemma wf_dimensionSubset [simp]: "wf_smap (dimensionSubset labels keys)"
proof -
  have "wf_smap m \<Longrightarrow> wf_smap (fold (\<lambda>k m. smap_put m k (smap_get labels k)) keys m)" for m
    by (induction keys arbitrary: m) auto
  then show ?thesis by (simp add: dimensionSubset_def wf_smap_def)
qed

lemma wf_event_dimensions [simp]: "wf_smap (event_dimensions n e)"
  by (simp add: event_dimensions_def addAlertSourceProfileDimension_def)

lemma map_of_event_dimensions:
  "map_of (event_dimensions n e) k =
     (if k = alertSourceProfileDimensionKey \<and> 0 < ae_AlertSourceProfileID e
      then Some (decimal (nat (ae_AlertSourceProfileID e)))
      else if k \<in> set (nc_dimensionKeys n) then Some (smap_get (ae_Labels e) k) else None)"
  by (simp add: event_dimensions_def addAlertSourceProfileDimension_def map_of_smap_put
      map_of_dimensionSubset)

lemma wf_smap_map_of_mset: "wf_smap m \<Longrightarrow> wf_smap m' \<Longrightarrow> map_of m = map_of m' \<longleftrightarrow> mset m = mset m'"
  using map_of_inject_set [of m m'] set_eq_iff_mset_eq_distinct [of m m']
  by (auto simp: wf_smap_def distinct_map dest: mset_eq_setD)

definition utf8_event :: "normalizedConfig \<Rightarrow> AlertEvent \<Rightarrow> bool" where
  "utf8_event n e \<longleftrightarrow>
     (\<forall>k \<in> set (nc_dimensionKeys n). valid_utf8 k \<and> valid_utf8 (smap_get (ae_Labels e) k))"

lemma utf8_event_dimensions:
  assumes "utf8_event n e"
  shows "utf8_smap (event_dimensions n e)"
proof -
  have "is_ascii alertSourceProfileDimensionKey"
    by (simp add: is_ascii_def alertSourceProfileDimensionKey_def)
  then have "valid_utf8 k \<and> valid_utf8 v" if "map_of (event_dimensions n e) k = Some v" for k v
    using that assms by (auto simp: map_of_event_dimensions utf8_event_def valid_utf8_ascii
        ascii_decimal split: if_splits)
  moreover have "(k, v) \<in> set m \<longleftrightarrow> map_of m k = Some v" if "wf_smap m" for k v and m :: smap
    using that by (metis wf_smap_def map_of_eq_Some_iff)
  ultimately show ?thesis by (auto simp: utf8_smap_def)
qed

lemma event_key_eq_iff:
  assumes "utf8_event n e" "utf8_event n e'"
  shows "event_key n e = event_key n e' \<longleftrightarrow>
    map_of (event_dimensions n e) = map_of (event_dimensions n e')"
  using assms json_map_inj json_map_perm wf_smap_map_of_mset wf_event_dimensions
  unfolding event_key_def by (metis utf8_event_dimensions)

lemma event_key_profile:
  assumes "utf8_event n e" "utf8_event n e'" "event_key n e = event_key n e'"
    and "0 < ae_AlertSourceProfileID e" "0 < ae_AlertSourceProfileID e'"
  shows "ae_AlertSourceProfileID e = ae_AlertSourceProfileID e'"
proof -
  have "map_of (event_dimensions n e) alertSourceProfileDimensionKey =
      map_of (event_dimensions n e') alertSourceProfileDimensionKey"
    using assms(1-3) by (simp add: event_key_eq_iff)
  with assms(4,5) show ?thesis
    by (auto simp: map_of_event_dimensions dest: decimal_inj)
qed

end
