(* ===== verification/Repo_Core.thy ===== *)
theory Repo_Core
  imports Go_Prelude
begin

text \<open>
  \<open>internal/persistence/repository/unit_of_work.go\<close> and \<open>errors.go\<close>: the unit of work over one
  PostgreSQL transaction. The database is a parameter type \<open>'d\<close>; a unit of work holds the
  transaction's own view of it, whether it is closed, and whether an earlier failed statement has
  aborted the transaction (PostgreSQL then refuses every statement and the commit). The driver's
  failures are arguments: \<open>None\<close> where the call succeeds. A commit that fails may still have been
  applied, when only its acknowledgement was lost; the fault says which. The tenant
  scope of its statements is the subject of \<open>Tenant_Scope\<close>. Panics of the callback are not modelled.
\<close>

section \<open>Driver errors\<close>

definition pg_unique_violation :: go_error where
  "pg_unique_violation = GoErr ''SQLSTATE 23505'' []"

definition pg_aborted :: go_error where
  "pg_aborted = GoErr ''SQLSTATE 25P02: current transaction is aborted'' []"

definition ent_not_found :: go_error where
  "ent_not_found = GoErr ''ent: not found'' []"

definition asAlreadyExists :: "go_error \<Rightarrow> go_error" where
  "asAlreadyExists e =
     (if err_text e = err_text pg_unique_violation
      then GoErr ''domain: entity already exists: constraint violated'' [ErrAlreadyExists]
      else e)"

definition asNotFound :: "go_error \<Rightarrow> go_error" where
  "asNotFound e =
     (if err_text e = err_text ent_not_found then GoErr ''domain: entity not found'' [ErrNotFound]
      else e)"

section \<open>Units of work\<close>

datatype uow_state = UowOpen | UowCommitted | UowRolledBack

record 'd uow =
  uow_data :: 'd
  uow_closed :: uow_state
  uow_aborted :: bool
  uow_published :: bool

definition newUnitOfWork :: "'d \<Rightarrow> 'd uow" where
  "newUnitOfWork d =
     \<lparr>uow_data = d, uow_closed = UowOpen, uow_aborted = False, uow_published = False\<rparr>"

definition errUoWClosed :: go_error where
  "errUoWClosed = GoErr ''repository: unit of work is closed'' []"

text \<open>
  The driver's answer to a commit, or to a write that commits by itself: \<open>Some (applied, e)\<close> is the
  error \<open>e\<close>, and \<open>applied\<close> says whether the server carried it out before the answer was lost.
\<close>

type_synonym commit_fault = "(bool \<times> go_error) option"

definition checkOpen :: "'d uow \<Rightarrow> go_error option" where
  "checkOpen u = (if uow_closed u \<noteq> UowOpen then Some errUoWClosed else None)"

text \<open>PostgreSQL answers the commit of an aborted transaction with a rollback.\<close>

definition commitInternal :: "commit_fault \<Rightarrow> 'd uow \<Rightarrow> 'd uow \<times> unit result" where
  "commitInternal fault u =
     (if uow_closed u \<noteq> UowOpen then (u, Inl errUoWClosed)
      else let u = u\<lparr>uow_closed := UowCommitted\<rparr> in
        (case (if uow_aborted u then Some (False, pg_aborted) else fault) of
           Some (applied, e) \<Rightarrow>
             (u\<lparr>uow_published := applied\<rparr>, Inl (wrap_error ''commit transaction'' e))
         | None \<Rightarrow> (u\<lparr>uow_published := True\<rparr>, Inr ())))"

definition rollbackInternal :: "go_error option \<Rightarrow> 'd uow \<Rightarrow> 'd uow \<times> unit result" where
  "rollbackInternal fault u =
     (if uow_closed u \<noteq> UowOpen then (u, Inl errUoWClosed)
      else let u = u\<lparr>uow_closed := UowRolledBack\<rparr> in
        (case fault of
           Some e \<Rightarrow> (u, Inl (wrap_error ''rollback transaction'' e))
         | None \<Rightarrow> (u, Inr ())))"

text \<open>The environment of one \<open>WithinTx\<close> call: its context and what the driver answers.\<close>

record tx_env =
  env_ctx_nil :: bool
  env_nested :: bool
  env_begin :: "go_error option"
  env_stmt :: "go_error option"
  env_commit :: commit_fault
  env_rollback :: "go_error option"

definition calm_env :: tx_env where
  "calm_env = \<lparr>env_ctx_nil = False, env_nested = False, env_begin = None, env_stmt = None,
     env_commit = None, env_rollback = None\<rparr>"

definition uow_outcome :: "'d \<Rightarrow> 'd uow \<Rightarrow> 'd" where
  "uow_outcome d u = (if uow_published u then uow_data u else d)"

definition WithinTx ::
  "tx_env \<Rightarrow> 'd \<Rightarrow> ('d uow \<Rightarrow> 'd uow \<times> unit result) \<Rightarrow> 'd \<times> unit result" where
  "WithinTx env d fn =
     (if env_ctx_nil env then
        (d, Inl (invariant_error ''within transaction: context must be non-nil''))
      else if env_nested env then
        (d, Inl (GoErr ''ports: nested WithinTx is not supported'' []))
      else (case env_begin env of
        Some e \<Rightarrow> (d, Inl (wrap_error ''begin transaction'' e))
      | None \<Rightarrow>
          (case fn (newUnitOfWork d) of
             (u, Inl e) \<Rightarrow>
               (case rollbackInternal (env_rollback env) u of
                  (u, Inl re) \<Rightarrow>
                    (uow_outcome d u, Inl (GoErr (err_text e) (err_chain e @ err_chain re)))
                | (u, Inr _) \<Rightarrow> (uow_outcome d u, Inl e))
           | (u, Inr _) \<Rightarrow>
               (case commitInternal (env_commit env) u of
                  (u, Inl ce) \<Rightarrow> (uow_outcome d u, Inl (wrap_error ''commit transaction'' ce))
                | (u, Inr _) \<Rightarrow> (uow_outcome d u, Inr ())))))"

text \<open>
  One SQL statement: refused in an aborted transaction; a failing statement aborts it.
\<close>

definition exec_stmt ::
  "go_error option \<Rightarrow> 'd uow \<Rightarrow> ('d \<Rightarrow> ('d \<times> 'a) result) \<Rightarrow> 'd uow \<times> 'a result" where
  "exec_stmt fault u f =
     (if uow_aborted u then (u, Inl pg_aborted)
      else (case fault of
        Some e \<Rightarrow> (u\<lparr>uow_aborted := True\<rparr>, Inl e)
      | None \<Rightarrow>
          (case f (uow_data u) of
             Inl e \<Rightarrow> (u\<lparr>uow_aborted := True\<rparr>, Inl e)
           | Inr (d, x) \<Rightarrow> (u\<lparr>uow_data := d\<rparr>, Inr x))))"

text \<open>A write outside of a transaction commits by itself.\<close>

definition autocommit :: "commit_fault \<Rightarrow> 'd \<Rightarrow> ('d \<times> 'a) result \<Rightarrow> 'd \<times> 'a result" where
  "autocommit fault d res =
     (case fault of
        Some (applied, e) \<Rightarrow> (case res of Inr (d', x) \<Rightarrow> if applied then d' else d | Inl _ \<Rightarrow> d, Inl e)
      | None \<Rightarrow> (case res of Inr (d', x) \<Rightarrow> (d', Inr x) | Inl e \<Rightarrow> (d, Inl e)))"

text \<open>A read that finds no row answers with an error of Ent but does not abort.\<close>

definition query_stmt :: "go_error option \<Rightarrow> 'd uow \<Rightarrow> ('d \<Rightarrow> 'a) \<Rightarrow> 'd uow \<times> 'a result" where
  "query_stmt fault u f = exec_stmt fault u (\<lambda>d. Inr (d, f d))"

section \<open>Atomicity\<close>

text \<open>Nothing happened and an error comes back, or it was carried out, and only then can it be a success.\<close>

lemma autocommit_cases:
  assumes "autocommit fault d res = (d', r)"
  obtains e where "d' = d" "r = Inl e"
  | x where "res = Inr (d', x)" "r = Inr x" "fault = None"
  | x e where "res = Inr (d', x)" "r = Inl e" "fault = Some (True, e)"
  using assms by (auto simp: autocommit_def split: option.splits sum.splits prod.splits if_splits)

lemma autocommit_Inr:
  "autocommit fault d res = (d', Inr x) \<longleftrightarrow> fault = None \<and> res = Inr (d', x)"
  by (auto simp: autocommit_def split: option.splits sum.splits prod.splits)

text \<open>The callback leaves closing to \<open>WithinTx\<close>.\<close>

definition keeps_open :: "('d uow \<Rightarrow> 'd uow \<times> 'a result) \<Rightarrow> bool" where
  "keeps_open fn \<longleftrightarrow>
     (\<forall>u. uow_closed (fst (fn u)) = uow_closed u \<and> uow_published (fst (fn u)) = uow_published u)"

lemma newUnitOfWork_simps [simp]:
  "uow_data (newUnitOfWork d) = d" "uow_closed (newUnitOfWork d) = UowOpen"
  "\<not> uow_aborted (newUnitOfWork d)" "\<not> uow_published (newUnitOfWork d)"
  by (simp_all add: newUnitOfWork_def)

lemma keeps_open_new:
  "keeps_open fn \<Longrightarrow> fn (newUnitOfWork d) = (u, r) \<Longrightarrow>
   uow_closed u = UowOpen \<and> \<not> uow_published u"
  unfolding keeps_open_def by (metis fst_conv newUnitOfWork_simps(2,4))

text \<open>The acknowledgement of the commit is lost: it is applied, and an error comes back.\<close>

definition lost_commit :: "tx_env \<Rightarrow> bool" where
  "lost_commit env \<longleftrightarrow> (case env_commit env of Some (applied, _) \<Rightarrow> applied | None \<Rightarrow> False)"

lemma lost_commit_calm [simp]: "\<not> lost_commit calm_env"
  by (simp add: lost_commit_def calm_env_def)

lemma WithinTx_error:
  assumes "keeps_open fn" "WithinTx env d fn = (d', Inl e)"
  shows "d' = d \<or> lost_commit env \<and>
    (\<exists>u. fn (newUnitOfWork d) = (u, Inr ()) \<and> \<not> uow_aborted u \<and> d' = uow_data u)"
  using assms(2) keeps_open_new [OF assms(1)]
  by (auto simp: WithinTx_def uow_outcome_def rollbackInternal_def commitInternal_def Let_def
      lost_commit_def split: if_splits option.splits prod.splits sum.splits)

lemma WithinTx_error_unchanged:
  assumes "keeps_open fn" "WithinTx env d fn = (d', Inl e)"
    and "\<not> lost_commit env \<or> (\<forall>u. fn (newUnitOfWork d) \<noteq> (u, Inr ()))"
  shows "d' = d"
  using WithinTx_error [OF assms(1,2)] assms(3) by blast

lemma WithinTx_ok:
  assumes "keeps_open fn" "WithinTx env d fn = (d', Inr ())"
  obtains u where "fn (newUnitOfWork d) = (u, Inr ())" "\<not> uow_aborted u" "d' = uow_data u"
    "env_begin env = None" "env_commit env = None"
  using assms(2) keeps_open_new [OF assms(1)]
  by (auto simp: WithinTx_def uow_outcome_def rollbackInternal_def commitInternal_def Let_def
      split: if_splits option.splits prod.splits sum.splits)

lemma WithinTx_commits:
  assumes "keeps_open fn" "fn (newUnitOfWork d) = (u, Inr ())" "\<not> uow_aborted u"
    and "\<not> env_ctx_nil env" "\<not> env_nested env" "env_begin env = None" "env_commit env = None"
  shows "WithinTx env d fn = (uow_data u, Inr ())"
  using assms keeps_open_new [OF assms(1,2)]
  by (simp add: WithinTx_def uow_outcome_def commitInternal_def)

lemma WithinTx_rolls_back:
  assumes "keeps_open fn" "fn (newUnitOfWork d) = (u, Inl e)"
    and "\<not> env_ctx_nil env" "\<not> env_nested env" "env_begin env = None" "env_rollback env = None"
  shows "WithinTx env d fn = (d, Inl e)"
  using assms keeps_open_new [OF assms(1,2)]
  by (simp add: WithinTx_def uow_outcome_def rollbackInternal_def)

text \<open>Swallowing the error of a failed statement does not help: the commit fails.\<close>

lemma WithinTx_aborted_fails:
  assumes "keeps_open fn" "fn (newUnitOfWork d) = (u, Inr ())" "uow_aborted u"
  shows "\<exists>e. WithinTx env d fn = (d, Inl e)"
  using assms keeps_open_new [OF assms(1,2)]
  by (auto simp: WithinTx_def uow_outcome_def commitInternal_def split: option.splits)

lemma exec_stmt_open [simp]:
  "uow_closed (fst (exec_stmt fault u f)) = uow_closed u"
  "uow_published (fst (exec_stmt fault u f)) = uow_published u"
  by (auto simp: exec_stmt_def split: option.splits sum.splits)

lemma query_stmt_open [simp]:
  "uow_closed (fst (query_stmt fault u f)) = uow_closed u"
  "uow_published (fst (query_stmt fault u f)) = uow_published u"
  by (simp_all add: query_stmt_def)

end
