(* ===== verification/Alert_Repo.thy ===== *)
theory Alert_Repo
  imports Repo_Core Alert_Model
begin

text \<open>
  \<open>internal/persistence/repository/alert_repo.go\<close>, the event half, over the table that
  \<open>internal/persistence/ent/schema/alertevent.go\<close> declares: its validators, its defaults, and its
  natural unique key. A row is a domain event with its ID (\<open>alertEventToDomain\<close> is the identity
  on it). The lemmas give the table invariant (unique IDs, unique natural keys) and what each
  operation does to the table.
\<close>

section \<open>The table\<close>

record event_table =
  et_rows :: "AlertEvent list"
  et_next :: int

type_synonym event_key = "int \<times> string \<times> string \<times> go_time"

definition row_key :: "AlertEvent \<Rightarrow> event_key" where
  "row_key e =
     (ae_AlertSourceProfileID e, ae_Source e, ae_CanonicalFingerprint e, ae_StartsAt e)"

definition table_keys :: "event_table \<Rightarrow> event_key set" where
  "table_keys t = row_key ` set (et_rows t)"

definition table_wf :: "event_table \<Rightarrow> bool" where
  "table_wf t \<longleftrightarrow>
     distinct (map ae_ID (et_rows t)) \<and> distinct (map row_key (et_rows t)) \<and>
     (\<forall>e \<in> set (et_rows t). 0 < ae_ID e \<and> ae_ID e < et_next t) \<and> 0 < et_next t"

text \<open>The validators of the schema run before the statement is sent.\<close>

definition event_validators :: "AlertEvent \<Rightarrow> bool" where
  "event_validators e \<longleftrightarrow>
     ae_Source e \<noteq> [] \<and> length (ae_Source e) \<le> 64 \<and>
     ae_SourceFingerprint e \<noteq> [] \<and> length (ae_SourceFingerprint e) \<le> 128 \<and>
     ae_CanonicalFingerprint e \<noteq> [] \<and> length (ae_CanonicalFingerprint e) \<le> 64 \<and>
     0 \<le> ae_AlertSourceProfileID e \<and> length (ae_Status e) \<le> 32"

definition insert_event :: "AlertEvent \<Rightarrow> event_table \<Rightarrow> (event_table \<times> AlertEvent) result" where
  "insert_event e t =
     (if row_key e \<in> table_keys t then Inl pg_unique_violation
      else let e = e\<lparr>ae_ID := et_next t\<rparr>
        in Inr (\<lparr>et_rows = et_rows t @ [e], et_next = et_next t + 1\<rparr>, e))"

section \<open>Operations\<close>

text \<open>The row the builder of \<open>SaveEvent\<close> writes, with the defaults of the schema.\<close>

definition event_row :: "go_time \<Rightarrow> AlertEvent \<Rightarrow> AlertEvent" where
  "event_row now e = e\<lparr>
     ae_AlertSourceProfileID :=
       (if ae_AlertSourceProfileID e > 0 then ae_AlertSourceProfileID e else 0),
     ae_Status := (if ae_Status e \<noteq> [] then ae_Status e else AlertStatusFiring),
     ae_CreatedAt := (if \<not> IsZero (ae_CreatedAt e) then ae_CreatedAt e else now)\<rparr>"

definition SaveEvent ::
  "go_error option \<Rightarrow> go_time \<Rightarrow> event_table uow \<Rightarrow> AlertEvent \<Rightarrow> event_table uow \<times> AlertEvent result" where
  "SaveEvent fault now u e =
     (case checkOpen u of Some err \<Rightarrow> (u, Inl err) | None \<Rightarrow>
      let row = event_row now e in
      if \<not> event_validators row then (u, Inl (GoErr ''ent: validator failed'' []))
      else (case exec_stmt fault u (insert_event row) of
              (u, Inl err) \<Rightarrow> (u, Inl (asAlreadyExists err))
            | (u, Inr saved) \<Rightarrow> (u, Inr saved)))"

fun update_rows :: "(AlertEvent \<Rightarrow> bool) \<Rightarrow> (AlertEvent \<Rightarrow> AlertEvent) \<Rightarrow> AlertEvent list \<Rightarrow> AlertEvent list" where
  "update_rows p f [] = []"
| "update_rows p f (r # rs) = (if p r then f r # rs else r # update_rows p f rs)"

definition UpdateEventResolution ::
  "go_error option \<Rightarrow> event_table uow \<Rightarrow> AlertEvent \<Rightarrow> event_table uow \<times> AlertEvent result" where
  "UpdateEventResolution fault u e =
     (case checkOpen u of Some err \<Rightarrow> (u, Inl err) | None \<Rightarrow>
      if ae_ID e = 0 then
        (u, Inl (invariant_error ''update event resolution: id must be non-zero''))
      else (case (ae_Status e = AlertStatusResolved, ae_EndsAt e) of
        (True, Some ends) \<Rightarrow>
          let endsAt = NormalizeUTCMicro ends in
          if IsZero endsAt then
            (u, Inl (invariant_error ''update event resolution: ends_at must be non-zero''))
          else let
            hit = (\<lambda>r. ae_ID r = ae_ID e \<and> ae_Status r = AlertStatusFiring \<and> ae_StartsAt r \<le> endsAt);
            set_row = (\<lambda>r. r\<lparr>ae_Status := AlertStatusResolved, ae_EndsAt := Some endsAt\<rparr>) in
          (case exec_stmt fault u (\<lambda>t. Inr (t\<lparr>et_rows := update_rows hit set_row (et_rows t)\<rparr>,
                                             find hit (et_rows t))) of
             (u, Inl err) \<Rightarrow> (u, Inl err)
           | (u, Inr (Some r)) \<Rightarrow> (u, Inr (set_row r))
           | (u, Inr None) \<Rightarrow>
               (case query_stmt fault u (\<lambda>t. find (\<lambda>r. ae_ID r = ae_ID e) (et_rows t)) of
                  (u, Inl err) \<Rightarrow> (u, Inl (asNotFound err))
                | (u, Inr None) \<Rightarrow> (u, Inl (asNotFound ent_not_found))
                | (u, Inr (Some current)) \<Rightarrow>
                    if ae_Status current = AlertStatusResolved \<and> ae_EndsAt current = Some endsAt
                    then (u, Inr current)
                    else (u, Inl (invariant_error
                      ''update event resolution: event no longer has a compatible firing state''))))
      | _ \<Rightarrow> (u, Inl (invariant_error
                ''update event resolution: resolved status and ends_at are required''))))"

definition FindEventByID ::
  "go_error option \<Rightarrow> event_table uow \<Rightarrow> int \<Rightarrow> event_table uow \<times> AlertEvent result" where
  "FindEventByID fault u i =
     (case checkOpen u of Some err \<Rightarrow> (u, Inl err) | None \<Rightarrow>
      (case query_stmt fault u (\<lambda>t. find (\<lambda>r. ae_ID r = i) (et_rows t)) of
         (u, Inl err) \<Rightarrow> (u, Inl (asNotFound err))
       | (u, Inr None) \<Rightarrow> (u, Inl (asNotFound ent_not_found))
       | (u, Inr (Some r)) \<Rightarrow> (u, Inr r)))"

text \<open>\<open>Only\<close> answers with an error when the query has no row or more than one.\<close>

definition FindEventByNaturalKey ::
  "go_error option \<Rightarrow> event_table uow \<Rightarrow> string \<Rightarrow> string \<Rightarrow> go_time
   \<Rightarrow> event_table uow \<times> AlertEvent result" where
  "FindEventByNaturalKey fault u source canonical startsAt =
     (case checkOpen u of Some err \<Rightarrow> (u, Inl err) | None \<Rightarrow>
      let key = (0, source, canonical, NormalizeUTCMicro startsAt) in
      (case query_stmt fault u (\<lambda>t. filter (\<lambda>r. row_key r = key) (et_rows t)) of
         (u, Inl err) \<Rightarrow> (u, Inl (asNotFound err))
       | (u, Inr []) \<Rightarrow> (u, Inl (asNotFound ent_not_found))
       | (u, Inr [r]) \<Rightarrow> (u, Inr r)
       | (u, Inr _) \<Rightarrow> (u, Inl (GoErr ''ent: not singular'' []))))"

record AlertEventFilter =
  ef_IDs :: "int list"
  ef_Sources :: "string list"
  ef_AlertSourceProfileIDs :: "int list"

text \<open>Dropping non-positive and repeated IDs, blank and repeated strings.\<close>

fun positive_ids :: "int list \<Rightarrow> int list \<Rightarrow> int list" where
  "positive_ids seen [] = []"
| "positive_ids seen (i # is) =
     (if i \<le> 0 \<or> i \<in> set seen then positive_ids seen is else i # positive_ids (i # seen) is)"

fun nonEmptyStrings :: "string list \<Rightarrow> string list \<Rightarrow> string list" where
  "nonEmptyStrings seen [] = []"
| "nonEmptyStrings seen (v # vs) =
     (let v = TrimSpace v in
      if v = [] \<or> v \<in> set seen then nonEmptyStrings seen vs
      else v # nonEmptyStrings (v # seen) vs)"

definition positiveAlertEventIDs :: "int list \<Rightarrow> int list" where
  "positiveAlertEventIDs ids = positive_ids [] ids"

definition positiveAlertSourceProfileIDs :: "int list \<Rightarrow> int list" where
  "positiveAlertSourceProfileIDs ids = positive_ids [] ids"

text \<open>An empty restriction list restricts nothing.\<close>

definition alertEventPredicates :: "AlertEventFilter \<Rightarrow> (AlertEvent \<Rightarrow> bool) result" where
  "alertEventPredicates f =
     (if list_ex (\<lambda>i. i \<le> 0) (ef_IDs f) then
        Inl (invariant_error ''alert event filter: alert event id must be positive'')
      else let ids = positiveAlertEventIDs (ef_IDs f);
               sources = nonEmptyStrings [] (ef_Sources f);
               profiles = positiveAlertSourceProfileIDs (ef_AlertSourceProfileIDs f) in
        if list_ex (\<lambda>i. i < 0) (ef_AlertSourceProfileIDs f) then
          Inl (invariant_error
            ''alert event filter: alert source profile id must be non-negative'')
        else Inr (\<lambda>r. (ids = [] \<or> ae_ID r \<in> set ids) \<and>
                      (sources = [] \<or> ae_Source r \<in> set sources) \<and>
                      (profiles = [] \<or> ae_AlertSourceProfileID r \<in> set profiles)))"

definition ListEventsByStartsAtRangeFiltered ::
  "go_error option \<Rightarrow> event_table uow \<Rightarrow> go_time \<Rightarrow> go_time \<Rightarrow> AlertEventFilter \<Rightarrow> int
   \<Rightarrow> event_table uow \<times> AlertEvent list result" where
  "ListEventsByStartsAtRangeFiltered fault u startInclusive endExclusive f lim =
     (case checkOpen u of Some err \<Rightarrow> (u, Inl err) | None \<Rightarrow>
      (case NewAlertWindow startInclusive endExclusive of
         Inl e \<Rightarrow> (u, Inl (wrap_error ''list events by starts_at range'' e))
       | Inr window \<Rightarrow>
           if lim \<le> 0 then
             (u, Inl (invariant_error ''list events by starts_at range: limit must be > 0''))
           else (case alertEventPredicates f of
             Inl e \<Rightarrow> (u, Inl e)
           | Inr p \<Rightarrow>
               (case query_stmt fault u (\<lambda>t. take (nat lim)
                   (sort_key (\<lambda>r. (ae_StartsAt r, ae_ID r))
                     (filter (\<lambda>r. p r \<and> StartInclusive window \<le> ae_StartsAt r \<and>
                                  ae_StartsAt r < EndExclusive window) (et_rows t)))) of
                  (u, Inl e) \<Rightarrow> (u, Inl (wrap_error ''list events by starts_at range'' e))
                | (u, Inr rows) \<Rightarrow> (u, Inr rows)))))"

section \<open>The table invariant\<close>

lemma table_wf_insert:
  assumes "table_wf t" "insert_event e t = Inr (t', r)"
  shows "table_wf t'"
proof -
  have r: "r = e\<lparr>ae_ID := et_next t\<rparr>" "row_key e \<notin> table_keys t"
    "t' = \<lparr>et_rows = et_rows t @ [r], et_next = et_next t + 1\<rparr>"
    using assms(2) by (auto simp: insert_event_def Let_def split: if_splits)
  moreover have "row_key r = row_key e" using r by (simp add: row_key_def)
  ultimately show ?thesis
    using assms(1) unfolding table_wf_def table_keys_def by force
qed

lemma update_rows_keys:
  assumes "\<And>r. row_key (f r) = row_key r" "\<And>r. ae_ID (f r) = ae_ID r"
  shows "map row_key (update_rows p f rs) = map row_key rs \<and>
    map ae_ID (update_rows p f rs) = map ae_ID rs"
  using assms by (induction rs) auto

lemma SaveEvent_keeps_open: "keeps_open (\<lambda>u. SaveEvent fault now u e)"
  unfolding keeps_open_def SaveEvent_def
  by (auto simp: Let_def split: option.splits prod.splits sum.splits)
    (metis exec_stmt_open fst_conv)+

lemma row_key_event_row:
  "row_key (event_row now e) = (max 0 (ae_AlertSourceProfileID e), ae_Source e,
     ae_CanonicalFingerprint e, ae_StartsAt e)"
  by (simp add: event_row_def row_key_def)

lemma SaveEvent_ok:
  assumes "SaveEvent fault now u e = (u', Inr r)"
  shows "insert_event (event_row now e) (uow_data u) = Inr (uow_data u', r)"
    "\<not> uow_aborted u" "\<not> uow_aborted u'" "event_validators (event_row now e)"
  using assms
  by (auto simp: SaveEvent_def Let_def exec_stmt_def
      split: option.splits if_splits sum.splits prod.splits)

lemma asAlreadyExists_chain:
  "errors_Is (asAlreadyExists e) ErrAlreadyExists \<longleftrightarrow>
     err_text e = err_text pg_unique_violation \<or> errors_Is e ErrAlreadyExists"
  by (auto simp: asAlreadyExists_def)

text \<open>The driver itself never answers with a domain sentinel, nor forges the unique violation.\<close>

definition driver_fault :: "go_error option \<Rightarrow> bool" where
  "driver_fault f \<longleftrightarrow>
     (\<forall>e. f = Some e \<longrightarrow> err_chain e = [] \<and> err_text e \<noteq> err_text pg_unique_violation)"

lemma driver_faultD:
  "\<lbrakk>driver_fault (Some e)\<rbrakk> \<Longrightarrow> \<not> errors_Is e s \<and> err_text e \<noteq> err_text pg_unique_violation"
  by (simp add: driver_fault_def errors_Is_def)

lemma SaveEvent_duplicate:
  assumes "SaveEvent fault now u e = (u', Inl err)" "errors_Is err ErrAlreadyExists"
    and "driver_fault fault"
  shows "row_key (event_row now e) \<in> table_keys (uow_data u)"
  using assms
  by (auto simp: SaveEvent_def Let_def exec_stmt_def insert_event_def checkOpen_def errUoWClosed_def
      asAlreadyExists_chain pg_aborted_def pg_unique_violation_def dest: driver_faultD
      split: option.splits if_splits sum.splits prod.splits)

lemma SaveEvent_fresh:
  assumes "event_validators (event_row now e)" "row_key (event_row now e) \<notin> table_keys (uow_data u)"
    and "uow_closed u = UowOpen" "\<not> uow_aborted u"
  shows "\<exists>u' r. SaveEvent None now u e = (u', Inr r) \<and> \<not> uow_aborted u'"
  using assms
  by (simp add: SaveEvent_def checkOpen_def Let_def exec_stmt_def insert_event_def)

lemma SaveEvent_exists:
  assumes "event_validators (event_row now e)" "row_key (event_row now e) \<in> table_keys (uow_data u)"
    and "uow_closed u = UowOpen" "\<not> uow_aborted u"
  shows "\<exists>u' err. SaveEvent None now u e = (u', Inl err) \<and> errors_Is err ErrAlreadyExists"
  using assms
  by (simp add: SaveEvent_def checkOpen_def Let_def exec_stmt_def insert_event_def
      asAlreadyExists_chain)

lemma table_keys_insert:
  "insert_event e t = Inr (t', r) \<Longrightarrow>
   row_key e \<notin> table_keys t \<and> table_keys t' = insert (row_key e) (table_keys t) \<and>
   length (et_rows t') = Suc (length (et_rows t))"
  by (auto simp: insert_event_def table_keys_def row_key_def Let_def split: if_splits)

end
