(* ===== verification/Alert_Ingest.thy ===== *)
theory Alert_Ingest
  imports Alert_Repo Json_Encode
begin

text \<open>
  \<open>internal/usecases/alertingest/ingest.go\<close>: persisting a batch of active alerts, one transaction
  per alert. The locale \<open>event_store\<close> states what the batch loop needs of one store operation, whose
  error can hide a row that was stored when the acknowledgement of the commit is lost;
  its lemmas count the outcomes and show that ingesting a batch again stores nothing new. It is
  interpreted on \<open>ingestOne\<close> over the alert repository and the unit of work. SHA-256 is the
  argument \<open>sha256_hex\<close> (the hash in hexadecimal), so the results hold for every hash function.
\<close>

section \<open>Fingerprints\<close>

definition canonicalLabelsJSON :: "smap option \<Rightarrow> string result" where
  "canonicalLabelsJSON labels = Inr (json_map (nil_to_empty labels))"

definition canonicalFingerprint :: "(string \<Rightarrow> string) \<Rightarrow> smap option \<Rightarrow> string result" where
  "canonicalFingerprint sha256_hex labels =
     (case canonicalLabelsJSON labels of
        Inl e \<Rightarrow> Inl (wrap_error ''canonical labels json'' e)
      | Inr b \<Rightarrow> Inr (sha256_hex b))"

definition fingerprints :: "(string \<Rightarrow> string) \<Rightarrow> smap option \<Rightarrow> (string \<times> string) result" where
  "fingerprints sha256_hex labels =
     (case canonicalLabelsJSON labels of
        Inl e \<Rightarrow> Inl (wrap_error ''canonical labels json'' e)
      | Inr b \<Rightarrow> let fingerprint = sha256_hex b in Inr (fingerprint, fingerprint))"

definition EventFingerprints :: "(string \<Rightarrow> string) \<Rightarrow> smap option \<Rightarrow> (string \<times> string) result" where
  "EventFingerprints sha256_hex labels = fingerprints sha256_hex labels"

section \<open>One alert\<close>

text \<open>The callback of \<open>WithinTx\<close>.\<close>

definition ingest_callback ::
  "(string \<Rightarrow> string) \<Rightarrow> go_error option \<Rightarrow> go_time \<Rightarrow> ActiveAlert \<Rightarrow> event_table uow
   \<Rightarrow> event_table uow \<times> unit result" where
  "ingest_callback sha256_hex fault now a u =
     (case fingerprints sha256_hex (aa_Labels a) of
        Inl e \<Rightarrow> (u, Inl (wrap_error ''build alert fingerprints'' e))
      | Inr (sourceFP, canonicalFP) \<Rightarrow>
          (case NewAlertEvent (aa_Source a) sourceFP canonicalFP (aa_Labels a) (aa_Annotations a)
                  (aa_RawPayload a) (aa_StartsAt a) of
             Inl e \<Rightarrow> (u, Inl (wrap_error ''build alert event'' e))
           | Inr evt \<Rightarrow>
               (case WithAlertSourceProfile evt (aa_AlertSourceProfileID a) of
                  Inl e \<Rightarrow> (u, Inl (wrap_error ''tag alert event source profile'' e))
                | Inr evt \<Rightarrow>
                    (case SaveEvent fault now u evt of
                       (u, Inl e) \<Rightarrow> (u, Inl e)
                     | (u, Inr _) \<Rightarrow> (u, Inr ())))))"

definition ingestOne ::
  "(string \<Rightarrow> string) \<Rightarrow> go_time \<Rightarrow> event_table \<Rightarrow> tx_env \<times> ActiveAlert \<Rightarrow> event_table \<times> unit result" where
  "ingestOne sha256_hex now t ea =
     WithinTx (fst ea) t (ingest_callback sha256_hex (env_stmt (fst ea)) now (snd ea))"

section \<open>A batch\<close>

record Stats =
  st_Total :: nat
  st_Saved :: nat
  st_Duplicate :: nat
  st_Failed :: nat

definition errors_Join :: "go_error list \<Rightarrow> go_error option" where
  "errors_Join es =
     (if es = [] then None else Some (GoErr (concat (map err_text es)) (concat (map err_chain es))))"

text \<open>The loop, for any store operation: the state, the statistics and the collected failures.\<close>

fun ingest_loop ::
  "('d \<Rightarrow> 'a \<Rightarrow> 'd \<times> unit result) \<Rightarrow> 'd \<Rightarrow> 'a list \<Rightarrow> Stats \<Rightarrow> go_error list
   \<Rightarrow> 'd \<times> Stats \<times> go_error list" where
  "ingest_loop store d [] s failures = (d, s, failures)"
| "ingest_loop store d (a # as) s failures =
     (case store d a of
        (d, Inr _) \<Rightarrow> ingest_loop store d as (s\<lparr>st_Saved := st_Saved s + 1\<rparr>) failures
      | (d, Inl e) \<Rightarrow>
          if errors_Is e ErrAlreadyExists
          then ingest_loop store d as (s\<lparr>st_Duplicate := st_Duplicate s + 1\<rparr>) failures
          else ingest_loop store d as (s\<lparr>st_Failed := st_Failed s + 1\<rparr>) (failures @ [e]))"

definition start_stats :: "nat \<Rightarrow> Stats" where
  "start_stats n = \<lparr>st_Total = n, st_Saved = 0, st_Duplicate = 0, st_Failed = 0\<rparr>"

definition IngestAlerts ::
  "(string \<Rightarrow> string) \<Rightarrow> go_time \<Rightarrow> event_table \<Rightarrow> (tx_env \<times> ActiveAlert) list
   \<Rightarrow> event_table \<times> Stats \<times> go_error option" where
  "IngestAlerts sha256_hex now t alerts =
     (case ingest_loop (ingestOne sha256_hex now) t alerts (start_stats (length alerts)) [] of
        (t, s, failures) \<Rightarrow> (t, s, errors_Join failures))"

definition contextTermination :: "go_error option \<Rightarrow> go_error \<Rightarrow> go_error option" where
  "contextTermination ctxErr e =
     (case ctxErr of
        Some c \<Rightarrow> Some c
      | None \<Rightarrow>
          if errors_Is e ContextCanceled then Some (GoErr ''context canceled'' [ContextCanceled])
          else if errors_Is e ContextDeadlineExceeded
            then Some (GoErr ''context deadline exceeded'' [ContextDeadlineExceeded])
          else None)"

text \<open>
  The provider's answer is an argument: the alerts it returned and its error. \<open>ctxErr\<close> is
  \<open>ctx.Err()\<close> after the call.
\<close>

definition IngestOnce ::
  "(string \<Rightarrow> string) \<Rightarrow> go_time \<Rightarrow> event_table \<Rightarrow> go_error option
   \<Rightarrow> (tx_env \<times> ActiveAlert) list \<Rightarrow> go_error option \<Rightarrow> event_table \<times> Stats \<times> go_error option" where
  "IngestOnce sha256_hex now t ctxErr alerts pullErr =
     (case pullErr of
        None \<Rightarrow> IngestAlerts sha256_hex now t alerts
      | Some pe \<Rightarrow>
          (case contextTermination ctxErr pe of
             Some te \<Rightarrow> (t, start_stats 0, Some (wrap_error ''list active alerts'' te))
           | None \<Rightarrow>
               if alerts = [] then (t, start_stats 0, Some (wrap_error ''list active alerts'' pe))
               else (case IngestAlerts sha256_hex now t alerts of
                 (t, s, ingestErr) \<Rightarrow>
                   (t, s, errors_Join
                     (GoErr ''active alert pull incomplete: list active alerts''
                        (ErrIncompletePull # err_chain pe)
                      # (case ingestErr of None \<Rightarrow> [] | Some e \<Rightarrow> [e]))))))"

section \<open>What the loop needs of a store\<close>

text \<open>
  \<open>key\<close> identifies an item, \<open>keys\<close> the stored ones; a \<open>storable\<close> item is accepted whenever its
  key is new. \<open>lost\<close> says that an error may come back for an item that was stored all the same, and
  \<open>lawful\<close> that the errors of the driver are not mistaken for those of the domain.
\<close>

locale event_store =
  fixes store :: "'d \<Rightarrow> 'a \<Rightarrow> 'd \<times> unit result"
    and key :: "'a \<Rightarrow> 'k"
    and keys :: "'d \<Rightarrow> 'k set"
    and inv :: "'d \<Rightarrow> bool"
    and rows :: "'d \<Rightarrow> nat"
    and lawful :: "'a \<Rightarrow> bool"
    and lost :: "'a \<Rightarrow> bool"
    and storable :: "'a \<Rightarrow> bool"
  assumes inv_store: "inv d \<Longrightarrow> inv (fst (store d a))"
    and store_ok: "store d a = (d', Inr ()) \<Longrightarrow>
      key a \<notin> keys d \<and> keys d' = insert (key a) (keys d) \<and> rows d' = Suc (rows d)"
    and store_err: "store d a = (d', Inl e) \<Longrightarrow> d' = d \<or>
      lost a \<and> key a \<notin> keys d \<and> keys d' = insert (key a) (keys d) \<and> rows d' = Suc (rows d)"
    and store_dup: "lawful a \<Longrightarrow> store d a = (d', Inl e) \<Longrightarrow> errors_Is e ErrAlreadyExists \<Longrightarrow>
      key a \<in> keys d"
    and store_again: "storable a \<Longrightarrow> key a \<in> keys d \<Longrightarrow>
      \<exists>e. store d a = (d, Inl e) \<and> errors_Is e ErrAlreadyExists"
    and store_new: "storable a \<Longrightarrow> key a \<notin> keys d \<Longrightarrow> \<exists>d'. store d a = (d', Inr ())"
begin

lemma step_inv: "store d a = (d', r) \<Longrightarrow> inv d \<Longrightarrow> inv d'"
  using inv_store [of d a] by simp

lemma step_keys: "store d a = (d', r) \<Longrightarrow> keys d \<subseteq> keys d'"
  using store_err [of d a d'] store_ok [of d a d'] by (cases r) auto

lemma step_cases:
  assumes "store d a = (d', r)"
  obtains (saved) "r = Inr ()" "keys d' = insert (key a) (keys d)" "rows d' = Suc (rows d)"
  | (kept) e where "r = Inl e" "d' = d" "lawful a \<Longrightarrow> errors_Is e ErrAlreadyExists \<Longrightarrow> key a \<in> keys d"
  | (hidden) e where "r = Inl e" "lost a" "keys d' = insert (key a) (keys d)" "rows d' = Suc (rows d)"
      "lawful a \<Longrightarrow> \<not> errors_Is e ErrAlreadyExists"
  using assms store_err [of d a d'] store_ok [of d a d'] store_dup [of a d d'] by (cases r) auto

lemma loop_inv: "inv d \<Longrightarrow> inv (fst (ingest_loop store d as s f))"
proof (induction as arbitrary: d s f)
  case (Cons a as)
  then show ?case
    by (cases "store d a") (auto split: sum.splits dest: step_inv)
qed simp

lemma loop_counts:
  assumes "ingest_loop store d as s f = (d', s', f')"
  shows "st_Total s' = st_Total s \<and>
    st_Saved s' + st_Duplicate s' + st_Failed s' =
      st_Saved s + st_Duplicate s + st_Failed s + length as \<and>
    length f' + st_Failed s = length f + st_Failed s'"
  using assms
  by (induction store d as s f rule: ingest_loop.induct)
    (auto split: prod.splits sum.splits if_splits)

lemma loop_failures: "ingest_loop store d as s f = (d', s', f') \<Longrightarrow> \<exists>g. f' = f @ g"
  by (induction as arbitrary: d s f) (fastforce split: prod.splits sum.splits if_splits)+

text \<open>
  Every saved item is a new row. There are no other new rows when no acknowledgement is lost, and
  never more than the items counted as failed when the errors are lawful.
\<close>

lemma loop_rows:
  assumes "ingest_loop store d as s f = (d', s', f')"
  shows "rows d + st_Saved s' \<le> rows d' + st_Saved s"
    "\<forall>a \<in> set as. \<not> lost a \<Longrightarrow> rows d' + st_Saved s = rows d + st_Saved s'"
    "\<forall>a \<in> set as. lawful a \<Longrightarrow>
      rows d' + st_Saved s + st_Failed s \<le> rows d + st_Saved s' + st_Failed s'"
proof -
  have "rows d + st_Saved s' \<le> rows d' + st_Saved s \<and>
      ((\<forall>a \<in> set as. \<not> lost a) \<longrightarrow> rows d' + st_Saved s = rows d + st_Saved s') \<and>
      ((\<forall>a \<in> set as. lawful a) \<longrightarrow>
        rows d' + st_Saved s + st_Failed s \<le> rows d + st_Saved s' + st_Failed s')"
    using assms
  proof (induction as arbitrary: d s f)
    case (Cons a as)
    obtain d1 r where step: "store d a = (d1, r)" by (cases "store d a")
    from step show ?case
    proof (cases rule: step_cases)
      case saved
      with step Cons.prems show ?thesis by (auto dest: Cons.IH)
    next
      case (kept e)
      with step Cons.prems show ?thesis by (fastforce dest: Cons.IH split: if_splits)
    next
      case (hidden e)
      with step Cons.prems show ?thesis by (fastforce dest: Cons.IH split: if_splits)
    qed
  qed simp
  then show "rows d + st_Saved s' \<le> rows d' + st_Saved s"
    "\<forall>a \<in> set as. \<not> lost a \<Longrightarrow> rows d' + st_Saved s = rows d + st_Saved s'"
    "\<forall>a \<in> set as. lawful a \<Longrightarrow>
      rows d' + st_Saved s + st_Failed s \<le> rows d + st_Saved s' + st_Failed s'"
    by simp_all
qed

lemma loop_keys_upper: "keys (fst (ingest_loop store d as s f)) \<subseteq> keys d \<union> key ` set as"
proof (induction as arbitrary: d s f)
  case (Cons a as)
  obtain d1 r where step: "store d a = (d1, r)" by (cases "store d a")
  then have "keys d1 \<subseteq> insert (key a) (keys d)" by (cases rule: step_cases) auto
  moreover have "keys (fst (ingest_loop store d (a # as) s f)) \<subseteq> keys d1 \<union> key ` set as"
    using step Cons.IH by (cases r) auto
  ultimately show ?case by auto
qed simp

lemma loop_keys_mono: "keys d \<subseteq> keys (fst (ingest_loop store d as s f))"
proof (induction as arbitrary: d s f)
  case (Cons a as)
  obtain d1 r where step: "store d a = (d1, r)" by (cases "store d a")
  note step_keys [OF step]
  also have "keys d1 \<subseteq> keys (fst (ingest_loop store d (a # as) s f))"
    using step Cons.IH by (cases r) auto
  finally show ?case .
qed simp

text \<open>Without a failure every item is stored.\<close>

lemma loop_all_stored:
  assumes "ingest_loop store d as s f = (d', s', f')" "\<forall>a \<in> set as. lawful a" "f' = []"
  shows "key ` set as \<subseteq> keys d'"
  using assms
proof (induction as arbitrary: d s f)
  case (Cons a as)
  obtain d1 r where step: "store d a = (d1, r)" by (cases "store d a")
  have no_more: "f0 = []" if "ingest_loop store d0 as s0 f0 = (d', s', [])" for d0 s0 f0
    using loop_counts [OF that] loop_failures [OF that] by simp
  obtain s1 where rest: "ingest_loop store d1 as s1 f = (d', s', f')"
    and "(\<exists>e. r = Inl e \<and> errors_Is e ErrAlreadyExists) \<or> r = Inr ()"
    using Cons.prems step no_more by (cases r) (auto split: if_splits)
  with step Cons.prems(2) have "key a \<in> keys d1" by (cases rule: step_cases) auto
  moreover have "keys d1 \<subseteq> keys d'" using loop_keys_mono [of d1 as s1 f] rest by simp
  ultimately show ?case using Cons.IH [OF rest] Cons.prems by auto
qed simp

text \<open>The stored keys are exactly the old ones and those of the items not counted as failed.\<close>

lemma loop_stores:
  assumes "\<forall>a \<in> set as. storable a"
  shows "keys (fst (ingest_loop store d as s f)) = keys d \<union> key ` set as \<and>
    snd (snd (ingest_loop store d as s f)) = f"
  using assms
proof (induction as arbitrary: d s f)
  case (Cons a as)
  show ?case
  proof (cases "key a \<in> keys d")
    case True
    then obtain e where "store d a = (d, Inl e)" "errors_Is e ErrAlreadyExists"
      using store_again Cons.prems by (metis list.set_intros(1))
    with True Cons show ?thesis by auto
  next
    case False
    then obtain d' where d': "store d a = (d', Inr ())"
      using store_new Cons.prems by (metis list.set_intros(1))
    then have "keys d' = insert (key a) (keys d)" using store_ok by blast
    with d' Cons show ?thesis by auto
  qed
qed simp

lemma loop_replay:
  assumes "\<forall>a \<in> set as. storable a \<and> key a \<in> keys d"
  shows "ingest_loop store d as s f = (d, s\<lparr>st_Duplicate := st_Duplicate s + length as\<rparr>, f)"
  using assms
proof (induction as arbitrary: s f)
  case (Cons a as)
  then obtain e where "store d a = (d, Inl e)" "errors_Is e ErrAlreadyExists"
    using store_again by (metis list.set_intros(1))
  with Cons show ?case by simp
qed simp

end

section \<open>The model is such a store\<close>

definition alert_key :: "(string \<Rightarrow> string) \<Rightarrow> tx_env \<times> ActiveAlert \<Rightarrow> event_key" where
  "alert_key sha256_hex ea =
     (aa_AlertSourceProfileID (snd ea), TrimSpace (aa_Source (snd ea)),
      TrimSpace (sha256_hex (json_map (nil_to_empty (aa_Labels (snd ea))))),
      NormalizeUTCMicro (aa_StartsAt (snd ea)))"

definition lawful_env :: "tx_env \<times> ActiveAlert \<Rightarrow> bool" where
  "lawful_env ea \<longleftrightarrow>
     driver_fault (env_begin (fst ea)) \<and> driver_fault (env_stmt (fst ea)) \<and>
     driver_fault (map_option snd (env_commit (fst ea))) \<and> driver_fault (env_rollback (fst ea))"

definition storable_alert :: "(string \<Rightarrow> string) \<Rightarrow> tx_env \<times> ActiveAlert \<Rightarrow> bool" where
  "storable_alert sha256_hex ea \<longleftrightarrow>
     fst ea = calm_env \<and>
     (let a = snd ea; source = TrimSpace (aa_Source a);
          fp = TrimSpace (sha256_hex (json_map (nil_to_empty (aa_Labels a)))) in
      source \<noteq> [] \<and> length source \<le> 64 \<and> fp \<noteq> [] \<and> length fp \<le> 64 \<and>
      aa_StartsAt a \<noteq> 0 \<and> 0 \<le> aa_AlertSourceProfileID a)"

lemma ingest_callback_keeps_open: "keeps_open (ingest_callback sha256_hex fault now a)"
proof -
  have "uow_closed (fst (SaveEvent fault now u e)) = uow_closed u \<and>
      uow_published (fst (SaveEvent fault now u e)) = uow_published u" for u e
    using SaveEvent_keeps_open by (auto simp: keeps_open_def)
  then show ?thesis
    unfolding keeps_open_def ingest_callback_def
    by (auto split: sum.splits prod.splits) (metis fst_conv)+
qed

text \<open>The event the callback hands to the repository.\<close>

definition alert_event :: "(string \<Rightarrow> string) \<Rightarrow> ActiveAlert \<Rightarrow> AlertEvent result" where
  "alert_event sha256_hex a =
     bindE (NewAlertEvent (aa_Source a) (sha256_hex (json_map (nil_to_empty (aa_Labels a))))
              (sha256_hex (json_map (nil_to_empty (aa_Labels a)))) (aa_Labels a)
              (aa_Annotations a) (aa_RawPayload a) (aa_StartsAt a))
       (\<lambda>e. WithAlertSourceProfile e (aa_AlertSourceProfileID a))"

lemma alert_event_key:
  assumes "alert_event sha256_hex (snd ea) = Inr e"
  shows "row_key (event_row now e) = alert_key sha256_hex ea"
  using assms
  by (auto simp: alert_event_def bindE_eq_Inr_iff NewAlertEvent_def WithAlertSourceProfile_def
      Let_def row_key_event_row alert_key_def)

lemma ingest_callback_ok:
  "ingest_callback sha256_hex fault now a u = (u', Inr ()) \<longleftrightarrow>
     (\<exists>e r. alert_event sha256_hex a = Inr e \<and> SaveEvent fault now u e = (u', Inr r))"
  by (auto simp: ingest_callback_def alert_event_def fingerprints_def canonicalLabelsJSON_def
      Let_def bindE_eq_Inr_iff split: sum.splits prod.splits)

lemma ingest_callback_dup:
  assumes "ingest_callback sha256_hex fault now a u = (u', Inl err)" "errors_Is err ErrAlreadyExists"
  shows "\<exists>e. alert_event sha256_hex a = Inr e \<and> SaveEvent fault now u e = (u', Inl err)"
  using assms
  by (auto simp: ingest_callback_def alert_event_def fingerprints_def canonicalLabelsJSON_def
      NewAlertEvent_def WithAlertSourceProfile_def Let_def split: sum.splits prod.splits if_splits)

lemma storable_event:
  assumes "storable_alert sha256_hex ea"
  obtains e where "alert_event sha256_hex (snd ea) = Inr e" "event_validators (event_row now e)"
  using assms
  by (auto simp: storable_alert_def alert_event_def NewAlertEvent_def WithAlertSourceProfile_def
      Let_def IsZero_def event_validators_def event_row_def)

lemma WithinTx_lawful_error:
  assumes "WithinTx env d fn = (d', Inl e)" "errors_Is e ErrAlreadyExists" "keeps_open fn"
    and "driver_fault (env_begin env)" "driver_fault (map_option snd (env_commit env))" "driver_fault (env_rollback env)"
  shows "\<exists>u e'. fn (newUnitOfWork d) = (u, Inl e') \<and> errors_Is e' ErrAlreadyExists"
proof (cases "fn (newUnitOfWork d)")
  case (Pair u r)
  have "uow_closed u = UowOpen" using keeps_open_new [OF assms(3) Pair] by simp
  with Pair assms show ?thesis
    by (cases r)
      (auto simp: WithinTx_def rollbackInternal_def commitInternal_def driver_fault_def pg_aborted_def
        errors_Is_def wrap_error_def invariant_error_def Let_def
        split: if_splits option.splits prod.splits sum.splits)
qed

interpretation ingest_store: event_store "ingestOne sha256_hex now" "alert_key sha256_hex" table_keys
  table_wf "\<lambda>t. length (et_rows t)" lawful_env "\<lambda>ea. lost_commit (fst ea)" "storable_alert sha256_hex"
  for sha256_hex now
proof unfold_locales
  fix d :: event_table and ea :: "tx_env \<times> ActiveAlert" and d' e
  let ?fn = "ingest_callback sha256_hex (env_stmt (fst ea)) now (snd ea)"
  note open_fn = ingest_callback_keeps_open [of sha256_hex "env_stmt (fst ea)" now "snd ea"]
  have ok: "\<exists>ev r. alert_event sha256_hex (snd ea) = Inr ev \<and>
      insert_event (event_row now ev) d = Inr (d1, r)"
    if "ingestOne sha256_hex now d ea = (d1, Inr ())" for d1
    using that unfolding ingestOne_def
    by (rule WithinTx_ok [OF open_fn]) (auto simp: ingest_callback_ok dest: SaveEvent_ok)
  have err: "d1 = d \<or> lost_commit (fst ea) \<and> (\<exists>ev r. alert_event sha256_hex (snd ea) = Inr ev \<and>
      insert_event (event_row now ev) d = Inr (d1, r))"
    if "ingestOne sha256_hex now d ea = (d1, Inl x)" for d1 x
    using WithinTx_error [OF open_fn that [unfolded ingestOne_def]]
    by (fastforce simp: ingest_callback_ok dest: SaveEvent_ok)
  show "ingestOne sha256_hex now d ea = (d', Inr ()) \<Longrightarrow>
      alert_key sha256_hex ea \<notin> table_keys d \<and>
      table_keys d' = insert (alert_key sha256_hex ea) (table_keys d) \<and>
      length (et_rows d') = Suc (length (et_rows d))"
    using ok alert_event_key table_keys_insert by metis
  show "ingestOne sha256_hex now d ea = (d', Inl e) \<Longrightarrow> d' = d \<or> lost_commit (fst ea) \<and>
      alert_key sha256_hex ea \<notin> table_keys d \<and>
      table_keys d' = insert (alert_key sha256_hex ea) (table_keys d) \<and>
      length (et_rows d') = Suc (length (et_rows d))"
    using err alert_event_key table_keys_insert by metis
  show "table_wf (fst (ingestOne sha256_hex now d ea))" if "table_wf d"
  proof (cases "ingestOne sha256_hex now d ea")
    case (Pair d1 r)
    show ?thesis
    proof (cases r)
      case (Inl x)
      with Pair that err show ?thesis by (auto dest: table_wf_insert)
    next
      case (Inr x)
      with Pair ok that show ?thesis by (auto dest: table_wf_insert)
    qed
  qed
  show "alert_key sha256_hex ea \<in> table_keys d"
    if hyps: "lawful_env ea" "ingestOne sha256_hex now d ea = (d', Inl e)" "errors_Is e ErrAlreadyExists"
  proof -
    have lawful: "driver_fault (env_begin (fst ea))" "driver_fault (map_option snd (env_commit (fst ea)))"
      "driver_fault (env_rollback (fst ea))" "driver_fault (env_stmt (fst ea))"
      using hyps(1) by (auto simp: lawful_env_def)
    obtain u e' where "?fn (newUnitOfWork d) = (u, Inl e')" "errors_Is e' ErrAlreadyExists"
      using WithinTx_lawful_error [OF hyps(2) [unfolded ingestOne_def] hyps(3) open_fn lawful(1-3)]
      by blast
    then show ?thesis
      using ingest_callback_dup SaveEvent_duplicate [OF _ _ lawful(4)] alert_event_key
      by (metis newUnitOfWork_simps(1))
  qed
  show "\<exists>e. ingestOne sha256_hex now d ea = (d, Inl e) \<and> errors_Is e ErrAlreadyExists"
    if hyps: "storable_alert sha256_hex ea" "alert_key sha256_hex ea \<in> table_keys d"
  proof -
    obtain ev where ev: "alert_event sha256_hex (snd ea) = Inr ev"
      "event_validators (event_row now ev)" by (rule storable_event [OF hyps(1)])
    have "row_key (event_row now ev) \<in> table_keys (uow_data (newUnitOfWork d))"
      using hyps(2) alert_event_key [OF ev(1)] by simp
    then obtain u' err where "SaveEvent None now (newUnitOfWork d) ev = (u', Inl err)"
      "errors_Is err ErrAlreadyExists" using SaveEvent_exists [OF ev(2)] by force
    moreover have "fst ea = calm_env" using hyps(1) by (simp add: storable_alert_def)
    ultimately show ?thesis
      using ev(1) open_fn
      by (auto simp: ingestOne_def calm_env_def ingest_callback_def alert_event_def fingerprints_def
          canonicalLabelsJSON_def Let_def bindE_eq_Inr_iff intro!: exI WithinTx_rolls_back)
  qed
  show "\<exists>d'. ingestOne sha256_hex now d ea = (d', Inr ())"
    if hyps: "storable_alert sha256_hex ea" "alert_key sha256_hex ea \<notin> table_keys d"
  proof -
    obtain ev where ev: "alert_event sha256_hex (snd ea) = Inr ev"
      "event_validators (event_row now ev)" by (rule storable_event [OF hyps(1)])
    have "row_key (event_row now ev) \<notin> table_keys (uow_data (newUnitOfWork d))"
      using hyps(2) alert_event_key [OF ev(1)] by simp
    then obtain u' r where "SaveEvent None now (newUnitOfWork d) ev = (u', Inr r)" "\<not> uow_aborted u'"
      using SaveEvent_fresh [OF ev(2)] by force
    moreover have "fst ea = calm_env" using hyps(1) by (simp add: storable_alert_def)
    ultimately show ?thesis
      using ev(1) open_fn
      by (auto simp: ingestOne_def calm_env_def ingest_callback_ok intro!: exI WithinTx_commits)
  qed
qed

end
