(* ===== verification/Alert_Properties.thy ===== *)
theory Alert_Properties
  imports Alert_Grouping Alert_Ingest
begin

text \<open>
  The properties of the alert pipeline: the life of an alert event, the batch ingest with its
  accounting and its replay, and the grouping of events. The witnesses ingest and group two small
  events; the hash function of the witnesses is the identity.
\<close>

section \<open>Examples\<close>

definition demo_alert :: "string \<Rightarrow> int \<Rightarrow> go_time \<Rightarrow> ActiveAlert" where
  "demo_alert name profile startsAt =
     \<lparr>aa_Source = ''am'', aa_AlertSourceProfileID = profile,
      aa_Labels = Some [(''alertname'', name), (''severity'', ''Critical'')],
      aa_Annotations = None, aa_StartsAt = startsAt, aa_RawPayload = []\<rparr>"

definition demo_batch :: "(tx_env \<times> ActiveAlert) list" where
  "demo_batch = [(calm_env, demo_alert ''cpu'' 1 5000), (calm_env, demo_alert ''cpu'' 1 5000)]"

definition lost_batch :: "(tx_env \<times> ActiveAlert) list" where
  "lost_batch =
     [(calm_env\<lparr>env_commit := Some (True, GoErr ''lost connection'' [])\<rparr>, demo_alert ''cpu'' 1 5000),
      (calm_env, demo_alert ''cpu'' 1 5000)]"

definition demo_hash :: "string \<Rightarrow> string" where "demo_hash s = ''h''"

definition empty_table :: event_table where "empty_table = \<lparr>et_rows = [], et_next = 1\<rparr>"

definition demo_event :: "int \<Rightarrow> int \<Rightarrow> string \<Rightarrow> go_time \<Rightarrow> AlertEvent" where
  "demo_event i profile name startsAt =
     \<lparr>ae_ID = i, ae_Source = ''am'', ae_AlertSourceProfileID = profile, ae_SourceFingerprint = ''h'',
      ae_CanonicalFingerprint = ''h'',
      ae_Labels = [(''alertname'', name), (''severity'', ''Critical'')], ae_Annotations = [],
      ae_RawPayload = [], ae_Status = AlertStatusFiring, ae_StartsAt = startsAt, ae_EndsAt = None,
      ae_CreatedAt = 0\<rparr>"

definition demo_events :: "AlertEvent list" where
  "demo_events = [demo_event 1 1 ''cpu'' 5000, demo_event 2 2 ''cpu'' 4000]"

definition demo_groups :: "AlertGroup list result" where
  "demo_groups = GroupEvents (\<lambda>s. s) (\<lambda>s. s) demo_events DefaultConfig"

lemma demo_groups_ok: "\<exists>gs. demo_groups = Inr gs \<and> length gs = 2"
proof -
  have "case demo_groups of Inl e \<Rightarrow> False | Inr gs \<Rightarrow> length gs = 2" by code_simp
  then show ?thesis by (auto split: sum.splits)
qed

section \<open>Alert events\<close>

text \<open>
  Every alert event a constructor, a source tag or a resolution produces has trimmed,
  non-empty identity fields and microsecond times, ends no earlier than it starts, and is resolved
  exactly when it has an end; once it is resolved no further resolution changes it.
\<close>

theorem alert_event_lifecycle:
  assumes "alert_reachable a"
  shows "AlertEvent_wf a \<and>
    (\<forall>t a' t' a''. AlertEvent_Resolve a t = Inr a' \<longrightarrow> AlertEvent_Resolve a' t' = Inr a'' \<longrightarrow>
       ae_Status a' = AlertStatusResolved \<and> ae_EndsAt a' = Some (NormalizeUTCMicro t) \<and> a'' = a')"
  using alert_reachable_wf [OF assms] AlertEvent_Resolve_result AlertEvent_Resolve_frozen by blast

theorem alert_event_lifecycle_witness:
  "\<exists>a a'. alert_reachable a \<and> AlertEvent_Resolve a 5000 = Inr a' \<and> AlertEvent_wf a \<and>
     ae_EndsAt a' = Some (NormalizeUTCMicro 5000)"
proof -
  have "case NewAlertEvent ''am'' ''s'' ''c'' None None [] 1000 of Inl e \<Rightarrow> False
    | Inr a \<Rightarrow> (case AlertEvent_Resolve a 5000 of Inl e \<Rightarrow> False
        | Inr a' \<Rightarrow> AlertEvent_Resolve a' 5000 = Inr a')" by code_simp
  then obtain a a' where a: "NewAlertEvent ''am'' ''s'' ''c'' None None [] 1000 = Inr a"
    "AlertEvent_Resolve a 5000 = Inr a'" "AlertEvent_Resolve a' 5000 = Inr a'"
    by (auto split: sum.splits)
  with alert_event_lifecycle [OF alert_new [OF a(1)]] show ?thesis
    using alert_new [OF a(1)] by blast
qed

section \<open>The stored resolution\<close>

lemma update_rows_find:
  "find p rs = Some r \<Longrightarrow> f r \<in> set (update_rows p f rs)"
  by (induction rs) (auto split: if_splits)

lemma update_rows_none: "find p rs = None \<Longrightarrow> update_rows p f rs = rs"
  by (induction rs) (auto split: if_splits)

lemma update_rows_keeps: "x \<in> set rs \<Longrightarrow> \<not> p x \<Longrightarrow> x \<in> set (update_rows p f rs)"
  by (induction rs) auto

lemma resolved_row_kept:
  assumes "x \<in> set rs" "ae_Status x = AlertStatusResolved"
  shows "x \<in> set (update_rows (\<lambda>r. ae_ID r = i \<and> ae_Status r = AlertStatusFiring \<and> ae_StartsAt r \<le> t) f rs)"
  using assms by (simp add: update_rows_keeps)

lemma find_SomeD: "find p rs = Some r \<Longrightarrow> p r \<and> r \<in> set rs"
  by (induction rs) (auto split: if_splits)

text \<open>
  C16: updating the resolution of an event never touches a row that is resolved already, changes
  no row's identity, and when it succeeds the row with that ID is resolved at the time asked for.
\<close>

theorem stored_resolution_is_final:
  assumes "UpdateEventResolution fault u e = (u', r)"
  shows "map ae_ID (et_rows (uow_data u')) = map ae_ID (et_rows (uow_data u)) \<and>
    map row_key (et_rows (uow_data u')) = map row_key (et_rows (uow_data u)) \<and>
    (\<forall>x \<in> set (et_rows (uow_data u)). ae_Status x = AlertStatusResolved \<longrightarrow>
       x \<in> set (et_rows (uow_data u'))) \<and>
    (\<forall>x. r = Inr x \<longrightarrow> ae_ID x = ae_ID e \<and> ae_Status x = AlertStatusResolved \<and>
       ae_EndsAt x = map_option NormalizeUTCMicro (ae_EndsAt e) \<and>
       x \<in> set (et_rows (uow_data u')))"
proof -
  let ?rows = "et_rows (uow_data u)"
  let ?set = "\<lambda>t r. r\<lparr>ae_Status := AlertStatusResolved, ae_EndsAt := Some t\<rparr>"
  note stored = update_rows_find [where f = "?set _"]
  have keys: "map row_key (update_rows p (?set t) rs) = map row_key rs"
    "map ae_ID (update_rows p (?set t) rs) = map ae_ID rs" for p t rs
    using update_rows_keys [of "?set t" p rs] by (simp_all add: row_key_def)
  show ?thesis
    using assms keys
    by (auto simp: UpdateEventResolution_def exec_stmt_def query_stmt_def Let_def update_rows_none
        intro: stored resolved_row_kept dest: find_SomeD
        split: option.splits if_splits sum.splits prod.splits bool.splits)
qed

theorem stored_resolution_is_final_witness:
  "\<exists>u' x. UpdateEventResolution None (newUnitOfWork \<lparr>et_rows = [demo_event 1 1 ''cpu'' 5000], et_next = 2\<rparr>)
       ((demo_event 1 1 ''cpu'' 5000)\<lparr>ae_Status := AlertStatusResolved, ae_EndsAt := Some 9000\<rparr>) = (u', Inr x) \<and>
     ae_Status x = AlertStatusResolved \<and> x \<in> set (et_rows (uow_data u'))"
proof -
  let ?u = "newUnitOfWork \<lparr>et_rows = [demo_event 1 1 ''cpu'' 5000], et_next = 2\<rparr>"
  let ?e = "(demo_event 1 1 ''cpu'' 5000)\<lparr>ae_Status := AlertStatusResolved, ae_EndsAt := Some 9000\<rparr>"
  have "is_ok (snd (UpdateEventResolution None ?u ?e))" by code_simp
  then obtain u' x where run: "UpdateEventResolution None ?u ?e = (u', Inr x)"
    by (auto simp: is_ok_def prod_eq_iff)
  with stored_resolution_is_final [OF run] show ?thesis by blast
qed

section \<open>Ingesting a batch\<close>

text \<open>
  C17: every alert of a batch is counted exactly once, as saved, duplicate or failed; the table
  keeps its unique identifiers and natural keys, loses no key and gains none but those of the alerts;
  it grows by the number of saved alerts, or by more when a commit was applied whose acknowledgement
  was lost; the call reports an error exactly when an alert failed. As long as the faults of the
  driver are not themselves the errors by which the code recognises a duplicate (\<open>lawful_env\<close>), the
  table grows by no more than the saved and the failed alerts, and without an error every alert of the
  batch is stored.
\<close>

theorem ingest_accounting:
  assumes "table_wf t" "IngestAlerts sha now t alerts = (t', s, err)"
  shows "st_Total s = length alerts \<and>
    st_Saved s + st_Duplicate s + st_Failed s = length alerts \<and>
    table_wf t' \<and> table_keys t \<subseteq> table_keys t' \<and> table_keys t' \<subseteq> table_keys t \<union> alert_key sha ` set alerts \<and>
    length (et_rows t) + st_Saved s \<le> length (et_rows t') \<and>
    ((\<forall>ea \<in> set alerts. \<not> lost_commit (fst ea)) \<longrightarrow>
       length (et_rows t') = length (et_rows t) + st_Saved s) \<and>
    ((\<forall>ea \<in> set alerts. lawful_env ea) \<longrightarrow>
       length (et_rows t') \<le> length (et_rows t) + st_Saved s + st_Failed s \<and>
       (err = None \<longrightarrow> table_keys t' = table_keys t \<union> alert_key sha ` set alerts)) \<and>
    (err = None \<longleftrightarrow> st_Failed s = 0)"
proof -
  let ?s = "start_stats (length alerts)"
  obtain f where loop: "ingest_loop (ingestOne sha now) t alerts ?s [] = (t', s, f)"
    and err: "err = errors_Join f"
    using assms(2) by (auto simp: IngestAlerts_def split: prod.splits)
  have zero: "st_Saved ?s = 0" "st_Duplicate ?s = 0" "st_Failed ?s = 0" "st_Total ?s = length alerts"
    by (simp_all add: start_stats_def)
  have none: "err = None \<longleftrightarrow> f = []" by (simp add: err errors_Join_def)
  note counts = ingest_store.loop_counts [OF loop, unfolded zero]
  have keys: "table_keys t \<subseteq> table_keys t'" "table_keys t' \<subseteq> table_keys t \<union> alert_key sha ` set alerts"
    using ingest_store.loop_keys_mono [of t sha now alerts ?s "[]"]
      ingest_store.loop_keys_upper [of sha now t alerts ?s "[]"] unfolding loop by simp_all
  have "table_wf t'"
    using ingest_store.loop_inv [OF assms(1), of sha now alerts ?s "[]"] unfolding loop by simp
  moreover have "table_keys t' = table_keys t \<union> alert_key sha ` set alerts"
    if "\<forall>ea \<in> set alerts. lawful_env ea" "err = None"
    using ingest_store.loop_all_stored [OF loop that(1)] that(2) keys none by blast
  ultimately show ?thesis
    using counts keys none ingest_store.loop_rows [OF loop, unfolded zero] by auto
qed

text \<open>The first acknowledgement is lost: its alert is stored, counted as failed, and a duplicate later.\<close>

theorem ingest_accounting_witness:
  "\<exists>t' s err. IngestAlerts demo_hash 7 empty_table lost_batch = (t', s, err) \<and>
     st_Saved s = 0 \<and> st_Duplicate s = 1 \<and> st_Failed s = 1 \<and> table_wf t' \<and>
     length (et_rows t') = 1 \<and> err \<noteq> None"
proof -
  have wf: "table_wf empty_table" by (simp add: empty_table_def table_wf_def)
  have "case IngestAlerts demo_hash 7 empty_table lost_batch of
      (t', s, err) \<Rightarrow> st_Saved s = 0 \<and> st_Duplicate s = 1 \<and> length (et_rows t') = 1" by code_simp
  moreover have "length lost_batch = 2" by (simp add: lost_batch_def)
  ultimately show ?thesis
    by (auto split: prod.splits dest!: ingest_accounting [OF wf])
qed

text \<open>
  ingesting a batch of acceptable alerts over a database that answers stores exactly their
  keys, and ingesting the same batch again stores nothing and counts every alert as a duplicate.
\<close>

theorem ingest_replay:
  assumes "\<forall>ea \<in> set alerts. storable_alert sha ea"
    and "IngestAlerts sha now t alerts = (t', s, err)"
  shows "err = None \<and> table_keys t' = table_keys t \<union> alert_key sha ` set alerts \<and>
    IngestAlerts sha later t' alerts =
      (t', (start_stats (length alerts))\<lparr>st_Duplicate := length alerts\<rparr>, None)"
proof -
  let ?s = "start_stats (length alerts)"
  obtain f where loop: "ingest_loop (ingestOne sha now) t alerts ?s [] = (t', s, f)"
    and err: "err = errors_Join f"
    using assms(2) by (auto simp: IngestAlerts_def split: prod.splits)
  have keys: "table_keys t' = table_keys t \<union> alert_key sha ` set alerts" and f: "f = []"
    using ingest_store.loop_stores [OF assms(1), of now t ?s "[]"] unfolding loop by auto
  have "ingest_loop (ingestOne sha later) t' alerts ?s [] = (t', ?s\<lparr>st_Duplicate := length alerts\<rparr>, [])"
    using ingest_store.loop_replay [of alerts sha t' later ?s "[]"] assms(1) keys
    by (simp add: start_stats_def)
  with keys f err show ?thesis by (simp add: IngestAlerts_def errors_Join_def)
qed

theorem ingest_replay_witness:
  "\<exists>t' s err. IngestAlerts demo_hash 7 empty_table demo_batch = (t', s, err) \<and>
     snd (IngestAlerts demo_hash 9 t' demo_batch) =
       (\<lparr>st_Total = 2, st_Saved = 0, st_Duplicate = 2, st_Failed = 0\<rparr>, None)"
proof -
  have st: "\<forall>ea \<in> set demo_batch. storable_alert demo_hash ea" by code_simp
  obtain t' s err where run: "IngestAlerts demo_hash 7 empty_table demo_batch = (t', s, err)"
    by (cases "IngestAlerts demo_hash 7 empty_table demo_batch") auto
  with ingest_replay [OF st run, of 9] show ?thesis
    by (auto simp: start_stats_def demo_batch_def)
qed

section \<open>Grouping\<close>

lemma group_members:
  assumes "GroupEvents sha ul es cfg = Inr gs" "g \<in> set gs" "validateConfig cfg = Inr n"
  obtains k where "k \<in> event_key n ` set es" "ag_Dimensions g = k" "ag_GroupKey g = sha k"
    "build_group sha ul n (k, filter (\<lambda>e. event_key n e = k) es) = Inr g"
    "ag_EventIDs g =
       map ae_ID (sort_key (\<lambda>e. (ae_StartsAt e, ae_ID e)) (filter (\<lambda>e. event_key n e = k) es))"
proof (rule GroupEvents_member [OF assms(1,2)])
  fix n' b
  assume b: "validateConfig cfg = Inr n'" "fst b \<in> event_key n' ` set es"
    "snd b = filter (\<lambda>e. event_key n' e = fst b) es" "build_group sha ul n' b = Inr g"
  have pair: "b = (fst b, filter (\<lambda>e. event_key n e = fst b) es)"
    using b(1,3) assms(3) by (simp add: prod_eq_iff)
  have "build_group sha ul n (fst b, filter (\<lambda>e. event_key n e = fst b) es) = Inr g"
    using b(1,4) assms(3) unfolding pair [symmetric] by simp
  with that [of "fst b"] build_group_Inr [OF this] b(1,2) assms(3) show thesis by simp
qed

lemma group_of_id:
  assumes "GroupEvents sha ul es cfg = Inr gs" "g \<in> set gs" "validateConfig cfg = Inr n"
    and "distinct (map ae_ID es)" "e \<in> set es"
  shows "ae_ID e \<in> set (ag_EventIDs g) \<longleftrightarrow> event_key n e = ag_Dimensions g"
proof (rule group_members [OF assms(1-3)])
  fix k
  assume k: "ag_Dimensions g = k" "ag_EventIDs g =
       map ae_ID (sort_key (\<lambda>e. (ae_StartsAt e, ae_ID e)) (filter (\<lambda>e. event_key n e = k) es))"
  have "x = e" if "x \<in> set es" "ae_ID x = ae_ID e" for x
    using that assms(4,5) by (auto simp: distinct_map dest: inj_onD)
  moreover have "ae_ID e \<in> set (ag_EventIDs g) \<longleftrightarrow>
      (\<exists>x \<in> set es. event_key n x = k \<and> ae_ID x = ae_ID e)"
    unfolding k(2) by (auto simp: image_iff eq_commute)
  ultimately show ?thesis unfolding k(1) using assms(5) by blast
qed

text \<open>
  the groups partition the events: the identifiers of the groups, counted with multiplicity,
  are those of the events, and the event count of a group is the number of its identifiers, which
  is not zero.
\<close>

theorem groups_partition_events:
  assumes "GroupEvents sha ul es cfg = Inr gs"
  shows "mset (concat (map ag_EventIDs gs)) = mset (map ae_ID es) \<and>
    (\<forall>g \<in> set gs. ag_EventCount g = int (length (ag_EventIDs g)) \<and> ag_EventIDs g \<noteq> [])"
proof -
  have "ag_EventCount g = int (length (ag_EventIDs g)) \<and> ag_EventIDs g \<noteq> []" if g: "g \<in> set gs" for g
  proof (rule GroupEvents_member [OF assms g])
    fix n b
    assume b: "fst b \<in> event_key n ` set es" "snd b = filter (\<lambda>e. event_key n e = fst b) es"
      "build_group sha ul n b = Inr g"
    then have "snd b \<noteq> []" by (auto simp: filter_empty_conv)
    moreover have ids: "length (ag_EventIDs g) = length (snd b)"
      using build_group_Inr [OF b(3)] by simp
    ultimately have "ag_EventIDs g \<noteq> []" by (metis length_0_conv)
    with ids show ?thesis using build_group_Inr [OF b(3)] by metis
  qed
  with GroupEvents_ids [OF assms] show ?thesis by blast
qed

theorem groups_partition_events_witness:
  "\<exists>gs. demo_groups = Inr gs \<and> mset (concat (map ag_EventIDs gs)) = {#1, 2#}"
proof -
  obtain gs where "GroupEvents (\<lambda>s. s) (\<lambda>s. s) demo_events DefaultConfig = Inr gs"
    using demo_groups_ok by (auto simp: demo_groups_def)
  with groups_partition_events [OF this] show ?thesis
    by (simp add: demo_groups_def demo_events_def demo_event_def)
qed

text \<open>
  C18: the order in which the events arrive does not matter: any permutation of them gives the
  same groups in the same order, when the hash tells the dimension texts of the events apart.
\<close>

theorem grouping_order_independent:
  assumes "mset es = mset es'" "GroupEvents sha ul es cfg = Inr gs"
    and "inj_on sha {event_key n e |n e. validateConfig cfg = Inr n \<and> e \<in> set es}"
  shows "GroupEvents sha ul es' cfg = Inr gs"
proof (rule GroupEvents_perm [OF assms(1,2)])
  fix n
  assume "validateConfig cfg = Inr n"
  then have "event_key n ` set es \<subseteq> {event_key n e |n e. validateConfig cfg = Inr n \<and> e \<in> set es}"
    by auto
  then show "inj_on sha (event_key n ` set es)" using assms(3) inj_on_subset by blast
qed

theorem grouping_order_independent_witness:
  "GroupEvents (\<lambda>s. s) (\<lambda>s. s) (rev demo_events) DefaultConfig = demo_groups"
proof -
  obtain gs where gs: "GroupEvents (\<lambda>s. s) (\<lambda>s. s) demo_events DefaultConfig = Inr gs"
    using demo_groups_ok by (auto simp: demo_groups_def)
  have "mset demo_events = mset (rev demo_events)" by simp
  from grouping_order_independent [OF this gs] show ?thesis by (simp add: demo_groups_def gs)
qed

text \<open>
  C19: two events are in the same group exactly when they agree on every grouping dimension, the
  alert source included; so events of different alert sources are never grouped together. The
  events have distinct identifiers and their dimensions are UTF-8 texts.
\<close>

theorem groups_isolate_sources:
  assumes "GroupEvents sha ul es cfg = Inr gs" "validateConfig cfg = Inr n" "distinct (map ae_ID es)"
    and "e \<in> set es" "e' \<in> set es" "utf8_event n e" "utf8_event n e'"
  shows "((\<exists>g \<in> set gs. ae_ID e \<in> set (ag_EventIDs g) \<and> ae_ID e' \<in> set (ag_EventIDs g)) \<longleftrightarrow>
      map_of (event_dimensions n e) = map_of (event_dimensions n e')) \<and>
    (0 < ae_AlertSourceProfileID e \<and> 0 < ae_AlertSourceProfileID e' \<and>
      map_of (event_dimensions n e) = map_of (event_dimensions n e') \<longrightarrow>
      ae_AlertSourceProfileID e = ae_AlertSourceProfileID e')"
proof -
  have "ae_ID e \<in># mset (concat (map ag_EventIDs gs))"
    unfolding GroupEvents_ids [OF assms(1)] using assms(4) by simp
  then obtain g where g: "g \<in> set gs" "ae_ID e \<in> set (ag_EventIDs g)" by auto
  have "(\<exists>g \<in> set gs. ae_ID e \<in> set (ag_EventIDs g) \<and> ae_ID e' \<in> set (ag_EventIDs g)) \<longleftrightarrow>
      event_key n e = event_key n e'"
    using group_of_id [OF assms(1) _ assms(2,3,4)] group_of_id [OF assms(1) _ assms(2,3,5)] g by metis
  then show ?thesis
    using event_key_eq_iff [OF assms(6,7)] event_key_profile [OF assms(6,7)] by blast
qed

theorem groups_isolate_sources_witness:
  "\<exists>gs. demo_groups = Inr gs \<and> \<not> (\<exists>g \<in> set gs. 1 \<in> set (ag_EventIDs g) \<and> 2 \<in> set (ag_EventIDs g))"
proof -
  let ?a = "demo_event 1 1 ''cpu'' 5000" and ?b = "demo_event 2 2 ''cpu'' 4000"
  let ?n = "\<lparr>nc_dimensionKeys = [''alertname''], nc_severityKey = ''severity''\<rparr>"
  obtain gs where gs: "GroupEvents (\<lambda>s. s) (\<lambda>s. s) demo_events DefaultConfig = Inr gs"
    using demo_groups_ok by (auto simp: demo_groups_def)
  have cfg: "validateConfig DefaultConfig = Inr ?n" by code_simp
  have "is_ascii ''alertname''" "is_ascii ''cpu''" by code_simp+
  then have utf8: "utf8_event ?n ?a" "utf8_event ?n ?b"
    by (simp_all add: utf8_event_def demo_event_def smap_get_def valid_utf8_ascii)
  have ids: "distinct (map ae_ID demo_events)" "?a \<in> set demo_events" "?b \<in> set demo_events"
    by (simp_all add: demo_events_def demo_event_def)
  have "map_of (event_dimensions ?n ?a) alertSourceProfileDimensionKey \<noteq>
      map_of (event_dimensions ?n ?b) alertSourceProfileDimensionKey" by code_simp
  then have "\<not> (\<exists>g \<in> set gs. ae_ID ?a \<in> set (ag_EventIDs g) \<and> ae_ID ?b \<in> set (ag_EventIDs g))"
    using groups_isolate_sources [OF gs cfg ids(1-3) utf8] by metis
  moreover have "ae_ID ?a = 1" "ae_ID ?b = 2" by (simp_all add: demo_event_def)
  ultimately show ?thesis using gs unfolding demo_groups_def by metis
qed

text \<open>
  A group summarises its events: it lists them by starting time and identifier, it was first
  seen at the earliest and last seen at the latest of their starting times, and it carries the
  highest of their severities.
\<close>

theorem group_summary:
  assumes "GroupEvents sha ul es cfg = Inr gs" "g \<in> set gs" "validateConfig cfg = Inr n"
  shows "\<exists>members. members = filter (\<lambda>e. event_key n e = ag_Dimensions g) es \<and> members \<noteq> [] \<and>
    ag_EventIDs g = map ae_ID (sort_key (\<lambda>e. (ae_StartsAt e, ae_ID e)) members) \<and>
    ag_FirstSeenAt g = NormalizeUTCMicro (Min (ae_StartsAt ` set members)) \<and>
    ag_LastSeenAt g = NormalizeUTCMicro (Max (ae_StartsAt ` set members)) \<and>
    severityRank (ag_Severity g) =
      Max ((\<lambda>e. severityRank (extractSeverity ul (ae_Labels e) (nc_severityKey n))) ` set members)"
proof (rule group_members [OF assms])
  fix k
  let ?m = "filter (\<lambda>e. event_key n e = k) es"
  let ?rank = "\<lambda>e. severityRank (extractSeverity ul (ae_Labels e) (nc_severityKey n))"
  assume k: "k \<in> event_key n ` set es" "ag_Dimensions g = k"
    and g: "build_group sha ul n (k, ?m) = Inr g"
    "ag_EventIDs g = map ae_ID (sort_key (\<lambda>e. (ae_StartsAt e, ae_ID e)) ?m)"
  have m: "?m \<noteq> []" using k(1) unfolding filter_empty_conv by blast
  then have "Max (?rank ` set ?m) \<in> ?rank ` set ?m"
    by (intro Max_in) (simp_all only: finite_imageI finite_set image_is_empty set_empty not_False_eq_True)
  then have "severityRank (severity_at (Max (?rank ` set ?m))) = Max (?rank ` set ?m)"
    by (auto simp: severity_at_rank)
  moreover have "ag_FirstSeenAt g = NormalizeUTCMicro (first_seen ?m)"
    "ag_LastSeenAt g = NormalizeUTCMicro (last_seen ?m)"
    "ag_Severity g = group_severity ul (nc_severityKey n) ?m"
    using build_group_Inr [OF g(1)] by simp_all
  ultimately show ?thesis
    using m g(2) unfolding k(2) first_seen_Min [OF m] last_seen_Max [OF m] group_severity_Max [OF m]
    by (intro exI [of _ ?m] conjI refl) simp_all
qed

theorem group_summary_witness:
  "\<exists>gs. demo_groups = Inr gs \<and> (\<forall>g \<in> set gs. ag_EventIDs g \<noteq> [] \<and> severityRank (ag_Severity g) = 3)"
proof -
  let ?n = "\<lparr>nc_dimensionKeys = [''alertname''], nc_severityKey = ''severity''\<rparr>"
  obtain gs where gs: "GroupEvents (\<lambda>s. s) (\<lambda>s. s) demo_events DefaultConfig = Inr gs"
    using demo_groups_ok by (auto simp: demo_groups_def)
  have cfg: "validateConfig DefaultConfig = Inr ?n" by code_simp
  have "\<forall>e \<in> set demo_events.
      severityRank (extractSeverity (\<lambda>s. s) (ae_Labels e) (nc_severityKey ?n)) = 3" by code_simp
  then have rank: "Max ((\<lambda>e. severityRank (extractSeverity (\<lambda>s. s) (ae_Labels e) (nc_severityKey ?n))) ` set m) = 3"
    if "set m \<subseteq> set demo_events" "m \<noteq> []" for m
    using that by (intro Max_eqI) (auto simp: subset_iff neq_Nil_conv)
  have "ag_EventIDs g \<noteq> [] \<and> severityRank (ag_Severity g) = 3" if "g \<in> set gs" for g
  proof -
    obtain m where m: "m = filter (\<lambda>e. event_key ?n e = ag_Dimensions g) demo_events" "m \<noteq> []"
      "ag_EventIDs g = map ae_ID (sort_key (\<lambda>e. (ae_StartsAt e, ae_ID e)) m)"
      "severityRank (ag_Severity g) =
         Max ((\<lambda>e. severityRank (extractSeverity (\<lambda>s. s) (ae_Labels e) (nc_severityKey ?n))) ` set m)"
      using group_summary [OF gs \<open>g \<in> set gs\<close> cfg] by blast
    have "length (ag_EventIDs g) = length m" by (simp add: m(3))
    moreover have "set m \<subseteq> set demo_events" by (simp add: m(1))
    ultimately show ?thesis using m(2,4) rank by auto
  qed
  with gs show ?thesis by (auto simp: demo_groups_def)
qed

text \<open>
  Grouping succeeds exactly on no events at all, or with a valid configuration on events that
  are persisted (a non-zero identifier) and have a starting time, for any hash with a non-empty
  answer.
\<close>

theorem grouping_total:
  assumes "\<forall>x. sha x \<noteq> []"
  shows "is_ok (GroupEvents sha ul es cfg) \<longleftrightarrow>
    es = [] \<or> is_ok (validateConfig cfg) \<and> (\<forall>e \<in> set es. ae_ID e \<noteq> 0 \<and> ae_StartsAt e \<noteq> 0)"
proof
  assume "is_ok (GroupEvents sha ul es cfg)"
  then show "es = [] \<or> is_ok (validateConfig cfg) \<and> (\<forall>e \<in> set es. ae_ID e \<noteq> 0 \<and> ae_StartsAt e \<noteq> 0)"
    using check_events_Inr [of es]
    by (auto simp: GroupEvents_def is_ok_def split: sum.splits if_splits)
next
  assume "es = [] \<or> is_ok (validateConfig cfg) \<and> (\<forall>e \<in> set es. ae_ID e \<noteq> 0 \<and> ae_StartsAt e \<noteq> 0)"
  then show "is_ok (GroupEvents sha ul es cfg)"
    using GroupEvents_total [OF _ _ assms] check_events_Inr [of es]
    by (auto simp: is_ok_def) (simp add: GroupEvents_def)
qed

theorem grouping_total_witness:
  "is_ok (GroupEvents (\<lambda>s. ''h'') (\<lambda>s. s) demo_events DefaultConfig) \<and>
   \<not> is_ok (GroupEvents (\<lambda>s. ''h'') (\<lambda>s. s) [demo_event 0 1 ''cpu'' 5000] DefaultConfig)"
proof -
  have h: "\<forall>x::string. (\<lambda>s. ''h'') x \<noteq> []" by simp
  have cfg: "is_ok (validateConfig DefaultConfig)" by code_simp
  show ?thesis
    unfolding grouping_total [OF h] using cfg by (simp add: demo_events_def demo_event_def)
qed

end
