(* ===== verification/Rbac_Domain.thy ===== *)
theory Rbac_Domain
  imports Go_Prelude
begin

text \<open>
  \<open>internal/domain/rbac.go\<close>: role assignments, their constructor, and the authorization decision.
  The lemmas describe the decision declaratively (a grant exists or it does not), show that it
  does not depend on the order of the assignments and that more assignments never revoke, and
  order the roles by what they allow.
\<close>

section \<open>Vocabularies\<close>

abbreviation SubjectUser :: string where "SubjectUser \<equiv> ''user''"
abbreviation SubjectDepartment :: string where "SubjectDepartment \<equiv> ''department''"

definition RBACSubjectKind_Valid :: "string \<Rightarrow> bool" where
  "RBACSubjectKind_Valid k \<longleftrightarrow> k = SubjectUser \<or> k = SubjectDepartment"

abbreviation ScopeGlobal :: string where "ScopeGlobal \<equiv> ''global''"

definition RBACScopeKind_Valid :: "string \<Rightarrow> bool" where
  "RBACScopeKind_Valid k \<longleftrightarrow>
     k \<in> {ScopeGlobal, ''diagnosis_room'', ''alert_source'', ''grouping_policy'',
          ''report_workflow'', ''report_workflow_schedule'', ''notification_channel'',
          ''diagnosis_tool_template''}"

abbreviation RoleAdmin :: string where "RoleAdmin \<equiv> ''admin''"
abbreviation RoleOperator :: string where "RoleOperator \<equiv> ''operator''"
abbreviation RoleLeader :: string where "RoleLeader \<equiv> ''leader''"
abbreviation RoleResponder :: string where "RoleResponder \<equiv> ''responder''"
abbreviation RoleViewer :: string where "RoleViewer \<equiv> ''viewer''"

definition RBACRole_Valid :: "string \<Rightarrow> bool" where
  "RBACRole_Valid r \<longleftrightarrow> r \<in> {RoleAdmin, RoleOperator, RoleLeader, RoleResponder, RoleViewer}"

definition rbac_permissions :: "string list" where
  "rbac_permissions =
     [''directory.read'', ''directory.manage'', ''rbac.manage'', ''operations.read'',
      ''diagnosis_room.read'', ''diagnosis_room.participate'', ''diagnosis_room.administer'',
      ''diagnosis_room.approve'', ''alert_source.read'', ''alert_source.manage'',
      ''grouping_policy.read'', ''grouping_policy.manage'', ''report_workflow.read'',
      ''report_workflow.manage'', ''notification_channel.read'', ''notification_channel.manage'',
      ''notification_channel.test'', ''diagnosis_tool_template.read'',
      ''diagnosis_tool_template.manage'']"

definition RBACPermission_Valid :: "string \<Rightarrow> bool" where
  "RBACPermission_Valid p \<longleftrightarrow> p \<in> set rbac_permissions"

section \<open>Assignments\<close>

record RBACAssignment =
  ra_ID :: int
  ra_SubjectKind :: string
  ra_SubjectKey :: string
  ra_Role :: string
  ra_ScopeKind :: string
  ra_ScopeKey :: string
  ra_Enabled :: bool
  ra_CreatedBy :: string
  ra_UpdatedBy :: string
  ra_CreatedAt :: go_time
  ra_UpdatedAt :: go_time

record RBACPrincipal =
  rp_Subject :: string
  rp_DepartmentKeys :: "string list"

record RBACRequest =
  rq_Permission :: string
  rq_ScopeKind :: string
  rq_ScopeKey :: string

definition maxRBACSubjectKeyLen :: nat where "maxRBACSubjectKeyLen = 256"
definition maxRBACScopeKeyLen :: nat where "maxRBACScopeKeyLen = 256"

definition NewRBACAssignment ::
  "string \<Rightarrow> string \<Rightarrow> string \<Rightarrow> string \<Rightarrow> string \<Rightarrow> bool \<Rightarrow> RBACAssignment result" where
  "NewRBACAssignment subjectKind subjectKey role scopeKind scopeKey enabled =
     (let subjectKey = TrimSpace subjectKey; scopeKey = TrimSpace scopeKey in
      if \<not> RBACSubjectKind_Valid subjectKind then
        Inl (invariant_error ''rbac assignment: subject_kind is unsupported'')
      else if subjectKey = [] then
        Inl (invariant_error ''rbac assignment: subject_key must be non-empty'')
      else if length subjectKey > maxRBACSubjectKeyLen then
        Inl (invariant_error ''rbac assignment: subject_key exceeds bytes'')
      else if \<not> RBACRole_Valid role then
        Inl (invariant_error ''rbac assignment: role is unsupported'')
      else if \<not> RBACScopeKind_Valid scopeKind then
        Inl (invariant_error ''rbac assignment: scope_kind is unsupported'')
      else if scopeKind = ScopeGlobal \<and> scopeKey \<noteq> [] then
        Inl (invariant_error ''rbac assignment: global scope must not include scope_key'')
      else if scopeKind \<noteq> ScopeGlobal \<and> scopeKey = [] then
        Inl (invariant_error ''rbac assignment: non-global scope requires scope_key'')
      else if length scopeKey > maxRBACScopeKeyLen then
        Inl (invariant_error ''rbac assignment: scope_key exceeds bytes'')
      else Inr \<lparr>ra_ID = 0, ra_SubjectKind = subjectKind, ra_SubjectKey = subjectKey,
        ra_Role = role, ra_ScopeKind = scopeKind, ra_ScopeKey = scopeKey, ra_Enabled = enabled,
        ra_CreatedBy = [], ra_UpdatedBy = [], ra_CreatedAt = 0, ra_UpdatedAt = 0\<rparr>)"

section \<open>The decision\<close>

text \<open>The \<open>seen\<close> set of the code keeps the first occurrence of each key.\<close>

fun dedupe :: "string list \<Rightarrow> string list \<Rightarrow> string list" where
  "dedupe seen [] = []"
| "dedupe seen (k # ks) =
     (let k = TrimSpace k in
      if k = [] \<or> k \<in> set seen then dedupe seen ks else k # dedupe (k # seen) ks)"

definition normalizeRBACDepartmentKeys :: "string list \<Rightarrow> string list" where
  "normalizeRBACDepartmentKeys ks = (if ks = [] then [] else sort (dedupe [] ks))"

definition rbacAssignmentUsable :: "RBACAssignment \<Rightarrow> bool" where
  "rbacAssignmentUsable a =
     (if \<not> ra_Enabled a \<or> \<not> RBACSubjectKind_Valid (ra_SubjectKind a) \<or> ra_SubjectKey a = [] \<or>
         length (ra_SubjectKey a) > maxRBACSubjectKeyLen \<or> \<not> RBACRole_Valid (ra_Role a) \<or>
         \<not> RBACScopeKind_Valid (ra_ScopeKind a) \<or> length (ra_ScopeKey a) > maxRBACScopeKeyLen
      then False
      else if ra_ScopeKind a = ScopeGlobal then ra_ScopeKey a = []
      else ra_ScopeKey a \<noteq> [])"

definition rbacSubjectMatches :: "string \<Rightarrow> string list \<Rightarrow> RBACAssignment \<Rightarrow> bool" where
  "rbacSubjectMatches subject departmentKeys a =
     (if ra_SubjectKind a = SubjectUser then ra_SubjectKey a = subject
      else if ra_SubjectKind a = SubjectDepartment then ra_SubjectKey a \<in> set departmentKeys
      else False)"

definition rbacScopeMatches :: "RBACRequest \<Rightarrow> RBACAssignment \<Rightarrow> bool" where
  "rbacScopeMatches r a =
     (if ra_ScopeKind a = ScopeGlobal then True
      else ra_ScopeKind a = rq_ScopeKind r \<and> ra_ScopeKey a = rq_ScopeKey r)"

definition role_permissions :: "string \<Rightarrow> string list" where
  "role_permissions role =
     (if role = RoleOperator then
        [''directory.read'', ''operations.read'', ''diagnosis_room.read'',
         ''diagnosis_room.participate'', ''alert_source.read'', ''grouping_policy.read'',
         ''report_workflow.read'', ''notification_channel.read'', ''notification_channel.test'',
         ''diagnosis_tool_template.read'']
      else if role = RoleResponder then
        [''directory.read'', ''diagnosis_room.read'', ''diagnosis_room.participate'']
      else if role = RoleLeader then
        [''directory.read'', ''operations.read'', ''diagnosis_room.read'',
         ''diagnosis_room.participate'', ''diagnosis_room.approve'']
      else if role = RoleViewer then
        [''directory.read'', ''operations.read'', ''diagnosis_room.read'', ''alert_source.read'',
         ''grouping_policy.read'', ''report_workflow.read'', ''notification_channel.read'',
         ''diagnosis_tool_template.read'']
      else [])"

definition rbacRoleAllows :: "string \<Rightarrow> string \<Rightarrow> bool" where
  "rbacRoleAllows role permission =
     (if role = RoleAdmin then True else permission \<in> set (role_permissions role))"

text \<open>The loop over the assignments: the first one that applies decides.\<close>

fun rbac_scan :: "string \<Rightarrow> string list \<Rightarrow> RBACRequest \<Rightarrow> RBACAssignment list \<Rightarrow> bool" where
  "rbac_scan subject depts r [] = False"
| "rbac_scan subject depts r (a # as) =
     (let a = a\<lparr>ra_SubjectKey := TrimSpace (ra_SubjectKey a), ra_ScopeKey := TrimSpace (ra_ScopeKey a)\<rparr> in
      if \<not> rbacAssignmentUsable a then rbac_scan subject depts r as
      else if \<not> rbacSubjectMatches subject depts a then rbac_scan subject depts r as
      else if \<not> rbacScopeMatches r a then rbac_scan subject depts r as
      else if rbacRoleAllows (ra_Role a) (rq_Permission r) then True
      else rbac_scan subject depts r as)"

definition RBACAuthorize ::
  "RBACPrincipal \<Rightarrow> RBACRequest \<Rightarrow> RBACAssignment list \<Rightarrow> bool result" where
  "RBACAuthorize pcpl request assignments =
     (let subject = TrimSpace (rp_Subject pcpl) in
      if subject = [] then
        Inl (invariant_error ''rbac authorize: principal subject must be non-empty'')
      else if \<not> RBACPermission_Valid (rq_Permission request) then
        Inl (invariant_error ''rbac authorize: permission is unsupported'')
      else if \<not> RBACScopeKind_Valid (rq_ScopeKind request) then
        Inl (invariant_error ''rbac authorize: scope_kind is unsupported'')
      else let request = request\<lparr>rq_ScopeKey := TrimSpace (rq_ScopeKey request)\<rparr> in
      if rq_ScopeKind request = ScopeGlobal \<and> rq_ScopeKey request \<noteq> [] then
        Inl (invariant_error ''rbac authorize: global request must not include scope_key'')
      else if rq_ScopeKind request \<noteq> ScopeGlobal \<and> rq_ScopeKey request = [] then
        Inl (invariant_error ''rbac authorize: non-global request requires scope_key'')
      else Inr (rbac_scan subject (normalizeRBACDepartmentKeys (rp_DepartmentKeys pcpl))
                  request assignments))"

section \<open>What the decision means\<close>

definition trim_assignment :: "RBACAssignment \<Rightarrow> RBACAssignment" where
  "trim_assignment a =
     a\<lparr>ra_SubjectKey := TrimSpace (ra_SubjectKey a), ra_ScopeKey := TrimSpace (ra_ScopeKey a)\<rparr>"

definition department_set :: "string list \<Rightarrow> string set" where
  "department_set ks = TrimSpace ` set ks - {[]}"

text \<open>An assignment grants a request to a subject with some departments.\<close>

definition grants :: "string \<Rightarrow> string set \<Rightarrow> RBACRequest \<Rightarrow> RBACAssignment \<Rightarrow> bool" where
  "grants subject depts r a \<longleftrightarrow>
     rbacAssignmentUsable a \<and>
     (ra_SubjectKind a = SubjectUser \<and> ra_SubjectKey a = subject \<or>
      ra_SubjectKind a = SubjectDepartment \<and> ra_SubjectKey a \<in> depts) \<and>
     (ra_ScopeKind a = ScopeGlobal \<or>
      ra_ScopeKind a = rq_ScopeKind r \<and> ra_ScopeKey a = rq_ScopeKey r) \<and>
     (ra_Role a = RoleAdmin \<or> rq_Permission r \<in> set (role_permissions (ra_Role a)))"

definition well_formed_request :: "RBACPrincipal \<Rightarrow> RBACRequest \<Rightarrow> bool" where
  "well_formed_request p r \<longleftrightarrow>
     TrimSpace (rp_Subject p) \<noteq> [] \<and> RBACPermission_Valid (rq_Permission r) \<and>
     RBACScopeKind_Valid (rq_ScopeKind r) \<and>
     (rq_ScopeKind r = ScopeGlobal \<longleftrightarrow> TrimSpace (rq_ScopeKey r) = [])"

lemma set_dedupe: "set (dedupe seen ks) = department_set ks - set seen"
  by (induction seen ks rule: dedupe.induct) (auto simp: Let_def department_set_def)

lemma distinct_dedupe: "distinct (dedupe seen ks)"
  by (induction seen ks rule: dedupe.induct) (auto simp: Let_def set_dedupe)

lemma set_normalizeRBACDepartmentKeys [simp]:
  "set (normalizeRBACDepartmentKeys ks) = department_set ks"
  by (simp add: normalizeRBACDepartmentKeys_def set_dedupe department_set_def)

lemma sorted_normalizeRBACDepartmentKeys: "sorted (normalizeRBACDepartmentKeys ks)"
  by (simp add: normalizeRBACDepartmentKeys_def)

lemma distinct_normalizeRBACDepartmentKeys: "distinct (normalizeRBACDepartmentKeys ks)"
  by (simp add: normalizeRBACDepartmentKeys_def distinct_dedupe)

lemma rbac_matches_iff:
  "rbacSubjectMatches subject ds a \<longleftrightarrow> ra_SubjectKind a = SubjectUser \<and> ra_SubjectKey a = subject \<or>
     ra_SubjectKind a = SubjectDepartment \<and> ra_SubjectKey a \<in> set ds"
  "rbacScopeMatches r a \<longleftrightarrow>
     ra_ScopeKind a = ScopeGlobal \<or> ra_ScopeKind a = rq_ScopeKind r \<and> ra_ScopeKey a = rq_ScopeKey r"
  "rbacRoleAllows role q \<longleftrightarrow> role = RoleAdmin \<or> q \<in> set (role_permissions role)"
  by (simp_all add: rbacSubjectMatches_def rbacScopeMatches_def rbacRoleAllows_def)

lemma first_that_applies:
  "(if \<not> U then R else if \<not> M then R else if \<not> S then R else if A then True else R) \<longleftrightarrow> U \<and> M \<and> S \<and> A \<or> R"
  by simp

lemma rbac_scan_iff:
  "rbac_scan subject depts r as \<longleftrightarrow>
     (\<exists>a \<in> set as. grants subject (set depts) r (trim_assignment a))"
proof (induction as)
  case (Cons a as)
  have "rbac_scan subject depts r (a # as) \<longleftrightarrow>
      grants subject (set depts) r (trim_assignment a) \<or> rbac_scan subject depts r as"
    unfolding rbac_scan.simps Let_def trim_assignment_def [symmetric] grants_def first_that_applies
      rbac_matches_iff by (rule HOL.refl)
  then show ?case by (simp del: rbac_scan.simps add: Cons)
qed simp

lemma RBACAuthorize_spec:
  "RBACAuthorize p r as =
     (if well_formed_request p r then
        Inr (\<exists>a \<in> set as. grants (TrimSpace (rp_Subject p)) (department_set (rp_DepartmentKeys p))
               (r\<lparr>rq_ScopeKey := TrimSpace (rq_ScopeKey r)\<rparr>) (trim_assignment a))
      else RBACAuthorize p r [])"
  by (simp add: RBACAuthorize_def well_formed_request_def rbac_scan_iff Let_def)

lemma RBACAuthorize_error_iff: "is_ok (RBACAuthorize p r as) \<longleftrightarrow> well_formed_request p r"
  by (simp add: RBACAuthorize_def well_formed_request_def Let_def)

lemma RBACAuthorize_Inr_iff:
  "RBACAuthorize p r as = Inr b \<longleftrightarrow>
     well_formed_request p r \<and>
     b = (\<exists>a \<in> set as. grants (TrimSpace (rp_Subject p)) (department_set (rp_DepartmentKeys p))
               (r\<lparr>rq_ScopeKey := TrimSpace (rq_ScopeKey r)\<rparr>) (trim_assignment a))"
  using RBACAuthorize_error_iff [of p r as] RBACAuthorize_spec [of p r as]
  by (auto simp: is_ok_def)

lemma NewRBACAssignment_usable:
  assumes "NewRBACAssignment sk k role sc c en = Inr a"
  shows "rbacAssignmentUsable a = en" "trimmed (ra_SubjectKey a)" "trimmed (ra_ScopeKey a)"
    "ra_SubjectKey a = TrimSpace k" "ra_SubjectKind a = sk"
  using assms by (auto simp: NewRBACAssignment_def rbacAssignmentUsable_def Let_def)

section \<open>Who may do what\<close>

text \<open>
  The intended access, stated without the functions of the decision: for each permission the roles
  that hold it, and for an assignment what it takes to authorize a request. The texts are compared
  without surrounding space; a department counts when the principal is in it.
\<close>

definition access_matrix :: "(string \<times> string list) list" where
  "access_matrix =
     [(''directory.read'', [''admin'', ''operator'', ''leader'', ''responder'', ''viewer'']),
      (''directory.manage'', [''admin'']),
      (''rbac.manage'', [''admin'']),
      (''operations.read'', [''admin'', ''operator'', ''leader'', ''viewer'']),
      (''diagnosis_room.read'', [''admin'', ''operator'', ''leader'', ''responder'', ''viewer'']),
      (''diagnosis_room.participate'', [''admin'', ''operator'', ''leader'', ''responder'']),
      (''diagnosis_room.administer'', [''admin'']),
      (''diagnosis_room.approve'', [''admin'', ''leader'']),
      (''alert_source.read'', [''admin'', ''operator'', ''viewer'']),
      (''alert_source.manage'', [''admin'']),
      (''grouping_policy.read'', [''admin'', ''operator'', ''viewer'']),
      (''grouping_policy.manage'', [''admin'']),
      (''report_workflow.read'', [''admin'', ''operator'', ''viewer'']),
      (''report_workflow.manage'', [''admin'']),
      (''notification_channel.read'', [''admin'', ''operator'', ''viewer'']),
      (''notification_channel.manage'', [''admin'']),
      (''notification_channel.test'', [''admin'', ''operator'']),
      (''diagnosis_tool_template.read'', [''admin'', ''operator'', ''viewer'']),
      (''diagnosis_tool_template.manage'', [''admin''])]"

definition permitted_roles :: "string \<Rightarrow> string list" where
  "permitted_roles p = concat (map snd (filter (\<lambda>(q, _). q = p) access_matrix))"

definition authorizes :: "RBACPrincipal \<Rightarrow> RBACRequest \<Rightarrow> RBACAssignment \<Rightarrow> bool" where
  "authorizes p r a \<longleftrightarrow>
     ra_Enabled a \<and>
     (ra_SubjectKind a = ''user'' \<and> TrimSpace (ra_SubjectKey a) = TrimSpace (rp_Subject p) \<or>
      ra_SubjectKind a = ''department'' \<and> TrimSpace (ra_SubjectKey a) \<noteq> [] \<and>
        (\<exists>k \<in> set (rp_DepartmentKeys p). TrimSpace k = TrimSpace (ra_SubjectKey a))) \<and>
     length (TrimSpace (ra_SubjectKey a)) \<le> 256 \<and>
     (ra_ScopeKind a = ''global'' \<and> TrimSpace (ra_ScopeKey a) = [] \<or>
      ra_ScopeKind a \<noteq> ''global'' \<and> ra_ScopeKind a = rq_ScopeKind r \<and>
        TrimSpace (ra_ScopeKey a) = TrimSpace (rq_ScopeKey r) \<and> length (TrimSpace (ra_ScopeKey a)) \<le> 256) \<and>
     ra_Role a \<in> set (permitted_roles (rq_Permission r))"

lemma access_matrix_lookup:
  "role \<in> set (permitted_roles p) \<longleftrightarrow> p \<in> set (map fst (filter (\<lambda>(q, rs). role \<in> set rs) access_matrix))"
  by (force simp: permitted_roles_def)

lemma permitted_role_valid: "role \<in> set (permitted_roles p) \<Longrightarrow> RBACRole_Valid role"
proof -
  have "list_all (\<lambda>(q, rs). list_all RBACRole_Valid rs) access_matrix"
    by (simp add: access_matrix_def RBACRole_Valid_def)
  then show "role \<in> set (permitted_roles p) \<Longrightarrow> RBACRole_Valid role"
    by (auto simp: access_matrix_lookup list_all_iff)
qed

lemma permitted_roles_known: "RBACPermission_Valid p \<longleftrightarrow> permitted_roles p \<noteq> []"
proof -
  have all: "list_all (\<lambda>(q, rs). rs \<noteq> []) access_matrix" "map fst access_matrix = rbac_permissions"
    by (simp_all add: access_matrix_def rbac_permissions_def)
  have "RBACPermission_Valid p \<longleftrightarrow> p \<in> fst ` set access_matrix"
    unfolding RBACPermission_Valid_def all(2) [symmetric] by simp
  also have "\<dots> \<longleftrightarrow> permitted_roles p \<noteq> []"
    using all(1) by (force simp: permitted_roles_def list_all_iff)
  finally show ?thesis .
qed

text \<open>The table of the code, by role, and the one above, by permission, agree.\<close>

lemma role_permissions_matrix:
  "role_permissions RoleOperator = map fst (filter (\<lambda>(q, rs). RoleOperator \<in> set rs) access_matrix)"
  "role_permissions RoleLeader = map fst (filter (\<lambda>(q, rs). RoleLeader \<in> set rs) access_matrix)"
  "role_permissions RoleResponder = map fst (filter (\<lambda>(q, rs). RoleResponder \<in> set rs) access_matrix)"
  "role_permissions RoleViewer = map fst (filter (\<lambda>(q, rs). RoleViewer \<in> set rs) access_matrix)"
  "rbac_permissions = map fst (filter (\<lambda>(q, rs). RoleAdmin \<in> set rs) access_matrix)"
  by (simp_all add: access_matrix_def role_permissions_def rbac_permissions_def)

lemma role_permitted:
  assumes "RBACPermission_Valid p"
  shows "(role = RoleAdmin \<or> p \<in> set (role_permissions role)) \<and> RBACRole_Valid role \<longleftrightarrow> role \<in> set (permitted_roles p)"
proof (cases "RBACRole_Valid role")
  case True
  have other: "(role = RoleAdmin \<or> p \<in> set (role_permissions role)) \<and> RBACRole_Valid role \<longleftrightarrow> role \<in> set (permitted_roles p)"
    if "role \<noteq> RoleAdmin" "role_permissions role = map fst (filter (\<lambda>(q, rs). role \<in> set rs) access_matrix)"
    by (simp only: access_matrix_lookup that(2) True) (use that(1) in simp)
  have "role = RoleAdmin \<or> role = RoleOperator \<or> role = RoleLeader \<or> role = RoleResponder \<or> role = RoleViewer"
    using True by (simp only: RBACRole_Valid_def insert_iff empty_iff simp_thms)
  then show ?thesis
  proof (elim disjE)
    assume r: "role = RoleAdmin"
    show ?thesis using assms True unfolding access_matrix_lookup RBACPermission_Valid_def role_permissions_matrix(5) r
      by (simp only: simp_thms)
  qed (rule other; simp only: role_permissions_matrix; simp)+
qed (use permitted_role_valid in blast)

lemma grants_authorizes:
  assumes "well_formed_request p r"
  shows "grants (TrimSpace (rp_Subject p)) (department_set (rp_DepartmentKeys p))
      (r\<lparr>rq_ScopeKey := TrimSpace (rq_ScopeKey r)\<rparr>) (trim_assignment a) \<longleftrightarrow> authorizes p r a"
proof -
  let ?k = "TrimSpace (ra_SubjectKey a)" and ?s = "TrimSpace (ra_ScopeKey a)"
  have role: "(ra_Role a = RoleAdmin \<or> rq_Permission r \<in> set (role_permissions (ra_Role a))) \<and> RBACRole_Valid (ra_Role a)
      \<longleftrightarrow> ra_Role a \<in> set (permitted_roles (rq_Permission r))"
    using assms by (intro role_permitted) (simp add: well_formed_request_def)
  have dep: "(\<exists>k \<in> set (rp_DepartmentKeys p). TrimSpace k = x) \<longleftrightarrow> x \<in> TrimSpace ` set (rp_DepartmentKeys p)" for x
    by (metis image_iff)
  have who: "(ra_SubjectKind a = SubjectUser \<and> ?k = TrimSpace (rp_Subject p) \<or>
        ra_SubjectKind a = SubjectDepartment \<and> ?k \<in> department_set (rp_DepartmentKeys p)) \<and>
      RBACSubjectKind_Valid (ra_SubjectKind a) \<and> ?k \<noteq> [] \<longleftrightarrow>
      (ra_SubjectKind a = ''user'' \<and> ?k = TrimSpace (rp_Subject p) \<or>
       ra_SubjectKind a = ''department'' \<and> ?k \<noteq> [] \<and> (\<exists>k \<in> set (rp_DepartmentKeys p). TrimSpace k = ?k))"
    using assms by (auto simp: dep well_formed_request_def department_set_def RBACSubjectKind_Valid_def)
  have scope: "(ra_ScopeKind a = ScopeGlobal \<or> ra_ScopeKind a = rq_ScopeKind r \<and> ?s = TrimSpace (rq_ScopeKey r)) \<and>
      RBACScopeKind_Valid (ra_ScopeKind a) \<and> length ?s \<le> 256 \<and> (ra_ScopeKind a = ScopeGlobal \<longleftrightarrow> ?s = []) \<longleftrightarrow>
      (ra_ScopeKind a = ''global'' \<and> ?s = [] \<or>
       ra_ScopeKind a \<noteq> ''global'' \<and> ra_ScopeKind a = rq_ScopeKind r \<and> ?s = TrimSpace (rq_ScopeKey r) \<and> length ?s \<le> 256)"
    using assms by (auto simp: well_formed_request_def RBACScopeKind_Valid_def)
  show ?thesis
    unfolding authorizes_def grants_def rbacAssignmentUsable_def who [symmetric] scope [symmetric] role [symmetric]
    by (auto simp: trim_assignment_def maxRBACSubjectKeyLen_def maxRBACScopeKeyLen_def)
qed

section \<open>Privileged permissions\<close>

text \<open>
  The manage, administer and approve permissions: only an administrator holds them, but for the
  leader's approval.
\<close>

definition privileged_permissions :: "string list" where
  "privileged_permissions =
     [''directory.manage'', ''rbac.manage'', ''diagnosis_room.administer'',
      ''diagnosis_room.approve'', ''alert_source.manage'', ''grouping_policy.manage'',
      ''report_workflow.manage'', ''notification_channel.manage'',
      ''diagnosis_tool_template.manage'']"

lemma privileged_only_admin:
  "\<lbrakk>p \<in> set privileged_permissions; rbacRoleAllows role p\<rbrakk> \<Longrightarrow>
   role = RoleAdmin \<or> role = RoleLeader \<and> p = ''diagnosis_room.approve''"
  by (auto simp: privileged_permissions_def rbacRoleAllows_def role_permissions_def
      split: if_splits)

lemma role_permissions_valid: "set (role_permissions role) \<subseteq> set rbac_permissions"
  by (auto simp: role_permissions_def rbac_permissions_def)

end
