(* ===== verification/Rbac_Store.thy ===== *)
theory Rbac_Store
  imports Repo_Core Rbac_Domain
begin

text \<open>
  \<open>internal/persistence/repository/rbac_repo.go\<close>, the assignment query of \<open>config_repo.go\<close>, and
  the authorization service \<open>internal/usecases/rbac/authorize.go\<close>. The locale \<open>grant_source\<close>
  states what the decision needs of a pre-filtered read: nothing invented, nothing that could
  grant left out. It is interpreted on the repository's query; the bounded query of the service
  satisfies it while the bound is not reached. Rows are ordered by byte strings where PostgreSQL
  uses the collation of the database; no result here depends on it.
\<close>

section \<open>The table\<close>

record rbac_table =
  rt_rows :: "RBACAssignment list"
  rt_next :: int

type_synonym rbac_key = "string \<times> string \<times> string \<times> string \<times> string"

definition assignment_key :: "RBACAssignment \<Rightarrow> rbac_key" where
  "assignment_key a =
     (ra_SubjectKind a, ra_SubjectKey a, ra_Role a, ra_ScopeKind a, ra_ScopeKey a)"

definition rbac_validators :: "RBACAssignment \<Rightarrow> bool" where
  "rbac_validators a \<longleftrightarrow>
     ra_SubjectKind a \<noteq> [] \<and> length (ra_SubjectKind a) \<le> 32 \<and>
     ra_SubjectKey a \<noteq> [] \<and> length (ra_SubjectKey a) \<le> 256 \<and>
     ra_Role a \<noteq> [] \<and> length (ra_Role a) \<le> 32 \<and>
     ra_ScopeKind a \<noteq> [] \<and> length (ra_ScopeKind a) \<le> 64 \<and> length (ra_ScopeKey a) \<le> 256 \<and>
     ra_CreatedBy a \<noteq> [] \<and> length (ra_CreatedBy a) \<le> 256 \<and>
     ra_UpdatedBy a \<noteq> [] \<and> length (ra_UpdatedBy a) \<le> 256"

text \<open>What every write keeps: rows come from the constructor, keys and IDs are unique.\<close>

definition rbac_row_ok :: "RBACAssignment \<Rightarrow> bool" where
  "rbac_row_ok a \<longleftrightarrow>
     rbacAssignmentUsable (a\<lparr>ra_Enabled := True\<rparr>) \<and> trimmed (ra_SubjectKey a) \<and>
     trimmed (ra_ScopeKey a)"

definition rbac_table_wf :: "rbac_table \<Rightarrow> bool" where
  "rbac_table_wf t \<longleftrightarrow>
     (\<forall>a \<in> set (rt_rows t). rbac_row_ok a \<and> ra_ID a < rt_next t) \<and>
     distinct (map ra_ID (rt_rows t)) \<and> distinct (map assignment_key (rt_rows t))"

section \<open>Writes\<close>

definition normalizeRBACAssignmentForPersistence :: "RBACAssignment \<Rightarrow> RBACAssignment result" where
  "normalizeRBACAssignmentForPersistence a =
     (case NewRBACAssignment (ra_SubjectKind a) (ra_SubjectKey a) (ra_Role a) (ra_ScopeKind a)
             (ra_ScopeKey a) (ra_Enabled a) of
        Inl e \<Rightarrow> Inl e
      | Inr out \<Rightarrow> Inr (out\<lparr>ra_ID := ra_ID a, ra_CreatedBy := TrimSpace (ra_CreatedBy a),
          ra_UpdatedBy := TrimSpace (ra_UpdatedBy a), ra_CreatedAt := ra_CreatedAt a,
          ra_UpdatedAt := ra_UpdatedAt a\<rparr>))"

definition validateRBACAuditActors :: "string \<Rightarrow> string \<Rightarrow> string \<Rightarrow> unit result" where
  "validateRBACAuditActors action createdBy updatedBy =
     (if TrimSpace createdBy = [] then
        Inl (invariant_error (action @ '': created_by must be non-empty''))
      else if TrimSpace updatedBy = [] then
        Inl (invariant_error (action @ '': updated_by must be non-empty''))
      else Inr ())"

definition insert_assignment ::
  "RBACAssignment \<Rightarrow> rbac_table \<Rightarrow> (rbac_table \<times> RBACAssignment) result" where
  "insert_assignment a t =
     (if assignment_key a \<in> assignment_key ` set (rt_rows t) then Inl pg_unique_violation
      else let a = a\<lparr>ra_ID := rt_next t\<rparr>
        in Inr (\<lparr>rt_rows = rt_rows t @ [a], rt_next = rt_next t + 1\<rparr>, a))"

definition SaveAssignment ::
  "go_error option \<Rightarrow> go_time \<Rightarrow> rbac_table uow \<Rightarrow> RBACAssignment
   \<Rightarrow> rbac_table uow \<times> RBACAssignment result" where
  "SaveAssignment fault now u a =
     (case checkOpen u of Some e \<Rightarrow> (u, Inl e) | None \<Rightarrow>
      (case normalizeRBACAssignmentForPersistence a of
         Inl e \<Rightarrow> (u, Inl e)
       | Inr a \<Rightarrow>
      (case validateRBACAuditActors ''save rbac assignment'' (ra_CreatedBy a) (ra_UpdatedBy a) of
         Inl e \<Rightarrow> (u, Inl e)
       | Inr _ \<Rightarrow>
           let row = a\<lparr>ra_CreatedAt := (if \<not> IsZero (ra_CreatedAt a) then ra_CreatedAt a else now),
                       ra_UpdatedAt := (if \<not> IsZero (ra_UpdatedAt a) then ra_UpdatedAt a else now)\<rparr> in
           if \<not> rbac_validators row then (u, Inl (GoErr ''ent: validator failed'' []))
           else (case exec_stmt fault u (insert_assignment row) of
                   (u, Inl e) \<Rightarrow> (u, Inl (asAlreadyExists e))
                 | (u, Inr saved) \<Rightarrow> (u, Inr saved)))))"

text \<open>Change the row with the ID of \<open>a\<close>; the unique index is checked against the other rows.\<close>

definition update_assignment ::
  "go_time \<Rightarrow> RBACAssignment \<Rightarrow> rbac_table \<Rightarrow> (rbac_table \<times> RBACAssignment option) result" where
  "update_assignment now a t =
     (case find (\<lambda>r. ra_ID r = ra_ID a) (rt_rows t) of
        None \<Rightarrow> Inr (t, None)
      | Some old \<Rightarrow>
          let row = a\<lparr>ra_CreatedBy := ra_CreatedBy old, ra_CreatedAt := ra_CreatedAt old,
                      ra_UpdatedAt := now\<rparr> in
          if \<exists>r \<in> set (rt_rows t). ra_ID r \<noteq> ra_ID a \<and> assignment_key r = assignment_key a
          then Inl pg_unique_violation
          else Inr (t\<lparr>rt_rows := map (\<lambda>r. if ra_ID r = ra_ID a then row else r) (rt_rows t)\<rparr>,
                    Some row))"

definition UpdateAssignment ::
  "go_error option \<Rightarrow> go_time \<Rightarrow> rbac_table uow \<Rightarrow> RBACAssignment
   \<Rightarrow> rbac_table uow \<times> RBACAssignment result" where
  "UpdateAssignment fault now u a =
     (case checkOpen u of Some e \<Rightarrow> (u, Inl e) | None \<Rightarrow>
      if ra_ID a = 0 then (u, Inl (invariant_error ''update rbac assignment: id must be non-zero''))
      else (case normalizeRBACAssignmentForPersistence a of
         Inl e \<Rightarrow> (u, Inl e)
       | Inr a \<Rightarrow>
           if TrimSpace (ra_UpdatedBy a) = [] then
             (u, Inl (invariant_error ''update rbac assignment: updated_by must be non-empty''))
           else if \<not> length (ra_UpdatedBy a) \<le> 256 then
             (u, Inl (GoErr ''ent: validator failed'' []))
           else (case exec_stmt fault u (update_assignment now a) of
                   (u, Inl e) \<Rightarrow> (u, Inl (asAlreadyExists (asNotFound e)))
                 | (u, Inr None) \<Rightarrow> (u, Inl (asAlreadyExists (asNotFound ent_not_found)))
                 | (u, Inr (Some row)) \<Rightarrow> (u, Inr row))))"

section \<open>Reads\<close>

definition normalizeRepositoryDepartmentKeys :: "string list \<Rightarrow> string list" where
  "normalizeRepositoryDepartmentKeys ks = (if ks = [] then [] else sort (dedupe [] ks))"

definition ListEnabledAssignmentsForPrincipal ::
  "go_error option \<Rightarrow> rbac_table uow \<Rightarrow> RBACPrincipal
   \<Rightarrow> rbac_table uow \<times> RBACAssignment list result" where
  "ListEnabledAssignmentsForPrincipal fault u p =
     (case checkOpen u of Some e \<Rightarrow> (u, Inl e) | None \<Rightarrow>
      let subject = TrimSpace (rp_Subject p) in
      if subject = [] then
        (u, Inl (invariant_error ''list rbac assignments for principal: subject must be non-empty''))
      else let departments = normalizeRepositoryDepartmentKeys (rp_DepartmentKeys p);
        hit = (\<lambda>a. ra_Enabled a \<and>
                (ra_SubjectKind a = SubjectUser \<and> ra_SubjectKey a = subject \<or>
                 departments \<noteq> [] \<and> ra_SubjectKind a = SubjectDepartment \<and>
                   ra_SubjectKey a \<in> set departments)) in
      (case query_stmt fault u (\<lambda>t. sort_key (\<lambda>a. (ra_ScopeKind a, ra_ScopeKey a, ra_Role a, ra_ID a))
                                       (filter hit (rt_rows t))) of
         (u, Inl e) \<Rightarrow> (u, Inl (wrap_error ''list rbac assignments for principal'' e))
       | (u, Inr rows) \<Rightarrow> (u, Inr rows)))"

definition ListRBACAssignmentsForPrincipal ::
  "go_error option \<Rightarrow> rbac_table uow \<Rightarrow> string \<Rightarrow> string list \<Rightarrow> int
   \<Rightarrow> rbac_table uow \<times> RBACAssignment list result" where
  "ListRBACAssignmentsForPrincipal fault u subject departmentKeys lim =
     (case checkOpen u of Some e \<Rightarrow> (u, Inl e) | None \<Rightarrow>
      let subject = TrimSpace subject in
      if subject = [] then
        (u, Inl (invariant_error ''list rbac assignments: subject must be non-empty''))
      else if lim \<le> 0 then
        (u, Inl (invariant_error ''list rbac assignments: limit must be > 0''))
      else let
        preds = (\<lambda>a. ra_SubjectKind a = SubjectUser \<and> ra_SubjectKey a = subject)
          # map (\<lambda>k a. ra_SubjectKind a = SubjectDepartment \<and> ra_SubjectKey a = k)
              (dedupe [] departmentKeys);
        hit = (\<lambda>a. ra_Enabled a \<and> list_ex (\<lambda>p. p a) preds) in
      (case query_stmt fault u (\<lambda>t. take (nat lim)
                (sort_key (\<lambda>a. (- ra_UpdatedAt a, - ra_ID a)) (filter hit (rt_rows t)))) of
         (u, Inl e) \<Rightarrow> (u, Inl (wrap_error ''list rbac assignments'' e))
       | (u, Inr rows) \<Rightarrow> (u, Inr rows)))"

section \<open>The service\<close>

definition defaultAssignmentLimit :: int where "defaultAssignmentLimit = 1000"

record AuthorizeRequest =
  ar_Principal :: RBACPrincipal
  ar_Permission :: string
  ar_ScopeKind :: string
  ar_ScopeKey :: string

record AuthorizeDecision =
  ad_Allowed :: bool
  ad_CheckedAt :: go_time

text \<open>\<open>WithinTx\<close> around the read; the read result leaves the closure through a variable.\<close>

definition Authorize ::
  "tx_env \<Rightarrow> go_time \<Rightarrow> rbac_table \<Rightarrow> AuthorizeRequest \<Rightarrow> AuthorizeDecision result" where
  "Authorize env now t req =
     (let checkedAt = NormalizeUTCMicro now in
      if IsZero checkedAt then Inl (invariant_error ''rbac: clock returned zero time'')
      else let p = ar_Principal req;
        read = (\<lambda>u. ListRBACAssignmentsForPrincipal (env_stmt env) u (rp_Subject p)
                      (rp_DepartmentKeys p) defaultAssignmentLimit) in
      (case WithinTx env t (\<lambda>u. case read u of (u, Inl e) \<Rightarrow> (u, Inl e) | (u, Inr _) \<Rightarrow> (u, Inr ())) of
         (_, Inl e) \<Rightarrow> Inl e
       | (_, Inr _) \<Rightarrow>
           let assignments = (case read (newUnitOfWork t) of (_, Inr as) \<Rightarrow> as | (_, Inl _) \<Rightarrow> []) in
           (case RBACAuthorize p \<lparr>rq_Permission = ar_Permission req,
                    rq_ScopeKind = ar_ScopeKind req, rq_ScopeKey = ar_ScopeKey req\<rparr> assignments of
              Inl e \<Rightarrow> Inl e
            | Inr allowed \<Rightarrow> Inr \<lparr>ad_Allowed = allowed, ad_CheckedAt = checkedAt\<rparr>)))"

section \<open>What a decision needs of a pre-filtered read\<close>

definition applies_to :: "RBACPrincipal \<Rightarrow> RBACAssignment \<Rightarrow> bool" where
  "applies_to p a \<longleftrightarrow>
     ra_Enabled a \<and>
     (ra_SubjectKind a = SubjectUser \<and> ra_SubjectKey a = TrimSpace (rp_Subject p) \<or>
      ra_SubjectKind a = SubjectDepartment \<and> ra_SubjectKey a \<in> department_set (rp_DepartmentKeys p))"

lemma rbac_row_ok_trim: "rbac_row_ok a \<Longrightarrow> trim_assignment a = a"
  by (simp add: rbac_row_ok_def trim_assignment_def)

lemma usable_enabled: "rbacAssignmentUsable a \<Longrightarrow> ra_Enabled a"
  by (simp add: rbacAssignmentUsable_def split: if_splits)

lemma grants_applies_to:
  "grants (TrimSpace (rp_Subject p)) (department_set (rp_DepartmentKeys p)) r a \<Longrightarrow> applies_to p a"
  by (auto simp: grants_def applies_to_def dest: usable_enabled)

locale grant_source =
  fixes stored :: "'t \<Rightarrow> RBACAssignment set"
    and fetch :: "'t \<Rightarrow> RBACPrincipal \<Rightarrow> RBACAssignment list"
    and inv :: "'t \<Rightarrow> bool"
  assumes fetch_sound: "set (fetch t p) \<subseteq> stored t"
    and fetch_complete: "inv t \<Longrightarrow> TrimSpace (rp_Subject p) \<noteq> [] \<Longrightarrow> a \<in> stored t \<Longrightarrow>
      applies_to p a \<Longrightarrow> a \<in> set (fetch t p)"
    and stored_ok: "inv t \<Longrightarrow> a \<in> stored t \<Longrightarrow> rbac_row_ok a"
begin

text \<open>The decision on the fetched rows is the decision on all rows.\<close>

lemma decide_on_fetched:
  assumes "inv t" "well_formed_request p r" "stored t = set rows"
  shows "RBACAuthorize p r (fetch t p) = RBACAuthorize p r rows"
proof -
  have "TrimSpace (rp_Subject p) \<noteq> []" using assms(2) by (simp add: well_formed_request_def)
  then have "(\<exists>a \<in> set (fetch t p). grants (TrimSpace (rp_Subject p))
        (department_set (rp_DepartmentKeys p)) r' (trim_assignment a)) \<longleftrightarrow>
      (\<exists>a \<in> set rows. grants (TrimSpace (rp_Subject p))
        (department_set (rp_DepartmentKeys p)) r' (trim_assignment a))" for r'
    using assms(1,3) fetch_sound fetch_complete stored_ok rbac_row_ok_trim grants_applies_to
    by (metis subsetD)
  then show ?thesis using assms(2) by (simp add: RBACAuthorize_spec)
qed

end

definition fetched :: "rbac_table uow \<times> RBACAssignment list result \<Rightarrow> RBACAssignment list" where
  "fetched x = (case x of (_, Inr as) \<Rightarrow> as | (_, Inl _) \<Rightarrow> [])"

lemma set_normalizeRepositoryDepartmentKeys:
  "set (normalizeRepositoryDepartmentKeys ks) = department_set ks"
  by (simp add: normalizeRepositoryDepartmentKeys_def set_dedupe department_set_def)

interpretation enabled_rows: grant_source "\<lambda>t. set (rt_rows t)"
  "\<lambda>t p. fetched (ListEnabledAssignmentsForPrincipal None (newUnitOfWork t) p)" rbac_table_wf
proof unfold_locales
  fix t :: rbac_table and p :: RBACPrincipal and a
  show "set (fetched (ListEnabledAssignmentsForPrincipal None (newUnitOfWork t) p)) \<subseteq> set (rt_rows t)"
    by (auto simp: fetched_def ListEnabledAssignmentsForPrincipal_def checkOpen_def Let_def
        query_stmt_def exec_stmt_def)
  show "a \<in> set (fetched (ListEnabledAssignmentsForPrincipal None (newUnitOfWork t) p))"
    if "TrimSpace (rp_Subject p) \<noteq> []" "a \<in> set (rt_rows t)" "applies_to p a"
    using that
    by (auto simp: fetched_def ListEnabledAssignmentsForPrincipal_def checkOpen_def Let_def
        query_stmt_def exec_stmt_def applies_to_def set_normalizeRepositoryDepartmentKeys
        dest: arg_cong [where f = set])
  show "rbac_row_ok a" if "rbac_table_wf t" "a \<in> set (rt_rows t)"
    using that by (simp add: rbac_table_wf_def)
qed

text \<open>The rows the bounded query would return without its bound.\<close>

definition matching_rows :: "rbac_table \<Rightarrow> RBACPrincipal \<Rightarrow> RBACAssignment list" where
  "matching_rows t p = filter (applies_to p) (rt_rows t)"

lemma bounded_query:
  assumes "TrimSpace (rp_Subject p) \<noteq> []" "0 < lim"
  shows "ListRBACAssignmentsForPrincipal None (newUnitOfWork t) (rp_Subject p) (rp_DepartmentKeys p) lim
    = (newUnitOfWork t, Inr (take (nat lim) (sort_key (\<lambda>a. (- ra_UpdatedAt a, - ra_ID a)) (matching_rows t p))))"
proof -
  have "applies_to p = (\<lambda>a. ra_Enabled a \<and>
      (ra_SubjectKind a = SubjectUser \<and> ra_SubjectKey a = TrimSpace (rp_Subject p) \<or>
       list_ex (\<lambda>pr. pr a) (map (\<lambda>k a. ra_SubjectKind a = SubjectDepartment \<and> ra_SubjectKey a = k)
              (dedupe [] (rp_DepartmentKeys p)))))"
    by (auto simp: applies_to_def fun_eq_iff list_ex_iff set_dedupe)
  then show ?thesis
    using assms
    by (simp add: ListRBACAssignmentsForPrincipal_def checkOpen_def query_stmt_def exec_stmt_def
        matching_rows_def)
qed

lemma bounded_rows_source:
  "grant_source (\<lambda>t. set (rt_rows t))
     (\<lambda>t p. fetched (ListRBACAssignmentsForPrincipal None (newUnitOfWork t) (rp_Subject p)
              (rp_DepartmentKeys p) defaultAssignmentLimit))
     (\<lambda>t. rbac_table_wf t \<and> length (rt_rows t) \<le> 1000)"
proof unfold_locales
  fix t :: rbac_table and p :: RBACPrincipal and a
  let ?q = "ListRBACAssignmentsForPrincipal None (newUnitOfWork t) (rp_Subject p)
    (rp_DepartmentKeys p) defaultAssignmentLimit"
  show "set (fetched ?q) \<subseteq> set (rt_rows t)"
  proof (cases "TrimSpace (rp_Subject p) = []")
    case True
    then show ?thesis
      by (simp add: ListRBACAssignmentsForPrincipal_def fetched_def checkOpen_def)
  next
    case False
    then show ?thesis
      by (auto simp: bounded_query defaultAssignmentLimit_def fetched_def matching_rows_def
          dest: in_set_takeD)
  qed
  show "a \<in> set (fetched ?q)"
    if "rbac_table_wf t \<and> length (rt_rows t) \<le> 1000" "TrimSpace (rp_Subject p) \<noteq> []"
      "a \<in> set (rt_rows t)" "applies_to p a"
  proof -
    have "length (matching_rows t p) \<le> length (rt_rows t)"
      unfolding matching_rows_def by (rule length_filter_le)
    then have "length (matching_rows t p) \<le> 1000" using that(1) by linarith
    with that show ?thesis
      by (simp add: bounded_query defaultAssignmentLimit_def fetched_def)
        (simp add: matching_rows_def)
  qed
  show "rbac_row_ok a" if "rbac_table_wf t \<and> length (rt_rows t) \<le> 1000" "a \<in> set (rt_rows t)"
    using that by (simp add: rbac_table_wf_def)
qed

lemma Authorize_calm:
  assumes "NormalizeUTCMicro now \<noteq> 0" "TrimSpace (rp_Subject (ar_Principal req)) \<noteq> []"
  shows "Authorize calm_env now t req =
    (case RBACAuthorize (ar_Principal req) \<lparr>rq_Permission = ar_Permission req,
            rq_ScopeKind = ar_ScopeKind req, rq_ScopeKey = ar_ScopeKey req\<rparr>
          (fetched (ListRBACAssignmentsForPrincipal None (newUnitOfWork t)
             (rp_Subject (ar_Principal req)) (rp_DepartmentKeys (ar_Principal req))
             defaultAssignmentLimit)) of
       Inl e \<Rightarrow> Inl e
     | Inr b \<Rightarrow> Inr \<lparr>ad_Allowed = b, ad_CheckedAt = NormalizeUTCMicro now\<rparr>)"
  using assms
  by (simp add: Authorize_def IsZero_def Let_def calm_env_def WithinTx_def bounded_query
      defaultAssignmentLimit_def commitInternal_def fetched_def)

section \<open>Writes keep the table invariant\<close>

lemma normalizeRBACAssignment_ok:
  "normalizeRBACAssignmentForPersistence a = Inr a' \<Longrightarrow> rbac_row_ok a'"
  by (auto simp: normalizeRBACAssignmentForPersistence_def NewRBACAssignment_def rbac_row_ok_def
      rbacAssignmentUsable_def Let_def split: sum.splits if_splits)

lemma rbac_row_ok_ID [simp]:
  "rbac_row_ok (a\<lparr>ra_ID := i\<rparr>) = rbac_row_ok a"
  "rbac_row_ok (a\<lparr>ra_CreatedAt := t\<rparr>) = rbac_row_ok a"
  "rbac_row_ok (a\<lparr>ra_UpdatedAt := t\<rparr>) = rbac_row_ok a"
  "rbac_row_ok (a\<lparr>ra_CreatedBy := s\<rparr>) = rbac_row_ok a"
  by (simp_all add: rbac_row_ok_def rbacAssignmentUsable_def)

lemma insert_assignment_wf:
  assumes "rbac_table_wf t" "rbac_row_ok a" "insert_assignment a t = Inr (t', r)"
  shows "rbac_table_wf t'"
proof -
  have r: "r = a\<lparr>ra_ID := rt_next t\<rparr>" "assignment_key a \<notin> assignment_key ` set (rt_rows t)"
    "t' = \<lparr>rt_rows = rt_rows t @ [r], rt_next = rt_next t + 1\<rparr>"
    using assms(3) by (auto simp: insert_assignment_def Let_def split: if_splits)
  moreover have "assignment_key r = assignment_key a" using r by (simp add: assignment_key_def)
  moreover have "rbac_row_ok r" using r assms(2) by simp
  ultimately show ?thesis
    using assms(1) unfolding rbac_table_wf_def by force
qed

lemma SaveAssignment_data:
  assumes "SaveAssignment fault now u a = (u', r)"
  shows "uow_data u' = uow_data u \<or>
    (\<exists>row r'. rbac_row_ok row \<and> insert_assignment row (uow_data u) = Inr (uow_data u', r'))"
proof -
  have row: "rbac_row_ok (b\<lparr>ra_CreatedAt := c, ra_UpdatedAt := d\<rparr>)"
    if "normalizeRBACAssignmentForPersistence a = Inr b" for b c d
    using normalizeRBACAssignment_ok [OF that] by simp
  show ?thesis
    using assms row
    by (fastforce simp: SaveAssignment_def exec_stmt_def Let_def
        split: option.splits sum.splits prod.splits if_splits)
qed

lemma SaveAssignment_wf:
  assumes "SaveAssignment fault now u a = (u', r)" "rbac_table_wf (uow_data u)"
  shows "rbac_table_wf (uow_data u')"
  using SaveAssignment_data [OF assms(1)] assms(2) by (auto intro: insert_assignment_wf)

lemma update_assignment_wf:
  assumes "rbac_table_wf t" "rbac_row_ok a" "update_assignment now a t = Inr (t', r)"
  shows "rbac_table_wf t'"
proof (cases r)
  case None
  with assms(1,3) show ?thesis
    by (auto simp: update_assignment_def Let_def split: option.splits if_splits)
next
  case (Some row)
  define f where "f = (\<lambda>x. if ra_ID x = ra_ID a then row else x)"
  have t': "t' = t\<lparr>rt_rows := map f (rt_rows t)\<rparr>" and row: "ra_ID row = ra_ID a" "rbac_row_ok row"
    "assignment_key row = assignment_key a"
    and fresh: "\<forall>x \<in> set (rt_rows t). ra_ID x \<noteq> ra_ID a \<longrightarrow> assignment_key x \<noteq> assignment_key a"
    using assms(2,3) Some
    by (auto simp: update_assignment_def Let_def f_def assignment_key_def
        split: option.splits if_splits)
  have ids: "map ra_ID (map f (rt_rows t)) = map ra_ID (rt_rows t)"
    using row(1) by (auto simp: f_def)
  have same_id: "ra_ID x = ra_ID y \<Longrightarrow> x = y"
    and same_key: "assignment_key x = assignment_key y \<Longrightarrow> x = y"
    if "x \<in> set (rt_rows t)" "y \<in> set (rt_rows t)" for x y
    using that assms(1) by (auto simp: rbac_table_wf_def distinct_map dest: inj_onD)
  have "distinct (map assignment_key (map f (rt_rows t)))"
  proof -
    have "x = y" if "x \<in> set (rt_rows t)" "y \<in> set (rt_rows t)"
      "assignment_key (f x) = assignment_key (f y)" for x y
      using that(3) fresh [rule_format, OF that(1)] fresh [rule_format, OF that(2)] row(3)
        same_id [OF that(1,2)] same_key [OF that(1,2)]
      unfolding f_def by (cases "ra_ID x = ra_ID a"; cases "ra_ID y = ra_ID a") auto
    then show ?thesis
      using assms(1) by (auto simp: rbac_table_wf_def distinct_map inj_on_def)
  qed
  moreover have "rbac_row_ok (f x) \<and> ra_ID (f x) < rt_next t" if "x \<in> set (rt_rows t)" for x
    using that assms(1) row by (auto simp: f_def rbac_table_wf_def)
  ultimately show ?thesis
    using assms(1) ids unfolding t' rbac_table_wf_def by (auto simp del: map_map)
qed

lemma UpdateAssignment_wf:
  assumes "UpdateAssignment fault now u a = (u', r)" "rbac_table_wf (uow_data u)"
  shows "rbac_table_wf (uow_data u')"
proof -
  have "uow_data u' = uow_data u \<or>
      (\<exists>b x. rbac_row_ok b \<and> update_assignment now b (uow_data u) = Inr (uow_data u', x))"
    using assms(1) normalizeRBACAssignment_ok [of a]
    by (fastforce simp: UpdateAssignment_def exec_stmt_def Let_def
        split: option.splits sum.splits prod.splits if_splits)
  with assms(2) show ?thesis by (auto intro: update_assignment_wf)
qed

section \<open>What an allowed request rests on\<close>

lemma bounded_query_rows:
  "snd (ListRBACAssignmentsForPrincipal fault (newUnitOfWork t) s ks lim) = Inr as \<Longrightarrow>
     set as \<subseteq> set (rt_rows t)"
  by (auto simp: ListRBACAssignmentsForPrincipal_def checkOpen_def query_stmt_def exec_stmt_def Let_def
      dest: in_set_takeD split: option.splits sum.splits prod.splits if_splits)

lemma Authorize_allowed:
  assumes "Authorize env now t req = Inr d" "ad_Allowed d"
  obtains as where "set as \<subseteq> set (rt_rows t)"
    "RBACAuthorize (ar_Principal req) \<lparr>rq_Permission = ar_Permission req,
       rq_ScopeKind = ar_ScopeKind req, rq_ScopeKey = ar_ScopeKey req\<rparr> as = Inr True"
proof -
  define read where "read = ListRBACAssignmentsForPrincipal (env_stmt env) (newUnitOfWork t)
    (rp_Subject (ar_Principal req)) (rp_DepartmentKeys (ar_Principal req)) defaultAssignmentLimit"
  define as where "as = (case read of (_, Inr as) \<Rightarrow> as | (_, Inl _) \<Rightarrow> [])"
  have "set as \<subseteq> set (rt_rows t)"
  proof (cases "snd read")
    case (Inl e)
    then show ?thesis by (simp add: as_def prod.case_eq_if)
  next
    case (Inr rows)
    from bounded_query_rows [OF this [unfolded read_def]] Inr show ?thesis
      by (simp add: as_def prod.case_eq_if)
  qed
  moreover have "RBACAuthorize (ar_Principal req) \<lparr>rq_Permission = ar_Permission req,
       rq_ScopeKind = ar_ScopeKind req, rq_ScopeKey = ar_ScopeKey req\<rparr> as = Inr True"
    using assms unfolding Authorize_def Let_def as_def read_def
    by (auto split: prod.splits sum.splits if_splits)
  ultimately show thesis by (rule that)
qed

end
