(* ===== verification/Access_Properties.thy ===== *)
theory Access_Properties
  imports Rbac_Store
begin

text \<open>
  The properties of role-based access control: what the decision of the domain is, that the
  authorization service decides on the whole table, who holds the privileged permissions, and that
  the writes keep the table's invariant. The witnesses use one department and one personal
  assignment.
\<close>

definition demo_assignment :: "int \<Rightarrow> string \<Rightarrow> string \<Rightarrow> string \<Rightarrow> RBACAssignment" where
  "demo_assignment i kind key role =
     \<lparr>ra_ID = i, ra_SubjectKind = kind, ra_SubjectKey = key, ra_Role = role,
      ra_ScopeKind = ScopeGlobal, ra_ScopeKey = [], ra_Enabled = True, ra_CreatedBy = ''root'',
      ra_UpdatedBy = ''root'', ra_CreatedAt = 1, ra_UpdatedAt = 1\<rparr>"

definition demo_rbac :: rbac_table where
  "demo_rbac = \<lparr>rt_rows = [demo_assignment 1 SubjectDepartment ''sre'' RoleOperator,
     demo_assignment 2 SubjectUser ''alice'' RoleAdmin], rt_next = 3\<rparr>"

definition demo_access :: "string \<Rightarrow> string \<Rightarrow> AuthorizeRequest" where
  "demo_access subject permission =
     \<lparr>ar_Principal = \<lparr>rp_Subject = subject, rp_DepartmentKeys = ['' sre '']\<rparr>,
      ar_Permission = permission, ar_ScopeKind = ScopeGlobal, ar_ScopeKey = []\<rparr>"

text \<open>
  C20: the decision: a request is an error unless it has a subject, a known permission and a known
  scope that has a key exactly when it is not the global one; otherwise it is allowed exactly when
  one of the assignments is enabled, names the subject or one of the departments, covers the scope,
  and has a role that holds the permission by the access matrix. Surrounding space does not count,
  and neither an assignment with an overlong key nor a global one with a key ever authorizes.
\<close>

theorem rbac_decision:
  "RBACAuthorize p r as = Inr b \<longleftrightarrow>
     TrimSpace (rp_Subject p) \<noteq> [] \<and> permitted_roles (rq_Permission r) \<noteq> [] \<and>
     RBACScopeKind_Valid (rq_ScopeKind r) \<and> (rq_ScopeKind r = ''global'' \<longleftrightarrow> TrimSpace (rq_ScopeKey r) = []) \<and>
     (b \<longleftrightarrow> (\<exists>a \<in> set as. authorizes p r a))"
proof -
  have w: "well_formed_request p r \<longleftrightarrow> TrimSpace (rp_Subject p) \<noteq> [] \<and> permitted_roles (rq_Permission r) \<noteq> [] \<and>
      RBACScopeKind_Valid (rq_ScopeKind r) \<and> (rq_ScopeKind r = ''global'' \<longleftrightarrow> TrimSpace (rq_ScopeKey r) = [])"
    by (simp add: well_formed_request_def permitted_roles_known)
  show ?thesis
  proof (cases "well_formed_request p r")
    case True
    with w show ?thesis by (simp only: RBACAuthorize_Inr_iff grants_authorizes [OF True]) blast
  qed (use w in \<open>simp only: RBACAuthorize_Inr_iff, blast\<close>)
qed

text \<open>A department's operator may read the alert sources, until the assignment is disabled.\<close>

theorem rbac_decision_witness:
  "RBACAuthorize \<lparr>rp_Subject = ''bob'', rp_DepartmentKeys = ['' sre '']\<rparr>
     \<lparr>rq_Permission = ''alert_source.read'', rq_ScopeKind = ''global'', rq_ScopeKey = []\<rparr>
     [demo_assignment 1 SubjectDepartment ''sre'' RoleOperator] = Inr True \<and>
   RBACAuthorize \<lparr>rp_Subject = ''bob'', rp_DepartmentKeys = ['' sre '']\<rparr>
     \<lparr>rq_Permission = ''alert_source.read'', rq_ScopeKind = ''global'', rq_ScopeKey = []\<rparr>
     [(demo_assignment 1 SubjectDepartment ''sre'' RoleOperator)\<lparr>ra_Enabled := False\<rparr>] = Inr False"
proof -
  let ?p = "\<lparr>rp_Subject = ''bob'', rp_DepartmentKeys = ['' sre '']\<rparr>"
  let ?r = "\<lparr>rq_Permission = ''alert_source.read'', rq_ScopeKind = ''global'', rq_ScopeKey = []\<rparr>"
  let ?a = "demo_assignment 1 SubjectDepartment ''sre'' RoleOperator"
  have r: "TrimSpace (rp_Subject ?p) \<noteq> []" "permitted_roles (rq_Permission ?r) \<noteq> []"
    "RBACScopeKind_Valid (rq_ScopeKind ?r)" "rq_ScopeKind ?r = ''global'' \<longleftrightarrow> TrimSpace (rq_ScopeKey ?r) = []"
    by code_simp+
  have a: "authorizes ?p ?r ?a" "\<not> authorizes ?p ?r (?a\<lparr>ra_Enabled := False\<rparr>)" by code_simp+
  have "RBACAuthorize ?p ?r [?a] = Inr True"
    unfolding rbac_decision using r a by (intro conjI) simp_all
  moreover have "RBACAuthorize ?p ?r [?a\<lparr>ra_Enabled := False\<rparr>] = Inr False"
    unfolding rbac_decision using r a by (intro conjI) simp_all
  ultimately show ?thesis by blast
qed

text \<open>
  C21: the service reads at most a thousand assignments of the principal and decides on those; as
  long as the table is no larger, that is the decision on the whole table.
\<close>

theorem service_decides_on_whole_table:
  assumes "rbac_table_wf t" "length (rt_rows t) \<le> 1000" "NormalizeUTCMicro now \<noteq> 0"
    and "well_formed_request (ar_Principal req) \<lparr>rq_Permission = ar_Permission req,
      rq_ScopeKind = ar_ScopeKind req, rq_ScopeKey = ar_ScopeKey req\<rparr>"
  shows "Authorize calm_env now t req =
    (case RBACAuthorize (ar_Principal req) \<lparr>rq_Permission = ar_Permission req,
            rq_ScopeKind = ar_ScopeKind req, rq_ScopeKey = ar_ScopeKey req\<rparr> (rt_rows t) of
       Inl e \<Rightarrow> Inl e
     | Inr b \<Rightarrow> Inr \<lparr>ad_Allowed = b, ad_CheckedAt = NormalizeUTCMicro now\<rparr>)"
proof -
  have "TrimSpace (rp_Subject (ar_Principal req)) \<noteq> []"
    using assms(4) by (simp add: well_formed_request_def)
  then show ?thesis
    using grant_source.decide_on_fetched [OF bounded_rows_source _ assms(4), of t "rt_rows t"] assms(1,2)
    by (simp add: Authorize_calm [OF assms(3)])
qed

theorem service_decides_on_whole_table_witness:
  "Authorize calm_env 5000 demo_rbac (demo_access ''bob'' ''alert_source.read'') =
     Inr \<lparr>ad_Allowed = True, ad_CheckedAt = NormalizeUTCMicro 5000\<rparr>"
proof -
  let ?r = "\<lparr>rq_Permission = ''alert_source.read'', rq_ScopeKind = ScopeGlobal, rq_ScopeKey = []\<rparr>"
  let ?p = "\<lparr>rp_Subject = ''bob'', rp_DepartmentKeys = ['' sre '']\<rparr>"
  have decision: "RBACAuthorize ?p ?r (rt_rows demo_rbac) = Inr True" by code_simp
  have wf: "rbac_table_wf demo_rbac" by code_simp
  have "NormalizeUTCMicro 5000 \<noteq> 0" by code_simp
  moreover have "well_formed_request ?p ?r" using decision by (simp add: RBACAuthorize_Inr_iff)
  ultimately show ?thesis
    using service_decides_on_whole_table [OF wf, of 5000 "demo_access ''bob'' ''alert_source.read''"]
      decision by (simp add: demo_access_def demo_rbac_def)
qed

text \<open>
  C22: whoever is allowed a privileged permission (managing, administering, approving) has an
  enabled assignment in the table, to the subject or one of the departments, as an administrator,
  or as a leader for approving a diagnosis; whatever the size of the table and whatever the driver
  answers.
\<close>

theorem privileged_access_needs_admin:
  assumes "Authorize env now t req = Inr d" "ad_Allowed d"
    and "ar_Permission req \<in> set privileged_permissions"
    and "\<forall>a \<in> set (rt_rows t). rbac_row_ok a"
  shows "\<exists>a \<in> set (rt_rows t). applies_to (ar_Principal req) a \<and>
    (ra_Role a = RoleAdmin \<or>
     ra_Role a = RoleLeader \<and> ar_Permission req = ''diagnosis_room.approve'')"
proof -
  obtain as where as: "set as \<subseteq> set (rt_rows t)"
    "RBACAuthorize (ar_Principal req) \<lparr>rq_Permission = ar_Permission req,
       rq_ScopeKind = ar_ScopeKind req, rq_ScopeKey = ar_ScopeKey req\<rparr> as = Inr True"
    by (rule Authorize_allowed [OF assms(1,2)])
  then obtain a where a: "a \<in> set (rt_rows t)"
    and g: "grants (TrimSpace (rp_Subject (ar_Principal req)))
      (department_set (rp_DepartmentKeys (ar_Principal req)))
      \<lparr>rq_Permission = ar_Permission req, rq_ScopeKind = ar_ScopeKind req,
       rq_ScopeKey = TrimSpace (ar_ScopeKey req)\<rparr> (trim_assignment a)"
    by (auto simp: RBACAuthorize_Inr_iff)
  have "trim_assignment a = a" using a assms(4) by (simp add: rbac_row_ok_trim)
  with g have "applies_to (ar_Principal req) a" by (metis grants_applies_to)
  moreover have "rbacRoleAllows (ra_Role a) (ar_Permission req)"
    using g \<open>trim_assignment a = a\<close> by (auto simp: grants_def rbacRoleAllows_def)
  ultimately show ?thesis using a privileged_only_admin [OF assms(3)] by blast
qed

theorem privileged_access_needs_admin_witness:
  "\<exists>d. Authorize calm_env 5000 demo_rbac (demo_access ''alice'' ''rbac.manage'') = Inr d \<and>
     ad_Allowed d \<and> (\<exists>a \<in> set (rt_rows demo_rbac). ra_Role a = RoleAdmin)"
proof -
  have "case Authorize calm_env 5000 demo_rbac (demo_access ''alice'' ''rbac.manage'') of
      Inl e \<Rightarrow> False | Inr d \<Rightarrow> ad_Allowed d" by code_simp
  then obtain d where d: "Authorize calm_env 5000 demo_rbac (demo_access ''alice'' ''rbac.manage'') = Inr d"
    "ad_Allowed d" by (auto split: sum.splits)
  have rows: "\<forall>a \<in> set (rt_rows demo_rbac). rbac_row_ok a" by code_simp
  have "ar_Permission (demo_access ''alice'' ''rbac.manage'') \<in> set privileged_permissions"
    by code_simp
  from privileged_access_needs_admin [OF d this rows] d show ?thesis
    by (auto simp: demo_access_def)
qed

text \<open>
  C23: saving and updating an assignment keep the table well-formed: rows stay valid and trimmed,
  and no two have the same identifier or the same subject, role and scope.
\<close>

theorem assignment_writes_keep_table:
  assumes "rbac_table_wf (uow_data u)"
  shows "rbac_table_wf (uow_data (fst (SaveAssignment fault now u a))) \<and>
    rbac_table_wf (uow_data (fst (UpdateAssignment fault now u a)))"
proof -
  obtain s rs where s: "SaveAssignment fault now u a = (s, rs)" by (cases "SaveAssignment fault now u a")
  obtain v rv where v: "UpdateAssignment fault now u a = (v, rv)"
    by (cases "UpdateAssignment fault now u a")
  show ?thesis using SaveAssignment_wf [OF s assms] UpdateAssignment_wf [OF v assms] by (simp add: s v)
qed

theorem assignment_writes_keep_table_witness:
  "rbac_table_wf (uow_data (fst (SaveAssignment None 9 (newUnitOfWork demo_rbac)
     (demo_assignment 0 SubjectUser '' carol '' RoleViewer))))"
proof -
  have "rbac_table_wf (uow_data (newUnitOfWork demo_rbac))" by code_simp
  from assignment_writes_keep_table [OF this] show ?thesis by blast
qed

end
