(* ===== verification/Diagnosis_Task.thy ===== *)
theory Diagnosis_Task
  imports Go_Prelude
begin

text \<open>
  \<open>internal/domain/diagnosis.go\<close>: the life cycle of a diagnosis task and the entries of its
  append-only event log. The lemmas give the invariant that relates the status to the
  timestamps and the failure reason, its preservation by \<open>Start\<close> and \<open>Finish\<close>, and the
  behaviour of both on terminal tasks.
\<close>

section \<open>Status\<close>

abbreviation DiagnosisStatusPending :: string where "DiagnosisStatusPending \<equiv> ''pending''"
abbreviation DiagnosisStatusRunning :: string where "DiagnosisStatusRunning \<equiv> ''running''"
abbreviation DiagnosisStatusSucceeded :: string where "DiagnosisStatusSucceeded \<equiv> ''succeeded''"
abbreviation DiagnosisStatusFailed :: string where "DiagnosisStatusFailed \<equiv> ''failed''"
abbreviation DiagnosisStatusCancelled :: string where "DiagnosisStatusCancelled \<equiv> ''cancelled''"

definition DiagnosisStatus_Valid :: "string \<Rightarrow> bool" where
  "DiagnosisStatus_Valid s \<longleftrightarrow>
     s \<in> {DiagnosisStatusPending, DiagnosisStatusRunning, DiagnosisStatusSucceeded,
          DiagnosisStatusFailed, DiagnosisStatusCancelled}"

definition DiagnosisStatus_IsTerminal :: "string \<Rightarrow> bool" where
  "DiagnosisStatus_IsTerminal s \<longleftrightarrow>
     s \<in> {DiagnosisStatusSucceeded, DiagnosisStatusFailed, DiagnosisStatusCancelled}"

lemma IsTerminal_simps [simp]:
  "\<not> DiagnosisStatus_IsTerminal DiagnosisStatusPending"
  "\<not> DiagnosisStatus_IsTerminal DiagnosisStatusRunning"
  "DiagnosisStatus_IsTerminal DiagnosisStatusSucceeded"
  "DiagnosisStatus_IsTerminal DiagnosisStatusFailed"
  "DiagnosisStatus_IsTerminal DiagnosisStatusCancelled"
  by (simp_all add: DiagnosisStatus_IsTerminal_def)

section \<open>Tasks\<close>

record DiagnosisTask =
  dt_ID :: int
  dt_EvidenceSnapshotID :: int
  dt_WorkflowID :: string
  dt_RunID :: string
  dt_Status :: string
  dt_FailureReason :: string
  dt_StartedAt :: "go_time option"
  dt_FinishedAt :: "go_time option"
  dt_CreatedAt :: go_time
  dt_UpdatedAt :: go_time

definition NewDiagnosisTask :: "int \<Rightarrow> string \<Rightarrow> string \<Rightarrow> DiagnosisTask result" where
  "NewDiagnosisTask snapshotID workflowID runID =
     (if snapshotID = 0 then
        Inl (invariant_error ''diagnosis task: evidence_snapshot_id must be non-zero'')
      else if workflowID = [] then
        Inl (invariant_error ''diagnosis task: workflow_id must be non-empty'')
      else if runID = [] then
        Inl (invariant_error ''diagnosis task: run_id must be non-empty'')
      else Inr \<lparr>dt_ID = 0, dt_EvidenceSnapshotID = snapshotID, dt_WorkflowID = workflowID,
        dt_RunID = runID, dt_Status = DiagnosisStatusPending, dt_FailureReason = [],
        dt_StartedAt = None, dt_FinishedAt = None, dt_CreatedAt = 0, dt_UpdatedAt = 0\<rparr>)"

definition DiagnosisTask_Start :: "DiagnosisTask \<Rightarrow> go_time \<Rightarrow> DiagnosisTask result" where
  "DiagnosisTask_Start t startedAt =
     (if IsZero startedAt then
        Inl (invariant_error ''diagnosis task: started_at must be set on Start'')
      else let normalised = NormalizeUTCMicro startedAt in
        if DiagnosisStatus_IsTerminal (dt_Status t) then
          Inl (invariant_error ''diagnosis task: cannot Start from terminal status'')
        else (case (dt_Status t = DiagnosisStatusRunning, dt_StartedAt t) of
            (True, Some s) \<Rightarrow>
              if s = normalised then Inr t
              else Inl (invariant_error ''diagnosis task: started_at is immutable once set'')
          | _ \<Rightarrow> Inr (t\<lparr>dt_Status := DiagnosisStatusRunning, dt_StartedAt := Some normalised\<rparr>)))"

definition DiagnosisTask_Finish ::
  "DiagnosisTask \<Rightarrow> string \<Rightarrow> go_time \<Rightarrow> string \<Rightarrow> DiagnosisTask result" where
  "DiagnosisTask_Finish t status finishedAt failureReason =
     (if \<not> DiagnosisStatus_IsTerminal status then
        Inl (invariant_error ''diagnosis task: Finish requires a terminal status'')
      else if IsZero finishedAt then
        Inl (invariant_error ''diagnosis task: finished_at must be set on Finish'')
      else let normalised = NormalizeUTCMicro finishedAt in
        if (case dt_StartedAt t of None \<Rightarrow> False | Some s \<Rightarrow> normalised < s) then
          Inl (invariant_error ''diagnosis task: finished_at precedes started_at'')
        else if status = DiagnosisStatusFailed \<and> failureReason = [] then
          Inl (invariant_error
            ''diagnosis task: failure_reason must be non-empty when status==failed'')
        else if status \<noteq> DiagnosisStatusFailed \<and> failureReason \<noteq> [] then
          Inl (invariant_error ''diagnosis task: failure_reason must be empty'')
        else if DiagnosisStatus_IsTerminal (dt_Status t) then
          (if dt_Status t = status \<and> dt_FinishedAt t = Some normalised
              \<and> dt_FailureReason t = failureReason
           then Inr t
           else Inl (invariant_error ''diagnosis task: terminal status is immutable''))
        else Inr (t\<lparr>dt_Status := status, dt_FinishedAt := Some normalised,
          dt_FailureReason := failureReason\<rparr>))"

definition DiagnosisTask_wf :: "DiagnosisTask \<Rightarrow> bool" where
  "DiagnosisTask_wf t \<longleftrightarrow>
     dt_EvidenceSnapshotID t \<noteq> 0 \<and> dt_WorkflowID t \<noteq> [] \<and> dt_RunID t \<noteq> [] \<and>
     DiagnosisStatus_Valid (dt_Status t) \<and>
     (dt_Status t = DiagnosisStatusPending \<longrightarrow> dt_StartedAt t = None) \<and>
     (dt_Status t = DiagnosisStatusRunning \<longrightarrow> dt_StartedAt t \<noteq> None) \<and>
     (dt_FinishedAt t \<noteq> None \<longleftrightarrow> DiagnosisStatus_IsTerminal (dt_Status t)) \<and>
     (dt_FailureReason t \<noteq> [] \<longleftrightarrow> dt_Status t = DiagnosisStatusFailed) \<and>
     (\<forall>s. dt_StartedAt t = Some s \<longrightarrow> micro_time s) \<and>
     (\<forall>f. dt_FinishedAt t = Some f \<longrightarrow> micro_time f \<and>
        (\<forall>s. dt_StartedAt t = Some s \<longrightarrow> s \<le> f))"

lemma NewDiagnosisTask_wf: "NewDiagnosisTask i w r = Inr t \<Longrightarrow> DiagnosisTask_wf t"
  by (auto simp: NewDiagnosisTask_def DiagnosisTask_wf_def DiagnosisStatus_Valid_def)

lemma DiagnosisTask_Start_cases:
  assumes "DiagnosisTask_Start t s = Inr t'"
  obtains (unchanged) "t' = t" "dt_Status t = DiagnosisStatusRunning"
      "dt_StartedAt t = Some (NormalizeUTCMicro s)"
    | (started) "\<not> DiagnosisStatus_IsTerminal (dt_Status t)"
      "t' = t\<lparr>dt_Status := DiagnosisStatusRunning, dt_StartedAt := Some (NormalizeUTCMicro s)\<rparr>"
  using assms
  by (auto simp: DiagnosisTask_Start_def Let_def split: if_splits bool.splits option.splits)

lemma DiagnosisTask_Finish_cases:
  assumes "DiagnosisTask_Finish t st f r = Inr t'"
  obtains (unchanged) "t' = t" "dt_Status t = st" "dt_FinishedAt t = Some (NormalizeUTCMicro f)"
      "dt_FailureReason t = r" "DiagnosisStatus_IsTerminal (dt_Status t)"
    | (finished) "\<not> DiagnosisStatus_IsTerminal (dt_Status t)" "DiagnosisStatus_IsTerminal st"
      "r \<noteq> [] \<longleftrightarrow> st = DiagnosisStatusFailed"
      "\<forall>s. dt_StartedAt t = Some s \<longrightarrow> s \<le> NormalizeUTCMicro f"
      "t' = t\<lparr>dt_Status := st, dt_FinishedAt := Some (NormalizeUTCMicro f), dt_FailureReason := r\<rparr>"
  using assms
  by (auto simp: DiagnosisTask_Finish_def Let_def split: if_splits option.splits)

lemma DiagnosisTask_Start_wf:
  assumes "DiagnosisTask_Start t s = Inr t'" "DiagnosisTask_wf t"
  shows "DiagnosisTask_wf t'"
  using assms(1)
  by (cases rule: DiagnosisTask_Start_cases)
    (use assms(2) in \<open>auto simp: DiagnosisTask_wf_def DiagnosisStatus_Valid_def\<close>)

lemma DiagnosisTask_Finish_wf:
  assumes "DiagnosisTask_Finish t st f r = Inr t'" "DiagnosisTask_wf t"
  shows "DiagnosisTask_wf t'"
  using assms(1)
proof (cases rule: DiagnosisTask_Finish_cases)
  case unchanged
  with assms(2) show ?thesis by simp
next
  case finished
  have "st \<noteq> DiagnosisStatusPending" "st \<noteq> DiagnosisStatusRunning" "DiagnosisStatus_Valid st"
    using finished(2) by (auto simp: DiagnosisStatus_IsTerminal_def DiagnosisStatus_Valid_def)
  with finished assms(2) show ?thesis
    by (auto simp: DiagnosisTask_wf_def)
qed

lemma DiagnosisTask_terminal_frozen:
  assumes "DiagnosisStatus_IsTerminal (dt_Status t)"
  shows "DiagnosisTask_Start t s = Inr t' \<Longrightarrow> t' = t"
    and "DiagnosisTask_Finish t st f r = Inr t' \<Longrightarrow> t' = t"
proof -
  assume "DiagnosisTask_Start t s = Inr t'"
  then show "t' = t"
    by (cases rule: DiagnosisTask_Start_cases) (use assms in auto)
next
  assume "DiagnosisTask_Finish t st f r = Inr t'"
  then show "t' = t"
    by (cases rule: DiagnosisTask_Finish_cases) (use assms in auto)
qed

text \<open>One execution of a workflow against a task: any sequence of accepted transitions.\<close>

datatype task_op = OpStart go_time | OpFinish string go_time string

fun task_step :: "DiagnosisTask \<Rightarrow> task_op \<Rightarrow> DiagnosisTask result" where
  "task_step t (OpStart s) = DiagnosisTask_Start t s"
| "task_step t (OpFinish st f r) = DiagnosisTask_Finish t st f r"

text \<open>A caller keeps the old task when a transition is refused.\<close>

fun task_run :: "DiagnosisTask \<Rightarrow> task_op list \<Rightarrow> DiagnosisTask" where
  "task_run t [] = t"
| "task_run t (x # xs) = task_run (case task_step t x of Inl e \<Rightarrow> t | Inr t' \<Rightarrow> t') xs"

lemma task_step_wf: "task_step t x = Inr t' \<Longrightarrow> DiagnosisTask_wf t \<Longrightarrow> DiagnosisTask_wf t'"
  by (cases x) (auto intro: DiagnosisTask_Start_wf DiagnosisTask_Finish_wf)

lemma task_run_wf: "DiagnosisTask_wf t \<Longrightarrow> DiagnosisTask_wf (task_run t xs)"
  by (induction xs arbitrary: t) (auto split: sum.split intro: task_step_wf)

lemma task_step_terminal:
  "DiagnosisStatus_IsTerminal (dt_Status t) \<Longrightarrow> task_step t x = Inr t' \<Longrightarrow> t' = t"
  by (cases x) (auto dest: DiagnosisTask_terminal_frozen)

lemma task_run_terminal:
  "DiagnosisStatus_IsTerminal (dt_Status t) \<Longrightarrow> task_run t xs = t"
  by (induction xs) (auto split: sum.split dest: task_step_terminal)

text \<open>The identity of a task is fixed at construction.\<close>

lemma task_step_identity:
  assumes "task_step t x = Inr t'"
  shows "dt_WorkflowID t' = dt_WorkflowID t \<and> dt_RunID t' = dt_RunID t \<and>
    dt_EvidenceSnapshotID t' = dt_EvidenceSnapshotID t"
  using assms
  by (cases x)
    (auto elim!: DiagnosisTask_Start_cases DiagnosisTask_Finish_cases)

section \<open>Event log entries\<close>

record DiagnosisTaskEvent =
  te_ID :: int
  te_TaskID :: int
  te_Kind :: string
  te_Payload :: string
  te_DedupeKey :: "string option"
  te_OccurredAt :: go_time
  te_RecordedAt :: go_time

definition NewDiagnosisTaskEvent ::
  "int \<Rightarrow> string \<Rightarrow> string \<Rightarrow> string option \<Rightarrow> go_time \<Rightarrow> DiagnosisTaskEvent result" where
  "NewDiagnosisTaskEvent taskID kind payload dedupeKey occurredAt =
     (if taskID = 0 then
        Inl (invariant_error ''diagnosis task event: task_id must be non-zero'')
      else if kind = [] then
        Inl (invariant_error ''diagnosis task event: kind must be non-empty'')
      else if IsZero occurredAt then
        Inl (invariant_error ''diagnosis task event: occurred_at must be set'')
      else if dedupeKey = Some [] then
        Inl (invariant_error ''diagnosis task event: dedupe_key must be nil for no-idempotency producers'')
      else Inr \<lparr>te_ID = 0, te_TaskID = taskID, te_Kind = kind, te_Payload = payload,
        te_DedupeKey = dedupeKey, te_OccurredAt = NormalizeUTCMicro occurredAt,
        te_RecordedAt = 0\<rparr>)"

lemma NewDiagnosisTaskEvent_ok_iff:
  "is_ok (NewDiagnosisTaskEvent i k p d t) \<longleftrightarrow> i \<noteq> 0 \<and> k \<noteq> [] \<and> t \<noteq> 0 \<and> d \<noteq> Some []"
  by (simp add: NewDiagnosisTaskEvent_def IsZero_def)

end
