(* ===== verification/Record_Properties.thy ===== *)
theory Record_Properties
  imports Repo_Core Json_Encode Diagnosis_Task Chat_Session
begin

text \<open>
  The properties of the records of a diagnosis and of what stores them: transactions, the strict
  JSON reader, the encoding of label maps, and the lives of diagnosis tasks and chat sessions.
\<close>

section \<open>Transactions\<close>

text \<open>
  C24: a unit of work whose callback leaves ending it to \<open>WithinTx\<close> is all or nothing. When \<open>WithinTx\<close> succeeds, the data is what the callback
  left, the callback itself succeeded, and none of its statements had failed. When it answers with an
  error, the data is what it was, with one exception: a callback that succeeded, on a transaction that
  no statement had aborted, whose commit was applied and only its acknowledgement lost. So an error of
  the callback, and a failed statement that it swallows, never leave a trace, whatever the driver
  answers; and either way the data is never anything between the two.
\<close>

theorem transaction_is_atomic:
  assumes "keeps_open fn" "WithinTx env d fn = (d', r)"
  shows "r = Inr () \<and> (\<exists>u. fn (newUnitOfWork d) = (u, Inr ()) \<and> \<not> uow_aborted u \<and> d' = uow_data u) \<or>
    (\<exists>e. r = Inl e) \<and>
      (d' = d \<or> (\<exists>u c. fn (newUnitOfWork d) = (u, Inr ()) \<and> \<not> uow_aborted u \<and> d' = uow_data u \<and>
         env_commit env = Some (True, c)))"
proof (cases r)
  case (Inl e)
  then have "WithinTx env d fn = (d', Inl e)" using assms(2) by simp
  moreover have "lost_commit env \<Longrightarrow> \<exists>c. env_commit env = Some (True, c)"
    by (auto simp: lost_commit_def split: option.splits)
  ultimately show ?thesis using WithinTx_error [OF assms(1)] Inl by blast
next
  case (Inr x)
  then have "WithinTx env d fn = (d', Inr ())" using assms(2) by simp
  from WithinTx_ok [OF assms(1) this] show ?thesis using Inr by auto
qed

text \<open>A failing statement, with its error swallowed, under a driver that applies the commit all the same.\<close>

theorem transaction_is_atomic_witness:
  "(\<exists>e. WithinTx (calm_env\<lparr>env_commit := Some (True, GoErr ''lost connection'' [])\<rparr>) (1::nat)
         (\<lambda>u. (fst (exec_stmt (Some (GoErr ''broken'' [])) u (\<lambda>d. Inr (d + 1, ()))), Inr ())) = (1, Inl e)) \<and>
   fst (WithinTx (calm_env\<lparr>env_commit := Some (True, GoErr ''lost connection'' [])\<rparr>) (1::nat)
         (\<lambda>u. exec_stmt None u (\<lambda>d. Inr (d + 1, ())))) = 2"
proof -
  let ?fn = "\<lambda>u. (fst (exec_stmt (Some (GoErr ''broken'' [])) u (\<lambda>d::nat. Inr (d + 1, ()))), Inr ())"
  let ?env = "calm_env\<lparr>env_commit := Some (True, GoErr ''lost connection'' [])\<rparr>"
  have open_fn: "keeps_open ?fn" by (simp add: keeps_open_def)
  obtain d' r where run: "WithinTx ?env 1 ?fn = (d', r)" by (cases "WithinTx ?env 1 ?fn")
  have "uow_aborted (fst (?fn (newUnitOfWork 1)))" by code_simp
  with transaction_is_atomic [OF open_fn run] run
  have "\<exists>e. WithinTx ?env 1 ?fn = (1, Inl e)" by auto
  moreover have "fst (WithinTx ?env (1::nat) (\<lambda>u. exec_stmt None u (\<lambda>d. Inr (d + 1, ())))) = 2" by code_simp
  ultimately show ?thesis by simp
qed

section \<open>Strict JSON\<close>

text \<open>
  C25: the strict reader accepts a text exactly when its tokens, up to the end of the input, are
  those of one JSON value in which no object repeats a key, at any depth. The fuel of the model is
  enough for every text.
\<close>

theorem strict_json_accepts:
  "RejectDuplicateObjectKeys tokenize raw = Inr () \<longleftrightarrow>
     dec_clean (tokenize raw) \<and> (\<exists>v. unique_keys v \<and> dec_tokens (tokenize raw) = tokens_of v)"
  by (simp add: RejectDuplicateObjectKeys_def rejectDuplicateKeys_ok_iff)

text \<open>
  Two label maps have the same canonical text exactly when they are the same map: the order
  of their entries does not matter and, for UTF-8 texts, no two different maps collide.
\<close>

theorem label_encoding_canonical:
  assumes "wf_smap m" "wf_smap m'" "utf8_smap m" "utf8_smap m'"
  shows "json_map m = json_map m' \<longleftrightarrow> map_of m = map_of m'"
proof -
  have "mset m = mset m' \<longleftrightarrow> set m = set m'"
    using assms(1,2) by (simp add: wf_smap_def distinct_map set_eq_iff_mset_eq_distinct)
  also have "\<dots> \<longleftrightarrow> map_of m = map_of m'"
    using assms(1,2) by (simp add: wf_smap_def map_of_inject_set)
  finally have same: "mset m = mset m' \<longleftrightarrow> map_of m = map_of m'" .
  show ?thesis
    unfolding same [symmetric] using json_map_inj [OF _ assms(3,4)] json_map_perm [OF assms(1)] by blast
qed

theorem label_encoding_canonical_witness:
  "json_map [(''a'', ''1''), (''b'', ''2'')] = json_map [(''b'', ''2''), (''a'', ''1'')] \<and>
   json_map [(''a'', ''1'')] \<noteq> json_map [(''a'', ''2'')]"
proof -
  have "is_ascii ''a''" "is_ascii ''b''" "is_ascii ''1''" "is_ascii ''2''" by code_simp+
  then have utf8: "utf8_smap [(''a'', ''1''), (''b'', ''2'')]" "utf8_smap [(''b'', ''2''), (''a'', ''1'')]"
    "utf8_smap [(''a'', ''1'')]" "utf8_smap [(''a'', ''2'')]"
    by (simp_all add: utf8_smap_def valid_utf8_ascii)
  have wf: "wf_smap [(''a'', ''1''), (''b'', ''2'')]" "wf_smap [(''b'', ''2''), (''a'', ''1'')]"
    "wf_smap [(''a'', ''1'')]" "wf_smap [(''a'', ''2'')]" by (simp_all add: wf_smap_def)
  show ?thesis
    unfolding label_encoding_canonical [OF wf(1,2) utf8(1,2)]
      label_encoding_canonical [OF wf(3,4) utf8(3,4)]
    by (auto simp: fun_eq_iff)
qed

section \<open>Diagnosis tasks\<close>

text \<open>
  C26: whatever sequence of starts and finishes a new task goes through, its status agrees with its
  timestamps and its failure reason, its workflow and evidence never change, and once it has ended
  nothing changes it any more.
\<close>

theorem task_lifecycle:
  assumes "NewDiagnosisTask i w r = Inr t"
  shows "DiagnosisTask_wf (task_run t xs) \<and>
    dt_EvidenceSnapshotID (task_run t xs) = i \<and> dt_WorkflowID (task_run t xs) = w \<and>
    dt_RunID (task_run t xs) = r \<and>
    (DiagnosisStatus_IsTerminal (dt_Status (task_run t xs)) \<longrightarrow>
       task_run t (xs @ ys) = task_run t xs)"
proof -
  have fixed: "dt_EvidenceSnapshotID (task_run t xs) = dt_EvidenceSnapshotID t \<and>
      dt_WorkflowID (task_run t xs) = dt_WorkflowID t \<and> dt_RunID (task_run t xs) = dt_RunID t" for t xs
    by (induction xs arbitrary: t) (auto split: sum.split dest: task_step_identity)
  have append: "task_run t (xs @ ys) = task_run (task_run t xs) ys" for t xs
    by (induction xs arbitrary: t) (auto split: sum.split)
  have "dt_EvidenceSnapshotID t = i" "dt_WorkflowID t = w" "dt_RunID t = r"
    using assms by (auto simp: NewDiagnosisTask_def split: if_splits)
  with fixed append task_run_terminal task_run_wf [OF NewDiagnosisTask_wf [OF assms]]
  show ?thesis by simp
qed

theorem task_lifecycle_witness:
  "\<exists>t. NewDiagnosisTask 3 ''w'' ''r'' = Inr t \<and>
     task_run t ([OpStart 1000, OpFinish DiagnosisStatusFailed 5000 ''timeout''] @ [OpStart 9000]) =
     task_run t [OpStart 1000, OpFinish DiagnosisStatusFailed 5000 ''timeout'']"
proof -
  let ?xs = "[OpStart 1000, OpFinish DiagnosisStatusFailed 5000 ''timeout'']"
  have "case NewDiagnosisTask 3 ''w'' ''r'' of Inl e \<Rightarrow> False
    | Inr t \<Rightarrow> DiagnosisStatus_IsTerminal (dt_Status (task_run t ?xs))" by code_simp
  then obtain t where t: "NewDiagnosisTask 3 ''w'' ''r'' = Inr t"
    "DiagnosisStatus_IsTerminal (dt_Status (task_run t ?xs))" by (auto split: sum.splits)
  with task_lifecycle [OF t(1), of ?xs "[OpStart 9000]"] show ?thesis by blast
qed

section \<open>Chat sessions\<close>

text \<open>
  a chat session that goes through any sequence of turns and closes keeps its invariant, its
  turn count is the number of turns that were accepted, and a closed session changes no more.
\<close>

theorem session_lifecycle:
  assumes "NewChatSession i k ow t ms = Inr s" "int (length xs) \<le> max_int64"
  shows "ChatSession_wf (fst (session_run s xs)) \<and>
    cs_TurnCount (fst (session_run s xs)) = int (snd (session_run s xs)) \<and>
    (cs_Status (fst (session_run s xs)) = ChatSessionStatusClosed \<longrightarrow>
       fst (session_run (fst (session_run s xs)) ys) = fst (session_run s xs))"
proof -
  have "cs_TurnCount s = 0"
    using assms(1) by (auto simp: NewChatSession_def Let_def split: if_splits)
  then show ?thesis
    using session_run_wf [OF NewChatSession_wf [OF assms(1)]] session_run_count [of s xs] assms(2)
      session_run_closed by auto
qed

theorem session_lifecycle_witness:
  "\<exists>s. NewChatSession 7 ''s'' ''alice'' 1000 [] = Inr s \<and>
     cs_TurnCount (fst (session_run s [OpTurn 2000, OpTurn 500, OpClose 3000 ''done'', OpTurn 4000])) = 1"
proof -
  let ?xs = "[OpTurn 2000, OpTurn 500, OpClose 3000 ''done'', OpTurn 4000]"
  have "case NewChatSession 7 ''s'' ''alice'' 1000 [] of Inl e \<Rightarrow> False
    | Inr s \<Rightarrow> snd (session_run s ?xs) = 1" by code_simp
  then obtain s where s: "NewChatSession 7 ''s'' ''alice'' 1000 [] = Inr s"
    "snd (session_run s ?xs) = 1" by (auto split: sum.splits)
  have "int (length ?xs) \<le> max_int64" by (simp add: max_int64_def)
  from session_lifecycle [OF s(1) this] s show ?thesis by auto
qed

text \<open>
  The turn count an accepted summary claims is the number of sequence numbers in the range it
  covers, or everything is zero; no 64-bit wrap-around can fake it.
\<close>

theorem summary_covers_its_range:
  assumes "NewChatSessionSummary tokenize json_object i = Inr s" "int64 (ss_SourceLastSequence i)"
  shows "ss_SourceTurnCount s = int (card {ss_SourceFirstSequence s .. ss_SourceLastSequence s}) \<or>
    ss_SourceTurnCount s = 0 \<and> ss_SourceFirstSequence s = 0 \<and> ss_SourceLastSequence s = 0"
  using assms by (rule NewChatSessionSummary_range)

definition demo_summary :: ChatSessionSummary where
  "demo_summary = \<lparr>ss_ID = 0, ss_SessionID = 9, ss_Version = 1, ss_SchemaVersion = ''v1'',
     ss_SourceFirstSequence = 1, ss_SourceLastSequence = 4, ss_SourceTurnCount = 4,
     ss_SourceDigest = replicate 64 (CHR ''a''), ss_Content = ''{}'', ss_GeneratedAt = 5000,
     ss_CreatedAt = 0\<rparr>"

theorem summary_covers_its_range_witness:
  "\<exists>s. NewChatSessionSummary (\<lambda>_. \<lparr>dec_tokens = [TObjOpen, TObjClose], dec_clean = True\<rparr>)
        (\<lambda>_. True) demo_summary = Inr s \<and>
     ss_SourceTurnCount s = int (card {ss_SourceFirstSequence s .. ss_SourceLastSequence s})"
proof -
  let ?tok = "\<lambda>_::string. \<lparr>dec_tokens = [TObjOpen, TObjClose], dec_clean = True\<rparr>"
  have "case NewChatSessionSummary ?tok (\<lambda>_. True) demo_summary of Inl e \<Rightarrow> False
    | Inr s \<Rightarrow> ss_SourceTurnCount s = 4" by code_simp
  then obtain s where s: "NewChatSessionSummary ?tok (\<lambda>_. True) demo_summary = Inr s"
    "ss_SourceTurnCount s = 4" by (auto split: sum.splits)
  have "int64 (ss_SourceLastSequence demo_summary)" by code_simp
  from summary_covers_its_range [OF s(1) this] s show ?thesis by auto
qed

end
