(* ===== verification/Assistant_Output.thy ===== *)
theory Assistant_Output
  imports Room_Turn
begin

text \<open>
  \<open>internal/usecases/diagnosisroom/output.go\<close>: how the assistant's raw output becomes the typed
  response of a turn. The JSON-schema check and the decoding of the text are the argument
  \<open>decode_output\<close>; everything after it is modelled. The lemmas show that normalising is idempotent,
  which bounds an accepted output meets, that each of its evidence requests passes the checks an
  operator's request has to pass, and that the output a workflow completes with unresolved evidence
  is accepted once more when it is persisted.
\<close>

definition maxEvidenceRequests :: nat where "maxEvidenceRequests = 5"
definition maxToolRequestSuggestions :: nat where "maxToolRequestSuggestions = 10"

definition missing_rationale :: string where
  "missing_rationale = ''The assistant did not provide a confidence rationale; treat this confidence as unverified until a human reviewer checks the evidence.''"

section \<open>Evidence requests\<close>

definition validateEvidenceRequestLimit :: "int \<Rightarrow> int \<Rightarrow> unit result" where
  "validateEvidenceRequestLimit limit maximum =
     (if limit = 0 then Inr ()
      else if limit < 1 \<or> limit > maximum then
        Inl (plain_error ''diagnosis turn output: evidence_requests.limit is out of range'')
      else Inr ())"

definition validateEvidenceRequestRange :: "int \<Rightarrow> int \<Rightarrow> unit result" where
  "validateEvidenceRequestRange windowSeconds stepSeconds =
     (case EvidenceRequestRangeSecondsBounds of (minimum, maximum) \<Rightarrow>
        if windowSeconds < minimum \<or> windowSeconds > maximum then
          Inl (plain_error ''diagnosis turn output: evidence_requests.window_seconds is out of range'')
        else if stepSeconds < minimum \<or> stepSeconds > maximum then
          Inl (plain_error ''diagnosis turn output: evidence_requests.step_seconds is out of range'')
        else if stepSeconds > windowSeconds then
          Inl (plain_error
            ''diagnosis turn output: evidence_requests.step_seconds must not exceed window_seconds'')
        else Inr ())"

definition check_request_tool :: "EvidenceRequest \<Rightarrow> unit result" where
  "check_request_tool req =
     (if er_Tool req = ToolActiveAlerts then
        (if er_Query req \<noteq> [] \<or> er_WindowSeconds req \<noteq> 0 \<or> er_StepSeconds req \<noteq> 0 then
           Inl (plain_error ''diagnosis turn output: active_alerts takes no query or range'')
         else validateEvidenceRequestLimit (er_Limit req) 10)
      else if er_Tool req = ToolMetricQuery then
        (if er_TemplateID req = 0 \<and> er_Query req = [] then
           Inl (plain_error ''diagnosis turn output: metric_query requires query or template_id'')
         else if er_WindowSeconds req \<noteq> 0 \<or> er_StepSeconds req \<noteq> 0 then
           Inl (plain_error ''diagnosis turn output: metric_query takes no range'')
         else validateEvidenceRequestLimit (er_Limit req) 20)
      else if er_Tool req = ToolMetricRangeQuery then
        (if er_TemplateID req = 0 \<and> er_Query req = [] then
           Inl (plain_error ''diagnosis turn output: metric_range_query requires query or template_id'')
         else if er_TemplateID req = 0 \<and> (er_WindowSeconds req = 0 \<or> er_StepSeconds req = 0) then
           Inl (plain_error ''diagnosis turn output: metric_range_query requires a range'')
         else bindE (if er_WindowSeconds req \<noteq> 0 \<or> er_StepSeconds req \<noteq> 0
                     then validateEvidenceRequestRange (er_WindowSeconds req) (er_StepSeconds req)
                     else Inr ())
                (\<lambda>_. validateEvidenceRequestLimit (er_Limit req) 20))
      else Inr ())"

definition normalizeEvidenceRequest :: "EvidenceRequest \<Rightarrow> EvidenceRequest result" where
  "normalizeEvidenceRequest req =
     (let req = req\<lparr>er_Reason := TrimSpace (er_Reason req), er_Query := TrimSpace (er_Query req)\<rparr> in
      if er_TemplateID req < 0 then
        Inl (plain_error ''diagnosis turn output: evidence_requests.template_id must be positive when set'')
      else if er_AlertSourceProfileID req < 0 then
        Inl (plain_error
          ''diagnosis turn output: evidence_requests.alert_source_profile_id must be positive when set'')
      else if \<not> DiagnosisToolKind_Valid (er_Tool req) then
        Inl (plain_error ''diagnosis turn output: evidence_requests.tool is unsupported'')
      else if er_Reason req = [] then
        Inl (plain_error ''diagnosis turn output: evidence_requests.reason must be non-empty after trimming'')
      else if length (er_Reason req) > EvidenceRequestReasonBytesMaximum then
        Inl (plain_error ''diagnosis turn output: evidence_requests.reason is too long'')
      else if contains_control (er_Reason req) then
        Inl (plain_error ''diagnosis turn output: evidence_requests.reason must be single-line'')
      else if er_Query req \<noteq> [] \<and> length (er_Query req) > EvidenceRequestQueryBytesMaximum then
        Inl (plain_error ''diagnosis turn output: evidence_requests.query is too long'')
      else if er_Query req \<noteq> [] \<and> contains_control (er_Query req) then
        Inl (plain_error ''diagnosis turn output: evidence_requests.query must be single-line'')
      else bindE (check_request_tool req) (\<lambda>_. Inr req))"

fun map_result :: "('a \<Rightarrow> 'b result) \<Rightarrow> 'a list \<Rightarrow> 'b list result" where
  "map_result f [] = Inr []"
| "map_result f (x # xs) = bindE (f x) (\<lambda>y. bindE (map_result f xs) (\<lambda>ys. Inr (y # ys)))"

definition normalizeEvidenceRequests :: "EvidenceRequest list \<Rightarrow> EvidenceRequest list result" where
  "normalizeEvidenceRequests reqs =
     (if length reqs > maxEvidenceRequests then
        Inl (plain_error ''diagnosis turn output: evidence_requests exceeds its maximum'')
      else map_result normalizeEvidenceRequest reqs)"

section \<open>Consultation requests\<close>

definition priority_supported :: "string \<Rightarrow> bool" where
  "priority_supported p \<longleftrightarrow> p \<in> {''low'', ''medium'', ''high''}"

definition normalizeConsultationEvidenceRequest ::
  "string \<Rightarrow> ConsultationEvidenceRequest \<Rightarrow> ConsultationEvidenceRequest result" where
  "normalizeConsultationEvidenceRequest field req =
     (let normalized = \<lparr>cr_Label = TrimSpace (cr_Label req), cr_Detail = TrimSpace (cr_Detail req),
                        cr_Priority = TrimSpace (cr_Priority req)\<rparr> in
      if cr_Label normalized = [] then
        Inl (plain_error (''diagnosis turn output: '' @ field @ '': label must be non-empty after trimming''))
      else if cr_Detail normalized = [] then
        Inl (plain_error (''diagnosis turn output: '' @ field @ '': detail must be non-empty after trimming''))
      else if \<not> priority_supported (cr_Priority normalized) then
        Inl (plain_error (''diagnosis turn output: '' @ field @ '': priority is unsupported''))
      else Inr normalized)"

definition normalizeConsultationEvidenceRequests ::
  "string \<Rightarrow> ConsultationEvidenceRequest list \<Rightarrow> ConsultationEvidenceRequest list result" where
  "normalizeConsultationEvidenceRequests field reqs =
     (if length reqs > maxConsultationEvidenceRequests then
        Inl (plain_error (''diagnosis turn output: '' @ field @ '' exceeds its maximum''))
      else map_result (normalizeConsultationEvidenceRequest field) reqs)"

section \<open>Tool suggestions\<close>

definition incompleteToolRequestSuggestion :: "ToolRequestSuggestion \<Rightarrow> bool" where
  "incompleteToolRequestSuggestion s \<longleftrightarrow>
     TrimSpace (ts_Label s) = [] \<or> TrimSpace (ts_Detail s) = [] \<or> TrimSpace (ts_Priority s) = []"

definition trimmed_suggestion :: "ToolRequestSuggestion \<Rightarrow> ToolRequestSuggestion" where
  "trimmed_suggestion s =
     s\<lparr>ts_Label := TrimSpace (ts_Label s), ts_Detail := TrimSpace (ts_Detail s),
       ts_Priority := TrimSpace (ts_Priority s), ts_Query := TrimSpace (ts_Query s),
       ts_Tool := TrimSpace (ts_Tool s)\<rparr>"

text \<open>A suggestion to list active alerts keeps no query and no window.\<close>

definition plain_alert_suggestion :: "ToolRequestSuggestion \<Rightarrow> ToolRequestSuggestion" where
  "plain_alert_suggestion s =
     (if ts_Tool s = ToolActiveAlerts
      then s\<lparr>ts_Query := [], ts_WindowSeconds := 0, ts_WindowMinutes := 0, ts_StepSeconds := 0\<rparr>
      else s)"

definition normalizeToolRequestSuggestion :: "ToolRequestSuggestion \<Rightarrow> ToolRequestSuggestion result" where
  "normalizeToolRequestSuggestion s =
     (let s = trimmed_suggestion s in
      if ts_Label s = [] then
        Inl (plain_error ''diagnosis turn output: tool_request_suggestions.label must be non-empty'')
      else if ts_Detail s = [] then
        Inl (plain_error ''diagnosis turn output: tool_request_suggestions.detail must be non-empty'')
      else if \<not> priority_supported (ts_Priority s) then
        Inl (plain_error ''diagnosis turn output: tool_request_suggestions.priority is unsupported'')
      else if ts_TemplateID s < 0 then
        Inl (plain_error ''diagnosis turn output: tool_request_suggestions.template_id must be positive'')
      else if ts_AlertSourceProfileID s < 0 then
        Inl (plain_error
          ''diagnosis turn output: tool_request_suggestions.alert_source_profile_id must be positive'')
      else if ts_Tool s \<noteq> [] \<and> \<not> DiagnosisToolKind_Valid (ts_Tool s) then
        Inl (plain_error ''diagnosis turn output: tool_request_suggestions.tool is unsupported'')
      else let s = plain_alert_suggestion s in
      if ts_Query s \<noteq> [] \<and> length (ts_Query s) > EvidenceRequestQueryBytesMaximum then
        Inl (plain_error ''diagnosis turn output: tool_request_suggestions.query is too long'')
      else if ts_Query s \<noteq> [] \<and> contains_control (ts_Query s) then
        Inl (plain_error ''diagnosis turn output: tool_request_suggestions.query must be single-line'')
      else if ts_WindowSeconds s > 0 \<and> ts_WindowMinutes s > 0 then
        Inl (plain_error ''diagnosis turn output: tool_request_suggestions has two windows'')
      else if ts_WindowMinutes s > 0 then
        Inr (s\<lparr>ts_WindowSeconds := wrap64 (ts_WindowMinutes s * 60), ts_WindowMinutes := 0\<rparr>)
      else Inr s)"

definition executableEvidenceRequestFromToolSuggestion :: "ToolRequestSuggestion \<Rightarrow> EvidenceRequest option" where
  "executableEvidenceRequestFromToolSuggestion s =
     (if ts_Tool s = [] then None
      else case normalizeEvidenceRequest
             \<lparr>er_TemplateID = ts_TemplateID s, er_AlertSourceProfileID = ts_AlertSourceProfileID s,
              er_Tool = ts_Tool s, er_Reason = ts_Detail s, er_Query = ts_Query s,
              er_WindowSeconds = ts_WindowSeconds s, er_StepSeconds = ts_StepSeconds s,
              er_Limit = ts_Limit s\<rparr> of
        Inl e \<Rightarrow> None
      | Inr req \<Rightarrow> Some req)"

fun project_suggestions ::
  "ToolRequestSuggestion list \<Rightarrow> (ConsultationEvidenceRequest list \<times> EvidenceRequest list) result" where
  "project_suggestions [] = Inr ([], [])"
| "project_suggestions (s # ss) =
     (if incompleteToolRequestSuggestion s then project_suggestions ss
      else bindE (normalizeToolRequestSuggestion s) (\<lambda>n.
        bindE (project_suggestions ss) (\<lambda>(consultation, executable).
        Inr (case executableEvidenceRequestFromToolSuggestion n of
               Some req \<Rightarrow> (consultation, req # executable)
             | None \<Rightarrow> (\<lparr>cr_Label = ts_Label n, cr_Detail = ts_Detail n, cr_Priority = ts_Priority n\<rparr>
                          # consultation, executable)))))"

definition normalizeToolRequestSuggestions ::
  "ToolRequestSuggestion list \<Rightarrow> (ConsultationEvidenceRequest list \<times> EvidenceRequest list) result" where
  "normalizeToolRequestSuggestions ss =
     (if length ss > maxToolRequestSuggestions then
        Inl (plain_error ''diagnosis turn output: tool_request_suggestions exceeds its maximum'')
      else project_suggestions ss)"

section \<open>The output\<close>

definition turnOutputNeedsConfidenceRationale :: "TurnOutput \<Rightarrow> bool" where
  "turnOutputNeedsConfidenceRationale out \<longleftrightarrow> to_Confidence out \<noteq> ''high'' \<or> to_RequiresHumanReview out"

definition validateConsultationInsightCompleteness :: "TurnOutput \<Rightarrow> unit result" where
  "validateConsultationInsightCompleteness out =
     (if (to_Confidence out = ''low'' \<or> to_ConclusionStatus out = ''needs_evidence'')
         \<and> to_EvidenceRequests out = [] \<and> to_MissingEvidenceRequests out = []
         \<and> to_EvidenceCollectionSuggestions out = [] then
        Inl (plain_error
          ''diagnosis turn output: low-confidence or evidence-seeking output must include requests'')
      else Inr ())"

definition trimmed_output :: "TurnOutput \<Rightarrow> TurnOutput" where
  "trimmed_output out =
     out\<lparr>to_Message := TrimSpace (to_Message out), to_Findings := map TrimSpace (to_Findings out),
       to_RecommendedActions := map TrimSpace (to_RecommendedActions out)\<rparr>"

text \<open>The output with its normalised requests; executable suggestions fill up to the maximum.\<close>

definition completed_output ::
  "TurnOutput \<Rightarrow> EvidenceRequest list \<Rightarrow> EvidenceRequest list \<Rightarrow> ConsultationEvidenceRequest list
   \<Rightarrow> ConsultationEvidenceRequest list \<Rightarrow> TurnOutput" where
  "completed_output out requests executable missing suggestions =
     (let out = out\<lparr>to_ToolRequestSuggestions := [],
            to_EvidenceRequests := requests @ take (maxEvidenceRequests - length requests) executable,
            to_Confidence := TrimSpace (to_Confidence out),
            to_ConfidenceRationale := TrimSpace (to_ConfidenceRationale out)\<rparr>;
          out = (if to_ConfidenceRationale out = [] \<and> turnOutputNeedsConfidenceRationale out
            then out\<lparr>to_ConfidenceRationale := missing_rationale\<rparr> else out)
      in out\<lparr>to_MissingEvidenceRequests := missing, to_EvidenceCollectionSuggestions := suggestions,
           to_ConclusionStatus := TrimSpace (to_ConclusionStatus out)\<rparr>)"

definition normalizeTurnOutput :: "TurnOutput \<Rightarrow> TurnOutput result" where
  "normalizeTurnOutput out =
     (let out = trimmed_output out in
      if to_Message out = [] then
        Inl (plain_error ''diagnosis turn output: message must be non-empty after trimming'')
      else if [] \<in> set (to_Findings out) then
        Inl (plain_error ''diagnosis turn output: findings must be non-empty after trimming'')
      else if [] \<in> set (to_RecommendedActions out) then
        Inl (plain_error ''diagnosis turn output: recommended_actions must be non-empty after trimming'')
      else bindE (normalizeEvidenceRequests (to_EvidenceRequests out)) (\<lambda>requests.
      bindE (normalizeToolRequestSuggestions (to_ToolRequestSuggestions out)) (\<lambda>(suggested, executable).
      bindE (normalizeConsultationEvidenceRequests ''missing_evidence_requests''
               (to_MissingEvidenceRequests out)) (\<lambda>missing.
      bindE (normalizeConsultationEvidenceRequests ''evidence_collection_suggestions''
               (to_EvidenceCollectionSuggestions out)) (\<lambda>suggestions.
      if suggested \<noteq> [] \<and> length suggestions + length suggested > maxConsultationEvidenceRequests then
        Inl (plain_error
          ''diagnosis turn output: evidence_collection_suggestions plus tool_request_suggestions'')
      else let out = completed_output out requests executable missing (suggestions @ suggested)
      in bindE (validateConsultationInsightCompleteness out) (\<lambda>_. Inr out))))))"

definition ParseTurnOutput ::
  "(string \<Rightarrow> decoder) \<Rightarrow> (string \<Rightarrow> TurnOutput result) \<Rightarrow> string \<Rightarrow> TurnOutput result" where
  "ParseTurnOutput tokenize decode_output raw =
     (if raw = [] then
        Inl (plain_error ''diagnosis turn output: raw output must be non-empty JSON'')
      else case RejectDuplicateObjectKeys tokenize raw of
        Inl e \<Rightarrow> Inl (wrap_error ''diagnosis turn output: output must be strict JSON'' e)
      | Inr _ \<Rightarrow> bindE (decode_output raw) normalizeTurnOutput)"

section \<open>Normal forms\<close>

lemma map_result_Inr: "map_result f xs = Inr ys \<longleftrightarrow> list_all2 (\<lambda>x y. f x = Inr y) xs ys"
  by (induction xs arbitrary: ys) (auto simp: bindE_eq_Inr_iff list_all2_Cons1)

lemma map_result_fix: "(\<forall>x \<in> set xs. f x = Inr x) \<Longrightarrow> map_result f xs = Inr xs"
  by (simp add: map_result_Inr list_all2_same)

text \<open>A list whose elements a normaliser maps to fixed points of it.\<close>

lemma map_result_all:
  assumes "map_result f xs = Inr ys" "\<And>x y. f x = Inr y \<Longrightarrow> P y"
  shows "(\<forall>y \<in> set ys. P y) \<and> length ys = length xs"
  using assms(1) unfolding map_result_Inr
  by (auto dest: list_all2_in2 list_all2_lengthD intro: assms(2))

definition request_normal :: "EvidenceRequest \<Rightarrow> bool" where
  "request_normal r \<longleftrightarrow> normalizeEvidenceRequest r = Inr r"

lemma normalizeEvidenceRequest_normal:
  assumes "normalizeEvidenceRequest r = Inr r'"
  shows "request_normal r' \<and> trimmed (er_Reason r') \<and> trimmed (er_Query r')"
proof -
  have r': "r' = r\<lparr>er_Reason := TrimSpace (er_Reason r), er_Query := TrimSpace (er_Query r)\<rparr>"
    using assms by (auto simp: normalizeEvidenceRequest_def Let_def bindE_eq_Inr_iff split: if_splits)
  have "normalizeEvidenceRequest r' = normalizeEvidenceRequest r"
    by (simp add: r' normalizeEvidenceRequest_def)
  with assms r' show ?thesis by (simp add: request_normal_def)
qed

text \<open>Every request of an accepted output passes the checks of an operator's collection.\<close>

lemma validateEvidenceRequestLimit_Inr [simp]:
  "validateEvidenceRequestLimit l m = Inr () \<longleftrightarrow> l = 0 \<or> 1 \<le> l \<and> l \<le> m"
  by (auto simp: validateEvidenceRequestLimit_def)

lemma validateEvidenceRequestRange_Inr:
  "validateEvidenceRequestRange w s = Inr () \<longleftrightarrow> validateManualEvidenceRange w s = Inr ()"
  by (auto simp: validateEvidenceRequestRange_def validateManualEvidenceRange_def
      EvidenceRequestRangeSecondsBounds_def)

lemma request_normal_facts:
  assumes "request_normal r"
  shows "0 \<le> er_TemplateID r" "0 \<le> er_AlertSourceProfileID r" "DiagnosisToolKind_Valid (er_Tool r)"
    "trimmed (er_Reason r)" "er_Reason r \<noteq> []" "length (er_Reason r) \<le> EvidenceRequestReasonBytesMaximum"
    "\<not> contains_control (er_Reason r)" "trimmed (er_Query r)"
    "length (er_Query r) \<le> EvidenceRequestQueryBytesMaximum" "\<not> contains_control (er_Query r)"
    "check_request_tool r = Inr ()"
proof -
  have t: "trimmed (er_Reason r)" "trimmed (er_Query r)"
    using normalizeEvidenceRequest_normal [OF assms [unfolded request_normal_def]] by auto
  then have n: "r\<lparr>er_Reason := TrimSpace (er_Reason r), er_Query := TrimSpace (er_Query r)\<rparr> = r" by simp
  show "trimmed (er_Reason r)" "trimmed (er_Query r)" by (rule t)+
  show "0 \<le> er_TemplateID r" "0 \<le> er_AlertSourceProfileID r" "DiagnosisToolKind_Valid (er_Tool r)"
    "er_Reason r \<noteq> []" "length (er_Reason r) \<le> EvidenceRequestReasonBytesMaximum"
    "\<not> contains_control (er_Reason r)" "length (er_Query r) \<le> EvidenceRequestQueryBytesMaximum"
    "\<not> contains_control (er_Query r)" "check_request_tool r = Inr ()"
    using assms unfolding request_normal_def normalizeEvidenceRequest_def Let_def n
    by (auto simp: bindE_eq_Inr_iff split: if_splits)
qed

lemma manual_limit:
  "validateManualEvidenceLimit r = Inr () \<longleftrightarrow>
     er_Limit r = 0 \<or> (case EvidenceRequestLimitMaximum (er_Tool r) of None \<Rightarrow> True | Some m \<Rightarrow> er_Limit r \<le> m)"
  by (auto simp: validateManualEvidenceLimit_def split: option.splits)

lemma request_normal_manual:
  assumes "request_normal r"
  shows "validateManualEvidenceRequest r = Inr ()"
proof -
  note f = request_normal_facts [OF assms]
  have tools: "ToolActiveAlerts \<noteq> ToolMetricQuery" "ToolActiveAlerts \<noteq> ToolMetricRangeQuery"
    "ToolMetricQuery \<noteq> ToolMetricRangeQuery" by simp_all
  have ok: "(er_Limit r = 0 \<or> 1 \<le> er_Limit r) \<and> validateManualEvidenceLimit r = Inr () \<and>
     (if er_Tool r = ToolActiveAlerts then er_Query r = [] \<and> er_WindowSeconds r = 0 \<and> er_StepSeconds r = 0
      else if er_Tool r = ToolMetricQuery then (er_TemplateID r \<noteq> 0 \<or> er_Query r \<noteq> []) \<and>
        er_WindowSeconds r = 0 \<and> er_StepSeconds r = 0
      else er_Tool r = ToolMetricRangeQuery \<and> (er_TemplateID r \<noteq> 0 \<or> er_Query r \<noteq> []) \<and>
        (er_TemplateID r = 0 \<longrightarrow> 0 < er_WindowSeconds r \<and> 0 < er_StepSeconds r) \<and>
        (er_WindowSeconds r \<noteq> 0 \<or> er_StepSeconds r \<noteq> 0 \<longrightarrow>
           validateManualEvidenceRange (er_WindowSeconds r) (er_StepSeconds r) = Inr ()))"
  proof -
    consider "er_Tool r = ToolActiveAlerts" | "er_Tool r = ToolMetricQuery" | "er_Tool r = ToolMetricRangeQuery"
      using f(3) by (auto simp: DiagnosisToolKind_Valid_def)
    then show ?thesis
    proof cases
      case 3
      with f(11) tools show ?thesis
        by (auto simp: check_request_tool_def bindE_eq_Inr_iff manual_limit EvidenceRequestLimitMaximum_def
            validateEvidenceRequestRange_Inr validateManualEvidenceRange_def
            EvidenceRequestRangeSecondsBounds_def split: if_splits)
    qed (use f(11) tools in \<open>auto simp: check_request_tool_def manual_limit
        EvidenceRequestLimitMaximum_def split: if_splits\<close>)
  qed
  have "\<not> er_Limit r < 0" using ok by auto
  with f ok tools show ?thesis
    by (simp add: validateManualEvidenceRequest_def EvidenceRequestTextHasControlRune_def split: if_splits) auto
qed

definition consult_normal :: "ConsultationEvidenceRequest \<Rightarrow> bool" where
  "consult_normal r \<longleftrightarrow> trimmed (cr_Label r) \<and> cr_Label r \<noteq> [] \<and> trimmed (cr_Detail r) \<and>
     cr_Detail r \<noteq> [] \<and> priority_supported (cr_Priority r)"

lemma priority_trimmed: "priority_supported p \<Longrightarrow> trimmed p"
  by (rule trimmed_printable) (auto simp: printable_byte_code priority_supported_def)

lemma normalizeConsultation_normal:
  "normalizeConsultationEvidenceRequest field r = Inr r' \<Longrightarrow> consult_normal r'"
  by (auto simp: normalizeConsultationEvidenceRequest_def Let_def consult_normal_def split: if_splits)

lemma consult_normal_fix:
  assumes "consult_normal r"
  shows "normalizeConsultationEvidenceRequest field r = Inr r"
  using assms priority_trimmed [of "cr_Priority r"]
  by (auto simp: normalizeConsultationEvidenceRequest_def consult_normal_def)

lemma normalizeToolRequestSuggestion_consult:
  assumes "normalizeToolRequestSuggestion s = Inr n"
  shows "consult_normal \<lparr>cr_Label = ts_Label n, cr_Detail = ts_Detail n, cr_Priority = ts_Priority n\<rparr>"
proof -
  let ?t = "trimmed_suggestion s"
  have p: "ts_Label (plain_alert_suggestion ?t) = TrimSpace (ts_Label s)"
    "ts_Detail (plain_alert_suggestion ?t) = TrimSpace (ts_Detail s)"
    "ts_Priority (plain_alert_suggestion ?t) = TrimSpace (ts_Priority s)"
    by (simp_all add: plain_alert_suggestion_def trimmed_suggestion_def)
  have t: "ts_Label ?t \<noteq> []" "ts_Detail ?t \<noteq> []" "priority_supported (ts_Priority ?t)"
    "\<exists>w m. n = plain_alert_suggestion ?t \<or>
       n = (plain_alert_suggestion ?t)\<lparr>ts_WindowSeconds := w, ts_WindowMinutes := m\<rparr>"
    using assms unfolding normalizeToolRequestSuggestion_def Let_def
    by (auto split: if_splits)
  then have "ts_Label n = TrimSpace (ts_Label s)" "ts_Detail n = TrimSpace (ts_Detail s)"
    "ts_Priority n = TrimSpace (ts_Priority s)"
    using p by auto
  with t(1-3) show ?thesis by (simp add: consult_normal_def trimmed_suggestion_def)
qed

lemma executable_normal:
  "executableEvidenceRequestFromToolSuggestion s = Some r \<Longrightarrow> request_normal r"
  by (auto simp: executableEvidenceRequestFromToolSuggestion_def split: if_splits sum.splits
      dest: normalizeEvidenceRequest_normal)

lemma project_suggestions_normal:
  "project_suggestions ss = Inr (c, x) \<Longrightarrow> (\<forall>r \<in> set c. consult_normal r) \<and> (\<forall>r \<in> set x. request_normal r)"
proof (induction ss arbitrary: c x)
  case (Cons s ss)
  show ?case
  proof (cases "incompleteToolRequestSuggestion s")
    case True
    with Cons show ?thesis by simp
  next
    case False
    with Cons.prems obtain n c' x' where n: "normalizeToolRequestSuggestion s = Inr n"
      and p: "project_suggestions ss = Inr (c', x')"
      and e: "(c, x) = (case executableEvidenceRequestFromToolSuggestion n of
               Some req \<Rightarrow> (c', req # x')
             | None \<Rightarrow> (\<lparr>cr_Label = ts_Label n, cr_Detail = ts_Detail n, cr_Priority = ts_Priority n\<rparr> # c', x'))"
      by (auto simp: bindE_eq_Inr_iff)
    from Cons.IH [OF p] e normalizeToolRequestSuggestion_consult [OF n] executable_normal [of n]
    show ?thesis by (auto split: option.splits)
  qed
qed simp

section \<open>Accepted outputs\<close>

definition output_normal :: "TurnOutput \<Rightarrow> bool" where
  "output_normal out \<longleftrightarrow>
     trimmed (to_Message out) \<and> to_Message out \<noteq> [] \<and>
     (\<forall>x \<in> set (to_Findings out). trimmed x \<and> x \<noteq> []) \<and>
     (\<forall>x \<in> set (to_RecommendedActions out). trimmed x \<and> x \<noteq> []) \<and>
     to_ToolRequestSuggestions out = [] \<and>
     length (to_EvidenceRequests out) \<le> maxEvidenceRequests \<and>
     (\<forall>r \<in> set (to_EvidenceRequests out). request_normal r) \<and>
     trimmed (to_Confidence out) \<and> trimmed (to_ConfidenceRationale out) \<and>
     (to_ConfidenceRationale out = [] \<longrightarrow> \<not> turnOutputNeedsConfidenceRationale out) \<and>
     length (to_MissingEvidenceRequests out) \<le> maxConsultationEvidenceRequests \<and>
     (\<forall>r \<in> set (to_MissingEvidenceRequests out). consult_normal r) \<and>
     length (to_EvidenceCollectionSuggestions out) \<le> maxConsultationEvidenceRequests \<and>
     (\<forall>r \<in> set (to_EvidenceCollectionSuggestions out). consult_normal r) \<and>
     trimmed (to_ConclusionStatus out) \<and>
     validateConsultationInsightCompleteness out = Inr ()"

lemma missing_rationale_facts: "trimmed missing_rationale" "missing_rationale \<noteq> []"
  unfolding missing_rationale_def by (rule trimmed_printable) (simp_all add: printable_byte_code)

lemma output_normalD:
  assumes "output_normal out"
  shows "trimmed (to_Message out)" "to_Message out \<noteq> []"
    "\<forall>x \<in> set (to_Findings out). trimmed x \<and> x \<noteq> []"
    "\<forall>x \<in> set (to_RecommendedActions out). trimmed x \<and> x \<noteq> []"
    "to_ToolRequestSuggestions out = []" "length (to_EvidenceRequests out) \<le> maxEvidenceRequests"
    "\<forall>r \<in> set (to_EvidenceRequests out). request_normal r"
    "trimmed (to_Confidence out)" "trimmed (to_ConfidenceRationale out)"
    "to_ConfidenceRationale out = [] \<Longrightarrow> \<not> turnOutputNeedsConfidenceRationale out"
    "length (to_MissingEvidenceRequests out) \<le> maxConsultationEvidenceRequests"
    "\<forall>r \<in> set (to_MissingEvidenceRequests out). consult_normal r"
    "length (to_EvidenceCollectionSuggestions out) \<le> maxConsultationEvidenceRequests"
    "\<forall>r \<in> set (to_EvidenceCollectionSuggestions out). consult_normal r"
    "trimmed (to_ConclusionStatus out)" "validateConsultationInsightCompleteness out = Inr ()"
  using assms unfolding output_normal_def by blast+

lemma normalizeEvidenceRequests_Inr:
  assumes "normalizeEvidenceRequests rs = Inr rs'"
  shows "length rs' \<le> maxEvidenceRequests" "\<forall>r \<in> set rs'. request_normal r"
  using map_result_all [of normalizeEvidenceRequest rs rs' request_normal] assms
    normalizeEvidenceRequest_normal
  by (auto simp: normalizeEvidenceRequests_def split: if_splits)

lemma normalizeConsultationEvidenceRequests_Inr:
  assumes "normalizeConsultationEvidenceRequests field rs = Inr rs'"
  shows "length rs' \<le> maxConsultationEvidenceRequests" "\<forall>r \<in> set rs'. consult_normal r"
  using map_result_all [of "normalizeConsultationEvidenceRequest field" rs rs' consult_normal] assms
    normalizeConsultation_normal
  by (auto simp: normalizeConsultationEvidenceRequests_def split: if_splits)

lemma normalizeTurnOutput_Inr:
  assumes "normalizeTurnOutput out = Inr out'"
  obtains rs sg ex ms es where
    "to_Message (trimmed_output out) \<noteq> []" "[] \<notin> set (to_Findings (trimmed_output out))"
    "[] \<notin> set (to_RecommendedActions (trimmed_output out))"
    "normalizeEvidenceRequests (to_EvidenceRequests (trimmed_output out)) = Inr rs"
    "normalizeToolRequestSuggestions (to_ToolRequestSuggestions (trimmed_output out)) = Inr (sg, ex)"
    "normalizeConsultationEvidenceRequests ''missing_evidence_requests''
       (to_MissingEvidenceRequests (trimmed_output out)) = Inr ms"
    "normalizeConsultationEvidenceRequests ''evidence_collection_suggestions''
       (to_EvidenceCollectionSuggestions (trimmed_output out)) = Inr es"
    "sg = [] \<or> length es + length sg \<le> maxConsultationEvidenceRequests"
    "out' = completed_output (trimmed_output out) rs ex ms (es @ sg)"
    "validateConsultationInsightCompleteness out' = Inr ()"
  using assms unfolding normalizeTurnOutput_def Let_def
  by (simp add: bindE_eq_Inr_iff split_beta not_less del: append_eq_conv_conj split: if_splits) blast

lemma completed_output_fields:
  "to_Message (completed_output out rs ex ms es) = to_Message out"
  "to_Findings (completed_output out rs ex ms es) = to_Findings out"
  "to_RecommendedActions (completed_output out rs ex ms es) = to_RecommendedActions out"
  "to_ToolRequestSuggestions (completed_output out rs ex ms es) = []"
  "to_EvidenceRequests (completed_output out rs ex ms es) = rs @ take (maxEvidenceRequests - length rs) ex"
  "trimmed (to_Confidence (completed_output out rs ex ms es))"
  "trimmed (to_ConfidenceRationale (completed_output out rs ex ms es))"
  "to_ConfidenceRationale (completed_output out rs ex ms es) = [] \<longrightarrow>
     \<not> turnOutputNeedsConfidenceRationale (completed_output out rs ex ms es)"
  "to_MissingEvidenceRequests (completed_output out rs ex ms es) = ms"
  "to_EvidenceCollectionSuggestions (completed_output out rs ex ms es) = es"
  "trimmed (to_ConclusionStatus (completed_output out rs ex ms es))"
  using missing_rationale_facts
  by (simp_all add: completed_output_def Let_def turnOutputNeedsConfidenceRationale_def)

lemma normalizeTurnOutput_normal:
  assumes "normalizeTurnOutput out = Inr out'"
  shows "output_normal out'"
  using assms
proof (rule normalizeTurnOutput_Inr)
  fix rs sg ex ms es
  assume t: "to_Message (trimmed_output out) \<noteq> []" "[] \<notin> set (to_Findings (trimmed_output out))"
    "[] \<notin> set (to_RecommendedActions (trimmed_output out))"
    and rs: "normalizeEvidenceRequests (to_EvidenceRequests (trimmed_output out)) = Inr rs"
    and sg: "normalizeToolRequestSuggestions (to_ToolRequestSuggestions (trimmed_output out)) = Inr (sg, ex)"
    and ms: "normalizeConsultationEvidenceRequests ''missing_evidence_requests''
               (to_MissingEvidenceRequests (trimmed_output out)) = Inr ms"
    and es: "normalizeConsultationEvidenceRequests ''evidence_collection_suggestions''
               (to_EvidenceCollectionSuggestions (trimmed_output out)) = Inr es"
    and len: "sg = [] \<or> length es + length sg \<le> maxConsultationEvidenceRequests"
    and out': "out' = completed_output (trimmed_output out) rs ex ms (es @ sg)"
    and complete: "validateConsultationInsightCompleteness out' = Inr ()"
  have sg': "\<forall>r \<in> set sg. consult_normal r" "\<forall>r \<in> set ex. request_normal r"
    using sg project_suggestions_normal [of _ sg ex]
    by (auto simp: normalizeToolRequestSuggestions_def)
  note rs' = normalizeEvidenceRequests_Inr [OF rs] and ms' = normalizeConsultationEvidenceRequests_Inr [OF ms]
    and es' = normalizeConsultationEvidenceRequests_Inr [OF es]
  have "\<forall>r \<in> set (to_EvidenceRequests out'). request_normal r"
    "length (to_EvidenceRequests out') \<le> maxEvidenceRequests"
    using rs' sg'(2) by (auto simp: out' completed_output_fields dest: in_set_takeD)
  moreover have "length (to_EvidenceCollectionSuggestions out') \<le> maxConsultationEvidenceRequests"
    "\<forall>r \<in> set (to_EvidenceCollectionSuggestions out'). consult_normal r"
    using es' len sg'(1) by (auto simp: out' completed_output_fields)
  moreover have "trimmed (to_Message out')" "to_Message out' \<noteq> []"
    "\<forall>x \<in> set (to_Findings out'). trimmed x \<and> x \<noteq> []"
    "\<forall>x \<in> set (to_RecommendedActions out'). trimmed x \<and> x \<noteq> []"
    using t by (force simp: out' completed_output_fields trimmed_output_def)+
  ultimately show "output_normal out'"
    using completed_output_fields [of "trimmed_output out" rs ex ms "es @ sg", folded out'] ms' complete
    by (simp add: output_normal_def)
qed

lemma output_normal_fix:
  assumes "output_normal out"
  shows "normalizeTurnOutput out = Inr out"
proof -
  note n = output_normalD [OF assms]
  have "map TrimSpace xs = xs" if "\<forall>x \<in> set xs. trimmed x \<and> x \<noteq> []" for xs
    using that by (simp add: map_idI)
  with n have t: "trimmed_output out = out" by (simp add: trimmed_output_def)
  have "\<forall>r \<in> set (to_EvidenceRequests out). normalizeEvidenceRequest r = Inr r"
    using n(7) by (simp add: request_normal_def)
  then have rs: "normalizeEvidenceRequests (to_EvidenceRequests out) = Inr (to_EvidenceRequests out)"
    using n(6) by (simp add: normalizeEvidenceRequests_def map_result_fix)
  have cs: "normalizeConsultationEvidenceRequests f xs = Inr xs"
    if "\<forall>r \<in> set xs. consult_normal r" "length xs \<le> maxConsultationEvidenceRequests" for f xs
    using that by (simp add: normalizeConsultationEvidenceRequests_def map_result_fix consult_normal_fix)
  have c: "completed_output out (to_EvidenceRequests out) [] (to_MissingEvidenceRequests out)
      (to_EvidenceCollectionSuggestions out) = out"
  proof -
    have "\<not> (to_ConfidenceRationale out = [] \<and>
        turnOutputNeedsConfidenceRationale (out\<lparr>to_ToolRequestSuggestions := []\<rparr>))"
      using n(10) by (auto simp: turnOutputNeedsConfidenceRationale_def)
    with n show ?thesis by (simp add: completed_output_def Let_def) blast
  qed
  have "normalizeToolRequestSuggestions [] = Inr ([], [])"
    by (simp add: normalizeToolRequestSuggestions_def)
  moreover have "[] \<notin> set (to_Findings out)" "[] \<notin> set (to_RecommendedActions out)"
    using n(3,4) by auto
  ultimately show ?thesis
    using t rs cs [OF n(12,11)] cs [OF n(14,13)] c n(2,5,16) by (simp add: normalizeTurnOutput_def)
qed

section \<open>Outputs completed with unresolved evidence\<close>

lemma merged_missing_fold_set:
  "set (fst (foldl (\<lambda>acc entry. merge_missing lib resolved acc (cl_MissingEvidenceRequests entry)) acc es))
     \<subseteq> set (fst acc) \<union> (\<Union>e \<in> set es. set (cl_MissingEvidenceRequests e))"
proof (induction es arbitrary: acc)
  case (Cons e es)
  obtain new seen' where "merge_missing lib resolved acc (cl_MissingEvidenceRequests e) = (fst acc @ new, seen')"
    "set new \<subseteq> set (cl_MissingEvidenceRequests e)"
    using merge_missing_keeps [of lib resolved "fst acc" "snd acc" "cl_MissingEvidenceRequests e"] by auto
  with Cons [of "(fst acc @ new, seen')"] show ?case by auto
qed simp

lemma merged_missing_set:
  "set (merged_missing lib s req cur) \<subseteq>
     set cur \<union> (\<Union>e \<in> set (rs_confidenceTimeline s). set (cl_MissingEvidenceRequests e))"
  using merged_missing_fold_set
    [of lib "resolvedSupplementalEvidenceTopicKeys lib s (tr_SupplementalEvidence req)"
      "(cur, filter (\<lambda>k. k \<noteq> []) (map (request_key lib) cur))" "rev (rs_confidenceTimeline s)"]
  by (auto simp: merged_missing_def)

lemma output_normal_update:
  assumes "output_normal out" "\<forall>r \<in> set ms. consult_normal r" "length ms \<le> maxConsultationEvidenceRequests"
    and "ms \<noteq> []" "trimmed st" "trimmed ra" "ra \<noteq> []"
  shows "output_normal (out\<lparr>to_MissingEvidenceRequests := ms, to_ConclusionStatus := st,
    to_RequiresHumanReview := True, to_ConfidenceRationale := ra\<rparr>)"
  using output_normalD [OF assms(1)] assms(2-)
  by (simp add: output_normal_def validateConsultationInsightCompleteness_def)

lemma preserve_normal:
  assumes "output_normal out"
    and "\<forall>e \<in> set (rs_confidenceTimeline s). \<forall>r \<in> set (cl_MissingEvidenceRequests e). consult_normal r"
  shows "output_normal (fst (preserveUnresolvedMissingEvidenceRequests lib s req out))"
proof -
  let ?m = "merged_missing lib s req (to_MissingEvidenceRequests out)"
  have m: "\<forall>r \<in> set ?m. consult_normal r" "length ?m \<le> maxConsultationEvidenceRequests"
    using merged_missing_set [of lib s req "to_MissingEvidenceRequests out"] assms(2)
      merged_missing_prefix [of lib s req "to_MissingEvidenceRequests out"]
      output_normalD(11,12) [OF assms(1)]
    by (blast, auto)
  have t: "trimmed ''needs_evidence''" "trimmed
      ''Unresolved operator evidence remains before final confirmation.''"
    by (rule trimmed_printable, simp add: printable_byte_code)+
  define o1 where "o1 = out\<lparr>to_MissingEvidenceRequests := ?m\<rparr>"
  have o1: "(if to_MissingEvidenceRequests out \<noteq> ?m then out\<lparr>to_MissingEvidenceRequests := ?m\<rparr> else out) = o1"
    by (auto simp: o1_def)
  have r: "TrimSpace (to_ConfidenceRationale out) = to_ConfidenceRationale out"
    using output_normalD(9) [OF assms(1)] by simp
  obtain new where new: "?m = to_MissingEvidenceRequests out @ new" using merged_missing_prefix by blast
  have "fst (preserveUnresolvedMissingEvidenceRequests lib s req out) =
      (if ?m = [] then o1 else o1
        \<lparr>to_ConclusionStatus := (if TrimSpace (to_ConclusionStatus out) = ''final''
            then ''needs_evidence'' else to_ConclusionStatus out),
         to_RequiresHumanReview := True,
         to_ConfidenceRationale := (if to_ConfidenceRationale out = []
            then ''Unresolved operator evidence remains before final confirmation.''
            else to_ConfidenceRationale out)\<rparr>)"
    by (simp add: preserveUnresolvedMissingEvidenceRequests_def Let_def o1_def r split: prod.splits)
  moreover have "output_normal o1" if "?m = []"
  proof -
    have "o1 = out" using that new by (simp add: o1_def)
    with assms(1) show ?thesis by simp
  qed
  moreover have "output_normal (out\<lparr>to_MissingEvidenceRequests := ?m,
      to_ConclusionStatus := (if c then ''needs_evidence'' else to_ConclusionStatus out),
      to_RequiresHumanReview := True,
      to_ConfidenceRationale := (if to_ConfidenceRationale out = []
        then ''Unresolved operator evidence remains before final confirmation.''
        else to_ConfidenceRationale out)\<rparr>)" if "?m \<noteq> []" for c
    by (rule output_normal_update [OF assms(1) m that])
      (use t output_normalD(9,15) [OF assms(1)] in \<open>simp_all split: if_split\<close>)
  ultimately show ?thesis by (simp add: o1_def split: if_split)
qed

lemma normalise_activity_result_normal:
  assumes "output_normal (ar_Output ar)"
    and "\<forall>e \<in> set (rs_confidenceTimeline s). \<forall>r \<in> set (cl_MissingEvidenceRequests e). consult_normal r"
  shows "output_normal (ar_Output (normalise_activity_result lib s req ar))"
  using preserve_normal [OF assms, of lib req]
  by (auto simp: normalise_activity_result_def assms(1) split: prod.splits)

lemma ParseTurnOutput_Inr:
  "ParseTurnOutput tokenize decode_output raw = Inr out \<Longrightarrow> output_normal out"
  by (auto simp: ParseTurnOutput_def bindE_eq_Inr_iff split: if_splits sum.splits dest: normalizeTurnOutput_normal)

end
