(* ===== verification/Go_Runes.thy ===== *)
theory Go_Runes
  imports Json_Encode
begin

text \<open>
  Runes of a Go string: the conversion \<open>[]rune(s)\<close> and back, \<open>utf8.RuneCountInString\<close>, the prefix of a
  number of runes, and \<open>truncateString\<close> of \<open>orchestrator/temporal/activities.go\<close>. A rune is the byte
  sequence that \<open>string(r)\<close> writes for it, so an invalid byte becomes the replacement character. The
  lemmas say that a prefix of runes has as many runes as asked for, and when nothing is changed.
\<close>

definition replacement_rune :: string where
  "replacement_rune = [CHR 0xEF, CHR 0xBF, CHR 0xBD]"

function runes :: "string \<Rightarrow> string list" where
  "runes [] = []"
| "runes (c # s) =
     (let w = utf8_width (c # s) in
      if w = 0 then replacement_rune # runes s
      else take w (c # s) # runes (drop w (c # s)))"
  by pat_completeness auto
termination
  by (relation "measure length") auto

declare runes.simps(2) [simp del]

definition RuneCountInString :: "string \<Rightarrow> nat" where
  "RuneCountInString s = length (runes s)"

definition rune_prefix :: "nat \<Rightarrow> string \<Rightarrow> string" where
  "rune_prefix n s = concat (take n (runes s))"

definition truncateString :: "string \<Rightarrow> nat \<Rightarrow> string" where
  "truncateString s maxLen =
     (let s = TrimSpace s in
      if length s \<le> maxLen then s
      else if RuneCountInString s \<le> maxLen then s
      else rune_prefix maxLen s)"

text \<open>A rune that \<open>string(r)\<close> writes is read back as one rune, whatever follows it.\<close>

definition whole_rune :: "string \<Rightarrow> bool" where
  "whole_rune r \<longleftrightarrow> r \<noteq> [] \<and> (\<forall>t. utf8_width (r @ t) = length r)"

lemma whole_rune_replacement: "whole_rune replacement_rune"
  by (simp add: whole_rune_def replacement_rune_def utf8_width.simps byte_in_def)

lemma utf8_width_take:
  "utf8_width s = w \<Longrightarrow> w \<noteq> 0 \<Longrightarrow> utf8_width (take w s @ t) = w"
  by (cases s; cases "tl s"; cases "tl (tl s)"; cases "tl (tl (tl s))")
    (auto simp: utf8_width.simps numeral_eq_Suc split: if_splits)

lemma whole_rune_take:
  assumes "utf8_width s \<noteq> 0"
  shows "whole_rune (take (utf8_width s) s)"
proof -
  have l: "length (take (utf8_width s) s) = utf8_width s" using utf8_width_le [of s] by simp
  have "take (utf8_width s) s \<noteq> []" using assms utf8_width_le [of s] by auto
  with l utf8_width_take [OF refl assms] show ?thesis by (simp add: whole_rune_def)
qed

lemma whole_runes: "r \<in> set (runes s) \<Longrightarrow> whole_rune r"
proof (induction s rule: runes.induct)
  case (2 c s)
  then show ?case
    by (cases "utf8_width (c # s) = 0")
      (auto simp: runes.simps(2) Let_def simp del: utf8_width.simps
        intro: whole_rune_replacement whole_rune_take)
qed simp

lemma runes_whole_rune:
  assumes "whole_rune r"
  shows "runes (r @ t) = r # runes t"
proof -
  obtain c r' where r: "r = c # r'" using assms by (cases r) (auto simp: whole_rune_def)
  have w: "utf8_width (c # r' @ t) = length r" using assms by (simp add: whole_rune_def r del: utf8_width.simps)
  then show ?thesis by (simp add: r runes.simps(2) Let_def del: utf8_width.simps)
qed

lemma runes_concat: "(\<forall>r \<in> set rs. whole_rune r) \<Longrightarrow> runes (concat rs) = rs"
  by (induction rs) (simp_all add: runes_whole_rune)

lemma runes_prefix: "runes (rune_prefix n s) = take n (runes s)"
  unfolding rune_prefix_def by (rule runes_concat) (auto dest: in_set_takeD intro: whole_runes)

lemma RuneCount_prefix [simp]: "RuneCountInString (rune_prefix n s) = min n (RuneCountInString s)"
  by (simp add: RuneCountInString_def runes_prefix)

text \<open>A rune takes at least one byte of the text it is read from.\<close>

lemma RuneCount_le_length: "RuneCountInString s \<le> length s"
proof (induction s rule: runes.induct)
  case (2 c s)
  show ?case
  proof (cases "utf8_width (c # s) = 0")
    case True
    with 2 show ?thesis by (simp add: RuneCountInString_def runes.simps(2) Let_def del: utf8_width.simps)
  next
    case False
    then obtain w where w: "utf8_width (c # s) = Suc w" by (cases "utf8_width (c # s)") auto
    with 2(2) [OF refl False] show ?thesis
      by (simp add: RuneCountInString_def runes.simps(2) Let_def del: utf8_width.simps)
  qed
qed (simp add: RuneCountInString_def)

lemma RuneCount_truncate: "RuneCountInString (truncateString s n) \<le> n"
  using RuneCount_le_length [of "TrimSpace s"] by (auto simp: truncateString_def Let_def)

end
