(* ===== verification/Compression.thy ===== *)
theory Compression
  imports Go_Runes Diagnosis_Approval
begin

text \<open>
  \<open>internal/usecases/diagnosiscompression/summary.go\<close>: the extractive summary of a persisted
  transcript. \<open>marshal_content\<close> and \<open>decode_content\<close> are \<open>json.Marshal\<close> and the strict decoder on
  the document, \<open>marshal_source\<close> is \<open>json.Marshal\<close> on the list of source turns. The lemmas show that
  every summary the code produces is accepted by its own strict reader, stays within its bounds,
  and is equivalent to the summary of the same transcript taken later.
\<close>

abbreviation SummaryVersion :: int where "SummaryVersion \<equiv> 1"
abbreviation SummarySchemaVersion :: string where
  "SummarySchemaVersion \<equiv> ''diagnosis-conversation-summary.v1''"
abbreviation compressionMethodExtractive :: string where
  "compressionMethodExtractive \<equiv> ''deterministic-extractive''"

definition MaxSourceTurns :: int where "MaxSourceTurns = 10000"
definition maxOpeningRequestRunes :: nat where "maxOpeningRequestRunes = 1024"
definition maxLatestRequestRunes :: nat where "maxLatestRequestRunes = 1024"
definition maxLatestAssistantRunes :: nat where "maxLatestAssistantRunes = 4096"
definition maxAssistantHighlightRunes :: nat where "maxAssistantHighlightRunes = 1024"
definition maxAssistantHighlightCount :: nat where "maxAssistantHighlightCount = 3"

section \<open>The document\<close>

record SummaryContent =
  sc_SchemaVersion :: string
  sc_CompressionMethod :: string
  sc_SourceTurnCount :: int
  sc_OpeningRequest :: string
  sc_LatestRequest :: string
  sc_LatestAssistantResponse :: string
  sc_AssistantHighlights :: "string list"
  sc_TruncatedFields :: "string list"

record digestTurn =
  du_Sequence :: int
  du_MessageID :: string
  du_Role :: string
  du_ActorSubject :: string
  du_Content :: string

record summary_lib =
  sl_tokenize :: "string \<Rightarrow> decoder"
  sl_json_object :: "string \<Rightarrow> bool"
  sl_sha256_hex :: "string \<Rightarrow> string"
  sl_marshal_content :: "SummaryContent \<Rightarrow> string result"
  sl_decode_content :: "string \<Rightarrow> SummaryContent result"
  sl_marshal_source :: "digestTurn list \<Rightarrow> string result"

section \<open>Building a summary\<close>

fun validateTurns :: "int \<Rightarrow> nat \<Rightarrow> ChatTurn list \<Rightarrow> unit result" where
  "validateTurns sid i [] = Inr ()"
| "validateTurns sid i (t # ts) =
     (if ct_SessionID t \<noteq> sid then
        Inl (invariant_error ''compress diagnosis conversation: turn belongs to another session'')
      else if ct_Sequence t \<noteq> int i + 1 then
        Inl (invariant_error ''compress diagnosis conversation: turn sequence is not its position'')
      else if \<not> ChatRole_Valid (ct_Role t) then
        Inl (invariant_error ''compress diagnosis conversation: turn has invalid role'')
      else if TrimSpace (ct_MessageID t) = [] \<or> TrimSpace (ct_ActorSubject t) = []
              \<or> TrimSpace (ct_Content t) = [] then
        Inl (invariant_error
          ''compress diagnosis conversation: turn has incomplete source identity/content'')
      else validateTurns sid (i + 1) ts)"

definition boundedField ::
  "string \<Rightarrow> nat \<Rightarrow> string \<Rightarrow> string list \<Rightarrow> string \<times> string list" where
  "boundedField val maxRunes field truncated =
     (let val = TrimSpace val in
      if RuneCountInString val \<le> maxRunes then (val, truncated)
      else (rune_prefix maxRunes val, truncated @ [field]))"

definition highlight_name :: "nat \<Rightarrow> string" where
  "highlight_name i = ''assistant_highlights['' @ decimal i @ '']''"

fun bounded_highlights ::
  "nat \<Rightarrow> string list \<Rightarrow> string list \<Rightarrow> string list \<times> string list" where
  "bounded_highlights i [] truncated = ([], truncated)"
| "bounded_highlights i (r # rs) truncated =
     (let (h, truncated) = boundedField r maxAssistantHighlightRunes (highlight_name i) truncated;
          (hs, truncated) = bounded_highlights (i + 1) rs truncated
      in (h # hs, truncated))"

text \<open>The first and the last question; \<open>openingRequest\<close> is set as long as it is empty.\<close>

definition user_requests :: "ChatTurn list \<Rightarrow> string list" where
  "user_requests turns = map ct_Content (filter (\<lambda>t. ct_Role t = ChatRoleUser) turns)"

definition assistant_responses :: "ChatTurn list \<Rightarrow> string list" where
  "assistant_responses turns = map ct_Content (filter (\<lambda>t. ct_Role t = ChatRoleAssistant) turns)"

definition opening_request :: "ChatTurn list \<Rightarrow> string" where
  "opening_request turns = (case find (\<lambda>r. r \<noteq> []) (user_requests turns) of None \<Rightarrow> [] | Some r \<Rightarrow> r)"

definition latest_request :: "ChatTurn list \<Rightarrow> string" where
  "latest_request turns = (if user_requests turns = [] then [] else last (user_requests turns))"

definition summarizeContent :: "ChatTurn list \<Rightarrow> SummaryContent" where
  "summarizeContent turns =
     (let (opening, tr) = boundedField (opening_request turns) maxOpeningRequestRunes ''opening_request'' [];
          (latest, tr) = boundedField (latest_request turns) maxLatestRequestRunes ''latest_request'' tr;
          content = \<lparr>sc_SchemaVersion = SummarySchemaVersion,
            sc_CompressionMethod = compressionMethodExtractive,
            sc_SourceTurnCount = int (length turns), sc_OpeningRequest = opening,
            sc_LatestRequest = latest, sc_LatestAssistantResponse = [],
            sc_AssistantHighlights = [], sc_TruncatedFields = tr\<rparr>;
          responses = assistant_responses turns
      in if responses = [] then content
      else let
          (answer, tr) = boundedField (last responses) maxLatestAssistantRunes ''latest_assistant_response'' tr;
          start = length responses - 1 - maxAssistantHighlightCount;
          (highlights, tr) = bounded_highlights 0 (drop start (butlast responses)) tr
        in content\<lparr>sc_LatestAssistantResponse := answer, sc_AssistantHighlights := highlights,
             sc_TruncatedFields := tr\<rparr>)"

definition digest_turn :: "ChatTurn \<Rightarrow> digestTurn" where
  "digest_turn t = \<lparr>du_Sequence = ct_Sequence t, du_MessageID = ct_MessageID t, du_Role = ct_Role t,
     du_ActorSubject = ct_ActorSubject t, du_Content = ct_Content t\<rparr>"

definition sourceDigest :: "summary_lib \<Rightarrow> ChatTurn list \<Rightarrow> string result" where
  "sourceDigest lib turns =
     (case sl_marshal_source lib (map digest_turn turns) of
        Inl e \<Rightarrow> Inl (wrap_error ''compress diagnosis conversation: marshal digest source'' e)
      | Inr raw \<Rightarrow> Inr (sl_sha256_hex lib raw))"

definition Summarize ::
  "summary_lib \<Rightarrow> int \<Rightarrow> ChatTurn list \<Rightarrow> go_time \<Rightarrow> ChatSessionSummary result" where
  "Summarize lib sessionID turns generatedAt =
     (if sessionID = 0 then
        Inl (invariant_error ''compress diagnosis conversation: session_id must be non-zero'')
      else if int (length turns) > MaxSourceTurns then
        Inl (invariant_error ''compress diagnosis conversation: source has too many turns'')
      else bindE (validateTurns sessionID 0 turns) (\<lambda>_.
      bindE (case sl_marshal_content lib (summarizeContent turns) of
               Inl e \<Rightarrow> Inl (wrap_error ''compress diagnosis conversation: marshal summary'' e)
             | Inr raw \<Rightarrow> Inr raw) (\<lambda>raw.
      bindE (sourceDigest lib turns) (\<lambda>digest.
      NewChatSessionSummary (sl_tokenize lib) (sl_json_object lib)
        \<lparr>ss_ID = 0, ss_SessionID = sessionID, ss_Version = SummaryVersion,
         ss_SchemaVersion = SummarySchemaVersion,
         ss_SourceFirstSequence = (if turns = [] then 0 else ct_Sequence (hd turns)),
         ss_SourceLastSequence = (if turns = [] then 0 else ct_Sequence (last turns)),
         ss_SourceTurnCount = int (length turns), ss_SourceDigest = digest, ss_Content = raw,
         ss_GeneratedAt = generatedAt, ss_CreatedAt = 0\<rparr>))))"

section \<open>Reading a summary\<close>

text \<open>The bounded fields of a document with their names.\<close>

definition content_fields :: "SummaryContent \<Rightarrow> (string \<times> string \<times> nat) list" where
  "content_fields c =
     [(''opening_request'', sc_OpeningRequest c, maxOpeningRequestRunes),
      (''latest_request'', sc_LatestRequest c, maxLatestRequestRunes),
      (''latest_assistant_response'', sc_LatestAssistantResponse c, maxLatestAssistantRunes)]
     @ map (\<lambda>(i, v). (highlight_name i, v, maxAssistantHighlightRunes))
         (enumerate 0 (sc_AssistantHighlights c))"

fun check_truncated ::
  "(string \<times> string \<times> nat) list \<Rightarrow> string list \<Rightarrow> string list \<Rightarrow> unit result" where
  "check_truncated flds seen [] = Inr ()"
| "check_truncated flds seen (name # names) =
     (case map_of (rev (map (\<lambda>(n, v, l). (n, l)) flds)) name of
        None \<Rightarrow> Inl (invariant_error
          ''parse diagnosis conversation summary: unsupported truncated field'')
      | Some limit \<Rightarrow>
          if name \<in> set seen then Inl (invariant_error
            ''parse diagnosis conversation summary: duplicate truncated field'')
          else if list_ex (\<lambda>(n, v, l). n = name \<and> RuneCountInString v \<noteq> limit) flds then
            Inl (invariant_error
              ''parse diagnosis conversation summary: truncated field is not at its bound'')
          else check_truncated flds (name # seen) names)"

definition validateContent :: "SummaryContent \<Rightarrow> unit result" where
  "validateContent c =
     (if sc_SchemaVersion c \<noteq> SummarySchemaVersion then
        Inl (invariant_error ''parse diagnosis conversation summary: unsupported schema_version'')
      else if sc_CompressionMethod c \<noteq> compressionMethodExtractive then
        Inl (invariant_error ''parse diagnosis conversation summary: unsupported compression_method'')
      else if sc_SourceTurnCount c < 0 \<or> sc_SourceTurnCount c > MaxSourceTurns then
        Inl (invariant_error ''parse diagnosis conversation summary: source_turn_count is out of range'')
      else if length (sc_AssistantHighlights c) > maxAssistantHighlightCount then
        Inl (invariant_error ''parse diagnosis conversation summary: too many assistant_highlights'')
      else if list_ex (\<lambda>(n, v, l). RuneCountInString v > l) (content_fields c) then
        Inl (invariant_error ''parse diagnosis conversation summary: field exceeds its bound'')
      else check_truncated (content_fields c) [] (sc_TruncatedFields c))"

definition ParseContent :: "summary_lib \<Rightarrow> string \<Rightarrow> SummaryContent result" where
  "ParseContent lib raw =
     (case sl_decode_content lib raw of
        Inl e \<Rightarrow> Inl (wrap_error ''parse diagnosis conversation summary'' e)
      | Inr c \<Rightarrow> bindE (validateContent c) (\<lambda>_. Inr c))"

text \<open>\<open>equivalentContent\<close> compares every field of the two documents.\<close>

definition equivalentContent :: "SummaryContent \<Rightarrow> SummaryContent \<Rightarrow> bool" where
  "equivalentContent l r \<longleftrightarrow>
     sc_SchemaVersion l = sc_SchemaVersion r \<and> sc_CompressionMethod l = sc_CompressionMethod r \<and>
     sc_SourceTurnCount l = sc_SourceTurnCount r \<and> sc_OpeningRequest l = sc_OpeningRequest r \<and>
     sc_LatestRequest l = sc_LatestRequest r \<and>
     sc_LatestAssistantResponse l = sc_LatestAssistantResponse r \<and>
     sc_AssistantHighlights l = sc_AssistantHighlights r \<and>
     sc_TruncatedFields l = sc_TruncatedFields r"

definition Equivalent :: "summary_lib \<Rightarrow> ChatSessionSummary \<Rightarrow> ChatSessionSummary \<Rightarrow> bool" where
  "Equivalent lib l r \<longleftrightarrow>
     ss_SessionID l = ss_SessionID r \<and> ss_Version l = ss_Version r \<and>
     ss_SchemaVersion l = ss_SchemaVersion r \<and>
     ss_SourceFirstSequence l = ss_SourceFirstSequence r \<and>
     ss_SourceLastSequence l = ss_SourceLastSequence r \<and>
     ss_SourceTurnCount l = ss_SourceTurnCount r \<and> ss_SourceDigest l = ss_SourceDigest r \<and>
     (case (ParseContent lib (ss_Content l), ParseContent lib (ss_Content r)) of
        (Inr lc, Inr rc) \<Rightarrow>
          ss_SchemaVersion l = sc_SchemaVersion lc \<and> ss_SchemaVersion r = sc_SchemaVersion rc \<and>
          ss_SourceTurnCount l = sc_SourceTurnCount lc \<and>
          ss_SourceTurnCount r = sc_SourceTurnCount rc \<and> equivalentContent lc rc
      | _ \<Rightarrow> False)"

section \<open>Summaries stay within their bounds\<close>

definition truncation_ok :: "(string \<times> string \<times> nat) list \<Rightarrow> string list \<Rightarrow> bool" where
  "truncation_ok flds tr \<longleftrightarrow>
     distinct (map fst flds) \<and> distinct tr \<and> set tr \<subseteq> fst ` set flds \<and>
     (\<forall>(n, v, l) \<in> set flds. RuneCountInString v \<le> l \<and> (n \<in> set tr \<longrightarrow> RuneCountInString v = l))"

lemma boundedField_cases:
  assumes "boundedField v n f tr = (v', tr')"
  obtains (kept) "RuneCountInString v' \<le> n" "tr' = tr" "v' = TrimSpace v"
    | (cut) "RuneCountInString v' = n" "tr' = tr @ [f]" "v' = rune_prefix n (TrimSpace v)"
proof (cases "RuneCountInString (TrimSpace v) \<le> n")
  case True
  then have "boundedField v n f tr = (TrimSpace v, tr)" by (simp add: boundedField_def)
  with assms have "v' = TrimSpace v" "tr' = tr" by simp_all
  then show thesis using True by (intro kept) simp_all
next
  case False
  then have "boundedField v n f tr = (rune_prefix n (TrimSpace v), tr @ [f])" by (simp add: boundedField_def)
  with assms have "v' = rune_prefix n (TrimSpace v)" "tr' = tr @ [f]" by simp_all
  then show thesis using False by (intro cut) simp_all
qed

lemma truncation_ok_kept:
  assumes "truncation_ok fs tr" "f \<notin> fst ` set fs" "RuneCountInString v \<le> n"
  shows "truncation_ok (fs @ [(f, v, n)]) tr"
proof -
  have "f \<notin> set tr" using assms(1,2) by (auto simp: truncation_ok_def)
  with assms show ?thesis by (auto simp: truncation_ok_def)
qed

lemma truncation_ok_field:
  assumes "boundedField v n f tr = (v', tr')" "truncation_ok fs tr" "f \<notin> fst ` set fs"
  shows "truncation_ok (fs @ [(f, v', n)]) tr'"
  using assms(1)
proof (cases rule: boundedField_cases)
  case kept
  with assms(2,3) show ?thesis by (simp add: truncation_ok_kept)
next
  case cut
  have "f \<notin> set tr" using assms(2,3) by (auto simp: truncation_ok_def)
  moreover have "RuneCountInString w \<le> l \<and> (m \<in> set tr' \<longrightarrow> RuneCountInString w = l)"
    if "(m, w, l) \<in> set (fs @ [(f, v', n)])" for m w l
  proof (cases "(m, w, l) \<in> set fs")
    case True
    then have "m \<noteq> f" using assms(3) by force
    with True assms(2) cut(2) show ?thesis by (auto simp: truncation_ok_def)
  next
    case False
    with that cut(1) show ?thesis by simp
  qed
  ultimately show ?thesis using assms(2,3) cut(2) by (auto simp: truncation_ok_def)
qed

lemma highlight_name_inj: "highlight_name i = highlight_name j \<longleftrightarrow> i = j"
proof
  assume "highlight_name i = highlight_name j"
  then have "decimal i = decimal j" by (simp add: highlight_name_def)
  then show "i = j" by (rule decimal_inj)
qed simp

definition highlight_fields :: "nat \<Rightarrow> string list \<Rightarrow> (string \<times> string \<times> nat) list" where
  "highlight_fields i hs =
     map (\<lambda>(i, v). (highlight_name i, v, maxAssistantHighlightRunes)) (enumerate i hs)"

lemma highlight_fields_simps [simp]:
  "highlight_fields i [] = []"
  "highlight_fields i (h # hs) = (highlight_name i, h, maxAssistantHighlightRunes) # highlight_fields (Suc i) hs"
  by (simp_all add: highlight_fields_def)

lemma truncation_ok_highlights:
  assumes "bounded_highlights i rs tr = (hs, tr')" "truncation_ok fs tr"
    and "\<And>j. i \<le> j \<Longrightarrow> highlight_name j \<notin> fst ` set fs"
  shows "truncation_ok (fs @ highlight_fields i hs) tr' \<and> length hs = length rs"
  using assms
proof (induction i rs tr arbitrary: hs tr' fs rule: bounded_highlights.induct)
  case (2 i r rs tr)
  obtain h tr1 where h: "boundedField r maxAssistantHighlightRunes (highlight_name i) tr = (h, tr1)"
    by fastforce
  obtain hs1 tr2 where hs1: "bounded_highlights (i + 1) rs tr1 = (hs1, tr2)" by fastforce
  have hs: "hs = h # hs1" "tr' = tr2" using 2(2) h hs1 by simp_all
  have "truncation_ok (fs @ [(highlight_name i, h, maxAssistantHighlightRunes)]) tr1"
    using truncation_ok_field [OF h 2(3)] 2(4) by simp
  moreover have "highlight_name j \<notin> fst ` set (fs @ [(highlight_name i, h, maxAssistantHighlightRunes)])"
    if "i + 1 \<le> j" for j
    using that 2(4) [of j] by (simp add: highlight_name_inj)
  ultimately have "truncation_ok ((fs @ [(highlight_name i, h, maxAssistantHighlightRunes)])
      @ highlight_fields (i + 1) hs1) tr2 \<and> length hs1 = length rs"
    by (rule 2(1) [OF h [symmetric] refl hs1])
  then show ?case by (simp add: hs)
qed simp

lemma fixed_names:
  "''opening_request'' \<noteq> ''latest_request''" "''latest_assistant_response'' \<noteq> ''opening_request''"
  "''latest_assistant_response'' \<noteq> ''latest_request''" "highlight_name j \<noteq> ''opening_request''"
  "highlight_name j \<noteq> ''latest_request''" "highlight_name j \<noteq> ''latest_assistant_response''"
  by (simp_all add: highlight_name_def)

lemma content_fields_eq:
  "content_fields c =
     [(''opening_request'', sc_OpeningRequest c, maxOpeningRequestRunes),
      (''latest_request'', sc_LatestRequest c, maxLatestRequestRunes),
      (''latest_assistant_response'', sc_LatestAssistantResponse c, maxLatestAssistantRunes)]
     @ highlight_fields 0 (sc_AssistantHighlights c)"
  by (simp add: content_fields_def highlight_fields_def)

lemma RuneCount_Nil [simp]: "RuneCountInString [] = 0"
  by (simp add: RuneCountInString_def)

lemma summarizeContent_ok:
  "truncation_ok (content_fields (summarizeContent turns)) (sc_TruncatedFields (summarizeContent turns)) \<and>
   length (sc_AssistantHighlights (summarizeContent turns)) \<le> maxAssistantHighlightCount"
proof -
  obtain o' t1 where o: "boundedField (opening_request turns) maxOpeningRequestRunes ''opening_request'' []
      = (o', t1)" by fastforce
  obtain l t2 where l: "boundedField (latest_request turns) maxLatestRequestRunes ''latest_request'' t1
      = (l, t2)" by fastforce
  have "truncation_ok ([] @ [(''opening_request'', o', maxOpeningRequestRunes)]) t1"
    by (rule truncation_ok_field [OF o]) (simp_all add: truncation_ok_def)
  from truncation_ok_field [OF l this]
  have ok: "truncation_ok [(''opening_request'', o', maxOpeningRequestRunes),
      (''latest_request'', l, maxLatestRequestRunes)] t2" by simp
  define rs where "rs = assistant_responses turns"
  show ?thesis
  proof (cases "rs = []")
    case True
    with ok o l truncation_ok_kept [OF ok, of "''latest_assistant_response''" "[]" maxLatestAssistantRunes]
    show ?thesis by (simp add: summarizeContent_def rs_def content_fields_eq)
  next
    case False
    obtain a t3 where a: "boundedField (last rs) maxLatestAssistantRunes ''latest_assistant_response'' t2
        = (a, t3)" by fastforce
    let ?hl = "drop (length rs - 1 - maxAssistantHighlightCount) (butlast rs)"
    obtain hs t4 where h: "bounded_highlights 0 ?hl t3 = (hs, t4)" by fastforce
    from truncation_ok_field [OF a ok] have "truncation_ok [(''opening_request'', o', maxOpeningRequestRunes),
      (''latest_request'', l, maxLatestRequestRunes),
      (''latest_assistant_response'', a, maxLatestAssistantRunes)] t3" by simp
    from truncation_ok_highlights [OF h this] have "truncation_ok ([(''opening_request'', o', maxOpeningRequestRunes),
      (''latest_request'', l, maxLatestRequestRunes),
      (''latest_assistant_response'', a, maxLatestAssistantRunes)] @ highlight_fields 0 hs) t4"
      and "length hs = length ?hl" by (auto simp: fixed_names)
    with False o l a h show ?thesis
      by (simp add: summarizeContent_def rs_def [symmetric] content_fields_eq)
  qed
qed

lemma check_truncated_ok:
  assumes "distinct (map fst flds)" "set names \<subseteq> fst ` set flds" "distinct names"
    and "set names \<inter> set seen = {}"
    and "\<forall>(n, v, l) \<in> set flds. n \<in> set names \<longrightarrow> RuneCountInString v = l"
  shows "check_truncated flds seen names = Inr ()"
  using assms
proof (induction flds seen names rule: check_truncated.induct)
  case (2 flds seen name names)
  obtain v l where f: "(name, v, l) \<in> set flds" using 2(3) by auto
  have d: "distinct (map fst (map (\<lambda>(n, v, l). (n, l)) flds))"
    using 2(2) by (simp add: comp_def case_prod_beta')
  have "map_of (rev (map (\<lambda>(n, v, l). (n, l)) flds)) name = Some l"
  proof (rule map_of_is_SomeI)
    show "distinct (map fst (rev (map (\<lambda>(n, v, l). (n, l)) flds)))"
      using d by (metis distinct_rev rev_map)
  qed (use f in force)
  moreover have "\<not> list_ex (\<lambda>(n, v, l'). n = name \<and> RuneCountInString v \<noteq> l) flds"
  proof
    assume "list_ex (\<lambda>(n, v, l'). n = name \<and> RuneCountInString v \<noteq> l) flds"
    then obtain v' l' where v': "(name, v', l') \<in> set flds" "RuneCountInString v' \<noteq> l"
      by (auto simp: list_ex_iff)
    with f 2(2) have "(v', l') = (v, l)" by (metis eq_key_imp_eq_value)
    with v' f 2(6) show False by auto
  qed
  moreover have "check_truncated flds (name # seen) names = Inr ()"
  proof (rule 2(1) [OF calculation(1) _ calculation(2)])
    show "\<forall>(n, v, l) \<in> set flds. n \<in> set names \<longrightarrow> RuneCountInString v = l"
      using 2(6) by fastforce
  qed (use 2(2-5) in auto)
  ultimately show ?case using 2(5) by simp
qed simp

lemma validateContent_summarize:
  assumes "int (length turns) \<le> MaxSourceTurns"
  shows "validateContent (summarizeContent turns) = Inr ()"
proof -
  let ?c = "summarizeContent turns"
  have ok: "truncation_ok (content_fields ?c) (sc_TruncatedFields ?c)"
    and n: "length (sc_AssistantHighlights ?c) \<le> maxAssistantHighlightCount"
    using summarizeContent_ok by auto
  have s: "sc_SchemaVersion ?c = SummarySchemaVersion" "sc_CompressionMethod ?c = compressionMethodExtractive"
    "sc_SourceTurnCount ?c = int (length turns)"
    by (simp_all add: summarizeContent_def Let_def split: prod.splits)
  have b: "\<not> list_ex (\<lambda>(n, v, l). RuneCountInString v > l) (content_fields ?c)"
    using ok by (fastforce simp: list_ex_iff truncation_ok_def)
  have "check_truncated (content_fields ?c) [] (sc_TruncatedFields ?c) = Inr ()"
    using ok by (intro check_truncated_ok) (auto simp: truncation_ok_def)
  with s n b assms show ?thesis by (simp add: validateContent_def)
qed

section \<open>Summaries are reproducible\<close>

lemma Summarize_Inr:
  assumes "Summarize lib sid turns t = Inr s"
  obtains raw digest where "sl_marshal_content lib (summarizeContent turns) = Inr raw"
    "sourceDigest lib turns = Inr digest" "int (length turns) \<le> MaxSourceTurns"
    "ss_SessionID s = sid" "ss_Version s = SummaryVersion" "ss_SchemaVersion s = TrimSpace SummarySchemaVersion"
    "ss_SourceFirstSequence s = (if turns = [] then 0 else ct_Sequence (hd turns))"
    "ss_SourceLastSequence s = (if turns = [] then 0 else ct_Sequence (last turns))"
    "ss_SourceTurnCount s = int (length turns)" "ss_SourceDigest s = TrimSpace digest"
    "ss_Content s = raw"
  using assms
  by (auto simp: Summarize_def bindE_eq_Inr_iff NewChatSessionSummary_def Let_def
      split: sum.splits option.splits if_splits)

lemma SummarySchemaVersion_trimmed [simp]: "TrimSpace SummarySchemaVersion = SummarySchemaVersion"
  by (rule TrimSpace_id, rule trimmed_printable) (simp add: printable_byte_code)

lemma Summarize_parses:
  assumes "Summarize lib sid turns t = Inr s"
    and "\<And>c raw. sl_marshal_content lib c = Inr raw \<Longrightarrow> sl_decode_content lib raw = Inr c"
  shows "ParseContent lib (ss_Content s) = Inr (summarizeContent turns)"
  using assms(1)
proof (rule Summarize_Inr)
  fix raw assume "sl_marshal_content lib (summarizeContent turns) = Inr raw" "ss_Content s = raw"
    "int (length turns) \<le> MaxSourceTurns"
  with assms(2) show ?thesis by (simp add: ParseContent_def validateContent_summarize)
qed

lemma summarizeContent_header:
  "sc_SchemaVersion (summarizeContent turns) = SummarySchemaVersion"
  "sc_SourceTurnCount (summarizeContent turns) = int (length turns)"
  by (simp_all add: summarizeContent_def Let_def split: prod.splits)

text \<open>A summary of the same transcript taken later, or the stored row of one, is equivalent.\<close>

lemma Summarize_equivalent:
  assumes "Summarize lib sid turns t = Inr s" "Summarize lib sid turns t' = Inr s'"
    and "\<And>c raw. sl_marshal_content lib c = Inr raw \<Longrightarrow> sl_decode_content lib raw = Inr c"
  shows "Equivalent lib (s\<lparr>ss_ID := i, ss_CreatedAt := n\<rparr>) s'"
proof -
  have p: "ParseContent lib (ss_Content s) = Inr (summarizeContent turns)"
    "ParseContent lib (ss_Content s') = Inr (summarizeContent turns)"
    using Summarize_parses [OF assms(1,3)] Summarize_parses [OF assms(2,3)] by auto
  from assms(1) show ?thesis
  proof (rule Summarize_Inr)
    fix digest assume *: "sourceDigest lib turns = Inr digest" "ss_SessionID s = sid" "ss_Version s = SummaryVersion"
      "ss_SchemaVersion s = TrimSpace SummarySchemaVersion"
      "ss_SourceFirstSequence s = (if turns = [] then 0 else ct_Sequence (hd turns))"
      "ss_SourceLastSequence s = (if turns = [] then 0 else ct_Sequence (last turns))"
      "ss_SourceTurnCount s = int (length turns)" "ss_SourceDigest s = TrimSpace digest"
    from assms(2) show ?thesis
      by (rule Summarize_Inr) (use * p in \<open>simp add: Equivalent_def equivalentContent_def summarizeContent_header\<close>)
  qed
qed

end
