(* ===== verification/Repo_Rows.thy ===== *)
theory Repo_Rows
  imports Repo_Core
begin

text \<open>
  A table of PostgreSQL as the repositories use it: its rows in the order of their insertion and the
  next value of its sequence. The lemmas say what inserting and updating a row do to a table whose
  identifiers are unique.
\<close>

section \<open>Rows\<close>

record 'a rows =
  tb_rows :: "'a list"
  tb_next :: int

definition pg_foreign_key_violation :: go_error where
  "pg_foreign_key_violation = GoErr ''SQLSTATE 23503'' []"

definition ent_validator_failed :: go_error where
  "ent_validator_failed = GoErr ''ent: validator failed'' []"

text \<open>
  An insert: the unique indexes are checked when the row is written, the foreign key at the end of
  the statement; the new row takes the next ID.
\<close>

definition insert_row :: "bool \<Rightarrow> bool \<Rightarrow> (int \<Rightarrow> 'a) \<Rightarrow> 'a rows \<Rightarrow> ('a rows \<times> 'a) result" where
  "insert_row duplicate fk_ok mk t =
     (if duplicate then Inl pg_unique_violation
      else if \<not> fk_ok then Inl pg_foreign_key_violation
      else let r = mk (tb_next t) in Inr (\<lparr>tb_rows = tb_rows t @ [r], tb_next = tb_next t + 1\<rparr>, r))"

text \<open>\<open>UpdateOneID\<close>: the row with the ID, if there is one, and its new value.\<close>

definition update_row :: "('a \<Rightarrow> int) \<Rightarrow> int \<Rightarrow> ('a \<Rightarrow> 'a) \<Rightarrow> 'a rows \<Rightarrow> 'a rows \<times> 'a option" where
  "update_row rid i f t =
     (t\<lparr>tb_rows := map (\<lambda>r. if rid r = i then f r else r) (tb_rows t)\<rparr>,
      map_option f (find (\<lambda>r. rid r = i) (tb_rows t)))"

definition the_row :: "'a option \<Rightarrow> 'a result" where
  "the_row r = (case r of None \<Rightarrow> Inl ent_not_found | Some x \<Rightarrow> Inr x)"

abbreviation append_row :: "'a rows \<Rightarrow> 'a \<Rightarrow> 'a rows" where
  "append_row t r \<equiv> \<lparr>tb_rows = tb_rows t @ [r], tb_next = tb_next t + 1\<rparr>"

lemma insert_row_Inr:
  "insert_row dup fk mk t = Inr (t', r) \<longleftrightarrow> \<not> dup \<and> fk \<and> r = mk (tb_next t) \<and> t' = append_row t r"
  by (auto simp: insert_row_def Let_def)

lemma update_row_eq:
  "update_row rid i f t = (t', Some r) \<longleftrightarrow>
     (\<exists>x. find (\<lambda>r. rid r = i) (tb_rows t) = Some x \<and> r = f x) \<and>
     t' = t\<lparr>tb_rows := map (\<lambda>r. if rid r = i then f r else r) (tb_rows t)\<rparr>"
  by (auto simp: update_row_def)

lemma the_row_Inr [simp]: "the_row r = Inr x \<longleftrightarrow> r = Some x"
  by (auto simp: the_row_def split: option.splits)

section \<open>Well-formed tables\<close>

definition table_ok :: "('a \<Rightarrow> int) \<Rightarrow> 'a rows \<Rightarrow> bool" where
  "table_ok rid t \<longleftrightarrow> 0 < tb_next t \<and> (\<forall>r \<in> set (tb_rows t). 0 < rid r \<and> rid r < tb_next t) \<and>
     distinct (map rid (tb_rows t))"

lemma table_ok_append:
  assumes "table_ok rid t" "rid r = tb_next t"
  shows "table_ok rid (append_row t r)"
  using assms by (auto simp: table_ok_def)

lemma table_ok_ids:
  "table_ok rid t \<longleftrightarrow> 0 < tb_next t \<and> (\<forall>i \<in> set (map rid (tb_rows t)). 0 < i \<and> i < tb_next t) \<and>
     distinct (map rid (tb_rows t))"
  by (simp add: table_ok_def)

lemma update_rows_map:
  assumes "\<And>r. g (f r) = g r"
  shows "map g (tb_rows (fst (update_row rid i f t))) = map g (tb_rows t)"
  using assms by (simp add: update_row_def)

lemma table_ok_update:
  assumes "table_ok rid t" "\<And>r. rid (f r) = rid r"
  shows "table_ok rid (fst (update_row rid i f t))"
proof -
  have "map rid (tb_rows (fst (update_row rid i f t))) = map rid (tb_rows t)"
    using assms(2) by (rule update_rows_map)
  moreover have "tb_next (fst (update_row rid i f t)) = tb_next t"
    by (simp add: update_row_def)
  ultimately show ?thesis using assms(1) unfolding table_ok_ids by (simp only:) blast
qed

lemma row_unique:
  "table_ok rid t \<Longrightarrow> x \<in> set (tb_rows t) \<Longrightarrow> y \<in> set (tb_rows t) \<Longrightarrow> rid x = rid y \<Longrightarrow> x = y"
  by (auto simp: table_ok_def distinct_map dest: inj_onD)

text \<open>The rows after an update of a row of the table.\<close>

lemma update_rows:
  assumes "table_ok rid t" "x \<in> set (tb_rows t)" "rid y = rid x"
  shows "set (tb_rows (fst (update_row rid (rid y) f t))) = insert (f x) (set (tb_rows t) - {x})"
proof -
  let ?g = "\<lambda>r. if rid r = rid y then f r else r"
  have g: "?g r = (if r = x then f x else r)" if "r \<in> set (tb_rows t)" for r
    using row_unique [OF assms(1) that assms(2)] assms(3) by auto
  have "?g ` set (tb_rows t) = (\<lambda>r. if r = x then f x else r) ` set (tb_rows t)"
    using g by (rule image_cong [OF HOL.refl])
  also have "\<dots> = insert (f x) (set (tb_rows t) - {x})" using assms(2) by auto
  finally show ?thesis by (simp add: update_row_def)
qed

text \<open>A lookup by a unique key finds its row.\<close>

lemma filter_unique_key:
  assumes "distinct (map f xs)" "x \<in> set xs" "f x = k"
  shows "filter (\<lambda>y. f y = k) xs = [x]"
  using assms by (induction xs) (auto simp: filter_empty_conv rev_image_eqI)

end
