(* ===== verification/Repo_Tx.thy ===== *)
theory Repo_Tx
  imports Repo_Core
begin

text \<open>
  Sequences of repository calls inside one unit of work: the error-passing of Go as a bind, the
  queries that expect one row, and a callback whose result leaves the transaction through a
  variable. The collection \<open>tx_ok\<close> says what each successful statement implies, so that a whole
  transaction is unfolded by simplification; \<open>keeps_open\<close> is established structurally.
\<close>

section \<open>Sequences of statements\<close>

text \<open>A fallible computation over a state; a transaction is one over a unit of work.\<close>

type_synonym ('s, 'a) st = "'s \<Rightarrow> 's \<times> 'a result"

type_synonym ('d, 'a) tx = "('d uow, 'a) st"

text \<open>The pattern \<open>x, err := call(); if err != nil { return err }\<close>.\<close>

definition bindT :: "('s, 'a) st \<Rightarrow> ('a \<Rightarrow> ('s, 'b) st) \<Rightarrow> ('s, 'b) st" where
  "bindT m f u = (case m u of (u, Inl e) \<Rightarrow> (u, Inl e) | (u, Inr x) \<Rightarrow> f x u)"

definition liftT :: "'a result \<Rightarrow> ('s, 'a) st" where
  "liftT r u = (u, r)"

definition mapErrT :: "(go_error \<Rightarrow> go_error) \<Rightarrow> ('s, 'a) st \<Rightarrow> ('s, 'a) st" where
  "mapErrT f m u = (case m u of (u, Inl e) \<Rightarrow> (u, Inl (f e)) | (u, Inr x) \<Rightarrow> (u, Inr x))"

text \<open>The pattern \<open>if errors.Is(err, domain.ErrNotFound) { return zero, false, nil }\<close>.\<close>

definition orNotFound :: "('s, 'a) st \<Rightarrow> ('s, 'a option) st" where
  "orNotFound m u =
     (case m u of
        (u, Inr x) \<Rightarrow> (u, Inr (Some x))
      | (u, Inl e) \<Rightarrow> if errors_Is e ErrNotFound then (u, Inr None) else (u, Inl e))"

text \<open>Every operation of a repository starts with \<open>checkOpen\<close>.\<close>

definition opened :: "('d, 'a) tx \<Rightarrow> ('d, 'a) tx" where
  "opened m u = (case checkOpen u of Some e \<Rightarrow> (u, Inl e) | None \<Rightarrow> m u)"

text \<open>\<open>Only\<close>: an error of Ent when the query has no row or more than one.\<close>

definition only_row :: "go_error option \<Rightarrow> ('d \<Rightarrow> 'a list) \<Rightarrow> ('d, 'a) tx" where
  "only_row fault q =
     bindT (\<lambda>u. query_stmt fault u q)
       (\<lambda>rows. liftT (case rows of
           [] \<Rightarrow> Inl ent_not_found
         | [r] \<Rightarrow> Inr r
         | _ \<Rightarrow> Inl (GoErr ''ent: not singular'' [])))"

text \<open>
  \<open>WithinTx\<close> around a callback that hands its result out through a variable, which the caller
  only reads when \<open>WithinTx\<close> succeeded.
\<close>

definition within_tx :: "tx_env \<Rightarrow> 'd \<Rightarrow> ('d, 'a) tx \<Rightarrow> 'd \<times> 'a result" where
  "within_tx env d fn =
     (case WithinTx env d (bindT fn (\<lambda>_. liftT (Inr ()))) of
        (d', Inl e) \<Rightarrow> (d', Inl e)
      | (d', Inr _) \<Rightarrow> (d', snd (fn (newUnitOfWork d))))"

text \<open>A list query with its guards.\<close>

definition list_rows :: "go_error option \<Rightarrow> string \<Rightarrow> int \<Rightarrow> ('d \<Rightarrow> 'a list) \<Rightarrow> ('d, 'a list) tx" where
  "list_rows fault what lim q =
     (if lim \<le> 0 then liftT (Inl (invariant_error (what @ '': limit must be > 0'')))
      else mapErrT (wrap_error what) (\<lambda>u. query_stmt fault u (\<lambda>d. take (nat lim) (q d))))"

lemma bindT_Inr: "bindT m f u = (u', Inr y) \<longleftrightarrow> (\<exists>u1 x. m u = (u1, Inr x) \<and> f x u1 = (u', Inr y))"
  by (auto simp: bindT_def split: prod.splits sum.splits)

lemma liftT_Inr [simp]: "liftT r u = (u', Inr x) \<longleftrightarrow> u' = u \<and> r = Inr x"
  by (auto simp: liftT_def)

lemma mapErrT_Inr [simp]: "mapErrT f m u = (u', Inr x) \<longleftrightarrow> m u = (u', Inr x)"
  by (auto simp: mapErrT_def split: prod.splits sum.splits)

lemma opened_Inr [simp]: "opened m u = (u', Inr x) \<longleftrightarrow> uow_closed u = UowOpen \<and> m u = (u', Inr x)"
  by (auto simp: opened_def checkOpen_def)

lemma orNotFound_Some: "orNotFound m u = (u', Inr (Some x)) \<longleftrightarrow> m u = (u', Inr x)"
  by (auto simp: orNotFound_def split: prod.splits sum.splits if_splits)

lemma orNotFound_None:
  "orNotFound m u = (u', Inr None) \<longleftrightarrow> (\<exists>e. m u = (u', Inl e) \<and> errors_Is e ErrNotFound)"
  by (auto simp: orNotFound_def split: prod.splits sum.splits if_splits)

lemma exec_stmt_Inr:
  "exec_stmt fault u f = (u', Inr x) \<longleftrightarrow>
     \<not> uow_aborted u \<and> fault = None \<and> (\<exists>d. f (uow_data u) = Inr (d, x) \<and> u' = u\<lparr>uow_data := d\<rparr>)"
  by (auto simp: exec_stmt_def split: option.splits sum.splits)

lemma query_stmt_Inr:
  "query_stmt fault u q = (u', Inr x) \<longleftrightarrow>
     \<not> uow_aborted u \<and> fault = None \<and> x = q (uow_data u) \<and> u' = u"
  by (auto simp: query_stmt_def exec_stmt_Inr)

lemma only_row_Inr:
  "only_row fault q u = (u', Inr r) \<longleftrightarrow>
     \<not> uow_aborted u \<and> fault = None \<and> q (uow_data u) = [r] \<and> u' = u"
  by (auto simp: only_row_def bindT_Inr query_stmt_Inr split: list.splits)

text \<open>
  A row that is looked for and not found: the query gave none, or the driver said so in a statement
  that aborted the transaction.
\<close>

lemma only_row_not_found:
  assumes "orNotFound (opened (mapErrT asNotFound (only_row fault q))) u = (u', Inr None)"
  shows "u' = u \<and> \<not> uow_aborted u \<and> q (uow_data u) = [] \<or> uow_aborted u'"
proof -
  obtain e where "opened (mapErrT asNotFound (only_row fault q)) u = (u', Inl e)" "errors_Is e ErrNotFound"
    using assms by (auto simp: orNotFound_None)
  then show ?thesis
    by (auto simp: opened_def checkOpen_def mapErrT_def only_row_def bindT_def query_stmt_def exec_stmt_def
        liftT_def asNotFound_def errUoWClosed_def pg_aborted_def ent_not_found_def
        split: if_splits option.splits list.splits)
qed

lemma only_row_not_found_calm:
  assumes "uow_closed u = UowOpen" "\<not> uow_aborted u" "q (uow_data u) = []"
  shows "orNotFound (opened (mapErrT asNotFound (only_row None q))) u = (u, Inr None)"
  using assms
  by (auto simp: orNotFound_None opened_def checkOpen_def mapErrT_def only_row_def bindT_def
      query_stmt_def exec_stmt_def liftT_def asNotFound_def)

named_theorems tx_ok "what a successful statement of a transaction implies"

lemmas [tx_ok] = bindT_Inr exec_stmt_Inr query_stmt_Inr only_row_Inr orNotFound_Some

lemma list_rows_Inr [tx_ok]:
  "list_rows fault w lim q u = (u', Inr rs) \<longleftrightarrow> 0 < lim \<and> \<not> uow_aborted u \<and> fault = None \<and>
     rs = take (nat lim) (q (uow_data u)) \<and> u' = u"
  by (auto simp: list_rows_def query_stmt_Inr not_le)

lemma keeps_open_lift [intro]: "keeps_open (liftT r)"
  by (simp add: keeps_open_def liftT_def)

lemma keeps_open_bind [intro]:
  assumes "keeps_open m" "\<And>x. keeps_open (f x)"
  shows "keeps_open (bindT m f)"
  unfolding keeps_open_def
proof (intro allI)
  fix u
  have m: "uow_closed (fst (m u)) = uow_closed u" "uow_published (fst (m u)) = uow_published u"
    and f: "uow_closed (fst (f x v)) = uow_closed v" "uow_published (fst (f x v)) = uow_published v" for x v
    using assms by (simp_all add: keeps_open_def)
  show "uow_closed (fst (bindT m f u)) = uow_closed u \<and> uow_published (fst (bindT m f u)) = uow_published u"
    using m f by (cases "m u"; cases "snd (m u)") (simp_all add: bindT_def)
qed

lemma keeps_open_mapErr [intro]: "keeps_open m \<Longrightarrow> keeps_open (mapErrT f m)"
  by (simp add: keeps_open_def mapErrT_def prod.case_eq_if sum.case_eq_if)

lemma keeps_open_opened [intro]: "keeps_open m \<Longrightarrow> keeps_open (opened m)"
  by (auto simp: keeps_open_def opened_def split: option.splits)

lemma keeps_open_exec [intro]: "keeps_open (\<lambda>u. exec_stmt fault u f)"
  by (simp add: keeps_open_def)

lemma keeps_open_query [intro]: "keeps_open (\<lambda>u. query_stmt fault u f)"
  by (simp add: keeps_open_def)

lemma keeps_open_only [intro]: "keeps_open (only_row fault q)"
  unfolding only_row_def by (intro keeps_open_bind keeps_open_query keeps_open_lift)

lemma keeps_open_orNotFound [intro]: "keeps_open m \<Longrightarrow> keeps_open (orNotFound m)"
  by (simp add: keeps_open_def orNotFound_def prod.case_eq_if sum.case_eq_if)

lemma keeps_open_if [intro]: "keeps_open m \<Longrightarrow> keeps_open m' \<Longrightarrow> keeps_open (if b then m else m')"
  by simp

lemma keeps_open_list [intro]: "keeps_open (list_rows fault w lim q)"
  unfolding list_rows_def by (intro keeps_open_if keeps_open_mapErr keeps_open_query keeps_open_lift)

lemma within_tx_error:
  assumes "keeps_open fn" "within_tx env d fn = (d', Inl e)"
  shows "d' = d \<or> lost_commit env \<and>
    (\<exists>u x. fn (newUnitOfWork d) = (u, Inr x) \<and> \<not> uow_aborted u \<and> d' = uow_data u)"
proof -
  have k: "keeps_open (bindT fn (\<lambda>_. liftT (Inr ())))" using assms(1) by blast
  obtain d1 r where w: "WithinTx env d (bindT fn (\<lambda>_. liftT (Inr ()))) = (d1, r)"
    by (cases "WithinTx env d (bindT fn (\<lambda>_. liftT (Inr ())))")
  show ?thesis
  proof (cases r)
    case (Inl x)
    then have "WithinTx env d (bindT fn (\<lambda>_. liftT (Inr ()))) = (d', Inl x)"
      using w assms(2) by (auto simp: within_tx_def)
    from WithinTx_error [OF k this] show ?thesis by (auto simp: bindT_Inr)
  next
    case (Inr x)
    then have "WithinTx env d (bindT fn (\<lambda>_. liftT (Inr ()))) = (d1, Inr ())" using w by simp
    from WithinTx_ok [OF k this] obtain u where "bindT fn (\<lambda>_. liftT (Inr ())) (newUnitOfWork d) = (u, Inr ())"
      by blast
    with w Inr assms(2) show ?thesis by (auto simp: within_tx_def bindT_Inr)
  qed
qed

lemma within_tx_ok:
  assumes "keeps_open fn" "within_tx env d fn = (d', Inr x)"
  obtains u where "fn (newUnitOfWork d) = (u, Inr x)" "\<not> uow_aborted u" "d' = uow_data u"
proof -
  have k: "keeps_open (bindT fn (\<lambda>_. liftT (Inr ())))" using assms(1) by blast
  have "WithinTx env d (bindT fn (\<lambda>_. liftT (Inr ()))) = (d', Inr ())"
    and x: "snd (fn (newUnitOfWork d)) = Inr x"
    using assms(2) by (auto simp: within_tx_def split: prod.splits sum.splits)
  from WithinTx_ok [OF k this(1)] obtain u where
    "bindT fn (\<lambda>_. liftT (Inr ())) (newUnitOfWork d) = (u, Inr ())" "\<not> uow_aborted u" "d' = uow_data u"
    by blast
  with x that show thesis by (auto simp: bindT_Inr)
qed

text \<open>
  Whatever it answers, a transaction leaves the data as it was or as its successful callback made it.
\<close>

lemma within_tx_effect:
  assumes "keeps_open fn" "within_tx env d fn = (d', r)"
  shows "d' = d \<or> (\<exists>u x. fn (newUnitOfWork d) = (u, Inr x) \<and> \<not> uow_aborted u \<and> d' = uow_data u)"
proof (cases r)
  case (Inl e)
  with within_tx_error [OF assms(1)] assms(2) show ?thesis by blast
next
  case (Inr x)
  then have "within_tx env d fn = (d', Inr x)" using assms(2) by simp
  from within_tx_ok [OF assms(1) this] show ?thesis by blast
qed

lemma within_tx_callback_fails:
  assumes "keeps_open fn" "within_tx env d fn = (d', Inl e)" "\<forall>u x. fn (newUnitOfWork d) \<noteq> (u, Inr x)"
  shows "d' = d"
  using within_tx_error [OF assms(1,2)] assms(3) by blast

lemma within_tx_commits:
  assumes "keeps_open fn" "fn (newUnitOfWork d) = (u, Inr x)" "\<not> uow_aborted u"
  shows "within_tx calm_env d fn = (uow_data u, Inr x)"
proof -
  have k: "keeps_open (bindT fn (\<lambda>_. liftT (Inr ())))" using assms(1) by blast
  have "bindT fn (\<lambda>_. liftT (Inr ())) (newUnitOfWork d) = (u, Inr ())"
    using assms(2) by (auto simp: bindT_Inr)
  from WithinTx_commits [OF k this assms(3)] assms(2) show ?thesis
    by (simp add: within_tx_def calm_env_def)
qed

text \<open>What a transaction stored, whatever it answered, it stores with success when nothing fails.\<close>

lemma within_tx_as_calm:
  assumes "keeps_open fn"
  shows "fst (within_tx env d fn) = d \<or>
    (\<exists>x. within_tx calm_env d fn = (fst (within_tx env d fn), Inr x))"
  using within_tx_effect [OF assms surjective_pairing] within_tx_commits [OF assms] by metis

end
