(* ===== verification/Diagnosis_Store.thy ===== *)
theory Diagnosis_Store
  imports Repo_Rows Repo_Tx Diagnosis_Task Chat_Session
begin

text \<open>
  \<open>internal/persistence/repository/diagnosis_repo.go\<close>: the repository of diagnosis tasks, their
  events, chat sessions, turns, summaries and approvals, over the tables that
  \<open>internal/persistence/ent/schema\<close> declares with their validators, unique indexes and foreign keys.
  A row is the domain value with its ID. \<open>now\<close> is the time Ent stamps on a row, \<open>fault\<close> the
  driver's answer to the statement. A JSON column is kept as the text that was written. The lemmas
  say what a successful call implies and what it does to the tables.
\<close>

section \<open>Tables\<close>

record diagnosis_db =
  db_snapshots :: "int list"
  db_tasks :: "DiagnosisTask rows"
  db_events :: "DiagnosisTaskEvent rows"
  db_sessions :: "ChatSession rows"
  db_turns :: "ChatTurn rows"
  db_summaries :: "ChatSessionSummary rows"
  db_approvals :: "ChatSessionApproval rows"

section \<open>Tasks\<close>

definition task_validators :: "DiagnosisTask \<Rightarrow> bool" where
  "task_validators t \<longleftrightarrow>
     dt_WorkflowID t \<noteq> [] \<and> length (dt_WorkflowID t) \<le> 128 \<and> dt_RunID t \<noteq> [] \<and>
     length (dt_RunID t) \<le> 128 \<and> length (dt_Status t) \<le> 32 \<and> length (dt_FailureReason t) \<le> 1024"

definition insert_task ::
  "go_time \<Rightarrow> DiagnosisTask \<Rightarrow> diagnosis_db \<Rightarrow> (diagnosis_db \<times> DiagnosisTask) result" where
  "insert_task now t d =
     bindE (insert_row
         (\<exists>r \<in> set (tb_rows (db_tasks d)). dt_WorkflowID r = dt_WorkflowID t \<and> dt_RunID r = dt_RunID t)
         (dt_EvidenceSnapshotID t \<in> set (db_snapshots d))
         (\<lambda>i. t\<lparr>dt_ID := i, dt_CreatedAt := now, dt_UpdatedAt := now\<rparr>) (db_tasks d))
       (\<lambda>(rows, r). Inr (d\<lparr>db_tasks := rows\<rparr>, r))"

definition SaveTask ::
  "go_error option \<Rightarrow> go_time \<Rightarrow> DiagnosisTask \<Rightarrow> (diagnosis_db, DiagnosisTask) tx" where
  "SaveTask fault now t =
     opened (let t = (if dt_Status t \<noteq> [] then t else t\<lparr>dt_Status := DiagnosisStatusPending\<rparr>) in
       if \<not> task_validators t then liftT (Inl ent_validator_failed)
       else mapErrT asAlreadyExists (\<lambda>u. exec_stmt fault u (insert_task now t)))"

definition update_task_row :: "go_time \<Rightarrow> DiagnosisTask \<Rightarrow> DiagnosisTask \<Rightarrow> DiagnosisTask" where
  "update_task_row now t r =
     r\<lparr>dt_Status := dt_Status t, dt_FailureReason := dt_FailureReason t,
       dt_StartedAt := dt_StartedAt t, dt_FinishedAt := dt_FinishedAt t, dt_UpdatedAt := now\<rparr>"

definition UpdateTask ::
  "go_error option \<Rightarrow> go_time \<Rightarrow> DiagnosisTask \<Rightarrow> (diagnosis_db, DiagnosisTask) tx" where
  "UpdateTask fault now t =
     opened (if dt_ID t = 0 then
         liftT (Inl (invariant_error ''update diagnosis task: id must be non-zero''))
       else if \<not> (length (dt_Status t) \<le> 32 \<and> length (dt_FailureReason t) \<le> 1024) then
         liftT (Inl ent_validator_failed)
       else mapErrT asNotFound (bindT
         (\<lambda>u. exec_stmt fault u (\<lambda>d.
             case update_row dt_ID (dt_ID t) (update_task_row now t) (db_tasks d) of
               (rows, r) \<Rightarrow> Inr (d\<lparr>db_tasks := rows\<rparr>, r)))
         (\<lambda>r. liftT (the_row r))))"

definition FindTaskByID :: "go_error option \<Rightarrow> int \<Rightarrow> (diagnosis_db, DiagnosisTask) tx" where
  "FindTaskByID fault i =
     opened (mapErrT asNotFound
       (only_row fault (\<lambda>d. filter (\<lambda>r. dt_ID r = i) (tb_rows (db_tasks d)))))"

definition FindTaskByExecution ::
  "go_error option \<Rightarrow> string \<Rightarrow> string \<Rightarrow> (diagnosis_db, DiagnosisTask) tx" where
  "FindTaskByExecution fault workflowID runID =
     opened (if workflowID = [] then
         liftT (Inl (invariant_error ''find task by execution: workflow id must be non-empty''))
       else if runID = [] then
         liftT (Inl (invariant_error ''find task by execution: run id must be non-empty''))
       else mapErrT asNotFound (only_row fault
         (\<lambda>d. filter (\<lambda>r. dt_WorkflowID r = workflowID \<and> dt_RunID r = runID) (tb_rows (db_tasks d)))))"

section \<open>Events\<close>

definition task_event_validators :: "DiagnosisTaskEvent \<Rightarrow> bool" where
  "task_event_validators e \<longleftrightarrow> te_Kind e \<noteq> [] \<and> length (te_Kind e) \<le> 64 \<and>
     (case te_DedupeKey e of None \<Rightarrow> True | Some k \<Rightarrow> length k \<le> 128)"

text \<open>A null dedupe key is distinct from every key, itself included.\<close>

definition insert_task_event ::
  "go_time \<Rightarrow> DiagnosisTaskEvent \<Rightarrow> diagnosis_db \<Rightarrow> (diagnosis_db \<times> DiagnosisTaskEvent) result" where
  "insert_task_event now e d =
     bindE (insert_row
         (te_DedupeKey e \<noteq> None \<and>
          (\<exists>r \<in> set (tb_rows (db_events d)). te_TaskID r = te_TaskID e \<and> te_DedupeKey r = te_DedupeKey e))
         (te_TaskID e \<in> dt_ID ` set (tb_rows (db_tasks d)))
         (\<lambda>i. e\<lparr>te_ID := i,
                te_RecordedAt := (if \<not> IsZero (te_RecordedAt e) then te_RecordedAt e else now)\<rparr>)
         (db_events d))
       (\<lambda>(rows, r). Inr (d\<lparr>db_events := rows\<rparr>, r))"

definition AppendEvent ::
  "go_error option \<Rightarrow> go_time \<Rightarrow> DiagnosisTaskEvent \<Rightarrow> (diagnosis_db, DiagnosisTaskEvent) tx" where
  "AppendEvent fault now e =
     opened (if \<not> task_event_validators e then liftT (Inl ent_validator_failed)
       else mapErrT asAlreadyExists (\<lambda>u. exec_stmt fault u (insert_task_event now e)))"

definition FindEventByTaskAndDedupeKey ::
  "go_error option \<Rightarrow> int \<Rightarrow> string \<Rightarrow> (diagnosis_db, DiagnosisTaskEvent) tx" where
  "FindEventByTaskAndDedupeKey fault taskID dedupeKey =
     opened (if taskID = 0 then
         liftT (Inl (invariant_error ''find diagnosis event by dedupe key: task id must be non-zero''))
       else if dedupeKey = [] then
         liftT (Inl (invariant_error
           ''find diagnosis event by dedupe key: dedupe_key must be non-empty''))
       else mapErrT asNotFound (only_row fault
         (\<lambda>d. filter (\<lambda>r. te_TaskID r = taskID \<and> te_DedupeKey r = Some dedupeKey)
                (tb_rows (db_events d)))))"

definition ListEvents ::
  "go_error option \<Rightarrow> int \<Rightarrow> int \<Rightarrow> (diagnosis_db, DiagnosisTaskEvent list) tx" where
  "ListEvents fault taskID lim =
     opened (if taskID = 0 then
         liftT (Inl (invariant_error ''list diagnosis events: task id must be non-zero''))
       else list_rows fault ''list diagnosis events'' lim
         (\<lambda>d. sort_key (\<lambda>r. (te_OccurredAt r, te_ID r))
                (filter (\<lambda>r. te_TaskID r = taskID) (tb_rows (db_events d)))))"

definition ListEventsByTaskAndKind ::
  "go_error option \<Rightarrow> int \<Rightarrow> string \<Rightarrow> int \<Rightarrow> (diagnosis_db, DiagnosisTaskEvent list) tx" where
  "ListEventsByTaskAndKind fault taskID kind lim =
     opened (if taskID = 0 then
         liftT (Inl (invariant_error ''list diagnosis events by kind: task id must be non-zero''))
       else let kind = TrimSpace kind in
         if kind = [] then
           liftT (Inl (invariant_error ''list diagnosis events by kind: kind must be non-empty''))
         else list_rows fault ''list diagnosis events by kind'' lim
           (\<lambda>d. sort_key (\<lambda>r. (- te_OccurredAt r, - te_ID r))
                  (filter (\<lambda>r. te_TaskID r = taskID \<and> te_Kind r = kind) (tb_rows (db_events d)))))"

section \<open>Sessions\<close>

definition session_validators :: "ChatSession \<Rightarrow> bool" where
  "session_validators s \<longleftrightarrow>
     cs_SessionKey s \<noteq> [] \<and> length (cs_SessionKey s) \<le> 128 \<and>
     cs_OwnerSubject s \<noteq> [] \<and> length (cs_OwnerSubject s) \<le> 256 \<and>
     length (cs_Status s) \<le> 32 \<and> 0 \<le> cs_TurnCount s \<and> length (cs_CloseReason s) \<le> 128 \<and>
     length (cs_ApprovalMode s) \<le> 32"

definition insert_session ::
  "go_time \<Rightarrow> ChatSession \<Rightarrow> diagnosis_db \<Rightarrow> (diagnosis_db \<times> ChatSession) result" where
  "insert_session now s d =
     bindE (insert_row
         (\<exists>r \<in> set (tb_rows (db_sessions d)).
            cs_SessionKey r = cs_SessionKey s \<or> cs_DiagnosisTaskID r = cs_DiagnosisTaskID s)
         (cs_DiagnosisTaskID s \<in> dt_ID ` set (tb_rows (db_tasks d)))
         (\<lambda>i. s\<lparr>cs_ID := i, cs_CreatedAt := now, cs_UpdatedAt := now\<rparr>) (db_sessions d))
       (\<lambda>(rows, r). Inr (d\<lparr>db_sessions := rows\<rparr>, r))"

definition SaveChatSession ::
  "go_error option \<Rightarrow> go_time \<Rightarrow> ChatSession \<Rightarrow> (diagnosis_db, ChatSession) tx" where
  "SaveChatSession fault now s =
     opened (let s = s\<lparr>
           cs_ApprovalMode := (if cs_ApprovalMode s \<noteq> [] then cs_ApprovalMode s else ApprovalModeSingle),
           cs_Status := (if cs_Status s \<noteq> [] then cs_Status s else ChatSessionStatusOpen)\<rparr> in
       if \<not> session_validators s then liftT (Inl ent_validator_failed)
       else mapErrT asAlreadyExists (\<lambda>u. exec_stmt fault u (insert_session now s)))"

definition update_session_row :: "go_time \<Rightarrow> ChatSession \<Rightarrow> ChatSession \<Rightarrow> ChatSession" where
  "update_session_row now s r =
     r\<lparr>cs_Status := cs_Status s, cs_TurnCount := cs_TurnCount s,
       cs_LastActivityAt := cs_LastActivityAt s, cs_CloseReason := cs_CloseReason s,
       cs_ClosedAt := cs_ClosedAt s, cs_UpdatedAt := now\<rparr>"

definition UpdateChatSession ::
  "go_error option \<Rightarrow> go_time \<Rightarrow> ChatSession \<Rightarrow> (diagnosis_db, ChatSession) tx" where
  "UpdateChatSession fault now s =
     opened (if cs_ID s = 0 then
         liftT (Inl (invariant_error ''update chat session: id must be non-zero''))
       else if \<not> (length (cs_Status s) \<le> 32 \<and> 0 \<le> cs_TurnCount s \<and> length (cs_CloseReason s) \<le> 128)
       then liftT (Inl ent_validator_failed)
       else mapErrT asNotFound (bindT
         (\<lambda>u. exec_stmt fault u (\<lambda>d.
             case update_row cs_ID (cs_ID s) (update_session_row now s) (db_sessions d) of
               (rows, r) \<Rightarrow> Inr (d\<lparr>db_sessions := rows\<rparr>, r)))
         (\<lambda>r. liftT (the_row r))))"

definition FindChatSessionByID :: "go_error option \<Rightarrow> int \<Rightarrow> (diagnosis_db, ChatSession) tx" where
  "FindChatSessionByID fault i =
     opened (if i = 0 then
         liftT (Inl (invariant_error ''find chat session by id: id must be non-zero''))
       else mapErrT asNotFound
         (only_row fault (\<lambda>d. filter (\<lambda>r. cs_ID r = i) (tb_rows (db_sessions d)))))"

definition FindChatSessionByKey :: "go_error option \<Rightarrow> string \<Rightarrow> (diagnosis_db, ChatSession) tx" where
  "FindChatSessionByKey fault sessionKey =
     opened (if sessionKey = [] then
         liftT (Inl (invariant_error ''find chat session by key: session_key must be non-empty''))
       else mapErrT asNotFound
         (only_row fault (\<lambda>d. filter (\<lambda>r. cs_SessionKey r = sessionKey) (tb_rows (db_sessions d)))))"

section \<open>Turns\<close>

definition turn_validators :: "ChatTurn \<Rightarrow> bool" where
  "turn_validators t \<longleftrightarrow>
     ct_MessageID t \<noteq> [] \<and> length (ct_MessageID t) \<le> 128 \<and> 0 < ct_Sequence t \<and>
     ct_Role t \<noteq> [] \<and> length (ct_Role t) \<le> 16 \<and>
     ct_ActorSubject t \<noteq> [] \<and> length (ct_ActorSubject t) \<le> 256 \<and> ct_Content t \<noteq> []"

definition insert_turn ::
  "go_time \<Rightarrow> ChatTurn \<Rightarrow> diagnosis_db \<Rightarrow> (diagnosis_db \<times> ChatTurn) result" where
  "insert_turn now t d =
     bindE (insert_row
         (\<exists>r \<in> set (tb_rows (db_turns d)). ct_SessionID r = ct_SessionID t \<and>
            (ct_MessageID r = ct_MessageID t \<or> ct_Sequence r = ct_Sequence t))
         (ct_SessionID t \<in> cs_ID ` set (tb_rows (db_sessions d)))
         (\<lambda>i. t\<lparr>ct_ID := i, ct_CreatedAt := now\<rparr>) (db_turns d))
       (\<lambda>(rows, r). Inr (d\<lparr>db_turns := rows\<rparr>, r))"

definition SaveChatTurn ::
  "go_error option \<Rightarrow> go_time \<Rightarrow> ChatTurn \<Rightarrow> (diagnosis_db, ChatTurn) tx" where
  "SaveChatTurn fault now t =
     opened (if \<not> turn_validators t then liftT (Inl ent_validator_failed)
       else mapErrT asAlreadyExists (\<lambda>u. exec_stmt fault u (insert_turn now t)))"

definition FindChatTurnBySessionAndMessageID ::
  "go_error option \<Rightarrow> int \<Rightarrow> string \<Rightarrow> (diagnosis_db, ChatTurn) tx" where
  "FindChatTurnBySessionAndMessageID fault sessionID messageID =
     opened (if sessionID = 0 then
         liftT (Inl (invariant_error ''find chat turn by message id: session_id must be non-zero''))
       else if messageID = [] then
         liftT (Inl (invariant_error ''find chat turn by message id: message_id must be non-empty''))
       else mapErrT asNotFound (only_row fault
         (\<lambda>d. filter (\<lambda>r. ct_SessionID r = sessionID \<and> ct_MessageID r = messageID)
                (tb_rows (db_turns d)))))"

definition session_turns :: "int \<Rightarrow> diagnosis_db \<Rightarrow> ChatTurn list" where
  "session_turns sessionID d =
     sort_key ct_Sequence (filter (\<lambda>r. ct_SessionID r = sessionID) (tb_rows (db_turns d)))"

definition ListChatTurnsBySession ::
  "go_error option \<Rightarrow> int \<Rightarrow> int \<Rightarrow> (diagnosis_db, ChatTurn list) tx" where
  "ListChatTurnsBySession fault sessionID lim =
     opened (if sessionID = 0 then
         liftT (Inl (invariant_error ''list chat turns: session_id must be non-zero''))
       else list_rows fault ''list chat turns'' lim (session_turns sessionID))"

section \<open>Summaries\<close>

definition summary_validators :: "ChatSessionSummary \<Rightarrow> bool" where
  "summary_validators s \<longleftrightarrow>
     0 < ss_Version s \<and> ss_SchemaVersion s \<noteq> [] \<and> length (ss_SchemaVersion s) \<le> 64 \<and>
     0 \<le> ss_SourceFirstSequence s \<and> 0 \<le> ss_SourceLastSequence s \<and> 0 \<le> ss_SourceTurnCount s \<and>
     length (ss_SourceDigest s) = 64"

definition insert_summary ::
  "go_time \<Rightarrow> ChatSessionSummary \<Rightarrow> diagnosis_db \<Rightarrow> (diagnosis_db \<times> ChatSessionSummary) result" where
  "insert_summary now s d =
     bindE (insert_row
         (\<exists>r \<in> set (tb_rows (db_summaries d)). ss_SessionID r = ss_SessionID s \<and>
            (ss_Version r = ss_Version s \<or> ss_SourceDigest r = ss_SourceDigest s))
         (ss_SessionID s \<in> cs_ID ` set (tb_rows (db_sessions d)))
         (\<lambda>i. s\<lparr>ss_ID := i, ss_CreatedAt := now\<rparr>) (db_summaries d))
       (\<lambda>(rows, r). Inr (d\<lparr>db_summaries := rows\<rparr>, r))"

definition SaveChatSessionSummary ::
  "go_error option \<Rightarrow> go_time \<Rightarrow> ChatSessionSummary \<Rightarrow> (diagnosis_db, ChatSessionSummary) tx" where
  "SaveChatSessionSummary fault now s =
     opened (if \<not> summary_validators s then liftT (Inl ent_validator_failed)
       else mapErrT asAlreadyExists (\<lambda>u. exec_stmt fault u (insert_summary now s)))"

definition FindChatSessionSummaryBySessionAndVersion ::
  "go_error option \<Rightarrow> int \<Rightarrow> int \<Rightarrow> (diagnosis_db, ChatSessionSummary) tx" where
  "FindChatSessionSummaryBySessionAndVersion fault sessionID version =
     opened (if sessionID = 0 then
         liftT (Inl (invariant_error
           ''find chat session summary by version: session_id must be non-zero''))
       else if version \<le> 0 then
         liftT (Inl (invariant_error ''find chat session summary by version: version must be > 0''))
       else mapErrT asNotFound (only_row fault
         (\<lambda>d. filter (\<lambda>r. ss_SessionID r = sessionID \<and> ss_Version r = version)
                (tb_rows (db_summaries d)))))"

definition FindLatestChatSessionSummary ::
  "go_error option \<Rightarrow> int \<Rightarrow> (diagnosis_db, ChatSessionSummary) tx" where
  "FindLatestChatSessionSummary fault sessionID =
     opened (if sessionID = 0 then
         liftT (Inl (invariant_error ''find latest chat session summary: session_id must be non-zero''))
       else mapErrT asNotFound (only_row fault
         (\<lambda>d. take 1 (sort_key (\<lambda>r. (- ss_Version r, - ss_ID r))
                (filter (\<lambda>r. ss_SessionID r = sessionID) (tb_rows (db_summaries d)))))))"

section \<open>Approvals\<close>

definition approval_validators :: "ChatSessionApproval \<Rightarrow> bool" where
  "approval_validators a \<longleftrightarrow>
     length (sa_ConclusionDigest a) = 64 \<and>
     sa_ActorSubject a \<noteq> [] \<and> length (sa_ActorSubject a) \<le> 256 \<and>
     sa_Authority a \<noteq> [] \<and> length (sa_Authority a) \<le> 32 \<and>
     sa_Reason a \<noteq> [] \<and> length (sa_Reason a) \<le> 512"

definition insert_approval ::
  "go_time \<Rightarrow> ChatSessionApproval \<Rightarrow> diagnosis_db \<Rightarrow> (diagnosis_db \<times> ChatSessionApproval) result" where
  "insert_approval now a d =
     bindE (insert_row
         (\<exists>r \<in> set (tb_rows (db_approvals d)). sa_SessionID r = sa_SessionID a \<and>
            sa_ConclusionDigest r = sa_ConclusionDigest a \<and>
            (sa_ActorSubject r = sa_ActorSubject a \<or> sa_Authority r = sa_Authority a))
         (sa_SessionID a \<in> cs_ID ` set (tb_rows (db_sessions d)))
         (\<lambda>i. a\<lparr>sa_ID := i, sa_CreatedAt := now\<rparr>) (db_approvals d))
       (\<lambda>(rows, r). Inr (d\<lparr>db_approvals := rows\<rparr>, r))"

definition SaveChatSessionApproval ::
  "go_error option \<Rightarrow> go_time \<Rightarrow> ChatSessionApproval \<Rightarrow> (diagnosis_db, ChatSessionApproval) tx" where
  "SaveChatSessionApproval fault now a =
     opened (if \<not> approval_validators a then liftT (Inl ent_validator_failed)
       else mapErrT asAlreadyExists (\<lambda>u. exec_stmt fault u (insert_approval now a)))"

definition FindChatSessionApproval ::
  "go_error option \<Rightarrow> int \<Rightarrow> string \<Rightarrow> string \<Rightarrow> (diagnosis_db, ChatSessionApproval) tx" where
  "FindChatSessionApproval fault sessionID digest actor =
     opened (let digest = TrimSpace digest; actor = TrimSpace actor in
       if sessionID = 0 \<or> digest = [] \<or> actor = [] then
         liftT (Inl (invariant_error
           ''find chat session approval: session_id, conclusion_digest, and actor_subject must be set''))
       else mapErrT asNotFound (only_row fault
         (\<lambda>d. filter (\<lambda>r. sa_SessionID r = sessionID \<and> sa_ConclusionDigest r = digest \<and>
                sa_ActorSubject r = actor) (tb_rows (db_approvals d)))))"

definition HasChatSessionApprovals :: "go_error option \<Rightarrow> int \<Rightarrow> (diagnosis_db, bool) tx" where
  "HasChatSessionApprovals fault sessionID =
     opened (if sessionID = 0 then
         liftT (Inl (invariant_error ''has chat session approvals: session_id must be non-zero''))
       else mapErrT (wrap_error ''has chat session approvals'')
         (\<lambda>u. query_stmt fault u (\<lambda>d. list_ex (\<lambda>r. sa_SessionID r = sessionID) (tb_rows (db_approvals d)))))"

definition ListChatSessionApprovals ::
  "go_error option \<Rightarrow> int \<Rightarrow> string \<Rightarrow> int \<Rightarrow> (diagnosis_db, ChatSessionApproval list) tx" where
  "ListChatSessionApprovals fault sessionID digest lim =
     opened (let digest = TrimSpace digest in
       if sessionID = 0 \<or> digest = [] then
         liftT (Inl (invariant_error
           ''list chat session approvals: session_id and conclusion_digest must be set''))
       else list_rows fault ''list chat session approvals'' lim
         (\<lambda>d. sort_key (\<lambda>r. (sa_ApprovedAt r, sa_ID r))
                (filter (\<lambda>r. sa_SessionID r = sessionID \<and> sa_ConclusionDigest r = digest)
                   (tb_rows (db_approvals d)))))"

section \<open>Successful statements\<close>

lemma insert_task_Inr:
  "insert_task now t d = Inr (d', r) \<longleftrightarrow>
     (\<forall>x \<in> set (tb_rows (db_tasks d)). \<not> (dt_WorkflowID x = dt_WorkflowID t \<and> dt_RunID x = dt_RunID t)) \<and>
     dt_EvidenceSnapshotID t \<in> set (db_snapshots d) \<and>
     r = t\<lparr>dt_ID := tb_next (db_tasks d), dt_CreatedAt := now, dt_UpdatedAt := now\<rparr> \<and>
     d' = d\<lparr>db_tasks := append_row (db_tasks d) r\<rparr>"
  by (auto simp: insert_task_def bindE_eq_Inr_iff insert_row_Inr)

lemma insert_task_event_Inr:
  "insert_task_event now e d = Inr (d', r) \<longleftrightarrow>
     (te_DedupeKey e \<noteq> None \<longrightarrow> (\<forall>x \<in> set (tb_rows (db_events d)).
        \<not> (te_TaskID x = te_TaskID e \<and> te_DedupeKey x = te_DedupeKey e))) \<and>
     te_TaskID e \<in> dt_ID ` set (tb_rows (db_tasks d)) \<and>
     r = e\<lparr>te_ID := tb_next (db_events d),
       te_RecordedAt := (if \<not> IsZero (te_RecordedAt e) then te_RecordedAt e else now)\<rparr> \<and>
     d' = d\<lparr>db_events := append_row (db_events d) r\<rparr>"
  by (auto simp: insert_task_event_def bindE_eq_Inr_iff insert_row_Inr)

lemma insert_session_Inr:
  "insert_session now s d = Inr (d', r) \<longleftrightarrow>
     (\<forall>x \<in> set (tb_rows (db_sessions d)).
        cs_SessionKey x \<noteq> cs_SessionKey s \<and> cs_DiagnosisTaskID x \<noteq> cs_DiagnosisTaskID s) \<and>
     cs_DiagnosisTaskID s \<in> dt_ID ` set (tb_rows (db_tasks d)) \<and>
     r = s\<lparr>cs_ID := tb_next (db_sessions d), cs_CreatedAt := now, cs_UpdatedAt := now\<rparr> \<and>
     d' = d\<lparr>db_sessions := append_row (db_sessions d) r\<rparr>"
  by (auto simp: insert_session_def bindE_eq_Inr_iff insert_row_Inr)

lemma insert_turn_Inr:
  "insert_turn now t d = Inr (d', r) \<longleftrightarrow>
     (\<forall>x \<in> set (tb_rows (db_turns d)). ct_SessionID x = ct_SessionID t \<longrightarrow>
        ct_MessageID x \<noteq> ct_MessageID t \<and> ct_Sequence x \<noteq> ct_Sequence t) \<and>
     ct_SessionID t \<in> cs_ID ` set (tb_rows (db_sessions d)) \<and>
     r = t\<lparr>ct_ID := tb_next (db_turns d), ct_CreatedAt := now\<rparr> \<and>
     d' = d\<lparr>db_turns := append_row (db_turns d) r\<rparr>"
  by (auto simp: insert_turn_def bindE_eq_Inr_iff insert_row_Inr)

lemma insert_summary_Inr:
  "insert_summary now s d = Inr (d', r) \<longleftrightarrow>
     (\<forall>x \<in> set (tb_rows (db_summaries d)). ss_SessionID x = ss_SessionID s \<longrightarrow>
        ss_Version x \<noteq> ss_Version s \<and> ss_SourceDigest x \<noteq> ss_SourceDigest s) \<and>
     ss_SessionID s \<in> cs_ID ` set (tb_rows (db_sessions d)) \<and>
     r = s\<lparr>ss_ID := tb_next (db_summaries d), ss_CreatedAt := now\<rparr> \<and>
     d' = d\<lparr>db_summaries := append_row (db_summaries d) r\<rparr>"
  by (auto simp: insert_summary_def bindE_eq_Inr_iff insert_row_Inr)

lemma insert_approval_Inr:
  "insert_approval now a d = Inr (d', r) \<longleftrightarrow>
     (\<forall>x \<in> set (tb_rows (db_approvals d)). sa_SessionID x = sa_SessionID a \<longrightarrow>
        sa_ConclusionDigest x = sa_ConclusionDigest a \<longrightarrow>
        sa_ActorSubject x \<noteq> sa_ActorSubject a \<and> sa_Authority x \<noteq> sa_Authority a) \<and>
     sa_SessionID a \<in> cs_ID ` set (tb_rows (db_sessions d)) \<and>
     r = a\<lparr>sa_ID := tb_next (db_approvals d), sa_CreatedAt := now\<rparr> \<and>
     d' = d\<lparr>db_approvals := append_row (db_approvals d) r\<rparr>"
  by (auto simp: insert_approval_def bindE_eq_Inr_iff insert_row_Inr)

abbreviation live :: "'d uow \<Rightarrow> bool" where
  "live u \<equiv> uow_closed u = UowOpen \<and> \<not> uow_aborted u"

lemma SaveTask_Inr [tx_ok]:
  "SaveTask fault now t u = (u', Inr r) \<longleftrightarrow> live u \<and> fault = None \<and>
     (let t = (if dt_Status t \<noteq> [] then t else t\<lparr>dt_Status := DiagnosisStatusPending\<rparr>)
      in task_validators t \<and> (\<exists>d. insert_task now t (uow_data u) = Inr (d, r) \<and> u' = u\<lparr>uow_data := d\<rparr>))"
  by (auto simp: SaveTask_def exec_stmt_Inr Let_def)

lemma UpdateTask_Inr [tx_ok]:
  "UpdateTask fault now t u = (u', Inr r) \<longleftrightarrow> live u \<and> fault = None \<and> dt_ID t \<noteq> 0 \<and>
     length (dt_Status t) \<le> 32 \<and> length (dt_FailureReason t) \<le> 1024 \<and>
     (\<exists>x. find (\<lambda>r. dt_ID r = dt_ID t) (tb_rows (db_tasks (uow_data u))) = Some x \<and>
        r = update_task_row now t x) \<and>
     u' = u\<lparr>uow_data := (uow_data u)\<lparr>db_tasks := fst (update_row dt_ID (dt_ID t) (update_task_row now t)
            (db_tasks (uow_data u)))\<rparr>\<rparr>"
  by (auto simp: UpdateTask_def bindT_Inr exec_stmt_Inr update_row_eq split: prod.splits)
    (auto simp: update_row_def)

lemma FindTaskByID_Inr [tx_ok]:
  "FindTaskByID fault i u = (u', Inr r) \<longleftrightarrow> live u \<and> fault = None \<and>
     filter (\<lambda>r. dt_ID r = i) (tb_rows (db_tasks (uow_data u))) = [r] \<and> u' = u"
  by (auto simp: FindTaskByID_def only_row_Inr)

lemma AppendEvent_Inr [tx_ok]:
  "AppendEvent fault now e u = (u', Inr r) \<longleftrightarrow> live u \<and> fault = None \<and> task_event_validators e \<and>
     (\<exists>d. insert_task_event now e (uow_data u) = Inr (d, r) \<and> u' = u\<lparr>uow_data := d\<rparr>)"
  by (auto simp: AppendEvent_def exec_stmt_Inr)

lemma FindEventByTaskAndDedupeKey_Inr [tx_ok]:
  "FindEventByTaskAndDedupeKey fault i k u = (u', Inr r) \<longleftrightarrow> live u \<and> fault = None \<and> i \<noteq> 0 \<and> k \<noteq> [] \<and>
     filter (\<lambda>r. te_TaskID r = i \<and> te_DedupeKey r = Some k) (tb_rows (db_events (uow_data u))) = [r] \<and> u' = u"
  by (auto simp: FindEventByTaskAndDedupeKey_def only_row_Inr)

lemma SaveChatSession_Inr [tx_ok]:
  "SaveChatSession fault now s u = (u', Inr r) \<longleftrightarrow> live u \<and> fault = None \<and>
     (let s = s\<lparr>cs_ApprovalMode := (if cs_ApprovalMode s \<noteq> [] then cs_ApprovalMode s else ApprovalModeSingle),
           cs_Status := (if cs_Status s \<noteq> [] then cs_Status s else ChatSessionStatusOpen)\<rparr>
      in session_validators s \<and> (\<exists>d. insert_session now s (uow_data u) = Inr (d, r) \<and> u' = u\<lparr>uow_data := d\<rparr>))"
  by (auto simp: SaveChatSession_def exec_stmt_Inr Let_def)

lemma UpdateChatSession_Inr [tx_ok]:
  "UpdateChatSession fault now s u = (u', Inr r) \<longleftrightarrow> live u \<and> fault = None \<and> cs_ID s \<noteq> 0 \<and>
     length (cs_Status s) \<le> 32 \<and> 0 \<le> cs_TurnCount s \<and> length (cs_CloseReason s) \<le> 128 \<and>
     (\<exists>x. find (\<lambda>r. cs_ID r = cs_ID s) (tb_rows (db_sessions (uow_data u))) = Some x \<and>
        r = update_session_row now s x) \<and>
     u' = u\<lparr>uow_data := (uow_data u)\<lparr>db_sessions := fst (update_row cs_ID (cs_ID s)
            (update_session_row now s) (db_sessions (uow_data u)))\<rparr>\<rparr>"
  by (auto simp: UpdateChatSession_def bindT_Inr exec_stmt_Inr update_row_eq split: prod.splits)
    (auto simp: update_row_def)

lemma FindChatSessionByKey_Inr [tx_ok]:
  "FindChatSessionByKey fault k u = (u', Inr r) \<longleftrightarrow> live u \<and> fault = None \<and> k \<noteq> [] \<and>
     filter (\<lambda>r. cs_SessionKey r = k) (tb_rows (db_sessions (uow_data u))) = [r] \<and> u' = u"
  by (auto simp: FindChatSessionByKey_def only_row_Inr)

lemma SaveChatTurn_Inr [tx_ok]:
  "SaveChatTurn fault now t u = (u', Inr r) \<longleftrightarrow> live u \<and> fault = None \<and> turn_validators t \<and>
     (\<exists>d. insert_turn now t (uow_data u) = Inr (d, r) \<and> u' = u\<lparr>uow_data := d\<rparr>)"
  by (auto simp: SaveChatTurn_def exec_stmt_Inr)

lemma FindChatTurn_Inr [tx_ok]:
  "FindChatTurnBySessionAndMessageID fault i m u = (u', Inr r) \<longleftrightarrow> live u \<and> fault = None \<and> i \<noteq> 0 \<and> m \<noteq> [] \<and>
     filter (\<lambda>r. ct_SessionID r = i \<and> ct_MessageID r = m) (tb_rows (db_turns (uow_data u))) = [r] \<and> u' = u"
  by (auto simp: FindChatTurnBySessionAndMessageID_def only_row_Inr)

lemma ListChatTurns_Inr [tx_ok]:
  "ListChatTurnsBySession fault i lim u = (u', Inr rs) \<longleftrightarrow> live u \<and> fault = None \<and> i \<noteq> 0 \<and> 0 < lim \<and>
     rs = take (nat lim) (session_turns i (uow_data u)) \<and> u' = u"
  by (auto simp: ListChatTurnsBySession_def list_rows_Inr)

lemma SaveSummary_Inr [tx_ok]:
  "SaveChatSessionSummary fault now s u = (u', Inr r) \<longleftrightarrow> live u \<and> fault = None \<and> summary_validators s \<and>
     (\<exists>d. insert_summary now s (uow_data u) = Inr (d, r) \<and> u' = u\<lparr>uow_data := d\<rparr>)"
  by (auto simp: SaveChatSessionSummary_def exec_stmt_Inr)

lemma FindSummary_Inr [tx_ok]:
  "FindChatSessionSummaryBySessionAndVersion fault i v u = (u', Inr r) \<longleftrightarrow> live u \<and> fault = None \<and> i \<noteq> 0 \<and>
     0 < v \<and> filter (\<lambda>r. ss_SessionID r = i \<and> ss_Version r = v) (tb_rows (db_summaries (uow_data u))) = [r] \<and>
     u' = u"
  by (auto simp: FindChatSessionSummaryBySessionAndVersion_def only_row_Inr not_le)

lemma SaveApproval_Inr [tx_ok]:
  "SaveChatSessionApproval fault now a u = (u', Inr r) \<longleftrightarrow> live u \<and> fault = None \<and> approval_validators a \<and>
     (\<exists>d. insert_approval now a (uow_data u) = Inr (d, r) \<and> u' = u\<lparr>uow_data := d\<rparr>)"
  by (auto simp: SaveChatSessionApproval_def exec_stmt_Inr)

definition conclusion_approvals :: "int \<Rightarrow> string \<Rightarrow> diagnosis_db \<Rightarrow> ChatSessionApproval list" where
  "conclusion_approvals i digest d =
     sort_key (\<lambda>r. (sa_ApprovedAt r, sa_ID r))
       (filter (\<lambda>r. sa_SessionID r = i \<and> sa_ConclusionDigest r = digest) (tb_rows (db_approvals d)))"

lemma FindApproval_Inr [tx_ok]:
  "FindChatSessionApproval fault i digest actor u = (u', Inr r) \<longleftrightarrow> live u \<and> fault = None \<and> i \<noteq> 0 \<and>
     TrimSpace digest \<noteq> [] \<and> TrimSpace actor \<noteq> [] \<and>
     filter (\<lambda>r. sa_SessionID r = i \<and> sa_ConclusionDigest r = TrimSpace digest \<and>
        sa_ActorSubject r = TrimSpace actor) (tb_rows (db_approvals (uow_data u))) = [r] \<and> u' = u"
  by (auto simp: FindChatSessionApproval_def Let_def only_row_Inr)

lemma ListApprovals_Inr [tx_ok]:
  "ListChatSessionApprovals fault i digest lim u = (u', Inr rs) \<longleftrightarrow> live u \<and> fault = None \<and> i \<noteq> 0 \<and>
     TrimSpace digest \<noteq> [] \<and> 0 < lim \<and>
     rs = take (nat lim) (conclusion_approvals i (TrimSpace digest) (uow_data u)) \<and> u' = u"
  by (auto simp: ListChatSessionApprovals_def Let_def list_rows_Inr conclusion_approvals_def)

section \<open>No operation closes its unit of work\<close>

named_theorems store_open "operations that leave the unit of work as open as it was"

declare keeps_open_list [store_open]

lemma keeps_open_store [store_open]:
  "keeps_open (SaveTask fault now t)" "keeps_open (UpdateTask fault now t)"
  "keeps_open (FindTaskByID fault i)" "keeps_open (FindTaskByExecution fault w k)"
  "keeps_open (AppendEvent fault now e)" "keeps_open (FindEventByTaskAndDedupeKey fault i k)"
  "keeps_open (SaveChatSession fault now s)" "keeps_open (UpdateChatSession fault now s)"
  "keeps_open (FindChatSessionByKey fault k)" "keeps_open (SaveChatTurn fault now ct)"
  "keeps_open (FindChatTurnBySessionAndMessageID fault i k)" "keeps_open (ListChatTurnsBySession fault i lim)"
  "keeps_open (SaveChatSessionSummary fault now ss)"
  "keeps_open (FindChatSessionSummaryBySessionAndVersion fault i v)"
  "keeps_open (SaveChatSessionApproval fault now sa)" "keeps_open (FindChatSessionApproval fault i w k)"
  "keeps_open (ListChatSessionApprovals fault i w lim)"
  unfolding SaveTask_def UpdateTask_def FindTaskByID_def FindTaskByExecution_def AppendEvent_def
    FindEventByTaskAndDedupeKey_def SaveChatSession_def UpdateChatSession_def FindChatSessionByKey_def
    SaveChatTurn_def FindChatTurnBySessionAndMessageID_def ListChatTurnsBySession_def
    SaveChatSessionSummary_def FindChatSessionSummaryBySessionAndVersion_def SaveChatSessionApproval_def
    FindChatSessionApproval_def ListChatSessionApprovals_def Let_def
  by (intro keeps_open_opened keeps_open_if keeps_open_mapErr keeps_open_bind keeps_open_only
      keeps_open_list keeps_open_exec keeps_open_lift)+

end
