(* ===== verification/Room_Records.thy ===== *)
theory Room_Records
  imports Assistant_Output Compression Diagnosis_Store Room_Workflow
begin

text \<open>
  The pure part of \<open>orchestrator/temporal/diagnosis_room_persistence_activity.go\<close>: what the activities
  of a room accept, how they bind a request to its session and task, the records they return, the
  final conclusion they derive from a transcript, and the payloads and keys of the lifecycle events.
  \<open>json.Marshal\<close> on the map of a payload is the argument \<open>vl_marshal\<close>; a map is the list of its entries.
\<close>

section \<open>Constants and requests\<close>

abbreviation EventOpened :: string where "EventOpened \<equiv> ''diagnosis_room.opened''"
abbreviation EventTurnPersisted :: string where "EventTurnPersisted \<equiv> ''diagnosis_room.turn_persisted''"
abbreviation EventEvidenceCollected :: string where
  "EventEvidenceCollected \<equiv> ''diagnosis_room.evidence_collected''"
abbreviation EventSupplementalEvidence :: string where
  "EventSupplementalEvidence \<equiv> ''diagnosis_room.supplemental_evidence_provided''"
abbreviation EventFinalConclusionReady :: string where
  "EventFinalConclusionReady \<equiv> ''diagnosis_room.final_conclusion_ready''"
abbreviation EventFailed :: string where "EventFailed \<equiv> ''diagnosis_room.failed''"
abbreviation EventClosed :: string where "EventClosed \<equiv> ''diagnosis_room.closed''"
abbreviation EventConclusionApproved :: string where
  "EventConclusionApproved \<equiv> ''diagnosis_room.conclusion_approved''"

abbreviation RoomAgentName :: string where "RoomAgentName \<equiv> ''diagnosis-assistant''"
definition FinalConclusionMaxRunes :: nat where "FinalConclusionMaxRunes = 4096"
definition ApprovalReadLimit :: int where "ApprovalReadLimit = 3"
definition RetrievalReferenceLimit :: nat where "RetrievalReferenceLimit = 10"

record EnsureDiagnosisChatSessionInput =
  ei_SessionID :: string
  ei_DiagnosisTaskID :: int
  ei_OwnerSubject :: string
  ei_StartedAt :: go_time
  ei_ApprovalMode :: string

record EnsureDiagnosisChatSessionResult =
  eo_ChatSessionID :: int
  eo_LifecycleEventID :: int
  eo_Status :: string
  eo_TurnCount :: int
  eo_StartedAt :: go_time
  eo_LastActivityAt :: go_time

record EnsureDiagnosisRoomSessionInput =
  ni_SessionID :: string
  ni_EvidenceSnapshotID :: int
  ni_WorkflowID :: string
  ni_RunID :: string
  ni_OwnerSubject :: string
  ni_StartedAt :: go_time
  ni_ApprovalMode :: string

record EnsureDiagnosisRoomSessionResult =
  no_DiagnosisTaskID :: int
  no_ChatSessionID :: int
  no_LifecycleEventID :: int
  no_Status :: string
  no_TurnCount :: int
  no_StartedAt :: go_time
  no_LastActivityAt :: go_time

record RecordDiagnosisConclusionApprovalInput =
  qi_SessionID :: string
  qi_DiagnosisTaskID :: int
  qi_OwnerSubject :: string
  qi_ActorSubject :: string
  qi_Authority :: string
  qi_ApprovalMode :: string
  qi_Reason :: string
  qi_AssistantMessageID :: string
  qi_AssistantSequence :: int
  qi_ConclusionContent :: string
  qi_ConclusionDigest :: string
  qi_ApprovedAt :: go_time

record RecordDiagnosisConclusionApprovalResult =
  qo_Approval :: ChatSessionApproval
  qo_LifecycleEventID :: int

section \<open>Payloads\<close>

datatype payload_value =
    PvStr string
  | PvInt int
  | PvBool bool
  | PvTime go_time
  | PvTimePtr "go_time option"
  | PvStrs "string list"
  | PvRaw string
  | PvRequests "EvidenceRequest list"
  | PvInsight ConsultationInsight
  | PvSupplemental SupplementalEvidence
  | PvConclusion DiagnosisRoomFinalConclusion
  | PvSummary "DiagnosisRoomConversationSummary option"
  | PvApprovals "ChatSessionApproval list"

type_synonym payload = "(string \<times> payload_value) list"

record diagnosisRoomAssistantTurnMetadata =
  tm_Confidence :: string
  tm_RequiresHumanReview :: bool
  tm_Findings :: "string list"
  tm_RecommendedActions :: "string list"
  tm_EvidenceRequests :: "EvidenceRequest list"
  tm_ConsultationInsight :: ConsultationInsight

record persist_lib =
  vl_tokenize :: "string \<Rightarrow> decoder"
  vl_sha256_hex :: "string \<Rightarrow> string"
  vl_unicode_lower :: "string \<Rightarrow> string"
  vl_decode_output :: "string \<Rightarrow> TurnOutput result"
  vl_marshal :: "payload \<Rightarrow> string result"
  vl_read_metadata :: "string \<Rightarrow> diagnosisRoomAssistantTurnMetadata result"
  vl_summary :: summary_lib

definition diagnosisRoomLifecyclePayload :: "persist_lib \<Rightarrow> payload \<Rightarrow> string result" where
  "diagnosisRoomLifecyclePayload lib p =
     (case vl_marshal lib ((''source'', PvStr ''DiagnosisRoomWorkflow'') # p) of
        Inl e \<Rightarrow> Inl (wrap_error ''marshal diagnosis room lifecycle payload'' e)
      | Inr raw \<Rightarrow> Inr raw)"

definition marshalDiagnosisTurnMetadata :: "persist_lib \<Rightarrow> payload \<Rightarrow> string result" where
  "marshalDiagnosisTurnMetadata lib p =
     (case vl_marshal lib p of
        Inl e \<Rightarrow> Inl (wrap_error ''marshal diagnosis turn metadata'' e)
      | Inr raw \<Rightarrow> Inr raw)"

definition diagnosisRoomEventDedupePrefix :: "string \<Rightarrow> string" where
  "diagnosisRoomEventDedupePrefix kind =
     (if kind = EventOpened then ''open''
      else if kind = EventTurnPersisted then ''turn''
      else if kind = EventFinalConclusionReady then ''final''
      else if kind = EventFailed then ''failed''
      else if kind = EventClosed then ''close''
      else if kind = EventConclusionApproved then ''approve''
      else if kind = ''diagnosis_room.close_notification_sent'' then ''notify''
      else if kind = ''diagnosis_room.final_ready_notification_sent'' then ''finalnotify''
      else if kind = ''diagnosis_room.assistant_turn_notification_sent'' then ''turnnotify''
      else ''event'')"

definition diagnosisRoomEventDedupeKey :: "persist_lib \<Rightarrow> string \<Rightarrow> string \<Rightarrow> string \<Rightarrow> string" where
  "diagnosisRoomEventDedupeKey lib kind sessionID part =
     ''dr:'' @ diagnosisRoomEventDedupePrefix kind @ '':''
     @ take 24 (vl_sha256_hex lib (kind @ [nul] @ sessionID @ [nul] @ part))"

section \<open>What the activities accept\<close>

definition validateEnsureDiagnosisChatSessionInput :: "EnsureDiagnosisChatSessionInput \<Rightarrow> unit result" where
  "validateEnsureDiagnosisChatSessionInput req =
     (if TrimSpace (ei_SessionID req) = [] then
        Inl (invariant_error ''ensure diagnosis chat session: session_id must be non-empty'')
      else if TrimSpace (ei_SessionID req) \<noteq> ei_SessionID req then
        Inl (invariant_error ''ensure diagnosis chat session: session_id has surrounding whitespace'')
      else if ei_DiagnosisTaskID req = 0 then
        Inl (invariant_error ''ensure diagnosis chat session: diagnosis_task_id must be non-zero'')
      else if TrimSpace (ei_OwnerSubject req) = [] then
        Inl (invariant_error ''ensure diagnosis chat session: owner_subject must be non-empty'')
      else if IsZero (ei_StartedAt req) then
        Inl (invariant_error ''ensure diagnosis chat session: started_at must be set'')
      else if \<not> DiagnosisApprovalMode_Valid (diagnosisApprovalModeOrDefault (ei_ApprovalMode req)) then
        Inl (invariant_error ''ensure diagnosis chat session: approval_mode is unsupported'')
      else Inr ())"

definition validateEnsureDiagnosisRoomSessionInput :: "EnsureDiagnosisRoomSessionInput \<Rightarrow> unit result" where
  "validateEnsureDiagnosisRoomSessionInput req =
     (if TrimSpace (ni_SessionID req) = [] then
        Inl (invariant_error ''ensure diagnosis room session: session_id must be non-empty'')
      else if TrimSpace (ni_SessionID req) \<noteq> ni_SessionID req then
        Inl (invariant_error ''ensure diagnosis room session: session_id has surrounding whitespace'')
      else if ni_EvidenceSnapshotID req = 0 then
        Inl (invariant_error ''ensure diagnosis room session: evidence_snapshot_id must be non-zero'')
      else if TrimSpace (ni_WorkflowID req) = [] then
        Inl (invariant_error ''ensure diagnosis room session: workflow_id must be non-empty'')
      else if TrimSpace (ni_RunID req) = [] then
        Inl (invariant_error ''ensure diagnosis room session: run_id must be non-empty'')
      else if TrimSpace (ni_OwnerSubject req) = [] then
        Inl (invariant_error ''ensure diagnosis room session: owner_subject must be non-empty'')
      else if IsZero (ni_StartedAt req) then
        Inl (invariant_error ''ensure diagnosis room session: started_at must be set'')
      else if \<not> DiagnosisApprovalMode_Valid (diagnosisApprovalModeOrDefault (ni_ApprovalMode req)) then
        Inl (invariant_error ''ensure diagnosis room session: approval_mode is unsupported'')
      else Inr ())"

text \<open>\<open>ParseRetrievalSourceRef\<close> of \<open>domain/report.go\<close>; \<open>strconv\<close> reads and writes 64-bit integers.\<close>

definition strings_Cut :: "string \<Rightarrow> char \<Rightarrow> (string \<times> string) option" where
  "strings_Cut s c =
     (case dropWhile (\<lambda>x. x \<noteq> c) s of [] \<Rightarrow> None | _ # rest \<Rightarrow> Some (takeWhile (\<lambda>x. x \<noteq> c) s, rest))"

definition ParseRetrievalSourceRef :: "string \<Rightarrow> (string \<times> int) result" where
  "ParseRetrievalSourceRef ref =
     (if ref \<noteq> TrimSpace ref \<or> ref = [] then
        Inl (invariant_error ''retrieval source ref must be normalized'')
      else case strings_Cut ref (CHR '':'') of
        None \<Rightarrow> Inl (invariant_error ''retrieval source ref is invalid'')
      | Some (kind, idRaw) \<Rightarrow>
          if kind \<notin> {''sub_report'', ''final_report''} \<or> idRaw = [] then
            Inl (invariant_error ''retrieval source ref is invalid'')
          else let i = decimal_value 0 idRaw in
            if i = 0 \<or> int i > max_int64 \<or> decimal i \<noteq> idRaw then
              Inl (invariant_error ''retrieval source ref has an invalid id'')
            else Inr (kind, int i))"

fun validate_retrieval_refs :: "string list \<Rightarrow> string list \<Rightarrow> unit result" where
  "validate_retrieval_refs seen [] = Inr ()"
| "validate_retrieval_refs seen (ref # refs) =
     (if ref \<noteq> TrimSpace ref then
        Inl (invariant_error ''persist diagnosis turn: retrieval_refs must be normalized'')
      else case ParseRetrievalSourceRef ref of
        Inl e \<Rightarrow> Inl (wrap_error ''persist diagnosis turn: retrieval_refs'' e)
      | Inr _ \<Rightarrow>
          if ref \<in> set seen then
            Inl (invariant_error ''persist diagnosis turn: retrieval_refs has a duplicate'')
          else validate_retrieval_refs (ref # seen) refs)"

definition validateDiagnosisRoomSupplementalEvidence :: "SupplementalEvidence option \<Rightarrow> unit result" where
  "validateDiagnosisRoomSupplementalEvidence ev =
     (case ev of None \<Rightarrow> Inr () | Some e \<Rightarrow>
        if TrimSpace (se_Label e) = [] then
          Inl (invariant_error ''persist diagnosis turn: supplemental evidence label must be non-empty'')
        else if TrimSpace (se_Label e) \<noteq> se_Label e then
          Inl (invariant_error ''persist diagnosis turn: supplemental evidence label has whitespace'')
        else if TrimSpace (se_Detail e) = [] then
          Inl (invariant_error ''persist diagnosis turn: supplemental evidence detail must be non-empty'')
        else if TrimSpace (se_Detail e) \<noteq> se_Detail e then
          Inl (invariant_error ''persist diagnosis turn: supplemental evidence detail has whitespace'')
        else if TrimSpace (se_Priority e) = [] then
          Inl (invariant_error ''persist diagnosis turn: supplemental evidence priority must be non-empty'')
        else if TrimSpace (se_Priority e) \<noteq> se_Priority e then
          Inl (invariant_error ''persist diagnosis turn: supplemental evidence priority has whitespace'')
        else if \<not> priority_supported (se_Priority e) then
          Inl (invariant_error ''persist diagnosis turn: supplemental evidence priority is unsupported'')
        else if TrimSpace (se_Evidence e) = [] then
          Inl (invariant_error ''persist diagnosis turn: supplemental evidence text must be non-empty'')
        else if int (length (se_Evidence e)) > HardMaxMessageBytes then
          Inl (invariant_error ''persist diagnosis turn: supplemental evidence text is too long'')
        else Inr ())"

text \<open>The checks of a turn before its references, and all of them.\<close>

definition validate_turn_identity :: "PersistDiagnosisTurnInput \<Rightarrow> unit result" where
  "validate_turn_identity req =
     (if TrimSpace (pi_SessionID req) = [] then
        Inl (invariant_error ''persist diagnosis turn: session_id must be non-empty'')
      else if TrimSpace (pi_SessionID req) \<noteq> pi_SessionID req then
        Inl (invariant_error ''persist diagnosis turn: session_id has surrounding whitespace'')
      else if pi_DiagnosisTaskID req = 0 then
        Inl (invariant_error ''persist diagnosis turn: diagnosis_task_id must be non-zero'')
      else if TrimSpace (pi_OwnerSubject req) = [] then
        Inl (invariant_error ''persist diagnosis turn: owner_subject must be non-empty'')
      else if TrimSpace (pi_UserMessageID req) = [] \<or> TrimSpace (pi_AssistantMessageID req) = [] then
        Inl (invariant_error ''persist diagnosis turn: message IDs must be non-empty'')
      else if TrimSpace (pi_UserMessageID req) \<noteq> pi_UserMessageID req
              \<or> TrimSpace (pi_AssistantMessageID req) \<noteq> pi_AssistantMessageID req then
        Inl (invariant_error ''persist diagnosis turn: message IDs have surrounding whitespace'')
      else if pi_UserMessageID req = pi_AssistantMessageID req then
        Inl (invariant_error ''persist diagnosis turn: user and assistant message IDs must differ'')
      else if pi_UserSequence req \<le> 0 \<or> pi_AssistantSequence req \<noteq> wrap64 (pi_UserSequence req + 1) then
        Inl (invariant_error ''persist diagnosis turn: assistant_sequence must equal user_sequence + 1'')
      else if pi_TurnCount req \<le> 0 then
        Inl (invariant_error ''persist diagnosis turn: turn_count must be > 0'')
      else if TrimSpace (pi_ActorSubject req) = [] then
        Inl (invariant_error ''persist diagnosis turn: actor_subject must be non-empty'')
      else if TrimSpace (pi_UserMessage req) = [] then
        Inl (invariant_error ''persist diagnosis turn: user_message must be non-empty'')
      else if TrimSpace (pi_AssistantMessage req) = [] then
        Inl (invariant_error ''persist diagnosis turn: assistant_message must be non-empty'')
      else if IsZero (pi_UserOccurredAt req) \<or> IsZero (pi_AssistantOccurredAt req) then
        Inl (invariant_error ''persist diagnosis turn: occurred_at timestamps must be set'')
      else if pi_AssistantOccurredAt req < pi_UserOccurredAt req then
        Inl (invariant_error ''persist diagnosis turn: assistant_occurred_at precedes user_occurred_at'')
      else if pi_ContextBytes req \<le> 0 \<or> pi_ContextBytes req > HardMaxContextBytes then
        Inl (invariant_error ''persist diagnosis turn: context_bytes is out of range'')
      else Inr ())"

definition validatePersistDiagnosisTurnInput ::
  "persist_lib \<Rightarrow> PersistDiagnosisTurnInput \<Rightarrow> TurnOutput result" where
  "validatePersistDiagnosisTurnInput lib req =
     bindE (validate_turn_identity req) (\<lambda>_.
     if length (pi_RetrievalRefs req) > RetrievalReferenceLimit then
       Inl (invariant_error ''persist diagnosis turn: too many retrieval_refs'')
     else bindE (validate_retrieval_refs [] (pi_RetrievalRefs req)) (\<lambda>_.
     if TrimSpace (pi_InvocationID req) = [] then
       Inl (invariant_error ''persist diagnosis turn: invocation_id must be non-empty'')
     else bindE (validateDiagnosisRoomSupplementalEvidence (pi_SupplementalEvidence req)) (\<lambda>_.
     case ParseTurnOutput (vl_tokenize lib) (vl_decode_output lib) (pi_RawOutput req) of
       Inl e \<Rightarrow> Inl (GoErr (err_text e) (ErrInvariantViolation # err_chain e))
     | Inr parsed \<Rightarrow>
         if to_Message parsed \<noteq> TrimSpace (pi_AssistantMessage req) then
           Inl (invariant_error ''persist diagnosis turn: assistant_message does not match its output'')
         else Inr parsed)))"

definition validateCloseDiagnosisChatSessionInput :: "CloseDiagnosisChatSessionInput \<Rightarrow> unit result" where
  "validateCloseDiagnosisChatSessionInput req =
     (if TrimSpace (xi_SessionID req) = [] then
        Inl (invariant_error ''close diagnosis chat session: session_id must be non-empty'')
      else if TrimSpace (xi_SessionID req) \<noteq> xi_SessionID req then
        Inl (invariant_error ''close diagnosis chat session: session_id has surrounding whitespace'')
      else if xi_DiagnosisTaskID req = 0 then
        Inl (invariant_error ''close diagnosis chat session: diagnosis_task_id must be non-zero'')
      else if TrimSpace (xi_OwnerSubject req) = [] then
        Inl (invariant_error ''close diagnosis chat session: owner_subject must be non-empty'')
      else if TrimSpace (xi_ClosedBy req) \<noteq> xi_ClosedBy req then
        Inl (invariant_error ''close diagnosis chat session: closed_by has surrounding whitespace'')
      else if length (xi_ClosedBy req) > 256 then
        Inl (invariant_error ''close diagnosis chat session: closed_by must not exceed 256 bytes'')
      else if TrimSpace (xi_ConfirmedBy req) \<noteq> xi_ConfirmedBy req then
        Inl (invariant_error ''close diagnosis chat session: confirmed_by has surrounding whitespace'')
      else if xi_TurnCount req < 0 then
        Inl (invariant_error ''close diagnosis chat session: turn_count must be >= 0'')
      else if IsZero (xi_ClosedAt req) then
        Inl (invariant_error ''close diagnosis chat session: closed_at must be set'')
      else if TrimSpace (xi_Reason req) = [] then
        Inl (invariant_error ''close diagnosis chat session: reason must be non-empty'')
      else if xi_CloseNotificationChannelProfileID req < 0 then
        Inl (invariant_error ''close diagnosis chat session: channel profile id must be non-negative'')
      else if xi_RequireConclusionApproval req \<and> TrimSpace (xi_ConfirmedBy req) = [] then
        Inl (invariant_error ''close diagnosis chat session: confirmed_by must be set for approval'')
      else Inr ())"

definition validateRecordDiagnosisConclusionApprovalInput ::
  "persist_lib \<Rightarrow> RecordDiagnosisConclusionApprovalInput \<Rightarrow> unit result" where
  "validateRecordDiagnosisConclusionApprovalInput lib req =
     (if TrimSpace (qi_SessionID req) = [] \<or> qi_SessionID req \<noteq> TrimSpace (qi_SessionID req)
         \<or> qi_DiagnosisTaskID req = 0 \<or> TrimSpace (qi_OwnerSubject req) = []
         \<or> TrimSpace (qi_ActorSubject req) = [] \<or> qi_ActorSubject req \<noteq> TrimSpace (qi_ActorSubject req) then
        Inl (invariant_error
          ''record diagnosis conclusion approval: room and actor identity must be set and normalized'')
      else if \<not> DiagnosisApprovalAuthority_Valid (qi_Authority req)
              \<or> \<not> DiagnosisApprovalMode_Valid (qi_ApprovalMode req) then
        Inl (invariant_error
          ''record diagnosis conclusion approval: authority and approval_mode must be valid'')
      else bindE (ConclusionDigest (vl_sha256_hex lib) (qi_AssistantMessageID req)
                    (qi_AssistantSequence req) (qi_ConclusionContent req)) (\<lambda>wantDigest.
        if wantDigest \<noteq> qi_ConclusionDigest req then
          Inl (invariant_error
            ''record diagnosis conclusion approval: conclusion_digest does not match conclusion'')
        else bindE (NewChatSessionApproval
               \<lparr>sa_ID = 0, sa_SessionID = 1, sa_ConclusionDigest = qi_ConclusionDigest req,
                sa_ActorSubject = qi_ActorSubject req, sa_Authority = qi_Authority req,
                sa_Reason = qi_Reason req, sa_ApprovedAt = qi_ApprovedAt req, sa_CreatedAt = 0\<rparr>)
             (\<lambda>_. Inr ())))"

section \<open>The binding of a request to its room\<close>

definition validateChatSessionIdentity :: "ChatSession \<Rightarrow> string \<Rightarrow> int \<Rightarrow> string \<Rightarrow> unit result" where
  "validateChatSessionIdentity session sessionID taskID ownerSubject =
     (if cs_SessionKey session \<noteq> sessionID then
        Inl (invariant_error ''chat session binding: session_key does not match'')
      else if cs_DiagnosisTaskID session \<noteq> taskID then
        Inl (invariant_error ''chat session binding: diagnosis_task_id does not match'')
      else if cs_OwnerSubject session \<noteq> TrimSpace ownerSubject then
        Inl (invariant_error ''chat session binding: owner_subject mismatch'')
      else Inr ())"

definition validateChatSessionBinding :: "ChatSession \<Rightarrow> string \<Rightarrow> int \<Rightarrow> string \<Rightarrow> unit result" where
  "validateChatSessionBinding session sessionID taskID ownerSubject =
     bindE (validateChatSessionIdentity session sessionID taskID ownerSubject) (\<lambda>_.
     if ChatSessionStatus_IsTerminal (cs_Status session) then
       Inl (invariant_error ''chat session binding: session is terminal'')
     else Inr ())"

definition validateDiagnosisRoomTaskBinding ::
  "EnsureDiagnosisRoomSessionInput \<Rightarrow> DiagnosisTask \<Rightarrow> unit result" where
  "validateDiagnosisRoomTaskBinding req task =
     (if dt_ID task = 0 then
        Inl (invariant_error ''diagnosis room task binding: task id must be non-zero'')
      else if dt_EvidenceSnapshotID task \<noteq> ni_EvidenceSnapshotID req then
        Inl (invariant_error ''diagnosis room task binding: evidence_snapshot_id does not match'')
      else if dt_WorkflowID task \<noteq> TrimSpace (ni_WorkflowID req) then
        Inl (invariant_error ''diagnosis room task binding: workflow_id does not match'')
      else if dt_RunID task \<noteq> TrimSpace (ni_RunID req) then
        Inl (invariant_error ''diagnosis room task binding: run_id mismatch'')
      else if DiagnosisStatus_IsTerminal (dt_Status task) then
        Inl (invariant_error ''diagnosis room task binding: task is terminal'')
      else Inr ())"

definition validateDiagnosisRoomSessionTaskBinding ::
  "EnsureDiagnosisRoomSessionInput \<Rightarrow> ChatSession \<Rightarrow> DiagnosisTask \<Rightarrow> unit result" where
  "validateDiagnosisRoomSessionTaskBinding req session task =
     bindE (validateChatSessionBinding session (ni_SessionID req) (dt_ID task) (ni_OwnerSubject req)) (\<lambda>_.
     if cs_ApprovalMode session \<noteq> diagnosisApprovalModeOrDefault (ni_ApprovalMode req) then
       Inl (invariant_error ''diagnosis room session binding: approval_mode does not match'')
     else validateDiagnosisRoomTaskBinding req task)"

definition diagnosisTaskTerminalStateForRoomClose ::
  "CloseDiagnosisChatSessionInput \<Rightarrow> (string \<times> string) result" where
  "diagnosisTaskTerminalStateForRoomClose req =
     (let statusText = TrimSpace (xi_DiagnosisTaskStatus req);
          failureReason = TrimSpace (xi_DiagnosisTaskFailureReason req);
          statusText = (if statusText = [] \<and> failureReason \<noteq> [] then DiagnosisStatusFailed else statusText)
      in if statusText = [] then
        (if TrimSpace (xi_Reason req)
              \<in> {''cancelled'', ''context_cancelled'', ''session_timeout'', ''idle_timeout''}
         then Inr (DiagnosisStatusCancelled, []) else Inr (DiagnosisStatusSucceeded, []))
      else if \<not> DiagnosisStatus_Valid statusText \<or> \<not> DiagnosisStatus_IsTerminal statusText then
        Inl (invariant_error ''close diagnosis chat session: diagnosis_task_status must be terminal'')
      else if statusText = DiagnosisStatusFailed then
        (if failureReason = [] then
           Inl (invariant_error ''close diagnosis chat session: failure reason must be set when failed'')
         else Inr (statusText, truncateString failureReason 1024))
      else if failureReason \<noteq> [] then
        Inl (invariant_error ''close diagnosis chat session: failure reason must be empty'')
      else Inr (statusText, []))"

end
