(* ===== verification/Room_Conclusion.thy ===== *)
theory Room_Conclusion
  imports Room_Records
begin

text \<open>
  The results of the persistence activities and the final conclusion of a room, from
  \<open>diagnosis_room_persistence_activity.go\<close>: which turn of a persisted transcript it is taken from, what
  it says of its evidence, and the texts of the lifecycle events. The metadata of a turn is read by
  the argument \<open>vl_read_metadata\<close>.
\<close>

section \<open>Results\<close>

definition ensureDiagnosisChatSessionResult ::
  "ChatSession \<Rightarrow> DiagnosisTaskEvent \<Rightarrow> EnsureDiagnosisChatSessionResult" where
  "ensureDiagnosisChatSessionResult session event =
     \<lparr>eo_ChatSessionID = cs_ID session, eo_LifecycleEventID = te_ID event, eo_Status = cs_Status session,
      eo_TurnCount = cs_TurnCount session, eo_StartedAt = cs_StartedAt session,
      eo_LastActivityAt = cs_LastActivityAt session\<rparr>"

definition ensureDiagnosisRoomSessionResult ::
  "DiagnosisTask \<Rightarrow> ChatSession \<Rightarrow> DiagnosisTaskEvent \<Rightarrow> EnsureDiagnosisRoomSessionResult" where
  "ensureDiagnosisRoomSessionResult task session event =
     \<lparr>no_DiagnosisTaskID = dt_ID task, no_ChatSessionID = cs_ID session, no_LifecycleEventID = te_ID event,
      no_Status = cs_Status session, no_TurnCount = cs_TurnCount session,
      no_StartedAt = cs_StartedAt session, no_LastActivityAt = cs_LastActivityAt session\<rparr>"

definition persistDiagnosisTurnResult ::
  "ChatSession \<Rightarrow> ChatTurn \<Rightarrow> ChatTurn \<Rightarrow> TurnOutput \<Rightarrow> PersistDiagnosisTurnResult" where
  "persistDiagnosisTurnResult session userTurn assistantTurn out =
     \<lparr>pr_ChatSessionID = cs_ID session, pr_LifecycleEventID = 0, pr_UserTurnID = ct_ID userTurn,
      pr_AssistantTurnID = ct_ID assistantTurn, pr_AssistantMessageID = ct_MessageID assistantTurn,
      pr_AssistantSequence = ct_Sequence assistantTurn,
      pr_AssistantOccurredAt = ct_OccurredAt assistantTurn, pr_TurnCount = cs_TurnCount session,
      pr_LastActivityAt = cs_LastActivityAt session, pr_AssistantMessage = to_Message out,
      pr_Confidence = to_Confidence out, pr_RequiresHumanReview = to_RequiresHumanReview out,
      pr_Findings = to_Findings out, pr_RecommendedActions = to_RecommendedActions out,
      pr_EvidenceRequests = to_EvidenceRequests out, pr_Insight = TurnOutput_Insight out,
      pr_FinalConclusion = None\<rparr>"

definition diagnosisRoomConversationSummary ::
  "ChatSessionSummary option \<Rightarrow> DiagnosisRoomConversationSummary option" where
  "diagnosisRoomConversationSummary s = map_option (\<lambda>s.
     \<lparr>ys_ID = ss_ID s, ys_Version = ss_Version s, ys_SchemaVersion = ss_SchemaVersion s,
      ys_SourceFirstSequence = ss_SourceFirstSequence s, ys_SourceLastSequence = ss_SourceLastSequence s,
      ys_SourceTurnCount = ss_SourceTurnCount s, ys_SourceDigest = ss_SourceDigest s,
      ys_Content = ss_Content s, ys_GeneratedAt = ss_GeneratedAt s\<rparr>) s"

definition closeDiagnosisChatSessionResult ::
  "ChatSession \<Rightarrow> DiagnosisTaskEvent \<Rightarrow> DiagnosisRoomFinalConclusion \<Rightarrow> ChatSessionSummary option
   \<Rightarrow> string \<Rightarrow> ChatSessionApproval list \<Rightarrow> CloseDiagnosisChatSessionResult" where
  "closeDiagnosisChatSessionResult session event conclusion summary digest approvals =
     \<lparr>xr_ChatSessionID = cs_ID session, xr_LifecycleEventID = te_ID event, xr_Status = cs_Status session,
      xr_TurnCount = cs_TurnCount session,
      xr_ClosedAt = (case cs_ClosedAt session of None \<Rightarrow> 0 | Some t \<Rightarrow> t),
      xr_CloseReason = cs_CloseReason session, xr_LastActivityAt = cs_LastActivityAt session,
      xr_FinalConclusion = conclusion, xr_ConversationSummary = diagnosisRoomConversationSummary summary,
      xr_ApprovalMode = cs_ApprovalMode session, xr_ConclusionDigest = digest, xr_Approvals = approvals\<rparr>"

section \<open>References to turns\<close>

fun turn_refs :: "int \<Rightarrow> int list \<Rightarrow> int list \<Rightarrow> string list" where
  "turn_refs sid seen [] = []"
| "turn_refs sid seen (i # is) =
     (if i \<le> 0 \<or> i \<in> set seen then turn_refs sid seen is
      else (''chat_session:'' @ int_decimal sid @ ''/turn:'' @ int_decimal i) # turn_refs sid (i # seen) is)"

definition diagnosisRoomTurnRefs :: "int \<Rightarrow> int list \<Rightarrow> string list" where
  "diagnosisRoomTurnRefs sid is = (if sid \<le> 0 then [] else turn_refs sid [] is)"

definition diagnosisRoomTurnRefsFromTurns :: "int \<Rightarrow> ChatTurn list \<Rightarrow> string list" where
  "diagnosisRoomTurnRefsFromTurns sid turns =
     diagnosisRoomTurnRefs sid (filter (\<lambda>i. i > 0) (map ct_ID turns))"

definition nonEmptyDiagnosisRoomTurnRefs :: "string list \<Rightarrow> string list \<Rightarrow> string list" where
  "nonEmptyDiagnosisRoomTurnRefs primary fallback = (if primary \<noteq> [] then primary else fallback)"

section \<open>The final conclusion\<close>

record diagnosisRoomCloseNotificationContext =
  kx_Findings :: "string list"
  kx_RecommendedActions :: "string list"
  kx_EvidenceRequests :: "EvidenceRequest list"
  kx_MissingEvidenceRequests :: "ConsultationEvidenceRequest list"
  kx_EvidenceCollectionSuggestions :: "ConsultationEvidenceRequest list"
  kx_ConfidenceRationale :: string
  kx_ConclusionStatus :: string

definition diagnosisRoomCloseNotificationContextFromMetadata ::
  "diagnosisRoomAssistantTurnMetadata \<Rightarrow> diagnosisRoomCloseNotificationContext" where
  "diagnosisRoomCloseNotificationContextFromMetadata m =
     \<lparr>kx_Findings = tm_Findings m, kx_RecommendedActions = tm_RecommendedActions m,
      kx_EvidenceRequests = tm_EvidenceRequests m,
      kx_MissingEvidenceRequests = ci_MissingEvidenceRequests (tm_ConsultationInsight m),
      kx_EvidenceCollectionSuggestions = ci_EvidenceCollectionSuggestions (tm_ConsultationInsight m),
      kx_ConfidenceRationale = TrimSpace (ci_ConfidenceRationale (tm_ConsultationInsight m)),
      kx_ConclusionStatus = TrimSpace (ci_ConclusionStatus (tm_ConsultationInsight m))\<rparr>"

text \<open>The search runs from the last turn to the first.\<close>

definition diagnosisRoomCloseNotificationContextFromTurns ::
  "persist_lib \<Rightarrow> ChatTurn list \<Rightarrow> int \<Rightarrow> diagnosisRoomCloseNotificationContext result" where
  "diagnosisRoomCloseNotificationContextFromTurns lib turns assistantTurnID =
     (case find (\<lambda>t. ct_ID t = assistantTurnID) (rev turns) of
        None \<Rightarrow> Inl (invariant_error
          ''diagnosis room close notification: assistant turn was not found'')
      | Some t \<Rightarrow>
          (case vl_read_metadata lib (ct_Metadata t) of
             Inl e \<Rightarrow> Inl (wrap_error ''diagnosis room close notification: parse assistant metadata'' e)
           | Inr m \<Rightarrow> Inr (diagnosisRoomCloseNotificationContextFromMetadata m)))"

definition diagnosisRoomFinalConclusionWithContext ::
  "DiagnosisRoomFinalConclusion \<Rightarrow> diagnosisRoomCloseNotificationContext \<Rightarrow> DiagnosisRoomFinalConclusion" where
  "diagnosisRoomFinalConclusionWithContext c k =
     c\<lparr>fc_ConfidenceRationale := TrimSpace (kx_ConfidenceRationale k), fc_Findings := kx_Findings k,
       fc_RecommendedActions := kx_RecommendedActions k, fc_EvidenceRequests := kx_EvidenceRequests k,
       fc_MissingEvidenceRequests := kx_MissingEvidenceRequests k,
       fc_EvidenceCollectionSuggestions := kx_EvidenceCollectionSuggestions k\<rparr>"

definition diagnosisRoomFinalConclusionReadyStatus :: "string \<Rightarrow> bool" where
  "diagnosisRoomFinalConclusionReadyStatus status \<longleftrightarrow> TrimSpace status \<in> {''final'', ''ready_for_review''}"

definition diagnosisRoomFinalConclusionReadyReason :: "string \<Rightarrow> string" where
  "diagnosisRoomFinalConclusionReadyReason status =
     (if TrimSpace status = ''ready_for_review'' then ''assistant_marked_ready_for_review''
      else ''assistant_marked_final'')"

definition confirmedByForActor :: "string \<Rightarrow> string" where
  "confirmedByForActor actorSubject =
     (let a = TrimSpace actorSubject in if a = [] \<or> a = AutoActorSubject then [] else a)"

definition empty_conclusion :: DiagnosisRoomFinalConclusion where
  "empty_conclusion =
     \<lparr>fc_Status = [], fc_Source = [], fc_Reason = [], fc_EvidenceSnapshotID = 0, fc_ConclusionVersion = [],
      fc_RecordedAt = None, fc_ConfirmedBy = [], fc_SupplementalContextRefs = [], fc_AssistantTurnID = 0,
      fc_AssistantMessageID = [], fc_AssistantSequence = 0, fc_AssistantOccurredAt = None, fc_Content = [],
      fc_Confidence = [], fc_RequiresHumanReview = None, fc_ConfidenceRationale = [], fc_Findings = [],
      fc_RecommendedActions = [], fc_EvidenceRequests = [], fc_MissingEvidenceRequests = [],
      fc_EvidenceCollectionSuggestions = []\<rparr>"

definition diagnosisRoomFinalConclusionFromPersistedTurn ::
  "PersistDiagnosisTurnInput \<Rightarrow> PersistDiagnosisTurnResult \<Rightarrow> int \<Rightarrow> string list
   \<Rightarrow> diagnosisRoomCloseNotificationContext \<Rightarrow> DiagnosisRoomFinalConclusion" where
  "diagnosisRoomFinalConclusionFromPersistedTurn req res snapshotID contextRefs k =
     (let occurredAt = (if IsZero (pr_AssistantOccurredAt res) then pi_AssistantOccurredAt req
                        else pr_AssistantOccurredAt res);
          messageID = (let m = TrimSpace (pr_AssistantMessageID res) in
                       if m = [] then TrimSpace (pi_AssistantMessageID req) else m);
          sequence = (if pr_AssistantSequence res = 0 then pi_AssistantSequence req
                      else pr_AssistantSequence res);
          content = (let c = TrimSpace (pr_AssistantMessage res) in
                     if c = [] then TrimSpace (pi_AssistantMessage req) else c)
      in diagnosisRoomFinalConclusionWithContext
        (empty_conclusion\<lparr>fc_Status := ''available'', fc_Source := ''latest_assistant_turn'',
          fc_Reason := diagnosisRoomFinalConclusionReadyReason (ci_ConclusionStatus (pr_Insight res)),
          fc_EvidenceSnapshotID := snapshotID, fc_ConclusionVersion := ''diagnosis-room-final-ready.v1'',
          fc_RecordedAt := Some occurredAt,
          fc_SupplementalContextRefs := nonEmptyDiagnosisRoomTurnRefs contextRefs
            (diagnosisRoomTurnRefs (pr_ChatSessionID res) [pr_UserTurnID res, pr_AssistantTurnID res]),
          fc_AssistantTurnID := pr_AssistantTurnID res, fc_AssistantMessageID := messageID,
          fc_AssistantSequence := sequence, fc_AssistantOccurredAt := Some occurredAt,
          fc_Content := truncateString content FinalConclusionMaxRunes,
          fc_Confidence := TrimSpace (pr_Confidence res),
          fc_RequiresHumanReview := Some (pr_RequiresHumanReview res)\<rparr>) k)"

text \<open>The conclusion at the close of a room, from the turns that were listed for it.\<close>

definition final_conclusion_of ::
  "persist_lib \<Rightarrow> CloseDiagnosisChatSessionInput \<Rightarrow> ChatSession \<Rightarrow> int \<Rightarrow> ChatTurn list
   \<Rightarrow> DiagnosisRoomFinalConclusion result" where
  "final_conclusion_of lib req session snapshotID turns =
     (let recordedAt = (if IsZero (xi_ClosedAt req) then cs_LastActivityAt session else xi_ClosedAt req) in
      case find (\<lambda>t. ct_Role t = ChatRoleAssistant) (rev turns) of
        None \<Rightarrow> Inl (invariant_error
          ''diagnosis room final conclusion: no assistant turn found for non-empty session'')
      | Some t \<Rightarrow>
          (case vl_read_metadata lib (ct_Metadata t) of
             Inl e \<Rightarrow> Inl (wrap_error ''diagnosis room final conclusion: parse assistant metadata'' e)
           | Inr m \<Rightarrow> Inr (diagnosisRoomFinalConclusionWithContext
               (empty_conclusion\<lparr>fc_Status := ''available'', fc_Source := ''latest_assistant_turn'',
                 fc_EvidenceSnapshotID := snapshotID, fc_ConclusionVersion := ''diagnosis-room-close.v1'',
                 fc_RecordedAt := Some recordedAt, fc_ConfirmedBy := confirmedByForActor (xi_ConfirmedBy req),
                 fc_SupplementalContextRefs := diagnosisRoomTurnRefsFromTurns (cs_ID session) turns,
                 fc_AssistantTurnID := ct_ID t, fc_AssistantMessageID := ct_MessageID t,
                 fc_AssistantSequence := ct_Sequence t, fc_AssistantOccurredAt := Some (ct_OccurredAt t),
                 fc_Content := truncateString (ct_Content t) FinalConclusionMaxRunes,
                 fc_Confidence := TrimSpace (tm_Confidence m),
                 fc_RequiresHumanReview := Some (tm_RequiresHumanReview m)\<rparr>)
               (diagnosisRoomCloseNotificationContextFromMetadata m))))"

definition no_conclusion :: "CloseDiagnosisChatSessionInput \<Rightarrow> ChatSession \<Rightarrow> int \<Rightarrow> DiagnosisRoomFinalConclusion" where
  "no_conclusion req session snapshotID =
     empty_conclusion\<lparr>fc_Status := ''not_available'', fc_Source := ''none'',
       fc_Reason := ''room_closed_without_assistant_turn'', fc_EvidenceSnapshotID := snapshotID,
       fc_ConclusionVersion := ''diagnosis-room-close.v1'',
       fc_RecordedAt := Some (if IsZero (xi_ClosedAt req) then cs_LastActivityAt session else xi_ClosedAt req),
       fc_ConfirmedBy := confirmedByForActor (xi_ConfirmedBy req)\<rparr>"

section \<open>The texts of the turns and the events\<close>

definition diagnosisUserTurnMetadata :: "persist_lib \<Rightarrow> PersistDiagnosisTurnInput \<Rightarrow> string result" where
  "diagnosisUserTurnMetadata lib req = marshalDiagnosisTurnMetadata lib
     [(''source'', PvStr ''DiagnosisRoomWorkflow''), (''kind'', PvStr ''user''),
      (''diagnosis_task_id'', PvInt (pi_DiagnosisTaskID req)), (''actor_subject'', PvStr (pi_ActorSubject req)),
      (''context_bytes'', PvInt (pi_ContextBytes req)),
      (''assistant_message_id'', PvStr (pi_AssistantMessageID req))]"

definition diagnosisAssistantTurnMetadata ::
  "persist_lib \<Rightarrow> PersistDiagnosisTurnInput \<Rightarrow> TurnOutput \<Rightarrow> string result" where
  "diagnosisAssistantTurnMetadata lib req out = marshalDiagnosisTurnMetadata lib
     [(''source'', PvStr ''DiagnosisRoomWorkflow''), (''kind'', PvStr ''assistant''),
      (''diagnosis_task_id'', PvInt (pi_DiagnosisTaskID req)), (''invocation_id'', PvStr (pi_InvocationID req)),
      (''runtime_id'', PvStr (pi_RuntimeID req)), (''container_started_at'', PvTime (pi_ContainerStartedAt req)),
      (''container_finished_at'', PvTime (pi_ContainerFinishedAt req)),
      (''context_bytes'', PvInt (pi_ContextBytes req)), (''historical_report_refs'', PvStrs (pi_RetrievalRefs req)),
      (''schema_version'', PvStr (to_SchemaVersion out)), (''confidence'', PvStr (to_Confidence out)),
      (''requires_human_review'', PvBool (to_RequiresHumanReview out)), (''findings'', PvStrs (to_Findings out)),
      (''recommended_actions'', PvStrs (to_RecommendedActions out)),
      (''evidence_requests'', PvRequests (to_EvidenceRequests out)),
      (''consultation_insight'', PvInsight (TurnOutput_Insight out)), (''raw_output'', PvRaw (pi_RawOutput req))]"

definition turn_event_payload :: "PersistDiagnosisTurnInput \<Rightarrow> PersistDiagnosisTurnResult \<Rightarrow> payload" where
  "turn_event_payload req res =
     [(''session_id'', PvStr (pi_SessionID req)), (''chat_session_id'', PvInt (pr_ChatSessionID res)),
      (''diagnosis_task_id'', PvInt (pi_DiagnosisTaskID req)), (''owner_subject'', PvStr (pi_OwnerSubject req)),
      (''actor_subject'', PvStr (pi_ActorSubject req)), (''user_message_id'', PvStr (pi_UserMessageID req)),
      (''assistant_message_id'', PvStr (pi_AssistantMessageID req)), (''user_turn_id'', PvInt (pr_UserTurnID res)),
      (''assistant_turn_id'', PvInt (pr_AssistantTurnID res)), (''user_sequence'', PvInt (pi_UserSequence req)),
      (''assistant_sequence'', PvInt (pi_AssistantSequence req)), (''turn_count'', PvInt (pr_TurnCount res)),
      (''confidence'', PvStr (pr_Confidence res)), (''requires_human_review'', PvBool (pr_RequiresHumanReview res))]"

definition turn_persisted_payload :: "PersistDiagnosisTurnInput \<Rightarrow> PersistDiagnosisTurnResult \<Rightarrow> payload" where
  "turn_persisted_payload req res =
     (''kind'', PvStr EventTurnPersisted) # turn_event_payload req res @
     [(''context_bytes'', PvInt (pi_ContextBytes req)), (''historical_report_refs'', PvStrs (pi_RetrievalRefs req)),
      (''invocation_id'', PvStr (pi_InvocationID req)),
      (''evidence_requests'', PvRequests (pr_EvidenceRequests res)),
      (''consultation_insight'', PvInsight (pr_Insight res))]"

definition supplemental_payload ::
  "PersistDiagnosisTurnInput \<Rightarrow> PersistDiagnosisTurnResult \<Rightarrow> SupplementalEvidence \<Rightarrow> payload" where
  "supplemental_payload req res ev =
     (''kind'', PvStr EventSupplementalEvidence) # turn_event_payload req res @
     [(''context_refs'', PvStrs (diagnosisRoomTurnRefs (pr_ChatSessionID res)
         [pr_UserTurnID res, pr_AssistantTurnID res])),
      (''supplemental_evidence'', PvSupplemental ev)]"

definition opened_payload :: "EnsureDiagnosisChatSessionInput \<Rightarrow> ChatSession \<Rightarrow> payload" where
  "opened_payload req session =
     [(''kind'', PvStr EventOpened), (''session_id'', PvStr (ei_SessionID req)),
      (''chat_session_id'', PvInt (cs_ID session)), (''diagnosis_task_id'', PvInt (ei_DiagnosisTaskID req)),
      (''owner_subject'', PvStr (ei_OwnerSubject req)), (''status'', PvStr (cs_Status session)),
      (''turn_count'', PvInt (cs_TurnCount session)), (''approval_mode'', PvStr (cs_ApprovalMode session))]"

definition final_ready_payload ::
  "PersistDiagnosisTurnInput \<Rightarrow> PersistDiagnosisTurnResult \<Rightarrow> int \<Rightarrow> DiagnosisRoomFinalConclusion \<Rightarrow> payload" where
  "final_ready_payload req res snapshotID conclusion =
     [(''kind'', PvStr EventFinalConclusionReady), (''session_id'', PvStr (pi_SessionID req)),
      (''chat_session_id'', PvInt (pr_ChatSessionID res)), (''diagnosis_task_id'', PvInt (pi_DiagnosisTaskID req)),
      (''evidence_snapshot_id'', PvInt snapshotID), (''owner_subject'', PvStr (pi_OwnerSubject req)),
      (''turn_count'', PvInt (pr_TurnCount res)), (''final_conclusion'', PvConclusion conclusion),
      (''conclusion_version'', PvStr ''diagnosis-room-final-ready.v1'')]"

definition failed_payload ::
  "CloseDiagnosisChatSessionInput \<Rightarrow> ChatSession \<Rightarrow> DiagnosisTask \<Rightarrow> payload" where
  "failed_payload req session task =
     [(''kind'', PvStr EventFailed), (''session_id'', PvStr (xi_SessionID req)),
      (''chat_session_id'', PvInt (cs_ID session)), (''diagnosis_task_id'', PvInt (xi_DiagnosisTaskID req)),
      (''evidence_snapshot_id'', PvInt (dt_EvidenceSnapshotID task)),
      (''owner_subject'', PvStr (xi_OwnerSubject req)), (''closed_by'', PvStr (xi_ClosedBy req)),
      (''status'', PvStr (dt_Status task)), (''failure_reason'', PvStr (TrimSpace (dt_FailureReason task))),
      (''close_reason'', PvStr (xi_Reason req)), (''closed_at'', PvTime (xi_ClosedAt req))]"

definition closed_payload ::
  "CloseDiagnosisChatSessionInput \<Rightarrow> ChatSession \<Rightarrow> int \<Rightarrow> DiagnosisRoomFinalConclusion
   \<Rightarrow> ChatSessionSummary option \<Rightarrow> ChatSessionApproval list \<Rightarrow> payload" where
  "closed_payload req session snapshotID conclusion summary approvals =
     [(''kind'', PvStr EventClosed), (''session_id'', PvStr (xi_SessionID req)),
      (''chat_session_id'', PvInt (cs_ID session)), (''diagnosis_task_id'', PvInt (xi_DiagnosisTaskID req)),
      (''evidence_snapshot_id'', PvInt snapshotID), (''owner_subject'', PvStr (xi_OwnerSubject req)),
      (''closed_by'', PvStr (xi_ClosedBy req)), (''status'', PvStr (cs_Status session)),
      (''turn_count'', PvInt (cs_TurnCount session)), (''close_reason'', PvStr (cs_CloseReason session)),
      (''closed_at'', PvTimePtr (cs_ClosedAt session)), (''final_conclusion'', PvConclusion conclusion),
      (''conversation_summary'', PvSummary (diagnosisRoomConversationSummary summary)),
      (''approval_mode'', PvStr (cs_ApprovalMode session)), (''conclusion_digest'', PvStr (xi_ConclusionDigest req)),
      (''approvals'', PvApprovals approvals), (''conclusion_version'', PvStr ''diagnosis-room-close.v1'')]"

definition approved_payload ::
  "RecordDiagnosisConclusionApprovalInput \<Rightarrow> ChatSessionApproval \<Rightarrow> payload" where
  "approved_payload req a =
     [(''kind'', PvStr EventConclusionApproved), (''session_id'', PvStr (qi_SessionID req)),
      (''chat_session_id'', PvInt (sa_SessionID a)), (''diagnosis_task_id'', PvInt (qi_DiagnosisTaskID req)),
      (''approval_id'', PvInt (sa_ID a)), (''approval_mode'', PvStr (qi_ApprovalMode req)),
      (''conclusion_digest'', PvStr (sa_ConclusionDigest a)), (''actor_subject'', PvStr (sa_ActorSubject a)),
      (''authority'', PvStr (sa_Authority a)), (''reason'', PvStr (sa_Reason a)),
      (''approved_at'', PvTime (sa_ApprovedAt a)), (''assistant_message_id'', PvStr (qi_AssistantMessageID req)),
      (''assistant_sequence'', PvInt (qi_AssistantSequence req))]"

end
