(* ===== verification/Room_Persistence.thy ===== *)
theory Room_Persistence
  imports Room_Conclusion
begin

text \<open>
  The activities that persist a diagnosis room
  (\<open>orchestrator/temporal/diagnosis_room_persistence_activity.go\<close>): opening a session, persisting a turn,
  recording an approval and closing the room. An activity runs its transactions one after the other
  on the store; \<open>driver\<close> says what the database answers to each transaction and to each of its
  statements, so a failure may strike anywhere. The check that a unit-of-work factory is configured
  is left out, and \<open>mapActivityError\<close> keeps the chain of an error (Temporal retries it unless the chain
  has \<open>ErrInvariantViolation\<close>).
\<close>

section \<open>Transactions of an activity\<close>

record driver =
  dr_env :: "nat \<Rightarrow> tx_env"
  dr_stmt :: "nat \<Rightarrow> nat \<Rightarrow> go_error option"
  dr_now :: go_time

definition calm :: "go_time \<Rightarrow> driver" where
  "calm now = \<lparr>dr_env = \<lambda>_. calm_env, dr_stmt = \<lambda>_ _. None, dr_now = now\<rparr>"

type_synonym 'a activity = "(diagnosis_db, 'a) st"

definition run_tx :: "driver \<Rightarrow> nat \<Rightarrow> ((nat \<Rightarrow> go_error option) \<Rightarrow> (diagnosis_db, 'a) tx) \<Rightarrow> 'a activity" where
  "run_tx drv k fn d = within_tx (dr_env drv k) d (fn (dr_stmt drv k))"

text \<open>The pattern \<open>if err == nil { return saved }; if !errors.Is(err, ErrAlreadyExists) { return err }\<close>.\<close>

definition onAlreadyExists :: "('s, 'a) st \<Rightarrow> ('s, 'a) st \<Rightarrow> ('s, 'a) st" where
  "onAlreadyExists m alt s =
     (case m s of
        (s, Inr x) \<Rightarrow> (s, Inr x)
      | (s, Inl e) \<Rightarrow> if errors_Is e ErrAlreadyExists then alt s else (s, Inl e))"

definition mapActivityError :: "string \<Rightarrow> go_error \<Rightarrow> go_error" where
  "mapActivityError activity e = wrap_error activity e"

text \<open>\<open>evidence_repo.go\<close>; of a snapshot only its existence is read here.\<close>

definition FindSnapshotByID :: "go_error option \<Rightarrow> int \<Rightarrow> (diagnosis_db, int) tx" where
  "FindSnapshotByID fault i =
     opened (mapErrT asNotFound (only_row fault (\<lambda>d. filter (\<lambda>s. s = i) (db_snapshots d))))"

definition lookupChatSessionByKey :: "driver \<Rightarrow> nat \<Rightarrow> string \<Rightarrow> ChatSession option activity" where
  "lookupChatSessionByKey drv k sessionID =
     run_tx drv k (\<lambda>flt. orNotFound (FindChatSessionByKey (flt 0) sessionID))"

definition lookupDiagnosisTaskByID :: "driver \<Rightarrow> nat \<Rightarrow> int \<Rightarrow> DiagnosisTask activity" where
  "lookupDiagnosisTaskByID drv k taskID = run_tx drv k (\<lambda>flt. FindTaskByID (flt 0) taskID)"

definition lookupDiagnosisTaskByExecution ::
  "driver \<Rightarrow> nat \<Rightarrow> string \<Rightarrow> string \<Rightarrow> DiagnosisTask option activity" where
  "lookupDiagnosisTaskByExecution drv k workflowID runID =
     run_tx drv k (\<lambda>flt. orNotFound (FindTaskByExecution (flt 0) (TrimSpace workflowID) (TrimSpace runID)))"

definition listDiagnosisRoomTurns :: "driver \<Rightarrow> nat \<Rightarrow> int \<Rightarrow> int \<Rightarrow> ChatTurn list activity" where
  "listDiagnosisRoomTurns drv k sessionID turnCount =
     (if turnCount < 0 then
        liftT (Inl (invariant_error ''diagnosis room final conclusion: turn_count must be >= 0''))
      else let lim = wrap64 (turnCount * 2 + 2); lim = (if lim \<le> 0 then 2 else lim) in
        run_tx drv k (\<lambda>flt. ListChatTurnsBySession (flt 0) sessionID lim))"

section \<open>Lifecycle events\<close>

record diagnosisRoomLifecycleEventInput =
  li_TaskID :: int
  li_Kind :: string
  li_DedupeKey :: string
  li_Payload :: string
  li_OccurredAt :: go_time

definition find_event_of_kind ::
  "int \<Rightarrow> string \<Rightarrow> string \<Rightarrow> (nat \<Rightarrow> go_error option) \<Rightarrow> (diagnosis_db, DiagnosisTaskEvent) tx" where
  "find_event_of_kind taskID dedupeKey kind flt =
     bindT (FindEventByTaskAndDedupeKey (flt 0) taskID dedupeKey) (\<lambda>out.
     if te_Kind out \<noteq> kind then
       liftT (Inl (invariant_error ''diagnosis room lifecycle event: existing dedupe key has another kind''))
     else liftT (Inr out))"

definition appendDiagnosisRoomLifecycleEvent ::
  "persist_lib \<Rightarrow> driver \<Rightarrow> nat \<Rightarrow> diagnosisRoomLifecycleEventInput \<Rightarrow> DiagnosisTaskEvent activity" where
  "appendDiagnosisRoomLifecycleEvent lib drv k req =
     (let kind = TrimSpace (li_Kind req); dedupeKey = TrimSpace (li_DedupeKey req) in
      if li_TaskID req = 0 then
        liftT (Inl (invariant_error ''diagnosis room lifecycle event: task id must be non-zero''))
      else if kind = [] then
        liftT (Inl (invariant_error ''diagnosis room lifecycle event: kind must be non-empty''))
      else if dedupeKey = [] then
        liftT (Inl (invariant_error ''diagnosis room lifecycle event: dedupe key must be non-empty''))
      else if IsZero (li_OccurredAt req) then
        liftT (Inl (invariant_error ''diagnosis room lifecycle event: occurred_at must be set''))
      else bindT (liftT (if li_Payload req = [] then Inr ()
                         else case RejectDuplicateObjectKeys (vl_tokenize lib) (li_Payload req) of
                           Inl e \<Rightarrow> Inl (GoErr (err_text e) (err_chain e @ [ErrInvariantViolation]))
                         | Inr _ \<Rightarrow> Inr ())) (\<lambda>_.
      bindT (liftT (NewDiagnosisTaskEvent (li_TaskID req) kind (li_Payload req) (Some dedupeKey)
                      (li_OccurredAt req))) (\<lambda>event.
      onAlreadyExists (run_tx drv k (\<lambda>flt. AppendEvent (flt 0) (dr_now drv) event))
        (run_tx drv (k + 1) (find_event_of_kind (li_TaskID req) dedupeKey kind)))))"

text \<open>Every \<open>record...\<close> function marshals a payload and appends its event.\<close>

definition record_event ::
  "persist_lib \<Rightarrow> driver \<Rightarrow> nat \<Rightarrow> int \<Rightarrow> string \<Rightarrow> string \<Rightarrow> string \<Rightarrow> payload \<Rightarrow> go_time
   \<Rightarrow> DiagnosisTaskEvent activity" where
  "record_event lib drv k taskID kind sessionID part p occurredAt =
     bindT (liftT (diagnosisRoomLifecyclePayload lib p)) (\<lambda>raw.
     appendDiagnosisRoomLifecycleEvent lib drv k
       \<lparr>li_TaskID = taskID, li_Kind = kind,
        li_DedupeKey = diagnosisRoomEventDedupeKey lib kind sessionID part,
        li_Payload = raw, li_OccurredAt = occurredAt\<rparr>)"

definition recordDiagnosisRoomOpened ::
  "persist_lib \<Rightarrow> driver \<Rightarrow> nat \<Rightarrow> EnsureDiagnosisChatSessionInput \<Rightarrow> ChatSession
   \<Rightarrow> DiagnosisTaskEvent activity" where
  "recordDiagnosisRoomOpened lib drv k req session =
     record_event lib drv k (ei_DiagnosisTaskID req) EventOpened (ei_SessionID req) ''opened''
       (opened_payload req session) (ei_StartedAt req)"

definition recordDiagnosisRoomTurnPersisted ::
  "persist_lib \<Rightarrow> driver \<Rightarrow> nat \<Rightarrow> PersistDiagnosisTurnInput \<Rightarrow> PersistDiagnosisTurnResult
   \<Rightarrow> DiagnosisTaskEvent activity" where
  "recordDiagnosisRoomTurnPersisted lib drv k req res =
     record_event lib drv k (pi_DiagnosisTaskID req) EventTurnPersisted (pi_SessionID req)
       (pi_UserMessageID req) (turn_persisted_payload req res) (pi_AssistantOccurredAt req)"

definition recordDiagnosisRoomSupplementalEvidenceProvided ::
  "persist_lib \<Rightarrow> driver \<Rightarrow> nat \<Rightarrow> PersistDiagnosisTurnInput \<Rightarrow> PersistDiagnosisTurnResult
   \<Rightarrow> SupplementalEvidence \<Rightarrow> DiagnosisTaskEvent activity" where
  "recordDiagnosisRoomSupplementalEvidenceProvided lib drv k req res ev =
     record_event lib drv k (pi_DiagnosisTaskID req) EventSupplementalEvidence (pi_SessionID req)
       (pi_UserMessageID req) (supplemental_payload req res ev) (pi_UserOccurredAt req)"

text \<open>Transactions \<open>k\<close> to \<open>k + 3\<close>.\<close>

definition recordDiagnosisRoomFinalConclusionReady ::
  "persist_lib \<Rightarrow> driver \<Rightarrow> nat \<Rightarrow> PersistDiagnosisTurnInput \<Rightarrow> PersistDiagnosisTurnResult
   \<Rightarrow> (DiagnosisTaskEvent \<times> DiagnosisRoomFinalConclusion) activity" where
  "recordDiagnosisRoomFinalConclusionReady lib drv k req res =
     bindT (lookupDiagnosisTaskByID drv k (pi_DiagnosisTaskID req)) (\<lambda>task.
     bindT (listDiagnosisRoomTurns drv (k + 1) (pr_ChatSessionID res) (pr_TurnCount res)) (\<lambda>turns.
     bindT (liftT (diagnosisRoomCloseNotificationContextFromTurns lib turns (pr_AssistantTurnID res))) (\<lambda>cx.
     let conclusion = diagnosisRoomFinalConclusionFromPersistedTurn req res (dt_EvidenceSnapshotID task)
           (diagnosisRoomTurnRefsFromTurns (pr_ChatSessionID res) turns) cx
     in bindT (record_event lib drv (k + 2) (pi_DiagnosisTaskID req) EventFinalConclusionReady (pi_SessionID req)
          (pi_AssistantMessageID req) (final_ready_payload req res (dt_EvidenceSnapshotID task) conclusion)
          (pi_AssistantOccurredAt req)) (\<lambda>event. liftT (Inr (event, conclusion))))))"

definition recordDiagnosisRoomFailed ::
  "persist_lib \<Rightarrow> driver \<Rightarrow> nat \<Rightarrow> CloseDiagnosisChatSessionInput \<Rightarrow> ChatSession \<Rightarrow> DiagnosisTask
   \<Rightarrow> DiagnosisTaskEvent activity" where
  "recordDiagnosisRoomFailed lib drv k req session task =
     record_event lib drv k (xi_DiagnosisTaskID req) EventFailed (xi_SessionID req) (xi_Reason req)
       (failed_payload req session task) (xi_ClosedAt req)"

definition diagnosisRoomFinalConclusion ::
  "persist_lib \<Rightarrow> driver \<Rightarrow> nat \<Rightarrow> CloseDiagnosisChatSessionInput \<Rightarrow> ChatSession \<Rightarrow> DiagnosisTask
   \<Rightarrow> DiagnosisRoomFinalConclusion activity" where
  "diagnosisRoomFinalConclusion lib drv k req session task =
     (if cs_TurnCount session = 0 then
        liftT (Inr (no_conclusion req session (dt_EvidenceSnapshotID task)))
      else bindT (listDiagnosisRoomTurns drv k (cs_ID session) (cs_TurnCount session)) (\<lambda>turns.
        liftT (final_conclusion_of lib req session (dt_EvidenceSnapshotID task) turns)))"

text \<open>Transactions \<open>k\<close> to \<open>k + 3\<close>.\<close>

definition recordDiagnosisRoomClosed ::
  "persist_lib \<Rightarrow> driver \<Rightarrow> nat \<Rightarrow> CloseDiagnosisChatSessionInput \<Rightarrow> ChatSession
   \<Rightarrow> ChatSessionSummary option \<Rightarrow> ChatSessionApproval list
   \<Rightarrow> (DiagnosisTaskEvent \<times> DiagnosisRoomFinalConclusion) activity" where
  "recordDiagnosisRoomClosed lib drv k req session summary approvals =
     bindT (lookupDiagnosisTaskByID drv k (xi_DiagnosisTaskID req)) (\<lambda>task.
     bindT (diagnosisRoomFinalConclusion lib drv (k + 1) req session task) (\<lambda>conclusion.
     bindT (record_event lib drv (k + 2) (xi_DiagnosisTaskID req) EventClosed (xi_SessionID req) ''closed''
        (closed_payload req session (dt_EvidenceSnapshotID task) conclusion summary approvals)
        (xi_ClosedAt req)) (\<lambda>event. liftT (Inr (event, conclusion)))))"

definition recordDiagnosisConclusionApprovedEvent ::
  "persist_lib \<Rightarrow> driver \<Rightarrow> nat \<Rightarrow> RecordDiagnosisConclusionApprovalInput \<Rightarrow> ChatSessionApproval
   \<Rightarrow> DiagnosisTaskEvent activity" where
  "recordDiagnosisConclusionApprovedEvent lib drv k req a =
     record_event lib drv k (qi_DiagnosisTaskID req) EventConclusionApproved (qi_SessionID req)
       (sa_ConclusionDigest a @ [nul] @ sa_ActorSubject a) (approved_payload req a) (sa_ApprovedAt a)"

section \<open>Opening a session\<close>

definition check_chat_session :: "EnsureDiagnosisChatSessionInput \<Rightarrow> ChatSession \<Rightarrow> ChatSession result" where
  "check_chat_session req session =
     bindE (validateChatSessionBinding session (ei_SessionID req) (ei_DiagnosisTaskID req)
              (ei_OwnerSubject req)) (\<lambda>_.
     if cs_ApprovalMode session \<noteq> diagnosisApprovalModeOrDefault (ei_ApprovalMode req) then
       Inl (invariant_error ''chat session binding: approval_mode does not match'')
     else Inr session)"

definition ensureDiagnosisChatSession ::
  "driver \<Rightarrow> EnsureDiagnosisChatSessionInput \<Rightarrow> ChatSession activity" where
  "ensureDiagnosisChatSession drv req =
     bindT (liftT (validateEnsureDiagnosisChatSessionInput req)) (\<lambda>_.
     bindT (lookupChatSessionByKey drv 0 (ei_SessionID req)) (\<lambda>found.
     case found of
       Some session \<Rightarrow> liftT (check_chat_session req session)
     | None \<Rightarrow>
         bindT (liftT (NewChatSession (ei_DiagnosisTaskID req) (ei_SessionID req) (ei_OwnerSubject req)
                  (ei_StartedAt req) [diagnosisApprovalModeOrDefault (ei_ApprovalMode req)])) (\<lambda>candidate.
         onAlreadyExists (run_tx drv 1 (\<lambda>flt. SaveChatSession (flt 0) (dr_now drv) candidate))
           (bindT (lookupChatSessionByKey drv 2 (ei_SessionID req)) (\<lambda>found.
            case found of
              None \<Rightarrow> liftT (Inl (invariant_error ''duplicate chat session insert but no session''))
            | Some session \<Rightarrow> liftT (check_chat_session req session))))))"

definition EnsureDiagnosisChatSession ::
  "persist_lib \<Rightarrow> driver \<Rightarrow> EnsureDiagnosisChatSessionInput \<Rightarrow> EnsureDiagnosisChatSessionResult activity" where
  "EnsureDiagnosisChatSession lib drv req =
     bindT (mapErrT (mapActivityError ''ensure-diagnosis-chat-session'') (ensureDiagnosisChatSession drv req))
       (\<lambda>session.
     bindT (mapErrT (mapActivityError ''ensure-diagnosis-chat-session lifecycle event'')
              (recordDiagnosisRoomOpened lib drv 3 req session)) (\<lambda>event.
     liftT (Inr (ensureDiagnosisChatSessionResult session event))))"

definition check_room_task :: "EnsureDiagnosisRoomSessionInput \<Rightarrow> DiagnosisTask \<Rightarrow> DiagnosisTask result" where
  "check_room_task req task = bindE (validateDiagnosisRoomTaskBinding req task) (\<lambda>_. Inr task)"

definition save_room_task ::
  "EnsureDiagnosisRoomSessionInput \<Rightarrow> go_time \<Rightarrow> DiagnosisTask \<Rightarrow> (nat \<Rightarrow> go_error option)
   \<Rightarrow> (diagnosis_db, DiagnosisTask) tx" where
  "save_room_task req now started flt =
     bindT (FindSnapshotByID (flt 0) (ni_EvidenceSnapshotID req)) (\<lambda>_. SaveTask (flt 1) now started)"

text \<open>Transactions 2 to 4.\<close>

definition ensureDiagnosisRoomTask ::
  "driver \<Rightarrow> EnsureDiagnosisRoomSessionInput \<Rightarrow> DiagnosisTask activity" where
  "ensureDiagnosisRoomTask drv req =
     bindT (lookupDiagnosisTaskByExecution drv 2 (ni_WorkflowID req) (ni_RunID req)) (\<lambda>found.
     case found of
       Some task \<Rightarrow> liftT (check_room_task req task)
     | None \<Rightarrow>
         bindT (liftT (bindE (NewDiagnosisTask (ni_EvidenceSnapshotID req) (TrimSpace (ni_WorkflowID req))
                  (TrimSpace (ni_RunID req))) (\<lambda>candidate. DiagnosisTask_Start candidate (ni_StartedAt req))))
           (\<lambda>started.
         onAlreadyExists (run_tx drv 3 (save_room_task req (dr_now drv) started))
           (bindT (lookupDiagnosisTaskByExecution drv 4 (ni_WorkflowID req) (ni_RunID req)) (\<lambda>found.
            case found of
              None \<Rightarrow> liftT (Inl (invariant_error ''duplicate diagnosis task insert but no task''))
            | Some task \<Rightarrow> liftT (check_room_task req task)))))"

text \<open>Transactions 5 and 6.\<close>

definition ensureDiagnosisRoomChatSession ::
  "driver \<Rightarrow> EnsureDiagnosisRoomSessionInput \<Rightarrow> DiagnosisTask \<Rightarrow> ChatSession activity" where
  "ensureDiagnosisRoomChatSession drv req task =
     bindT (liftT (NewChatSession (dt_ID task) (ni_SessionID req) (ni_OwnerSubject req) (ni_StartedAt req)
              [diagnosisApprovalModeOrDefault (ni_ApprovalMode req)])) (\<lambda>candidate.
     onAlreadyExists (run_tx drv 5 (\<lambda>flt. SaveChatSession (flt 0) (dr_now drv) candidate))
       (bindT (lookupChatSessionByKey drv 6 (ni_SessionID req)) (\<lambda>found.
        case found of
          None \<Rightarrow> liftT (Inl (invariant_error ''duplicate chat session insert but no session''))
        | Some session \<Rightarrow> liftT (bindE (validateDiagnosisRoomSessionTaskBinding req session task)
                                       (\<lambda>_. Inr session)))))"

definition ensureDiagnosisRoomSession ::
  "driver \<Rightarrow> EnsureDiagnosisRoomSessionInput \<Rightarrow> (ChatSession \<times> DiagnosisTask) activity" where
  "ensureDiagnosisRoomSession drv req =
     bindT (liftT (validateEnsureDiagnosisRoomSessionInput req)) (\<lambda>_.
     bindT (lookupChatSessionByKey drv 0 (ni_SessionID req)) (\<lambda>found.
     case found of
       Some session \<Rightarrow>
         bindT (lookupDiagnosisTaskByID drv 1 (cs_DiagnosisTaskID session)) (\<lambda>task.
         liftT (bindE (validateDiagnosisRoomSessionTaskBinding req session task) (\<lambda>_. Inr (session, task))))
     | None \<Rightarrow>
         bindT (ensureDiagnosisRoomTask drv req) (\<lambda>task.
         bindT (ensureDiagnosisRoomChatSession drv req task) (\<lambda>session. liftT (Inr (session, task))))))"

definition EnsureDiagnosisRoomSession ::
  "persist_lib \<Rightarrow> driver \<Rightarrow> EnsureDiagnosisRoomSessionInput \<Rightarrow> EnsureDiagnosisRoomSessionResult activity" where
  "EnsureDiagnosisRoomSession lib drv req =
     bindT (mapErrT (mapActivityError ''ensure-diagnosis-room-session'') (ensureDiagnosisRoomSession drv req))
       (\<lambda>(session, task).
     let eventReq = \<lparr>ei_SessionID = ni_SessionID req, ei_DiagnosisTaskID = dt_ID task,
           ei_OwnerSubject = ni_OwnerSubject req, ei_StartedAt = ni_StartedAt req,
           ei_ApprovalMode = ni_ApprovalMode req\<rparr>
     in bindT (mapErrT (mapActivityError ''ensure-diagnosis-room-session lifecycle event'')
                 (recordDiagnosisRoomOpened lib drv 7 eventReq session)) (\<lambda>event.
        liftT (Inr (ensureDiagnosisRoomSessionResult task session event))))"

section \<open>Persisting a turn\<close>

definition findChatTurnByMessageID :: "go_error option \<Rightarrow> int \<Rightarrow> string \<Rightarrow> (diagnosis_db, ChatTurn option) tx" where
  "findChatTurnByMessageID fault sessionID messageID =
     orNotFound (FindChatTurnBySessionAndMessageID fault sessionID messageID)"

definition user_turn :: "PersistDiagnosisTurnInput \<Rightarrow> int \<Rightarrow> string \<Rightarrow> ChatTurn" where
  "user_turn req sessionID meta =
     \<lparr>ct_ID = 0, ct_SessionID = sessionID, ct_MessageID = pi_UserMessageID req,
      ct_Sequence = pi_UserSequence req, ct_Role = ChatRoleUser, ct_ActorSubject = pi_ActorSubject req,
      ct_Content = pi_UserMessage req, ct_Metadata = meta, ct_OccurredAt = pi_UserOccurredAt req,
      ct_CreatedAt = 0\<rparr>"

definition assistant_turn :: "PersistDiagnosisTurnInput \<Rightarrow> TurnOutput \<Rightarrow> int \<Rightarrow> string \<Rightarrow> ChatTurn" where
  "assistant_turn req out sessionID meta =
     \<lparr>ct_ID = 0, ct_SessionID = sessionID, ct_MessageID = pi_AssistantMessageID req,
      ct_Sequence = pi_AssistantSequence req, ct_Role = ChatRoleAssistant, ct_ActorSubject = RoomAgentName,
      ct_Content = to_Message out, ct_Metadata = meta, ct_OccurredAt = pi_AssistantOccurredAt req,
      ct_CreatedAt = 0\<rparr>"

definition partial_turn_error :: go_error where
  "partial_turn_error = invariant_error ''partial persisted diagnosis turn''"

text \<open>Both messages and the advanced session, statements 3 to 5 of the transaction.\<close>

definition save_turn_pair ::
  "persist_lib \<Rightarrow> go_time \<Rightarrow> PersistDiagnosisTurnInput \<Rightarrow> TurnOutput \<Rightarrow> string \<Rightarrow> string \<Rightarrow> ChatSession
   \<Rightarrow> (nat \<Rightarrow> go_error option) \<Rightarrow> (diagnosis_db, PersistDiagnosisTurnResult) tx" where
  "save_turn_pair lib now req parsed userMeta assistantMeta session flt =
     bindT (liftT (NewChatTurn (vl_tokenize lib) (user_turn req (cs_ID session) userMeta))) (\<lambda>userTurn.
     bindT (liftT (NewChatTurn (vl_tokenize lib) (assistant_turn req parsed (cs_ID session) assistantMeta)))
       (\<lambda>assistantTurn.
     bindT (SaveChatTurn (flt 3) now userTurn) (\<lambda>savedUser.
     bindT (SaveChatTurn (flt 4) now assistantTurn) (\<lambda>savedAssistant.
     bindT (liftT (ChatSession_RecordTurn session (pi_AssistantOccurredAt req))) (\<lambda>advanced.
     bindT (UpdateChatSession (flt 5) now advanced) (\<lambda>savedSession.
     liftT (Inr (persistDiagnosisTurnResult savedSession savedUser savedAssistant parsed))))))))"

definition persist_turn_tx ::
  "persist_lib \<Rightarrow> go_time \<Rightarrow> PersistDiagnosisTurnInput \<Rightarrow> TurnOutput \<Rightarrow> string \<Rightarrow> string
   \<Rightarrow> (nat \<Rightarrow> go_error option) \<Rightarrow> (diagnosis_db, PersistDiagnosisTurnResult) tx" where
  "persist_turn_tx lib now req parsed userMeta assistantMeta flt =
     bindT (FindChatSessionByKey (flt 0) (pi_SessionID req)) (\<lambda>session.
     bindT (liftT (validateChatSessionBinding session (pi_SessionID req) (pi_DiagnosisTaskID req)
              (pi_OwnerSubject req))) (\<lambda>_.
     bindT (findChatTurnByMessageID (flt 1) (cs_ID session) (pi_UserMessageID req)) (\<lambda>userTurn.
     bindT (findChatTurnByMessageID (flt 2) (cs_ID session) (pi_AssistantMessageID req)) (\<lambda>assistantTurn.
     case (userTurn, assistantTurn) of
       (Some ut, Some at) \<Rightarrow> liftT (Inr (persistDiagnosisTurnResult session ut at parsed))
     | (None, None) \<Rightarrow> save_turn_pair lib now req parsed userMeta assistantMeta session flt
     | _ \<Rightarrow> liftT (Inl partial_turn_error)))))"

definition persistDiagnosisTurnOnce ::
  "persist_lib \<Rightarrow> driver \<Rightarrow> PersistDiagnosisTurnInput \<Rightarrow> PersistDiagnosisTurnResult activity" where
  "persistDiagnosisTurnOnce lib drv req =
     bindT (liftT (validatePersistDiagnosisTurnInput lib req)) (\<lambda>parsed.
     bindT (liftT (diagnosisUserTurnMetadata lib req)) (\<lambda>userMeta.
     bindT (liftT (diagnosisAssistantTurnMetadata lib req parsed)) (\<lambda>assistantMeta.
     run_tx drv 0 (persist_turn_tx lib (dr_now drv) req parsed userMeta assistantMeta))))"

definition lookup_turn_tx ::
  "PersistDiagnosisTurnInput \<Rightarrow> TurnOutput \<Rightarrow> (nat \<Rightarrow> go_error option)
   \<Rightarrow> (diagnosis_db, PersistDiagnosisTurnResult option) tx" where
  "lookup_turn_tx req parsed flt =
     bindT (FindChatSessionByKey (flt 0) (pi_SessionID req)) (\<lambda>session.
     bindT (liftT (validateChatSessionBinding session (pi_SessionID req) (pi_DiagnosisTaskID req)
              (pi_OwnerSubject req))) (\<lambda>_.
     bindT (findChatTurnByMessageID (flt 1) (cs_ID session) (pi_UserMessageID req)) (\<lambda>userTurn.
     bindT (findChatTurnByMessageID (flt 2) (cs_ID session) (pi_AssistantMessageID req)) (\<lambda>assistantTurn.
     case (userTurn, assistantTurn) of
       (Some ut, Some at) \<Rightarrow> liftT (Inr (Some (persistDiagnosisTurnResult session ut at parsed)))
     | (None, None) \<Rightarrow> liftT (Inr None)
     | _ \<Rightarrow> liftT (Inl partial_turn_error)))))"

definition lookupPersistedDiagnosisTurn ::
  "persist_lib \<Rightarrow> driver \<Rightarrow> PersistDiagnosisTurnInput \<Rightarrow> PersistDiagnosisTurnResult option activity" where
  "lookupPersistedDiagnosisTurn lib drv req =
     bindT (liftT (validatePersistDiagnosisTurnInput lib req)) (\<lambda>parsed.
     run_tx drv 1 (lookup_turn_tx req parsed))"

definition persist_or_lookup ::
  "persist_lib \<Rightarrow> driver \<Rightarrow> PersistDiagnosisTurnInput \<Rightarrow> PersistDiagnosisTurnResult activity" where
  "persist_or_lookup lib drv req =
     onAlreadyExists (persistDiagnosisTurnOnce lib drv req)
       (bindT (lookupPersistedDiagnosisTurn lib drv req) (\<lambda>found.
        case found of
          None \<Rightarrow> liftT (Inl (invariant_error
            ''duplicate turn insert did not produce both transcript rows''))
        | Some res \<Rightarrow> liftT (Inr res)))"

text \<open>The events of a persisted turn, transactions 2 to 9.\<close>

definition record_turn_events ::
  "persist_lib \<Rightarrow> driver \<Rightarrow> PersistDiagnosisTurnInput \<Rightarrow> PersistDiagnosisTurnResult
   \<Rightarrow> PersistDiagnosisTurnResult activity" where
  "record_turn_events lib drv req res =
     bindT (recordDiagnosisRoomTurnPersisted lib drv 2 req res) (\<lambda>event.
     let res = res\<lparr>pr_LifecycleEventID := te_ID event\<rparr> in
     bindT (case pi_SupplementalEvidence req of
              None \<Rightarrow> liftT (Inr ())
            | Some ev \<Rightarrow> bindT (recordDiagnosisRoomSupplementalEvidenceProvided lib drv 4 req res ev)
                (\<lambda>_. liftT (Inr ()))) (\<lambda>_.
     if diagnosisRoomFinalConclusionReadyStatus (ci_ConclusionStatus (pr_Insight res)) then
       bindT (recordDiagnosisRoomFinalConclusionReady lib drv 6 req res) (\<lambda>(_, conclusion).
       liftT (Inr (res\<lparr>pr_FinalConclusion := copyDiagnosisRoomFinalConclusion conclusion\<rparr>)))
     else liftT (Inr res)))"

definition PersistDiagnosisTurn ::
  "persist_lib \<Rightarrow> driver \<Rightarrow> PersistDiagnosisTurnInput \<Rightarrow> PersistDiagnosisTurnResult activity" where
  "PersistDiagnosisTurn lib drv req =
     mapErrT (mapActivityError ''persist-diagnosis-turn'')
       (bindT (liftT (validatePersistDiagnosisTurnInput lib req)) (\<lambda>_.
        bindT (persist_or_lookup lib drv req) (record_turn_events lib drv req)))"

end
