(* ===== verification/Room_Closing.thy ===== *)
theory Room_Closing
  imports Room_Persistence
begin

text \<open>
  The activities that end a diagnosis room (\<open>diagnosis_room_persistence_activity.go\<close>): recording a
  stakeholder's approval of the persisted conclusion, and closing the session with its task after
  verifying the quorum. What a successful approval and a successful close imply about the store
  before and after is in \<open>Store_Outcomes\<close>.
\<close>

section \<open>The latest persisted conclusion\<close>

definition latestPersistedDiagnosisConclusion ::
  "persist_lib \<Rightarrow> go_error option \<Rightarrow> ChatSession \<Rightarrow> (diagnosis_db, ChatTurn \<times> string) tx" where
  "latestPersistedDiagnosisConclusion lib fault session =
     (if cs_TurnCount session \<le> 0 \<or> cs_TurnCount session > HardMaxTurns then
        liftT (Inl (invariant_error ''diagnosis conclusion: turn_count is outside the supported range''))
      else bindT (ListChatTurnsBySession fault (cs_ID session) (cs_TurnCount session * 2 + 1)) (\<lambda>turns.
        if int (length turns) \<noteq> cs_TurnCount session * 2 then
          liftT (Inl (invariant_error
            ''diagnosis conclusion: persisted transcript has another number of turns''))
        else liftT (LatestPersistedConclusion (vl_sha256_hex lib) session turns)))"

section \<open>Approvals\<close>

definition approval_candidate :: "RecordDiagnosisConclusionApprovalInput \<Rightarrow> int \<Rightarrow> ChatSessionApproval" where
  "approval_candidate req sessionID =
     \<lparr>sa_ID = 0, sa_SessionID = sessionID, sa_ConclusionDigest = qi_ConclusionDigest req,
      sa_ActorSubject = qi_ActorSubject req, sa_Authority = qi_Authority req, sa_Reason = qi_Reason req,
      sa_ApprovedAt = qi_ApprovedAt req, sa_CreatedAt = 0\<rparr>"

definition check_approval_authority ::
  "RecordDiagnosisConclusionApprovalInput \<Rightarrow> ChatSession \<Rightarrow> unit result" where
  "check_approval_authority req session =
     bindE (validateChatSessionBinding session (qi_SessionID req) (qi_DiagnosisTaskID req)
              (qi_OwnerSubject req)) (\<lambda>_.
     if cs_ApprovalMode session \<noteq> qi_ApprovalMode req then
       Inl (invariant_error ''record diagnosis conclusion approval: approval_mode does not match session mode'')
     else if qi_Authority req = ApprovalAuthorityOwner \<and> qi_ActorSubject req \<noteq> cs_OwnerSubject session then
       Inl (invariant_error ''record diagnosis conclusion approval: owner authority requires the room owner'')
     else if qi_Authority req = ApprovalAuthorityLeader \<and> qi_ActorSubject req = cs_OwnerSubject session then
       Inl (invariant_error
         ''record diagnosis conclusion approval: owner cannot also satisfy leader authority'')
     else Inr ())"

definition save_approval ::
  "go_time \<Rightarrow> RecordDiagnosisConclusionApprovalInput \<Rightarrow> ChatSession \<Rightarrow> (nat \<Rightarrow> go_error option)
   \<Rightarrow> (diagnosis_db, ChatSessionApproval) tx" where
  "save_approval now req session flt =
     bindT (liftT (NewChatSessionApproval (approval_candidate req (cs_ID session)))) (\<lambda>candidate.
     bindT (ListChatSessionApprovals (flt 3) (cs_ID session) (qi_ConclusionDigest req) ApprovalReadLimit)
       (\<lambda>existing.
     case PendingAuthorities (cs_ApprovalMode session) (existing @ [candidate]) of
       Inl e \<Rightarrow> liftT (Inl (wrap_error ''record diagnosis conclusion approval: invalid candidate quorum'' e))
     | Inr _ \<Rightarrow> SaveChatSessionApproval (flt 4) now candidate))"

text \<open>An actor's second approval of a conclusion has to repeat the first.\<close>

definition same_approval ::
  "RecordDiagnosisConclusionApprovalInput \<Rightarrow> ChatSessionApproval \<Rightarrow> ChatSessionApproval result" where
  "same_approval req existing =
     (if sa_Authority existing \<noteq> qi_Authority req \<or> sa_Reason existing \<noteq> TrimSpace (qi_Reason req) then
        Inl (invariant_error ''record diagnosis conclusion approval: existing actor approval is immutable'')
      else Inr existing)"

definition approval_tx ::
  "persist_lib \<Rightarrow> go_time \<Rightarrow> RecordDiagnosisConclusionApprovalInput \<Rightarrow> (nat \<Rightarrow> go_error option)
   \<Rightarrow> (diagnosis_db, ChatSessionApproval) tx" where
  "approval_tx lib now req flt =
     bindT (FindChatSessionByKey (flt 0) (qi_SessionID req)) (\<lambda>session.
     bindT (liftT (check_approval_authority req session)) (\<lambda>_.
     bindT (latestPersistedDiagnosisConclusion lib (flt 1) session) (\<lambda>(turn, persistedDigest).
     if persistedDigest \<noteq> qi_ConclusionDigest req \<or> ct_MessageID turn \<noteq> qi_AssistantMessageID req
        \<or> ct_Sequence turn \<noteq> qi_AssistantSequence req
        \<or> TrimSpace (ct_Content turn) \<noteq> TrimSpace (qi_ConclusionContent req) then
       liftT (Inl (invariant_error
         ''record diagnosis conclusion approval: persisted assistant turn does not match conclusion''))
     else bindT (orNotFound (FindChatSessionApproval (flt 2) (cs_ID session) (qi_ConclusionDigest req)
                   (qi_ActorSubject req))) (\<lambda>found.
       case found of
         Some existing \<Rightarrow> liftT (same_approval req existing)
       | None \<Rightarrow> save_approval now req session flt))))"

definition recordDiagnosisConclusionApproval ::
  "persist_lib \<Rightarrow> driver \<Rightarrow> RecordDiagnosisConclusionApprovalInput \<Rightarrow> ChatSessionApproval activity" where
  "recordDiagnosisConclusionApproval lib drv req =
     bindT (liftT (validateRecordDiagnosisConclusionApprovalInput lib req)) (\<lambda>_.
     run_tx drv 0 (approval_tx lib (dr_now drv) req))"

definition RecordDiagnosisConclusionApproval ::
  "persist_lib \<Rightarrow> driver \<Rightarrow> RecordDiagnosisConclusionApprovalInput
   \<Rightarrow> RecordDiagnosisConclusionApprovalResult activity" where
  "RecordDiagnosisConclusionApproval lib drv req =
     bindT (mapErrT (mapActivityError ''record-diagnosis-conclusion-approval'')
              (recordDiagnosisConclusionApproval lib drv req)) (\<lambda>a.
     bindT (mapErrT (mapActivityError ''record-diagnosis-conclusion-approval lifecycle event'')
              (recordDiagnosisConclusionApprovedEvent lib drv 1 req a)) (\<lambda>event.
     liftT (Inr \<lparr>qo_Approval = a, qo_LifecycleEventID = te_ID event\<rparr>)))"

section \<open>Closing\<close>

text \<open>The checks of each approval of the quorum.\<close>

fun check_approvals ::
  "CloseDiagnosisChatSessionInput \<Rightarrow> ChatSession \<Rightarrow> ChatSessionApproval list \<Rightarrow> unit result" where
  "check_approvals req session [] = Inr ()"
| "check_approvals req session (a # as) =
     bindE (NewChatSessionApproval a) (\<lambda>_.
     if sa_SessionID a \<noteq> cs_ID session \<or> sa_ConclusionDigest a \<noteq> xi_ConclusionDigest req then
       Inl (invariant_error ''close diagnosis chat session: approval is bound to a different conclusion'')
     else if sa_Authority a = ApprovalAuthorityOwner \<and> sa_ActorSubject a \<noteq> cs_OwnerSubject session then
       Inl (invariant_error ''close diagnosis chat session: owner approval is not from the room owner'')
     else if sa_Authority a = ApprovalAuthorityLeader \<and> sa_ActorSubject a = cs_OwnerSubject session then
       Inl (invariant_error ''close diagnosis chat session: room owner cannot satisfy leader approval'')
     else check_approvals req session as)"

definition check_quorum ::
  "CloseDiagnosisChatSessionInput \<Rightarrow> ChatSession \<Rightarrow> ChatSessionApproval list
   \<Rightarrow> ChatSessionApproval list result" where
  "check_quorum req session approvals =
     (if int (length approvals) \<ge> ApprovalReadLimit then
        Inl (invariant_error ''close diagnosis chat session: approval quorum contains too many records'')
      else bindE (check_approvals req session approvals) (\<lambda>_.
      bindE (PendingAuthorities (xi_ApprovalMode req) approvals) (\<lambda>pending.
      if pending \<noteq> [] then
        Inl (invariant_error ''close diagnosis chat session: conclusion approval quorum is incomplete'')
      else if \<not> list_ex (\<lambda>a. sa_ActorSubject a = xi_ConfirmedBy req) approvals then
        Inl (invariant_error
          ''close diagnosis chat session: confirmed_by is not part of the persisted quorum'')
      else Inr approvals)))"

definition verifyDiagnosisConclusionApproval ::
  "persist_lib \<Rightarrow> (nat \<Rightarrow> go_error option) \<Rightarrow> ChatSession \<Rightarrow> CloseDiagnosisChatSessionInput
   \<Rightarrow> (diagnosis_db, ChatSessionApproval list) tx" where
  "verifyDiagnosisConclusionApproval lib flt session req =
     (if \<not> xi_RequireConclusionApproval req then
        (if xi_ApprovalMode req \<noteq> [] \<or> TrimSpace (xi_ConclusionDigest req) \<noteq> [] then
           liftT (Inl (invariant_error
             ''close diagnosis chat session: approval metadata requires approval enforcement''))
         else liftT (Inr []))
      else if \<not> DiagnosisApprovalMode_Valid (xi_ApprovalMode req)
              \<or> cs_ApprovalMode session \<noteq> xi_ApprovalMode req then
        liftT (Inl (invariant_error
          ''close diagnosis chat session: approval_mode does not match session mode''))
      else bindT (liftT (case ValidateConclusionDigest (vl_unicode_lower lib) (xi_ConclusionDigest req) of
                           Inl e \<Rightarrow> Inl (wrap_error ''close diagnosis chat session'' e)
                         | Inr _ \<Rightarrow> Inr ())) (\<lambda>_.
      bindT (latestPersistedDiagnosisConclusion lib (flt 1) session) (\<lambda>(turn, persistedDigest).
      if persistedDigest \<noteq> xi_ConclusionDigest req then
        liftT (Inl (invariant_error
          ''close diagnosis chat session: approval digest does not match the latest assistant conclusion''))
      else bindT (ListChatSessionApprovals (flt 2) (cs_ID session) (xi_ConclusionDigest req)
                    ApprovalReadLimit) (\<lambda>approvals.
        liftT (check_quorum req session approvals)))))"

definition ensureDiagnosisConversationSummary ::
  "persist_lib \<Rightarrow> go_time \<Rightarrow> (nat \<Rightarrow> go_error option) \<Rightarrow> ChatSession \<Rightarrow> CloseDiagnosisChatSessionInput
   \<Rightarrow> (diagnosis_db, ChatSessionSummary) tx" where
  "ensureDiagnosisConversationSummary lib now flt session req =
     bindT (ListChatTurnsBySession (flt 3) (cs_ID session) (MaxSourceTurns + 1)) (\<lambda>turns.
     if int (length turns) \<noteq> wrap64 (xi_TurnCount req * 2) then
       liftT (Inl (invariant_error
         ''close diagnosis chat session: persisted transcript does not match workflow turn_count''))
     else bindT (liftT (Summarize (vl_summary lib) (cs_ID session) turns (xi_ClosedAt req))) (\<lambda>candidate.
     bindT (orNotFound (FindChatSessionSummaryBySessionAndVersion (flt 4) (cs_ID session) SummaryVersion))
       (\<lambda>found.
     case found of
       Some existing \<Rightarrow>
         if \<not> Equivalent (vl_summary lib) existing candidate then
           liftT (Inl (invariant_error
             ''close diagnosis chat session: existing conversation summary does not match transcript''))
         else liftT (Inr existing)
     | None \<Rightarrow> SaveChatSessionSummary (flt 5) now candidate)))"

definition optional_summary ::
  "persist_lib \<Rightarrow> go_time \<Rightarrow> (nat \<Rightarrow> go_error option) \<Rightarrow> ChatSession \<Rightarrow> CloseDiagnosisChatSessionInput
   \<Rightarrow> (diagnosis_db, ChatSessionSummary option) tx" where
  "optional_summary lib now flt session req =
     (if xi_GenerateConversationSummary req
      then bindT (ensureDiagnosisConversationSummary lib now flt session req)
             (\<lambda>summary. liftT (Inr (Some summary)))
      else liftT (Inr None))"

text \<open>The task and the session end together, statements 6 to 8 of the transaction.\<close>

definition finish_room ::
  "go_time \<Rightarrow> CloseDiagnosisChatSessionInput \<Rightarrow> string \<times> string \<Rightarrow> ChatSession \<Rightarrow> (nat \<Rightarrow> go_error option)
   \<Rightarrow> (diagnosis_db, ChatSession \<times> DiagnosisTask) tx" where
  "finish_room now req terminal session flt =
     bindT (FindTaskByID (flt 6) (xi_DiagnosisTaskID req)) (\<lambda>task.
     bindT (liftT (DiagnosisTask_Finish task (fst terminal) (xi_ClosedAt req) (snd terminal))) (\<lambda>finished.
     bindT (UpdateTask (flt 7) now finished) (\<lambda>savedTask.
     bindT (liftT (ChatSession_Close session (xi_ClosedAt req) (xi_Reason req))) (\<lambda>closed.
     bindT (UpdateChatSession (flt 8) now closed) (\<lambda>saved. liftT (Inr (saved, savedTask)))))))"

definition close_tx ::
  "persist_lib \<Rightarrow> go_time \<Rightarrow> CloseDiagnosisChatSessionInput \<Rightarrow> string \<times> string \<Rightarrow> (nat \<Rightarrow> go_error option)
   \<Rightarrow> (diagnosis_db, ChatSession \<times> DiagnosisTask \<times> ChatSessionSummary option
                     \<times> ChatSessionApproval list) tx" where
  "close_tx lib now req terminal flt =
     bindT (FindChatSessionByKey (flt 0) (xi_SessionID req)) (\<lambda>session.
     bindT (liftT (validateChatSessionIdentity session (xi_SessionID req) (xi_DiagnosisTaskID req)
              (xi_OwnerSubject req))) (\<lambda>_.
     if cs_TurnCount session \<noteq> xi_TurnCount req then
       liftT (Inl (invariant_error
         ''close diagnosis chat session: turn_count does not match workflow turn_count''))
     else bindT (verifyDiagnosisConclusionApproval lib flt session req) (\<lambda>approvals.
     bindT (optional_summary lib now flt session req) (\<lambda>summary.
     bindT (finish_room now req terminal session flt) (\<lambda>(saved, savedTask).
     liftT (Inr (saved, savedTask, summary, approvals)))))))"

definition closeDiagnosisChatSession ::
  "persist_lib \<Rightarrow> driver \<Rightarrow> CloseDiagnosisChatSessionInput
   \<Rightarrow> (ChatSession \<times> DiagnosisTask \<times> ChatSessionSummary option \<times> ChatSessionApproval list) activity" where
  "closeDiagnosisChatSession lib drv req =
     bindT (liftT (validateCloseDiagnosisChatSessionInput req)) (\<lambda>_.
     bindT (liftT (diagnosisTaskTerminalStateForRoomClose req)) (\<lambda>terminal.
     run_tx drv 0 (close_tx lib (dr_now drv) req terminal)))"

definition CloseDiagnosisChatSession ::
  "persist_lib \<Rightarrow> driver \<Rightarrow> CloseDiagnosisChatSessionInput \<Rightarrow> CloseDiagnosisChatSessionResult activity" where
  "CloseDiagnosisChatSession lib drv req =
     bindT (mapErrT (mapActivityError ''close-diagnosis-chat-session'') (closeDiagnosisChatSession lib drv req))
       (\<lambda>(session, task, summary, approvals).
     bindT (if dt_Status task = DiagnosisStatusFailed
            then bindT (mapErrT (mapActivityError ''close-diagnosis-chat-session failure event'')
                   (recordDiagnosisRoomFailed lib drv 1 req session task)) (\<lambda>_. liftT (Inr ()))
            else liftT (Inr ())) (\<lambda>_.
     bindT (mapErrT (mapActivityError ''close-diagnosis-chat-session lifecycle event'')
              (recordDiagnosisRoomClosed lib drv 3 req session summary approvals)) (\<lambda>(event, conclusion).
     liftT (Inr (closeDiagnosisChatSessionResult session event conclusion summary
              (xi_ConclusionDigest req) approvals)))))"

end
