(* ===== verification/Store_Steps.thy ===== *)
theory Store_Steps
  imports Room_Closing
begin

text \<open>
  The abstract specification of the room store: six atomic steps, each of which moves the store from
  one consistent state to another. The lemmas say that an activity, whatever the database driver
  answers to its transactions, moves the store by these steps only. The locale \<open>store_relation\<close> holds
  the rules for composed activities; it needs a reflexive and transitive relation and is interpreted
  on the sequences of steps.
\<close>

section \<open>Activities that move a store along a relation\<close>

definition acts_by :: "('s \<Rightarrow> 's \<Rightarrow> bool) \<Rightarrow> ('s, 'a) st \<Rightarrow> bool" where
  "acts_by R m \<longleftrightarrow> (\<forall>s. R s (fst (m s)))"

lemma acts_byD: "acts_by R m \<Longrightarrow> R s (fst (m s))"
  by (simp add: acts_by_def)

locale store_relation =
  fixes R :: "'s \<Rightarrow> 's \<Rightarrow> bool"
  assumes refl: "R s s"
    and trans: "R s t \<Longrightarrow> R t u \<Longrightarrow> R s u"
begin

lemma acts_lift: "acts_by R (liftT r)"
  by (simp add: acts_by_def liftT_def refl)

lemma acts_bind:
  assumes "acts_by R m" "\<And>x. acts_by R (f x)"
  shows "acts_by R (bindT m f)"
  unfolding acts_by_def
proof
  fix s
  have "R s (fst (m s))" using assms(1) by (rule acts_byD)
  moreover have "R (fst (m s)) (fst (f x (fst (m s))))" for x using assms(2) by (rule acts_byD)
  ultimately show "R s (fst (bindT m f s))"
    by (auto simp: bindT_def split: prod.splits sum.splits intro: trans)
qed

text \<open>After a check, the rest of an activity may rely on it.\<close>

lemma acts_check:
  assumes "\<And>x. r = Inr x \<Longrightarrow> acts_by R (f x)"
  shows "acts_by R (bindT (liftT r) f)"
  using assms by (cases r) (auto simp: acts_by_def bindT_def liftT_def refl)

lemma acts_mapErr: "acts_by R m \<Longrightarrow> acts_by R (mapErrT f m)"
  by (simp add: acts_by_def mapErrT_def prod.case_eq_if sum.case_eq_if)

lemma acts_already:
  assumes "acts_by R m" "acts_by R alt"
  shows "acts_by R (onAlreadyExists m alt)"
  unfolding acts_by_def
proof
  fix s
  have "R s (fst (m s))" "R (fst (m s)) (fst (alt (fst (m s))))"
    using assms by (auto dest: acts_byD)
  then show "R s (fst (onAlreadyExists m alt s))"
    by (auto simp: onAlreadyExists_def split: prod.splits sum.splits intro: trans)
qed

lemma acts_if: "acts_by R m \<Longrightarrow> acts_by R m' \<Longrightarrow> acts_by R (if b then m else m')"
  by simp

lemma acts_option: "acts_by R m \<Longrightarrow> (\<And>x. acts_by R (f x)) \<Longrightarrow> acts_by R (case y of None \<Rightarrow> m | Some x \<Rightarrow> f x)"
  by (cases y) auto

lemma acts_pair: "(\<And>x y. p = (x, y) \<Longrightarrow> acts_by R (f x y)) \<Longrightarrow> acts_by R (case p of (x, y) \<Rightarrow> f x y)"
  by (cases p) auto

lemmas acts = acts_lift acts_bind acts_mapErr acts_already acts_if acts_option acts_pair

end

text \<open>Statements that only read leave the data of their unit of work as it is.\<close>

definition same_data :: "'d uow \<Rightarrow> 'd uow \<Rightarrow> bool" where
  "same_data u u' \<longleftrightarrow> uow_data u' = uow_data u"

interpretation reads: store_relation same_data
  by unfold_locales (simp_all add: same_data_def)

lemma reads_data:
  assumes "acts_by same_data m" "m u = (u', r)"
  shows "uow_data u' = uow_data u"
  using acts_byD [OF assms(1), of u] assms(2) by (simp add: same_data_def)

lemma reads_opened: "acts_by same_data m \<Longrightarrow> acts_by same_data (opened m)"
  by (auto simp: acts_by_def opened_def same_data_def split: option.splits)

lemma reads_query: "acts_by same_data (\<lambda>u. query_stmt fault u q)"
  by (auto simp: acts_by_def query_stmt_def exec_stmt_def same_data_def split: option.splits)

lemma reads_only_row: "acts_by same_data (only_row fault q)"
  unfolding only_row_def by (intro reads.acts reads_query)

lemma reads_list_rows: "acts_by same_data (list_rows fault w lim q)"
  unfolding list_rows_def by (intro reads.acts reads_query)

lemma reads_orNotFound: "acts_by same_data m \<Longrightarrow> acts_by same_data (orNotFound m)"
  by (simp add: acts_by_def orNotFound_def prod.case_eq_if sum.case_eq_if)

lemma reads_sum:
  "(\<And>e. acts_by same_data (f e)) \<Longrightarrow> (\<And>x. acts_by same_data (g x))
   \<Longrightarrow> acts_by same_data (case r of Inl e \<Rightarrow> f e | Inr x \<Rightarrow> g x)"
  by (cases r) auto

lemmas read_intros = reads.acts reads_opened reads_query reads_only_row reads_list_rows reads_orNotFound
  reads_sum

lemma reads_store:
  "acts_by same_data (FindTaskByID fault i)" "acts_by same_data (FindTaskByExecution fault w k)"
  "acts_by same_data (FindEventByTaskAndDedupeKey fault i k)" "acts_by same_data (FindChatSessionByKey fault k)"
  "acts_by same_data (FindChatTurnBySessionAndMessageID fault i k)"
  "acts_by same_data (ListChatTurnsBySession fault i lim)"
  "acts_by same_data (FindChatSessionSummaryBySessionAndVersion fault i v)"
  "acts_by same_data (FindChatSessionApproval fault i w k)"
  "acts_by same_data (ListChatSessionApprovals fault i w lim)" "acts_by same_data (FindSnapshotByID fault i)"
  unfolding FindTaskByID_def FindTaskByExecution_def FindEventByTaskAndDedupeKey_def FindChatSessionByKey_def
    FindChatTurnBySessionAndMessageID_def ListChatTurnsBySession_def
    FindChatSessionSummaryBySessionAndVersion_def FindChatSessionApproval_def ListChatSessionApprovals_def
    FindSnapshotByID_def Let_def
  by (intro read_intros)+

lemma reads_find_turn: "acts_by same_data (findChatTurnByMessageID fault i m)"
  unfolding findChatTurnByMessageID_def by (intro read_intros reads_store)

lemma reads_lookup_turn: "acts_by same_data (lookup_turn_tx req parsed flt)"
  unfolding lookup_turn_tx_def by (intro read_intros reads_store reads_find_turn)

lemma reads_event_kind: "acts_by same_data (find_event_of_kind i k w flt)"
  unfolding find_event_of_kind_def Let_def by (intro read_intros reads_store)

lemma reads_latest: "acts_by same_data (latestPersistedDiagnosisConclusion lib fault s)"
  unfolding latestPersistedDiagnosisConclusion_def by (intro read_intros reads_store)

lemma reads_verify: "acts_by same_data (verifyDiagnosisConclusionApproval lib flt s req)"
  unfolding verifyDiagnosisConclusionApproval_def by (intro read_intros reads_store reads_latest)

text \<open>A transaction moves the store only as its callback does, with or without an acknowledgement.\<close>

locale tx_relation = store_relation R for R :: "diagnosis_db \<Rightarrow> diagnosis_db \<Rightarrow> bool"
begin

lemma acts_tx:
  assumes "\<And>flt. keeps_open (fn flt)"
    and "\<And>flt d u x. fn flt (newUnitOfWork d) = (u, Inr x) \<Longrightarrow> \<not> uow_aborted u \<Longrightarrow> R d (uow_data u)"
  shows "acts_by R (run_tx drv k fn)"
  unfolding acts_by_def
proof
  fix d
  obtain d' r where w: "within_tx (dr_env drv k) d (fn (dr_stmt drv k)) = (d', r)"
    by (cases "within_tx (dr_env drv k) d (fn (dr_stmt drv k))")
  have "R d d'" using within_tx_effect [OF assms(1) w] assms(2) refl by blast
  with w show "R d (fst (run_tx drv k fn d))" by (simp add: run_tx_def)
qed

text \<open>A transaction of queries.\<close>

lemma acts_read:
  assumes "\<And>flt. keeps_open (fn flt)" "\<And>flt. acts_by same_data (fn flt)"
  shows "acts_by R (run_tx drv k fn)"
  using assms(1) by (rule acts_tx) (use reads_data [OF assms(2)] refl in fastforce)

end

section \<open>The steps\<close>

abbreviation update_task :: "go_time \<Rightarrow> DiagnosisTask \<Rightarrow> diagnosis_db \<Rightarrow> diagnosis_db" where
  "update_task now t d \<equiv>
     d\<lparr>db_tasks := fst (update_row dt_ID (dt_ID t) (update_task_row now t) (db_tasks d))\<rparr>"

abbreviation update_session :: "go_time \<Rightarrow> ChatSession \<Rightarrow> diagnosis_db \<Rightarrow> diagnosis_db" where
  "update_session now s d \<equiv>
     d\<lparr>db_sessions := fst (update_row cs_ID (cs_ID s) (update_session_row now s) (db_sessions d))\<rparr>"

text \<open>The rules of who may give an approval.\<close>

definition authority_ok :: "ChatSession \<Rightarrow> ChatSessionApproval \<Rightarrow> bool" where
  "authority_ok s a \<longleftrightarrow>
     (sa_Authority a = ApprovalAuthorityOwner \<longrightarrow> sa_ActorSubject a = cs_OwnerSubject s) \<and>
     (sa_Authority a = ApprovalAuthorityLeader \<longrightarrow> sa_ActorSubject a \<noteq> cs_OwnerSubject s)"

inductive store_step :: "(string \<Rightarrow> decoder) \<Rightarrow> (string \<Rightarrow> string) \<Rightarrow> diagnosis_db \<Rightarrow> diagnosis_db \<Rightarrow> bool"
  for tok sha where
    task_opened:
      "\<lbrakk>NewDiagnosisTask snapshot workflow run = Inr c; DiagnosisTask_Start c started = Inr t;
        insert_task now t d = Inr (d', r)\<rbrakk> \<Longrightarrow> store_step tok sha d d'"
  | session_opened:
      "\<lbrakk>NewChatSession i key owner started [mode] = Inr s; insert_session now s d = Inr (d', r)\<rbrakk>
       \<Longrightarrow> store_step tok sha d d'"
  | event_recorded:
      "insert_task_event now e d = Inr (d', r) \<Longrightarrow> store_step tok sha d d'"
  | turn_persisted:
      "\<lbrakk>s \<in> set (tb_rows (db_sessions d)); NewChatTurn tok u0 = Inr u; NewChatTurn tok a0 = Inr a;
        ct_SessionID u = cs_ID s; ct_Role u = ChatRoleUser;
        ct_SessionID a = cs_ID s; ct_Role a = ChatRoleAssistant;
        insert_turn now u d = Inr (d1, u'); insert_turn now a d1 = Inr (d2, a');
        ChatSession_RecordTurn s answered = Inr s'; 0 \<le> cs_TurnCount s'; d' = update_session now s' d2\<rbrakk>
       \<Longrightarrow> store_step tok sha d d'"
  | conclusion_approved:
      "\<lbrakk>s \<in> set (tb_rows (db_sessions d)); \<not> ChatSessionStatus_IsTerminal (cs_Status s);
        LatestPersistedConclusion sha s (session_turns (cs_ID s) d) = Inr (turn, digest);
        NewChatSessionApproval c = Inr a; sa_SessionID a = cs_ID s; sa_ConclusionDigest a = TrimSpace digest;
        authority_ok s a;
        PendingAuthorities (cs_ApprovalMode s)
          (conclusion_approvals (cs_ID s) (sa_ConclusionDigest a) d @ [a]) = Inr pending;
        insert_approval now a d = Inr (d', r)\<rbrakk> \<Longrightarrow> store_step tok sha d d'"
  | room_closed:
      "\<lbrakk>s \<in> set (tb_rows (db_sessions d)); t \<in> set (tb_rows (db_tasks d)); dt_ID t = cs_DiagnosisTaskID s;
        d1 = d \<or> (\<exists>y r. ss_SessionID y = cs_ID s \<and> insert_summary now y d = Inr (d1, r));
        DiagnosisTask_Finish t status closed failure = Inr t'; ChatSession_Close s closed reason = Inr s';
        d' = update_session now s' (update_task now t' d1)\<rbrakk> \<Longrightarrow> store_step tok sha d d'"

definition lib_step :: "persist_lib \<Rightarrow> diagnosis_db \<Rightarrow> diagnosis_db \<Rightarrow> bool" where
  "lib_step lib = (store_step (vl_tokenize lib) (vl_sha256_hex lib))\<^sup>*\<^sup>*"

interpretation steps: tx_relation "lib_step lib" for lib
  by unfold_locales (auto simp: lib_step_def)

lemma lib_step1: "store_step (vl_tokenize lib) (vl_sha256_hex lib) d d' \<Longrightarrow> lib_step lib d d'"
  unfolding lib_step_def by (rule r_into_rtranclp)

end
