(* ===== verification/Store_Refinement.thy ===== *)
theory Store_Refinement
  imports Store_Steps
begin

text \<open>
  The activities of a room refine the steps of the store: every one of them, under any answers of
  the driver, is a sequence of steps (\<open>lib_step\<close>). A transaction contributes at most one step. Then
  any calls of the activities, in any order and with any retries, are a sequence of steps.
\<close>

section \<open>Transactions of the activities\<close>

lemma keeps_open_option: "keeps_open m \<Longrightarrow> (\<And>x. keeps_open (f x)) \<Longrightarrow> keeps_open (case y of None \<Rightarrow> m | Some x \<Rightarrow> f x)"
  by (cases y) auto

lemma keeps_open_pair: "(\<And>x y. keeps_open (f x y)) \<Longrightarrow> keeps_open (case p of (x, y) \<Rightarrow> f x y)"
  by (cases p) auto

lemma keeps_open_sum: "(\<And>e. keeps_open (f e)) \<Longrightarrow> (\<And>x. keeps_open (g x)) \<Longrightarrow> keeps_open (case r of Inl e \<Rightarrow> f e | Inr x \<Rightarrow> g x)"
  by (cases r) auto

lemmas open_intros = keeps_open_bind keeps_open_lift keeps_open_orNotFound keeps_open_if keeps_open_option
  keeps_open_pair keeps_open_sum keeps_open_store keeps_open_opened keeps_open_mapErr keeps_open_only

lemma keeps_open_find_turn [store_open]: "keeps_open (findChatTurnByMessageID fault i m)"
  unfolding findChatTurnByMessageID_def by (intro open_intros)

lemma keeps_open_save_pair [store_open]: "keeps_open (save_turn_pair lib now req parsed um am s flt)"
  unfolding save_turn_pair_def by (intro open_intros)

lemma keeps_open_persist [store_open]: "keeps_open (persist_turn_tx lib now req parsed um am flt)"
  unfolding persist_turn_tx_def
  by (intro open_intros keeps_open_find_turn keeps_open_save_pair)

lemma keeps_open_lookup_turn [store_open]: "keeps_open (lookup_turn_tx req parsed flt)"
  unfolding lookup_turn_tx_def by (intro open_intros keeps_open_find_turn)

lemma keeps_open_latest [store_open]: "keeps_open (latestPersistedDiagnosisConclusion lib fault s)"
  unfolding latestPersistedDiagnosisConclusion_def by (intro open_intros)

lemma keeps_open_approval [store_open]: "keeps_open (approval_tx lib now req flt)"
  unfolding approval_tx_def save_approval_def by (intro open_intros keeps_open_latest)

lemma keeps_open_verify [store_open]: "keeps_open (verifyDiagnosisConclusionApproval lib flt s req)"
  unfolding verifyDiagnosisConclusionApproval_def by (intro open_intros keeps_open_latest)

lemma keeps_open_summary [store_open]: "keeps_open (ensureDiagnosisConversationSummary lib now flt s req)"
  unfolding ensureDiagnosisConversationSummary_def by (intro open_intros)

lemma keeps_open_close [store_open]: "keeps_open (close_tx lib now req terminal flt)"
  unfolding close_tx_def optional_summary_def finish_room_def
  by (intro open_intros keeps_open_verify keeps_open_summary)

lemma keeps_open_event_kind [store_open]: "keeps_open (find_event_of_kind i k w flt)"
  unfolding find_event_of_kind_def Let_def by (intro open_intros)

lemma keeps_open_room_task [store_open]: "keeps_open (save_room_task req now t flt)"
  unfolding save_room_task_def FindSnapshotByID_def by (intro open_intros)

section \<open>Rows and their sources\<close>

lemma NewChatTurn_fields:
  assumes "NewChatTurn tok i = Inr t"
  shows "t = i\<lparr>ct_MessageID := TrimSpace (ct_MessageID i), ct_ActorSubject := TrimSpace (ct_ActorSubject i),
      ct_Content := TrimSpace (ct_Content i), ct_OccurredAt := NormalizeUTCMicro (ct_OccurredAt i),
      ct_Metadata := defaultJSONObject (ct_Metadata i)\<rparr>"
    "ct_SessionID t = ct_SessionID i" "ct_Sequence t = ct_Sequence i" "ct_Role t = ct_Role i"
    "ct_MessageID t = TrimSpace (ct_MessageID i)" "ct_Content t = TrimSpace (ct_Content i)"
  using assms by (auto simp: NewChatTurn_def Let_def split: sum.splits if_splits)

lemma checked_Inr [tx_ok]:
  "(case r of Inl e \<Rightarrow> liftT (Inl (f e)) | Inr x \<Rightarrow> m x) u = (u', Inr y) \<longleftrightarrow>
     (\<exists>x. r = Inr x \<and> m x u = (u', Inr y))"
  by (cases r) auto

section \<open>What a committed transaction did\<close>

definition turn_rows :: "int \<Rightarrow> string \<Rightarrow> diagnosis_db \<Rightarrow> ChatTurn list" where
  "turn_rows i m d = filter (\<lambda>r. ct_SessionID r = i \<and> ct_MessageID r = m) (tb_rows (db_turns d))"

definition session_rows :: "string \<Rightarrow> diagnosis_db \<Rightarrow> ChatSession list" where
  "session_rows k d = filter (\<lambda>r. cs_SessionKey r = k) (tb_rows (db_sessions d))"

lemma session_rows_mem: "session_rows k d = [s] \<Longrightarrow> s \<in> set (tb_rows (db_sessions d)) \<and> cs_SessionKey s = k"
  by (auto simp: session_rows_def filter_eq_Cons_iff)

lemma find_turn_Some:
  "findChatTurnByMessageID fault i m u = (u', Inr (Some t)) \<longleftrightarrow>
     live u \<and> fault = None \<and> i \<noteq> 0 \<and> m \<noteq> [] \<and> turn_rows i m (uow_data u) = [t] \<and> u' = u"
  by (simp add: findChatTurnByMessageID_def orNotFound_Some FindChatTurn_Inr turn_rows_def)

lemma find_turn_None:
  assumes "findChatTurnByMessageID fault i m u = (u', Inr None)" "\<not> uow_aborted u'"
  shows "u' = u \<and> turn_rows i m (uow_data u) = []"
proof -
  let ?q = "\<lambda>d. filter (\<lambda>r. ct_SessionID r = i \<and> ct_MessageID r = m) (tb_rows (db_turns d))"
  have "orNotFound (opened (mapErrT asNotFound (only_row fault ?q))) u = (u', Inr None)"
    using assms(1)
    by (auto simp: findChatTurnByMessageID_def FindChatTurnBySessionAndMessageID_def orNotFound_None
        opened_def liftT_def split: if_splits option.splits)
  from only_row_not_found [OF this] assms(2) show ?thesis by (simp add: turn_rows_def)
qed

lemma find_turn_live:
  assumes "findChatTurnByMessageID fault i m u = (u', Inr r)" "\<not> uow_aborted u'"
  shows "u' = u"
  using assms by (cases r) (auto simp: find_turn_Some dest: find_turn_None)

lemma lookup_turn_result:
  assumes "lookup_turn_tx req parsed flt (newUnitOfWork d) = (u, Inr r)" "\<not> uow_aborted u"
  obtains s where "session_rows (pi_SessionID req) d = [s]"
      "validateChatSessionBinding s (pi_SessionID req) (pi_DiagnosisTaskID req) (pi_OwnerSubject req) = Inr ()"
      "r = None \<and> turn_rows (cs_ID s) (pi_UserMessageID req) d = []
         \<and> turn_rows (cs_ID s) (pi_AssistantMessageID req) d = [] \<or>
       (\<exists>ut at. turn_rows (cs_ID s) (pi_UserMessageID req) d = [ut]
         \<and> turn_rows (cs_ID s) (pi_AssistantMessageID req) d = [at]
         \<and> r = Some (persistDiagnosisTurnResult s ut at parsed))"
proof -
  let ?u = "newUnitOfWork d"
  obtain s u1 u2 x y where s: "session_rows (pi_SessionID req) d = [s]"
      "validateChatSessionBinding s (pi_SessionID req) (pi_DiagnosisTaskID req) (pi_OwnerSubject req) = Inr ()"
    and x: "findChatTurnByMessageID (flt 1) (cs_ID s) (pi_UserMessageID req) ?u = (u1, Inr x)"
    and y: "findChatTurnByMessageID (flt 2) (cs_ID s) (pi_AssistantMessageID req) u1 = (u2, Inr y)"
    and r: "(case (x, y) of (Some ut, Some at) \<Rightarrow> liftT (Inr (Some (persistDiagnosisTurnResult s ut at parsed)))
       | (None, None) \<Rightarrow> liftT (Inr None) | _ \<Rightarrow> liftT (Inl partial_turn_error)) u2 = (u, Inr r)"
    using assms(1) by (auto simp: lookup_turn_tx_def bindT_Inr FindChatSessionByKey_Inr session_rows_def)
  have u2: "u2 = u" using r by (auto split: option.splits)
  then have u1: "u1 = u" using y assms(2) find_turn_live by blast
  then have u: "u = ?u" using x assms(2) find_turn_live by blast
  show thesis
  proof (rule that [OF s])
    show "r = None \<and> turn_rows (cs_ID s) (pi_UserMessageID req) d = []
        \<and> turn_rows (cs_ID s) (pi_AssistantMessageID req) d = [] \<or>
      (\<exists>ut at. turn_rows (cs_ID s) (pi_UserMessageID req) d = [ut]
        \<and> turn_rows (cs_ID s) (pi_AssistantMessageID req) d = [at]
        \<and> r = Some (persistDiagnosisTurnResult s ut at parsed))"
      using x y r u u1 u2 assms(2)
      by (auto simp: find_turn_Some dest!: find_turn_None split: option.splits)
  qed
qed

lemma save_turn_pair_result:
  assumes "save_turn_pair lib now req parsed um am s flt u0 = (u, Inr res)"
  obtains ut at d1 d2 su sa s' x where
    "NewChatTurn (vl_tokenize lib) (user_turn req (cs_ID s) um) = Inr ut"
    "NewChatTurn (vl_tokenize lib) (assistant_turn req parsed (cs_ID s) am) = Inr at"
    "insert_turn now ut (uow_data u0) = Inr (d1, su)" "insert_turn now at d1 = Inr (d2, sa)"
    "ChatSession_RecordTurn s (pi_AssistantOccurredAt req) = Inr s'" "0 \<le> cs_TurnCount s'"
    "find (\<lambda>r. cs_ID r = cs_ID s') (tb_rows (db_sessions d2)) = Some x"
    "uow_data u = update_session now s' d2"
    "res = persistDiagnosisTurnResult (update_session_row now s' x) su sa parsed" "\<not> uow_aborted u0"
  using assms
  by (auto simp: save_turn_pair_def bindT_Inr SaveChatTurn_Inr UpdateChatSession_Inr)

lemma persist_turn_result:
  assumes "persist_turn_tx lib now req parsed um am flt (newUnitOfWork d) = (u, Inr res)" "\<not> uow_aborted u"
  obtains s where "session_rows (pi_SessionID req) d = [s]"
      "validateChatSessionBinding s (pi_SessionID req) (pi_DiagnosisTaskID req) (pi_OwnerSubject req) = Inr ()"
      "(\<exists>ut at. turn_rows (cs_ID s) (pi_UserMessageID req) d = [ut]
         \<and> turn_rows (cs_ID s) (pi_AssistantMessageID req) d = [at]
         \<and> res = persistDiagnosisTurnResult s ut at parsed \<and> uow_data u = d) \<or>
       turn_rows (cs_ID s) (pi_UserMessageID req) d = []
         \<and> turn_rows (cs_ID s) (pi_AssistantMessageID req) d = []
         \<and> save_turn_pair lib now req parsed um am s flt (newUnitOfWork d) = (u, Inr res)"
proof -
  let ?u = "newUnitOfWork d"
  obtain s u1 u2 x y where s: "session_rows (pi_SessionID req) d = [s]"
      "validateChatSessionBinding s (pi_SessionID req) (pi_DiagnosisTaskID req) (pi_OwnerSubject req) = Inr ()"
    and x: "findChatTurnByMessageID (flt 1) (cs_ID s) (pi_UserMessageID req) ?u = (u1, Inr x)"
    and y: "findChatTurnByMessageID (flt 2) (cs_ID s) (pi_AssistantMessageID req) u1 = (u2, Inr y)"
    and r: "(case (x, y) of (Some ut, Some at) \<Rightarrow> liftT (Inr (persistDiagnosisTurnResult s ut at parsed))
       | (None, None) \<Rightarrow> save_turn_pair lib now req parsed um am s flt
       | _ \<Rightarrow> liftT (Inl partial_turn_error)) u2 = (u, Inr res)"
    using assms(1) by (auto simp: persist_turn_tx_def bindT_Inr FindChatSessionByKey_Inr session_rows_def)
  have "\<not> uow_aborted u2"
    using r assms(2) by (auto split: option.splits elim!: save_turn_pair_result)
  with y have u1: "u1 = u2" using find_turn_live by blast
  with x \<open>\<not> uow_aborted u2\<close> have u2: "u2 = ?u" using find_turn_live by blast
  show thesis
  proof (rule that [OF s])
    show "(\<exists>ut at. turn_rows (cs_ID s) (pi_UserMessageID req) d = [ut]
        \<and> turn_rows (cs_ID s) (pi_AssistantMessageID req) d = [at]
        \<and> res = persistDiagnosisTurnResult s ut at parsed \<and> uow_data u = d) \<or>
      turn_rows (cs_ID s) (pi_UserMessageID req) d = []
        \<and> turn_rows (cs_ID s) (pi_AssistantMessageID req) d = []
        \<and> save_turn_pair lib now req parsed um am s flt ?u = (u, Inr res)"
      using x y r u1 u2 by (auto simp: find_turn_Some dest!: find_turn_None split: option.splits)
  qed
qed

lemma persist_turn_step:
  assumes "persist_turn_tx lib now req parsed um am flt (newUnitOfWork d) = (u, Inr res)" "\<not> uow_aborted u"
  shows "lib_step lib d (uow_data u)"
proof -
  obtain s where s: "session_rows (pi_SessionID req) d = [s]" and
    c: "uow_data u = d \<or> save_turn_pair lib now req parsed um am s flt (newUnitOfWork d) = (u, Inr res)"
    using persist_turn_result [OF assms] by metis
  from c show ?thesis
  proof
    assume "uow_data u = d"
    then show ?thesis using steps.refl by simp
  next
    assume "save_turn_pair lib now req parsed um am s flt (newUnitOfWork d) = (u, Inr res)"
    then show ?thesis
    proof (rule save_turn_pair_result, intro lib_step1)
      fix ut at d1 d2 su sa s' x
      assume n: "NewChatTurn (vl_tokenize lib) (user_turn req (cs_ID s) um) = Inr ut"
        "NewChatTurn (vl_tokenize lib) (assistant_turn req parsed (cs_ID s) am) = Inr at"
        and i: "insert_turn now ut (uow_data (newUnitOfWork d)) = Inr (d1, su)"
          "insert_turn now at d1 = Inr (d2, sa)"
        and t: "ChatSession_RecordTurn s (pi_AssistantOccurredAt req) = Inr s'" "0 \<le> cs_TurnCount s'"
          "uow_data u = update_session now s' d2"
      have "ct_SessionID ut = cs_ID s" "ct_Role ut = ChatRoleUser" "ct_SessionID at = cs_ID s"
        "ct_Role at = ChatRoleAssistant" using NewChatTurn_fields [OF n(1)] NewChatTurn_fields [OF n(2)]
        by (simp_all add: user_turn_def assistant_turn_def)
      with n i t session_rows_mem [OF s]
      show "store_step (vl_tokenize lib) (vl_sha256_hex lib) d (uow_data u)"
        by (intro turn_persisted [of s]) simp_all
    qed
  qed
qed

section \<open>Approving and closing\<close>

lemma latest_conclusion_Inr:
  assumes "latestPersistedDiagnosisConclusion lib fault s u = (u', Inr r)"
  shows "u' = u" "\<not> uow_aborted u"
    "LatestPersistedConclusion (vl_sha256_hex lib) s (session_turns (cs_ID s) (uow_data u)) = Inr r"
proof -
  let ?l = "session_turns (cs_ID s) (uow_data u)"
  let ?n = "nat (cs_TurnCount s * 2 + 1)"
  have u: "u' = u" "\<not> uow_aborted u" and n: "0 < cs_TurnCount s"
    and len: "int (length (take ?n ?l)) = cs_TurnCount s * 2"
    and r: "LatestPersistedConclusion (vl_sha256_hex lib) s (take ?n ?l) = Inr r"
    using assms
    by (auto simp: latestPersistedDiagnosisConclusion_def bindT_Inr ListChatTurns_Inr split: if_splits)
  have "length ?l < ?n" using len n by (auto simp: min_def split: if_splits)
  then have "take ?n ?l = ?l" by simp
  with r u show "u' = u" "\<not> uow_aborted u" "LatestPersistedConclusion (vl_sha256_hex lib) s ?l = Inr r"
    by simp_all
qed

lemma find_approval_None:
  assumes "orNotFound (FindChatSessionApproval fault i dg actor) u = (u', Inr None)" "\<not> uow_aborted u'"
  shows "u' = u"
proof -
  let ?q = "\<lambda>d. filter (\<lambda>r. sa_SessionID r = i \<and> sa_ConclusionDigest r = TrimSpace dg
    \<and> sa_ActorSubject r = TrimSpace actor) (tb_rows (db_approvals d))"
  have "orNotFound (opened (mapErrT asNotFound (only_row fault ?q))) u = (u', Inr None)"
    using assms(1)
    by (auto simp: FindChatSessionApproval_def orNotFound_None opened_def liftT_def Let_def
        split: if_splits option.splits)
  from only_row_not_found [OF this] assms(2) show ?thesis by simp
qed

lemma save_approval_result:
  assumes "save_approval now req s flt u0 = (u, Inr r)"
  obtains a pending d' where "NewChatSessionApproval (approval_candidate req (cs_ID s)) = Inr a"
    "PendingAuthorities (cs_ApprovalMode s)
       (conclusion_approvals (cs_ID s) (TrimSpace (qi_ConclusionDigest req)) (uow_data u0) @ [a]) = Inr pending"
    "insert_approval now a (uow_data u0) = Inr (d', r)" "uow_data u = d'" "\<not> uow_aborted u0"
proof -
  let ?l = "conclusion_approvals (cs_ID s) (TrimSpace (qi_ConclusionDigest req)) (uow_data u0)"
  obtain a pending d' where a: "NewChatSessionApproval (approval_candidate req (cs_ID s)) = Inr a"
    and p: "PendingAuthorities (cs_ApprovalMode s) (take (nat ApprovalReadLimit) ?l @ [a]) = Inr pending"
    and i: "insert_approval now a (uow_data u0) = Inr (d', r)" "uow_data u = d'" "\<not> uow_aborted u0"
    using assms
    by (auto simp: save_approval_def bindT_Inr ListApprovals_Inr SaveApproval_Inr checked_Inr)
  have "length (take (nat ApprovalReadLimit) ?l) \<le> 1"
    using p distinct_approvals_length by (fastforce simp: PendingAuthorities_Inr)
  then have "take (nat ApprovalReadLimit) ?l = ?l"
    by (auto simp: ApprovalReadLimit_def min_def split: if_splits)
  with a p i that show thesis by simp
qed

lemma approval_tx_result:
  assumes "approval_tx lib now req flt (newUnitOfWork d) = (u, Inr r)" "\<not> uow_aborted u"
  obtains s turn where "session_rows (qi_SessionID req) d = [s]" "check_approval_authority req s = Inr ()"
    "LatestPersistedConclusion (vl_sha256_hex lib) s (session_turns (cs_ID s) d)
       = Inr (turn, qi_ConclusionDigest req)"
    "uow_data u = d \<and> r \<in> set (tb_rows (db_approvals d)) \<or> save_approval now req s flt (newUnitOfWork d) = (u, Inr r)"
proof -
  let ?u = "newUnitOfWork d"
  obtain s turn u0 u1 y where s: "session_rows (qi_SessionID req) d = [s]"
      "check_approval_authority req s = Inr ()"
    and l: "latestPersistedDiagnosisConclusion lib (flt 1) s ?u = (u0, Inr (turn, qi_ConclusionDigest req))"
    and y: "orNotFound (FindChatSessionApproval (flt 2) (cs_ID s) (qi_ConclusionDigest req)
        (qi_ActorSubject req)) u0 = (u1, Inr y)"
    and r: "(case y of Some existing \<Rightarrow> liftT (same_approval req existing)
       | None \<Rightarrow> save_approval now req s flt) u1 = (u, Inr r)"
    using assms(1)
    by (auto simp: approval_tx_def bindT_Inr FindChatSessionByKey_Inr session_rows_def split: if_splits)
  have u0: "u0 = ?u" using l by (rule latest_conclusion_Inr)
  have c: "uow_data u = d \<and> r \<in> set (tb_rows (db_approvals d)) \<or> save_approval now req s flt ?u = (u, Inr r)"
  proof (cases y)
    case None
    with r have "save_approval now req s flt u1 = (u, Inr r)" by simp
    moreover have "u1 = ?u" using y None calculation find_approval_None u0
      by (blast elim: save_approval_result)
    ultimately show ?thesis by simp
  next
    case (Some e)
    with y r u0 show ?thesis
      by (auto simp: orNotFound_Some FindApproval_Inr filter_eq_Cons_iff same_approval_def split: if_splits)
  qed
  show thesis by (rule that [OF s _ c]) (use latest_conclusion_Inr(3) [OF l] in simp)
qed

lemma NewChatSessionApproval_fields:
  assumes "NewChatSessionApproval i = Inr a"
  shows "sa_SessionID a = sa_SessionID i" "sa_ConclusionDigest a = TrimSpace (sa_ConclusionDigest i)"
    "sa_ActorSubject a = TrimSpace (sa_ActorSubject i)" "sa_Authority a = sa_Authority i"
    "DiagnosisApprovalAuthority_Valid (sa_Authority a)"
  using assms by (auto simp: NewChatSessionApproval_def Let_def split: if_splits)

lemma approval_step:
  assumes "approval_tx lib now req flt (newUnitOfWork d) = (u, Inr r)" "\<not> uow_aborted u"
    and "qi_ActorSubject req = TrimSpace (qi_ActorSubject req)"
  shows "lib_step lib d (uow_data u)"
  using assms(1,2)
proof (rule approval_tx_result)
  fix s turn
  assume s: "session_rows (qi_SessionID req) d = [s]" and c: "check_approval_authority req s = Inr ()"
    and l: "LatestPersistedConclusion (vl_sha256_hex lib) s (session_turns (cs_ID s) d)
      = Inr (turn, qi_ConclusionDigest req)"
    and "uow_data u = d \<and> r \<in> set (tb_rows (db_approvals d)) \<or> save_approval now req s flt (newUnitOfWork d) = (u, Inr r)"
  then consider "uow_data u = d" | "save_approval now req s flt (newUnitOfWork d) = (u, Inr r)" by blast
  then show ?thesis
  proof cases
    case 1
    then show ?thesis using steps.refl by simp
  next
    case 2
    then show ?thesis
    proof (rule save_approval_result, intro lib_step1)
      fix a pending d'
      assume a: "NewChatSessionApproval (approval_candidate req (cs_ID s)) = Inr a"
        "PendingAuthorities (cs_ApprovalMode s) (conclusion_approvals (cs_ID s)
          (TrimSpace (qi_ConclusionDigest req)) (uow_data (newUnitOfWork d)) @ [a]) = Inr pending"
        "insert_approval now a (uow_data (newUnitOfWork d)) = Inr (d', r)" "uow_data u = d'"
      have f: "sa_SessionID a = cs_ID s" "sa_ConclusionDigest a = TrimSpace (qi_ConclusionDigest req)"
        "sa_ActorSubject a = qi_ActorSubject req" "sa_Authority a = qi_Authority req"
        using NewChatSessionApproval_fields [OF a(1)] assms(3) by (simp_all add: approval_candidate_def)
      have "authority_ok s a" "\<not> ChatSessionStatus_IsTerminal (cs_Status s)"
        using c f
        by (auto simp: authority_ok_def check_approval_authority_def validateChatSessionBinding_def
            bindE_eq_Inr_iff split: if_splits)
      with a f l session_rows_mem [OF s]
      show "store_step (vl_tokenize lib) (vl_sha256_hex lib) d (uow_data u)"
        by (intro conclusion_approved [of s]) simp_all
    qed
  qed
qed

lemma verify_result:
  assumes "verifyDiagnosisConclusionApproval lib flt s req u = (u', Inr as)"
  shows "u' = u"
    "xi_RequireConclusionApproval req \<Longrightarrow> cs_ApprovalMode s = xi_ApprovalMode req
       \<and> DiagnosisApprovalMode_Valid (xi_ApprovalMode req)
       \<and> (\<exists>turn. LatestPersistedConclusion (vl_sha256_hex lib) s (session_turns (cs_ID s) (uow_data u))
            = Inr (turn, xi_ConclusionDigest req))
       \<and> check_quorum req s (take (nat ApprovalReadLimit)
            (conclusion_approvals (cs_ID s) (TrimSpace (xi_ConclusionDigest req)) (uow_data u))) = Inr as"
  using assms
  by (auto simp: verifyDiagnosisConclusionApproval_def bindT_Inr ListApprovals_Inr split: if_splits
      dest: latest_conclusion_Inr(1,3))

lemma find_summary_None:
  assumes "orNotFound (FindChatSessionSummaryBySessionAndVersion fault i v) u = (u', Inr None)"
    "\<not> uow_aborted u'"
  shows "u' = u \<and> filter (\<lambda>r. ss_SessionID r = i \<and> ss_Version r = v) (tb_rows (db_summaries (uow_data u))) = []"
proof -
  let ?q = "\<lambda>d. filter (\<lambda>r. ss_SessionID r = i \<and> ss_Version r = v) (tb_rows (db_summaries d))"
  have "orNotFound (opened (mapErrT asNotFound (only_row fault ?q))) u = (u', Inr None)"
    using assms(1)
    by (auto simp: FindChatSessionSummaryBySessionAndVersion_def orNotFound_None opened_def liftT_def
        split: if_splits option.splits)
  from only_row_not_found [OF this] assms(2) show ?thesis by simp
qed

lemma summary_tx_result:
  assumes "ensureDiagnosisConversationSummary lib now flt s req u = (u', Inr y)" "\<not> uow_aborted u'"
  obtains c where
    "Summarize (vl_summary lib) (cs_ID s) (take (nat (MaxSourceTurns + 1)) (session_turns (cs_ID s) (uow_data u)))
       (xi_ClosedAt req) = Inr c"
    "u' = u \<and> filter (\<lambda>r. ss_SessionID r = cs_ID s \<and> ss_Version r = SummaryVersion)
         (tb_rows (db_summaries (uow_data u))) = [y] \<and> Equivalent (vl_summary lib) y c \<or>
     (\<exists>d'. insert_summary now c (uow_data u) = Inr (d', y) \<and> u' = u\<lparr>uow_data := d'\<rparr>)"
proof -
  obtain c u1 f where c: "Summarize (vl_summary lib) (cs_ID s)
      (take (nat (MaxSourceTurns + 1)) (session_turns (cs_ID s) (uow_data u))) (xi_ClosedAt req) = Inr c"
    and f: "orNotFound (FindChatSessionSummaryBySessionAndVersion (flt 4) (cs_ID s) SummaryVersion) u = (u1, Inr f)"
    and r: "(case f of Some existing \<Rightarrow>
         if \<not> Equivalent (vl_summary lib) existing c then
           liftT (Inl (invariant_error
             ''close diagnosis chat session: existing conversation summary does not match transcript''))
         else liftT (Inr existing)
     | None \<Rightarrow> SaveChatSessionSummary (flt 5) now c) u1 = (u', Inr y)"
    using assms(1)
    by (auto simp: ensureDiagnosisConversationSummary_def bindT_Inr ListChatTurns_Inr split: if_splits)
  show thesis
  proof (rule that [OF c], cases f)
    case None
    with r have "\<not> uow_aborted u1" by (simp add: SaveSummary_Inr)
    with f None have "u1 = u" using find_summary_None by blast
    with r None show "u' = u \<and> filter (\<lambda>r. ss_SessionID r = cs_ID s \<and> ss_Version r = SummaryVersion)
         (tb_rows (db_summaries (uow_data u))) = [y] \<and> Equivalent (vl_summary lib) y c \<or>
      (\<exists>d'. insert_summary now c (uow_data u) = Inr (d', y) \<and> u' = u\<lparr>uow_data := d'\<rparr>)"
      by (auto simp: SaveSummary_Inr)
  next
    case (Some e)
    with f r show "u' = u \<and> filter (\<lambda>r. ss_SessionID r = cs_ID s \<and> ss_Version r = SummaryVersion)
         (tb_rows (db_summaries (uow_data u))) = [y] \<and> Equivalent (vl_summary lib) y c \<or>
      (\<exists>d'. insert_summary now c (uow_data u) = Inr (d', y) \<and> u' = u\<lparr>uow_data := d'\<rparr>)"
      by (auto simp: orNotFound_Some FindSummary_Inr split: if_splits)
  qed
qed

lemma finish_room_result:
  assumes "finish_room now req terminal s flt u0 = (u, Inr (saved, savedTask))"
  obtains t t' s' where "live u0" "\<not> uow_aborted u"
    "filter (\<lambda>r. dt_ID r = xi_DiagnosisTaskID req) (tb_rows (db_tasks (uow_data u0))) = [t]"
    "DiagnosisTask_Finish t (fst terminal) (xi_ClosedAt req) (snd terminal) = Inr t'"
    "ChatSession_Close s (xi_ClosedAt req) (xi_Reason req) = Inr s'"
    "uow_data u = update_session now s' (update_task now t' (uow_data u0))"
    "\<exists>x. find (\<lambda>r. dt_ID r = dt_ID t') (tb_rows (db_tasks (uow_data u0))) = Some x
       \<and> savedTask = update_task_row now t' x"
    "\<exists>y. find (\<lambda>r. cs_ID r = cs_ID s') (tb_rows (db_sessions (uow_data u0))) = Some y
       \<and> saved = update_session_row now s' y"
  using assms
  by (auto simp: finish_room_def bindT_Inr FindTaskByID_Inr UpdateTask_Inr UpdateChatSession_Inr)

lemma close_tx_result:
  assumes "close_tx lib now req terminal flt (newUnitOfWork d) = (u, Inr (saved, savedTask, summary, approvals))"
  obtains s u1 where "session_rows (xi_SessionID req) d = [s]"
    "validateChatSessionIdentity s (xi_SessionID req) (xi_DiagnosisTaskID req) (xi_OwnerSubject req) = Inr ()"
    "cs_TurnCount s = xi_TurnCount req"
    "verifyDiagnosisConclusionApproval lib flt s req (newUnitOfWork d) = (newUnitOfWork d, Inr approvals)"
    "optional_summary lib now flt s req (newUnitOfWork d) = (u1, Inr summary)"
    "finish_room now req terminal s flt u1 = (u, Inr (saved, savedTask))"
proof -
  let ?u = "newUnitOfWork d"
  obtain s v u1 where s: "session_rows (xi_SessionID req) d = [s]"
      "validateChatSessionIdentity s (xi_SessionID req) (xi_DiagnosisTaskID req) (xi_OwnerSubject req) = Inr ()"
      "cs_TurnCount s = xi_TurnCount req"
    and v: "verifyDiagnosisConclusionApproval lib flt s req ?u = (v, Inr approvals)"
    and r: "optional_summary lib now flt s req v = (u1, Inr summary)"
      "finish_room now req terminal s flt u1 = (u, Inr (saved, savedTask))"
    using assms
    by (auto simp: close_tx_def bindT_Inr FindChatSessionByKey_Inr session_rows_def split: if_splits prod.splits)
  have "v = ?u" using v by (rule verify_result)
  with s v r that show thesis by blast
qed

lemma optional_summary_result:
  assumes "optional_summary lib now flt s req u = (u', Inr y)" "\<not> uow_aborted u'"
  shows "uow_data u' = uow_data u \<or>
    (\<exists>c r d'. ss_SessionID c = cs_ID s \<and> insert_summary now c (uow_data u) = Inr (d', r) \<and> uow_data u' = d')"
proof (cases "xi_GenerateConversationSummary req")
  case True
  then obtain r where "ensureDiagnosisConversationSummary lib now flt s req u = (u', Inr r)"
    using assms(1) by (auto simp: optional_summary_def bindT_Inr)
  from this assms(2) show ?thesis
    by (rule summary_tx_result) (auto elim!: Summarize_Inr)
qed (use assms in \<open>simp add: optional_summary_def\<close>)

lemma close_step:
  assumes "close_tx lib now req terminal flt (newUnitOfWork d) = (u, Inr r)"
  shows "lib_step lib d (uow_data u)"
proof -
  obtain saved savedTask summary approvals where "r = (saved, savedTask, summary, approvals)"
    by (metis prod.exhaust)
  with assms obtain s u1 where s: "session_rows (xi_SessionID req) d = [s]"
    and i: "validateChatSessionIdentity s (xi_SessionID req) (xi_DiagnosisTaskID req) (xi_OwnerSubject req) = Inr ()"
    and y: "optional_summary lib now flt s req (newUnitOfWork d) = (u1, Inr summary)"
    and f: "finish_room now req terminal s flt u1 = (u, Inr (saved, savedTask))"
    using close_tx_result by metis
  from f obtain t t' s' where l: "live u1"
    and t: "filter (\<lambda>r. dt_ID r = xi_DiagnosisTaskID req) (tb_rows (db_tasks (uow_data u1))) = [t]"
    and e: "DiagnosisTask_Finish t (fst terminal) (xi_ClosedAt req) (snd terminal) = Inr t'"
      "ChatSession_Close s (xi_ClosedAt req) (xi_Reason req) = Inr s'"
      "uow_data u = update_session now s' (update_task now t' (uow_data u1))"
    by (rule finish_room_result)
  have d1: "uow_data u1 = d \<or> (\<exists>c r. ss_SessionID c = cs_ID s \<and> insert_summary now c d = Inr (uow_data u1, r))"
    using optional_summary_result [OF y] l by auto
  then have "db_tasks (uow_data u1) = db_tasks d" by (auto simp: insert_summary_Inr)
  with t have "t \<in> set (tb_rows (db_tasks d))" "dt_ID t = cs_DiagnosisTaskID s"
    using i by (auto simp: filter_eq_Cons_iff validateChatSessionIdentity_def split: if_splits)
  with session_rows_mem [OF s] d1 e show ?thesis
    by (intro lib_step1 room_closed [of s]) auto
qed

section \<open>Opening and events\<close>

lemma save_session_step:
  assumes "SaveChatSession fault now s (newUnitOfWork d) = (u, Inr r)"
    and "NewChatSession i key owner started [mode] = Inr s"
  shows "lib_step lib d (uow_data u)"
proof -
  have "cs_ApprovalMode s \<noteq> []" "cs_Status s \<noteq> []"
    using assms(2) by (auto simp: NewChatSession_def Let_def DiagnosisApprovalMode_Valid_def split: if_splits)
  then have "s\<lparr>cs_ApprovalMode := (if cs_ApprovalMode s \<noteq> [] then cs_ApprovalMode s else ApprovalModeSingle),
      cs_Status := (if cs_Status s \<noteq> [] then cs_Status s else ChatSessionStatusOpen)\<rparr> = s" by simp
  with assms(1) have "insert_session now s d = Inr (uow_data u, r)"
    by (auto simp: SaveChatSession_Inr Let_def)
  with assms(2) show ?thesis by (intro lib_step1 session_opened)
qed

lemma save_task_step:
  assumes "save_room_task req now t flt (newUnitOfWork d) = (u, Inr r)"
    and "NewDiagnosisTask snapshot workflow run = Inr c" "DiagnosisTask_Start c started = Inr t"
  shows "lib_step lib d (uow_data u)"
proof -
  obtain i u1 where f: "FindSnapshotByID (flt 0) (ni_EvidenceSnapshotID req) (newUnitOfWork d) = (u1, Inr i)"
    and s: "SaveTask (flt 1) now t u1 = (u, Inr r)"
    using assms(1) by (auto simp: save_room_task_def bindT_Inr)
  have "uow_data u1 = d" using reads_data [OF reads_store(10) f] by simp
  moreover have "dt_Status t \<noteq> []"
    using assms(2,3) by (auto simp: NewDiagnosisTask_def elim!: DiagnosisTask_Start_cases split: if_splits)
  ultimately have "insert_task now t d = Inr (uow_data u, r)"
    using s by (auto simp: SaveTask_Inr Let_def)
  with assms(2,3) show ?thesis by (intro lib_step1 task_opened)
qed

section \<open>The activities\<close>

text \<open>
  Activities that only append events and read, over any relation that an appended event respects.
\<close>

locale event_relation = tx_relation +
  assumes appends: "insert_task_event now e d = Inr (d', r) \<Longrightarrow> R d d'"
begin

lemma append_event: "AppendEvent fault now e (newUnitOfWork d) = (u, Inr r) \<Longrightarrow> R d (uow_data u)"
  by (auto simp: AppendEvent_Inr intro: appends)

lemma record_event_acts: "acts_by R (record_event l drv k i kind sid part p at)"
  unfolding record_event_def appendDiagnosisRoomLifecycleEvent_def Let_def
  by (intro acts acts_tx acts_read keeps_open_store keeps_open_event_kind reads_event_kind append_event)

lemma lookups_act:
  "acts_by R (lookupChatSessionByKey drv k sid)"
  "acts_by R (lookupDiagnosisTaskByID drv k i)"
  "acts_by R (lookupDiagnosisTaskByExecution drv k w rn)"
  "acts_by R (listDiagnosisRoomTurns drv k i n)"
  "acts_by R (lookupPersistedDiagnosisTurn l drv req)"
  unfolding lookupChatSessionByKey_def lookupDiagnosisTaskByID_def lookupDiagnosisTaskByExecution_def
    listDiagnosisRoomTurns_def lookupPersistedDiagnosisTurn_def Let_def
  by (intro acts acts_read keeps_open_orNotFound keeps_open_store keeps_open_lookup_turn
      reads_orNotFound reads_store reads_lookup_turn)+

lemma records_act:
  "acts_by R (recordDiagnosisRoomOpened l drv k eq s)"
  "acts_by R (recordDiagnosisRoomTurnPersisted l drv k pq res)"
  "acts_by R (recordDiagnosisRoomSupplementalEvidenceProvided l drv k pq res ev)"
  "acts_by R (recordDiagnosisRoomFinalConclusionReady l drv k pq res)"
  "acts_by R (recordDiagnosisRoomFailed l drv k xq s t)"
  "acts_by R (recordDiagnosisRoomClosed l drv k xq s y as)"
  "acts_by R (recordDiagnosisConclusionApprovedEvent l drv k qq a)"
  "acts_by R (record_turn_events l drv pq res)"
  unfolding recordDiagnosisRoomOpened_def recordDiagnosisRoomTurnPersisted_def
    recordDiagnosisRoomSupplementalEvidenceProvided_def recordDiagnosisRoomFinalConclusionReady_def
    recordDiagnosisRoomFailed_def recordDiagnosisRoomClosed_def diagnosisRoomFinalConclusion_def
    recordDiagnosisConclusionApprovedEvent_def record_turn_events_def Let_def
  by (intro acts record_event_acts lookups_act)+

end

named_theorems act_steps "activities that are sequences of store steps"

interpretation recorded: event_relation "lib_step lib" for lib
  by unfold_locales (auto intro: lib_step1 event_recorded)

lemmas [act_steps] = recorded.record_event_acts recorded.lookups_act recorded.records_act

text \<open>The tables other than the events stay as they are.\<close>

definition only_events :: "diagnosis_db \<Rightarrow> diagnosis_db \<Rightarrow> bool" where
  "only_events d d' \<longleftrightarrow> (\<exists>ev. d' = d\<lparr>db_events := ev\<rparr>)"

interpretation events: event_relation only_events
proof
  show "only_events d d" for d
    unfolding only_events_def by (rule exI [of _ "db_events d"]) simp
qed (auto simp: only_events_def insert_task_event_Inr)

lemma EnsureDiagnosisChatSession_acts [act_steps]:
  "acts_by (lib_step lib) (EnsureDiagnosisChatSession l drv req)"
  unfolding EnsureDiagnosisChatSession_def ensureDiagnosisChatSession_def
  by (intro steps.acts_bind [OF steps.acts_mapErr] steps.acts_option steps.acts_check steps.acts_lift
      steps.acts_already steps.acts_tx keeps_open_store save_session_step act_steps
      steps.acts_bind)

lemma EnsureDiagnosisRoomSession_acts [act_steps]:
  "acts_by (lib_step lib) (EnsureDiagnosisRoomSession l drv req)"
proof -
  have task: "acts_by (lib_step lib) (ensureDiagnosisRoomTask drv req)"
    unfolding ensureDiagnosisRoomTask_def
    by (intro steps.acts_bind [OF recorded.lookups_act(3)] steps.acts_option steps.acts_check steps.acts_lift
        steps.acts_already steps.acts_tx keeps_open_room_task)
      (auto simp: bindE_eq_Inr_iff intro: save_task_step)
  have session: "acts_by (lib_step lib) (ensureDiagnosisRoomChatSession drv req t)" for t
    unfolding ensureDiagnosisRoomChatSession_def
    by (intro steps.acts_check steps.acts_already steps.acts_tx keeps_open_store save_session_step
        steps.acts_bind act_steps steps.acts_option steps.acts_lift)
  show ?thesis
    unfolding EnsureDiagnosisRoomSession_def ensureDiagnosisRoomSession_def Let_def
    by (intro steps.acts act_steps task session)
qed

lemma PersistDiagnosisTurn_acts [act_steps]:
  "acts_by (lib_step lib) (persist_or_lookup lib drv req)"
  "acts_by (lib_step lib) (PersistDiagnosisTurn lib drv req)"
proof -
  show p: "acts_by (lib_step lib) (persist_or_lookup lib drv req)" for req
    unfolding persist_or_lookup_def persistDiagnosisTurnOnce_def
    by (intro steps.acts act_steps steps.acts_tx keeps_open_persist persist_turn_step)
  show "acts_by (lib_step lib) (PersistDiagnosisTurn lib drv req)"
    unfolding PersistDiagnosisTurn_def by (intro steps.acts p recorded.records_act)
qed

lemma approval_input_trimmed:
  "validateRecordDiagnosisConclusionApprovalInput lib req = Inr x \<Longrightarrow>
   qi_ActorSubject req = TrimSpace (qi_ActorSubject req)"
  by (simp add: validateRecordDiagnosisConclusionApprovalInput_def split: if_splits)

lemma RecordDiagnosisConclusionApproval_acts [act_steps]:
  "acts_by (lib_step lib) (RecordDiagnosisConclusionApproval lib drv req)"
proof -
  have "acts_by (lib_step lib) (recordDiagnosisConclusionApproval lib drv req)"
    unfolding recordDiagnosisConclusionApproval_def
    by (intro steps.acts_check steps.acts_tx keeps_open_approval approval_step approval_input_trimmed)
  then show ?thesis
    unfolding RecordDiagnosisConclusionApproval_def by (intro steps.acts act_steps)
qed

lemma CloseDiagnosisChatSession_acts [act_steps]:
  "acts_by (lib_step lib) (CloseDiagnosisChatSession lib drv req)"
proof -
  have "acts_by (lib_step lib) (closeDiagnosisChatSession lib drv req)"
    unfolding closeDiagnosisChatSession_def
    by (intro steps.acts steps.acts_tx keeps_open_close close_step)
  then show ?thesis
    unfolding CloseDiagnosisChatSession_def by (intro steps.acts act_steps)
qed

section \<open>Any sequence of calls\<close>

text \<open>
  A call of an activity, as Temporal makes it; a retry is another call with the same request and
  another driver.
\<close>

datatype room_call =
    CallEnsureSession EnsureDiagnosisChatSessionInput
  | CallEnsureRoom EnsureDiagnosisRoomSessionInput
  | CallPersist PersistDiagnosisTurnInput
  | CallApprove RecordDiagnosisConclusionApprovalInput
  | CallClose CloseDiagnosisChatSessionInput

fun run_call :: "persist_lib \<Rightarrow> driver \<Rightarrow> room_call \<Rightarrow> diagnosis_db \<Rightarrow> diagnosis_db" where
  "run_call lib drv (CallEnsureSession req) d = fst (EnsureDiagnosisChatSession lib drv req d)"
| "run_call lib drv (CallEnsureRoom req) d = fst (EnsureDiagnosisRoomSession lib drv req d)"
| "run_call lib drv (CallPersist req) d = fst (PersistDiagnosisTurn lib drv req d)"
| "run_call lib drv (CallApprove req) d = fst (RecordDiagnosisConclusionApproval lib drv req d)"
| "run_call lib drv (CallClose req) d = fst (CloseDiagnosisChatSession lib drv req d)"

fun run_calls :: "persist_lib \<Rightarrow> (driver \<times> room_call) list \<Rightarrow> diagnosis_db \<Rightarrow> diagnosis_db" where
  "run_calls lib [] d = d"
| "run_calls lib ((drv, c) # cs) d = run_calls lib cs (run_call lib drv c d)"

lemma run_call_steps: "lib_step lib d (run_call lib drv c d)"
  by (cases c) (simp_all add: acts_byD act_steps)

lemma run_calls_steps: "lib_step lib d (run_calls lib cs d)"
  by (induction lib cs d rule: run_calls.induct)
    (auto intro: steps.refl steps.trans run_call_steps)

end
