(* ===== verification/Store_Invariant.thy ===== *)
theory Store_Invariant
  imports Store_Refinement
begin

text \<open>
  The invariant of the room store and its preservation by every step: identifiers are unique, a
  session ends exactly when its task does and at the same time, a session counts its pairs of
  messages, and the approvals of a conclusion are a partial quorum of the right people for a
  message of the transcript. It is split into one predicate per group of tables.
\<close>

section \<open>The invariant\<close>

definition tables_ok :: "diagnosis_db \<Rightarrow> bool" where
  "tables_ok d \<longleftrightarrow> table_ok dt_ID (db_tasks d) \<and> table_ok te_ID (db_events d) \<and>
     table_ok cs_ID (db_sessions d) \<and> table_ok ct_ID (db_turns d) \<and>
     table_ok ss_ID (db_summaries d) \<and> table_ok sa_ID (db_approvals d)"

text \<open>Tasks and sessions end together.\<close>

definition rooms_ok :: "diagnosis_db \<Rightarrow> bool" where
  "rooms_ok d \<longleftrightarrow>
     (\<forall>t \<in> set (tb_rows (db_tasks d)). DiagnosisTask_wf t) \<and>
     distinct (map (\<lambda>t. (dt_WorkflowID t, dt_RunID t)) (tb_rows (db_tasks d))) \<and>
     (\<forall>s \<in> set (tb_rows (db_sessions d)). ChatSession_wf s \<and> 0 \<le> cs_TurnCount s \<and> int64 (cs_TurnCount s)) \<and>
     distinct (map cs_SessionKey (tb_rows (db_sessions d))) \<and>
     distinct (map cs_DiagnosisTaskID (tb_rows (db_sessions d))) \<and>
     (\<forall>s \<in> set (tb_rows (db_sessions d)). \<exists>t \<in> set (tb_rows (db_tasks d)).
        dt_ID t = cs_DiagnosisTaskID s \<and> dt_FinishedAt t = cs_ClosedAt s) \<and>
     (\<forall>t \<in> set (tb_rows (db_tasks d)). dt_FinishedAt t \<noteq> None \<longrightarrow>
        dt_ID t \<in> cs_DiagnosisTaskID ` set (tb_rows (db_sessions d)))"

definition role_count :: "string \<Rightarrow> int \<Rightarrow> diagnosis_db \<Rightarrow> nat" where
  "role_count role i d =
     length (filter (\<lambda>t. ct_SessionID t = i \<and> ct_Role t = role) (tb_rows (db_turns d)))"

definition transcripts_ok :: "diagnosis_db \<Rightarrow> bool" where
  "transcripts_ok d \<longleftrightarrow>
     (\<forall>t \<in> set (tb_rows (db_turns d)). ct_Role t \<in> {ChatRoleUser, ChatRoleAssistant} \<and> 0 < ct_Sequence t \<and>
        ct_SessionID t \<in> cs_ID ` set (tb_rows (db_sessions d))) \<and>
     distinct (map (\<lambda>t. (ct_SessionID t, ct_MessageID t)) (tb_rows (db_turns d))) \<and>
     distinct (map (\<lambda>t. (ct_SessionID t, ct_Sequence t)) (tb_rows (db_turns d))) \<and>
     (\<forall>s \<in> set (tb_rows (db_sessions d)).
        int (role_count ChatRoleUser (cs_ID s) d) = cs_TurnCount s \<and>
        int (role_count ChatRoleAssistant (cs_ID s) d) = cs_TurnCount s)"

text \<open>An approval is of a message that the transcript holds, by somebody who may give it.\<close>

definition approves_message :: "(string \<Rightarrow> string) \<Rightarrow> diagnosis_db \<Rightarrow> ChatSessionApproval \<Rightarrow> bool" where
  "approves_message sha d a \<longleftrightarrow>
     (\<exists>t \<in> set (tb_rows (db_turns d)). \<exists>h. ct_SessionID t = sa_SessionID a \<and> ct_Role t = ChatRoleAssistant \<and>
        ConclusionDigest sha (ct_MessageID t) (ct_Sequence t) (ct_Content t) = Inr h \<and>
        sa_ConclusionDigest a = TrimSpace h)"

definition approvals_ok :: "(string \<Rightarrow> string) \<Rightarrow> diagnosis_db \<Rightarrow> bool" where
  "approvals_ok sha d \<longleftrightarrow>
     (\<forall>a \<in> set (tb_rows (db_approvals d)). approves_message sha d a \<and>
        (\<exists>s \<in> set (tb_rows (db_sessions d)). cs_ID s = sa_SessionID a \<and> authority_ok s a)) \<and>
     (\<forall>s \<in> set (tb_rows (db_sessions d)). \<forall>dg. \<exists>pending.
        PendingAuthorities (cs_ApprovalMode s) (conclusion_approvals (cs_ID s) dg d) = Inr pending)"

definition store_ok :: "(string \<Rightarrow> string) \<Rightarrow> diagnosis_db \<Rightarrow> bool" where
  "store_ok sha d \<longleftrightarrow> tables_ok d \<and> rooms_ok d \<and> transcripts_ok d \<and> approvals_ok sha d"

definition empty_store :: "int list \<Rightarrow> diagnosis_db" where
  "empty_store snapshots =
     \<lparr>db_snapshots = snapshots, db_tasks = \<lparr>tb_rows = [], tb_next = 1\<rparr>,
      db_events = \<lparr>tb_rows = [], tb_next = 1\<rparr>, db_sessions = \<lparr>tb_rows = [], tb_next = 1\<rparr>,
      db_turns = \<lparr>tb_rows = [], tb_next = 1\<rparr>, db_summaries = \<lparr>tb_rows = [], tb_next = 1\<rparr>,
      db_approvals = \<lparr>tb_rows = [], tb_next = 1\<rparr>\<rparr>"

lemma empty_store_ok: "store_ok sha (empty_store snapshots)"
  by (simp add: store_ok_def tables_ok_def table_ok_def rooms_ok_def transcripts_ok_def approvals_ok_def
      empty_store_def)

section \<open>Frames\<close>

lemma frames [simp]:
  "rooms_ok (d\<lparr>db_events := ev\<rparr>) = rooms_ok d" "rooms_ok (d\<lparr>db_turns := tr\<rparr>) = rooms_ok d"
  "rooms_ok (d\<lparr>db_summaries := su\<rparr>) = rooms_ok d" "rooms_ok (d\<lparr>db_approvals := ap\<rparr>) = rooms_ok d"
  "role_count role i (d\<lparr>db_events := ev\<rparr>) = role_count role i d"
  "role_count role i (d\<lparr>db_tasks := ta\<rparr>) = role_count role i d"
  "role_count role i (d\<lparr>db_sessions := se\<rparr>) = role_count role i d"
  "role_count role i (d\<lparr>db_summaries := su\<rparr>) = role_count role i d"
  "role_count role i (d\<lparr>db_approvals := ap\<rparr>) = role_count role i d"
  "transcripts_ok (d\<lparr>db_tasks := ta\<rparr>) = transcripts_ok d" "transcripts_ok (d\<lparr>db_events := ev\<rparr>) = transcripts_ok d"
  "transcripts_ok (d\<lparr>db_summaries := su\<rparr>) = transcripts_ok d"
  "transcripts_ok (d\<lparr>db_approvals := ap\<rparr>) = transcripts_ok d"
  "conclusion_approvals i dg (d\<lparr>db_tasks := ta\<rparr>) = conclusion_approvals i dg d"
  "conclusion_approvals i dg (d\<lparr>db_events := ev\<rparr>) = conclusion_approvals i dg d"
  "conclusion_approvals i dg (d\<lparr>db_sessions := se\<rparr>) = conclusion_approvals i dg d"
  "conclusion_approvals i dg (d\<lparr>db_turns := tr\<rparr>) = conclusion_approvals i dg d"
  "conclusion_approvals i dg (d\<lparr>db_summaries := su\<rparr>) = conclusion_approvals i dg d"
  "approvals_ok sha (d\<lparr>db_tasks := ta\<rparr>) = approvals_ok sha d"
  "approvals_ok sha (d\<lparr>db_events := ev\<rparr>) = approvals_ok sha d"
  "approvals_ok sha (d\<lparr>db_summaries := su\<rparr>) = approvals_ok sha d"
  by (simp_all add: rooms_ok_def role_count_def transcripts_ok_def conclusion_approvals_def approvals_ok_def
      approves_message_def)

lemma wf_row [simp]:
  "DiagnosisTask_wf (t\<lparr>dt_ID := i\<rparr>) = DiagnosisTask_wf t"
  "DiagnosisTask_wf (t\<lparr>dt_CreatedAt := n\<rparr>) = DiagnosisTask_wf t"
  "DiagnosisTask_wf (t\<lparr>dt_UpdatedAt := n\<rparr>) = DiagnosisTask_wf t"
  "ChatSession_wf (s\<lparr>cs_ID := i\<rparr>) = ChatSession_wf s"
  "ChatSession_wf (s\<lparr>cs_CreatedAt := n\<rparr>) = ChatSession_wf s"
  "ChatSession_wf (s\<lparr>cs_UpdatedAt := n\<rparr>) = ChatSession_wf s"
  by (simp_all add: DiagnosisTask_wf_def ChatSession_wf_def cong: option.case_cong)

lemma update_session_row_turn:
  "ChatSession_RecordTurn s at = Inr s' \<Longrightarrow> update_session_row now s' s = s'\<lparr>cs_UpdatedAt := now\<rparr>"
  by (auto dest!: ChatSession_RecordTurn_cases(4) simp: update_session_row_def)

lemma update_session_row_close:
  "ChatSession_Close s at why = Inr s' \<Longrightarrow> update_session_row now s' s = s'\<lparr>cs_UpdatedAt := now\<rparr>"
  by (auto elim!: ChatSession_Close_cases simp: update_session_row_def)

lemma update_task_row_finish:
  "DiagnosisTask_Finish t st at why = Inr t' \<Longrightarrow> update_task_row now t' t = t'\<lparr>dt_UpdatedAt := now\<rparr>"
  by (auto elim!: DiagnosisTask_Finish_cases simp: update_task_row_def)

section \<open>Opening\<close>

lemma task_opened_ok:
  assumes "store_ok sha d" "NewDiagnosisTask snapshot workflow run = Inr c" "DiagnosisTask_Start c started = Inr t"
    and "insert_task now t d = Inr (d', r)"
  shows "store_ok sha d'"
proof -
  have "DiagnosisTask_wf t" using assms(2,3) NewDiagnosisTask_wf DiagnosisTask_Start_wf by blast
  moreover have "dt_FinishedAt t = None"
    using assms(2,3) by (auto simp: NewDiagnosisTask_def elim!: DiagnosisTask_Start_cases split: if_splits)
  moreover have d': "d' = d\<lparr>db_tasks := append_row (db_tasks d) r\<rparr>"
    and r: "r = t\<lparr>dt_ID := tb_next (db_tasks d), dt_CreatedAt := now, dt_UpdatedAt := now\<rparr>"
    and u: "\<forall>x \<in> set (tb_rows (db_tasks d)). \<not> (dt_WorkflowID x = dt_WorkflowID t \<and> dt_RunID x = dt_RunID t)"
    using assms(4) by (auto simp: insert_task_Inr)
  ultimately have "rooms_ok d'" using assms(1)
    by (auto simp: store_ok_def rooms_ok_def)
  moreover have "tables_ok d'" using assms(1) d' r
    by (auto simp: store_ok_def tables_ok_def intro!: table_ok_append)
  ultimately show ?thesis using assms(1) d' by (simp add: store_ok_def)
qed

lemma event_recorded_ok:
  assumes "store_ok sha d" "insert_task_event now e d = Inr (d', r)"
  shows "store_ok sha d'"
  using assms by (auto simp: store_ok_def tables_ok_def insert_task_event_Inr intro!: table_ok_append)

lemma no_turns_of_new_session:
  assumes "store_ok sha d"
  shows "role_count role (tb_next (db_sessions d)) d = 0"
    "conclusion_approvals (tb_next (db_sessions d)) dg d = []"
proof -
  have "cs_ID s < tb_next (db_sessions d)" if "s \<in> set (tb_rows (db_sessions d))" for s
    using assms that by (auto simp: store_ok_def tables_ok_def table_ok_def)
  then have "ct_SessionID t < tb_next (db_sessions d)" if "t \<in> set (tb_rows (db_turns d))" for t
    using assms that by (fastforce simp: store_ok_def transcripts_ok_def)
  then show "role_count role (tb_next (db_sessions d)) d = 0"
    by (fastforce simp: role_count_def filter_empty_conv)
  have "sa_SessionID a < tb_next (db_sessions d)" if "a \<in> set (tb_rows (db_approvals d))" for a
    using assms that \<open>\<And>s. s \<in> set (tb_rows (db_sessions d)) \<Longrightarrow> cs_ID s < tb_next (db_sessions d)\<close>
    by (fastforce simp: store_ok_def approvals_ok_def)
  then have "filter (\<lambda>r. sa_SessionID r = tb_next (db_sessions d) \<and> sa_ConclusionDigest r = dg)
      (tb_rows (db_approvals d)) = []"
    by (fastforce simp: filter_empty_conv)
  then show "conclusion_approvals (tb_next (db_sessions d)) dg d = []"
    by (simp add: conclusion_approvals_def)
qed

lemma PendingAuthorities_none:
  "DiagnosisApprovalMode_Valid m \<Longrightarrow> \<exists>p. PendingAuthorities m [] = Inr p"
  by (auto simp: PendingAuthorities_Inr distinct_approvals_def DiagnosisApprovalMode_Valid_def)

lemma session_opened_ok:
  assumes ok: "store_ok sha d" and n: "NewChatSession i key owner started [mode] = Inr s"
    and "insert_session now s d = Inr (d', r)"
  shows "store_ok sha d'"
proof -
  have d': "d' = d\<lparr>db_sessions := append_row (db_sessions d) r\<rparr>"
    and r: "r = s\<lparr>cs_ID := tb_next (db_sessions d), cs_CreatedAt := now, cs_UpdatedAt := now\<rparr>"
    and u: "\<forall>x \<in> set (tb_rows (db_sessions d)).
        cs_SessionKey x \<noteq> cs_SessionKey s \<and> cs_DiagnosisTaskID x \<noteq> cs_DiagnosisTaskID s"
    and fk: "cs_DiagnosisTaskID s \<in> dt_ID ` set (tb_rows (db_tasks d))"
    using assms(3) by (auto simp: insert_session_Inr)
  have s: "ChatSession_wf s" "cs_ClosedAt s = None" "cs_TurnCount s = 0" "DiagnosisApprovalMode_Valid (cs_ApprovalMode s)"
    using NewChatSession_wf [OF n] n by (auto simp: NewChatSession_def Let_def split: if_splits)
  from fk obtain t where t: "t \<in> set (tb_rows (db_tasks d))" "dt_ID t = cs_DiagnosisTaskID s" by auto
  have "dt_FinishedAt t = None"
    using ok t u by (fastforce simp: store_ok_def rooms_ok_def)
  with s t u have "rooms_ok d'"
    using ok d' r by (auto simp: store_ok_def rooms_ok_def int64_def min_int64_def max_int64_def)
  moreover have "tables_ok d'" using ok d' r
    by (auto simp: store_ok_def tables_ok_def intro!: table_ok_append)
  moreover have "transcripts_ok d'"
    using ok d' r s no_turns_of_new_session(1) [OF ok] by (auto simp: store_ok_def transcripts_ok_def)
  moreover have "approvals_ok sha d'"
    using ok d' r s PendingAuthorities_none no_turns_of_new_session(2) [OF ok]
    by (auto simp: store_ok_def approvals_ok_def approves_message_def)
  ultimately show ?thesis by (simp add: store_ok_def)
qed

section \<open>Turns\<close>

lemma role_count_append:
  "role_count role i (d\<lparr>db_turns := append_row t x\<rparr>) =
     role_count role i (d\<lparr>db_turns := t\<rparr>) + (if ct_SessionID x = i \<and> ct_Role x = role then 1 else 0)"
  by (simp add: role_count_def)

lemma wrap_succ:
  assumes "int64 n" "0 \<le> n" "0 \<le> wrap64 (n + 1)"
  shows "wrap64 (n + 1) = n + 1" "int64 (n + 1)"
proof -
  have "n \<noteq> max_int64"
  proof
    assume "n = max_int64"
    with assms(3) show False by (simp add: wrap64_def max_int64_def)
  qed
  with assms(1,2) show i: "int64 (n + 1)" by (auto simp: int64_def min_int64_def)
  show "wrap64 (n + 1) = n + 1" by (rule wrap64_id [OF i])
qed

text \<open>A session row is replaced by a later state of the same session.\<close>

lemma update_session_rows:
  assumes "table_ok cs_ID (db_sessions d)" "s \<in> set (tb_rows (db_sessions d))"
    and "cs_ID s' = cs_ID s" "update_session_row now s' s = s''"
  shows "set (tb_rows (db_sessions (update_session now s' d))) = insert s'' (set (tb_rows (db_sessions d)) - {s})"
    "map cs_SessionKey (tb_rows (db_sessions (update_session now s' d))) = map cs_SessionKey (tb_rows (db_sessions d))"
    "map cs_DiagnosisTaskID (tb_rows (db_sessions (update_session now s' d)))
       = map cs_DiagnosisTaskID (tb_rows (db_sessions d))"
    "map cs_ID (tb_rows (db_sessions (update_session now s' d))) = map cs_ID (tb_rows (db_sessions d))"
    "table_ok cs_ID (db_sessions (update_session now s' d))"
  using update_rows [OF assms(1,2,3), of "update_session_row now s'"] assms(4)
  by (auto simp: update_session_row_def table_ok_update assms(1) intro!: update_rows_map)

lemma approvals_ok_later_session:
  assumes o: "approvals_ok sha d" and s: "s \<in> set (tb_rows (db_sessions d))"
    and rows: "set (tb_rows (db_sessions d')) = insert s'' (set (tb_rows (db_sessions d)) - {s})"
    and same: "cs_ID s'' = cs_ID s" "cs_ApprovalMode s'' = cs_ApprovalMode s" "cs_OwnerSubject s'' = cs_OwnerSubject s"
    and others: "db_approvals d' = db_approvals d" "set (tb_rows (db_turns d)) \<subseteq> set (tb_rows (db_turns d'))"
  shows "approvals_ok sha d'"
proof -
  have "approves_message sha d' x \<and>
      (\<exists>y \<in> set (tb_rows (db_sessions d')). cs_ID y = sa_SessionID x \<and> authority_ok y x)"
    if x: "x \<in> set (tb_rows (db_approvals d))" for x
  proof -
    obtain y where y: "y \<in> set (tb_rows (db_sessions d))" "cs_ID y = sa_SessionID x" "authority_ok y x"
      and m: "approves_message sha d x" using o x by (auto simp: approvals_ok_def)
    have "authority_ok s'' x \<longleftrightarrow> authority_ok s x" using same(3) by (simp add: authority_ok_def)
    with y same(1) have "\<exists>z \<in> set (tb_rows (db_sessions d')). cs_ID z = sa_SessionID x \<and> authority_ok z x"
      unfolding rows by (cases "y = s") auto
    moreover have "approves_message sha d' x" using m others(2) by (auto simp: approves_message_def)
    ultimately show ?thesis by blast
  qed
  moreover have "\<exists>p. PendingAuthorities (cs_ApprovalMode y) (conclusion_approvals (cs_ID y) dg d') = Inr p"
    if "y \<in> set (tb_rows (db_sessions d'))" for y dg
  proof -
    have "conclusion_approvals (cs_ID y) dg d' = conclusion_approvals (cs_ID y) dg d"
      by (simp add: conclusion_approvals_def others)
    with that o s same(1,2) show ?thesis unfolding rows by (auto simp: approvals_ok_def)
  qed
  ultimately show ?thesis unfolding approvals_ok_def others by blast
qed

text \<open>The tables after a pair of messages was stored.\<close>

lemma inserted_pair:
  assumes "insert_turn now u d = Inr (d1, u')" "insert_turn now a d1 = Inr (d2, a')"
    and "ct_SessionID u = i" "ct_SessionID a = i"
  shows "d2 = d\<lparr>db_turns := append_row (append_row (db_turns d) u') a'\<rparr>"
    "u' = u\<lparr>ct_ID := tb_next (db_turns d), ct_CreatedAt := now\<rparr>"
    "a' = a\<lparr>ct_ID := tb_next (db_turns d) + 1, ct_CreatedAt := now\<rparr>"
    "\<forall>x \<in> insert u' (set (tb_rows (db_turns d))). ct_SessionID x = i \<longrightarrow>
       ct_MessageID x \<noteq> ct_MessageID a \<and> ct_Sequence x \<noteq> ct_Sequence a"
    "\<forall>x \<in> set (tb_rows (db_turns d)). ct_SessionID x = i \<longrightarrow>
       ct_MessageID x \<noteq> ct_MessageID u \<and> ct_Sequence x \<noteq> ct_Sequence u"
  using assms by (auto simp: insert_turn_Inr)

lemma transcripts_ok_pair:
  assumes o: "transcripts_ok d" "table_ok cs_ID (db_sessions d)" and s: "s \<in> set (tb_rows (db_sessions d))"
    and f: "ct_SessionID u = cs_ID s" "ct_Role u = ChatRoleUser" "ct_SessionID a = cs_ID s"
      "ct_Role a = ChatRoleAssistant" "0 < ct_Sequence u" "0 < ct_Sequence a"
    and i: "insert_turn now u d = Inr (d1, u')" "insert_turn now a d1 = Inr (d2, a')"
    and turns: "db_turns d' = db_turns d2"
    and rows: "set (tb_rows (db_sessions d')) = insert s'' (set (tb_rows (db_sessions d)) - {s})"
    and same: "cs_ID s'' = cs_ID s" "cs_TurnCount s'' = cs_TurnCount s + 1"
  shows "transcripts_ok d'"
proof -
  note p = inserted_pair [OF i f(1,3)]
  have t: "db_turns d' = append_row (append_row (db_turns d) u') a'" using p(1) turns by simp
  have count: "role_count role k d' = role_count role k d
      + (if k = cs_ID s \<and> role \<in> {ChatRoleUser, ChatRoleAssistant} then 1 else 0)" for role k
    using f p(2,3) by (auto simp: role_count_def t)
  have ids: "cs_ID x \<noteq> cs_ID s" if "x \<in> set (tb_rows (db_sessions d)) - {s}" for x
    using row_unique [OF o(2), of x s] s that by auto
  have sids: "cs_ID ` set (tb_rows (db_sessions d')) = cs_ID ` set (tb_rows (db_sessions d))"
    unfolding rows using s same(1) by auto
  have "\<forall>t \<in> set (tb_rows (db_turns d')). ct_Role t \<in> {ChatRoleUser, ChatRoleAssistant} \<and>
      0 < ct_Sequence t \<and> ct_SessionID t \<in> cs_ID ` set (tb_rows (db_sessions d'))"
    unfolding sids t using o s f p(2,3) by (auto simp: transcripts_ok_def)
  moreover have "distinct (map (\<lambda>t. (ct_SessionID t, ct_MessageID t)) (tb_rows (db_turns d')))"
    unfolding t using o p(2-5) f by (auto simp: transcripts_ok_def)
  moreover have "distinct (map (\<lambda>t. (ct_SessionID t, ct_Sequence t)) (tb_rows (db_turns d')))"
    unfolding t using o p(2-5) f by (auto simp: transcripts_ok_def)
  moreover have "\<forall>x \<in> set (tb_rows (db_sessions d')).
      int (role_count ChatRoleUser (cs_ID x) d') = cs_TurnCount x \<and>
      int (role_count ChatRoleAssistant (cs_ID x) d') = cs_TurnCount x"
    unfolding rows count using o s same ids by (auto simp: transcripts_ok_def)
  ultimately show ?thesis unfolding transcripts_ok_def by blast
qed

lemma turn_persisted_ok:
  assumes ok: "store_ok sha d" and s: "s \<in> set (tb_rows (db_sessions d))"
    and n: "NewChatTurn tok u0 = Inr u" "NewChatTurn tok a0 = Inr a"
    and f: "ct_SessionID u = cs_ID s" "ct_Role u = ChatRoleUser" "ct_SessionID a = cs_ID s" "ct_Role a = ChatRoleAssistant"
    and i: "insert_turn now u d = Inr (d1, u')" "insert_turn now a d1 = Inr (d2, a')"
    and r: "ChatSession_RecordTurn s answered = Inr s'" "0 \<le> cs_TurnCount s'"
  shows "store_ok sha (update_session now s' d2)"
proof -
  note p = inserted_pair [OF i f(1,3)]
  have c: "0 \<le> cs_TurnCount s"
    and s': "s' = s\<lparr>cs_TurnCount := wrap64 (cs_TurnCount s + 1), cs_LastActivityAt := NormalizeUTCMicro answered\<rparr>"
    using ChatSession_RecordTurn_cases [OF r(1)] by auto
  have o: "tables_ok d" "rooms_ok d" "transcripts_ok d" "approvals_ok sha d"
    using ok by (simp_all add: store_ok_def)
  have tc: "cs_TurnCount s' = cs_TurnCount s + 1" "int64 (cs_TurnCount s + 1)"
    using wrap_succ [of "cs_TurnCount s"] r(2) c o(2) s s' by (auto simp: rooms_ok_def)
  define s'' where "s'' = s'\<lparr>cs_UpdatedAt := now\<rparr>"
  let ?d = "update_session now s' d2"
  have tab: "table_ok cs_ID (db_sessions d2)" "s \<in> set (tb_rows (db_sessions d2))" "cs_ID s' = cs_ID s"
    "update_session_row now s' s = s''"
    using o(1) s p(1) s' update_session_row_turn [OF r(1)] by (auto simp: tables_ok_def s''_def)
  note rows = update_session_rows [OF tab]
  have fields: "cs_ID s'' = cs_ID s" "cs_DiagnosisTaskID s'' = cs_DiagnosisTaskID s"
    "cs_ClosedAt s'' = cs_ClosedAt s" "cs_TurnCount s'' = cs_TurnCount s + 1" "ChatSession_wf s''"
    "cs_ApprovalMode s'' = cs_ApprovalMode s" "cs_OwnerSubject s'' = cs_OwnerSubject s"
    using s' tc ChatSession_RecordTurn_wf [OF r(1)] o(2) s by (auto simp: s''_def rooms_ok_def)
  have same: "db_tasks ?d = db_tasks d" "db_sessions d2 = db_sessions d" using p(1) by simp_all
  have rows1: "set (tb_rows (db_sessions ?d)) = insert s'' (set (tb_rows (db_sessions d)) - {s})"
    using rows(1) unfolding same(2) .
  have "table_ok ct_ID (append_row (append_row (db_turns d) u') a')"
    using o(1) p(2,3) by (intro table_ok_append) (simp_all add: tables_ok_def)
  then have "tables_ok ?d" using o(1) p(1) rows(5) by (simp add: tables_ok_def)
  moreover have "rooms_ok ?d"
    using o(2) s fields tc(2) c unfolding rooms_ok_def rows(1-3) same(1) unfolding same(2) by auto
  moreover have "transcripts_ok ?d"
    by (rule transcripts_ok_pair [OF o(3) _ s f _ _ i _ rows1 fields(1,4)])
      (use o(1) NewChatTurn_normalises [OF n(1)] NewChatTurn_normalises [OF n(2)] in \<open>simp_all add: tables_ok_def\<close>)
  moreover have "approvals_ok sha ?d"
    by (rule approvals_ok_later_session [OF o(4) s rows1 fields(1,6,7)])
      (use p(1) in auto)
  ultimately show ?thesis by (simp add: store_ok_def)
qed

section \<open>Approvals\<close>

lemma PendingAuthorities_perm:
  assumes "mset (map (\<lambda>a. (sa_ActorSubject a, sa_Authority a)) as) = mset (map (\<lambda>a. (sa_ActorSubject a, sa_Authority a)) bs)"
    and "PendingAuthorities m as = Inr p"
  shows "\<exists>q. PendingAuthorities m bs = Inr q"
proof -
  let ?g = "\<lambda>a. (sa_ActorSubject a, sa_Authority a)"
  have m: "mset (map (f \<circ> ?g) as) = mset (map (f \<circ> ?g) bs)" for f :: "_ \<Rightarrow> string"
    using arg_cong [OF assms(1), of "image_mset f"] by (simp add: image_mset.compositionality)
  have d: "distinct (map sa_ActorSubject as) = distinct (map sa_ActorSubject bs)"
    "distinct (map sa_Authority as) = distinct (map sa_Authority bs)"
    using m [of fst] m [of snd] by (auto simp: comp_def intro!: mset_eq_imp_distinct_iff)
  have s: "?g ` set as = ?g ` set bs"
    using arg_cong [OF assms(1), of set_mset] by simp
  have v: "(\<forall>a \<in> set xs. DiagnosisApprovalAuthority_Valid (sa_Authority a) \<and> TrimSpace (sa_ActorSubject a) \<noteq> []) \<longleftrightarrow>
      (\<forall>p \<in> ?g ` set xs. DiagnosisApprovalAuthority_Valid (snd p) \<and> TrimSpace (fst p) \<noteq> [])" for xs
    by simp
  have "distinct_approvals as = distinct_approvals bs"
    unfolding distinct_approvals_def v s d ..
  moreover have "length as = length bs" using arg_cong [OF assms(1), of size] by simp
  ultimately show ?thesis using assms(2) by (auto simp: PendingAuthorities_Inr)
qed

lemma mset_conclusion_approvals:
  "mset (conclusion_approvals i dg d) =
     mset (filter (\<lambda>r. sa_SessionID r = i \<and> sa_ConclusionDigest r = dg) (tb_rows (db_approvals d)))"
  by (simp add: conclusion_approvals_def)

lemma conclusion_approved_ok:
  assumes ok: "store_ok sha d" and s: "s \<in> set (tb_rows (db_sessions d))"
    and l: "LatestPersistedConclusion sha s (session_turns (cs_ID s) d) = Inr (turn, digest)"
    and a: "sa_SessionID a = cs_ID s" "sa_ConclusionDigest a = TrimSpace digest" "authority_ok s a"
    and q: "PendingAuthorities (cs_ApprovalMode s)
          (conclusion_approvals (cs_ID s) (sa_ConclusionDigest a) d @ [a]) = Inr pending"
    and i: "insert_approval now a d = Inr (d', r)"
  shows "store_ok sha d'"
proof -
  have r: "r = a\<lparr>sa_ID := tb_next (db_approvals d), sa_CreatedAt := now\<rparr>"
    and d': "d' = d\<lparr>db_approvals := append_row (db_approvals d) r\<rparr>"
    using i by (auto simp: insert_approval_Inr)
  have o: "tables_ok d" "approvals_ok sha d" using ok by (simp_all add: store_ok_def)
  note c = LatestPersistedConclusion_Inr [OF l]
  have "turn \<in> set (session_turns (cs_ID s) d)" using c(3,4) by simp
  then have "turn \<in> set (tb_rows (db_turns d))" "ct_SessionID turn = cs_ID s"
    by (auto simp: session_turns_def)
  with c(5,7) a r have m: "approves_message sha d r" by (auto simp: approves_message_def)
  have old: "approves_message sha d' x = approves_message sha d x" for x by (simp add: approves_message_def d')
  have quorum: "\<exists>p. PendingAuthorities (cs_ApprovalMode y) (conclusion_approvals (cs_ID y) dg d') = Inr p"
    if y: "y \<in> set (tb_rows (db_sessions d))" for y dg
  proof (cases "cs_ID y = cs_ID s \<and> dg = sa_ConclusionDigest a")
    case True
    then have "y = s" using row_unique [of cs_ID "db_sessions d"] o(1) y s by (auto simp: tables_ok_def)
    have "mset (map (\<lambda>a. (sa_ActorSubject a, sa_Authority a)) (conclusion_approvals (cs_ID s) (sa_ConclusionDigest a) d @ [a]))
        = mset (map (\<lambda>a. (sa_ActorSubject a, sa_Authority a)) (conclusion_approvals (cs_ID s) (sa_ConclusionDigest a) d'))"
      by (simp add: mset_conclusion_approvals d' r a(1) del: mset_filter)
    from PendingAuthorities_perm [OF this q] True \<open>y = s\<close> show ?thesis by simp
  next
    case False
    then have "conclusion_approvals (cs_ID y) dg d' = conclusion_approvals (cs_ID y) dg d"
      by (auto simp: conclusion_approvals_def d' r a(1))
    with o(2) y show ?thesis by (auto simp: approvals_ok_def)
  qed
  have "tables_ok d'" using o(1) r d' by (auto simp: tables_ok_def intro!: table_ok_append)
  moreover have "approvals_ok sha d'"
    using o(2) quorum m a s unfolding approvals_ok_def old by (auto simp: d' r authority_ok_def)
  ultimately show ?thesis using ok d' by (simp add: store_ok_def)
qed

section \<open>Closing\<close>

lemma rooms_ok_closed:
  assumes o: "rooms_ok d" "table_ok dt_ID (db_tasks d)" and s: "s \<in> set (tb_rows (db_sessions d))"
    and t: "t \<in> set (tb_rows (db_tasks d))" "dt_ID t = cs_DiagnosisTaskID s"
    and tasks: "set (tb_rows (db_tasks d')) = insert t' (set (tb_rows (db_tasks d)) - {t})"
      "map (\<lambda>t. (dt_WorkflowID t, dt_RunID t)) (tb_rows (db_tasks d'))
         = map (\<lambda>t. (dt_WorkflowID t, dt_RunID t)) (tb_rows (db_tasks d))"
    and sessions: "set (tb_rows (db_sessions d')) = insert s' (set (tb_rows (db_sessions d)) - {s})"
      "map cs_SessionKey (tb_rows (db_sessions d')) = map cs_SessionKey (tb_rows (db_sessions d))"
      "map cs_DiagnosisTaskID (tb_rows (db_sessions d')) = map cs_DiagnosisTaskID (tb_rows (db_sessions d))"
    and new: "DiagnosisTask_wf t'" "dt_ID t' = dt_ID t" "dt_FinishedAt t' = cs_ClosedAt s'"
      "ChatSession_wf s'" "cs_TurnCount s' = cs_TurnCount s" "cs_DiagnosisTaskID s' = cs_DiagnosisTaskID s"
  shows "rooms_ok d'"
proof -
  have other: "cs_DiagnosisTaskID x \<noteq> dt_ID t" if "x \<in> set (tb_rows (db_sessions d)) - {s}" for x
    using o(1) s t(2) that by (auto simp: rooms_ok_def distinct_map dest: inj_onD)
  have "\<exists>y \<in> set (tb_rows (db_tasks d')). dt_ID y = cs_DiagnosisTaskID x \<and> dt_FinishedAt y = cs_ClosedAt x"
    if x: "x \<in> set (tb_rows (db_sessions d'))" for x
  proof (cases "x = s'")
    case True
    then show ?thesis using tasks(1) t new by auto
  next
    case False
    with x sessions(1) have x: "x \<in> set (tb_rows (db_sessions d)) - {s}" by auto
    then obtain y where "y \<in> set (tb_rows (db_tasks d))" "dt_ID y = cs_DiagnosisTaskID x" "dt_FinishedAt y = cs_ClosedAt x"
      using o(1) by (auto simp: rooms_ok_def)
    moreover from this other [OF x] have "y \<noteq> t" by auto
    ultimately show ?thesis using tasks(1) by auto
  qed
  moreover have "cs_DiagnosisTaskID ` set (tb_rows (db_sessions d')) = cs_DiagnosisTaskID ` set (tb_rows (db_sessions d))"
    using sessions(3) by (metis set_map)
  ultimately show ?thesis
    using o(1) s t new unfolding rooms_ok_def tasks(2) sessions(2,3)
    by (auto simp: tasks(1) sessions(1))
qed

lemma room_closed_ok:
  assumes ok: "store_ok sha d" and s: "s \<in> set (tb_rows (db_sessions d))"
    and t: "t \<in> set (tb_rows (db_tasks d))" "dt_ID t = cs_DiagnosisTaskID s"
    and y: "d1 = d \<or> (\<exists>y r. ss_SessionID y = cs_ID s \<and> insert_summary now y d = Inr (d1, r))"
    and f: "DiagnosisTask_Finish t status closed failure = Inr t'"
    and c: "ChatSession_Close s closed reason = Inr s'"
  shows "store_ok sha (update_session now s' (update_task now t' d1))"
proof -
  let ?d = "update_session now s' (update_task now t' d1)"
  have d1: "db_tasks d1 = db_tasks d" "db_sessions d1 = db_sessions d" "db_turns d1 = db_turns d"
    "db_approvals d1 = db_approvals d" "db_events d1 = db_events d"
    using y by (auto simp: insert_summary_Inr)
  have o: "tables_ok d" "rooms_ok d" "transcripts_ok d" "approvals_ok sha d"
    using ok by (simp_all add: store_ok_def)
  have sum: "table_ok ss_ID (db_summaries d1)"
    using y o(1) by (auto simp: insert_summary_Inr tables_ok_def intro!: table_ok_append)
  define s'' where "s'' = s'\<lparr>cs_UpdatedAt := now\<rparr>"
  define t'' where "t'' = t'\<lparr>dt_UpdatedAt := now\<rparr>"
  have wf: "DiagnosisTask_wf t" "ChatSession_wf s" using o(2) s t by (auto simp: rooms_ok_def)
  have s'': "cs_ID s' = cs_ID s" "cs_ID s'' = cs_ID s" "cs_ApprovalMode s'' = cs_ApprovalMode s"
    "cs_OwnerSubject s'' = cs_OwnerSubject s" "cs_TurnCount s'' = cs_TurnCount s"
    "cs_DiagnosisTaskID s'' = cs_DiagnosisTaskID s" "cs_ClosedAt s'' = Some (NormalizeUTCMicro closed)"
    using c by (auto elim!: ChatSession_Close_cases simp: s''_def)
  have t'': "dt_ID t' = dt_ID t" "dt_ID t'' = dt_ID t" "dt_FinishedAt t'' = Some (NormalizeUTCMicro closed)"
    using f by (auto elim!: DiagnosisTask_Finish_cases simp: t''_def)
  have new: "DiagnosisTask_wf t''" "ChatSession_wf s''"
    using DiagnosisTask_Finish_wf [OF f wf(1)] ChatSession_Close_wf [OF c wf(2)] by (simp_all add: t''_def s''_def)
  have tab: "table_ok cs_ID (db_sessions (update_task now t' d1))" "s \<in> set (tb_rows (db_sessions (update_task now t' d1)))"
    using o(1) s d1 by (simp_all add: tables_ok_def)
  note rows = update_session_rows [OF tab s''(1) update_session_row_close [OF c, of now, folded s''_def]]
  have rows1: "set (tb_rows (db_sessions ?d)) = insert s'' (set (tb_rows (db_sessions d)) - {s})"
    "map cs_SessionKey (tb_rows (db_sessions ?d)) = map cs_SessionKey (tb_rows (db_sessions d))"
    "map cs_DiagnosisTaskID (tb_rows (db_sessions ?d)) = map cs_DiagnosisTaskID (tb_rows (db_sessions d))"
    using rows(1-3) d1(2) by simp_all
  have tasks: "set (tb_rows (db_tasks ?d)) = insert t'' (set (tb_rows (db_tasks d)) - {t})"
    "map (\<lambda>t. (dt_WorkflowID t, dt_RunID t)) (tb_rows (db_tasks ?d))
       = map (\<lambda>t. (dt_WorkflowID t, dt_RunID t)) (tb_rows (db_tasks d))"
    using update_rows [of dt_ID "db_tasks d" t t'] o(1) t t'' update_task_row_finish [OF f, of now] d1(1)
    by (auto simp: tables_ok_def t''_def update_task_row_def intro!: update_rows_map)
  have "tables_ok ?d"
    using o(1) sum d1 rows(5) by (auto simp: tables_ok_def update_task_row_def intro!: table_ok_update)
  moreover have "rooms_ok ?d"
    by (rule rooms_ok_closed [OF o(2) _ s t tasks rows1 new(1) t''(2) _ new(2) s''(5,6)])
      (use o(1) t'' s'' in \<open>simp_all add: tables_ok_def\<close>)
  moreover have "transcripts_ok ?d"
  proof -
    have sids: "cs_ID ` set (tb_rows (db_sessions ?d)) = cs_ID ` set (tb_rows (db_sessions d))"
      unfolding rows1 using s s''(2) by auto
    have count: "role_count role i ?d = role_count role i d" and turns: "db_turns ?d = db_turns d" for role i
      by (simp_all add: role_count_def d1)
    show ?thesis
      using o(3) s s''(2,5) unfolding transcripts_ok_def sids count turns rows1(1) by auto
  qed
  moreover have "approvals_ok sha ?d"
    by (rule approvals_ok_later_session [OF o(4) s rows1(1) s''(2-4)]) (use d1 in auto)
  ultimately show ?thesis by (simp add: store_ok_def)
qed

section \<open>Every step keeps the invariant\<close>

lemma store_step_ok:
  assumes "store_step tok sha d d'" "store_ok sha d"
  shows "store_ok sha d'"
  using assms
proof (cases rule: store_step.cases)
  case task_opened
  with assms(2) show ?thesis using task_opened_ok by blast
next
  case session_opened
  with assms(2) show ?thesis using session_opened_ok by blast
next
  case event_recorded
  with assms(2) show ?thesis using event_recorded_ok by blast
next
  case turn_persisted
  with assms(2) show ?thesis using turn_persisted_ok by blast
next
  case conclusion_approved
  with assms(2) show ?thesis using conclusion_approved_ok by blast
next
  case room_closed
  with assms(2) show ?thesis using room_closed_ok by blast
qed

lemma lib_step_ok:
  assumes "lib_step lib d d'" "store_ok (vl_sha256_hex lib) d"
  shows "store_ok (vl_sha256_hex lib) d'"
  using assms unfolding lib_step_def
  by (induction rule: rtranclp_induct) (auto intro: store_step_ok)

end
