(* ===== verification/Store_History.thy ===== *)
theory Store_History
  imports Store_Invariant
begin

text \<open>
  What the store never forgets: messages, events, summaries and approvals are only appended, and the
  record of a closed room, its session, task, transcript and approvals, stays as it is (but for the
  time of the last write). \<open>history\<close> is reflexive and transitive, and every step from a consistent
  store respects it.
\<close>

definition same_session :: "ChatSession \<Rightarrow> ChatSession \<Rightarrow> bool" where
  "same_session s s' \<longleftrightarrow> (\<exists>n. s' = s\<lparr>cs_UpdatedAt := n\<rparr>)"

definition same_task :: "DiagnosisTask \<Rightarrow> DiagnosisTask \<Rightarrow> bool" where
  "same_task t t' \<longleftrightarrow> (\<exists>n. t' = t\<lparr>dt_UpdatedAt := n\<rparr>)"

lemma same_updated [simp]: "same_session s (s\<lparr>cs_UpdatedAt := n\<rparr>)" "same_task t (t\<lparr>dt_UpdatedAt := n\<rparr>)"
  by (auto simp: same_session_def same_task_def)

lemma same_refl [simp]: "same_session s s" "same_task t t"
  using same_updated(1) [of s "cs_UpdatedAt s"] same_updated(2) [of t "dt_UpdatedAt t"] by simp_all

lemma same_fields:
  "same_session s s' \<Longrightarrow> cs_ID s' = cs_ID s \<and> cs_Status s' = cs_Status s"
  "same_task t t' \<Longrightarrow> dt_Status t' = dt_Status t"
  by (auto simp: same_session_def same_task_def)

lemma same_trans:
  "same_session s s' \<Longrightarrow> same_session s' s'' \<Longrightarrow> same_session s s''"
  "same_task t t' \<Longrightarrow> same_task t' t'' \<Longrightarrow> same_task t t''"
  by (auto simp: same_session_def same_task_def)

definition appended :: "'a rows \<Rightarrow> 'a rows \<Rightarrow> bool" where
  "appended t t' \<longleftrightarrow> (\<exists>xs. tb_rows t' = tb_rows t @ xs)"

lemma appended_refl [simp]: "appended t t"
  by (simp add: appended_def)

lemma appended_row [simp]: "appended t (append_row t r)" "appended t (append_row (append_row t r) r')"
  by (auto simp: appended_def)

lemma appended_trans: "appended t t' \<Longrightarrow> appended t' t'' \<Longrightarrow> appended t t''"
  by (auto simp: appended_def)

definition record_kept :: "diagnosis_db \<Rightarrow> diagnosis_db \<Rightarrow> bool" where
  "record_kept d d' \<longleftrightarrow>
     (\<forall>s \<in> set (tb_rows (db_sessions d)). cs_Status s = ChatSessionStatusClosed \<longrightarrow>
        (\<exists>s' \<in> set (tb_rows (db_sessions d')). same_session s s') \<and>
        session_turns (cs_ID s) d' = session_turns (cs_ID s) d \<and>
        (\<forall>dg. conclusion_approvals (cs_ID s) dg d' = conclusion_approvals (cs_ID s) dg d)) \<and>
     (\<forall>t \<in> set (tb_rows (db_tasks d)). DiagnosisStatus_IsTerminal (dt_Status t) \<longrightarrow>
        (\<exists>t' \<in> set (tb_rows (db_tasks d')). same_task t t'))"

definition history :: "diagnosis_db \<Rightarrow> diagnosis_db \<Rightarrow> bool" where
  "history d d' \<longleftrightarrow> appended (db_turns d) (db_turns d') \<and> appended (db_events d) (db_events d') \<and>
     appended (db_summaries d) (db_summaries d') \<and> appended (db_approvals d) (db_approvals d') \<and>
     record_kept d d'"

lemma record_keptI:
  assumes "\<And>s. s \<in> set (tb_rows (db_sessions d)) \<Longrightarrow> cs_Status s = ChatSessionStatusClosed \<Longrightarrow>
      \<exists>s' \<in> set (tb_rows (db_sessions d')). same_session s s'"
    and "\<And>s. s \<in> set (tb_rows (db_sessions d)) \<Longrightarrow> cs_Status s = ChatSessionStatusClosed \<Longrightarrow>
      session_turns (cs_ID s) d' = session_turns (cs_ID s) d"
    and "\<And>s dg. s \<in> set (tb_rows (db_sessions d)) \<Longrightarrow> cs_Status s = ChatSessionStatusClosed \<Longrightarrow>
      conclusion_approvals (cs_ID s) dg d' = conclusion_approvals (cs_ID s) dg d"
    and "\<And>t. t \<in> set (tb_rows (db_tasks d)) \<Longrightarrow> DiagnosisStatus_IsTerminal (dt_Status t) \<Longrightarrow>
      \<exists>t' \<in> set (tb_rows (db_tasks d')). same_task t t'"
  shows "record_kept d d'"
  using assms unfolding record_kept_def by blast

lemma record_kept_trans:
  assumes "record_kept d d'" "record_kept d' d''"
  shows "record_kept d d''"
proof (rule record_keptI)
  fix s dg assume s: "s \<in> set (tb_rows (db_sessions d))" "cs_Status s = ChatSessionStatusClosed"
  then obtain s' where s': "s' \<in> set (tb_rows (db_sessions d'))" "same_session s s'"
    using assms(1) by (auto simp: record_kept_def)
  then have f: "cs_ID s' = cs_ID s" "cs_Status s' = ChatSessionStatusClosed" using s(2) same_fields(1) by auto
  with s'(1) assms(2) obtain s'' where "s'' \<in> set (tb_rows (db_sessions d''))" "same_session s' s''"
    by (auto simp: record_kept_def)
  with s'(2) same_trans(1) show "\<exists>s'' \<in> set (tb_rows (db_sessions d'')). same_session s s''" by blast
  show "session_turns (cs_ID s) d'' = session_turns (cs_ID s) d"
    and "conclusion_approvals (cs_ID s) dg d'' = conclusion_approvals (cs_ID s) dg d"
    using assms s s'(1) f by (auto simp: record_kept_def)
next
  fix t assume t: "t \<in> set (tb_rows (db_tasks d))" "DiagnosisStatus_IsTerminal (dt_Status t)"
  then obtain t' where t': "t' \<in> set (tb_rows (db_tasks d'))" "same_task t t'"
    using assms(1) by (auto simp: record_kept_def)
  with t(2) assms(2) obtain t'' where "t'' \<in> set (tb_rows (db_tasks d''))" "same_task t' t''"
    using same_fields(2) by (fastforce simp: record_kept_def)
  with t'(2) same_trans(2) show "\<exists>t'' \<in> set (tb_rows (db_tasks d'')). same_task t t''" by blast
qed

lemma history_refl: "history d d"
  by (auto simp: history_def intro!: record_keptI bexI)

lemma history_trans: "history d d' \<Longrightarrow> history d' d'' \<Longrightarrow> history d d''"
  unfolding history_def by (blast intro: appended_trans record_kept_trans)

section \<open>Every step respects the history\<close>

lemma history_same_rooms:
  assumes "db_sessions d' = db_sessions d" "db_turns d' = db_turns d" "db_approvals d' = db_approvals d"
    and "appended (db_tasks d) (db_tasks d')" "appended (db_events d) (db_events d')"
    and "appended (db_summaries d) (db_summaries d')"
  shows "history d d'"
  using assms
  by (auto simp: history_def session_turns_def conclusion_approvals_def appended_def intro!: record_keptI bexI)

lemma history_opened:
  assumes "d' = d\<lparr>db_sessions := append_row (db_sessions d) r\<rparr>"
  shows "history d d'"
  using assms by (auto simp: history_def session_turns_def conclusion_approvals_def intro!: record_keptI bexI)

lemma other_closed_session:
  assumes "table_ok cs_ID (db_sessions d)" "s \<in> set (tb_rows (db_sessions d))"
    and "\<not> ChatSessionStatus_IsTerminal (cs_Status s)"
    and "x \<in> set (tb_rows (db_sessions d))" "cs_Status x = ChatSessionStatusClosed"
  shows "x \<noteq> s" "cs_ID x \<noteq> cs_ID s"
  using assms row_unique [of cs_ID "db_sessions d" x s] by (auto simp: ChatSessionStatus_IsTerminal_def)

lemma history_turn:
  assumes ok: "tables_ok d" and s: "s \<in> set (tb_rows (db_sessions d))"
    and f: "ct_SessionID u = cs_ID s" "ct_SessionID a = cs_ID s"
    and i: "insert_turn now u d = Inr (d1, u')" "insert_turn now a d1 = Inr (d2, a')"
    and r: "ChatSession_RecordTurn s answered = Inr s'"
  shows "history d (update_session now s' d2)"
proof -
  note p = inserted_pair [OF i f]
  have t: "table_ok cs_ID (db_sessions d)" using ok by (simp add: tables_ok_def)
  have open_s: "\<not> ChatSessionStatus_IsTerminal (cs_Status s)" and id: "cs_ID s' = cs_ID s"
    using ChatSession_RecordTurn_cases [OF r] by auto
  have rows: "set (tb_rows (db_sessions (update_session now s' d2))) = insert (s'\<lparr>cs_UpdatedAt := now\<rparr>)
      (set (tb_rows (db_sessions d)) - {s})"
    using update_session_rows(1) [of d2 s s'] t s id update_session_row_turn [OF r] p(1) by simp
  have "record_kept d (update_session now s' d2)"
  proof (rule record_keptI)
    fix x dg assume "x \<in> set (tb_rows (db_sessions d))" "cs_Status x = ChatSessionStatusClosed"
    from this(1) other_closed_session [OF t s open_s this]
    show "\<exists>y \<in> set (tb_rows (db_sessions (update_session now s' d2))). same_session x y"
      and "session_turns (cs_ID x) (update_session now s' d2) = session_turns (cs_ID x) d"
      and "conclusion_approvals (cs_ID x) dg (update_session now s' d2) = conclusion_approvals (cs_ID x) dg d"
      unfolding rows using f p(2,3) by (auto simp: p(1) session_turns_def conclusion_approvals_def intro!: bexI)
  qed (auto simp: p(1) intro!: bexI)
  then show ?thesis by (auto simp: history_def p(1) appended_def)
qed

lemma history_approval:
  assumes ok: "tables_ok d" and s: "s \<in> set (tb_rows (db_sessions d))"
    and open_s: "\<not> ChatSessionStatus_IsTerminal (cs_Status s)" and "sa_SessionID a = cs_ID s"
    and "insert_approval now a d = Inr (d', r)"
  shows "history d d'"
proof -
  have a: "sa_SessionID r = cs_ID s" and d': "d' = d\<lparr>db_approvals := append_row (db_approvals d) r\<rparr>"
    using assms(4,5) by (auto simp: insert_approval_Inr)
  have t: "table_ok cs_ID (db_sessions d)" using ok by (simp add: tables_ok_def)
  have "record_kept d d'"
  proof (rule record_keptI)
    fix x dg assume "x \<in> set (tb_rows (db_sessions d))" "cs_Status x = ChatSessionStatusClosed"
    from this(1) other_closed_session [OF t s open_s this]
    show "\<exists>y \<in> set (tb_rows (db_sessions d')). same_session x y"
      and "session_turns (cs_ID x) d' = session_turns (cs_ID x) d"
      and "conclusion_approvals (cs_ID x) dg d' = conclusion_approvals (cs_ID x) dg d"
      using a by (auto simp: d' session_turns_def conclusion_approvals_def intro!: bexI)
  qed (auto simp: d' intro!: bexI)
  then show ?thesis by (auto simp: history_def d')
qed

lemma history_closed:
  assumes ok: "tables_ok d" and s: "s \<in> set (tb_rows (db_sessions d))"
    and t: "t \<in> set (tb_rows (db_tasks d))"
    and y: "d1 = d \<or> (\<exists>y r. ss_SessionID y = cs_ID s \<and> insert_summary now y d = Inr (d1, r))"
    and f: "DiagnosisTask_Finish t status closed failure = Inr t'"
    and c: "ChatSession_Close s closed reason = Inr s'"
  shows "history d (update_session now s' (update_task now t' d1))"
proof -
  let ?d = "update_session now s' (update_task now t' d1)"
  have d1: "db_tasks d1 = db_tasks d" "db_sessions d1 = db_sessions d" "db_turns d1 = db_turns d"
    "db_approvals d1 = db_approvals d" "db_events d1 = db_events d" "appended (db_summaries d) (db_summaries d1)"
    using y by (auto simp: insert_summary_Inr)
  have ids: "cs_ID s' = cs_ID s" "dt_ID t' = dt_ID t"
    using c f by (auto elim!: ChatSession_Close_cases DiagnosisTask_Finish_cases)
  have rows: "set (tb_rows (db_sessions ?d)) = insert (s'\<lparr>cs_UpdatedAt := now\<rparr>) (set (tb_rows (db_sessions d)) - {s})"
    using update_session_rows(1) [of "update_task now t' d1" s s'] ok s ids(1) update_session_row_close [OF c] d1
    by (simp add: tables_ok_def)
  have tasks: "set (tb_rows (db_tasks ?d)) = insert (t'\<lparr>dt_UpdatedAt := now\<rparr>) (set (tb_rows (db_tasks d)) - {t})"
    using update_rows [of dt_ID "db_tasks d" t t'] ok t ids(2) update_task_row_finish [OF f] d1
    by (simp add: tables_ok_def)
  have "record_kept d ?d"
  proof (rule record_keptI)
    fix x dg assume x: "x \<in> set (tb_rows (db_sessions d))" "cs_Status x = ChatSessionStatusClosed"
    have "s' = s" if "x = s" using c x(2) that by (auto elim!: ChatSession_Close_cases simp: ChatSessionStatus_IsTerminal_def)
    with x(1) show "\<exists>y \<in> set (tb_rows (db_sessions ?d)). same_session x y"
      unfolding rows by (cases "x = s") (auto intro: same_refl)
    show "session_turns (cs_ID x) ?d = session_turns (cs_ID x) d"
      and "conclusion_approvals (cs_ID x) dg ?d = conclusion_approvals (cs_ID x) dg d"
      by (simp_all add: session_turns_def conclusion_approvals_def d1)
  next
    fix x assume x: "x \<in> set (tb_rows (db_tasks d))" "DiagnosisStatus_IsTerminal (dt_Status x)"
    have "t' = t" if "x = t" using DiagnosisTask_terminal_frozen(2) f x(2) that by blast
    with x(1) show "\<exists>y \<in> set (tb_rows (db_tasks ?d)). same_task x y"
      unfolding tasks by (cases "x = t") (auto intro: same_refl)
  qed
  then show ?thesis using d1 by (simp add: history_def)
qed

lemma store_step_history:
  assumes "store_step tok sha d d'" "tables_ok d"
  shows "history d d'"
  using assms(1)
proof (cases rule: store_step.cases)
  case task_opened
  then show ?thesis by (auto simp: insert_task_Inr intro!: history_same_rooms)
next
  case session_opened
  then show ?thesis by (auto simp: insert_session_Inr intro!: history_opened)
next
  case event_recorded
  then show ?thesis by (auto simp: insert_task_event_Inr intro!: history_same_rooms)
next
  case turn_persisted
  with assms(2) show ?thesis using history_turn by blast
next
  case conclusion_approved
  with assms(2) show ?thesis using history_approval by blast
next
  case room_closed
  with assms(2) show ?thesis using history_closed by blast
qed

lemma lib_step_history:
  assumes "lib_step lib d d'" "store_ok (vl_sha256_hex lib) d"
  shows "history d d'"
proof -
  have "history d d' \<and> store_ok (vl_sha256_hex lib) d'"
    using assms(1) unfolding lib_step_def
  proof (induction rule: rtranclp_induct)
    case base
    show ?case using history_refl assms(2) by blast
  next
    case (step y z)
    then have "history y z" "store_ok (vl_sha256_hex lib) z"
      using store_step_history store_step_ok by (auto simp: store_ok_def)
    with step.IH history_trans show ?case by blast
  qed
  then show ?thesis by blast
qed

section \<open>A session keeps its identity\<close>

definition session_identity :: "ChatSession \<Rightarrow> int \<times> string \<times> int \<times> string \<times> string" where
  "session_identity s =
     (cs_ID s, cs_SessionKey s, cs_DiagnosisTaskID s, cs_OwnerSubject s, cs_ApprovalMode s)"

definition identities :: "diagnosis_db \<Rightarrow> (int \<times> string \<times> int \<times> string \<times> string) list" where
  "identities d = map session_identity (tb_rows (db_sessions d))"

lemma identities_update: "identities (update_session now s d) = identities d"
  unfolding identities_def
  by (simp add: update_rows_map session_identity_def update_session_row_def)

lemma identities_frames [simp]:
  "identities (d\<lparr>db_tasks := ta\<rparr>) = identities d" "identities (d\<lparr>db_turns := tr\<rparr>) = identities d"
  "identities (d\<lparr>db_events := ev\<rparr>) = identities d" "identities (d\<lparr>db_summaries := su\<rparr>) = identities d"
  "identities (d\<lparr>db_approvals := ap\<rparr>) = identities d"
  by (simp_all add: identities_def)

lemma identities_turn: "insert_turn now x d = Inr (d', r) \<Longrightarrow> identities d' = identities d"
  by (auto simp: insert_turn_Inr)

lemma identities_summary: "insert_summary now x d = Inr (d', r) \<Longrightarrow> identities d' = identities d"
  by (auto simp: insert_summary_Inr)

lemma store_step_identities:
  assumes "store_step tok sha d d'"
  shows "\<exists>xs. identities d' = identities d @ xs"
  using assms
proof (cases rule: store_step.cases)
  case turn_persisted
  then have "identities d' = identities d" using identities_update identities_turn by metis
  then show ?thesis by simp
next
  case room_closed
  then have "identities d' = identities d"
    using identities_update identities_summary identities_frames(1) by metis
  then show ?thesis by simp
next
  case session_opened
  then show ?thesis by (auto simp: insert_session_Inr identities_def)
qed (auto simp: insert_task_Inr insert_task_event_Inr insert_approval_Inr)

lemma lib_step_identities:
  assumes "lib_step lib d d'"
  shows "\<exists>xs. identities d' = identities d @ xs"
  using assms unfolding lib_step_def
proof (induction rule: rtranclp_induct)
  case (step y z)
  then show ?case using store_step_identities [of _ _ y z] by fastforce
qed simp

text \<open>A key finds the same session at any later time.\<close>

lemma session_rows_later:
  assumes "store_ok (vl_sha256_hex lib) d" "lib_step lib d d'" "session_rows k d = [s]"
  obtains s' where "session_rows k d' = [s']" "session_identity s' = session_identity s"
proof -
  have ok: "store_ok (vl_sha256_hex lib) d'" using assms(1,2) lib_step_ok by blast
  have s: "s \<in> set (tb_rows (db_sessions d))" "cs_SessionKey s = k" using session_rows_mem [OF assms(3)] by auto
  then have "session_identity s \<in> set (identities d')"
    using lib_step_identities [OF assms(2)] by (force simp: identities_def)
  then obtain s' where s': "s' \<in> set (tb_rows (db_sessions d'))" "session_identity s' = session_identity s"
    by (auto simp: identities_def)
  then have k: "cs_SessionKey s' = k" using s(2) by (simp add: session_identity_def)
  have "distinct (map cs_SessionKey (tb_rows (db_sessions d')))" using ok by (simp add: store_ok_def rooms_ok_def)
  then have "session_rows k d' = [s']"
    unfolding session_rows_def using s'(1) k by (rule filter_unique_key)
  with s'(2) that show thesis by blast
qed

end
