(* ===== verification/Store_Outcomes.thy ===== *)
theory Store_Outcomes
  imports Store_History
begin

text \<open>
  What a successful activity tells its caller about the store: which rows a persisted turn has, what a
  close has verified, and that an activity that fails in its first transaction has changed nothing,
  unless it stored what it stores when it succeeds.
\<close>

section \<open>Transactions\<close>

lemma run_tx_ok:
  assumes "\<And>flt. keeps_open (fn flt)" "run_tx drv k fn d = (d', Inr x)"
  obtains u where "fn (dr_stmt drv k) (newUnitOfWork d) = (u, Inr x)" "\<not> uow_aborted u" "d' = uow_data u"
  using assms(2) that unfolding run_tx_def by (rule within_tx_ok [OF assms(1)])

text \<open>The same driver, over a connection that begins and commits every transaction.\<close>

definition acknowledging :: "driver \<Rightarrow> driver" where
  "acknowledging drv = drv\<lparr>dr_env := \<lambda>_. calm_env\<rparr>"

lemma run_tx_error:
  assumes "\<And>flt. keeps_open (fn flt)" "run_tx drv k fn d = (d', Inl e)"
  shows "d' = d \<or> (\<exists>x. run_tx (acknowledging drv) k fn d = (d', Inr x))"
  using within_tx_as_calm [OF assms(1), of "dr_env drv k" d "dr_stmt drv k"] assms(2)
  by (auto simp: run_tx_def acknowledging_def)

lemma run_tx_calm:
  assumes "\<And>flt. keeps_open (fn flt)" "fn (\<lambda>_. None) (newUnitOfWork d) = (u, Inr x)" "\<not> uow_aborted u"
  shows "run_tx (calm now) k fn d = (uow_data u, Inr x)"
  using within_tx_commits [OF assms] by (simp add: run_tx_def calm_def)

section \<open>A persisted turn\<close>

lemma turn_rows_unique:
  assumes "store_ok sha d" "t \<in> set (tb_rows (db_turns d))"
  shows "turn_rows (ct_SessionID t) (ct_MessageID t) d = [t]"
proof -
  have "distinct (map (\<lambda>t. (ct_SessionID t, ct_MessageID t)) (tb_rows (db_turns d)))"
    using assms(1) by (simp add: store_ok_def transcripts_ok_def)
  from filter_unique_key [OF this assms(2) HOL.refl] show ?thesis by (simp add: turn_rows_def)
qed

lemma turn_rows_mem: "turn_rows i m d = [t] \<Longrightarrow> t \<in> set (tb_rows (db_turns d)) \<and> ct_SessionID t = i \<and> ct_MessageID t = m"
  by (auto simp: turn_rows_def filter_eq_Cons_iff)

lemma turn_input_trimmed:
  assumes "validatePersistDiagnosisTurnInput lib req = Inr parsed"
  shows "TrimSpace (pi_UserMessageID req) = pi_UserMessageID req"
    "TrimSpace (pi_AssistantMessageID req) = pi_AssistantMessageID req"
    "0 < pi_UserSequence req" "pi_AssistantSequence req = wrap64 (pi_UserSequence req + 1)"
  using assms
  by (auto simp: validatePersistDiagnosisTurnInput_def validate_turn_identity_def bindE_eq_Inr_iff split: if_splits)

text \<open>The rows a call leaves for its turn; \<open>fresh\<close> says whether it is this call that stored them.\<close>

definition turn_stored ::
  "PersistDiagnosisTurnInput \<Rightarrow> diagnosis_db \<Rightarrow> ChatSession \<Rightarrow> ChatTurn \<Rightarrow> ChatTurn \<Rightarrow> bool" where
  "turn_stored req d s ut at \<longleftrightarrow>
     session_rows (pi_SessionID req) d = [s] \<and>
     turn_rows (cs_ID s) (pi_UserMessageID req) d = [ut] \<and>
     turn_rows (cs_ID s) (pi_AssistantMessageID req) d = [at]"

lemma session_rows_unique:
  assumes "store_ok sha d" "s \<in> set (tb_rows (db_sessions d))"
  shows "session_rows (cs_SessionKey s) d = [s]"
proof -
  have "distinct (map cs_SessionKey (tb_rows (db_sessions d)))"
    using assms(1) by (simp add: store_ok_def rooms_ok_def)
  from filter_unique_key [OF this assms(2) HOL.refl] show ?thesis by (simp add: session_rows_def)
qed

lemma found_row:
  assumes "table_ok rid t" "y \<in> set (tb_rows t)" "find (\<lambda>r. rid r = rid y) (tb_rows t) = Some x"
  shows "x = y"
proof -
  have "x \<in> set (tb_rows t)" "rid x = rid y" using assms(3) by (auto simp: find_Some_iff)
  with assms(1,2) row_unique show ?thesis by metis
qed

lemma found_session:
  assumes "store_ok sha d" "s \<in> set (tb_rows (db_sessions d))"
    and "find (\<lambda>r. cs_ID r = cs_ID s) (tb_rows (db_sessions d)) = Some x"
  shows "x = s"
  using assms(1) found_row [OF _ assms(2,3)] by (simp add: store_ok_def tables_ok_def)

lemma NewChatTurn_nonempty:
  assumes "NewChatTurn tok i = Inr t"
  shows "ct_MessageID t \<noteq> []" "ct_Content t \<noteq> []" "0 < ct_Sequence t"
  using assms by (auto simp: NewChatTurn_def Let_def split: sum.splits if_splits)

lemma save_pair_stored:
  assumes ok: "store_ok (vl_sha256_hex lib) d" "store_ok (vl_sha256_hex lib) (uow_data u)"
    and s: "session_rows (pi_SessionID req) d = [s]"
    and p: "save_turn_pair lib now req parsed um am s flt (newUnitOfWork d) = (u, Inr res)"
    and v: "validatePersistDiagnosisTurnInput lib req = Inr y"
  obtains s' ut at where "turn_stored req (uow_data u) s' ut at" "cs_ID s' = cs_ID s"
    "res = persistDiagnosisTurnResult s' ut at parsed"
    "tb_rows (db_turns (uow_data u)) = tb_rows (db_turns d) @ [ut, at]"
    "cs_TurnCount s' = wrap64 (cs_TurnCount s + 1)"
    "ct_MessageID at = pi_AssistantMessageID req" "ct_Content at = TrimSpace (to_Message parsed)"
    "ct_Role ut = ChatRoleUser" "ct_Role at = ChatRoleAssistant"
    "ct_Sequence ut = pi_UserSequence req" "ct_Sequence at = pi_AssistantSequence req"
    "session_identity s' = session_identity s"
    "ct_MessageID at \<noteq> []" "ct_Content at \<noteq> []" "0 < ct_Sequence at"
  using p
proof (rule save_turn_pair_result)
  fix ut at d1 d2 su sa s' x
  let ?d = "uow_data u"
  assume n: "NewChatTurn (vl_tokenize lib) (user_turn req (cs_ID s) um) = Inr ut"
      "NewChatTurn (vl_tokenize lib) (assistant_turn req parsed (cs_ID s) am) = Inr at"
    and i: "insert_turn now ut (uow_data (newUnitOfWork d)) = Inr (d1, su)" "insert_turn now at d1 = Inr (d2, sa)"
    and r: "ChatSession_RecordTurn s (pi_AssistantOccurredAt req) = Inr s'"
    and x: "find (\<lambda>r. cs_ID r = cs_ID s') (tb_rows (db_sessions d2)) = Some x"
    and d: "?d = update_session now s' d2"
    and res: "res = persistDiagnosisTurnResult (update_session_row now s' x) su sa parsed"
  have s_in: "s \<in> set (tb_rows (db_sessions d))" and key: "cs_SessionKey s = pi_SessionID req"
    using session_rows_mem [OF s] by auto
  have f: "ct_SessionID ut = cs_ID s" "ct_SessionID at = cs_ID s"
    using NewChatTurn_fields(2) [OF n(1)] NewChatTurn_fields(2) [OF n(2)] by (simp_all add: user_turn_def assistant_turn_def)
  note q = inserted_pair [OF i f, simplified]
  have s': "s' = s\<lparr>cs_TurnCount := wrap64 (cs_TurnCount s + 1),
      cs_LastActivityAt := NormalizeUTCMicro (pi_AssistantOccurredAt req)\<rparr>"
    using ChatSession_RecordTurn_cases(4) [OF r] .
  have "x = s" using found_session [OF ok(1) s_in] x s' q(1) by simp
  define s'' where "s'' = s'\<lparr>cs_UpdatedAt := now\<rparr>"
  have row: "update_session_row now s' x = s''"
    using update_session_row_turn [OF r] \<open>x = s\<close> by (simp add: s''_def)
  have "s'' \<in> set (tb_rows (db_sessions ?d))"
    using update_session_rows(1) [of d2 s s' now s''] ok(1) s_in s' row \<open>x = s\<close> q(1) d
    by (simp add: store_ok_def tables_ok_def)
  then have ss: "session_rows (pi_SessionID req) ?d = [s'']"
    using session_rows_unique [OF ok(2)] s' key by (force simp: s''_def)
  have turns: "tb_rows (db_turns ?d) = tb_rows (db_turns d) @ [su, sa]" using d q(1) by simp
  have "turn_rows (ct_SessionID su) (ct_MessageID su) ?d = [su]"
    "turn_rows (ct_SessionID sa) (ct_MessageID sa) ?d = [sa]"
    using turns by (auto intro: turn_rows_unique [OF ok(2)])
  then have "turn_stored req ?d s'' su sa"
    using ss turn_input_trimmed [OF v] NewChatTurn_fields(5) [OF n(1)] NewChatTurn_fields(5) [OF n(2)] f s'
    by (simp add: turn_stored_def q(2,3) user_turn_def assistant_turn_def s''_def)
  then show thesis
    by (rule that)
      (use turns res row s' q(2,3) turn_input_trimmed [OF v] NewChatTurn_fields [OF n(1)] NewChatTurn_fields [OF n(2)] NewChatTurn_nonempty [OF n(2)]
       in \<open>simp_all add: s''_def user_turn_def assistant_turn_def session_identity_def\<close>)
qed

lemma persist_once_result:
  assumes ok: "store_ok (vl_sha256_hex lib) d" and p: "persistDiagnosisTurnOnce lib drv req d = (d', Inr res)"
  obtains s ut at parsed where "turn_stored req d' s ut at" "res = persistDiagnosisTurnResult s ut at parsed"
    "turn_stored req d s ut at \<and> d' = d \<or>
     turn_rows (cs_ID s) (pi_UserMessageID req) d = [] \<and> turn_rows (cs_ID s) (pi_AssistantMessageID req) d = []"
proof -
  from p obtain parsed um am where v: "validatePersistDiagnosisTurnInput lib req = Inr parsed"
    and tx: "run_tx drv 0 (persist_turn_tx lib (dr_now drv) req parsed um am) d = (d', Inr res)"
    by (auto simp: persistDiagnosisTurnOnce_def bindT_Inr)
  from tx obtain u where u: "persist_turn_tx lib (dr_now drv) req parsed um am (dr_stmt drv 0) (newUnitOfWork d) = (u, Inr res)"
    "\<not> uow_aborted u" "d' = uow_data u" by (rule run_tx_ok [OF keeps_open_persist])
  have ok': "store_ok (vl_sha256_hex lib) (uow_data u)"
    using persist_turn_step [OF u(1,2)] ok by (rule lib_step_ok)
  from u(1,2) show thesis
  proof (rule persist_turn_result)
    fix s
    assume s: "session_rows (pi_SessionID req) d = [s]"
    assume "(\<exists>ut at. turn_rows (cs_ID s) (pi_UserMessageID req) d = [ut]
         \<and> turn_rows (cs_ID s) (pi_AssistantMessageID req) d = [at]
         \<and> res = persistDiagnosisTurnResult s ut at parsed \<and> uow_data u = d) \<or>
       turn_rows (cs_ID s) (pi_UserMessageID req) d = []
         \<and> turn_rows (cs_ID s) (pi_AssistantMessageID req) d = []
         \<and> save_turn_pair lib (dr_now drv) req parsed um am s (dr_stmt drv 0) (newUnitOfWork d) = (u, Inr res)"
    then show thesis
    proof
      assume "\<exists>ut at. turn_rows (cs_ID s) (pi_UserMessageID req) d = [ut]
         \<and> turn_rows (cs_ID s) (pi_AssistantMessageID req) d = [at]
         \<and> res = persistDiagnosisTurnResult s ut at parsed \<and> uow_data u = d"
      with s u(3) that show thesis by (auto simp: turn_stored_def)
    next
      assume a: "turn_rows (cs_ID s) (pi_UserMessageID req) d = []
         \<and> turn_rows (cs_ID s) (pi_AssistantMessageID req) d = []
         \<and> save_turn_pair lib (dr_now drv) req parsed um am s (dr_stmt drv 0) (newUnitOfWork d) = (u, Inr res)"
      then obtain s' ut at where "turn_stored req (uow_data u) s' ut at" "cs_ID s' = cs_ID s"
        "res = persistDiagnosisTurnResult s' ut at parsed"
        using save_pair_stored [OF ok ok' s _ v] by metis
      with a that u(3) show thesis by simp
    qed
  qed
qed

lemma persist_once_error:
  assumes "persistDiagnosisTurnOnce lib drv req d = (d', Inl e)"
  shows "d' = d \<or> (\<exists>x. persistDiagnosisTurnOnce lib (acknowledging drv) req d = (d', Inr x))"
  using assms
  by (fastforce simp: persistDiagnosisTurnOnce_def bindT_def liftT_def acknowledging_def split: sum.splits
      dest: run_tx_error [OF keeps_open_persist])

lemma lookup_result:
  assumes "lookupPersistedDiagnosisTurn lib drv req d = (d', Inr (Some res))"
  obtains s ut at parsed where "turn_stored req d s ut at" "res = persistDiagnosisTurnResult s ut at parsed" "d' = d"
proof -
  from assms obtain parsed where tx: "run_tx drv 1 (lookup_turn_tx req parsed) d = (d', Inr (Some res))"
    by (auto simp: lookupPersistedDiagnosisTurn_def bindT_Inr)
  from tx obtain u where u: "lookup_turn_tx req parsed (dr_stmt drv 1) (newUnitOfWork d) = (u, Inr (Some res))"
    "\<not> uow_aborted u" "d' = uow_data u" by (rule run_tx_ok [OF keeps_open_lookup_turn])
  have "d' = d" using reads_data [OF reads_lookup_turn u(1)] u(3) by simp
  with u(1,2) that show thesis
    by (elim lookup_turn_result) (auto simp: turn_stored_def)
qed

lemma persist_or_lookup_result:
  assumes ok: "store_ok (vl_sha256_hex lib) d" and p: "persist_or_lookup lib drv req d = (d', Inr res)"
  obtains s ut at parsed where "turn_stored req d' s ut at" "res = persistDiagnosisTurnResult s ut at parsed"
    "turn_stored req d s ut at \<and> d' = d \<or>
     turn_rows (cs_ID s) (pi_UserMessageID req) d = [] \<and> turn_rows (cs_ID s) (pi_AssistantMessageID req) d = []"
proof (cases "persistDiagnosisTurnOnce lib drv req d")
  case (Pair d1 r)
  show thesis
  proof (cases r)
    case (Inr x)
    with Pair p have "persistDiagnosisTurnOnce lib drv req d = (d', Inr res)"
      by (simp add: persist_or_lookup_def onAlreadyExists_def)
    from persist_once_result [OF ok this] that show thesis by metis
  next
    case (Inl e)
    with Pair p obtain d2 where l: "lookupPersistedDiagnosisTurn lib drv req d1 = (d2, Inr (Some res))" "d2 = d'"
      by (auto simp: persist_or_lookup_def onAlreadyExists_def bindT_Inr split: if_splits option.splits)
    from l(1) obtain s ut at parsed where
      s: "turn_stored req d1 s ut at" "res = persistDiagnosisTurnResult s ut at parsed" "d2 = d1" by (rule lookup_result)
    from persist_once_error Pair Inl consider "d1 = d"
      | x where "persistDiagnosisTurnOnce lib (acknowledging drv) req d = (d1, Inr x)" by blast
    then show thesis
    proof cases
      case 1
      with s l(2) that show ?thesis by blast
    next
      case (2 x)
      from persist_once_result [OF ok 2] obtain s2 ut2 at2 where "turn_stored req d1 s2 ut2 at2"
        "turn_stored req d s2 ut2 at2 \<and> d1 = d \<or>
         turn_rows (cs_ID s2) (pi_UserMessageID req) d = [] \<and> turn_rows (cs_ID s2) (pi_AssistantMessageID req) d = []"
        by metis
      moreover from this(1) s(1) have "s2 = s" by (simp add: turn_stored_def)
      ultimately show ?thesis using s l(2) that by (auto simp: turn_stored_def)
    qed
  qed
qed

definition same_turn_result :: "PersistDiagnosisTurnResult \<Rightarrow> PersistDiagnosisTurnResult \<Rightarrow> bool" where
  "same_turn_result r r' \<longleftrightarrow> pr_ChatSessionID r' = pr_ChatSessionID r \<and> pr_UserTurnID r' = pr_UserTurnID r \<and>
     pr_AssistantTurnID r' = pr_AssistantTurnID r \<and> pr_TurnCount r' = pr_TurnCount r"

lemma record_turn_events_result:
  assumes "record_turn_events lib drv req res d = (d', Inr res')"
  shows "only_events d d'" "same_turn_result res res'"
proof -
  show "only_events d d'"
    using acts_byD [OF events.records_act(8), of d lib drv req res] assms by simp
  have f: "(if ready then bindT m (\<lambda>(_, c). liftT (Inr (r\<lparr>pr_FinalConclusion := g c\<rparr>))) else liftT (Inr r)) d2
      = (d3, Inr res') \<Longrightarrow> same_turn_result r res'" for ready m g r d2 d3
    by (cases ready) (auto simp: bindT_Inr same_turn_result_def)
  have "\<exists>i. same_turn_result (res\<lparr>pr_LifecycleEventID := i\<rparr>) res'"
    using assms unfolding record_turn_events_def Let_def by (elim bindT_Inr [THEN iffD1, elim_format] exE conjE) (blast dest: f)
  then show "same_turn_result res res'" by (auto simp: same_turn_result_def)
qed

text \<open>The whole activity: its result names the stored rows.\<close>

lemma persist_turn_outcome:
  assumes ok: "store_ok (vl_sha256_hex lib) d" and p: "PersistDiagnosisTurn lib drv req d = (d', Inr res)"
  obtains s ut at where "turn_stored req d' s ut at" "pr_ChatSessionID res = cs_ID s" "pr_UserTurnID res = ct_ID ut"
    "pr_AssistantTurnID res = ct_ID at" "pr_TurnCount res = cs_TurnCount s"
    "turn_stored req d s ut at \<and> only_events d d' \<or>
     turn_rows (cs_ID s) (pi_UserMessageID req) d = [] \<and> turn_rows (cs_ID s) (pi_AssistantMessageID req) d = []"
proof -
  from p obtain d1 r where r: "persist_or_lookup lib drv req d = (d1, Inr r)"
    and e: "record_turn_events lib drv req r d1 = (d', Inr res)"
    by (auto simp: PersistDiagnosisTurn_def bindT_Inr)
  note e' = record_turn_events_result [OF e]
  from e'(1) obtain ev where d': "d' = d1\<lparr>db_events := ev\<rparr>" by (auto simp: only_events_def)
  have same: "turn_stored req d' s ut at = turn_stored req d1 s ut at" for s ut at
    by (simp add: turn_stored_def d' session_rows_def turn_rows_def)
  from persist_or_lookup_result [OF ok r] obtain s ut at parsed where
    s: "turn_stored req d1 s ut at" "r = persistDiagnosisTurnResult s ut at parsed"
    and c: "turn_stored req d s ut at \<and> d1 = d \<or>
     turn_rows (cs_ID s) (pi_UserMessageID req) d = [] \<and> turn_rows (cs_ID s) (pi_AssistantMessageID req) d = []"
    by metis
  show thesis
    by (rule that [of s ut at]) (use s e' c in \<open>auto simp: same same_turn_result_def persistDiagnosisTurnResult_def\<close>)
qed

lemma turn_stored_later:
  assumes ok: "store_ok (vl_sha256_hex lib) d" and l: "lib_step lib d d'" and t: "turn_stored req d s ut at"
  obtains s' where "turn_stored req d' s' ut at" "session_identity s' = session_identity s"
proof -
  have ok': "store_ok (vl_sha256_hex lib) d'" using l ok by (rule lib_step_ok)
  have "session_rows (pi_SessionID req) d = [s]" using t by (simp add: turn_stored_def)
  from session_rows_later [OF ok l this] obtain s' where s': "session_rows (pi_SessionID req) d' = [s']"
    "session_identity s' = session_identity s" by metis
  have "ut \<in> set (tb_rows (db_turns d'))" "at \<in> set (tb_rows (db_turns d'))"
    using t turn_rows_mem lib_step_history [OF l ok] by (auto simp: turn_stored_def history_def appended_def)
  from this [THEN turn_rows_unique [OF ok']] t s' have "turn_stored req d' s' ut at"
    by (auto simp: turn_stored_def session_identity_def dest: turn_rows_mem)
  with s'(2) that show thesis by blast
qed

section \<open>A closed room\<close>

text \<open>The digest is of the latest message of the transcript, and its quorum is complete.\<close>

definition verified_close ::
  "persist_lib \<Rightarrow> diagnosis_db \<Rightarrow> CloseDiagnosisChatSessionInput \<Rightarrow> ChatSession \<Rightarrow> ChatSessionApproval list \<Rightarrow> bool" where
  "verified_close lib d req s as \<longleftrightarrow>
     cs_ApprovalMode s = xi_ApprovalMode req \<and>
     (\<exists>turn. LatestPersistedConclusion (vl_sha256_hex lib) s (session_turns (cs_ID s) d)
        = Inr (turn, xi_ConclusionDigest req)) \<and>
     as = conclusion_approvals (cs_ID s) (xi_ConclusionDigest req) d \<and>
     PendingAuthorities (cs_ApprovalMode s) as = Inr [] \<and>
     (\<exists>a \<in> set as. sa_ActorSubject a = xi_ConfirmedBy req) \<and> (\<forall>a \<in> set as. authority_ok s a)"

lemma check_approvals_Inr:
  "check_approvals req s as = Inr () \<Longrightarrow> \<forall>a \<in> set as. sa_SessionID a = cs_ID s \<and>
     sa_ConclusionDigest a = xi_ConclusionDigest req \<and> authority_ok s a"
proof (induction as)
  case (Cons a as)
  from Cons.prems have "check_approvals req s as = Inr () \<and> sa_SessionID a = cs_ID s \<and>
      sa_ConclusionDigest a = xi_ConclusionDigest req \<and> authority_ok s a"
    by (simp add: bindE_eq_Inr_iff authority_ok_def split: if_split_asm)
  with Cons.IH show ?case by simp
qed simp

lemma check_quorum_Inr:
  assumes "check_quorum req s xs = Inr as"
  shows "as = xs" "length xs < 3" "PendingAuthorities (xi_ApprovalMode req) xs = Inr []"
    "\<exists>a \<in> set xs. sa_ActorSubject a = xi_ConfirmedBy req" "\<forall>a \<in> set xs. authority_ok s a"
  using assms
  by (auto simp: check_quorum_def bindE_eq_Inr_iff ApprovalReadLimit_def list_ex_iff split: if_splits
      dest: check_approvals_Inr)

lemma ValidateConclusionDigest_trimmed: "ValidateConclusionDigest low h = Inr x \<Longrightarrow> TrimSpace h = h"
  by (simp add: ValidateConclusionDigest_def split: if_splits)

lemma verify_verified:
  assumes "verifyDiagnosisConclusionApproval lib flt s req u = (u', Inr as)" "xi_RequireConclusionApproval req"
  shows "verified_close lib (uow_data u) req s as"
proof -
  let ?l = "conclusion_approvals (cs_ID s) (TrimSpace (xi_ConclusionDigest req)) (uow_data u)"
  have m: "cs_ApprovalMode s = xi_ApprovalMode req"
    and l: "\<exists>turn. LatestPersistedConclusion (vl_sha256_hex lib) s (session_turns (cs_ID s) (uow_data u))
            = Inr (turn, xi_ConclusionDigest req)"
    and q: "check_quorum req s (take (nat ApprovalReadLimit) ?l) = Inr as"
    using verify_result(2) [OF assms] by blast+
  have t: "TrimSpace (xi_ConclusionDigest req) = xi_ConclusionDigest req"
    using assms
    by (auto simp: verifyDiagnosisConclusionApproval_def bindT_Inr split: if_splits sum.splits
        dest: ValidateConclusionDigest_trimmed)
  have "take (nat ApprovalReadLimit) ?l = ?l"
    using check_quorum_Inr(2) [OF q] by (auto simp: ApprovalReadLimit_def min_def split: if_splits)
  with q have q: "check_quorum req s ?l = Inr as" by simp
  from m l check_quorum_Inr [OF q] show ?thesis by (simp add: verified_close_def t)
qed

lemma close_activity_tx:
  assumes "closeDiagnosisChatSession lib drv req d = (d', Inr r)"
  obtains u terminal where "diagnosisTaskTerminalStateForRoomClose req = Inr terminal"
    "close_tx lib (dr_now drv) req terminal (dr_stmt drv 0) (newUnitOfWork d) = (u, Inr r)"
    "\<not> uow_aborted u" "d' = uow_data u"
proof -
  from assms obtain terminal where t: "diagnosisTaskTerminalStateForRoomClose req = Inr terminal"
    and tx: "run_tx drv 0 (close_tx lib (dr_now drv) req terminal) d = (d', Inr r)"
    by (auto simp: closeDiagnosisChatSession_def bindT_Inr)
  from tx show thesis by (rule run_tx_ok [OF keeps_open_close]) (rule that [OF t])
qed

lemma close_activity_error:
  assumes "closeDiagnosisChatSession lib drv req d = (d', Inl e)"
  shows "d' = d \<or> (\<exists>x. closeDiagnosisChatSession lib (acknowledging drv) req d = (d', Inr x))"
  using assms
  by (fastforce simp: closeDiagnosisChatSession_def bindT_def liftT_def acknowledging_def split: sum.splits
      dest: run_tx_error [OF keeps_open_close])

lemma close_activity_outcome:
  assumes ok: "store_ok (vl_sha256_hex lib) d"
    and c: "closeDiagnosisChatSession lib drv req d = (d', Inr (saved, savedTask, summary, approvals))"
  obtains s terminal where "session_rows (xi_SessionID req) d = [s]" "cs_TurnCount s = xi_TurnCount req"
    "diagnosisTaskTerminalStateForRoomClose req = Inr terminal"
    "xi_RequireConclusionApproval req \<Longrightarrow> verified_close lib d req s approvals"
    "session_rows (xi_SessionID req) d' = [saved]" "session_identity saved = session_identity s"
    "cs_Status saved = ChatSessionStatusClosed" "cs_ClosedAt saved = Some (NormalizeUTCMicro (xi_ClosedAt req))"
    "cs_CloseReason saved = TrimSpace (xi_Reason req)" "cs_TurnCount saved = cs_TurnCount s"
    "savedTask \<in> set (tb_rows (db_tasks d'))" "dt_ID savedTask = cs_DiagnosisTaskID s"
    "dt_Status savedTask = fst terminal" "dt_FinishedAt savedTask = Some (NormalizeUTCMicro (xi_ClosedAt req))"
  using c
proof (rule close_activity_tx)
  fix u :: "diagnosis_db uow" and terminal
  let ?d = "uow_data u" and ?now = "dr_now drv"
  assume tm: "diagnosisTaskTerminalStateForRoomClose req = Inr terminal"
    and tx: "close_tx lib ?now req terminal (dr_stmt drv 0) (newUnitOfWork d)
      = (u, Inr (saved, savedTask, summary, approvals))" and d': "d' = ?d"
  have ok': "store_ok (vl_sha256_hex lib) ?d" using close_step [OF tx] ok by (rule lib_step_ok)
  from tx obtain s u1 where s: "session_rows (xi_SessionID req) d = [s]"
    and i: "validateChatSessionIdentity s (xi_SessionID req) (xi_DiagnosisTaskID req) (xi_OwnerSubject req) = Inr ()"
    and n: "cs_TurnCount s = xi_TurnCount req"
    and v: "verifyDiagnosisConclusionApproval lib (dr_stmt drv 0) s req (newUnitOfWork d) = (newUnitOfWork d, Inr approvals)"
    and y: "optional_summary lib ?now (dr_stmt drv 0) s req (newUnitOfWork d) = (u1, Inr summary)"
    and f: "finish_room ?now req terminal s (dr_stmt drv 0) u1 = (u, Inr (saved, savedTask))"
    by (rule close_tx_result)
  from f obtain t t' s' where l: "live u1"
    and t: "filter (\<lambda>r. dt_ID r = xi_DiagnosisTaskID req) (tb_rows (db_tasks (uow_data u1))) = [t]"
    and e: "DiagnosisTask_Finish t (fst terminal) (xi_ClosedAt req) (snd terminal) = Inr t'"
      "ChatSession_Close s (xi_ClosedAt req) (xi_Reason req) = Inr s'"
      "?d = update_session ?now s' (update_task ?now t' (uow_data u1))"
    and x: "\<exists>x. find (\<lambda>r. dt_ID r = dt_ID t') (tb_rows (db_tasks (uow_data u1))) = Some x
       \<and> savedTask = update_task_row ?now t' x"
      "\<exists>y. find (\<lambda>r. cs_ID r = cs_ID s') (tb_rows (db_sessions (uow_data u1))) = Some y
       \<and> saved = update_session_row ?now s' y"
    by (rule finish_room_result)
  have same: "db_tasks (uow_data u1) = db_tasks d" "db_sessions (uow_data u1) = db_sessions d"
    using optional_summary_result [OF y] l by (auto simp: insert_summary_Inr)
  have s_in: "s \<in> set (tb_rows (db_sessions d))" "cs_SessionKey s = xi_SessionID req"
    using session_rows_mem [OF s] by auto
  have t_in: "t \<in> set (tb_rows (db_tasks d))" "dt_ID t = cs_DiagnosisTaskID s"
    using t i same(1) by (auto simp: filter_eq_Cons_iff validateChatSessionIdentity_def split: if_splits)
  have ids: "cs_ID s' = cs_ID s" "dt_ID t' = dt_ID t"
    using e(1,2) by (auto elim!: ChatSession_Close_cases DiagnosisTask_Finish_cases)
  have tabs: "table_ok dt_ID (db_tasks d)" "table_ok cs_ID (db_sessions d)"
    using ok by (simp_all add: store_ok_def tables_ok_def)
  have saved: "saved = s'\<lparr>cs_UpdatedAt := ?now\<rparr>"
    using x(2) found_session [OF ok s_in(1)] ids(1) same(2) update_session_row_close [OF e(2)] by auto
  have task: "savedTask = t'\<lparr>dt_UpdatedAt := ?now\<rparr>"
    using x(1) ids(2) same(1) found_row [OF tabs(1) t_in(1)] update_task_row_finish [OF e(1)] by auto
  have "saved \<in> set (tb_rows (db_sessions ?d))"
    using update_session_rows(1) [of "update_task ?now t' (uow_data u1)" s s' ?now saved] tabs(2) s_in(1) ids(1)
      same(2) update_session_row_close [OF e(2)] saved e(3) by simp
  then have rows: "session_rows (xi_SessionID req) d' = [saved]"
    using session_rows_unique [OF ok'] s_in(2) e(2) d' by (force simp: saved elim!: ChatSession_Close_cases)
  have task_in: "savedTask \<in> set (tb_rows (db_tasks d'))"
    using update_rows [OF tabs(1) t_in(1) ids(2), of "update_task_row ?now t'"] update_task_row_finish [OF e(1)]
      task e(3) same(1) d' by simp
  have session: "session_identity saved = session_identity s" "cs_Status saved = ChatSessionStatusClosed"
    "cs_ClosedAt saved = Some (NormalizeUTCMicro (xi_ClosedAt req))" "cs_CloseReason saved = TrimSpace (xi_Reason req)"
    "cs_TurnCount saved = cs_TurnCount s"
    using e(2) by (auto simp: saved session_identity_def ChatSessionStatus_IsTerminal_def elim!: ChatSession_Close_cases)
  have finished: "dt_ID savedTask = cs_DiagnosisTaskID s" "dt_Status savedTask = fst terminal"
    "dt_FinishedAt savedTask = Some (NormalizeUTCMicro (xi_ClosedAt req))"
    using e(1) t_in(2) by (auto simp: task elim!: DiagnosisTask_Finish_cases)
  show thesis
    by (rule that [OF s n tm _ rows session task_in finished]) (use verify_verified [OF v] in simp)
qed

end
