(* ===== verification/Store_Conclusion.thy ===== *)
theory Store_Conclusion
  imports Store_Outcomes
begin

text \<open>
  What the persisted conclusion of a room is after a turn: on a canonical transcript the turn becomes
  the last pair of messages, its answer the conclusion, and a close that asks for an approval of
  anything else is refused.
\<close>

section \<open>A new turn\<close>

lemma persist_new_turn:
  assumes ok: "store_ok (vl_sha256_hex lib) d" and p: "PersistDiagnosisTurn lib drv req d = (d', Inr res)"
    and s: "session_rows (pi_SessionID req) d = [s]" and new: "turn_rows (cs_ID s) (pi_UserMessageID req) d = []"
  obtains s' ut at where "session_rows (pi_SessionID req) d' = [s']" "session_identity s' = session_identity s"
    "tb_rows (db_turns d') = tb_rows (db_turns d) @ [ut, at]"
    "ct_SessionID ut = cs_ID s" "ct_SessionID at = cs_ID s"
    "ct_Role ut = ChatRoleUser" "ct_Role at = ChatRoleAssistant"
    "ct_Sequence ut = pi_UserSequence req" "ct_Sequence at = wrap64 (pi_UserSequence req + 1)"
    "ct_MessageID at = pi_AssistantMessageID req" "ct_MessageID at \<noteq> []" "ct_Content at \<noteq> []" "0 < ct_Sequence at"
    "trimmed (ct_MessageID at)" "trimmed (ct_Content at)"
    "pr_UserTurnID res = ct_ID ut" "pr_AssistantTurnID res = ct_ID at"
proof -
  from p obtain d1 r where r: "persist_or_lookup lib drv req d = (d1, Inr r)"
    and e: "record_turn_events lib drv req r d1 = (d', Inr res)"
    by (auto simp: PersistDiagnosisTurn_def bindT_Inr)
  obtain ev where d': "d' = d1\<lparr>db_events := ev\<rparr>"
    using record_turn_events_result(1) [OF e] by (auto simp: only_events_def)
  obtain s0 ut0 at0 parsed0 where q: "turn_stored req d1 s0 ut0 at0" "r = persistDiagnosisTurnResult s0 ut0 at0 parsed0"
    using persist_or_lookup_result [OF ok r] by metis
  obtain drv1 r1 where once: "persistDiagnosisTurnOnce lib drv1 req d = (d1, Inr r1)"
  proof (cases "persistDiagnosisTurnOnce lib drv req d")
    case (Pair d2 x)
    show thesis
    proof (cases x)
      case (Inl e)
      with Pair r obtain d3 where l: "lookupPersistedDiagnosisTurn lib drv req d2 = (d3, Inr (Some r))" "d3 = d1"
        by (auto simp: persist_or_lookup_def onAlreadyExists_def bindT_Inr split: if_splits option.splits)
      then obtain s2 ut2 at2 where "turn_stored req d2 s2 ut2 at2" "d1 = d2" using lookup_result by metis
      with s new have "d2 \<noteq> d" by (auto simp: turn_stored_def)
      with persist_once_error Pair Inl \<open>d1 = d2\<close> that show thesis by blast
    qed (use Pair r that in \<open>simp add: persist_or_lookup_def onAlreadyExists_def\<close>)
  qed
  from once obtain parsed um am where v: "validatePersistDiagnosisTurnInput lib req = Inr parsed"
    and tx: "run_tx drv1 0 (persist_turn_tx lib (dr_now drv1) req parsed um am) d = (d1, Inr r1)"
    by (auto simp: persistDiagnosisTurnOnce_def bindT_Inr)
  from tx obtain u where u: "persist_turn_tx lib (dr_now drv1) req parsed um am (dr_stmt drv1 0) (newUnitOfWork d) = (u, Inr r1)"
    "\<not> uow_aborted u" "d1 = uow_data u" by (rule run_tx_ok [OF keeps_open_persist])
  have ok': "store_ok (vl_sha256_hex lib) (uow_data u)" using persist_turn_step [OF u(1,2)] ok by (rule lib_step_ok)
  have save: "save_turn_pair lib (dr_now drv1) req parsed um am s (dr_stmt drv1 0) (newUnitOfWork d) = (u, Inr r1)"
    using u(1,2) s new by (elim persist_turn_result) auto
  have rows: "session_rows k d' = session_rows k d1" "db_turns d' = db_turns d1" for k
    by (simp_all add: d' session_rows_def)
  show thesis
  proof (rule save_pair_stored [OF ok ok' s save v])
    fix s' ut at
    assume st: "turn_stored req (uow_data u) s' ut at" "cs_ID s' = cs_ID s"
      and f: "tb_rows (db_turns (uow_data u)) = tb_rows (db_turns d) @ [ut, at]"
        "ct_MessageID at = pi_AssistantMessageID req" "ct_Role ut = ChatRoleUser" "ct_Role at = ChatRoleAssistant"
        "ct_Sequence ut = pi_UserSequence req" "ct_Sequence at = pi_AssistantSequence req"
        "session_identity s' = session_identity s"
      and n: "ct_MessageID at \<noteq> []" "ct_Content at \<noteq> []" "0 < ct_Sequence at"
        "ct_Content at = TrimSpace (to_Message parsed)"
    have "trimmed (ct_MessageID at)"
      using f(2) turn_input_trimmed(2) [OF v] TrimSpace_trimmed [of "pi_AssistantMessageID req"] by simp
    moreover have sid: "ct_SessionID ut = cs_ID s" "ct_SessionID at = cs_ID s"
      using st turn_rows_mem [of "cs_ID s" _ "uow_data u"] by (auto simp: turn_stored_def)
    moreover have "s' = s0" using st(1) q(1) by (simp add: u(3) turn_stored_def)
    then have "ut0 = ut" "at0 = at" using st(1) q(1) by (simp_all add: u(3) turn_stored_def)
    ultimately show thesis
      by - (rule that [of s' ut at],
        use st(1) f n record_turn_events_result(2) [OF e] turn_input_trimmed(4) [OF v] in
          \<open>simp_all add: turn_stored_def rows u(3) q(2) same_turn_result_def persistDiagnosisTurnResult_def\<close>)
  qed
qed

section \<open>Transcripts\<close>

lemma sort_key_append:
  assumes "sorted (map f ys)" "\<And>x y. x \<in> set xs \<Longrightarrow> y \<in> set ys \<Longrightarrow> f x \<le> f y"
  shows "sort_key f (xs @ ys) = sort_key f xs @ ys"
proof (rule properties_for_sort_key)
  show "mset (sort_key f xs @ ys) = mset (xs @ ys)" by simp
  show "filter (\<lambda>x. f k = f x) (sort_key f xs @ ys) = filter (\<lambda>x. f k = f x) (xs @ ys)" for k
    using sort_key_stable [of f "f k" xs] by (simp add: eq_commute [of "f k"])
  show "sorted (map f (sort_key f xs @ ys))" using assms by (auto simp: sorted_append)
qed

text \<open>A session has as many messages as it has counted pairs.\<close>

lemma session_turns_length:
  assumes "store_ok sha d" "s \<in> set (tb_rows (db_sessions d))"
  shows "int (length (session_turns (cs_ID s) d)) = 2 * cs_TurnCount s"
proof -
  let ?ts = "filter (\<lambda>t. ct_SessionID t = cs_ID s) (tb_rows (db_turns d))"
  have t: "transcripts_ok d" using assms(1) by (simp add: store_ok_def)
  have roles: "\<forall>t \<in> set (tb_rows (db_turns d)). ct_Role t = ChatRoleUser \<or> ct_Role t = ChatRoleAssistant"
    using t by (auto simp: transcripts_ok_def)
  have "length ?ts = length (filter (\<lambda>t. ct_Role t = ChatRoleUser) ?ts)
      + length (filter (\<lambda>t. ct_Role t \<noteq> ChatRoleUser) ?ts)"
    using sum_length_filter_compl [of "\<lambda>t. ct_Role t = ChatRoleUser" ?ts] by simp
  moreover have "filter (\<lambda>t. ct_Role t \<noteq> ChatRoleUser) ?ts = filter (\<lambda>t. ct_Role t = ChatRoleAssistant) ?ts"
    using roles by (intro filter_cong) auto
  ultimately have "length ?ts = role_count ChatRoleUser (cs_ID s) d + role_count ChatRoleAssistant (cs_ID s) d"
    by (simp add: role_count_def conj_commute)
  moreover have "int (role_count ChatRoleUser (cs_ID s) d) = cs_TurnCount s"
    "int (role_count ChatRoleAssistant (cs_ID s) d) = cs_TurnCount s"
    using t assms(2) by (auto simp: transcripts_ok_def)
  ultimately show ?thesis by (simp add: session_turns_def)
qed

lemma canonical_snoc_pair:
  assumes "canonical_transcript i ts" "even (length ts)"
    and "ct_SessionID u = i" "ct_Sequence u = int (length ts) + 1" "ct_Role u = ''user''"
    and "ct_SessionID a = i" "ct_Sequence a = int (length ts) + 2" "ct_Role a = ''assistant''"
  shows "canonical_transcript i (ts @ [u, a])"
  unfolding canonical_transcript_def
proof (intro allI impI)
  fix k assume "k < length (ts @ [u, a])"
  then consider "k < length ts" | "k = length ts" | "k = Suc (length ts)" by force
  then show "ct_SessionID ((ts @ [u, a]) ! k) = i \<and> ct_Sequence ((ts @ [u, a]) ! k) = int k + 1 \<and>
      ct_Role ((ts @ [u, a]) ! k) = (if even k then ''user'' else ''assistant'')"
    using assms by cases (simp_all add: canonical_transcript_def nth_append)
qed

lemma canonical_sequences:
  assumes "canonical_transcript i ts" "t \<in> set ts"
  shows "ct_Sequence t \<le> int (length ts)"
  using assms by (force simp: canonical_transcript_def in_set_conv_nth)

text \<open>The answer of a turn that follows a canonical transcript is the conclusion.\<close>

lemma conclusion_of_new_turn:
  assumes ok: "store_ok (vl_sha256_hex lib) d" and p: "PersistDiagnosisTurn lib drv req d = (d', Inr res)"
    and s: "session_rows (pi_SessionID req) d = [s]" and new: "turn_rows (cs_ID s) (pi_UserMessageID req) d = []"
    and c: "canonical_transcript (cs_ID s) (session_turns (cs_ID s) d)"
    and seq: "pi_UserSequence req = 2 * cs_TurnCount s + 1" "int64 (2 * cs_TurnCount s + 2)"
  obtains s' at h where "session_rows (pi_SessionID req) d' = [s']"
    "LatestPersistedConclusion (vl_sha256_hex lib) s' (session_turns (cs_ID s') d') = Inr (at, h)"
    "ct_ID at = pr_AssistantTurnID res" "ct_MessageID at = pi_AssistantMessageID req"
    "cs_TurnCount s' = cs_TurnCount s + 1"
proof -
  obtain s' ut at where s': "session_rows (pi_SessionID req) d' = [s']" "session_identity s' = session_identity s"
    and rows: "tb_rows (db_turns d') = tb_rows (db_turns d) @ [ut, at]"
    and f: "ct_SessionID ut = cs_ID s" "ct_SessionID at = cs_ID s" "ct_Role ut = ChatRoleUser"
      "ct_Role at = ChatRoleAssistant" "ct_Sequence ut = pi_UserSequence req"
      "ct_Sequence at = wrap64 (pi_UserSequence req + 1)"
    and a: "ct_MessageID at = pi_AssistantMessageID req" "ct_MessageID at \<noteq> []" "ct_Content at \<noteq> []" "0 < ct_Sequence at"
    and tr: "trimmed (ct_MessageID at)" "trimmed (ct_Content at)"
    and r: "pr_AssistantTurnID res = ct_ID at"
    by (rule persist_new_turn [OF ok p s new]) blast
  let ?ts = "session_turns (cs_ID s) d"
  have ok': "store_ok (vl_sha256_hex lib) d'"
    using acts_byD [OF PersistDiagnosisTurn_acts(2) [of lib drv req], of d] p ok by (auto intro: lib_step_ok)
  have in_d: "s \<in> set (tb_rows (db_sessions d))" and in_d': "s' \<in> set (tb_rows (db_sessions d'))"
    using session_rows_mem [OF s] session_rows_mem [OF s'(1)] by auto
  have i: "cs_ID s' = cs_ID s" using s'(2) by (simp add: session_identity_def)
  note len = session_turns_length [OF ok in_d]
  have n: "pi_UserSequence req + 1 = 2 * cs_TurnCount s + 2" using seq(1) by simp
  have wrap: "ct_Sequence at = int (length ?ts) + 2" "ct_Sequence ut = int (length ?ts) + 1"
    using f(5,6) [unfolded n] seq(1) len wrap64_id [OF seq(2)] by simp_all
  have ts: "session_turns (cs_ID s') d' = ?ts @ [ut, at]"
    unfolding i session_turns_def rows
    using canonical_sequences [OF c] wrap f(1,2)
    by (subst filter_append, subst sort_key_append [symmetric]) (fastforce simp: session_turns_def)+
  have count: "cs_TurnCount s' = cs_TurnCount s + 1"
    using session_turns_length [OF ok' in_d'] ts len by simp
  have ev: "even (length ?ts)" using len by presburger
  have "canonical_transcript (cs_ID s') (session_turns (cs_ID s') d')"
    unfolding ts unfolding i using ev c f wrap by (intro canonical_snoc_pair) simp_all
  then have "check_transcript (cs_ID s') 0 (session_turns (cs_ID s') d') = Inr ()"
    by (simp add: check_transcript_start)
  moreover have "0 < cs_ID s'" using ok' in_d' by (auto simp: store_ok_def tables_ok_def table_ok_def)
  moreover have "0 \<le> cs_TurnCount s" using ok in_d by (auto simp: store_ok_def rooms_ok_def)
  moreover obtain h where "ConclusionDigest (vl_sha256_hex lib) (ct_MessageID at) (ct_Sequence at) (ct_Content at) = Inr h"
    using a(2-4) tr by (simp add: ConclusionDigest_def Let_def)
  ultimately have "LatestPersistedConclusion (vl_sha256_hex lib) s' (session_turns (cs_ID s') d') = Inr (at, h)"
    using len ev by (auto simp: LatestPersistedConclusion_def ts count even_iff_mod_2_eq_zero)
  with that s'(1) r a(1) count show thesis by simp
qed

section \<open>Closing after another turn\<close>

text \<open>
  A close that requires an approval of anything but the current conclusion is refused; nothing of it
  is stored.
\<close>

lemma close_of_another_conclusion:
  assumes ok: "store_ok (vl_sha256_hex lib) d" and s: "session_rows (xi_SessionID req) d = [s]"
    and l: "LatestPersistedConclusion (vl_sha256_hex lib) s (session_turns (cs_ID s) d) = Inr (turn, h)"
    and r: "xi_RequireConclusionApproval req" "xi_ConclusionDigest req \<noteq> h"
  shows "\<exists>e. CloseDiagnosisChatSession lib drv req d = (d, Inl e)"
proof (cases "closeDiagnosisChatSession lib drv req d")
  case (Pair d' x)
  have refused: False if "closeDiagnosisChatSession lib drv1 req d = (d1, Inr y)" for drv1 d1 y
  proof -
    obtain saved savedTask summary approvals where "y = (saved, savedTask, summary, approvals)" by (cases y)
    with that have "closeDiagnosisChatSession lib drv1 req d = (d1, Inr (saved, savedTask, summary, approvals))" by simp
    from close_activity_outcome [OF ok this] obtain s' where "session_rows (xi_SessionID req) d = [s']"
      "verified_close lib d req s' approvals" using r(1) by metis
    with s l r(2) show False by (auto simp: verified_close_def)
  qed
  obtain e where e: "x = Inl e" using Pair refused by (cases x) blast+
  with Pair refused have "d' = d" using close_activity_error by blast
  with Pair e show ?thesis by (simp add: CloseDiagnosisChatSession_def bindT_def mapErrT_def)
qed

text \<open>The whole close: the events that follow the transaction leave the rooms as they are.\<close>

lemma close_result_store:
  assumes "CloseDiagnosisChatSession lib drv req d = (d', Inr r)"
  obtains saved savedTask summary d1 where
    "closeDiagnosisChatSession lib drv req d = (d1, Inr (saved, savedTask, summary, xr_Approvals r))"
    "only_events d1 d'" "xr_ChatSessionID r = cs_ID saved"
proof -
  from assms obtain d1 saved savedTask summary approvals d2 d3 event conclusion x where
    c: "closeDiagnosisChatSession lib drv req d = (d1, Inr (saved, savedTask, summary, approvals))"
    and f: "(if dt_Status savedTask = DiagnosisStatusFailed
            then bindT (mapErrT (mapActivityError ''close-diagnosis-chat-session failure event'')
                   (recordDiagnosisRoomFailed lib drv 1 req saved savedTask)) (\<lambda>_. liftT (Inr ()))
            else liftT (Inr ())) d1 = (d2, x)"
    and e: "recordDiagnosisRoomClosed lib drv 3 req saved summary approvals d2 = (d', Inr (event, conclusion))"
    and r: "r = closeDiagnosisChatSessionResult saved event conclusion summary (xi_ConclusionDigest req) approvals"
    by (auto simp: CloseDiagnosisChatSession_def bindT_Inr)
  have "acts_by only_events (if dt_Status savedTask = DiagnosisStatusFailed
      then bindT (mapErrT (mapActivityError ''close-diagnosis-chat-session failure event'')
             (recordDiagnosisRoomFailed lib drv 1 req saved savedTask)) (\<lambda>_. liftT (Inr ()))
      else liftT (Inr ()))"
    by (intro events.acts events.records_act)
  from acts_byD [OF this, of d1] have "only_events d1 d2" using f by simp
  moreover have "only_events d2 d'"
    using acts_byD [OF events.records_act(6) [of lib drv 3 req saved summary approvals], of d2] e by simp
  ultimately have "only_events d1 d'" by (rule events.trans)
  with that c r show thesis by (simp add: closeDiagnosisChatSessionResult_def)
qed

end
