(* ===== verification/Persistence_Example.thy ===== *)
theory Persistence_Example
  imports Store_Outcomes Room_Example
begin

text \<open>
  A concrete library and concrete requests for the persistence activities: a room is opened, gets two
  turns and an approval, and is closed. The states of this run are where the witnesses of the
  properties live.
\<close>

definition sample_hash :: "string \<Rightarrow> string" where
  "sample_hash s = replicate 64 (if even (length s) then CHR ''a'' else CHR ''b'')"

definition sample_metadata :: diagnosisRoomAssistantTurnMetadata where
  "sample_metadata = \<lparr>tm_Confidence = ''high'', tm_RequiresHumanReview = False, tm_Findings = [],
     tm_RecommendedActions = [], tm_EvidenceRequests = [],
     tm_ConsultationInsight = TurnOutput_Insight demo_output\<rparr>"

text \<open>The text of an output is its message.\<close>

definition sample_lib :: persist_lib where
  "sample_lib = \<lparr>vl_tokenize = (\<lambda>_. \<lparr>dec_tokens = [TObjOpen, TObjClose], dec_clean = True\<rparr>),
     vl_sha256_hex = sample_hash, vl_unicode_lower = (\<lambda>s. s),
     vl_decode_output = (\<lambda>raw. Inr (demo_output\<lparr>to_Message := raw, to_ConclusionStatus := []\<rparr>)),
     vl_marshal = (\<lambda>_. Inr ''{}''), vl_read_metadata = (\<lambda>_. Inr sample_metadata),
     vl_summary = \<lparr>sl_tokenize = (\<lambda>_. \<lparr>dec_tokens = [TObjOpen, TObjClose], dec_clean = True\<rparr>),
       sl_json_object = (\<lambda>_. True), sl_sha256_hex = sample_hash, sl_marshal_content = (\<lambda>_. Inr ''{}''),
       sl_decode_content = (\<lambda>_. Inl (plain_error [])), sl_marshal_source = (\<lambda>_. Inr ''{}'')\<rparr>\<rparr>"

definition sample_open :: EnsureDiagnosisRoomSessionInput where
  "sample_open = \<lparr>ni_SessionID = ''s'', ni_EvidenceSnapshotID = 7, ni_WorkflowID = ''w'', ni_RunID = ''r'',
     ni_OwnerSubject = ''alice'', ni_StartedAt = 1000000, ni_ApprovalMode = ''single''\<rparr>"

definition sample_turn :: "string \<Rightarrow> int \<Rightarrow> string \<Rightarrow> PersistDiagnosisTurnInput" where
  "sample_turn m n answer = \<lparr>pi_SessionID = ''s'', pi_DiagnosisTaskID = 1, pi_OwnerSubject = ''alice'',
     pi_UserMessageID = m, pi_AssistantMessageID = m @ ''a'', pi_UserSequence = 2 * n - 1,
     pi_AssistantSequence = 2 * n, pi_TurnCount = n, pi_ActorSubject = ''alice'', pi_UserMessage = ''why'',
     pi_AssistantMessage = answer, pi_UserOccurredAt = 2000000, pi_AssistantOccurredAt = 3000000,
     pi_ContextBytes = 10, pi_RetrievalRefs = [], pi_InvocationID = ''i'', pi_RuntimeID = [],
     pi_ContainerStartedAt = 0, pi_ContainerFinishedAt = 0, pi_RawOutput = answer, pi_SupplementalEvidence = None\<rparr>"

definition sample_digest :: "string \<Rightarrow> int \<Rightarrow> string \<Rightarrow> string" where
  "sample_digest m n answer = sample_hash (conclusion_json (m @ ''a'') (2 * n) answer)"

definition sample_approval :: "string \<Rightarrow> int \<Rightarrow> string \<Rightarrow> RecordDiagnosisConclusionApprovalInput" where
  "sample_approval m n answer = \<lparr>qi_SessionID = ''s'', qi_DiagnosisTaskID = 1, qi_OwnerSubject = ''alice'',
     qi_ActorSubject = ''alice'', qi_Authority = ''owner'', qi_ApprovalMode = ''single'', qi_Reason = ''ok'',
     qi_AssistantMessageID = m @ ''a'', qi_AssistantSequence = 2 * n, qi_ConclusionContent = answer,
     qi_ConclusionDigest = sample_digest m n answer, qi_ApprovedAt = 4000000\<rparr>"

definition sample_close :: "int \<Rightarrow> string \<Rightarrow> CloseDiagnosisChatSessionInput" where
  "sample_close n digest = \<lparr>xi_SessionID = ''s'', xi_DiagnosisTaskID = 1, xi_OwnerSubject = ''alice'',
     xi_ClosedBy = ''alice'', xi_ConfirmedBy = ''alice'', xi_TurnCount = n, xi_ClosedAt = 5000000,
     xi_Reason = ''done'', xi_CloseNotificationChannelProfileID = 0, xi_DiagnosisTaskStatus = [],
     xi_DiagnosisTaskFailureReason = [], xi_GenerateConversationSummary = True,
     xi_RequireConclusionApproval = True, xi_ApprovalMode = ''single'', xi_ConclusionDigest = digest\<rparr>"

text \<open>The store after each call of the run.\<close>

definition sample_task :: DiagnosisTask where
  "sample_task = \<lparr>dt_ID = 1, dt_EvidenceSnapshotID = 7, dt_WorkflowID = ''w'', dt_RunID = ''r'',
     dt_Status = DiagnosisStatusRunning, dt_FailureReason = [], dt_StartedAt = Some 1000000, dt_FinishedAt = None,
     dt_CreatedAt = 10, dt_UpdatedAt = 10\<rparr>"

definition sample_session :: ChatSession where
  "sample_session = \<lparr>cs_ID = 1, cs_DiagnosisTaskID = 1, cs_SessionKey = ''s'', cs_OwnerSubject = ''alice'',
     cs_Status = ChatSessionStatusOpen, cs_TurnCount = 0, cs_StartedAt = 1000000, cs_LastActivityAt = 1000000,
     cs_ClosedAt = None, cs_CloseReason = [], cs_ApprovalMode = ''single'', cs_CreatedAt = 10, cs_UpdatedAt = 10\<rparr>"

definition sample_event :: "int \<Rightarrow> string \<Rightarrow> string \<Rightarrow> go_time \<Rightarrow> go_time \<Rightarrow> DiagnosisTaskEvent" where
  "sample_event n kind dedupe at now = \<lparr>te_ID = n, te_TaskID = 1, te_Kind = kind, te_Payload = ''{}'',
     te_DedupeKey = Some dedupe, te_OccurredAt = at, te_RecordedAt = now\<rparr>"

definition sample_chat_turn :: "int \<Rightarrow> string \<Rightarrow> string \<Rightarrow> string \<Rightarrow> string \<Rightarrow> go_time \<Rightarrow> go_time \<Rightarrow> ChatTurn" where
  "sample_chat_turn n m role actor text at now = \<lparr>ct_ID = n, ct_SessionID = 1, ct_MessageID = m, ct_Sequence = n,
     ct_Role = role, ct_ActorSubject = actor, ct_Content = text, ct_Metadata = ''{}'', ct_OccurredAt = at,
     ct_CreatedAt = now\<rparr>"

definition sample_store_opened :: diagnosis_db where
  "sample_store_opened = \<lparr>db_snapshots = [7], db_tasks = \<lparr>tb_rows = [sample_task], tb_next = 2\<rparr>,
     db_events = \<lparr>tb_rows = [sample_event 1 ''diagnosis_room.opened'' (''dr:open:'' @ replicate 24 CHR ''a'') 1000000 10],
       tb_next = 2\<rparr>,
     db_sessions = \<lparr>tb_rows = [sample_session], tb_next = 2\<rparr>, db_turns = \<lparr>tb_rows = [], tb_next = 1\<rparr>,
     db_summaries = \<lparr>tb_rows = [], tb_next = 1\<rparr>, db_approvals = \<lparr>tb_rows = [], tb_next = 1\<rparr>\<rparr>"

definition sample_store_turn :: diagnosis_db where
  "sample_store_turn = sample_store_opened
     \<lparr>db_events := \<lparr>tb_rows = tb_rows (db_events sample_store_opened) @
          [sample_event 2 ''diagnosis_room.turn_persisted'' (''dr:turn:'' @ replicate 24 CHR ''b'') 3000000 20],
        tb_next = 3\<rparr>,
      db_sessions := \<lparr>tb_rows = [sample_session\<lparr>cs_TurnCount := 1, cs_LastActivityAt := 3000000, cs_UpdatedAt := 20\<rparr>],
        tb_next = 2\<rparr>,
      db_turns := \<lparr>tb_rows = [sample_chat_turn 1 ''m'' ChatRoleUser ''alice'' ''why'' 2000000 20,
          sample_chat_turn 2 ''ma'' ChatRoleAssistant ''diagnosis-assistant'' ''disk'' 3000000 20],
        tb_next = 3\<rparr>\<rparr>"

definition sample_store_approved :: diagnosis_db where
  "sample_store_approved = sample_store_turn
     \<lparr>db_events := \<lparr>tb_rows = tb_rows (db_events sample_store_turn) @
          [sample_event 3 ''diagnosis_room.conclusion_approved'' (''dr:approve:'' @ replicate 24 CHR ''b'') 4000000 30],
        tb_next = 4\<rparr>,
      db_approvals := \<lparr>tb_rows = [\<lparr>sa_ID = 1, sa_SessionID = 1, sa_ConclusionDigest = replicate 64 CHR ''b'',
          sa_ActorSubject = ''alice'', sa_Authority = ''owner'', sa_Reason = ''ok'', sa_ApprovedAt = 4000000,
          sa_CreatedAt = 30\<rparr>],
        tb_next = 2\<rparr>\<rparr>"

definition sample_store_closed :: diagnosis_db where
  "sample_store_closed = sample_store_approved
     \<lparr>db_tasks := \<lparr>tb_rows = [sample_task\<lparr>dt_Status := DiagnosisStatusSucceeded, dt_FinishedAt := Some 5000000,
          dt_UpdatedAt := 40\<rparr>], tb_next = 2\<rparr>,
      db_events := \<lparr>tb_rows = tb_rows (db_events sample_store_approved) @
          [sample_event 4 ''diagnosis_room.closed'' (''dr:close:'' @ replicate 24 CHR ''a'') 5000000 40],
        tb_next = 5\<rparr>,
      db_sessions := \<lparr>tb_rows = [sample_session\<lparr>cs_Status := ChatSessionStatusClosed, cs_TurnCount := 1,
          cs_LastActivityAt := 5000000, cs_ClosedAt := Some 5000000, cs_CloseReason := ''done'', cs_UpdatedAt := 40\<rparr>],
        tb_next = 2\<rparr>,
      db_summaries := \<lparr>tb_rows = [\<lparr>ss_ID = 1, ss_SessionID = 1, ss_Version = 1,
          ss_SchemaVersion = SummarySchemaVersion, ss_SourceFirstSequence = 1, ss_SourceLastSequence = 2,
          ss_SourceTurnCount = 2, ss_SourceDigest = replicate 64 CHR ''a'', ss_Content = ''{}'',
          ss_GeneratedAt = 5000000, ss_CreatedAt = 40\<rparr>],
        tb_next = 2\<rparr>\<rparr>"

definition sample_calls :: "(driver \<times> room_call) list" where
  "sample_calls = [(calm 10, CallEnsureRoom sample_open), (calm 20, CallPersist (sample_turn ''m'' 1 ''disk'')),
     (calm 30, CallApprove (sample_approval ''m'' 1 ''disk''))]"

lemma sample_opened: "run_call sample_lib (calm 10) (CallEnsureRoom sample_open) (empty_store [7]) = sample_store_opened"
  by code_simp

lemma sample_turned:
  "run_call sample_lib (calm 20) (CallPersist (sample_turn ''m'' 1 ''disk'')) sample_store_opened = sample_store_turn"
  by code_simp

lemma sample_approved:
  "run_call sample_lib (calm 30) (CallApprove (sample_approval ''m'' 1 ''disk'')) sample_store_turn = sample_store_approved"
  by code_simp

lemma sample_closed:
  "run_call sample_lib (calm 40) (CallClose (sample_close 1 (sample_digest ''m'' 1 ''disk''))) sample_store_approved
     = sample_store_closed"
  by code_simp

lemmas sample_steps = sample_opened sample_turned sample_approved sample_closed

text \<open>Every store of the run keeps the invariant, as it is reached by calls from the empty one.\<close>

lemma sample_reached:
  "lib_step sample_lib (empty_store [7]) sample_store_opened"
  "lib_step sample_lib (empty_store [7]) sample_store_turn"
  "lib_step sample_lib (empty_store [7]) sample_store_approved"
  "lib_step sample_lib (empty_store [7]) sample_store_closed"
proof -
  show o: "lib_step sample_lib (empty_store [7]) sample_store_opened"
    by (rule run_call_steps [of sample_lib "empty_store [7]" "calm 10" "CallEnsureRoom sample_open", unfolded sample_opened])
  show t: "lib_step sample_lib (empty_store [7]) sample_store_turn"
    by (rule steps.trans [OF o run_call_steps [of sample_lib sample_store_opened "calm 20"
            "CallPersist (sample_turn ''m'' 1 ''disk'')", unfolded sample_turned]])
  show a: "lib_step sample_lib (empty_store [7]) sample_store_approved"
    by (rule steps.trans [OF t run_call_steps [of sample_lib sample_store_turn "calm 30"
            "CallApprove (sample_approval ''m'' 1 ''disk'')", unfolded sample_approved]])
  show "lib_step sample_lib (empty_store [7]) sample_store_closed"
    by (rule steps.trans [OF a run_call_steps [of sample_lib sample_store_approved "calm 40"
            "CallClose (sample_close 1 (sample_digest ''m'' 1 ''disk''))", unfolded sample_closed]])
qed

lemma sample_stores_ok:
  "store_ok sample_hash sample_store_opened" "store_ok sample_hash sample_store_turn"
  "store_ok sample_hash sample_store_approved" "store_ok sample_hash sample_store_closed"
  using sample_reached [THEN lib_step_ok] empty_store_ok by (simp_all add: sample_lib_def)

end
