(* ===== verification/Persistence_Properties.thy ===== *)
theory Persistence_Properties
  imports Store_Conclusion Persistence_Example
begin

text \<open>
  The properties of the persistence activities, of the summaries and of the assistant's output. Each
  statement that has a hypothesis is followed by an instance of it on the run of
  \<open>Persistence_Example\<close>.
\<close>

section \<open>The store\<close>

text \<open>
  C27: whatever activities are called, in whatever order, with whatever faults of the database, the
  store only moves by the steps of the abstract room store: a task is opened, a session is opened, an
  event is recorded, a pair of messages is added to an open session, an approval of the current
  conclusion is recorded, or a session is closed together with its task.
\<close>

theorem activities_refine_store:
  "(store_step (vl_tokenize lib) (vl_sha256_hex lib))\<^sup>*\<^sup>* d (run_calls lib cs d)"
  using run_calls_steps [of lib d cs] by (simp add: lib_step_def)

text \<open>
  C28: in every store that calls reach from an empty one, each session is well-formed and counts its
  pairs of messages, its task ended exactly when it did, and the approvals of each of its conclusions
  are a partial quorum of its approval mode, given by people who may, for a message of its transcript.
\<close>

theorem store_invariant:
  assumes "d = run_calls lib cs (empty_store snapshots)" "s \<in> set (tb_rows (db_sessions d))"
  shows "ChatSession_wf s \<and>
    int (role_count ChatRoleUser (cs_ID s) d) = cs_TurnCount s \<and>
    int (role_count ChatRoleAssistant (cs_ID s) d) = cs_TurnCount s \<and>
    (\<exists>t \<in> set (tb_rows (db_tasks d)). dt_ID t = cs_DiagnosisTaskID s \<and> DiagnosisTask_wf t \<and>
       dt_FinishedAt t = cs_ClosedAt s) \<and>
    (\<exists>pending. PendingAuthorities (cs_ApprovalMode s) (conclusion_approvals (cs_ID s) dg d) = Inr pending) \<and>
    (\<forall>a \<in> set (conclusion_approvals (cs_ID s) dg d). authority_ok s a \<and> approves_message (vl_sha256_hex lib) d a)"
proof -
  have "store_ok (vl_sha256_hex lib) d"
    unfolding assms(1) using run_calls_steps empty_store_ok by (rule lib_step_ok)
  then have ok: "rooms_ok d" "transcripts_ok d" "approvals_ok (vl_sha256_hex lib) d" "table_ok cs_ID (db_sessions d)"
    by (simp_all add: store_ok_def tables_ok_def)
  have a: "authority_ok s a \<and> approves_message (vl_sha256_hex lib) d a"
    if "a \<in> set (conclusion_approvals (cs_ID s) dg d)" for a
  proof -
    have a: "a \<in> set (tb_rows (db_approvals d))" "sa_SessionID a = cs_ID s"
      using that by (auto simp: conclusion_approvals_def)
    then obtain s' where "s' \<in> set (tb_rows (db_sessions d))" "cs_ID s' = cs_ID s" "authority_ok s' a"
      "approves_message (vl_sha256_hex lib) d a" using ok(3) by (auto simp: approvals_ok_def)
    with row_unique [OF ok(4) assms(2)] show ?thesis by metis
  qed
  have r: "ChatSession_wf s" "\<exists>t \<in> set (tb_rows (db_tasks d)). dt_ID t = cs_DiagnosisTaskID s \<and> DiagnosisTask_wf t \<and>
       dt_FinishedAt t = cs_ClosedAt s"
    using ok(1) assms(2) unfolding rooms_ok_def by blast+
  have t: "int (role_count ChatRoleUser (cs_ID s) d) = cs_TurnCount s"
    "int (role_count ChatRoleAssistant (cs_ID s) d) = cs_TurnCount s"
    using ok(2) assms(2) by (auto simp: transcripts_ok_def)
  have "\<exists>pending. PendingAuthorities (cs_ApprovalMode s) (conclusion_approvals (cs_ID s) dg d) = Inr pending"
    using ok(3) assms(2) by (auto simp: approvals_ok_def)
  with r t a show ?thesis by blast
qed

theorem store_invariant_witness:
  "\<exists>s \<in> set (tb_rows (db_sessions sample_store_closed)). ChatSession_wf s \<and>
     int (role_count ChatRoleAssistant (cs_ID s) sample_store_closed) = 1"
proof -
  let ?cs = "[(calm 10, CallEnsureRoom sample_open), (calm 20, CallPersist (sample_turn ''m'' 1 ''disk'')),
     (calm 30, CallApprove (sample_approval ''m'' 1 ''disk'')),
     (calm 40, CallClose (sample_close 1 (sample_digest ''m'' 1 ''disk'')))]"
  have d: "sample_store_closed = run_calls sample_lib ?cs (empty_store [7])" by (simp only: run_calls.simps sample_steps)
  obtain s where s: "tb_rows (db_sessions sample_store_closed) = [s]" "cs_TurnCount s = 1"
    by (simp add: sample_store_closed_def)
  then have "s \<in> set (tb_rows (db_sessions sample_store_closed))" by simp
  from store_invariant [OF d this] s show ?thesis by simp
qed

section \<open>Closed rooms\<close>

text \<open>
  C29: a closed session is a final record. Whatever is called afterwards, its row and the row of its
  task change at most in their update times, and its transcript and the approvals of each of its
  conclusions stay as they are.
\<close>

theorem closed_record_is_frozen:
  assumes "store_ok (vl_sha256_hex lib) d" "s \<in> set (tb_rows (db_sessions d))"
    and "cs_Status s = ChatSessionStatusClosed" "d' = run_calls lib cs d"
  shows "(\<exists>n. s\<lparr>cs_UpdatedAt := n\<rparr> \<in> set (tb_rows (db_sessions d'))) \<and>
    session_turns (cs_ID s) d' = session_turns (cs_ID s) d \<and>
    conclusion_approvals (cs_ID s) dg d' = conclusion_approvals (cs_ID s) dg d \<and>
    (\<exists>t \<in> set (tb_rows (db_tasks d)). dt_ID t = cs_DiagnosisTaskID s \<and>
       (\<exists>n. t\<lparr>dt_UpdatedAt := n\<rparr> \<in> set (tb_rows (db_tasks d'))))"
proof -
  have k: "record_kept d d'"
    using lib_step_history [OF run_calls_steps assms(1)] assms(4) by (simp add: history_def)
  obtain t where t: "t \<in> set (tb_rows (db_tasks d))" "dt_ID t = cs_DiagnosisTaskID s"
    "DiagnosisTask_wf t" "ChatSession_wf s" "dt_FinishedAt t = cs_ClosedAt s"
    using assms(1,2) unfolding store_ok_def rooms_ok_def by blast
  then have "DiagnosisStatus_IsTerminal (dt_Status t)"
    using assms(3) by (auto simp: DiagnosisTask_wf_def ChatSession_wf_def split: option.splits)
  with k t(1) have "\<exists>t' \<in> set (tb_rows (db_tasks d')). same_task t t'" by (auto simp: record_kept_def)
  moreover have "\<exists>s' \<in> set (tb_rows (db_sessions d')). same_session s s'"
    "session_turns (cs_ID s) d' = session_turns (cs_ID s) d"
    "conclusion_approvals (cs_ID s) dg d' = conclusion_approvals (cs_ID s) dg d"
    using k assms(2,3) by (auto simp: record_kept_def)
  ultimately show ?thesis using t(1,2) by (auto simp: same_session_def same_task_def)
qed

theorem closed_record_is_frozen_witness:
  "session_turns 1 (run_call sample_lib (calm 50) (CallPersist (sample_turn ''n'' 2 ''other'')) sample_store_closed)
     = session_turns 1 sample_store_closed \<and> length (session_turns 1 sample_store_closed) = 2"
proof -
  obtain s where s: "tb_rows (db_sessions sample_store_closed) = [s]" "cs_Status s = ChatSessionStatusClosed" "cs_ID s = 1"
    by (simp add: sample_store_closed_def sample_session_def)
  then have "s \<in> set (tb_rows (db_sessions sample_store_closed))" by simp
  from closed_record_is_frozen [OF _ this s(2) HOL.refl, of sample_lib
      "[(calm 50, CallPersist (sample_turn ''n'' 2 ''other''))]"] sample_stores_ok(4) s(3)
  have "session_turns 1 (run_call sample_lib (calm 50) (CallPersist (sample_turn ''n'' 2 ''other'')) sample_store_closed)
     = session_turns 1 sample_store_closed" by (simp add: sample_lib_def)
  moreover have "length (session_turns 1 sample_store_closed) = 2" by code_simp
  ultimately show ?thesis by blast
qed

section \<open>Retries\<close>

text \<open>
  C30: a turn is persisted at most once. A call that succeeds for a request, at any time after
  another successful call for it and whatever happened in between, answers with the same messages,
  and changes nothing but events.
\<close>

theorem turn_persisted_once:
  assumes ok: "store_ok (vl_sha256_hex lib) d"
    and p: "PersistDiagnosisTurn lib drv req d = (d1, Inr r1)"
    and q: "PersistDiagnosisTurn lib drv' req (run_calls lib cs d1) = (d3, Inr r2)"
  shows "pr_ChatSessionID r2 = pr_ChatSessionID r1 \<and> pr_UserTurnID r2 = pr_UserTurnID r1 \<and>
    pr_AssistantTurnID r2 = pr_AssistantTurnID r1 \<and> only_events (run_calls lib cs d1) d3"
proof -
  let ?d2 = "run_calls lib cs d1"
  have "lib_step lib d d1" using acts_byD [OF PersistDiagnosisTurn_acts(2) [of lib drv req], of d] p by simp
  then have ok1: "store_ok (vl_sha256_hex lib) d1" using ok by (rule lib_step_ok)
  have ok2: "store_ok (vl_sha256_hex lib) ?d2" using run_calls_steps ok1 by (rule lib_step_ok)
  from persist_turn_outcome [OF ok p] obtain s ut at where
    t: "turn_stored req d1 s ut at" and r1: "pr_ChatSessionID r1 = cs_ID s" "pr_UserTurnID r1 = ct_ID ut"
      "pr_AssistantTurnID r1 = ct_ID at" by metis
  from turn_stored_later [OF ok1 run_calls_steps t] obtain s2 where
    t2: "turn_stored req ?d2 s2 ut at" and i: "cs_ID s2 = cs_ID s"
    by (auto simp: session_identity_def)
  from persist_turn_outcome [OF ok2 q] obtain s3 ut3 at3 where
    t3: "turn_stored req d3 s3 ut3 at3" and r2: "pr_ChatSessionID r2 = cs_ID s3" "pr_UserTurnID r2 = ct_ID ut3"
      "pr_AssistantTurnID r2 = ct_ID at3"
    and c: "turn_stored req ?d2 s3 ut3 at3 \<and> only_events ?d2 d3 \<or>
      turn_rows (cs_ID s3) (pi_UserMessageID req) ?d2 = [] \<and> turn_rows (cs_ID s3) (pi_AssistantMessageID req) ?d2 = []"
    by metis
  have "lib_step lib ?d2 d3" using acts_byD [OF PersistDiagnosisTurn_acts(2) [of lib drv' req], of ?d2] q by simp
  from turn_stored_later [OF ok2 this t2] t3 have "cs_ID s3 = cs_ID s2"
    by (auto simp: turn_stored_def session_identity_def)
  then have "turn_rows (cs_ID s3) (pi_UserMessageID req) ?d2 = [ut]" using t2 by (simp only: turn_stored_def)
  with c have t3: "turn_stored req ?d2 s3 ut3 at3" and e: "only_events ?d2 d3" by auto
  have "s3 = s2" using t2 t3 by (simp add: turn_stored_def)
  then have "ut3 = ut" "at3 = at" using t2 t3 by (simp_all add: turn_stored_def)
  then show ?thesis using e r1 r2 i \<open>s3 = s2\<close> by simp
qed

lemma succeeds: "fst m = d \<Longrightarrow> \<not> isl (snd m) \<Longrightarrow> \<exists>r. m = (d, Inr r)"
  by (cases m; cases "snd m") auto

lemma sample_turn_succeeds:
  "\<exists>r. PersistDiagnosisTurn sample_lib (calm 20) (sample_turn ''m'' 1 ''disk'') sample_store_opened = (sample_store_turn, Inr r)"
  by (rule succeeds, rule sample_turned [unfolded run_call.simps], code_simp)

theorem turn_persisted_once_witness:
  "\<exists>r1 r2 d3. PersistDiagnosisTurn sample_lib (calm 20) (sample_turn ''m'' 1 ''disk'') sample_store_opened
       = (sample_store_turn, Inr r1) \<and>
     PersistDiagnosisTurn sample_lib (calm 35) (sample_turn ''m'' 1 ''disk'') sample_store_approved = (d3, Inr r2) \<and>
     pr_AssistantTurnID r2 = pr_AssistantTurnID r1"
proof -
  obtain r1 where r1: "PersistDiagnosisTurn sample_lib (calm 20) (sample_turn ''m'' 1 ''disk'') sample_store_opened
      = (sample_store_turn, Inr r1)" using sample_turn_succeeds by blast
  have "\<not> isl (snd (PersistDiagnosisTurn sample_lib (calm 35) (sample_turn ''m'' 1 ''disk'') sample_store_approved))"
    by code_simp
  from succeeds [OF HOL.refl this] obtain d3 r2 where
    r2: "PersistDiagnosisTurn sample_lib (calm 35) (sample_turn ''m'' 1 ''disk'') sample_store_approved = (d3, Inr r2)"
    by (rule exE)
  have "run_calls sample_lib [(calm 30, CallApprove (sample_approval ''m'' 1 ''disk''))] sample_store_turn
      = sample_store_approved" by (simp only: run_calls.simps sample_approved)
  then have "pr_AssistantTurnID r2 = pr_AssistantTurnID r1"
    using turn_persisted_once [OF _ r1, of "calm 35" "[(calm 30, CallApprove (sample_approval ''m'' 1 ''disk''))]" d3 r2]
      sample_stores_ok(1) r2 by (simp add: sample_lib_def)
  with r1 r2 show ?thesis by blast
qed

section \<open>The conclusion of a closed room\<close>

text \<open>
  C31: a close that requires an approval succeeds only for the digest of the latest message of the
  transcript, with a complete quorum for it, the confirming person among its approvers; the session
  and its task then end at the requested time.
\<close>

theorem close_requires_quorum:
  assumes "store_ok (vl_sha256_hex lib) d" "CloseDiagnosisChatSession lib drv req d = (d', Inr r)"
    and "xi_RequireConclusionApproval req"
  shows "\<exists>s s' t. session_rows (xi_SessionID req) d = [s] \<and> cs_TurnCount s = xi_TurnCount req \<and>
    (\<exists>turn. LatestPersistedConclusion (vl_sha256_hex lib) s (session_turns (cs_ID s) d)
       = Inr (turn, xi_ConclusionDigest req)) \<and>
    PendingAuthorities (cs_ApprovalMode s) (conclusion_approvals (cs_ID s) (xi_ConclusionDigest req) d) = Inr [] \<and>
    (\<exists>a \<in> set (conclusion_approvals (cs_ID s) (xi_ConclusionDigest req) d). sa_ActorSubject a = xi_ConfirmedBy req) \<and>
    session_rows (xi_SessionID req) d' = [s'] \<and> cs_Status s' = ChatSessionStatusClosed \<and>
    cs_ClosedAt s' = Some (NormalizeUTCMicro (xi_ClosedAt req)) \<and> cs_TurnCount s' = cs_TurnCount s \<and>
    t \<in> set (tb_rows (db_tasks d')) \<and> dt_ID t = cs_DiagnosisTaskID s \<and> dt_FinishedAt t = cs_ClosedAt s'"
  using assms(2)
proof (rule close_result_store)
  fix saved savedTask summary d1
  assume c: "closeDiagnosisChatSession lib drv req d = (d1, Inr (saved, savedTask, summary, xr_Approvals r))"
    and e: "only_events d1 d'"
  have same: "session_rows k d' = session_rows k d1" "db_tasks d' = db_tasks d1" for k
    using e by (auto simp: only_events_def session_rows_def)
  from close_activity_outcome [OF assms(1) c] obtain s where
    "session_rows (xi_SessionID req) d = [s]" "cs_TurnCount s = xi_TurnCount req"
    "verified_close lib d req s (xr_Approvals r)" "session_rows (xi_SessionID req) d1 = [saved]"
    "cs_Status saved = ChatSessionStatusClosed" "cs_ClosedAt saved = Some (NormalizeUTCMicro (xi_ClosedAt req))"
    "cs_TurnCount saved = cs_TurnCount s" "savedTask \<in> set (tb_rows (db_tasks d1))"
    "dt_ID savedTask = cs_DiagnosisTaskID s" "dt_FinishedAt savedTask = Some (NormalizeUTCMicro (xi_ClosedAt req))"
    using assms(3) by metis
  then show ?thesis
    by - (rule exI [of _ s], rule exI [of _ saved], rule exI [of _ savedTask], auto simp: same verified_close_def)
qed

theorem close_requires_quorum_witness:
  "\<exists>s. session_rows ''s'' sample_store_closed = [s] \<and> cs_Status s = ChatSessionStatusClosed \<and>
     cs_ClosedAt s = Some 5000000"
proof -
  let ?req = "sample_close 1 (sample_digest ''m'' 1 ''disk'')"
  have "\<not> isl (snd (CloseDiagnosisChatSession sample_lib (calm 40) ?req sample_store_approved))" by code_simp
  from succeeds [OF sample_closed [unfolded run_call.simps] this] obtain r where
    r: "CloseDiagnosisChatSession sample_lib (calm 40) ?req sample_store_approved = (sample_store_closed, Inr r)"
    by (rule exE)
  have "xi_RequireConclusionApproval ?req" "xi_SessionID ?req = ''s''" "xi_ClosedAt ?req = 5000000"
    "NormalizeUTCMicro 5000000 = 5000000"
    by (simp_all add: sample_close_def NormalizeUTCMicro_def)
  then show ?thesis
    using close_requires_quorum [OF _ r] sample_stores_ok(3) by (auto simp: sample_lib_def)
qed

text \<open>
  C32: a turn that follows a complete transcript makes its answer the conclusion of the room, and
  every close that requires an approval of anything else, such as of the conclusion before it, is
  refused without a trace in the store. (The workflow may still believe that the earlier conclusion
  was confirmed; the store has the last word.)
\<close>

theorem later_turn_outdates_approval:
  assumes "store_ok (vl_sha256_hex lib) d" "PersistDiagnosisTurn lib drv req d = (d', Inr r)"
    and "session_rows (pi_SessionID req) d = [s]" "turn_rows (cs_ID s) (pi_UserMessageID req) d = []"
    and "LatestPersistedConclusion (vl_sha256_hex lib) s (session_turns (cs_ID s) d) = Inr (turn, digest)"
    and "pi_UserSequence req = 2 * cs_TurnCount s + 1" "int64 (2 * cs_TurnCount s + 2)"
  shows "\<exists>s' at h. session_rows (pi_SessionID req) d' = [s'] \<and> cs_TurnCount s' = cs_TurnCount s + 1 \<and>
    LatestPersistedConclusion (vl_sha256_hex lib) s' (session_turns (cs_ID s') d') = Inr (at, h) \<and>
    ct_ID at = pr_AssistantTurnID r \<and>
    (\<forall>drv' c. xi_SessionID c = pi_SessionID req \<and> xi_RequireConclusionApproval c \<and> xi_ConclusionDigest c \<noteq> h \<longrightarrow>
       (\<exists>e. CloseDiagnosisChatSession lib drv' c d' = (d', Inl e)))"
proof -
  have ok': "store_ok (vl_sha256_hex lib) d'"
    using acts_byD [OF PersistDiagnosisTurn_acts(2) [of lib drv req], of d] assms(1,2) by (auto intro: lib_step_ok)
  from conclusion_of_new_turn [OF assms(1-4) LatestPersistedConclusion_Inr(1) [OF assms(5)] assms(6,7)]
  obtain s' at h where c: "session_rows (pi_SessionID req) d' = [s']"
    "LatestPersistedConclusion (vl_sha256_hex lib) s' (session_turns (cs_ID s') d') = Inr (at, h)"
    "ct_ID at = pr_AssistantTurnID r" "cs_TurnCount s' = cs_TurnCount s + 1" by metis
  with close_of_another_conclusion [OF ok'] show ?thesis by metis
qed

theorem later_turn_outdates_approval_witness:
  "\<exists>d r e. PersistDiagnosisTurn sample_lib (calm 40) (sample_turn ''n'' 2 ''disks'') sample_store_approved = (d, Inr r) \<and>
     CloseDiagnosisChatSession sample_lib (calm 50) (sample_close 2 (sample_digest ''m'' 1 ''disk'')) d = (d, Inl e)"
proof -
  let ?req = "sample_turn ''n'' 2 ''disks''" and ?c = "sample_close 2 (sample_digest ''m'' 1 ''disk'')"
  let ?d = "fst (PersistDiagnosisTurn sample_lib (calm 40) ?req sample_store_approved)"
  have "\<not> isl (snd (PersistDiagnosisTurn sample_lib (calm 40) ?req sample_store_approved))" by code_simp
  from succeeds [OF HOL.refl this] obtain r where
    r: "PersistDiagnosisTurn sample_lib (calm 40) ?req sample_store_approved = (?d, Inr r)" by (rule exE)
  obtain s where s: "session_rows ''s'' sample_store_approved = [s]" "cs_ID s = 1" "cs_TurnCount s = 1"
    by (simp add: session_rows_def sample_store_approved_def sample_store_turn_def sample_session_def)
  have "case LatestPersistedConclusion sample_hash (hd (session_rows ''s'' sample_store_approved))
      (session_turns 1 sample_store_approved) of Inl e \<Rightarrow> False | Inr x \<Rightarrow> True" by code_simp
  then obtain x where x: "LatestPersistedConclusion sample_hash s (session_turns (cs_ID s) sample_store_approved) = Inr x"
    using s by (auto split: sum.splits)
  have new: "turn_rows 1 ''n'' sample_store_approved = []" by code_simp
  have f: "pi_SessionID ?req = ''s''" "pi_UserMessageID ?req = ''n''" "pi_UserSequence ?req = 3"
    "xi_SessionID ?c = ''s''" "xi_RequireConclusionApproval ?c"
    by (simp_all add: sample_turn_def sample_close_def)
  have digest: "(case LatestPersistedConclusion sample_hash (hd (session_rows ''s'' ?d)) (session_turns 1 ?d) of
      Inl e \<Rightarrow> False | Inr (t, h) \<Rightarrow> xi_ConclusionDigest ?c \<noteq> h) \<and> cs_ID (hd (session_rows ''s'' ?d)) = 1" by code_simp
  have "store_ok (vl_sha256_hex sample_lib) sample_store_approved" "vl_sha256_hex sample_lib = sample_hash"
    using sample_stores_ok(3) by (simp_all add: sample_lib_def)
  from later_turn_outdates_approval [OF this(1) r, of s "fst x" "snd x", unfolded f this(2)]
  obtain s' at h where "session_rows ''s'' ?d = [s']"
    "LatestPersistedConclusion sample_hash s' (session_turns (cs_ID s') ?d) = Inr (at, h)"
    and c: "\<forall>drv' c. xi_SessionID c = ''s'' \<and> xi_RequireConclusionApproval c \<and> xi_ConclusionDigest c \<noteq> h \<longrightarrow>
       (\<exists>e. CloseDiagnosisChatSession sample_lib drv' c ?d = (?d, Inl e))"
    using s x new by (auto simp: int64_def min_int64_def max_int64_def)
  then have "xi_ConclusionDigest ?c \<noteq> h" using digest by auto
  with c f r show ?thesis by metis
qed

end
