(* ===== verification/Text_Properties.thy ===== *)
theory Text_Properties
  imports Compression Assistant_Output
begin

text \<open>
  The properties of the texts a room stores: the summary of its transcript, and the assistant's
  output after its normalisation.
\<close>

section \<open>Summaries\<close>

text \<open>
  C33: a summary reads back as the document it was made from, by a reader that checks every bound;
  each of its texts is within its bound, and exactly at it when it is listed as truncated; and a
  stored summary is recognised as equivalent to the summary of the same transcript made at any other
  time.
\<close>

theorem summary_reads_back:
  assumes "Summarize lib sid turns t = Inr s"
    and codec: "\<And>c raw. sl_marshal_content lib c = Inr raw \<Longrightarrow> sl_decode_content lib raw = Inr c"
  shows "ParseContent lib (ss_Content s) = Inr (summarizeContent turns) \<and>
    (\<forall>(n, v, l) \<in> set (content_fields (summarizeContent turns)). RuneCountInString v \<le> l \<and>
       (n \<in> set (sc_TruncatedFields (summarizeContent turns)) \<longrightarrow> RuneCountInString v = l)) \<and>
    length (sc_AssistantHighlights (summarizeContent turns)) \<le> maxAssistantHighlightCount \<and>
    (\<forall>t' s' i n. Summarize lib sid turns t' = Inr s' \<longrightarrow> Equivalent lib (s\<lparr>ss_ID := i, ss_CreatedAt := n\<rparr>) s')"
proof (intro conjI)
  show "ParseContent lib (ss_Content s) = Inr (summarizeContent turns)" using assms by (rule Summarize_parses)
  have ok: "truncation_ok (content_fields (summarizeContent turns)) (sc_TruncatedFields (summarizeContent turns))"
    using summarizeContent_ok by simp
  then show "\<forall>(n, v, l) \<in> set (content_fields (summarizeContent turns)). RuneCountInString v \<le> l \<and>
       (n \<in> set (sc_TruncatedFields (summarizeContent turns)) \<longrightarrow> RuneCountInString v = l)"
    unfolding truncation_ok_def by (elim conjE)
  show "length (sc_AssistantHighlights (summarizeContent turns)) \<le> maxAssistantHighlightCount"
    using summarizeContent_ok by simp
  show "\<forall>t' s' i n. Summarize lib sid turns t' = Inr s' \<longrightarrow> Equivalent lib (s\<lparr>ss_ID := i, ss_CreatedAt := n\<rparr>) s'"
    by (intro allI impI) (rule Summarize_equivalent [OF assms(1) _ codec])
qed

definition question :: ChatTurn where
  "question = \<lparr>ct_ID = 1, ct_SessionID = 9, ct_MessageID = ''m'', ct_Sequence = 1, ct_Role = ChatRoleUser,
     ct_ActorSubject = ''alice'', ct_Content = ''why'', ct_Metadata = ''{}'', ct_OccurredAt = 1000, ct_CreatedAt = 0\<rparr>"

text \<open>A codec for one document.\<close>

definition one_document :: summary_lib where
  "one_document = \<lparr>sl_tokenize = (\<lambda>_. \<lparr>dec_tokens = [TObjOpen, TObjClose], dec_clean = True\<rparr>),
     sl_json_object = (\<lambda>_. True), sl_sha256_hex = (\<lambda>_. replicate 64 CHR ''a''),
     sl_marshal_content = (\<lambda>c. if c = summarizeContent [question] then Inr ''{}'' else Inl (plain_error [])),
     sl_decode_content = (\<lambda>_. Inr (summarizeContent [question])), sl_marshal_source = (\<lambda>_. Inr ''{}'')\<rparr>"

theorem summary_reads_back_witness:
  "\<exists>s. Summarize one_document 9 [question] 5000 = Inr s \<and>
     ParseContent one_document (ss_Content s) = Inr (summarizeContent [question])"
proof -
  have "case Summarize one_document 9 [question] 5000 of Inl e \<Rightarrow> False | Inr s \<Rightarrow> True" by code_simp
  then obtain s where s: "Summarize one_document 9 [question] 5000 = Inr s" by (auto split: sum.splits)
  have "sl_decode_content one_document raw = Inr c" if "sl_marshal_content one_document c = Inr raw" for c raw
    using that by (simp add: one_document_def split: if_splits)
  from summary_reads_back [OF s this] s show ?thesis by blast
qed

section \<open>The assistant's output\<close>

text \<open>
  C34: whatever the assistant answers, an output the parser accepts is in normal form: normalising
  it again gives the same output, its lists are within their bounds, and each of its evidence
  requests is one a person could submit by hand.
\<close>

theorem parsed_output_is_normal:
  assumes "ParseTurnOutput tokenize decode_output raw = Inr out"
  shows "normalizeTurnOutput out = Inr out \<and> to_Message out \<noteq> [] \<and>
    length (to_EvidenceRequests out) \<le> maxEvidenceRequests \<and>
    length (to_MissingEvidenceRequests out) \<le> maxConsultationEvidenceRequests \<and>
    length (to_EvidenceCollectionSuggestions out) \<le> maxConsultationEvidenceRequests \<and>
    (\<forall>r \<in> set (to_EvidenceRequests out). validateManualEvidenceRequest r = Inr ())"
proof -
  have n: "output_normal out" using assms by (rule ParseTurnOutput_Inr)
  note f = output_normalD(2,6,7,11,13) [OF n]
  from f(3) have "\<forall>r \<in> set (to_EvidenceRequests out). validateManualEvidenceRequest r = Inr ()"
    by (auto intro: request_normal_manual)
  with output_normal_fix [OF n] f show ?thesis by simp
qed

definition padded_output :: TurnOutput where
  "padded_output = \<lparr>to_SchemaVersion = ''v1'', to_Message = '' disk full '', to_Findings = ['' f''],
     to_RecommendedActions = [], to_EvidenceRequests = [], to_Confidence = ''high'',
     to_RequiresHumanReview = False, to_ConfidenceRationale = [], to_MissingEvidenceRequests = [],
     to_EvidenceCollectionSuggestions = [], to_ToolRequestSuggestions = [], to_ConclusionStatus = ''final''\<rparr>"

theorem parsed_output_is_normal_witness:
  "\<exists>out. ParseTurnOutput (\<lambda>_. \<lparr>dec_tokens = [TObjOpen, TObjClose], dec_clean = True\<rparr>) (\<lambda>_. Inr padded_output) ''{}''
       = Inr out \<and> normalizeTurnOutput out = Inr out \<and> out \<noteq> padded_output"
proof -
  let ?p = "ParseTurnOutput (\<lambda>_. \<lparr>dec_tokens = [TObjOpen, TObjClose], dec_clean = True\<rparr>) (\<lambda>_. Inr padded_output) ''{}''"
  have "case ?p of Inl e \<Rightarrow> False | Inr out \<Rightarrow> to_Message out = ''disk full''" by code_simp
  then obtain out where out: "?p = Inr out" "to_Message out = ''disk full''" by (auto split: sum.splits)
  then have "out \<noteq> padded_output" by (auto simp: padded_output_def)
  with parsed_output_is_normal [OF out(1)] out(1) show ?thesis by blast
qed

end
