(* ===== verification/Go_Text.thy ===== *)
theory Go_Text
  imports Go_Prelude
begin

text \<open>
  What the authentication code uses of Go's text packages: \<open>base64.RawURLEncoding\<close>,
  \<open>strings.Split\<close> on one byte, \<open>strings.Fields\<close>, and \<open>strings.EqualFold\<close> with an ASCII word that
  has neither a k nor an s. The lemmas show that decoding an encoded text gives the text back and that
  encoded texts are made of the 64 letters only.
\<close>

section \<open>Base64\<close>

text \<open>The alphabet of \<open>base64.RawURLEncoding\<close>, and its inverse.\<close>

definition b64_char :: "nat \<Rightarrow> char" where
  "b64_char n =
     (if n < 26 then char_of (65 + n) else if n < 52 then char_of (71 + n)
      else if n < 62 then char_of (n - 4) else if n = 62 then CHR ''-'' else CHR ''_'')"

definition b64_value :: "char \<Rightarrow> nat option" where
  "b64_value c =
     (let n = (of_char c :: nat) in
      if 65 \<le> n \<and> n \<le> 90 then Some (n - 65) else if 97 \<le> n \<and> n \<le> 122 then Some (n - 71)
      else if 48 \<le> n \<and> n \<le> 57 then Some (n + 4) else if n = 45 then Some 62
      else if n = 95 then Some 63 else None)"

text \<open>\<open>EncodeToString\<close>: three bytes make four letters; the rest is not padded.\<close>

fun b64_encode :: "string \<Rightarrow> string" where
  "b64_encode [] = []"
| "b64_encode [a] =
     (let v = (of_char a :: nat) * 16 in [b64_char (v div 64), b64_char (v mod 64)])"
| "b64_encode [a, b] =
     (let v = (of_char a :: nat) * 1024 + of_char b * 4
      in [b64_char (v div 4096), b64_char (v div 64 mod 64), b64_char (v mod 64)])"
| "b64_encode (a # b # c # s) =
     (let v = (of_char a :: nat) * 65536 + of_char b * 256 + of_char c
      in b64_char (v div 262144) # b64_char (v div 4096 mod 64) # b64_char (v div 64 mod 64)
         # b64_char (v mod 64) # b64_encode s)"

text \<open>Closed texts are encoded by code equations over integers, which are evaluated in binary.\<close>

definition b64_char_int :: "int \<Rightarrow> char" where
  "b64_char_int n =
     (if n < 26 then char_of (65 + n) else if n < 52 then char_of (71 + n)
      else if n < 62 then char_of (n - 4) else if n = 62 then CHR ''-'' else CHR ''_'')"

lemma b64_char_int: "b64_char_int (int n) = b64_char n"
proof -
  have "\<not> n < 52 \<Longrightarrow> char_of (int n - 4) = char_of (n - 4)"
    using char_of_nat [where ?'a = int, of "n - 4"] by (simp add: of_nat_diff)
  then show ?thesis
    using char_of_nat [where ?'a = int, of "65 + n"] char_of_nat [where ?'a = int, of "71 + n"]
    by (auto simp: b64_char_int_def b64_char_def)
qed

lemma b64_encode_code [code]:
  "b64_encode [] = []"
  "b64_encode [a] = (let v = (of_char a :: int) * 16 in [b64_char_int (v div 64), b64_char_int (v mod 64)])"
  "b64_encode [a, b] =
     (let v = (of_char a :: int) * 1024 + of_char b * 4
      in [b64_char_int (v div 4096), b64_char_int (v div 64 mod 64), b64_char_int (v mod 64)])"
  "b64_encode (a # b # c # s) =
     (let v = (of_char a :: int) * 65536 + of_char b * 256 + of_char c
      in b64_char_int (v div 262144) # b64_char_int (v div 4096 mod 64) # b64_char_int (v div 64 mod 64)
         # b64_char_int (v mod 64) # b64_encode s)"
proof -
  have c: "(of_char x :: int) = int (of_char x)" for x by (rule of_nat_of_char [symmetric])
  show "b64_encode [] = []"
    "b64_encode [a] = (let v = (of_char a :: int) * 16 in [b64_char_int (v div 64), b64_char_int (v mod 64)])"
    "b64_encode [a, b] =
     (let v = (of_char a :: int) * 1024 + of_char b * 4
      in [b64_char_int (v div 4096), b64_char_int (v div 64 mod 64), b64_char_int (v mod 64)])"
    "b64_encode (a # b # c # s) =
     (let v = (of_char a :: int) * 65536 + of_char b * 256 + of_char c
      in b64_char_int (v div 262144) # b64_char_int (v div 4096 mod 64) # b64_char_int (v div 64 mod 64)
         # b64_char_int (v mod 64) # b64_encode s)"
    by (simp_all only: b64_encode.simps Let_def b64_char_int [symmetric] c of_nat_add of_nat_mult of_nat_numeral zdiv_int zmod_int)
qed

text \<open>
  \<open>DecodeString\<close> skips line breaks, refuses any other letter outside the alphabet and a single last
  letter, and ignores the unused bits of the last letter.
\<close>

definition b64_corrupt :: go_error where
  "b64_corrupt = GoErr ''illegal base64 data'' []"

fun b64_bytes :: "nat list \<Rightarrow> string result" where
  "b64_bytes [] = Inr []"
| "b64_bytes [w] = Inl b64_corrupt"
| "b64_bytes [w, x] = Inr [char_of ((w * 64 + x) div 16)]"
| "b64_bytes [w, x, y] =
     (let v = w * 4096 + x * 64 + y in Inr [char_of (v div 1024), char_of (v div 4 mod 256)])"
| "b64_bytes (w # x # y # z # s) =
     (let v = w * 262144 + x * 4096 + y * 64 + z
      in bindE (b64_bytes s) (\<lambda>r. Inr (char_of (v div 65536) # char_of (v div 256 mod 256) # char_of (v mod 256) # r)))"

definition b64_decode :: "string \<Rightarrow> string result" where
  "b64_decode s =
     (case those (map b64_value (filter (\<lambda>c. c \<noteq> CHR 0x0A \<and> c \<noteq> CHR 0x0D) s)) of
        None \<Rightarrow> Inl b64_corrupt
      | Some vs \<Rightarrow> b64_bytes vs)"

definition b64_letters :: "string \<Rightarrow> bool" where
  "b64_letters s \<longleftrightarrow> (\<forall>c \<in> set s. b64_value c \<noteq> None)"

lemma b64_value_char [simp]: "n < 64 \<Longrightarrow> b64_value (b64_char n) = Some n"
  by (auto simp: b64_char_def b64_value_def Let_def)

lemma of_char_byte [simp]: "(of_char c :: nat) < 256"
  using nat_of_char_less_256 .

lemma byte_lt: "(of_char c :: nat) \<le> 255"
  using of_char_byte [of c] by linarith

lemma char_of_byte: "n mod 256 = (of_char c :: nat) \<Longrightarrow> char_of n = c"
  by (metis char_of_mod_256 char_of_char)

text \<open>The four letters of three bytes.\<close>

lemma sextets:
  fixes v :: nat
  shows "v div 262144 * 262144 + v div 4096 mod 64 * 4096 + v div 64 mod 64 * 64 + v mod 64 = v"
    "v div 4096 * 4096 + v div 64 mod 64 * 64 + v mod 64 = v" "v div 64 * 64 + v mod 64 = v"
proof -
  have s: "v = v div 64 * 64 + v mod 64" "v div 64 = v div 4096 * 64 + v div 64 mod 64"
    "v div 4096 = v div 262144 * 64 + v div 4096 mod 64"
    using div_mult_mod_eq [of v 64] div_mult_mod_eq [of "v div 64" 64] div_mult_mod_eq [of "v div 4096" 64]
    by (simp_all add: div_mult2_eq [symmetric])
  show "v div 64 * 64 + v mod 64 = v" using s(1) by simp
  show "v div 4096 * 4096 + v div 64 mod 64 * 64 + v mod 64 = v" using s(1,2) by linarith
  show "v div 262144 * 262144 + v div 4096 mod 64 * 4096 + v div 64 mod 64 * 64 + v mod 64 = v" using s by linarith
qed

lemma b64_encode_values:
  "\<exists>vs. map b64_value (b64_encode s) = map Some vs \<and> b64_bytes vs = Inr s"
proof (induction s rule: b64_encode.induct)
  case (2 a)
  define v where "v = (of_char a :: nat) * 16"
  have v: "v div 64 < 64" "v div 16 = of_char a" using byte_lt [of a] by (simp_all add: v_def)
  have "b64_encode [a] = [b64_char (v div 64), b64_char (v mod 64)]"
    unfolding b64_encode.simps Let_def v_def [symmetric] ..
  with v show ?case by (intro exI [of _ "[v div 64, v mod 64]"]) (simp add: sextets)
next
  case (3 a b)
  define v where "v = (of_char a :: nat) * 1024 + of_char b * 4"
  have v: "v div 4096 < 64" "v div 1024 = of_char a" "v div 4 mod 256 = of_char b"
    using byte_lt [of a] byte_lt [of b] by (simp_all add: v_def)
  have "b64_encode [a, b] = [b64_char (v div 4096), b64_char (v div 64 mod 64), b64_char (v mod 64)]"
    unfolding b64_encode.simps Let_def v_def [symmetric] ..
  with v show ?case
    by (intro exI [of _ "[v div 4096, v div 64 mod 64, v mod 64]"])
      (simp add: Let_def sextets char_of_byte [OF v(3)])
next
  case (4 a b c s)
  define v where "v = (of_char a :: nat) * 65536 + of_char b * 256 + of_char c"
  from 4 obtain vs where vs: "map b64_value (b64_encode s) = map Some vs" "b64_bytes vs = Inr s" by metis
  let ?h = "(of_char a :: nat) * 256 + of_char b"
  have h: "?h div 256 = of_char a" "?h mod 256 = of_char b" by simp_all
  have "v = ?h * 256 + of_char c" by (simp add: v_def)
  moreover have "(w * 256 + of_char c) div 256 = w" "(w * 256 + of_char c) mod 256 = of_char c" for w :: nat
    by simp_all
  ultimately have d: "v div 256 = ?h" "v mod 256 = of_char c" by metis+
  moreover have "v div 65536 = v div 256 div 256" by (simp add: div_mult2_eq [symmetric])
  ultimately have v: "v div 262144 < 64" "v div 65536 = of_char a" "v div 256 mod 256 = of_char b" "v mod 256 = of_char c"
    using h byte_lt [of a] byte_lt [of b] byte_lt [of c] by (simp_all add: v_def)
  have "b64_encode (a # b # c # s) = b64_char (v div 262144) # b64_char (v div 4096 mod 64)
      # b64_char (v div 64 mod 64) # b64_char (v mod 64) # b64_encode s"
    unfolding b64_encode.simps Let_def v_def [symmetric] ..
  with v vs show ?case
    by (intro exI [of _ "v div 262144 # v div 4096 mod 64 # v div 64 mod 64 # v mod 64 # vs"])
      (simp add: Let_def sextets char_of_byte [OF v(3)] char_of_byte [OF v(4)])
qed simp

lemma those_Some: "those (map Some xs) = Some xs"
  by (induction xs) simp_all

lemma b64_encode_letters: "b64_letters (b64_encode s)"
proof -
  from b64_encode_values obtain vs where "map b64_value (b64_encode s) = map Some vs" by blast
  then have "b64_value ` set (b64_encode s) = Some ` set vs" by (metis list.set_map)
  then show ?thesis unfolding b64_letters_def by (metis imageE image_eqI option.distinct(1))
qed

lemma b64_letter_bytes:
  assumes "b64_value c \<noteq> None"
  shows "c \<noteq> CHR 0x0A" "c \<noteq> CHR 0x0D" "c \<noteq> CHR ''.''" "printable_byte c" "c \<noteq> CHR 0x20" "c \<noteq> CHR 0x09"
  using assms by (auto simp: b64_value_def Let_def printable_byte_def split: if_splits)

theorem b64_roundtrip: "b64_decode (b64_encode s) = Inr s"
proof -
  obtain vs where vs: "map b64_value (b64_encode s) = map Some vs" "b64_bytes vs = Inr s"
    using b64_encode_values by blast
  have "filter (\<lambda>c. c \<noteq> CHR 0x0A \<and> c \<noteq> CHR 0x0D) (b64_encode s) = b64_encode s"
    using b64_encode_letters [of s] b64_letter_bytes by (auto simp: b64_letters_def filter_id_conv)
  with vs show ?thesis by (simp add: b64_decode_def those_Some)
qed

section \<open>Splitting\<close>

fun split_on :: "char \<Rightarrow> string \<Rightarrow> string list" where
  "split_on c [] = [[]]"
| "split_on c (x # s) =
     (if x = c then [] # split_on c s
      else case split_on c s of [] \<Rightarrow> [[x]] | p # ps \<Rightarrow> (x # p) # ps)"

lemma split_on_none: "c \<notin> set s \<Longrightarrow> split_on c s = [s]"
  by (induction s) auto

lemma split_on_part: "c \<notin> set s \<Longrightarrow> split_on c (s @ c # r) = s # split_on c r"
  by (induction s) auto

text \<open>The parts joined again are the text.\<close>

fun join_on :: "char \<Rightarrow> string list \<Rightarrow> string" where
  "join_on c [] = []"
| "join_on c [p] = p"
| "join_on c (p # q # ps) = p @ c # join_on c (q # ps)"

lemma split_on_nonempty: "split_on c s \<noteq> []"
  by (induction s) (auto split: list.splits)

lemma join_split: "join_on c (split_on c s) = s"
proof (induction s)
  case (Cons x s)
  obtain p ps where "split_on c s = p # ps" using split_on_nonempty by (cases "split_on c s") auto
  with Cons show ?case by (cases ps) auto
qed simp

section \<open>Fields\<close>

definition space_prefix :: "string \<Rightarrow> bool" where
  "space_prefix s \<longleftrightarrow> list_ex (\<lambda>p. has_prefix p s) space_runes"

text \<open>The bytes up to the next space, and the rest.\<close>

fun field_end :: "string \<Rightarrow> string \<times> string" where
  "field_end [] = ([], [])"
| "field_end (c # s) =
     (if space_prefix (c # s) then ([], c # s)
      else let (w, r) = field_end s in (c # w, r))"

lemma field_end_length: "length (snd (field_end s)) \<le> length s"
  by (induction s) (auto split: prod.splits)

lemma TrimLeft_length: "length (TrimLeft s) \<le> length s"
proof -
  obtain u where "s = u @ TrimLeft s" using ltrim_suffix [of s space_runes] by (auto simp: TrimLeft_def)
  then have "length s = length u + length (TrimLeft s)" by (metis length_append)
  then show ?thesis by simp
qed

lemma space_prefix_trim: "\<not> space_prefix (TrimLeft s) \<or> TrimLeft s = []"
  using ltrim_no_prefix [of space_runes s] space_runes_ends
  by (auto simp: space_prefix_def TrimLeft_def no_space_prefix_def list_ex_iff list_all_iff)

function Fields :: "string \<Rightarrow> string list" where
  "Fields s =
     (case TrimLeft s of
        [] \<Rightarrow> []
      | c # t \<Rightarrow> let (w, r) = field_end (c # t) in w # Fields r)"
  by pat_completeness auto
termination
proof (relation "measure length", simp)
  fix s c t w r x
  assume t: "TrimLeft s = c # t" and x: "x = field_end (c # t)" and wr: "(w, r) = x"
  have "\<not> space_prefix (c # t)" using space_prefix_trim [of s] t by simp
  then have "length r \<le> length t" using x wr field_end_length [of t] by (auto split: prod.splits)
  moreover have "length (c # t) \<le> length s" using TrimLeft_length [of s] t by simp
  ultimately show "(r, s) \<in> measure length" by simp
qed

declare Fields.simps [simp del]

text \<open>\<open>strings.EqualFold\<close> with an ASCII word; no other rune folds to one of its letters.\<close>

definition equal_fold_ascii :: "string \<Rightarrow> string \<Rightarrow> bool" where
  "equal_fold_ascii s word \<longleftrightarrow> map lower_byte s = map lower_byte word"

lemma space_prefix_printable: "printable_byte c \<Longrightarrow> \<not> space_prefix (c # s)"
  using space_rune_hd [of _ "c # s"] by (auto simp: space_prefix_def list_ex_iff)

lemma space_prefix_space: "space_prefix (CHR 0x20 # s)"
  by (simp add: space_prefix_def space_runes_code)

lemma field_end_printable: "\<forall>c \<in> set w. printable_byte c \<Longrightarrow> field_end w = (w, [])"
  by (induction w) (auto simp: space_prefix_printable)

lemma field_end_space:
  "\<forall>c \<in> set w. printable_byte c \<Longrightarrow> field_end (w @ CHR 0x20 # s) = (w, CHR 0x20 # s)"
  by (induction w) (auto simp: space_prefix_printable space_prefix_space)

lemma TrimLeft_printable: "printable_byte c \<Longrightarrow> TrimLeft (c # s) = c # s"
  using space_rune_hd [of _ "c # s"] by (auto simp: TrimLeft_def no_space_prefix_def intro!: ltrim_id)

lemma TrimLeft_space:
  assumes "printable_byte c"
  shows "TrimLeft (CHR 0x20 # c # s) = c # s"
proof -
  have "find (\<lambda>p. p \<noteq> [] \<and> has_prefix p (CHR 0x20 # c # s)) space_runes = Some [CHR 0x20]"
    by (simp add: space_runes_code)
  then have "TrimLeft (CHR 0x20 # c # s) = TrimLeft (c # s)"
    by (simp add: TrimLeft_def ltrim.simps [of space_runes "CHR 0x20 # c # s"])
  with TrimLeft_printable [OF assms] show ?thesis by simp
qed

text \<open>One printable word, and a word before it.\<close>

lemma Fields_word:
  assumes "\<forall>c \<in> set w. printable_byte c" "w \<noteq> []"
  shows "Fields w = [w]"
proof -
  obtain c v where w: "w = c # v" using assms(2) by (cases w) auto
  have "find (\<lambda>p. p \<noteq> [] \<and> has_prefix p []) space_runes = None" by (auto simp: find_None_iff has_prefix_iff)
  then have "Fields [] = []" by (simp add: Fields.simps TrimLeft_def ltrim.simps)
  moreover have "TrimLeft w = c # v" using assms(1) w TrimLeft_printable by simp
  moreover have "field_end (c # v) = (w, [])" using field_end_printable [OF assms(1)] w by simp
  ultimately show ?thesis by (simp only: Fields.simps [of w] list.case Let_def prod.case)
qed

lemma Fields_two:
  assumes "\<forall>c \<in> set w. printable_byte c" "w \<noteq> []" "\<forall>c \<in> set v. printable_byte c" "v \<noteq> []"
  shows "Fields (w @ CHR 0x20 # v) = [w, v]"
proof -
  obtain c w' where w: "w = c # w'" using assms(2) by (cases w) auto
  obtain d v' where v: "v = d # v'" using assms(4) by (cases v) auto
  have "TrimLeft (w @ CHR 0x20 # v) = w @ CHR 0x20 # v" using assms(1) w TrimLeft_printable by simp
  then have "TrimLeft (w @ CHR 0x20 # v) = c # (w' @ CHR 0x20 # v)" using w by simp
  moreover have "field_end (c # (w' @ CHR 0x20 # v)) = (w, CHR 0x20 # v)"
    using field_end_space [OF assms(1), of v] w by simp
  ultimately have "Fields (w @ CHR 0x20 # v) = w # Fields (CHR 0x20 # v)"
    by (simp only: Fields.simps [of "w @ CHR 0x20 # v"] list.case Let_def prod.case)
  also have "Fields (CHR 0x20 # v) = Fields v"
    using assms(3) v TrimLeft_space [of d v'] TrimLeft_printable [of d v'] by (simp add: Fields.simps)
  also have "Fields v = [v]" using assms(3,4) by (rule Fields_word)
  finally show ?thesis .
qed

end
