(* ===== verification/Tenant_Identity.thy ===== *)
theory Tenant_Identity
  imports Go_Runes
begin

text \<open>
  The names of tenants and the identity bound to an operation: \<open>internal/domain/tenant.go\<close> and
  \<open>internal/tenancy/context.go\<close>. A context is \<open>None\<close> for Go's nil context, otherwise what \<open>Value\<close>
  answers for the key of the package. The lemmas say which keys are accepted and that an operation
  is never bound to a malformed identity.
\<close>

abbreviation DefaultTenantID :: int where "DefaultTenantID \<equiv> 1"
abbreviation DefaultTenantKey :: string where "DefaultTenantKey \<equiv> ''default''"
definition MaxTenantKeyLength :: nat where "MaxTenantKeyLength = 63"
definition MaxTenantNameLength :: nat where "MaxTenantNameLength = 120"

section \<open>Names\<close>

text \<open>
  The loop over the runes of a key; a byte outside of ASCII starts no rune of the accepted set, and
  before it the index of a rune is the index of its byte.
\<close>

fun valid_tenant_key_runes :: "nat \<Rightarrow> string \<Rightarrow> bool" where
  "valid_tenant_key_runes i [] = True"
| "valid_tenant_key_runes i (r # rs) =
     (let valid = (CHR ''a'' \<le> r \<and> r \<le> CHR ''z'');
          valid = (if i > 0 then valid \<or> CHR ''0'' \<le> r \<and> r \<le> CHR ''9'' \<or> r = CHR ''-'' else valid)
      in valid \<and> valid_tenant_key_runes (i + 1) rs)"

definition NormalizeTenantKey :: "string \<Rightarrow> string result" where
  "NormalizeTenantKey raw =
     (let key = TrimSpace raw in
      if key = [] \<or> length key > MaxTenantKeyLength then
        Inl (invariant_error ''tenant key must contain 1 to 63 characters'')
      else if \<not> valid_tenant_key_runes 0 key then
        Inl (invariant_error
          ''tenant key must start with a lowercase letter and contain only lowercase letters, digits, or hyphens'')
      else if last key = CHR ''-'' \<or> Contains key ''--'' then
        Inl (invariant_error ''tenant key must not end with or repeat hyphens'')
      else Inr key)"

definition NormalizeTenantName :: "string \<Rightarrow> string result" where
  "NormalizeTenantName raw =
     (let name = TrimSpace raw in
      if name = [] \<or> \<not> valid_utf8 name \<or> RuneCountInString name > MaxTenantNameLength
         \<or> list_ex (\<lambda>c. c \<in> {CHR 0x00, CHR 0x0D, CHR 0x0A}) name then
        Inl (invariant_error
          ''tenant name must be valid UTF-8, non-empty, single-line, and at most 120 characters'')
      else Inr name)"

definition ValidateTenantStatus :: "string \<Rightarrow> unit result" where
  "ValidateTenantStatus status =
     (if status = ''active'' \<or> status = ''disabled'' then Inr ()
      else Inl (invariant_error ''tenant status is unsupported''))"

definition ValidateTenantMembershipRole :: "string \<Rightarrow> unit result" where
  "ValidateTenantMembershipRole role =
     (if role = ''owner'' \<or> role = ''member'' then Inr ()
      else Inl (invariant_error ''tenant membership role is unsupported''))"

section \<open>Identities\<close>

record Identity =
  id_ID :: int
  id_Key :: string

definition DefaultIdentity :: Identity where
  "DefaultIdentity = \<lparr>id_ID = DefaultTenantID, id_Key = DefaultTenantKey\<rparr>"

definition NewIdentity :: "int \<Rightarrow> string \<Rightarrow> Identity result" where
  "NewIdentity i key =
     (if i \<le> 0 then Inl (invariant_error ''tenancy: tenant id must be positive'')
      else case NormalizeTenantKey key of
        Inl e \<Rightarrow> Inl (wrap_error ''tenancy'' e)
      | Inr normalized \<Rightarrow>
          if normalized \<noteq> key then
            Inl (invariant_error ''tenancy: tenant key must already be normalized'')
          else Inr \<lparr>id_ID = i, id_Key = key\<rparr>)"

section \<open>Contexts\<close>

type_synonym tenant_context = "Identity option option"

definition WithTenant :: "tenant_context \<Rightarrow> Identity \<Rightarrow> tenant_context result" where
  "WithTenant parent identity =
     (case parent of
        None \<Rightarrow> Inl (invariant_error ''tenancy: parent context must be non-nil'')
      | Some _ \<Rightarrow> bindE (NewIdentity (id_ID identity) (id_Key identity)) (\<lambda>validated. Inr (Some (Some validated))))"

definition FromContext :: "tenant_context \<Rightarrow> Identity option" where
  "FromContext ctx =
     (case ctx of
        Some (Some identity) \<Rightarrow> if id_ID identity \<le> 0 \<or> id_Key identity = [] then None else Some identity
      | _ \<Rightarrow> None)"

definition tenancy_Require :: "tenant_context \<Rightarrow> Identity result" where
  "tenancy_Require ctx =
     (case FromContext ctx of
        None \<Rightarrow> Inl (GoErr ''tenancy: tenant identity is missing'' [ErrPreconditionFailed])
      | Some identity \<Rightarrow> Inr identity)"

definition EnsureDefault :: "tenant_context \<Rightarrow> tenant_context" where
  "EnsureDefault ctx =
     (case ctx of None \<Rightarrow> None
      | Some _ \<Rightarrow> if FromContext ctx \<noteq> None then ctx else Some (Some DefaultIdentity))"

section \<open>Accepted identities\<close>

definition tenant_key_ok :: "string \<Rightarrow> bool" where
  "tenant_key_ok key \<longleftrightarrow> NormalizeTenantKey key = Inr key"

lemma valid_tenant_key_runes_iff:
  "valid_tenant_key_runes i key \<longleftrightarrow>
     (\<forall>j < length key. CHR ''a'' \<le> key ! j \<and> key ! j \<le> CHR ''z'' \<or>
        0 < i + j \<and> (CHR ''0'' \<le> key ! j \<and> key ! j \<le> CHR ''9'' \<or> key ! j = CHR ''-''))"
  by (induction i key rule: valid_tenant_key_runes.induct) (auto simp: Let_def All_less_Suc2)

lemma NewIdentity_Inr:
  "NewIdentity i key = Inr x \<longleftrightarrow> 0 < i \<and> tenant_key_ok key \<and> x = \<lparr>id_ID = i, id_Key = key\<rparr>"
  by (auto simp: NewIdentity_def tenant_key_ok_def split: sum.splits)

lemma tenant_key_ok_nonempty: "tenant_key_ok key \<Longrightarrow> key \<noteq> [] \<and> length key \<le> 63"
  by (auto simp: tenant_key_ok_def NormalizeTenantKey_def Let_def MaxTenantKeyLength_def split: if_splits)

lemma tenant_key_ok_trimmed: "tenant_key_ok key \<Longrightarrow> TrimSpace key = key"
  by (auto simp: tenant_key_ok_def NormalizeTenantKey_def Let_def split: if_splits)

lemma default_tenant_key_ok: "tenant_key_ok DefaultTenantKey"
  by code_simp

lemma NewIdentity_again:
  "NewIdentity i key = Inr x \<Longrightarrow> NewIdentity (id_ID x) (id_Key x) = Inr x"
  by (auto simp: NewIdentity_Inr)

lemma WithTenant_FromContext:
  assumes "WithTenant (Some c) identity = Inr ctx"
  shows "FromContext ctx = Some identity"
  using assms tenant_key_ok_nonempty
  by (auto simp: WithTenant_def bindE_eq_Inr_iff NewIdentity_Inr FromContext_def)

lemma EnsureDefault_bound:
  "tenancy_Require (EnsureDefault (Some c)) =
     Inr (case FromContext (Some c) of None \<Rightarrow> DefaultIdentity | Some i \<Rightarrow> i)"
  by (auto simp: EnsureDefault_def tenancy_Require_def FromContext_def DefaultIdentity_def split: option.splits)

end
