(* ===== verification/Auth_Ticket.thy ===== *)
theory Auth_Ticket
  imports Go_Text Tenant_Identity
begin

text \<open>
  \<open>internal/usecases/diagnosisauth/auth.go\<close>: the single-use tickets with which a browser opens the
  WebSocket of a diagnosis room. The random bytes of a token are an argument (the answer of
  \<open>io.ReadFull\<close>). The store is an interface of the code, so the operations of the service take it as a
  record of functions; the locale \<open>ticket_store\<close> states what they rely on, and the in-memory store of
  the same file is one interpretation (the PostgreSQL store is another, in \<open>Auth_Ticket_Store\<close>).
  Copies made against aliasing (\<open>cloneTicket\<close>, \<open>append\<close> to nil) are the values themselves.
\<close>

section \<open>Data\<close>

abbreviation AuthRoleOwner :: string where "AuthRoleOwner \<equiv> ''owner''"
abbreviation AuthRoleAdmin :: string where "AuthRoleAdmin \<equiv> ''admin''"

record AuthPrincipal =
  ap_Subject :: string
  ap_Roles :: "string list"
  ap_Claims :: string
  ap_TenantID :: int
  ap_TenantKey :: string

record SessionRef =
  sr_SessionID :: string
  sr_OwnerSubject :: string

record TicketPolicy =
  tp_TTL :: go_duration
  tp_TokenBytes :: int
  tp_Scope :: string

record Ticket =
  tk_Token :: string
  tk_Subject :: string
  tk_Roles :: "string list"
  tk_TenantID :: int
  tk_TenantKey :: string
  tk_SessionID :: string
  tk_Scope :: string
  tk_IssuedAt :: go_time
  tk_ExpiresAt :: go_time
  tk_ConsumedAt :: "go_time option"

definition HardMaxTicketTTL :: go_duration where "HardMaxTicketTTL = 30000000000"
definition MinTokenBytes :: int where "MinTokenBytes = 16"
definition MaxTokenBytes :: int where "MaxTokenBytes = 64"

definition DefaultTicketPolicy :: TicketPolicy where
  "DefaultTicketPolicy = \<lparr>tp_TTL = 30000000000, tp_TokenBytes = 32, tp_Scope = ''diagnosis_ws''\<rparr>"

section \<open>Checks\<close>

definition ValidateTicketPolicy :: "TicketPolicy \<Rightarrow> unit result" where
  "ValidateTicketPolicy policy =
     (if tp_TTL policy \<le> 0 \<or> tp_TTL policy > HardMaxTicketTTL then
        Inl (invariant_error ''diagnosis auth: ticket ttl must be in (0,30s]'')
      else if tp_TokenBytes policy < MinTokenBytes \<or> tp_TokenBytes policy > MaxTokenBytes then
        Inl (invariant_error ''diagnosis auth: token bytes must be in [16,64]'')
      else if TrimSpace (tp_Scope policy) = [] then
        Inl (invariant_error ''diagnosis auth: ticket scope must be non-empty'')
      else Inr ())"

definition AuthorizeSessionAccess :: "AuthPrincipal \<Rightarrow> SessionRef \<Rightarrow> unit result" where
  "AuthorizeSessionAccess user session =
     (if TrimSpace (ap_Subject user) = [] then
        Inl (GoErr ''diagnosis auth: principal subject is required'' [ErrUnauthenticated])
      else if TrimSpace (sr_SessionID session) = [] then
        Inl (invariant_error ''diagnosis auth: session id is required'')
      else if TrimSpace (sr_OwnerSubject session) = [] then
        Inl (invariant_error ''diagnosis auth: session owner is required'')
      else if AuthRoleAdmin \<in> set (ap_Roles user) then Inr ()
      else if AuthRoleOwner \<in> set (ap_Roles user) \<and> ap_Subject user = sr_OwnerSubject session then Inr ()
      else Inl (GoErr ''diagnosis auth: subject cannot access session'' [ErrUnauthorized]))"

definition validateTicket :: "Ticket \<Rightarrow> unit result" where
  "validateTicket t =
     (if TrimSpace (tk_Token t) = [] then
        Inl (invariant_error ''diagnosis auth: ticket token is required'')
      else if TrimSpace (tk_Subject t) = [] then
        Inl (invariant_error ''diagnosis auth: ticket subject is required'')
      else case NewIdentity (tk_TenantID t) (tk_TenantKey t) of
        Inl _ \<Rightarrow> Inl (invariant_error ''diagnosis auth: ticket tenant binding is invalid'')
      | Inr _ \<Rightarrow>
      if TrimSpace (tk_SessionID t) = [] then
        Inl (invariant_error ''diagnosis auth: ticket session id is required'')
      else if TrimSpace (tk_Scope t) = [] then
        Inl (invariant_error ''diagnosis auth: ticket scope is required'')
      else if IsZero (tk_IssuedAt t) then
        Inl (invariant_error ''diagnosis auth: ticket issued_at is required'')
      else if \<not> tk_ExpiresAt t > tk_IssuedAt t then
        Inl (invariant_error ''diagnosis auth: ticket expiry must be after issue time'')
      else Inr ())"

text \<open>\<open>session.go\<close>: the tenant a principal is bound to.\<close>

definition sessionTenantIdentity :: "AuthPrincipal \<Rightarrow> Identity result" where
  "sessionTenantIdentity user =
     (if ap_TenantID user = 0 \<and> TrimSpace (ap_TenantKey user) = [] then Inr DefaultIdentity
      else if ap_TenantID user \<le> 0 \<or> TrimSpace (ap_TenantKey user) = [] then
        Inl (invariant_error ''diagnosis auth session: tenant binding must include id and key'')
      else case NewIdentity (ap_TenantID user) (ap_TenantKey user) of
        Inl e \<Rightarrow> Inl (wrap_error ''diagnosis auth session: tenant binding'' e)
      | Inr identity \<Rightarrow> Inr identity)"

text \<open>\<open>io.ReadFull\<close> answers with as many bytes as asked for, or with an error.\<close>

definition randomToken :: "string result \<Rightarrow> string result" where
  "randomToken random =
     (case random of
        Inl e \<Rightarrow> Inl (wrap_error ''diagnosis auth: generate ticket token'' e)
      | Inr buf \<Rightarrow> Inr (b64_encode buf))"

section \<open>The service\<close>

record 's ticket_ops =
  op_save :: "Ticket \<Rightarrow> 's \<Rightarrow> 's \<times> unit result"
  op_consume :: "string \<Rightarrow> go_time \<Rightarrow> 's \<Rightarrow> 's \<times> Ticket result"

text \<open>The ticket that a call of the service draws up, before it is saved.\<close>

definition new_ticket ::
  "TicketPolicy \<Rightarrow> string result \<Rightarrow> AuthPrincipal \<Rightarrow> string \<Rightarrow> go_time \<Rightarrow> Ticket result" where
  "new_ticket policy random user sessionID now =
     bindE (sessionTenantIdentity user) (\<lambda>identity.
     bindE (randomToken random) (\<lambda>token.
       let ticket = \<lparr>tk_Token = token, tk_Subject = ap_Subject user, tk_Roles = ap_Roles user,
             tk_TenantID = id_ID identity, tk_TenantKey = id_Key identity, tk_SessionID = sessionID,
             tk_Scope = tp_Scope policy, tk_IssuedAt = now, tk_ExpiresAt = now + tp_TTL policy,
             tk_ConsumedAt = None\<rparr>
       in bindE (validateTicket ticket) (\<lambda>_. Inr ticket)))"

definition issueAuthorizedTicket ::
  "'s ticket_ops \<Rightarrow> TicketPolicy \<Rightarrow> string result \<Rightarrow> AuthPrincipal \<Rightarrow> string \<Rightarrow> go_time \<Rightarrow> 's
   \<Rightarrow> 's \<times> Ticket result" where
  "issueAuthorizedTicket ops policy random user sessionID now s =
     (case new_ticket policy random user sessionID now of
        Inl e \<Rightarrow> (s, Inl e)
      | Inr ticket \<Rightarrow>
          (case op_save ops ticket s of
             (s, Inl e) \<Rightarrow> (s, Inl e)
           | (s, Inr _) \<Rightarrow> (s, Inr ticket)))"

definition IssueTicket ::
  "'s ticket_ops \<Rightarrow> TicketPolicy \<Rightarrow> string result \<Rightarrow> AuthPrincipal \<Rightarrow> SessionRef \<Rightarrow> go_time \<Rightarrow> 's
   \<Rightarrow> 's \<times> Ticket result" where
  "IssueTicket ops policy random user session now s =
     (if IsZero now then (s, Inl (invariant_error ''diagnosis auth: now must be set''))
      else case AuthorizeSessionAccess user session of
        Inl e \<Rightarrow> (s, Inl e)
      | Inr _ \<Rightarrow> issueAuthorizedTicket ops policy random user (sr_SessionID session) now s)"

definition IssueAuthorizedTicket ::
  "'s ticket_ops \<Rightarrow> TicketPolicy \<Rightarrow> string result \<Rightarrow> AuthPrincipal \<Rightarrow> string \<Rightarrow> go_time \<Rightarrow> 's
   \<Rightarrow> 's \<times> Ticket result" where
  "IssueAuthorizedTicket ops policy random user sessionID now s =
     (if IsZero now then (s, Inl (invariant_error ''diagnosis auth: now must be set''))
      else if TrimSpace (ap_Subject user) = [] then
        (s, Inl (GoErr ''diagnosis auth: principal subject is required'' [ErrUnauthenticated]))
      else if TrimSpace sessionID = [] then
        (s, Inl (invariant_error ''diagnosis auth: session id is required''))
      else issueAuthorizedTicket ops policy random user sessionID now s)"

definition consumeAuthorizedTicket ::
  "'s ticket_ops \<Rightarrow> TicketPolicy \<Rightarrow> string \<Rightarrow> string \<Rightarrow> go_time \<Rightarrow> 's \<Rightarrow> 's \<times> Ticket result" where
  "consumeAuthorizedTicket ops policy token sessionID now s =
     (if TrimSpace token = [] then
        (s, Inl (GoErr ''diagnosis auth: ticket token is required'' [ErrUnauthenticated]))
      else if IsZero now then (s, Inl (invariant_error ''diagnosis auth: now must be set''))
      else case op_consume ops token now s of
        (s, Inl e) \<Rightarrow> (s, Inl e)
      | (s, Inr ticket) \<Rightarrow>
          if tk_Scope ticket \<noteq> tp_Scope policy then
            (s, Inl (GoErr ''diagnosis auth: ticket scope does not match'' [ErrUnauthorized]))
          else if tk_SessionID ticket \<noteq> sessionID then
            (s, Inl (GoErr ''diagnosis auth: ticket session does not match'' [ErrUnauthorized]))
          else (s, Inr (ticket\<lparr>tk_Token := []\<rparr>)))"

definition ticket_principal :: "Ticket \<Rightarrow> AuthPrincipal" where
  "ticket_principal t = \<lparr>ap_Subject = tk_Subject t, ap_Roles = tk_Roles t, ap_Claims = [],
     ap_TenantID = tk_TenantID t, ap_TenantKey = tk_TenantKey t\<rparr>"

definition ConsumeTicket ::
  "'s ticket_ops \<Rightarrow> TicketPolicy \<Rightarrow> string \<Rightarrow> SessionRef \<Rightarrow> go_time \<Rightarrow> 's \<Rightarrow> 's \<times> Ticket result" where
  "ConsumeTicket ops policy token session now s =
     (if TrimSpace (sr_SessionID session) = [] then
        (s, Inl (invariant_error ''diagnosis auth: session id is required''))
      else case consumeAuthorizedTicket ops policy token (sr_SessionID session) now s of
        (s, Inl e) \<Rightarrow> (s, Inl e)
      | (s, Inr ticket) \<Rightarrow>
          (case AuthorizeSessionAccess (ticket_principal ticket) session of
             Inl e \<Rightarrow> (s, Inl e)
           | Inr _ \<Rightarrow> (s, Inr ticket)))"

definition ConsumeAuthorizedTicket ::
  "'s ticket_ops \<Rightarrow> TicketPolicy \<Rightarrow> string \<Rightarrow> string \<Rightarrow> go_time \<Rightarrow> 's \<Rightarrow> 's \<times> Ticket result" where
  "ConsumeAuthorizedTicket ops policy token sessionID now s =
     (if TrimSpace sessionID = [] then
        (s, Inl (invariant_error ''diagnosis auth: session id is required''))
      else consumeAuthorizedTicket ops policy token sessionID now s)"

section \<open>The in-memory store\<close>

type_synonym memory_store = "string \<Rightarrow> Ticket option"

definition Memory_SaveTicket :: "Ticket \<Rightarrow> memory_store \<Rightarrow> memory_store \<times> unit result" where
  "Memory_SaveTicket ticket s =
     (case validateTicket ticket of
        Inl e \<Rightarrow> (s, Inl e)
      | Inr _ \<Rightarrow>
          if s (tk_Token ticket) \<noteq> None then
            (s, Inl (GoErr ''diagnosis auth: ticket already exists'' [ErrAlreadyExists]))
          else (s(tk_Token ticket \<mapsto> ticket), Inr ()))"

definition Memory_ConsumeTicket :: "string \<Rightarrow> go_time \<Rightarrow> memory_store \<Rightarrow> memory_store \<times> Ticket result" where
  "Memory_ConsumeTicket token now s =
     (case s token of
        None \<Rightarrow> (s, Inl (GoErr ''diagnosis auth: ticket not found'' [ErrUnauthenticated]))
      | Some ticket \<Rightarrow>
          if tk_ConsumedAt ticket \<noteq> None then
            (s, Inl (GoErr ''diagnosis auth: ticket already consumed'' [ErrTicketConsumed]))
          else if \<not> now < tk_ExpiresAt ticket then
            (s, Inl (GoErr ''diagnosis auth: ticket expired'' [ErrTicketExpired]))
          else let ticket = ticket\<lparr>tk_ConsumedAt := Some now\<rparr> in (s(token \<mapsto> ticket), Inr ticket))"

definition memory_ops :: "memory_store ticket_ops" where
  "memory_ops = \<lparr>op_save = Memory_SaveTicket, op_consume = Memory_ConsumeTicket\<rparr>"

end
