(* ===== verification/Ticket_Contract.thy ===== *)
theory Ticket_Contract
  imports Auth_Ticket
begin

text \<open>
  What the ticket service relies on in its store (\<open>diagnosisauth.Store\<close>), as a locale, and what
  follows for any sequence of calls of the service: a ticket is consumed at most once, and only what
  the service drew up and saved, for the same session and in time, is ever consumed. A store may lose
  the acknowledgement of a save (\<open>lost\<close>): the ticket is there and the call that saved it answers with
  an error. The in-memory store is the first interpretation.
\<close>

section \<open>Calls of the service\<close>

datatype ticket_call =
    CallIssue AuthPrincipal SessionRef go_time "string result"
  | CallIssueAuthorized AuthPrincipal string go_time "string result"
  | CallConsume string SessionRef go_time
  | CallConsumeAuthorized string string go_time

fun ticket_call_run ::
  "'s ticket_ops \<Rightarrow> TicketPolicy \<Rightarrow> ticket_call \<Rightarrow> 's \<Rightarrow> 's \<times> Ticket result" where
  "ticket_call_run ops policy (CallIssue user session now random) s = IssueTicket ops policy random user session now s"
| "ticket_call_run ops policy (CallIssueAuthorized user sid now random) s =
     IssueAuthorizedTicket ops policy random user sid now s"
| "ticket_call_run ops policy (CallConsume token session now) s = ConsumeTicket ops policy token session now s"
| "ticket_call_run ops policy (CallConsumeAuthorized token sid now) s =
     ConsumeAuthorizedTicket ops policy token sid now s"

text \<open>A run and its log; each call meets its own environment.\<close>

fun ticket_run ::
  "('e \<Rightarrow> 's ticket_ops) \<Rightarrow> TicketPolicy \<Rightarrow> ('e \<times> ticket_call) list \<Rightarrow> 's
   \<Rightarrow> 's \<times> (ticket_call \<times> Ticket result) list" where
  "ticket_run ops policy [] s = (s, [])"
| "ticket_run ops policy ((e, c) # cs) s =
     (let (s, r) = ticket_call_run (ops e) policy c s; (s, log) = ticket_run ops policy cs s in (s, (c, r) # log))"

fun consumed_token :: "ticket_call \<times> Ticket result \<Rightarrow> string option" where
  "consumed_token (CallConsume token session now, Inr t) = Some token"
| "consumed_token (CallConsumeAuthorized token sid now, Inr t) = Some token"
| "consumed_token _ = None"

text \<open>The ticket that an issuing call saves, if it passes its checks.\<close>

fun saved_ticket :: "TicketPolicy \<Rightarrow> ticket_call \<Rightarrow> Ticket option" where
  "saved_ticket policy (CallIssue user session now random) =
     (if IsZero now \<or> isl (AuthorizeSessionAccess user session) then None
      else (case new_ticket policy random user (sr_SessionID session) now of Inr t \<Rightarrow> Some t | Inl _ \<Rightarrow> None))"
| "saved_ticket policy (CallIssueAuthorized user sid now random) =
     (if IsZero now \<or> TrimSpace (ap_Subject user) = [] \<or> TrimSpace sid = [] then None
      else (case new_ticket policy random user sid now of Inr t \<Rightarrow> Some t | Inl _ \<Rightarrow> None))"
| "saved_ticket policy _ = None"

fun call_session :: "ticket_call \<Rightarrow> string" where
  "call_session (CallIssue user session now random) = sr_SessionID session"
| "call_session (CallIssueAuthorized user sid now random) = sid"
| "call_session (CallConsume token session now) = sr_SessionID session"
| "call_session (CallConsumeAuthorized token sid now) = sid"

fun call_time :: "ticket_call \<Rightarrow> go_time" where
  "call_time (CallIssue user session now random) = now"
| "call_time (CallIssueAuthorized user sid now random) = now"
| "call_time (CallConsume token session now) = now"
| "call_time (CallConsumeAuthorized token sid now) = now"

section \<open>The contract\<close>

definition anonymous :: "Ticket \<Rightarrow> Ticket" where
  "anonymous t = t\<lparr>tk_Token := []\<rparr>"

lemma anonymous_fields:
  assumes "anonymous u = anonymous t"
  shows "tk_Scope u = tk_Scope t" "tk_SessionID u = tk_SessionID t" "tk_Subject u = tk_Subject t"
    "tk_Roles u = tk_Roles t" "tk_IssuedAt u = tk_IssuedAt t" "tk_ExpiresAt u = tk_ExpiresAt t"
    "tk_ConsumedAt u = tk_ConsumedAt t"
  using arg_cong [OF assms, of tk_Scope] arg_cong [OF assms, of tk_SessionID] arg_cong [OF assms, of tk_Subject]
    arg_cong [OF assms, of tk_Roles] arg_cong [OF assms, of tk_IssuedAt] arg_cong [OF assms, of tk_ExpiresAt]
    arg_cong [OF assms, of tk_ConsumedAt]
  by (simp_all add: anonymous_def)

text \<open>What a ticket that is drawn up says.\<close>

lemma new_ticket_Inr:
  assumes "new_ticket policy random user sid now = Inr t"
  shows "tk_Subject t = ap_Subject user" "tk_SessionID t = sid"
    "tk_Scope t = tp_Scope policy" "tk_IssuedAt t = now" "tk_ExpiresAt t = now + tp_TTL policy" "tk_ConsumedAt t = None"
  using assms by (auto simp: new_ticket_def bindE_eq_Inr_iff Let_def)

text \<open>A call that failed, or that stored nothing else than the consumption of one ticket.\<close>

definition spends :: "(string \<Rightarrow> Ticket option) \<Rightarrow> string \<Rightarrow> go_time \<Rightarrow> (string \<Rightarrow> Ticket option) \<Rightarrow> bool" where
  "spends v k at v' \<longleftrightarrow>
     (\<exists>t. v k = Some t \<and> tk_ConsumedAt t = None \<and> v' = v(k \<mapsto> t\<lparr>tk_ConsumedAt := Some at\<rparr>))"

text \<open>The ticket that a call with the answer \<open>u\<close> consumed: still valid, and of the session of the call.\<close>

definition admitted :: "(go_time \<Rightarrow> go_time) \<Rightarrow> TicketPolicy \<Rightarrow> ticket_call \<Rightarrow> Ticket \<Rightarrow> Ticket \<Rightarrow> bool" where
  "admitted clock policy c u t \<longleftrightarrow> clock (call_time c) < tk_ExpiresAt t \<and> tk_Scope t = tp_Scope policy \<and>
     tk_SessionID t = call_session c \<and> tk_Subject u = tk_Subject t"

definition same_but_consumed :: "Ticket \<Rightarrow> Ticket \<Rightarrow> bool" where
  "same_but_consumed t t' \<longleftrightarrow> t\<lparr>tk_ConsumedAt := None\<rparr> = t'\<lparr>tk_ConsumedAt := None\<rparr>"

lemma same_but_consumed [simp]: "same_but_consumed t t" "same_but_consumed t (t'\<lparr>tk_ConsumedAt := x\<rparr>) = same_but_consumed t t'"
  by (simp_all add: same_but_consumed_def)

lemma same_but_consumed_fields:
  assumes "same_but_consumed t t'"
  shows "tk_SessionID t = tk_SessionID t'" "tk_ExpiresAt t = tk_ExpiresAt t'" "tk_Subject t = tk_Subject t'"
  using arg_cong [OF assms [unfolded same_but_consumed_def], of tk_SessionID]
    arg_cong [OF assms [unfolded same_but_consumed_def], of tk_ExpiresAt]
    arg_cong [OF assms [unfolded same_but_consumed_def], of tk_Subject]
  by simp_all

text \<open>
  Where a ticket of the store comes from: it was there already, or a call of the log saved it, and
  was answered with it unless the acknowledgement was lost. A log entry comes with its environment.
\<close>

definition ticket_origin ::
  "(string \<Rightarrow> string) \<Rightarrow> (Ticket \<Rightarrow> Ticket) \<Rightarrow> ('e \<Rightarrow> bool) \<Rightarrow> TicketPolicy \<Rightarrow> (string \<Rightarrow> Ticket option)
   \<Rightarrow> ('e \<times> ticket_call \<times> Ticket result) list \<Rightarrow> string \<Rightarrow> Ticket \<Rightarrow> bool" where
  "ticket_origin key stored lost policy v log k t \<longleftrightarrow>
     (\<exists>t'. v k = Some t' \<and> same_but_consumed t t') \<or>
     (\<exists>(e, c, r) \<in> set log. \<exists>i. saved_ticket policy c = Some i \<and> (r = Inr i \<or> isl r \<and> lost e) \<and>
        key (tk_Token i) = k \<and> tk_SessionID i = call_session c \<and> tk_ExpiresAt i = call_time c + tp_TTL policy \<and>
        same_but_consumed t (stored i))"

lemma spends_same:
  "v' = v \<or> (\<exists>k at. spends v k at v') \<Longrightarrow> v' k0 = Some t' \<Longrightarrow> \<exists>t''. v k0 = Some t'' \<and> same_but_consumed t' t''"
  by (auto simp: spends_def same_but_consumed_def split: if_splits)

lemma ticket_origin_before:
  assumes "ticket_origin key stored lost policy v' log k t"
    and "\<And>t'. v' k = Some t' \<Longrightarrow> same_but_consumed t t' \<Longrightarrow> ticket_origin key stored lost policy v (x # log) k t"
  shows "ticket_origin key stored lost policy v (x # log) k t"
  using assms unfolding ticket_origin_def by (elim disjE exE conjE) (blast, simp)

locale ticket_store =
  fixes ops :: "'e \<Rightarrow> 's ticket_ops" and key :: "string \<Rightarrow> string" and view :: "'s \<Rightarrow> string \<Rightarrow> Ticket option"
    and inv :: "'s \<Rightarrow> bool" and stored :: "Ticket \<Rightarrow> Ticket" and clock :: "go_time \<Rightarrow> go_time"
    and lost :: "'e \<Rightarrow> bool"
  assumes save_error: "inv s \<Longrightarrow> op_save (ops e) t s = (s', Inl x) \<Longrightarrow> s' = s \<or> lost e \<and>
      inv s' \<and> view s (key (tk_Token t)) = None \<and> view s' = (view s)(key (tk_Token t) \<mapsto> stored t)"
    and save_ok: "inv s \<Longrightarrow> op_save (ops e) t s = (s', Inr u) \<Longrightarrow>
      inv s' \<and> view s (key (tk_Token t)) = None \<and> view s' = (view s)(key (tk_Token t) \<mapsto> stored t)"
    and consume_error: "inv s \<Longrightarrow> op_consume (ops e) tok now s = (s', Inl x) \<Longrightarrow>
      inv s' \<and> (view s' = view s \<or> (\<exists>t. view s (key tok) = Some t \<and> tk_ConsumedAt t = None \<and>
        view s' = (view s)(key tok \<mapsto> t\<lparr>tk_ConsumedAt := Some (clock now)\<rparr>)))"
    and consume_ok: "inv s \<Longrightarrow> op_consume (ops e) tok now s = (s', Inr r) \<Longrightarrow>
      inv s' \<and> (\<exists>t. view s (key tok) = Some t \<and> tk_ConsumedAt t = None \<and> clock now < tk_ExpiresAt t \<and>
        view s' = (view s)(key tok \<mapsto> t\<lparr>tk_ConsumedAt := Some (clock now)\<rparr>) \<and>
        anonymous r = anonymous (t\<lparr>tk_ConsumedAt := Some (clock now)\<rparr>))"
    and stored: "tk_SessionID (stored t) = tk_SessionID t" "tk_ExpiresAt (stored t) = clock (tk_ExpiresAt t)"
      "tk_Subject (stored t) = tk_Subject t"
begin

lemma consume_cases:
  assumes "inv s" "consumeAuthorizedTicket (ops e) policy tok sid now s = (s', r)"
  obtains (fails) x where "r = Inl x" "inv s'" "view s' = view s \<or> spends (view s) (key tok) (clock now) (view s')"
    | (ok) t u where "r = Inr u" "inv s'" "view s (key tok) = Some t" "clock now < tk_ExpiresAt t"
        "spends (view s) (key tok) (clock now) (view s')" "tk_Scope t = tp_Scope policy" "tk_SessionID t = sid"
        "tk_Subject u = tk_Subject t" "tk_Roles u = tk_Roles t"
proof (cases "TrimSpace tok = [] \<or> IsZero now")
  case True
  with assms fails show thesis by (auto simp: consumeAuthorizedTicket_def split: if_splits)
next
  case False
  obtain s1 q where q: "op_consume (ops e) tok now s = (s1, q)" by (cases "op_consume (ops e) tok now s")
  show thesis
  proof (cases q)
    case (Inl x)
    with False q assms(2) have "s' = s1" "r = Inl x" by (auto simp: consumeAuthorizedTicket_def)
    with consume_error [OF assms(1)] q Inl fails show thesis by (metis spends_def)
  next
    case (Inr u)
    with consume_ok [OF assms(1)] q obtain t where t: "inv s1" "view s (key tok) = Some t" "clock now < tk_ExpiresAt t"
      "spends (view s) (key tok) (clock now) (view s1)"
      "anonymous u = anonymous (t\<lparr>tk_ConsumedAt := Some (clock now)\<rparr>)" by (metis spends_def)
    from anonymous_fields [OF t(5)] have f: "tk_Scope u = tk_Scope t" "tk_SessionID u = tk_SessionID t"
      "tk_Subject u = tk_Subject t" "tk_Roles u = tk_Roles t" by simp_all
    show thesis
    proof (cases "tk_Scope u = tp_Scope policy \<and> tk_SessionID u = sid")
      case True
      with False q Inr assms(2) have "s' = s1" "r = Inr (u\<lparr>tk_Token := []\<rparr>)" by (auto simp: consumeAuthorizedTicket_def)
      with t f True ok show thesis by simp
    next
      case no: False
      with False q Inr assms(2) obtain x where "s' = s1" "r = Inl x"
        by (auto simp: consumeAuthorizedTicket_def split: if_splits)
      with t fails show thesis by metis
    qed
  qed
qed

lemma issue_cases:
  assumes "inv s" "issueAuthorizedTicket (ops e) policy random user sid now s = (s', r)"
  obtains (fails) x where "r = Inl x" "s' = s"
    | (ok) t where "new_ticket policy random user sid now = Inr t" "r = Inr t \<or> isl r \<and> lost e" "inv s'"
        "view s (key (tk_Token t)) = None" "view s' = (view s)(key (tk_Token t) \<mapsto> stored t)" "tk_SessionID t = sid"
        "tk_ExpiresAt t = now + tp_TTL policy" "tk_ConsumedAt t = None"
proof (cases "new_ticket policy random user sid now")
  case (Inl x)
  with assms(2) have "r = Inl x" "s' = s" by (simp_all add: issueAuthorizedTicket_def)
  with fails show thesis by blast
next
  case new: (Inr t)
  note f = new_ticket_Inr [OF new]
  obtain s1 q where q: "op_save (ops e) t s = (s1, q)" by (cases "op_save (ops e) t s")
  show thesis
  proof (cases q)
    case (Inl x)
    with q new assms(2) have r: "s' = s1" "r = Inl x" by (simp_all add: issueAuthorizedTicket_def)
    with q Inl have "op_save (ops e) t s = (s', Inl x)" by simp
    from save_error [OF assms(1) this] consider "s' = s"
      | "lost e" "inv s'" "view s (key (tk_Token t)) = None" "view s' = (view s)(key (tk_Token t) \<mapsto> stored t)"
      by (elim disjE conjE)
    then show thesis
    proof cases
      case 1
      with r fails show thesis by blast
    next
      case 2
      then show thesis by - (rule ok [OF new], use r f in simp_all)
    qed
  next
    case (Inr u)
    with q new assms(2) have r: "s' = s1" "r = Inr t" by (simp_all add: issueAuthorizedTicket_def)
    with q Inr have "op_save (ops e) t s = (s', Inr u)" by simp
    from save_ok [OF assms(1) this] have "inv s'" "view s (key (tk_Token t)) = None"
      "view s' = (view s)(key (tk_Token t) \<mapsto> stored t)" by blast+
    then show thesis by - (rule ok [OF new], use r f in simp_all)
  qed
qed

lemma call_cases:
  assumes "inv s" "ticket_call_run (ops e) policy c s = (s', r)"
  obtains (nothing) "inv s'" "consumed_token (c, r) = None"
        "view s' = view s \<or> (\<exists>k at. spends (view s) k at (view s'))"
    | (issued) t where "inv s'" "consumed_token (c, r) = None" "saved_ticket policy c = Some t"
        "r = Inr t \<or> isl r \<and> lost e"
        "view s (key (tk_Token t)) = None" "view s' = (view s)(key (tk_Token t) \<mapsto> stored t)"
        "tk_SessionID t = call_session c" "tk_ExpiresAt t = call_time c + tp_TTL policy" "tk_ConsumedAt t = None"
    | (consumed) tok u t where "inv s'" "consumed_token (c, r) = Some tok" "r = Inr u"
        "view s (key tok) = Some t" "admitted clock policy c u t" "spends (view s) (key tok) (clock (call_time c)) (view s')"
proof (cases c)
  case (CallIssue user session now random)
  have no_token: "consumed_token (c, r) = None" by (simp add: CallIssue)
  consider x where "r = Inl x" "s' = s"
    | "issueAuthorizedTicket (ops e) policy random user (sr_SessionID session) now s = (s', r)"
        "\<not> IsZero now" "AuthorizeSessionAccess user session = Inr ()"
    using assms(2) CallIssue by (auto simp: IssueTicket_def split: if_splits sum.splits)
  then show thesis
  proof cases
    case 1
    with assms(1) no_token show thesis by - (rule nothing, simp_all)
  next
    case 2
    from assms(1) 2(1) show thesis
    proof (cases rule: issue_cases)
      case fails
      with assms(1) no_token show thesis by - (rule nothing, simp_all)
    next
      case (ok t)
      with CallIssue 2 no_token show thesis by - (rule issued [of t], simp_all)
    qed
  qed
next
  case (CallIssueAuthorized user sid now random)
  have no_token: "consumed_token (c, r) = None" by (simp add: CallIssueAuthorized)
  consider x where "r = Inl x" "s' = s"
    | "issueAuthorizedTicket (ops e) policy random user sid now s = (s', r)"
        "\<not> IsZero now" "TrimSpace (ap_Subject user) \<noteq> []" "TrimSpace sid \<noteq> []"
    using assms(2) CallIssueAuthorized by (auto simp: IssueAuthorizedTicket_def split: if_splits)
  then show thesis
  proof cases
    case 1
    with assms(1) no_token show thesis by - (rule nothing, simp_all)
  next
    case 2
    from assms(1) 2(1) show thesis
    proof (cases rule: issue_cases)
      case fails
      with assms(1) no_token show thesis by - (rule nothing, simp_all)
    next
      case (ok t)
      with CallIssueAuthorized 2 no_token show thesis by - (rule issued [of t], simp_all)
    qed
  qed
next
  case (CallConsumeAuthorized token sid now)
  consider x where "r = Inl x" "s' = s" | "consumeAuthorizedTicket (ops e) policy token sid now s = (s', r)"
    using assms(2) CallConsumeAuthorized by (auto simp: ConsumeAuthorizedTicket_def split: if_splits)
  then show thesis
  proof cases
    case 1
    with assms(1) CallConsumeAuthorized show thesis by - (rule nothing, simp_all)
  next
    case 2
    from assms(1) 2 show thesis
    proof (cases rule: consume_cases)
      case fails
      with CallConsumeAuthorized show thesis by - (rule nothing, auto)
    next
      case (ok t u)
      then show thesis
        by - (rule consumed [of token u t], auto simp: CallConsumeAuthorized admitted_def)
    qed
  qed
next
  case (CallConsume token session now)
  show thesis
  proof (cases "TrimSpace (sr_SessionID session) = []")
    case True
    with assms CallConsume show thesis by - (rule nothing, auto simp: ConsumeTicket_def)
  next
    case False
    obtain s1 q where q: "consumeAuthorizedTicket (ops e) policy token (sr_SessionID session) now s = (s1, q)"
      by (cases "consumeAuthorizedTicket (ops e) policy token (sr_SessionID session) now s")
    from assms(1) q show thesis
    proof (cases rule: consume_cases)
      case (fails x)
      with q False assms(2) CallConsume have "s' = s1" "r = Inl x" by (simp_all add: ConsumeTicket_def)
      with fails CallConsume show thesis by - (rule nothing, auto)
    next
      case (ok t u)
      show thesis
      proof (cases "AuthorizeSessionAccess (ticket_principal u) session")
        case (Inl x)
        with q False assms(2) CallConsume ok(1) have "s' = s1" "r = Inl x" by (simp_all add: ConsumeTicket_def)
        with ok CallConsume show thesis by - (rule nothing, auto)
      next
        case (Inr a)
        with q False assms(2) CallConsume ok(1) have "s' = s1" "r = Inr u" by (simp_all add: ConsumeTicket_def)
        with ok show thesis by - (rule consumed [of token u t], auto simp: CallConsume admitted_def)
      qed
    qed
  qed
qed

text \<open>A consumed ticket stays as it is, and no later call consumes its key.\<close>

lemma spends_keeps:
  assumes "v k = Some t" "tk_ConsumedAt t \<noteq> None" "spends v k' at v'"
  shows "v' k = Some t" "k' \<noteq> k"
  using assms by (auto simp: spends_def)

lemma call_keeps:
  assumes "inv s" "ticket_call_run (ops e) policy c s = (s', r)" "view s k = Some t" "tk_ConsumedAt t \<noteq> None"
  shows "inv s' \<and> view s' k = Some t \<and> (\<forall>tok. consumed_token (c, r) = Some tok \<longrightarrow> key tok \<noteq> k)"
  using assms(1,2)
proof (cases rule: call_cases)
  case nothing
  then show ?thesis using assms(3,4) by (auto simp: spends_def)
next
  case (issued t')
  then show ?thesis using assms(3) by auto
next
  case (consumed tok u t')
  then show ?thesis using spends_keeps [OF assms(3,4) consumed(6)] by simp
qed

lemma run_keeps:
  assumes "inv s" "view s k = Some t" "tk_ConsumedAt t \<noteq> None"
  shows "\<forall>x \<in> set (snd (ticket_run ops policy cs s)). \<forall>tok. consumed_token x = Some tok \<longrightarrow> key tok \<noteq> k"
  using assms
proof (induction cs arbitrary: s)
  case (Cons ec cs)
  obtain e c where ec: "ec = (e, c)" by (cases ec)
  obtain s1 r where r: "ticket_call_run (ops e) policy c s = (s1, r)" by (cases "ticket_call_run (ops e) policy c s")
  note k = call_keeps [OF Cons.prems(1) r Cons.prems(2,3)]
  with Cons.IH [of s1] Cons.prems(3) show ?case by (auto simp: ec r split: prod.splits)
qed simp

text \<open>No ticket is consumed twice.\<close>

lemma run_consumes_once:
  assumes "inv s"
  shows "distinct (map key (List.map_filter consumed_token (snd (ticket_run ops policy cs s))))"
  using assms
proof (induction cs arbitrary: s)
  case (Cons ec cs)
  obtain e c where ec: "ec = (e, c)" by (cases ec)
  obtain s1 r where r: "ticket_call_run (ops e) policy c s = (s1, r)" by (cases "ticket_call_run (ops e) policy c s")
  let ?log = "snd (ticket_run ops policy cs s1)"
  have log: "snd (ticket_run ops policy (ec # cs) s) = (c, r) # ?log" by (simp add: ec r split: prod.splits)
  from Cons.prems r show ?case
  proof (cases rule: call_cases)
    case nothing
    with Cons.IH [of s1] show ?thesis by (simp add: log List.map_filter_simps)
  next
    case issued
    with Cons.IH [of s1] show ?thesis by (simp add: log List.map_filter_simps)
  next
    case (consumed tok u t)
    then obtain t' where "view s1 (key tok) = Some t'" "tk_ConsumedAt t' \<noteq> None" by (auto simp: spends_def)
    from run_keeps [OF consumed(1) this, of policy cs] have "key tok \<notin> key ` set (List.map_filter consumed_token ?log)"
      by (auto simp: List.map_filter_def image_iff)
    with Cons.IH [of s1] consumed(1,2) show ?thesis by (simp add: log List.map_filter_simps)
  qed
qed (simp add: List.map_filter_simps)

lemma run_origin:
  assumes "inv s" "ticket_run ops policy cs s = (s', log)" "log = l1 @ (c, Inr u) # l2"
    and "consumed_token (c, Inr u) = Some tok"
  shows "\<exists>t. ticket_origin key stored lost policy (view s) (zip (map fst cs) l1) (key tok) t \<and>
    admitted clock policy c u t"
  using assms
proof (induction cs arbitrary: s log l1)
  case (Cons ec cs)
  obtain e c0 where ec: "ec = (e, c0)" by (cases ec)
  obtain s1 r where r: "ticket_call_run (ops e) policy c0 s = (s1, r)" by (cases "ticket_call_run (ops e) policy c0 s")
  obtain log1 where l: "ticket_run ops policy cs s1 = (s', log1)" "log = (c0, r) # log1"
    using Cons.prems(2) by (auto simp: ec r split: prod.splits)
  let ?from = "\<lambda>v l. ticket_origin key stored lost policy v l (key tok)"
  show ?case
  proof (cases l1)
    case Nil
    then have c: "c = c0" "r = Inr u" using Cons.prems(3) l(2) by auto
    from Cons.prems(1) r show ?thesis
    proof (cases rule: call_cases)
      case (consumed tok' u' t)
      then have "?from (view s) (zip (map fst (ec # cs)) l1) t"
        using Cons.prems(4) c by (auto simp: ticket_origin_def)
      then show ?thesis using consumed c by auto
    qed (use Cons.prems(4) c in auto)
  next
    case (Cons x l1')
    then have x: "x = (c0, r)" "log1 = l1' @ (c, Inr u) # l2" using Cons.prems(3) l(2) by auto
    have z: "zip (map fst (ec # cs)) l1 = (e, c0, r) # zip (map fst cs) l1'" by (simp add: Cons x(1) ec)
    have "inv s1" using Cons.prems(1) r by (cases rule: call_cases) auto
    from Cons.IH [OF this l(1) x(2) Cons.prems(4)] obtain t where
      t: "?from (view s1) (zip (map fst cs) l1') t" "admitted clock policy c u t" by blast
    have unspent: "?from (view s) ((e, c0, r) # zip (map fst cs) l1') t"
      if "view s1 = view s \<or> (\<exists>k at. spends (view s) k at (view s1))" "view s1 (key tok) = Some t'" "same_but_consumed t t'" for t'
      using spends_same [OF that(1,2)] that(3) unfolding ticket_origin_def by (auto simp: same_but_consumed_def)
    have "?from (view s) ((e, c0, r) # zip (map fst cs) l1') t" using t(1)
    proof (rule ticket_origin_before)
      fix t' assume t': "view s1 (key tok) = Some t'" "same_but_consumed t t'"
      from Cons.prems(1) r show "?from (view s) ((e, c0, r) # zip (map fst cs) l1') t"
      proof (cases rule: call_cases)
        case nothing
        with unspent t' show ?thesis by blast
      next
        case (issued i)
        show ?thesis
        proof (cases "key (tk_Token i) = key tok")
          case True
          then have "t' = stored i" using t'(1) issued(6) by simp
          with issued True t'(2) show ?thesis unfolding ticket_origin_def by auto
        next
          case False
          then show ?thesis using t' issued(6) unfolding ticket_origin_def by auto
        qed
      next
        case consumed
        with unspent t' show ?thesis by blast
      qed
    qed
    with t(2) show ?thesis unfolding z by blast
  qed
qed simp

text \<open>Started without tickets: what is consumed was saved for the session, and is used before its end.\<close>

lemma run_issued_before:
  assumes "inv s" "\<And>k. view s k = None" "ticket_run ops policy cs s = (s', l1 @ (c, Inr u) # l2)"
    and "consumed_token (c, Inr u) = Some tok"
  obtains e0 c0 r0 i where "(e0, c0, r0) \<in> set (zip (map fst cs) l1)" "saved_ticket policy c0 = Some i"
    "r0 = Inr i \<or> isl r0 \<and> lost e0" "key (tk_Token i) = key tok"
    "call_session c0 = call_session c" "clock (call_time c) < clock (call_time c0 + tp_TTL policy)"
    "tk_Subject i = tk_Subject u"
proof -
  from run_origin [OF assms(1,3) HOL.refl assms(4)] obtain t where
    t: "ticket_origin key stored lost policy (view s) (zip (map fst cs) l1) (key tok) t" "admitted clock policy c u t"
    by blast
  then obtain e0 c0 r0 i where i: "(e0, c0, r0) \<in> set (zip (map fst cs) l1)" "saved_ticket policy c0 = Some i"
    "r0 = Inr i \<or> isl r0 \<and> lost e0" "key (tk_Token i) = key tok"
    "tk_SessionID i = call_session c0" "tk_ExpiresAt i = call_time c0 + tp_TTL policy" "same_but_consumed t (stored i)"
    using assms(2) unfolding ticket_origin_def by fastforce
  have f: "tk_SessionID t = tk_SessionID i" "tk_ExpiresAt t = clock (tk_ExpiresAt i)" "tk_Subject t = tk_Subject i"
    using same_but_consumed_fields [OF i(7)] stored by simp_all
  show thesis
    by (rule that [OF i(1-4)]) (use i f t(2) in \<open>auto simp: admitted_def\<close>)
qed

end

section \<open>The in-memory store\<close>

lemma Memory_SaveTicket_Inr:
  "Memory_SaveTicket t s = (s', Inr u) \<longleftrightarrow>
     validateTicket t = Inr () \<and> s (tk_Token t) = None \<and> s' = s(tk_Token t \<mapsto> t)"
  by (auto simp: Memory_SaveTicket_def split: sum.splits)

interpretation memory: ticket_store "\<lambda>_ :: unit. memory_ops" id id "\<lambda>_. True" id id "\<lambda>_. False"
proof
  fix s s' t x and e :: unit
  assume "op_save memory_ops t s = (s', Inl x)"
  then show "s' = s \<or> False \<and> True \<and> id s (id (tk_Token t)) = None \<and> id s' = (id s)(id (tk_Token t) \<mapsto> id t)"
    by (auto simp: memory_ops_def Memory_SaveTicket_def split: sum.splits if_splits)
next
  fix s s' t u and e :: unit
  assume "op_save memory_ops t s = (s', Inr u)"
  then show "True \<and> id s (id (tk_Token t)) = None \<and> id s' = (id s)(id (tk_Token t) \<mapsto> id t)"
    by (simp add: memory_ops_def Memory_SaveTicket_Inr)
next
  fix s s' :: memory_store and tok now x and e :: unit
  assume "op_consume memory_ops tok now s = (s', Inl x)"
  then have "s' = s" by (auto simp: memory_ops_def Memory_ConsumeTicket_def Let_def split: option.splits if_splits)
  then show "True \<and> (id s' = id s \<or> (\<exists>t. id s (id tok) = Some t \<and> tk_ConsumedAt t = None \<and>
    id s' = (id s)(id tok \<mapsto> t\<lparr>tk_ConsumedAt := Some (id now)\<rparr>)))" by simp
next
  fix s s' :: memory_store and tok now r and e :: unit
  assume "op_consume memory_ops tok now s = (s', Inr r)"
  then show "True \<and> (\<exists>t. id s (id tok) = Some t \<and> tk_ConsumedAt t = None \<and> id now < tk_ExpiresAt t \<and>
    id s' = (id s)(id tok \<mapsto> t\<lparr>tk_ConsumedAt := Some (id now)\<rparr>) \<and>
    anonymous r = anonymous (t\<lparr>tk_ConsumedAt := Some (id now)\<rparr>))"
    by (auto simp: memory_ops_def Memory_ConsumeTicket_def Let_def split: option.splits if_splits)
qed simp_all

end
