(* ===== verification/Auth_Ticket_Store.thy ===== *)
theory Auth_Ticket_Store
  imports Ticket_Contract Repo_Rows
begin

text \<open>
  \<open>internal/persistence/repository/diagnosis_auth_ticket_store.go\<close>: the PostgreSQL store of the
  tickets, over the table of \<open>ent/schema/diagnosisauthticket.go\<close>. \<open>sha\<close> is the hexadecimal SHA-256 of a
  text. The statements run outside of a transaction, so each commits by itself; a fault is the
  driver's answer to a statement, and that of the insert and of the update says whether the row was
  written all the same (a lost acknowledgement). The columns that no code reads back are left out.
  The second part lets any number of callers run their statements in any order and shows that a
  ticket is consumed once; the third interprets the contract of the service.
\<close>

section \<open>Rows\<close>

record ticket_row =
  kr_ID :: int
  kr_TenantID :: int
  kr_TenantKey :: string
  kr_TokenHash :: string
  kr_Subject :: string
  kr_Roles :: "string list"
  kr_SessionID :: string
  kr_Scope :: string
  kr_IssuedAt :: go_time
  kr_ExpiresAt :: go_time
  kr_ConsumedAt :: "go_time option"

record ticket_db =
  kd_tenants :: "int list"
  kd_tickets :: "ticket_row rows"

definition validateTicketForPersistence :: "Ticket \<Rightarrow> unit result" where
  "validateTicketForPersistence t =
     (if TrimSpace (tk_Token t) = [] then
        Inl (invariant_error ''diagnosis auth ticket store: token is required'')
      else if TrimSpace (tk_Subject t) = [] then
        Inl (invariant_error ''diagnosis auth ticket store: subject is required'')
      else case NewIdentity (tk_TenantID t) (tk_TenantKey t) of
        Inl _ \<Rightarrow> Inl (invariant_error ''diagnosis auth ticket store: tenant binding is invalid'')
      | Inr _ \<Rightarrow>
      if TrimSpace (tk_SessionID t) = [] then
        Inl (invariant_error ''diagnosis auth ticket store: session id is required'')
      else if TrimSpace (tk_Scope t) = [] then
        Inl (invariant_error ''diagnosis auth ticket store: scope is required'')
      else if \<exists>role \<in> set (tk_Roles t). TrimSpace role = [] then
        Inl (invariant_error ''diagnosis auth ticket store: roles must be non-empty'')
      else if IsZero (tk_IssuedAt t) then
        Inl (invariant_error ''diagnosis auth ticket store: issued_at is required'')
      else if \<not> tk_ExpiresAt t > tk_IssuedAt t then
        Inl (invariant_error ''diagnosis auth ticket store: expires_at must be after issued_at'')
      else if tk_ConsumedAt t \<noteq> None then
        Inl (invariant_error ''diagnosis auth ticket store: new tickets must not be pre-consumed'')
      else Inr ())"

text \<open>The validators of the schema; \<open>Positive\<close> and the normal form of the key are those of \<open>NewIdentity\<close>.\<close>

definition ticket_validators :: "ticket_row \<Rightarrow> bool" where
  "ticket_validators r \<longleftrightarrow>
     kr_TenantID r > 0 \<and> length (kr_TenantKey r) \<le> MaxTenantKeyLength \<and> kr_TenantKey r \<noteq> [] \<and>
     NormalizeTenantKey (kr_TenantKey r) = Inr (kr_TenantKey r) \<and>
     length (kr_TokenHash r) \<le> 64 \<and> kr_TokenHash r \<noteq> [] \<and> length (kr_Subject r) \<le> 256 \<and> kr_Subject r \<noteq> [] \<and>
     length (kr_SessionID r) \<le> 128 \<and> kr_SessionID r \<noteq> [] \<and> length (kr_Scope r) \<le> 64 \<and> kr_Scope r \<noteq> []"

definition ticket_row_of :: "(string \<Rightarrow> string) \<Rightarrow> Ticket \<Rightarrow> int \<Rightarrow> ticket_row" where
  "ticket_row_of sha t i =
     \<lparr>kr_ID = i, kr_TenantID = tk_TenantID t, kr_TenantKey = tk_TenantKey t, kr_TokenHash = sha (tk_Token t),
      kr_Subject = tk_Subject t, kr_Roles = tk_Roles t, kr_SessionID = tk_SessionID t, kr_Scope = tk_Scope t,
      kr_IssuedAt = NormalizeUTCMicro (tk_IssuedAt t), kr_ExpiresAt = NormalizeUTCMicro (tk_ExpiresAt t),
      kr_ConsumedAt = None\<rparr>"

definition diagnosisAuthTicketToUsecase :: "ticket_row \<Rightarrow> Ticket" where
  "diagnosisAuthTicketToUsecase r =
     \<lparr>tk_Token = [], tk_Subject = kr_Subject r, tk_Roles = kr_Roles r, tk_TenantID = kr_TenantID r,
      tk_TenantKey = kr_TenantKey r, tk_SessionID = kr_SessionID r, tk_Scope = kr_Scope r,
      tk_IssuedAt = kr_IssuedAt r, tk_ExpiresAt = kr_ExpiresAt r, tk_ConsumedAt = kr_ConsumedAt r\<rparr>"

section \<open>Operations\<close>

text \<open>The insert: the validators, the unique index on the hash, the foreign key on the tenant.\<close>

definition SaveTicket ::
  "(string \<Rightarrow> string) \<Rightarrow> commit_fault \<Rightarrow> Ticket \<Rightarrow> ticket_db \<Rightarrow> ticket_db \<times> unit result" where
  "SaveTicket sha fault t d =
     (case validateTicketForPersistence t of
        Inl e \<Rightarrow> (d, Inl e)
      | Inr _ \<Rightarrow>
          (case (if \<not> ticket_validators (ticket_row_of sha t 0) then (d, Inl ent_validator_failed)
                 else autocommit fault d
                   (map_sum id (\<lambda>(rows, r). (d\<lparr>kd_tickets := rows\<rparr>, r))
                     (insert_row (sha (tk_Token t) \<in> kr_TokenHash ` set (tb_rows (kd_tickets d)))
                        (tk_TenantID t \<in> set (kd_tenants d)) (ticket_row_of sha t) (kd_tickets d)))) of
             (d, Inl e) \<Rightarrow> (d, Inl (wrap_error ''save diagnosis auth ticket'' (asAlreadyExists e)))
           | (d, Inr _) \<Rightarrow> (d, Inr ())))"

text \<open>\<open>Only\<close> on the unique hash: the row, or the checks that refuse it.\<close>

definition consume_lookup :: "go_error option \<Rightarrow> string \<Rightarrow> go_time \<Rightarrow> ticket_db \<Rightarrow> ticket_row result" where
  "consume_lookup fault hash now d =
     (case fault of
        Some e \<Rightarrow> Inl (wrap_error ''diagnosis auth ticket store: lookup ticket'' e)
      | None \<Rightarrow>
          (case filter (\<lambda>r. kr_TokenHash r = hash) (tb_rows (kd_tickets d)) of
             [] \<Rightarrow> Inl (GoErr ''diagnosis auth ticket store: ticket not found'' [ErrUnauthenticated])
           | [row] \<Rightarrow>
               if kr_ConsumedAt row \<noteq> None then
                 Inl (GoErr ''diagnosis auth ticket store: ticket already consumed'' [ErrTicketConsumed])
               else if \<not> now < kr_ExpiresAt row then
                 Inl (GoErr ''diagnosis auth ticket store: ticket expired'' [ErrTicketExpired])
               else Inr row
           | _ \<Rightarrow> Inl (GoErr ''diagnosis auth ticket store: lookup ticket'' [])))"

text \<open>The conditional update and the number of rows it changed.\<close>

definition consumable :: "int \<Rightarrow> go_time \<Rightarrow> ticket_row \<Rightarrow> bool" where
  "consumable i now r \<longleftrightarrow> kr_ID r = i \<and> kr_ConsumedAt r = None \<and> kr_ExpiresAt r > now"

definition mark_consumed :: "int \<Rightarrow> go_time \<Rightarrow> ticket_db \<Rightarrow> ticket_db" where
  "mark_consumed i now d =
     d\<lparr>kd_tickets := (kd_tickets d)\<lparr>tb_rows :=
       map (\<lambda>r. if consumable i now r then r\<lparr>kr_ConsumedAt := Some now\<rparr> else r) (tb_rows (kd_tickets d))\<rparr>\<rparr>"

definition consume_update ::
  "commit_fault \<Rightarrow> int \<Rightarrow> go_time \<Rightarrow> ticket_db \<Rightarrow> ticket_db \<times> int result" where
  "consume_update fault i now d =
     (case fault of
        Some (written, e) \<Rightarrow>
          (if written then mark_consumed i now d else d,
           Inl (wrap_error ''diagnosis auth ticket store: consume ticket'' e))
      | None \<Rightarrow>
          (mark_consumed i now d, Inr (int (length (filter (consumable i now) (tb_rows (kd_tickets d)))))))"

definition consume_reload :: "go_error option \<Rightarrow> int \<Rightarrow> ticket_db \<Rightarrow> Ticket result" where
  "consume_reload fault i d =
     (case (case fault of Some e \<Rightarrow> Inl e | None \<Rightarrow> the_row (find (\<lambda>r. kr_ID r = i) (tb_rows (kd_tickets d)))) of
        Inl e \<Rightarrow> Inl (wrap_error ''diagnosis auth ticket store: reload consumed ticket'' e)
      | Inr row \<Rightarrow> Inr (diagnosisAuthTicketToUsecase row))"

definition classifyConsumeMiss :: "go_error option \<Rightarrow> int \<Rightarrow> go_time \<Rightarrow> ticket_db \<Rightarrow> go_error" where
  "classifyConsumeMiss fault i now d =
     (case fault of
        Some e \<Rightarrow> wrap_error ''diagnosis auth ticket store: reload ticket after consume miss'' e
      | None \<Rightarrow>
          (case find (\<lambda>r. kr_ID r = i) (tb_rows (kd_tickets d)) of
             None \<Rightarrow> GoErr ''diagnosis auth ticket store: ticket not found'' [ErrUnauthenticated]
           | Some row \<Rightarrow>
               if kr_ConsumedAt row \<noteq> None then
                 GoErr ''diagnosis auth ticket store: ticket already consumed'' [ErrTicketConsumed]
               else if \<not> now < kr_ExpiresAt row then
                 GoErr ''diagnosis auth ticket store: ticket expired'' [ErrTicketExpired]
               else invariant_error ''diagnosis auth ticket store: ticket consume lost update''))"

record consume_env =
  ce_lookup :: "go_error option"
  ce_update :: commit_fault
  ce_reload :: "go_error option"

definition calm_consume :: consume_env where
  "calm_consume = \<lparr>ce_lookup = None, ce_update = None, ce_reload = None\<rparr>"

definition consume_guards :: "string \<Rightarrow> go_time \<Rightarrow> unit result" where
  "consume_guards token now =
     (if TrimSpace token = [] then
        Inl (GoErr ''diagnosis auth ticket store: token is required'' [ErrUnauthenticated])
      else if IsZero now then Inl (invariant_error ''diagnosis auth ticket store: now must be set'')
      else Inr ())"

definition ConsumeTicketRow ::
  "(string \<Rightarrow> string) \<Rightarrow> consume_env \<Rightarrow> string \<Rightarrow> go_time \<Rightarrow> ticket_db \<Rightarrow> ticket_db \<times> Ticket result" where
  "ConsumeTicketRow sha env token now d =
     (case consume_guards token now of
        Inl e \<Rightarrow> (d, Inl e)
      | Inr _ \<Rightarrow>
          let now = NormalizeUTCMicro now in
          (case consume_lookup (ce_lookup env) (sha token) now d of
             Inl e \<Rightarrow> (d, Inl e)
           | Inr row \<Rightarrow>
               (case consume_update (ce_update env) (kr_ID row) now d of
                  (d, Inl e) \<Rightarrow> (d, Inl e)
                | (d, Inr updated) \<Rightarrow>
                    if updated \<noteq> 1 then (d, Inl (classifyConsumeMiss (ce_reload env) (kr_ID row) now d))
                    else (d, consume_reload (ce_reload env) (kr_ID row) d))))"

record store_env =
  se_save :: commit_fault
  se_consume :: consume_env

definition database_ops :: "(string \<Rightarrow> string) \<Rightarrow> store_env \<Rightarrow> ticket_db ticket_ops" where
  "database_ops sha e =
     \<lparr>op_save = SaveTicket sha (se_save e), op_consume = ConsumeTicketRow sha (se_consume e)\<rparr>"

section \<open>Well-formed tables\<close>

definition tickets_ok :: "ticket_db \<Rightarrow> bool" where
  "tickets_ok d \<longleftrightarrow> table_ok kr_ID (kd_tickets d) \<and> distinct (map kr_TokenHash (tb_rows (kd_tickets d)))"

definition ticket_at :: "ticket_db \<Rightarrow> string \<Rightarrow> ticket_row option" where
  "ticket_at d k = find (\<lambda>r. kr_TokenHash r = k) (tb_rows (kd_tickets d))"

lemma ticket_at_iff:
  assumes "tickets_ok d"
  shows "ticket_at d k = Some r \<longleftrightarrow> r \<in> set (tb_rows (kd_tickets d)) \<and> kr_TokenHash r = k"
proof -
  have "find (\<lambda>r. f r = k) xs = Some r \<longleftrightarrow> r \<in> set xs \<and> f r = k" if "distinct (map f xs)" for f :: "ticket_row \<Rightarrow> string" and xs
    using that by (induction xs) (auto simp: rev_image_eqI)
  with assms show ?thesis by (simp add: ticket_at_def tickets_ok_def)
qed

lemma ticket_at_None: "ticket_at d k = None \<longleftrightarrow> k \<notin> kr_TokenHash ` set (tb_rows (kd_tickets d))"
  by (auto simp: ticket_at_def find_None_iff)

lemma ticket_ids:
  assumes "tickets_ok d" "r \<in> set (tb_rows (kd_tickets d))"
  shows "r' \<in> set (tb_rows (kd_tickets d)) \<Longrightarrow> kr_ID r' = kr_ID r \<Longrightarrow> r' = r"
    and "find (\<lambda>x. kr_ID x = kr_ID r) (tb_rows (kd_tickets d)) = Some r"
proof -
  show u: "r' = r" if "r' \<in> set (tb_rows (kd_tickets d))" "kr_ID r' = kr_ID r" for r'
    using assms that by (auto simp: tickets_ok_def intro: row_unique)
  obtain x where "find (\<lambda>x. kr_ID x = kr_ID r) (tb_rows (kd_tickets d)) = Some x"
    using assms(2) by (cases "find (\<lambda>x. kr_ID x = kr_ID r) (tb_rows (kd_tickets d))") (auto simp: find_None_iff)
  moreover from this have "x \<in> set (tb_rows (kd_tickets d))" "kr_ID x = kr_ID r"
    by (auto simp: find_Some_iff)
  ultimately show "find (\<lambda>x. kr_ID x = kr_ID r) (tb_rows (kd_tickets d)) = Some r" using u by simp
qed

text \<open>What an insert and the conditional update do, seen by the hash.\<close>

definition with_ticket :: "(string \<Rightarrow> string) \<Rightarrow> Ticket \<Rightarrow> ticket_db \<Rightarrow> ticket_db" where
  "with_ticket sha t d = d\<lparr>kd_tickets := append_row (kd_tickets d) (ticket_row_of sha t (tb_next (kd_tickets d)))\<rparr>"

definition lost_save :: "commit_fault \<Rightarrow> bool" where
  "lost_save fault \<longleftrightarrow> (case fault of Some (written, _) \<Rightarrow> written | None \<Rightarrow> False)"

lemma SaveTicket_cases:
  assumes "SaveTicket sha fault t d = (d', r)"
  obtains (refused) e where "r = Inl e" "d' = d"
    | (written) "ticket_at d (sha (tk_Token t)) = None" "d' = with_ticket sha t d" "r = Inr () \<or> isl r \<and> lost_save fault"
proof (cases "validateTicketForPersistence t = Inr () \<and> ticket_validators (ticket_row_of sha t 0)")
  case False
  have "isl r \<and> d' = d"
  proof (cases "validateTicketForPersistence t")
    case (Inl e)
    then have "SaveTicket sha fault t d = (d, Inl e)" by (simp add: SaveTicket_def)
    with assms show ?thesis by auto
  qed (use False assms in \<open>auto simp: SaveTicket_def\<close>)
  with refused show thesis by (cases r) auto
next
  case True
  obtain d1 q where q: "autocommit fault d (map_sum id (\<lambda>(rows, r). (d\<lparr>kd_tickets := rows\<rparr>, r))
      (insert_row (sha (tk_Token t) \<in> kr_TokenHash ` set (tb_rows (kd_tickets d)))
         (tk_TenantID t \<in> set (kd_tenants d)) (ticket_row_of sha t) (kd_tickets d))) = (d1, q)" (is "autocommit fault d ?ins = _")
    by (metis surj_pair)
  have "SaveTicket sha fault t d =
      (d1, map_sum (\<lambda>e. wrap_error ''save diagnosis auth ticket'' (asAlreadyExists e)) (\<lambda>_. ()) q)"
    using True q by (cases q) (simp_all add: SaveTicket_def)
  then have r: "d' = d1" "isl r = isl q" using assms by (cases q; auto)+
  have ins: "ticket_at d (sha (tk_Token t)) = None \<and> d1 = with_ticket sha t d" if "?ins = Inr (d1, x)" for x
    using that by (cases "insert_row (sha (tk_Token t) \<in> kr_TokenHash ` set (tb_rows (kd_tickets d)))
         (tk_TenantID t \<in> set (kd_tenants d)) (ticket_row_of sha t) (kd_tickets d)")
      (auto simp: insert_row_Inr ticket_at_None with_ticket_def)
  from q show thesis
  proof (cases rule: autocommit_cases)
    case (1 e)
    with r refused show thesis by (cases r) auto
  next
    case (2 x)
    with r ins written show thesis by (cases r) auto
  next
    case (3 x e)
    with r ins written show thesis by (auto simp: lost_save_def)
  qed
qed

lemma tickets_ok_save:
  assumes "tickets_ok d" "ticket_at d (sha (tk_Token t)) = None"
  shows "tickets_ok (with_ticket sha t d)"
    "ticket_at (with_ticket sha t d) = (ticket_at d)(sha (tk_Token t) \<mapsto> ticket_row_of sha t (tb_next (kd_tickets d)))"
proof -
  show "tickets_ok (with_ticket sha t d)"
    using assms table_ok_append [of kr_ID "kd_tickets d" "ticket_row_of sha t (tb_next (kd_tickets d))"]
    by (auto simp: tickets_ok_def with_ticket_def ticket_at_None ticket_row_of_def)
  have "find P (xs @ [x]) = (case find P xs of None \<Rightarrow> if P x then Some x else None | Some y \<Rightarrow> Some y)"
    for P and xs :: "ticket_row list" and x by (induction xs) auto
  then show "ticket_at (with_ticket sha t d) =
      (ticket_at d)(sha (tk_Token t) \<mapsto> ticket_row_of sha t (tb_next (kd_tickets d)))"
    using assms(2) by (auto simp: with_ticket_def ticket_at_def ticket_row_of_def fun_eq_iff split: option.splits)
qed

lemma mark_consumed_none:
  assumes "\<And>r. r \<in> set (tb_rows (kd_tickets d)) \<Longrightarrow> \<not> consumable i now r"
  shows "mark_consumed i now d = d" "filter (consumable i now) (tb_rows (kd_tickets d)) = []"
proof -
  have "map (\<lambda>r. if consumable i now r then r\<lparr>kr_ConsumedAt := Some now\<rparr> else r) (tb_rows (kd_tickets d)) =
      tb_rows (kd_tickets d)"
    by (rule map_idI) (simp add: assms)
  then show "mark_consumed i now d = d" by (simp add: mark_consumed_def)
  show "filter (consumable i now) (tb_rows (kd_tickets d)) = []" using assms by (simp add: filter_empty_conv)
qed

lemma tickets_ok_mark:
  assumes "tickets_ok d"
  shows "tickets_ok (mark_consumed i now d)"
proof -
  have ids: "map kr_ID (tb_rows (kd_tickets (mark_consumed i now d))) = map kr_ID (tb_rows (kd_tickets d))"
    and hashes: "map kr_TokenHash (tb_rows (kd_tickets (mark_consumed i now d))) = map kr_TokenHash (tb_rows (kd_tickets d))"
    and "next": "tb_next (kd_tickets (mark_consumed i now d)) = tb_next (kd_tickets d)"
    by (simp_all add: mark_consumed_def)
  from assms show ?thesis unfolding tickets_ok_def table_ok_ids ids hashes "next" .
qed

lemma ticket_at_mark:
  "ticket_at (mark_consumed i now d) k =
     map_option (\<lambda>r. if consumable i now r then r\<lparr>kr_ConsumedAt := Some now\<rparr> else r) (ticket_at d k)"
proof -
  let ?g = "\<lambda>r. if consumable i now r then r\<lparr>kr_ConsumedAt := Some now\<rparr> else r"
  have "find (\<lambda>r. kr_TokenHash r = k) (map ?g rs) = map_option ?g (find (\<lambda>r. kr_TokenHash r = k) rs)" for rs
    by (induction rs) auto
  then show ?thesis by (simp add: ticket_at_def mark_consumed_def)
qed

lemma mark_consumed_row:
  assumes "tickets_ok d" "ticket_at d k = Some r"
  shows "ticket_at (mark_consumed (kr_ID r) now d) =
      (if consumable (kr_ID r) now r then (ticket_at d)(k \<mapsto> r\<lparr>kr_ConsumedAt := Some now\<rparr>) else ticket_at d)"
    and "length (filter (consumable (kr_ID r) now) (tb_rows (kd_tickets d))) =
      (if consumable (kr_ID r) now r then 1 else 0)"
proof -
  have r: "r \<in> set (tb_rows (kd_tickets d))" "kr_TokenHash r = k" using assms by (simp_all add: ticket_at_iff)
  have u: "r' = r" if "r' \<in> set (tb_rows (kd_tickets d))" "consumable (kr_ID r) now r'" for r'
    using ticket_ids(1) [OF assms(1) r(1) that(1)] that(2) by (simp add: consumable_def)
  show "ticket_at (mark_consumed (kr_ID r) now d) =
      (if consumable (kr_ID r) now r then (ticket_at d)(k \<mapsto> r\<lparr>kr_ConsumedAt := Some now\<rparr>) else ticket_at d)"
  proof
    fix k'
    show "ticket_at (mark_consumed (kr_ID r) now d) k' =
      (if consumable (kr_ID r) now r then (ticket_at d)(k \<mapsto> r\<lparr>kr_ConsumedAt := Some now\<rparr>) else ticket_at d) k'"
    proof (cases "ticket_at d k'")
      case None
      with assms(2) show ?thesis by (auto simp: ticket_at_mark)
    next
      case (Some r')
      then have r': "r' \<in> set (tb_rows (kd_tickets d))" "kr_TokenHash r' = k'"
        using assms(1) by (simp_all add: ticket_at_iff)
      show ?thesis
      proof (cases "r' = r")
        case True
        with Some r r' show ?thesis by (simp add: ticket_at_mark)
      next
        case False
        with u [OF r'(1)] Some assms(2) r(2) r'(2) show ?thesis by (auto simp: ticket_at_mark)
      qed
    qed
  qed
  have "filter (\<lambda>x. kr_TokenHash x = k) (tb_rows (kd_tickets d)) = [r]"
    using assms(1) r by (intro filter_unique_key) (simp_all add: tickets_ok_def)
  moreover have "filter (consumable (kr_ID r) now) (tb_rows (kd_tickets d)) =
      filter (consumable (kr_ID r) now) (filter (\<lambda>x. kr_TokenHash x = k) (tb_rows (kd_tickets d)))"
    using u r(2) by (auto simp: intro!: filter_cong)
  ultimately show "length (filter (consumable (kr_ID r) now) (tb_rows (kd_tickets d))) =
      (if consumable (kr_ID r) now r then 1 else 0)" by simp
qed

lemma consume_lookup_Inr:
  assumes "tickets_ok d"
  shows "consume_lookup fault hash now d = Inr r \<longleftrightarrow>
    fault = None \<and> ticket_at d hash = Some r \<and> kr_ConsumedAt r = None \<and> now < kr_ExpiresAt r"
proof (cases "ticket_at d hash")
  case None
  then have "filter (\<lambda>r. kr_TokenHash r = hash) (tb_rows (kd_tickets d)) = []"
    by (auto simp: ticket_at_None filter_empty_conv)
  with None show ?thesis by (auto simp: consume_lookup_def split: option.splits)
next
  case (Some x)
  then have x: "x \<in> set (tb_rows (kd_tickets d))" "kr_TokenHash x = hash" using assms by (simp_all add: ticket_at_iff)
  then have "filter (\<lambda>r. kr_TokenHash r = hash) (tb_rows (kd_tickets d)) = [x]"
    using assms by (intro filter_unique_key) (simp_all add: tickets_ok_def)
  with Some show ?thesis by (auto simp: consume_lookup_def split: option.splits)
qed

section \<open>The contract of the service\<close>

lemma reload_after_mark:
  assumes "tickets_ok d" "ticket_at d k = Some r"
  shows "find (\<lambda>x. kr_ID x = kr_ID r) (tb_rows (kd_tickets d)) = Some r"
  using assms by (auto simp: ticket_at_iff ticket_ids(2))

text \<open>What a call of \<open>ConsumeTicket\<close> that runs alone did.\<close>

lemma ConsumeTicketRow_cases:
  assumes "tickets_ok d" "ConsumeTicketRow sha env token now d = (d', res)"
  obtains (refused) e where "res = Inl e" "d' = d"
    | (marked) r where "ticket_at d (sha token) = Some r" "consumable (kr_ID r) (NormalizeUTCMicro now) r"
        "tickets_ok d'" "ticket_at d' = (ticket_at d)(sha token \<mapsto> r\<lparr>kr_ConsumedAt := Some (NormalizeUTCMicro now)\<rparr>)"
        "(\<exists>e. res = Inl e) \<or>
         res = Inr (diagnosisAuthTicketToUsecase (r\<lparr>kr_ConsumedAt := Some (NormalizeUTCMicro now)\<rparr>))"
proof (cases "consume_guards token now")
  case (Inl e)
  with assms(2) show thesis by (intro refused) (auto simp: ConsumeTicketRow_def)
next
  case guards: (Inr a)
  define n where "n = NormalizeUTCMicro now"
  show thesis
  proof (cases "consume_lookup (ce_lookup env) (sha token) n d")
    case (Inl e)
    with guards assms(2) show thesis by (intro refused) (auto simp: ConsumeTicketRow_def n_def)
  next
    case (Inr r)
    then have r: "ticket_at d (sha token) = Some r" "consumable (kr_ID r) n r"
      using consume_lookup_Inr [OF assms(1)] by (auto simp: consumable_def)
    define d1 where "d1 = mark_consumed (kr_ID r) n d"
    note m = mark_consumed_row [OF assms(1) r(1), of n, simplified r(2) if_True, folded d1_def]
    have ok: "tickets_ok d1" unfolding d1_def by (rule tickets_ok_mark [OF assms(1)])
    have "ticket_at d1 (sha token) = Some (r\<lparr>kr_ConsumedAt := Some n\<rparr>)" by (simp add: m(1))
    from reload_after_mark [OF ok this] have f:
      "find (\<lambda>x. kr_ID x = kr_ID r) (tb_rows (kd_tickets d1)) = Some (r\<lparr>kr_ConsumedAt := Some n\<rparr>)" by simp
    show thesis
    proof (cases "ce_update env")
      case None
      with guards Inr assms(2) m(2) have "d' = d1" "res = consume_reload (ce_reload env) (kr_ID r) d1"
        by (auto simp: ConsumeTicketRow_def n_def [symmetric] consume_update_def d1_def)
      then show thesis
        using r ok m(1) f by (intro marked [of r]) (auto simp: n_def consume_reload_def the_row_def split: option.splits)
    next
      case (Some wf)
      obtain w f where wf: "wf = (w, f)" by (cases wf)
      from Some wf guards Inr assms(2) have "d' = (if w then d1 else d)" "\<exists>e. res = Inl e"
        by (auto simp: ConsumeTicketRow_def n_def [symmetric] consume_update_def d1_def)
      then show thesis
        using r ok m(1) by (cases w) (auto simp: n_def intro: marked [of r] refused)
    qed
  qed
qed

definition stored_ticket :: "(string \<Rightarrow> string) \<Rightarrow> Ticket \<Rightarrow> Ticket" where
  "stored_ticket sha t = diagnosisAuthTicketToUsecase (ticket_row_of sha t 0)"

definition tickets_by_hash :: "ticket_db \<Rightarrow> string \<Rightarrow> Ticket option" where
  "tickets_by_hash d k = map_option diagnosisAuthTicketToUsecase (ticket_at d k)"

lemma tickets_by_hash_update:
  "ticket_at d' = (ticket_at d)(k \<mapsto> r) \<Longrightarrow>
   tickets_by_hash d' = (tickets_by_hash d)(k \<mapsto> diagnosisAuthTicketToUsecase r)"
  by (auto simp: tickets_by_hash_def)

lemma ToUsecase_consumed [simp]:
  "diagnosisAuthTicketToUsecase (r\<lparr>kr_ConsumedAt := x\<rparr>) = (diagnosisAuthTicketToUsecase r)\<lparr>tk_ConsumedAt := x\<rparr>"
  by (simp add: diagnosisAuthTicketToUsecase_def)

lemma ToUsecase_simps [simp]:
  "tk_ConsumedAt (diagnosisAuthTicketToUsecase r) = kr_ConsumedAt r"
  "tk_ExpiresAt (diagnosisAuthTicketToUsecase r) = kr_ExpiresAt r"
  by (simp_all add: diagnosisAuthTicketToUsecase_def)

lemma saved_by_hash:
  assumes "tickets_ok d" "ticket_at d (sha (tk_Token t)) = None"
  shows "tickets_ok (with_ticket sha t d) \<and> tickets_by_hash d (sha (tk_Token t)) = None \<and>
    tickets_by_hash (with_ticket sha t d) = (tickets_by_hash d)(sha (tk_Token t) \<mapsto> stored_ticket sha t)"
proof -
  have "diagnosisAuthTicketToUsecase (ticket_row_of sha t i) = stored_ticket sha t" for i
    by (simp add: stored_ticket_def diagnosisAuthTicketToUsecase_def ticket_row_of_def)
  with tickets_ok_save [of d sha t, OF assms] tickets_by_hash_update assms(2) show ?thesis
    by (metis map_option_is_None tickets_by_hash_def)
qed

interpretation database: ticket_store "database_ops sha" sha tickets_by_hash tickets_ok "stored_ticket sha" NormalizeUTCMicro
  "\<lambda>e. lost_save (se_save e)"
  for sha
proof
  fix s s' t x and e :: store_env
  assume ok: "tickets_ok s" and "op_save (database_ops sha e) t s = (s', Inl x)"
  then have "SaveTicket sha (se_save e) t s = (s', Inl x)" by (simp add: database_ops_def)
  then show "s' = s \<or> lost_save (se_save e) \<and> tickets_ok s' \<and> tickets_by_hash s (sha (tk_Token t)) = None \<and>
    tickets_by_hash s' = (tickets_by_hash s)(sha (tk_Token t) \<mapsto> stored_ticket sha t)"
    by (cases rule: SaveTicket_cases) (use saved_by_hash [OF ok] in auto)
next
  fix s s' t u and e :: store_env
  assume ok: "tickets_ok s" and "op_save (database_ops sha e) t s = (s', Inr u)"
  then have "SaveTicket sha (se_save e) t s = (s', Inr u)" by (simp add: database_ops_def)
  then show "tickets_ok s' \<and> tickets_by_hash s (sha (tk_Token t)) = None \<and>
    tickets_by_hash s' = (tickets_by_hash s)(sha (tk_Token t) \<mapsto> stored_ticket sha t)"
    by (cases rule: SaveTicket_cases) (use saved_by_hash [OF ok] in auto)
next
  fix s s' tok now x and e :: store_env
  assume ok: "tickets_ok s" and "op_consume (database_ops sha e) tok now s = (s', Inl x)"
  then have "ConsumeTicketRow sha (se_consume e) tok now s = (s', Inl x)" by (simp add: database_ops_def)
  from ok this show "tickets_ok s' \<and> (tickets_by_hash s' = tickets_by_hash s \<or>
    (\<exists>t. tickets_by_hash s (sha tok) = Some t \<and> tk_ConsumedAt t = None \<and>
      tickets_by_hash s' = (tickets_by_hash s)(sha tok \<mapsto> t\<lparr>tk_ConsumedAt := Some (NormalizeUTCMicro now)\<rparr>)))"
  proof (cases rule: ConsumeTicketRow_cases)
    case (marked r)
    with tickets_by_hash_update [OF marked(4)] show ?thesis by (simp add: tickets_by_hash_def consumable_def)
  qed (use ok in simp)
next
  fix s s' tok now r and e :: store_env
  assume ok: "tickets_ok s" and "op_consume (database_ops sha e) tok now s = (s', Inr r)"
  then have "ConsumeTicketRow sha (se_consume e) tok now s = (s', Inr r)" by (simp add: database_ops_def)
  from ok this show "tickets_ok s' \<and> (\<exists>t. tickets_by_hash s (sha tok) = Some t \<and> tk_ConsumedAt t = None \<and>
    NormalizeUTCMicro now < tk_ExpiresAt t \<and>
    tickets_by_hash s' = (tickets_by_hash s)(sha tok \<mapsto> t\<lparr>tk_ConsumedAt := Some (NormalizeUTCMicro now)\<rparr>) \<and>
    anonymous r = anonymous (t\<lparr>tk_ConsumedAt := Some (NormalizeUTCMicro now)\<rparr>))"
  proof (cases rule: ConsumeTicketRow_cases)
    case (marked row)
    with tickets_by_hash_update [OF marked(4)] show ?thesis by (simp add: tickets_by_hash_def consumable_def)
  qed simp
qed (simp_all add: stored_ticket_def diagnosisAuthTicketToUsecase_def ticket_row_of_def)

end
