(* ===== verification/Ticket_Race.thy ===== *)
theory Ticket_Race
  imports Auth_Ticket_Store
begin

text \<open>
  Callers of \<open>ConsumeTicket\<close> that race on the PostgreSQL store: every caller is at one of the points
  between its statements, and tickets are saved meanwhile. A caller that runs alone does what
  \<open>ConsumeTicketRow\<close> says; however the statements of the callers mix, no ticket is handed out twice.
\<close>

section \<open>Callers\<close>

datatype consumer =
    Looking string go_time
  | Updating string go_time int
  | Reloading string int
  | Missed string go_time int
  | Consumed string Ticket
  | Refused string go_error

text \<open>The call: the guards, and the time in the resolution of the database.\<close>

definition consumer_start :: "string \<Rightarrow> go_time \<Rightarrow> consumer" where
  "consumer_start token now =
     (case consume_guards token now of
        Inl e \<Rightarrow> Refused token e
      | Inr _ \<Rightarrow> Looking token (NormalizeUTCMicro now))"

text \<open>The next statement of a caller.\<close>

fun consumer_stmt ::
  "(string \<Rightarrow> string) \<Rightarrow> consume_env \<Rightarrow> consumer \<Rightarrow> ticket_db \<Rightarrow> ticket_db \<times> consumer" where
  "consumer_stmt sha env (Looking token now) d =
     (case consume_lookup (ce_lookup env) (sha token) now d of
        Inl e \<Rightarrow> (d, Refused token e)
      | Inr row \<Rightarrow> (d, Updating token now (kr_ID row)))"
| "consumer_stmt sha env (Updating token now i) d =
     (case consume_update (ce_update env) i now d of
        (d, Inl e) \<Rightarrow> (d, Refused token e)
      | (d, Inr updated) \<Rightarrow> (d, if updated \<noteq> 1 then Missed token now i else Reloading token i))"
| "consumer_stmt sha env (Reloading token i) d =
     (case consume_reload (ce_reload env) i d of
        Inl e \<Rightarrow> (d, Refused token e)
      | Inr ticket \<Rightarrow> (d, Consumed token ticket))"
| "consumer_stmt sha env (Missed token now i) d = (d, Refused token (classifyConsumeMiss (ce_reload env) i now d))"
| "consumer_stmt sha env (Consumed token t) d = (d, Consumed token t)"
| "consumer_stmt sha env (Refused token e) d = (d, Refused token e)"

record race =
  rc_db :: ticket_db
  rc_callers :: "consumer list"

inductive race_step :: "(string \<Rightarrow> string) \<Rightarrow> race \<Rightarrow> race \<Rightarrow> bool" for sha where
  save: "SaveTicket sha fault t (rc_db s) = (d, r) \<Longrightarrow> race_step sha s (s\<lparr>rc_db := d\<rparr>)"
| call: "race_step sha s (s\<lparr>rc_callers := rc_callers s @ [consumer_start token now]\<rparr>)"
| stmt: "i < length (rc_callers s) \<Longrightarrow> consumer_stmt sha env (rc_callers s ! i) (rc_db s) = (d, c) \<Longrightarrow>
    race_step sha s \<lparr>rc_db = d, rc_callers = (rc_callers s)[i := c]\<rparr>"

inductive race_reach :: "(string \<Rightarrow> string) \<Rightarrow> ticket_db \<Rightarrow> race \<Rightarrow> bool" for sha d where
  init: "race_reach sha d \<lparr>rc_db = d, rc_callers = []\<rparr>"
| step: "race_reach sha d s \<Longrightarrow> race_step sha s s' \<Longrightarrow> race_reach sha d s'"

section \<open>One caller alone\<close>

fun consumer_answer :: "consumer \<Rightarrow> Ticket result" where
  "consumer_answer (Consumed token t) = Inr t"
| "consumer_answer (Refused token e) = Inl e"
| "consumer_answer _ = Inl (GoErr [] [])"

lemma consumer_alone:
  assumes "consumer_stmt sha env (consumer_start token now) d = (d1, c1)"
    and "consumer_stmt sha env c1 d1 = (d2, c2)" "consumer_stmt sha env c2 d2 = (d3, c3)"
  shows "ConsumeTicketRow sha env token now d = (d3, consumer_answer c3)"
  using assms
  by (auto simp: ConsumeTicketRow_def consumer_start_def Let_def split: sum.splits prod.splits if_splits)

section \<open>The ticket of a caller\<close>

text \<open>The hash a caller has taken: its update counted one row.\<close>

fun taken_hash :: "(string \<Rightarrow> string) \<Rightarrow> consumer \<Rightarrow> string option" where
  "taken_hash sha (Reloading token i) = Some (sha token)"
| "taken_hash sha (Consumed token t) = Some (sha token)"
| "taken_hash sha c = None"

text \<open>What a caller knows of the table.\<close>

fun caller_ok :: "(string \<Rightarrow> string) \<Rightarrow> ticket_db \<Rightarrow> consumer \<Rightarrow> bool" where
  "caller_ok sha d (Updating token now i) \<longleftrightarrow> (\<exists>r. ticket_at d (sha token) = Some r \<and> kr_ID r = i)"
| "caller_ok sha d (Missed token now i) \<longleftrightarrow> (\<exists>r. ticket_at d (sha token) = Some r \<and> kr_ID r = i)"
| "caller_ok sha d (Reloading token i) \<longleftrightarrow>
     (\<exists>r. ticket_at d (sha token) = Some r \<and> kr_ID r = i \<and> kr_ConsumedAt r \<noteq> None)"
| "caller_ok sha d (Consumed token t) \<longleftrightarrow>
     (\<exists>r. ticket_at d (sha token) = Some r \<and> kr_ConsumedAt r \<noteq> None \<and> t = diagnosisAuthTicketToUsecase r)"
| "caller_ok sha d _ \<longleftrightarrow> True"

definition race_inv :: "(string \<Rightarrow> string) \<Rightarrow> race \<Rightarrow> bool" where
  "race_inv sha s \<longleftrightarrow> tickets_ok (rc_db s) \<and> (\<forall>c \<in> set (rc_callers s). caller_ok sha (rc_db s) c) \<and>
     (\<forall>i < length (rc_callers s). \<forall>j < length (rc_callers s). i \<noteq> j \<longrightarrow>
        taken_hash sha (rc_callers s ! i) \<noteq> None \<longrightarrow>
        taken_hash sha (rc_callers s ! i) \<noteq> taken_hash sha (rc_callers s ! j))"

text \<open>The table only grows, and a row changes only by being consumed once.\<close>

definition table_grows :: "ticket_db \<Rightarrow> ticket_db \<Rightarrow> bool" where
  "table_grows d d' \<longleftrightarrow> (\<forall>k r. ticket_at d k = Some r \<longrightarrow>
     (\<exists>r'. ticket_at d' k = Some r' \<and> kr_ID r' = kr_ID r \<and> (kr_ConsumedAt r \<noteq> None \<longrightarrow> r' = r)))"

lemma table_grows_refl [simp]: "table_grows d d"
  by (simp add: table_grows_def)

lemma table_grows_save:
  assumes "tickets_ok d" "SaveTicket sha fault t d = (d', r)"
  shows "table_grows d d'" "tickets_ok d'"
proof -
  from assms(2) have "table_grows d d' \<and> tickets_ok d'"
    by (cases rule: SaveTicket_cases) (use assms(1) tickets_ok_save [OF assms(1)] in \<open>auto simp: table_grows_def\<close>)
  then show "table_grows d d'" "tickets_ok d'" by simp_all
qed

lemma table_grows_mark: "table_grows d (mark_consumed i now d)"
  by (auto simp: table_grows_def ticket_at_mark consumable_def)

lemma caller_ok_grows:
  assumes "table_grows d d'" "caller_ok sha d c"
  shows "caller_ok sha d' c"
  using assms by (cases "(sha, d, c)" rule: caller_ok.cases) (force simp: table_grows_def)+

lemma caller_stmt:
  assumes "tickets_ok d" "caller_ok sha d c" "consumer_stmt sha env c d = (d', c')"
  shows "tickets_ok d' \<and> table_grows d d' \<and> caller_ok sha d' c' \<and>
    (taken_hash sha c' = None \<or> taken_hash sha c' = taken_hash sha c \<or>
     (\<exists>k r. taken_hash sha c' = Some k \<and> ticket_at d k = Some r \<and> kr_ConsumedAt r = None))"
proof (cases c)
  case (Looking token now)
  with assms consume_lookup_Inr [OF assms(1), of "ce_lookup env" "sha token" now] show ?thesis
    by (cases "consume_lookup (ce_lookup env) (sha token) now d") auto
next
  case (Updating token now i)
  with assms(2) obtain r where r: "ticket_at d (sha token) = Some r" "kr_ID r = i" by auto
  note m = mark_consumed_row [OF assms(1) r(1), of now, unfolded r(2)]
  have g: "tickets_ok (mark_consumed i now d)" "table_grows d (mark_consumed i now d)"
    using tickets_ok_mark [OF assms(1)] table_grows_mark by simp_all
  show ?thesis
  proof (cases "ce_update env")
    case None
    let ?n = "length (filter (consumable i now) (tb_rows (kd_tickets d)))"
    from None Updating assms(3) have "(d', c') =
        (mark_consumed i now d, if int ?n \<noteq> 1 then Missed token now i else Reloading token i)"
      by (simp add: consume_update_def)
    moreover have "int ?n \<noteq> 1 \<longleftrightarrow> \<not> consumable i now r" by (simp only: m(2)) simp
    ultimately have c: "d' = mark_consumed i now d"
      "c' = (if consumable i now r then Reloading token i else Missed token now i)" by simp_all
    show ?thesis
    proof (cases "consumable i now r")
      case True
      with m(1) have "ticket_at d' (sha token) = Some (r\<lparr>kr_ConsumedAt := Some now\<rparr>)" by (simp add: c)
      with True c g r show ?thesis by (simp add: consumable_def)
    next
      case False
      with m(1) have "ticket_at d' (sha token) = Some r" by (simp add: c r(1))
      with False c g r show ?thesis by simp
    qed
  next
    case (Some f)
    with Updating assms(1,3) g show ?thesis
      by (auto simp: consume_update_def split: prod.splits)
  qed
next
  case (Reloading token i)
  with assms(2) obtain r where r: "ticket_at d (sha token) = Some r" "kr_ID r = i" "kr_ConsumedAt r \<noteq> None" by auto
  with reload_after_mark [OF assms(1) r(1)] have "find (\<lambda>x. kr_ID x = i) (tb_rows (kd_tickets d)) = Some r" by simp
  with Reloading assms r show ?thesis
    by (auto simp: consume_reload_def the_row_def split: option.splits)
qed (use assms in auto)

lemma race_step_inv:
  assumes "race_inv sha s" "race_step sha s s'"
  shows "race_inv sha s'"
  using assms(2)
proof cases
  case (save fault t d r)
  with assms(1) table_grows_save [OF _ save(2)] caller_ok_grows show ?thesis by (auto simp: race_inv_def)
next
  case (call token now)
  have "taken_hash sha (consumer_start token now) = None" "caller_ok sha (rc_db s) (consumer_start token now)"
    by (simp_all add: consumer_start_def split: sum.split)
  with assms(1) call show ?thesis by (auto simp: race_inv_def nth_append less_Suc_eq)
next
  case (stmt i env d c)
  let ?cs = "rc_callers s"
  have ok: "tickets_ok (rc_db s)" "\<forall>x \<in> set ?cs. caller_ok sha (rc_db s) x" using assms(1) by (simp_all add: race_inv_def)
  then have ci: "caller_ok sha (rc_db s) (?cs ! i)" using stmt(2) by simp
  from caller_stmt [OF ok(1) ci stmt(3)] have c: "tickets_ok d" "table_grows (rc_db s) d" "caller_ok sha d c"
    and taken: "taken_hash sha c = None \<or> taken_hash sha c = taken_hash sha (?cs ! i) \<or>
     (\<exists>k r. taken_hash sha c = Some k \<and> ticket_at (rc_db s) k = Some r \<and> kr_ConsumedAt r = None)" by simp_all
  have other: "taken_hash sha (?cs ! j) = None \<or> taken_hash sha (?cs ! j) \<noteq> taken_hash sha c"
    if "j < length ?cs" "j \<noteq> i" for j
  proof -
    from ok(2) that(1) have "caller_ok sha (rc_db s) (?cs ! j)" by simp
    then have "\<exists>r. ticket_at (rc_db s) k = Some r \<and> kr_ConsumedAt r \<noteq> None" if "taken_hash sha (?cs ! j) = Some k" for k
      using that by (cases "?cs ! j") auto
    moreover have "taken_hash sha (?cs ! i) \<noteq> taken_hash sha (?cs ! j)" if "taken_hash sha (?cs ! j) \<noteq> None"
      using assms(1) \<open>j < length ?cs\<close> \<open>j \<noteq> i\<close> stmt(2) that unfolding race_inv_def by metis
    ultimately show ?thesis using taken by fastforce
  qed
  have "\<forall>x \<in> set (?cs[i := c]). caller_ok sha d x"
    using ok(2) c(2,3) caller_ok_grows set_update_subset_insert [of ?cs i c] by blast
  moreover have "taken_hash sha (?cs[i := c] ! j) \<noteq> taken_hash sha (?cs[i := c] ! k)"
    if "j < length ?cs" "k < length ?cs" "j \<noteq> k" "taken_hash sha (?cs[i := c] ! j) \<noteq> None" for j k
  proof -
    have "taken_hash sha (?cs ! j) \<noteq> None \<Longrightarrow> taken_hash sha (?cs ! j) \<noteq> taken_hash sha (?cs ! k)"
      using assms(1) that(1-3) unfolding race_inv_def by metis
    then show ?thesis using that other [of j] other [of k] stmt(2) by (auto simp: nth_list_update split: if_splits)
  qed
  ultimately show ?thesis using c(1) stmt(1) by (simp add: race_inv_def)
qed

lemma race_reach_inv:
  assumes "race_reach sha d s" "tickets_ok d"
  shows "race_inv sha s"
  using assms(1)
proof induction
  case init
  with assms(2) show ?case by (simp add: race_inv_def)
qed (rule race_step_inv)

section \<open>Schedules\<close>

text \<open>A run that is given by its list of events, so that it can be evaluated.\<close>

datatype race_event = RSave commit_fault Ticket | RCall string go_time | RStmt nat consume_env

fun race_do :: "(string \<Rightarrow> string) \<Rightarrow> race \<Rightarrow> race_event \<Rightarrow> race" where
  "race_do sha s (RSave fault t) = s\<lparr>rc_db := fst (SaveTicket sha fault t (rc_db s))\<rparr>"
| "race_do sha s (RCall token now) = s\<lparr>rc_callers := rc_callers s @ [consumer_start token now]\<rparr>"
| "race_do sha s (RStmt i env) =
     (if i < length (rc_callers s) then
        (case consumer_stmt sha env (rc_callers s ! i) (rc_db s) of
           (d, c) \<Rightarrow> \<lparr>rc_db = d, rc_callers = (rc_callers s)[i := c]\<rparr>)
      else s)"

definition race_run :: "(string \<Rightarrow> string) \<Rightarrow> ticket_db \<Rightarrow> race_event list \<Rightarrow> race" where
  "race_run sha d es = foldl (race_do sha) \<lparr>rc_db = d, rc_callers = []\<rparr> es"

lemma race_do_reach:
  assumes "race_reach sha d s"
  shows "race_reach sha d (race_do sha s e)"
proof (cases e)
  case (RSave fault t)
  obtain d' r where "SaveTicket sha fault t (rc_db s) = (d', r)" by (cases "SaveTicket sha fault t (rc_db s)")
  with race_reach.step [OF assms race_step.save] RSave show ?thesis by simp
next
  case (RCall token now)
  with race_reach.step [OF assms race_step.call] show ?thesis by simp
next
  case (RStmt i env)
  show ?thesis
  proof (cases "i < length (rc_callers s)")
    case True
    obtain d' c where "consumer_stmt sha env (rc_callers s ! i) (rc_db s) = (d', c)"
      by (cases "consumer_stmt sha env (rc_callers s ! i) (rc_db s)")
    with race_reach.step [OF assms race_step.stmt [OF True this]] RStmt True show ?thesis by simp
  qed (use assms RStmt in simp)
qed

lemma race_run_reach: "race_reach sha d (race_run sha d es)"
proof -
  have "race_reach sha d s \<Longrightarrow> race_reach sha d (foldl (race_do sha) s es)" for s
    by (induction es arbitrary: s) (simp_all add: race_do_reach)
  then show ?thesis by (simp add: race_run_def race_reach.init)
qed

text \<open>What a caller that was answered with a ticket holds.\<close>

lemma consumed_caller:
  assumes "race_inv sha s" "i < length (rc_callers s)" "rc_callers s ! i = Consumed tok t"
  shows "\<exists>r. ticket_at (rc_db s) (sha tok) = Some r \<and> kr_ConsumedAt r \<noteq> None \<and> t = diagnosisAuthTicketToUsecase r"
proof -
  have "caller_ok sha (rc_db s) (rc_callers s ! i)" using assms(1,2) by (simp add: race_inv_def)
  with assms(3) show ?thesis by simp
qed

lemma callers_apart:
  assumes "race_inv sha s" "i < length (rc_callers s)" "j < length (rc_callers s)" "i \<noteq> j"
    and "rc_callers s ! i = Consumed tok t" "rc_callers s ! j = Consumed tok' t'"
  shows "sha tok \<noteq> sha tok'"
proof -
  have "taken_hash sha (rc_callers s ! i) \<noteq> taken_hash sha (rc_callers s ! j)"
    using assms(1-5) unfolding race_inv_def by (metis option.distinct(1) taken_hash.simps(2))
  with assms(5,6) show ?thesis by simp
qed

end
