(* ===== verification/Session_Token.thy ===== *)
theory Session_Token
  imports Auth_Ticket Json_Scan Json_Encode
begin

text \<open>
  \<open>internal/usecases/diagnosisauth/session.go\<close>: the signed bearer tokens of browser sessions. The
  HMAC, the tokenizer of \<open>encoding/json\<close> and its \<open>Unmarshal\<close> into the two structs are the fields of
  \<open>session_lib\<close>; what \<open>Marshal\<close> writes is defined. \<open>now\<close> is what the clock of the service answers,
  \<open>ctx_err\<close> the error of the context. A role list is \<open>None\<close> for Go's nil slice.
\<close>

section \<open>Data\<close>

definition HardMaxSessionTTL :: go_duration where "HardMaxSessionTTL = 86400000000000"
definition DefaultSessionTTL :: go_duration where "DefaultSessionTTL = 28800000000000"
definition MinSessionSigningKeyBytes :: nat where "MinSessionSigningKeyBytes = 32"
definition legacySessionTokenVersion :: int where "legacySessionTokenVersion = 1"
definition sessionTokenVersion :: int where "sessionTokenVersion = 2"
abbreviation sessionTokenType :: string where "sessionTokenType \<equiv> ''openclarion.diagnosis.session''"
abbreviation sessionTokenAlg :: string where "sessionTokenAlg \<equiv> ''HS256''"

record SessionTokenPolicy =
  so_TTL :: go_duration
  so_SigningKey :: string

record SessionToken =
  st_Token :: string
  st_Subject :: string
  st_Roles :: "string list"
  st_Provider :: string
  st_TenantID :: int
  st_TenantKey :: string
  st_IssuedAt :: go_time
  st_ExpiresAt :: go_time

record SessionTokenService =
  sv_signingKey :: string
  sv_ttl :: go_duration

record sessionTokenHeader =
  hd_Version :: int
  hd_Type :: string
  hd_Alg :: string

record sessionTokenPayload =
  pl_Version :: int
  pl_Type :: string
  pl_Provider :: string
  pl_Subject :: string
  pl_Roles :: "string list option"
  pl_TenantID :: int
  pl_TenantKey :: string
  pl_IssuedAt :: int
  pl_ExpiresAt :: int

record session_lib =
  sn_hmac :: "string \<Rightarrow> string \<Rightarrow> string"
  sn_tokenize :: "string \<Rightarrow> decoder"
  sn_header :: "string \<Rightarrow> sessionTokenHeader result"
  sn_payload :: "string \<Rightarrow> sessionTokenPayload result"

section \<open>The policy\<close>

definition DefaultSessionTokenPolicy :: "string \<Rightarrow> SessionTokenPolicy" where
  "DefaultSessionTokenPolicy signingKey = \<lparr>so_TTL = DefaultSessionTTL, so_SigningKey = signingKey\<rparr>"

definition ValidateSessionTokenPolicy :: "SessionTokenPolicy \<Rightarrow> unit result" where
  "ValidateSessionTokenPolicy policy =
     (if so_TTL policy \<le> 0 \<or> so_TTL policy > HardMaxSessionTTL then
        Inl (invariant_error ''diagnosis auth session: ttl must be in (0,24h]'')
      else if TrimSpace (so_SigningKey policy) = [] then
        Inl (invariant_error ''diagnosis auth session: signing key must be non-empty'')
      else if so_SigningKey policy \<noteq> TrimSpace (so_SigningKey policy)
          \<or> list_ex (\<lambda>c. c \<in> {CHR 0x00, CHR 0x0D, CHR 0x0A}) (so_SigningKey policy) then
        Inl (invariant_error
          ''diagnosis auth session: signing key must not contain leading/trailing whitespace, NUL, CR, or LF'')
      else if length (so_SigningKey policy) < MinSessionSigningKeyBytes then
        Inl (invariant_error ''diagnosis auth session: signing key must be at least 32 bytes'')
      else Inr ())"

definition NewSessionTokenService :: "SessionTokenPolicy \<Rightarrow> SessionTokenService result" where
  "NewSessionTokenService policy =
     bindE (ValidateSessionTokenPolicy policy)
       (\<lambda>_. Inr \<lparr>sv_signingKey = so_SigningKey policy, sv_ttl = so_TTL policy\<rparr>)"

section \<open>Normal forms\<close>

definition normalizeSessionSubject :: "string \<Rightarrow> string result" where
  "normalizeSessionSubject raw =
     (let subject = TrimSpace raw in
      if subject = [] \<or> subject \<noteq> raw then
        Inl (GoErr ''diagnosis auth session: subject must be non-empty without surrounding whitespace'' [])
      else Inr subject)"

definition normalizeSessionProvider :: "string \<Rightarrow> string result" where
  "normalizeSessionProvider raw =
     (let provider = TrimSpace raw in
      if provider = [] \<or> provider \<noteq> raw then
        Inl (GoErr ''diagnosis auth session: provider must be non-empty without surrounding whitespace'' [])
      else Inr provider)"

fun normalizeSessionRoles :: "string list \<Rightarrow> string list result" where
  "normalizeSessionRoles [] = Inr []"
| "normalizeSessionRoles (role # rest) =
     (if role = AuthRoleOwner \<or> role = AuthRoleAdmin then
        bindE (normalizeSessionRoles rest) (\<lambda>out. Inr (role # out))
      else Inl (GoErr ''diagnosis auth session: unsupported role'' []))"

definition unauthenticated :: "string \<Rightarrow> go_error" where
  "unauthenticated msg = GoErr msg [ErrUnauthenticated]"

definition normalizeSessionToken :: "string \<Rightarrow> string result" where
  "normalizeSessionToken raw =
     (let token = TrimSpace raw in
      if token = [] then
        Inl (unauthenticated ''diagnosis auth session: bearer token must be non-empty'')
      else if token \<noteq> raw \<or> list_ex (\<lambda>c. c \<in> {CHR 0x20, CHR 0x09, CHR 0x0D, CHR 0x0A}) token then
        Inl (unauthenticated
          ''diagnosis auth session: bearer token must be a single value without whitespace'')
      else Inr token)"

definition sessionBearerTokenValue :: "string \<Rightarrow> string result" where
  "sessionBearerTokenValue raw =
     (case Fields (TrimSpace raw) of
        [a] \<Rightarrow> normalizeSessionToken a
      | [a, b] \<Rightarrow>
          if equal_fold_ascii a ''Bearer'' then normalizeSessionToken b
          else Inl (unauthenticated ''diagnosis auth session: bearer token must contain exactly one token'')
      | _ \<Rightarrow> Inl (unauthenticated ''diagnosis auth session: bearer token must contain exactly one token''))"

section \<open>What is signed\<close>

text \<open>The texts that \<open>json.Marshal\<close> writes for the two structs.\<close>

definition json_fields :: "(string \<times> string) list \<Rightarrow> string" where
  "json_fields kvs = ''{'' @ join_comma (map (\<lambda>(k, v). json_string k @ '':'' @ v) kvs) @ ''}''"

definition json_strings :: "string list option \<Rightarrow> string" where
  "json_strings xs =
     (case xs of None \<Rightarrow> ''null'' | Some ys \<Rightarrow> ''['' @ join_comma (map json_string ys) @ '']'')"

definition marshal_header :: "sessionTokenHeader \<Rightarrow> string" where
  "marshal_header h = json_fields
     [(''v'', int_decimal (hd_Version h)), (''typ'', json_string (hd_Type h)), (''alg'', json_string (hd_Alg h))]"

definition marshal_payload :: "sessionTokenPayload \<Rightarrow> string" where
  "marshal_payload p = json_fields
     [(''v'', int_decimal (pl_Version p)), (''typ'', json_string (pl_Type p)),
      (''provider'', json_string (pl_Provider p)), (''sub'', json_string (pl_Subject p)),
      (''roles'', json_strings (pl_Roles p)), (''tenant_id'', int_decimal (pl_TenantID p)),
      (''tenant_key'', json_string (pl_TenantKey p)), (''iat'', int_decimal (pl_IssuedAt p)),
      (''exp'', int_decimal (pl_ExpiresAt p))]"

definition token_header :: sessionTokenHeader where
  "token_header = \<lparr>hd_Version = sessionTokenVersion, hd_Type = sessionTokenType, hd_Alg = sessionTokenAlg\<rparr>"

definition signPayload :: "session_lib \<Rightarrow> SessionTokenService \<Rightarrow> string \<Rightarrow> string" where
  "signPayload lib sv rawPayload =
     (let encodedHeader = b64_encode (marshal_header token_header);
          encodedPayload = b64_encode rawPayload;
          signedContent = encodedHeader @ ''.'' @ encodedPayload
      in signedContent @ ''.'' @ b64_encode (sn_hmac lib (sv_signingKey sv) signedContent))"

definition supportedSessionTokenVersion :: "int \<Rightarrow> bool" where
  "supportedSessionTokenVersion version \<longleftrightarrow>
     version = legacySessionTokenVersion \<or> version = sessionTokenVersion"

definition verify_parts ::
  "session_lib \<Rightarrow> SessionTokenService \<Rightarrow> string \<Rightarrow> string \<Rightarrow> string \<Rightarrow> sessionTokenPayload result" where
  "verify_parts lib sv p0 p1 p2 =
     (case b64_decode p0 of
        Inl _ \<Rightarrow> Inl (unauthenticated ''diagnosis auth session: decode token header'')
      | Inr rawHeader \<Rightarrow>
      case RejectDuplicateObjectKeys (sn_tokenize lib) rawHeader of
        Inl _ \<Rightarrow> Inl (unauthenticated ''diagnosis auth session: decode token header'')
      | Inr _ \<Rightarrow>
      case sn_header lib rawHeader of
        Inl _ \<Rightarrow> Inl (unauthenticated ''diagnosis auth session: decode token header'')
      | Inr header \<Rightarrow>
      if \<not> supportedSessionTokenVersion (hd_Version header) \<or> hd_Type header \<noteq> sessionTokenType
          \<or> hd_Alg header \<noteq> sessionTokenAlg then
        Inl (unauthenticated ''diagnosis auth session: token header is unsupported'')
      else case b64_decode p1 of
        Inl _ \<Rightarrow> Inl (unauthenticated ''diagnosis auth session: decode token payload'')
      | Inr rawPayload \<Rightarrow>
      case RejectDuplicateObjectKeys (sn_tokenize lib) rawPayload of
        Inl _ \<Rightarrow> Inl (unauthenticated ''diagnosis auth session: decode token payload'')
      | Inr _ \<Rightarrow>
      case b64_decode p2 of
        Inl _ \<Rightarrow> Inl (unauthenticated ''diagnosis auth session: decode token signature'')
      | Inr gotSignature \<Rightarrow>
      if gotSignature \<noteq> sn_hmac lib (sv_signingKey sv) (p0 @ ''.'' @ p1) then
        Inl (unauthenticated ''diagnosis auth session: token signature is invalid'')
      else case sn_payload lib rawPayload of
        Inl _ \<Rightarrow> Inl (unauthenticated ''diagnosis auth session: decode token payload'')
      | Inr payload \<Rightarrow>
      if pl_Version payload \<noteq> hd_Version header then
        Inl (unauthenticated ''diagnosis auth session: token versions do not match'')
      else Inr payload)"

definition verifyToken :: "session_lib \<Rightarrow> SessionTokenService \<Rightarrow> string \<Rightarrow> sessionTokenPayload result" where
  "verifyToken lib sv token =
     (case split_on CHR ''.'' token of
        [p0, p1, p2] \<Rightarrow> verify_parts lib sv p0 p1 p2
      | _ \<Rightarrow> Inl (unauthenticated ''diagnosis auth session: token must have three parts''))"

section \<open>Operations\<close>

text \<open>\<open>Time.Unix\<close> and \<open>time.Unix(sec, 0)\<close>, whose addition wraps in 64 bits.\<close>

definition time_Unix :: "go_time \<Rightarrow> int" where
  "time_Unix t = t div 1000000000 - 62135596800"

definition Unix_time :: "int \<Rightarrow> go_time" where
  "Unix_time sec = wrap64 (sec + 62135596800) * 1000000000"

definition IssueToken ::
  "session_lib \<Rightarrow> SessionTokenService \<Rightarrow> go_error option \<Rightarrow> go_time \<Rightarrow> AuthPrincipal \<Rightarrow> string
   \<Rightarrow> SessionToken result" where
  "IssueToken lib sv ctx_err now user provider =
     (case ctx_err of
        Some e \<Rightarrow> Inl e
      | None \<Rightarrow>
      if sv_signingKey sv = [] then Inl (GoErr ''diagnosis auth session: service is not configured'' [])
      else bindE (normalizeSessionSubject (ap_Subject user)) (\<lambda>subject.
        bindE (normalizeSessionRoles (ap_Roles user)) (\<lambda>roles.
        bindE (normalizeSessionProvider provider) (\<lambda>provider.
        bindE (sessionTenantIdentity user) (\<lambda>tenantIdentity.
        if IsZero now then Inl (invariant_error ''diagnosis auth session: now must be set'')
        else let expiresAt = now + sv_ttl sv;
            payload = \<lparr>pl_Version = sessionTokenVersion, pl_Type = sessionTokenType, pl_Provider = provider,
              pl_Subject = subject, pl_Roles = Some roles, pl_TenantID = id_ID tenantIdentity,
              pl_TenantKey = id_Key tenantIdentity, pl_IssuedAt = time_Unix now,
              pl_ExpiresAt = time_Unix expiresAt\<rparr>
          in Inr \<lparr>st_Token = signPayload lib sv (marshal_payload payload), st_Subject = subject,
            st_Roles = roles, st_Provider = provider, st_TenantID = id_ID tenantIdentity,
            st_TenantKey = id_Key tenantIdentity, st_IssuedAt = now, st_ExpiresAt = expiresAt\<rparr>)))))"

definition and_unauthenticated :: "'a result \<Rightarrow> 'a result" where
  "and_unauthenticated r =
     (case r of Inl e \<Rightarrow> Inl (GoErr (err_text e) (err_chain e @ [ErrUnauthenticated])) | Inr x \<Rightarrow> Inr x)"

text \<open>\<open>AuthenticateSession\<close>: the checks of a verified payload, then the whole method.\<close>

definition payload_tenant :: "sessionTokenPayload \<Rightarrow> Identity result" where
  "payload_tenant payload =
     (if pl_Version payload \<ge> sessionTokenVersion then
        (case NewIdentity (pl_TenantID payload) (pl_TenantKey payload) of
           Inl _ \<Rightarrow> Inl (unauthenticated ''diagnosis auth session: invalid tenant binding'')
         | Inr identity \<Rightarrow> Inr identity)
      else Inr DefaultIdentity)"

definition payload_session :: "go_time \<Rightarrow> string \<Rightarrow> sessionTokenPayload \<Rightarrow> SessionToken result" where
  "payload_session now token payload =
     (if \<not> supportedSessionTokenVersion (pl_Version payload) \<or> pl_Type payload \<noteq> sessionTokenType then
        Inl (unauthenticated ''diagnosis auth session: token type is unsupported'')
      else if pl_ExpiresAt payload \<le> time_Unix now then
        Inl (unauthenticated ''diagnosis auth session: token expired'')
      else bindE (and_unauthenticated (normalizeSessionSubject (pl_Subject payload))) (\<lambda>subject.
        bindE (and_unauthenticated (normalizeSessionRoles (case pl_Roles payload of None \<Rightarrow> [] | Some rs \<Rightarrow> rs))) (\<lambda>roles.
        bindE (and_unauthenticated (normalizeSessionProvider (pl_Provider payload))) (\<lambda>provider.
        bindE (payload_tenant payload) (\<lambda>tenantIdentity.
        Inr \<lparr>st_Token = token, st_Subject = subject, st_Roles = roles, st_Provider = provider,
          st_TenantID = id_ID tenantIdentity, st_TenantKey = id_Key tenantIdentity,
          st_IssuedAt = Unix_time (pl_IssuedAt payload), st_ExpiresAt = Unix_time (pl_ExpiresAt payload)\<rparr>)))))"

definition AuthenticateSession ::
  "session_lib \<Rightarrow> SessionTokenService \<Rightarrow> go_error option \<Rightarrow> go_time \<Rightarrow> string \<Rightarrow> SessionToken result" where
  "AuthenticateSession lib sv ctx_err now bearerToken =
     (case ctx_err of
        Some e \<Rightarrow> Inl e
      | None \<Rightarrow>
      if sv_signingKey sv = [] then Inl (GoErr ''diagnosis auth session: service is not configured'' [])
      else bindE (sessionBearerTokenValue bearerToken) (\<lambda>token.
        bindE (verifyToken lib sv token) (payload_session now token)))"

definition AuthenticateBearer ::
  "session_lib \<Rightarrow> SessionTokenService \<Rightarrow> go_error option \<Rightarrow> go_time \<Rightarrow> string \<Rightarrow> AuthPrincipal result" where
  "AuthenticateBearer lib sv ctx_err now bearerToken =
     bindE (AuthenticateSession lib sv ctx_err now bearerToken) (\<lambda>session.
       Inr \<lparr>ap_Subject = st_Subject session, ap_Roles = st_Roles session,
         ap_Claims = json_fields [(''auth_provider'', json_string (st_Provider session)),
           (''tenant_key'', json_string (st_TenantKey session))],
         ap_TenantID = st_TenantID session, ap_TenantKey = st_TenantKey session\<rparr>)"

text \<open>\<open>append\<close> to a nil slice: nil when nothing is appended.\<close>

definition append_nil :: "'a list \<Rightarrow> 'a list option" where
  "append_nil xs = (if xs = [] then None else Some xs)"

definition RebindTenant ::
  "session_lib \<Rightarrow> SessionTokenService \<Rightarrow> go_error option \<Rightarrow> go_time \<Rightarrow> string \<Rightarrow> Identity
   \<Rightarrow> SessionToken result" where
  "RebindTenant lib sv ctx_err now bearerToken identity =
     bindE (AuthenticateSession lib sv ctx_err now bearerToken) (\<lambda>session.
       case NewIdentity (id_ID identity) (id_Key identity) of
         Inl e \<Rightarrow> Inl (wrap_error ''diagnosis auth session: rebind tenant'' e)
       | Inr identity \<Rightarrow>
           let payload = \<lparr>pl_Version = sessionTokenVersion, pl_Type = sessionTokenType,
                 pl_Provider = st_Provider session, pl_Subject = st_Subject session,
                 pl_Roles = append_nil (st_Roles session), pl_TenantID = id_ID identity,
                 pl_TenantKey = id_Key identity, pl_IssuedAt = time_Unix (st_IssuedAt session),
                 pl_ExpiresAt = time_Unix (st_ExpiresAt session)\<rparr>
           in Inr (session\<lparr>st_Token := signPayload lib sv (marshal_payload payload),
                st_TenantID := id_ID identity, st_TenantKey := id_Key identity\<rparr>))"

section \<open>What an accepted token is\<close>

lemma normalizeSessionSubject_Inr [simp]:
  "normalizeSessionSubject raw = Inr x \<longleftrightarrow> x = raw \<and> raw \<noteq> [] \<and> TrimSpace raw = raw"
  by (auto simp: normalizeSessionSubject_def Let_def)

lemma normalizeSessionProvider_Inr [simp]:
  "normalizeSessionProvider raw = Inr x \<longleftrightarrow> x = raw \<and> raw \<noteq> [] \<and> TrimSpace raw = raw"
  by (auto simp: normalizeSessionProvider_def Let_def)

lemma normalizeSessionRoles_Inr [simp]:
  "normalizeSessionRoles rs = Inr xs \<longleftrightarrow> xs = rs \<and> set rs \<subseteq> {AuthRoleOwner, AuthRoleAdmin}"
  by (induction rs arbitrary: xs) (auto simp: bindE_eq_Inr_iff)

lemma and_unauthenticated_Inr [simp]: "and_unauthenticated r = Inr x \<longleftrightarrow> r = Inr x"
  by (simp add: and_unauthenticated_def split: sum.split)

text \<open>The payload and the three parts behind a verified token.\<close>

lemma verifyToken_Inr:
  assumes "verifyToken lib sv token = Inr p"
  obtains p0 p1 p2 raw where "token = p0 @ ''.'' @ p1 @ ''.'' @ p2" "b64_decode p1 = Inr raw" "sn_payload lib raw = Inr p"
    "b64_decode p2 = Inr (sn_hmac lib (sv_signingKey sv) (p0 @ ''.'' @ p1))"
    "supportedSessionTokenVersion (pl_Version p)"
proof -
  obtain p0 p1 p2 where s: "split_on CHR ''.'' token = [p0, p1, p2]" and v: "verify_parts lib sv p0 p1 p2 = Inr p"
    using assms by (auto simp: verifyToken_def split: list.splits)
  have "join_on CHR ''.'' [p0, p1, p2] = token" using join_split [of "CHR ''.''" token] s by simp
  then have t: "token = p0 @ ''.'' @ p1 @ ''.'' @ p2" by simp
  have "\<exists>raw. b64_decode p1 = Inr raw \<and> sn_payload lib raw = Inr p \<and>
    b64_decode p2 = Inr (sn_hmac lib (sv_signingKey sv) (p0 @ ''.'' @ p1)) \<and>
    supportedSessionTokenVersion (pl_Version p)"
    using v unfolding verify_parts_def by (auto split: sum.splits if_splits)
  with t that show thesis by blast
qed

definition session_ok :: "SessionToken \<Rightarrow> bool" where
  "session_ok st \<longleftrightarrow> st_Subject st \<noteq> [] \<and> TrimSpace (st_Subject st) = st_Subject st \<and>
     set (st_Roles st) \<subseteq> {AuthRoleOwner, AuthRoleAdmin} \<and>
     st_Provider st \<noteq> [] \<and> TrimSpace (st_Provider st) = st_Provider st \<and>
     0 < st_TenantID st \<and> tenant_key_ok (st_TenantKey st)"

text \<open>What \<open>AuthenticateSession\<close> reads from the payload, version 1 in the default tenant.\<close>

definition session_of :: "string \<Rightarrow> sessionTokenPayload \<Rightarrow> SessionToken" where
  "session_of token p =
     \<lparr>st_Token = token, st_Subject = pl_Subject p, st_Roles = (case pl_Roles p of None \<Rightarrow> [] | Some rs \<Rightarrow> rs),
      st_Provider = pl_Provider p,
      st_TenantID = (if pl_Version p \<ge> sessionTokenVersion then pl_TenantID p else DefaultTenantID),
      st_TenantKey = (if pl_Version p \<ge> sessionTokenVersion then pl_TenantKey p else DefaultTenantKey),
      st_IssuedAt = Unix_time (pl_IssuedAt p), st_ExpiresAt = Unix_time (pl_ExpiresAt p)\<rparr>"

lemma payload_tenant_Inr:
  "payload_tenant p = Inr t \<longleftrightarrow>
     t = \<lparr>id_ID = (if pl_Version p \<ge> sessionTokenVersion then pl_TenantID p else DefaultTenantID),
          id_Key = (if pl_Version p \<ge> sessionTokenVersion then pl_TenantKey p else DefaultTenantKey)\<rparr> \<and>
     0 < id_ID t \<and> tenant_key_ok (id_Key t)"
proof (cases "NewIdentity (pl_TenantID p) (pl_TenantKey p)")
  case (Inl x)
  with NewIdentity_Inr [of "pl_TenantID p" "pl_TenantKey p"] show ?thesis
    by (auto simp: payload_tenant_def DefaultIdentity_def default_tenant_key_ok)
next
  case (Inr x)
  with NewIdentity_Inr [of "pl_TenantID p" "pl_TenantKey p" x] show ?thesis
    by (auto simp: payload_tenant_def DefaultIdentity_def default_tenant_key_ok)
qed

lemma payload_session_Inr:
  "payload_session now token p = Inr st \<longleftrightarrow>
     supportedSessionTokenVersion (pl_Version p) \<and> pl_Type p = sessionTokenType \<and> time_Unix now < pl_ExpiresAt p \<and>
     st = session_of token p \<and> session_ok st"
  by (cases "pl_Roles p")
    (auto simp: payload_session_def bindE_eq_Inr_iff payload_tenant_Inr session_ok_def session_of_def not_le)

lemma AuthenticateSession_Inr:
  "AuthenticateSession lib sv ctx_err now bearer = Inr st \<longleftrightarrow>
     ctx_err = None \<and> sv_signingKey sv \<noteq> [] \<and>
     (\<exists>token p. sessionBearerTokenValue bearer = Inr token \<and> verifyToken lib sv token = Inr p \<and>
        payload_session now token p = Inr st)"
  by (cases ctx_err) (simp_all add: AuthenticateSession_def bindE_eq_Inr_iff)

section \<open>Issued tokens\<close>

text \<open>The payload of a session, and the JSON library on it: no duplicate keys, and the same values back.\<close>

definition payload_of :: "SessionToken \<Rightarrow> string list option \<Rightarrow> sessionTokenPayload" where
  "payload_of st roles =
     \<lparr>pl_Version = sessionTokenVersion, pl_Type = sessionTokenType, pl_Provider = st_Provider st,
      pl_Subject = st_Subject st, pl_Roles = roles, pl_TenantID = st_TenantID st, pl_TenantKey = st_TenantKey st,
      pl_IssuedAt = time_Unix (st_IssuedAt st), pl_ExpiresAt = time_Unix (st_ExpiresAt st)\<rparr>"

definition reads_back :: "session_lib \<Rightarrow> sessionTokenPayload \<Rightarrow> bool" where
  "reads_back lib p \<longleftrightarrow>
     RejectDuplicateObjectKeys (sn_tokenize lib) (marshal_header token_header) = Inr () \<and>
     sn_header lib (marshal_header token_header) = Inr token_header \<and>
     RejectDuplicateObjectKeys (sn_tokenize lib) (marshal_payload p) = Inr () \<and>
     sn_payload lib (marshal_payload p) = Inr p"

lemma letters_no_dot: "b64_letters s \<Longrightarrow> CHR ''.'' \<notin> set s"
  using b64_letter_bytes(3) by (auto simp: b64_letters_def)

lemma letters_printable: "b64_letters s \<Longrightarrow> \<forall>c \<in> set s. printable_byte c"
  using b64_letter_bytes(4) by (auto simp: b64_letters_def)

lemma signPayload_verifies:
  assumes "reads_back lib p" "pl_Version p = sessionTokenVersion"
  shows "verifyToken lib sv (signPayload lib sv (marshal_payload p)) = Inr p"
proof -
  define h where "h = b64_encode (marshal_header token_header)"
  define b where "b = b64_encode (marshal_payload p)"
  have d: "b64_decode h = Inr (marshal_header token_header)" "b64_decode b = Inr (marshal_payload p)"
    by (simp_all add: h_def b_def b64_roundtrip)
  have "CHR ''.'' \<notin> set h" "CHR ''.'' \<notin> set b" "CHR ''.'' \<notin> set (b64_encode x)" for x
    using letters_no_dot [OF b64_encode_letters] by (auto simp: h_def b_def)
  then have "split_on CHR ''.'' (signPayload lib sv (marshal_payload p)) =
      [h, b, b64_encode (sn_hmac lib (sv_signingKey sv) (h @ ''.'' @ b))]"
    by (simp add: signPayload_def Let_def h_def [symmetric] b_def [symmetric] split_on_part split_on_none)
  then show ?thesis
    using assms d
    by (simp add: verifyToken_def verify_parts_def b64_roundtrip reads_back_def token_header_def
        supportedSessionTokenVersion_def)
qed

lemma bearer_of_issued:
  assumes "tok = signPayload lib sv raw"
  shows "sessionBearerTokenValue (''Bearer '' @ tok) = Inr tok" "sessionBearerTokenValue tok = Inr tok"
proof -
  have c: "printable_byte c \<and> c \<noteq> CHR 0x20 \<and> c \<noteq> CHR 0x09 \<and> c \<noteq> CHR 0x0D \<and> c \<noteq> CHR 0x0A" if "c \<in> set tok" for c
  proof -
    have l: "b64_value x \<noteq> None" if "x \<in> set (b64_encode y)" for x y
      using b64_encode_letters [of y] that by (simp add: b64_letters_def)
    from that have "c = CHR ''.'' \<or> b64_value c \<noteq> None"
      unfolding assms signPayload_def Let_def using l by auto
    moreover have "printable_byte CHR ''.''" by (simp add: printable_byte_def)
    ultimately show ?thesis using b64_letter_bytes [of c] by (cases "b64_value c = None") simp_all
  qed
  have ne: "tok \<noteq> []" by (simp add: assms signPayload_def Let_def)
  have p: "\<forall>c \<in> set tok. printable_byte c" using c by blast
  have trim: "TrimSpace s = s" if "s \<noteq> []" "printable_byte (hd s)" "printable_byte (last s)" for s
    using trimmed_printable that by simp
  have t: "TrimSpace tok = tok" using ne p by (intro trim) (simp_all add: list.set_sel(1) last_in_set)
  have w: "\<forall>c \<in> set ''Bearer''. printable_byte c" by (simp add: printable_byte_def)
  have "TrimSpace (''Bearer '' @ tok) = ''Bearer '' @ tok"
    using ne p w by (intro trim) (simp_all add: last_in_set)
  moreover have "Fields (''Bearer'' @ CHR 0x20 # tok) = [''Bearer'', tok]" using w p ne by (intro Fields_two) simp_all
  moreover have n: "normalizeSessionToken tok = Inr tok"
    using t ne c by (auto simp: normalizeSessionToken_def Let_def list_ex_iff)
  ultimately show "sessionBearerTokenValue (''Bearer '' @ tok) = Inr tok"
    by (simp add: sessionBearerTokenValue_def equal_fold_ascii_def)
  from t n Fields_word [OF p ne] show "sessionBearerTokenValue tok = Inr tok"
    by (simp add: sessionBearerTokenValue_def)
qed

text \<open>The times of a session, in the whole seconds of the token.\<close>

definition whole_seconds :: "go_time \<Rightarrow> go_time" where
  "whole_seconds t = t - t mod 1000000000"

definition token_time :: "go_time \<Rightarrow> bool" where
  "token_time t \<longleftrightarrow> int64 (t div 1000000000)"

lemma Unix_time_Unix [simp]: "token_time t \<Longrightarrow> Unix_time (time_Unix t) = whole_seconds t"
  by (simp add: Unix_time_def time_Unix_def token_time_def wrap64_id whole_seconds_def minus_mod_eq_div_mult)

lemma time_Unix_Unix: "time_Unix (Unix_time s) = wrap64 (s + 62135596800) - 62135596800"
  by (simp add: Unix_time_def time_Unix_def)

text \<open>A session that was issued or rebound authenticates, under its own tenant, while it lasts.\<close>

lemma signed_session_authenticates:
  assumes "st_Token st = signPayload lib sv (marshal_payload (payload_of st roles))"
    and "reads_back lib (payload_of st roles)" "sv_signingKey sv \<noteq> []" "session_ok st"
    and "st_Roles st = (case roles of None \<Rightarrow> [] | Some rs \<Rightarrow> rs)"
    and "token_time (st_IssuedAt st)" "token_time (st_ExpiresAt st)" "time_Unix now < time_Unix (st_ExpiresAt st)"
    and "bearer = st_Token st \<or> bearer = ''Bearer '' @ st_Token st"
  shows "AuthenticateSession lib sv None now bearer =
    Inr (st\<lparr>st_IssuedAt := whole_seconds (st_IssuedAt st), st_ExpiresAt := whole_seconds (st_ExpiresAt st)\<rparr>)"
proof -
  let ?p = "payload_of st roles"
  have v: "verifyToken lib sv (st_Token st) = Inr ?p"
    using signPayload_verifies [OF assms(2)] assms(1) by (simp add: payload_of_def)
  have b: "sessionBearerTokenValue bearer = Inr (st_Token st)"
    using bearer_of_issued [OF assms(1)] assms(9) by auto
  have s: "session_of (st_Token st) ?p =
      st\<lparr>st_IssuedAt := whole_seconds (st_IssuedAt st), st_ExpiresAt := whole_seconds (st_ExpiresAt st)\<rparr>"
    using assms(5-7) by (simp add: session_of_def payload_of_def)
  have "payload_session now (st_Token st) ?p = Inr (session_of (st_Token st) ?p)"
    using assms(4,8) unfolding payload_session_Inr s
    by (simp add: session_ok_def payload_of_def supportedSessionTokenVersion_def)
  with v b s assms(3) show ?thesis unfolding AuthenticateSession_Inr by auto
qed

lemma sessionTenantIdentity_Inr:
  assumes "sessionTenantIdentity user = Inr i"
  shows "0 < id_ID i" "tenant_key_ok (id_Key i)"
  using assms NewIdentity_Inr
  by (auto simp: sessionTenantIdentity_def DefaultIdentity_def default_tenant_key_ok split: if_splits sum.splits)

lemma IssueToken_Inr:
  assumes "IssueToken lib sv ctx_err now user provider = Inr st"
  shows "st_Token st = signPayload lib sv (marshal_payload (payload_of st (Some (st_Roles st))))"
    "sv_signingKey sv \<noteq> []" "session_ok st" "st_IssuedAt st = now" "st_ExpiresAt st = now + sv_ttl sv"
    "st_Subject st = ap_Subject user" "st_Roles st = ap_Roles user" "st_Provider st = provider"
    "sessionTenantIdentity user = Inr \<lparr>id_ID = st_TenantID st, id_Key = st_TenantKey st\<rparr>"
proof -
  obtain i where i: "sessionTenantIdentity user = Inr i" "ctx_err = None" "sv_signingKey sv \<noteq> []"
    and n: "normalizeSessionSubject (ap_Subject user) = Inr (ap_Subject user)"
      "normalizeSessionRoles (ap_Roles user) = Inr (ap_Roles user)" "normalizeSessionProvider provider = Inr provider"
    and st: "st = \<lparr>st_Token = signPayload lib sv (marshal_payload
          \<lparr>pl_Version = sessionTokenVersion, pl_Type = sessionTokenType, pl_Provider = provider,
            pl_Subject = ap_Subject user, pl_Roles = Some (ap_Roles user), pl_TenantID = id_ID i,
            pl_TenantKey = id_Key i, pl_IssuedAt = time_Unix now, pl_ExpiresAt = time_Unix (now + sv_ttl sv)\<rparr>),
          st_Subject = ap_Subject user, st_Roles = ap_Roles user, st_Provider = provider,
          st_TenantID = id_ID i, st_TenantKey = id_Key i, st_IssuedAt = now, st_ExpiresAt = now + sv_ttl sv\<rparr>"
    using assms unfolding IssueToken_def
    by (auto simp: bindE_eq_Inr_iff Let_def split: option.splits if_splits)
  from sessionTenantIdentity_Inr [OF i(1)] i(1) n i(3) show
    "st_Token st = signPayload lib sv (marshal_payload (payload_of st (Some (st_Roles st))))"
    "sv_signingKey sv \<noteq> []" "session_ok st" "st_IssuedAt st = now" "st_ExpiresAt st = now + sv_ttl sv"
    "st_Subject st = ap_Subject user" "st_Roles st = ap_Roles user" "st_Provider st = provider"
    "sessionTenantIdentity user = Inr \<lparr>id_ID = st_TenantID st, id_Key = st_TenantKey st\<rparr>"
    unfolding st by (simp_all add: payload_of_def session_ok_def)
qed

lemma AuthenticateSession_ok:
  assumes "AuthenticateSession lib sv ctx_err now bearer = Inr st"
  shows "session_ok st" "sv_signingKey sv \<noteq> []"
  using assms by (auto simp: AuthenticateSession_Inr payload_session_Inr)

lemma RebindTenant_Inr:
  assumes "RebindTenant lib sv ctx_err now bearer i = Inr st"
  obtains st0 where "AuthenticateSession lib sv ctx_err now bearer = Inr st0"
    "st = st0\<lparr>st_Token := st_Token st, st_TenantID := id_ID i, st_TenantKey := id_Key i\<rparr>"
    "st_Token st = signPayload lib sv (marshal_payload (payload_of st (append_nil (st_Roles st0))))"
    "session_ok st" "sv_signingKey sv \<noteq> []"
proof -
  obtain st0 i' where a: "AuthenticateSession lib sv ctx_err now bearer = Inr st0"
    and i: "NewIdentity (id_ID i) (id_Key i) = Inr i'"
    and st: "st = st0\<lparr>st_Token := signPayload lib sv (marshal_payload
         \<lparr>pl_Version = sessionTokenVersion, pl_Type = sessionTokenType, pl_Provider = st_Provider st0,
           pl_Subject = st_Subject st0, pl_Roles = append_nil (st_Roles st0), pl_TenantID = id_ID i',
           pl_TenantKey = id_Key i', pl_IssuedAt = time_Unix (st_IssuedAt st0),
           pl_ExpiresAt = time_Unix (st_ExpiresAt st0)\<rparr>), st_TenantID := id_ID i', st_TenantKey := id_Key i'\<rparr>"
    using assms by (cases "NewIdentity (id_ID i) (id_Key i)") (auto simp: RebindTenant_def bindE_eq_Inr_iff Let_def)
  from i have i': "id_ID i' = id_ID i" "id_Key i' = id_Key i" "0 < id_ID i" "tenant_key_ok (id_Key i)"
    by (auto simp: NewIdentity_Inr)
  show thesis
    by (rule that [OF a]) (use AuthenticateSession_ok [OF a] i' in \<open>simp_all add: st payload_of_def session_ok_def\<close>)
qed

lemma session_times_whole:
  assumes "AuthenticateSession lib sv ctx_err now bearer = Inr st"
  shows "token_time (st_IssuedAt st)" "token_time (st_ExpiresAt st)"
    "whole_seconds (st_IssuedAt st) = st_IssuedAt st" "whole_seconds (st_ExpiresAt st) = st_ExpiresAt st"
proof -
  have t: "token_time (Unix_time s)" "whole_seconds (Unix_time s) = Unix_time s" for s
    by (simp_all add: token_time_def Unix_time_def whole_seconds_def)
  obtain token p where "payload_session now token p = Inr st" using assms unfolding AuthenticateSession_Inr by blast
  then have "st = session_of token p" unfolding payload_session_Inr by blast
  with t show "token_time (st_IssuedAt st)" "token_time (st_ExpiresAt st)"
    "whole_seconds (st_IssuedAt st) = st_IssuedAt st" "whole_seconds (st_ExpiresAt st) = st_ExpiresAt st"
    by (simp_all add: session_of_def)
qed

lemma expired_session_refused:
  assumes "tok = signPayload lib sv (marshal_payload (payload_of st roles))" "reads_back lib (payload_of st roles)"
    and "\<not> time_Unix now < time_Unix (st_ExpiresAt st)"
  shows "\<not> is_ok (AuthenticateSession lib sv ctx_err now tok)"
proof
  assume "is_ok (AuthenticateSession lib sv ctx_err now tok)"
  then obtain st' token p where "sessionBearerTokenValue tok = Inr token" "verifyToken lib sv token = Inr p"
    and s: "payload_session now token p = Inr st'" unfolding is_ok_def AuthenticateSession_Inr by blast
  with bearer_of_issued(2) [OF assms(1)] signPayload_verifies [OF assms(2), of sv] assms(1)
  have "p = payload_of st roles" by (simp add: payload_of_def)
  with s assms(3) show False by (simp add: payload_session_Inr payload_of_def)
qed

end
