(* ===== verification/Model_Call.thy ===== *)
theory Model_Call
  imports Json_Scan Json_Encode
begin

text \<open>
  \<open>internal/usecases/llmoutput/validate.go\<close> and \<open>llmretry/retry.go\<close>: the acceptance of a model's
  structured output and the bounded loop that sends validation errors back to the model. The
  provider is a function that threads a state of its own; the JSON Schema library, the tokenizer and
  \<open>%q\<close> are the fields of \<open>llm_lib\<close>. An error is kept with the text of \<open>Error()\<close>, since the loop
  shows it to the model. Copies made against aliasing are the values themselves.
\<close>

section \<open>Requests and responses\<close>

record LLMMessage =
  lm_Role :: string
  lm_Content :: string

record LLMRequest =
  lq_Messages :: "LLMMessage list"
  lq_OutputSchema :: string
  lq_OutputSchemaID :: string
  lq_IdempotencyKey :: string

record LLMResponse =
  lr_Content :: string
  lr_FinishReason :: string
  lr_Refusal :: "string option"
  lr_OutputMode :: string
  lr_Model :: string

abbreviation LLMRoleSystem :: string where "LLMRoleSystem \<equiv> ''system''"
abbreviation LLMOutputModeJSONSchema :: string where "LLMOutputModeJSONSchema \<equiv> ''json_schema''"
abbreviation LLMOutputModeJSONObject :: string where "LLMOutputModeJSONObject \<equiv> ''json_object''"
abbreviation acceptedFinishReason :: string where "acceptedFinishReason \<equiv> ''stop''"

datatype Reason =
    ReasonInvalidRequest | ReasonInvalidProviderMetadata | ReasonRefusal | ReasonIncomplete
  | ReasonInvalidJSON | ReasonSchemaViolation

fun reason_text :: "Reason \<Rightarrow> string" where
  "reason_text ReasonInvalidRequest = ''invalid_request''"
| "reason_text ReasonInvalidProviderMetadata = ''invalid_provider_metadata''"
| "reason_text ReasonRefusal = ''refusal''"
| "reason_text ReasonIncomplete = ''incomplete''"
| "reason_text ReasonInvalidJSON = ''invalid_json''"
| "reason_text ReasonSchemaViolation = ''schema_violation''"

text \<open>An error: the reason and flag of an \<open>llmoutput.Error\<close> in its chain, if there is one, and its text.\<close>

record llm_error =
  le_reason :: "(Reason \<times> bool) option"
  le_text :: string

definition IsRetryable :: "llm_error \<Rightarrow> bool" where
  "IsRetryable e = (case le_reason e of None \<Rightarrow> False | Some (_, retryable) \<Rightarrow> retryable)"

definition output_reject :: "Reason \<Rightarrow> bool \<Rightarrow> string \<Rightarrow> llm_error" where
  "output_reject reason retryable detail =
     \<lparr>le_reason = Some (reason, retryable), le_text = reason_text reason @ '': '' @ detail\<rparr>"

record 'v llm_lib =
  ml_tokenize :: "string \<Rightarrow> decoder"
  ml_strict_text :: "string \<Rightarrow> string"
  ml_quote :: "string \<Rightarrow> string"
  ml_compile :: "string \<Rightarrow> string \<Rightarrow> string + ('v \<Rightarrow> string option)"
  ml_instance :: "string \<Rightarrow> string + 'v"

record 'v Accepted =
  ac_Content :: string
  ac_Parsed :: 'v
  ac_OutputMode :: string
  ac_Model :: string

section \<open>Validation of one response\<close>

definition Validate :: "'v llm_lib \<Rightarrow> LLMRequest \<Rightarrow> LLMResponse \<Rightarrow> llm_error + 'v Accepted" where
  "Validate lib req resp =
     (if lq_OutputSchemaID req = [] then
        Inl (output_reject ReasonInvalidRequest False ''output_schema_id must be non-empty'')
      else if lq_OutputSchema req = [] then
        Inl (output_reject ReasonInvalidRequest False ''output_schema must be non-empty'')
      else if lr_OutputMode resp \<noteq> LLMOutputModeJSONSchema \<and> lr_OutputMode resp \<noteq> LLMOutputModeJSONObject then
        Inl (output_reject ReasonInvalidProviderMetadata False
          (''output mode '' @ ml_quote lib (lr_OutputMode resp) @ '' is unsupported''))
      else case lr_Refusal resp of
        Some refusal \<Rightarrow> Inl (output_reject ReasonRefusal False (''model refused: '' @ refusal))
      | None \<Rightarrow>
      if lr_FinishReason resp \<noteq> acceptedFinishReason then
        Inl (output_reject ReasonIncomplete True
          (''finish_reason '' @ ml_quote lib (lr_FinishReason resp) @ '' is not '' @ ml_quote lib acceptedFinishReason))
      else if lr_Content resp = [] then
        Inl (output_reject ReasonInvalidJSON True ''content must be non-empty JSON'')
      else case RejectDuplicateObjectKeys (ml_tokenize lib) (lr_Content resp) of
        Inl _ \<Rightarrow> Inl (output_reject ReasonInvalidJSON True
          (''content must be strict JSON: '' @ ml_strict_text lib (lr_Content resp)))
      | Inr _ \<Rightarrow>
      case RejectDuplicateObjectKeys (ml_tokenize lib) (lq_OutputSchema req) of
        Inl _ \<Rightarrow> Inl (output_reject ReasonInvalidRequest False
          (''output schema '' @ ml_quote lib (lq_OutputSchemaID req) @ '' must be strict JSON: ''
           @ ml_strict_text lib (lq_OutputSchema req)))
      | Inr _ \<Rightarrow>
      case ml_compile lib (lq_OutputSchemaID req) (lq_OutputSchema req) of
        Inl err \<Rightarrow> Inl (output_reject ReasonInvalidRequest False err)
      | Inr schema \<Rightarrow>
      case ml_instance lib (lr_Content resp) of
        Inl err \<Rightarrow> Inl (output_reject ReasonInvalidJSON True err)
      | Inr inst \<Rightarrow>
      case schema inst of
        Some err \<Rightarrow> Inl (output_reject ReasonSchemaViolation True err)
      | None \<Rightarrow> Inr \<lparr>ac_Content = lr_Content resp, ac_Parsed = inst, ac_OutputMode = lr_OutputMode resp,
                  ac_Model = lr_Model resp\<rparr>)"

lemma Validate_Inr:
  assumes "Validate lib req resp = Inr a"
  shows "lr_Refusal resp = None" "lr_FinishReason resp = acceptedFinishReason" "ac_Content a = lr_Content resp"
    "lr_OutputMode resp = LLMOutputModeJSONSchema \<or> lr_OutputMode resp = LLMOutputModeJSONObject"
    "RejectDuplicateObjectKeys (ml_tokenize lib) (lr_Content resp) = Inr ()"
    "\<exists>schema. ml_compile lib (lq_OutputSchemaID req) (lq_OutputSchema req) = Inr schema \<and>
       ml_instance lib (lr_Content resp) = Inr (ac_Parsed a) \<and> schema (ac_Parsed a) = None"
  using assms unfolding Validate_def by (auto split: if_splits option.splits sum.splits)

text \<open>Only the schema of the request counts.\<close>

lemma Validate_cong:
  assumes "lq_OutputSchema req = lq_OutputSchema req'" "lq_OutputSchemaID req = lq_OutputSchemaID req'"
  shows "Validate lib req resp = Validate lib req' resp"
  unfolding Validate_def assms ..

section \<open>The loop\<close>

definition DefaultMaxAttempts :: int where "DefaultMaxAttempts = 3"

record Attempt =
  at_Number :: int
  at_Response :: LLMResponse
  at_Err :: "llm_error option"
  at_Reason :: "Reason option"

record 'v GenResult =
  gr_Accepted :: LLMResponse
  gr_Output :: "'v Accepted"
  gr_Attempts :: "Attempt list"

record gen_error =
  ge_Attempts :: "Attempt list"
  ge_Err :: "llm_error option"

definition no_response :: LLMResponse where
  "no_response = \<lparr>lr_Content = [], lr_FinishReason = [], lr_Refusal = None, lr_OutputMode = [], lr_Model = []\<rparr>"

definition validationFeedbackMessage :: "llm_error \<Rightarrow> LLMMessage" where
  "validationFeedbackMessage err =
     \<lparr>lm_Role = LLMRoleSystem,
      lm_Content = ''The previous assistant output failed validation. ''
        @ ''Return only corrected JSON that satisfies the requested schema. ''
        @ ''Validation error: '' @ le_text err\<rparr>"

text \<open>The first system message is extended; without one the feedback becomes the first message.\<close>

fun extend_system :: "LLMMessage list \<Rightarrow> string \<Rightarrow> LLMMessage list option" where
  "extend_system [] feedback = None"
| "extend_system (m # ms) feedback =
     (if lm_Role m \<noteq> LLMRoleSystem then map_option (\<lambda>ms'. m # ms') (extend_system ms feedback)
      else Some (m\<lparr>lm_Content := lm_Content m @ [CHR 0x0A, CHR 0x0A] @ feedback\<rparr> # ms))"

definition addValidationFeedback :: "LLMMessage list \<Rightarrow> llm_error \<Rightarrow> LLMMessage list" where
  "addValidationFeedback messages err =
     (let feedback = validationFeedbackMessage err in
      case extend_system messages (lm_Content feedback) of
        Some messages' \<Rightarrow> messages'
      | None \<Rightarrow> feedback # messages)"

type_synonym 'p provider = "LLMRequest \<Rightarrow> 'p \<Rightarrow> 'p \<times> (llm_error + LLMResponse)"
type_synonym 'v validator = "LLMRequest \<Rightarrow> LLMResponse \<Rightarrow> llm_error + 'v Accepted"

text \<open>One iteration per value of \<open>i\<close>; \<open>ctx i\<close> is the error of the context then.\<close>

function generate_loop ::
  "(int \<Rightarrow> llm_error option) \<Rightarrow> 'p provider \<Rightarrow> 'v validator \<Rightarrow> int \<Rightarrow> int \<Rightarrow> LLMRequest \<Rightarrow> Attempt list
   \<Rightarrow> llm_error option \<Rightarrow> 'p \<Rightarrow> 'p \<times> (gen_error + 'v GenResult)" where
  "generate_loop ctx provider validate maxAttempts i attemptReq attempts lastErr p =
     (if i > maxAttempts then (p, Inl \<lparr>ge_Attempts = attempts, ge_Err = lastErr\<rparr>)
      else case ctx i of
        Some err \<Rightarrow> (p, Inl \<lparr>ge_Attempts = attempts, ge_Err = Some err\<rparr>)
      | None \<Rightarrow>
      case provider attemptReq p of
        (p, Inl err) \<Rightarrow>
          (p, Inl \<lparr>ge_Attempts = attempts @ [\<lparr>at_Number = i, at_Response = no_response, at_Err = Some err,
              at_Reason = None\<rparr>], ge_Err = Some err\<rparr>)
      | (p, Inr resp) \<Rightarrow>
      case validate attemptReq resp of
        Inr output \<Rightarrow>
          (p, Inr \<lparr>gr_Accepted = resp, gr_Output = output,
              gr_Attempts = attempts @ [\<lparr>at_Number = i, at_Response = resp, at_Err = None, at_Reason = None\<rparr>]\<rparr>)
      | Inl err \<Rightarrow>
          let attempts = attempts @ [\<lparr>at_Number = i, at_Response = resp, at_Err = Some err,
                at_Reason = map_option fst (le_reason err)\<rparr>]
          in if \<not> IsRetryable err \<or> i = maxAttempts then
               (p, Inl \<lparr>ge_Attempts = attempts, ge_Err = Some err\<rparr>)
             else generate_loop ctx provider validate maxAttempts (i + 1)
               (attemptReq\<lparr>lq_Messages := addValidationFeedback (lq_Messages attemptReq) err\<rparr>) attempts (Some err) p)"
  by pat_completeness auto
termination
  by (relation "measure (\<lambda>(ctx, provider, validate, maxAttempts, i, req, attempts, lastErr, p). nat (maxAttempts + 1 - i))")
    auto

declare generate_loop.simps [simp del]

definition GenerateValidated ::
  "'v llm_lib \<Rightarrow> (int \<Rightarrow> llm_error option) \<Rightarrow> 'p provider option \<Rightarrow> 'v validator option \<Rightarrow> int \<Rightarrow> LLMRequest
   \<Rightarrow> 'p \<Rightarrow> 'p \<times> (gen_error + 'v GenResult)" where
  "GenerateValidated lib ctx provider validator reqMaxAttempts req p =
     (let plain = (\<lambda>msg. (p, Inl \<lparr>ge_Attempts = [], ge_Err = Some \<lparr>le_reason = None, le_text = msg\<rparr>\<rparr>)) in
      case provider of
        None \<Rightarrow> plain ''llm retry: provider must be non-nil''
      | Some provider \<Rightarrow>
      if lq_IdempotencyKey req = [] then plain ''llm retry: idempotency key must be non-empty''
      else let maxAttempts = (if reqMaxAttempts = 0 then DefaultMaxAttempts else reqMaxAttempts) in
      if maxAttempts < 0 then plain (''llm retry: max_attempts must be >= 0 (got '' @ int_decimal reqMaxAttempts @ '')'')
      else if maxAttempts = 0 then plain ''llm retry: max_attempts must be > 0''
      else let validator = (case validator of None \<Rightarrow> Validate lib | Some v \<Rightarrow> v) in
      generate_loop ctx provider validator maxAttempts 1 req [] None p)"

section \<open>What a run of the loop does\<close>

text \<open>The provider's state after a list of requests.\<close>

definition provider_run :: "'p provider \<Rightarrow> LLMRequest list \<Rightarrow> 'p \<Rightarrow> 'p" where
  "provider_run provider reqs p = foldl (\<lambda>p q. fst (provider q p)) p reqs"

lemma provider_run_simps [simp]:
  "provider_run provider [] p = p"
  "provider_run provider (q # qs) p = provider_run provider qs (fst (provider q p))"
  by (simp_all add: provider_run_def)

fun run_attempts :: "gen_error + 'v GenResult \<Rightarrow> Attempt list" where
  "run_attempts (Inl e) = ge_Attempts e"
| "run_attempts (Inr r) = gr_Attempts r"

text \<open>A request of the loop: the messages that are not the application's own are those of the caller.\<close>

definition user_messages :: "LLMMessage list \<Rightarrow> LLMMessage list" where
  "user_messages ms = filter (\<lambda>m. lm_Role m \<noteq> LLMRoleSystem) ms"

definition retry_of :: "LLMRequest \<Rightarrow> LLMRequest \<Rightarrow> bool" where
  "retry_of req q \<longleftrightarrow> lq_OutputSchema q = lq_OutputSchema req \<and> lq_OutputSchemaID q = lq_OutputSchemaID req \<and>
     lq_IdempotencyKey q = lq_IdempotencyKey req \<and> user_messages (lq_Messages q) = user_messages (lq_Messages req)"

lemma extend_system_user:
  "extend_system ms f = Some ms' \<Longrightarrow> user_messages ms' = user_messages ms"
  by (induction ms arbitrary: ms') (auto simp: user_messages_def split: if_splits)

lemma addValidationFeedback_user [simp]:
  "user_messages (addValidationFeedback ms err) = user_messages ms"
  by (auto simp: addValidationFeedback_def Let_def validationFeedbackMessage_def user_messages_def [of "x # xs" for x xs]
      extend_system_user split: option.splits) (simp_all add: user_messages_def)

lemma retry_of_feedback:
  "retry_of req q \<Longrightarrow> retry_of req (q\<lparr>lq_Messages := addValidationFeedback (lq_Messages q) err\<rparr>)"
  by (simp add: retry_of_def)

text \<open>
  The new attempts of a run from iteration \<open>i\<close>: numbered from \<open>i\<close>, one per request to the provider, all
  but the last rejected with an error that can be retried.
\<close>

definition retried :: "Attempt \<Rightarrow> bool" where
  "retried a \<longleftrightarrow> (\<exists>e. at_Err a = Some e \<and> IsRetryable e)"

lemma generate_loop_run:
  assumes "generate_loop ctx provider validate m i q as le p = (p', r)" "retry_of req q" "i \<le> m"
  shows "\<exists>new reqs. run_attempts r = as @ new \<and> p' = provider_run provider reqs p \<and> length reqs = length new \<and>
    (\<forall>x \<in> set reqs. retry_of req x) \<and> map at_Number new = map (\<lambda>k. i + int k) [0..<length new] \<and>
    int (length new) \<le> m + 1 - i \<and> (\<forall>a \<in> set (butlast new). retried a) \<and>
    (\<forall>g. r = Inr g \<longrightarrow> new \<noteq> [] \<and> at_Err (last new) = None \<and> at_Response (last new) = gr_Accepted g \<and>
       validate (last reqs) (gr_Accepted g) = Inr (gr_Output g)) \<and>
    (\<forall>e. r = Inl e \<longrightarrow> ge_Err e \<noteq> None)"
  using assms
proof (induction ctx provider validate m i q as le p rule: generate_loop.induct)
  case (1 ctx provider validate m i q as le p)
  note loop = "1.prems"(1) [unfolded generate_loop.simps [of ctx provider validate m i]]
  show ?case
  proof (cases "ctx i")
    case (Some err)
    with loop "1.prems"(3) show ?thesis by (intro exI [of _ "[]"]) auto
  next
    case ctx: None
    obtain p1 a where pa: "provider q p = (p1, a)" by (cases "provider q p")
    show ?thesis
    proof (cases a)
      case (Inl err)
      with loop ctx pa "1.prems" show ?thesis
        by (intro exI [of _ "[\<lparr>at_Number = i, at_Response = no_response, at_Err = Some err, at_Reason = None\<rparr>]"] exI [of _ "[q]"])
          auto
    next
      case resp: (Inr resp)
      show ?thesis
      proof (cases "validate q resp")
        case (Inr out)
        with loop ctx pa resp "1.prems" show ?thesis
          by (intro exI [of _ "[\<lparr>at_Number = i, at_Response = resp, at_Err = None, at_Reason = None\<rparr>]"] exI [of _ "[q]"])
            auto
      next
        case err: (Inl err)
        let ?a = "\<lparr>at_Number = i, at_Response = resp, at_Err = Some err, at_Reason = map_option fst (le_reason err)\<rparr>"
        let ?q = "q\<lparr>lq_Messages := addValidationFeedback (lq_Messages q) err\<rparr>"
        show ?thesis
        proof (cases "\<not> IsRetryable err \<or> i = m")
          case True
          with loop ctx pa resp err "1.prems" show ?thesis
            by (intro exI [of _ "[?a]"] exI [of _ "[q]"]) auto
        next
          case False
          with loop ctx pa resp err "1.prems"(3)
          have next_call: "generate_loop ctx provider validate m (i + 1) ?q (as @ [?a]) (Some err) p1 = (p', r)" by auto
          have "i + 1 \<le> m" "\<not> m < i" using "1.prems"(3) False by auto
          note ih = "1.IH" [OF this(2) ctx pa [symmetric] resp err HOL.refl False next_call
              retry_of_feedback [OF "1.prems"(2)] this(1)]
          then
          obtain new reqs where ih: "run_attempts r = (as @ [?a]) @ new" "p' = provider_run provider reqs p1"
            "length reqs = length new" "\<forall>x \<in> set reqs. retry_of req x"
            "map at_Number new = map (\<lambda>k. i + 1 + int k) [0..<length new]" "int (length new) \<le> m + 1 - (i + 1)"
            "\<forall>a \<in> set (butlast new). retried a"
            "\<forall>g. r = Inr g \<longrightarrow> new \<noteq> [] \<and> at_Err (last new) = None \<and> at_Response (last new) = gr_Accepted g \<and>
               validate (last reqs) (gr_Accepted g) = Inr (gr_Output g)"
            "\<forall>e. r = Inl e \<longrightarrow> ge_Err e \<noteq> None" by blast
          have "map (\<lambda>k. i + int k) [0..<length (?a # new)] = i # map (\<lambda>k. i + 1 + int k) [0..<length new]"
            by (simp add: upt_conv_Cons map_Suc_upt [symmetric] comp_def add.assoc del: upt_Suc)
          moreover have "reqs \<noteq> []" if "r = Inr g" for g using ih(3,8) that by auto
          ultimately show ?thesis
            using ih "1.prems"(2) pa False
            by (intro exI [of _ "?a # new"] exI [of _ "q # reqs"]) (auto simp: retried_def)
        qed
      qed
    qed
  qed
qed

lemma GenerateValidated_run:
  assumes "GenerateValidated lib ctx (Some provider) validator reqMax req p = (p', r)"
  shows "\<exists>reqs. p' = provider_run provider reqs p \<and> length reqs = length (run_attempts r) \<and>
    int (length reqs) \<le> (if reqMax = 0 then 3 else max 0 reqMax) \<and> (\<forall>q \<in> set reqs. retry_of req q) \<and>
    map at_Number (run_attempts r) = map int [1..<length reqs + 1] \<and>
    (\<forall>a \<in> set (butlast (run_attempts r)). retried a) \<and>
    (\<forall>g. r = Inr g \<longrightarrow> reqs \<noteq> [] \<and> at_Err (last (run_attempts r)) = None \<and>
       (case validator of None \<Rightarrow> Validate lib | Some v \<Rightarrow> v) (last reqs) (gr_Accepted g) = Inr (gr_Output g)) \<and>
    (\<forall>e. r = Inl e \<longrightarrow> ge_Err e \<noteq> None)"
proof -
  let ?m = "if reqMax = 0 then DefaultMaxAttempts else reqMax"
  consider (refused) e where "p' = p" "r = Inl e" "ge_Attempts e = []" "ge_Err e \<noteq> None"
    | (loop) "1 \<le> ?m" "generate_loop ctx provider (case validator of None \<Rightarrow> Validate lib | Some v \<Rightarrow> v) ?m 1 req [] None p = (p', r)"
    using assms unfolding GenerateValidated_def by (auto simp: Let_def split: if_splits)
  then show ?thesis
  proof cases
    case refused
    then show ?thesis by (intro exI [of _ "[]"]) auto
  next
    case loop
    have "retry_of req req" by (simp add: retry_of_def)
    from generate_loop_run [OF loop(2) this loop(1)] obtain new reqs where
      "run_attempts r = [] @ new" "p' = provider_run provider reqs p" "length reqs = length new"
      "\<forall>x \<in> set reqs. retry_of req x" "map at_Number new = map (\<lambda>k. 1 + int k) [0..<length new]"
      "int (length new) \<le> ?m + 1 - 1" "\<forall>a \<in> set (butlast new). retried a"
      "\<forall>g. r = Inr g \<longrightarrow> new \<noteq> [] \<and> at_Err (last new) = None \<and> at_Response (last new) = gr_Accepted g \<and>
         (case validator of None \<Rightarrow> Validate lib | Some v \<Rightarrow> v) (last reqs) (gr_Accepted g) = Inr (gr_Output g)"
      "\<forall>e. r = Inl e \<longrightarrow> ge_Err e \<noteq> None" by blast
    moreover have "map (\<lambda>k. 1 + int k) [0..<n] = map int [1..<n + 1]" for n
      by (simp add: map_Suc_upt [symmetric] comp_def del: upt_Suc)
    ultimately show ?thesis
      using loop(1) by (intro exI [of _ reqs]) (auto simp: DefaultMaxAttempts_def)
  qed
qed

end
