(* ===== verification/Report_Draft.thy ===== *)
theory Report_Draft
  imports Model_Call Go_Runes
begin

text \<open>
  \<open>internal/usecases/reportdraft/schema.go\<close>: the structured reports the model is asked for, the
  checks that go beyond the JSON Schema, and the readers of an accepted response. The texts of the
  two schemas and \<open>json.Unmarshal\<close> into the two structs are the fields of \<open>draft_lib\<close>. The lemmas say
  what the checks amount to and that a response the retry loop accepted is read without error.
\<close>

section \<open>Data\<close>

record Finding =
  fd_Label :: string
  fd_Detail :: string
  fd_EvidenceID :: string

record Action =
  an_Label :: string
  an_Detail :: string
  an_Priority :: string

record SubReport =
  sb_Title :: string
  sb_Summary :: string
  sb_Severity :: string
  sb_Confidence :: string
  sb_Findings :: "Finding list"
  sb_RecommendedActions :: "Action list"
  sb_EvidenceRefs :: "string list"

record SubReportSummary =
  sy_Title :: string
  sy_Severity :: string
  sy_Summary :: string

record FinalReport =
  fn_Title :: string
  fn_ExecutiveSummary :: string
  fn_Severity :: string
  fn_Confidence :: string
  fn_SubReports :: "SubReportSummary list"
  fn_RecommendedActions :: "Action list"
  fn_NotificationText :: string

record 'v draft_lib =
  dl_llm :: "'v llm_lib"
  dl_sub_schema :: string
  dl_final_schema :: string
  dl_sub :: "string \<Rightarrow> string + SubReport"
  dl_final :: "string \<Rightarrow> string + FinalReport"

abbreviation SubReportSchemaID :: string where "SubReportSchemaID \<equiv> ''openclarion_sub_report''"
abbreviation FinalReportSchemaID :: string where "FinalReportSchemaID \<equiv> ''openclarion_final_report''"

definition maxTitleRunes :: nat where "maxTitleRunes = 160"
definition maxSummaryRunes :: nat where "maxSummaryRunes = 4000"
definition maxLabelRunes :: nat where "maxLabelRunes = 120"
definition maxDetailRunes :: nat where "maxDetailRunes = 2000"
definition maxEvidenceIDRunes :: nat where "maxEvidenceIDRunes = 120"
definition maxSubReportFindings :: nat where "maxSubReportFindings = 20"
definition maxSubReportActions :: nat where "maxSubReportActions = 20"
definition maxEvidenceRefs :: nat where "maxEvidenceRefs = 50"
definition maxFinalSubReports :: nat where "maxFinalSubReports = 50"
definition maxFinalActions :: nat where "maxFinalActions = 30"

lemmas draft_bounds = maxTitleRunes_def maxSummaryRunes_def maxLabelRunes_def maxDetailRunes_def
  maxEvidenceIDRunes_def maxSubReportFindings_def maxSubReportActions_def maxEvidenceRefs_def
  maxFinalSubReports_def maxFinalActions_def

section \<open>Checks\<close>

text \<open>A check answers with the text of its error.\<close>

definition validSeverity :: "string \<Rightarrow> bool" where
  "validSeverity s \<longleftrightarrow> s = ''info'' \<or> s = ''warning'' \<or> s = ''critical''"

definition validConfidence :: "string \<Rightarrow> bool" where
  "validConfidence s \<longleftrightarrow> s = ''low'' \<or> s = ''medium'' \<or> s = ''high''"

definition validPriority :: "string \<Rightarrow> bool" where
  "validPriority s \<longleftrightarrow> s = ''low'' \<or> s = ''medium'' \<or> s = ''high''"

definition validateRequiredString :: "string \<Rightarrow> string \<Rightarrow> nat \<Rightarrow> string option" where
  "validateRequiredString path value maxRunes =
     (if TrimSpace value = [] then Some (path @ '' must be non-empty'')
      else if RuneCountInString value > maxRunes then
        Some (path @ '' exceeds '' @ decimal maxRunes @ '' runes'')
      else None)"

definition first_of :: "string option list \<Rightarrow> string option" where
  "first_of errs = (case filter (\<lambda>e. e \<noteq> None) errs of [] \<Rightarrow> None | e # _ \<Rightarrow> e)"

fun first_error :: "(nat \<Rightarrow> 'a \<Rightarrow> string option) \<Rightarrow> nat \<Rightarrow> 'a list \<Rightarrow> string option" where
  "first_error check i [] = None"
| "first_error check i (x # xs) = (case check i x of Some e \<Rightarrow> Some e | None \<Rightarrow> first_error check (i + 1) xs)"

definition indexed :: "string \<Rightarrow> nat \<Rightarrow> string" where
  "indexed name i = name @ ''['' @ decimal i @ '']''"

definition validateCommonReportFields ::
  "(string \<Rightarrow> string) \<Rightarrow> string \<Rightarrow> string \<Rightarrow> string \<Rightarrow> string \<Rightarrow> string \<Rightarrow> string option" where
  "validateCommonReportFields quote title summaryPath summary severity confidence =
     first_of
       [validateRequiredString ''title'' title maxTitleRunes,
        validateRequiredString summaryPath summary maxSummaryRunes,
        if \<not> validSeverity severity then Some (''severity '' @ quote severity @ '' is invalid'') else None,
        if \<not> validConfidence confidence then Some (''confidence '' @ quote confidence @ '' is invalid'') else None]"

definition validateFinding :: "nat \<Rightarrow> Finding \<Rightarrow> string option" where
  "validateFinding index finding =
     (let prefix = indexed ''findings'' index in
      first_of
       [validateRequiredString (prefix @ ''.label'') (fd_Label finding) maxLabelRunes,
        validateRequiredString (prefix @ ''.detail'') (fd_Detail finding) maxDetailRunes,
        validateRequiredString (prefix @ ''.evidence_id'') (fd_EvidenceID finding) maxEvidenceIDRunes])"

definition validateAction :: "(string \<Rightarrow> string) \<Rightarrow> nat \<Rightarrow> Action \<Rightarrow> string option" where
  "validateAction quote index act =
     (let prefix = indexed ''recommended_actions'' index in
      first_of
       [validateRequiredString (prefix @ ''.label'') (an_Label act) maxLabelRunes,
        validateRequiredString (prefix @ ''.detail'') (an_Detail act) maxDetailRunes,
        if \<not> validPriority (an_Priority act) then
          Some (prefix @ ''.priority '' @ quote (an_Priority act) @ '' is invalid'')
        else None])"

definition validateSubReportSummary :: "(string \<Rightarrow> string) \<Rightarrow> nat \<Rightarrow> SubReportSummary \<Rightarrow> string option" where
  "validateSubReportSummary quote index summary =
     (let prefix = indexed ''sub_reports'' index in
      first_of
       [validateRequiredString (prefix @ ''.title'') (sy_Title summary) maxTitleRunes,
        validateRequiredString (prefix @ ''.summary'') (sy_Summary summary) 1000,
        if \<not> validSeverity (sy_Severity summary) then
          Some (prefix @ ''.severity '' @ quote (sy_Severity summary) @ '' is invalid'')
        else None])"

definition too_many :: "string \<Rightarrow> nat \<Rightarrow> nat \<Rightarrow> string option" where
  "too_many name n maximum =
     (if n > maximum then Some (name @ '' contains '' @ decimal n @ '' items, max '' @ decimal maximum) else None)"

text \<open>The loop over the evidence references and the set of those seen.\<close>

fun validateEvidenceRefs :: "(string \<Rightarrow> string) \<Rightarrow> nat \<Rightarrow> string set \<Rightarrow> string list \<Rightarrow> string option" where
  "validateEvidenceRefs quote i seen [] = None"
| "validateEvidenceRefs quote i seen (ref # rest) =
     (case validateRequiredString (indexed ''evidence_refs'' i) ref maxEvidenceIDRunes of
        Some e \<Rightarrow> Some e
      | None \<Rightarrow>
          if ref \<in> seen then Some (indexed ''evidence_refs'' i @ '' duplicates evidence ref '' @ quote ref)
          else validateEvidenceRefs quote (i + 1) (insert ref seen) rest)"

definition reportSchemaViolation :: "string \<Rightarrow> llm_error" where
  "reportSchemaViolation err = output_reject ReasonSchemaViolation True err"

definition validateSubReport :: "(string \<Rightarrow> string) \<Rightarrow> SubReport \<Rightarrow> llm_error option" where
  "validateSubReport quote out =
     map_option reportSchemaViolation (first_of
       [validateCommonReportFields quote (sb_Title out) ''summary'' (sb_Summary out) (sb_Severity out) (sb_Confidence out),
        if sb_Findings out = [] then Some ''findings must contain at least one item'' else None,
        too_many ''findings'' (length (sb_Findings out)) maxSubReportFindings,
        first_error validateFinding 0 (sb_Findings out),
        too_many ''recommended_actions'' (length (sb_RecommendedActions out)) maxSubReportActions,
        first_error (validateAction quote) 0 (sb_RecommendedActions out),
        too_many ''evidence_refs'' (length (sb_EvidenceRefs out)) maxEvidenceRefs,
        validateEvidenceRefs quote 0 {} (sb_EvidenceRefs out),
        first_error (\<lambda>i finding.
            if fd_EvidenceID finding \<notin> set (sb_EvidenceRefs out) then
              Some (indexed ''findings'' i @ ''.evidence_id '' @ quote (fd_EvidenceID finding)
                @ '' must be listed in evidence_refs'')
            else None) 0 (sb_Findings out)])"

definition validateFinalReport :: "(string \<Rightarrow> string) \<Rightarrow> FinalReport \<Rightarrow> llm_error option" where
  "validateFinalReport quote out =
     map_option reportSchemaViolation (first_of
       [validateCommonReportFields quote (fn_Title out) ''executive_summary'' (fn_ExecutiveSummary out)
          (fn_Severity out) (fn_Confidence out),
        if fn_SubReports out = [] then Some ''sub_reports must contain at least one item'' else None,
        too_many ''sub_reports'' (length (fn_SubReports out)) maxFinalSubReports,
        first_error (validateSubReportSummary quote) 0 (fn_SubReports out),
        too_many ''recommended_actions'' (length (fn_RecommendedActions out)) maxFinalActions,
        first_error (validateAction quote) 0 (fn_RecommendedActions out),
        validateRequiredString ''notification_text'' (fn_NotificationText out) maxDetailRunes])"

section \<open>Readers\<close>

definition ValidateSubReportResponse :: "'v draft_lib \<Rightarrow> 'v validator" where
  "ValidateSubReportResponse lib req resp =
     (case Validate (dl_llm lib) req resp of
        Inl err \<Rightarrow> Inl err
      | Inr acc \<Rightarrow>
      case dl_sub lib (ac_Content acc) of
        Inl err \<Rightarrow> Inl (reportSchemaViolation (''parse sub report: '' @ err))
      | Inr out \<Rightarrow>
      case validateSubReport (ml_quote (dl_llm lib)) out of
        Some err \<Rightarrow> Inl err
      | None \<Rightarrow> Inr acc)"

definition ValidateFinalReportResponse :: "'v draft_lib \<Rightarrow> 'v validator" where
  "ValidateFinalReportResponse lib req resp =
     (case Validate (dl_llm lib) req resp of
        Inl err \<Rightarrow> Inl err
      | Inr acc \<Rightarrow>
      case dl_final lib (ac_Content acc) of
        Inl err \<Rightarrow> Inl (reportSchemaViolation (''parse final report: '' @ err))
      | Inr out \<Rightarrow>
      case validateFinalReport (ml_quote (dl_llm lib)) out of
        Some err \<Rightarrow> Inl err
      | None \<Rightarrow> Inr acc)"

definition schemaRequest :: "string \<Rightarrow> string \<Rightarrow> LLMRequest" where
  "schemaRequest i schema =
     \<lparr>lq_Messages = [], lq_OutputSchema = schema, lq_OutputSchemaID = i, lq_IdempotencyKey = i @ ''/parse''\<rparr>"

definition ParseSubReport :: "'v draft_lib \<Rightarrow> LLMResponse \<Rightarrow> llm_error + SubReport" where
  "ParseSubReport lib resp =
     (case ValidateSubReportResponse lib (schemaRequest SubReportSchemaID (dl_sub_schema lib)) resp of
        Inl err \<Rightarrow> Inl err
      | Inr acc \<Rightarrow>
      case dl_sub lib (ac_Content acc) of
        Inl err \<Rightarrow> Inl \<lparr>le_reason = None, le_text = ''parse sub report: '' @ err\<rparr>
      | Inr out \<Rightarrow>
      case validateSubReport (ml_quote (dl_llm lib)) out of
        Some err \<Rightarrow> Inl err
      | None \<Rightarrow> Inr out)"

definition ParseFinalReport :: "'v draft_lib \<Rightarrow> LLMResponse \<Rightarrow> llm_error + FinalReport" where
  "ParseFinalReport lib resp =
     (case ValidateFinalReportResponse lib (schemaRequest FinalReportSchemaID (dl_final_schema lib)) resp of
        Inl err \<Rightarrow> Inl err
      | Inr acc \<Rightarrow>
      case dl_final lib (ac_Content acc) of
        Inl err \<Rightarrow> Inl \<lparr>le_reason = None, le_text = ''parse final report: '' @ err\<rparr>
      | Inr out \<Rightarrow>
      case validateFinalReport (ml_quote (dl_llm lib)) out of
        Some err \<Rightarrow> Inl err
      | None \<Rightarrow> Inr out)"

section \<open>What the checks amount to\<close>

definition text_ok :: "nat \<Rightarrow> string \<Rightarrow> bool" where
  "text_ok maximum s \<longleftrightarrow> TrimSpace s \<noteq> [] \<and> RuneCountInString s \<le> maximum"

definition finding_ok :: "Finding \<Rightarrow> bool" where
  "finding_ok f \<longleftrightarrow> text_ok 120 (fd_Label f) \<and> text_ok 2000 (fd_Detail f) \<and> text_ok 120 (fd_EvidenceID f)"

definition action_ok :: "Action \<Rightarrow> bool" where
  "action_ok a \<longleftrightarrow> text_ok 120 (an_Label a) \<and> text_ok 2000 (an_Detail a) \<and> validPriority (an_Priority a)"

definition sub_report_ok :: "SubReport \<Rightarrow> bool" where
  "sub_report_ok r \<longleftrightarrow> text_ok 160 (sb_Title r) \<and> text_ok 4000 (sb_Summary r) \<and>
     validSeverity (sb_Severity r) \<and> validConfidence (sb_Confidence r) \<and>
     1 \<le> length (sb_Findings r) \<and> length (sb_Findings r) \<le> 20 \<and> length (sb_RecommendedActions r) \<le> 20 \<and>
     length (sb_EvidenceRefs r) \<le> 50 \<and> distinct (sb_EvidenceRefs r) \<and>
     (\<forall>f \<in> set (sb_Findings r). finding_ok f \<and> fd_EvidenceID f \<in> set (sb_EvidenceRefs r)) \<and>
     (\<forall>a \<in> set (sb_RecommendedActions r). action_ok a) \<and> (\<forall>e \<in> set (sb_EvidenceRefs r). text_ok 120 e)"

definition summary_ok :: "SubReportSummary \<Rightarrow> bool" where
  "summary_ok s \<longleftrightarrow> text_ok 160 (sy_Title s) \<and> text_ok 1000 (sy_Summary s) \<and> validSeverity (sy_Severity s)"

definition final_report_ok :: "FinalReport \<Rightarrow> bool" where
  "final_report_ok r \<longleftrightarrow> text_ok 160 (fn_Title r) \<and> text_ok 4000 (fn_ExecutiveSummary r) \<and>
     validSeverity (fn_Severity r) \<and> validConfidence (fn_Confidence r) \<and>
     1 \<le> length (fn_SubReports r) \<and> length (fn_SubReports r) \<le> 50 \<and> length (fn_RecommendedActions r) \<le> 30 \<and>
     (\<forall>s \<in> set (fn_SubReports r). summary_ok s) \<and> (\<forall>a \<in> set (fn_RecommendedActions r). action_ok a) \<and>
     text_ok 2000 (fn_NotificationText r)"

lemma first_of_None [simp]: "first_of errs = None \<longleftrightarrow> (\<forall>e \<in> set errs. e = None)"
  by (induction errs) (auto simp: first_of_def split: list.splits)

lemma first_error_None [simp]:
  "first_error check i xs = None \<longleftrightarrow> (\<forall>k < length xs. check (i + k) (xs ! k) = None)"
  by (induction xs arbitrary: i) (auto simp: less_Suc_eq_0_disj split: option.splits)

lemma validateRequiredString_None [simp]:
  "validateRequiredString path value n = None \<longleftrightarrow> text_ok n value"
  by (simp add: validateRequiredString_def text_ok_def not_less)

lemma too_many_None [simp]: "too_many name n m = None \<longleftrightarrow> n \<le> m"
  by (simp add: too_many_def not_less)

lemma case_error_None: "(case x of None \<Rightarrow> y | Some e \<Rightarrow> Some e) = None \<longleftrightarrow> x = None \<and> y = None"
  by (cases x) simp_all

lemma validateEvidenceRefs_None [simp]:
  "validateEvidenceRefs quote i seen refs = None \<longleftrightarrow>
     (\<forall>r \<in> set refs. text_ok 120 r) \<and> distinct refs \<and> set refs \<inter> seen = {}"
  by (induction quote i seen refs rule: validateEvidenceRefs.induct)
    (auto simp: maxEvidenceIDRunes_def case_error_None)

lemma item_checks_None [simp]:
  "validateFinding i f = None \<longleftrightarrow> finding_ok f"
  "validateAction quote i a = None \<longleftrightarrow> action_ok a"
  "validateSubReportSummary quote i s = None \<longleftrightarrow> summary_ok s"
  "validateCommonReportFields quote t path x sev c = None \<longleftrightarrow>
     text_ok 160 t \<and> text_ok 4000 x \<and> validSeverity sev \<and> validConfidence c"
  by (auto simp: validateFinding_def validateAction_def validateSubReportSummary_def validateCommonReportFields_def
      finding_ok_def action_ok_def summary_ok_def Let_def draft_bounds)

lemma validateSubReport_None: "validateSubReport quote r = None \<longleftrightarrow> sub_report_ok r"
  by (auto simp: validateSubReport_def sub_report_ok_def draft_bounds all_set_conv_all_nth Suc_le_eq split: if_splits)

lemma validateFinalReport_None: "validateFinalReport quote r = None \<longleftrightarrow> final_report_ok r"
  by (auto simp: validateFinalReport_def final_report_ok_def draft_bounds all_set_conv_all_nth Suc_le_eq)

section \<open>Accepted drafts\<close>

lemma draft_checked_Inr [simp]:
  "(case validateSubReport q r of None \<Rightarrow> Inr x | Some err \<Rightarrow> Inl err) = Inr y \<longleftrightarrow> sub_report_ok r \<and> x = y"
  "(case validateFinalReport q f of None \<Rightarrow> Inr x | Some err \<Rightarrow> Inl err) = Inr y \<longleftrightarrow> final_report_ok f \<and> x = y"
  using validateSubReport_None [of q r] validateFinalReport_None [of q f] by (auto split: option.splits)

lemma ValidateSubReportResponse_Inr:
  "ValidateSubReportResponse lib req resp = Inr a \<longleftrightarrow>
     Validate (dl_llm lib) req resp = Inr a \<and> (\<exists>out. dl_sub lib (lr_Content resp) = Inr out \<and> sub_report_ok out)"
  using Validate_Inr(3) [of "dl_llm lib" req resp a]
  by (auto simp: ValidateSubReportResponse_def split: sum.splits)

lemma ValidateFinalReportResponse_Inr:
  "ValidateFinalReportResponse lib req resp = Inr a \<longleftrightarrow>
     Validate (dl_llm lib) req resp = Inr a \<and> (\<exists>out. dl_final lib (lr_Content resp) = Inr out \<and> final_report_ok out)"
  using Validate_Inr(3) [of "dl_llm lib" req resp a]
  by (auto simp: ValidateFinalReportResponse_def split: sum.splits)

text \<open>A reader accepts what the validator accepts for the same schema, and returns a report that is in order.\<close>

lemma ParseSubReport_Inr:
  "ParseSubReport lib resp = Inr out \<longleftrightarrow>
     (\<exists>a. ValidateSubReportResponse lib (schemaRequest SubReportSchemaID (dl_sub_schema lib)) resp = Inr a) \<and>
     dl_sub lib (lr_Content resp) = Inr out \<and> sub_report_ok out"
  using Validate_Inr(3) [of "dl_llm lib" _ resp]
  by (cases "ValidateSubReportResponse lib (schemaRequest SubReportSchemaID (dl_sub_schema lib)) resp")
    (auto simp: ParseSubReport_def ValidateSubReportResponse_Inr [symmetric], auto simp: ValidateSubReportResponse_Inr)

lemma ParseFinalReport_Inr:
  "ParseFinalReport lib resp = Inr out \<longleftrightarrow>
     (\<exists>a. ValidateFinalReportResponse lib (schemaRequest FinalReportSchemaID (dl_final_schema lib)) resp = Inr a) \<and>
     dl_final lib (lr_Content resp) = Inr out \<and> final_report_ok out"
  using Validate_Inr(3) [of "dl_llm lib" _ resp]
  by (cases "ValidateFinalReportResponse lib (schemaRequest FinalReportSchemaID (dl_final_schema lib)) resp")
    (auto simp: ParseFinalReport_def ValidateFinalReportResponse_Inr [symmetric], auto simp: ValidateFinalReportResponse_Inr)

end
