(* ===== verification/Auth_Properties.thy ===== *)
theory Auth_Properties
  imports Ticket_Race Session_Token Report_Draft
begin

text \<open>
  The properties of the access to diagnosis rooms, single-use tickets and signed sessions, and of
  the bounded model calls that draft reports, each with an instance of its hypotheses.
\<close>

section \<open>Tickets\<close>

text \<open>
  C35: Callers of \<open>ConsumeTicket\<close> race on the PostgreSQL store, their statements in any order and
  with any faults of the driver, while tickets are saved. Two callers that are both answered with a
  ticket hold tickets of different hashes, so of different tokens, and what each is answered with is
  the row of its own token, marked as consumed.
\<close>

theorem racing_callers_share_no_ticket:
  assumes "tickets_ok d" "race_reach sha d s"
    and "i < length (rc_callers s)" "j < length (rc_callers s)" "i \<noteq> j"
    and "rc_callers s ! i = Consumed tok t" "rc_callers s ! j = Consumed tok' t'"
  shows "sha tok \<noteq> sha tok' \<and>
    (\<exists>r. ticket_at (rc_db s) (sha tok) = Some r \<and> kr_ConsumedAt r \<noteq> None \<and> t = diagnosisAuthTicketToUsecase r)"
  using callers_apart [OF race_reach_inv [OF assms(2,1)] assms(3-7)]
    consumed_caller [OF race_reach_inv [OF assms(2,1)] assms(3,6)] by blast

definition sample_ticket :: "string \<Rightarrow> Ticket" where
  "sample_ticket token = \<lparr>tk_Token = token, tk_Subject = ''alice'', tk_Roles = [''owner''], tk_TenantID = 1,
     tk_TenantKey = ''default'', tk_SessionID = ''s1'', tk_Scope = ''diagnosis_ws'', tk_IssuedAt = 1000000,
     tk_ExpiresAt = 9000000, tk_ConsumedAt = None\<rparr>"

text \<open>Two tickets and three callers, two of them with the same token: the second to update loses.\<close>

definition sample_race :: race where
  "sample_race = race_run (\<lambda>s. s) \<lparr>kd_tenants = [1], kd_tickets = \<lparr>tb_rows = [], tb_next = 1\<rparr>\<rparr>
     [RSave None (sample_ticket ''a''), RSave None (sample_ticket ''b''),
      RCall ''a'' 2000000, RCall ''a'' 2000000, RCall ''b'' 2000000,
      RStmt 0 calm_consume, RStmt 1 calm_consume, RStmt 2 calm_consume,
      RStmt 1 calm_consume, RStmt 0 calm_consume, RStmt 2 calm_consume,
      RStmt 1 calm_consume, RStmt 0 calm_consume, RStmt 2 calm_consume]"

fun caller_summary :: "consumer \<Rightarrow> string \<times> nat" where
  "caller_summary (Consumed token t) = (token, 0)"
| "caller_summary (Refused token e) = (token, if errors_Is e ErrTicketConsumed then 1 else 2)"
| "caller_summary _ = ([], 3)"

lemma caller_summary_Consumed: "caller_summary c = (x, 0) \<Longrightarrow> \<exists>t. c = Consumed x t"
  by (cases c) (auto split: if_splits)

lemma sample_race_result: "map caller_summary (rc_callers sample_race) = [(''a'', 1), (''a'', 0), (''b'', 0)]"
  by code_simp

lemma sample_race_caller:
  assumes "k = 1 \<and> x = ''a'' \<or> k = 2 \<and> x = ''b''"
  shows "k < length (rc_callers sample_race) \<and> (\<exists>t. rc_callers sample_race ! k = Consumed x t)"
proof -
  have l: "length (rc_callers sample_race) = 3" using arg_cong [OF sample_race_result, of length] by simp
  have k: "k < 3" using assms by auto
  have "caller_summary (rc_callers sample_race ! k) = map caller_summary (rc_callers sample_race) ! k"
    using l k by simp
  also have "\<dots> = (x, 0)" using assms by (auto simp: sample_race_result)
  finally have "\<exists>t. rc_callers sample_race ! k = Consumed x t" by (rule caller_summary_Consumed)
  with l k show ?thesis by simp
qed

lemma sample_race_reach:
  "race_reach (\<lambda>s. s) \<lparr>kd_tenants = [1], kd_tickets = \<lparr>tb_rows = [], tb_next = 1\<rparr>\<rparr> sample_race"
  unfolding sample_race_def by (rule race_run_reach)

theorem racing_callers_share_no_ticket_witness:
  "\<exists>t t'. rc_callers sample_race ! 1 = Consumed ''a'' t \<and> rc_callers sample_race ! 2 = Consumed ''b'' t' \<and>
     (\<exists>r. ticket_at (rc_db sample_race) ''a'' = Some r \<and> kr_ConsumedAt r \<noteq> None \<and> t = diagnosisAuthTicketToUsecase r)"
proof -
  obtain t t' where c: "1 < length (rc_callers sample_race)" "2 < length (rc_callers sample_race)"
    "rc_callers sample_race ! 1 = Consumed ''a'' t" "rc_callers sample_race ! 2 = Consumed ''b'' t'"
    using sample_race_caller [of 1 "''a''"] sample_race_caller [of 2 "''b''"] by auto
  have "tickets_ok \<lparr>kd_tenants = [1], kd_tickets = \<lparr>tb_rows = [], tb_next = 1\<rparr>\<rparr>"
    by (simp add: tickets_ok_def table_ok_def)
  from racing_callers_share_no_ticket [OF this sample_race_reach c(1,2) _ c(3,4)] c show ?thesis by auto
qed

text \<open>
  C36: The ticket service over the PostgreSQL store, started without tickets: a call that consumes a
  ticket names a token that an earlier call drew up and saved after its checks, for the same subject
  and session, and it happens before that ticket's lifetime ends (in microseconds). That earlier call
  was answered with the ticket, or the acknowledgement of its insert was lost. No other call consumes
  the ticket.
\<close>

theorem consumed_ticket_was_issued:
  assumes "tickets_ok d" "tb_rows (kd_tickets d) = []"
    and "ticket_run (database_ops sha) policy calls d = (d', before @ (c, Inr u) # after)"
    and "consumed_token (c, Inr u) = Some tok"
  shows "(\<exists>(e0, c0, r0) \<in> set (zip (map fst calls) before). \<exists>i. saved_ticket policy c0 = Some i \<and>
      (r0 = Inr i \<or> isl r0 \<and> lost_save (se_save e0)) \<and> sha (tk_Token i) = sha tok \<and>
      call_session c0 = call_session c \<and> tk_Subject i = tk_Subject u \<and>
      NormalizeUTCMicro (call_time c) < NormalizeUTCMicro (call_time c0 + tp_TTL policy)) \<and>
    (\<forall>x \<in> set before \<union> set after. \<forall>tok'. consumed_token x = Some tok' \<longrightarrow> sha tok' \<noteq> sha tok)"
proof
  have empty: "tickets_by_hash d k = None" for k
    using assms(2) by (simp add: tickets_by_hash_def ticket_at_def)
  show "\<exists>(e0, c0, r0) \<in> set (zip (map fst calls) before). \<exists>i. saved_ticket policy c0 = Some i \<and>
      (r0 = Inr i \<or> isl r0 \<and> lost_save (se_save e0)) \<and> sha (tk_Token i) = sha tok \<and>
      call_session c0 = call_session c \<and> tk_Subject i = tk_Subject u \<and>
      NormalizeUTCMicro (call_time c) < NormalizeUTCMicro (call_time c0 + tp_TTL policy)"
    by (rule database.run_issued_before [OF assms(1) empty assms(3,4)]) blast
  from database.run_consumes_once [OF assms(1), of sha policy calls] assms(3,4)
  have "distinct (map sha (List.map_filter consumed_token (before @ (c, Inr u) # after)))" by simp
  then show "\<forall>x \<in> set before \<union> set after. \<forall>tok'. consumed_token x = Some tok' \<longrightarrow> sha tok' \<noteq> sha tok"
    using assms(4) by (auto simp: List.map_filter_def image_iff) (metis option.sel option.distinct(1))+
qed

definition sample_policy :: TicketPolicy where
  "sample_policy = DefaultTicketPolicy"

definition sample_user :: AuthPrincipal where
  "sample_user = \<lparr>ap_Subject = ''alice'', ap_Roles = [''owner''], ap_Claims = [], ap_TenantID = 0, ap_TenantKey = []\<rparr>"

definition sample_session :: SessionRef where
  "sample_session = \<lparr>sr_SessionID = ''s1'', sr_OwnerSubject = ''alice''\<rparr>"

definition calm_store :: store_env where
  "calm_store = \<lparr>se_save = None, se_consume = calm_consume\<rparr>"

definition sample_tickets :: ticket_db where
  "sample_tickets = \<lparr>kd_tenants = [1], kd_tickets = \<lparr>tb_rows = [], tb_next = 1\<rparr>\<rparr>"

text \<open>
  A ticket is saved without an acknowledgement, so no caller is answered with it; its token is
  consumed all the same, and refused when it is presented again.
\<close>

definition sample_calls :: "(store_env \<times> ticket_call) list" where
  "sample_calls =
     [(calm_store\<lparr>se_save := Some (True, GoErr ''lost connection'' [])\<rparr>, CallIssue sample_user sample_session 1000000 (Inr ''abc'')),
      (calm_store, CallConsume (b64_encode ''abc'') sample_session 2000000),
      (calm_store, CallConsume (b64_encode ''abc'') sample_session 3000000)]"

fun call_summary :: "ticket_call \<times> Ticket result \<Rightarrow> nat" where
  "call_summary (c, Inr t) = 0"
| "call_summary (c, Inl e) = (if errors_Is e ErrTicketConsumed then 1 else 2)"

definition sample_log :: "(ticket_call \<times> Ticket result) list" where
  "sample_log = snd (ticket_run (database_ops (\<lambda>s. s)) sample_policy sample_calls sample_tickets)"

lemma sample_calls_result: "map call_summary sample_log = [2, 0, 1]"
  by code_simp

lemma ticket_run_calls: "map fst (snd (ticket_run ops policy calls s)) = map snd calls"
proof (induction calls arbitrary: s)
  case (Cons ec calls)
  obtain e c where ec: "ec = (e, c)" by (cases ec)
  obtain s' r where "ticket_call_run (ops e) policy c s = (s', r)" by (cases "ticket_call_run (ops e) policy c s")
  moreover obtain d log where "ticket_run ops policy calls s' = (d, log)" by (cases "ticket_run ops policy calls s'")
  ultimately show ?case using Cons.IH [of s'] by (simp add: ec)
qed simp

lemma sample_log_parts:
  obtains x u y where "sample_log = [x, (snd (sample_calls ! 1), Inr u), y]"
proof -
  have "map fst sample_log = map snd sample_calls" unfolding sample_log_def by (rule ticket_run_calls)
  then obtain x c r y where log: "sample_log = [x, (c, r), y]" "c = snd (sample_calls ! 1)"
    by (auto simp: sample_calls_def map_eq_Cons_conv)
  have "call_summary (c, r) = 0" using sample_calls_result by (simp add: log(1))
  then obtain u where "r = Inr u" by (cases r) (simp_all split: if_splits)
  with log that show thesis by blast
qed

theorem consumed_ticket_was_issued_witness:
  "\<exists>x u y. sample_log = [x, (snd (sample_calls ! 1), Inr u), y] \<and> isl (snd x) \<and>
     (\<exists>i. saved_ticket sample_policy (fst x) = Some i \<and> tk_Token i = b64_encode ''abc'' \<and> tk_Subject i = tk_Subject u)"
proof -
  obtain x u y where log: "sample_log = [x, (snd (sample_calls ! 1), Inr u), y]" by (rule sample_log_parts)
  then obtain d' where run: "ticket_run (database_ops (\<lambda>s. s)) sample_policy sample_calls sample_tickets =
      (d', [x] @ (snd (sample_calls ! 1), Inr u) # [y])"
    unfolding sample_log_def by (cases "ticket_run (database_ops (\<lambda>s. s)) sample_policy sample_calls sample_tickets") simp
  have empty: "tickets_ok sample_tickets" "tb_rows (kd_tickets sample_tickets) = []"
    by (simp_all add: sample_tickets_def tickets_ok_def table_ok_def)
  have "call_summary x = 2" using sample_calls_result by (simp add: log)
  then have failed: "isl (snd x)" by (cases x rule: call_summary.cases) simp_all
  have "consumed_token (snd (sample_calls ! 1), Inr u) = Some (b64_encode ''abc'')" by (simp add: sample_calls_def)
  from consumed_ticket_was_issued [OF empty run this] obtain e0 c0 r0 i where
    "(e0, c0, r0) \<in> set (zip (map fst sample_calls) [x])" "saved_ticket sample_policy c0 = Some i"
    "tk_Token i = b64_encode ''abc''" "tk_Subject i = tk_Subject u" by blast
  moreover from this(1) have "x = (c0, r0)" by (simp add: sample_calls_def)
  ultimately have "\<exists>i. saved_ticket sample_policy (fst x) = Some i \<and> tk_Token i = b64_encode ''abc'' \<and> tk_Subject i = tk_Subject u"
    by auto
  with log failed show ?thesis by blast
qed

section \<open>Sessions\<close>

text \<open>
  C37: A session token that was issued authenticates, bare or after \<open>Bearer\<close>, as the same subject with
  the same roles, provider and tenant, at any time before its last second, when the JSON library reads
  back what it wrote; the times come back in whole seconds.
\<close>

theorem issued_session_authenticates:
  assumes "IssueToken lib sv ctx_err now user provider = Inr st"
    and "reads_back lib (payload_of st (Some (st_Roles st)))"
    and "token_time now" "token_time (now + sv_ttl sv)" "time_Unix later < time_Unix (now + sv_ttl sv)"
    and "bearer = st_Token st \<or> bearer = ''Bearer '' @ st_Token st"
  shows "AuthenticateSession lib sv None later bearer =
      Inr (st\<lparr>st_IssuedAt := whole_seconds now, st_ExpiresAt := whole_seconds (now + sv_ttl sv)\<rparr>) \<and>
    st_Subject st = ap_Subject user \<and> st_Roles st = ap_Roles user \<and> st_Provider st = provider \<and>
    Inr \<lparr>id_ID = st_TenantID st, id_Key = st_TenantKey st\<rparr> = sessionTenantIdentity user"
  using signed_session_authenticates [OF IssueToken_Inr(1) [OF assms(1)] assms(2) IssueToken_Inr(2,3) [OF assms(1)]]
    IssueToken_Inr(4-9) [OF assms(1)] assms(3-6) by simp

text \<open>
  C38: What a session is accepted on: the bearer value is one token of three parts, whose signature is
  the HMAC of the first two under the service's key and whose payload has not expired; the session has a
  subject, roles among owner and administrator, and a valid tenant, the default one for version 1.
\<close>

theorem accepted_session_is_signed:
  assumes "AuthenticateSession lib sv ctx_err now bearer = Inr st"
  shows "\<exists>p0 p1 p2 raw p. sessionBearerTokenValue bearer = Inr (st_Token st) \<and>
    st_Token st = p0 @ ''.'' @ p1 @ ''.'' @ p2 \<and>
    b64_decode p2 = Inr (sn_hmac lib (sv_signingKey sv) (p0 @ ''.'' @ p1)) \<and>
    b64_decode p1 = Inr raw \<and> sn_payload lib raw = Inr p \<and> time_Unix now < pl_ExpiresAt p \<and>
    st = session_of (st_Token st) p \<and> session_ok st \<and>
    (pl_Version p = legacySessionTokenVersion \<and> st_TenantID st = DefaultTenantID \<or> pl_Version p = sessionTokenVersion)"
proof -
  from assms obtain token p where b: "sessionBearerTokenValue bearer = Inr token" "verifyToken lib sv token = Inr p"
    and s: "payload_session now token p = Inr st" unfolding AuthenticateSession_Inr by blast
  from s have p: "supportedSessionTokenVersion (pl_Version p)" "time_Unix now < pl_ExpiresAt p"
    "st = session_of token p" "session_ok st" unfolding payload_session_Inr by blast+
  have t: "st_Token st = token" by (simp add: p(3) session_of_def)
  have v: "pl_Version p = legacySessionTokenVersion \<and> st_TenantID st = DefaultTenantID \<or> pl_Version p = sessionTokenVersion"
    using p(1) by (auto simp: p(3) session_of_def supportedSessionTokenVersion_def legacySessionTokenVersion_def
        sessionTokenVersion_def)
  from b(2) obtain p0 p1 p2 raw where "token = p0 @ ''.'' @ p1 @ ''.'' @ p2" "b64_decode p1 = Inr raw"
    "sn_payload lib raw = Inr p" "b64_decode p2 = Inr (sn_hmac lib (sv_signingKey sv) (p0 @ ''.'' @ p1))"
    by (rule verifyToken_Inr)
  then show ?thesis unfolding t using b(1) p v by blast
qed

definition sample_service :: SessionTokenService where
  "sample_service = \<lparr>sv_signingKey = replicate 32 CHR ''k'', sv_ttl = DefaultSessionTTL\<rparr>"

text \<open>The library on one payload.\<close>

definition reading_lib :: "sessionTokenPayload \<Rightarrow> session_lib" where
  "reading_lib p = \<lparr>sn_hmac = (\<lambda>k s. k @ s), sn_tokenize = (\<lambda>_. \<lparr>dec_tokens = [TObjOpen, TObjClose], dec_clean = True\<rparr>),
     sn_header = (\<lambda>_. Inr token_header), sn_payload = (\<lambda>_. Inr p)\<rparr>"

lemma reading_lib_reads: "reads_back (reading_lib p) p"
proof -
  have "RejectDuplicateObjectKeys (\<lambda>_. \<lparr>dec_tokens = [TObjOpen, TObjClose], dec_clean = True\<rparr>) raw = Inr ()" for raw
    unfolding RejectDuplicateObjectKeys_def by code_simp
  then show ?thesis by (simp add: reads_back_def reading_lib_def)
qed

definition sample_now :: go_time where
  "sample_now = 63900000000500000000"

definition sample_payload :: sessionTokenPayload where
  "sample_payload = \<lparr>pl_Version = 2, pl_Type = sessionTokenType, pl_Provider = ''oidc'', pl_Subject = ''alice'',
     pl_Roles = Some [''owner''], pl_TenantID = 1, pl_TenantKey = ''default'',
     pl_IssuedAt = time_Unix sample_now, pl_ExpiresAt = time_Unix (sample_now + DefaultSessionTTL)\<rparr>"

lemma sample_issue:
  "\<exists>st. IssueToken lib sample_service None sample_now sample_user ''oidc'' = Inr st \<and>
     payload_of st (Some (st_Roles st)) = sample_payload \<and> st_Roles st = [''owner'']"
proof -
  have n: "normalizeSessionSubject ''alice'' = Inr ''alice''" "normalizeSessionProvider ''oidc'' = Inr ''oidc''"
    "normalizeSessionRoles [''owner''] = Inr [''owner'']" "TrimSpace [] = []" by code_simp+
  show ?thesis
    by (simp add: IssueToken_def sample_service_def sample_user_def n sessionTenantIdentity_def DefaultIdentity_def
        IsZero_def sample_now_def payload_of_def sample_payload_def sessionTokenVersion_def Let_def)
qed

lemma sample_times:
  "token_time sample_now" "token_time (sample_now + sv_ttl sample_service)"
  "time_Unix (sample_now + 1000000000) < time_Unix (sample_now + sv_ttl sample_service)"
  by (simp_all add: token_time_def sample_now_def sample_service_def DefaultSessionTTL_def int64_def min_int64_def
      max_int64_def time_Unix_def)

theorem issued_session_authenticates_witness:
  "\<exists>st. IssueToken (reading_lib sample_payload) sample_service None sample_now sample_user ''oidc'' = Inr st \<and>
     AuthenticateSession (reading_lib sample_payload) sample_service None (sample_now + 1000000000) (''Bearer '' @ st_Token st) =
       Inr (st\<lparr>st_IssuedAt := whole_seconds sample_now,
               st_ExpiresAt := whole_seconds (sample_now + sv_ttl sample_service)\<rparr>)"
proof -
  obtain st where st: "IssueToken (reading_lib sample_payload) sample_service None sample_now sample_user ''oidc'' = Inr st"
    "payload_of st (Some (st_Roles st)) = sample_payload" using sample_issue [of "reading_lib sample_payload"] by blast
  have "reads_back (reading_lib sample_payload) (payload_of st (Some (st_Roles st)))"
    unfolding st(2) by (rule reading_lib_reads)
  from issued_session_authenticates [OF st(1) this sample_times] st(1) show ?thesis by blast
qed

theorem accepted_session_is_signed_witness:
  "\<exists>st bearer. AuthenticateSession (reading_lib sample_payload) sample_service None (sample_now + 1000000000) bearer = Inr st \<and>
     session_ok st \<and> time_Unix (sample_now + 1000000000) < pl_ExpiresAt sample_payload"
proof -
  obtain st where st: "IssueToken (reading_lib sample_payload) sample_service None sample_now sample_user ''oidc'' = Inr st"
    "payload_of st (Some (st_Roles st)) = sample_payload" using sample_issue [of "reading_lib sample_payload"] by blast
  note i = IssueToken_Inr [OF st(1)]
  have r: "reads_back (reading_lib sample_payload) (payload_of st (Some (st_Roles st)))"
    unfolding st(2) by (rule reading_lib_reads)
  obtain st' where a: "AuthenticateSession (reading_lib sample_payload) sample_service None (sample_now + 1000000000)
      (st_Token st) = Inr st'"
    using signed_session_authenticates [OF i(1) r i(2,3)] i(4,5) sample_times by auto
  from accepted_session_is_signed [OF a] have "session_ok st'" "time_Unix (sample_now + 1000000000) < pl_ExpiresAt sample_payload"
    by (auto simp: reading_lib_def)
  with a show ?thesis by blast
qed

text \<open>
  Rebinding a session to another tenant changes its tenant and nothing else: the new token belongs
  to the same subject, with the same roles and provider and the same end, and it authenticates exactly
  until the end of the session that was rebound, so that no chain of rebindings outlives the login.
\<close>

theorem rebound_session_keeps_lifetime:
  assumes "RebindTenant lib sv ctx_err now bearer i = Inr st"
    and "reads_back lib (payload_of st (append_nil (st_Roles st)))"
  shows "\<exists>st0. AuthenticateSession lib sv ctx_err now bearer = Inr st0 \<and>
    st = st0\<lparr>st_Token := st_Token st, st_TenantID := id_ID i, st_TenantKey := id_Key i\<rparr> \<and>
    (\<forall>later. AuthenticateSession lib sv None later (st_Token st) = Inr st \<longleftrightarrow> time_Unix later < time_Unix (st_ExpiresAt st0)) \<and>
    (\<forall>later. \<not> time_Unix later < time_Unix (st_ExpiresAt st0) \<longrightarrow>
       \<not> is_ok (AuthenticateSession lib sv None later (st_Token st)))"
proof -
  obtain st0 where a: "AuthenticateSession lib sv ctx_err now bearer = Inr st0"
    and st: "st = st0\<lparr>st_Token := st_Token st, st_TenantID := id_ID i, st_TenantKey := id_Key i\<rparr>"
    and tok: "st_Token st = signPayload lib sv (marshal_payload (payload_of st (append_nil (st_Roles st0))))"
    and ok: "session_ok st" "sv_signingKey sv \<noteq> []"
    using assms(1) by (rule RebindTenant_Inr)
  have same: "st_Roles st0 = st_Roles st" "st_ExpiresAt st0 = st_ExpiresAt st"
    using arg_cong [OF st, of st_Roles] arg_cong [OF st, of st_ExpiresAt] by simp_all
  have whole: "token_time (st_IssuedAt st)" "token_time (st_ExpiresAt st)"
    "whole_seconds (st_IssuedAt st) = st_IssuedAt st" "whole_seconds (st_ExpiresAt st) = st_ExpiresAt st"
    using session_times_whole [OF a] arg_cong [OF st, of st_IssuedAt] arg_cong [OF st, of st_ExpiresAt] by simp_all
  have yes: "AuthenticateSession lib sv None later (st_Token st) = Inr st"
    if "time_Unix later < time_Unix (st_ExpiresAt st)" for later
    using signed_session_authenticates [OF tok [unfolded same] assms(2) ok(2,1) _ whole(1,2) that]
    by (simp add: append_nil_def whole)
  have no: "\<not> is_ok (AuthenticateSession lib sv None later (st_Token st))"
    if "\<not> time_Unix later < time_Unix (st_ExpiresAt st)" for later
    by (rule expired_session_refused [OF tok [unfolded same] assms(2) that])
  have "\<And>later. AuthenticateSession lib sv None later (st_Token st) = Inr st \<longleftrightarrow> time_Unix later < time_Unix (st_ExpiresAt st)"
    using yes no by force
  then show ?thesis using a st no same by (intro exI [of _ st0]) simp
qed

text \<open>A library that reads two payloads, and a session of the default tenant that moves to the tenant \<open>beta\<close>.\<close>

definition sample_rebound :: sessionTokenPayload where
  "sample_rebound = sample_payload\<lparr>pl_TenantKey := ''beta''\<rparr>"

definition two_payloads :: session_lib where
  "two_payloads = (reading_lib sample_payload)
     \<lparr>sn_payload := (\<lambda>raw. Inr (if raw = marshal_payload sample_rebound then sample_rebound else sample_payload))\<rparr>"

lemma marshal_tenants_differ: "marshal_payload sample_payload \<noteq> marshal_payload sample_rebound"
proof
  assume "marshal_payload sample_payload = marshal_payload sample_rebound"
  then have "\<exists>r r'. json_string ''default'' @ r = json_string ''beta'' @ r'"
    by (auto simp: marshal_payload_def json_fields_def sample_rebound_def sample_payload_def)
  then obtain r r' where "json_string ''default'' @ r = json_string ''beta'' @ r'" by blast
  note json_string_cancel(1) [OF this]
  moreover have "json_body ''default'' \<noteq> json_body ''beta''" by code_simp
  ultimately show False by simp
qed

lemma two_payloads_read: "reads_back two_payloads sample_payload" "reads_back two_payloads sample_rebound"
  using reading_lib_reads [of sample_payload] reading_lib_reads [of sample_rebound] marshal_tenants_differ
  by (simp_all add: reads_back_def two_payloads_def reading_lib_def)

definition beta :: Identity where
  "beta = \<lparr>id_ID = 1, id_Key = ''beta''\<rparr>"

lemma sample_rebind:
  "\<exists>bearer st. RebindTenant two_payloads sample_service None (sample_now + 1000000000) bearer beta = Inr st \<and>
     payload_of st (append_nil (st_Roles st)) = sample_rebound"
proof -
  obtain st where st: "IssueToken two_payloads sample_service None sample_now sample_user ''oidc'' = Inr st"
    "payload_of st (Some (st_Roles st)) = sample_payload" "st_Roles st = [''owner'']" using sample_issue by blast
  note i = IssueToken_Inr [OF st(1)]
  have "reads_back two_payloads (payload_of st (Some (st_Roles st)))" unfolding st(2) by (rule two_payloads_read)
  from signed_session_authenticates [OF i(1) this i(2,3)] i(4,5) sample_times
  have a: "AuthenticateSession two_payloads sample_service None (sample_now + 1000000000) (st_Token st) =
      Inr (st\<lparr>st_IssuedAt := whole_seconds sample_now, st_ExpiresAt := whole_seconds (sample_now + sv_ttl sample_service)\<rparr>)"
    by simp
  have k: "NewIdentity 1 ''beta'' = Inr beta" by code_simp
  have w: "time_Unix (whole_seconds t) = time_Unix t" for t
    by (simp add: time_Unix_def whole_seconds_def minus_mod_eq_div_mult)
  have p: "payload_of (st\<lparr>st_IssuedAt := whole_seconds sample_now, st_ExpiresAt :=
        whole_seconds (sample_now + sv_ttl sample_service), st_Token := x, st_TenantID := 1, st_TenantKey := ''beta''\<rparr>)
      (Some [''owner'']) = sample_rebound" for x
    using st(2,3) i(4,5) by (simp add: payload_of_def sample_rebound_def w) (simp add: sample_payload_def)
  show ?thesis
    by (rule exI [of _ "st_Token st"]) (use a k p in \<open>simp add: RebindTenant_def beta_def Let_def st(3) append_nil_def\<close>)
qed

theorem rebound_session_keeps_lifetime_witness:
  "\<exists>bearer st. RebindTenant two_payloads sample_service None (sample_now + 1000000000) bearer beta = Inr st \<and>
     st_TenantKey st = ''beta'' \<and>
     (\<exists>st0. AuthenticateSession two_payloads sample_service None (sample_now + 1000000000) bearer = Inr st0 \<and>
        st_ExpiresAt st = st_ExpiresAt st0)"
proof -
  obtain bearer st where r: "RebindTenant two_payloads sample_service None (sample_now + 1000000000) bearer beta = Inr st"
    and p: "payload_of st (append_nil (st_Roles st)) = sample_rebound" using sample_rebind by blast
  have "reads_back two_payloads (payload_of st (append_nil (st_Roles st)))" unfolding p by (rule two_payloads_read)
  from rebound_session_keeps_lifetime [OF r this] obtain st0 where
    a: "AuthenticateSession two_payloads sample_service None (sample_now + 1000000000) bearer = Inr st0"
    and st: "st = st0\<lparr>st_Token := st_Token st, st_TenantID := id_ID beta, st_TenantKey := id_Key beta\<rparr>" by blast
  have "st_TenantKey st = ''beta''" "st_ExpiresAt st = st_ExpiresAt st0"
    using arg_cong [OF st, of st_TenantKey] arg_cong [OF st, of st_ExpiresAt] by (simp_all add: beta_def)
  with r a show ?thesis by blast
qed

section \<open>Model calls\<close>

text \<open>
  C39: A validated generation ends after at most the configured number of attempts, three by default,
  whatever the provider, the validator and the context answer. The attempts it reports are numbered
  from one, one for each call of the provider; all but the last were rejected with an error that may be
  retried; it succeeds exactly with a last attempt that the validator accepted. Every request it sent is
  the caller's but for system messages: the schema, the key and the other messages are unchanged.
\<close>

theorem generation_is_bounded:
  assumes "GenerateValidated lib ctx (Some provider) validator reqMax req p = (p', r)"
  shows "\<exists>reqs. p' = provider_run provider reqs p \<and> length reqs = length (run_attempts r) \<and>
    int (length reqs) \<le> (if reqMax = 0 then 3 else max 0 reqMax) \<and> (\<forall>q \<in> set reqs. retry_of req q) \<and>
    map at_Number (run_attempts r) = map int [1..<length reqs + 1] \<and>
    (\<forall>a \<in> set (butlast (run_attempts r)). retried a) \<and>
    (\<forall>g. r = Inr g \<longrightarrow> reqs \<noteq> [] \<and> at_Err (last (run_attempts r)) = None \<and>
       (case validator of None \<Rightarrow> Validate lib | Some v \<Rightarrow> v) (last reqs) (gr_Accepted g) = Inr (gr_Output g)) \<and>
    (\<forall>e. r = Inl e \<longrightarrow> ge_Err e \<noteq> None)"
  by (rule GenerateValidated_run [OF assms])

text \<open>A provider whose first answer is cut off and whose second is complete.\<close>

definition sample_llm :: "unit llm_lib" where
  "sample_llm = \<lparr>ml_tokenize = (\<lambda>_. \<lparr>dec_tokens = [TObjOpen, TObjClose], dec_clean = True\<rparr>), ml_strict_text = (\<lambda>s. s),
     ml_quote = (\<lambda>s. s), ml_compile = (\<lambda>_ _. Inr (\<lambda>_. None)), ml_instance = (\<lambda>_. Inr ())\<rparr>"

definition two_tries :: "nat provider" where
  "two_tries req n = (n + 1, Inr \<lparr>lr_Content = ''{}'', lr_FinishReason = (if n = 0 then ''length'' else ''stop''),
     lr_Refusal = None, lr_OutputMode = ''json_schema'', lr_Model = ''m''\<rparr>)"

definition sample_request :: LLMRequest where
  "sample_request = \<lparr>lq_Messages = [\<lparr>lm_Role = ''user'', lm_Content = ''report''\<rparr>], lq_OutputSchema = ''{}'',
     lq_OutputSchemaID = SubReportSchemaID, lq_IdempotencyKey = ''k''\<rparr>"

lemma sample_generation:
  "(case GenerateValidated sample_llm (\<lambda>_. None) (Some two_tries) None 0 sample_request 0 of
      (n, Inr g) \<Rightarrow> n = 2 \<and> map at_Number (gr_Attempts g) = [1, 2]
    | _ \<Rightarrow> False)"
  by code_simp

theorem generation_is_bounded_witness:
  "\<exists>g. GenerateValidated sample_llm (\<lambda>_. None) (Some two_tries) None 0 sample_request 0 = (2, Inr g) \<and>
     length (gr_Attempts g) = 2 \<and> retried (hd (gr_Attempts g)) \<and> at_Err (last (gr_Attempts g)) = None"
proof -
  obtain g where g: "GenerateValidated sample_llm (\<lambda>_. None) (Some two_tries) None 0 sample_request 0 = (2, Inr g)"
    "map at_Number (gr_Attempts g) = [1, 2]"
    using sample_generation by (auto split: prod.splits sum.splits)
  then obtain a b where ab: "gr_Attempts g = [a, b]" by (auto simp: map_eq_Cons_conv)
  from generation_is_bounded [OF g(1)] ab show ?thesis using g(1) by auto
qed

text \<open>
  C40: When the loop runs with the report validator, a draft that it accepts is read without error by
  the parser, and the draft is in order: its texts, lists and severities are within their bounds and
  every finding cites a listed piece of evidence, listed once.
\<close>

theorem accepted_draft_parses:
  assumes "GenerateValidated lib ctx (Some provider) (Some (ValidateSubReportResponse dlib)) reqMax req p = (p', Inr g)"
    and "lq_OutputSchema req = dl_sub_schema dlib" "lq_OutputSchemaID req = SubReportSchemaID"
  shows "\<exists>out. ParseSubReport dlib (gr_Accepted g) = Inr out \<and> sub_report_ok out \<and>
    (\<forall>f \<in> set (sb_Findings out). length (filter (\<lambda>e. e = fd_EvidenceID f) (sb_EvidenceRefs out)) = 1)"
proof -
  obtain reqs where reqs: "\<forall>q \<in> set reqs. retry_of req q" "reqs \<noteq> []"
    and v: "ValidateSubReportResponse dlib (last reqs) (gr_Accepted g) = Inr (gr_Output g)"
    using GenerateValidated_run [OF assms(1)] by auto
  then have q: "retry_of req (last reqs)" by simp
  have "Validate (dl_llm dlib) (last reqs) (gr_Accepted g) =
      Validate (dl_llm dlib) (schemaRequest SubReportSchemaID (dl_sub_schema dlib)) (gr_Accepted g)"
    by (rule Validate_cong) (use q assms(2,3) in \<open>simp_all add: retry_of_def schemaRequest_def\<close>)
  with v obtain out where out: "ParseSubReport dlib (gr_Accepted g) = Inr out" "sub_report_ok out"
    unfolding ParseSubReport_Inr ValidateSubReportResponse_Inr by metis
  have "length (filter (\<lambda>e. e = fd_EvidenceID f) (sb_EvidenceRefs out)) = 1" if "f \<in> set (sb_Findings out)" for f
  proof -
    have "distinct (sb_EvidenceRefs out)" "fd_EvidenceID f \<in> set (sb_EvidenceRefs out)"
      using out(2) that by (auto simp: sub_report_ok_def)
    then show ?thesis using filter_unique_key [of "\<lambda>e. e" "sb_EvidenceRefs out" "fd_EvidenceID f" "fd_EvidenceID f"] by simp
  qed
  with out show ?thesis by blast
qed

definition sample_draft :: SubReport where
  "sample_draft = \<lparr>sb_Title = ''t'', sb_Summary = ''s'', sb_Severity = ''info'', sb_Confidence = ''low'',
     sb_Findings = [\<lparr>fd_Label = ''l'', fd_Detail = ''d'', fd_EvidenceID = ''e1''\<rparr>], sb_RecommendedActions = [],
     sb_EvidenceRefs = [''e1'', ''e2'']\<rparr>"

definition sample_drafts :: "unit draft_lib" where
  "sample_drafts = \<lparr>dl_llm = sample_llm, dl_sub_schema = ''{}'', dl_final_schema = ''{}'', dl_sub = (\<lambda>_. Inr sample_draft),
     dl_final = (\<lambda>_. Inl ''none'')\<rparr>"

lemma sample_draft_generation:
  "(case GenerateValidated sample_llm (\<lambda>_. None) (Some two_tries) (Some (ValidateSubReportResponse sample_drafts)) 0
      sample_request 0 of (n, Inr g) \<Rightarrow> n = 2 | _ \<Rightarrow> False)"
  by code_simp

theorem accepted_draft_parses_witness:
  "\<exists>g. GenerateValidated sample_llm (\<lambda>_. None) (Some two_tries) (Some (ValidateSubReportResponse sample_drafts)) 0
       sample_request 0 = (2, Inr g) \<and> (\<exists>out. ParseSubReport sample_drafts (gr_Accepted g) = Inr out \<and> sub_report_ok out)"
proof -
  obtain g where g: "GenerateValidated sample_llm (\<lambda>_. None) (Some two_tries)
      (Some (ValidateSubReportResponse sample_drafts)) 0 sample_request 0 = (2, Inr g)"
    using sample_draft_generation by (auto split: prod.splits sum.splits)
  have "lq_OutputSchema sample_request = dl_sub_schema sample_drafts" "lq_OutputSchemaID sample_request = SubReportSchemaID"
    by (simp_all add: sample_request_def sample_drafts_def)
  from accepted_draft_parses [OF g this] g show ?thesis by blast
qed

end
