(* ===== verification/Tenant_Scope.thy ===== *)
theory Tenant_Scope
  imports Tenant_Identity Repo_Rows
begin

text \<open>
  The tenant scope of the database client: the query interceptor and the mutation hook of
  \<open>internal/persistence/repository/tenant_scope.go\<close> and the checks of the relations of a mutation in
  \<open>tenant_relations.go\<close>. A table row is its entity type, its ID, its \<open>tenant_id\<close>, its columns and
  the targets of its join tables. The next mutator of the hook is an argument, as in the code; what
  it may do is stated in the theory of the isolation. The driver's error of a query on a table is
  the argument \<open>fault\<close>.
\<close>

section \<open>Entity types\<close>

abbreviation TypeAlertEvent :: string where "TypeAlertEvent \<equiv> ''AlertEvent''"
abbreviation TypeAlertGroup :: string where "TypeAlertGroup \<equiv> ''AlertGroup''"
abbreviation TypeAlertSourceProfile :: string where "TypeAlertSourceProfile \<equiv> ''AlertSourceProfile''"
abbreviation TypeChatSession :: string where "TypeChatSession \<equiv> ''ChatSession''"
abbreviation TypeChatSessionApproval :: string where "TypeChatSessionApproval \<equiv> ''ChatSessionApproval''"
abbreviation TypeChatSessionSummary :: string where "TypeChatSessionSummary \<equiv> ''ChatSessionSummary''"
abbreviation TypeChatTurn :: string where "TypeChatTurn \<equiv> ''ChatTurn''"
abbreviation TypeDiagnosisAuthTicket :: string where "TypeDiagnosisAuthTicket \<equiv> ''DiagnosisAuthTicket''"
abbreviation TypeDiagnosisTask :: string where "TypeDiagnosisTask \<equiv> ''DiagnosisTask''"
abbreviation TypeDiagnosisTaskEvent :: string where "TypeDiagnosisTaskEvent \<equiv> ''DiagnosisTaskEvent''"
abbreviation TypeDiagnosisToolTemplate :: string where "TypeDiagnosisToolTemplate \<equiv> ''DiagnosisToolTemplate''"
abbreviation TypeDirectoryDepartment :: string where "TypeDirectoryDepartment \<equiv> ''DirectoryDepartment''"
abbreviation TypeDirectorySyncRun :: string where "TypeDirectorySyncRun \<equiv> ''DirectorySyncRun''"
abbreviation TypeDirectoryUser :: string where "TypeDirectoryUser \<equiv> ''DirectoryUser''"
abbreviation TypeEvidenceSnapshot :: string where "TypeEvidenceSnapshot \<equiv> ''EvidenceSnapshot''"
abbreviation TypeFinalReport :: string where "TypeFinalReport \<equiv> ''FinalReport''"
abbreviation TypeGroupingPolicy :: string where "TypeGroupingPolicy \<equiv> ''GroupingPolicy''"
abbreviation TypeNotificationChannelProfile :: string where
  "TypeNotificationChannelProfile \<equiv> ''NotificationChannelProfile''"
abbreviation TypeNotificationChannelTestProof :: string where
  "TypeNotificationChannelTestProof \<equiv> ''NotificationChannelTestProof''"
abbreviation TypeRBACAssignment :: string where "TypeRBACAssignment \<equiv> ''RBACAssignment''"
abbreviation TypeReportNotificationDelivery :: string where
  "TypeReportNotificationDelivery \<equiv> ''ReportNotificationDelivery''"
abbreviation TypeReportWorkflowPolicy :: string where "TypeReportWorkflowPolicy \<equiv> ''ReportWorkflowPolicy''"
abbreviation TypeReportWorkflowSchedule :: string where "TypeReportWorkflowSchedule \<equiv> ''ReportWorkflowSchedule''"
abbreviation TypeRetrievalChunk :: string where "TypeRetrievalChunk \<equiv> ''RetrievalChunk''"
abbreviation TypeSubReport :: string where "TypeSubReport \<equiv> ''SubReport''"
abbreviation TypeTenant :: string where "TypeTenant \<equiv> ''Tenant''"
abbreviation TypeTenantMembership :: string where "TypeTenantMembership \<equiv> ''TenantMembership''"

definition globalTenantEntity :: "string \<Rightarrow> bool" where
  "globalTenantEntity entityType \<longleftrightarrow>
     entityType = TypeTenant \<or> entityType = TypeTenantMembership \<or> entityType = TypeDiagnosisAuthTicket"

section \<open>Rows, queries and mutations\<close>

datatype ent_value = VInt int | VInt64 int | VString string | VOther string

record entity_row =
  er_type :: string
  er_id :: int
  er_tenant :: int
  er_fields :: "(string \<times> ent_value) list"
  er_links :: "(string \<times> int) list"

record ent_db =
  db_rows :: "entity_row list"
  db_next :: "string \<Rightarrow> int"

record ent_query =
  qr_type :: string
  qr_where :: "(entity_row \<Rightarrow> bool) list"

datatype ent_op = OpCreate | OpUpdate | OpUpdateOne | OpDelete | OpDeleteOne

text \<open>
  A mutation: \<open>Fields()\<close> and \<open>Field(name)\<close> are the columns it sets, \<open>AddedEdges()\<close> and \<open>AddedIDs(name)\<close>
  the relations it adds, likewise for the removed ones. The last three say which of the interfaces
  of the package the mutation implements.
\<close>

record ent_mutation =
  mu_type :: string
  mu_op :: ent_op
  mu_id :: "int option"
  mu_tenant :: "int option"
  mu_where :: "(entity_row \<Rightarrow> bool) list"
  mu_fields :: "(string \<times> ent_value) list"
  mu_added :: "(string \<times> ent_value list) list"
  mu_removed :: "(string \<times> ent_value list) list"
  mu_scoped :: bool
  mu_client :: bool
  mu_with_id :: bool

type_synonym query_fault = "string \<Rightarrow> go_error option"

definition AddedIDs :: "ent_mutation \<Rightarrow> string \<Rightarrow> ent_value list" where
  "AddedIDs m edge = (case map_of (mu_added m) edge of None \<Rightarrow> [] | Some vs \<Rightarrow> vs)"

definition RemovedIDs :: "ent_mutation \<Rightarrow> string \<Rightarrow> ent_value list" where
  "RemovedIDs m edge = (case map_of (mu_removed m) edge of None \<Rightarrow> [] | Some vs \<Rightarrow> vs)"

section \<open>Queries\<close>

definition TenantIDEQ :: "int \<Rightarrow> entity_row \<Rightarrow> bool" where
  "TenantIDEQ i r \<longleftrightarrow> er_tenant r = i"

definition tenant_query_types :: "string list" where
  "tenant_query_types =
     [TypeAlertEvent, TypeAlertGroup, TypeAlertSourceProfile, TypeChatSession, TypeChatSessionApproval,
      TypeChatSessionSummary, TypeChatTurn, TypeDiagnosisTask, TypeDiagnosisTaskEvent,
      TypeDiagnosisToolTemplate, TypeDirectoryDepartment, TypeDirectorySyncRun, TypeDirectoryUser,
      TypeEvidenceSnapshot, TypeFinalReport, TypeGroupingPolicy, TypeNotificationChannelProfile,
      TypeNotificationChannelTestProof, TypeRBACAssignment, TypeReportNotificationDelivery,
      TypeReportWorkflowPolicy, TypeReportWorkflowSchedule, TypeRetrievalChunk, TypeSubReport]"

definition filterTenantQuery :: "tenant_context \<Rightarrow> ent_query \<Rightarrow> ent_query result" where
  "filterTenantQuery ctx query =
     (if qr_type query \<in> {TypeTenant, TypeTenantMembership, TypeDiagnosisAuthTicket} then Inr query
      else case tenancy_Require ctx of
        Inl e \<Rightarrow> Inl e
      | Inr identity \<Rightarrow>
          if qr_type query \<in> set tenant_query_types then
            Inr (query\<lparr>qr_where := qr_where query @ [TenantIDEQ (id_ID identity)]\<rparr>)
          else Inl (invariant_error ''repository: query lacks tenant scope mapping''))"

text \<open>A query as the client runs it: through the interceptor, then in the database.\<close>

definition query_rows :: "ent_db \<Rightarrow> ent_query \<Rightarrow> entity_row list" where
  "query_rows d q = filter (\<lambda>r. er_type r = qr_type q \<and> list_all (\<lambda>p. p r) (qr_where q)) (db_rows d)"

definition ent_all :: "query_fault \<Rightarrow> tenant_context \<Rightarrow> ent_db \<Rightarrow> ent_query \<Rightarrow> entity_row list result" where
  "ent_all fault ctx d query =
     (case filterTenantQuery ctx query of
        Inl e \<Rightarrow> Inl e
      | Inr q \<Rightarrow> (case fault (qr_type q) of Some e \<Rightarrow> Inl e | None \<Rightarrow> Inr (query_rows d q)))"

definition ent_count :: "query_fault \<Rightarrow> tenant_context \<Rightarrow> ent_db \<Rightarrow> ent_query \<Rightarrow> int result" where
  "ent_count fault ctx d query = map_sum id (\<lambda>rows. int (length rows)) (ent_all fault ctx d query)"

section \<open>Relations\<close>

definition tenantReferenceFields :: "((string \<times> string) \<times> string) list" where
  "tenantReferenceFields =
     [((TypeAlertEvent, ''alert_source_profile_id''), TypeAlertSourceProfile),
      ((TypeChatSession, ''diagnosis_task_id''), TypeDiagnosisTask),
      ((TypeChatSessionApproval, ''chat_session_id''), TypeChatSession),
      ((TypeChatSessionSummary, ''chat_session_id''), TypeChatSession),
      ((TypeChatTurn, ''chat_session_id''), TypeChatSession),
      ((TypeDiagnosisTask, ''evidence_snapshot_id''), TypeEvidenceSnapshot),
      ((TypeDiagnosisTaskEvent, ''task_id''), TypeDiagnosisTask),
      ((TypeDiagnosisToolTemplate, ''alert_source_profile_id''), TypeAlertSourceProfile),
      ((TypeEvidenceSnapshot, ''alert_group_id''), TypeAlertGroup),
      ((TypeNotificationChannelTestProof, ''notification_channel_profile_id''), TypeNotificationChannelProfile),
      ((TypeReportNotificationDelivery, ''final_report_id''), TypeFinalReport),
      ((TypeReportNotificationDelivery, ''report_notification_channel_profile_id''),
        TypeNotificationChannelProfile),
      ((TypeReportWorkflowPolicy, ''alert_source_profile_id''), TypeAlertSourceProfile),
      ((TypeReportWorkflowPolicy, ''grouping_policy_id''), TypeGroupingPolicy),
      ((TypeReportWorkflowPolicy, ''report_notification_channel_profile_id''), TypeNotificationChannelProfile),
      ((TypeReportWorkflowSchedule, ''report_workflow_policy_id''), TypeReportWorkflowPolicy),
      ((TypeSubReport, ''evidence_snapshot_id''), TypeEvidenceSnapshot)]"

definition tenantReferenceEdges :: "((string \<times> string) \<times> string) list" where
  "tenantReferenceEdges =
     [((TypeAlertEvent, ''groups''), TypeAlertGroup),
      ((TypeAlertGroup, ''events''), TypeAlertEvent),
      ((TypeAlertGroup, ''snapshots''), TypeEvidenceSnapshot),
      ((TypeChatSession, ''task''), TypeDiagnosisTask),
      ((TypeChatSession, ''turns''), TypeChatTurn),
      ((TypeChatSession, ''summaries''), TypeChatSessionSummary),
      ((TypeChatSession, ''approvals''), TypeChatSessionApproval),
      ((TypeChatSessionApproval, ''session''), TypeChatSession),
      ((TypeChatSessionSummary, ''session''), TypeChatSession),
      ((TypeChatTurn, ''session''), TypeChatSession),
      ((TypeDiagnosisTask, ''snapshot''), TypeEvidenceSnapshot),
      ((TypeDiagnosisTask, ''events''), TypeDiagnosisTaskEvent),
      ((TypeDiagnosisTask, ''chat_sessions''), TypeChatSession),
      ((TypeDiagnosisTaskEvent, ''task''), TypeDiagnosisTask),
      ((TypeEvidenceSnapshot, ''group''), TypeAlertGroup),
      ((TypeEvidenceSnapshot, ''tasks''), TypeDiagnosisTask),
      ((TypeEvidenceSnapshot, ''sub_reports''), TypeSubReport),
      ((TypeFinalReport, ''sub_reports''), TypeSubReport),
      ((TypeFinalReport, ''notification_deliveries''), TypeReportNotificationDelivery),
      ((TypeNotificationChannelProfile, ''test_proofs''), TypeNotificationChannelTestProof),
      ((TypeNotificationChannelTestProof, ''notification_channel_profile''), TypeNotificationChannelProfile),
      ((TypeReportNotificationDelivery, ''final_report''), TypeFinalReport),
      ((TypeSubReport, ''snapshot''), TypeEvidenceSnapshot),
      ((TypeSubReport, ''final_reports''), TypeFinalReport)]"

text \<open>\<open>int\<close> has 64 bits, so the conversion of the code keeps every \<open>int64\<close>.\<close>

fun tenantRelationID :: "ent_value \<Rightarrow> int result" where
  "tenantRelationID (VInt i) =
     (if i < 0 then Inl (invariant_error ''relation id is outside supported range'') else Inr i)"
| "tenantRelationID (VInt64 i) =
     (if i < 0 then Inl (invariant_error ''relation id is outside supported range'') else Inr i)"
| "tenantRelationID v = Inl (invariant_error ''relation id type is unsupported'')"

fun positive_relation_ids :: "ent_value list \<Rightarrow> int list result" where
  "positive_relation_ids [] = Inr []"
| "positive_relation_ids (v # vs) =
     bindE (tenantRelationID v) (\<lambda>i.
     bindE (positive_relation_ids vs) (\<lambda>is. Inr (if i > 0 then i # is else is)))"

definition tenantRelationIDs :: "ent_value list \<Rightarrow> int list result" where
  "tenantRelationIDs values = bindE (positive_relation_ids values) (\<lambda>is. Inr (sort (remdups is)))"

definition tenant_lookup_types :: "string list" where
  "tenant_lookup_types =
     [TypeAlertEvent, TypeAlertGroup, TypeAlertSourceProfile, TypeChatSession, TypeChatSessionApproval,
      TypeChatSessionSummary, TypeChatTurn, TypeDiagnosisTask, TypeDiagnosisTaskEvent,
      TypeDiagnosisToolTemplate, TypeDirectoryDepartment, TypeDirectorySyncRun, TypeDirectoryUser,
      TypeEvidenceSnapshot, TypeFinalReport, TypeGroupingPolicy, TypeNotificationChannelProfile,
      TypeNotificationChannelTestProof, TypeReportNotificationDelivery, TypeReportWorkflowPolicy,
      TypeReportWorkflowSchedule, TypeRetrievalChunk, TypeRBACAssignment, TypeSubReport]"

definition IDIn :: "int list \<Rightarrow> entity_row \<Rightarrow> bool" where
  "IDIn ids r \<longleftrightarrow> er_id r \<in> set ids"

definition requireTenantEntityIDs ::
  "query_fault \<Rightarrow> tenant_context \<Rightarrow> ent_db \<Rightarrow> Identity \<Rightarrow> string \<Rightarrow> int list \<Rightarrow> unit result" where
  "requireTenantEntityIDs fault ctx d identity entityType ids =
     (if ids = [] then Inr ()
      else if entityType \<in> set tenant_lookup_types then
        (case ent_count fault ctx d \<lparr>qr_type = entityType, qr_where = [IDIn ids]\<rparr> of
           Inl e \<Rightarrow> Inl (wrap_error ''query relation ids'' e)
         | Inr n \<Rightarrow>
             if n \<noteq> int (length ids) then
               Inl (GoErr ''relation ids are missing or belong to another tenant'' [ErrPreconditionFailed])
             else Inr ())
      else if entityType = TypeTenant then
        (if list_ex (\<lambda>i. i \<noteq> id_ID identity) ids then
           Inl (GoErr ''tenant id does not match operation tenant'' [ErrPreconditionFailed])
         else Inr ())
      else Inl (invariant_error ''tenant entity lookup missing''))"

fun validate_reference_fields ::
  "query_fault \<Rightarrow> tenant_context \<Rightarrow> ent_db \<Rightarrow> Identity \<Rightarrow> ent_mutation \<Rightarrow> string list \<Rightarrow> unit result" where
  "validate_reference_fields fault ctx d identity m [] = Inr ()"
| "validate_reference_fields fault ctx d identity m (fieldName # names) =
     (case map_of tenantReferenceFields (mu_type m, fieldName) of
        None \<Rightarrow> validate_reference_fields fault ctx d identity m names
      | Some targetType \<Rightarrow>
          (case map_of (mu_fields m) fieldName of
             None \<Rightarrow> validate_reference_fields fault ctx d identity m names
           | Some v \<Rightarrow>
               (case tenantRelationID v of
                  Inl e \<Rightarrow> Inl (wrap_error ''repository'' e)
                | Inr i \<Rightarrow>
                    if i = 0 then validate_reference_fields fault ctx d identity m names
                    else (case requireTenantEntityIDs fault ctx d identity targetType [i] of
                            Inl e \<Rightarrow> Inl (wrap_error ''repository'' e)
                          | Inr _ \<Rightarrow> validate_reference_fields fault ctx d identity m names))))"

definition validateRetrievalSourceTenant ::
  "query_fault \<Rightarrow> tenant_context \<Rightarrow> ent_db \<Rightarrow> ent_mutation \<Rightarrow> unit result" where
  "validateRetrievalSourceTenant fault ctx d m =
     (case (map_of (mu_fields m) ''source_kind'', map_of (mu_fields m) ''source_id'') of
        (Some kindValue, Some idValue) \<Rightarrow>
          (case kindValue of
             VString kind \<Rightarrow>
               (case tenantRelationID idValue of
                  Inl e \<Rightarrow> Inl (wrap_error ''repository: RetrievalChunk.source_id'' e)
                | Inr i \<Rightarrow>
               (case tenancy_Require ctx of
                  Inl e \<Rightarrow> Inl e
                | Inr identity \<Rightarrow>
                    if kind = ''sub_report'' then requireTenantEntityIDs fault ctx d identity TypeSubReport [i]
                    else if kind = ''final_report'' then
                      requireTenantEntityIDs fault ctx d identity TypeFinalReport [i]
                    else Inl (invariant_error ''repository: RetrievalChunk.source_kind is unsupported'')))
           | _ \<Rightarrow> Inl (invariant_error ''repository: RetrievalChunk.source_kind is unsupported''))
      | _ \<Rightarrow> Inr ())"

fun validate_edges ::
  "query_fault \<Rightarrow> tenant_context \<Rightarrow> ent_db \<Rightarrow> Identity \<Rightarrow> ent_mutation \<Rightarrow> string list \<Rightarrow> unit result" where
  "validate_edges fault ctx d identity m [] = Inr ()"
| "validate_edges fault ctx d identity m (edgeName # names) =
     (let values = AddedIDs m edgeName @ RemovedIDs m edgeName in
      if values = [] then validate_edges fault ctx d identity m names
      else if edgeName = ''tenant'' then
        (case tenantRelationIDs values of
           Inl e \<Rightarrow> Inl e
         | Inr ids \<Rightarrow>
             if list_ex (\<lambda>i. i \<noteq> id_ID identity) ids then
               Inl (GoErr ''repository: mutation references another tenant'' [ErrPreconditionFailed])
             else validate_edges fault ctx d identity m names)
      else (case map_of tenantReferenceEdges (mu_type m, edgeName) of
              None \<Rightarrow> Inl (invariant_error ''repository: tenant relation mapping missing'')
            | Some targetType \<Rightarrow>
                (case tenantRelationIDs values of
                   Inl e \<Rightarrow> Inl (wrap_error ''repository'' e)
                 | Inr ids \<Rightarrow>
                     (case requireTenantEntityIDs fault ctx d identity targetType ids of
                        Inl e \<Rightarrow> Inl (wrap_error ''repository'' e)
                      | Inr _ \<Rightarrow> validate_edges fault ctx d identity m names))))"

definition validateTenantRelations ::
  "query_fault \<Rightarrow> tenant_context \<Rightarrow> ent_db \<Rightarrow> ent_mutation \<Rightarrow> Identity \<Rightarrow> unit result" where
  "validateTenantRelations fault ctx d m identity =
     (if \<not> mu_client m then
        Inl (invariant_error ''repository: tenant-owned mutation lacks client access'')
      else
        bindE (validate_reference_fields fault ctx d identity m (map fst (mu_fields m))) (\<lambda>_.
        bindE (if mu_type m = TypeRetrievalChunk then validateRetrievalSourceTenant fault ctx d m
               else Inr ()) (\<lambda>_.
        validate_edges fault ctx d identity m (map fst (mu_added m) @ map fst (mu_removed m)))))"

definition tenantMutationTargetVisible ::
  "query_fault \<Rightarrow> tenant_context \<Rightarrow> ent_db \<Rightarrow> ent_mutation \<Rightarrow> Identity \<Rightarrow> bool result" where
  "tenantMutationTargetVisible fault ctx d m identity =
     (if mu_op m \<notin> {OpUpdateOne, OpDeleteOne} then Inr True
      else if \<not> mu_with_id m then
        Inl (invariant_error ''repository: tenant update mutation lacks id access'')
      else (case mu_id m of
        None \<Rightarrow> Inr True
      | Some i \<Rightarrow>
          if \<not> mu_client m then
            Inl (invariant_error ''repository: tenant update mutation lacks client access'')
          else (case requireTenantEntityIDs fault ctx d identity (mu_type m) [i] of
                  Inl e \<Rightarrow> if errors_Is e ErrPreconditionFailed then Inr False else Inl e
                | Inr _ \<Rightarrow> Inr True)))"

section \<open>The mutation hook\<close>

type_synonym 'v mutator = "tenant_context \<Rightarrow> ent_mutation \<Rightarrow> ent_db \<Rightarrow> ent_db \<times> 'v result"

definition tenantMutationHook :: "query_fault \<Rightarrow> 'v mutator \<Rightarrow> 'v mutator" where
  "tenantMutationHook fault next_mutator ctx m d =
     (if globalTenantEntity (mu_type m) then next_mutator ctx m d
      else case tenancy_Require ctx of
        Inl e \<Rightarrow> (d, Inl e)
      | Inr identity \<Rightarrow>
          if \<not> mu_scoped m then
            (d, Inl (invariant_error ''repository: tenant-owned mutation lacks tenant contract''))
          else if mu_tenant m \<notin> {None, Some (id_ID identity)} then
            (d, Inl (GoErr ''repository: mutation tenant does not match operation tenant'' [ErrPreconditionFailed]))
          else
            let m = (if mu_op m = OpCreate then m\<lparr>mu_tenant := Some (id_ID identity)\<rparr>
                     else m\<lparr>mu_where := mu_where m @ [TenantIDEQ (id_ID identity)]\<rparr>) in
            (case tenantMutationTargetVisible fault ctx d m identity of
               Inl e \<Rightarrow> (d, Inl e)
             | Inr visible \<Rightarrow>
                 (case (if visible then validateTenantRelations fault ctx d m identity else Inr ()) of
                    Inl e \<Rightarrow> (d, Inl e)
                  | Inr _ \<Rightarrow> next_mutator ctx m d)))"

end
