(* ===== verification/Tenant_Isolation.thy ===== *)
theory Tenant_Isolation
  imports Tenant_Scope
begin

text \<open>
  What the tenant scope gives: with the hook and the interceptor installed, the rows of a tenant and
  the answers to its queries do not depend on what is done for other tenants. The mutators of the
  generated client are code of a library; \<open>mutator_contract\<close> states what the code relies on: which
  rows a mutation may touch, which tenant and which references the rows have after it, that a failed
  mutation changes nothing, and that a single-row mutation that finds no row fails.
\<close>

section \<open>References\<close>

definition er_key :: "entity_row \<Rightarrow> string \<times> int" where
  "er_key r = (er_type r, er_id r)"

fun relation_id :: "ent_value \<Rightarrow> int" where
  "relation_id (VInt i) = i"
| "relation_id (VInt64 i) = i"
| "relation_id v = 0"

definition field_targets :: "string \<Rightarrow> (string \<times> ent_value) list \<Rightarrow> (string \<times> int) set" where
  "field_targets ty fs =
     {(t, i). i \<noteq> 0 \<and> (\<exists>f v. map_of tenantReferenceFields (ty, f) = Some t \<and> map_of fs f = Some v \<and>
        relation_id v = i)}"

definition source_targets :: "string \<Rightarrow> (string \<times> ent_value) list \<Rightarrow> (string \<times> int) set" where
  "source_targets ty fs =
     {(t, i). ty = TypeRetrievalChunk \<and> (\<exists>v. map_of fs ''source_id'' = Some v \<and> relation_id v = i) \<and>
        (map_of fs ''source_kind'' = Some (VString ''sub_report'') \<and> t = TypeSubReport \<or>
         map_of fs ''source_kind'' = Some (VString ''final_report'') \<and> t = TypeFinalReport)}"

definition edge_targets :: "ent_mutation \<Rightarrow> (string \<times> int) set" where
  "edge_targets m =
     {(t, i). i \<noteq> 0 \<and> (\<exists>e v. map_of tenantReferenceEdges (mu_type m, e) = Some t \<and>
        v \<in> set (AddedIDs m e @ RemovedIDs m e) \<and> relation_id v = i)}"

definition mutation_targets :: "ent_mutation \<Rightarrow> (string \<times> int) set" where
  "mutation_targets m =
     field_targets (mu_type m) (mu_fields m) \<union> source_targets (mu_type m) (mu_fields m) \<union> edge_targets m"

definition row_targets :: "entity_row \<Rightarrow> (string \<times> int) set" where
  "row_targets r =
     field_targets (er_type r) (er_fields r) \<union> source_targets (er_type r) (er_fields r) \<union>
     {(t, i). \<exists>e. map_of tenantReferenceEdges (er_type r, e) = Some t \<and> (e, i) \<in> set (er_links r)}"

section \<open>What a mutator does\<close>

definition mutation_hits :: "ent_mutation \<Rightarrow> entity_row \<Rightarrow> bool" where
  "mutation_hits m r \<longleftrightarrow> mu_op m \<noteq> OpCreate \<and> er_type r = mu_type m \<and> list_all (\<lambda>p. p r) (mu_where m) \<and>
     (mu_op m \<in> {OpUpdateOne, OpDeleteOne} \<longrightarrow> mu_id m \<in> {None, Some (er_id r)})"

text \<open>
  The rows a mutation may touch: the ones it selects, the ones its edges name (their foreign key is
  written), and the ones that refer to a selected row (a cleared edge or a deleted row).
\<close>

definition mutation_touches :: "ent_mutation \<Rightarrow> ent_db \<Rightarrow> entity_row \<Rightarrow> bool" where
  "mutation_touches m d x \<longleftrightarrow> mutation_hits m x \<or> er_key x \<in> edge_targets m \<or>
     (\<exists>z \<in> set (db_rows d). mutation_hits m z \<and> er_key z \<in> row_targets x)"

definition written_keys :: "ent_mutation \<Rightarrow> ent_db \<Rightarrow> (string \<times> int) set" where
  "written_keys m d = {k. (\<exists>z \<in> set (db_rows d). mutation_hits m z \<and> er_key z = k) \<or>
     mu_op m = OpCreate \<and> k = (mu_type m, db_next d (mu_type m))}"

inductive row_after :: "ent_mutation \<Rightarrow> ent_db \<Rightarrow> entity_row \<Rightarrow> bool" for m d where
  kept: "y \<in> set (db_rows d) \<Longrightarrow> row_after m d y"
| selected: "x \<in> set (db_rows d) \<Longrightarrow> mutation_hits m x \<Longrightarrow> er_key y = er_key x \<Longrightarrow>
    er_tenant y = (case mu_tenant m of None \<Rightarrow> er_tenant x | Some t \<Rightarrow> t) \<Longrightarrow>
    row_targets y \<subseteq> row_targets x \<union> mutation_targets m \<Longrightarrow> row_after m d y"
| related: "x \<in> set (db_rows d) \<Longrightarrow> mutation_touches m d x \<Longrightarrow> er_key y = er_key x \<Longrightarrow>
    er_tenant y = er_tenant x \<Longrightarrow> row_targets y \<subseteq> row_targets x \<union> written_keys m d \<Longrightarrow> row_after m d y"
| created: "mu_op m = OpCreate \<Longrightarrow> er_key y = (mu_type m, db_next d (mu_type m)) \<Longrightarrow>
    (\<And>t. mu_tenant m = Some t \<Longrightarrow> er_tenant y = t) \<Longrightarrow> row_targets y \<subseteq> mutation_targets m \<Longrightarrow>
    row_after m d y"

definition db_keys_ok :: "ent_db \<Rightarrow> bool" where
  "db_keys_ok d \<longleftrightarrow> distinct (map er_key (db_rows d)) \<and>
     (\<forall>r \<in> set (db_rows d). 0 < er_id r \<and> er_id r < db_next d (er_type r))"

definition mutation_outcome :: "ent_mutation \<Rightarrow> ent_db \<Rightarrow> ent_db \<Rightarrow> bool" where
  "mutation_outcome m d d' \<longleftrightarrow> db_keys_ok d' \<and>
     (\<forall>x \<in> set (db_rows d). \<not> mutation_touches m d x \<longrightarrow> x \<in> set (db_rows d')) \<and>
     (\<forall>y \<in> set (db_rows d'). row_after m d y) \<and>
     (\<forall>t. db_next d t \<le> db_next d' t) \<and>
     (mu_op m = OpCreate \<longrightarrow> db_next d (mu_type m) < db_next d' (mu_type m)) \<and>
     (mu_op m \<in> {OpUpdateOne, OpDeleteOne} \<and> mu_id m \<noteq> None \<longrightarrow>
        (\<exists>x \<in> set (db_rows d). mutation_hits m x))"

definition mutator_contract :: "'v mutator \<Rightarrow> bool" where
  "mutator_contract next_mutator \<longleftrightarrow>
     (\<forall>ctx m d d' r. db_keys_ok d \<longrightarrow> next_mutator ctx m d = (d', r) \<longrightarrow>
        (case r of Inl e \<Rightarrow> d' = d | Inr v \<Rightarrow> mutation_outcome m d d'))"

section \<open>Isolated databases\<close>

text \<open>Every reference of a row stays in the tenant of the row.\<close>

definition isolated_db :: "ent_db \<Rightarrow> bool" where
  "isolated_db d \<longleftrightarrow> db_keys_ok d \<and>
     (\<forall>x \<in> set (db_rows d). \<forall>(t, i) \<in> row_targets x. i < db_next d t \<and>
        (\<forall>y \<in> set (db_rows d). er_key y = (t, i) \<longrightarrow> er_tenant y = er_tenant x))"

definition tenant_rows :: "int \<Rightarrow> ent_db \<Rightarrow> entity_row set" where
  "tenant_rows b d = {r \<in> set (db_rows d). \<not> globalTenantEntity (er_type r) \<and> er_tenant r = b}"

lemma isolated_target:
  assumes "isolated_db d" "x \<in> set (db_rows d)" "(t, i) \<in> row_targets x"
  shows "i < db_next d t" "\<And>y. y \<in> set (db_rows d) \<Longrightarrow> er_key y = (t, i) \<Longrightarrow> er_tenant y = er_tenant x"
  using assms unfolding isolated_db_def by fast+

lemma key_unique:
  "db_keys_ok d \<Longrightarrow> x \<in> set (db_rows d) \<Longrightarrow> y \<in> set (db_rows d) \<Longrightarrow> er_key x = er_key y \<Longrightarrow> x = y"
  by (auto simp: db_keys_ok_def distinct_map dest: inj_onD)

text \<open>The maps of the references.\<close>

lemma reference_fields_scoped:
  assumes "map_of tenantReferenceFields (ty, f) = Some t"
  shows "t \<in> set tenant_lookup_types" "\<not> globalTenantEntity ty" "ty \<noteq> TypeRetrievalChunk"
proof -
  have "list_all (\<lambda>((ty, f), t). t \<in> set tenant_lookup_types \<and> \<not> globalTenantEntity ty \<and> ty \<noteq> TypeRetrievalChunk)
      tenantReferenceFields" by code_simp
  with map_of_SomeD [OF assms] show "t \<in> set tenant_lookup_types" "\<not> globalTenantEntity ty" "ty \<noteq> TypeRetrievalChunk"
    by (auto simp: list_all_iff)
qed

lemma reference_edges_scoped:
  assumes "map_of tenantReferenceEdges (ty, e) = Some t"
  shows "t \<in> set tenant_lookup_types" "\<not> globalTenantEntity ty" "e \<noteq> ''tenant''"
proof -
  have "list_all (\<lambda>((ty, e), t). t \<in> set tenant_lookup_types \<and> \<not> globalTenantEntity ty \<and> e \<noteq> ''tenant'')
      tenantReferenceEdges" by code_simp
  with map_of_SomeD [OF assms] show "t \<in> set tenant_lookup_types" "\<not> globalTenantEntity ty" "e \<noteq> ''tenant''"
    by (auto simp: list_all_iff)
qed

lemma lookup_types_scoped:
  assumes "t \<in> set tenant_lookup_types"
  shows "t \<in> set tenant_query_types" "\<not> globalTenantEntity t"
proof -
  have "list_all (\<lambda>t. t \<in> set tenant_query_types \<and> \<not> globalTenantEntity t) tenant_lookup_types" by code_simp
  with assms show "t \<in> set tenant_query_types" "\<not> globalTenantEntity t" by (auto simp: list_all_iff)
qed

lemma query_types_scoped: "t \<in> set tenant_query_types \<Longrightarrow> \<not> globalTenantEntity t"
proof -
  have "list_all (\<lambda>t. \<not> globalTenantEntity t) tenant_query_types" by code_simp
  then show "t \<in> set tenant_query_types \<Longrightarrow> \<not> globalTenantEntity t" by (auto simp: list_all_iff)
qed

lemma source_types: "TypeSubReport \<in> set tenant_lookup_types" "TypeFinalReport \<in> set tenant_lookup_types"
  "\<not> globalTenantEntity TypeRetrievalChunk"
  by code_simp+

lemma targets_scoped:
  assumes "(t, i) \<in> row_targets r \<or> (t, i) \<in> mutation_targets m"
  shows "\<not> globalTenantEntity t"
  using assms reference_fields_scoped(1) reference_edges_scoped(1) source_types lookup_types_scoped(2)
  by (fastforce simp: row_targets_def mutation_targets_def field_targets_def source_targets_def edge_targets_def)

lemma global_targets:
  shows "globalTenantEntity (er_type r) \<Longrightarrow> row_targets r = {}"
    and "globalTenantEntity (mu_type m) \<Longrightarrow> mutation_targets m = {}"
  using reference_fields_scoped(2) reference_edges_scoped(2) source_types(3)
  by (auto simp: row_targets_def mutation_targets_def field_targets_def source_targets_def edge_targets_def)

lemma mutation_targets_updates [simp]:
  "mutation_targets (m\<lparr>mu_tenant := t\<rparr>) = mutation_targets m"
  "mutation_targets (m\<lparr>mu_where := w\<rparr>) = mutation_targets m"
  by (simp_all add: mutation_targets_def edge_targets_def AddedIDs_def RemovedIDs_def)

section \<open>Accepted relations\<close>

definition validated_target :: "ent_db \<Rightarrow> int \<Rightarrow> string \<times> int \<Rightarrow> bool" where
  "validated_target d a k \<longleftrightarrow> (\<exists>y \<in> set (db_rows d). er_key y = k \<and> er_tenant y = a)"

lemma tenantRelationID_Inr: "tenantRelationID v = Inr i \<Longrightarrow> i = relation_id v \<and> 0 \<le> i"
  by (cases v) (auto split: if_splits)

lemma positive_relation_ids_set:
  "positive_relation_ids vs = Inr is \<Longrightarrow> set is = {i. i \<noteq> 0 \<and> (\<exists>v \<in> set vs. relation_id v = i)}"
proof (induction vs arbitrary: "is")
  case (Cons v vs)
  then obtain i js where v: "tenantRelationID v = Inr i" and js: "positive_relation_ids vs = Inr js"
    and i: "is = (if i > 0 then i # js else js)" by (auto simp: bindE_eq_Inr_iff)
  have "relation_id v = i" "0 \<le> i" using tenantRelationID_Inr [OF v] by simp_all
  with Cons.IH [OF js] show ?case by (cases "i = 0") (simp add: i, auto simp: i)
qed simp

lemma tenantRelationIDs_Inr:
  assumes "tenantRelationIDs vs = Inr ids"
  shows "distinct ids" "set ids = {i. i \<noteq> 0 \<and> (\<exists>v \<in> set vs. relation_id v = i)}"
  using assms positive_relation_ids_set [of vs] by (auto simp: tenantRelationIDs_def bindE_eq_Inr_iff)

lemma filterTenantQuery_scoped:
  assumes "tenancy_Require ctx = Inr identity" "qr_type q \<in> set tenant_query_types"
  shows "filterTenantQuery ctx q = Inr (q\<lparr>qr_where := qr_where q @ [TenantIDEQ (id_ID identity)]\<rparr>)"
proof -
  have "qr_type q \<notin> {TypeTenant, TypeTenantMembership, TypeDiagnosisAuthTicket}"
    using query_types_scoped [OF assms(2)] unfolding globalTenantEntity_def by blast
  with assms show ?thesis unfolding filterTenantQuery_def by (simp only: if_False sum.case if_True)
qed

lemma ent_count_tenant:
  assumes "tenancy_Require ctx = Inr identity" "t \<in> set tenant_lookup_types"
    and "ent_count fault ctx d \<lparr>qr_type = t, qr_where = [IDIn ids]\<rparr> = Inr n"
  shows "n = int (length (filter (\<lambda>r. er_type r = t \<and> er_id r \<in> set ids \<and> er_tenant r = id_ID identity) (db_rows d)))"
proof -
  let ?q = "\<lparr>qr_type = t, qr_where = [IDIn ids]\<rparr>"
  have "filterTenantQuery ctx ?q = Inr (?q\<lparr>qr_where := qr_where ?q @ [TenantIDEQ (id_ID identity)]\<rparr>)"
    using filterTenantQuery_scoped [OF assms(1), of ?q] lookup_types_scoped(1) [OF assms(2)] by simp
  with assms(3) show ?thesis
    by (simp add: ent_count_def ent_all_def query_rows_def IDIn_def TenantIDEQ_def split: option.splits)
qed

lemma require_rows:
  assumes "db_keys_ok d" "tenancy_Require ctx = Inr identity" "t \<in> set tenant_lookup_types" "distinct ids"
    and "requireTenantEntityIDs fault ctx d identity t ids = Inr ()" "i \<in> set ids"
  shows "validated_target d (id_ID identity) (t, i)"
proof -
  let ?M = "filter (\<lambda>r. er_type r = t \<and> er_id r \<in> set ids \<and> er_tenant r = id_ID identity) (db_rows d)"
  have "ent_count fault ctx d \<lparr>qr_type = t, qr_where = [IDIn ids]\<rparr> = Inr (int (length ids))"
    using assms(3,5,6) by (auto simp: requireTenantEntityIDs_def split: if_splits sum.splits)
  from ent_count_tenant [OF assms(2,3) this] have len: "length (map er_id ?M) = length ids" by simp
  have d: "distinct (map er_id ?M)"
    using assms(1) by (simp add: db_keys_ok_def distinct_map inj_on_def er_key_def)
  have sub: "set (map er_id ?M) \<subseteq> set ids" by auto
  have "card (set (map er_id ?M)) = card (set ids)"
    using len distinct_card [OF d] distinct_card [OF assms(4)] by simp
  with sub have "set (map er_id ?M) = set ids" by (intro card_subset_eq) simp_all
  with assms(6) have "i \<in> set (map er_id ?M)" by simp
  then show ?thesis by (auto simp: validated_target_def er_key_def)
qed

lemma validate_reference_fields_Inr:
  assumes "validate_reference_fields fault ctx d identity m names = Inr ()" "f \<in> set names"
    and "map_of tenantReferenceFields (mu_type m, f) = Some t" "map_of (mu_fields m) f = Some v" "relation_id v \<noteq> 0"
  shows "requireTenantEntityIDs fault ctx d identity t [relation_id v] = Inr ()"
  using assms by (induction names) (auto dest!: tenantRelationID_Inr split: option.splits sum.splits if_splits)

lemma validate_edges_Inr:
  assumes "validate_edges fault ctx d identity m names = Inr ()" "e \<in> set names"
    and "map_of tenantReferenceEdges (mu_type m, e) = Some t" "AddedIDs m e @ RemovedIDs m e \<noteq> []"
  shows "\<exists>ids. tenantRelationIDs (AddedIDs m e @ RemovedIDs m e) = Inr ids \<and>
    requireTenantEntityIDs fault ctx d identity t ids = Inr ()"
  using assms reference_edges_scoped(3) [OF assms(3)]
  by (induction names) (auto simp: Let_def split: option.splits sum.splits if_splits)

lemma edge_named:
  assumes "v \<in> set (AddedIDs m e @ RemovedIDs m e)"
  shows "e \<in> set (map fst (mu_added m) @ map fst (mu_removed m))"
  using assms by (cases "map_of (mu_added m) e"; cases "map_of (mu_removed m) e")
    (auto simp: AddedIDs_def RemovedIDs_def image_iff dest!: map_of_SomeD intro: bexI [rotated])

lemma validated_source:
  assumes "db_keys_ok d" "tenancy_Require ctx = Inr identity"
    and "validateRetrievalSourceTenant fault ctx d m = Inr ()" "k \<in> source_targets (mu_type m) (mu_fields m)"
  shows "validated_target d (id_ID identity) k"
proof -
  obtain t v where k: "k = (t, relation_id v)" and v: "map_of (mu_fields m) ''source_id'' = Some v"
    and t: "map_of (mu_fields m) ''source_kind'' = Some (VString ''sub_report'') \<and> t = TypeSubReport \<or>
      map_of (mu_fields m) ''source_kind'' = Some (VString ''final_report'') \<and> t = TypeFinalReport"
    using assms(4) by (auto simp: source_targets_def)
  from t have lt: "t \<in> set tenant_lookup_types" using source_types by auto
  have "requireTenantEntityIDs fault ctx d identity t [relation_id v] = Inr ()"
    using assms(2,3) v t
    by (auto simp: validateRetrievalSourceTenant_def dest!: tenantRelationID_Inr split: sum.splits)
  from require_rows [OF assms(1,2) lt _ this] show ?thesis by (simp add: k)
qed

text \<open>A mutation whose relations are accepted refers to rows of its tenant only.\<close>

lemma validated_relations:
  assumes "db_keys_ok d" "tenancy_Require ctx = Inr identity"
    and "validateTenantRelations fault ctx d m identity = Inr ()" "k \<in> mutation_targets m"
  shows "validated_target d (id_ID identity) k"
proof -
  have f: "validate_reference_fields fault ctx d identity m (map fst (mu_fields m)) = Inr ()"
    and s: "mu_type m = TypeRetrievalChunk \<Longrightarrow> validateRetrievalSourceTenant fault ctx d m = Inr ()"
    and e: "validate_edges fault ctx d identity m (map fst (mu_added m) @ map fst (mu_removed m)) = Inr ()"
    using assms(3) by (auto simp: validateTenantRelations_def bindE_eq_Inr_iff split: if_splits)
  consider "k \<in> field_targets (mu_type m) (mu_fields m)" | "k \<in> source_targets (mu_type m) (mu_fields m)"
    | "k \<in> edge_targets m" using assms(4) by (auto simp: mutation_targets_def)
  then show ?thesis
  proof cases
    case 1
    then obtain t g v where k: "k = (t, relation_id v)" "relation_id v \<noteq> 0"
      and g: "map_of tenantReferenceFields (mu_type m, g) = Some t" "map_of (mu_fields m) g = Some v"
      by (auto simp: field_targets_def)
    from map_of_SomeD [OF g(2)] have "g \<in> set (map fst (mu_fields m))" by force
    from require_rows [OF assms(1,2) reference_fields_scoped(1) [OF g(1)] _
        validate_reference_fields_Inr [OF f this g k(2)]] show ?thesis by (simp add: k)
  next
    case 2
    then have "mu_type m = TypeRetrievalChunk" by (auto simp: source_targets_def)
    from validated_source [OF assms(1,2) s [OF this] 2] show ?thesis .
  next
    case 3
    then obtain t ed v where k: "k = (t, relation_id v)" "relation_id v \<noteq> 0"
      and ed: "map_of tenantReferenceEdges (mu_type m, ed) = Some t"
      and v: "v \<in> set (AddedIDs m ed @ RemovedIDs m ed)" by (auto simp: edge_targets_def)
    have "AddedIDs m ed @ RemovedIDs m ed \<noteq> []" using v by (metis empty_iff empty_set)
    from validate_edges_Inr [OF e edge_named [OF v] ed this]
    obtain ids where ids: "tenantRelationIDs (AddedIDs m ed @ RemovedIDs m ed) = Inr ids"
      "requireTenantEntityIDs fault ctx d identity t ids = Inr ()" by blast
    have "relation_id v \<in> set ids" unfolding tenantRelationIDs_Inr(2) [OF ids(1)] using v k(2) by blast
    from require_rows [OF assms(1,2) reference_edges_scoped(1) [OF ed] tenantRelationIDs_Inr(1) [OF ids(1)] ids(2) this]
    show ?thesis by (simp add: k)
  qed
qed

section \<open>One mutation\<close>

text \<open>The mutation as the hook passes it on, for the tenant \<open>a\<close>.\<close>

definition confined_mutation :: "int \<Rightarrow> ent_mutation \<Rightarrow> ent_db \<Rightarrow> bool" where
  "confined_mutation a m d \<longleftrightarrow>
     (\<forall>x \<in> set (db_rows d). mutation_hits m x \<longrightarrow> er_tenant x = a) \<and>
     mu_tenant m \<in> {None, Some a} \<and> (mu_op m = OpCreate \<longrightarrow> mu_tenant m = Some a) \<and>
     (\<forall>k \<in> mutation_targets m. validated_target d a k)"

lemma validated_target_row:
  "db_keys_ok d \<Longrightarrow> validated_target d a (er_key x) \<Longrightarrow> x \<in> set (db_rows d) \<Longrightarrow> er_tenant x = a"
  unfolding validated_target_def using key_unique by blast

lemma touched_tenant:
  assumes "isolated_db d" "confined_mutation a m d" "x \<in> set (db_rows d)" "mutation_touches m d x"
  shows "er_tenant x = a"
proof -
  have keys: "db_keys_ok d" using assms(1) by (simp add: isolated_db_def)
  consider "mutation_hits m x" | "er_key x \<in> edge_targets m"
    | z where "z \<in> set (db_rows d)" "mutation_hits m z" "er_key z \<in> row_targets x"
    using assms(4) by (auto simp: mutation_touches_def)
  then show ?thesis
  proof cases
    case 1
    with assms(2,3) show ?thesis by (simp add: confined_mutation_def)
  next
    case 2
    then have "er_key x \<in> mutation_targets m" by (simp add: mutation_targets_def)
    with assms(2,3) validated_target_row [OF keys] show ?thesis by (simp add: confined_mutation_def)
  next
    case 3
    then have "er_tenant z = a" using assms(2) by (simp add: confined_mutation_def)
    moreover have "er_tenant z = er_tenant x"
      using assms(1,3) 3(1,3) unfolding isolated_db_def by (cases "er_key z") fast
    ultimately show ?thesis by simp
  qed
qed

text \<open>A row after a confined mutation is an old row or a row of the tenant.\<close>

lemma row_after_tenant:
  assumes "isolated_db d" "confined_mutation a m d" "row_after m d y"
  shows "y \<in> set (db_rows d) \<or> er_tenant y = a"
  using assms(3)
proof cases
  case (selected x)
  with assms(2) show ?thesis by (auto simp: confined_mutation_def)
next
  case (related x)
  with touched_tenant [OF assms(1,2)] show ?thesis by simp
next
  case created
  with assms(2) show ?thesis by (simp add: confined_mutation_def)
qed simp

lemma row_after_origin:
  assumes "confined_mutation a m d" "row_after m d y"
  shows "(\<exists>x \<in> set (db_rows d). er_key x = er_key y \<and> er_tenant x = er_tenant y) \<or>
    mu_op m = OpCreate \<and> er_key y = (mu_type m, db_next d (mu_type m)) \<and> er_tenant y = a"
  using assms(2)
proof cases
  case (selected x)
  with assms(1) have "er_tenant y = er_tenant x" by (auto simp: confined_mutation_def)
  with selected show ?thesis by metis
next
  case (related x)
  then show ?thesis by metis
next
  case created
  with assms(1) show ?thesis by (simp add: confined_mutation_def)
qed metis

text \<open>Where a reference of a row after the mutation comes from.\<close>

lemma row_after_targets:
  assumes "isolated_db d" "confined_mutation a m d" "row_after m d y" "k \<in> row_targets y"
  shows "(\<exists>x \<in> set (db_rows d). k \<in> row_targets x \<and> er_tenant x = er_tenant y) \<or>
    er_tenant y = a \<and> (validated_target d a k \<or> mu_op m = OpCreate \<and> k = (mu_type m, db_next d (mu_type m)))"
  using assms(3)
proof cases
  case kept
  with assms(4) show ?thesis by blast
next
  case (selected x)
  with assms(2) have t: "er_tenant x = a" "er_tenant y = a" by (auto simp: confined_mutation_def)
  from selected(5) assms(4) consider "k \<in> row_targets x" | "k \<in> mutation_targets m" by blast
  then show ?thesis
    using t selected(1) assms(2) by cases (auto simp: confined_mutation_def)
next
  case (related x)
  then have t: "er_tenant x = a" "er_tenant y = a" using touched_tenant [OF assms(1,2)] by simp_all
  from related(5) assms(4) consider "k \<in> row_targets x" | "k \<in> written_keys m d" by blast
  then show ?thesis
  proof cases
    case 1
    with related(1) t show ?thesis by metis
  next
    case 2
    with assms(2) t show ?thesis by (auto simp: written_keys_def validated_target_def confined_mutation_def)
  qed
next
  case created
  with assms(2,4) show ?thesis by (auto simp: confined_mutation_def)
qed

lemma confined_isolated:
  assumes "isolated_db d" "confined_mutation a m d" "mutation_outcome m d d'"
  shows "isolated_db d'"
proof -
  have keys: "db_keys_ok d" using assms(1) by (simp add: isolated_db_def)
  have keys': "db_keys_ok d'" and after: "\<And>y. y \<in> set (db_rows d') \<Longrightarrow> row_after m d y"
    and mono: "\<And>t. db_next d t \<le> db_next d' t"
    and grows: "mu_op m = OpCreate \<Longrightarrow> db_next d (mu_type m) < db_next d' (mu_type m)"
    using assms(3) by (auto simp: mutation_outcome_def)
  have old: "i < db_next d' t \<and> (\<forall>w \<in> set (db_rows d'). er_key w = (t, i) \<longrightarrow> er_tenant w = b)"
    if lt: "i < db_next d t" and own: "\<And>x. x \<in> set (db_rows d) \<Longrightarrow> er_key x = (t, i) \<Longrightarrow> er_tenant x = b" for t i b
  proof -
    have "er_tenant w = b" if "w \<in> set (db_rows d')" "er_key w = (t, i)" for w
      using row_after_origin [OF assms(2) after [OF that(1)]] that(2) lt own by auto
    then show ?thesis using lt mono [of t] by auto
  qed
  have "i < db_next d' t \<and> (\<forall>w \<in> set (db_rows d'). er_key w = (t, i) \<longrightarrow> er_tenant w = er_tenant y)"
    if y: "y \<in> set (db_rows d')" and k: "(t, i) \<in> row_targets y" for y t i
    using row_after_targets [OF assms(1,2) after [OF y] k]
  proof (elim disjE bexE conjE)
    fix x assume "x \<in> set (db_rows d)" "(t, i) \<in> row_targets x" "er_tenant x = er_tenant y"
    then have "i < db_next d t" "\<And>z. z \<in> set (db_rows d) \<Longrightarrow> er_key z = (t, i) \<Longrightarrow> er_tenant z = er_tenant y"
      using isolated_target [OF assms(1)] by metis+
    then show ?thesis by (rule old)
  next
    assume t: "er_tenant y = a" "validated_target d a (t, i)"
    then obtain z where z: "z \<in> set (db_rows d)" "er_key z = (t, i)" by (auto simp: validated_target_def)
    then have "i < db_next d t" using keys by (auto simp: db_keys_ok_def er_key_def)
    moreover have "er_tenant w = er_tenant y" if "w \<in> set (db_rows d)" "er_key w = (t, i)" for w
      using validated_target_row [OF keys _ that(1)] t that(2) by simp
    ultimately show ?thesis by (rule old)
  next
    assume t: "er_tenant y = a" "mu_op m = OpCreate" "(t, i) = (mu_type m, db_next d (mu_type m))"
    have "er_tenant w = a" if w: "w \<in> set (db_rows d')" "er_key w = (t, i)" for w
      using row_after_origin [OF assms(2) after [OF w(1)]] w(2) t(3) keys
      by (auto simp: db_keys_ok_def er_key_def)
    then show ?thesis using t grows by auto
  qed
  with keys' show ?thesis by (auto simp: isolated_db_def)
qed

lemma confined_rows:
  assumes "isolated_db d" "confined_mutation a m d" "mutation_outcome m d d'" "b \<noteq> a"
  shows "tenant_rows b d' = tenant_rows b d"
proof (intro subset_antisym subsetI)
  fix y assume "y \<in> tenant_rows b d'"
  then have y: "y \<in> set (db_rows d')" "\<not> globalTenantEntity (er_type y)" "er_tenant y = b" by (auto simp: tenant_rows_def)
  with assms(3) have "row_after m d y" by (simp add: mutation_outcome_def)
  from row_after_tenant [OF assms(1,2) this] y assms(4) show "y \<in> tenant_rows b d" by (auto simp: tenant_rows_def)
next
  fix x assume "x \<in> tenant_rows b d"
  then have x: "x \<in> set (db_rows d)" "\<not> globalTenantEntity (er_type x)" "er_tenant x = b" by (auto simp: tenant_rows_def)
  with touched_tenant [OF assms(1,2) x(1)] assms(4) have "\<not> mutation_touches m d x" by auto
  with x assms(3) show "x \<in> tenant_rows b d'" by (simp add: tenant_rows_def mutation_outcome_def)
qed

lemma global_untouched:
  assumes "globalTenantEntity (mu_type m)" "\<not> globalTenantEntity (er_type x)"
  shows "\<not> mutation_touches m d x"
proof -
  have "edge_targets m = {}" using global_targets(2) [OF assms(1)] by (simp add: mutation_targets_def)
  moreover have "\<not> mutation_hits m x" using assms by (auto simp: mutation_hits_def)
  moreover have "er_key z \<notin> row_targets x" if "mutation_hits m z" for z
    using targets_scoped [of "er_type z" "er_id z" x] that assms(1) by (auto simp: mutation_hits_def er_key_def)
  ultimately show ?thesis by (auto simp: mutation_touches_def)
qed

lemma global_row_after:
  assumes "globalTenantEntity (mu_type m)" "\<not> globalTenantEntity (er_type y)" "row_after m d y"
  shows "y \<in> set (db_rows d)"
  using assms(3)
proof cases
  case (selected x)
  with assms show ?thesis by (simp add: mutation_hits_def er_key_def)
next
  case (related x)
  then have "\<not> globalTenantEntity (er_type x)" using assms(2) by (simp add: er_key_def)
  with global_untouched [OF assms(1)] related(2) show ?thesis by blast
next
  case created
  with assms show ?thesis by (simp add: er_key_def)
qed

lemma global_mutation:
  assumes "isolated_db d" "globalTenantEntity (mu_type m)" "mutation_outcome m d d'"
  shows "isolated_db d'" "tenant_rows b d' = tenant_rows b d"
proof -
  have same: "x \<in> set (db_rows d') \<longleftrightarrow> x \<in> set (db_rows d)" if "\<not> globalTenantEntity (er_type x)" for x
    using assms(3) global_untouched [OF assms(2) that] global_row_after [OF assms(2) that]
    by (auto simp: mutation_outcome_def)
  then show "tenant_rows b d' = tenant_rows b d" by (auto simp: tenant_rows_def)
  have mono: "db_next d t \<le> db_next d' t" for t using assms(3) by (simp add: mutation_outcome_def)
  have "i < db_next d' t \<and> (\<forall>w \<in> set (db_rows d'). er_key w = (t, i) \<longrightarrow> er_tenant w = er_tenant y)"
    if y: "y \<in> set (db_rows d')" and k: "(t, i) \<in> row_targets y" for y t i
  proof -
    have "\<not> globalTenantEntity (er_type y)" using global_targets(1) k by fastforce
    with same y have "y \<in> set (db_rows d)" by blast
    note old = isolated_target [OF assms(1) this k]
    have "w \<in> set (db_rows d)" if "w \<in> set (db_rows d')" "er_key w = (t, i)" for w
      using same [of w] that targets_scoped [OF disjI1 [OF k]] by (simp add: er_key_def)
    with old mono [of t] show ?thesis by fastforce
  qed
  with assms(3) show "isolated_db d'" by (auto simp: isolated_db_def mutation_outcome_def)
qed

section \<open>The hook\<close>

text \<open>The errors of the driver wrap no sentinel of this repository.\<close>

definition driver_faults :: "query_fault \<Rightarrow> bool" where
  "driver_faults fault \<longleftrightarrow> (\<forall>t e. fault t = Some e \<longrightarrow> \<not> errors_Is e ErrPreconditionFailed)"

definition bound_to :: "tenant_context \<Rightarrow> int \<Rightarrow> bool" where
  "bound_to ctx a \<longleftrightarrow> (\<exists>identity. tenancy_Require ctx = Inr identity \<and> id_ID identity = a)"

text \<open>The mutation after the hook has set or required the tenant.\<close>

definition scoped_mutation :: "Identity \<Rightarrow> ent_mutation \<Rightarrow> ent_mutation" where
  "scoped_mutation identity m =
     (if mu_op m = OpCreate then m\<lparr>mu_tenant := Some (id_ID identity)\<rparr>
      else m\<lparr>mu_where := mu_where m @ [TenantIDEQ (id_ID identity)]\<rparr>)"

lemma scoped_mutation_fields [simp]:
  "mu_op (scoped_mutation i m) = mu_op m" "mu_type (scoped_mutation i m) = mu_type m"
  "mu_id (scoped_mutation i m) = mu_id m"
  by (simp_all add: scoped_mutation_def)

lemma scoped_mutation_hits: "mutation_hits (scoped_mutation identity m) x \<Longrightarrow> er_tenant x = id_ID identity"
  by (auto simp: scoped_mutation_def mutation_hits_def TenantIDEQ_def split: if_splits)

lemma scoped_mutation_confined:
  assumes "mu_tenant m \<in> {None, Some (id_ID identity)}"
    and "\<forall>k \<in> mutation_targets (scoped_mutation identity m). validated_target d (id_ID identity) k"
  shows "confined_mutation (id_ID identity) (scoped_mutation identity m) d"
  using assms scoped_mutation_hits [of identity m] by (simp add: confined_mutation_def scoped_mutation_def)

text \<open>A target that the tenant cannot see is one that no row of the mutation is.\<close>

lemma invisible_target:
  assumes "db_keys_ok d" "tenancy_Require ctx = Inr identity" "driver_faults fault" "\<not> globalTenantEntity (mu_type m)"
    and "tenantMutationTargetVisible fault ctx d (scoped_mutation identity m) identity = Inr False"
  shows "mu_op m \<in> {OpUpdateOne, OpDeleteOne} \<and> mu_id m \<noteq> None \<and>
    \<not> (\<exists>x \<in> set (db_rows d). mutation_hits (scoped_mutation identity m) x)"
proof -
  obtain i e where op: "mu_op m \<in> {OpUpdateOne, OpDeleteOne}" and i: "mu_id m = Some i"
    and e: "requireTenantEntityIDs fault ctx d identity (mu_type m) [i] = Inl e" "errors_Is e ErrPreconditionFailed"
    using assms(5) unfolding tenantMutationTargetVisible_def
    by (auto split: if_splits option.splits sum.splits)
  have t: "mu_type m \<in> set tenant_lookup_types"
  proof (rule ccontr)
    assume "mu_type m \<notin> set tenant_lookup_types"
    moreover have "mu_type m \<noteq> TypeTenant" using assms(4) unfolding globalTenantEntity_def by blast
    ultimately have "e = invariant_error ''tenant entity lookup missing''"
      using e(1) unfolding requireTenantEntityIDs_def by (simp only: if_False list.simps sum.inject)
    with e(2) show False by simp
  qed
  let ?c = "ent_count fault ctx d \<lparr>qr_type = mu_type m, qr_where = [IDIn [i]]\<rparr>"
  have "\<not> errors_Is f ErrPreconditionFailed" if "?c = Inl f" for f
    using that assms(2,3) filterTenantQuery_scoped [OF assms(2), of "\<lparr>qr_type = mu_type m, qr_where = [IDIn [i]]\<rparr>"]
      lookup_types_scoped(1) [OF t]
    by (auto simp: ent_count_def ent_all_def driver_faults_def split: option.splits)
  with e t obtain n where n: "?c = Inr n" "n \<noteq> 1"
    unfolding requireTenantEntityIDs_def by (fastforce split: sum.splits if_splits)
  have "\<not> mutation_hits (scoped_mutation identity m) x" if x: "x \<in> set (db_rows d)" for x
  proof
    assume h: "mutation_hits (scoped_mutation identity m) x"
    then have hx: "er_type x = mu_type m" "er_id x = i" "er_tenant x = id_ID identity"
      using op i scoped_mutation_hits [OF h] by (auto simp: mutation_hits_def)
    let ?P = "\<lambda>r. er_type r = mu_type m \<and> er_id r \<in> set [i] \<and> er_tenant r = id_ID identity"
    have "filter ?P (db_rows d) = filter (\<lambda>r. er_key r = er_key x) (db_rows d)"
      using key_unique [OF assms(1) _ x] hx by (intro filter_cong) (auto simp: er_key_def)
    also have "\<dots> = [x]" using assms(1) x by (intro filter_unique_key) (simp_all add: db_keys_ok_def)
    finally show False using ent_count_tenant [OF assms(2) t n(1)] n(2) by simp
  qed
  with op i show ?thesis by auto
qed

lemma hook_step:
  assumes "isolated_db d" "mutator_contract next_mutator" "driver_faults fault"
    and "tenantMutationHook fault next_mutator ctx m d = (d', r)"
  shows "isolated_db d' \<and> (\<forall>b. \<not> bound_to ctx b \<longrightarrow> tenant_rows b d' = tenant_rows b d)"
proof -
  have keys: "db_keys_ok d" using assms(1) by (simp add: isolated_db_def)
  have outcome: "d'' = d \<or> mutation_outcome m'' d d''" if "next_mutator ctx m'' d = (d'', r'')" for m'' d'' r''
    using assms(2) keys that unfolding mutator_contract_def by (fastforce split: sum.splits)
  show ?thesis
  proof (cases "globalTenantEntity (mu_type m)")
    case True
    with assms(4) have "next_mutator ctx m d = (d', r)" by (simp add: tenantMutationHook_def)
    from outcome [OF this] global_mutation [OF assms(1) True] assms(1) show ?thesis by auto
  next
    case False
    show ?thesis
    proof (cases "d' = d")
      case changed: False
      obtain identity where id: "tenancy_Require ctx = Inr identity"
        using assms(4) False changed by (auto simp: tenantMutationHook_def split: sum.splits)
      let ?m = "scoped_mutation identity m"
      have tn: "mu_tenant m \<in> {None, Some (id_ID identity)}"
        using assms(4) False changed id by (auto simp: tenantMutationHook_def split: if_splits)
      obtain visible where vis: "tenantMutationTargetVisible fault ctx d ?m identity = Inr visible"
        and rel: "visible \<Longrightarrow> validateTenantRelations fault ctx d ?m identity = Inr ()"
        and nx: "next_mutator ctx ?m d = (d', r)"
        using assms(4) False changed id
        by (auto simp: tenantMutationHook_def Let_def scoped_mutation_def [symmetric] split: if_splits sum.splits)
      from outcome [OF nx] changed have out: "mutation_outcome ?m d d'" by simp
      have visible
      proof (rule ccontr)
        assume "\<not> visible"
        with invisible_target [OF keys id assms(3) False] vis out show False
          by (auto simp: mutation_outcome_def)
      qed
      from validated_relations [OF keys id rel [OF this]]
      have c: "confined_mutation (id_ID identity) ?m d" by (intro scoped_mutation_confined [OF tn] ballI)
      from confined_isolated [OF assms(1) c out] confined_rows [OF assms(1) c out] id show ?thesis
        by (auto simp: bound_to_def)
    qed (use assms(1) in simp)
  qed
qed

section \<open>Runs\<close>

type_synonym tenant_operation = "query_fault \<times> tenant_context \<times> ent_mutation"

fun tenant_run :: "'v mutator \<Rightarrow> tenant_operation list \<Rightarrow> ent_db \<Rightarrow> ent_db" where
  "tenant_run next_mutator [] d = d"
| "tenant_run next_mutator ((fault, ctx, m) # ops) d =
     tenant_run next_mutator ops (fst (tenantMutationHook fault next_mutator ctx m d))"

lemma tenant_run_isolated:
  assumes "isolated_db d" "mutator_contract next_mutator"
    and "\<forall>(fault, ctx, m) \<in> set ops. driver_faults fault \<and> \<not> bound_to ctx b"
  shows "isolated_db (tenant_run next_mutator ops d) \<and> tenant_rows b (tenant_run next_mutator ops d) = tenant_rows b d"
  using assms
proof (induction next_mutator ops d rule: tenant_run.induct)
  case (2 next_mutator fault ctx m ops d)
  let ?h = "tenantMutationHook fault next_mutator ctx m d"
  from 2(4) have f: "driver_faults fault" "\<not> bound_to ctx b" by auto
  from hook_step [OF 2(2,3) f(1), of ctx m "fst ?h" "snd ?h"] f(2)
  have "isolated_db (fst ?h)" "tenant_rows b (fst ?h) = tenant_rows b d" by simp_all
  with 2 show ?case by simp
qed simp

text \<open>The rows a query of a tenant answers.\<close>

lemma ent_all_tenant:
  assumes "tenancy_Require ctx = Inr identity" "qr_type q \<in> set tenant_query_types" "fault (qr_type q) = None"
  shows "\<exists>rows. ent_all fault ctx d q = Inr rows \<and>
    set rows = {r \<in> tenant_rows (id_ID identity) d. er_type r = qr_type q \<and> list_all (\<lambda>p. p r) (qr_where q)}"
  using filterTenantQuery_scoped [OF assms(1,2)] assms(3) query_types_scoped [OF assms(2)]
  by (auto simp: ent_all_def query_rows_def tenant_rows_def TenantIDEQ_def)

end
