(* ===== verification/Tenant_Tables.thy ===== *)
theory Tenant_Tables
  imports Tenant_Isolation
begin

text \<open>
  A mutator on plain tables that keeps \<open>mutator_contract\<close>: it inserts the row with the next ID of its
  table, rewrites the columns and join rows of the selected rows, or removes them.
\<close>

definition added_links :: "ent_mutation \<Rightarrow> (string \<times> int) list" where
  "added_links m =
     filter (\<lambda>(e, i). i \<noteq> 0)
       (concat (map (\<lambda>e. map (\<lambda>v. (e, relation_id v)) (AddedIDs m e)) (map fst (mu_added m))))"

definition removed_links :: "ent_mutation \<Rightarrow> (string \<times> int) list" where
  "removed_links m =
     concat (map (\<lambda>e. map (\<lambda>v. (e, relation_id v)) (RemovedIDs m e)) (map fst (mu_removed m)))"

text \<open>The source of a retrieval chunk is immutable.\<close>

definition mutable_fields :: "ent_mutation \<Rightarrow> (string \<times> ent_value) list" where
  "mutable_fields m =
     (if mu_type m = TypeRetrievalChunk then
        filter (\<lambda>(f, v). f \<noteq> ''source_kind'' \<and> f \<noteq> ''source_id'') (mu_fields m)
      else mu_fields m)"

definition rewritten_row :: "ent_mutation \<Rightarrow> entity_row \<Rightarrow> entity_row" where
  "rewritten_row m x =
     x\<lparr>er_tenant := (case mu_tenant m of None \<Rightarrow> er_tenant x | Some t \<Rightarrow> t),
       er_fields := mutable_fields m @ er_fields x,
       er_links := added_links m @ filter (\<lambda>l. l \<notin> set (removed_links m)) (er_links x)\<rparr>"

definition created_row :: "ent_mutation \<Rightarrow> int \<Rightarrow> entity_row" where
  "created_row m i =
     \<lparr>er_type = mu_type m, er_id = i, er_tenant = (case mu_tenant m of None \<Rightarrow> 0 | Some t \<Rightarrow> t),
      er_fields = mu_fields m, er_links = added_links m\<rparr>"

definition table_mutator :: "int mutator" where
  "table_mutator ctx m d =
     (let n = length (filter (mutation_hits m) (db_rows d)) in
      if mu_op m = OpCreate then
        (let i = db_next d (mu_type m) in
         if i \<le> 0 then (d, Inl (GoErr ''sequence is not initialised'' []))
         else (\<lparr>db_rows = db_rows d @ [created_row m i], db_next = (db_next d)(mu_type m := i + 1)\<rparr>, Inr i))
      else if mu_op m \<in> {OpUpdateOne, OpDeleteOne} \<and> n = 0 then (d, Inl ent_not_found)
      else if mu_op m \<in> {OpUpdate, OpUpdateOne} then
        (d\<lparr>db_rows := map (\<lambda>x. if mutation_hits m x then rewritten_row m x else x) (db_rows d)\<rparr>, Inr (int n))
      else (d\<lparr>db_rows := filter (\<lambda>x. \<not> mutation_hits m x) (db_rows d)\<rparr>, Inr (int n)))"

lemma added_links_edges:
  "(e, i) \<in> set (added_links m) \<Longrightarrow> map_of tenantReferenceEdges (mu_type m, e) = Some t \<Longrightarrow> (t, i) \<in> edge_targets m"
  by (auto simp: added_links_def edge_targets_def)

lemma created_targets: "row_targets (created_row m i) \<subseteq> mutation_targets m"
  using added_links_edges [of _ _ m] by (auto simp: row_targets_def mutation_targets_def created_row_def)

lemma rewritten_fields:
  "field_targets (mu_type m) (mutable_fields m @ fs) \<subseteq> field_targets (mu_type m) fs \<union> field_targets (mu_type m) (mu_fields m)"
  using reference_fields_scoped(3)
  by (fastforce simp: field_targets_def mutable_fields_def map_add_Some_iff split: if_splits)

lemma map_of_mutable:
  "mu_type m = TypeRetrievalChunk \<Longrightarrow> f = ''source_kind'' \<or> f = ''source_id'' \<Longrightarrow>
   map_of (mutable_fields m @ fs) f = map_of fs f"
  by (auto simp: mutable_fields_def map_add_def map_of_eq_None_iff split: option.split dest!: map_of_SomeD)

lemma rewritten_source: "source_targets (mu_type m) (mutable_fields m @ fs) \<subseteq> source_targets (mu_type m) fs"
proof (cases "mu_type m = TypeRetrievalChunk")
  case True
  with map_of_mutable [of m "''source_kind''" fs] map_of_mutable [of m "''source_id''" fs] show ?thesis
    by (simp only: source_targets_def simp_thms order.refl)
qed (simp add: source_targets_def)

lemma rewritten_targets:
  assumes "er_type x = mu_type m"
  shows "row_targets (rewritten_row m x) \<subseteq> row_targets x \<union> mutation_targets m"
  using rewritten_fields [of m "er_fields x"] rewritten_source [of m "er_fields x"] added_links_edges [of _ _ m] assms
  by (auto simp: row_targets_def mutation_targets_def rewritten_row_def)

lemma rewritten_key [simp]: "er_key (rewritten_row m x) = er_key x" "er_id (rewritten_row m x) = er_id x"
  "er_type (rewritten_row m x) = er_type x"
  by (simp_all add: rewritten_row_def er_key_def)

lemma created_outcome:
  assumes "db_keys_ok d" "mu_op m = OpCreate" "0 < db_next d (mu_type m)"
  shows "mutation_outcome m d \<lparr>db_rows = db_rows d @ [created_row m (db_next d (mu_type m))],
    db_next = (db_next d)(mu_type m := db_next d (mu_type m) + 1)\<rparr>"
proof -
  let ?y = "created_row m (db_next d (mu_type m))"
  have k: "er_key ?y = (mu_type m, db_next d (mu_type m))" by (simp add: created_row_def er_key_def)
  have "row_after m d ?y"
    by (rule row_after.created [OF assms(2) k _ created_targets]) (simp add: created_row_def)
  moreover have "er_key ?y \<notin> er_key ` set (db_rows d)"
    using assms(1) by (auto simp: db_keys_ok_def er_key_def created_row_def)
  ultimately show ?thesis
    using assms by (fastforce simp: mutation_outcome_def db_keys_ok_def k created_row_def intro: row_after.kept)
qed

lemma updated_outcome:
  assumes "db_keys_ok d" "mu_op m \<in> {OpUpdate, OpUpdateOne}"
    and "mu_op m = OpUpdateOne \<Longrightarrow> \<exists>x \<in> set (db_rows d). mutation_hits m x"
  shows "mutation_outcome m d
    (d\<lparr>db_rows := map (\<lambda>x. if mutation_hits m x then rewritten_row m x else x) (db_rows d)\<rparr>)"
proof -
  let ?f = "\<lambda>x. if mutation_hits m x then rewritten_row m x else x"
  have "map er_key (map ?f (db_rows d)) = map er_key (db_rows d)" by simp
  then have "distinct (map er_key (map ?f (db_rows d)))" using assms(1) by (simp only: db_keys_ok_def)
  then have keys: "db_keys_ok (d\<lparr>db_rows := map ?f (db_rows d)\<rparr>)"
    using assms(1) by (auto simp: db_keys_ok_def)
  have "row_after m d (?f x)" if "x \<in> set (db_rows d)" for x
  proof (cases "mutation_hits m x")
    case True
    then have "er_type x = mu_type m" by (simp add: mutation_hits_def)
    from row_after.selected [OF that True _ _ rewritten_targets [OF this]] True show ?thesis
      by (simp add: rewritten_row_def er_key_def)
  qed (use that row_after.kept in simp)
  then have after: "\<forall>y \<in> ?f ` set (db_rows d). row_after m d y" by blast
  have "x \<in> ?f ` set (db_rows d)" if "x \<in> set (db_rows d)" "\<not> mutation_touches m d x" for x
    using that by (intro image_eqI [of _ _ x]) (simp_all add: mutation_touches_def)
  with keys after assms(2,3) show ?thesis by (simp add: mutation_outcome_def) auto
qed

lemma deleted_outcome:
  assumes "db_keys_ok d" "mu_op m \<in> {OpDelete, OpDeleteOne}"
    and "mu_op m = OpDeleteOne \<Longrightarrow> \<exists>x \<in> set (db_rows d). mutation_hits m x"
  shows "mutation_outcome m d (d\<lparr>db_rows := filter (\<lambda>x. \<not> mutation_hits m x) (db_rows d)\<rparr>)"
  using assms by (auto simp: mutation_outcome_def mutation_touches_def db_keys_ok_def distinct_map_filter
      intro: row_after.kept)

lemma table_mutator_contract: "mutator_contract table_mutator"
proof (unfold mutator_contract_def, intro allI impI)
  fix ctx m d d' r
  assume d: "db_keys_ok d" and t: "table_mutator ctx m d = (d', r)"
  have hits: "\<exists>x \<in> set (db_rows d). mutation_hits m x" if "length (filter (mutation_hits m) (db_rows d)) \<noteq> 0"
    using that by (auto simp: filter_empty_conv)
  show "case r of Inl e \<Rightarrow> d' = d | Inr v \<Rightarrow> mutation_outcome m d d'"
    using t hits created_outcome [OF d, of m] updated_outcome [OF d, of m] deleted_outcome [OF d, of m]
    by (cases "mu_op m") (auto simp: table_mutator_def Let_def split: if_splits)
qed

end
