(* ===== verification/Tenant_Registry.thy ===== *)
theory Tenant_Registry
  imports Tenant_Identity Repo_Rows
begin

text \<open>
  The tenant registry: \<open>internal/persistence/repository/tenant_registry.go\<close> over the tables of
  \<open>ent/schema/tenant.go\<close> and \<open>tenantmembership.go\<close>, and \<open>EnsureDefaultTenant\<close> of
  \<open>tenant_bootstrap.go\<close>. The rows are the values of \<open>internal/domain/tenant.go\<close>. A fault is the
  driver's answer to a statement; that of a commit, and of a write that commits by itself, says
  whether it was applied all the same. The writes of a membership run in a transaction of several statements, given one by one
  so that the theory of the races can interleave them. Rows are ordered by byte strings where
  PostgreSQL uses the collation of the database; no result here depends on it.
\<close>

section \<open>Rows\<close>

record Tenant =
  tn_ID :: int
  tn_Key :: string
  tn_Name :: string
  tn_Status :: string
  tn_CreatedAt :: go_time
  tn_UpdatedAt :: go_time

record TenantMembership =
  tm_ID :: int
  tm_TenantID :: int
  tm_Subject :: string
  tm_Role :: string
  tm_Enabled :: bool
  tm_CreatedBy :: string
  tm_CreatedAt :: go_time
  tm_UpdatedAt :: go_time

record registry_db =
  rg_tenants :: "Tenant rows"
  rg_members :: "TenantMembership rows"

abbreviation TenantStatusActive :: string where "TenantStatusActive \<equiv> ''active''"
abbreviation TenantStatusDisabled :: string where "TenantStatusDisabled \<equiv> ''disabled''"
abbreviation RoleOwner :: string where "RoleOwner \<equiv> ''owner''"
abbreviation RoleMember :: string where "RoleMember \<equiv> ''member''"
abbreviation DefaultTenantName :: string where "DefaultTenantName \<equiv> ''Default''"

definition domain_not_found :: go_error where
  "domain_not_found = GoErr ''domain: entity not found'' [ErrNotFound]"

definition validateTenantSubject :: "string \<Rightarrow> unit result" where
  "validateTenantSubject subject =
     (if TrimSpace subject = [] \<or> subject \<noteq> TrimSpace subject \<or> length subject > 256
         \<or> list_ex (\<lambda>c. c \<in> {CHR 0x00, CHR 0x0D, CHR 0x0A}) subject then
        Inl (invariant_error ''tenant registry: subject is invalid'')
      else Inr ())"

text \<open>
  \<open>Only\<close> of a query, and its error: no row is \<open>ErrNotFound\<close> of the domain, which an error of the driver
  never is; more than one row is an error of Ent.
\<close>

definition not_singular :: go_error where
  "not_singular = GoErr ''ent: not singular'' []"

definition read_one :: "string \<Rightarrow> go_error option \<Rightarrow> 'a list \<Rightarrow> 'a result" where
  "read_one msg fault rows =
     (case fault of
        Some e \<Rightarrow> Inl (wrap_error msg e)
      | None \<Rightarrow>
          (case rows of
             [] \<Rightarrow> Inl domain_not_found
           | [r] \<Rightarrow> Inr r
           | _ \<Rightarrow> Inl (wrap_error msg not_singular)))"

section \<open>Reads\<close>

definition FindTenantByID :: "go_error option \<Rightarrow> int \<Rightarrow> registry_db \<Rightarrow> Tenant result" where
  "FindTenantByID fault i d =
     (if i \<le> 0 then Inl (invariant_error ''tenant registry: tenant id must be positive'')
      else read_one ''tenant registry: find tenant by id'' fault
        (filter (\<lambda>r. tn_ID r = i) (tb_rows (rg_tenants d))))"

definition FindTenantByKey :: "go_error option \<Rightarrow> string \<Rightarrow> registry_db \<Rightarrow> Tenant result" where
  "FindTenantByKey fault key d =
     (if NormalizeTenantKey key \<noteq> Inr key then Inl (invariant_error ''tenant registry: invalid tenant key'')
      else read_one ''tenant registry: find tenant'' fault
        (filter (\<lambda>r. tn_Key r = key) (tb_rows (rg_tenants d))))"

definition ListTenants :: "go_error option \<Rightarrow> int \<Rightarrow> registry_db \<Rightarrow> Tenant list result" where
  "ListTenants fault lim d =
     (if lim \<le> 0 then Inl (invariant_error ''tenant registry: limit must be positive'')
      else case fault of
        Some e \<Rightarrow> Inl (wrap_error ''tenant registry: list tenants'' e)
      | None \<Rightarrow> Inr (take (nat lim) (sort_key (\<lambda>r. (tn_Name r, tn_ID r)) (tb_rows (rg_tenants d)))))"

definition ListTenantsForSubject :: "go_error option \<Rightarrow> string \<Rightarrow> int \<Rightarrow> registry_db \<Rightarrow> Tenant list result" where
  "ListTenantsForSubject fault subject lim d =
     bindE (validateTenantSubject subject) (\<lambda>_.
     if lim \<le> 0 then Inl (invariant_error ''tenant registry: limit must be positive'')
     else case fault of
       Some e \<Rightarrow> Inl (wrap_error ''tenant registry: list tenants for subject'' e)
     | None \<Rightarrow> Inr (take (nat lim) (sort_key (\<lambda>r. (tn_Name r, tn_ID r))
         (filter (\<lambda>r. list_ex (\<lambda>m. tm_TenantID m = tn_ID r \<and> tm_Subject m = subject \<and> tm_Enabled m)
            (tb_rows (rg_members d))) (tb_rows (rg_tenants d))))))"

definition FindTenantMembership ::
  "go_error option \<Rightarrow> int \<Rightarrow> string \<Rightarrow> registry_db \<Rightarrow> TenantMembership result" where
  "FindTenantMembership fault tenantID subject d =
     (if tenantID \<le> 0 then Inl (invariant_error ''tenant registry: tenant id must be positive'')
      else bindE (validateTenantSubject subject) (\<lambda>_.
        read_one ''tenant registry: find membership'' fault
          (filter (\<lambda>m. tm_TenantID m = tenantID \<and> tm_Subject m = subject) (tb_rows (rg_members d)))))"

definition ListTenantMemberships ::
  "go_error option \<Rightarrow> go_error option \<Rightarrow> int \<Rightarrow> int \<Rightarrow> registry_db \<Rightarrow> TenantMembership list result" where
  "ListTenantMemberships fault1 fault2 tenantID lim d =
     (if tenantID \<le> 0 \<or> lim \<le> 0 then
        Inl (invariant_error ''tenant registry: tenant id and limit must be positive'')
      else case fault1 of
        Some e \<Rightarrow> Inl (wrap_error ''tenant registry: verify tenant before listing memberships'' e)
      | None \<Rightarrow>
          if \<not> list_ex (\<lambda>r. tn_ID r = tenantID) (tb_rows (rg_tenants d)) then Inl domain_not_found
          else (case fault2 of
            Some e \<Rightarrow> Inl (wrap_error ''tenant registry: list memberships'' e)
          | None \<Rightarrow> Inr (take (nat lim) (sort_key (\<lambda>m. (tm_Subject m, tm_ID m))
              (filter (\<lambda>m. tm_TenantID m = tenantID) (tb_rows (rg_members d)))))))"

section \<open>Tenants\<close>

definition join_rollback :: "go_error option \<Rightarrow> go_error \<Rightarrow> go_error" where
  "join_rollback fault cause =
     (case fault of None \<Rightarrow> cause | Some re \<Rightarrow> GoErr (err_text cause) (err_chain cause @ err_chain re))"

record registry_env =
  ge_now :: go_time
  ge_begin :: "go_error option"
  ge_first :: "go_error option"
  ge_second :: "go_error option"
  ge_count :: "go_error option"
  ge_write :: "go_error option"
  ge_load :: "go_error option"
  ge_commit :: commit_fault
  ge_rollback :: "go_error option"

definition tenant_validators :: "Tenant \<Rightarrow> bool" where
  "tenant_validators r \<longleftrightarrow> length (tn_Key r) \<le> MaxTenantKeyLength \<and> NormalizeTenantKey (tn_Key r) = Inr (tn_Key r) \<and>
     NormalizeTenantName (tn_Name r) = Inr (tn_Name r) \<and>
     length (tn_Status r) \<le> 16 \<and> ValidateTenantStatus (tn_Status r) = Inr ()"

definition schema_subject_ok :: "string \<Rightarrow> bool" where
  "schema_subject_ok s \<longleftrightarrow> length s \<le> 256 \<and> s \<noteq> [] \<and> s = TrimSpace s \<and>
     \<not> list_ex (\<lambda>c. c \<in> {CHR 0x00, CHR 0x0D, CHR 0x0A}) s"

definition membership_validators :: "TenantMembership \<Rightarrow> bool" where
  "membership_validators m \<longleftrightarrow> 0 < tm_TenantID m \<and> schema_subject_ok (tm_Subject m) \<and>
     length (tm_Role m) \<le> 16 \<and> ValidateTenantMembershipRole (tm_Role m) = Inr () \<and>
     schema_subject_ok (tm_CreatedBy m)"

definition new_tenant :: "go_time \<Rightarrow> string \<Rightarrow> string \<Rightarrow> string \<Rightarrow> int \<Rightarrow> Tenant" where
  "new_tenant now key name status i =
     \<lparr>tn_ID = i, tn_Key = key, tn_Name = name, tn_Status = status, tn_CreatedAt = now, tn_UpdatedAt = now\<rparr>"

definition insert_tenant ::
  "go_error option \<Rightarrow> go_time \<Rightarrow> string \<Rightarrow> string \<Rightarrow> string \<Rightarrow> registry_db \<Rightarrow> (registry_db \<times> Tenant) result" where
  "insert_tenant fault now key name status d =
     (if \<not> tenant_validators (new_tenant now key name status 0) then Inl ent_validator_failed
      else case fault of
        Some e \<Rightarrow> Inl e
      | None \<Rightarrow>
          bindE (insert_row (list_ex (\<lambda>r. tn_Key r = key) (tb_rows (rg_tenants d))) True
                   (new_tenant now key name status) (rg_tenants d))
            (\<lambda>(t, r). Inr (d\<lparr>rg_tenants := t\<rparr>, r)))"

text \<open>The row of a membership that is written for the first time.\<close>

definition new_membership :: "go_time \<Rightarrow> TenantMembership \<Rightarrow> int \<Rightarrow> TenantMembership" where
  "new_membership now m i = m\<lparr>tm_ID := i, tm_CreatedAt := now, tm_UpdatedAt := now\<rparr>"

definition insert_membership ::
  "go_error option \<Rightarrow> go_time \<Rightarrow> TenantMembership \<Rightarrow> registry_db \<Rightarrow> (registry_db \<times> TenantMembership) result" where
  "insert_membership fault now m d =
     (if \<not> membership_validators m then Inl ent_validator_failed
      else case fault of
        Some e \<Rightarrow> Inl e
      | None \<Rightarrow>
          bindE (insert_row
                   (list_ex (\<lambda>r. tm_TenantID r = tm_TenantID m \<and> tm_Subject r = tm_Subject m) (tb_rows (rg_members d)))
                   (list_ex (\<lambda>r. tn_ID r = tm_TenantID m) (tb_rows (rg_tenants d)))
                   (new_membership now m) (rg_members d))
            (\<lambda>(t, r). Inr (d\<lparr>rg_members := t\<rparr>, r)))"

definition CreateTenantWithOwner ::
  "registry_env \<Rightarrow> Tenant \<Rightarrow> string \<Rightarrow> registry_db \<Rightarrow> registry_db \<times> (Tenant \<times> TenantMembership) result" where
  "CreateTenantWithOwner env input ownerSubject d =
     (if NormalizeTenantKey (tn_Key input) \<noteq> Inr (tn_Key input) then
        (d, Inl (invariant_error ''tenant registry: tenant key must be normalized''))
      else if NormalizeTenantName (tn_Name input) \<noteq> Inr (tn_Name input) then
        (d, Inl (invariant_error ''tenant registry: tenant name must be normalized''))
      else if tn_Status input \<noteq> TenantStatusActive then
        (d, Inl (invariant_error ''tenant registry: new tenant must be active''))
      else case validateTenantSubject ownerSubject of
        Inl e \<Rightarrow> (d, Inl e)
      | Inr _ \<Rightarrow>
     (case ge_begin env of
        Some e \<Rightarrow> (d, Inl (wrap_error ''tenant registry: begin create transaction'' e))
      | None \<Rightarrow>
     (case insert_tenant (ge_first env) (ge_now env) (tn_Key input) (tn_Name input) (tn_Status input) d of
        Inl e \<Rightarrow> (d, Inl (join_rollback (ge_rollback env)
                   (wrap_error ''tenant registry: create tenant'' (asAlreadyExists e))))
      | Inr (d1, tenantRow) \<Rightarrow>
     (case insert_membership (ge_second env) (ge_now env)
             \<lparr>tm_ID = 0, tm_TenantID = tn_ID tenantRow, tm_Subject = ownerSubject, tm_Role = RoleOwner,
              tm_Enabled = True, tm_CreatedBy = ownerSubject, tm_CreatedAt = 0, tm_UpdatedAt = 0\<rparr> d1 of
        Inl e \<Rightarrow> (d, Inl (join_rollback (ge_rollback env)
                   (wrap_error ''tenant registry: create owner membership'' (asAlreadyExists e))))
      | Inr (d2, membershipRow) \<Rightarrow>
     (case ge_commit env of
        Some (applied, e) \<Rightarrow> (if applied then d2 else d, Inl (wrap_error ''tenant registry: commit create transaction'' e))
      | None \<Rightarrow> (d2, Inr (tenantRow, membershipRow)))))))"

definition UpdateTenantStatus ::
  "commit_fault \<Rightarrow> go_time \<Rightarrow> int \<Rightarrow> string \<Rightarrow> registry_db \<Rightarrow> registry_db \<times> Tenant result" where
  "UpdateTenantStatus fault now i status d =
     (if i \<le> 0 then (d, Inl (invariant_error ''tenant registry: tenant id must be positive''))
      else case ValidateTenantStatus status of
        Inl e \<Rightarrow> (d, Inl e)
      | Inr _ \<Rightarrow>
          if i = DefaultTenantID \<and> status \<noteq> TenantStatusActive then
            (d, Inl (GoErr ''tenant registry: default tenant cannot be disabled'' [ErrPreconditionFailed]))
          else map_prod id (map_sum
                 (\<lambda>e. if e = ent_not_found then domain_not_found
                      else wrap_error ''tenant registry: update status'' e) id)
               (autocommit fault d
                 (case update_row tn_ID i (\<lambda>r. r\<lparr>tn_Status := status, tn_UpdatedAt := now\<rparr>) (rg_tenants d) of
                    (t, None) \<Rightarrow> Inl ent_not_found
                  | (t, Some r) \<Rightarrow> Inr (d\<lparr>rg_tenants := t\<rparr>, r))))"

text \<open>\<open>EnsureDefaultTenant\<close>: a constraint violation of the insert is ignored.\<close>

definition EnsureDefaultTenant ::
  "commit_fault \<Rightarrow> go_error option \<Rightarrow> go_time \<Rightarrow> registry_db \<Rightarrow> registry_db \<times> unit result" where
  "EnsureDefaultTenant fault1 fault2 now d =
     (let verify = (\<lambda>d. case read_one ''ensure default tenant: verify'' fault2
             (filter (\<lambda>r. tn_Key r = DefaultTenantKey) (tb_rows (rg_tenants d))) of
           Inl e \<Rightarrow> (d, Inl (GoErr ''ensure default tenant: verify'' []))
         | Inr row \<Rightarrow>
             if tn_ID row \<noteq> DefaultTenantID \<or> tn_Name row \<noteq> DefaultTenantName \<or> tn_Status row \<noteq> TenantStatusActive then
               (d, Inl (invariant_error
                  ''ensure default tenant: key is bound to incompatible registry data''))
             else (d, Inr ())) in
      case autocommit fault1 d
             (insert_tenant None now DefaultTenantKey DefaultTenantName TenantStatusActive d) of
        (d, Inl e) \<Rightarrow> if err_text e = err_text pg_unique_violation then verify d
                 else (d, Inl (wrap_error ''ensure default tenant: create'' e))
      | (d, Inr _) \<Rightarrow> verify d)"

section \<open>Memberships\<close>

definition owner_row :: "int \<Rightarrow> TenantMembership \<Rightarrow> bool" where
  "owner_row t m \<longleftrightarrow> tm_TenantID m = t \<and> tm_Role m = RoleOwner \<and> tm_Enabled m"

definition same_member :: "TenantMembership \<Rightarrow> TenantMembership \<Rightarrow> bool" where
  "same_member m r \<longleftrightarrow> tm_TenantID r = tm_TenantID m \<and> tm_Subject r = tm_Subject m"

definition member_guards :: "TenantMembership \<Rightarrow> unit result" where
  "member_guards input =
     (if tm_TenantID input \<le> 0 then Inl (invariant_error ''tenant registry: tenant id must be positive'')
      else bindE (validateTenantSubject (tm_Subject input)) (\<lambda>_.
        (case validateTenantSubject (tm_CreatedBy input) of
           Inl e \<Rightarrow> Inl (wrap_error ''tenant registry: created_by'' e)
         | Inr _ \<Rightarrow> ValidateTenantMembershipRole (tm_Role input))))"

text \<open>The statements: the row lock of the tenant, the present membership, the count of the owners.\<close>

definition lock_tenant :: "go_error option \<Rightarrow> TenantMembership \<Rightarrow> registry_db \<Rightarrow> unit result" where
  "lock_tenant fault input d =
     map_sum id (\<lambda>_. ()) (read_one ''tenant registry: lock tenant'' fault
       (filter (\<lambda>r. tn_ID r = tm_TenantID input) (tb_rows (rg_tenants d))))"

definition find_member :: "go_error option \<Rightarrow> TenantMembership \<Rightarrow> registry_db \<Rightarrow> TenantMembership option result" where
  "find_member fault input d =
     (case fault of
        Some e \<Rightarrow> Inl (wrap_error ''tenant registry: find membership for update'' e)
      | None \<Rightarrow>
          (case filter (same_member input) (tb_rows (rg_members d)) of
             [] \<Rightarrow> Inr None
           | [m] \<Rightarrow> Inr (Some m)
           | _ \<Rightarrow> Inl (wrap_error ''tenant registry: find membership for update'' not_singular)))"

text \<open>Whether the write takes the ownership of an enabled owner away.\<close>

definition drops_owner :: "TenantMembership option \<Rightarrow> TenantMembership \<Rightarrow> bool" where
  "drops_owner existing input \<longleftrightarrow>
     (case existing of
        None \<Rightarrow> False
      | Some m \<Rightarrow> tm_Enabled m \<and> tm_Role m = RoleOwner \<and> (\<not> tm_Enabled input \<or> tm_Role input \<noteq> RoleOwner))"

definition count_owners :: "go_error option \<Rightarrow> TenantMembership \<Rightarrow> registry_db \<Rightarrow> unit result" where
  "count_owners fault input d =
     (case fault of
        Some e \<Rightarrow> Inl (wrap_error ''tenant registry: count enabled owners'' e)
      | None \<Rightarrow>
          if length (filter (owner_row (tm_TenantID input)) (tb_rows (rg_members d))) \<le> 1 then
            Inl (GoErr ''tenant registry: cannot remove the last enabled owner'' [ErrPreconditionFailed])
          else Inr ())"

text \<open>
  The upsert: the value of the sequence is taken in either case, \<open>UpdateNewValues\<close> keeps the
  immutable columns. The row is visible to others when the transaction commits.
\<close>

definition upserted :: "go_time \<Rightarrow> TenantMembership \<Rightarrow> registry_db \<Rightarrow> TenantMembership" where
  "upserted now input d =
     (case find (same_member input) (tb_rows (rg_members d)) of
        Some m \<Rightarrow> m\<lparr>tm_Role := tm_Role input, tm_Enabled := tm_Enabled input, tm_UpdatedAt := now\<rparr>
      | None \<Rightarrow> new_membership now input (tb_next (rg_members d)))"

definition take_member_id :: "registry_db \<Rightarrow> registry_db" where
  "take_member_id d = d\<lparr>rg_members := (rg_members d)\<lparr>tb_next := tb_next (rg_members d) + 1\<rparr>\<rparr>"

definition upsert_member ::
  "go_error option \<Rightarrow> go_time \<Rightarrow> TenantMembership \<Rightarrow> registry_db \<Rightarrow> registry_db \<times> TenantMembership result" where
  "upsert_member fault now input d =
     (if \<not> membership_validators input then
        (d, Inl (wrap_error ''tenant registry: set membership'' (asAlreadyExists ent_validator_failed)))
      else case fault of
        Some e \<Rightarrow> (d, Inl (wrap_error ''tenant registry: set membership'' (asAlreadyExists e)))
      | None \<Rightarrow> (take_member_id d, Inr (upserted now input d)))"

definition store_member :: "TenantMembership \<Rightarrow> registry_db \<Rightarrow> registry_db" where
  "store_member row d =
     d\<lparr>rg_members := (rg_members d)\<lparr>tb_rows :=
        (if list_ex (\<lambda>r. tm_ID r = tm_ID row) (tb_rows (rg_members d)) then
           map (\<lambda>r. if tm_ID r = tm_ID row then row else r) (tb_rows (rg_members d))
         else tb_rows (rg_members d) @ [row])\<rparr>\<rparr>"

definition commit_member :: "commit_fault \<Rightarrow> TenantMembership \<Rightarrow> registry_db \<Rightarrow> registry_db \<times> TenantMembership result" where
  "commit_member fault row d =
     (case fault of
        Some (applied, e) \<Rightarrow>
          (if applied then store_member row d else d, Inl (wrap_error ''tenant registry: commit membership transaction'' e))
      | None \<Rightarrow> (store_member row d, Inr row))"

definition SetTenantMembership ::
  "registry_env \<Rightarrow> TenantMembership \<Rightarrow> registry_db \<Rightarrow> registry_db \<times> TenantMembership result" where
  "SetTenantMembership env input d =
     (let rollback = (\<lambda>cause. Inl (join_rollback (ge_rollback env) cause)) in
      case member_guards input of
        Inl e \<Rightarrow> (d, Inl e)
      | Inr _ \<Rightarrow>
     (case ge_begin env of
        Some e \<Rightarrow> (d, Inl (wrap_error ''tenant registry: begin membership transaction'' e))
      | None \<Rightarrow>
     (case lock_tenant (ge_first env) input d of
        Inl e \<Rightarrow> (d, rollback e)
      | Inr _ \<Rightarrow>
     (case find_member (ge_second env) input d of
        Inl e \<Rightarrow> (d, rollback e)
      | Inr existing \<Rightarrow>
     (case (if drops_owner existing input then count_owners (ge_count env) input d else Inr ()) of
        Inl e \<Rightarrow> (d, rollback e)
      | Inr _ \<Rightarrow>
     (case upsert_member (ge_write env) (ge_now env) input d of
        (d, Inl e) \<Rightarrow> (d, rollback e)
      | (d, Inr row) \<Rightarrow>
     (case ge_load env of
        Some e \<Rightarrow> (d, rollback (wrap_error ''tenant registry: load set membership'' e))
      | None \<Rightarrow> commit_member (ge_commit env) row d)))))))"

end
