(* ===== verification/Owner_Race.thy ===== *)
theory Owner_Race
  imports Tenant_Registry
begin

text \<open>
  Callers of \<open>SetTenantMembership\<close> that race, with tenants created and their status changed meanwhile.
  A caller is between two statements of its transaction; the row lock of the tenant is held from
  \<open>SELECT FOR UPDATE\<close> to the end of the transaction, a read sees what is committed, and the upserted
  row is pending until the commit. A caller that runs alone does what \<open>SetTenantMembership\<close> says;
  however the statements mix, a tenant that was given an owner keeps an enabled one.
\<close>

section \<open>Callers\<close>

datatype member_call =
    ToLock TenantMembership
  | ToFind TenantMembership
  | ToCount TenantMembership
  | ToUpsert TenantMembership
  | ToLoad TenantMembership
  | ToCommit TenantMembership
  | Ended "TenantMembership result"

text \<open>The tenant whose row a caller has locked.\<close>

fun locked_tenant :: "member_call \<Rightarrow> int option" where
  "locked_tenant (ToFind m) = Some (tm_TenantID m)"
| "locked_tenant (ToCount m) = Some (tm_TenantID m)"
| "locked_tenant (ToUpsert m) = Some (tm_TenantID m)"
| "locked_tenant (ToLoad row) = Some (tm_TenantID row)"
| "locked_tenant (ToCommit row) = Some (tm_TenantID row)"
| "locked_tenant c = None"

definition member_call_start :: "registry_env \<Rightarrow> TenantMembership \<Rightarrow> member_call" where
  "member_call_start env input =
     (case member_guards input of
        Inl e \<Rightarrow> Ended (Inl e)
      | Inr _ \<Rightarrow>
          (case ge_begin env of
             Some e \<Rightarrow> Ended (Inl (wrap_error ''tenant registry: begin membership transaction'' e))
           | None \<Rightarrow> ToLock input))"

definition failed_call :: "registry_env \<Rightarrow> go_error \<Rightarrow> member_call" where
  "failed_call env cause = Ended (Inl (join_rollback (ge_rollback env) cause))"

text \<open>The next statement of a caller.\<close>

fun member_stmt :: "registry_env \<Rightarrow> member_call \<Rightarrow> registry_db \<Rightarrow> registry_db \<times> member_call" where
  "member_stmt env (ToLock input) d =
     (d, case lock_tenant (ge_first env) input d of Inl e \<Rightarrow> failed_call env e | Inr _ \<Rightarrow> ToFind input)"
| "member_stmt env (ToFind input) d =
     (d, case find_member (ge_second env) input d of
           Inl e \<Rightarrow> failed_call env e
         | Inr existing \<Rightarrow> if drops_owner existing input then ToCount input else ToUpsert input)"
| "member_stmt env (ToCount input) d =
     (d, case count_owners (ge_count env) input d of Inl e \<Rightarrow> failed_call env e | Inr _ \<Rightarrow> ToUpsert input)"
| "member_stmt env (ToUpsert input) d =
     (case upsert_member (ge_write env) (ge_now env) input d of
        (d, Inl e) \<Rightarrow> (d, failed_call env e)
      | (d, Inr row) \<Rightarrow> (d, ToLoad row))"
| "member_stmt env (ToLoad row) d =
     (d, case ge_load env of
           Some e \<Rightarrow> failed_call env (wrap_error ''tenant registry: load set membership'' e)
         | None \<Rightarrow> ToCommit row)"
| "member_stmt env (ToCommit row) d = (case commit_member (ge_commit env) row d of (d, r) \<Rightarrow> (d, Ended r))"
| "member_stmt env (Ended r) d = (d, Ended r)"

record owner_race =
  or_db :: registry_db
  or_callers :: "member_call list"

text \<open>A lock that another caller holds is waited for.\<close>

definition lock_free :: "owner_race \<Rightarrow> nat \<Rightarrow> bool" where
  "lock_free s i \<longleftrightarrow> (case or_callers s ! i of
     ToLock input \<Rightarrow> list_all (\<lambda>c. locked_tenant c \<noteq> Some (tm_TenantID input)) (or_callers s)
   | _ \<Rightarrow> True)"

inductive owner_step :: "owner_race \<Rightarrow> owner_race \<Rightarrow> bool" where
  create: "CreateTenantWithOwner env input subject (or_db s) = (d, r) \<Longrightarrow> owner_step s (s\<lparr>or_db := d\<rparr>)"
| status: "UpdateTenantStatus fault now i st (or_db s) = (d, r) \<Longrightarrow> owner_step s (s\<lparr>or_db := d\<rparr>)"
| call: "owner_step s (s\<lparr>or_callers := or_callers s @ [member_call_start env input]\<rparr>)"
| stmt: "i < length (or_callers s) \<Longrightarrow> lock_free s i \<Longrightarrow>
    member_stmt env (or_callers s ! i) (or_db s) = (d, c) \<Longrightarrow>
    owner_step s \<lparr>or_db = d, or_callers = (or_callers s)[i := c]\<rparr>"

inductive owner_reach :: "registry_db \<Rightarrow> owner_race \<Rightarrow> bool" for d where
  init: "owner_reach d \<lparr>or_db = d, or_callers = []\<rparr>"
| step: "owner_reach d s \<Longrightarrow> owner_step s s' \<Longrightarrow> owner_reach d s'"

section \<open>One caller alone\<close>

fun member_statements :: "nat \<Rightarrow> registry_env \<Rightarrow> member_call \<Rightarrow> registry_db \<Rightarrow> registry_db \<times> member_call" where
  "member_statements 0 env c d = (d, c)"
| "member_statements (Suc n) env c d = (case member_stmt env c d of (d, c) \<Rightarrow> member_statements n env c d)"

text \<open>Six statements are enough.\<close>

lemma member_ended [simp]: "member_statements n env (Ended r) d = (d, Ended r)"
  by (induction n) simp_all

lemma member_alone:
  "member_statements 6 env (member_call_start env input) d =
     (case SetTenantMembership env input d of (d', r) \<Rightarrow> (d', Ended r))"
  by (auto simp: SetTenantMembership_def member_call_start_def failed_call_def Let_def numeral_eq_Suc
      split: sum.splits option.splits prod.splits if_splits)

section \<open>The registry\<close>

definition has_owner :: "registry_db \<Rightarrow> int \<Rightarrow> bool" where
  "has_owner d t \<longleftrightarrow> (\<exists>m \<in> set (tb_rows (rg_members d)). owner_row t m)"

definition member_key :: "TenantMembership \<Rightarrow> int \<times> string" where
  "member_key m = (tm_TenantID m, tm_Subject m)"

definition registry_ok :: "registry_db \<Rightarrow> bool" where
  "registry_ok d \<longleftrightarrow> table_ok tn_ID (rg_tenants d) \<and> table_ok tm_ID (rg_members d) \<and>
     distinct (map member_key (tb_rows (rg_members d))) \<and>
     (\<forall>m \<in> set (tb_rows (rg_members d)). tm_TenantID m < tb_next (rg_tenants d)) \<and>
     (\<forall>r \<in> set (tb_rows (rg_tenants d)). tn_ID r \<noteq> DefaultTenantID \<longrightarrow> has_owner d (tn_ID r))"

definition tenant_at :: "registry_db \<Rightarrow> int \<Rightarrow> bool" where
  "tenant_at d t \<longleftrightarrow> t \<in> tn_ID ` set (tb_rows (rg_tenants d))"

lemma same_member_key: "same_member m r \<longleftrightarrow> member_key r = member_key m"
  by (auto simp: same_member_def member_key_def)

lemma member_unique:
  "registry_ok d \<Longrightarrow> x \<in> set (tb_rows (rg_members d)) \<Longrightarrow> y \<in> set (tb_rows (rg_members d)) \<Longrightarrow>
   member_key x = member_key y \<or> tm_ID x = tm_ID y \<Longrightarrow> x = y"
  by (auto simp: registry_ok_def table_ok_def distinct_map dest: inj_onD)

text \<open>The present membership of the input.\<close>

definition member_of :: "TenantMembership \<Rightarrow> registry_db \<Rightarrow> TenantMembership option" where
  "member_of input d = find (same_member input) (tb_rows (rg_members d))"

lemma same_member_eq: "same_member input = (\<lambda>r. member_key r = member_key input)"
  by (simp add: fun_eq_iff same_member_key)

lemma member_of_Some:
  assumes "registry_ok d"
  shows "member_of input d = Some m \<longleftrightarrow> m \<in> set (tb_rows (rg_members d)) \<and> member_key m = member_key input"
proof
  assume "member_of input d = Some m"
  then show "m \<in> set (tb_rows (rg_members d)) \<and> member_key m = member_key input"
    by (auto simp: member_of_def find_Some_iff same_member_eq)
next
  assume m: "m \<in> set (tb_rows (rg_members d)) \<and> member_key m = member_key input"
  then obtain x where x: "member_of input d = Some x"
    by (cases "member_of input d") (auto simp: member_of_def find_None_iff same_member_eq)
  then have "x \<in> set (tb_rows (rg_members d))" "member_key x = member_key input"
    by (auto simp: member_of_def find_Some_iff same_member_eq)
  with member_unique [OF assms, of x m] m x show "member_of input d = Some m" by simp
qed

lemma find_member_Inr:
  assumes "registry_ok d" "find_member fault input d = Inr existing"
  shows "existing = member_of input d"
proof (cases "member_of input d")
  case None
  then have "filter (same_member input) (tb_rows (rg_members d)) = []"
    by (auto simp: member_of_def find_None_iff filter_empty_conv)
  with assms(2) None show ?thesis
    by (auto simp: find_member_def split: option.splits if_splits)
next
  case (Some m)
  with assms(1) have m: "m \<in> set (tb_rows (rg_members d))" "member_key m = member_key input"
    by (simp_all add: member_of_Some)
  have "filter (\<lambda>r. member_key r = member_key input) (tb_rows (rg_members d)) = [m]"
    using assms(1) m by (intro filter_unique_key) (simp_all add: registry_ok_def)
  then have "filter (same_member input) (tb_rows (rg_members d)) = [m]" by (simp add: same_member_eq)
  with assms(2) Some show ?thesis
    by (auto simp: find_member_def split: option.splits if_splits)
qed

section \<open>What a caller knows\<close>

definition keeps_owner :: "registry_db \<Rightarrow> TenantMembership \<Rightarrow> bool" where
  "keeps_owner d input \<longleftrightarrow>
     (\<forall>m \<in> set (tb_rows (rg_members d)). member_key m = member_key input \<longrightarrow>
        owner_row (tm_TenantID input) m \<longrightarrow> \<not> owner_row (tm_TenantID input) input \<longrightarrow>
        (\<exists>other \<in> set (tb_rows (rg_members d)). owner_row (tm_TenantID input) other \<and>
           member_key other \<noteq> member_key input))"

definition pending_ok :: "registry_db \<Rightarrow> TenantMembership \<Rightarrow> bool" where
  "pending_ok d row \<longleftrightarrow> 0 < tm_ID row \<and> tm_ID row < tb_next (rg_members d) \<and>
     (\<forall>m \<in> set (tb_rows (rg_members d)). member_key m = member_key row \<longleftrightarrow> tm_ID m = tm_ID row)"

fun pending_id :: "member_call \<Rightarrow> int option" where
  "pending_id (ToLoad row) = Some (tm_ID row)"
| "pending_id (ToCommit row) = Some (tm_ID row)"
| "pending_id c = None"

fun call_knows :: "registry_db \<Rightarrow> member_call \<Rightarrow> bool" where
  "call_knows d (ToUpsert input) = keeps_owner d input"
| "call_knows d (ToLoad row) = (keeps_owner d row \<and> pending_ok d row)"
| "call_knows d (ToCommit row) = (keeps_owner d row \<and> pending_ok d row)"
| "call_knows d c = True"

definition call_ok :: "registry_db \<Rightarrow> member_call \<Rightarrow> bool" where
  "call_ok d c \<longleftrightarrow> (\<forall>t. locked_tenant c = Some t \<longrightarrow> tenant_at d t) \<and> call_knows d c"

text \<open>A step that leaves the rows of a tenant alone and takes no pending ID.\<close>

definition undisturbed :: "member_call \<Rightarrow> registry_db \<Rightarrow> registry_db \<Rightarrow> bool" where
  "undisturbed c d d' \<longleftrightarrow>
     (\<forall>m. locked_tenant c = Some (tm_TenantID m) \<longrightarrow>
        (m \<in> set (tb_rows (rg_members d')) \<longleftrightarrow> m \<in> set (tb_rows (rg_members d)))) \<and>
     (\<forall>t. tenant_at d t \<longrightarrow> tenant_at d' t) \<and> tb_next (rg_members d) \<le> tb_next (rg_members d') \<and>
     (\<forall>m \<in> set (tb_rows (rg_members d')). pending_id c = Some (tm_ID m) \<longrightarrow> m \<in> set (tb_rows (rg_members d)))"

lemma keeps_owner_undisturbed:
  assumes "locked_tenant c = Some (tm_TenantID input)" "undisturbed c d d'" "keeps_owner d input"
  shows "keeps_owner d' input"
proof -
  have "m \<in> set (tb_rows (rg_members d')) \<longleftrightarrow> m \<in> set (tb_rows (rg_members d))" if "owner_row (tm_TenantID input) m" for m
    using assms(1,2) that by (simp add: undisturbed_def owner_row_def)
  with assms(3) show ?thesis unfolding keeps_owner_def by blast
qed

lemma pending_ok_undisturbed:
  assumes "locked_tenant c = Some (tm_TenantID row)" "pending_id c = Some (tm_ID row)" "undisturbed c d d'" "pending_ok d row"
  shows "pending_ok d' row"
proof -
  have "member_key m = member_key row \<longleftrightarrow> tm_ID m = tm_ID row" if m: "m \<in> set (tb_rows (rg_members d'))" for m
  proof (cases "m \<in> set (tb_rows (rg_members d))")
    case True
    with assms(4) show ?thesis by (simp add: pending_ok_def)
  next
    case False
    then have "tm_TenantID m \<noteq> tm_TenantID row" "tm_ID m \<noteq> tm_ID row"
      using assms(1-3) m by (auto simp: undisturbed_def)
    then show ?thesis by (simp add: member_key_def)
  qed
  with assms(3,4) show ?thesis by (auto simp: pending_ok_def undisturbed_def)
qed

lemma call_ok_undisturbed:
  assumes "undisturbed c d d'" "call_ok d c"
  shows "call_ok d' c"
proof -
  have "tenant_at d' t" if "locked_tenant c = Some t" for t
    using assms that by (simp add: call_ok_def undisturbed_def)
  moreover have "call_knows d' c"
    using assms keeps_owner_undisturbed [OF _ assms(1)] pending_ok_undisturbed [OF _ _ assms(1)]
    by (cases c) (simp_all add: call_ok_def)
  ultimately show ?thesis by (simp add: call_ok_def)
qed

lemma undisturbed_refl [simp]: "undisturbed c d d"
  by (simp add: undisturbed_def)

section \<open>Writes\<close>

lemma store_member_rows:
  assumes "pending_ok d row"
  shows "set (tb_rows (rg_members (store_member row d))) =
    insert row {m \<in> set (tb_rows (rg_members d)). member_key m \<noteq> member_key row}"
  using assms by (auto simp: store_member_def pending_ok_def list_ex_iff)

lemma store_member_same [simp]:
  "rg_tenants (store_member row d) = rg_tenants d"
  "tb_next (rg_members (store_member row d)) = tb_next (rg_members d)"
  by (simp_all add: store_member_def)

lemma tenant_at_simps [simp]:
  "tenant_at (store_member row d) t = tenant_at d t" "tenant_at (take_member_id d) t = tenant_at d t"
  by (simp_all add: tenant_at_def take_member_id_def)

lemma store_member_keys:
  assumes "registry_ok d" "pending_ok d row"
  shows "distinct (map tm_ID (tb_rows (rg_members (store_member row d))))"
    and "distinct (map member_key (tb_rows (rg_members (store_member row d))))"
proof -
  have d: "distinct (map tm_ID (tb_rows (rg_members d)))" "distinct (map member_key (tb_rows (rg_members d)))"
    using assms(1) by (auto simp: registry_ok_def table_ok_def)
  let ?f = "\<lambda>r. if tm_ID r = tm_ID row then row else r"
  have f: "map tm_ID (map ?f (tb_rows (rg_members d))) = map tm_ID (tb_rows (rg_members d))" by simp
  have "member_key (?f r) = member_key r" if "r \<in> set (tb_rows (rg_members d))" for r
    using assms(2) that by (auto simp: pending_ok_def)
  then have g: "map member_key (map ?f (tb_rows (rg_members d))) = map member_key (tb_rows (rg_members d))" by simp
  show "distinct (map tm_ID (tb_rows (rg_members (store_member row d))))"
    using d(1) f by (auto simp: store_member_def list_ex_iff simp del: map_map)
  show "distinct (map member_key (tb_rows (rg_members (store_member row d))))"
    using d(2) g assms(2) by (auto simp: store_member_def list_ex_iff pending_ok_def simp del: map_map)
qed

lemma owner_row_key: "owner_row t m \<Longrightarrow> tm_TenantID m = t"
  by (simp add: owner_row_def)

lemma store_member_owner:
  assumes "has_owner d t" "pending_ok d row" "keeps_owner d row"
  shows "has_owner (store_member row d) t"
proof -
  obtain m where m: "m \<in> set (tb_rows (rg_members d))" "owner_row t m" using assms(1) by (auto simp: has_owner_def)
  show ?thesis
  proof (cases "member_key m = member_key row")
    case True
    then have t: "tm_TenantID row = t" using m(2) by (simp add: member_key_def owner_row_def)
    show ?thesis
    proof (cases "owner_row t row")
      case False
      with assms(3) m True t obtain other where "other \<in> set (tb_rows (rg_members d))" "owner_row t other"
        "member_key other \<noteq> member_key row" unfolding keeps_owner_def by blast
      then show ?thesis unfolding has_owner_def store_member_rows [OF assms(2)] by blast
    qed (auto simp: has_owner_def store_member_rows [OF assms(2)])
  qed (use m in \<open>auto simp: has_owner_def store_member_rows [OF assms(2)]\<close>)
qed

lemma store_member_ok:
  assumes "registry_ok d" "pending_ok d row" "keeps_owner d row" "tenant_at d (tm_TenantID row)"
  shows "registry_ok (store_member row d)"
proof -
  have "tm_TenantID row < tb_next (rg_tenants d)"
    using assms(1,4) by (auto simp: registry_ok_def table_ok_def tenant_at_def)
  moreover have "has_owner (store_member row d) (tn_ID r)"
    if "r \<in> set (tb_rows (rg_tenants d))" "tn_ID r \<noteq> DefaultTenantID" for r
    using store_member_owner [OF _ assms(2,3)] assms(1) that by (simp add: registry_ok_def)
  ultimately show ?thesis
    using assms(1,2) store_member_keys [OF assms(1,2)]
    unfolding registry_ok_def table_ok_def store_member_rows [OF assms(2)]
    by (auto simp: store_member_rows [OF assms(2)] pending_ok_def)
qed

lemma take_member_id_ok:
  assumes "registry_ok d"
  shows "registry_ok (take_member_id d)"
  using assms by (fastforce simp: registry_ok_def table_ok_def take_member_id_def has_owner_def)

lemma undisturbed_take [simp]: "undisturbed c d (take_member_id d)"
  by (simp add: undisturbed_def) (simp add: take_member_id_def)

lemma undisturbed_store:
  assumes "pending_ok d row" "locked_tenant c \<noteq> Some (tm_TenantID row)" "pending_id c \<noteq> Some (tm_ID row)"
  shows "undisturbed c d (store_member row d)"
  using assms by (auto simp: undisturbed_def store_member_rows [OF assms(1)] member_key_def)

lemma upserted_ok:
  assumes "registry_ok d" "keeps_owner d input" "0 < tb_next (rg_members d)"
  shows "keeps_owner (take_member_id d) (upserted now input d)" "pending_ok (take_member_id d) (upserted now input d)"
    "tm_TenantID (upserted now input d) = tm_TenantID input"
proof -
  let ?row = "upserted now input d"
  have key: "member_key ?row = member_key input"
    and own: "owner_row t ?row \<longleftrightarrow> owner_row t input" for t
    using member_of_Some [OF assms(1), of input]
    by (auto simp: upserted_def member_of_def [symmetric] new_membership_def member_key_def owner_row_def split: option.split)
  show t: "tm_TenantID ?row = tm_TenantID input" using key by (simp add: member_key_def)
  have rows: "tb_rows (rg_members (take_member_id d)) = tb_rows (rg_members d)"
    "tb_next (rg_members (take_member_id d)) = tb_next (rg_members d) + 1" by (simp_all add: take_member_id_def)
  show "keeps_owner (take_member_id d) ?row" using assms(2) by (simp add: keeps_owner_def rows key own t)
  show "pending_ok (take_member_id d) ?row"
  proof (cases "member_of input d")
    case None
    then have "tm_ID ?row = tb_next (rg_members d)" by (simp add: upserted_def member_of_def new_membership_def)
    moreover have "member_key m \<noteq> member_key input" if "m \<in> set (tb_rows (rg_members d))" for m
      using None member_of_Some [OF assms(1), of input m] member_of_Some [OF assms(1), of input] that
      by (auto simp: member_of_def find_None_iff same_member_eq)
    ultimately show ?thesis using assms(1) by (auto simp: pending_ok_def rows key registry_ok_def table_ok_def)
  next
    case (Some x)
    then have i: "tm_ID ?row = tm_ID x" by (simp add: upserted_def member_of_def)
    from Some have x: "x \<in> set (tb_rows (rg_members d))" "member_key x = member_key input"
      using member_of_Some [OF assms(1)] by simp_all
    then have "member_key m = member_key input \<longleftrightarrow> tm_ID m = tm_ID x" if "m \<in> set (tb_rows (rg_members d))" for m
      using member_unique [OF assms(1) x(1) that] by auto
    moreover have "0 < tm_ID x" "tm_ID x < tb_next (rg_members d)"
      using assms(1) x(1) by (auto simp: registry_ok_def table_ok_def)
    ultimately show ?thesis by (simp add: pending_ok_def rows key i)
  qed
qed

section \<open>Steps\<close>

definition owner_inv :: "owner_race \<Rightarrow> bool" where
  "owner_inv s \<longleftrightarrow> registry_ok (or_db s) \<and> (\<forall>c \<in> set (or_callers s). call_ok (or_db s) c) \<and>
     (\<forall>i < length (or_callers s). \<forall>j < length (or_callers s). i \<noteq> j \<longrightarrow>
        (locked_tenant (or_callers s ! i) \<noteq> None \<longrightarrow>
           locked_tenant (or_callers s ! i) \<noteq> locked_tenant (or_callers s ! j)) \<and>
        (pending_id (or_callers s ! i) \<noteq> None \<longrightarrow> pending_id (or_callers s ! i) \<noteq> pending_id (or_callers s ! j)))"

lemma UpdateTenantStatus_effect:
  assumes "UpdateTenantStatus fault now i st d = (d', r)"
  shows "rg_members d' = rg_members d" "tb_next (rg_tenants d') = tb_next (rg_tenants d)"
    "map tn_ID (tb_rows (rg_tenants d')) = map tn_ID (tb_rows (rg_tenants d))"
  using assms
  by (auto simp: UpdateTenantStatus_def autocommit_def update_row_def split: if_splits sum.splits option.splits)

lemma registry_ok_ids:
  "registry_ok d \<longleftrightarrow> (0 < tb_next (rg_tenants d) \<and> distinct (map tn_ID (tb_rows (rg_tenants d))) \<and>
       (\<forall>t \<in> set (map tn_ID (tb_rows (rg_tenants d))). 0 < t \<and> t < tb_next (rg_tenants d) \<and> (t \<noteq> DefaultTenantID \<longrightarrow> has_owner d t))) \<and>
     table_ok tm_ID (rg_members d) \<and> distinct (map member_key (tb_rows (rg_members d))) \<and>
     (\<forall>m \<in> set (tb_rows (rg_members d)). tm_TenantID m < tb_next (rg_tenants d))"
  by (auto simp: registry_ok_def table_ok_def)

lemma UpdateTenantStatus_ok:
  assumes "UpdateTenantStatus fault now i st d = (d', r)"
  shows "registry_ok d' = registry_ok d" "undisturbed c d d'"
proof -
  note e = UpdateTenantStatus_effect [OF assms]
  have "has_owner d' t = has_owner d t" for t by (simp add: has_owner_def e)
  then show "registry_ok d' = registry_ok d" unfolding registry_ok_ids by (simp only: e)
  have "tenant_at d' t = tenant_at d t" for t unfolding tenant_at_def by (metis e(3) list.set_map)
  then show "undisturbed c d d'" by (simp add: undisturbed_def e)
qed

text \<open>A tenant is created with its owner or not at all.\<close>

lemma CreateTenantWithOwner_effect:
  assumes "CreateTenantWithOwner env input subject d = (d', r)"
  shows "d' = d \<or> (\<exists>t m. tn_ID t = tb_next (rg_tenants d) \<and> tm_ID m = tb_next (rg_members d) \<and>
    tm_TenantID m = tn_ID t \<and> owner_row (tn_ID t) m \<and>
    d' = \<lparr>rg_tenants = append_row (rg_tenants d) t, rg_members = append_row (rg_members d) m\<rparr>)"
proof (cases "d' = d")
  case False
  then obtain d1 t m where
    t: "insert_tenant (ge_first env) (ge_now env) (tn_Key input) (tn_Name input) (tn_Status input) d = Inr (d1, t)"
    and m: "insert_membership (ge_second env) (ge_now env)
       \<lparr>tm_ID = 0, tm_TenantID = tn_ID t, tm_Subject = subject, tm_Role = RoleOwner,
        tm_Enabled = True, tm_CreatedBy = subject, tm_CreatedAt = 0, tm_UpdatedAt = 0\<rparr> d1 = Inr (d', m)"
    using assms by (auto simp: CreateTenantWithOwner_def split: if_splits sum.splits option.splits prod.splits)
  have d1: "d1 = d\<lparr>rg_tenants := append_row (rg_tenants d) t\<rparr>" and ti: "tn_ID t = tb_next (rg_tenants d)"
    using t by (auto simp: insert_tenant_def bindE_eq_Inr_iff insert_row_Inr new_tenant_def split: if_splits option.splits)
  have "d' = d1\<lparr>rg_members := append_row (rg_members d1) m\<rparr>"
    and mi: "tm_ID m = tb_next (rg_members d1)" "owner_row (tn_ID t) m"
    using m by (auto simp: insert_membership_def bindE_eq_Inr_iff insert_row_Inr new_membership_def owner_row_def
        split: if_splits option.splits)
  then show ?thesis using d1 ti owner_row_key [OF mi(2)] by (intro disjI2 exI [of _ t] exI [of _ m]) simp
qed simp

lemma CreateTenantWithOwner_ok:
  assumes "CreateTenantWithOwner env input subject d = (d', r)" "registry_ok d"
  shows "registry_ok d'" "call_ok d c \<Longrightarrow> undisturbed c d d'"
proof -
  have "registry_ok d' \<and> (call_ok d c \<longrightarrow> undisturbed c d d')"
    using CreateTenantWithOwner_effect [OF assms(1)]
  proof (elim disjE exE conjE)
    fix t m
    assume t: "tn_ID t = tb_next (rg_tenants d)" and m: "tm_ID m = tb_next (rg_members d)" "tm_TenantID m = tn_ID t"
      "owner_row (tn_ID t) m"
      and d': "d' = \<lparr>rg_tenants = append_row (rg_tenants d) t, rg_members = append_row (rg_members d) m\<rparr>"
    have "member_key m \<notin> member_key ` set (tb_rows (rg_members d))"
      using assms(2) m(2) t by (auto simp: registry_ok_def member_key_def)
    moreover have "has_owner d' i" if "has_owner d i \<or> i = tn_ID t" for i
      using that m(3) by (auto simp: has_owner_def d')
    ultimately have "registry_ok d'"
      using assms(2) table_ok_append [of tn_ID "rg_tenants d" t] table_ok_append [of tm_ID "rg_members d" m] t m(1,2)
      by (fastforce simp: registry_ok_def d')
    moreover have "undisturbed c d d'" if "call_ok d c"
    proof -
      have "locked_tenant c \<noteq> Some (tm_TenantID m)"
        using that assms(2) m(2) t by (fastforce simp: call_ok_def tenant_at_def registry_ok_def table_ok_def)
      moreover have "pending_id c \<noteq> Some (tm_ID m)"
        using that m(1) by (cases c) (auto simp: call_ok_def pending_ok_def)
      ultimately show ?thesis by (auto simp: undisturbed_def d' tenant_at_def)
    qed
    ultimately show ?thesis by simp
  qed (use assms(2) in simp)
  then show "registry_ok d'" "call_ok d c \<Longrightarrow> undisturbed c d d'" by simp_all
qed

text \<open>One statement of a caller: what it knows afterwards, and that it leaves the other callers alone.\<close>

lemma another_element:
  assumes "1 < length xs" "distinct (map f xs)"
  shows "\<exists>x \<in> set xs. f x \<noteq> k"
proof -
  obtain a b ys where "xs = a # b # ys" using assms(1) by (cases xs; cases "tl xs") auto
  with assms(2) show ?thesis by (cases "f a = k") auto
qed

lemma member_stmt_ok:
  assumes "registry_ok d" "call_ok d c" "member_stmt env c d = (d', c')"
  shows "registry_ok d' \<and> call_ok d' c' \<and>
    (locked_tenant c' = None \<or> locked_tenant c' = locked_tenant c \<or>
       (\<exists>input. c = ToLock input \<and> locked_tenant c' = Some (tm_TenantID input))) \<and>
    (\<forall>x. locked_tenant x \<noteq> locked_tenant c \<or> locked_tenant c = None \<longrightarrow>
       pending_id x \<noteq> pending_id c \<or> pending_id c = None \<longrightarrow> undisturbed x d d')"
proof (cases c)
  case (ToLock input)
  have "tenant_at d (tm_TenantID input)" if "lock_tenant (ge_first env) input d = Inr ()"
    using that by (auto simp: lock_tenant_def read_one_def tenant_at_def map_sum_def image_iff filter_eq_Cons_iff
        split: option.splits list.splits sum.splits)
  with assms ToLock show ?thesis by (auto simp: call_ok_def failed_call_def split: sum.splits)
next
  case (ToFind input)
  have "keeps_owner d input" if f: "find_member (ge_second env) input d = Inr existing" "\<not> drops_owner existing input" for existing
    unfolding keeps_owner_def
  proof (intro ballI impI)
    fix m
    assume m: "m \<in> set (tb_rows (rg_members d))" "member_key m = member_key input"
      "owner_row (tm_TenantID input) m" "\<not> owner_row (tm_TenantID input) input"
    then have "existing = Some m"
      using find_member_Inr [OF assms(1) f(1)] member_of_Some [OF assms(1), of input m] by simp
    with f(2) m(3,4) show "\<exists>other \<in> set (tb_rows (rg_members d)). owner_row (tm_TenantID input) other \<and>
        member_key other \<noteq> member_key input" by (simp add: drops_owner_def owner_row_def)
  qed
  with assms ToFind show ?thesis by (auto simp: call_ok_def failed_call_def split: sum.splits if_splits)
next
  case (ToCount input)
  have "keeps_owner d input" if c: "count_owners (ge_count env) input d = Inr ()"
    unfolding keeps_owner_def
  proof (intro ballI impI)
    fix m
    assume m: "m \<in> set (tb_rows (rg_members d))" "member_key m = member_key input" "owner_row (tm_TenantID input) m"
    let ?o = "filter (owner_row (tm_TenantID input)) (tb_rows (rg_members d))"
    have "1 < length ?o" using c by (auto simp: count_owners_def split: option.splits if_splits)
    moreover have "distinct (map member_key ?o)"
      using assms(1) by (simp add: registry_ok_def distinct_map inj_on_def)
    ultimately have "\<exists>other \<in> set ?o. member_key other \<noteq> member_key input"
      by (rule another_element)
    then show "\<exists>other \<in> set (tb_rows (rg_members d)). owner_row (tm_TenantID input) other \<and>
        member_key other \<noteq> member_key input" by auto
  qed
  with assms ToCount show ?thesis by (auto simp: call_ok_def failed_call_def split: sum.splits)
next
  case (ToUpsert input)
  have next0: "0 < tb_next (rg_members d)" using assms(1) by (simp add: registry_ok_def table_ok_def)
  have k: "keeps_owner d input" using assms(2) ToUpsert by (simp add: call_ok_def)
  show ?thesis
    using assms ToUpsert upserted_ok [OF assms(1) k next0] take_member_id_ok [OF assms(1)]
    by (auto simp: call_ok_def failed_call_def upsert_member_def split: if_splits option.splits)
next
  case (ToLoad row)
  with assms show ?thesis by (auto simp: call_ok_def failed_call_def split: option.splits)
next
  case (ToCommit row)
  then have p: "pending_ok d row" "keeps_owner d row" "tenant_at d (tm_TenantID row)"
    using assms(2) by (simp_all add: call_ok_def)
  from assms(3) ToCommit obtain r where c': "c' = Ended r" and d': "d' = d \<or> d' = store_member row d"
    by (auto simp: commit_member_def split: option.splits if_splits)
  have ok: "registry_ok d'" using d' store_member_ok [OF assms(1) p] assms(1) by auto
  have "undisturbed x d d'" if "locked_tenant x \<noteq> locked_tenant c" "pending_id x \<noteq> pending_id c" for x
    using d' undisturbed_store [OF p(1), of x] that ToCommit by auto
  with ok c' ToCommit show ?thesis by (auto simp: call_ok_def)
qed (use assms in \<open>auto simp: call_ok_def\<close>)

text \<open>A pending row that a statement makes has an ID that no other caller has pending.\<close>

lemma member_stmt_pending:
  assumes "registry_ok d" "call_ok d c" "member_stmt env c d = (d', c')" "pending_id c' = Some i"
  shows "pending_id c = Some i \<or>
    (\<exists>t. locked_tenant c = Some t \<and>
      (i = tb_next (rg_members d) \<or> (\<exists>m \<in> set (tb_rows (rg_members d)). tm_ID m = i \<and> tm_TenantID m = t)))"
proof (cases c)
  case (ToUpsert input)
  with assms(3,4) have i: "i = tm_ID (upserted (ge_now env) input d)"
    by (auto simp: upsert_member_def failed_call_def split: if_splits option.splits)
  show ?thesis
  proof (cases "member_of input d")
    case None
    with i ToUpsert show ?thesis by (simp add: upserted_def member_of_def new_membership_def)
  next
    case (Some m)
    with member_of_Some [OF assms(1), of input m] have "m \<in> set (tb_rows (rg_members d))" "tm_TenantID m = tm_TenantID input"
      by (auto simp: member_key_def)
    with Some i ToUpsert show ?thesis by (auto simp: upserted_def member_of_def)
  qed
qed (use assms(3,4) in \<open>auto simp: failed_call_def commit_member_def split: sum.splits option.splits prod.splits if_splits\<close>)

lemma pending_locked: "pending_id x = Some i \<Longrightarrow> locked_tenant x \<noteq> None"
  by (cases x) auto

lemma pending_elsewhere:
  assumes "registry_ok d" "call_ok d x" "pending_id x = Some i" "locked_tenant x \<noteq> Some t"
  shows "i \<noteq> tb_next (rg_members d)" "m \<in> set (tb_rows (rg_members d)) \<Longrightarrow> tm_ID m = i \<Longrightarrow> tm_TenantID m \<noteq> t"
proof -
  obtain row where row: "pending_ok d row" "tm_ID row = i" "locked_tenant x = Some (tm_TenantID row)"
    using assms(2,3) by (cases x) (auto simp: call_ok_def)
  then show "i \<noteq> tb_next (rg_members d)" by (simp add: pending_ok_def)
  show "tm_TenantID m \<noteq> t" if "m \<in> set (tb_rows (rg_members d))" "tm_ID m = i"
    using row that assms(4) by (auto simp: pending_ok_def member_key_def)
qed

lemma owner_inv_stmt:
  assumes "owner_inv s" "i < length (or_callers s)" "lock_free s i"
    and st: "member_stmt env (or_callers s ! i) (or_db s) = (d, c)"
  shows "owner_inv \<lparr>or_db = d, or_callers = (or_callers s)[i := c]\<rparr>"
proof -
  let ?cs = "or_callers s"
  have ok: "registry_ok (or_db s)" and calls: "\<And>x. x \<in> set ?cs \<Longrightarrow> call_ok (or_db s) x"
    and apart: "\<And>j k. j < length ?cs \<Longrightarrow> k < length ?cs \<Longrightarrow> j \<noteq> k \<Longrightarrow>
      (locked_tenant (?cs ! j) \<noteq> None \<longrightarrow> locked_tenant (?cs ! j) \<noteq> locked_tenant (?cs ! k)) \<and>
      (pending_id (?cs ! j) \<noteq> None \<longrightarrow> pending_id (?cs ! j) \<noteq> pending_id (?cs ! k))"
    using assms(1) by (auto simp: owner_inv_def)
  have ci: "call_ok (or_db s) (?cs ! i)" using calls assms(2) by simp
  note step = member_stmt_ok [OF ok ci st]
  have others: "undisturbed (?cs ! j) (or_db s) d" if "j < length ?cs" "j \<noteq> i" for j
    using step apart [OF that(1) assms(2) that(2)] apart [OF assms(2) that(1)] that(2) by metis
  have lock: "locked_tenant (?cs ! j) \<noteq> locked_tenant c" if "j < length ?cs" "j \<noteq> i" "locked_tenant c \<noteq> None" for j
  proof -
    note some = that(3)
    consider "locked_tenant c = locked_tenant (?cs ! i)"
      | input where "?cs ! i = ToLock input" "locked_tenant c = Some (tm_TenantID input)"
      using step some by auto
    then show ?thesis
    proof cases
      case 1
      with apart [OF assms(2) that(1)] that(2,3) show ?thesis by auto
    next
      case 2
      with assms(3) that(1) show ?thesis by (simp add: lock_free_def list_all_length)
    qed
  qed
  have pend: "pending_id (?cs ! j) \<noteq> pending_id c" if "j < length ?cs" "j \<noteq> i" "pending_id c \<noteq> None" for j
  proof
    assume eq: "pending_id (?cs ! j) = pending_id c"
    with that(3) obtain k where k: "pending_id c = Some k" "pending_id (?cs ! j) = Some k" by auto
    have cj: "call_ok (or_db s) (?cs ! j)" using calls that(1) by simp
    from member_stmt_pending [OF ok ci st k(1)] show False
    proof (elim disjE exE conjE bexE)
      assume "pending_id (?cs ! i) = Some k"
      with apart [OF assms(2) that(1)] that(2) k(2) show False by auto
    next
      fix t assume t: "locked_tenant (?cs ! i) = Some t" "k = tb_next (rg_members (or_db s))"
      with apart [OF assms(2) that(1)] that(2) have "locked_tenant (?cs ! j) \<noteq> Some t" by auto
      from pending_elsewhere(1) [OF ok cj k(2) this] t(2) show False by simp
    next
      fix t m assume t: "locked_tenant (?cs ! i) = Some t" "m \<in> set (tb_rows (rg_members (or_db s)))"
        "tm_ID m = k" "tm_TenantID m = t"
      with apart [OF assms(2) that(1)] that(2) have "locked_tenant (?cs ! j) \<noteq> Some t" by auto
      from pending_elsewhere(2) [OF ok cj k(2) this t(2,3)] t(4) show False by simp
    qed
  qed
  have "call_ok d (?cs[i := c] ! j)" if "j < length ?cs" for j
    using step others [OF that] calls call_ok_undisturbed that assms(2) by (cases "j = i") auto
  then have "\<forall>x \<in> set (?cs[i := c]). call_ok d x" by (auto simp: in_set_conv_nth)
  moreover have "(locked_tenant (?cs[i := c] ! j) \<noteq> None \<longrightarrow> locked_tenant (?cs[i := c] ! j) \<noteq> locked_tenant (?cs[i := c] ! k)) \<and>
      (pending_id (?cs[i := c] ! j) \<noteq> None \<longrightarrow> pending_id (?cs[i := c] ! j) \<noteq> pending_id (?cs[i := c] ! k))"
    if "j < length ?cs" "k < length ?cs" "j \<noteq> k" for j k
    using apart [OF that] lock [of j] lock [of k] pend [of j] pend [of k] that assms(2)
    by (cases "j = i"; cases "k = i") auto
  ultimately show ?thesis using step by (simp add: owner_inv_def)
qed

lemma owner_inv_db:
  assumes "owner_inv s" "registry_ok d" "\<And>c. call_ok (or_db s) c \<Longrightarrow> undisturbed c (or_db s) d"
  shows "owner_inv (s\<lparr>or_db := d\<rparr>)"
proof -
  have "\<forall>c \<in> set (or_callers s). call_ok d c"
    using assms(1,3) call_ok_undisturbed unfolding owner_inv_def by blast
  with assms(1,2) show ?thesis by (simp add: owner_inv_def)
qed

lemma owner_step_inv:
  assumes "owner_inv s" "owner_step s s'"
  shows "owner_inv s'"
proof -
  have ok: "registry_ok (or_db s)" using assms(1) by (simp add: owner_inv_def)
  from assms(2) show ?thesis
  proof cases
    case (create env input subject d r)
    with owner_inv_db [OF assms(1)] CreateTenantWithOwner_ok [OF create(2) ok] show ?thesis by simp
  next
    case (status fault now i st d r)
    with owner_inv_db [OF assms(1)] UpdateTenantStatus_ok [OF status(2)] ok show ?thesis by simp
  next
    case (call env input)
    have "locked_tenant (member_call_start env input) = None" "pending_id (member_call_start env input) = None"
      "call_ok (or_db s) (member_call_start env input)"
      by (auto simp: member_call_start_def call_ok_def split: sum.splits option.splits)
    with assms(1) call show ?thesis by (auto simp: owner_inv_def nth_append less_Suc_eq)
  next
    case (stmt i env d c)
    with owner_inv_stmt [OF assms(1)] show ?thesis by simp
  qed
qed

lemma owner_reach_inv:
  assumes "owner_reach d s" "registry_ok d"
  shows "owner_inv s"
  using assms(1)
proof induction
  case init
  with assms(2) show ?case by (simp add: owner_inv_def)
qed (rule owner_step_inv)

section \<open>Schedules\<close>

text \<open>A schedule that can be computed: a caller that would have to wait is passed over.\<close>

datatype owner_move =
    MoveCreate registry_env Tenant string
  | MoveCall registry_env TenantMembership
  | MoveStmt registry_env nat

fun owner_move_do :: "owner_move \<Rightarrow> owner_race \<Rightarrow> owner_race" where
  "owner_move_do (MoveCreate env input subject) s = s\<lparr>or_db := fst (CreateTenantWithOwner env input subject (or_db s))\<rparr>"
| "owner_move_do (MoveCall env input) s = s\<lparr>or_callers := or_callers s @ [member_call_start env input]\<rparr>"
| "owner_move_do (MoveStmt env i) s =
     (if i < length (or_callers s) \<and> lock_free s i then
        (case member_stmt env (or_callers s ! i) (or_db s) of
           (d, c) \<Rightarrow> \<lparr>or_db = d, or_callers = (or_callers s)[i := c]\<rparr>)
      else s)"

definition owner_run :: "registry_db \<Rightarrow> owner_move list \<Rightarrow> owner_race" where
  "owner_run d moves = fold owner_move_do moves \<lparr>or_db = d, or_callers = []\<rparr>"

lemma owner_move_reach: "owner_reach d s \<Longrightarrow> owner_reach d (owner_move_do mv s)"
  by (cases mv) (auto intro: owner_reach.step owner_step.call owner_step.stmt owner_step.create [OF surjective_pairing]
      split: prod.split)

lemma owner_run_reach: "owner_reach d (owner_run d moves)"
proof -
  have "owner_reach d s \<Longrightarrow> owner_reach d (fold owner_move_do moves s)" for s
    by (induction moves arbitrary: s) (simp_all add: owner_move_reach)
  then show ?thesis unfolding owner_run_def by (simp add: owner_reach.init)
qed

end
