(* ===== verification/Tenant_Workflow.thy ===== *)
theory Tenant_Workflow
  imports Tenant_Identity Json_Encode
begin

text \<open>
  How the tenant of an operation reaches its workflows and activities, and the names of workflows:
  \<open>internal/orchestrator/temporal/tenant_context.go\<close>, with the workflow IDs of diagnosis rooms
  (\<open>diagnosis_room_client.go\<close>). The data converter of Temporal is a parameter. The lemmas say that the
  identity survives the way through the headers, and when two operations name the same workflow.
\<close>

section \<open>Headers\<close>

text \<open>The default data converter: \<open>ToPayload\<close> and \<open>FromPayload\<close> on the struct of the header.\<close>

record 'p converter =
  cv_to :: "int \<Rightarrow> string \<Rightarrow> 'p result"
  cv_from :: "'p \<Rightarrow> (int \<times> string) result"

text \<open>A payload that was written is read back.\<close>

definition converter_reads_back :: "'p converter \<Rightarrow> bool" where
  "converter_reads_back cv \<longleftrightarrow> (\<forall>i key p. cv_to cv i key = Inr p \<longrightarrow> cv_from cv p = Inr (i, key))"

definition writeTenantContextHeader :: "'p converter \<Rightarrow> Identity \<Rightarrow> 'p result" where
  "writeTenantContextHeader cv identity =
     (case NewIdentity (id_ID identity) (id_Key identity) of
        Inl e \<Rightarrow> Inl (wrap_error ''temporal tenant propagation: invalid identity'' e)
      | Inr validated \<Rightarrow>
          (case cv_to cv (id_ID validated) (id_Key validated) of
             Inl e \<Rightarrow> Inl (wrap_error ''temporal tenant propagation: encode header'' e)
           | Inr payload \<Rightarrow> Inr payload))"

definition readTenantContextHeader :: "'p converter \<Rightarrow> 'p option \<Rightarrow> Identity result" where
  "readTenantContextHeader cv header =
     (case header of
        None \<Rightarrow> Inr DefaultIdentity
      | Some payload \<Rightarrow>
          (case cv_from cv payload of
             Inl e \<Rightarrow> Inl (wrap_error ''temporal tenant propagation: decode header'' e)
           | Inr (i, key) \<Rightarrow>
               (case NewIdentity i key of
                  Inl e \<Rightarrow> Inl (wrap_error ''temporal tenant propagation: validate header'' e)
                | Inr identity \<Rightarrow> Inr identity)))"

definition context_identity :: "tenant_context \<Rightarrow> Identity" where
  "context_identity ctx = (case FromContext ctx of None \<Rightarrow> DefaultIdentity | Some identity \<Rightarrow> identity)"

definition Inject :: "'p converter \<Rightarrow> tenant_context \<Rightarrow> 'p result" where
  "Inject cv ctx = writeTenantContextHeader cv (context_identity ctx)"

definition Extract :: "'p converter \<Rightarrow> tenant_context \<Rightarrow> 'p option \<Rightarrow> tenant_context result" where
  "Extract cv ctx header = bindE (readTenantContextHeader cv header) (WithTenant ctx)"

text \<open>The context of a workflow has what its \<open>Value\<close> answers for the key of the package.\<close>

definition InjectFromWorkflow :: "'p converter \<Rightarrow> Identity option \<Rightarrow> 'p result" where
  "InjectFromWorkflow cv wctx =
     writeTenantContextHeader cv (case wctx of None \<Rightarrow> DefaultIdentity | Some identity \<Rightarrow> identity)"

definition ExtractToWorkflow :: "'p converter \<Rightarrow> 'p option \<Rightarrow> Identity option result" where
  "ExtractToWorkflow cv header = bindE (readTenantContextHeader cv header) (\<lambda>identity. Inr (Some identity))"

text \<open>The way of an operation to its activity: client, workflow, worker.\<close>

definition activity_context :: "'p converter \<Rightarrow> tenant_context \<Rightarrow> tenant_context \<Rightarrow> tenant_context result" where
  "activity_context cv ctx worker =
     bindE (Inject cv ctx) (\<lambda>h1.
     bindE (ExtractToWorkflow cv (Some h1)) (\<lambda>wctx.
     bindE (InjectFromWorkflow cv wctx) (\<lambda>h2.
     Extract cv worker (Some h2))))"

lemma header_reads_back:
  assumes "converter_reads_back cv" "writeTenantContextHeader cv identity = Inr payload"
  shows "readTenantContextHeader cv (Some payload) = Inr identity"
proof -
  obtain v where v: "NewIdentity (id_ID identity) (id_Key identity) = Inr v" "cv_to cv (id_ID v) (id_Key v) = Inr payload"
    using assms(2) by (auto simp: writeTenantContextHeader_def split: sum.splits)
  then have "v = identity" by (simp add: NewIdentity_Inr)
  with v assms(1) show ?thesis by (simp add: readTenantContextHeader_def converter_reads_back_def)
qed

lemma activity_context_identity:
  assumes "converter_reads_back cv" "activity_context cv ctx (Some worker) = Inr actx"
  shows "FromContext actx = Some (context_identity ctx)"
proof -
  obtain h1 wctx h2 where h1: "Inject cv ctx = Inr h1" and w: "ExtractToWorkflow cv (Some h1) = Inr wctx"
    and h2: "InjectFromWorkflow cv wctx = Inr h2" and a: "Extract cv (Some worker) (Some h2) = Inr actx"
    using assms(2) by (auto simp: activity_context_def bindE_eq_Inr_iff)
  have "readTenantContextHeader cv (Some h1) = Inr (context_identity ctx)"
    using header_reads_back [OF assms(1)] h1 by (simp add: Inject_def)
  with w have wctx: "wctx = Some (context_identity ctx)" by (simp add: ExtractToWorkflow_def)
  with header_reads_back [OF assms(1)] h2 have "readTenantContextHeader cv (Some h2) = Inr (context_identity ctx)"
    by (simp add: InjectFromWorkflow_def)
  with a have "WithTenant (Some worker) (context_identity ctx) = Inr actx" by (simp add: Extract_def)
  then show ?thesis by (rule WithTenant_FromContext)
qed

section \<open>Workflow IDs\<close>

abbreviation tenantWorkflowIDPrefix :: string where "tenantWorkflowIDPrefix \<equiv> ''openclarion-tenant''"
abbreviation diagnosisRoomWorkflowIDPrefix :: string where "diagnosisRoomWorkflowIDPrefix \<equiv> ''diagnosis-room-''"

definition tenantScopedWorkflowID :: "tenant_context \<Rightarrow> string \<Rightarrow> string result" where
  "tenantScopedWorkflowID ctx base =
     (let trimmed = TrimSpace base in
      if trimmed = [] \<or> trimmed \<noteq> base then
        Inl (invariant_error ''temporal tenant workflow id: base must be non-empty and normalized'')
      else
        let identity = context_identity ctx in
        case NewIdentity (id_ID identity) (id_Key identity) of
          Inl e \<Rightarrow> Inl (wrap_error ''temporal tenant workflow id'' e)
        | Inr validated \<Rightarrow>
            if validated = DefaultIdentity then Inr base
            else Inr (tenantWorkflowIDPrefix @ ''-'' @ int_decimal (id_ID validated) @ ''-'' @ id_Key validated @ ''--'' @ base))"

definition DiagnosisRoomWorkflowID :: "string \<Rightarrow> string result" where
  "DiagnosisRoomWorkflowID sessionID =
     (let trimmed = TrimSpace sessionID in
      if trimmed = [] then Inl (invariant_error ''diagnosis-room client: session id must be non-empty'')
      else if trimmed \<noteq> sessionID then
        Inl (invariant_error ''diagnosis-room client: session id must not contain leading or trailing whitespace'')
      else Inr (diagnosisRoomWorkflowIDPrefix @ sessionID))"

definition diagnosisRoomWorkflowIDForTenant :: "tenant_context \<Rightarrow> string \<Rightarrow> string result" where
  "diagnosisRoomWorkflowIDForTenant ctx sessionID =
     bindE (DiagnosisRoomWorkflowID sessionID) (tenantScopedWorkflowID ctx)"

section \<open>Names that cannot meet\<close>

lemma tenant_key_no_hyphens:
  assumes "tenant_key_ok key"
  shows "\<not> Contains key ''--''" "last key \<noteq> CHR ''-''"
  using assms by (auto simp: tenant_key_ok_def NormalizeTenantKey_def Let_def split: if_splits)

lemma key_part_shorter:
  assumes "tenant_key_ok k2" "k1 @ ''--'' @ b1 = k2 @ ''--'' @ b2" "k1 @ us = k2"
  shows "us = []"
proof (rule ccontr)
  assume us: "us \<noteq> []"
  from assms(2,3) have eq: "''--'' @ b1 = us @ ''--'' @ b2" by auto
  show False
  proof (cases "tl us")
    case Nil
    with us eq have "us = ''-''" by (cases us) auto
    with assms(3) tenant_key_no_hyphens(2) [OF assms(1)] show False by auto
  next
    case (Cons c vs)
    with us eq have "us = ''--'' @ vs" by (cases us) auto
    with assms(3) have "Contains k2 ''--''" unfolding Contains_iff by blast
    with tenant_key_no_hyphens(1) [OF assms(1)] show False by simp
  qed
qed

lemma key_part_unique:
  assumes "tenant_key_ok k1" "tenant_key_ok k2" "k1 @ ''--'' @ b1 = k2 @ ''--'' @ b2"
  shows "k1 = k2 \<and> b1 = b2"
proof -
  from assms(3) obtain us where "k1 = k2 @ us \<or> k1 @ us = k2"
    unfolding append_eq_append_conv2 by blast
  with key_part_shorter [OF assms(2,3), of us] key_part_shorter [OF assms(1) assms(3) [symmetric], of us]
  have "k1 = k2" by auto
  with assms(3) show ?thesis by simp
qed

lemma decimal_no_hyphen: "CHR ''-'' \<notin> set (decimal n)"
proof (induction n rule: decimal.induct)
  case (1 n)
  have "CHR ''-'' \<noteq> digit_char d" if "d < 10" for d
  proof
    assume "CHR ''-'' = digit_char d"
    with of_char_digit [OF that] have "(of_char (CHR ''-'') :: nat) = 48 + d" by metis
    then show False by simp
  qed
  with 1 show ?case by (subst decimal.simps) auto
qed

lemma decimal_part_unique:
  assumes "decimal m @ ''-'' @ x = decimal n @ ''-'' @ y"
  shows "m = n \<and> x = y"
proof -
  have "takeWhile (\<lambda>c. c \<noteq> CHR ''-'') (decimal k @ ''-'' @ z) = decimal k" for k z
    using decimal_no_hyphen [of k] by (subst takeWhile_append2) auto
  with assms have "decimal m = decimal n" by metis
  with assms decimal_inj show ?thesis by auto
qed

definition tenant_named :: "string \<Rightarrow> bool" where
  "tenant_named base \<longleftrightarrow> has_prefix (tenantWorkflowIDPrefix @ ''-'') base"

lemma tenantScopedWorkflowID_Inr:
  assumes "tenantScopedWorkflowID ctx base = Inr w"
  shows "0 < id_ID (context_identity ctx)" "tenant_key_ok (id_Key (context_identity ctx))"
    "w = (if context_identity ctx = DefaultIdentity then base
      else tenantWorkflowIDPrefix @ ''-'' @ decimal (nat (id_ID (context_identity ctx))) @ ''-'' @
        id_Key (context_identity ctx) @ ''--'' @ base)"
proof -
  obtain v where v: "NewIdentity (id_ID (context_identity ctx)) (id_Key (context_identity ctx)) = Inr v"
    and w: "w = (if v = DefaultIdentity then base
      else tenantWorkflowIDPrefix @ ''-'' @ int_decimal (id_ID v) @ ''-'' @ id_Key v @ ''--'' @ base)"
    using assms by (auto simp: tenantScopedWorkflowID_def Let_def split: if_splits sum.splits)
  from v show p: "0 < id_ID (context_identity ctx)" "tenant_key_ok (id_Key (context_identity ctx))"
    by (simp_all add: NewIdentity_Inr)
  from v have "v = context_identity ctx" by (simp add: NewIdentity_Inr)
  with w p(1) show "w = (if context_identity ctx = DefaultIdentity then base
      else tenantWorkflowIDPrefix @ ''-'' @ decimal (nat (id_ID (context_identity ctx))) @ ''-'' @
        id_Key (context_identity ctx) @ ''--'' @ base)"
    by (simp add: int_decimal_def)
qed

lemma scoped_ids_apart:
  assumes "tenantScopedWorkflowID ctx1 base1 = Inr w" "tenantScopedWorkflowID ctx2 base2 = Inr w"
    and "context_identity ctx1 = DefaultIdentity \<Longrightarrow> \<not> tenant_named base1"
    and "context_identity ctx2 = DefaultIdentity \<Longrightarrow> \<not> tenant_named base2"
  shows "context_identity ctx1 = context_identity ctx2 \<and> base1 = base2"
proof -
  let ?i = "context_identity ctx1" and ?j = "context_identity ctx2"
  note i = tenantScopedWorkflowID_Inr [OF assms(1)] and j = tenantScopedWorkflowID_Inr [OF assms(2)]
  have named: "tenant_named (tenantWorkflowIDPrefix @ ''-'' @ z)" for z
    unfolding tenant_named_def by (simp add: has_prefix_iff)
  consider "?i = DefaultIdentity" "?j = DefaultIdentity" | "?i = DefaultIdentity" "?j \<noteq> DefaultIdentity"
    | "?i \<noteq> DefaultIdentity" "?j = DefaultIdentity" | "?i \<noteq> DefaultIdentity" "?j \<noteq> DefaultIdentity" by blast
  then show ?thesis
  proof cases
    case 1 with i(3) j(3) show ?thesis by simp
  next
    case 2 with assms(3) i(3) j(3) named show ?thesis by metis
  next
    case 3 with assms(4) i(3) j(3) named show ?thesis by metis
  next
    case 4
    with i(3) j(3) have "decimal (nat (id_ID ?i)) @ ''-'' @ (id_Key ?i @ ''--'' @ base1) =
        decimal (nat (id_ID ?j)) @ ''-'' @ (id_Key ?j @ ''--'' @ base2)" by simp
    from decimal_part_unique [OF this] have "nat (id_ID ?i) = nat (id_ID ?j)"
      and rest: "id_Key ?i @ ''--'' @ base1 = id_Key ?j @ ''--'' @ base2" by simp_all
    with i(1) j(1) have "id_ID ?i = id_ID ?j" by simp
    moreover from key_part_unique [OF i(2) j(2) rest] have "id_Key ?i = id_Key ?j" "base1 = base2" by simp_all
    ultimately show ?thesis by simp
  qed
qed

text \<open>A room of the default tenant is never named like a workflow of another tenant.\<close>

lemma room_not_tenant_named: "DiagnosisRoomWorkflowID sessionID = Inr base \<Longrightarrow> \<not> tenant_named base"
  by (auto simp: DiagnosisRoomWorkflowID_def tenant_named_def Let_def split: if_splits)

text \<open>
  The default tenant can choose the workflow ID of any other tenant, as its own IDs are not prefixed.
\<close>

lemma default_tenant_takes_workflow_id:
  assumes "tenantScopedWorkflowID ctx base = Inr w" "context_identity ctx \<noteq> DefaultIdentity" "printable_byte (last base)"
  shows "tenantScopedWorkflowID (Some (Some DefaultIdentity)) w = Inr w"
proof -
  have b: "base \<noteq> []" using assms(1) by (auto simp: tenantScopedWorkflowID_def Let_def split: if_splits)
  from tenantScopedWorkflowID_Inr(3) [OF assms(1)] assms(2) obtain z where w: "w = tenantWorkflowIDPrefix @ z @ base"
    by auto
  have "printable_byte (CHR ''o'')" by code_simp
  then have "printable_byte (hd w)" "printable_byte (last w)" using b assms(3) by (simp_all add: w)
  then have "TrimSpace w = w" by (intro TrimSpace_id trimmed_printable) simp
  moreover have "w \<noteq> []" by (simp add: w)
  moreover have "NewIdentity (id_ID DefaultIdentity) (id_Key DefaultIdentity) = Inr DefaultIdentity"
    using default_tenant_key_ok by (simp add: NewIdentity_Inr DefaultIdentity_def)
  moreover have "context_identity (Some (Some DefaultIdentity)) = DefaultIdentity"
    by (simp add: context_identity_def FromContext_def DefaultIdentity_def)
  ultimately show ?thesis by (simp add: tenantScopedWorkflowID_def)
qed

end
