(* ===== verification/Tenant_Service.thy ===== *)
theory Tenant_Service
  imports Tenant_Registry Auth_Ticket
begin

text \<open>
  Which tenant an authenticated request runs in: \<open>internal/usecases/tenantops/tenantops.go\<close> over the
  registry, and the binding of a principal in \<open>internal/transport/http/tenant_context.go\<close>. The faults of
  the queries are arguments; \<open>admin\<close> says which subjects are bootstrap administrators. The lemmas say what
  the registry held for a subject that was let in.
\<close>

section \<open>The service\<close>

definition maxTenantList :: int where "maxTenantList = 500"

definition access_denied :: go_error where "access_denied = GoErr ''tenant access denied'' [ErrAccessDenied]"
definition tenant_disabled :: go_error where "tenant_disabled = GoErr ''tenant is disabled'' [ErrTenantDisabled]"

definition normalizeSubject :: "string \<Rightarrow> string result" where
  "normalizeSubject raw =
     (let subject = TrimSpace raw in
      if subject = [] \<or> subject \<noteq> raw \<or> length subject > 256 \<or>
         list_ex (\<lambda>c. c \<in> {CHR 0x00, CHR 0x0D, CHR 0x0A}) subject
      then Inl (invariant_error ''tenant operations: subject is invalid'') else Inr subject)"

text \<open>The key a caller asked for; the same lines stand in both operations that resolve a tenant.\<close>

definition requested_tenant_key :: "string \<Rightarrow> string result" where
  "requested_tenant_key raw =
     (let requestedKey = TrimSpace raw in
      if requestedKey \<noteq> raw then
        Inl (invariant_error ''tenant operations: requested tenant key must not contain surrounding whitespace'')
      else
        let requestedKey = (if requestedKey = [] then DefaultTenantKey else requestedKey) in
        if NormalizeTenantKey requestedKey \<noteq> Inr requestedKey then
          Inl (invariant_error ''tenant operations: requested tenant key is invalid'')
        else Inr requestedKey)"

definition ResolveAccess ::
  "go_error option \<Rightarrow> go_error option \<Rightarrow> string \<Rightarrow> string \<Rightarrow> bool \<Rightarrow> registry_db \<Rightarrow> Identity result" where
  "ResolveAccess fault1 fault2 subject requestedKey globalAdmin d =
     bindE (normalizeSubject subject) (\<lambda>subject.
     bindE (requested_tenant_key requestedKey) (\<lambda>key.
     bindE (FindTenantByKey fault1 key d) (\<lambda>tenant.
     if tn_Status tenant \<noteq> TenantStatusActive then Inl tenant_disabled
     else
       bindE (if tn_Key tenant \<noteq> DefaultTenantKey \<and> \<not> globalAdmin then
                (case FindTenantMembership fault2 (tn_ID tenant) subject d of
                   Inl e \<Rightarrow> if errors_Is e ErrNotFound then Inl access_denied else Inl e
                 | Inr membership \<Rightarrow> if \<not> tm_Enabled membership then Inl access_denied else Inr ())
              else Inr ()) (\<lambda>_.
       NewIdentity (tn_ID tenant) (tn_Key tenant)))))"

definition ResolveIngress :: "go_error option \<Rightarrow> string \<Rightarrow> registry_db \<Rightarrow> Identity result" where
  "ResolveIngress fault requestedKey d =
     bindE (requested_tenant_key requestedKey) (\<lambda>key.
     bindE (FindTenantByKey fault key d) (\<lambda>tenant.
     if tn_Status tenant \<noteq> TenantStatusActive then Inl tenant_disabled
     else NewIdentity (tn_ID tenant) (tn_Key tenant)))"

fun append_unseen :: "int list \<Rightarrow> Tenant list \<Rightarrow> Tenant list" where
  "append_unseen seen [] = []"
| "append_unseen seen (tenant # tenants) =
     (if tn_ID tenant \<in> set seen then append_unseen seen tenants
      else tenant # append_unseen (tn_ID tenant # seen) tenants)"

definition ListAccessible ::
  "go_error option \<Rightarrow> go_error option \<Rightarrow> string \<Rightarrow> bool \<Rightarrow> registry_db \<Rightarrow> Tenant list result" where
  "ListAccessible fault1 fault2 subject globalAdmin d =
     bindE (normalizeSubject subject) (\<lambda>subject.
     bindE (if globalAdmin then ListTenants fault1 (maxTenantList - 1) d
            else ListTenantsForSubject fault1 subject (maxTenantList - 1) d) (\<lambda>tenants.
     bindE (FindTenantByKey fault2 DefaultTenantKey d) (\<lambda>defaultTenant.
     Inr (defaultTenant # append_unseen [tn_ID defaultTenant] tenants))))"

definition CreateTenant ::
  "registry_env \<Rightarrow> string \<Rightarrow> string \<Rightarrow> string \<Rightarrow> registry_db \<Rightarrow> registry_db \<times> (Tenant \<times> TenantMembership) result" where
  "CreateTenant env key name actorSubject d =
     (case normalizeSubject actorSubject of Inl e \<Rightarrow> (d, Inl e) | Inr actorSubject \<Rightarrow>
     (case NormalizeTenantKey key of Inl e \<Rightarrow> (d, Inl e) | Inr key \<Rightarrow>
     (case NormalizeTenantName name of Inl e \<Rightarrow> (d, Inl e) | Inr name \<Rightarrow>
      if key = DefaultTenantKey then
        (d, Inl (GoErr ''tenant operations: default key is reserved'' [ErrAlreadyExists]))
      else CreateTenantWithOwner env
        \<lparr>tn_ID = 0, tn_Key = key, tn_Name = name, tn_Status = TenantStatusActive, tn_CreatedAt = 0, tn_UpdatedAt = 0\<rparr>
        actorSubject d)))"

definition ListMemberships ::
  "go_error option \<Rightarrow> go_error option \<Rightarrow> int \<Rightarrow> registry_db \<Rightarrow> TenantMembership list result" where
  "ListMemberships fault1 fault2 tenantID d = ListTenantMemberships fault1 fault2 tenantID maxTenantList d"

definition CanManage :: "go_error option \<Rightarrow> int \<Rightarrow> string \<Rightarrow> bool \<Rightarrow> registry_db \<Rightarrow> bool result" where
  "CanManage fault tenantID subject globalAdmin d =
     (if globalAdmin then Inr True
      else bindE (normalizeSubject subject) (\<lambda>subject.
        case FindTenantMembership fault tenantID subject d of
          Inl e \<Rightarrow> if errors_Is e ErrNotFound then Inr False else Inl e
        | Inr membership \<Rightarrow> Inr (tm_Enabled membership \<and> tm_Role membership = RoleOwner)))"

definition SetMembership ::
  "registry_env \<Rightarrow> int \<Rightarrow> string \<Rightarrow> string \<Rightarrow> bool \<Rightarrow> string \<Rightarrow> registry_db \<Rightarrow> registry_db \<times> TenantMembership result" where
  "SetMembership env tenantID subject role enabled actorSubject d =
     (case normalizeSubject subject of Inl e \<Rightarrow> (d, Inl e) | Inr subject \<Rightarrow>
     (case normalizeSubject actorSubject of Inl e \<Rightarrow> (d, Inl e) | Inr actorSubject \<Rightarrow>
     (case ValidateTenantMembershipRole role of Inl e \<Rightarrow> (d, Inl e) | Inr _ \<Rightarrow>
      SetTenantMembership env
        \<lparr>tm_ID = 0, tm_TenantID = tenantID, tm_Subject = subject, tm_Role = role, tm_Enabled = enabled,
         tm_CreatedBy = actorSubject, tm_CreatedAt = 0, tm_UpdatedAt = 0\<rparr> d)))"

section \<open>Requests\<close>

definition sanitizeDiagnosisAuthSubject :: "string \<Rightarrow> string result" where
  "sanitizeDiagnosisAuthSubject subject =
     (let trimmed = TrimSpace subject in
      if trimmed = [] then Inl (GoErr ''auth subject must be non-empty'' [])
      else if trimmed \<noteq> subject then
        Inl (GoErr ''auth subject must not contain leading or trailing whitespace'' [])
      else Inr subject)"

text \<open>
  \<open>header\<close> is the value of the tenant selection header, \<open>service\<close> the registry with the faults of the two
  queries, \<open>None\<close> where tenant operations are not configured.
\<close>

type_synonym tenant_service = "(go_error option \<times> go_error option \<times> registry_db) option"

definition bindAuthenticatedTenant ::
  "tenant_service \<Rightarrow> (string \<Rightarrow> bool) \<Rightarrow> tenant_context \<Rightarrow> string \<Rightarrow> AuthPrincipal
   \<Rightarrow> (AuthPrincipal \<times> tenant_context) result" where
  "bindAuthenticatedTenant service admin ctx header prin =
     bindE (sanitizeDiagnosisAuthSubject (ap_Subject prin)) (\<lambda>subject.
     let requestedKey = TrimSpace header in
     if requestedKey \<noteq> header then
       Inl (invariant_error ''tenant selection header must not contain surrounding whitespace'')
     else
     let bound = (ap_TenantID prin > 0 \<or> ap_TenantKey prin \<noteq> []) in
     if bound \<and> (ap_TenantID prin \<le> 0 \<or> ap_TenantKey prin = []) then
       Inl (GoErr ''authenticated tenant binding is incomplete'' [ErrUnauthenticated])
     else if bound \<and> requestedKey \<noteq> [] \<and> requestedKey \<noteq> ap_TenantKey prin then
       Inl (GoErr ''tenant selection cannot override a signed session'' [ErrAccessDenied])
     else
     let requestedKey = (if bound then ap_TenantKey prin else requestedKey) in
     bindE (case service of
              None \<Rightarrow>
                if requestedKey \<noteq> [] \<and> requestedKey \<noteq> DefaultTenantKey then Inl access_denied
                else if bound then NewIdentity (ap_TenantID prin) (ap_TenantKey prin)
                else Inr DefaultIdentity
            | Some (fault1, fault2, d) \<Rightarrow> ResolveAccess fault1 fault2 subject requestedKey (admin subject) d) (\<lambda>identity.
     if bound \<and> (id_ID identity \<noteq> ap_TenantID prin \<or> id_Key identity \<noteq> ap_TenantKey prin) then
       Inl (GoErr ''signed tenant binding no longer resolves to the same tenant'' [ErrAccessDenied])
     else
     bindE (WithTenant ctx identity) (\<lambda>tenantCtx.
     Inr (prin\<lparr>ap_Subject := subject, ap_TenantID := id_ID identity, ap_TenantKey := id_Key identity\<rparr>, tenantCtx))))"

definition bindSessionIssuanceTenant ::
  "tenant_service \<Rightarrow> (string \<Rightarrow> bool) \<Rightarrow> tenant_context \<Rightarrow> string \<Rightarrow> AuthPrincipal
   \<Rightarrow> (AuthPrincipal \<times> tenant_context) result" where
  "bindSessionIssuanceTenant service admin ctx header prin =
     (let requestedKey = TrimSpace header in
      if requestedKey = [] \<or> requestedKey = ap_TenantKey prin then
        bindAuthenticatedTenant service admin ctx header prin
      else bindAuthenticatedTenant service admin ctx header (prin\<lparr>ap_TenantID := 0, ap_TenantKey := []\<rparr>))"

section \<open>Access\<close>

definition may_enter :: "registry_db \<Rightarrow> string \<Rightarrow> bool \<Rightarrow> Identity \<Rightarrow> bool" where
  "may_enter d subject globalAdmin identity \<longleftrightarrow>
     (\<exists>tenant \<in> set (tb_rows (rg_tenants d)). tn_ID tenant = id_ID identity \<and> tn_Key tenant = id_Key identity \<and>
        tn_Status tenant = TenantStatusActive \<and>
        (id_Key identity = DefaultTenantKey \<or> globalAdmin \<or>
         (\<exists>m \<in> set (tb_rows (rg_members d)). tm_TenantID m = id_ID identity \<and> tm_Subject m = subject \<and> tm_Enabled m)))"

lemma read_one_Inr: "read_one msg fault rows = Inr r \<longleftrightarrow> fault = None \<and> rows = [r]"
  by (auto simp: read_one_def split: option.splits list.splits)

lemma FindTenantByKey_Inr:
  "FindTenantByKey fault key d = Inr r \<Longrightarrow> r \<in> set (tb_rows (rg_tenants d)) \<and> tn_Key r = key"
  by (auto simp: FindTenantByKey_def read_one_Inr filter_eq_Cons_iff split: if_splits)

lemma FindTenantMembership_Inr:
  "FindTenantMembership fault i subject d = Inr m \<Longrightarrow>
   m \<in> set (tb_rows (rg_members d)) \<and> tm_TenantID m = i \<and> tm_Subject m = subject"
  by (auto simp: FindTenantMembership_def read_one_Inr filter_eq_Cons_iff bindE_eq_Inr_iff split: if_splits)

lemma normalizeSubject_Inr: "normalizeSubject raw = Inr s \<Longrightarrow> s = raw"
  by (auto simp: normalizeSubject_def Let_def split: if_splits)

lemma ResolveAccess_Inr:
  assumes "ResolveAccess fault1 fault2 subject requestedKey globalAdmin d = Inr identity"
  shows "may_enter d subject globalAdmin identity"
    "requestedKey = id_Key identity \<or> requestedKey = [] \<and> id_Key identity = DefaultTenantKey"
proof -
  obtain tenant where key: "requested_tenant_key requestedKey = Inr (tn_Key tenant)"
    and t: "tenant \<in> set (tb_rows (rg_tenants d))" "tn_Status tenant = TenantStatusActive"
    and m: "tn_Key tenant = DefaultTenantKey \<or> globalAdmin \<or>
      (\<exists>m. FindTenantMembership fault2 (tn_ID tenant) subject d = Inr m \<and> tm_Enabled m)"
    and i: "NewIdentity (tn_ID tenant) (tn_Key tenant) = Inr identity"
    using assms
    by (auto simp: ResolveAccess_def bindE_eq_Inr_iff dest!: FindTenantByKey_Inr normalizeSubject_Inr
        split: if_splits sum.splits)
  from i have id: "id_ID identity = tn_ID tenant" "id_Key identity = tn_Key tenant" by (auto simp: NewIdentity_Inr)
  from m have "tn_Key tenant = DefaultTenantKey \<or> globalAdmin \<or>
      (\<exists>m \<in> set (tb_rows (rg_members d)). tm_TenantID m = tn_ID tenant \<and> tm_Subject m = subject \<and> tm_Enabled m)"
    by (meson FindTenantMembership_Inr)
  with t id show "may_enter d subject globalAdmin identity" unfolding may_enter_def by metis
  from key id show "requestedKey = id_Key identity \<or> requestedKey = [] \<and> id_Key identity = DefaultTenantKey"
    by (auto simp: requested_tenant_key_def Let_def split: if_splits)
qed

lemma bindAuthenticatedTenant_Inr:
  assumes "bindAuthenticatedTenant (Some (fault1, fault2, d)) admin (Some c) header prin = Inr (p, tctx)"
  shows "\<exists>identity. FromContext tctx = Some identity \<and> ap_TenantID p = id_ID identity \<and> ap_TenantKey p = id_Key identity \<and>
    ap_Subject p = ap_Subject prin \<and> ap_Roles p = ap_Roles prin \<and>
    may_enter d (ap_Subject prin) (admin (ap_Subject prin)) identity \<and>
    (ap_TenantID prin > 0 \<or> ap_TenantKey prin \<noteq> [] \<longrightarrow>
       ap_TenantID p = ap_TenantID prin \<and> ap_TenantKey p = ap_TenantKey prin) \<and>
    (header \<noteq> [] \<longrightarrow> id_Key identity = header)"
proof -
  have subject: "sanitizeDiagnosisAuthSubject s = Inr s' \<Longrightarrow> s' = s" for s s'
    by (auto simp: sanitizeDiagnosisAuthSubject_def Let_def split: if_splits)
  let ?bound = "ap_TenantID prin > 0 \<or> ap_TenantKey prin \<noteq> []"
  let ?key = "if ?bound then ap_TenantKey prin else header"
  obtain identity where r: "ResolveAccess fault1 fault2 (ap_Subject prin) ?key (admin (ap_Subject prin)) d = Inr identity"
    and b: "?bound \<Longrightarrow> id_ID identity = ap_TenantID prin \<and> id_Key identity = ap_TenantKey prin"
    and h: "?bound \<Longrightarrow> header \<noteq> [] \<Longrightarrow> header = ap_TenantKey prin"
    and w: "WithTenant (Some c) identity = Inr tctx"
    and p: "p = prin\<lparr>ap_Subject := ap_Subject prin, ap_TenantID := id_ID identity, ap_TenantKey := id_Key identity\<rparr>"
    using assms unfolding bindAuthenticatedTenant_def
    by (auto simp: bindE_eq_Inr_iff Let_def dest!: subject split: if_splits)
  show ?thesis
    using ResolveAccess_Inr [OF r] WithTenant_FromContext [OF w] b h
    by (intro exI [of _ identity]) (auto simp: p split: if_splits)
qed

lemma CanManage_Inr:
  assumes "CanManage fault i subject globalAdmin d = Inr True"
  shows "globalAdmin \<or> (\<exists>m \<in> set (tb_rows (rg_members d)). owner_row i m \<and> tm_Subject m = subject)"
proof (cases globalAdmin)
  case False
  with assms obtain s where s: "normalizeSubject subject = Inr s"
    and f: "(case FindTenantMembership fault i s d of
        Inl e \<Rightarrow> if errors_Is e ErrNotFound then Inr False else Inl e
      | Inr m \<Rightarrow> Inr (tm_Enabled m \<and> tm_Role m = RoleOwner)) = Inr True"
    by (auto simp: CanManage_def bindE_eq_Inr_iff)
  from f obtain m where m: "FindTenantMembership fault i s d = Inr m" "tm_Enabled m" "tm_Role m = RoleOwner"
    by (cases "FindTenantMembership fault i s d") (simp_all split: if_splits)
  from FindTenantMembership_Inr [OF m(1)] m(2,3) normalizeSubject_Inr [OF s] show ?thesis
    by (auto simp: owner_row_def)
qed simp

end
