(* ===== verification/Config_Profiles.thy ===== *)
theory Config_Profiles
  imports Chat_Session
begin

text \<open>
  The operator-managed profiles that report policies bind: \<open>internal/domain/notification_channel_profile.go\<close>,
  \<open>alert_source_profile.go\<close> and \<open>grouping_policy.go\<close>. \<open>url_Parse\<close> is \<open>url.Parse\<close> of the standard
  library, with what the code reads of its result. The lemmas say what the constructors accept, and
  that the labels of a profile can depend on the iteration order of a map.
\<close>

section \<open>Texts\<close>

text \<open>
  \<open>containsControlOrSpace\<close>: the bytes of a space rune start a rune wherever they stand, because its
  first byte is never a continuation byte.
\<close>

fun contains_space :: "string \<Rightarrow> bool" where
  "contains_space [] = False"
| "contains_space (c # s) = (list_ex (\<lambda>p. has_prefix p (c # s)) space_runes \<or> contains_space s)"

definition containsControlOrSpace :: "string \<Rightarrow> bool" where
  "containsControlOrSpace s \<longleftrightarrow> contains_control s \<or> contains_space s"

record parsed_url =
  pu_Scheme :: string
  pu_Host :: string
  pu_HasUser :: bool
  pu_RawQuery :: string
  pu_Fragment :: string

section \<open>Labels\<close>

text \<open>
  The labels of both profiles; the loop visits the entries in the order of the map and later entries
  overwrite earlier ones with the same trimmed key.
\<close>

fun validate_labels :: "string \<Rightarrow> smap \<Rightarrow> smap \<Rightarrow> smap result" where
  "validate_labels what out [] = Inr out"
| "validate_labels what out ((rawKey, rawVal) # rest) =
     (let key = TrimSpace rawKey; val = TrimSpace rawVal in
      if key = [] then Inl (invariant_error (what @ '': label key must be non-empty''))
      else if length key > 64 then Inl (invariant_error (what @ '': label key exceeds 64 bytes''))
      else if length val > 128 then Inl (invariant_error (what @ '': label value exceeds 128 bytes''))
      else if contains_control key \<or> contains_control val then
        Inl (invariant_error (what @ '': labels must not contain control characters''))
      else validate_labels what (smap_put out key val) rest)"

definition validateAlertSourceLabels :: "smap option \<Rightarrow> smap result" where
  "validateAlertSourceLabels labels =
     (case labels of
        None \<Rightarrow> Inr []
      | Some m \<Rightarrow>
          if length m > 32 then Inl (invariant_error ''alert source profile: labels exceed 32 entries'')
          else validate_labels ''alert source profile'' [] m)"

definition validateNotificationChannelLabels :: "smap option \<Rightarrow> smap result" where
  "validateNotificationChannelLabels labels =
     (case labels of
        None \<Rightarrow> Inr []
      | Some m \<Rightarrow>
          if length m > 32 then Inl (invariant_error ''notification channel profile: labels exceed 32 entries'')
          else validate_labels ''notification channel profile'' [] m)"

section \<open>Alert sources\<close>

abbreviation AlertSourceKindPrometheus :: string where "AlertSourceKindPrometheus \<equiv> ''prometheus''"
abbreviation AlertSourceKindAlertmanager :: string where "AlertSourceKindAlertmanager \<equiv> ''alertmanager''"

record AlertSourceProfile =
  as_ID :: int
  as_Name :: string
  as_Kind :: string
  as_BaseURL :: string
  as_AuthMode :: string
  as_SecretRef :: string
  as_Enabled :: bool
  as_Labels :: smap
  as_CreatedAt :: go_time
  as_UpdatedAt :: go_time

definition AlertSourceKind_Valid :: "string \<Rightarrow> bool" where
  "AlertSourceKind_Valid k \<longleftrightarrow> k = AlertSourceKindPrometheus \<or> k = AlertSourceKindAlertmanager"

definition AlertSourceAuthMode_Valid :: "string \<Rightarrow> bool" where
  "AlertSourceAuthMode_Valid m \<longleftrightarrow> m = ''none'' \<or> m = ''bearer''"

definition validateAlertSourceBaseURL :: "(string \<Rightarrow> parsed_url option) \<Rightarrow> string \<Rightarrow> unit result" where
  "validateAlertSourceBaseURL url_Parse raw =
     (if raw = [] then Inl (invariant_error ''alert source profile: base_url must be non-empty'')
      else if length raw > 2048 then Inl (invariant_error ''alert source profile: base_url exceeds 2048 bytes'')
      else case url_Parse raw of
        None \<Rightarrow> Inl (invariant_error ''alert source profile: base_url must be a valid URL'')
      | Some parsed \<Rightarrow>
          if pu_Scheme parsed \<noteq> ''http'' \<and> pu_Scheme parsed \<noteq> ''https'' then
            Inl (invariant_error ''alert source profile: base_url scheme must be http or https'')
          else if pu_Host parsed = [] then
            Inl (invariant_error ''alert source profile: base_url host must be non-empty'')
          else if pu_HasUser parsed then
            Inl (invariant_error ''alert source profile: base_url must not include userinfo'')
          else if pu_RawQuery parsed \<noteq> [] \<or> pu_Fragment parsed \<noteq> [] then
            Inl (invariant_error ''alert source profile: base_url must not include query or fragment'')
          else Inr ())"

definition validateSecretRef :: "string \<Rightarrow> unit result" where
  "validateSecretRef secretRef =
     (if secretRef = [] then Inr ()
      else if length secretRef > 256 then
        Inl (invariant_error ''alert source profile: secret_ref exceeds 256 bytes'')
      else if containsControlOrSpace secretRef then
        Inl (invariant_error ''alert source profile: secret_ref must not contain whitespace or control characters'')
      else Inr ())"

definition NewAlertSourceProfile ::
  "(string \<Rightarrow> parsed_url option) \<Rightarrow> string \<Rightarrow> string \<Rightarrow> string \<Rightarrow> string \<Rightarrow> string \<Rightarrow> bool \<Rightarrow> smap option
   \<Rightarrow> AlertSourceProfile result" where
  "NewAlertSourceProfile url_Parse rawName kind rawURL authMode rawRef enabled labels =
     (let name = TrimSpace rawName; baseURL = TrimSpace rawURL; secretRef = TrimSpace rawRef in
      if name = [] then Inl (invariant_error ''alert source profile: name must be non-empty'')
      else if length name > 120 then Inl (invariant_error ''alert source profile: name exceeds 120 bytes'')
      else if \<not> AlertSourceKind_Valid kind then Inl (invariant_error ''alert source profile: kind is unsupported'')
      else bindE (validateAlertSourceBaseURL url_Parse baseURL) (\<lambda>_.
      if \<not> AlertSourceAuthMode_Valid authMode then
        Inl (invariant_error ''alert source profile: auth mode is unsupported'')
      else if authMode = ''none'' \<and> secretRef \<noteq> [] then
        Inl (invariant_error ''alert source profile: secret_ref requires bearer auth'')
      else if authMode = ''bearer'' \<and> secretRef = [] then
        Inl (invariant_error ''alert source profile: bearer auth requires secret_ref'')
      else bindE (validateSecretRef secretRef) (\<lambda>_.
      bindE (validateAlertSourceLabels labels) (\<lambda>normalizedLabels.
        Inr \<lparr>as_ID = 0, as_Name = name, as_Kind = kind, as_BaseURL = baseURL, as_AuthMode = authMode,
             as_SecretRef = secretRef, as_Enabled = enabled, as_Labels = normalizedLabels,
             as_CreatedAt = 0, as_UpdatedAt = 0\<rparr>))))"

section \<open>Grouping policies\<close>

record GroupingPolicy =
  gp_ID :: int
  gp_Name :: string
  gp_DimensionKeys :: "string list"
  gp_SeverityKey :: string
  gp_SourceFilter :: "string list"
  gp_Enabled :: bool
  gp_CreatedAt :: go_time
  gp_UpdatedAt :: go_time

definition validatePolicyKey :: "string \<Rightarrow> string \<Rightarrow> unit result" where
  "validatePolicyKey label v =
     (if length v > 64 then Inl (invariant_error (label @ '' exceeds 64 bytes''))
      else if containsControlOrSpace v then
        Inl (invariant_error (label @ '' must not contain whitespace or control characters''))
      else Inr ())"

text \<open>The loop of \<open>normalizePolicyKeyList\<close>: the set \<open>seen\<close> as the list of its elements.\<close>

fun policy_keys :: "string \<Rightarrow> string list \<Rightarrow> string list \<Rightarrow> string list result" where
  "policy_keys label seen [] = Inr seen"
| "policy_keys label seen (raw # rest) =
     (let v = TrimSpace raw in
      if v = [] then Inl (invariant_error (label @ '' must be non-empty''))
      else bindE (validatePolicyKey label v) (\<lambda>_. policy_keys label (List.insert v seen) rest))"

definition normalizePolicyKeyList :: "string \<Rightarrow> string list \<Rightarrow> nat \<Rightarrow> string list result" where
  "normalizePolicyKeyList label values maxEntries =
     (if values = [] then Inl (invariant_error (label @ '' list must be non-empty''))
      else bindE (policy_keys label [] values) (\<lambda>seen.
        if length seen > maxEntries then Inl (invariant_error (label @ '' list exceeds the maximum of entries''))
        else Inr (sort seen)))"

fun source_filter_values :: "string list \<Rightarrow> string list \<Rightarrow> string list result" where
  "source_filter_values seen [] = Inr seen"
| "source_filter_values seen (raw # rest) =
     (let v = TrimSpace raw in
      if v = [] then Inl (invariant_error ''source_filter value must be non-empty'')
      else if length v > 64 then Inl (invariant_error ''source_filter value exceeds 64 bytes'')
      else if containsControlOrSpace v then
        Inl (invariant_error ''source_filter value must not contain whitespace or control characters'')
      else source_filter_values (List.insert v seen) rest)"

definition normalizeSourceFilter :: "string list \<Rightarrow> string list result" where
  "normalizeSourceFilter values =
     bindE (source_filter_values [] values) (\<lambda>seen.
       if length seen > 16 then Inl (invariant_error ''source_filter exceeds 16 entries'')
       else Inr (sort seen))"

definition NewGroupingPolicy ::
  "string \<Rightarrow> string list \<Rightarrow> string \<Rightarrow> string list \<Rightarrow> bool \<Rightarrow> GroupingPolicy result" where
  "NewGroupingPolicy rawName dimensionKeys rawKey sourceFilter enabled =
     (let name = TrimSpace rawName; severityKey = TrimSpace rawKey in
      if name = [] then Inl (invariant_error ''grouping policy: name must be non-empty'')
      else if length name > 120 then Inl (invariant_error ''grouping policy: name exceeds 120 bytes'')
      else case normalizePolicyKeyList ''dimension key'' dimensionKeys 16 of
        Inl e \<Rightarrow> Inl (wrap_error ''grouping policy'' e)
      | Inr normalizedDimensions \<Rightarrow>
      if severityKey = [] then Inl (invariant_error ''grouping policy: severity_key must be non-empty'')
      else case validatePolicyKey ''severity_key'' severityKey of
        Inl e \<Rightarrow> Inl (wrap_error ''grouping policy'' e)
      | Inr _ \<Rightarrow>
      (case normalizeSourceFilter sourceFilter of
        Inl e \<Rightarrow> Inl (wrap_error ''grouping policy'' e)
      | Inr normalizedSources \<Rightarrow>
          Inr \<lparr>gp_ID = 0, gp_Name = name, gp_DimensionKeys = normalizedDimensions, gp_SeverityKey = severityKey,
               gp_SourceFilter = normalizedSources, gp_Enabled = enabled, gp_CreatedAt = 0, gp_UpdatedAt = 0\<rparr>))"

section \<open>Notification channels\<close>

abbreviation ChannelKindWeCom :: string where "ChannelKindWeCom \<equiv> ''wecom''"
abbreviation ScopeReport :: string where "ScopeReport \<equiv> ''report''"
abbreviation ScopeDiagnosisConsultation :: string where "ScopeDiagnosisConsultation \<equiv> ''diagnosis_consultation''"
abbreviation ScopeDiagnosisClose :: string where "ScopeDiagnosisClose \<equiv> ''diagnosis_close''"
abbreviation AIDiagnosisSample :: string where "AIDiagnosisSample \<equiv> ''ai_diagnosis_sample''"
abbreviation DiagnosisCloseSample :: string where "DiagnosisCloseSample \<equiv> ''diagnosis_close_sample''"

definition NotificationChannelKind_Valid :: "string \<Rightarrow> bool" where
  "NotificationChannelKind_Valid k \<longleftrightarrow>
     k \<in> set [''webhook'', ChannelKindWeCom, ''dingtalk'', ''feishu'', ''slack'', ''email'']"

definition NotificationDeliveryScope_Valid :: "string \<Rightarrow> bool" where
  "NotificationDeliveryScope_Valid s \<longleftrightarrow> s \<in> set [ScopeReport, ScopeDiagnosisConsultation, ScopeDiagnosisClose]"

definition TestStatus_Valid :: "string \<Rightarrow> bool" where
  "TestStatus_Valid s \<longleftrightarrow> s \<in> set [''success'', ''failed'', ''unsupported'', ''blocked'']"

definition TestReasonCode_Valid :: "string \<Rightarrow> bool" where
  "TestReasonCode_Valid c \<longleftrightarrow> c \<in> set [''ok'', ''unsupported_kind'', ''credentials_unavailable'',
     ''provider_unreachable'', ''provider_error'', ''invalid_profile'']"

definition TestContentKind_Valid :: "string \<Rightarrow> bool" where
  "TestContentKind_Valid k \<longleftrightarrow> k \<in> set [''transport_sample'', AIDiagnosisSample, DiagnosisCloseSample]"

record ChannelTestProof =
  pf_ID :: int
  pf_ProfileID :: int
  pf_Kind :: string
  pf_Status :: string
  pf_ReasonCode :: string
  pf_Message :: string
  pf_ContentKind :: string
  pf_ContentSHA256 :: string
  pf_CheckedAt :: go_time
  pf_ProviderMessageID :: string
  pf_ProviderStatus :: string
  pf_CreatedAt :: go_time

record ChannelProfile =
  cp_ID :: int
  cp_Name :: string
  cp_Kind :: string
  cp_SecretRef :: string
  cp_DeliveryScopes :: "string list"
  cp_Enabled :: bool
  cp_Labels :: smap
  cp_LatestTestProofs :: "ChannelTestProof list"
  cp_CreatedAt :: go_time
  cp_UpdatedAt :: go_time

definition validNotificationContentSHA256 :: "string \<Rightarrow> bool" where
  "validNotificationContentSHA256 v \<longleftrightarrow> length v = 64 \<and> isLowerHex v"

fun has_current_proof :: "ChannelProfile \<Rightarrow> string \<Rightarrow> ChannelTestProof list \<Rightarrow> bool" where
  "has_current_proof p contentKind [] = False"
| "has_current_proof p contentKind (proof # rest) =
     (if pf_ProfileID proof \<noteq> cp_ID p \<or> pf_Kind proof \<noteq> cp_Kind p \<or> pf_Status proof \<noteq> ''success''
         \<or> pf_ContentKind proof \<noteq> contentKind
         \<or> \<not> validNotificationContentSHA256 (TrimSpace (pf_ContentSHA256 proof)) \<or> IsZero (pf_CheckedAt proof)
      then has_current_proof p contentKind rest
      else if \<not> IsZero (cp_UpdatedAt p) \<and> pf_CheckedAt proof < cp_UpdatedAt p
      then has_current_proof p contentKind rest
      else True)"

definition hasCurrentSuccessfulTestProof :: "ChannelProfile \<Rightarrow> string \<Rightarrow> bool" where
  "hasCurrentSuccessfulTestProof p contentKind = has_current_proof p contentKind (cp_LatestTestProofs p)"

definition MissingAIDiagnosisProofContentKinds :: "ChannelProfile \<Rightarrow> string list" where
  "MissingAIDiagnosisProofContentKinds p =
     filter (\<lambda>k. \<not> hasCurrentSuccessfulTestProof p k) [AIDiagnosisSample, DiagnosisCloseSample]"

definition notificationSecretRefLooksLikeEndpointURL :: "(string \<Rightarrow> parsed_url option) \<Rightarrow> string \<Rightarrow> bool" where
  "notificationSecretRefLooksLikeEndpointURL url_Parse secretRef \<longleftrightarrow>
     (case url_Parse secretRef of
        None \<Rightarrow> False
      | Some parsed \<Rightarrow> pu_Scheme parsed \<noteq> [] \<and>
          map lower_byte (pu_Scheme parsed) \<in> set [''http'', ''https'', ''smtp'', ''smtps''])"

definition validateNotificationChannelSecretRef ::
  "(string \<Rightarrow> parsed_url option) \<Rightarrow> string \<Rightarrow> unit result" where
  "validateNotificationChannelSecretRef url_Parse secretRef =
     (if secretRef = [] then Inl (invariant_error ''notification channel profile: secret_ref must be non-empty'')
      else if length secretRef > 256 then
        Inl (invariant_error ''notification channel profile: secret_ref exceeds 256 bytes'')
      else if containsControlOrSpace secretRef then
        Inl (invariant_error
          ''notification channel profile: secret_ref must not contain whitespace or control characters'')
      else if notificationSecretRefLooksLikeEndpointURL url_Parse secretRef then
        Inl (invariant_error
          ''notification channel profile: secret_ref must reference server-side secret storage, not an endpoint URL'')
      else Inr ())"

fun delivery_scopes :: "string list \<Rightarrow> string list \<Rightarrow> string list result" where
  "delivery_scopes seen [] = Inr seen"
| "delivery_scopes seen (raw # rest) =
     (let scope = TrimSpace raw in
      if scope = [] then Inl (invariant_error ''notification channel profile: delivery scope must be non-empty'')
      else if \<not> NotificationDeliveryScope_Valid scope then
        Inl (invariant_error ''notification channel profile: delivery scope is unsupported'')
      else delivery_scopes (List.insert scope seen) rest)"

definition normalizeNotificationDeliveryScopes :: "string list \<Rightarrow> string list result" where
  "normalizeNotificationDeliveryScopes scopes =
     (if scopes = [] then
        Inl (invariant_error ''notification channel profile: delivery_scopes must be non-empty'')
      else bindE (delivery_scopes [] scopes) (\<lambda>seen. Inr (sort seen)))"

definition notificationScopesRequireWeCom :: "string list \<Rightarrow> bool" where
  "notificationScopesRequireWeCom scopes =
     list_ex (\<lambda>s. s = ScopeDiagnosisConsultation \<or> s = ScopeDiagnosisClose) scopes"

definition NewNotificationChannelProfile ::
  "(string \<Rightarrow> parsed_url option) \<Rightarrow> string \<Rightarrow> string \<Rightarrow> string \<Rightarrow> string list \<Rightarrow> bool \<Rightarrow> smap option
   \<Rightarrow> ChannelProfile result" where
  "NewNotificationChannelProfile url_Parse rawName kind rawRef deliveryScopes enabled labels =
     (let name = TrimSpace rawName; secretRef = TrimSpace rawRef in
      if name = [] then Inl (invariant_error ''notification channel profile: name must be non-empty'')
      else if length name > 120 then Inl (invariant_error ''notification channel profile: name exceeds 120 bytes'')
      else if \<not> NotificationChannelKind_Valid kind then
        Inl (invariant_error ''notification channel profile: kind is unsupported'')
      else bindE (validateNotificationChannelSecretRef url_Parse secretRef) (\<lambda>_.
      bindE (normalizeNotificationDeliveryScopes deliveryScopes) (\<lambda>normalizedScopes.
      if kind \<noteq> ChannelKindWeCom \<and> notificationScopesRequireWeCom normalizedScopes then
        Inl (invariant_error
          ''notification channel profile: diagnosis delivery scopes require an Enterprise WeChat channel'')
      else bindE (validateNotificationChannelLabels labels) (\<lambda>normalizedLabels.
        Inr \<lparr>cp_ID = 0, cp_Name = name, cp_Kind = kind, cp_SecretRef = secretRef,
             cp_DeliveryScopes = normalizedScopes, cp_Enabled = enabled, cp_Labels = normalizedLabels,
             cp_LatestTestProofs = [], cp_CreatedAt = 0, cp_UpdatedAt = 0\<rparr>))))"

definition NewNotificationChannelTestProof :: "ChannelTestProof \<Rightarrow> ChannelTestProof result" where
  "NewNotificationChannelTestProof i =
     (let message = TrimSpace (pf_Message i); contentSHA256 = TrimSpace (pf_ContentSHA256 i);
          providerMessageID = TrimSpace (pf_ProviderMessageID i); providerStatus = TrimSpace (pf_ProviderStatus i) in
      if pf_ProfileID i \<le> 0 then
        Inl (invariant_error ''notification channel test proof: profile id must be positive'')
      else if \<not> NotificationChannelKind_Valid (pf_Kind i) then
        Inl (invariant_error ''notification channel test proof: kind is unsupported'')
      else if \<not> TestStatus_Valid (pf_Status i) then
        Inl (invariant_error ''notification channel test proof: status is unsupported'')
      else if \<not> TestReasonCode_Valid (pf_ReasonCode i) then
        Inl (invariant_error ''notification channel test proof: reason_code is unsupported'')
      else if message = [] then
        Inl (invariant_error ''notification channel test proof: message must be non-empty'')
      else if length message > 240 then
        Inl (invariant_error ''notification channel test proof: message exceeds 240 bytes'')
      else if contains_control message then
        Inl (invariant_error ''notification channel test proof: message must not contain control characters'')
      else if pf_ContentKind i \<noteq> [] \<and> \<not> TestContentKind_Valid (pf_ContentKind i) then
        Inl (invariant_error ''notification channel test proof: content_kind is unsupported'')
      else if pf_ContentKind i = [] \<and> contentSHA256 \<noteq> [] then
        Inl (invariant_error ''notification channel test proof: content_sha256 requires content_kind'')
      else if pf_ContentKind i \<noteq> [] \<and> \<not> validNotificationContentSHA256 contentSHA256 then
        Inl (invariant_error
          ''notification channel test proof: content_sha256 must be a lowercase SHA-256 hex digest'')
      else if IsZero (pf_CheckedAt i) then
        Inl (invariant_error ''notification channel test proof: checked_at must be set'')
      else if length providerMessageID > 128 then
        Inl (invariant_error ''notification channel test proof: provider_message_id exceeds 128 bytes'')
      else if length providerStatus > 64 then
        Inl (invariant_error ''notification channel test proof: provider_status exceeds 64 bytes'')
      else if contains_control providerMessageID \<or> contains_control providerStatus then
        Inl (invariant_error ''notification channel test proof: provider fields must not contain control characters'')
      else Inr (i\<lparr>pf_ID := 0, pf_Message := message, pf_ContentSHA256 := contentSHA256,
                  pf_CheckedAt := NormalizeUTCMicro (pf_CheckedAt i), pf_ProviderMessageID := providerMessageID,
                  pf_ProviderStatus := providerStatus, pf_CreatedAt := 0\<rparr>))"

section \<open>What the constructors accept\<close>

lemma hasCurrentSuccessfulTestProof_iff:
  "hasCurrentSuccessfulTestProof p k \<longleftrightarrow>
     (\<exists>proof \<in> set (cp_LatestTestProofs p). pf_ProfileID proof = cp_ID p \<and> pf_Kind proof = cp_Kind p \<and>
        pf_Status proof = ''success'' \<and> pf_ContentKind proof = k \<and>
        validNotificationContentSHA256 (TrimSpace (pf_ContentSHA256 proof)) \<and> pf_CheckedAt proof \<noteq> 0 \<and>
        (cp_UpdatedAt p = 0 \<or> cp_UpdatedAt p \<le> pf_CheckedAt proof))"
proof -
  have "has_current_proof p k proofs \<longleftrightarrow>
     (\<exists>proof \<in> set proofs. pf_ProfileID proof = cp_ID p \<and> pf_Kind proof = cp_Kind p \<and>
        pf_Status proof = ''success'' \<and> pf_ContentKind proof = k \<and>
        validNotificationContentSHA256 (TrimSpace (pf_ContentSHA256 proof)) \<and> pf_CheckedAt proof \<noteq> 0 \<and>
        (cp_UpdatedAt p = 0 \<or> cp_UpdatedAt p \<le> pf_CheckedAt proof))" for proofs
    by (induction proofs) (auto simp: IsZero_def)
  then show ?thesis by (simp add: hasCurrentSuccessfulTestProof_def)
qed

lemma delivery_scopes_Inr:
  assumes "delivery_scopes seen scopes = Inr out" "distinct seen"
  shows "distinct out" "set out = set seen \<union> TrimSpace ` set scopes"
  using assms by (induction seen scopes rule: delivery_scopes.induct) (auto simp: Let_def distinct_insert)

lemma policy_keys_Inr:
  assumes "policy_keys label seen vs = Inr out" "distinct seen"
  shows "distinct out" "set out = set seen \<union> TrimSpace ` set vs"
  using assms by (induction label seen vs rule: policy_keys.induct) (auto simp: Let_def distinct_insert bindE_eq_Inr_iff)

lemma source_filter_values_Inr:
  assumes "source_filter_values seen vs = Inr out" "distinct seen"
  shows "distinct out" "set out = set seen \<union> TrimSpace ` set vs"
  using assms by (induction seen vs rule: source_filter_values.induct) (auto simp: Let_def distinct_insert)

text \<open>Only an Enterprise WeChat channel takes part in a diagnosis, whatever is asked for.\<close>

lemma channel_scopes:
  assumes "NewNotificationChannelProfile url_Parse name kind ref scopes enabled labels = Inr p"
  shows "sorted (cp_DeliveryScopes p)" "distinct (cp_DeliveryScopes p)" "cp_DeliveryScopes p \<noteq> []"
    "set (cp_DeliveryScopes p) = TrimSpace ` set scopes"
    "ScopeDiagnosisConsultation \<in> set (cp_DeliveryScopes p) \<or> ScopeDiagnosisClose \<in> set (cp_DeliveryScopes p) \<Longrightarrow>
       cp_Kind p = ChannelKindWeCom"
proof -
  obtain seen where seen: "delivery_scopes [] scopes = Inr seen" and p: "cp_DeliveryScopes p = sort seen"
    and ne: "scopes \<noteq> []" and wc: "kind \<noteq> ChannelKindWeCom \<Longrightarrow> \<not> notificationScopesRequireWeCom (sort seen)"
    and kind: "cp_Kind p = kind"
    using assms by (auto simp: NewNotificationChannelProfile_def normalizeNotificationDeliveryScopes_def Let_def
        bindE_eq_Inr_iff split: if_splits)
  note s = delivery_scopes_Inr [OF seen]
  show "sorted (cp_DeliveryScopes p)" "distinct (cp_DeliveryScopes p)" "set (cp_DeliveryScopes p) = TrimSpace ` set scopes"
    using s by (simp_all add: p)
  then show "cp_DeliveryScopes p \<noteq> []" using ne by auto
  show "ScopeDiagnosisConsultation \<in> set (cp_DeliveryScopes p) \<or> ScopeDiagnosisClose \<in> set (cp_DeliveryScopes p) \<Longrightarrow>
       cp_Kind p = ChannelKindWeCom"
    using wc unfolding kind p notificationScopesRequireWeCom_def list_ex_iff by blast
qed

text \<open>
  Two keys of a map that are the same after trimming: which value the profile keeps depends on the
  order in which the map is visited.
\<close>

definition spaced_labels :: smap where
  "spaced_labels = [(''team'', ''a''), ('' team'', ''b'')]"

lemma labels_depend_on_order:
  "wf_smap spaced_labels \<and> mset (rev spaced_labels) = mset spaced_labels \<and>
   validateNotificationChannelLabels (Some spaced_labels) = Inr [(''team'', ''b'')] \<and>
   validateNotificationChannelLabels (Some (rev spaced_labels)) = Inr [(''team'', ''a'')]"
proof (intro conjI)
  show "wf_smap spaced_labels" by code_simp
  show "mset (rev spaced_labels) = mset spaced_labels" by simp
  show "validateNotificationChannelLabels (Some spaced_labels) = Inr [(''team'', ''b'')]" by code_simp
  show "validateNotificationChannelLabels (Some (rev spaced_labels)) = Inr [(''team'', ''a'')]" by code_simp
qed

end
