(* ===== verification/Report_Config.thy ===== *)
theory Report_Config
  imports Repo_Rows Repo_Tx Config_Profiles
begin

text \<open>
  Report policies and report schedules: \<open>internal/domain/report_workflow_policy.go\<close> and
  \<open>report_workflow_schedule.go\<close>, and the methods of \<open>persistence/repository/config_repo.go\<close> on their
  tables. The database is the partition of one tenant; the identifiers of Temporal schedules are
  unique over all tenants, so those of the others are a component of it. A fault is the driver's
  answer to the statement of the method it is named after. A write of a policy or a schedule passes
  the check of its references that the tenant hook makes.
\<close>

section \<open>Policies\<close>

abbreviation ManualReplay :: string where "ManualReplay \<equiv> ''manual_replay''"
abbreviation FollowUpAutoRoom :: string where "FollowUpAutoRoom \<equiv> ''auto_room''"
abbreviation FollowUpDisabled :: string where "FollowUpDisabled \<equiv> ''disabled''"

definition TriggerMode_Valid :: "string \<Rightarrow> bool" where
  "TriggerMode_Valid m \<longleftrightarrow> m = ManualReplay"

definition ReportScenario_Valid :: "string \<Rightarrow> bool" where
  "ReportScenario_Valid s \<longleftrightarrow> s \<in> set [''single_alert'', ''cascade'', ''alert_storm'']"

definition DiagnosisFollowUp_Valid :: "string \<Rightarrow> bool" where
  "DiagnosisFollowUp_Valid m \<longleftrightarrow> m \<in> set [FollowUpDisabled, ''suggest_room'', FollowUpAutoRoom]"

record ReportWorkflowPolicy =
  wp_ID :: int
  wp_Name :: string
  wp_AlertSourceProfileID :: int
  wp_GroupingPolicyID :: int
  wp_ChannelProfileID :: int
  wp_MaxFailedSubReports :: int
  wp_TriggerMode :: string
  wp_ReportScenario :: string
  wp_DiagnosisFollowUp :: string
  wp_Enabled :: bool
  wp_EnabledAt :: "go_time option"
  wp_DisabledAt :: "go_time option"
  wp_CreatedAt :: go_time
  wp_UpdatedAt :: go_time

text \<open>The arguments of the constructor are the fields of \<open>i\<close>; the ID and the row times are not read.\<close>

definition NewReportWorkflowPolicy :: "ReportWorkflowPolicy \<Rightarrow> ReportWorkflowPolicy result" where
  "NewReportWorkflowPolicy i =
     (let name = TrimSpace (wp_Name i) in
      if name = [] then Inl (invariant_error ''report workflow policy: name must be non-empty'')
      else if length name > 120 then Inl (invariant_error ''report workflow policy: name exceeds 120 bytes'')
      else if wp_AlertSourceProfileID i = 0 then
        Inl (invariant_error ''report workflow policy: alert_source_profile_id must be non-zero'')
      else if wp_GroupingPolicyID i = 0 then
        Inl (invariant_error ''report workflow policy: grouping_policy_id must be non-zero'')
      else if wp_ChannelProfileID i < 0 then
        Inl (invariant_error
          ''report workflow policy: report_notification_channel_profile_id must be non-negative'')
      else if wp_MaxFailedSubReports i < 0 \<or> wp_MaxFailedSubReports i > 100000 then
        Inl (invariant_error ''report workflow policy: max_failed_sub_reports must be between 0 and 100000'')
      else if \<not> TriggerMode_Valid (wp_TriggerMode i) then
        Inl (invariant_error ''report workflow policy: trigger_mode is unsupported'')
      else if \<not> ReportScenario_Valid (wp_ReportScenario i) then
        Inl (invariant_error ''report workflow policy: report_scenario is unsupported'')
      else if \<not> DiagnosisFollowUp_Valid (wp_DiagnosisFollowUp i) then
        Inl (invariant_error ''report workflow policy: diagnosis_follow_up is unsupported'')
      else if \<not> wp_Enabled i \<and> wp_EnabledAt i \<noteq> None then
        Inl (invariant_error ''report workflow policy: enabled_at requires enabled=true'')
      else if wp_Enabled i \<and> wp_DisabledAt i \<noteq> None then
        Inl (invariant_error ''report workflow policy: disabled_at requires enabled=false'')
      else Inr (i\<lparr>wp_ID := 0, wp_Name := name, wp_CreatedAt := 0, wp_UpdatedAt := 0\<rparr>))"

definition WithReportWorkflowPolicyEnabled ::
  "ReportWorkflowPolicy \<Rightarrow> bool \<Rightarrow> go_time \<Rightarrow> ReportWorkflowPolicy result" where
  "WithReportWorkflowPolicyEnabled policy enabled rawAt =
     (if wp_ID policy = 0 then Inl (invariant_error ''report workflow policy: id must be non-zero'')
      else let at = NormalizeUTCMicro rawAt in
      if IsZero at then Inl (invariant_error ''report workflow policy: enablement time must be non-zero'')
      else Inr (policy\<lparr>wp_Enabled := enabled,
                 wp_EnabledAt := (if enabled then Some at else None),
                 wp_DisabledAt := (if enabled then None else Some at)\<rparr>))"

section \<open>Schedules\<close>

abbreviation CadenceInterval :: string where "CadenceInterval \<equiv> ''interval''"
abbreviation CadenceDaily :: string where "CadenceDaily \<equiv> ''daily''"
abbreviation CadenceWeekly :: string where "CadenceWeekly \<equiv> ''weekly''"
abbreviation CadenceMonthly :: string where "CadenceMonthly \<equiv> ''monthly''"

definition Cadence_Valid :: "string \<Rightarrow> bool" where
  "Cadence_Valid c \<longleftrightarrow> c = CadenceInterval \<or> c = CadenceDaily \<or> c = CadenceWeekly \<or> c = CadenceMonthly"

record ReportWorkflowSchedule =
  ws_ID :: int
  ws_Name :: string
  ws_PolicyID :: int
  ws_TemporalScheduleID :: string
  ws_Cadence :: string
  ws_CalendarHour :: int
  ws_CalendarMinute :: int
  ws_CalendarDayOfWeek :: int
  ws_CalendarDayOfMonth :: int
  ws_Interval :: go_duration
  ws_Offset :: go_duration
  ws_ReplayWindow :: go_duration
  ws_ReplayDelay :: go_duration
  ws_ReplayLimit :: int
  ws_CatchupWindow :: go_duration
  ws_Enabled :: bool
  ws_EnabledAt :: "go_time option"
  ws_DisabledAt :: "go_time option"
  ws_CreatedAt :: go_time
  ws_UpdatedAt :: go_time

definition validateTemporalScheduleID :: "string \<Rightarrow> unit result" where
  "validateTemporalScheduleID i =
     (if i = [] then Inl (invariant_error ''report workflow schedule: temporal_schedule_id must be non-empty'')
      else if length i > 200 then
        Inl (invariant_error ''report workflow schedule: temporal_schedule_id exceeds 200 bytes'')
      else if containsControlOrSpace i then
        Inl (invariant_error
          ''report workflow schedule: temporal_schedule_id must not contain whitespace or control characters'')
      else Inr ())"

definition validateReportWorkflowScheduleReplayCadence :: "go_duration \<Rightarrow> go_duration \<Rightarrow> unit result" where
  "validateReportWorkflowScheduleReplayCadence interval replayWindow =
     (if replayWindow > interval then
        Inl (invariant_error ''report workflow schedule: replay_window must not exceed interval'')
      else Inr ())"

definition validateReportWorkflowScheduleCadenceShape ::
  "string \<Rightarrow> int \<Rightarrow> int \<Rightarrow> int \<Rightarrow> int \<Rightarrow> go_duration \<Rightarrow> go_duration \<Rightarrow> go_duration \<Rightarrow> unit result" where
  "validateReportWorkflowScheduleCadenceShape cadence hour minute dayOfWeek dayOfMonth interval offset replayWindow =
     (if \<not> Cadence_Valid (cadence) then
        Inl (invariant_error ''report workflow schedule: cadence is unsupported'')
      else if hour < 0 \<or> hour > 23 then
        Inl (invariant_error ''report workflow schedule: calendar_hour must be between 0 and 23'')
      else if minute < 0 \<or> minute > 59 then
        Inl (invariant_error ''report workflow schedule: calendar_minute must be between 0 and 59'')
      else if cadence = CadenceInterval \<and>
          (hour \<noteq> 0 \<or> minute \<noteq> 0 \<or> dayOfWeek \<noteq> 0
           \<or> dayOfMonth \<noteq> 0) then
        Inl (invariant_error ''report workflow schedule: interval cadence must not include calendar fields'')
      else if cadence = CadenceDaily \<and> (dayOfWeek \<noteq> 0 \<or> dayOfMonth \<noteq> 0) then
        Inl (invariant_error ''report workflow schedule: daily cadence must not include calendar day fields'')
      else if cadence = CadenceWeekly \<and> (dayOfWeek < 0 \<or> dayOfWeek > 6) then
        Inl (invariant_error ''report workflow schedule: calendar_day_of_week must be between 0 and 6'')
      else if cadence = CadenceWeekly \<and> dayOfMonth \<noteq> 0 then
        Inl (invariant_error ''report workflow schedule: weekly cadence must not include calendar_day_of_month'')
      else if cadence = CadenceMonthly \<and> (dayOfMonth < 1 \<or> dayOfMonth > 28) then
        Inl (invariant_error ''report workflow schedule: calendar_day_of_month must be between 1 and 28'')
      else if cadence = CadenceMonthly \<and> dayOfWeek \<noteq> 0 then
        Inl (invariant_error ''report workflow schedule: monthly cadence must not include calendar_day_of_week'')
      else if cadence \<noteq> CadenceInterval then
        (if offset \<noteq> 0 then
           Inl (invariant_error ''report workflow schedule: offset must be zero for calendar cadence'')
         else if interval \<le> 0 \<or> offset < 0 \<or> offset \<ge> interval then Inr ()
         else if replayWindow > interval then
           Inl (invariant_error ''report workflow schedule: replay_window must not exceed cadence guard interval'')
         else Inr ())
      else Inr ())"

definition NewReportWorkflowScheduleWithCadence :: "ReportWorkflowSchedule \<Rightarrow> ReportWorkflowSchedule result" where
  "NewReportWorkflowScheduleWithCadence i =
     (let name = TrimSpace (ws_Name i); temporalID = TrimSpace (ws_TemporalScheduleID i);
          i = i\<lparr>ws_Cadence := (if ws_Cadence i = [] then CadenceInterval else ws_Cadence i)\<rparr> in
      if name = [] then Inl (invariant_error ''report workflow schedule: name must be non-empty'')
      else if length name > 120 then Inl (invariant_error ''report workflow schedule: name exceeds 120 bytes'')
      else if ws_PolicyID i = 0 then
        Inl (invariant_error ''report workflow schedule: report_workflow_policy_id must be non-zero'')
      else bindE (validateTemporalScheduleID temporalID) (\<lambda>_.
      bindE (validateReportWorkflowScheduleCadenceShape (ws_Cadence i) (ws_CalendarHour i) (ws_CalendarMinute i)
             (ws_CalendarDayOfWeek i) (ws_CalendarDayOfMonth i) (ws_Interval i) (ws_Offset i) (ws_ReplayWindow i)) (\<lambda>_.
      if ws_Interval i \<le> 0 then Inl (invariant_error ''report workflow schedule: interval must be positive'')
      else if ws_Offset i < 0 then
        Inl (invariant_error ''report workflow schedule: offset must be non-negative'')
      else if ws_Offset i \<ge> ws_Interval i then
        Inl (invariant_error ''report workflow schedule: offset must be less than interval'')
      else if ws_ReplayWindow i \<le> 0 then
        Inl (invariant_error ''report workflow schedule: replay_window must be positive'')
      else bindE (validateReportWorkflowScheduleReplayCadence (ws_Interval i) (ws_ReplayWindow i)) (\<lambda>_.
      if ws_ReplayDelay i < 0 then
        Inl (invariant_error ''report workflow schedule: replay_delay must be non-negative'')
      else if ws_ReplayLimit i \<le> 0 then
        Inl (invariant_error ''report workflow schedule: replay_limit must be positive'')
      else if ws_CatchupWindow i \<le> 0 then
        Inl (invariant_error ''report workflow schedule: catchup_window must be positive'')
      else if \<not> ws_Enabled i \<and> ws_EnabledAt i \<noteq> None then
        Inl (invariant_error ''report workflow schedule: enabled_at requires enabled=true'')
      else if ws_Enabled i \<and> ws_DisabledAt i \<noteq> None then
        Inl (invariant_error ''report workflow schedule: disabled_at requires enabled=false'')
      else Inr (i\<lparr>ws_ID := 0, ws_Name := name, ws_TemporalScheduleID := temporalID, ws_CreatedAt := 0,
                  ws_UpdatedAt := 0\<rparr>)))))"

definition NewReportWorkflowSchedule :: "ReportWorkflowSchedule \<Rightarrow> ReportWorkflowSchedule result" where
  "NewReportWorkflowSchedule i =
     NewReportWorkflowScheduleWithCadence
       (i\<lparr>ws_Cadence := CadenceInterval, ws_CalendarHour := 0, ws_CalendarMinute := 0,
          ws_CalendarDayOfWeek := 0, ws_CalendarDayOfMonth := 0\<rparr>)"

definition WithReportWorkflowScheduleEnabled ::
  "ReportWorkflowSchedule \<Rightarrow> bool \<Rightarrow> go_time \<Rightarrow> ReportWorkflowSchedule result" where
  "WithReportWorkflowScheduleEnabled schedule enabled rawAt =
     (if ws_ID schedule = 0 then Inl (invariant_error ''report workflow schedule: id must be non-zero'')
      else let at = NormalizeUTCMicro rawAt in
      if IsZero at then Inl (invariant_error ''report workflow schedule: enablement time must be non-zero'')
      else bindE (if enabled
                  then validateReportWorkflowScheduleReplayCadence (ws_Interval schedule) (ws_ReplayWindow schedule)
                  else Inr ()) (\<lambda>_.
        Inr (schedule\<lparr>ws_Enabled := enabled,
               ws_EnabledAt := (if enabled then Some at else None),
               ws_DisabledAt := (if enabled then None else Some at)\<rparr>)))"

section \<open>Tables\<close>

record config_db =
  cd_sources :: "AlertSourceProfile rows"
  cd_groupings :: "GroupingPolicy rows"
  cd_channels :: "ChannelProfile rows"
  cd_policies :: "ReportWorkflowPolicy rows"
  cd_schedules :: "ReportWorkflowSchedule rows"
  cd_foreign_schedule_ids :: "string list"

type_synonym config_faults = "string \<Rightarrow> go_error option"

text \<open>\<open>Get\<close> of one row by its ID.\<close>

definition find_config_row ::
  "string \<Rightarrow> ('a \<Rightarrow> int) \<Rightarrow> (config_db \<Rightarrow> 'a rows) \<Rightarrow> go_error option \<Rightarrow> int \<Rightarrow> (config_db, 'a) tx" where
  "find_config_row what rid table fault i =
     opened (if i = 0 then liftT (Inl (invariant_error (what @ '': id must be non-zero'')))
       else mapErrT asNotFound (only_row fault (\<lambda>d. filter (\<lambda>r. rid r = i) (tb_rows (table d)))))"

definition FindAlertSourceProfileByID :: "config_faults \<Rightarrow> int \<Rightarrow> (config_db, AlertSourceProfile) tx" where
  "FindAlertSourceProfileByID fl =
     find_config_row ''find alert source profile'' as_ID cd_sources (fl ''FindAlertSourceProfileByID'')"

definition FindGroupingPolicyByID :: "config_faults \<Rightarrow> int \<Rightarrow> (config_db, GroupingPolicy) tx" where
  "FindGroupingPolicyByID fl =
     find_config_row ''find grouping policy'' gp_ID cd_groupings (fl ''FindGroupingPolicyByID'')"

definition FindNotificationChannelProfileByID :: "config_faults \<Rightarrow> int \<Rightarrow> (config_db, ChannelProfile) tx" where
  "FindNotificationChannelProfileByID fl =
     find_config_row ''find notification channel profile'' cp_ID cd_channels
       (fl ''FindNotificationChannelProfileByID'')"

definition FindReportWorkflowPolicyByID :: "config_faults \<Rightarrow> int \<Rightarrow> (config_db, ReportWorkflowPolicy) tx" where
  "FindReportWorkflowPolicyByID fl =
     find_config_row ''find report workflow policy'' wp_ID cd_policies (fl ''FindReportWorkflowPolicyByID'')"

definition FindReportWorkflowScheduleByID :: "config_faults \<Rightarrow> int \<Rightarrow> (config_db, ReportWorkflowSchedule) tx" where
  "FindReportWorkflowScheduleByID fl =
     find_config_row ''find report workflow schedule'' ws_ID cd_schedules (fl ''FindReportWorkflowScheduleByID'')"

text \<open>The reference check of the tenant hook.\<close>

definition missing_relation :: go_error where
  "missing_relation =
     GoErr ''repository: relation ids are missing or belong to another tenant'' [ErrPreconditionFailed]"

definition policy_relations_ok :: "ReportWorkflowPolicy \<Rightarrow> config_db \<Rightarrow> bool" where
  "policy_relations_ok p d \<longleftrightarrow>
     wp_AlertSourceProfileID p \<in> as_ID ` set (tb_rows (cd_sources d)) \<and>
     wp_GroupingPolicyID p \<in> gp_ID ` set (tb_rows (cd_groupings d)) \<and>
     (wp_ChannelProfileID p \<noteq> 0 \<longrightarrow> wp_ChannelProfileID p \<in> cp_ID ` set (tb_rows (cd_channels d)))"

definition schedule_relations_ok :: "ReportWorkflowSchedule \<Rightarrow> config_db \<Rightarrow> bool" where
  "schedule_relations_ok s d \<longleftrightarrow> ws_PolicyID s \<in> wp_ID ` set (tb_rows (cd_policies d))"

definition policy_validators :: "ReportWorkflowPolicy \<Rightarrow> bool" where
  "policy_validators p \<longleftrightarrow> length (wp_Name p) \<le> 120 \<and> wp_Name p \<noteq> [] \<and> wp_AlertSourceProfileID p > 0 \<and>
     wp_GroupingPolicyID p > 0 \<and> (wp_ChannelProfileID p = 0 \<or> wp_ChannelProfileID p > 0) \<and>
     wp_MaxFailedSubReports p \<ge> 0 \<and> length (wp_TriggerMode p) \<le> 32 \<and> length (wp_ReportScenario p) \<le> 32 \<and>
     length (wp_DiagnosisFollowUp p) \<le> 32"

definition schedule_validators :: "ReportWorkflowSchedule \<Rightarrow> bool" where
  "schedule_validators s \<longleftrightarrow> length (ws_Name s) \<le> 120 \<and> ws_Name s \<noteq> [] \<and> ws_PolicyID s > 0 \<and>
     length (ws_TemporalScheduleID s) \<le> 200 \<and> ws_TemporalScheduleID s \<noteq> [] \<and> length (ws_Cadence s) \<le> 32 \<and>
     ws_CalendarHour s \<ge> 0 \<and> ws_CalendarMinute s \<ge> 0 \<and> ws_CalendarDayOfWeek s \<ge> 0 \<and>
     ws_CalendarDayOfMonth s \<ge> 0 \<and> ws_Interval s > 0 \<and> ws_Offset s \<ge> 0 \<and> ws_ReplayWindow s > 0 \<and>
     ws_ReplayDelay s \<ge> 0 \<and> ws_ReplayLimit s > 0 \<and> ws_CatchupWindow s > 0"

text \<open>
  \<open>Save\<close> with its hook: the relations are looked up first, in the same transaction, then the
  statement runs with its validators and unique indexes.
\<close>

definition save_config_row ::
  "(config_db \<Rightarrow> bool) \<Rightarrow> bool \<Rightarrow> go_error option \<Rightarrow> (config_db \<Rightarrow> (config_db \<times> 'a) result) \<Rightarrow> (config_db, 'a) tx" where
  "save_config_row relations validators fault stmt =
     bindT (\<lambda>u. query_stmt None u relations) (\<lambda>ok.
       if \<not> ok then liftT (Inl missing_relation)
       else if \<not> validators then liftT (Inl ent_validator_failed)
       else (\<lambda>u. exec_stmt fault u stmt))"

definition created_at :: "go_time \<Rightarrow> go_time \<Rightarrow> go_time" where
  "created_at now t = (if IsZero t then now else t)"

definition insert_policy ::
  "go_time \<Rightarrow> ReportWorkflowPolicy \<Rightarrow> config_db \<Rightarrow> (config_db \<times> ReportWorkflowPolicy) result" where
  "insert_policy now p d =
     bindE (insert_row (list_ex (\<lambda>r. wp_Name r = wp_Name p) (tb_rows (cd_policies d))) True
         (\<lambda>i. p\<lparr>wp_ID := i, wp_CreatedAt := created_at now (wp_CreatedAt p), wp_UpdatedAt := created_at now (wp_UpdatedAt p)\<rparr>)
         (cd_policies d))
       (\<lambda>(t, r). Inr (d\<lparr>cd_policies := t\<rparr>, r))"

definition SaveReportWorkflowPolicy ::
  "config_faults \<Rightarrow> go_time \<Rightarrow> ReportWorkflowPolicy \<Rightarrow> (config_db, ReportWorkflowPolicy) tx" where
  "SaveReportWorkflowPolicy fl now p =
     opened (mapErrT asAlreadyExists
       (save_config_row (policy_relations_ok p) (policy_validators p) (fl ''SaveReportWorkflowPolicy'')
          (insert_policy now p)))"

text \<open>
  The statement of an update: an index that another row already has is a violation, a row that is
  not there is not found; a mutation of a row that the tenant cannot see passes no reference check.
\<close>

definition update_config_row ::
  "('a \<Rightarrow> int) \<Rightarrow> (config_db \<Rightarrow> 'a rows) \<Rightarrow> ('a rows \<Rightarrow> config_db \<Rightarrow> config_db) \<Rightarrow> (config_db \<Rightarrow> bool) \<Rightarrow> int \<Rightarrow> ('a \<Rightarrow> 'a)
   \<Rightarrow> config_db \<Rightarrow> (config_db \<times> 'a) result" where
  "update_config_row rid table put duplicate i f d =
     (case update_row rid i f (table d) of
        (t, None) \<Rightarrow> Inl ent_not_found
      | (t, Some r) \<Rightarrow> if duplicate d then Inl pg_unique_violation else Inr (put t d, r))"

definition UpdateReportWorkflowPolicy ::
  "config_faults \<Rightarrow> go_time \<Rightarrow> ReportWorkflowPolicy \<Rightarrow> (config_db, ReportWorkflowPolicy) tx" where
  "UpdateReportWorkflowPolicy fl now p =
     opened (if wp_ID p = 0 then
         liftT (Inl (invariant_error ''update report workflow policy: id must be non-zero''))
       else mapErrT (\<lambda>e. asAlreadyExists (asNotFound e))
         (save_config_row
            (\<lambda>d. wp_ID p \<in> wp_ID ` set (tb_rows (cd_policies d)) \<longrightarrow> policy_relations_ok p d)
            (policy_validators p) (fl ''UpdateReportWorkflowPolicy'')
            (update_config_row wp_ID cd_policies (\<lambda>t d. d\<lparr>cd_policies := t\<rparr>)
               (\<lambda>d. list_ex (\<lambda>r. wp_ID r \<noteq> wp_ID p \<and> wp_Name r = wp_Name p) (tb_rows (cd_policies d)))
               (wp_ID p)
               (\<lambda>r. p\<lparr>wp_CreatedAt := wp_CreatedAt r, wp_UpdatedAt := now\<rparr>))))"

definition ListReportWorkflowPolicies :: "config_faults \<Rightarrow> int \<Rightarrow> (config_db, ReportWorkflowPolicy list) tx" where
  "ListReportWorkflowPolicies fl lim =
     opened (list_rows (fl ''ListReportWorkflowPolicies'') ''list report workflow policies'' lim
       (\<lambda>d. sort_key (\<lambda>r. (- wp_UpdatedAt r, - wp_ID r)) (tb_rows (cd_policies d))))"

definition schedule_duplicate :: "ReportWorkflowSchedule \<Rightarrow> config_db \<Rightarrow> bool" where
  "schedule_duplicate s d \<longleftrightarrow>
     list_ex (\<lambda>r. ws_ID r \<noteq> ws_ID s \<and>
        (ws_Name r = ws_Name s \<or> ws_TemporalScheduleID r = ws_TemporalScheduleID s)) (tb_rows (cd_schedules d)) \<or>
     ws_TemporalScheduleID s \<in> set (cd_foreign_schedule_ids d)"

definition insert_schedule ::
  "go_time \<Rightarrow> ReportWorkflowSchedule \<Rightarrow> config_db \<Rightarrow> (config_db \<times> ReportWorkflowSchedule) result" where
  "insert_schedule now s d =
     bindE (insert_row (schedule_duplicate (s\<lparr>ws_ID := tb_next (cd_schedules d)\<rparr>) d) True
         (\<lambda>i. s\<lparr>ws_ID := i, ws_CreatedAt := created_at now (ws_CreatedAt s), ws_UpdatedAt := created_at now (ws_UpdatedAt s)\<rparr>)
         (cd_schedules d))
       (\<lambda>(t, r). Inr (d\<lparr>cd_schedules := t\<rparr>, r))"

definition SaveReportWorkflowSchedule ::
  "config_faults \<Rightarrow> go_time \<Rightarrow> ReportWorkflowSchedule \<Rightarrow> (config_db, ReportWorkflowSchedule) tx" where
  "SaveReportWorkflowSchedule fl now s =
     opened (mapErrT asAlreadyExists
       (save_config_row (schedule_relations_ok s) (schedule_validators s) (fl ''SaveReportWorkflowSchedule'')
          (insert_schedule now s)))"

definition UpdateReportWorkflowSchedule ::
  "config_faults \<Rightarrow> go_time \<Rightarrow> ReportWorkflowSchedule \<Rightarrow> (config_db, ReportWorkflowSchedule) tx" where
  "UpdateReportWorkflowSchedule fl now s =
     opened (if ws_ID s = 0 then
         liftT (Inl (invariant_error ''update report workflow schedule: id must be non-zero''))
       else mapErrT (\<lambda>e. asAlreadyExists (asNotFound e))
         (save_config_row
            (\<lambda>d. ws_ID s \<in> ws_ID ` set (tb_rows (cd_schedules d)) \<longrightarrow> schedule_relations_ok s d)
            (schedule_validators s) (fl ''UpdateReportWorkflowSchedule'')
            (update_config_row ws_ID cd_schedules (\<lambda>t d. d\<lparr>cd_schedules := t\<rparr>) (schedule_duplicate s) (ws_ID s)
               (\<lambda>r. s\<lparr>ws_CreatedAt := ws_CreatedAt r, ws_UpdatedAt := now\<rparr>))))"

definition ListReportWorkflowSchedules :: "config_faults \<Rightarrow> int \<Rightarrow> (config_db, ReportWorkflowSchedule list) tx" where
  "ListReportWorkflowSchedules fl lim =
     opened (list_rows (fl ''ListReportWorkflowSchedules'') ''list report workflow schedules'' lim
       (\<lambda>d. sort_key (\<lambda>r. (- ws_UpdatedAt r, - ws_ID r)) (tb_rows (cd_schedules d))))"

end
