(* ===== verification/Report_Services.thy ===== *)
theory Report_Services
  imports Report_Config
begin

text \<open>
  The services that write report policies and schedules:
  \<open>internal/usecases/reportworkflowpolicy/policy.go\<close> and \<open>reportworkflowschedule/schedule.go\<close>. Each
  operation is one transaction. \<open>now\<close> is the time Ent stamps on a row, \<open>clock\<close> the clock of the
  service, \<open>None\<close> where it is not configured. The lemmas give the invariant of the stored rows and
  what an enablement has checked.
\<close>

section \<open>Report policies\<close>

text \<open>\<open>if errors.Is(err, domain.ErrNotFound)\<close>, with the text that names what was looked for.\<close>

definition bound_not_found :: "string \<Rightarrow> (config_db, 'a) tx \<Rightarrow> (config_db, 'a) tx" where
  "bound_not_found msg = mapErrT (\<lambda>e. if errors_Is e ErrNotFound then GoErr msg [ErrNotFound] else e)"

text \<open>A check of \<open>if\<close> and \<open>return\<close> inside a transaction.\<close>

definition guardT :: "bool \<Rightarrow> string \<Rightarrow> ('s, unit) st" where
  "guardT b msg = liftT (if b then Inl (invariant_error msg) else Inr ())"

definition notificationChannelSupportsScope :: "ChannelProfile \<Rightarrow> string \<Rightarrow> bool" where
  "notificationChannelSupportsScope channel want = list_ex (\<lambda>s. s = want) (cp_DeliveryScopes channel)"

definition policyFromWriteRequest ::
  "ReportWorkflowPolicy \<Rightarrow> bool \<Rightarrow> go_time option \<Rightarrow> go_time option \<Rightarrow> ReportWorkflowPolicy result" where
  "policyFromWriteRequest req enabled enabledAt disabledAt =
     NewReportWorkflowPolicy (req\<lparr>
       wp_TriggerMode := (if wp_TriggerMode req = [] then ManualReplay else wp_TriggerMode req),
       wp_ReportScenario := (if wp_ReportScenario req = [] then ''single_alert'' else wp_ReportScenario req),
       wp_DiagnosisFollowUp := (if wp_DiagnosisFollowUp req = [] then FollowUpDisabled else wp_DiagnosisFollowUp req),
       wp_Enabled := enabled, wp_EnabledAt := enabledAt, wp_DisabledAt := disabledAt\<rparr>)"

definition requireBoundProfilesExist :: "config_faults \<Rightarrow> ReportWorkflowPolicy \<Rightarrow> (config_db, unit) tx" where
  "requireBoundProfilesExist fl policy =
     bindT (bound_not_found ''report workflow policy: alert source profile not found''
              (FindAlertSourceProfileByID fl (wp_AlertSourceProfileID policy))) (\<lambda>_.
     bindT (bound_not_found ''report workflow policy: grouping policy not found''
              (FindGroupingPolicyByID fl (wp_GroupingPolicyID policy))) (\<lambda>_.
     if wp_ChannelProfileID policy \<noteq> 0 then
       bindT (bound_not_found ''report workflow policy: notification channel profile not found''
                (FindNotificationChannelProfileByID fl (wp_ChannelProfileID policy))) (\<lambda>_. liftT (Inr ()))
     else liftT (Inr ())))"

definition require_channel_ready :: "ReportWorkflowPolicy \<Rightarrow> ChannelProfile \<Rightarrow> (config_db, unit) tx" where
  "require_channel_ready policy channel =
     (let auto = (wp_DiagnosisFollowUp policy = FollowUpAutoRoom) in
      bindT (guardT (\<not> cp_Enabled channel)
        ''report workflow policy: notification channel profile must be enabled before workflow policy enablement'') (\<lambda>_.
      bindT (guardT (\<not> notificationChannelSupportsScope channel ScopeReport)
        ''report workflow policy: notification channel profile must include report delivery scope before workflow policy enablement'') (\<lambda>_.
      bindT (guardT (auto \<and> cp_Kind channel \<noteq> ChannelKindWeCom)
        ''report workflow policy: notification channel profile must be an Enterprise WeChat channel before auto-room workflow policy enablement'') (\<lambda>_.
      bindT (guardT (auto \<and> \<not> notificationChannelSupportsScope channel ScopeDiagnosisConsultation)
        ''report workflow policy: notification channel profile must include diagnosis_consultation delivery scope before auto-room workflow policy enablement'') (\<lambda>_.
      bindT (guardT (auto \<and> \<not> notificationChannelSupportsScope channel ScopeDiagnosisClose)
        ''report workflow policy: notification channel profile must include diagnosis_close delivery scope before auto-room workflow policy enablement'') (\<lambda>_.
      guardT (auto \<and> MissingAIDiagnosisProofContentKinds channel \<noteq> [])
        ''report workflow policy: notification channel profile must have current AI delivery test proof before auto-room workflow policy enablement''))))))"

definition requireBoundProfilesEnabled :: "config_faults \<Rightarrow> ReportWorkflowPolicy \<Rightarrow> (config_db, unit) tx" where
  "requireBoundProfilesEnabled fl policy =
     (let auto = (wp_DiagnosisFollowUp policy = FollowUpAutoRoom) in
      bindT (bound_not_found ''report workflow policy: alert source profile not found''
              (FindAlertSourceProfileByID fl (wp_AlertSourceProfileID policy))) (\<lambda>source.
      bindT (guardT (\<not> as_Enabled source)
        ''report workflow policy: alert source profile must be enabled before workflow policy enablement'') (\<lambda>_.
      bindT (guardT (auto \<and> as_Kind source \<noteq> AlertSourceKindAlertmanager)
        ''report workflow policy: auto-room workflow policy requires an alertmanager alert source before workflow policy enablement'') (\<lambda>_.
      bindT (guardT (auto \<and> wp_ChannelProfileID policy = 0)
        ''report workflow policy: auto-room workflow policy requires a notification channel profile before workflow policy enablement'') (\<lambda>_.
      bindT (bound_not_found ''report workflow policy: grouping policy not found''
              (FindGroupingPolicyByID fl (wp_GroupingPolicyID policy))) (\<lambda>grouping.
      bindT (guardT (\<not> gp_Enabled grouping)
        ''report workflow policy: grouping policy must be enabled before workflow policy enablement'') (\<lambda>_.
      if wp_ChannelProfileID policy \<noteq> 0 then
        bindT (bound_not_found ''report workflow policy: notification channel profile not found''
                (FindNotificationChannelProfileByID fl (wp_ChannelProfileID policy)))
          (require_channel_ready policy)
      else liftT (Inr ()))))))))"

definition policy_Create ::
  "tx_env \<Rightarrow> config_faults \<Rightarrow> go_time \<Rightarrow> ReportWorkflowPolicy \<Rightarrow> config_db \<Rightarrow> config_db \<times> ReportWorkflowPolicy result" where
  "policy_Create env fl now req d =
     (case policyFromWriteRequest req False None None of
        Inl e \<Rightarrow> (d, Inl e)
      | Inr policy \<Rightarrow>
          within_tx env d (bindT (requireBoundProfilesExist fl policy) (\<lambda>_. SaveReportWorkflowPolicy fl now policy)))"

definition policy_Replace ::
  "tx_env \<Rightarrow> config_faults \<Rightarrow> go_time \<Rightarrow> int \<Rightarrow> ReportWorkflowPolicy \<Rightarrow> config_db
   \<Rightarrow> config_db \<times> ReportWorkflowPolicy result" where
  "policy_Replace env fl now policyID req d =
     (if policyID = 0 then (d, Inl (invariant_error ''report workflow policy: id must be non-zero''))
      else within_tx env d
        (bindT (FindReportWorkflowPolicyByID fl policyID) (\<lambda>existing.
         bindT (liftT (policyFromWriteRequest req (wp_Enabled existing) (wp_EnabledAt existing) (wp_DisabledAt existing))) (\<lambda>policy.
         let policy = policy\<lparr>wp_ID := policyID\<rparr> in
         bindT (if wp_Enabled existing then requireBoundProfilesEnabled fl policy
                else requireBoundProfilesExist fl policy) (\<lambda>_.
         UpdateReportWorkflowPolicy fl now policy)))))"

definition policy_setEnabled ::
  "tx_env \<Rightarrow> config_faults \<Rightarrow> go_time \<Rightarrow> go_time option \<Rightarrow> int \<Rightarrow> bool \<Rightarrow> config_db
   \<Rightarrow> config_db \<times> ReportWorkflowPolicy result" where
  "policy_setEnabled env fl now clock policyID enabled d =
     (if policyID = 0 then (d, Inl (invariant_error ''report workflow policy: id must be non-zero''))
      else case clock of
        None \<Rightarrow> (d, Inl (invariant_error ''report workflow policy: clock must be configured''))
      | Some at \<Rightarrow> within_tx env d
        (bindT (FindReportWorkflowPolicyByID fl policyID) (\<lambda>policy.
         bindT (if enabled then requireBoundProfilesEnabled fl policy else liftT (Inr ())) (\<lambda>_.
         bindT (liftT (WithReportWorkflowPolicyEnabled policy enabled at)) (\<lambda>updated.
         UpdateReportWorkflowPolicy fl now updated)))))"

section \<open>Report schedules\<close>

definition scheduleFromWriteRequest ::
  "ReportWorkflowSchedule \<Rightarrow> bool \<Rightarrow> go_time option \<Rightarrow> go_time option \<Rightarrow> ReportWorkflowSchedule result" where
  "scheduleFromWriteRequest req enabled enabledAt disabledAt =
     NewReportWorkflowScheduleWithCadence (req\<lparr>
       ws_Cadence := (if ws_Cadence req = [] then CadenceInterval else ws_Cadence req),
       ws_Enabled := enabled, ws_EnabledAt := enabledAt, ws_DisabledAt := disabledAt\<rparr>)"

definition requireReportWorkflowPolicyExists :: "config_faults \<Rightarrow> int \<Rightarrow> (config_db, unit) tx" where
  "requireReportWorkflowPolicyExists fl policyID =
     bindT (bound_not_found ''report workflow schedule: report workflow policy not found''
              (FindReportWorkflowPolicyByID fl policyID)) (\<lambda>_. liftT (Inr ()))"

definition requireReportWorkflowPolicyEnabled :: "config_faults \<Rightarrow> int \<Rightarrow> (config_db, unit) tx" where
  "requireReportWorkflowPolicyEnabled fl policyID =
     bindT (bound_not_found ''report workflow schedule: report workflow policy not found''
              (FindReportWorkflowPolicyByID fl policyID)) (\<lambda>policy.
     guardT (\<not> wp_Enabled policy)
       ''report workflow schedule: report workflow policy must be enabled before schedule enablement'')"

definition schedule_Create ::
  "tx_env \<Rightarrow> config_faults \<Rightarrow> go_time \<Rightarrow> ReportWorkflowSchedule \<Rightarrow> config_db
   \<Rightarrow> config_db \<times> ReportWorkflowSchedule result" where
  "schedule_Create env fl now req d =
     (case scheduleFromWriteRequest req False None None of
        Inl e \<Rightarrow> (d, Inl e)
      | Inr schedule \<Rightarrow>
          within_tx env d (bindT (requireReportWorkflowPolicyExists fl (ws_PolicyID schedule)) (\<lambda>_.
            SaveReportWorkflowSchedule fl now schedule)))"

definition schedule_Replace ::
  "tx_env \<Rightarrow> config_faults \<Rightarrow> go_time \<Rightarrow> int \<Rightarrow> ReportWorkflowSchedule \<Rightarrow> config_db
   \<Rightarrow> config_db \<times> ReportWorkflowSchedule result" where
  "schedule_Replace env fl now scheduleID req d =
     (if scheduleID = 0 then (d, Inl (invariant_error ''report workflow schedule: id must be non-zero''))
      else within_tx env d
        (bindT (FindReportWorkflowScheduleByID fl scheduleID) (\<lambda>existing.
         bindT (liftT (scheduleFromWriteRequest req (ws_Enabled existing) (ws_EnabledAt existing) (ws_DisabledAt existing))) (\<lambda>schedule.
         let schedule = schedule\<lparr>ws_ID := scheduleID\<rparr> in
         bindT (if ws_Enabled existing then requireReportWorkflowPolicyEnabled fl (ws_PolicyID schedule)
                else requireReportWorkflowPolicyExists fl (ws_PolicyID schedule)) (\<lambda>_.
         UpdateReportWorkflowSchedule fl now schedule)))))"

definition schedule_setEnabled ::
  "tx_env \<Rightarrow> config_faults \<Rightarrow> go_time \<Rightarrow> go_time option \<Rightarrow> int \<Rightarrow> bool \<Rightarrow> config_db
   \<Rightarrow> config_db \<times> ReportWorkflowSchedule result" where
  "schedule_setEnabled env fl now clock scheduleID enabled d =
     (if scheduleID = 0 then (d, Inl (invariant_error ''report workflow schedule: id must be non-zero''))
      else case clock of
        None \<Rightarrow> (d, Inl (invariant_error ''report workflow schedule: clock must be configured''))
      | Some at \<Rightarrow> within_tx env d
        (bindT (FindReportWorkflowScheduleByID fl scheduleID) (\<lambda>schedule.
         bindT (if enabled then requireReportWorkflowPolicyEnabled fl (ws_PolicyID schedule) else liftT (Inr ())) (\<lambda>_.
         bindT (liftT (WithReportWorkflowScheduleEnabled schedule enabled at)) (\<lambda>updated.
         UpdateReportWorkflowSchedule fl now updated)))))"

section \<open>Stored schedules\<close>

text \<open>The invariant of a stored schedule: the constructor accepts it as it is.\<close>

abbreviation schedule_shape :: "ReportWorkflowSchedule \<Rightarrow> unit result" where
  "schedule_shape s \<equiv> validateReportWorkflowScheduleCadenceShape (ws_Cadence s) (ws_CalendarHour s)
     (ws_CalendarMinute s) (ws_CalendarDayOfWeek s) (ws_CalendarDayOfMonth s) (ws_Interval s) (ws_Offset s)
     (ws_ReplayWindow s)"

definition schedule_ok :: "ReportWorkflowSchedule \<Rightarrow> bool" where
  "schedule_ok s \<longleftrightarrow> trimmed (ws_Name s) \<and> ws_Name s \<noteq> [] \<and> length (ws_Name s) \<le> 120 \<and> 0 < ws_PolicyID s \<and>
     trimmed (ws_TemporalScheduleID s) \<and> validateTemporalScheduleID (ws_TemporalScheduleID s) = Inr () \<and>
     schedule_shape s = Inr () \<and>
     0 < ws_Interval s \<and> 0 \<le> ws_Offset s \<and> ws_Offset s < ws_Interval s \<and>
     0 < ws_ReplayWindow s \<and> ws_ReplayWindow s \<le> ws_Interval s \<and> 0 \<le> ws_ReplayDelay s \<and>
     0 < ws_ReplayLimit s \<and> 0 < ws_CatchupWindow s \<and>
     (ws_EnabledAt s \<noteq> None \<longrightarrow> ws_Enabled s) \<and> (ws_DisabledAt s \<noteq> None \<longrightarrow> \<not> ws_Enabled s)"

definition schedules_ok :: "config_db \<Rightarrow> bool" where
  "schedules_ok d \<longleftrightarrow> table_ok ws_ID (cd_schedules d) \<and>
     distinct (map ws_TemporalScheduleID (tb_rows (cd_schedules d))) \<and> (\<forall>s \<in> set (tb_rows (cd_schedules d)). schedule_ok s)"

lemma schedule_ok_row [simp]:
  "schedule_ok (s\<lparr>ws_ID := k\<rparr>) = schedule_ok s"
  "schedule_ok (s\<lparr>ws_CreatedAt := c\<rparr>) = schedule_ok s"
  "schedule_ok (s\<lparr>ws_UpdatedAt := u\<rparr>) = schedule_ok s"
  by (simp_all add: schedule_ok_def)

lemma NewReportWorkflowSchedule_ok:
  assumes "NewReportWorkflowScheduleWithCadence i = Inr s" "0 < ws_PolicyID s"
  shows "schedule_ok s" "ws_ID s = 0" "ws_Enabled s = ws_Enabled i"
proof -
  let ?i = "i\<lparr>ws_Cadence := (if ws_Cadence i = [] then CadenceInterval else ws_Cadence i)\<rparr>"
  have s: "s = ?i\<lparr>ws_ID := 0, ws_Name := TrimSpace (ws_Name i), ws_TemporalScheduleID := TrimSpace (ws_TemporalScheduleID i),
      ws_CreatedAt := 0, ws_UpdatedAt := 0\<rparr>"
    and shape: "schedule_shape ?i = Inr ()"
    and tid: "validateTemporalScheduleID (TrimSpace (ws_TemporalScheduleID i)) = Inr ()"
    and rest: "TrimSpace (ws_Name i) \<noteq> []" "length (TrimSpace (ws_Name i)) \<le> 120" "0 < ws_Interval i" "0 \<le> ws_Offset i"
      "ws_Offset i < ws_Interval i" "0 < ws_ReplayWindow i" "ws_ReplayWindow i \<le> ws_Interval i" "0 \<le> ws_ReplayDelay i"
      "0 < ws_ReplayLimit i" "0 < ws_CatchupWindow i" "ws_EnabledAt i \<noteq> None \<longrightarrow> ws_Enabled i"
      "ws_DisabledAt i \<noteq> None \<longrightarrow> \<not> ws_Enabled i"
    using assms(1)
    by (simp_all add: NewReportWorkflowScheduleWithCadence_def Let_def bindE_eq_Inr_iff
        validateReportWorkflowScheduleReplayCadence_def) auto
  have f: "ws_Name s = TrimSpace (ws_Name i)" "ws_TemporalScheduleID s = TrimSpace (ws_TemporalScheduleID i)"
    "ws_Interval s = ws_Interval i" "ws_Offset s = ws_Offset i" "ws_ReplayWindow s = ws_ReplayWindow i"
    "ws_ReplayDelay s = ws_ReplayDelay i" "ws_ReplayLimit s = ws_ReplayLimit i" "ws_CatchupWindow s = ws_CatchupWindow i"
    "ws_Enabled s = ws_Enabled i" "ws_EnabledAt s = ws_EnabledAt i" "ws_DisabledAt s = ws_DisabledAt i" "ws_ID s = 0"
    unfolding s by simp_all
  then show "ws_ID s = 0" "ws_Enabled s = ws_Enabled i" by simp_all
  have "schedule_shape s = Inr ()" using shape unfolding s by simp
  with tid rest assms(2) show "schedule_ok s" unfolding schedule_ok_def f by simp
qed

lemma WithEnabled_ok:
  assumes "WithReportWorkflowScheduleEnabled s b at = Inr s'"
  shows "schedule_ok s \<Longrightarrow> schedule_ok s'" "ws_ID s' = ws_ID s" "ws_PolicyID s' = ws_PolicyID s" "ws_Enabled s' = b"
proof -
  obtain t where s': "s' = s\<lparr>ws_Enabled := b, ws_EnabledAt := (if b then Some t else None),
      ws_DisabledAt := (if b then None else Some t)\<rparr>"
    using assms by (auto simp: WithReportWorkflowScheduleEnabled_def Let_def bindE_eq_Inr_iff split: if_splits)
  show "ws_ID s' = ws_ID s" "ws_PolicyID s' = ws_PolicyID s" "ws_Enabled s' = b" by (simp_all add: s')
  assume "schedule_ok s"
  then show "schedule_ok s'" unfolding schedule_ok_def by (simp add: s')
qed

section \<open>Writes\<close>

lemma find_config_row_Inr [tx_ok]:
  "find_config_row what rid table fault i u = (u', Inr r) \<longleftrightarrow>
     uow_closed u = UowOpen \<and> i \<noteq> 0 \<and> \<not> uow_aborted u \<and> fault = None \<and>
     filter (\<lambda>r. rid r = i) (tb_rows (table (uow_data u))) = [r] \<and> u' = u"
  by (auto simp: find_config_row_def only_row_Inr)

lemma guardT_Inr [tx_ok]: "guardT b msg u = (u', Inr x) \<longleftrightarrow> u' = u \<and> \<not> b"
  by (auto simp: guardT_def)

lemma bound_not_found_Inr [tx_ok]: "bound_not_found msg m u = (u', Inr x) \<longleftrightarrow> m u = (u', Inr x)"
  by (simp add: bound_not_found_def)

lemma save_config_row_Inr [tx_ok]:
  "save_config_row rel val fault stmt u = (u', Inr r) \<longleftrightarrow>
     rel (uow_data u) \<and> val \<and> \<not> uow_aborted u \<and> fault = None \<and>
     (\<exists>d. stmt (uow_data u) = Inr (d, r) \<and> u' = u\<lparr>uow_data := d\<rparr>)"
  by (auto simp: save_config_row_def tx_ok)

lemma keeps_open_config [intro]:
  "keeps_open (find_config_row what rid table fault i)" "keeps_open (guardT b msg)"
  "keeps_open m \<Longrightarrow> keeps_open (bound_not_found msg' m)" "keeps_open (save_config_row rel val fault' stmt)"
  by (auto simp: find_config_row_def guardT_def bound_not_found_def save_config_row_def intro!: keeps_open_bind)

lemma keeps_open_methods [intro]:
  "keeps_open (FindAlertSourceProfileByID fl i)" "keeps_open (FindGroupingPolicyByID fl i)"
  "keeps_open (FindNotificationChannelProfileByID fl i)" "keeps_open (FindReportWorkflowPolicyByID fl i)"
  "keeps_open (FindReportWorkflowScheduleByID fl i)" "keeps_open (SaveReportWorkflowPolicy fl now p)"
  "keeps_open (UpdateReportWorkflowPolicy fl now p)" "keeps_open (SaveReportWorkflowSchedule fl now s)"
  "keeps_open (UpdateReportWorkflowSchedule fl now s)"
  by (auto simp: FindAlertSourceProfileByID_def FindGroupingPolicyByID_def FindNotificationChannelProfileByID_def
      FindReportWorkflowPolicyByID_def FindReportWorkflowScheduleByID_def SaveReportWorkflowPolicy_def
      UpdateReportWorkflowPolicy_def SaveReportWorkflowSchedule_def UpdateReportWorkflowSchedule_def)

lemma keeps_open_checks [intro]:
  "keeps_open (requireBoundProfilesExist fl p)" "keeps_open (requireBoundProfilesEnabled fl p)"
  "keeps_open (requireReportWorkflowPolicyExists fl i)" "keeps_open (requireReportWorkflowPolicyEnabled fl i)"
  by (auto simp: requireBoundProfilesExist_def requireBoundProfilesEnabled_def require_channel_ready_def Let_def
      requireReportWorkflowPolicyExists_def requireReportWorkflowPolicyEnabled_def intro!: keeps_open_bind)

lemma update_config_row_Inr:
  "update_config_row rid table put dup i f d = Inr (d', r) \<longleftrightarrow>
     \<not> dup d \<and> (\<exists>t. update_row rid i f (table d) = (t, Some r) \<and> d' = put t d)"
  by (auto simp: update_config_row_def split: prod.splits option.splits)

text \<open>What a successful save and a successful update do to the schedules.\<close>

lemma schedule_duplicate_times [simp]:
  "schedule_duplicate (s\<lparr>ws_CreatedAt := c\<rparr>) d = schedule_duplicate s d"
  "schedule_duplicate (s\<lparr>ws_UpdatedAt := c\<rparr>) d = schedule_duplicate s d"
  by (simp_all add: schedule_duplicate_def)

lemma SaveReportWorkflowSchedule_Inr:
  assumes "SaveReportWorkflowSchedule fl now s u = (u', Inr r)"
  shows "schedule_validators s" "r = s\<lparr>ws_ID := tb_next (cd_schedules (uow_data u)),
      ws_CreatedAt := created_at now (ws_CreatedAt s), ws_UpdatedAt := created_at now (ws_UpdatedAt s)\<rparr>"
    "uow_data u' = (uow_data u)\<lparr>cd_schedules := append_row (cd_schedules (uow_data u)) r\<rparr>"
    "\<not> schedule_duplicate r (uow_data u)"
  using assms by (auto simp: SaveReportWorkflowSchedule_def tx_ok insert_schedule_def bindE_eq_Inr_iff insert_row_Inr)

lemma UpdateReportWorkflowSchedule_Inr:
  assumes "UpdateReportWorkflowSchedule fl now s u = (u', Inr r)"
  shows "schedule_validators s"
    "\<exists>x \<in> set (tb_rows (cd_schedules (uow_data u))). ws_ID x = ws_ID s \<and>
       r = s\<lparr>ws_CreatedAt := ws_CreatedAt x, ws_UpdatedAt := now\<rparr>"
    "uow_data u' = (uow_data u)\<lparr>cd_schedules := fst (update_row ws_ID (ws_ID s)
       (\<lambda>r. s\<lparr>ws_CreatedAt := ws_CreatedAt r, ws_UpdatedAt := now\<rparr>) (cd_schedules (uow_data u)))\<rparr>"
    "\<not> schedule_duplicate s (uow_data u)"
  using assms
  by (auto simp: UpdateReportWorkflowSchedule_def tx_ok update_config_row_Inr update_row_def find_Some_iff
      split: if_splits)

lemma table_ok_update_at:
  assumes "table_ok rid t" "\<And>r. rid (f r) = i"
  shows "table_ok rid (fst (update_row rid i f t))"
proof -
  have ids: "map rid (tb_rows (fst (update_row rid i f t))) = map rid (tb_rows t)"
    using assms(2) by (simp add: update_row_def)
  have "tb_next (fst (update_row rid i f t)) = tb_next t" by (simp add: update_row_def)
  with assms(1) show ?thesis unfolding table_ok_ids ids by simp
qed

lemma schedules_ok_save:
  assumes "schedules_ok (uow_data u)" "SaveReportWorkflowSchedule fl now s u = (u', Inr r)"
    and "0 < ws_PolicyID s \<Longrightarrow> schedule_ok s"
  shows "schedules_ok (uow_data u')" "schedule_ok r" "r \<in> set (tb_rows (cd_schedules (uow_data u')))"
proof -
  note i = SaveReportWorkflowSchedule_Inr [OF assms(2)]
  show r: "schedule_ok r" using i(1) assms(3) unfolding i(2) by (simp add: schedule_validators_def)
  have "table_ok ws_ID (append_row (cd_schedules (uow_data u)) r)"
    using assms(1) by (intro table_ok_append) (simp_all add: schedules_ok_def i(2))
  moreover have "ws_TemporalScheduleID r \<notin> ws_TemporalScheduleID ` set (tb_rows (cd_schedules (uow_data u)))"
  proof
    assume "ws_TemporalScheduleID r \<in> ws_TemporalScheduleID ` set (tb_rows (cd_schedules (uow_data u)))"
    then obtain x where x: "x \<in> set (tb_rows (cd_schedules (uow_data u)))" "ws_TemporalScheduleID x = ws_TemporalScheduleID r"
      by auto
    with assms(1) have "ws_ID x \<noteq> ws_ID r" by (auto simp: schedules_ok_def table_ok_def i(2))
    with x i(4) show False by (auto simp: schedule_duplicate_def list_ex_iff)
  qed
  ultimately show "schedules_ok (uow_data u')" "r \<in> set (tb_rows (cd_schedules (uow_data u')))"
    using r assms(1) by (auto simp: schedules_ok_def i(3))
qed

text \<open>An update at one ID keeps a key distinct that no other row has.\<close>

lemma distinct_update_at:
  assumes "distinct (map key (tb_rows t))" "\<And>r. key (f r) = k" "distinct (map rid (tb_rows t))"
    and "\<And>r. r \<in> set (tb_rows t) \<Longrightarrow> rid r \<noteq> i \<Longrightarrow> key r \<noteq> k"
  shows "distinct (map key (tb_rows (fst (update_row rid i f t))))"
proof -
  have "inj_on (\<lambda>r. key (if rid r = i then f r else r)) (set (tb_rows t))"
  proof (rule inj_onI)
    fix x y assume x: "x \<in> set (tb_rows t)" and y: "y \<in> set (tb_rows t)"
      and eq: "key (if rid x = i then f x else x) = key (if rid y = i then f y else y)"
    have unique: "key x = key y \<or> rid x = rid y \<Longrightarrow> x = y"
      using assms(1,3) x y by (auto simp: distinct_map dest: inj_onD)
    show "x = y"
      using eq unique assms(2) assms(4) [OF x] assms(4) [OF y] by (cases "rid x = i"; cases "rid y = i") auto
  qed
  moreover have "distinct (tb_rows t)" using assms(1) by (simp add: distinct_map)
  ultimately have "distinct (map (\<lambda>r. key (if rid r = i then f r else r)) (tb_rows t))" by (simp add: distinct_map)
  then show ?thesis by (simp add: update_row_def o_def)
qed

lemma schedules_ok_update:
  assumes "schedules_ok (uow_data u)" "UpdateReportWorkflowSchedule fl now s u = (u', Inr r)"
    and "0 < ws_PolicyID s \<Longrightarrow> schedule_ok s"
  shows "schedules_ok (uow_data u')" "schedule_ok r" "r \<in> set (tb_rows (cd_schedules (uow_data u')))"
proof -
  note i = UpdateReportWorkflowSchedule_Inr [OF assms(2)]
  have s: "schedule_ok s" using i(1) assms(3) by (simp add: schedule_validators_def)
  let ?f = "\<lambda>r. s\<lparr>ws_CreatedAt := ws_CreatedAt r, ws_UpdatedAt := now\<rparr>"
  obtain x where x: "x \<in> set (tb_rows (cd_schedules (uow_data u)))" "ws_ID x = ws_ID s" and r: "r = ?f x"
    using i(2) by blast
  show "schedule_ok r" using s by (simp add: r)
  have t: "table_ok ws_ID (cd_schedules (uow_data u))" using assms(1) by (simp add: schedules_ok_def)
  let ?t = "fst (update_row ws_ID (ws_ID s) ?f (cd_schedules (uow_data u)))"
  have rows: "set (tb_rows ?t) = insert r (set (tb_rows (cd_schedules (uow_data u))) - {x})"
    using update_rows [OF t x(1), of s ?f] x(2) by (simp add: r)
  have "table_ok ws_ID ?t" using t by (rule table_ok_update_at) simp
  moreover have "distinct (map ws_TemporalScheduleID (tb_rows ?t))"
  proof (rule distinct_update_at)
    show "distinct (map ws_ID (tb_rows (cd_schedules (uow_data u))))" using t by (simp add: table_ok_def)
    show "ws_TemporalScheduleID x \<noteq> ws_TemporalScheduleID s" if "x \<in> set (tb_rows (cd_schedules (uow_data u)))" "ws_ID x \<noteq> ws_ID s" for x
      using that i(4) by (auto simp: schedule_duplicate_def list_ex_iff)
  qed (use assms(1) in \<open>simp_all add: schedules_ok_def\<close>)
  ultimately show "schedules_ok (uow_data u')" "r \<in> set (tb_rows (cd_schedules (uow_data u')))"
    using rows \<open>schedule_ok r\<close> assms(1)
    by (auto simp: schedules_ok_def i(3))
qed

section \<open>Operations\<close>

datatype config_op =
    PolicyCreate tx_env config_faults go_time ReportWorkflowPolicy
  | PolicyReplace tx_env config_faults go_time int ReportWorkflowPolicy
  | PolicySetEnabled tx_env config_faults go_time "go_time option" int bool
  | ScheduleCreate tx_env config_faults go_time ReportWorkflowSchedule
  | ScheduleReplace tx_env config_faults go_time int ReportWorkflowSchedule
  | ScheduleSetEnabled tx_env config_faults go_time "go_time option" int bool

fun config_do :: "config_op \<Rightarrow> config_db \<Rightarrow> config_db" where
  "config_do (PolicyCreate env fl now req) d = fst (policy_Create env fl now req d)"
| "config_do (PolicyReplace env fl now i req) d = fst (policy_Replace env fl now i req d)"
| "config_do (PolicySetEnabled env fl now clock i b) d = fst (policy_setEnabled env fl now clock i b d)"
| "config_do (ScheduleCreate env fl now req) d = fst (schedule_Create env fl now req d)"
| "config_do (ScheduleReplace env fl now i req) d = fst (schedule_Replace env fl now i req d)"
| "config_do (ScheduleSetEnabled env fl now clock i b) d = fst (schedule_setEnabled env fl now clock i b d)"

text \<open>A transaction that leaves the data as they were or runs a body that keeps them in shape.\<close>

lemma within_tx_keeps:
  assumes "keeps_open fn" "within_tx env d fn = (d', r)" "P d"
    and "\<And>u x. fn (newUnitOfWork d) = (u, Inr x) \<Longrightarrow> P (uow_data u)"
  shows "P d'"
  using within_tx_effect [OF assms(1,2)] assms(3,4) by blast

lemma policy_statements:
  "SaveReportWorkflowPolicy fl now p u = (u', Inr r) \<Longrightarrow> cd_schedules (uow_data u') = cd_schedules (uow_data u)"
  "UpdateReportWorkflowPolicy fl now p u = (u', Inr r) \<Longrightarrow> cd_schedules (uow_data u') = cd_schedules (uow_data u)"
  "requireBoundProfilesExist fl p u = (u', Inr z) \<Longrightarrow> u' = u"
  "requireBoundProfilesEnabled fl p u = (u', Inr z) \<Longrightarrow> u' = u"
  by (auto simp: SaveReportWorkflowPolicy_def UpdateReportWorkflowPolicy_def tx_ok insert_policy_def bindE_eq_Inr_iff
      update_config_row_Inr requireBoundProfilesExist_def requireBoundProfilesEnabled_def require_channel_ready_def
      FindAlertSourceProfileByID_def FindGroupingPolicyByID_def FindNotificationChannelProfileByID_def Let_def
      split: if_splits)

lemma schedule_checks:
  "requireReportWorkflowPolicyExists fl i u = (u', Inr z) \<Longrightarrow> u' = u"
  "requireReportWorkflowPolicyEnabled fl i u = (u', Inr z) \<Longrightarrow> u' = u \<and>
     (\<exists>p \<in> set (tb_rows (cd_policies (uow_data u))). wp_ID p = i \<and> wp_Enabled p)"
  by (auto simp: requireReportWorkflowPolicyExists_def requireReportWorkflowPolicyEnabled_def tx_ok
      FindReportWorkflowPolicyByID_def filter_eq_Cons_iff)

text \<open>The bodies of the transactions.\<close>

lemmas keeps_open_steps = keeps_open_bind keeps_open_lift keeps_open_if keeps_open_methods keeps_open_checks

lemma keeps_open_bodies:
  "keeps_open (bindT (requireBoundProfilesExist fl p) (\<lambda>_. SaveReportWorkflowPolicy fl now p))"
  "keeps_open (bindT (FindReportWorkflowPolicyByID fl i) (\<lambda>x. bindT (liftT (g x)) (\<lambda>p.
     let p = p\<lparr>wp_ID := i\<rparr> in
     bindT (if c x then requireBoundProfilesEnabled fl p else requireBoundProfilesExist fl p)
       (\<lambda>_. UpdateReportWorkflowPolicy fl now p))))"
  "keeps_open (bindT (FindReportWorkflowPolicyByID fl i) (\<lambda>p.
     bindT (if b then requireBoundProfilesEnabled fl p else liftT (Inr ())) (\<lambda>_.
     bindT (liftT (h p)) (\<lambda>p'. UpdateReportWorkflowPolicy fl now p'))))"
  "keeps_open (bindT (requireReportWorkflowPolicyExists fl j) (\<lambda>_. SaveReportWorkflowSchedule fl now s))"
  "keeps_open (bindT (FindReportWorkflowScheduleByID fl i) (\<lambda>x. bindT (liftT (k x)) (\<lambda>s.
     let s = s\<lparr>ws_ID := i\<rparr> in
     bindT (if d x then requireReportWorkflowPolicyEnabled fl (ws_PolicyID s)
            else requireReportWorkflowPolicyExists fl (ws_PolicyID s))
       (\<lambda>_. UpdateReportWorkflowSchedule fl now s))))"
  "keeps_open (bindT (FindReportWorkflowScheduleByID fl i) (\<lambda>s.
     bindT (if b then requireReportWorkflowPolicyEnabled fl (ws_PolicyID s) else liftT (Inr ())) (\<lambda>_.
     bindT (liftT (l s)) (\<lambda>s'. UpdateReportWorkflowSchedule fl now s'))))"
  unfolding Let_def by (intro keeps_open_steps)+

text \<open>The operations on policies leave the schedules alone.\<close>

lemma policy_operations:
  "cd_schedules (fst (policy_Create env fl now req d)) = cd_schedules d"
  "cd_schedules (fst (policy_Replace env fl now i req d)) = cd_schedules d"
  "cd_schedules (fst (policy_setEnabled env fl now clock i b d)) = cd_schedules d"
proof -
  let ?P = "\<lambda>d'. cd_schedules d' = cd_schedules d"
  have tx: "?P (fst (within_tx env d fn))"
    if "keeps_open fn" "\<And>u x. fn (newUnitOfWork d) = (u, Inr x) \<Longrightarrow> ?P (uow_data u)"
    for fn :: "(config_db, ReportWorkflowPolicy) tx"
    by (rule within_tx_keeps [OF that(1) surjective_pairing, of ?P]) (use that(2) in auto)
  show "?P (fst (policy_Create env fl now req d))"
    unfolding policy_Create_def
    by (split sum.split, intro conjI allI impI, simp, rule tx [OF keeps_open_bodies(1)])
      (auto simp: tx_ok dest!: policy_statements)
  show "?P (fst (policy_Replace env fl now i req d))"
    unfolding policy_Replace_def
    by (split if_split, intro conjI impI, simp, rule tx [OF keeps_open_bodies(2)])
      (auto simp: tx_ok Let_def FindReportWorkflowPolicyByID_def dest!: policy_statements split: if_splits)
  show "?P (fst (policy_setEnabled env fl now clock i b d))"
    unfolding policy_setEnabled_def
    by (split if_split, intro conjI impI, simp, split option.split, intro conjI allI impI, simp,
        rule tx [OF keeps_open_bodies(3)])
      (auto simp: tx_ok FindReportWorkflowPolicyByID_def dest!: policy_statements split: if_splits)
qed

text \<open>A successful operation on a schedule, with the row it answers.\<close>

lemma schedule_Create_Inr:
  assumes "schedules_ok d" "schedule_Create env fl now req d = (d', Inr r)"
  shows "schedules_ok d'" "r \<in> set (tb_rows (cd_schedules d'))" "\<not> ws_Enabled r"
proof -
  obtain s where s: "scheduleFromWriteRequest req False None None = Inr s"
    and w: "within_tx env d (bindT (requireReportWorkflowPolicyExists fl (ws_PolicyID s))
      (\<lambda>_. SaveReportWorkflowSchedule fl now s)) = (d', Inr r)"
    using assms(2) by (auto simp: schedule_Create_def split: sum.splits)
  have ok: "0 < ws_PolicyID s \<Longrightarrow> schedule_ok s" "ws_PolicyID s > 0 \<Longrightarrow> \<not> ws_Enabled s"
    using s NewReportWorkflowSchedule_ok by (auto simp: scheduleFromWriteRequest_def)
  from within_tx_ok [OF keeps_open_bodies(4) w] obtain u
    where u: "SaveReportWorkflowSchedule fl now s (newUnitOfWork d) = (u, Inr r)" "d' = uow_data u"
    by (auto simp: tx_ok dest!: schedule_checks(1))
  have d: "schedules_ok (uow_data (newUnitOfWork d))" using assms(1) by simp
  from schedules_ok_save [OF d u(1) ok(1)] show "schedules_ok d'" "r \<in> set (tb_rows (cd_schedules d'))"
    by (simp_all add: u(2))
  from SaveReportWorkflowSchedule_Inr(1,2) [OF u(1)] ok(2) show "\<not> ws_Enabled r" by (simp add: schedule_validators_def)
qed

lemma found_schedule_ok:
  assumes "schedules_ok d" "FindReportWorkflowScheduleByID fl i (newUnitOfWork d) = (u, Inr s)"
  shows "u = newUnitOfWork d" "s \<in> set (tb_rows (cd_schedules d))" "ws_ID s = i" "schedule_ok s"
  using assms by (auto simp: FindReportWorkflowScheduleByID_def tx_ok schedules_ok_def filter_eq_Cons_iff)

lemma bindT_InrE: "bindT m f u = (u', Inr y) \<Longrightarrow> (\<And>u1 x. m u = (u1, Inr x) \<Longrightarrow> f x u1 = (u', Inr y) \<Longrightarrow> P) \<Longrightarrow> P"
  unfolding bindT_Inr by blast

lemma liftT_InrE: "liftT r u = (u', Inr x) \<Longrightarrow> (u' = u \<Longrightarrow> r = Inr x \<Longrightarrow> P) \<Longrightarrow> P"
  by simp

text \<open>The statements a successful replacement and a successful enablement ran.\<close>

lemma schedule_Replace_steps:
  assumes "schedule_Replace env fl now i req d = (d', Inr r)"
  obtains u0 x s u1 u where "FindReportWorkflowScheduleByID fl i (newUnitOfWork d) = (u0, Inr x)"
    "scheduleFromWriteRequest req (ws_Enabled x) (ws_EnabledAt x) (ws_DisabledAt x) = Inr s"
    "(if ws_Enabled x then requireReportWorkflowPolicyEnabled fl (ws_PolicyID (s\<lparr>ws_ID := i\<rparr>))
      else requireReportWorkflowPolicyExists fl (ws_PolicyID (s\<lparr>ws_ID := i\<rparr>))) u0 = (u1, Inr ())"
    "UpdateReportWorkflowSchedule fl now (s\<lparr>ws_ID := i\<rparr>) u1 = (u, Inr r)" "d' = uow_data u"
proof -
  have "i \<noteq> 0" using assms by (cases "i = 0") (simp_all add: schedule_Replace_def)
  note w = assms [unfolded schedule_Replace_def if_not_P [OF this]]
  show thesis
  proof (rule within_tx_ok [OF keeps_open_bodies(5) w], unfold Let_def, elim bindT_InrE liftT_InrE, goal_cases)
    case (1 u u1 x u2 s u3 z)
    then show ?case by (intro that [of u1 x s u3 u]) (simp_all only: unit_eq [of z])
  qed
qed

lemma schedule_setEnabled_steps:
  assumes "schedule_setEnabled env fl now clock i b d = (d', Inr r)"
  obtains u0 x s u1 u at where "FindReportWorkflowScheduleByID fl i (newUnitOfWork d) = (u0, Inr x)"
    "(if b then requireReportWorkflowPolicyEnabled fl (ws_PolicyID x) else liftT (Inr ())) u0 = (u1, Inr ())"
    "WithReportWorkflowScheduleEnabled x b at = Inr s"
    "UpdateReportWorkflowSchedule fl now s u1 = (u, Inr r)" "d' = uow_data u"
proof -
  have i: "i \<noteq> 0" using assms by (cases "i = 0") (simp_all add: schedule_setEnabled_def)
  obtain at where clock: "clock = Some at"
    using assms i by (cases clock) (simp_all add: schedule_setEnabled_def)
  note w = assms [unfolded schedule_setEnabled_def if_not_P [OF i] clock option.case]
  show thesis
  proof (rule within_tx_ok [OF keeps_open_bodies(6) w], elim bindT_InrE liftT_InrE, goal_cases)
    case (1 u u1 x u2 z u3 s)
    then show ?case by (intro that [of u1 x u2 at s u]) (simp_all only: unit_eq [of z])
  qed
qed

lemma schedule_Replace_Inr:
  assumes "schedules_ok d" "schedule_Replace env fl now i req d = (d', Inr r)"
  shows "schedules_ok d'" "r \<in> set (tb_rows (cd_schedules d'))" "ws_ID r = i"
    "\<exists>x \<in> set (tb_rows (cd_schedules d)). ws_ID x = i \<and> ws_Enabled r = ws_Enabled x"
    "ws_Enabled r \<Longrightarrow> \<exists>p \<in> set (tb_rows (cd_policies d)). wp_ID p = ws_PolicyID r \<and> wp_Enabled p"
proof -
  obtain u0 x s u1 u where f: "FindReportWorkflowScheduleByID fl i (newUnitOfWork d) = (u0, Inr x)"
    and s: "scheduleFromWriteRequest req (ws_Enabled x) (ws_EnabledAt x) (ws_DisabledAt x) = Inr s"
    and c1: "(if ws_Enabled x then requireReportWorkflowPolicyEnabled fl (ws_PolicyID (s\<lparr>ws_ID := i\<rparr>))
            else requireReportWorkflowPolicyExists fl (ws_PolicyID (s\<lparr>ws_ID := i\<rparr>))) u0 = (u1, Inr ())"
    and u1: "UpdateReportWorkflowSchedule fl now (s\<lparr>ws_ID := i\<rparr>) u1 = (u, Inr r)" and d': "d' = uow_data u"
    by (rule schedule_Replace_steps [OF assms(2)])
  have e: "u1 = u0" using c1 by (cases "ws_Enabled x") (simp_all add: schedule_checks)
  have c: "ws_Enabled x \<Longrightarrow> requireReportWorkflowPolicyEnabled fl (ws_PolicyID s) u0 = (u0, Inr ())"
    using c1 unfolding e by simp
  note u = u1 [unfolded e] d'
  note x = found_schedule_ok [OF assms(1) f]
  have ok: "0 < ws_PolicyID s \<Longrightarrow> schedule_ok s" "0 < ws_PolicyID s \<Longrightarrow> ws_Enabled s = ws_Enabled x"
    using s NewReportWorkflowSchedule_ok by (auto simp: scheduleFromWriteRequest_def)
  have d: "schedules_ok (uow_data u0)" using assms(1) by (simp add: x(1))
  from schedules_ok_update [OF d u(1)] ok(1) show "schedules_ok d'" "r \<in> set (tb_rows (cd_schedules d'))"
    by (simp_all add: u(2))
  from UpdateReportWorkflowSchedule_Inr(1,2) [OF u(1)] ok(2)
  have r: "ws_ID r = i" "ws_Enabled r = ws_Enabled x" "ws_PolicyID r = ws_PolicyID s"
    by (auto simp: schedule_validators_def)
  with x show "ws_ID r = i" "\<exists>x \<in> set (tb_rows (cd_schedules d)). ws_ID x = i \<and> ws_Enabled r = ws_Enabled x" by auto
  show "ws_Enabled r \<Longrightarrow> \<exists>p \<in> set (tb_rows (cd_policies d)). wp_ID p = ws_PolicyID r \<and> wp_Enabled p"
    using schedule_checks(2) [OF c] r x(1) by simp
qed

lemma schedule_setEnabled_Inr:
  assumes "schedules_ok d" "schedule_setEnabled env fl now clock i b d = (d', Inr r)"
  shows "schedules_ok d'" "r \<in> set (tb_rows (cd_schedules d'))" "ws_ID r = i" "ws_Enabled r = b"
    "b \<Longrightarrow> \<exists>p \<in> set (tb_rows (cd_policies d)). wp_ID p = ws_PolicyID r \<and> wp_Enabled p"
proof -
  obtain u0 x s u1 u at where f: "FindReportWorkflowScheduleByID fl i (newUnitOfWork d) = (u0, Inr x)"
    and c1: "(if b then requireReportWorkflowPolicyEnabled fl (ws_PolicyID x) else liftT (Inr ())) u0 = (u1, Inr ())"
    and s: "WithReportWorkflowScheduleEnabled x b at = Inr s"
    and u1: "UpdateReportWorkflowSchedule fl now s u1 = (u, Inr r)" and d': "d' = uow_data u"
    by (rule schedule_setEnabled_steps [OF assms(2)])
  have e: "u1 = u0" using c1 by (cases b) (simp_all add: schedule_checks)
  have c: "b \<Longrightarrow> requireReportWorkflowPolicyEnabled fl (ws_PolicyID x) u0 = (u0, Inr ())"
    using c1 unfolding e by simp
  note u = u1 [unfolded e] d'
  note x = found_schedule_ok [OF assms(1) f]
  note e = WithEnabled_ok [OF s]
  have d: "schedules_ok (uow_data u0)" using assms(1) by (simp add: x(1))
  from schedules_ok_update [OF d u(1)] e(1) x(4) show "schedules_ok d'" "r \<in> set (tb_rows (cd_schedules d'))"
    by (simp_all add: u(2))
  from UpdateReportWorkflowSchedule_Inr(2) [OF u(1)] e(2-4) x(3)
  have r: "ws_ID r = i" "ws_Enabled r = b" "ws_PolicyID r = ws_PolicyID x" by auto
  then show "ws_ID r = i" "ws_Enabled r = b" by simp_all
  show "b \<Longrightarrow> \<exists>p \<in> set (tb_rows (cd_policies d)). wp_ID p = ws_PolicyID r \<and> wp_Enabled p"
    using schedule_checks(2) [OF c] r x(1) by simp
qed

text \<open>
  An operation leaves the database as it was or as the same operation leaves it when nothing fails:
  the acknowledgement of its commit may have been lost.
\<close>

lemma operation_either:
  "(\<And>d' r. op' d = (d', Inr r) \<Longrightarrow> P d') \<Longrightarrow> fst (op d) = d \<or> (\<exists>r. op' d = (fst (op d), Inr r)) \<Longrightarrow> P d \<Longrightarrow>
   P (fst (op d))"
  by (cases "op d") auto

lemma schedule_operations_either:
  "fst (schedule_Create env fl now req d) = d \<or>
   (\<exists>r. schedule_Create calm_env fl now req d = (fst (schedule_Create env fl now req d), Inr r))"
  "fst (schedule_Replace env fl now i req d) = d \<or>
   (\<exists>r. schedule_Replace calm_env fl now i req d = (fst (schedule_Replace env fl now i req d), Inr r))"
  "fst (schedule_setEnabled env fl now clock i b d) = d \<or>
   (\<exists>r. schedule_setEnabled calm_env fl now clock i b d = (fst (schedule_setEnabled env fl now clock i b d), Inr r))"
proof -
  show "fst (schedule_Create env fl now req d) = d \<or>
      (\<exists>r. schedule_Create calm_env fl now req d = (fst (schedule_Create env fl now req d), Inr r))"
    unfolding schedule_Create_def using within_tx_as_calm [OF keeps_open_bodies(4)]
    by (cases "scheduleFromWriteRequest req False None None") (simp_all only: sum.case fst_conv simp_thms)
  show "fst (schedule_Replace env fl now i req d) = d \<or>
      (\<exists>r. schedule_Replace calm_env fl now i req d = (fst (schedule_Replace env fl now i req d), Inr r))"
    unfolding schedule_Replace_def using within_tx_as_calm [OF keeps_open_bodies(5)]
    by (cases "i = 0") (simp_all only: if_True if_False fst_conv simp_thms)
  show "fst (schedule_setEnabled env fl now clock i b d) = d \<or>
      (\<exists>r. schedule_setEnabled calm_env fl now clock i b d = (fst (schedule_setEnabled env fl now clock i b d), Inr r))"
    unfolding schedule_setEnabled_def using within_tx_as_calm [OF keeps_open_bodies(6)]
    by (cases "i = 0"; cases clock) (simp_all only: if_True if_False option.case fst_conv simp_thms)
qed

lemma schedule_operations:
  assumes "schedules_ok d"
  shows "schedules_ok (fst (schedule_Create env fl now req d))"
    "schedules_ok (fst (schedule_Replace env fl now i req d))"
    "schedules_ok (fst (schedule_setEnabled env fl now clock i b d))"
proof -
  show "schedules_ok (fst (schedule_Create env fl now req d))"
    by (rule operation_either [where op="schedule_Create env fl now req" and op'="schedule_Create calm_env fl now req" and P=schedules_ok and d=d, OF schedule_Create_Inr(1) [OF assms] schedule_operations_either(1) assms])
  show "schedules_ok (fst (schedule_Replace env fl now i req d))"
    by (rule operation_either [where op="schedule_Replace env fl now i req" and op'="schedule_Replace calm_env fl now i req" and P=schedules_ok and d=d, OF schedule_Replace_Inr(1) [OF assms] schedule_operations_either(2) assms])
  show "schedules_ok (fst (schedule_setEnabled env fl now clock i b d))"
    by (rule operation_either [where op="schedule_setEnabled env fl now clock i b" and op'="schedule_setEnabled calm_env fl now clock i b" and P=schedules_ok and d=d, OF schedule_setEnabled_Inr(1) [OF assms] schedule_operations_either(3) assms])
qed

lemma schedules_ok_cong: "cd_schedules d' = cd_schedules d \<Longrightarrow> schedules_ok d \<Longrightarrow> schedules_ok d'"
  by (simp add: schedules_ok_def)

lemma config_do_schedules:
  assumes "schedules_ok d"
  shows "schedules_ok (config_do op d)"
proof (cases op)
qed (simp_all only: config_do.simps schedule_operations [OF assms] schedules_ok_cong [OF policy_operations(1) assms]
    schedules_ok_cong [OF policy_operations(2) assms] schedules_ok_cong [OF policy_operations(3) assms])

lemma config_run_schedules: "schedules_ok d \<Longrightarrow> schedules_ok (fold config_do ops d)"
  by (induction ops arbitrary: d) (simp_all add: config_do_schedules)

end
