(* ===== verification/Schedule_Sync.thy ===== *)
theory Schedule_Sync
  imports Report_Services Json_Encode
begin

text \<open>
  The schedules of Temporal: \<open>internal/orchestrator/temporal/report_schedule_registrar.go\<close>. The schedule
  client of Temporal is a parameter, with the state of the server; \<open>server_contract\<close> states what its
  documentation promises. The lemmas say that synchronising makes the server's schedule the one of the
  stored row, paused exactly when the row is disabled.
\<close>

section \<open>Schedules of the server\<close>

text \<open>A calendar range has only its start; a field that is not set is the empty list.\<close>

record ScheduleCalendar =
  sc_Hour :: "int list"
  sc_Minute :: "int list"
  sc_Second :: "int list"
  sc_DayOfWeek :: "int list"
  sc_DayOfMonth :: "int list"
  sc_Comment :: string

record ScheduleSpec =
  ss_Intervals :: "(go_duration \<times> go_duration) list"
  ss_Calendars :: "ScheduleCalendar list"
  ss_TimeZoneName :: string

record LauncherInput =
  li_ScheduleID :: int
  li_PolicyID :: int
  li_TemporalScheduleID :: string
  li_ReplayWindowSeconds :: int
  li_ReplayDelaySeconds :: int
  li_ReplayLimit :: int
  li_FireTime :: go_time

text \<open>The workflow of every action is the launcher; the overlap policy is always to skip.\<close>

record ScheduleAction =
  sa_ID :: string
  sa_TaskQueue :: string
  sa_Input :: LauncherInput
  sa_ExecutionTimeout :: go_duration
  sa_TaskTimeout :: go_duration

record ScheduleOptions =
  so_ID :: string
  so_Spec :: ScheduleSpec
  so_Action :: ScheduleAction
  so_OverlapSkip :: bool
  so_CatchupWindow :: go_duration
  so_Paused :: bool
  so_Note :: string
  so_RemainingActions :: int
  so_PauseOnFailure :: bool

record TemporalSchedule =
  sd_Action :: ScheduleAction
  sd_Spec :: ScheduleSpec
  sd_OverlapSkip :: bool
  sd_CatchupWindow :: go_duration
  sd_PauseOnFailure :: bool
  sd_Note :: string
  sd_Paused :: bool
  sd_LimitedActions :: bool
  sd_RemainingActions :: int

definition scheduleFromCreateOptions :: "ScheduleOptions \<Rightarrow> TemporalSchedule" where
  "scheduleFromCreateOptions options =
     \<lparr>sd_Action = so_Action options, sd_Spec = so_Spec options, sd_OverlapSkip = so_OverlapSkip options,
      sd_CatchupWindow = so_CatchupWindow options, sd_PauseOnFailure = so_PauseOnFailure options,
      sd_Note = so_Note options, sd_Paused = so_Paused options,
      sd_LimitedActions = (so_RemainingActions options > 0),
      sd_RemainingActions = (if so_RemainingActions options > 0 then so_RemainingActions options else 0)\<rparr>"

section \<open>Options of a stored schedule\<close>

record registrar =
  rr_taskQueue :: string
  rr_workflowExecutionTimeout :: go_duration
  rr_workflowTaskTimeout :: go_duration

abbreviation time_Second :: go_duration where "time_Second \<equiv> 1000000000"

definition newReportWorkflowScheduleRegistrar :: registrar where
  "newReportWorkflowScheduleRegistrar =
     \<lparr>rr_taskQueue = ''openclarion'', rr_workflowExecutionTimeout = 45 * 60 * time_Second,
      rr_workflowTaskTimeout = 10 * time_Second\<rparr>"

definition registrar_error :: "string \<Rightarrow> go_error" where
  "registrar_error msg = invariant_error (''report workflow schedule registrar: '' @ msg)"

definition validateReportWorkflowScheduleCalendarFields ::
  "string \<Rightarrow> int \<Rightarrow> int \<Rightarrow> int \<Rightarrow> int \<Rightarrow> unit result" where
  "validateReportWorkflowScheduleCalendarFields cadence hour minute dayOfWeek dayOfMonth =
     (if hour < 0 \<or> hour > 23 then Inl (registrar_error ''calendar hour must be between 0 and 23'')
      else if minute < 0 \<or> minute > 59 then Inl (registrar_error ''calendar minute must be between 0 and 59'')
      else if cadence = [] \<or> cadence = CadenceInterval then
        (if hour \<noteq> 0 \<or> minute \<noteq> 0 \<or> dayOfWeek \<noteq> 0 \<or> dayOfMonth \<noteq> 0 then
           Inl (registrar_error ''interval cadence must not include calendar fields'') else Inr ())
      else if cadence = CadenceDaily then
        (if dayOfWeek \<noteq> 0 \<or> dayOfMonth \<noteq> 0 then
           Inl (registrar_error ''daily cadence must not include calendar day fields'') else Inr ())
      else if cadence = CadenceWeekly then
        (if dayOfWeek < 0 \<or> dayOfWeek > 6 then Inl (registrar_error ''day of week must be between 0 and 6'')
         else if dayOfMonth \<noteq> 0 then Inl (registrar_error ''weekly cadence must not include day of month'')
         else Inr ())
      else if cadence = CadenceMonthly then
        (if dayOfMonth < 1 \<or> dayOfMonth > 28 then Inl (registrar_error ''day of month must be between 1 and 28'')
         else if dayOfWeek \<noteq> 0 then Inl (registrar_error ''monthly cadence must not include day of week'')
         else Inr ())
      else Inr ())"

definition registrar_validate :: "registrar \<Rightarrow> ReportWorkflowSchedule \<Rightarrow> unit result" where
  "registrar_validate r s =
     (if ws_ID s \<le> 0 then Inl (registrar_error ''schedule id must be positive'')
      else if ws_PolicyID s \<le> 0 then Inl (registrar_error ''report workflow policy id must be positive'')
      else if TrimSpace (ws_TemporalScheduleID s) = [] then
        Inl (registrar_error ''temporal schedule id must be non-empty'')
      else if \<not> Cadence_Valid (ws_Cadence s) \<and> ws_Cadence s \<noteq> [] then
        Inl (registrar_error ''cadence is unsupported'')
      else bindE (validateReportWorkflowScheduleCalendarFields (ws_Cadence s) (ws_CalendarHour s) (ws_CalendarMinute s)
                    (ws_CalendarDayOfWeek s) (ws_CalendarDayOfMonth s)) (\<lambda>_.
      if ws_Cadence s \<noteq> [] \<and> ws_Cadence s \<noteq> CadenceInterval \<and> ws_Offset s \<noteq> 0 then
        Inl (registrar_error ''offset must be zero for calendar cadence'')
      else if ws_Interval s \<le> 0 then Inl (registrar_error ''interval must be positive'')
      else if ws_Offset s < 0 \<or> ws_Offset s \<ge> ws_Interval s then
        Inl (registrar_error ''offset must be non-negative and less than interval'')
      else if ws_Enabled s \<and> ws_ReplayWindow s > ws_Interval s then
        Inl (registrar_error ''enabled schedule replay window must not exceed interval'')
      else if ws_ReplayLimit s \<le> 0 then Inl (registrar_error ''replay limit must be positive'')
      else if ws_CatchupWindow s \<le> 0 then Inl (registrar_error ''catchup window must be positive'')
      else if TrimSpace (rr_taskQueue r) = [] then Inl (registrar_error ''task queue must be non-empty'')
      else if rr_workflowExecutionTimeout r \<le> 0 then
        Inl (registrar_error ''workflow execution timeout must be positive'')
      else if rr_workflowTaskTimeout r \<le> 0 then Inl (registrar_error ''workflow task timeout must be positive'')
      else Inr ()))"

text \<open>After the sign checks, \<open>%\<close> and \<open>/\<close> are \<open>mod\<close> and \<open>div\<close>.\<close>

definition wholeSeconds :: "string \<Rightarrow> go_duration \<Rightarrow> bool \<Rightarrow> int result" where
  "wholeSeconds name d allowZero =
     (if allowZero \<and> d < 0 then Inl (registrar_error (name @ '' must be non-negative''))
      else if \<not> allowZero \<and> d \<le> 0 then Inl (registrar_error (name @ '' must be positive''))
      else if d mod time_Second \<noteq> 0 then Inl (registrar_error (name @ '' must use whole-second precision''))
      else Inr (d div time_Second))"

definition calendar_spec :: "ScheduleCalendar \<Rightarrow> ScheduleSpec" where
  "calendar_spec c = \<lparr>ss_Intervals = [], ss_Calendars = [c], ss_TimeZoneName = ''UTC''\<rparr>"

definition scheduleSpec :: "ReportWorkflowSchedule \<Rightarrow> ScheduleSpec result" where
  "scheduleSpec s =
     (let daily = \<lparr>sc_Hour = [ws_CalendarHour s], sc_Minute = [ws_CalendarMinute s], sc_Second = [0],
                   sc_DayOfWeek = [], sc_DayOfMonth = [],
                   sc_Comment = ''OpenClarion daily report workflow schedule''\<rparr> in
      if ws_Cadence s = [] \<or> ws_Cadence s = CadenceInterval then
        Inr \<lparr>ss_Intervals = [(ws_Interval s, ws_Offset s)], ss_Calendars = [], ss_TimeZoneName = []\<rparr>
      else if ws_Cadence s = CadenceDaily then Inr (calendar_spec daily)
      else if ws_Cadence s = CadenceWeekly then
        Inr (calendar_spec (daily\<lparr>sc_DayOfWeek := [ws_CalendarDayOfWeek s],
               sc_Comment := ''OpenClarion weekly report workflow schedule''\<rparr>))
      else if ws_Cadence s = CadenceMonthly then
        Inr (calendar_spec (daily\<lparr>sc_DayOfMonth := [ws_CalendarDayOfMonth s],
               sc_Comment := ''OpenClarion monthly report workflow schedule''\<rparr>))
      else Inl (registrar_error ''cadence is unsupported''))"

definition scheduleLauncherWorkflowID :: "int \<Rightarrow> string" where
  "scheduleLauncherWorkflowID i = ''report-policy-schedule-'' @ int_decimal i"

definition BuildCreateOptions :: "registrar \<Rightarrow> ReportWorkflowSchedule \<Rightarrow> ScheduleOptions result" where
  "BuildCreateOptions r s =
     bindE (registrar_validate r s) (\<lambda>_.
     bindE (wholeSeconds ''replay_window'' (ws_ReplayWindow s) False) (\<lambda>replayWindowSeconds.
     bindE (wholeSeconds ''replay_delay'' (ws_ReplayDelay s) True) (\<lambda>replayDelaySeconds.
     let scheduleID = TrimSpace (ws_TemporalScheduleID s) in
     bindE (scheduleSpec s) (\<lambda>spec.
     Inr \<lparr>so_ID = scheduleID, so_Spec = spec,
          so_Action =
            \<lparr>sa_ID = scheduleLauncherWorkflowID (ws_ID s), sa_TaskQueue = TrimSpace (rr_taskQueue r),
             sa_Input =
               \<lparr>li_ScheduleID = ws_ID s, li_PolicyID = ws_PolicyID s, li_TemporalScheduleID = scheduleID,
                li_ReplayWindowSeconds = replayWindowSeconds, li_ReplayDelaySeconds = replayDelaySeconds,
                li_ReplayLimit = ws_ReplayLimit s, li_FireTime = 0\<rparr>,
             sa_ExecutionTimeout = rr_workflowExecutionTimeout r, sa_TaskTimeout = rr_workflowTaskTimeout r\<rparr>,
          so_OverlapSkip = True, so_CatchupWindow = ws_CatchupWindow s, so_Paused = (\<not> ws_Enabled s),
          so_Note = ''OpenClarion report workflow schedule '' @ int_decimal (ws_ID s),
          so_RemainingActions = 0, so_PauseOnFailure = False\<rparr>))))"

section \<open>The client of the server\<close>

text \<open>
  The schedule client of the SDK. \<open>Create\<close> answers the ID of the handle, \<open>None\<close> for a nil handle;
  \<open>sm_handle\<close> says for which IDs \<open>GetHandle\<close> is not nil. The last three recognise errors of the SDK.
\<close>

record 'm schedule_manager =
  sm_Create :: "ScheduleOptions \<Rightarrow> 'm \<Rightarrow> 'm \<times> string option result"
  sm_handle :: "string \<Rightarrow> bool"
  sm_Update :: "string \<Rightarrow> TemporalSchedule \<Rightarrow> 'm \<Rightarrow> 'm \<times> unit result"
  sm_ErrScheduleAlreadyRunning :: "go_error \<Rightarrow> bool"
  sm_AlreadyExists :: "go_error \<Rightarrow> bool"
  sm_WorkflowExecutionAlreadyStarted :: "go_error \<Rightarrow> bool"

definition isTemporalAlreadyExists :: "'m schedule_manager \<Rightarrow> go_error \<Rightarrow> bool" where
  "isTemporalAlreadyExists sm e \<longleftrightarrow>
     sm_ErrScheduleAlreadyRunning sm e \<or> sm_AlreadyExists sm e \<or> sm_WorkflowExecutionAlreadyStarted sm e"

datatype SyncAction = SyncCreated | SyncUpdated

record SyncResult =
  sy_ScheduleID :: string
  sy_Action :: SyncAction
  sy_Paused :: bool

definition registrar_Create ::
  "'m schedule_manager \<Rightarrow> registrar \<Rightarrow> ReportWorkflowSchedule \<Rightarrow> 'm \<Rightarrow> 'm \<times> string result" where
  "registrar_Create sm r s m =
     (case BuildCreateOptions r s of
        Inl e \<Rightarrow> (m, Inl e)
      | Inr options \<Rightarrow>
          (case sm_Create sm options m of
             (m, Inl e) \<Rightarrow> (m, Inl (wrap_error ''report workflow schedule registrar: create Temporal schedule'' e))
           | (m, Inr None) \<Rightarrow> (m, Inl (registrar_error ''Temporal schedule create returned nil handle''))
           | (m, Inr (Some i)) \<Rightarrow> (m, Inr i)))"

definition Sync ::
  "'m schedule_manager \<Rightarrow> registrar \<Rightarrow> ReportWorkflowSchedule \<Rightarrow> 'm \<Rightarrow> 'm \<times> SyncResult result" where
  "Sync sm r s m =
     (case BuildCreateOptions r s of
        Inl e \<Rightarrow> (m, Inl e)
      | Inr options \<Rightarrow>
          (case sm_Create sm options m of
             (m, Inr None) \<Rightarrow> (m, Inl (registrar_error ''Temporal schedule create returned nil handle''))
           | (m, Inr (Some i)) \<Rightarrow>
               (m, Inr \<lparr>sy_ScheduleID = i, sy_Action = SyncCreated, sy_Paused = so_Paused options\<rparr>)
           | (m, Inl e) \<Rightarrow>
               if \<not> isTemporalAlreadyExists sm e then
                 (m, Inl (wrap_error ''report workflow schedule registrar: create Temporal schedule'' e))
               else
                 let scheduleID = TrimSpace (ws_TemporalScheduleID s) in
                 if \<not> sm_handle sm scheduleID then
                   (m, Inl (registrar_error (''Temporal schedule handle is nil for '' @ scheduleID)))
                 else
                   (case sm_Update sm scheduleID (scheduleFromCreateOptions options) m of
                      (m, Inl e) \<Rightarrow> (m, Inl (wrap_error (''report workflow schedule registrar: update Temporal schedule '' @ scheduleID) e))
                    | (m, Inr _) \<Rightarrow>
                        (m, Inr \<lparr>sy_ScheduleID = scheduleID, sy_Action = SyncUpdated, sy_Paused = so_Paused options\<rparr>))))"

definition SyncReportWorkflowSchedule ::
  "'m schedule_manager \<Rightarrow> registrar \<Rightarrow> ReportWorkflowSchedule \<Rightarrow> 'm \<Rightarrow> 'm \<times> unit result" where
  "SyncReportWorkflowSchedule sm r s m = map_prod id (map_sum id (\<lambda>_. ())) (Sync sm r s m)"

record ReconcileResult =
  rc_Total :: nat
  rc_Created :: nat
  rc_Updated :: nat

definition counted :: "SyncAction \<Rightarrow> ReconcileResult \<Rightarrow> ReconcileResult" where
  "counted action res =
     (let res = res\<lparr>rc_Total := rc_Total res + 1\<rparr> in
      case action of
        SyncCreated \<Rightarrow> res\<lparr>rc_Created := rc_Created res + 1\<rparr>
      | SyncUpdated \<Rightarrow> res\<lparr>rc_Updated := rc_Updated res + 1\<rparr>)"

text \<open>A failed reconciliation answers what it had counted, with the error.\<close>

fun reconcile_loop ::
  "'m schedule_manager \<Rightarrow> registrar \<Rightarrow> ReconcileResult \<Rightarrow> ReportWorkflowSchedule list \<Rightarrow> 'm
   \<Rightarrow> 'm \<times> ReconcileResult \<times> go_error option" where
  "reconcile_loop sm r res [] m = (m, res, None)"
| "reconcile_loop sm r res (s # ss) m =
     (case Sync sm r s m of
        (m, Inl e) \<Rightarrow> (m, res, Some (wrap_error (''report workflow schedule registrar: reconcile schedule '' @
            int_decimal (ws_ID s) @ '' '' @ TrimSpace (ws_TemporalScheduleID s)) e))
      | (m, Inr syncResult) \<Rightarrow> reconcile_loop sm r (counted (sy_Action syncResult) res) ss m)"

definition Reconcile ::
  "'m schedule_manager \<Rightarrow> registrar \<Rightarrow> ReportWorkflowSchedule list \<Rightarrow> 'm \<Rightarrow> 'm \<times> ReconcileResult \<times> go_error option" where
  "Reconcile sm r = reconcile_loop sm r \<lparr>rc_Total = 0, rc_Created = 0, rc_Updated = 0\<rparr>"

section \<open>The server\<close>

text \<open>
  A schedule is created under an ID that has none; a call that fails has no effect or its whole effect
  (the answer was lost), and none when the answer is that the schedule exists.
\<close>

definition server_contract :: "'m schedule_manager \<Rightarrow> ('m \<Rightarrow> string \<rightharpoonup> TemporalSchedule) \<Rightarrow> bool" where
  "server_contract sm view \<longleftrightarrow>
     (\<forall>o1 m m' h. sm_Create sm o1 m = (m', Inr h) \<longrightarrow>
        h = Some (so_ID o1) \<and> view m (so_ID o1) = None \<and> view m' = (view m)(so_ID o1 \<mapsto> scheduleFromCreateOptions o1)) \<and>
     (\<forall>o1 m m' e. sm_Create sm o1 m = (m', Inl e) \<longrightarrow>
        (if isTemporalAlreadyExists sm e then view m' = view m \<and> view m (so_ID o1) \<noteq> None
         else view m' = view m \<or> view m' = (view m)(so_ID o1 \<mapsto> scheduleFromCreateOptions o1))) \<and>
     (\<forall>i s m m'. sm_Update sm i s m = (m', Inr ()) \<longrightarrow> view m' = (view m)(i \<mapsto> s)) \<and>
     (\<forall>i s m m' e. sm_Update sm i s m = (m', Inl e) \<longrightarrow> view m' = view m \<or> view m' = (view m)(i \<mapsto> s))"

lemma server_laws:
  assumes "server_contract sm view"
  shows "sm_Create sm opts m = (m', Inr h) \<Longrightarrow>
      h = Some (so_ID opts) \<and> view m (so_ID opts) = None \<and> view m' = (view m)(so_ID opts \<mapsto> scheduleFromCreateOptions opts)"
    "sm_Create sm opts m = (m', Inl e) \<Longrightarrow> isTemporalAlreadyExists sm e \<Longrightarrow> view m' = view m \<and> view m (so_ID opts) \<noteq> None"
    "sm_Create sm opts m = (m', Inl e) \<Longrightarrow>
      view m' = view m \<or> view m' = (view m)(so_ID opts \<mapsto> scheduleFromCreateOptions opts)"
    "sm_Update sm i x m = (m', Inr z) \<Longrightarrow> view m' = (view m)(i \<mapsto> x)"
    "sm_Update sm i x m = (m', Inl e) \<Longrightarrow> view m' = view m \<or> view m' = (view m)(i \<mapsto> x)"
proof -
  note c = assms [unfolded server_contract_def]
  show "sm_Create sm opts m = (m', Inr h) \<Longrightarrow>
      h = Some (so_ID opts) \<and> view m (so_ID opts) = None \<and> view m' = (view m)(so_ID opts \<mapsto> scheduleFromCreateOptions opts)"
    using c [THEN conjunct1] by blast
  have e: "sm_Create sm opts m = (m', Inl e) \<Longrightarrow>
      if isTemporalAlreadyExists sm e then view m' = view m \<and> view m (so_ID opts) \<noteq> None
      else view m' = view m \<or> view m' = (view m)(so_ID opts \<mapsto> scheduleFromCreateOptions opts)"
    using c [THEN conjunct2, THEN conjunct1] by blast
  then show "sm_Create sm opts m = (m', Inl e) \<Longrightarrow> isTemporalAlreadyExists sm e \<Longrightarrow>
      view m' = view m \<and> view m (so_ID opts) \<noteq> None" by simp
  from e show "sm_Create sm opts m = (m', Inl e) \<Longrightarrow>
      view m' = view m \<or> view m' = (view m)(so_ID opts \<mapsto> scheduleFromCreateOptions opts)"
    by (auto split: if_splits)
  show "sm_Update sm i x m = (m', Inr z) \<Longrightarrow> view m' = (view m)(i \<mapsto> x)"
    using c [THEN conjunct2, THEN conjunct2, THEN conjunct1] by (cases z) blast
  show "sm_Update sm i x m = (m', Inl e) \<Longrightarrow> view m' = view m \<or> view m' = (view m)(i \<mapsto> x)"
    using c [THEN conjunct2, THEN conjunct2, THEN conjunct2] by blast
qed

text \<open>The schedule that a stored row stands for.\<close>

definition target_schedule :: "registrar \<Rightarrow> ReportWorkflowSchedule \<Rightarrow> TemporalSchedule option" where
  "target_schedule r s = (case BuildCreateOptions r s of Inl _ \<Rightarrow> None | Inr options \<Rightarrow> Some (scheduleFromCreateOptions options))"

abbreviation temporal_id :: "ReportWorkflowSchedule \<Rightarrow> string" where
  "temporal_id s \<equiv> TrimSpace (ws_TemporalScheduleID s)"

lemma BuildCreateOptions_ID: "BuildCreateOptions r s = Inr options \<Longrightarrow> so_ID options = temporal_id s \<and> so_Paused options = (\<not> ws_Enabled s)"
  by (auto simp: BuildCreateOptions_def bindE_eq_Inr_iff Let_def)

lemma target_schedule_paused:
  "target_schedule r s = Some x \<Longrightarrow> sd_Paused x \<longleftrightarrow> \<not> ws_Enabled s"
  by (auto simp: target_schedule_def scheduleFromCreateOptions_def dest: BuildCreateOptions_ID split: sum.splits)

lemma Sync_Inr:
  assumes "server_contract sm view" "Sync sm r s m = (m', Inr res)"
  shows "\<exists>x. target_schedule r s = Some x \<and> view m' = (view m)(temporal_id s \<mapsto> x)"
    "sy_ScheduleID res = temporal_id s" "sy_Paused res = (\<not> ws_Enabled s)"
    "sy_Action res = SyncCreated \<longleftrightarrow> view m (temporal_id s) = None"
proof -
  obtain opts where o1: "BuildCreateOptions r s = Inr opts"
    using assms(2) by (cases "BuildCreateOptions r s") (simp_all add: Sync_def)
  obtain m1 c where c: "sm_Create sm opts m = (m1, c)" by (cases "sm_Create sm opts m")
  note i = BuildCreateOptions_ID [OF o1]
  let ?x = "scheduleFromCreateOptions opts"
  have t: "target_schedule r s = Some ?x" by (simp add: target_schedule_def o1)
  have "view m' = (view m)(temporal_id s \<mapsto> ?x) \<and> sy_ScheduleID res = temporal_id s \<and> sy_Paused res = so_Paused opts \<and>
      (sy_Action res = SyncCreated \<longleftrightarrow> view m (temporal_id s) = None)"
  proof (cases c)
    case (Inr h)
    with server_laws(1) [OF assms(1)] c i have h: "h = Some (temporal_id s)" "view m (temporal_id s) = None"
      "view m1 = (view m)(temporal_id s \<mapsto> ?x)" by metis+
    from assms(2) have "m' = m1 \<and> res = \<lparr>sy_ScheduleID = temporal_id s, sy_Action = SyncCreated, sy_Paused = so_Paused opts\<rparr>"
      by (simp add: Sync_def o1 c Inr h(1))
    with h show ?thesis by simp
  next
    case (Inl e)
    have ex: "isTemporalAlreadyExists sm e"
      using assms(2) by (cases "isTemporalAlreadyExists sm e") (simp_all add: Sync_def o1 c Inl)
    with server_laws(2) [OF assms(1)] c Inl i have m1: "view m1 = view m" "view m (temporal_id s) \<noteq> None" by metis+
    have hd: "sm_handle sm (temporal_id s)"
      using assms(2) by (cases "sm_handle sm (temporal_id s)") (simp_all add: Sync_def o1 c Inl ex Let_def)
    obtain m2 q where u: "sm_Update sm (temporal_id s) ?x m1 = (m2, q)" by (cases "sm_Update sm (temporal_id s) ?x m1")
    obtain z where q: "q = Inr z" and r: "m' = m2"
        "res = \<lparr>sy_ScheduleID = temporal_id s, sy_Action = SyncUpdated, sy_Paused = so_Paused opts\<rparr>"
      using assms(2) by (cases q) (simp_all add: Sync_def o1 c Inl ex hd u Let_def)
    from server_laws(4) [OF assms(1)] u q have "view m2 = (view m1)(temporal_id s \<mapsto> ?x)" by metis
    with m1 r show ?thesis by simp
  qed
  with t i show "\<exists>x. target_schedule r s = Some x \<and> view m' = (view m)(temporal_id s \<mapsto> x)"
    "sy_ScheduleID res = temporal_id s" "sy_Paused res = (\<not> ws_Enabled s)"
    "sy_Action res = SyncCreated \<longleftrightarrow> view m (temporal_id s) = None" by auto
qed

lemma Sync_Inl:
  assumes "server_contract sm view" "Sync sm r s m = (m', Inl e)"
  shows "view m' = view m \<or> (\<exists>x. target_schedule r s = Some x \<and> view m' = (view m)(temporal_id s \<mapsto> x))"
proof (cases "BuildCreateOptions r s")
  case (Inr opts)
  note i = BuildCreateOptions_ID [OF Inr]
  let ?x = "scheduleFromCreateOptions opts"
  have t: "target_schedule r s = Some ?x" by (simp add: target_schedule_def Inr)
  obtain m1 c where c: "sm_Create sm opts m = (m1, c)" by (cases "sm_Create sm opts m")
  have m1: "view m1 = view m \<or> view m1 = (view m)(temporal_id s \<mapsto> ?x)"
    using server_laws(1,3) [OF assms(1)] c i by (cases c) metis+
  show ?thesis
  proof (cases "m' = m1")
    case False
    obtain m2 q where u: "sm_Update sm (temporal_id s) ?x m1 = (m2, q)" by (cases "sm_Update sm (temporal_id s) ?x m1")
    from assms(2) False have "m' = m2" "\<exists>e. q = Inl e"
      by (auto simp: Sync_def Inr c u Let_def split: if_splits sum.splits option.splits)
    with server_laws(5) [OF assms(1)] u have "view m' = view m1 \<or> view m' = (view m1)(temporal_id s \<mapsto> ?x)" by metis
    with m1 t show ?thesis by auto
  qed (use m1 t in auto)
qed (use assms(2) in \<open>simp add: Sync_def\<close>)

section \<open>Reconciliation\<close>

definition counts_fit :: "ReconcileResult \<Rightarrow> bool" where
  "counts_fit res \<longleftrightarrow> rc_Total res = rc_Created res + rc_Updated res"

lemma reconcile_loop_ok:
  assumes "server_contract sm view" "reconcile_loop sm r res ss m = (m', res', None)"
    and "distinct (map temporal_id ss)"
  shows "(\<forall>s \<in> set ss. view m' (temporal_id s) = target_schedule r s \<and> target_schedule r s \<noteq> None) \<and>
    (\<forall>i. i \<notin> temporal_id ` set ss \<longrightarrow> view m' i = view m i) \<and>
    rc_Total res' = rc_Total res + length ss \<and> (counts_fit res \<longrightarrow> counts_fit res')"
  using assms
proof (induction sm r res ss m rule: reconcile_loop.induct)
  case (2 sm r res s ss m)
  obtain m1 sy where s: "Sync sm r s m = (m1, Inr sy)"
    and l: "reconcile_loop sm r (counted (sy_Action sy) res) ss m1 = (m', res', None)"
    using 2(3) by (auto split: prod.splits sum.splits)
  obtain x where x: "target_schedule r s = Some x" "view m1 = (view m)(temporal_id s \<mapsto> x)"
    using Sync_Inr(1) [OF 2(2) s] by blast
  have d: "distinct (map temporal_id ss)" "temporal_id s \<notin> temporal_id ` set ss" using 2(4) by simp_all
  from 2(1) [OF s [symmetric] HOL.refl 2(2) l d(1)] have
    ih: "\<forall>s \<in> set ss. view m' (temporal_id s) = target_schedule r s \<and> target_schedule r s \<noteq> None"
      "\<forall>i. i \<notin> temporal_id ` set ss \<longrightarrow> view m' i = view m1 i"
      "rc_Total res' = rc_Total (counted (sy_Action sy) res) + length ss"
      "counts_fit (counted (sy_Action sy) res) \<longrightarrow> counts_fit res'" by blast+
  have "rc_Total (counted (sy_Action sy) res) = rc_Total res + 1" "counts_fit res \<longrightarrow> counts_fit (counted (sy_Action sy) res)"
    by (auto simp: counted_def counts_fit_def Let_def split: SyncAction.split)
  with ih x d(2) show ?case by auto
qed simp

lemma Reconcile_ok:
  assumes "server_contract sm view" "Reconcile sm r ss m = (m', res, None)" "distinct (map temporal_id ss)"
  shows "\<And>s. s \<in> set ss \<Longrightarrow> view m' (temporal_id s) = target_schedule r s \<and> target_schedule r s \<noteq> None"
    "\<And>i. i \<notin> temporal_id ` set ss \<Longrightarrow> view m' i = view m i"
    "rc_Total res = length ss" "counts_fit res"
  using reconcile_loop_ok [OF assms(1) assms(2) [unfolded Reconcile_def] assms(3)] by (simp_all add: counts_fit_def)

text \<open>Every stored schedule whose windows are whole seconds is accepted by the registrar.\<close>

lemma stored_schedule_accepted:
  assumes "schedule_ok s" "0 < ws_ID s" "TrimSpace (rr_taskQueue r) \<noteq> []" "0 < rr_workflowExecutionTimeout r"
    "0 < rr_workflowTaskTimeout r" "ws_ReplayWindow s mod time_Second = 0" "ws_ReplayDelay s mod time_Second = 0"
  shows "\<exists>options. BuildCreateOptions r s = Inr options \<and>
    li_ReplayWindowSeconds (sa_Input (so_Action options)) * time_Second = ws_ReplayWindow s \<and>
    li_ReplayDelaySeconds (sa_Input (so_Action options)) * time_Second = ws_ReplayDelay s"
proof -
  have shape: "schedule_shape s = Inr ()" and "TrimSpace (ws_TemporalScheduleID s) \<noteq> []"
    and b: "0 < ws_PolicyID s" "0 < ws_Interval s" "0 \<le> ws_Offset s" "ws_Offset s < ws_Interval s"
      "0 < ws_ReplayWindow s" "ws_ReplayWindow s \<le> ws_Interval s" "0 \<le> ws_ReplayDelay s" "0 < ws_ReplayLimit s"
      "0 < ws_CatchupWindow s"
    using assms(1) by (auto simp: schedule_ok_def validateTemporalScheduleID_def)
  from shape have c: "Cadence_Valid (ws_Cadence s)"
    and f: "validateReportWorkflowScheduleCalendarFields (ws_Cadence s) (ws_CalendarHour s) (ws_CalendarMinute s)
      (ws_CalendarDayOfWeek s) (ws_CalendarDayOfMonth s) = Inr ()"
    and z: "ws_Cadence s \<noteq> CadenceInterval \<Longrightarrow> ws_Offset s = 0"
    by (auto simp: validateReportWorkflowScheduleCadenceShape_def Cadence_Valid_def
        validateReportWorkflowScheduleCalendarFields_def split: if_splits)
  have v: "registrar_validate r s = Inr ()"
    using assms(2-5) b c f z \<open>TrimSpace (ws_TemporalScheduleID s) \<noteq> []\<close> unfolding registrar_validate_def
    by (cases "ws_Cadence s = CadenceInterval") simp_all
  obtain spec where spec: "scheduleSpec s = Inr spec"
    using c by (auto simp: scheduleSpec_def Cadence_Valid_def Let_def)
  have w: "wholeSeconds ''replay_window'' (ws_ReplayWindow s) False = Inr (ws_ReplayWindow s div time_Second)"
    "wholeSeconds ''replay_delay'' (ws_ReplayDelay s) True = Inr (ws_ReplayDelay s div time_Second)"
    using b assms(6,7) by (simp_all add: wholeSeconds_def)
  have d: "ws_ReplayWindow s div time_Second * time_Second = ws_ReplayWindow s"
    "ws_ReplayDelay s div time_Second * time_Second = ws_ReplayDelay s"
    using assms(6,7) by (simp_all add: mult.commute mod_0_imp_dvd)
  show ?thesis unfolding BuildCreateOptions_def by (simp add: v spec w d Let_def)
qed

end
