(* ===== verification/Tenant_Schedules.thy ===== *)
theory Tenant_Schedules
  imports Tenant_Service Schedule_Sync
begin

text \<open>
  The schedules of a tenant whose status changes: \<open>UpdateTenantStatus\<close> and \<open>syncTenantScheduleState\<close> of
  \<open>internal/transport/http/tenant_admin.go\<close>, and the reconciliation of all tenants when the process starts
  (\<open>cmd/openclarion/main.go\<close>). The authenticated subject and the decoded status are arguments. The lemmas say
  when the schedules on the server run.
\<close>

section \<open>Schedules of one tenant\<close>

text \<open>The registry, the configuration of each tenant, and the server of Temporal.\<close>

record 'm platform =
  pf_registry :: registry_db
  pf_config :: "int \<Rightarrow> config_db"
  pf_server :: 'm

definition maxListLimit :: nat where "maxListLimit = 500"

definition set_paused :: "ReportWorkflowSchedule \<Rightarrow> ReportWorkflowSchedule" where
  "set_paused s = s\<lparr>ws_Enabled := False\<rparr>"

fun sync_tenant_loop ::
  "'m schedule_manager \<Rightarrow> registrar \<Rightarrow> bool \<Rightarrow> ReportWorkflowSchedule list \<Rightarrow> 'm \<Rightarrow> 'm \<times> unit result" where
  "sync_tenant_loop sm r active [] m = (m, Inr ())"
| "sync_tenant_loop sm r active (s # ss) m =
     (case SyncReportWorkflowSchedule sm r (if \<not> active then set_paused s else s) m of
        (m, Inl e) \<Rightarrow> (m, Inl (wrap_error (''sync schedule '' @ int_decimal (ws_ID s)) e))
      | (m, Inr _) \<Rightarrow> sync_tenant_loop sm r active ss m)"

text \<open>\<open>syncer\<close> is \<open>None\<close> where no synchroniser is configured; \<open>ctx\<close> is the context of the request.\<close>

definition syncTenantScheduleState ::
  "('m schedule_manager \<times> registrar) option \<Rightarrow> tenant_context \<Rightarrow> tx_env \<Rightarrow> config_faults \<Rightarrow> Tenant
   \<Rightarrow> (int \<Rightarrow> config_db) \<Rightarrow> 'm \<Rightarrow> 'm \<times> unit result" where
  "syncTenantScheduleState syncer ctx env fl tenant config m =
     (case syncer of
        None \<Rightarrow> (m, Inr ())
      | Some (sm, r) \<Rightarrow>
     (case bindE (NewIdentity (tn_ID tenant) (tn_Key tenant)) (\<lambda>identity.
             bindE (WithTenant ctx identity) (\<lambda>_.
             snd (within_tx env (config (id_ID identity)) (ListReportWorkflowSchedules fl (int (maxListLimit + 1)))))) of
        Inl e \<Rightarrow> (m, Inl e)
      | Inr schedules \<Rightarrow>
          if length schedules > maxListLimit then
            (m, Inl (invariant_error (''tenant '' @ tn_Key tenant @ '' exceeds 500 report workflow schedules'')))
          else sync_tenant_loop sm r (tn_Status tenant = TenantStatusActive) schedules m))"

section \<open>The status handler\<close>

definition tenant_error_status :: "go_error \<Rightarrow> nat" where
  "tenant_error_status e =
     (if errors_Is e ErrInvariantViolation then 400
      else if errors_Is e ErrPreconditionFailed \<or> errors_Is e ErrAlreadyExists then 409
      else if errors_Is e ErrNotFound then 404
      else 500)"

record status_env =
  se_ctx :: tenant_context
  se_manage :: "go_error option"
  se_find :: "go_error option"
  se_update :: commit_fault
  se_now :: go_time
  se_tx :: tx_env
  se_list :: config_faults

text \<open>
  The change itself, once the status differs: pause first when disabling, and persist first when enabling.
  The answer is the status code with the tenant that was written, if any.
\<close>

definition change_tenant_status ::
  "('m schedule_manager \<times> registrar) option \<Rightarrow> status_env \<Rightarrow> int \<Rightarrow> string \<Rightarrow> Tenant \<Rightarrow> 'm platform
   \<Rightarrow> 'm platform \<times> nat \<times> Tenant option" where
  "change_tenant_status syncer env tenantID status current st =
     (let sync = syncTenantScheduleState syncer (se_ctx env) (se_tx env) (se_list env) in
      case (if status = TenantStatusDisabled then sync (current\<lparr>tn_Status := status\<rparr>) (pf_config st) (pf_server st)
            else (pf_server st, Inr ())) of
        (m, Inl e) \<Rightarrow> (st\<lparr>pf_server := m\<rparr>, 500, None)
      | (m, Inr _) \<Rightarrow>
     (case UpdateTenantStatus (se_update env) (se_now env) tenantID status (pf_registry st) of
        (d, Inl e) \<Rightarrow> (st\<lparr>pf_server := m, pf_registry := d\<rparr>, tenant_error_status e, None)
      | (d, Inr updated) \<Rightarrow>
     (case (if status = TenantStatusActive then sync updated (pf_config st) m else (m, Inr ())) of
        (m, Inl e) \<Rightarrow> (st\<lparr>pf_server := m, pf_registry := d\<rparr>, 500, None)
      | (m, Inr _) \<Rightarrow> (st\<lparr>pf_server := m, pf_registry := d\<rparr>, 200, Some updated))))"

definition UpdateTenantStatus_handler ::
  "('m schedule_manager \<times> registrar) option \<Rightarrow> status_env \<Rightarrow> (string \<Rightarrow> bool) \<Rightarrow> string \<Rightarrow> int \<Rightarrow> string \<Rightarrow> 'm platform
   \<Rightarrow> 'm platform \<times> nat \<times> Tenant option" where
  "UpdateTenantStatus_handler syncer env admin subject tenantID status st =
     (if tenantID \<le> 0 then (st, 400, None)
      else case CanManage (se_manage env) tenantID subject (admin subject) (pf_registry st) of
        Inl e \<Rightarrow> (st, 500, None)
      | Inr allowed \<Rightarrow>
      if \<not> allowed then (st, 403, None)
      else case ValidateTenantStatus status of
        Inl e \<Rightarrow> (st, tenant_error_status e, None)
      | Inr _ \<Rightarrow>
      if tenantID = DefaultTenantID \<and> status \<noteq> TenantStatusActive then
        (st, tenant_error_status (GoErr ''default tenant cannot be disabled'' [ErrPreconditionFailed]), None)
      else case FindTenantByID (se_find env) tenantID (pf_registry st) of
        Inl e \<Rightarrow> (st, tenant_error_status e, None)
      | Inr current \<Rightarrow>
      if tn_Status current = status then (st, 200, Some current)
      else change_tenant_status syncer env tenantID status current st)"

section \<open>Reconciliation at the start\<close>

definition reconcile_limit :: nat where "reconcile_limit = 1000"

definition no_counts :: ReconcileResult where
  "no_counts = \<lparr>rc_Total = 0, rc_Created = 0, rc_Updated = 0\<rparr>"

text \<open>\<open>config\<close> is the configuration of the tenant that the context is bound to.\<close>

definition reconcileReportWorkflowSchedulesForTenant ::
  "'m schedule_manager \<times> registrar \<Rightarrow> tx_env \<Rightarrow> config_faults \<Rightarrow> bool \<Rightarrow> config_db \<Rightarrow> 'm
   \<Rightarrow> 'm \<times> ReconcileResult \<times> go_error option" where
  "reconcileReportWorkflowSchedulesForTenant reconciler env fl tenantActive config m =
     (case snd (within_tx env config (ListReportWorkflowSchedules fl (int (reconcile_limit + 1)))) of
        Inl e \<Rightarrow> (m, no_counts, Some e)
      | Inr schedules \<Rightarrow>
          if length schedules > reconcile_limit then
            (m, no_counts, Some (invariant_error ''report workflow schedule reconciliation exceeds 1000 schedules''))
          else Reconcile (fst reconciler) (snd reconciler)
                 (if \<not> tenantActive then map set_paused schedules else schedules) m)"

definition add_counts :: "ReconcileResult \<Rightarrow> ReconcileResult \<Rightarrow> ReconcileResult" where
  "add_counts a b =
     \<lparr>rc_Total = rc_Total a + rc_Total b, rc_Created = rc_Created a + rc_Created b, rc_Updated = rc_Updated a + rc_Updated b\<rparr>"

fun reconcile_tenants ::
  "'m schedule_manager \<times> registrar \<Rightarrow> tenant_context \<Rightarrow> (int \<Rightarrow> tx_env \<times> config_faults) \<Rightarrow> (int \<Rightarrow> config_db)
   \<Rightarrow> ReconcileResult \<Rightarrow> Tenant list \<Rightarrow> 'm \<Rightarrow> 'm \<times> ReconcileResult \<times> go_error option" where
  "reconcile_tenants reconciler ctx envs config tot [] m = (m, tot, None)"
| "reconcile_tenants reconciler ctx envs config tot (tenant # tenants) m =
     (case bindE (NewIdentity (tn_ID tenant) (tn_Key tenant)) (\<lambda>identity.
             bindE (WithTenant ctx identity) (\<lambda>_. Inr (id_ID identity))) of
        Inl e \<Rightarrow> (m, tot, Some (wrap_error (''bind schedule reconciliation tenant '' @ tn_Key tenant) e))
      | Inr i \<Rightarrow>
          (case reconcileReportWorkflowSchedulesForTenant reconciler (fst (envs i)) (snd (envs i))
                  (tn_Status tenant = TenantStatusActive) (config i) m of
             (m, result, Some e) \<Rightarrow> (m, tot, Some (wrap_error (''reconcile schedules for tenant '' @ tn_Key tenant) e))
           | (m, result, None) \<Rightarrow> reconcile_tenants reconciler ctx envs config (add_counts tot result) tenants m))"

definition reconcileAllTenantReportWorkflowSchedules ::
  "'m schedule_manager \<times> registrar \<Rightarrow> tenant_context \<Rightarrow> go_error option \<Rightarrow> (int \<Rightarrow> tx_env \<times> config_faults) \<Rightarrow> 'm platform
   \<Rightarrow> 'm platform \<times> ReconcileResult \<times> go_error option" where
  "reconcileAllTenantReportWorkflowSchedules reconciler ctx fault envs st =
     (case ListTenants fault 501 (pf_registry st) of
        Inl e \<Rightarrow> (st, no_counts, Some (wrap_error ''list tenants for schedule reconciliation'' e))
      | Inr tenantRows \<Rightarrow>
          if length tenantRows > 500 then
            (st, no_counts, Some (invariant_error ''report workflow schedule reconciliation exceeds 500 tenants''))
          else
            (case reconcile_tenants reconciler ctx envs (pf_config st) no_counts tenantRows (pf_server st) of
               (m, tot, e) \<Rightarrow> (st\<lparr>pf_server := m\<rparr>, tot, e)))"

section \<open>What is listed\<close>

lemma ListReportWorkflowSchedules_Inr [tx_ok]:
  "ListReportWorkflowSchedules fl lim u = (u', Inr ss) \<longleftrightarrow>
     uow_closed u = UowOpen \<and> 0 < lim \<and> \<not> uow_aborted u \<and> fl ''ListReportWorkflowSchedules'' = None \<and> u' = u \<and>
     ss = take (nat lim) (sort_key (\<lambda>r. (- ws_UpdatedAt r, - ws_ID r)) (tb_rows (cd_schedules (uow_data u))))"
  by (auto simp: ListReportWorkflowSchedules_def tx_ok)

lemma keeps_open_schedules [intro]: "keeps_open (ListReportWorkflowSchedules fl lim)"
  unfolding ListReportWorkflowSchedules_def by (intro keeps_open_opened keeps_open_list)

lemma distinct_map_sort_key: "distinct (map f (sort_key k xs)) \<longleftrightarrow> distinct (map f xs)"
  by (metis mset_map mset_eq_imp_distinct_iff mset_sort)

text \<open>A list that is not cut has every stored schedule.\<close>

lemma listed_schedules:
  assumes "snd (within_tx env d (ListReportWorkflowSchedules fl (int (n + 1)))) = Inr ss" "length ss \<le> n" "schedules_ok d"
  shows "set ss = set (tb_rows (cd_schedules d))" "distinct (map temporal_id ss)"
proof -
  let ?all = "sort_key (\<lambda>r. (- ws_UpdatedAt r, - ws_ID r)) (tb_rows (cd_schedules d))"
  have "within_tx env d (ListReportWorkflowSchedules fl (int (n + 1))) =
      (fst (within_tx env d (ListReportWorkflowSchedules fl (int (n + 1)))), Inr ss)"
    using assms(1) by (metis prod.collapse)
  from within_tx_ok [OF keeps_open_schedules this] obtain u
    where "ListReportWorkflowSchedules fl (int (n + 1)) (newUnitOfWork d) = (u, Inr ss)" by blast
  then have "ss = take (nat (int (n + 1)))
      (sort_key (\<lambda>r. (- ws_UpdatedAt r, - ws_ID r)) (tb_rows (cd_schedules (uow_data (newUnitOfWork d)))))"
    by (simp only: ListReportWorkflowSchedules_Inr)
  then have "ss = take (n + 1) ?all" by (simp only: nat_int newUnitOfWork_simps)
  with assms(2) have ss: "ss = ?all" by (auto simp: min_def split: if_splits)
  then show rows: "set ss = set (tb_rows (cd_schedules d))" by simp
  have "temporal_id s = ws_TemporalScheduleID s" if "s \<in> set ss" for s
    using assms(3) that rows by (simp add: schedules_ok_def schedule_ok_def)
  then have "map temporal_id ss = map ws_TemporalScheduleID ss" by simp
  moreover have "distinct (map ws_TemporalScheduleID ss)"
    unfolding ss distinct_map_sort_key using assms(3) by (simp add: schedules_ok_def)
  ultimately show "distinct (map temporal_id ss)" by (simp only:)
qed

lemma set_paused_simps [simp]: "ws_TemporalScheduleID (set_paused s) = ws_TemporalScheduleID s" "ws_Enabled (set_paused s) = False"
  by (simp_all add: set_paused_def)

text \<open>The schedule that the server is to have for a row of a tenant.\<close>

definition tenant_schedule :: "bool \<Rightarrow> ReportWorkflowSchedule \<Rightarrow> ReportWorkflowSchedule" where
  "tenant_schedule active s = (if active then s else set_paused s)"

lemma tenant_schedule_id [simp]: "ws_TemporalScheduleID (tenant_schedule active s) = ws_TemporalScheduleID s"
  by (simp add: tenant_schedule_def)

definition runs_as_stored :: "registrar \<Rightarrow> bool \<Rightarrow> config_db \<Rightarrow> (string \<rightharpoonup> TemporalSchedule) \<Rightarrow> bool" where
  "runs_as_stored r active d schedules \<longleftrightarrow>
     (\<forall>s \<in> set (tb_rows (cd_schedules d)). \<exists>x. schedules (temporal_id s) = Some x \<and>
        target_schedule r (tenant_schedule active s) = Some x \<and> (sd_Paused x \<longleftrightarrow> \<not> (active \<and> ws_Enabled s)))"

lemma runs_as_storedI:
  assumes "\<And>s. s \<in> set (tb_rows (cd_schedules d)) \<Longrightarrow>
      schedules (temporal_id s) = target_schedule r (tenant_schedule active s) \<and> target_schedule r (tenant_schedule active s) \<noteq> None"
  shows "runs_as_stored r active d schedules"
  unfolding runs_as_stored_def
proof
  fix s assume "s \<in> set (tb_rows (cd_schedules d))"
  with assms obtain x where x: "target_schedule r (tenant_schedule active s) = Some x" "schedules (temporal_id s) = Some x"
    by (metis not_None_eq)
  with target_schedule_paused [OF x(1)] show "\<exists>x. schedules (temporal_id s) = Some x \<and>
      target_schedule r (tenant_schedule active s) = Some x \<and> (sd_Paused x \<longleftrightarrow> \<not> (active \<and> ws_Enabled s))"
    by (auto simp: tenant_schedule_def)
qed

section \<open>Synchronising a tenant\<close>

lemma sync_tenant_loop_ok:
  assumes "server_contract sm view" "sync_tenant_loop sm r active ss m = (m', Inr ())" "distinct (map temporal_id ss)"
  shows "(\<forall>s \<in> set ss. view m' (temporal_id s) = target_schedule r (tenant_schedule active s) \<and>
      target_schedule r (tenant_schedule active s) \<noteq> None) \<and>
    (\<forall>i. i \<notin> temporal_id ` set ss \<longrightarrow> view m' i = view m i)"
  using assms
proof (induction sm r active ss m rule: sync_tenant_loop.induct)
  case (2 sm r active s ss m)
  let ?s = "tenant_schedule active s"
  have e: "(if \<not> active then set_paused s else s) = ?s" by (simp add: tenant_schedule_def)
  obtain m1 q where q: "Sync sm r ?s m = (m1, q)" by (cases "Sync sm r ?s m")
  then obtain sy where s: "Sync sm r ?s m = (m1, Inr sy)" and l: "sync_tenant_loop sm r active ss m1 = (m', Inr ())"
    using 2(3) by (cases q) (simp_all add: SyncReportWorkflowSchedule_def e)
  obtain x where x: "target_schedule r ?s = Some x" "view m1 = (view m)(temporal_id s \<mapsto> x)"
    using Sync_Inr(1) [OF 2(2) s] by auto
  have d: "distinct (map temporal_id ss)" "temporal_id s \<notin> temporal_id ` set ss" using 2(4) by simp_all
  have "SyncReportWorkflowSchedule sm r (if \<not> active then set_paused s else s) m = (m1, Inr ())"
    using s by (simp add: SyncReportWorkflowSchedule_def e)
  from 2(1) [OF this [symmetric] HOL.refl 2(2) l d(1)] x d(2) show ?case by auto
qed simp

lemma sync_tenant_ok:
  assumes "server_contract sm view" "schedules_ok (config (tn_ID tenant))"
    and "syncTenantScheduleState (Some (sm, r)) ctx env fl tenant config m = (m', Inr ())"
  shows "runs_as_stored r (tn_Status tenant = TenantStatusActive) (config (tn_ID tenant)) (view m')"
proof -
  obtain ss where ss: "snd (within_tx env (config (tn_ID tenant)) (ListReportWorkflowSchedules fl (int (maxListLimit + 1)))) = Inr ss"
    "length ss \<le> maxListLimit"
    and l: "sync_tenant_loop sm r (tn_Status tenant = TenantStatusActive) ss m = (m', Inr ())"
    using assms(3)
    by (auto simp: syncTenantScheduleState_def NewIdentity_Inr bindE_eq_Inr_iff split: sum.splits if_splits)
  note ls = listed_schedules [OF ss assms(2)]
  from sync_tenant_loop_ok [OF assms(1) l ls(2)] show ?thesis
    unfolding ls(1) by (intro runs_as_storedI) blast
qed

section \<open>A change of status\<close>

lemma UpdateTenantStatus_status:
  assumes "UpdateTenantStatus fault now i status d = (d', r)"
  shows "d' = d \<and> isl r \<or> (isl r \<or> (\<exists>u. r = Inr u \<and> tn_ID u = i \<and> tn_Status u = status)) \<and>
    (\<forall>x \<in> set (tb_rows (rg_tenants d')). tn_ID x = i \<longrightarrow> tn_Status x = status)"
  using assms
  by (auto simp: UpdateTenantStatus_def autocommit_def update_row_def find_Some_iff
      split: if_splits sum.splits option.splits)

text \<open>A disabled tenant was paused before; an enabled one is restored when the answer says so.\<close>

lemma change_tenant_status_steps:
  assumes "change_tenant_status (Some (sm, r)) env i status current st = (st', code, t)"
  shows "pf_config st' = pf_config st"
    and "pf_registry st' = pf_registry st \<and> code \<noteq> 200 \<or>
      (\<forall>x \<in> set (tb_rows (rg_tenants (pf_registry st'))). tn_ID x = i \<longrightarrow> tn_Status x = status) \<and>
      (status = TenantStatusDisabled \<longrightarrow>
        syncTenantScheduleState (Some (sm, r)) (se_ctx env) (se_tx env) (se_list env) (current\<lparr>tn_Status := status\<rparr>)
          (pf_config st) (pf_server st) = (pf_server st', Inr ())) \<and>
      (status = TenantStatusActive \<and> code = 200 \<longrightarrow>
        (\<exists>u m. tn_ID u = i \<and> tn_Status u = status \<and>
          syncTenantScheduleState (Some (sm, r)) (se_ctx env) (se_tx env) (se_list env) u (pf_config st) m =
            (pf_server st', Inr ())))"
proof -
  let ?sync = "syncTenantScheduleState (Some (sm, r)) (se_ctx env) (se_tx env) (se_list env)"
  let ?A = "pf_registry st' = pf_registry st \<and> code \<noteq> 200"
  let ?B = "(\<forall>x \<in> set (tb_rows (rg_tenants (pf_registry st'))). tn_ID x = i \<longrightarrow> tn_Status x = status) \<and>
      (status = TenantStatusDisabled \<longrightarrow>
        ?sync (current\<lparr>tn_Status := status\<rparr>) (pf_config st) (pf_server st) = (pf_server st', Inr ())) \<and>
      (status = TenantStatusActive \<and> code = 200 \<longrightarrow>
        (\<exists>u m. tn_ID u = i \<and> tn_Status u = status \<and> ?sync u (pf_config st) m = (pf_server st', Inr ())))"
  obtain m1 q1 where one: "(if status = TenantStatusDisabled then ?sync (current\<lparr>tn_Status := status\<rparr>) (pf_config st) (pf_server st)
      else (pf_server st, Inr ())) = (m1, q1)" by (metis surj_pair)
  obtain d q2 where two: "UpdateTenantStatus (se_update env) (se_now env) i status (pf_registry st) = (d, q2)"
    by (metis surj_pair)
  note ch = assms [unfolded change_tenant_status_def Let_def one]
  have codes: "tenant_error_status e \<noteq> 200" for e by (simp add: tenant_error_status_def)
  note upd = UpdateTenantStatus_status [OF two]
  have "pf_config st' = pf_config st \<and> (?A \<or> ?B)"
  proof (cases q1)
    case (Inl e)
    with ch show ?thesis by auto
  next
    case Inr1: (Inr z)
    show ?thesis
    proof (cases q2)
      case (Inl e)
      with ch Inr1 two codes have st': "st' = st\<lparr>pf_server := m1, pf_registry := d\<rparr>" "code \<noteq> 200" by auto
      from upd Inl consider "d = pf_registry st"
        | "\<forall>x \<in> set (tb_rows (rg_tenants d)). tn_ID x = i \<longrightarrow> tn_Status x = status" by auto
      then show ?thesis
      proof cases
        case 1
        with st' show ?thesis by simp
      next
        case 2
        have "?B" using 2 one Inr1 st' by (simp split: if_splits)
        with st' show ?thesis by simp
      qed
    next
      case (Inr u)
      with upd have u: "tn_ID u = i" "tn_Status u = status"
        and rows: "\<forall>x \<in> set (tb_rows (rg_tenants d)). tn_ID x = i \<longrightarrow> tn_Status x = status" by auto
      obtain m3 q3 where three: "(if status = TenantStatusActive then ?sync u (pf_config st) m1 else (m1, Inr ())) = (m3, q3)"
        by (metis surj_pair)
      from ch Inr1 Inr two three have st': "st' = st\<lparr>pf_server := m3, pf_registry := d\<rparr>" "code = 200 \<longrightarrow> (\<exists>y. q3 = Inr y)"
        by (auto split: sum.splits)
      have "?B"
      proof (intro conjI impI)
        show "\<forall>x \<in> set (tb_rows (rg_tenants (pf_registry st'))). tn_ID x = i \<longrightarrow> tn_Status x = status"
          using rows by (simp add: st'(1))
        assume "status = TenantStatusDisabled"
        with one three Inr1 show "?sync (current\<lparr>tn_Status := status\<rparr>) (pf_config st) (pf_server st) = (pf_server st', Inr ())"
          by (simp add: st'(1))
      next
        assume "status = TenantStatusActive \<and> code = 200"
        with three st' u show "\<exists>u m. tn_ID u = i \<and> tn_Status u = status \<and> ?sync u (pf_config st) m = (pf_server st', Inr ())"
          by auto
      qed
      with st' show ?thesis by simp
    qed
  qed
  then show "pf_config st' = pf_config st" "?A \<or> ?B" by simp_all
qed

lemma FindTenantByID_Inr:
  "FindTenantByID fault i d = Inr x \<Longrightarrow> tn_ID x = i \<and> x \<in> set (tb_rows (rg_tenants d))"
  by (auto simp: FindTenantByID_def read_one_Inr filter_eq_Cons_iff split: if_splits)

lemma status_handler_steps:
  assumes "UpdateTenantStatus_handler syncer env admin subject i status st = (st', code, t)"
  shows "st' = st \<and> (code = 200 \<longrightarrow> (\<exists>x \<in> set (tb_rows (rg_tenants (pf_registry st))). tn_ID x = i \<and> tn_Status x = status)) \<or>
    (\<exists>current. FindTenantByID (se_find env) i (pf_registry st) = Inr current \<and> tn_ID current = i \<and>
      current \<in> set (tb_rows (rg_tenants (pf_registry st))) \<and> tn_Status current \<noteq> status \<and>
      change_tenant_status syncer env i status current st = (st', code, t))"
proof -
  have codes: "tenant_error_status e \<noteq> 200" for e by (simp add: tenant_error_status_def)
  show ?thesis
    using assms unfolding UpdateTenantStatus_handler_def
    by (auto simp: codes dest: FindTenantByID_Inr split: if_splits sum.splits)
qed

text \<open>
  Whoever changes the status of a tenant to disabled has paused its schedules; the answer 200 to an
  enablement that changed the status says that they run as stored.
\<close>

lemma status_change_schedules:
  assumes "server_contract sm view" "schedules_ok (pf_config st i)" "table_ok tn_ID (rg_tenants (pf_registry st))"
    and "UpdateTenantStatus_handler (Some (sm, r)) env admin subject i status st = (st', code, t)"
    and "x \<in> set (tb_rows (rg_tenants (pf_registry st)))" "tn_ID x = i" "tn_Status x \<noteq> status"
    and "y \<in> set (tb_rows (rg_tenants (pf_registry st')))" "tn_ID y = i"
  shows "tn_Status y = TenantStatusDisabled \<Longrightarrow> tn_Status x \<noteq> TenantStatusDisabled \<Longrightarrow>
      runs_as_stored r False (pf_config st' i) (view (pf_server st'))"
    and "code = 200 \<Longrightarrow> status = TenantStatusActive \<Longrightarrow> runs_as_stored r True (pf_config st' i) (view (pf_server st'))"
    and "code = 200 \<Longrightarrow> tn_Status y = status"
proof -
  have unique: "a = b" if "a \<in> set (tb_rows (rg_tenants (pf_registry st)))" "b \<in> set (tb_rows (rg_tenants (pf_registry st)))"
      "tn_ID a = tn_ID b" for a b
    using assms(3) that by (auto simp: table_ok_def distinct_map dest: inj_onD)
  from status_handler_steps [OF assms(4)]
  have "(tn_Status y = TenantStatusDisabled \<longrightarrow> tn_Status x \<noteq> TenantStatusDisabled \<longrightarrow>
      runs_as_stored r False (pf_config st' i) (view (pf_server st'))) \<and>
    (code = 200 \<longrightarrow> status = TenantStatusActive \<longrightarrow> runs_as_stored r True (pf_config st' i) (view (pf_server st'))) \<and>
    (code = 200 \<longrightarrow> tn_Status y = status)"
  proof (elim disjE exE conjE)
    assume same: "st' = st" and c: "code = 200 \<longrightarrow> (\<exists>x \<in> set (tb_rows (rg_tenants (pf_registry st))). tn_ID x = i \<and> tn_Status x = status)"
    from unique [OF assms(5), of y] assms(6,8,9) same have "y = x" by simp
    moreover have "code \<noteq> 200"
    proof
      assume "code = 200"
      with c obtain z where "z \<in> set (tb_rows (rg_tenants (pf_registry st)))" "tn_ID z = i" "tn_Status z = status" by blast
      with unique [OF assms(5), of z] assms(6,7) show False by simp
    qed
    ultimately show ?thesis by simp
  next
    fix current
    assume cur: "tn_ID current = i" "change_tenant_status (Some (sm, r)) env i status current st = (st', code, t)"
    note ch = change_tenant_status_steps [OF cur(2)]
    show ?thesis
    proof (cases "pf_registry st' = pf_registry st \<and> code \<noteq> 200")
      case True
      with unique [OF assms(5), of y] assms(6,8,9) have "y = x" by simp
      with True show ?thesis by auto
    next
      case False
      with ch(2) have s: "tn_Status y = status" using assms(8,9) by blast
      have "runs_as_stored r False (pf_config st' i) (view (pf_server st'))" if "status = TenantStatusDisabled"
        using sync_tenant_ok [OF assms(1), of "pf_config st" "current\<lparr>tn_Status := status\<rparr>" r "se_ctx env" "se_tx env" "se_list env"
          "pf_server st" "pf_server st'"] ch False that assms(2) cur(1) by (simp add: ch(1))
      moreover have "runs_as_stored r True (pf_config st' i) (view (pf_server st'))" if "code = 200" "status = TenantStatusActive"
      proof -
        from ch(2) False that obtain u m where u: "tn_ID u = i" "tn_Status u = status"
          "syncTenantScheduleState (Some (sm, r)) (se_ctx env) (se_tx env) (se_list env) u (pf_config st) m = (pf_server st', Inr ())"
          by blast
        from sync_tenant_ok [OF assms(1) _ u(3)] assms(2) u that show ?thesis by (simp add: ch(1))
      qed
      ultimately show ?thesis using s by auto
    qed
  qed
  then show "tn_Status y = TenantStatusDisabled \<Longrightarrow> tn_Status x \<noteq> TenantStatusDisabled \<Longrightarrow>
      runs_as_stored r False (pf_config st' i) (view (pf_server st'))"
    and "code = 200 \<Longrightarrow> status = TenantStatusActive \<Longrightarrow> runs_as_stored r True (pf_config st' i) (view (pf_server st'))"
    and "code = 200 \<Longrightarrow> tn_Status y = status" by blast+
qed

text \<open>
  A call that asks for the status the tenant has leaves the server alone: an enablement whose restoration
  failed after the status was written is answered with 200 when it is repeated.
\<close>

lemma repeated_enablement_restores_nothing:
  assumes "FindTenantByID (se_find env) i (pf_registry st) = Inr current" "tn_Status current = status"
    and "UpdateTenantStatus_handler syncer env admin subject i status st = (st', code, t)"
  shows "st' = st"
  using assms unfolding UpdateTenantStatus_handler_def by (auto split: if_splits sum.splits)

section \<open>A completed reconciliation\<close>

text \<open>The identifiers of schedules are unique over all tenants.\<close>

definition config_apart :: "(int \<Rightarrow> config_db) \<Rightarrow> bool" where
  "config_apart config \<longleftrightarrow>
     (\<forall>i j. i \<noteq> j \<longrightarrow> temporal_id ` set (tb_rows (cd_schedules (config i))) \<inter> temporal_id ` set (tb_rows (cd_schedules (config j))) = {})"

lemma reconcile_tenant_ok:
  assumes "server_contract sm view" "schedules_ok d"
    and "reconcileReportWorkflowSchedulesForTenant (sm, r) env fl active d m = (m', res, None)"
  shows "runs_as_stored r active d (view m')"
    "\<And>i. i \<notin> temporal_id ` set (tb_rows (cd_schedules d)) \<Longrightarrow> view m' i = view m i"
    "rc_Total res = length (tb_rows (cd_schedules d))" "counts_fit res"
proof -
  obtain ss where ss: "snd (within_tx env d (ListReportWorkflowSchedules fl (int (reconcile_limit + 1)))) = Inr ss"
    "length ss \<le> reconcile_limit"
    and r: "Reconcile sm r (if \<not> active then map set_paused ss else ss) m = (m', res, None)"
    using assms(3) by (auto simp: reconcileReportWorkflowSchedulesForTenant_def split: sum.splits if_splits)
  note ls = listed_schedules [OF ss assms(2)]
  have eq: "(if \<not> active then map set_paused ss else ss) = map (tenant_schedule active) ss"
    by (simp add: tenant_schedule_def [abs_def])
  have ids: "map temporal_id (map (tenant_schedule active) ss) = map temporal_id ss" by simp
  have d: "distinct (map temporal_id (map (tenant_schedule active) ss))" using ls(2) by (simp only: ids)
  note k = Reconcile_ok [OF assms(1) r [unfolded eq] d]
  show "runs_as_stored r active d (view m')"
  proof (rule runs_as_storedI)
    fix s assume "s \<in> set (tb_rows (cd_schedules d))"
    then have "tenant_schedule active s \<in> set (map (tenant_schedule active) ss)" by (simp add: ls(1) [symmetric])
    from k(1) [OF this] show "view m' (temporal_id s) = target_schedule r (tenant_schedule active s) \<and>
        target_schedule r (tenant_schedule active s) \<noteq> None" by simp
  qed
  have "temporal_id ` set (map (tenant_schedule active) ss) = temporal_id ` set (tb_rows (cd_schedules d))"
    by (simp add: image_image ls(1))
  then show "\<And>i. i \<notin> temporal_id ` set (tb_rows (cd_schedules d)) \<Longrightarrow> view m' i = view m i" using k(2) by blast
  have "length ss = length (tb_rows (cd_schedules d))"
  proof -
    have "distinct ss" using ls(2) by (simp add: distinct_map)
    moreover have "distinct (tb_rows (cd_schedules d))" using assms(2) by (simp add: schedules_ok_def distinct_map)
    ultimately show ?thesis using ls(1) by (metis distinct_card)
  qed
  with k(3,4) show "rc_Total res = length (tb_rows (cd_schedules d))" "counts_fit res" by simp_all
qed

lemma runs_as_stored_cong:
  assumes "runs_as_stored r active d v" "\<And>i. i \<in> temporal_id ` set (tb_rows (cd_schedules d)) \<Longrightarrow> v' i = v i"
  shows "runs_as_stored r active d v'"
  using assms unfolding runs_as_stored_def by (metis image_eqI)

lemma reconcile_tenants_ok:
  assumes "server_contract sm view" "\<And>i. schedules_ok (config i)" "config_apart config" "distinct (map tn_ID tenants)"
    and "reconcile_tenants (sm, r) ctx envs config tot tenants m = (m', res, None)"
  shows "(\<forall>t \<in> set tenants. runs_as_stored r (tn_Status t = TenantStatusActive) (config (tn_ID t)) (view m')) \<and>
    (\<forall>i. i \<notin> (\<Union>t \<in> set tenants. temporal_id ` set (tb_rows (cd_schedules (config (tn_ID t))))) \<longrightarrow> view m' i = view m i) \<and>
    (counts_fit tot \<longrightarrow> counts_fit res)"
  using assms(4,5)
proof (induction tenants arbitrary: tot m)
  case (Cons t ts)
  let ?active = "tn_Status t = TenantStatusActive" and ?d = "config (tn_ID t)"
  obtain m1 res1 where one: "reconcileReportWorkflowSchedulesForTenant (sm, r) (fst (envs (tn_ID t))) (snd (envs (tn_ID t)))
      ?active ?d m = (m1, res1, None)"
    and rest: "reconcile_tenants (sm, r) ctx envs config (add_counts tot res1) ts m1 = (m', res, None)"
    using Cons.prems(2) by (auto simp: bindE_eq_Inr_iff NewIdentity_Inr split: sum.splits prod.splits option.splits)
  note o = reconcile_tenant_ok [OF assms(1,2) one]
  have ih: "\<forall>t \<in> set ts. runs_as_stored r (tn_Status t = TenantStatusActive) (config (tn_ID t)) (view m')"
    "\<forall>i. i \<notin> (\<Union>t \<in> set ts. temporal_id ` set (tb_rows (cd_schedules (config (tn_ID t))))) \<longrightarrow> view m' i = view m1 i"
    "counts_fit (add_counts tot res1) \<longrightarrow> counts_fit res"
    using Cons.IH [OF _ rest] Cons.prems(1) by auto
  have apart: "i \<notin> (\<Union>t \<in> set ts. temporal_id ` set (tb_rows (cd_schedules (config (tn_ID t)))))"
    if "i \<in> temporal_id ` set (tb_rows (cd_schedules ?d))" for i
  proof
    assume "i \<in> (\<Union>t \<in> set ts. temporal_id ` set (tb_rows (cd_schedules (config (tn_ID t)))))"
    then obtain u where u: "u \<in> set ts" "i \<in> temporal_id ` set (tb_rows (cd_schedules (config (tn_ID u))))" by blast
    with Cons.prems(1) have "tn_ID u \<noteq> tn_ID t" by (metis distinct.simps(2) image_eqI list.simps(9) set_map)
    with assms(3) u(2) that show False unfolding config_apart_def by blast
  qed
  have "runs_as_stored r ?active ?d (view m')"
    by (rule runs_as_stored_cong [OF o(1)]) (use apart ih(2) in blast)
  moreover have "counts_fit tot \<longrightarrow> counts_fit (add_counts tot res1)"
    using o(4) by (simp add: counts_fit_def add_counts_def)
  ultimately show ?case using ih o(2) by auto
qed simp

lemma reconcile_all_ok:
  assumes "server_contract sm view" "\<And>i. schedules_ok (pf_config st i)" "config_apart (pf_config st)"
    and "table_ok tn_ID (rg_tenants (pf_registry st))"
    and "reconcileAllTenantReportWorkflowSchedules (sm, r) ctx fault envs st = (st', res, None)"
    and "t \<in> set (tb_rows (rg_tenants (pf_registry st)))"
  shows "runs_as_stored r (tn_Status t = TenantStatusActive) (pf_config st (tn_ID t)) (view (pf_server st'))" "counts_fit res"
proof -
  let ?all = "sort_key (\<lambda>r. (tn_Name r, tn_ID r)) (tb_rows (rg_tenants (pf_registry st)))"
  obtain m where m: "reconcile_tenants (sm, r) ctx envs (pf_config st) no_counts (take 501 ?all) (pf_server st) = (m, res, None)"
    and len: "length (take 501 ?all) \<le> 500" and st': "st' = st\<lparr>pf_server := m\<rparr>"
    using assms(5)
    by (auto simp: reconcileAllTenantReportWorkflowSchedules_def ListTenants_def split: sum.splits if_splits option.splits prod.splits)
  from len have all: "take 501 ?all = ?all" by (auto simp: min_def split: if_splits)
  have "distinct (map tn_ID ?all)" unfolding distinct_map_sort_key using assms(4) by (simp add: table_ok_def)
  from reconcile_tenants_ok [OF assms(1,2,3) this m [unfolded all]] assms(6)
  show "runs_as_stored r (tn_Status t = TenantStatusActive) (pf_config st (tn_ID t)) (view (pf_server st'))" "counts_fit res"
    by (simp_all add: st' no_counts_def counts_fit_def)
qed

end
