(* ===== verification/Schedule_Launcher.thy ===== *)
theory Schedule_Launcher
  imports Schedule_Sync Alert_Model
begin

text \<open>
  What a schedule runs: \<open>report_schedule_workflow.go\<close> and \<open>report_schedule_activity.go\<close> in
  \<open>internal/orchestrator/temporal\<close>. \<open>fmt\<close> is \<open>Format(time.RFC3339Nano)\<close>, \<open>hex16\<close> the first 16 bytes of SHA-256 in
  hexadecimal, \<open>execute\<close> how Temporal ran the activity; the policy replayer is injected. The lemmas give the
  windows of the runs of a stored schedule.
\<close>

section \<open>The launcher\<close>

definition maxWorkflowDurationSeconds :: int where "maxWorkflowDurationSeconds = 9223372036"

definition plain_err :: "string \<Rightarrow> go_error" where "plain_err msg = GoErr msg []"

definition validateScheduleLauncherInput :: "LauncherInput \<Rightarrow> unit result" where
  "validateScheduleLauncherInput i =
     (if li_ScheduleID i \<le> 0 then Inl (plain_err ''schedule_id must be positive'')
      else if li_PolicyID i \<le> 0 then Inl (plain_err ''report_workflow_policy_id must be positive'')
      else if TrimSpace (li_TemporalScheduleID i) = [] then Inl (plain_err ''temporal_schedule_id must be non-empty'')
      else if li_ReplayWindowSeconds i \<le> 0 then Inl (plain_err ''replay_window_seconds must be positive'')
      else if li_ReplayWindowSeconds i > maxWorkflowDurationSeconds then
        Inl (plain_err ''replay_window_seconds exceeds maximum workflow duration'')
      else if li_ReplayDelaySeconds i < 0 then Inl (plain_err ''replay_delay_seconds must be non-negative'')
      else if li_ReplayDelaySeconds i > maxWorkflowDurationSeconds then
        Inl (plain_err ''replay_delay_seconds exceeds maximum workflow duration'')
      else if li_ReplayLimit i \<le> 0 then Inl (plain_err ''replay_limit must be positive'')
      else Inr ())"

definition normalizeWorkflowTime :: "go_time \<Rightarrow> go_time" where
  "normalizeWorkflowTime t = t - t mod 1000"

text \<open>The start time of the workflow and the time of the workflow clock.\<close>

definition scheduledFireTime :: "go_time \<Rightarrow> go_time \<Rightarrow> go_time \<Rightarrow> go_time" where
  "scheduledFireTime workflowStartTime now override =
     (if \<not> IsZero override then normalizeWorkflowTime override
      else if \<not> IsZero workflowStartTime then normalizeWorkflowTime workflowStartTime
      else normalizeWorkflowTime now)"

text \<open>\<open>time.Duration(n) * time.Second\<close> on 64 bits.\<close>

definition seconds_duration :: "int \<Rightarrow> go_duration" where
  "seconds_duration n = wrap64 (n * time_Second)"

definition scheduleReplayCorrelationKey :: "(go_time \<Rightarrow> string) \<Rightarrow> int \<Rightarrow> int \<Rightarrow> go_time \<Rightarrow> go_time \<Rightarrow> string" where
  "scheduleReplayCorrelationKey fmt scheduleID policyID windowStart windowEnd =
     ''report-workflow-schedule:'' @ int_decimal scheduleID @ '':policy:'' @ int_decimal policyID @ '':'' @
     fmt (normalizeWorkflowTime windowStart) @ '':'' @ fmt (normalizeWorkflowTime windowEnd)"

definition scheduleReplayWorkflowID :: "(string \<Rightarrow> string) \<Rightarrow> string \<Rightarrow> string" where
  "scheduleReplayWorkflowID hex16 correlationKey = ''report-schedule-'' @ hex16 correlationKey"

record ReplayActivityInput =
  ra_ScheduleID :: int
  ra_PolicyID :: int
  ra_TemporalScheduleID :: string
  ra_FireTime :: go_time
  ra_WindowStart :: go_time
  ra_WindowEnd :: go_time
  ra_ReplayLimit :: int
  ra_CorrelationKey :: string
  ra_WorkflowID :: string

text \<open>The result of the activity; the workflow answers its fields unchanged.\<close>

record ReplayActivityResult =
  rs_ScheduleID :: int
  rs_PolicyID :: int
  rs_TemporalScheduleID :: string
  rs_FireTime :: go_time
  rs_WindowStart :: go_time
  rs_WindowEnd :: go_time
  rs_CorrelationKey :: string
  rs_WorkflowID :: string
  rs_EventsLoaded :: int
  rs_Snapshots :: int
  rs_Started :: bool
  rs_BatchWorkflowID :: string
  rs_BatchRunID :: string

definition launcher_activity_input ::
  "(go_time \<Rightarrow> string) \<Rightarrow> (string \<Rightarrow> string) \<Rightarrow> go_time \<Rightarrow> go_time \<Rightarrow> LauncherInput \<Rightarrow> ReplayActivityInput" where
  "launcher_activity_input fmt hex16 workflowStartTime now i =
     (let fireTime = scheduledFireTime workflowStartTime now (li_FireTime i);
          replayWindow = seconds_duration (li_ReplayWindowSeconds i);
          replayDelay = seconds_duration (li_ReplayDelaySeconds i);
          windowEnd = normalizeWorkflowTime (fireTime - replayDelay);
          windowStart = normalizeWorkflowTime (windowEnd - replayWindow);
          correlationKey = scheduleReplayCorrelationKey fmt (li_ScheduleID i) (li_PolicyID i) windowStart windowEnd in
      \<lparr>ra_ScheduleID = li_ScheduleID i, ra_PolicyID = li_PolicyID i,
       ra_TemporalScheduleID = TrimSpace (li_TemporalScheduleID i), ra_FireTime = fireTime,
       ra_WindowStart = windowStart, ra_WindowEnd = windowEnd, ra_ReplayLimit = li_ReplayLimit i,
       ra_CorrelationKey = correlationKey, ra_WorkflowID = scheduleReplayWorkflowID hex16 correlationKey\<rparr>)"

definition ReportPolicyScheduleLauncherWorkflow ::
  "(go_time \<Rightarrow> string) \<Rightarrow> (string \<Rightarrow> string) \<Rightarrow> (ReplayActivityInput \<Rightarrow> ReplayActivityResult result) \<Rightarrow> go_time \<Rightarrow> go_time
   \<Rightarrow> LauncherInput \<Rightarrow> ReplayActivityResult result" where
  "ReportPolicyScheduleLauncherWorkflow fmt hex16 execute workflowStartTime now i =
     (case validateScheduleLauncherInput i of
        Inl e \<Rightarrow> Inl (GoErr (''report-policy-schedule-launcher: '' @ err_text e) [])
      | Inr _ \<Rightarrow> execute (launcher_activity_input fmt hex16 workflowStartTime now i))"

section \<open>The activity\<close>

definition validateScheduledReplayActivityInput :: "ReplayActivityInput \<Rightarrow> AlertWindow result" where
  "validateScheduledReplayActivityInput req =
     (if ra_ScheduleID req \<le> 0 then Inl (plain_err ''schedule_id must be positive'')
      else if ra_PolicyID req \<le> 0 then Inl (plain_err ''report_workflow_policy_id must be positive'')
      else if TrimSpace (ra_TemporalScheduleID req) = [] then Inl (plain_err ''temporal_schedule_id must be non-empty'')
      else case NewAlertWindow (ra_WindowStart req) (ra_WindowEnd req) of
        Inl e \<Rightarrow> Inl (wrap_error ''replay window'' e)
      | Inr window \<Rightarrow>
          if ra_ReplayLimit req \<le> 0 then Inl (plain_err ''replay_limit must be positive'')
          else if TrimSpace (ra_CorrelationKey req) = [] then Inl (plain_err ''correlation_key must be non-empty'')
          else if TrimSpace (ra_WorkflowID req) = [] then Inl (plain_err ''workflow_id must be non-empty'')
          else Inr window)"

record PolicyReplayRequest =
  pr_PolicyID :: int
  pr_WindowStart :: go_time
  pr_WindowEnd :: go_time
  pr_Limit :: int
  pr_CorrelationKey :: string
  pr_WorkflowID :: string
  pr_CreatedByWorkflow :: string

record PolicyReplayResult =
  po_EventsLoaded :: int
  po_Snapshots :: int
  po_Started :: bool
  po_WorkflowID :: string
  po_RunID :: string

definition policy_replay_request :: "AlertWindow \<Rightarrow> ReplayActivityInput \<Rightarrow> PolicyReplayRequest" where
  "policy_replay_request window req =
     \<lparr>pr_PolicyID = ra_PolicyID req, pr_WindowStart = StartInclusive window, pr_WindowEnd = EndExclusive window,
      pr_Limit = ra_ReplayLimit req, pr_CorrelationKey = TrimSpace (ra_CorrelationKey req),
      pr_WorkflowID = TrimSpace (ra_WorkflowID req),
      pr_CreatedByWorkflow = ''ReportPolicyScheduleLauncherWorkflow''\<rparr>"

text \<open>\<open>map_error\<close> is \<open>mapActivityError\<close>, which says how Temporal is to retry.\<close>

definition RunScheduledReportPolicyReplay ::
  "(go_error \<Rightarrow> go_error) \<Rightarrow> (PolicyReplayRequest \<Rightarrow> PolicyReplayResult result) option \<Rightarrow> ReplayActivityInput
   \<Rightarrow> ReplayActivityResult result" where
  "RunScheduledReportPolicyReplay map_error replayer req =
     (case replayer of
        None \<Rightarrow> Inl (plain_err ''run-scheduled-report-policy-replay: report policy replayer is not configured'')
      | Some replay \<Rightarrow>
     (case validateScheduledReplayActivityInput req of
        Inl e \<Rightarrow> Inl (GoErr (''run-scheduled-report-policy-replay: '' @ err_text e) [])
      | Inr window \<Rightarrow>
     (case replay (policy_replay_request window req) of
        Inl e \<Rightarrow> Inl (map_error e)
      | Inr result \<Rightarrow>
          Inr \<lparr>rs_ScheduleID = ra_ScheduleID req, rs_PolicyID = ra_PolicyID req,
               rs_TemporalScheduleID = TrimSpace (ra_TemporalScheduleID req), rs_FireTime = ra_FireTime req,
               rs_WindowStart = StartInclusive window, rs_WindowEnd = EndExclusive window,
               rs_CorrelationKey = TrimSpace (ra_CorrelationKey req),
               rs_WorkflowID = TrimSpace (ra_WorkflowID req), rs_EventsLoaded = po_EventsLoaded result,
               rs_Snapshots = po_Snapshots result, rs_Started = po_Started result,
               rs_BatchWorkflowID = po_WorkflowID result, rs_BatchRunID = po_RunID result\<rparr>)))"

section \<open>Windows\<close>

text \<open>The guard on the seconds keeps the product in range.\<close>

lemma seconds_duration_exact: "0 \<le> n \<Longrightarrow> n \<le> maxWorkflowDurationSeconds \<Longrightarrow> seconds_duration n = n * time_Second"
  by (simp add: seconds_duration_def wrap64_def maxWorkflowDurationSeconds_def)

lemma normalizeWorkflowTime_eq [simp]: "normalizeWorkflowTime t = NormalizeUTCMicro t"
  by (simp add: normalizeWorkflowTime_def NormalizeUTCMicro_eq)

lemma Normalize_minus_seconds: "NormalizeUTCMicro (t - n * time_Second) = NormalizeUTCMicro t - n * time_Second"
proof -
  have "(t + 1000 * (- (n * 1000000))) mod 1000 = t mod 1000" by (rule mod_mult_self2)
  then have "(t - n * time_Second) mod 1000 = t mod 1000" by (simp add: mult.commute)
  then show ?thesis by (simp only: NormalizeUTCMicro_eq)
qed

text \<open>The window of a run: it ends the delay before the fire time and is as long as the stored window.\<close>

lemma launch_window:
  assumes "validateScheduleLauncherInput i = Inr ()" "li_FireTime i = 0" "fire \<noteq> 0"
  shows "ra_WindowEnd (launcher_activity_input fmt hex16 fire now i) =
      NormalizeUTCMicro fire - li_ReplayDelaySeconds i * time_Second"
    "ra_WindowStart (launcher_activity_input fmt hex16 fire now i) =
      ra_WindowEnd (launcher_activity_input fmt hex16 fire now i) - li_ReplayWindowSeconds i * time_Second"
    "ra_FireTime (launcher_activity_input fmt hex16 fire now i) = NormalizeUTCMicro fire"
proof -
  have "seconds_duration (li_ReplayWindowSeconds i) = li_ReplayWindowSeconds i * time_Second"
    "seconds_duration (li_ReplayDelaySeconds i) = li_ReplayDelaySeconds i * time_Second"
    using assms(1) by (auto simp: validateScheduleLauncherInput_def intro!: seconds_duration_exact split: if_splits)
  then show "ra_WindowEnd (launcher_activity_input fmt hex16 fire now i) =
      NormalizeUTCMicro fire - li_ReplayDelaySeconds i * time_Second"
    "ra_WindowStart (launcher_activity_input fmt hex16 fire now i) =
      ra_WindowEnd (launcher_activity_input fmt hex16 fire now i) - li_ReplayWindowSeconds i * time_Second"
    "ra_FireTime (launcher_activity_input fmt hex16 fire now i) = NormalizeUTCMicro fire"
    using assms(2,3)
    by (simp_all add: launcher_activity_input_def Let_def scheduledFireTime_def IsZero_def Normalize_minus_seconds
        del: mult.commute)
qed

text \<open>The argument of the action that the registrar builds.\<close>

lemma launcher_input:
  assumes "BuildCreateOptions r s = Inr options"
  shows "li_FireTime (sa_Input (so_Action options)) = 0"
    "li_ReplayWindowSeconds (sa_Input (so_Action options)) * time_Second = ws_ReplayWindow s"
    "li_ReplayDelaySeconds (sa_Input (so_Action options)) * time_Second = ws_ReplayDelay s"
  using assms by (auto simp: BuildCreateOptions_def bindE_eq_Inr_iff Let_def wholeSeconds_def split: if_splits)

lemma launcher_input_ids:
  assumes "BuildCreateOptions r s = Inr options"
  shows "li_ScheduleID (sa_Input (so_Action options)) = ws_ID s" "li_PolicyID (sa_Input (so_Action options)) = ws_PolicyID s"
    "li_TemporalScheduleID (sa_Input (so_Action options)) = temporal_id s"
    "li_ReplayLimit (sa_Input (so_Action options)) = ws_ReplayLimit s" "registrar_validate r s = Inr ()"
  using assms by (auto simp: BuildCreateOptions_def bindE_eq_Inr_iff Let_def)

lemma launcher_input_valid:
  assumes "BuildCreateOptions r s = Inr options" "schedule_ok s" "int64 (ws_ReplayWindow s)" "int64 (ws_ReplayDelay s)"
  shows "validateScheduleLauncherInput (sa_Input (so_Action options)) = Inr ()"
proof -
  let ?i = "sa_Input (so_Action options)"
  note w = launcher_input(2,3) [OF assms(1)] and ids = launcher_input_ids [OF assms(1)]
  have "0 < ws_ReplayWindow s" "0 \<le> ws_ReplayDelay s" "0 < ws_ReplayLimit s" using assms(2) by (simp_all add: schedule_ok_def)
  with w have "0 < li_ReplayWindowSeconds ?i" "0 \<le> li_ReplayDelaySeconds ?i" "0 < li_ReplayLimit ?i"
    by (simp_all add: ids)
  moreover have "li_ReplayWindowSeconds ?i \<le> maxWorkflowDurationSeconds" "li_ReplayDelaySeconds ?i \<le> maxWorkflowDurationSeconds"
    using assms(3,4) w by (simp_all add: int64_def max_int64_def maxWorkflowDurationSeconds_def)
  moreover have "0 < li_ScheduleID ?i" "0 < li_PolicyID ?i" "TrimSpace (li_TemporalScheduleID ?i) \<noteq> []"
    using ids(5) unfolding ids(1-3) by (auto simp: registrar_validate_def split: if_splits)
  ultimately show ?thesis by (simp add: validateScheduleLauncherInput_def)
qed

text \<open>Two fires that are an interval apart replay windows that do not meet.\<close>

lemma windows_apart:
  assumes "BuildCreateOptions r s = Inr options" "schedule_ok s" "i = sa_Input (so_Action options)"
    and "validateScheduleLauncherInput i = Inr ()" "f1 \<noteq> 0" "f2 \<noteq> 0" "f1 + ws_Interval s \<le> f2"
  shows "ra_WindowEnd (launcher_activity_input fmt hex16 f1 n1 i) \<le> ra_WindowStart (launcher_activity_input fmt hex16 f2 n2 i)"
proof -
  have i: "li_FireTime i = 0" "li_ReplayWindowSeconds i * time_Second = ws_ReplayWindow s"
    using assms(1,3) by (auto simp: BuildCreateOptions_def bindE_eq_Inr_iff Let_def wholeSeconds_def split: if_splits)
  have "f1 \<le> f2 - li_ReplayWindowSeconds i * time_Second"
    using assms(2,7) unfolding i(2) by (simp add: schedule_ok_def)
  from Normalize_mono [OF this] have "NormalizeUTCMicro f1 \<le> NormalizeUTCMicro f2 - li_ReplayWindowSeconds i * time_Second"
    by (simp only: Normalize_minus_seconds)
  then show ?thesis
    unfolding launch_window(1,2) [OF assms(4) i(1) assms(5)] launch_window(1,2) [OF assms(4) i(1) assms(6)] by simp
qed

text \<open>A string that begins with a printable byte is not blank.\<close>

lemma ltrim_Nil_last:
  "ltrim pats s = [] \<Longrightarrow> s \<noteq> [] \<Longrightarrow> \<exists>p \<in> set pats. p \<noteq> [] \<and> last s = last p"
proof (induction pats s rule: ltrim.induct)
  case (1 pats s)
  show ?case
  proof (cases "find (\<lambda>p. p \<noteq> [] \<and> has_prefix p s) pats")
    case None
    with 1(2,3) show ?thesis by (simp add: ltrim_None)
  next
    case (Some p)
    then have p: "p \<in> set pats" "p \<noteq> []" "has_prefix p s" by (auto simp: find_Some_iff)
    then obtain t where t: "s = p @ t" by (auto simp: has_prefix_iff)
    show ?thesis
    proof (cases "t = []")
      case False
      from 1(2) have "ltrim pats (drop (length p) s) = []" by (simp add: ltrim_Some [OF Some])
      with 1(1) [OF Some] False t show ?thesis by simp
    qed (use p t in auto)
  qed
qed

lemma TrimSpace_printable:
  assumes "s \<noteq> []" "printable_byte (hd s)"
  shows "TrimSpace s \<noteq> []"
proof
  assume nil: "TrimSpace s = []"
  have "TrimLeft s = s"
    unfolding TrimLeft_def using assms(2) space_rune_hd by (intro ltrim_id) (auto simp: no_space_prefix_def)
  with nil have "ltrim (map rev space_runes) (rev s) = []" by (simp add: TrimSpace_def TrimRight_def)
  from ltrim_Nil_last [OF this] assms(1) obtain p where p: "p \<in> set space_runes" "p \<noteq> []" "last (rev s) = last (rev p)"
    by auto
  then have "hd s = hd p" using assms(1) by (simp add: last_rev)
  with p assms(2) space_rune_hd [OF p(1), of p] show False by (simp add: has_prefix_iff)
qed

lemma launch_accepted:
  assumes "validateScheduleLauncherInput i = Inr ()" "li_FireTime i = 0" "fire \<noteq> 0"
    and "ra_WindowStart (launcher_activity_input fmt hex16 fire now i) \<noteq> 0"
    and "ra_WindowEnd (launcher_activity_input fmt hex16 fire now i) \<noteq> 0"
  shows "validateScheduledReplayActivityInput (launcher_activity_input fmt hex16 fire now i) =
    Inr \<lparr>aw_startInclusive = ra_WindowStart (launcher_activity_input fmt hex16 fire now i),
      aw_endExclusive = ra_WindowEnd (launcher_activity_input fmt hex16 fire now i)\<rparr>"
proof -
  let ?a = "launcher_activity_input fmt hex16 fire now i"
  note v = assms(1) [unfolded validateScheduleLauncherInput_def]
  have pos: "0 < li_ReplayWindowSeconds i" using v by (simp split: if_splits)
  have w: "ra_WindowStart ?a < ra_WindowEnd ?a"
    unfolding launch_window(2) [OF assms(1-3)] using pos by simp
  have micro: "NormalizeUTCMicro (ra_WindowStart ?a) = ra_WindowStart ?a" "NormalizeUTCMicro (ra_WindowEnd ?a) = ra_WindowEnd ?a"
    by (simp_all add: launcher_activity_input_def Let_def)
  from w micro assms(4,5) have n: "NewAlertWindow (ra_WindowStart ?a) (ra_WindowEnd ?a) =
      Inr \<lparr>aw_startInclusive = ra_WindowStart ?a, aw_endExclusive = ra_WindowEnd ?a\<rparr>"
    by (simp add: NewAlertWindow_Inr_iff)
  have "printable_byte (CHR ''r'')" by code_simp
  then have r: "TrimSpace (CHR ''r'' # x) \<noteq> []" for x by (intro TrimSpace_printable) simp_all
  have "TrimSpace (ra_CorrelationKey ?a) \<noteq> []" "TrimSpace (ra_WorkflowID ?a) \<noteq> []"
    by (simp_all add: launcher_activity_input_def Let_def scheduleReplayCorrelationKey_def scheduleReplayWorkflowID_def r)
  moreover have "ra_ScheduleID ?a = li_ScheduleID i" "ra_PolicyID ?a = li_PolicyID i" "ra_ReplayLimit ?a = li_ReplayLimit i"
    "ra_TemporalScheduleID ?a = TrimSpace (li_TemporalScheduleID i)"
    by (simp_all add: launcher_activity_input_def Let_def)
  ultimately show ?thesis using v n by (auto simp: validateScheduledReplayActivityInput_def split: if_splits)
qed

section \<open>Calendar cadences\<close>

text \<open>
  For a calendar cadence the interval is only a guard: nothing relates it to the days between two fires,
  so a daily schedule may replay a week each day.
\<close>

definition weekly_guard_daily_fire :: ReportWorkflowSchedule where
  "weekly_guard_daily_fire =
     \<lparr>ws_ID = 0, ws_Name = ''nightly'', ws_PolicyID = 1, ws_TemporalScheduleID = ''nightly'', ws_Cadence = CadenceDaily,
      ws_CalendarHour = 3, ws_CalendarMinute = 0, ws_CalendarDayOfWeek = 0, ws_CalendarDayOfMonth = 0,
      ws_Interval = 7 * 86400 * time_Second, ws_Offset = 0, ws_ReplayWindow = 7 * 86400 * time_Second,
      ws_ReplayDelay = 0, ws_ReplayLimit = 100, ws_CatchupWindow = 3600 * time_Second, ws_Enabled = False,
      ws_EnabledAt = None, ws_DisabledAt = None, ws_CreatedAt = 0, ws_UpdatedAt = 0\<rparr>"

lemma daily_windows_overlap:
  assumes "BuildCreateOptions r s = Inr options" "ws_ReplayWindow s = 7 * 86400 * time_Second"
    and "i = sa_Input (so_Action options)" "validateScheduleLauncherInput i = Inr ()" "0 < f"
  shows "NewReportWorkflowScheduleWithCadence weekly_guard_daily_fire = Inr weekly_guard_daily_fire"
    "ra_WindowStart (launcher_activity_input fmt hex16 (f + 86400 * time_Second) n2 i) <
      ra_WindowEnd (launcher_activity_input fmt hex16 f n1 i)"
proof -
  show "NewReportWorkflowScheduleWithCadence weekly_guard_daily_fire = Inr weekly_guard_daily_fire"
    by code_simp
  have i: "li_FireTime i = 0" "li_ReplayWindowSeconds i * time_Second = ws_ReplayWindow s"
    using assms(1,3) by (auto simp: BuildCreateOptions_def bindE_eq_Inr_iff Let_def wholeSeconds_def split: if_splits)
  have f: "f \<noteq> 0" "f + 86400 * time_Second \<noteq> 0" using assms(5) by simp_all
  have "NormalizeUTCMicro (f + 86400 * time_Second) = NormalizeUTCMicro f + 86400 * time_Second"
    using Normalize_minus_seconds [of f "- 86400"] by simp
  then show "ra_WindowStart (launcher_activity_input fmt hex16 (f + 86400 * time_Second) n2 i) <
      ra_WindowEnd (launcher_activity_input fmt hex16 f n1 i)"
    unfolding launch_window(1,2) [OF assms(4) i(1) f(1)] launch_window(1,2) [OF assms(4) i(1) f(2)] i(2) assms(2) by simp
qed

end
