(* ===== verification/Schedule_Server.thy ===== *)
theory Schedule_Server
  imports Tenant_Schedules Schedule_Launcher
begin

text \<open>
  A schedule server that is a map from IDs to schedules and keeps \<open>server_contract\<close>, and a tenant with a
  policy and a schedule, on which the properties are evaluated.
\<close>

definition already_running :: go_error where
  "already_running = GoErr ''schedule with this ID is already registered'' []"

definition map_server :: "(string \<rightharpoonup> TemporalSchedule) schedule_manager" where
  "map_server =
     \<lparr>sm_Create = (\<lambda>options m. if m (so_ID options) = None
        then (m(so_ID options \<mapsto> scheduleFromCreateOptions options), Inr (Some (so_ID options)))
        else (m, Inl already_running)),
      sm_handle = (\<lambda>_. True),
      sm_Update = (\<lambda>i s m. if m i = None then (m, Inl (GoErr ''schedule not found'' [])) else (m(i \<mapsto> s), Inr ())),
      sm_ErrScheduleAlreadyRunning = (\<lambda>e. e = already_running),
      sm_AlreadyExists = (\<lambda>_. False),
      sm_WorkflowExecutionAlreadyStarted = (\<lambda>_. False)\<rparr>"

lemma map_server_contract: "server_contract map_server (\<lambda>m. m)"
  by (auto simp: server_contract_def map_server_def isTemporalAlreadyExists_def)

section \<open>A tenant with a schedule\<close>

definition sample_config :: config_db where
  "sample_config =
     \<lparr>cd_sources = \<lparr>tb_rows = [\<lparr>as_ID = 1, as_Name = ''am'', as_Kind = AlertSourceKindAlertmanager,
        as_BaseURL = ''http://am'', as_AuthMode = ''none'', as_SecretRef = [], as_Enabled = True, as_Labels = [],
        as_CreatedAt = 1, as_UpdatedAt = 1\<rparr>], tb_next = 2\<rparr>,
      cd_groupings = \<lparr>tb_rows = [\<lparr>gp_ID = 1, gp_Name = ''by name'', gp_DimensionKeys = [''alertname''],
        gp_SeverityKey = ''severity'', gp_SourceFilter = [], gp_Enabled = True, gp_CreatedAt = 1, gp_UpdatedAt = 1\<rparr>],
        tb_next = 2\<rparr>,
      cd_channels = \<lparr>tb_rows = [], tb_next = 1\<rparr>, cd_policies = \<lparr>tb_rows = [], tb_next = 1\<rparr>,
      cd_schedules = \<lparr>tb_rows = [], tb_next = 1\<rparr>, cd_foreign_schedule_ids = [''other'']\<rparr>"

definition sample_policy :: ReportWorkflowPolicy where
  "sample_policy = \<lparr>wp_ID = 0, wp_Name = ''hourly policy'', wp_AlertSourceProfileID = 1, wp_GroupingPolicyID = 1,
     wp_ChannelProfileID = 0, wp_MaxFailedSubReports = 0, wp_TriggerMode = [], wp_ReportScenario = [],
     wp_DiagnosisFollowUp = [], wp_Enabled = False, wp_EnabledAt = None, wp_DisabledAt = None, wp_CreatedAt = 0,
     wp_UpdatedAt = 0\<rparr>"

definition sample_schedule :: ReportWorkflowSchedule where
  "sample_schedule =
     \<lparr>ws_ID = 0, ws_Name = ''hourly'', ws_PolicyID = 1, ws_TemporalScheduleID = ''hourly'', ws_Cadence = [],
      ws_CalendarHour = 0, ws_CalendarMinute = 0, ws_CalendarDayOfWeek = 0, ws_CalendarDayOfMonth = 0,
      ws_Interval = 3600 * time_Second, ws_Offset = 0, ws_ReplayWindow = 3600 * time_Second,
      ws_ReplayDelay = 60 * time_Second, ws_ReplayLimit = 100, ws_CatchupWindow = 600 * time_Second, ws_Enabled = False,
      ws_EnabledAt = None, ws_DisabledAt = None, ws_CreatedAt = 0, ws_UpdatedAt = 0\<rparr>"

definition sample_operations :: "config_op list" where
  "sample_operations =
     [PolicyCreate calm_env (\<lambda>_. None) 1000 sample_policy,
      PolicySetEnabled calm_env (\<lambda>_. None) 2000 (Some 2000) 1 True,
      ScheduleCreate calm_env (\<lambda>_. None) 3000 sample_schedule,
      ScheduleCreate calm_env (\<lambda>_. None) 3000 (sample_schedule\<lparr>ws_Name := ''clash'', ws_TemporalScheduleID := ''other''\<rparr>),
      ScheduleSetEnabled calm_env (\<lambda>_. None) 4000 (Some 4000) 1 True]"

definition sample_stored :: ReportWorkflowSchedule where
  "sample_stored = sample_schedule\<lparr>ws_ID := 1, ws_Cadence := CadenceInterval, ws_Enabled := True, ws_EnabledAt := Some 4000,
     ws_CreatedAt := 3000, ws_UpdatedAt := 4000\<rparr>"

lemma sample_run: "tb_rows (cd_schedules (fold config_do sample_operations sample_config)) = [sample_stored]"
  by code_simp

lemma sample_config_ok: "schedules_ok sample_config"
  by (simp add: schedules_ok_def sample_config_def table_ok_def)

end
