(* ===== verification/Tenant_Properties.thy ===== *)
theory Tenant_Properties
  imports Tenant_Tables Owner_Race Tenant_Workflow Schedule_Server
begin

text \<open>
  The properties of tenants and of the report configuration. Each is stated over the definitions of
  the code and rests on the theories of the components.
\<close>

section \<open>Tenants\<close>

text \<open>
  C6: Tenants are isolated. Whatever sequence of mutations runs through the tenant hook in contexts
  that are not bound to a tenant, with any faults of the driver and any arguments, the rows of that
  tenant stay exactly as they are, no row refers to a row of another tenant, and a query of the tenant
  answers exactly those of its own rows that it selects.
\<close>

theorem tenant_isolation:
  assumes "isolated_db d" "mutator_contract next_mutator"
    and "\<forall>(fault, ctx, m) \<in> set ops. driver_faults fault \<and> \<not> bound_to ctx b"
  shows "tenant_rows b (tenant_run next_mutator ops d) = tenant_rows b d \<and>
    isolated_db (tenant_run next_mutator ops d) \<and>
    (\<forall>own fault (q :: ent_query). bound_to own b \<and> qr_type q \<in> set tenant_query_types \<and> fault (qr_type q) = None \<longrightarrow>
      (\<exists>rows. ent_all fault own (tenant_run next_mutator ops d) q = Inr rows \<and>
        set rows = {r \<in> tenant_rows b d. er_type r = qr_type q \<and> list_all (\<lambda>p. p r) (qr_where q)}))"
proof -
  note run = tenant_run_isolated [OF assms]
  show ?thesis
  proof (intro conjI allI impI)
    fix own fault and q :: ent_query
    assume q: "bound_to own b \<and> qr_type q \<in> set tenant_query_types \<and> (fault :: query_fault) (qr_type q) = None"
    then obtain identity where i: "tenancy_Require own = Inr identity" "id_ID identity = b" by (auto simp: bound_to_def)
    show "\<exists>rows. ent_all fault own (tenant_run next_mutator ops d) q = Inr rows \<and>
        set rows = {r \<in> tenant_rows b d. er_type r = qr_type q \<and> list_all (\<lambda>p. p r) (qr_where q)}"
      using ent_all_tenant [OF i(1), of q fault "tenant_run next_mutator ops d"] q run unfolding i(2) by simp
  qed (use run in simp_all)
qed

text \<open>Two tenants with an event each; the first renames every event, makes one and deletes the other's.\<close>

definition second_event :: entity_row where
  "second_event = \<lparr>er_type = TypeAlertEvent, er_id = 2, er_tenant = 2, er_fields = [], er_links = []\<rparr>"

lemma second_event_simps [simp]: "er_type second_event = TypeAlertEvent" "er_id second_event = 2"
  by (simp_all add: second_event_def)

definition two_tenants :: ent_db where
  "two_tenants =
     \<lparr>db_rows =
        [\<lparr>er_type = TypeAlertEvent, er_id = 1, er_tenant = 1, er_fields = [], er_links = []\<rparr>,
         second_event],
      db_next = (\<lambda>t. 3)\<rparr>"

definition event_mutation :: "ent_op \<Rightarrow> int option \<Rightarrow> ent_mutation" where
  "event_mutation op i =
     \<lparr>mu_type = TypeAlertEvent, mu_op = op, mu_id = i, mu_tenant = None, mu_where = [],
      mu_fields = [(''name'', VString ''x'')], mu_added = [], mu_removed = [], mu_scoped = True, mu_client = True,
      mu_with_id = True\<rparr>"

definition first_tenant_operations :: "tenant_operation list" where
  "first_tenant_operations =
     map (\<lambda>m. (\<lambda>_. None, Some (Some \<lparr>id_ID = 1, id_Key = ''default''\<rparr>), m))
       [event_mutation OpUpdate None, event_mutation OpCreate None, event_mutation OpDeleteOne (Some 2)]"

lemma two_tenants_isolated: "isolated_db two_tenants"
  by (auto simp: isolated_db_def db_keys_ok_def two_tenants_def second_event_def er_key_def row_targets_def field_targets_def
      source_targets_def)

lemma first_tenant_not_second: "\<forall>(fault, ctx, m) \<in> set first_tenant_operations. driver_faults fault \<and> \<not> bound_to ctx 2"
  by (simp add: first_tenant_operations_def driver_faults_def bound_to_def tenancy_Require_def FromContext_def)

theorem tenant_isolation_witness:
  "tenant_rows 2 (tenant_run table_mutator first_tenant_operations two_tenants) =
     {second_event} \<and>
   map er_key (db_rows (tenant_run table_mutator first_tenant_operations two_tenants)) =
     [(TypeAlertEvent, 1), (TypeAlertEvent, 2), (TypeAlertEvent, 3)] \<and>
   (\<exists>rows. ent_all (\<lambda>_. None) (Some (Some \<lparr>id_ID = 2, id_Key = ''other''\<rparr>))
       (tenant_run table_mutator first_tenant_operations two_tenants) \<lparr>qr_type = TypeAlertEvent, qr_where = []\<rparr> = Inr rows \<and>
     er_id ` set rows = {2})"
proof -
  note t = tenant_isolation [OF two_tenants_isolated table_mutator_contract first_tenant_not_second]
  have rows: "tenant_rows 2 two_tenants =
      {second_event}"
    by (auto simp: tenant_rows_def two_tenants_def globalTenantEntity_def second_event_def)
  have own: "bound_to (Some (Some \<lparr>id_ID = 2, id_Key = ''other''\<rparr>)) 2"
    by (simp add: bound_to_def tenancy_Require_def FromContext_def)
  have ty: "TypeAlertEvent \<in> set tenant_query_types" by (simp add: tenant_query_types_def)
  have keys: "map er_key (db_rows (tenant_run table_mutator first_tenant_operations two_tenants)) =
      [(TypeAlertEvent, 1), (TypeAlertEvent, 2), (TypeAlertEvent, 3)]" by code_simp
  let ?own = "Some (Some \<lparr>id_ID = 2, id_Key = ''other''\<rparr>)" and ?q = "\<lparr>qr_type = TypeAlertEvent, qr_where = []\<rparr>"
  have "\<exists>rs. ent_all (\<lambda>_. None) ?own (tenant_run table_mutator first_tenant_operations two_tenants) ?q = Inr rs \<and>
      set rs = {r \<in> tenant_rows 2 two_tenants. er_type r = qr_type ?q \<and> list_all (\<lambda>p. p r) (qr_where ?q)}"
    by (rule t [THEN conjunct2, THEN conjunct2, rule_format]) (simp only: own ty ent_query.simps simp_thms)
  then obtain rs where rs: "ent_all (\<lambda>_. None) ?own (tenant_run table_mutator first_tenant_operations two_tenants) ?q = Inr rs"
    and set_rs: "set rs = {r \<in> {second_event}. er_type r = TypeAlertEvent}"
    unfolding rows by (simp only: ent_query.simps list.pred_inject simp_thms) blast
  have "{r \<in> {second_event}. er_type r = TypeAlertEvent} = {second_event}" by auto
  with set_rs have "set rs = {second_event}" by (rule trans)
  then have "er_id ` set rs = {2}" by simp
  with rs show ?thesis using t [THEN conjunct1] keys unfolding rows by blast
qed

text \<open>
  C7: Every tenant keeps an owner. However callers that create tenants, change their status and write
  memberships race, with any faults and lost commit acknowledgements, every tenant but the default one
  has an enabled owner at any moment; a caller that runs alone does what the registry's
  SetTenantMembership does.
\<close>

theorem tenant_keeps_owner:
  assumes "owner_reach d s" "registry_ok d" "r \<in> set (tb_rows (rg_tenants (or_db s)))" "tn_ID r \<noteq> DefaultTenantID"
  shows "(\<exists>m \<in> set (tb_rows (rg_members (or_db s))). tm_TenantID m = tn_ID r \<and> tm_Role m = ''owner'' \<and> tm_Enabled m) \<and>
    member_statements 6 env (member_call_start env input) (or_db s) =
      (fst (SetTenantMembership env input (or_db s)), Ended (snd (SetTenantMembership env input (or_db s))))"
proof -
  have "registry_ok (or_db s)" using owner_reach_inv [OF assms(1,2)] by (simp add: owner_inv_def)
  with assms(3,4) have "has_owner (or_db s) (tn_ID r)" by (simp add: registry_ok_def)
  then show ?thesis by (auto simp: has_owner_def owner_row_def member_alone split: prod.split)
qed

text \<open>
  A new tenant whose owner two callers try to demote, one of them after a second owner was added.
\<close>

definition quiet_registry :: registry_env where
  "quiet_registry = \<lparr>ge_now = 5, ge_begin = None, ge_first = None, ge_second = None, ge_count = None, ge_write = None,
     ge_load = None, ge_commit = None, ge_rollback = None\<rparr>"

definition new_member :: "int \<Rightarrow> string \<Rightarrow> string \<Rightarrow> TenantMembership" where
  "new_member t subject role = \<lparr>tm_ID = 0, tm_TenantID = t, tm_Subject = subject, tm_Role = role, tm_Enabled = True,
     tm_CreatedBy = ''root'', tm_CreatedAt = 0, tm_UpdatedAt = 0\<rparr>"

definition empty_registry :: registry_db where
  "empty_registry = \<lparr>rg_tenants = \<lparr>tb_rows = [], tb_next = 2\<rparr>, rg_members = \<lparr>tb_rows = [], tb_next = 1\<rparr>\<rparr>"
definition owner_moves :: "owner_move list" where
  "owner_moves =
     [MoveCreate quiet_registry (new_tenant 0 ''acme'' ''Acme'' ''active'' 0) ''alice'',
      MoveCall quiet_registry (new_member 2 ''alice'' ''member''),
      MoveCall quiet_registry (new_member 2 ''bob'' ''owner''),
      MoveCall quiet_registry (new_member 2 ''alice'' ''member'')]
     @ map (MoveStmt quiet_registry) [0, 1, 0, 2, 0, 1, 1, 2, 1, 1, 2, 1, 1, 2, 2, 2, 2, 2, 2]"

theorem tenant_keeps_owner_witness:
  "map (\<lambda>m. (tm_Subject m, tm_Role m)) (tb_rows (rg_members (or_db (owner_run empty_registry owner_moves)))) =
     [(''alice'', ''member''), (''bob'', ''owner'')] \<and>
   map (\<lambda>c. case c of Ended r \<Rightarrow> \<not> isl r | _ \<Rightarrow> False) (or_callers (owner_run empty_registry owner_moves)) = [False, True, True] \<and>
   (\<exists>m \<in> set (tb_rows (rg_members (or_db (owner_run empty_registry owner_moves)))).
      tm_TenantID m = 2 \<and> tm_Role m = ''owner'' \<and> tm_Enabled m)"
proof -
  have ok: "registry_ok empty_registry" by (simp add: registry_ok_def table_ok_def empty_registry_def)
  have r: "new_tenant 5 ''acme'' ''Acme'' ''active'' 2 \<in>
      set (tb_rows (rg_tenants (or_db (owner_run empty_registry owner_moves))))" by code_simp
  have "map (\<lambda>m. (tm_Subject m, tm_Role m)) (tb_rows (rg_members (or_db (owner_run empty_registry owner_moves)))) =
     [(''alice'', ''member''), (''bob'', ''owner'')]" by code_simp
  moreover have "map (\<lambda>c. case c of Ended r \<Rightarrow> \<not> isl r | _ \<Rightarrow> False) (or_callers (owner_run empty_registry owner_moves)) =
     [False, True, True]" by code_simp
  ultimately show ?thesis
    using tenant_keeps_owner [OF owner_run_reach ok r, THEN conjunct1] by (simp add: new_tenant_def)
qed

section \<open>Requests and workflows of a tenant\<close>

text \<open>
  C8: A request runs in a tenant its subject may enter. When the tenant of an authenticated principal is
  bound, the context is bound to exactly one tenant, which is the one of the answered principal; that
  tenant is active, and the subject is an administrator or has an enabled membership unless it is the
  default tenant; a signed session stays in its tenant and a selection header is honoured.
\<close>

theorem request_tenant_is_accessible:
  assumes "bindAuthenticatedTenant (Some (fault1, fault2, d)) admin (Some c) header prin = Inr (p, tctx)"
  shows "(\<forall>b. bound_to tctx b \<longleftrightarrow> b = ap_TenantID p) \<and> ap_Subject p = ap_Subject prin \<and> ap_Roles p = ap_Roles prin \<and>
    (\<exists>tenant \<in> set (tb_rows (rg_tenants d)). tn_ID tenant = ap_TenantID p \<and> tn_Key tenant = ap_TenantKey p \<and>
      tn_Status tenant = TenantStatusActive) \<and>
    (ap_TenantKey p = DefaultTenantKey \<or> admin (ap_Subject p) \<or>
      (\<exists>m \<in> set (tb_rows (rg_members d)). tm_TenantID m = ap_TenantID p \<and> tm_Subject m = ap_Subject p \<and> tm_Enabled m)) \<and>
    (ap_TenantID prin > 0 \<or> ap_TenantKey prin \<noteq> [] \<longrightarrow>
      ap_TenantID p = ap_TenantID prin \<and> ap_TenantKey p = ap_TenantKey prin) \<and>
    (header \<noteq> [] \<longrightarrow> ap_TenantKey p = header)"
proof -
  obtain identity where i: "FromContext tctx = Some identity" "ap_TenantID p = id_ID identity" "ap_TenantKey p = id_Key identity"
    and p: "ap_Subject p = ap_Subject prin" "ap_Roles p = ap_Roles prin"
    and enter: "may_enter d (ap_Subject prin) (admin (ap_Subject prin)) identity"
    and signed: "ap_TenantID prin > 0 \<or> ap_TenantKey prin \<noteq> [] \<longrightarrow>
       ap_TenantID p = ap_TenantID prin \<and> ap_TenantKey p = ap_TenantKey prin"
    and header: "header \<noteq> [] \<longrightarrow> id_Key identity = header"
    using bindAuthenticatedTenant_Inr [OF assms] by blast
  have "bound_to tctx b \<longleftrightarrow> b = ap_TenantID p" for b
    using i by (auto simp: bound_to_def tenancy_Require_def)
  with i p enter signed header show ?thesis by (auto simp: may_enter_def)
qed

definition sample_registry :: registry_db where
  "sample_registry =
     \<lparr>rg_tenants = \<lparr>tb_rows = [new_tenant 1 ''default'' ''Default'' ''active'' 1, new_tenant 1 ''acme'' ''Acme'' ''active'' 2], tb_next = 3\<rparr>,
      rg_members = \<lparr>tb_rows = [(new_member 2 ''alice'' ''owner'')\<lparr>tm_ID := 1\<rparr>], tb_next = 2\<rparr>\<rparr>"

definition sample_principal :: AuthPrincipal where
  "sample_principal = \<lparr>ap_Subject = ''alice'', ap_Roles = [''owner''], ap_Claims = [], ap_TenantID = 0, ap_TenantKey = []\<rparr>"

theorem request_tenant_is_accessible_witness:
  "\<exists>p tctx. bindAuthenticatedTenant (Some (None, None, sample_registry)) (\<lambda>_. False) (Some None) ''acme'' sample_principal =
      Inr (p, tctx) \<and> bound_to tctx 2 \<and> ap_TenantID p = 2 \<and>
    (\<exists>m \<in> set (tb_rows (rg_members sample_registry)). tm_TenantID m = 2 \<and> tm_Subject m = ''alice'' \<and> tm_Enabled m)"
proof -
  let ?p = "sample_principal\<lparr>ap_TenantID := 2, ap_TenantKey := ''acme''\<rparr>"
  let ?ctx = "Some (Some \<lparr>id_ID = 2, id_Key = ''acme''\<rparr>)"
  have b: "bindAuthenticatedTenant (Some (None, None, sample_registry)) (\<lambda>_. False) (Some None) ''acme'' sample_principal =
      Inr (?p, ?ctx)" by code_simp
  from request_tenant_is_accessible [OF b] have "bound_to ?ctx 2"
    "\<exists>m \<in> set (tb_rows (rg_members sample_registry)). tm_TenantID m = 2 \<and> tm_Subject m = ''alice'' \<and> tm_Enabled m"
    by (simp_all add: sample_principal_def)
  with b show ?thesis by (intro exI [of _ ?p] exI [of _ ?ctx] conjI) simp_all
qed

text \<open>
  C13: The tenant of an operation reaches its activities. If the data converter reads back what it wrote,
  the context of an activity is bound to the identity of the context that started the workflow, the
  default tenant where that context had none.
\<close>

theorem activity_runs_in_tenant:
  assumes "converter_reads_back cv" "activity_context cv ctx (Some worker) = Inr actx"
  shows "FromContext actx = Some (context_identity ctx) \<and>
    (\<forall>b. bound_to actx b \<longleftrightarrow> bound_to ctx b \<or> FromContext ctx = None \<and> b = DefaultTenantID)"
proof -
  note f = activity_context_identity [OF assms]
  have "bound_to actx b \<longleftrightarrow> b = id_ID (context_identity ctx)" for b
    using f by (auto simp: bound_to_def tenancy_Require_def)
  moreover have "b = id_ID (context_identity ctx) \<longleftrightarrow> bound_to ctx b \<or> FromContext ctx = None \<and> b = DefaultTenantID" for b
    by (auto simp: context_identity_def bound_to_def tenancy_Require_def DefaultIdentity_def split: option.splits)
  ultimately show ?thesis using f by simp
qed

definition plain_converter :: "(int \<times> string) converter" where
  "plain_converter = \<lparr>cv_to = (\<lambda>i key. Inr (i, key)), cv_from = Inr\<rparr>"

theorem activity_runs_in_tenant_witness:
  "\<exists>actx. activity_context plain_converter (Some (Some \<lparr>id_ID = 2, id_Key = ''acme''\<rparr>)) (Some None) = Inr actx \<and> bound_to actx 2"
proof -
  let ?ctx = "Some (Some \<lparr>id_ID = 2, id_Key = ''acme''\<rparr>)"
  have c: "converter_reads_back plain_converter" by (simp add: converter_reads_back_def plain_converter_def)
  have a: "activity_context plain_converter ?ctx (Some None) = Inr ?ctx" by code_simp
  have "bound_to ?ctx 2" by (simp add: bound_to_def tenancy_Require_def FromContext_def)
  with activity_runs_in_tenant [OF c a] a show ?thesis by blast
qed

text \<open>
  C12: Workflows of different tenants have different IDs, unless the default tenant uses a name with the
  reserved prefix. Two operations that name the same workflow are of the same tenant with the same base
  name, when no name of the default tenant begins with the prefix; rooms never do. The exception is real:
  every workflow ID of another tenant is one that the default tenant can choose.
\<close>

theorem workflow_ids_separate_tenants:
  assumes "tenantScopedWorkflowID ctx1 base1 = Inr w" "tenantScopedWorkflowID ctx2 base2 = Inr w"
    and "\<forall>(ctx, base) \<in> {(ctx1, base1), (ctx2, base2)}. context_identity ctx = DefaultIdentity \<longrightarrow>
      \<not> tenant_named base \<or> (\<exists>room. DiagnosisRoomWorkflowID room = Inr base)"
  shows "context_identity ctx1 = context_identity ctx2 \<and> base1 = base2 \<and>
    (context_identity ctx1 \<noteq> DefaultIdentity \<and> printable_byte (last base1) \<longrightarrow>
      tenantScopedWorkflowID (Some (Some DefaultIdentity)) w = Inr w)"
proof -
  have "context_identity ctx1 = context_identity ctx2 \<and> base1 = base2"
    by (rule scoped_ids_apart [OF assms(1,2)]) (use assms(3) room_not_tenant_named in blast)+
  with default_tenant_takes_workflow_id [OF assms(1)] show ?thesis by blast
qed

theorem workflow_ids_separate_tenants_witness:
  "tenantScopedWorkflowID (Some (Some \<lparr>id_ID = 2, id_Key = ''acme''\<rparr>)) ''report-1'' = Inr ''openclarion-tenant-2-acme--report-1'' \<and>
   tenantScopedWorkflowID (Some (Some DefaultIdentity)) ''openclarion-tenant-2-acme--report-1'' =
     Inr ''openclarion-tenant-2-acme--report-1''"
proof -
  let ?ctx = "Some (Some \<lparr>id_ID = 2, id_Key = ''acme''\<rparr>)"
  have a: "tenantScopedWorkflowID ?ctx ''report-1'' = Inr ''openclarion-tenant-2-acme--report-1''" by code_simp
  have n: "context_identity ?ctx \<noteq> DefaultIdentity" by code_simp
  have l: "printable_byte (last ''report-1'')" by code_simp
  have "tenantScopedWorkflowID (Some (Some DefaultIdentity)) ''openclarion-tenant-2-acme--report-1'' =
      Inr ''openclarion-tenant-2-acme--report-1''"
    using workflow_ids_separate_tenants [OF a a] n l by (simp only: ball_simps split_conv simp_thms)
  with a show ?thesis by blast
qed

section \<open>Report schedules\<close>

text \<open>
  C11: Consecutive runs of a schedule replay disjoint windows. After any sequence of writes to policies and
  schedules, with any faults, the run of a stored schedule at a fire time replays a valid window of the
  stored length that ends the stored delay before it, and runs whose fire times are at least the interval
  apart replay windows that do not meet.
\<close>

theorem scheduled_windows_are_disjoint:
  assumes "schedules_ok d" "s \<in> set (tb_rows (cd_schedules (fold config_do ops d)))" "BuildCreateOptions r s = Inr options"
    and "int64 (ws_ReplayWindow s)" "int64 (ws_ReplayDelay s)" "f1 \<noteq> 0" "f2 \<noteq> 0"
  shows "let run = (\<lambda>f. launcher_activity_input fmt hex16 f now (sa_Input (so_Action options))) in
    ra_WindowEnd (run f1) = NormalizeUTCMicro f1 - ws_ReplayDelay s \<and>
    ra_WindowStart (run f1) = ra_WindowEnd (run f1) - ws_ReplayWindow s \<and>
    validateScheduleLauncherInput (sa_Input (so_Action options)) = Inr () \<and>
    (ra_WindowStart (run f1) \<noteq> 0 \<and> ra_WindowEnd (run f1) \<noteq> 0 \<longrightarrow> validateScheduledReplayActivityInput (run f1) =
      Inr \<lparr>aw_startInclusive = ra_WindowStart (run f1), aw_endExclusive = ra_WindowEnd (run f1)\<rparr>) \<and>
    (f1 + ws_Interval s \<le> f2 \<longrightarrow> ra_WindowEnd (run f1) \<le> ra_WindowStart (run f2))"
proof -
  have ok: "schedule_ok s" using config_run_schedules [OF assms(1)] assms(2) by (simp add: schedules_ok_def)
  note i = launcher_input [OF assms(3)]
  note v = launcher_input_valid [OF assms(3) ok assms(4,5)]
  note w = launch_window(1,2) [OF v i(1) assms(6), of fmt hex16 now]
  show ?thesis
    unfolding Let_def
    using w launch_accepted [OF v i(1) assms(6), of fmt hex16 now] v i(2,3)
      windows_apart [OF assms(3) ok HOL.refl v assms(6,7), of fmt hex16 now now] by simp
qed

theorem scheduled_windows_are_disjoint_witness:
  "\<exists>options. BuildCreateOptions newReportWorkflowScheduleRegistrar sample_stored = Inr options \<and>
    ra_WindowEnd (launcher_activity_input (\<lambda>_. []) id (100 * time_Second) 0 (sa_Input (so_Action options))) = 40 * time_Second \<and>
    ra_WindowEnd (launcher_activity_input (\<lambda>_. []) id (100 * time_Second) 0 (sa_Input (so_Action options))) \<le>
      ra_WindowStart (launcher_activity_input (\<lambda>_. []) id (3700 * time_Second) 0 (sa_Input (so_Action options)))"
proof -
  have "\<not> isl (BuildCreateOptions newReportWorkflowScheduleRegistrar sample_stored)" by code_simp
  then obtain options where o1: "BuildCreateOptions newReportWorkflowScheduleRegistrar sample_stored = Inr options"
    by (cases "BuildCreateOptions newReportWorkflowScheduleRegistrar sample_stored") simp_all
  have s: "sample_stored \<in> set (tb_rows (cd_schedules (fold config_do sample_operations sample_config)))"
    by (simp only: sample_run list.set_intros)
  have b: "int64 (ws_ReplayWindow sample_stored)" "int64 (ws_ReplayDelay sample_stored)"
    by (simp_all add: sample_stored_def sample_schedule_def int64_def min_int64_def max_int64_def)
  have f: "100 * time_Second \<noteq> 0" "3700 * time_Second \<noteq> 0" by simp_all
  have "ws_Interval sample_stored = 3600 * time_Second" "ws_ReplayDelay sample_stored = 60 * time_Second"
    by (simp_all add: sample_stored_def sample_schedule_def)
  with scheduled_windows_are_disjoint [OF sample_config_ok s o1 b f, of "\<lambda>_. []" id 0] o1 show ?thesis
    by (auto simp: Let_def NormalizeUTCMicro_eq)
qed

text \<open>
  C9: A disabled tenant has no runnable schedule. Whatever answer the status handler gives, with faults of
  the database and of Temporal, if it left an active tenant disabled then every schedule of the tenant is on
  the server as stored but paused; and if it answers 200 to a change of status, the tenant has the status
  asked for, and after an enablement its schedules are on the server as stored, paused exactly when their row
  is disabled.
\<close>

theorem disabled_tenant_is_paused:
  assumes "server_contract sm view" "schedules_ok (pf_config st i)" "table_ok tn_ID (rg_tenants (pf_registry st))"
    and "UpdateTenantStatus_handler (Some (sm, r)) env admin subject i status st = (st', code, t)"
    and "x \<in> set (tb_rows (rg_tenants (pf_registry st)))" "tn_ID x = i" "tn_Status x \<noteq> status"
    and "y \<in> set (tb_rows (rg_tenants (pf_registry st')))" "tn_ID y = i"
  shows "(tn_Status x \<noteq> TenantStatusDisabled \<and> tn_Status y = TenantStatusDisabled \<longrightarrow>
      runs_as_stored r False (pf_config st' i) (view (pf_server st'))) \<and>
    (code = 200 \<longrightarrow> tn_Status y = status \<and>
      (status = TenantStatusActive \<longrightarrow> runs_as_stored r True (pf_config st' i) (view (pf_server st'))))"
  using status_change_schedules [OF assms] by blast

definition sample_platform :: "(string \<rightharpoonup> TemporalSchedule) platform" where
  "sample_platform =
     \<lparr>pf_registry = sample_registry, pf_config = (\<lambda>i. if i = 2 then fold config_do sample_operations sample_config else
        sample_config), pf_server = Map.empty\<rparr>"

definition calm_status :: status_env where
  "calm_status = \<lparr>se_ctx = Some None, se_manage = None, se_find = None, se_update = None, se_now = 9, se_tx = calm_env,
     se_list = (\<lambda>_. None)\<rparr>"

abbreviation sample_change :: "(string \<rightharpoonup> TemporalSchedule) platform \<times> nat \<times> Tenant option" where
  "sample_change \<equiv> UpdateTenantStatus_handler (Some (map_server, newReportWorkflowScheduleRegistrar)) calm_status (\<lambda>_. False)
     ''alice'' 2 ''disabled'' sample_platform"

lemma sample_platform_ok: "schedules_ok (pf_config sample_platform i)"
  using sample_config_ok config_run_schedules [OF sample_config_ok] by (simp add: sample_platform_def)

lemma sample_tenants_ok: "table_ok tn_ID (rg_tenants (pf_registry sample_platform))"
  by (simp add: sample_platform_def sample_registry_def table_ok_def new_tenant_def)

theorem disabled_tenant_is_paused_witness:
  "fst (snd sample_change) = 200 \<and>
   runs_as_stored newReportWorkflowScheduleRegistrar False (pf_config (fst sample_change) 2) (pf_server (fst sample_change)) \<and>
   tb_rows (cd_schedules (pf_config (fst sample_change) 2)) = [sample_stored]"
proof -
  let ?x = "new_tenant 1 ''acme'' ''Acme'' ''active'' 2"
  let ?y = "(new_tenant 1 ''acme'' ''Acme'' ''active'' 2)\<lparr>tn_Status := ''disabled'', tn_UpdatedAt := 9\<rparr>"
  have h: "sample_change = (fst sample_change, fst (snd sample_change), snd (snd sample_change))" by simp
  have code: "fst (snd sample_change) = 200" by code_simp
  have x: "?x \<in> set (tb_rows (rg_tenants (pf_registry sample_platform)))" "tn_ID ?x = 2" "tn_Status ?x \<noteq> ''disabled''"
    by (simp_all add: sample_platform_def sample_registry_def new_tenant_def)
  have y: "?y \<in> set (tb_rows (rg_tenants (pf_registry (fst sample_change))))" by code_simp
  have y2: "tn_ID ?y = 2" "tn_Status ?y = ''disabled''" by (simp_all add: new_tenant_def)
  have rows: "tb_rows (cd_schedules (pf_config (fst sample_change) 2)) = [sample_stored]" by code_simp
  from disabled_tenant_is_paused [OF map_server_contract sample_platform_ok sample_tenants_ok h x y y2(1)] y2(2) x(3)
  show ?thesis using code rows by blast
qed

text \<open>
  C10: A completed reconciliation restores every schedule. If the reconciliation at the start of the process
  reports no error, then for every tenant each stored schedule is on the server as stored, paused exactly
  when its row or its tenant is disabled, and the counts add up.
\<close>

theorem reconciliation_restores_schedules:
  assumes "server_contract sm view" "\<forall>i. schedules_ok (pf_config st i)" "config_apart (pf_config st)"
    and "table_ok tn_ID (rg_tenants (pf_registry st))"
    and "reconcileAllTenantReportWorkflowSchedules (sm, r) ctx fault envs st = (st', res, None)"
    and "t \<in> set (tb_rows (rg_tenants (pf_registry st)))" "s \<in> set (tb_rows (cd_schedules (pf_config st (tn_ID t))))"
  shows "\<exists>x. view (pf_server st') (temporal_id s) = Some x \<and>
      target_schedule r (if tn_Status t = TenantStatusActive then s else set_paused s) = Some x \<and>
      (sd_Paused x \<longleftrightarrow> \<not> (tn_Status t = TenantStatusActive \<and> ws_Enabled s)) \<and>
      rc_Total res = rc_Created res + rc_Updated res"
proof -
  have "\<And>i. schedules_ok (pf_config st i)" using assms(2) by blast
  from reconcile_all_ok [OF assms(1) this assms(3-6)] assms(7) show ?thesis
    by (auto simp: runs_as_stored_def tenant_schedule_def counts_fit_def split: if_splits)
qed

abbreviation sample_reconciled :: "(string \<rightharpoonup> TemporalSchedule) platform \<times> ReconcileResult \<times> go_error option" where
  "sample_reconciled \<equiv> reconcileAllTenantReportWorkflowSchedules (map_server, newReportWorkflowScheduleRegistrar) (Some None) None
     (\<lambda>_. (calm_env, \<lambda>_. None)) sample_platform"

theorem reconciliation_restores_schedules_witness:
  "rc_Created (fst (snd sample_reconciled)) = 1 \<and>
   (\<exists>x. pf_server (fst sample_reconciled) ''hourly'' = Some x \<and> \<not> sd_Paused x)"
proof -
  let ?t = "new_tenant 1 ''acme'' ''Acme'' ''active'' 2"
  have ok: "\<forall>i. schedules_ok (pf_config sample_platform i)" by (simp add: sample_platform_ok)
  have apart: "config_apart (pf_config sample_platform)"
  proof -
    have "tb_rows (cd_schedules sample_config) = []" by (simp add: sample_config_def)
    then show ?thesis by (auto simp: config_apart_def sample_platform_def)
  qed
  have fin: "snd (snd sample_reconciled) = None" by code_simp
  then have r: "sample_reconciled = (fst sample_reconciled, fst (snd sample_reconciled), None)"
    by (metis prod.collapse)
  have created: "rc_Created (fst (snd sample_reconciled)) = 1" by code_simp
  have t: "?t \<in> set (tb_rows (rg_tenants (pf_registry sample_platform)))"
    by (simp add: sample_platform_def sample_registry_def)
  have s: "sample_stored \<in> set (tb_rows (cd_schedules (pf_config sample_platform (tn_ID ?t))))"
    by (simp add: sample_platform_def new_tenant_def sample_run)
  have i: "temporal_id sample_stored = ''hourly''" by code_simp
  have e: "ws_Enabled sample_stored" by (simp add: sample_stored_def)
  from reconciliation_restores_schedules [OF map_server_contract ok apart sample_tenants_ok r t s] i e created
  show ?thesis by (auto simp: new_tenant_def)
qed

end
