(* ===== verification/Spec2Isabelle.thy ===== *)
theory Spec2Isabelle
  imports Room_Properties Alert_Properties Access_Properties Record_Properties Persistence_Properties
    Text_Properties Auth_Properties Tenant_Properties
begin

text \<open>
  OpenClarion turns alerts into diagnoses: it pulls active alerts from monitoring systems, stores
  and groups them, and opens diagnosis rooms, in which people and an assistant (a language model)
  work out a conclusion over evidence that is collected on request and that has to be approved
  before the room is closed. Scheduled workflows replay stored windows of alerts into reports. One
  deployment serves several tenants, whose rows share the tables. This development models the core
  of its Go control plane.

  The parts and the theories that model them (paths are under \<open>src/internal\<close>):

  \<^item> \<open>Go_Prelude\<close>: what the code uses of Go and its standard library: errors with their wrapped
    sentinels, fallible calls as sums, byte strings with \<open>TrimSpace\<close> and \<open>ToLower\<close>, times in
    nanoseconds with the normalisation to microseconds of \<open>domain/time.go\<close>, 64-bit integers, maps
    of strings. \<open>Go_Runes\<close> and \<open>Go_Text\<close>: runes, base64 and decimal numbers. \<open>Json_Encode\<close>: the
    encoding of strings and string maps by \<open>encoding/json\<close>. \<open>Json_Scan\<close>: the strict reader of
    \<open>strictjson/strictjson.go\<close> and \<open>domain/json.go\<close>.
  \<^item> Alerts: \<open>Alert_Model\<close> (\<open>domain/alert.go\<close>, \<open>alert_window.go\<close>), \<open>Alert_Repo\<close>
    (\<open>persistence/repository/alert_repo.go\<close>), \<open>Alert_Ingest\<close> (\<open>usecases/alertingest\<close>),
    \<open>Alert_Grouping\<close> (\<open>usecases/alertgrouping\<close>). The ingest runs one transaction per alert over
    the repository; the grouping is a pure function of stored events.
  \<^item> Storage: \<open>Repo_Core\<close> (\<open>persistence/repository/unit_of_work.go\<close>, \<open>errors.go\<close>): a database is a
    value; a unit of work carries the transaction's view of it, and publishes it on commit. A fault of
    a commit, or of a write that commits by itself, says whether the server carried it out before its
    answer was lost, so an error never means that nothing was written.
    \<open>Repo_Tx\<close>: sequences of repository calls in one unit of work. \<open>Repo_Rows\<close>: tables with a sequence
    of identifiers.
  \<^item> Access: \<open>Rbac_Domain\<close> (\<open>domain/rbac.go\<close>, with an access matrix of its own that says which roles
    hold a permission), \<open>Rbac_Store\<close> (\<open>rbac_repo.go\<close>, the assignment
    query of \<open>config_repo.go\<close>, \<open>usecases/rbac/authorize.go\<close>).
  \<^item> Records of a diagnosis: \<open>Diagnosis_Task\<close> (\<open>domain/diagnosis.go\<close>), \<open>Chat_Session\<close>
    (\<open>domain/chat.go\<close>), \<open>Diagnosis_Approval\<close> (\<open>usecases/diagnosisapproval/conclusion.go\<close>), and their
    repository \<open>Diagnosis_Store\<close> (\<open>diagnosis_repo.go\<close> with the validators and indexes of
    \<open>persistence/ent/schema\<close>).
  \<^item> The diagnosis room: \<open>Room_Policy\<close> (\<open>usecases/diagnosisroom/policy.go\<close>), \<open>Room_Evidence\<close>
    (requests and results of evidence collections), \<open>Room_State\<close> (the state of the workflow and
    the checks of its updates), \<open>Room_Turn\<close> (one turn), \<open>Room_Workflow\<close> (the handlers of
    \<open>orchestrator/temporal/diagnosis_room_workflow.go\<close>). The state of the workflow is the record
    \<open>room\<close>, with the fields of \<open>diagnosisRoomState\<close>. Temporal runs a workflow on one thread, so a
    handler is atomic up to the next activity it awaits; \<open>room_step\<close> has one event per such stretch,
    and the results of activities are part of the events. \<open>room_reachable\<close> are the states after
    any sequence of events.
  \<^item> The persistence of a room (\<open>diagnosis_room_persistence_activity.go\<close>): \<open>Room_Records\<close> (what the
    activities compute), \<open>Room_Conclusion\<close> (which turn is the conclusion), \<open>Room_Persistence\<close> (opening
    a session, persisting a turn), \<open>Room_Closing\<close> (recording an approval, closing). An activity is a
    function from the faults of its transactions and the store to the store and its answer.
  \<^item> Texts: \<open>Compression\<close> (\<open>usecases/diagnosiscompression/summary.go\<close>), \<open>Assistant_Output\<close>
    (\<open>usecases/diagnosisroom/output.go\<close>), \<open>Model_Call\<close> (\<open>usecases/llmoutput\<close>, \<open>usecases/llmretry\<close>),
    \<open>Report_Draft\<close> (\<open>usecases/reportdraft/schema.go\<close>).
  \<^item> Authentication of room sessions (\<open>usecases/diagnosisauth\<close>): \<open>Auth_Ticket\<close> (single-use tickets and the
    in-memory store), \<open>Auth_Ticket_Store\<close> (the PostgreSQL store), \<open>Ticket_Race\<close> (its callers, statement
    by statement), \<open>Session_Token\<close> (signed tokens).
  \<^item> Tenants: \<open>Tenant_Identity\<close> (\<open>domain/tenant.go\<close>, \<open>tenancy/context.go\<close>), \<open>Tenant_Scope\<close>
    (\<open>persistence/repository/tenant_scope.go\<close>, \<open>tenant_relations.go\<close>: the interceptor of queries and the
    hook of mutations over rows of any entity), \<open>Tenant_Registry\<close> (\<open>tenant_registry.go\<close>,
    \<open>tenant_bootstrap.go\<close>), \<open>Owner_Race\<close> (callers of \<open>SetTenantMembership\<close>, statement by statement),
    \<open>Tenant_Service\<close> (\<open>usecases/tenantops\<close>, \<open>transport/http/tenant_context.go\<close>), \<open>Tenant_Workflow\<close>
    (\<open>orchestrator/temporal/tenant_context.go\<close>), \<open>Tenant_Schedules\<close> (the status change of
    \<open>transport/http/tenant_admin.go\<close> and the reconciliation of \<open>src/cmd/openclarion/main.go\<close>).
  \<^item> Report configuration: \<open>Config_Profiles\<close> (\<open>domain/alert_source_profile.go\<close>, \<open>grouping_policy.go\<close>,
    \<open>notification_channel_profile.go\<close>), \<open>Report_Config\<close> (\<open>domain/report_workflow_policy.go\<close>,
    \<open>report_workflow_schedule.go\<close> and their half of \<open>config_repo.go\<close>), \<open>Report_Services\<close>
    (\<open>usecases/reportworkflowpolicy\<close>, \<open>reportworkflowschedule\<close>), \<open>Schedule_Sync\<close>
    (\<open>orchestrator/temporal/report_schedule_registrar.go\<close>), \<open>Schedule_Launcher\<close>
    (\<open>report_schedule_workflow.go\<close>, \<open>report_schedule_activity.go\<close>). A stored schedule becomes a schedule
    of the Temporal server, whose runs compute the window that is replayed.

  What the lemmas show.

  \<^item> Rooms: \<open>Room_Invariant\<close> has the invariant of a room and one preservation lemma per operation;
    \<open>Room_Lifecycle\<close> how rooms end, and what an approval confirms while the room moves on;
    \<open>Room_Example\<close> a concrete run, in whose states the witnesses live.
  \<^item> Stores: \<open>Store_Steps\<close> is an abstract specification of the room store, six atomic steps;
    \<open>Store_Refinement\<close> shows that every activity, whatever fails, is a sequence of these steps.
    \<open>Store_Invariant\<close> and \<open>Store_History\<close> prove the invariant of the store and what it never forgets
    once for the steps; \<open>Store_Outcomes\<close> and \<open>Store_Conclusion\<close> say what an answer of an activity means.
    \<open>Persistence_Example\<close> is a concrete run.
  \<^item> Tickets: \<open>Ticket_Contract\<close> has the contract of a ticket store and the lemmas of the service over it.
  \<^item> Tenants: \<open>Tenant_Isolation\<close> shows for one mutation, and then for runs, that the hook keeps the rows of
    other tenants; \<open>Owner_Race\<close> has the invariant of racing callers, among it that the tenant's row is
    locked by one of them at a time; \<open>Tenant_Tables\<close> and \<open>Schedule_Server\<close> are plain implementations of
    the two contracts below, on which the witnesses run.
  \<^item> The properties are in \<open>Room_Properties\<close>, \<open>Alert_Properties\<close>, \<open>Access_Properties\<close>,
    \<open>Record_Properties\<close>, \<open>Persistence_Properties\<close>, \<open>Text_Properties\<close>, \<open>Auth_Properties\<close> and
    \<open>Tenant_Properties\<close>, which rest on the theories of the components.

  Locales state the interfaces: \<open>event_store\<close> (what the batch loop of the ingest needs of a store that
  may store an alert without acknowledging it, interpreted on the repository behind a transaction), \<open>grant_source\<close> (what a decision needs of a
  pre-filtered query, interpreted on the repository's queries), \<open>store_relation\<close>, \<open>tx_relation\<close> and
  \<open>event_relation\<close> (relations on stores that repository calls, transactions and recorded events keep,
  interpreted on reads, on the steps and on the steps that only record), and \<open>ticket_store\<close> (a store
  that may save a ticket without acknowledging it, interpreted on the in-memory store, which
  acknowledges every ticket, and on the PostgreSQL store).

  Some properties state what the code does although it probably should not. \<open>Room_Properties\<close> says
  exactly which questions start a turn; the status of the room is no part of it, so a room that is
  closing admits one. It says that an approval confirms the conclusion it was given for; a turn may
  replace the room's conclusion meanwhile, and the room then holds another one than the confirmed
  digest names (storing that close is refused, as \<open>Persistence_Properties\<close> shows). And the default
  tenant can choose the workflow IDs of other tenants. The lemmas \<open>labels_depend_on_order\<close>,
  \<open>daily_windows_overlap\<close> and \<open>repeated_enablement_restores_nothing\<close> are of this kind too.

  Parameters stand for what is not in the repository or not modelled: the tokenizer of
  \<open>encoding/json\<close> (\<open>tokenize\<close>), whether a text is a JSON object (\<open>json_object\<close>), SHA-256
  (\<open>sha256_hex\<close>, \<open>sha\<close>, \<open>hex16\<close>), HMAC and JSON of session tokens (\<open>session_lib\<close>), the lower-casing of
  non-ASCII letters (\<open>unicode_lower\<close>), the texts of evidence batches, outputs, events and summaries
  (\<open>room_lib\<close>, \<open>persist_lib\<close>, \<open>summary_lib\<close>), the JSON Schema library and the provider of the model
  (\<open>llm_lib\<close>, \<open>draft_lib\<close>), \<open>url.Parse\<close>, the formatting of times, random bytes and the clock, the alert
  sources named in a snapshot (\<open>snapshot_profiles\<close>), the faults of the database driver, the data converter
  of Temporal, its schedule client (\<open>schedule_manager\<close>), the mutators of the generated client, the policy
  replayer that the schedule activity is given, and the results of activities. Nothing is assumed of them
  except where a property says so: \<open>mutator_contract\<close> (a mutator changes only rows that its predicates
  select, and writes what the mutation says), \<open>server_contract\<close> (a schedule that was created or updated is
  what the server describes), \<open>converter_reads_back\<close> (the converter decodes what it encoded), digests
  without collisions, and faults of the driver that do not pose as the errors the code tells apart
  (\<open>lawful_env\<close>, \<open>driver_faults\<close>).

  Fuel: the JSON scanner spends one unit per call; \<open>scan_fuel\<close> is one more than the number of
  tokens, and \<open>rejectDuplicateKeys_ok_iff\<close> shows it is enough for every accepted text; a refusal
  is right because the scanner with any fuel accepts only serialisations of a value.
  \<open>member_statements\<close> runs a caller for a number of statements, and six always end it. The retry loop
  \<open>generate_loop\<close> terminates because the attempts that are left decrease. Every other function is total.

  Not modelled, because nothing of it can be stated without the outside world: input and output
  (providers, HTTP decoding, the command line apart from the reconciliation, the web interface, the
  egress proxy, metrics), generated code, and the directory sync, which copies external data. Not modelled
  either: panics, the state query and the search attributes of the room workflow, the streaming of partial
  answers, the collection of evidence itself, the prompts and the stored reports, the report workflow, the
  listings for pages and histories, the retrieval of similar cases (a ranking the database computes), the
  retry of notifications, and the scripts of the release process.
\<close>

end
